(* ===== verification/Prelude.thy ===== *)
theory Prelude
  imports Main "HOL-Library.Word"
begin

section \<open>Shared vocabulary and automation\<close>

text \<open>
  What every component of the development uses: the collections of facts the component
  proofs draw on, the width of a C++ \<open>int\<close>, faults as values, and a few lemmas on lists and
  association lists.
\<close>

subsection \<open>Collections\<close>

named_theorems wire_defs \<open>defining equations of the message constructors and token builders\<close>
named_theorems text_simps \<open>facts on splitting, joining and trimming text\<close>
named_theorems number_simps \<open>facts on printing and reading numbers\<close>

subsection \<open>Machine integers\<close>

text \<open>
  A C++ \<open>int\<close> (and \<open>qint32\<close>) has 32 bits, a \<open>qint64\<close> 64. Values are \<^typ>\<open>int\<close>;
  \<open>c_int\<close> and \<open>c_int64\<close> are the two's complement wrap of the target after an arithmetic
  operation (a signed overflow is undefined in C++; the wrap is what the supported targets
  compute). \<open>int32\<close> and \<open>int64\<close> are the representable ranges.
\<close>

definition c_int :: "int \<Rightarrow> int" where
  "c_int x = signed_take_bit 31 x"

definition c_int64 :: "int \<Rightarrow> int" where
  "c_int64 x = signed_take_bit 63 x"

definition int32 :: "int \<Rightarrow> bool" where
  "int32 x \<longleftrightarrow> - (2 ^ 31) \<le> x \<and> x < 2 ^ 31"

definition int64 :: "int \<Rightarrow> bool" where
  "int64 x \<longleftrightarrow> - (2 ^ 63) \<le> x \<and> x < 2 ^ 63"

lemma c_int_id [simp]: "int32 x \<Longrightarrow> c_int x = x"
  unfolding c_int_def int32_def by (rule signed_take_bit_int_eq_self) auto

lemma c_int64_id [simp]: "int64 x \<Longrightarrow> c_int64 x = x"
  unfolding c_int64_def int64_def by (rule signed_take_bit_int_eq_self) auto

lemma c_int_range [simp]: "int32 (c_int x)"
  unfolding c_int_def int32_def
  using signed_take_bit_int_greater_eq_minus_exp [of 31 x] signed_take_bit_int_less_exp [of 31 x]
  by simp

lemma c_int_add_cancel: "int32 x \<Longrightarrow> c_int (c_int (x - k) + k) = x"
proof -
  assume x: "int32 x"
  have "take_bit 32 (c_int (x - k) + k) = take_bit 32 (take_bit 32 (c_int (x - k)) + take_bit 32 k)"
    by (simp add: take_bit_add)
  also have "take_bit 32 (c_int (x - k)) = take_bit 32 (x - k)"
    unfolding c_int_def by (simp add: take_bit_signed_take_bit)
  also have "take_bit 32 (take_bit 32 (x - k) + take_bit 32 k) = take_bit 32 x"
    by (simp add: take_bit_add)
  finally have "take_bit (Suc 31) (c_int (x - k) + k) = take_bit (Suc 31) x" by simp
  then have "c_int (c_int (x - k) + k) = c_int x"
    unfolding c_int_def by (simp only: signed_take_bit_eq_iff_take_bit_eq)
  with x show ?thesis by simp
qed

lemma c_int_add_c_int: "c_int (c_int x + y) = c_int (x + y)"
proof -
  have "take_bit (Suc 31) (c_int x + y) = take_bit (Suc 31) (take_bit (Suc 31) (c_int x) + take_bit (Suc 31) y)"
    by (simp only: take_bit_add)
  also have "take_bit (Suc 31) (c_int x) = take_bit (Suc 31) x"
    unfolding c_int_def by (simp add: take_bit_signed_take_bit)
  finally have "take_bit (Suc 31) (c_int x + y) = take_bit (Suc 31) (x + y)"
    by (simp only: take_bit_add)
  then show ?thesis unfolding c_int_def by (simp only: signed_take_bit_eq_iff_take_bit_eq)
qed

text \<open>Integer division truncates towards zero.\<close>

definition c_div :: "int \<Rightarrow> int \<Rightarrow> int" where
  "c_div a b = (if (a < 0) = (b < 0) then \<bar>a\<bar> div \<bar>b\<bar> else - (\<bar>a\<bar> div \<bar>b\<bar>))"

lemma c_div_nonneg: "0 \<le> a \<Longrightarrow> 0 < b \<Longrightarrow> c_div a b = a div b"
  by (simp add: c_div_def)

lemma c_int64_range [simp]: "int64 (c_int64 x)"
  unfolding c_int64_def int64_def
  using signed_take_bit_int_greater_eq_minus_exp [of 63 x] signed_take_bit_int_less_exp [of 63 x]
  by simp

subsection \<open>Faults\<close>

text \<open>
  What the code does not survive is a value: reading a container out of range, taking from an
  empty queue (both are \<open>Q_ASSERT\<close>s of the container, undefined behaviour in a release build)
  and a failed \<open>Q_ASSERT\<close> of the code itself.
\<close>

datatype fault = OutOfRange nat | EmptyContainer | AssertFailed

definition list_at :: "'a list \<Rightarrow> nat \<Rightarrow> fault + 'a" where
  "list_at xs i = (if i < length xs then Inr (xs ! i) else Inl (OutOfRange i))"

lemma list_at_Inr [simp]: "i < length xs \<Longrightarrow> list_at xs i = Inr (xs ! i)"
  by (simp add: list_at_def)

lemma list_at_Inl [simp]: "length xs \<le> i \<Longrightarrow> list_at xs i = Inl (OutOfRange i)"
  by (simp add: list_at_def)

text \<open>A call after one that may fault.\<close>

definition and_then :: "fault + 'a \<Rightarrow> ('a \<Rightarrow> fault + 'b) \<Rightarrow> fault + 'b" where
  "and_then r f = (case r of Inl e \<Rightarrow> Inl e | Inr x \<Rightarrow> f x)"

lemma and_then_simps [simp]: "and_then (Inr x) f = f x" "and_then (Inl e) f = Inl e" "and_then r Inr = r"
  by (simp_all add: and_then_def split: sum.splits)

lemma and_then_assoc: "and_then (and_then r f) g = and_then r (\<lambda>x. and_then (f x) g)"
  by (simp add: and_then_def split: sum.splits)

lemma and_then_Inl: "and_then r f = Inl e \<longleftrightarrow> r = Inl e \<or> (\<exists>x. r = Inr x \<and> f x = Inl e)"
  and and_then_eq_Inr: "and_then r f = Inr y \<longleftrightarrow> (\<exists>x. r = Inr x \<and> f x = Inr y)"
  by (auto simp: and_then_def split: sum.splits)

text \<open>\<open>QList::value(i, d)\<close> returns the default out of range.\<close>

definition list_value :: "'a list \<Rightarrow> nat \<Rightarrow> 'a \<Rightarrow> 'a" where
  "list_value xs i d = (if i < length xs then xs ! i else d)"

subsection \<open>Results that may be faults\<close>

text \<open>What holds of every result that is none.\<close>

definition all_ok :: "('a \<Rightarrow> bool) \<Rightarrow> fault + 'a \<Rightarrow> bool" where
  "all_ok P r \<longleftrightarrow> (case r of Inl f \<Rightarrow> True | Inr x \<Rightarrow> P x)"

lemma all_ok_simps [simp]: "all_ok P (Inr x) \<longleftrightarrow> P x" "all_ok P (Inl f)"
  "all_ok P (and_then r g) \<longleftrightarrow> all_ok (\<lambda>x. all_ok P (g x)) r"
  "all_ok P (if b then r1 else r2) \<longleftrightarrow> (if b then all_ok P r1 else all_ok P r2)"
  by (auto simp: all_ok_def and_then_def split: sum.splits)

lemma all_ok_mono: "all_ok P r \<Longrightarrow> (\<And>x. P x \<Longrightarrow> Q x) \<Longrightarrow> all_ok Q r"
  by (auto simp: all_ok_def split: sum.splits)

lemma all_ok_always: "(\<And>x. P x) \<Longrightarrow> all_ok P r"
  by (auto simp: all_ok_def split: sum.splits)

lemma all_okD: "all_ok P r \<Longrightarrow> r = Inr x \<Longrightarrow> P x"
  by (simp add: all_ok_def)

subsection \<open>Lists\<close>

lemma map_of_distinct_fst:
  "distinct (map fst xs) \<Longrightarrow> (k, v) \<in> set xs \<Longrightarrow> map_of xs k = Some v"
  by simp

lemma length_ge_nth_split [simp]:
  "xs ! 0 # drop (Suc 0) xs = xs" if "xs \<noteq> []"
  using that by (cases xs) auto

lemma find_Some_in: "find P xs = Some x \<Longrightarrow> x \<in> set xs \<and> P x"
  by (induction xs) (auto split: if_splits)

lemma find_unique:
  assumes "x \<in> set xs" and "P x" and "\<forall>y\<in>set xs. P y \<longrightarrow> y = x"
  shows "find P xs = Some x"
proof (cases "find P xs")
  case None
  with assms(1,2) show ?thesis by (auto simp: find_None_iff)
next
  case (Some y)
  then have "y = x" using assms(3) by (blast dest: find_Some_in)
  with Some show ?thesis by simp
qed

lemma find_perm_unique:
  assumes "set xs = set ys" and "\<forall>x\<in>set xs. \<forall>y\<in>set xs. P x \<longrightarrow> P y \<longrightarrow> x = y"
  shows "find P xs = find P ys"
proof (cases "\<exists>x\<in>set xs. P x")
  case True
  then obtain x where x: "x \<in> set xs" "P x" by blast
  then have "find P xs = Some x" "find P ys = Some x"
    using assms x by (blast intro: find_unique)+
  then show ?thesis by simp
next
  case False
  then have "find P xs = None" "find P ys = None"
    using assms(1) by (auto simp: find_None_iff)
  then show ?thesis by simp
qed

end
