(* ===== verification/QtText.thy ===== *)
theory QtText
  imports Prelude
begin

section \<open>Text as the code uses it\<close>

text \<open>
  The operations of \<open>QString\<close> and \<open>QStringList\<close> the protocol code calls. A \<open>QString\<close> is a
  \<^typ>\<open>string\<close>, a list of characters below 256 (the code units of the protocol text); a
  \<open>QStringList\<close> is a \<open>string list\<close>. The null string and the empty string are both \<open>[]\<close>: no
  modelled function tells them apart. Number conversions are the documented ones: base 10
  unless a base is given, blanks around the number ignored, 0 where the text is no number of
  the target's width.
\<close>

subsection \<open>Splitting, joining, cutting\<close>

fun q_join :: "string \<Rightarrow> string list \<Rightarrow> string" where
  "q_join sep [] = []"
| "q_join sep [x] = x"
| "q_join sep (x # y # xs) = x @ sep @ q_join sep (y # xs)"

fun q_split :: "char \<Rightarrow> string \<Rightarrow> string list" where
  "q_split c [] = [[]]"
| "q_split c (x # xs) =
     (if x = c then [] # q_split c xs
      else (case q_split c xs of [] \<Rightarrow> [[x]] | t # ts \<Rightarrow> (x # t) # ts))"

definition is_space :: "char \<Rightarrow> bool" where
  "is_space c \<longleftrightarrow> of_char c \<in> {9, 10, 11, 12, 13, 32, 133, 160 :: nat}"

definition q_trimmed :: "string \<Rightarrow> string" where
  "q_trimmed s = rev (dropWhile is_space (rev (dropWhile is_space s)))"

definition q_startsWith :: "string \<Rightarrow> string \<Rightarrow> bool" where
  "q_startsWith s p \<longleftrightarrow> take (length p) s = p"

definition q_endsWith :: "string \<Rightarrow> string \<Rightarrow> bool" where
  "q_endsWith s p \<longleftrightarrow> length p \<le> length s \<and> drop (length s - length p) s = p"

fun q_contains :: "string \<Rightarrow> string \<Rightarrow> bool" where
  "q_contains [] p \<longleftrightarrow> p = []"
| "q_contains (x # xs) p \<longleftrightarrow> q_startsWith (x # xs) p \<or> q_contains xs p"

definition q_right :: "string \<Rightarrow> nat \<Rightarrow> string" where
  "q_right s n = drop (length s - n) s"

text \<open>Upper and lower case of the letters a-z and of the Latin-1 letters that have a partner
  below 256.\<close>

definition to_upper :: "char \<Rightarrow> char" where
  "to_upper c = (let n = of_char c :: nat in
     if 97 \<le> n \<and> n \<le> 122 \<or> 224 \<le> n \<and> n \<le> 254 \<and> n \<noteq> 247 then char_of (n - 32) else c)"

definition to_lower :: "char \<Rightarrow> char" where
  "to_lower c = (let n = of_char c :: nat in
     if 65 \<le> n \<and> n \<le> 90 \<or> 192 \<le> n \<and> n \<le> 222 \<and> n \<noteq> 215 then char_of (n + 32) else c)"

definition q_toUpper :: "string \<Rightarrow> string" where
  "q_toUpper = map to_upper"

definition q_toLower :: "string \<Rightarrow> string" where
  "q_toLower = map to_lower"

definition is_digit :: "char \<Rightarrow> bool" where
  "is_digit c \<longleftrightarrow> 48 \<le> (of_char c :: nat) \<and> (of_char c :: nat) \<le> 57"

definition is_upper :: "char \<Rightarrow> bool" where
  "is_upper c \<longleftrightarrow> (let n = of_char c :: nat in 65 \<le> n \<and> n \<le> 90 \<or> 192 \<le> n \<and> n \<le> 222 \<and> n \<noteq> 215)"

definition is_lower :: "char \<Rightarrow> bool" where
  "is_lower c \<longleftrightarrow> (let n = of_char c :: nat in
     97 \<le> n \<and> n \<le> 122 \<or> n = 181 \<or> 223 \<le> n \<and> n \<le> 255 \<and> n \<noteq> 247)"

definition is_letter_or_number :: "char \<Rightarrow> bool" where
  "is_letter_or_number c \<longleftrightarrow> is_digit c \<or> is_upper c \<or> is_lower c
     \<or> (of_char c :: nat) \<in> {170, 178, 179, 185, 186, 188, 189, 190}"

definition q_eq_nocase :: "string \<Rightarrow> string \<Rightarrow> bool" where
  "q_eq_nocase s t \<longleftrightarrow> q_toLower s = q_toLower t"

lemma of_char_to_upper: "(of_char (to_upper c) :: nat) =
    (let n = of_char c :: nat in
     if 97 \<le> n \<and> n \<le> 122 \<or> 224 \<le> n \<and> n \<le> 254 \<and> n \<noteq> 247 then n - 32 else n)"
proof -
  have "(of_char c :: nat) - 32 < 256" using nat_of_char_less_256 [of c] by linarith
  then have "((of_char c :: nat) - 32) mod 256 = of_char c - 32" by (rule mod_less)
  then show ?thesis by (simp add: to_upper_def Let_def of_char_of)
qed

lemma to_upper_idem [simp]: "to_upper (to_upper c) = to_upper c"
proof -
  have "(of_char (to_upper (to_upper c)) :: nat) = of_char (to_upper c)"
    unfolding of_char_to_upper [of "to_upper c"] of_char_to_upper [of c] Let_def by auto
  then show ?thesis by simp
qed

lemma q_toUpper_idem [simp]: "q_toUpper (q_toUpper s) = q_toUpper s"
  by (simp add: q_toUpper_def)

lemma q_endsWith_iff: "q_endsWith s p \<longleftrightarrow> (\<exists>t. s = t @ p)"
proof
  assume "q_endsWith s p"
  then have "s = take (length s - length p) s @ p" by (metis append_take_drop_id q_endsWith_def)
  then show "\<exists>t. s = t @ p" by blast
qed (auto simp: q_endsWith_def)

lemma q_join_Cons: "xs \<noteq> [] \<Longrightarrow> q_join sep (x # xs) = x @ sep @ q_join sep xs"
  by (cases xs) auto

lemma q_split_not_Nil [simp]: "q_split c s \<noteq> []"
  by (induction s) (auto split: list.splits)

lemma q_split_no_sep: "c \<notin> set s \<Longrightarrow> q_split c s = [s]"
  by (induction s) auto

lemma q_split_append_sep: "c \<notin> set x \<Longrightarrow> q_split c (x @ c # s) = x # q_split c s"
  by (induction x) auto

lemma q_split_join [text_simps]:
  "xs \<noteq> [] \<Longrightarrow> \<forall>x\<in>set xs. c \<notin> set x \<Longrightarrow> q_split c (q_join [c] xs) = xs"
proof (induction xs)
  case (Cons x xs)
  then show ?case
    by (cases "xs = []") (auto simp: q_split_no_sep q_split_append_sep q_join_Cons)
qed simp

lemma q_join_split [text_simps]: "q_join [c] (q_split c s) = s"
proof (induction s)
  case (Cons x s)
  then show ?case
    by (cases "q_split c s") (auto simp: q_join_Cons, (metis append_Cons list.exhaust q_join.simps(2) q_join_Cons)+)
qed simp

lemma q_split_tokens_clean: "t \<in> set (q_split c s) \<Longrightarrow> c \<notin> set t"
proof (induction s arbitrary: t)
  case (Cons x s)
  then show ?case by (cases "q_split c s") (auto split: if_splits)
qed simp

lemma q_join_map_append:
  "xs \<noteq> [] \<Longrightarrow> ys \<noteq> [] \<Longrightarrow> q_join sep (xs @ ys) = q_join sep xs @ sep @ q_join sep ys"
proof (induction xs)
  case (Cons x xs)
  then show ?case by (cases "xs = []") (auto simp: q_join_Cons)
qed simp

lemma dropWhile_id: "s = [] \<or> \<not> P (hd s) \<Longrightarrow> dropWhile P s = s"
  by (cases s) auto

lemma q_trimmed_id [text_simps]:
  "s = [] \<or> \<not> is_space (hd s) \<and> \<not> is_space (last s) \<Longrightarrow> q_trimmed s = s"
  by (auto simp: q_trimmed_def dropWhile_id hd_rev)

lemma q_trimmed_blank_suffix:
  assumes "s \<noteq> []" "\<not> is_space (hd s)" "\<not> is_space (last s)" and b: "\<forall>x\<in>set b. is_space x"
  shows "q_trimmed (s @ b) = s"
proof -
  have "dropWhile is_space (rev b @ rev s) = dropWhile is_space (rev s)"
    using b by (intro dropWhile_append2) auto
  with assms show ?thesis by (simp add: q_trimmed_def dropWhile_id hd_rev)
qed

lemma q_startsWith_append [simp]: "q_startsWith (p @ s) p"
  by (simp add: q_startsWith_def)

lemma q_startsWith_Cons [simp]:
  "q_startsWith (x # xs) (y # ys) \<longleftrightarrow> x = y \<and> q_startsWith xs ys"
  "q_startsWith xs [] \<longleftrightarrow> True"
  "q_startsWith [] (y # ys) \<longleftrightarrow> False"
  by (auto simp: q_startsWith_def)

lemma q_startsWith_common:
  "q_startsWith s p \<Longrightarrow> q_startsWith s q \<Longrightarrow> length p \<le> length q \<Longrightarrow> q_startsWith q p"
  unfolding q_startsWith_def by (metis min.absorb1 take_take)

subsection \<open>Numbers\<close>

definition digit_char :: "nat \<Rightarrow> char" where
  "digit_char d = (if d < 10 then char_of (48 + d) else char_of (87 + d))"

definition digit_val :: "char \<Rightarrow> nat option" where
  "digit_val c = (let n = of_char c :: nat in
     if 48 \<le> n \<and> n \<le> 57 then Some (n - 48)
     else if 97 \<le> n \<and> n \<le> 122 then Some (n - 87)
     else if 65 \<le> n \<and> n \<le> 90 then Some (n - 55)
     else None)"

text \<open>\<open>QString::number(n, b)\<close> for an unsigned \<open>n\<close>, and for a signed one in base 10.\<close>

fun q_number_nat :: "nat \<Rightarrow> nat \<Rightarrow> string" where
  "q_number_nat b n =
     (if b < 2 \<or> n < b then [digit_char n] else q_number_nat b (n div b) @ [digit_char (n mod b)])"

declare q_number_nat.simps [simp del]

definition q_number :: "int \<Rightarrow> string" where
  "q_number i = (if i < 0 then CHR ''-'' # q_number_nat 10 (nat (- i)) else q_number_nat 10 (nat i))"

text \<open>Reading: the digits of base \<open>b\<close>, at least one.\<close>

fun digits_val :: "nat \<Rightarrow> nat \<Rightarrow> string \<Rightarrow> nat option" where
  "digits_val b acc [] = Some acc"
| "digits_val b acc (c # cs) =
     (case digit_val c of
        Some d \<Rightarrow> if d < b then digits_val b (acc * b + d) cs else None
      | None \<Rightarrow> None)"

definition parse_nat :: "nat \<Rightarrow> string \<Rightarrow> nat option" where
  "parse_nat b s = (if s = [] then None else digits_val b 0 s)"

fun strip_0x :: "nat \<Rightarrow> string \<Rightarrow> string" where
  "strip_0x b (z # x # s) =
     (if b = 16 \<and> z = CHR ''0'' \<and> (x = CHR ''x'' \<or> x = CHR ''X'') then s else z # x # s)"
| "strip_0x b s = s"

fun parse_signed :: "string \<Rightarrow> int option" where
  "parse_signed [] = None"
| "parse_signed (c # cs) =
     (if c = CHR ''-'' then map_option (\<lambda>n. - int n) (parse_nat 10 cs)
      else if c = CHR ''+'' then map_option int (parse_nat 10 cs)
      else map_option int (parse_nat 10 (c # cs)))"

fun parse_unsigned :: "nat \<Rightarrow> string \<Rightarrow> nat option" where
  "parse_unsigned b [] = None"
| "parse_unsigned b (c # cs) =
     (if c = CHR ''+'' then parse_nat b (strip_0x b cs) else parse_nat b (strip_0x b (c # cs)))"

text \<open>\<open>toInt(&ok)\<close>, \<open>toLongLong\<close>, \<open>toUInt\<close>, \<open>toULongLong\<close>, \<open>toUShort(nullptr, 16)\<close>: \<^const>\<open>None\<close> is
  \<open>ok = false\<close>; without the flag the failed conversion reads as 0.\<close>

definition q_toInt_opt :: "string \<Rightarrow> int option" where
  "q_toInt_opt s = (case parse_signed (q_trimmed s) of
     Some i \<Rightarrow> if int32 i then Some i else None | None \<Rightarrow> None)"

definition q_toInt :: "string \<Rightarrow> int" where
  "q_toInt s = (case q_toInt_opt s of Some i \<Rightarrow> i | None \<Rightarrow> 0)"

definition q_toLongLong :: "string \<Rightarrow> int" where
  "q_toLongLong s = (case parse_signed (q_trimmed s) of
     Some i \<Rightarrow> if int64 i then i else 0 | None \<Rightarrow> 0)"

definition q_toUnsigned :: "nat \<Rightarrow> nat \<Rightarrow> string \<Rightarrow> nat" where
  "q_toUnsigned w b s = (case parse_unsigned b (q_trimmed s) of
     Some n \<Rightarrow> if n < 2 ^ w then n else 0 | None \<Rightarrow> 0)"

definition q_toUInt :: "string \<Rightarrow> 32 word" where
  "q_toUInt s = of_nat (q_toUnsigned 32 10 s)"

definition q_toULongLong :: "string \<Rightarrow> 64 word" where
  "q_toULongLong s = of_nat (q_toUnsigned 64 10 s)"

definition q_toUShort_hex :: "string \<Rightarrow> 16 word" where
  "q_toUShort_hex s = of_nat (q_toUnsigned 16 16 s)"

lemma digit_char_simps [simp]:
  "digit_char 0 = CHR ''0''" "digit_char 1 = CHR ''1''" "digit_char (Suc 0) = CHR ''1''"
  "digit_char 2 = CHR ''2''" "digit_char 3 = CHR ''3''" "digit_char 4 = CHR ''4''"
  "digit_char 5 = CHR ''5''" "digit_char 6 = CHR ''6''" "digit_char 7 = CHR ''7''"
  "digit_char 8 = CHR ''8''" "digit_char 9 = CHR ''9''"
  by code_simp+

lemma of_char_digit_char:
  "d < 36 \<Longrightarrow> (of_char (digit_char d) :: nat) = (if d < 10 then 48 + d else 87 + d)"
  by (simp add: digit_char_def)

lemma digit_val_digit_char [number_simps]: "d < 36 \<Longrightarrow> digit_val (digit_char d) = Some d"
  by (auto simp: digit_val_def of_char_digit_char Let_def)

lemma digit_char_not_space [number_simps]: "d < 36 \<Longrightarrow> \<not> is_space (digit_char d)"
  by (auto simp: is_space_def of_char_digit_char)

lemma digits_val_append:
  "digits_val b acc (xs @ ys) = (case digits_val b acc xs of Some a \<Rightarrow> digits_val b a ys | None \<Rightarrow> None)"
  by (induction xs arbitrary: acc) (auto split: option.splits)

lemma q_number_nat_not_Nil [simp]: "q_number_nat b n \<noteq> []"
  by (subst q_number_nat.simps) simp

lemma digits_val_q_number_nat:
  "2 \<le> b \<Longrightarrow> b \<le> 36 \<Longrightarrow> digits_val b 0 (q_number_nat b n) = Some n"
proof (induction b n rule: q_number_nat.induct)
  case (1 b n)
  show ?case
  proof (cases "n < b")
    case True
    with 1 show ?thesis by (simp add: q_number_nat.simps [of b n] digit_val_digit_char)
  next
    case False
    with 1 have "digits_val b 0 (q_number_nat b (n div b)) = Some (n div b)" by simp
    moreover have "n mod b < b" using 1 by simp
    moreover have "n mod b < 36" using \<open>n mod b < b\<close> 1 by linarith
    ultimately show ?thesis
      using 1 False by (simp add: q_number_nat.simps [of b n] digits_val_append digit_val_digit_char)
  qed
qed

lemma parse_nat_number [number_simps]:
  "2 \<le> b \<Longrightarrow> b \<le> 36 \<Longrightarrow> parse_nat b (q_number_nat b n) = Some n"
  by (simp add: parse_nat_def digits_val_q_number_nat)

lemma set_q_number_nat:
  "2 \<le> b \<Longrightarrow> c \<in> set (q_number_nat b n) \<Longrightarrow> \<exists>d<b. c = digit_char d"
proof (induction b n rule: q_number_nat.induct)
  case (1 b n)
  show ?case
  proof (cases "n < b")
    case True
    with 1 show ?thesis by (auto simp: q_number_nat.simps [of b n])
  next
    case False
    have r: "n mod b < b" using 1 by simp
    from False 1 have "c = digit_char (n mod b) \<or> c \<in> set (q_number_nat b (n div b))"
      by (auto simp: q_number_nat.simps [of b n])
    then show ?thesis
    proof
      assume "c = digit_char (n mod b)"
      with r show ?thesis by blast
    next
      assume "c \<in> set (q_number_nat b (n div b))"
      with False 1 show ?thesis by simp
    qed
  qed
qed

text \<open>A plain text has no field separator and no blank: what numbers and keywords look like.\<close>

definition plain :: "string \<Rightarrow> bool" where
  "plain s \<longleftrightarrow> (\<forall>c\<in>set s. c \<noteq> CHR '':'' \<and> \<not> is_space c)"

lemma plain_simps [simp]:
  "plain []" "plain (c # s) \<longleftrightarrow> c \<noteq> CHR '':'' \<and> \<not> is_space c \<and> plain s"
  "plain (s @ t) \<longleftrightarrow> plain s \<and> plain t"
  by (auto simp: plain_def)

lemma plain_trimmed [text_simps]: "plain s \<Longrightarrow> q_trimmed s = s"
  unfolding plain_def by (rule q_trimmed_id) (metis hd_in_set last_in_set)

lemma char_neqI: "(of_char c :: nat) \<noteq> of_char d \<Longrightarrow> c \<noteq> d"
  by auto

lemma digit_char_neq:
  "d < 36 \<Longrightarrow> digit_char d \<noteq> CHR '':''" "d < 36 \<Longrightarrow> digit_char d \<noteq> CHR ''-''"
  "d < 36 \<Longrightarrow> digit_char d \<noteq> CHR ''+''" "d < 36 \<Longrightarrow> digit_char d \<noteq> CHR ''X''"
  "d < 33 \<Longrightarrow> digit_char d \<noteq> CHR ''x''"
  by (rule char_neqI, simp add: of_char_digit_char)+

lemma plain_q_number_nat [simp]:
  assumes "2 \<le> b" "b \<le> 33" shows "plain (q_number_nat b n)"
  unfolding plain_def
proof
  fix c assume "c \<in> set (q_number_nat b n)"
  then obtain d where "d < b" "c = digit_char d" using set_q_number_nat [OF assms(1)] by blast
  with assms show "c \<noteq> CHR '':'' \<and> \<not> is_space c"
    by (simp add: digit_char_neq digit_char_not_space)
qed

lemma plain_q_number [simp]: "plain (q_number i)"
  by (auto simp: q_number_def is_space_def)

lemma hd_q_number_nat: "2 \<le> b \<Longrightarrow> \<exists>d<b. hd (q_number_nat b n) = digit_char d"
  using set_q_number_nat [of b "hd (q_number_nat b n)" n] by simp

lemma strip_0x_number: "2 \<le> b \<Longrightarrow> b \<le> 16 \<Longrightarrow> strip_0x b (q_number_nat b n) = q_number_nat b n"
proof -
  assume b: "2 \<le> b" "b \<le> 16"
  have "c \<noteq> CHR ''x'' \<and> c \<noteq> CHR ''X''" if c: "c \<in> set (q_number_nat b n)" for c
  proof -
    obtain d where "d < b" "c = digit_char d" using set_q_number_nat [OF b(1) c] by blast
    with b show ?thesis by (simp add: digit_char_neq)
  qed
  then show ?thesis
    by (cases "(b, q_number_nat b n)" rule: strip_0x.cases) auto
qed

lemma parse_signed_number: "parse_signed (q_number i) = Some i"
proof (cases "i < 0")
  case True
  then show ?thesis by (simp add: q_number_def parse_nat_number)
next
  case False
  obtain c cs where c: "q_number_nat 10 (nat i) = c # cs"
    by (cases "q_number_nat 10 (nat i)") auto
  obtain d where "d < 10" "c = digit_char d"
    using hd_q_number_nat [of 10 "nat i"] c by auto
  then have "c \<noteq> CHR ''-''" "c \<noteq> CHR ''+''" by (auto simp: digit_char_neq)
  moreover have "parse_nat 10 (c # cs) = Some (nat i)"
    using parse_nat_number [of 10 "nat i"] c by simp
  ultimately show ?thesis using False by (simp add: q_number_def c)
qed

lemma q_toInt_opt_number [number_simps]: "int32 i \<Longrightarrow> q_toInt_opt (q_number i) = Some i"
  by (simp add: q_toInt_opt_def plain_trimmed parse_signed_number)

lemma q_toInt_number [number_simps]: "int32 i \<Longrightarrow> q_toInt (q_number i) = i"
  by (simp add: q_toInt_def q_toInt_opt_number)

lemma q_toLongLong_number [number_simps]: "int64 i \<Longrightarrow> q_toLongLong (q_number i) = i"
  by (simp add: q_toLongLong_def plain_trimmed parse_signed_number)

lemma parse_unsigned_number:
  "2 \<le> b \<Longrightarrow> b \<le> 16 \<Longrightarrow> parse_unsigned b (q_number_nat b n) = Some n"
proof -
  assume b: "2 \<le> b" "b \<le> 16"
  obtain c cs where c: "q_number_nat b n = c # cs" by (cases "q_number_nat b n") auto
  obtain d where "d < b" "c = digit_char d" using hd_q_number_nat [of b n] c b by auto
  with b have "c \<noteq> CHR ''+''" by (auto simp: digit_char_neq)
  with b c show ?thesis using parse_nat_number [of b n] strip_0x_number [of b n] by simp
qed

lemma q_toUnsigned_number:
  "2 \<le> b \<Longrightarrow> b \<le> 16 \<Longrightarrow> n < 2 ^ w \<Longrightarrow> q_toUnsigned w b (q_number_nat b n) = n"
  by (simp add: q_toUnsigned_def plain_trimmed parse_unsigned_number)

lemma q_toUInt_number [number_simps]: "q_toUInt (q_number_nat 10 (unat w)) = w"
  using unsigned_less [of w, where 'a = nat] q_toUnsigned_number [of 10 "unat w" 32]
  by (simp add: q_toUInt_def)

lemma q_toULongLong_number [number_simps]: "q_toULongLong (q_number_nat 10 (unat w)) = w"
  using unsigned_less [of w, where 'a = nat] q_toUnsigned_number [of 10 "unat w" 64]
  by (simp add: q_toULongLong_def)

lemma q_toUShort_hex_number [number_simps]: "q_toUShort_hex (q_number_nat 16 (unat w)) = w"
  using unsigned_less [of w, where 'a = nat] q_toUnsigned_number [of 16 "unat w" 16]
  by (simp add: q_toUShort_hex_def)

end
