(* ===== verification/FsdEnums.thy ===== *)
theory FsdEnums
  imports QtText
begin

unbundle bit_operations_syntax

section \<open>The enumerations of the protocol and their text form\<close>

text \<open>
  \<open>blackcore/fsd/enums.h\<close>, \<open>blackcore/fsd/serializer.cpp\<close> and the two enumerations it takes from
  \<open>CTransponder\<close> and \<open>CFacilityType\<close>. A C++ \<open>toQString<T>\<close> is \<open>toQString_T\<close>, a \<open>fromQString<T>\<close> is
  \<open>fromQString_T\<close>. The log entry a \<open>fromQString\<close> writes for an unknown text is not modelled: it
  is the only effect of the static lists \<open>s_invalid...\<close> of the source.
\<close>

subsection \<open>Types\<close>

datatype AtcRating =
  AtcRating_Unknown | AtcRating_Observer | AtcRating_Student | AtcRating_Student2
| AtcRating_Student3 | AtcRating_Controller1 | AtcRating_Controller2 | AtcRating_Controller3
| AtcRating_Instructor1 | AtcRating_Instructor2 | AtcRating_Instructor3 | AtcRating_Supervisor
| AtcRating_Administrator

datatype PilotRating =
  PilotRating_Unknown | PilotRating_Student | PilotRating_VFR | PilotRating_IFR
| PilotRating_Instructor | PilotRating_Supervisor

datatype SimType =
  SimType_Unknown | MSFS95 | MSFS98 | MSCFS | MSFS2000 | MSCFS2 | MSFS2002 | MSCFS3 | MSFS2004
| MSFSX | MSFS | XPLANE8 | XPLANE9 | XPLANE10 | XPLANE11 | XPLANE12 | P3Dv1 | P3Dv2 | P3Dv3
| P3Dv4 | P3Dv5 | FlightGear

datatype ClientQueryType =
  Query_Unknown | Query_IsValidATC | Query_Capabilities | Query_Com1Freq | Query_RealName
| Query_Server | Query_ATIS | Query_PublicIP | Query_INF | Query_FP | Query_AircraftConfig
| Query_EuroscopeSimData

datatype FlightType = FlightType_IFR | FlightType_VFR | FlightType_SVFR | FlightType_DVFR

datatype ServerErrorCode =
  NoError | CallsignInUse | InvalidCallsign | AlreadyRegistered | SyntaxError
| InvalidSrcCallsign | InvalidCidPassword | NoSuchCallsign | NoFlightPlan | NoWeatherProfile
| InvalidRevision | RequestedLevelTooHigh | ServerFull | CidSuspended | InvalidCtrl
| RatingTooLow | InvalidClient | AuthTimeout | ServerError_Unknown

datatype AtisLineType =
  AtisLine_Unknown | AtisLine_VoiceRoom | AtisLine_TextMessage | AtisLine_ZuluLogoff
| AtisLine_LineCount

datatype FacilityType = OBS | FSS | DEL | GND | TWR | APP | CTR | Facility_Unknown

datatype TransponderMode =
  StateStandby | ModeMil1 | ModeMil2 | ModeMil3 | ModeMil4 | ModeMil5 | StateIdent | ModeA
| ModeC | ModeS

text \<open>The underlying integers, in the order of declaration; a \<open>ServerErrorCode\<close> is cast from one.\<close>

fun ServerErrorCode_int :: "ServerErrorCode \<Rightarrow> int" where
  "ServerErrorCode_int NoError = 0"
| "ServerErrorCode_int CallsignInUse = 1"
| "ServerErrorCode_int InvalidCallsign = 2"
| "ServerErrorCode_int AlreadyRegistered = 3"
| "ServerErrorCode_int SyntaxError = 4"
| "ServerErrorCode_int InvalidSrcCallsign = 5"
| "ServerErrorCode_int InvalidCidPassword = 6"
| "ServerErrorCode_int NoSuchCallsign = 7"
| "ServerErrorCode_int NoFlightPlan = 8"
| "ServerErrorCode_int NoWeatherProfile = 9"
| "ServerErrorCode_int InvalidRevision = 10"
| "ServerErrorCode_int RequestedLevelTooHigh = 11"
| "ServerErrorCode_int ServerFull = 12"
| "ServerErrorCode_int CidSuspended = 13"
| "ServerErrorCode_int InvalidCtrl = 14"
| "ServerErrorCode_int RatingTooLow = 15"
| "ServerErrorCode_int InvalidClient = 16"
| "ServerErrorCode_int AuthTimeout = 17"
| "ServerErrorCode_int ServerError_Unknown = 18"

fun TransponderMode_int :: "TransponderMode \<Rightarrow> int" where
  "TransponderMode_int StateStandby = 0"
| "TransponderMode_int ModeMil1 = 1"
| "TransponderMode_int ModeMil2 = 2"
| "TransponderMode_int ModeMil3 = 3"
| "TransponderMode_int ModeMil4 = 4"
| "TransponderMode_int ModeMil5 = 5"
| "TransponderMode_int StateIdent = 10"
| "TransponderMode_int ModeA = 11"
| "TransponderMode_int ModeC = 12"
| "TransponderMode_int ModeS = 20"

text \<open>\<open>Capabilities\<close> is a set of flags: \<open>operator|\<close> makes values that are no enumerator, so the
  type is the underlying 32-bit integer.\<close>

type_synonym capabilities = "32 word"

datatype Capability =
  Cap_None | Cap_AtcInfo | Cap_SecondaryPos | Cap_AircraftInfo | Cap_OngoingCoord
| Cap_InterminPos | Cap_FastPos | Cap_VisPos | Cap_Stealth | Cap_AircraftConfig

fun capability :: "Capability \<Rightarrow> capabilities" where
  "capability Cap_None = push_bit 0 1"
| "capability Cap_AtcInfo = push_bit 1 1"
| "capability Cap_SecondaryPos = push_bit 2 1"
| "capability Cap_AircraftInfo = push_bit 3 1"
| "capability Cap_OngoingCoord = push_bit 4 1"
| "capability Cap_InterminPos = push_bit 5 1"
| "capability Cap_FastPos = push_bit 6 1"
| "capability Cap_VisPos = push_bit 7 1"
| "capability Cap_Stealth = push_bit 8 1"
| "capability Cap_AircraftConfig = push_bit 9 1"

definition capabilities_or :: "capabilities \<Rightarrow> capabilities \<Rightarrow> capabilities" where
  "capabilities_or lhs rhs = lhs OR rhs"

definition capabilities_and :: "capabilities \<Rightarrow> capabilities \<Rightarrow> bool" where
  "capabilities_and lhs rhs \<longleftrightarrow> lhs AND rhs \<noteq> 0"

subsection \<open>Ratings\<close>

fun toQString_AtcRating :: "AtcRating \<Rightarrow> string" where
  "toQString_AtcRating AtcRating_Unknown = ''0''"
| "toQString_AtcRating AtcRating_Observer = ''1''"
| "toQString_AtcRating AtcRating_Student = ''2''"
| "toQString_AtcRating AtcRating_Student2 = ''3''"
| "toQString_AtcRating AtcRating_Student3 = ''4''"
| "toQString_AtcRating AtcRating_Controller1 = ''5''"
| "toQString_AtcRating AtcRating_Controller2 = ''6''"
| "toQString_AtcRating AtcRating_Controller3 = ''7''"
| "toQString_AtcRating AtcRating_Instructor1 = ''8''"
| "toQString_AtcRating AtcRating_Instructor2 = ''9''"
| "toQString_AtcRating AtcRating_Instructor3 = ''10''"
| "toQString_AtcRating AtcRating_Supervisor = ''11''"
| "toQString_AtcRating AtcRating_Administrator = ''12''"

definition fromQString_AtcRating :: "string \<Rightarrow> AtcRating" where
  "fromQString_AtcRating str =
     (if str = '''' then AtcRating_Unknown
      else if str = ''1'' then AtcRating_Observer
      else if str = ''2'' then AtcRating_Student
      else if str = ''3'' then AtcRating_Student2
      else if str = ''4'' then AtcRating_Student3
      else if str = ''5'' then AtcRating_Controller1
      else if str = ''6'' then AtcRating_Controller2
      else if str = ''7'' then AtcRating_Controller3
      else if str = ''8'' then AtcRating_Instructor1
      else if str = ''9'' then AtcRating_Instructor2
      else if str = ''10'' then AtcRating_Instructor3
      else if str = ''11'' then AtcRating_Supervisor
      else if str = ''12'' then AtcRating_Administrator
      else AtcRating_Unknown)"

fun toQString_PilotRating :: "PilotRating \<Rightarrow> string" where
  "toQString_PilotRating PilotRating_Unknown = ''0''"
| "toQString_PilotRating PilotRating_Student = ''1''"
| "toQString_PilotRating PilotRating_VFR = ''2''"
| "toQString_PilotRating PilotRating_IFR = ''3''"
| "toQString_PilotRating PilotRating_Instructor = ''4''"
| "toQString_PilotRating PilotRating_Supervisor = ''5''"

definition fromQString_PilotRating :: "string \<Rightarrow> PilotRating" where
  "fromQString_PilotRating str =
     (if str = '''' then PilotRating_Unknown
      else if str = ''0'' then PilotRating_Unknown
      else if str = ''1'' then PilotRating_Student
      else if str = ''2'' then PilotRating_VFR
      else if str = ''3'' then PilotRating_IFR
      else if str = ''4'' then PilotRating_Instructor
      else if str = ''5'' then PilotRating_Supervisor
      else PilotRating_Unknown)"

subsection \<open>Simulators\<close>

fun toQString_SimType :: "SimType \<Rightarrow> string" where
  "toQString_SimType SimType_Unknown = ''0''"
| "toQString_SimType MSFS95 = ''1''"
| "toQString_SimType MSFS98 = ''2''"
| "toQString_SimType MSCFS = ''3''"
| "toQString_SimType MSFS2000 = ''4''"
| "toQString_SimType MSCFS2 = ''5''"
| "toQString_SimType MSFS2002 = ''6''"
| "toQString_SimType MSCFS3 = ''7''"
| "toQString_SimType MSFS2004 = ''8''"
| "toQString_SimType MSFSX = ''9''"
| "toQString_SimType XPLANE8 = ''12''"
| "toQString_SimType XPLANE9 = ''13''"
| "toQString_SimType XPLANE10 = ''14''"
| "toQString_SimType XPLANE11 = ''16''"
| "toQString_SimType FlightGear = ''25''"
| "toQString_SimType P3Dv1 = ''30''"
| "toQString_SimType P3Dv2 = ''30''"
| "toQString_SimType P3Dv3 = ''30''"
| "toQString_SimType P3Dv4 = ''30''"
| "toQString_SimType XPLANE12 = ''0''"
| "toQString_SimType P3Dv5 = ''0''"
| "toQString_SimType MSFS = ''0''"

definition fromQString_SimType :: "string \<Rightarrow> SimType" where
  "fromQString_SimType str =
     (if str = '''' then SimType_Unknown
      else if str = ''0'' then SimType_Unknown
      else if str = ''1'' then MSFS95
      else if str = ''2'' then MSFS98
      else if str = ''3'' then MSCFS
      else if str = ''4'' then MSFS2000
      else if str = ''5'' then MSCFS2
      else if str = ''6'' then MSFS2002
      else if str = ''7'' then MSCFS3
      else if str = ''8'' then MSFS2004
      else if str = ''9'' then MSFSX
      else if str = ''12'' then XPLANE8
      else if str = ''13'' then XPLANE9
      else if str = ''14'' then XPLANE10
      else if str = ''16'' then XPLANE11
      else if str = ''25'' then FlightGear
      else if str = ''30'' then P3Dv4
      else SimType_Unknown)"

subsection \<open>Facilities and queries\<close>

fun toQString_FacilityType :: "FacilityType \<Rightarrow> string" where
  "toQString_FacilityType OBS = ''0''"
| "toQString_FacilityType FSS = ''1''"
| "toQString_FacilityType DEL = ''2''"
| "toQString_FacilityType GND = ''3''"
| "toQString_FacilityType TWR = ''4''"
| "toQString_FacilityType APP = ''5''"
| "toQString_FacilityType CTR = ''6''"
| "toQString_FacilityType Facility_Unknown = ''''"

definition fromQString_FacilityType :: "string \<Rightarrow> FacilityType" where
  "fromQString_FacilityType str =
     (if str = '''' then Facility_Unknown
      else if str = ''0'' then OBS
      else if str = ''1'' then FSS
      else if str = ''2'' then DEL
      else if str = ''3'' then GND
      else if str = ''4'' then TWR
      else if str = ''5'' then APP
      else if str = ''6'' then CTR
      else Facility_Unknown)"

fun toQString_ClientQueryType :: "ClientQueryType \<Rightarrow> string" where
  "toQString_ClientQueryType Query_IsValidATC = ''ATC''"
| "toQString_ClientQueryType Query_Capabilities = ''CAPS''"
| "toQString_ClientQueryType Query_Com1Freq = ''C?''"
| "toQString_ClientQueryType Query_RealName = ''RN''"
| "toQString_ClientQueryType Query_Server = ''SV''"
| "toQString_ClientQueryType Query_ATIS = ''ATIS''"
| "toQString_ClientQueryType Query_PublicIP = ''IP''"
| "toQString_ClientQueryType Query_INF = ''INF''"
| "toQString_ClientQueryType Query_FP = ''FP''"
| "toQString_ClientQueryType Query_AircraftConfig = ''ACC''"
| "toQString_ClientQueryType Query_EuroscopeSimData = ''SIMDATA''"
| "toQString_ClientQueryType Query_Unknown = ''Unknown query type''"

text \<open>The texts the code ignores on purpose (queries of ATC clients) map to \<open>Unknown\<close>, as
  every other text does; they only skip the log entry.\<close>

definition ignored_query_texts :: "string list" where
  "ignored_query_texts =
     [''BC'', ''BY'', ''DI'', ''DP'', ''DR'', ''FA'', ''HC'', ''HI'', ''HT'', ''ID'', ''IH'', ''IT'',
      ''PT'', ''SC'', ''ST'', ''TA'', ''VT'', ''VER'', ''WH'', ''HLP'', ''NOHLP'', ''NEWATIS'', ''NEWINFO'']"

definition fromQString_ClientQueryType :: "string \<Rightarrow> ClientQueryType" where
  "fromQString_ClientQueryType str =
     (if str = '''' then Query_Unknown
      else if str = ''ATC'' then Query_IsValidATC
      else if str = ''CAPS'' then Query_Capabilities
      else if str = ''C?'' then Query_Com1Freq
      else if str = ''RN'' then Query_RealName
      else if str = ''SV'' then Query_Server
      else if str = ''ATIS'' then Query_ATIS
      else if str = ''IP'' then Query_PublicIP
      else if str = ''INF'' then Query_INF
      else if str = ''FP'' then Query_FP
      else if str = ''ACC'' then Query_AircraftConfig
      else if str \<in> set ignored_query_texts then Query_Unknown
      else Query_Unknown)"

subsection \<open>Flight rules, transponder, capabilities, ATIS lines\<close>

fun toQString_FlightType :: "FlightType \<Rightarrow> string" where
  "toQString_FlightType FlightType_IFR = ''I''"
| "toQString_FlightType FlightType_VFR = ''V''"
| "toQString_FlightType FlightType_SVFR = ''S''"
| "toQString_FlightType FlightType_DVFR = ''D''"

definition fromQString_FlightType :: "string \<Rightarrow> FlightType" where
  "fromQString_FlightType str =
     (if str = ''I'' then FlightType_IFR
      else if str = ''V'' then FlightType_VFR
      else if str = ''S'' then FlightType_SVFR
      else if str = ''D'' then FlightType_DVFR
      else FlightType_IFR)"

fun toQString_TransponderMode :: "TransponderMode \<Rightarrow> string" where
  "toQString_TransponderMode StateStandby = ''S''"
| "toQString_TransponderMode StateIdent = ''Y''"
| "toQString_TransponderMode _ = ''N''"

definition fromQString_TransponderMode :: "string \<Rightarrow> TransponderMode" where
  "fromQString_TransponderMode str =
     (if str = ''S'' then StateStandby
      else if str = ''N'' then ModeC
      else if str = ''Y'' then StateIdent
      else StateStandby)"

definition toQString_Capabilities :: "capabilities \<Rightarrow> string" where
  "toQString_Capabilities value =
     (if value = capability Cap_None then ''''
      else if value = capability Cap_AtcInfo then ''ATCINFO''
      else if value = capability Cap_SecondaryPos then ''SECPOS''
      else if value = capability Cap_AircraftInfo then ''MODELDESC''
      else if value = capability Cap_OngoingCoord then ''ONGOINGCOORD''
      else if value = capability Cap_InterminPos then ''INTERIMPOS''
      else if value = capability Cap_VisPos then ''VISUPDATE''
      else if value = capability Cap_FastPos then ''FASTPOS''
      else if value = capability Cap_Stealth then ''STEALTH''
      else if value = capability Cap_AircraftConfig then ''ACCONFIG''
      else '''')"

definition fromQString_Capabilities :: "string \<Rightarrow> capabilities" where
  "fromQString_Capabilities str =
     (if str = ''ATCINFO'' then capability Cap_AtcInfo
      else if str = ''SECPOS'' then capability Cap_SecondaryPos
      else if str = ''MODELDESC'' then capability Cap_AircraftInfo
      else if str = ''ONGOINGCOORD'' then capability Cap_OngoingCoord
      else if str = ''INTERIMPOS'' then capability Cap_InterminPos
      else if str = ''FASTPOS'' then capability Cap_FastPos
      else if str = ''VISUPDATE'' then capability Cap_VisPos
      else if str = ''STEALTH'' then capability Cap_Stealth
      else if str = ''ACCONFIG'' then capability Cap_AircraftConfig
      else capability Cap_None)"

definition fromQString_AtisLineType :: "string \<Rightarrow> AtisLineType" where
  "fromQString_AtisLineType str =
     (if str = ''V'' then AtisLine_VoiceRoom
      else if str = ''Z'' then AtisLine_ZuluLogoff
      else if str = ''T'' then AtisLine_TextMessage
      else if str = ''E'' then AtisLine_LineCount
      else AtisLine_Unknown)"

subsection \<open>The contract of a wire enumeration\<close>

text \<open>
  A message writes an enumerator with \<open>enc\<close> and reads it with \<open>dec\<close>; reading back gives the
  enumerator or the representative \<open>canon\<close> of the ones that share its text. The written text
  never holds a field separator. Where the representative is written like the enumerator
  itself (\<open>stable_wire_enum\<close>), reading is idempotent and two enumerators are written alike only
  when they have the same representative.
\<close>

locale wire_enum =
  fixes enc :: "'a \<Rightarrow> string" and dec :: "string \<Rightarrow> 'a" and canon :: "'a \<Rightarrow> 'a"
  assumes dec_enc: "dec (enc x) = canon x"
    and enc_no_sep: "CHR '':'' \<notin> set (enc x)"
begin

lemma enc_eq_canon: "enc x = enc y \<Longrightarrow> canon x = canon y"
  by (metis dec_enc)

lemma faithful_iff: "dec (enc x) = x \<longleftrightarrow> canon x = x"
  by (simp add: dec_enc)

end

locale stable_wire_enum = wire_enum enc dec canon
  for enc :: "'a \<Rightarrow> string" and dec :: "string \<Rightarrow> 'a" and canon :: "'a \<Rightarrow> 'a" +
  assumes enc_canon: "enc (canon x) = enc x"
begin

lemma canon_idem: "canon (canon x) = canon x"
  by (metis dec_enc enc_canon)

lemma enc_eq_iff: "enc x = enc y \<longleftrightarrow> canon x = canon y"
  by (metis enc_eq_canon enc_canon)

end

text \<open>The representatives: the simulators without a code of their own, the queries that only
  announce something, the transponder modes the protocol does not tell apart.\<close>

definition SimType_canon :: "SimType \<Rightarrow> SimType" where
  "SimType_canon s = (if s \<in> {P3Dv1, P3Dv2, P3Dv3} then P3Dv4
     else if s \<in> {XPLANE12, P3Dv5, MSFS} then SimType_Unknown else s)"

definition ClientQueryType_canon :: "ClientQueryType \<Rightarrow> ClientQueryType" where
  "ClientQueryType_canon q = (if q = Query_EuroscopeSimData then Query_Unknown else q)"

definition TransponderMode_canon :: "TransponderMode \<Rightarrow> TransponderMode" where
  "TransponderMode_canon t = (if t = StateStandby \<or> t = StateIdent then t else ModeC)"

interpretation atc_rating: stable_wire_enum toQString_AtcRating fromQString_AtcRating id
  by unfold_locales (rename_tac x, case_tac x, simp_all add: fromQString_AtcRating_def)+

interpretation pilot_rating: stable_wire_enum toQString_PilotRating fromQString_PilotRating id
  by unfold_locales (rename_tac x, case_tac x, simp_all add: fromQString_PilotRating_def)+

interpretation sim_type: stable_wire_enum toQString_SimType fromQString_SimType SimType_canon
  by unfold_locales (rename_tac x, case_tac x, simp_all add: fromQString_SimType_def SimType_canon_def)+

interpretation facility: stable_wire_enum toQString_FacilityType fromQString_FacilityType id
  by unfold_locales (rename_tac x, case_tac x, simp_all add: fromQString_FacilityType_def)+

interpretation query_type: wire_enum toQString_ClientQueryType fromQString_ClientQueryType
    ClientQueryType_canon
  by unfold_locales (rename_tac x, case_tac x,
    simp_all add: fromQString_ClientQueryType_def ClientQueryType_canon_def ignored_query_texts_def)+

interpretation flight_type: stable_wire_enum toQString_FlightType fromQString_FlightType id
  by unfold_locales (rename_tac x, case_tac x, simp_all add: fromQString_FlightType_def)+

interpretation transponder_mode: stable_wire_enum toQString_TransponderMode
    fromQString_TransponderMode TransponderMode_canon
  by unfold_locales (rename_tac x, case_tac x,
    simp_all add: fromQString_TransponderMode_def TransponderMode_canon_def)+

lemma capability_inject [simp]: "capability a = capability b \<longleftrightarrow> a = b"
  by (cases a; cases b) simp_all

lemma Capabilities_roundtrip [simp]:
  "fromQString_Capabilities (toQString_Capabilities (capability c)) = capability c"
  by (cases c) (simp_all add: fromQString_Capabilities_def toQString_Capabilities_def
    del: capability.simps)

end
