(* ===== verification/FsdMessage.thy ===== *)
theory FsdMessage
  imports FsdEnums
begin

section \<open>Messages and their frame on the wire\<close>

text \<open>
  \<open>blackcore/fsd/messagebase.h\<close> and the part of \<open>CFSDClient::parseMessage\<close> that takes a received
  line apart. A message is a record that extends \<open>message_base\<close>, as the C++ classes derive from
  \<open>MessageBase\<close>; it is sent as its identifier, its tokens joined by colons, and a line end.
\<close>

record message_base =
  m_sender :: string
  m_receiver :: string
  m_isValid :: bool

definition MessageBase :: "string \<Rightarrow> string \<Rightarrow> message_base" where
  "MessageBase sender receiver =
     \<lparr>m_sender = sender, m_receiver = receiver, m_isValid = True\<rparr>"

definition crlf :: string where
  "crlf = [CHR 0x0D, CHR 0x0A]"

definition messageToFSDString ::
    "string \<Rightarrow> ('a message_base_scheme \<Rightarrow> string list) \<Rightarrow> 'a message_base_scheme \<Rightarrow> string" where
  "messageToFSDString pdu toTokens message =
     (if \<not> m_isValid message then ''''
      else pdu @ q_join '':'' (toTokens message) @ crlf)"

text \<open>The payload of a received line with the identifier \<open>cmd\<close>: both the line and what follows
  the identifier are trimmed, then split at the colons.\<close>

definition line_payload :: "string \<Rightarrow> string \<Rightarrow> string" where
  "line_payload cmd lineRaw = q_trimmed (drop (length cmd) (q_trimmed lineRaw))"

definition line_tokens :: "string \<Rightarrow> string \<Rightarrow> string list" where
  "line_tokens cmd lineRaw = q_split CHR '':'' (line_payload cmd lineRaw)"

text \<open>A text that trimming leaves alone and that is not empty.\<close>

definition unpadded :: "string \<Rightarrow> bool" where
  "unpadded s \<longleftrightarrow> s \<noteq> [] \<and> \<not> is_space (hd s) \<and> \<not> is_space (last s)"

text \<open>A field holds no separator.\<close>

definition field :: "string \<Rightarrow> bool" where
  "field s \<longleftrightarrow> CHR '':'' \<notin> set s"

lemma field_parts [simp]: "field []" "field (c # s) \<longleftrightarrow> c \<noteq> CHR '':'' \<and> field s"
  "field (s @ t) \<longleftrightarrow> field s \<and> field t"
  by (auto simp: field_def)

lemma plain_field: "plain s \<Longrightarrow> field s"
  by (auto simp: plain_def field_def)

lemma field_number [simp]: "field (q_number i)"
  by (simp add: plain_field)

lemma field_number_nat [simp]: "2 \<le> b \<Longrightarrow> b \<le> 33 \<Longrightarrow> field (q_number_nat b n)"
  by (simp add: plain_field)

lemma split_join_fields [text_simps]:
  "xs \<noteq> [] \<Longrightarrow> \<forall>x\<in>set xs. field x \<Longrightarrow> q_split CHR '':'' (q_join '':'' xs) = xs"
  by (rule q_split_join) (auto simp: field_def)

text \<open>The last token may itself hold separators: it comes back in pieces.\<close>

lemma split_join_tail:
  "\<forall>x\<in>set xs. field x \<Longrightarrow>
   q_split CHR '':'' (q_join '':'' (xs @ [t])) = xs @ q_split CHR '':'' t"
proof (induction xs)
  case (Cons x xs)
  then show ?case
    using q_split_append_sep [of "CHR '':''" x "q_join '':'' (xs @ [t])"]
    by (simp add: q_join_Cons field_def)
qed simp

text \<open>Joined tokens are unpadded when the first and the last one are.\<close>

lemma join_last: "xs \<noteq> [] \<Longrightarrow> last xs \<noteq> [] \<Longrightarrow> q_join sep xs \<noteq> [] \<and> last (q_join sep xs) = last (last xs)"
proof (induction xs)
  case (Cons x xs)
  then show ?case by (cases "xs = []") (auto simp: q_join_Cons)
qed simp

lemma join_hd: "xs \<noteq> [] \<Longrightarrow> hd xs \<noteq> [] \<Longrightarrow> hd (q_join sep xs) = hd (hd xs)"
  by (cases xs; cases "tl xs = []") (auto simp: q_join_Cons)

lemma unpadded_join:
  "xs \<noteq> [] \<Longrightarrow> hd xs \<noteq> [] \<Longrightarrow> \<not> is_space (hd (hd xs)) \<Longrightarrow> last xs \<noteq> [] \<Longrightarrow> \<not> is_space (last (last xs)) \<Longrightarrow>
    unpadded (q_join sep xs)"
  using join_last [of xs sep] join_hd [of xs sep] by (simp add: unpadded_def)

lemma unpadded_join_plain:
  "plain x \<Longrightarrow> x \<noteq> [] \<Longrightarrow> xs \<noteq> [] \<Longrightarrow> plain (last xs) \<Longrightarrow> last xs \<noteq> [] \<Longrightarrow> unpadded (q_join sep (x # xs))"
  by (rule unpadded_join) (simp_all add: plain_def)

lemma q_number_not_Nil: "q_number i \<noteq> []"
  by (simp add: q_number_def q_number_nat.simps [of _ "nat \<bar>i\<bar>"])

lemma trimmed_frame:
  assumes "plain cmd" "cmd \<noteq> []" "unpadded s"
  shows "q_trimmed (cmd @ s @ crlf) = cmd @ s"
proof -
  have "q_trimmed ((cmd @ s) @ crlf) = cmd @ s"
  proof (rule q_trimmed_blank_suffix)
    show "\<not> is_space (hd (cmd @ s))" using assms(1,2) by (cases cmd) auto
    show "\<not> is_space (last (cmd @ s))" using assms(3) by (simp add: unpadded_def)
    show "\<forall>x\<in>set crlf. is_space x" by (simp add: crlf_def is_space_def)
  qed (use assms in simp)
  then show ?thesis by simp
qed

lemma frame_payload:
  assumes "plain cmd" "cmd \<noteq> []" "unpadded s"
  shows "line_payload cmd (cmd @ s @ crlf) = s"
  using trimmed_frame [OF assms] assms(3) by (simp add: line_payload_def unpadded_def q_trimmed_id)

lemma tokens_on_wire:
  assumes "m_isValid m" "plain cmd" "cmd \<noteq> []" "toTokens m \<noteq> []" "\<forall>t\<in>set (toTokens m). field t"
    and "unpadded (q_join '':'' (toTokens m))"
  shows "line_tokens cmd (messageToFSDString cmd toTokens m) = toTokens m"
  using assms frame_payload [OF assms(2,3,6)]
  by (simp add: messageToFSDString_def line_tokens_def split_join_fields)

subsection \<open>The contract of a message class\<close>

text \<open>
  What the client relies on for every message class: the class writes its tokens
  (\<open>toTokens\<close>) and reads them back (\<open>fromTokens\<close>, which may fault) from what the frame makes of
  them. \<open>wf\<close> says for which messages of the class that holds. A message that satisfies it
  survives the whole way over the wire.
\<close>

locale fsd_codec =
  fixes pdu :: string
    and toTokens :: "'a message_base_scheme \<Rightarrow> string list"
    and fromTokens :: "string list \<Rightarrow> fault + 'a message_base_scheme"
    and wf :: "'a message_base_scheme \<Rightarrow> bool"
  assumes pdu_plain: "plain pdu" and pdu_not_Nil: "pdu \<noteq> []"
    and wf_valid: "wf m \<Longrightarrow> m_isValid m"
    and reads_back: "wf m \<Longrightarrow> fromTokens (q_split CHR '':'' (q_join '':'' (toTokens m))) = Inr m"
begin

lemma wire_roundtrip:
  assumes "wf m" and "unpadded (q_join '':'' (toTokens m))"
  shows "fromTokens (line_tokens pdu (messageToFSDString pdu toTokens m)) = Inr m"
proof -
  have "messageToFSDString pdu toTokens m = pdu @ q_join '':'' (toTokens m) @ crlf"
    using wf_valid [OF assms(1)] by (simp add: messageToFSDString_def)
  then have "line_tokens pdu (messageToFSDString pdu toTokens m)
      = q_split CHR '':'' (q_join '':'' (toTokens m))"
    using frame_payload [OF pdu_plain pdu_not_Nil assms(2)] by (simp only: line_tokens_def)
  then show ?thesis using reads_back [OF assms(1)] by (simp only:)
qed

lemma wire_starts: "wf m \<Longrightarrow> q_startsWith (messageToFSDString pdu toTokens m) pdu"
  by (simp add: messageToFSDString_def wf_valid)

lemma wire_injective:
  assumes "wf m" "wf n" "messageToFSDString pdu toTokens m = messageToFSDString pdu toTokens n"
  shows "m = n"
proof -
  have "q_join '':'' (toTokens m) = q_join '':'' (toTokens n)"
    using assms by (simp add: messageToFSDString_def wf_valid)
  then show ?thesis
    by (metis reads_back assms(1,2) sum.inject(2))
qed

end

text \<open>Most classes write tokens that are fields and read exactly these back: the frame's splitting
  then undoes its joining.\<close>

locale fsd_token_codec =
  fixes pdu :: string
    and toTokens :: "'a message_base_scheme \<Rightarrow> string list"
    and fromTokens :: "string list \<Rightarrow> fault + 'a message_base_scheme"
    and wf :: "'a message_base_scheme \<Rightarrow> bool"
  assumes id_plain: "plain pdu" and id_not_Nil: "pdu \<noteq> []"
    and tokens_valid: "wf m \<Longrightarrow> m_isValid m"
    and tokens_not_Nil: "toTokens m \<noteq> []"
    and tokens_fields: "wf m \<Longrightarrow> \<forall>t\<in>set (toTokens m). field t"
    and tokens_back: "wf m \<Longrightarrow> fromTokens (toTokens m) = Inr m"

sublocale fsd_token_codec \<subseteq> fsd_codec pdu toTokens fromTokens wf
  by unfold_locales
    (simp_all add: id_plain id_not_Nil tokens_valid tokens_not_Nil tokens_fields tokens_back
      split_join_fields)

end
