(* ===== verification/FsdTextMessages.thy ===== *)
theory FsdTextMessages
  imports FsdMessage
begin

section \<open>Messages made of text\<close>

text \<open>
  The classes of \<open>blackcore/fsd\<close> whose members are texts, enumerators and flags: authentication,
  identification, ping and pong, queries and responses, text messages, plane information,
  server errors and the removals. For a class \<open>X\<close>: the record \<open>X\<close>, its public constructor
  \<open>X\<close>, the default object \<open>X_default\<close> that \<open>fromTokens\<close> returns for too few tokens (the log entry
  it writes then is not modelled), \<open>X_pdu\<close>, \<open>X_toTokens\<close> and \<open>X_fromTokens\<close>. An \<open>X_wf\<close> message is
  one the class can carry; the interpretations show that it comes back unchanged.
\<close>

lemma number_01 [number_simps]: "q_number 1 = ''1''" "q_number 0 = ''0''"
  by (simp_all add: q_number_def q_number_nat.simps)

subsection \<open>AuthChallenge\<close>

record AuthChallenge = message_base +
  AuthChallenge_m_challengeKey :: string

definition AuthChallenge :: "string \<Rightarrow> string \<Rightarrow> string \<Rightarrow> AuthChallenge" where
  "AuthChallenge sender receiver challengeKey =
     \<lparr>m_sender = sender, m_receiver = receiver, m_isValid = True,
      AuthChallenge_m_challengeKey = challengeKey\<rparr>"

definition AuthChallenge_default :: AuthChallenge where
  "AuthChallenge_default =
     \<lparr>m_sender = '''', m_receiver = '''', m_isValid = True,
      AuthChallenge_m_challengeKey = ''''\<rparr>"

definition AuthChallenge_pdu :: string where
  "AuthChallenge_pdu = ''$ZC''"

definition AuthChallenge_toTokens :: "AuthChallenge \<Rightarrow> string list" where
  "AuthChallenge_toTokens m =
     [m_sender m, m_receiver m, AuthChallenge_m_challengeKey m]"

definition AuthChallenge_fromTokens :: "string list \<Rightarrow> AuthChallenge" where
  "AuthChallenge_fromTokens tokens =
     (if length tokens < 3 then AuthChallenge_default
      else AuthChallenge (tokens ! 0) (tokens ! 1) (tokens ! 2))"

definition AuthChallenge_wf :: "AuthChallenge \<Rightarrow> bool" where
  "AuthChallenge_wf m \<longleftrightarrow> m_isValid m \<and> field (m_sender m) \<and> field (m_receiver m) \<and> field (AuthChallenge_m_challengeKey m)"

lemmas AuthChallenge_defs [wire_defs] = AuthChallenge_def AuthChallenge_default_def AuthChallenge_pdu_def
  AuthChallenge_toTokens_def AuthChallenge_fromTokens_def AuthChallenge_wf_def

interpretation auth_challenge: fsd_token_codec AuthChallenge_pdu AuthChallenge_toTokens
    "\<lambda>ts. Inr (AuthChallenge_fromTokens ts)" AuthChallenge_wf
  by unfold_locales (simp add: wire_defs is_space_def, simp add: wire_defs,
    (rename_tac m, case_tac m, simp add: wire_defs)+)

subsection \<open>AuthResponse\<close>

record AuthResponse = message_base +
  AuthResponse_m_response :: string

definition AuthResponse :: "string \<Rightarrow> string \<Rightarrow> string \<Rightarrow> AuthResponse" where
  "AuthResponse sender receiver response =
     \<lparr>m_sender = sender, m_receiver = receiver, m_isValid = True,
      AuthResponse_m_response = response\<rparr>"

definition AuthResponse_default :: AuthResponse where
  "AuthResponse_default =
     \<lparr>m_sender = '''', m_receiver = '''', m_isValid = True,
      AuthResponse_m_response = ''''\<rparr>"

definition AuthResponse_pdu :: string where
  "AuthResponse_pdu = ''$ZR''"

definition AuthResponse_toTokens :: "AuthResponse \<Rightarrow> string list" where
  "AuthResponse_toTokens m =
     [m_sender m, m_receiver m, AuthResponse_m_response m]"

definition AuthResponse_fromTokens :: "string list \<Rightarrow> AuthResponse" where
  "AuthResponse_fromTokens tokens =
     (if length tokens < 3 then AuthResponse_default
      else AuthResponse (tokens ! 0) (tokens ! 1) (tokens ! 2))"

definition AuthResponse_wf :: "AuthResponse \<Rightarrow> bool" where
  "AuthResponse_wf m \<longleftrightarrow> m_isValid m \<and> field (m_sender m) \<and> field (m_receiver m) \<and> field (AuthResponse_m_response m)"

lemmas AuthResponse_defs [wire_defs] = AuthResponse_def AuthResponse_default_def AuthResponse_pdu_def
  AuthResponse_toTokens_def AuthResponse_fromTokens_def AuthResponse_wf_def

interpretation auth_response: fsd_token_codec AuthResponse_pdu AuthResponse_toTokens
    "\<lambda>ts. Inr (AuthResponse_fromTokens ts)" AuthResponse_wf
  by unfold_locales (simp add: wire_defs is_space_def, simp add: wire_defs,
    (rename_tac m, case_tac m, simp add: wire_defs)+)

subsection \<open>Ping\<close>

record Ping = message_base +
  Ping_m_timestamp :: string

definition Ping :: "string \<Rightarrow> string \<Rightarrow> string \<Rightarrow> Ping" where
  "Ping sender receiver timestamp =
     \<lparr>m_sender = sender, m_receiver = receiver, m_isValid = True,
      Ping_m_timestamp = timestamp\<rparr>"

definition Ping_default :: Ping where
  "Ping_default =
     \<lparr>m_sender = '''', m_receiver = '''', m_isValid = True,
      Ping_m_timestamp = ''''\<rparr>"

definition Ping_pdu :: string where
  "Ping_pdu = ''$PI''"

definition Ping_toTokens :: "Ping \<Rightarrow> string list" where
  "Ping_toTokens m =
     [m_sender m, m_receiver m, Ping_m_timestamp m]"

definition Ping_fromTokens :: "string list \<Rightarrow> Ping" where
  "Ping_fromTokens tokens =
     (if length tokens < 3 then Ping_default
      else Ping (tokens ! 0) (tokens ! 1) (tokens ! 2))"

definition Ping_wf :: "Ping \<Rightarrow> bool" where
  "Ping_wf m \<longleftrightarrow> m_isValid m \<and> field (m_sender m) \<and> field (m_receiver m) \<and> field (Ping_m_timestamp m)"

lemmas Ping_defs [wire_defs] = Ping_def Ping_default_def Ping_pdu_def
  Ping_toTokens_def Ping_fromTokens_def Ping_wf_def

interpretation ping: fsd_token_codec Ping_pdu Ping_toTokens
    "\<lambda>ts. Inr (Ping_fromTokens ts)" Ping_wf
  by unfold_locales (simp add: wire_defs is_space_def, simp add: wire_defs,
    (rename_tac m, case_tac m, simp add: wire_defs)+)

subsection \<open>Pong\<close>

record Pong = message_base +
  Pong_m_timestamp :: string

definition Pong :: "string \<Rightarrow> string \<Rightarrow> string \<Rightarrow> Pong" where
  "Pong sender receiver timestamp =
     \<lparr>m_sender = sender, m_receiver = receiver, m_isValid = True,
      Pong_m_timestamp = timestamp\<rparr>"

definition Pong_default :: Pong where
  "Pong_default =
     \<lparr>m_sender = '''', m_receiver = '''', m_isValid = True,
      Pong_m_timestamp = ''''\<rparr>"

definition Pong_pdu :: string where
  "Pong_pdu = ''$PO''"

definition Pong_toTokens :: "Pong \<Rightarrow> string list" where
  "Pong_toTokens m =
     [m_sender m, m_receiver m, Pong_m_timestamp m]"

definition Pong_fromTokens :: "string list \<Rightarrow> Pong" where
  "Pong_fromTokens tokens =
     (if length tokens < 3 then Pong_default
      else Pong (tokens ! 0) (tokens ! 1) (tokens ! 2))"

definition Pong_wf :: "Pong \<Rightarrow> bool" where
  "Pong_wf m \<longleftrightarrow> m_isValid m \<and> field (m_sender m) \<and> field (m_receiver m) \<and> field (Pong_m_timestamp m)"

lemmas Pong_defs [wire_defs] = Pong_def Pong_default_def Pong_pdu_def
  Pong_toTokens_def Pong_fromTokens_def Pong_wf_def

interpretation pong: fsd_token_codec Pong_pdu Pong_toTokens
    "\<lambda>ts. Inr (Pong_fromTokens ts)" Pong_wf
  by unfold_locales (simp add: wire_defs is_space_def, simp add: wire_defs,
    (rename_tac m, case_tac m, simp add: wire_defs)+)

subsection \<open>DeleteAtc\<close>

record DeleteAtc = message_base +
  DeleteAtc_m_cid :: string

definition DeleteAtc :: "string \<Rightarrow> string \<Rightarrow> DeleteAtc" where
  "DeleteAtc sender cid =
     \<lparr>m_sender = sender, m_receiver = '''', m_isValid = True,
      DeleteAtc_m_cid = cid\<rparr>"

definition DeleteAtc_default :: DeleteAtc where
  "DeleteAtc_default =
     \<lparr>m_sender = '''', m_receiver = '''', m_isValid = True,
      DeleteAtc_m_cid = ''''\<rparr>"

definition DeleteAtc_pdu :: string where
  "DeleteAtc_pdu = ''#DA''"

definition DeleteAtc_toTokens :: "DeleteAtc \<Rightarrow> string list" where
  "DeleteAtc_toTokens m =
     [m_sender m, DeleteAtc_m_cid m]"

definition DeleteAtc_fromTokens :: "string list \<Rightarrow> DeleteAtc" where
  "DeleteAtc_fromTokens tokens =
     (if tokens = [] then DeleteAtc_default
      else DeleteAtc (tokens ! 0) (if 2 \<le> length tokens then tokens ! 1 else ''''))"

definition DeleteAtc_wf :: "DeleteAtc \<Rightarrow> bool" where
  "DeleteAtc_wf m \<longleftrightarrow> m_isValid m \<and> m_receiver m = '''' \<and> field (m_sender m) \<and> field (DeleteAtc_m_cid m)"

lemmas DeleteAtc_defs [wire_defs] = DeleteAtc_def DeleteAtc_default_def DeleteAtc_pdu_def
  DeleteAtc_toTokens_def DeleteAtc_fromTokens_def DeleteAtc_wf_def

interpretation delete_atc: fsd_token_codec DeleteAtc_pdu DeleteAtc_toTokens
    "\<lambda>ts. Inr (DeleteAtc_fromTokens ts)" DeleteAtc_wf
  by unfold_locales (simp add: wire_defs is_space_def, simp add: wire_defs,
    (rename_tac m, case_tac m, simp add: wire_defs)+)

subsection \<open>DeletePilot\<close>

record DeletePilot = message_base +
  DeletePilot_m_cid :: string

definition DeletePilot :: "string \<Rightarrow> string \<Rightarrow> DeletePilot" where
  "DeletePilot callsign cid =
     \<lparr>m_sender = callsign, m_receiver = '''', m_isValid = True,
      DeletePilot_m_cid = cid\<rparr>"

definition DeletePilot_default :: DeletePilot where
  "DeletePilot_default =
     \<lparr>m_sender = '''', m_receiver = '''', m_isValid = True,
      DeletePilot_m_cid = ''''\<rparr>"

definition DeletePilot_pdu :: string where
  "DeletePilot_pdu = ''#DP''"

definition DeletePilot_toTokens :: "DeletePilot \<Rightarrow> string list" where
  "DeletePilot_toTokens m =
     [m_sender m, DeletePilot_m_cid m]"

definition DeletePilot_fromTokens :: "string list \<Rightarrow> DeletePilot" where
  "DeletePilot_fromTokens tokens =
     (if tokens = [] then DeletePilot_default
      else DeletePilot (tokens ! 0) (if 2 \<le> length tokens then tokens ! 1 else ''''))"

definition DeletePilot_wf :: "DeletePilot \<Rightarrow> bool" where
  "DeletePilot_wf m \<longleftrightarrow> m_isValid m \<and> m_receiver m = '''' \<and> field (m_sender m) \<and> field (DeletePilot_m_cid m)"

lemmas DeletePilot_defs [wire_defs] = DeletePilot_def DeletePilot_default_def DeletePilot_pdu_def
  DeletePilot_toTokens_def DeletePilot_fromTokens_def DeletePilot_wf_def

interpretation delete_pilot: fsd_token_codec DeletePilot_pdu DeletePilot_toTokens
    "\<lambda>ts. Inr (DeletePilot_fromTokens ts)" DeletePilot_wf
  by unfold_locales (simp add: wire_defs is_space_def, simp add: wire_defs,
    (rename_tac m, case_tac m, simp add: wire_defs)+)

subsection \<open>KillRequest\<close>

record KillRequest = message_base +
  KillRequest_m_reason :: string

definition KillRequest :: "string \<Rightarrow> string \<Rightarrow> string \<Rightarrow> KillRequest" where
  "KillRequest callsign receiver reason =
     \<lparr>m_sender = callsign, m_receiver = receiver, m_isValid = True,
      KillRequest_m_reason = reason\<rparr>"

definition KillRequest_default :: KillRequest where
  "KillRequest_default =
     \<lparr>m_sender = '''', m_receiver = '''', m_isValid = True,
      KillRequest_m_reason = ''''\<rparr>"

definition KillRequest_pdu :: string where
  "KillRequest_pdu = ''$!!''"

definition KillRequest_toTokens :: "KillRequest \<Rightarrow> string list" where
  "KillRequest_toTokens m =
     [m_sender m, m_receiver m, KillRequest_m_reason m]"

definition KillRequest_fromTokens :: "string list \<Rightarrow> KillRequest" where
  "KillRequest_fromTokens tokens =
     (if length tokens < 2 then KillRequest_default
      else KillRequest (tokens ! 0) (tokens ! 1) (if 2 < length tokens then tokens ! 2 else ''''))"

definition KillRequest_wf :: "KillRequest \<Rightarrow> bool" where
  "KillRequest_wf m \<longleftrightarrow> m_isValid m \<and> field (m_sender m) \<and> field (m_receiver m) \<and> field (KillRequest_m_reason m)"

lemmas KillRequest_defs [wire_defs] = KillRequest_def KillRequest_default_def KillRequest_pdu_def
  KillRequest_toTokens_def KillRequest_fromTokens_def KillRequest_wf_def

interpretation kill_request: fsd_token_codec KillRequest_pdu KillRequest_toTokens
    "\<lambda>ts. Inr (KillRequest_fromTokens ts)" KillRequest_wf
  by unfold_locales (simp add: wire_defs is_space_def, simp add: wire_defs,
    (rename_tac m, case_tac m, simp add: wire_defs)+)

subsection \<open>Rehost\<close>

record Rehost = message_base +
  Rehost_m_hostname :: string

definition Rehost :: "string \<Rightarrow> string \<Rightarrow> Rehost" where
  "Rehost sender hostname =
     \<lparr>m_sender = sender, m_receiver = '''', m_isValid = True,
      Rehost_m_hostname = hostname\<rparr>"

definition Rehost_default :: Rehost where
  "Rehost_default =
     \<lparr>m_sender = '''', m_receiver = '''', m_isValid = True,
      Rehost_m_hostname = ''''\<rparr>"

definition Rehost_pdu :: string where
  "Rehost_pdu = ''$XX''"

definition Rehost_toTokens :: "Rehost \<Rightarrow> string list" where
  "Rehost_toTokens m =
     [m_sender m, Rehost_m_hostname m]"

definition Rehost_fromTokens :: "string list \<Rightarrow> Rehost" where
  "Rehost_fromTokens tokens =
     (if length tokens < 2 then Rehost_default
      else Rehost (tokens ! 0) (tokens ! 1))"

definition Rehost_wf :: "Rehost \<Rightarrow> bool" where
  "Rehost_wf m \<longleftrightarrow> m_isValid m \<and> m_receiver m = '''' \<and> field (m_sender m) \<and> field (Rehost_m_hostname m)"

lemmas Rehost_defs [wire_defs] = Rehost_def Rehost_default_def Rehost_pdu_def
  Rehost_toTokens_def Rehost_fromTokens_def Rehost_wf_def

interpretation rehost: fsd_token_codec Rehost_pdu Rehost_toTokens
    "\<lambda>ts. Inr (Rehost_fromTokens ts)" Rehost_wf
  by unfold_locales (simp add: wire_defs is_space_def, simp add: wire_defs,
    (rename_tac m, case_tac m, simp add: wire_defs)+)

subsection \<open>FSDIdentification\<close>

record FSDIdentification = message_base +
  FSDIdentification_m_serverVersion :: string
  FSDIdentification_m_initialChallenge :: string

definition FSDIdentification :: "string \<Rightarrow> string \<Rightarrow> string \<Rightarrow> string \<Rightarrow> FSDIdentification" where
  "FSDIdentification callsign receiver serverVersion initialChallenge =
     \<lparr>m_sender = callsign, m_receiver = receiver, m_isValid = True,
      FSDIdentification_m_serverVersion = serverVersion,
      FSDIdentification_m_initialChallenge = initialChallenge\<rparr>"

definition FSDIdentification_default :: FSDIdentification where
  "FSDIdentification_default =
     \<lparr>m_sender = '''', m_receiver = '''', m_isValid = True,
      FSDIdentification_m_serverVersion = '''',
      FSDIdentification_m_initialChallenge = ''''\<rparr>"

definition FSDIdentification_pdu :: string where
  "FSDIdentification_pdu = ''$DI''"

definition FSDIdentification_toTokens :: "FSDIdentification \<Rightarrow> string list" where
  "FSDIdentification_toTokens m =
     [m_sender m, m_receiver m, FSDIdentification_m_serverVersion m,
      FSDIdentification_m_initialChallenge m]"

definition FSDIdentification_fromTokens :: "string list \<Rightarrow> FSDIdentification" where
  "FSDIdentification_fromTokens tokens =
     (if length tokens < 4 then FSDIdentification_default
      else FSDIdentification (tokens ! 0) (tokens ! 1) (tokens ! 2) (tokens ! 3))"

definition FSDIdentification_wf :: "FSDIdentification \<Rightarrow> bool" where
  "FSDIdentification_wf m \<longleftrightarrow> m_isValid m \<and> field (m_sender m) \<and> field (m_receiver m)
     \<and> field (FSDIdentification_m_serverVersion m) \<and> field (FSDIdentification_m_initialChallenge m)"

lemmas FSDIdentification_defs [wire_defs] = FSDIdentification_def FSDIdentification_default_def FSDIdentification_pdu_def
  FSDIdentification_toTokens_def FSDIdentification_fromTokens_def FSDIdentification_wf_def

interpretation fsd_identification: fsd_token_codec FSDIdentification_pdu FSDIdentification_toTokens
    "\<lambda>ts. Inr (FSDIdentification_fromTokens ts)" FSDIdentification_wf
  by unfold_locales (simp add: wire_defs is_space_def, simp add: wire_defs,
    (rename_tac m, case_tac m, simp add: wire_defs eval_nat_numeral)+)

subsection \<open>VisualPilotDataToggle\<close>

record VisualPilotDataToggle = message_base +
  VisualPilotDataToggle_m_client :: string
  VisualPilotDataToggle_m_active :: bool

definition VisualPilotDataToggle :: "string \<Rightarrow> string \<Rightarrow> bool \<Rightarrow> VisualPilotDataToggle" where
  "VisualPilotDataToggle sender client active =
     \<lparr>m_sender = sender, m_receiver = '''', m_isValid = True,
      VisualPilotDataToggle_m_client = client,
      VisualPilotDataToggle_m_active = active\<rparr>"

definition VisualPilotDataToggle_default :: VisualPilotDataToggle where
  "VisualPilotDataToggle_default =
     \<lparr>m_sender = '''', m_receiver = '''', m_isValid = True,
      VisualPilotDataToggle_m_client = '''',
      VisualPilotDataToggle_m_active = False\<rparr>"

definition VisualPilotDataToggle_pdu :: string where
  "VisualPilotDataToggle_pdu = ''$SF''"

definition VisualPilotDataToggle_toTokens :: "VisualPilotDataToggle \<Rightarrow> string list" where
  "VisualPilotDataToggle_toTokens m =
     [m_sender m, VisualPilotDataToggle_m_client m,
      q_number (if VisualPilotDataToggle_m_active m then 1 else 0)]"

definition VisualPilotDataToggle_fromTokens :: "string list \<Rightarrow> VisualPilotDataToggle" where
  "VisualPilotDataToggle_fromTokens tokens =
     (if length tokens < 3 then VisualPilotDataToggle_default
      else VisualPilotDataToggle (tokens ! 0) (tokens ! 1) (tokens ! 2 = ''1''))"

definition VisualPilotDataToggle_wf :: "VisualPilotDataToggle \<Rightarrow> bool" where
  "VisualPilotDataToggle_wf m \<longleftrightarrow> m_isValid m \<and> m_receiver m = '''' \<and> field (m_sender m)
     \<and> field (VisualPilotDataToggle_m_client m)"

lemmas VisualPilotDataToggle_defs [wire_defs] = VisualPilotDataToggle_def VisualPilotDataToggle_default_def VisualPilotDataToggle_pdu_def
  VisualPilotDataToggle_toTokens_def VisualPilotDataToggle_fromTokens_def VisualPilotDataToggle_wf_def

interpretation visual_toggle: fsd_token_codec VisualPilotDataToggle_pdu VisualPilotDataToggle_toTokens
    "\<lambda>ts. Inr (VisualPilotDataToggle_fromTokens ts)" VisualPilotDataToggle_wf
  by unfold_locales (simp add: wire_defs is_space_def, simp add: wire_defs,
    (rename_tac m, case_tac m, simp add: wire_defs number_01)+)

end
