(* ===== verification/FsdQueryMessages.thy ===== *)
theory FsdQueryMessages
  imports FsdTextMessages
begin

section \<open>Queries, responses, errors, text messages, plane information\<close>

text \<open>
  The classes whose token count varies or whose members need work to read: client queries and
  responses (a list of data tokens), server errors (a number cast to an enumerator), text
  messages (a tail that may itself hold colons, and frequencies read from the receiver), the
  four \<open>#SB\<close> messages and the \<open>-MD\<close> message. Named as in \<open>FsdTextMessages\<close>.
\<close>

lemma enum_token_fields [simp]:
  "field (toQString_ClientQueryType q)"
  by (cases q) simp_all

subsection \<open>ClientQuery\<close>

record ClientQuery = message_base +
  ClientQuery_m_queryType :: ClientQueryType
  ClientQuery_m_queryData :: "string list"

definition ClientQuery :: "string \<Rightarrow> string \<Rightarrow> ClientQueryType \<Rightarrow> string list \<Rightarrow> ClientQuery" where
  "ClientQuery sender clientToBeQueried queryType queryData =
     \<lparr>m_sender = sender, m_receiver = clientToBeQueried, m_isValid = True,
      ClientQuery_m_queryType = queryType,
      ClientQuery_m_queryData = queryData\<rparr>"

definition ClientQuery_default :: ClientQuery where
  "ClientQuery_default =
     \<lparr>m_sender = '''', m_receiver = '''', m_isValid = True,
      ClientQuery_m_queryType = Query_Unknown,
      ClientQuery_m_queryData = []\<rparr>"

definition ClientQuery_pdu :: string where
  "ClientQuery_pdu = ''$CQ''"

definition ClientQuery_toTokens :: "ClientQuery \<Rightarrow> string list" where
  "ClientQuery_toTokens m =
     [m_sender m, m_receiver m, toQString_ClientQueryType (ClientQuery_m_queryType m)] @ ClientQuery_m_queryData m"

definition ClientQuery_fromTokens :: "string list \<Rightarrow> ClientQuery" where
  "ClientQuery_fromTokens tokens =
     (if length tokens < 3 then ClientQuery_default
      else ClientQuery (tokens ! 0) (tokens ! 1) (fromQString_ClientQueryType (tokens ! 2))
        (if length tokens > 3 then drop 3 tokens else []))"

definition ClientQuery_wf :: "ClientQuery \<Rightarrow> bool" where
  "ClientQuery_wf m \<longleftrightarrow> m_isValid m \<and> field (m_sender m) \<and> field (m_receiver m)
     \<and> ClientQueryType_canon (ClientQuery_m_queryType m) = ClientQuery_m_queryType m
     \<and> (\<forall>t\<in>set (ClientQuery_m_queryData m). field t)"

lemmas ClientQuery_defs [wire_defs] = ClientQuery_def ClientQuery_default_def ClientQuery_pdu_def
  ClientQuery_toTokens_def ClientQuery_fromTokens_def ClientQuery_wf_def

interpretation client_query: fsd_token_codec ClientQuery_pdu ClientQuery_toTokens
    "\<lambda>ts. Inr (ClientQuery_fromTokens ts)" ClientQuery_wf
  by unfold_locales (simp add: wire_defs is_space_def, simp add: wire_defs,
    (rename_tac m, case_tac m, simp add: wire_defs query_type.dec_enc)+)

subsection \<open>ClientResponse\<close>

record ClientResponse = message_base +
  ClientResponse_m_queryType :: ClientQueryType
  ClientResponse_m_responseData :: "string list"

definition ClientResponse :: "string \<Rightarrow> string \<Rightarrow> ClientQueryType \<Rightarrow> string list \<Rightarrow> ClientResponse" where
  "ClientResponse sender receiver queryType responseData =
     \<lparr>m_sender = sender, m_receiver = receiver, m_isValid = True,
      ClientResponse_m_queryType = queryType,
      ClientResponse_m_responseData = responseData\<rparr>"

definition ClientResponse_default :: ClientResponse where
  "ClientResponse_default =
     \<lparr>m_sender = '''', m_receiver = '''', m_isValid = True,
      ClientResponse_m_queryType = Query_Unknown,
      ClientResponse_m_responseData = []\<rparr>"

definition ClientResponse_pdu :: string where
  "ClientResponse_pdu = ''$CR''"

definition ClientResponse_toTokens :: "ClientResponse \<Rightarrow> string list" where
  "ClientResponse_toTokens m =
     [m_sender m, m_receiver m, toQString_ClientQueryType (ClientResponse_m_queryType m)] @ ClientResponse_m_responseData m"

definition ClientResponse_fromTokens :: "string list \<Rightarrow> ClientResponse" where
  "ClientResponse_fromTokens tokens =
     (if length tokens < 3 then ClientResponse_default
      else ClientResponse (tokens ! 0) (tokens ! 1) (fromQString_ClientQueryType (tokens ! 2))
        (if length tokens > 3 then drop 3 tokens else []))"

definition ClientResponse_wf :: "ClientResponse \<Rightarrow> bool" where
  "ClientResponse_wf m \<longleftrightarrow> m_isValid m \<and> field (m_sender m) \<and> field (m_receiver m)
     \<and> ClientQueryType_canon (ClientResponse_m_queryType m) = ClientResponse_m_queryType m
     \<and> (\<forall>t\<in>set (ClientResponse_m_responseData m). field t)"

lemmas ClientResponse_defs [wire_defs] = ClientResponse_def ClientResponse_default_def ClientResponse_pdu_def
  ClientResponse_toTokens_def ClientResponse_fromTokens_def ClientResponse_wf_def

interpretation client_response: fsd_token_codec ClientResponse_pdu ClientResponse_toTokens
    "\<lambda>ts. Inr (ClientResponse_fromTokens ts)" ClientResponse_wf
  by unfold_locales (simp add: wire_defs is_space_def, simp add: wire_defs,
    (rename_tac m, case_tac m, simp add: wire_defs query_type.dec_enc)+)

definition isUnknownQuery :: "ClientResponse \<Rightarrow> bool" where
  "isUnknownQuery m \<longleftrightarrow> ClientResponse_m_queryType m = Query_Unknown"

subsection \<open>ServerError\<close>

text \<open>The error number is whatever number came in, cast to the enumeration: it is kept as that
  number, \<open>ServerErrorCode_int\<close> gives the number of an enumerator.\<close>

record ServerError = message_base +
  ServerError_m_errorNumber :: int
  ServerError_m_causingParameter :: string
  ServerError_m_description :: string

definition ServerError :: "string \<Rightarrow> string \<Rightarrow> int \<Rightarrow> string \<Rightarrow> string \<Rightarrow> ServerError" where
  "ServerError sender receiver errorNumber causingParameter description =
     \<lparr>m_sender = sender, m_receiver = receiver, m_isValid = True,
      ServerError_m_errorNumber = errorNumber,
      ServerError_m_causingParameter = causingParameter,
      ServerError_m_description = description\<rparr>"

definition ServerError_default :: ServerError where
  "ServerError_default =
     \<lparr>m_sender = '''', m_receiver = '''', m_isValid = True,
      ServerError_m_errorNumber = 0,
      ServerError_m_causingParameter = '''',
      ServerError_m_description = ''''\<rparr>"

definition ServerError_pdu :: string where
  "ServerError_pdu = ''$ER''"

definition ServerError_toTokens :: "ServerError \<Rightarrow> string list" where
  "ServerError_toTokens m =
     [m_sender m, m_receiver m, q_number (ServerError_m_errorNumber m),
      ServerError_m_causingParameter m, ServerError_m_description m]"

definition ServerError_fromTokens :: "string list \<Rightarrow> ServerError" where
  "ServerError_fromTokens tokens =
     (if length tokens < 5 then ServerError_default
      else ServerError (tokens ! 0) (tokens ! 1) (q_toInt (tokens ! 2)) (tokens ! 3) (tokens ! 4))"

definition ServerError_wf :: "ServerError \<Rightarrow> bool" where
  "ServerError_wf m \<longleftrightarrow> m_isValid m \<and> field (m_sender m) \<and> field (m_receiver m)
     \<and> int32 (ServerError_m_errorNumber m)
     \<and> field (ServerError_m_causingParameter m) \<and> field (ServerError_m_description m)"

lemmas ServerError_defs [wire_defs] = ServerError_def ServerError_default_def ServerError_pdu_def
  ServerError_toTokens_def ServerError_fromTokens_def ServerError_wf_def

interpretation server_error: fsd_token_codec ServerError_pdu ServerError_toTokens
    "\<lambda>ts. Inr (ServerError_fromTokens ts)" ServerError_wf
  by unfold_locales (simp add: wire_defs is_space_def, simp add: wire_defs,
    (rename_tac m, case_tac m, simp add: wire_defs number_simps eval_nat_numeral)+)

definition fatalErrors :: "int list" where
  "fatalErrors = map ServerErrorCode_int
     [CallsignInUse, InvalidCallsign, AlreadyRegistered, InvalidCidPassword, InvalidRevision,
      RequestedLevelTooHigh, ServerFull, CidSuspended, RatingTooLow, InvalidClient, AuthTimeout]"

definition isFatalError :: "ServerError \<Rightarrow> bool" where
  "isFatalError m \<longleftrightarrow> ServerError_m_errorNumber m \<in> set fatalErrors"

definition getCausingParameter :: "ServerError \<Rightarrow> string" where
  "getCausingParameter m =
     (if ServerError_m_causingParameter m = [] then ''no details'' else ServerError_m_causingParameter m)"

definition getDescription :: "ServerError \<Rightarrow> string" where
  "getDescription m =
     (if ServerError_m_description m = [] then ''no description'' else ServerError_m_description m)"

subsection \<open>TextMessage\<close>

datatype TextMessageType = PrivateMessage | RadioMessage

record TextMessage = message_base +
  TextMessage_m_message :: string
  TextMessage_m_type :: TextMessageType
  TextMessage_m_frequencies :: "int list"

text \<open>The receiver of a radio message lists frequencies: \<open>@22800&@18700\<close> for 122.800 and 118.700.\<close>

definition receiver_frequencies :: "string \<Rightarrow> int list" where
  "receiver_frequencies receiver =
     map (\<lambda>frequencyString. c_int (q_toInt (drop 1 frequencyString) + 100000))
       (q_split CHR ''&'' receiver)"

definition TextMessage :: "string \<Rightarrow> string \<Rightarrow> string \<Rightarrow> TextMessage" where
  "TextMessage sender receiver message =
     (let radio = q_startsWith receiver ''@'' in
      \<lparr>m_sender = sender, m_receiver = receiver, m_isValid = True,
       TextMessage_m_message = message,
       TextMessage_m_type = (if radio then RadioMessage else PrivateMessage),
       TextMessage_m_frequencies = (if radio then receiver_frequencies receiver else [])\<rparr>)"

definition TextMessage_default :: TextMessage where
  "TextMessage_default =
     \<lparr>m_sender = '''', m_receiver = '''', m_isValid = True,
      TextMessage_m_message = '''', TextMessage_m_type = PrivateMessage,
      TextMessage_m_frequencies = []\<rparr>"

definition TextMessage_pdu :: string where
  "TextMessage_pdu = ''#TM''"

definition TextMessage_toTokens :: "TextMessage \<Rightarrow> string list" where
  "TextMessage_toTokens m = [m_sender m, m_receiver m, TextMessage_m_message m]"

definition TextMessage_fromTokens :: "string list \<Rightarrow> TextMessage" where
  "TextMessage_fromTokens tokens =
     (if length tokens < 3 then TextMessage_default
      else TextMessage (tokens ! 0) (tokens ! 1) (q_join '':'' (drop 2 tokens)))"

definition TextMessage_wf :: "TextMessage \<Rightarrow> bool" where
  "TextMessage_wf m \<longleftrightarrow>
     m = TextMessage (m_sender m) (m_receiver m) (TextMessage_m_message m)
     \<and> field (m_sender m) \<and> field (m_receiver m)"

lemmas TextMessage_defs [wire_defs] = TextMessage_default_def TextMessage_pdu_def
  TextMessage_toTokens_def TextMessage_fromTokens_def TextMessage_wf_def

lemma TextMessage_isValid [simp]: "m_isValid (TextMessage s r t)"
  by (simp add: TextMessage_def Let_def)

lemma TextMessage_from_long:
  "rest \<noteq> [] \<Longrightarrow> TextMessage_fromTokens (a # b # rest) = TextMessage a b (q_join '':'' rest)"
  by (cases rest) (simp_all add: TextMessage_fromTokens_def)

lemma TextMessage_reads_back:
  assumes "TextMessage_wf m"
  shows "TextMessage_fromTokens (q_split CHR '':'' (q_join '':'' (TextMessage_toTokens m))) = m"
proof -
  have "q_split CHR '':'' (q_join '':'' (TextMessage_toTokens m))
      = m_sender m # m_receiver m # q_split CHR '':'' (TextMessage_m_message m)"
    using assms split_join_tail [of "[m_sender m, m_receiver m]" "TextMessage_m_message m"]
    by (simp add: TextMessage_toTokens_def TextMessage_wf_def)
  then have "TextMessage_fromTokens (q_split CHR '':'' (q_join '':'' (TextMessage_toTokens m)))
      = TextMessage (m_sender m) (m_receiver m) (TextMessage_m_message m)"
    by (simp only: TextMessage_from_long q_split_not_Nil not_False_eq_True q_join_split)
  then show ?thesis using assms by (simp only: TextMessage_wf_def)
qed

interpretation text_message: fsd_codec TextMessage_pdu TextMessage_toTokens
    "\<lambda>ts. Inr (TextMessage_fromTokens ts)" TextMessage_wf
proof
  fix m assume "TextMessage_wf m"
  then show "m_isValid m" by (metis TextMessage_isValid TextMessage_wf_def)
qed (simp_all add: TextMessage_pdu_def is_space_def TextMessage_reads_back)

subsection \<open>PlaneInfoRequest\<close>

type_synonym PlaneInfoRequest = message_base

definition PlaneInfoRequest :: "string \<Rightarrow> string \<Rightarrow> PlaneInfoRequest" where
  "PlaneInfoRequest sender receiver =
     \<lparr>m_sender = sender, m_receiver = receiver, m_isValid = True\<rparr>"

definition PlaneInfoRequest_default :: PlaneInfoRequest where
  "PlaneInfoRequest_default =
     \<lparr>m_sender = '''', m_receiver = '''', m_isValid = True\<rparr>"

definition PlaneInfoRequest_pdu :: string where
  "PlaneInfoRequest_pdu = ''#SB''"

definition PlaneInfoRequest_toTokens :: "PlaneInfoRequest \<Rightarrow> string list" where
  "PlaneInfoRequest_toTokens m =
     [m_sender m, m_receiver m, ''PIR'']"

definition PlaneInfoRequest_fromTokens :: "string list \<Rightarrow> PlaneInfoRequest" where
  "PlaneInfoRequest_fromTokens tokens =
     (if length tokens < 3 then PlaneInfoRequest_default
      else PlaneInfoRequest (tokens ! 0) (tokens ! 1))"

definition PlaneInfoRequest_wf :: "PlaneInfoRequest \<Rightarrow> bool" where
  "PlaneInfoRequest_wf m \<longleftrightarrow> m_isValid m \<and> field (m_sender m) \<and> field (m_receiver m)"

lemmas PlaneInfoRequest_defs [wire_defs] = PlaneInfoRequest_def PlaneInfoRequest_default_def PlaneInfoRequest_pdu_def
  PlaneInfoRequest_toTokens_def PlaneInfoRequest_fromTokens_def PlaneInfoRequest_wf_def

interpretation plane_info_request: fsd_token_codec PlaneInfoRequest_pdu PlaneInfoRequest_toTokens
    "\<lambda>ts. Inr (PlaneInfoRequest_fromTokens ts)" PlaneInfoRequest_wf
  by unfold_locales (simp add: wire_defs is_space_def, simp add: wire_defs,
    (rename_tac m, case_tac m, simp add: wire_defs)+)

subsection \<open>PlaneInfoRequestFsinn\<close>

record PlaneInfoRequestFsinn = message_base +
  PlaneInfoRequestFsinn_m_airlineIcao :: string
  PlaneInfoRequestFsinn_m_aircraftIcao :: string
  PlaneInfoRequestFsinn_m_aircraftIcaoCombinedType :: string
  PlaneInfoRequestFsinn_m_sendMModelString :: string

definition PlaneInfoRequestFsinn :: "string \<Rightarrow> string \<Rightarrow> string \<Rightarrow> string \<Rightarrow> string \<Rightarrow> string \<Rightarrow> PlaneInfoRequestFsinn" where
  "PlaneInfoRequestFsinn sender receiver airlineIcao aircraftIcao aircraftIcaoCombinedType sendMModelString =
     \<lparr>m_sender = sender, m_receiver = receiver, m_isValid = True,
      PlaneInfoRequestFsinn_m_airlineIcao = airlineIcao,
      PlaneInfoRequestFsinn_m_aircraftIcao = aircraftIcao,
      PlaneInfoRequestFsinn_m_aircraftIcaoCombinedType = aircraftIcaoCombinedType,
      PlaneInfoRequestFsinn_m_sendMModelString = sendMModelString\<rparr>"

definition PlaneInfoRequestFsinn_default :: PlaneInfoRequestFsinn where
  "PlaneInfoRequestFsinn_default =
     \<lparr>m_sender = '''', m_receiver = '''', m_isValid = True,
      PlaneInfoRequestFsinn_m_airlineIcao = '''',
      PlaneInfoRequestFsinn_m_aircraftIcao = '''',
      PlaneInfoRequestFsinn_m_aircraftIcaoCombinedType = '''',
      PlaneInfoRequestFsinn_m_sendMModelString = ''''\<rparr>"

definition PlaneInfoRequestFsinn_pdu :: string where
  "PlaneInfoRequestFsinn_pdu = ''#SB''"

definition PlaneInfoRequestFsinn_toTokens :: "PlaneInfoRequestFsinn \<Rightarrow> string list" where
  "PlaneInfoRequestFsinn_toTokens m =
     [m_sender m, m_receiver m, ''FSIPIR'', ''0'', PlaneInfoRequestFsinn_m_airlineIcao m,
      PlaneInfoRequestFsinn_m_aircraftIcao m, '''', '''', '''', '''',
      PlaneInfoRequestFsinn_m_aircraftIcaoCombinedType m, PlaneInfoRequestFsinn_m_sendMModelString m]"

definition PlaneInfoRequestFsinn_fromTokens :: "string list \<Rightarrow> PlaneInfoRequestFsinn" where
  "PlaneInfoRequestFsinn_fromTokens tokens =
     (if length tokens \<noteq> 12 then PlaneInfoRequestFsinn_default
      else PlaneInfoRequestFsinn (tokens ! 0) (tokens ! 1) (tokens ! 4) (tokens ! 5)
        (tokens ! 10) (tokens ! 11))"

definition PlaneInfoRequestFsinn_wf :: "PlaneInfoRequestFsinn \<Rightarrow> bool" where
  "PlaneInfoRequestFsinn_wf m \<longleftrightarrow> m_isValid m \<and> field (m_sender m) \<and> field (m_receiver m)
     \<and> field (PlaneInfoRequestFsinn_m_airlineIcao m)
     \<and> field (PlaneInfoRequestFsinn_m_aircraftIcao m)
     \<and> field (PlaneInfoRequestFsinn_m_aircraftIcaoCombinedType m)
     \<and> field (PlaneInfoRequestFsinn_m_sendMModelString m)"

lemmas PlaneInfoRequestFsinn_defs [wire_defs] = PlaneInfoRequestFsinn_def PlaneInfoRequestFsinn_default_def PlaneInfoRequestFsinn_pdu_def
  PlaneInfoRequestFsinn_toTokens_def PlaneInfoRequestFsinn_fromTokens_def PlaneInfoRequestFsinn_wf_def

interpretation plane_info_request_fsinn: fsd_token_codec PlaneInfoRequestFsinn_pdu PlaneInfoRequestFsinn_toTokens
    "\<lambda>ts. Inr (PlaneInfoRequestFsinn_fromTokens ts)" PlaneInfoRequestFsinn_wf
  by unfold_locales (simp add: wire_defs is_space_def, simp add: wire_defs,
    (rename_tac m, case_tac m, simp add: wire_defs eval_nat_numeral)+)

subsection \<open>PlaneInformationFsinn\<close>

record PlaneInformationFsinn = message_base +
  PlaneInformationFsinn_m_airlineIcao :: string
  PlaneInformationFsinn_m_aircraftIcao :: string
  PlaneInformationFsinn_m_aircraftIcaoCombinedType :: string
  PlaneInformationFsinn_m_sendMModelString :: string

definition PlaneInformationFsinn :: "string \<Rightarrow> string \<Rightarrow> string \<Rightarrow> string \<Rightarrow> string \<Rightarrow> string \<Rightarrow> PlaneInformationFsinn" where
  "PlaneInformationFsinn sender receiver airlineIcao aircraftIcao aircraftIcaoCombinedType sendMModelString =
     \<lparr>m_sender = sender, m_receiver = receiver, m_isValid = True,
      PlaneInformationFsinn_m_airlineIcao = airlineIcao,
      PlaneInformationFsinn_m_aircraftIcao = aircraftIcao,
      PlaneInformationFsinn_m_aircraftIcaoCombinedType = aircraftIcaoCombinedType,
      PlaneInformationFsinn_m_sendMModelString = sendMModelString\<rparr>"

definition PlaneInformationFsinn_default :: PlaneInformationFsinn where
  "PlaneInformationFsinn_default =
     \<lparr>m_sender = '''', m_receiver = '''', m_isValid = True,
      PlaneInformationFsinn_m_airlineIcao = '''',
      PlaneInformationFsinn_m_aircraftIcao = '''',
      PlaneInformationFsinn_m_aircraftIcaoCombinedType = '''',
      PlaneInformationFsinn_m_sendMModelString = ''''\<rparr>"

definition PlaneInformationFsinn_pdu :: string where
  "PlaneInformationFsinn_pdu = ''#SB''"

definition PlaneInformationFsinn_toTokens :: "PlaneInformationFsinn \<Rightarrow> string list" where
  "PlaneInformationFsinn_toTokens m =
     [m_sender m, m_receiver m, ''FSIPI'', ''0'', PlaneInformationFsinn_m_airlineIcao m,
      PlaneInformationFsinn_m_aircraftIcao m, '''', '''', '''', '''',
      PlaneInformationFsinn_m_aircraftIcaoCombinedType m, PlaneInformationFsinn_m_sendMModelString m]"

definition PlaneInformationFsinn_fromTokens :: "string list \<Rightarrow> PlaneInformationFsinn" where
  "PlaneInformationFsinn_fromTokens tokens =
     (if length tokens \<noteq> 12 then PlaneInformationFsinn_default
      else PlaneInformationFsinn (tokens ! 0) (tokens ! 1) (tokens ! 4) (tokens ! 5)
        (tokens ! 10) (tokens ! 11))"

definition PlaneInformationFsinn_wf :: "PlaneInformationFsinn \<Rightarrow> bool" where
  "PlaneInformationFsinn_wf m \<longleftrightarrow> m_isValid m \<and> field (m_sender m) \<and> field (m_receiver m)
     \<and> field (PlaneInformationFsinn_m_airlineIcao m)
     \<and> field (PlaneInformationFsinn_m_aircraftIcao m)
     \<and> field (PlaneInformationFsinn_m_aircraftIcaoCombinedType m)
     \<and> field (PlaneInformationFsinn_m_sendMModelString m)"

lemmas PlaneInformationFsinn_defs [wire_defs] = PlaneInformationFsinn_def PlaneInformationFsinn_default_def PlaneInformationFsinn_pdu_def
  PlaneInformationFsinn_toTokens_def PlaneInformationFsinn_fromTokens_def PlaneInformationFsinn_wf_def

interpretation plane_information_fsinn: fsd_token_codec PlaneInformationFsinn_pdu PlaneInformationFsinn_toTokens
    "\<lambda>ts. Inr (PlaneInformationFsinn_fromTokens ts)" PlaneInformationFsinn_wf
  by unfold_locales (simp add: wire_defs is_space_def, simp add: wire_defs,
    (rename_tac m, case_tac m, simp add: wire_defs eval_nat_numeral)+)

subsection \<open>PlaneInformation\<close>

record PlaneInformation = message_base +
  PlaneInformation_m_aircraft :: string
  PlaneInformation_m_airline :: string
  PlaneInformation_m_livery :: string

definition PlaneInformation :: "string \<Rightarrow> string \<Rightarrow> string \<Rightarrow> string \<Rightarrow> string \<Rightarrow> PlaneInformation" where
  "PlaneInformation sender receiver aircraft airline livery =
     \<lparr>m_sender = sender, m_receiver = receiver, m_isValid = True,
      PlaneInformation_m_aircraft = aircraft,
      PlaneInformation_m_airline = airline,
      PlaneInformation_m_livery = livery\<rparr>"

definition PlaneInformation_default :: PlaneInformation where
  "PlaneInformation_default = PlaneInformation '''' '''' '''' '''' ''''"

definition PlaneInformation_pdu :: string where
  "PlaneInformation_pdu = ''#SB''"

definition plane_information_pairs :: "PlaneInformation \<Rightarrow> string list" where
  "plane_information_pairs m =
     (if PlaneInformation_m_aircraft m \<noteq> [] then [''EQUIPMENT='' @ PlaneInformation_m_aircraft m] else []) @
     (if PlaneInformation_m_airline m \<noteq> [] then [''AIRLINE='' @ PlaneInformation_m_airline m] else []) @
     (if PlaneInformation_m_livery m \<noteq> [] then [''LIVERY='' @ PlaneInformation_m_livery m] else [])"

definition PlaneInformation_toTokens :: "PlaneInformation \<Rightarrow> string list" where
  "PlaneInformation_toTokens m =
     [m_sender m, m_receiver m, ''PI'', ''GEN'', q_join '':'' (plane_information_pairs m)]"

text \<open>One round of the reading loop on the three texts.\<close>

definition plane_information_pair :: "string \<Rightarrow> string \<times> string \<times> string \<Rightarrow> string \<times> string \<times> string" where
  "plane_information_pair token = (\<lambda>(aircraft, airline, livery).
     (case q_split CHR ''='' token of
        [k, v] \<Rightarrow>
          (if k = ''EQUIPMENT'' then (v, airline, livery)
           else if k = ''AIRLINE'' then (aircraft, v, livery)
           else if k = ''LIVERY'' then (aircraft, airline, v)
           else (aircraft, airline, livery))
      | _ \<Rightarrow> (aircraft, airline, livery)))"

definition PlaneInformation_fromTokens :: "string list \<Rightarrow> PlaneInformation" where
  "PlaneInformation_fromTokens tokens =
     (if length tokens < 5 then PlaneInformation_default
      else (case fold plane_information_pair (drop 4 tokens) ('''', '''', '''') of
        (aircraft, airline, livery) \<Rightarrow>
          PlaneInformation (tokens ! 0) (tokens ! 1) aircraft airline livery))"

text \<open>The three texts hold neither colons nor equal signs.\<close>

definition pair_text :: "string \<Rightarrow> bool" where
  "pair_text s \<longleftrightarrow> field s \<and> CHR ''='' \<notin> set s"

definition PlaneInformation_wf :: "PlaneInformation \<Rightarrow> bool" where
  "PlaneInformation_wf m \<longleftrightarrow> m_isValid m \<and> field (m_sender m) \<and> field (m_receiver m)
     \<and> pair_text (PlaneInformation_m_aircraft m) \<and> pair_text (PlaneInformation_m_airline m)
     \<and> pair_text (PlaneInformation_m_livery m)"

lemmas PlaneInformation_defs [wire_defs] = PlaneInformation_def PlaneInformation_default_def
  PlaneInformation_pdu_def PlaneInformation_toTokens_def PlaneInformation_fromTokens_def
  PlaneInformation_wf_def

lemma split_join_pairs:
  assumes "PlaneInformation_wf m"
  shows "q_split CHR '':'' (q_join '':'' (plane_information_pairs m)) =
    (if plane_information_pairs m = [] then [[]] else plane_information_pairs m)"
proof (cases "plane_information_pairs m = []")
  case False
  have "\<forall>x\<in>set (plane_information_pairs m). field x"
    using assms by (auto simp: plane_information_pairs_def wire_defs pair_text_def)
  with False show ?thesis by (simp add: split_join_fields)
qed simp

lemma read_pair [simp]:
  "pair_text v \<Longrightarrow> plane_information_pair (''EQUIPMENT='' @ v) (a, b, c) = (v, b, c)"
  "pair_text v \<Longrightarrow> plane_information_pair (''AIRLINE='' @ v) (a, b, c) = (a, v, c)"
  "pair_text v \<Longrightarrow> plane_information_pair (''LIVERY='' @ v) (a, b, c) = (a, b, v)"
  "plane_information_pair [] (a, b, c) = (a, b, c)"
  by (simp_all add: plane_information_pair_def pair_text_def q_split_no_sep)

lemma read_pairs:
  assumes "PlaneInformation_wf m"
  shows "fold plane_information_pair (q_split CHR '':'' (q_join '':'' (plane_information_pairs m)))
      ([], [], [])
    = (PlaneInformation_m_aircraft m, PlaneInformation_m_airline m, PlaneInformation_m_livery m)"
  using assms read_pair unfolding split_join_pairs [OF assms]
  by (auto simp: plane_information_pairs_def PlaneInformation_wf_def simp del: append_Cons)

lemma PlaneInformation_reads_back:
  assumes wf: "PlaneInformation_wf m"
  shows "PlaneInformation_fromTokens (q_split CHR '':'' (q_join '':'' (PlaneInformation_toTokens m))) = m"
proof -
  let ?t = "q_join '':'' (plane_information_pairs m)"
  have s: "q_split CHR '':'' (q_join '':'' (PlaneInformation_toTokens m))
      = [m_sender m, m_receiver m, ''PI'', ''GEN''] @ q_split CHR '':'' ?t"
    using wf split_join_tail [of "[m_sender m, m_receiver m, ''PI'', ''GEN'']" ?t]
    by (simp add: wire_defs)
  have "q_split CHR '':'' ?t \<noteq> []" by simp
  then have "\<not> length ([m_sender m, m_receiver m, ''PI'', ''GEN''] @ q_split CHR '':'' ?t) < 5"
    by (cases "q_split CHR '':'' ?t") auto
  then show ?thesis
    using read_pairs [OF wf] wf unfolding s PlaneInformation_fromTokens_def
    by (cases m) (simp add: PlaneInformation_def PlaneInformation_wf_def eval_nat_numeral)
qed

interpretation plane_information: fsd_codec PlaneInformation_pdu PlaneInformation_toTokens
    "\<lambda>ts. Inr (PlaneInformation_fromTokens ts)" PlaneInformation_wf
  by unfold_locales
    (simp_all add: PlaneInformation_pdu_def is_space_def PlaneInformation_reads_back, simp add: PlaneInformation_wf_def)

subsection \<open>RevBClientParts\<close>

record RevBClientParts = message_base +
  RevBClientParts_m_queryType :: ClientQueryType
  RevBClientParts_m_queryData :: "string list"
  RevBClientParts_m_partsval1 :: string
  RevBClientParts_m_partsval2 :: string
  RevBClientParts_m_partsval3 :: string

definition RevBClientParts :: "string \<Rightarrow> string \<Rightarrow> string \<Rightarrow> string \<Rightarrow> RevBClientParts" where
  "RevBClientParts sender partsval1 partsval2 partsval3 =
     \<lparr>m_sender = sender, m_receiver = '''', m_isValid = True,
      RevBClientParts_m_queryType = Query_Unknown,
      RevBClientParts_m_queryData = [],
      RevBClientParts_m_partsval1 = partsval1,
      RevBClientParts_m_partsval2 = partsval2,
      RevBClientParts_m_partsval3 = partsval3\<rparr>"

definition RevBClientParts_default :: RevBClientParts where
  "RevBClientParts_default =
     \<lparr>m_sender = '''', m_receiver = '''', m_isValid = True,
      RevBClientParts_m_queryType = Query_Unknown,
      RevBClientParts_m_queryData = [],
      RevBClientParts_m_partsval1 = '''',
      RevBClientParts_m_partsval2 = '''',
      RevBClientParts_m_partsval3 = ''''\<rparr>"

definition RevBClientParts_pdu :: string where
  "RevBClientParts_pdu = ''-MD''"

definition RevBClientParts_toTokens :: "RevBClientParts \<Rightarrow> string list" where
  "RevBClientParts_toTokens m =
     [m_sender m, RevBClientParts_m_partsval1 m, RevBClientParts_m_partsval2 m,
      RevBClientParts_m_partsval3 m]"

definition RevBClientParts_fromTokens :: "string list \<Rightarrow> RevBClientParts" where
  "RevBClientParts_fromTokens tokens =
     (if length tokens < 4 then RevBClientParts_default
      else RevBClientParts (tokens ! 0) (tokens ! 1) (tokens ! 2) (tokens ! 3))"

definition RevBClientParts_wf :: "RevBClientParts \<Rightarrow> bool" where
  "RevBClientParts_wf m \<longleftrightarrow> m_isValid m \<and> m_receiver m = '''' \<and> field (m_sender m)
     \<and> RevBClientParts_m_queryType m = Query_Unknown \<and> RevBClientParts_m_queryData m = []
     \<and> field (RevBClientParts_m_partsval1 m)
     \<and> field (RevBClientParts_m_partsval2 m)
     \<and> field (RevBClientParts_m_partsval3 m)"

lemmas RevBClientParts_defs [wire_defs] = RevBClientParts_def RevBClientParts_default_def RevBClientParts_pdu_def
  RevBClientParts_toTokens_def RevBClientParts_fromTokens_def RevBClientParts_wf_def

interpretation rev_b_client_parts: fsd_token_codec RevBClientParts_pdu RevBClientParts_toTokens
    "\<lambda>ts. Inr (RevBClientParts_fromTokens ts)" RevBClientParts_wf
  by unfold_locales (simp add: wire_defs is_space_def, simp add: wire_defs,
    (rename_tac m, case_tac m, simp add: wire_defs eval_nat_numeral)+)

end
