(* ===== verification/Doubles.thy ===== *)
theory Doubles
  imports QtText Complex_Main
begin

section \<open>Floating point as the code uses it\<close>

text \<open>
  A C++ \<open>double\<close> is an IEEE 754 binary64: \<open>Fin r\<close> for a finite value, an infinity with its sign,
  or not-a-number. The two zeros are one value; no modelled function tells them apart (Qt prints
  both without a sign). \<open>mk_double\<close> rounds an exact result to the nearest double, ties to even;
  every operation is the exact one followed by that rounding. \<open>d_number_f\<close> is
  \<open>QString::number(x, 'f', n)\<close> and \<open>d_toDouble\<close> is \<open>QString::toDouble()\<close>.
\<close>

datatype double = Fin rat | Inf bool | NaN

subsection \<open>Rounding\<close>

fun ilog2 :: "nat \<Rightarrow> nat" where
  "ilog2 n = (if n < 2 then 0 else Suc (ilog2 (n div 2)))"

declare ilog2.simps [simp del]

text \<open>The binary exponent of a positive number: \<open>2 ^ expo x \<le> x < 2 ^ (expo x + 1)\<close>.\<close>

definition expo :: "rat \<Rightarrow> int" where
  "expo x = (if 1 \<le> x then int (ilog2 (nat \<lfloor>x\<rfloor>)) else - int (Suc (ilog2 (nat (\<lceil>1 / x\<rceil> - 1)))))"

definition pow2 :: "int \<Rightarrow> rat" where
  "pow2 e = (if 0 \<le> e then 2 ^ nat e else 1 / 2 ^ nat (- e))"

text \<open>The distance of neighbouring doubles at a positive number: 53 significant bits, down to the
  subnormal numbers.\<close>

definition ulp :: "rat \<Rightarrow> rat" where
  "ulp x = pow2 (max (expo x - 52) (- 1074))"

definition round_half_even :: "rat \<Rightarrow> int" where
  "round_half_even x = (let f = \<lfloor>x\<rfloor>; r = x - of_int f in
     if r < 1 / 2 then f else if 1 / 2 < r then f + 1 else if even f then f else f + 1)"

definition round_mag :: "rat \<Rightarrow> rat" where
  "round_mag x = of_int (round_half_even (x / ulp x)) * ulp x"

definition mk_double :: "rat \<Rightarrow> double" where
  "mk_double r = (if r = 0 then Fin 0
     else (let m = round_mag \<bar>r\<bar> in
       if 2 ^ 1024 \<le> m then Inf (r < 0) else Fin (if r < 0 then - m else m)))"

subsection \<open>Operations\<close>

definition d_of_int :: "int \<Rightarrow> double" where
  "d_of_int i = mk_double (of_int i)"

fun d_neg :: "double \<Rightarrow> double" where
  "d_neg (Fin r) = Fin (- r)"
| "d_neg (Inf s) = Inf (\<not> s)"
| "d_neg NaN = NaN"

fun d_mul :: "double \<Rightarrow> double \<Rightarrow> double" where
  "d_mul (Fin a) (Fin b) = mk_double (a * b)"
| "d_mul (Fin a) (Inf s) = (if a = 0 then NaN else Inf (s \<noteq> (a < 0)))"
| "d_mul (Inf s) (Fin a) = (if a = 0 then NaN else Inf (s \<noteq> (a < 0)))"
| "d_mul (Inf s) (Inf t) = Inf (s \<noteq> t)"
| "d_mul _ _ = NaN"

text \<open>Division; the code only divides by constants that are not zero.\<close>

fun d_div :: "double \<Rightarrow> double \<Rightarrow> double" where
  "d_div (Fin a) (Fin b) = (if b = 0 then (if a = 0 then NaN else Inf (a < 0)) else mk_double (a / b))"
| "d_div (Fin a) (Inf s) = Fin 0"
| "d_div (Inf s) (Fin b) = Inf (s \<noteq> (b < 0))"
| "d_div _ _ = NaN"

fun d_add :: "double \<Rightarrow> double \<Rightarrow> double" where
  "d_add (Fin a) (Fin b) = mk_double (a + b)"
| "d_add (Fin a) (Inf s) = Inf s"
| "d_add (Inf s) (Fin b) = Inf s"
| "d_add (Inf s) (Inf t) = (if s = t then Inf s else NaN)"
| "d_add _ _ = NaN"

definition d_sub :: "double \<Rightarrow> double \<Rightarrow> double" where
  "d_sub x y = d_add x (d_neg y)"

text \<open>\<open>std::abs(x) < c\<close>; no comparison with a not-a-number holds.\<close>

fun d_abs_less :: "double \<Rightarrow> rat \<Rightarrow> bool" where
  "d_abs_less (Fin a) c \<longleftrightarrow> \<bar>a\<bar> < c"
| "d_abs_less _ c \<longleftrightarrow> False"

text \<open>Conversions to integers: \<open>qFloor\<close> (\<open>int(std::floor(v))\<close>), \<open>static_cast<int>\<close> and
  \<open>static_cast<unsigned int>\<close>. Out of range they are undefined in C++; the value is what the
  supported x86-64 targets compute: the least \<open>int\<close>, and the low 32 bits of the 64-bit conversion.\<close>

definition to_c_int :: "int \<Rightarrow> int" where
  "to_c_int i = (if int32 i then i else - (2 ^ 31))"

definition trunc :: "rat \<Rightarrow> int" where
  "trunc r = (if r < 0 then \<lceil>r\<rceil> else \<lfloor>r\<rfloor>)"

fun qFloor :: "double \<Rightarrow> int" where
  "qFloor (Fin r) = to_c_int \<lfloor>r\<rfloor>"
| "qFloor _ = - (2 ^ 31)"

fun d_to_int :: "double \<Rightarrow> int" where
  "d_to_int (Fin r) = to_c_int (trunc r)"
| "d_to_int _ = - (2 ^ 31)"

text \<open>\<open>qRound\<close>: halves away from zero for a positive number, as Qt 5 computes it.\<close>

definition d_nonneg :: "double \<Rightarrow> bool" where
  "d_nonneg d = (case d of Fin r \<Rightarrow> 0 \<le> r | Inf s \<Rightarrow> \<not> s | NaN \<Rightarrow> False)"

definition qRound :: "double \<Rightarrow> int" where
  "qRound d = (if d_nonneg d then d_to_int (d_add d (Fin (1 / 2)))
     else let below = d_to_int (d_sub d (Fin 1)) in
       c_int (d_to_int (d_add (d_sub d (d_of_int below)) (Fin (1 / 2))) + below))"

fun d_to_uint :: "double \<Rightarrow> 32 word" where
  "d_to_uint (Fin r) = (if int64 (trunc r) then word_of_int (trunc r) else 0)"
| "d_to_uint _ = 0"

subsection \<open>Text\<close>

fun pad_digits :: "nat \<Rightarrow> nat \<Rightarrow> string" where
  "pad_digits 0 k = []"
| "pad_digits (Suc n) k = pad_digits n (k div 10) @ [digit_char (k mod 10)]"

definition decimal_text :: "nat \<Rightarrow> nat \<Rightarrow> string" where
  "decimal_text n k = q_number_nat 10 (k div 10 ^ n) @ (if n = 0 then [] else CHR ''.'' # pad_digits n (k mod 10 ^ n))"

text \<open>The magnitude in units of the last printed digit, rounded half up.\<close>

definition decimal_units :: "nat \<Rightarrow> rat \<Rightarrow> nat" where
  "decimal_units n r = nat \<lfloor>\<bar>r\<bar> * 10 ^ n + 1 / 2\<rfloor>"

fun d_number_f :: "double \<Rightarrow> nat \<Rightarrow> string" where
  "d_number_f (Fin r) n = (if r < 0 then ''-'' else []) @ decimal_text n (decimal_units n r)"
| "d_number_f (Inf s) n = (if s then ''-inf'' else ''inf'')"
| "d_number_f NaN n = ''nan''"

text \<open>The exact value of an unsigned decimal text with an optional fraction and exponent.\<close>

definition parse_exponent :: "string \<Rightarrow> int option" where
  "parse_exponent s = (case s of
     [] \<Rightarrow> Some 0
   | e # t \<Rightarrow> if e = CHR ''e'' \<or> e = CHR ''E'' then parse_signed t else None)"

definition split_fraction :: "string \<Rightarrow> string \<times> string" where
  "split_fraction s = (case s of
     [] \<Rightarrow> ([], [])
   | d # t \<Rightarrow> if d = CHR ''.'' then (takeWhile is_digit t, dropWhile is_digit t) else ([], s))"

definition pow10 :: "int \<Rightarrow> rat" where
  "pow10 e = (if 0 \<le> e then 10 ^ nat e else 1 / 10 ^ nat (- e))"

definition parse_decimal :: "string \<Rightarrow> rat option" where
  "parse_decimal s =
     (let ip = takeWhile is_digit s; (fp, rest) = split_fraction (dropWhile is_digit s) in
      case (parse_nat 10 (ip @ fp), parse_exponent rest) of
        (Some m, Some e) \<Rightarrow> Some (of_nat m / 10 ^ length fp * pow10 e)
      | _ \<Rightarrow> None)"

definition read_magnitude :: "bool \<Rightarrow> string \<Rightarrow> double option" where
  "read_magnitude neg s =
     (if s = ''inf'' then Some (Inf neg)
      else map_option (\<lambda>r. mk_double (if neg then - r else r)) (parse_decimal s))"

definition d_toDouble_opt :: "string \<Rightarrow> double option" where
  "d_toDouble_opt s = (case q_trimmed s of
     [] \<Rightarrow> None
   | c # cs \<Rightarrow>
       if c # cs = ''nan'' then Some NaN
       else if c = CHR ''-'' then read_magnitude True cs
       else if c = CHR ''+'' then read_magnitude False cs
       else read_magnitude False (c # cs))"

definition d_toDouble :: "string \<Rightarrow> double" where
  "d_toDouble s = (case d_toDouble_opt s of Some d \<Rightarrow> d | None \<Rightarrow> Fin 0)"

subsection \<open>The rounding error\<close>

lemma ilog2_bounds: "0 < n \<Longrightarrow> 2 ^ ilog2 n \<le> n \<and> n < 2 ^ Suc (ilog2 n)"
proof (induction n rule: ilog2.induct)
  case (1 n)
  show ?case
  proof (cases "n < 2")
    case True
    with 1 show ?thesis by (simp add: ilog2.simps [of n])
  next
    case False
    with 1 have "2 ^ ilog2 (n div 2) \<le> n div 2" "n div 2 < 2 ^ Suc (ilog2 (n div 2))" by auto
    with False show ?thesis by (simp add: ilog2.simps [of n]) linarith
  qed
qed

lemma pow2_neg: "pow2 (- int k) = 1 / 2 ^ k"
  by (simp add: pow2_def)

lemma expo_le: assumes "0 < x" shows "pow2 (expo x) \<le> x"
proof (cases "1 \<le> x")
  case True
  let ?n = "nat \<lfloor>x\<rfloor>"
  have "0 < ?n" using True by (simp add: zero_less_nat_eq)
  then have "2 ^ ilog2 ?n \<le> ?n" using ilog2_bounds by blast
  then have "of_nat (2 ^ ilog2 ?n) \<le> (of_nat ?n :: rat)" by (simp only: of_nat_le_iff)
  also have "\<dots> = of_int \<lfloor>x\<rfloor>" using True by (simp add: of_nat_nat)
  also have "\<dots> \<le> x" by simp
  finally show ?thesis using True by (simp add: expo_def pow2_def)
next
  case False
  let ?n = "nat (\<lceil>1 / x\<rceil> - 1)"
  have x1: "1 < 1 / x" using False assms by simp
  then have c: "2 \<le> \<lceil>1 / x\<rceil>" by (simp add: le_ceiling_iff)
  then have n: "0 < ?n" by simp
  then have "?n < 2 ^ Suc (ilog2 ?n)" using ilog2_bounds by blast
  then have "?n + 1 \<le> 2 ^ Suc (ilog2 ?n)" by simp
  then have "of_nat (?n + 1) \<le> (of_nat (2 ^ Suc (ilog2 ?n)) :: rat)" by (simp only: of_nat_le_iff)
  moreover have "int (nat (C - 1) + 1) = C" if "2 \<le> C" for C :: int using that by simp
  from this [OF c] have "int (?n + 1) = \<lceil>1 / x\<rceil>" .
  then have "(of_nat (?n + 1) :: rat) = of_int \<lceil>1 / x\<rceil>" by (metis of_int_of_nat_eq)
  moreover have "1 / x \<le> of_int \<lceil>1 / x\<rceil>" by (rule le_of_int_ceiling)
  ultimately have "1 / x \<le> 2 ^ Suc (ilog2 ?n)" by (simp only: of_nat_power of_nat_numeral)
  then have "1 / 2 ^ Suc (ilog2 ?n) \<le> x" using assms by (simp add: field_simps)
  moreover have "expo x = - int (Suc (ilog2 ?n))" using False by (simp only: expo_def if_False)
  ultimately show ?thesis by (simp only: pow2_neg)
qed

lemma pow2_pos [simp]: "0 < pow2 e" "0 \<le> pow2 e"
  by (simp_all add: pow2_def)

lemma pow2_diff: "pow2 (e - int k) = pow2 e / 2 ^ k"
proof (cases "0 \<le> e - int k")
  case True
  then have "nat e = nat (e - int k) + k" by simp
  then have "(2::rat) ^ nat e = 2 ^ nat (e - int k) * 2 ^ k" by (simp only: power_add)
  with True show ?thesis by (simp add: pow2_def)
next
  case False
  show ?thesis
  proof (cases "0 \<le> e")
    case True
    have "k = nat e + nat (- (e - int k))" using False True by simp
    then have "(2::rat) ^ k = 2 ^ nat e * 2 ^ nat (- (e - int k))" by (metis power_add)
    with False True show ?thesis by (simp add: pow2_def)
  next
    case neg: False
    have "nat (- (e - int k)) = nat (- e) + k" using neg by simp
    then show ?thesis using False neg by (simp add: pow2_def power_add)
  qed
qed

lemma round_half_even_error: "\<bar>of_int (round_half_even x) - x\<bar> \<le> (1 / 2 :: rat)"
proof -
  define f where "f = \<lfloor>x\<rfloor>"
  have b: "of_int f \<le> x" "x \<le> of_int f + 1" unfolding f_def by linarith+
  have "round_half_even x = f \<and> x - of_int f \<le> 1 / 2
      \<or> round_half_even x = f + 1 \<and> 1 / 2 \<le> x - of_int f"
    by (auto simp: round_half_even_def Let_def f_def not_less)
  then show ?thesis
  proof
    assume "round_half_even x = f \<and> x - of_int f \<le> 1 / 2"
    with b show ?thesis by (simp add: abs_le_iff)
  next
    assume "round_half_even x = f + 1 \<and> 1 / 2 \<le> x - of_int f"
    with b show ?thesis by (simp add: abs_le_iff)
  qed
qed

lemma ulp_pos [simp]: "0 < ulp x"
  by (simp add: ulp_def)

lemma round_mag_error: "\<bar>round_mag x - x\<bar> \<le> ulp x / 2"
proof -
  have "round_mag x - x = (of_int (round_half_even (x / ulp x)) - x / ulp x) * ulp x"
    using ulp_pos [of x] by (simp add: round_mag_def left_diff_distrib del: ulp_pos)
  then have "\<bar>round_mag x - x\<bar> = \<bar>of_int (round_half_even (x / ulp x)) - x / ulp x\<bar> * ulp x"
    using ulp_pos [of x] by (simp only: abs_mult abs_of_pos)
  also have "\<dots> \<le> 1 / 2 * ulp x"
    by (intro mult_right_mono round_half_even_error less_imp_le [OF ulp_pos])
  finally show ?thesis by simp
qed

text \<open>At a number above the subnormal range the distance is at most the number times \<open>2^-52\<close>.\<close>

lemma ulp_le:
  assumes "0 < x" "pow2 (- 1022) \<le> x" shows "ulp x \<le> x / 2 ^ 52"
proof -
  have m: "pow2 (expo x - 52) \<le> x / 2 ^ 52"
    using expo_le [OF assms(1)] pow2_diff [of "expo x" 52] by simp
  have "pow2 (- 1074) = pow2 (- 1022) / 2 ^ 52"
    using pow2_diff [of "- 1022" 52] by simp
  then have "pow2 (- 1074) \<le> x / 2 ^ 52"
    using assms(2) by (simp only: divide_right_mono zero_le_power zero_le_numeral)
  with m show ?thesis by (simp add: ulp_def max_def)
qed

lemma round_mag_rel_error:
  assumes "0 < x" "pow2 (- 1022) \<le> x" shows "\<bar>round_mag x - x\<bar> \<le> x / 2 ^ 53"
  using round_mag_error [of x] ulp_le [OF assms] by simp


subsection \<open>Printing and reading a decimal\<close>

lemma pad_digits_length [simp]: "length (pad_digits n k) = n"
  by (induction n arbitrary: k) auto

lemma pad_digits_value:
  "digits_val 10 a (pad_digits n k) = Some (a * 10 ^ n + k mod 10 ^ n)"
proof (induction n arbitrary: k)
  case (Suc n)
  have "k mod 10 ^ Suc n = 10 * (k div 10 mod 10 ^ n) + k mod 10"
    using mod_mult2_eq [of k 10 "10 ^ n"] by simp
  with Suc show ?case by (simp add: digits_val_append digit_val_digit_char algebra_simps)
qed simp

lemma digit_is_digit: "d < 10 \<Longrightarrow> is_digit (digit_char d)"
  by (simp add: is_digit_def of_char_digit_char)

lemma number_digits: "\<forall>c\<in>set (q_number_nat 10 n). is_digit c"
  using set_q_number_nat [of 10 _ n] digit_is_digit by auto

lemma pad_digits_digits: "\<forall>c\<in>set (pad_digits n k). is_digit c"
  by (induction n arbitrary: k) (auto simp: digit_is_digit)

lemma digits_split:
  "\<forall>c\<in>set a. is_digit c \<Longrightarrow> s = [] \<or> \<not> is_digit (hd s) \<Longrightarrow>
    takeWhile is_digit (a @ s) = a \<and> dropWhile is_digit (a @ s) = s"
  by (induction a) (cases s; auto)+

lemma parse_decimal_text: "parse_decimal (decimal_text n k) = Some (of_nat k / 10 ^ n)"
proof -
  let ?ip = "q_number_nat 10 (k div 10 ^ n)" and ?fp = "pad_digits n (k mod 10 ^ n)"
  let ?rest = "if n = 0 then [] else CHR ''.'' # ?fp"
  have "\<not> is_digit CHR ''.''" by (simp add: is_digit_def)
  then have ip: "takeWhile is_digit (?ip @ ?rest) = ?ip" "dropWhile is_digit (?ip @ ?rest) = ?rest"
    using digits_split [OF number_digits, of ?rest "k div 10 ^ n"] by auto
  have fp: "split_fraction ?rest = (?fp, [])"
    using digits_split [OF pad_digits_digits, of "[]" n "k mod 10 ^ n"]
    by (cases n) (simp_all add: split_fraction_def)
  have "digits_val 10 0 (?ip @ ?fp) = Some (k div 10 ^ n * 10 ^ n + k mod 10 ^ n)"
    by (simp add: digits_val_append digits_val_q_number_nat pad_digits_value)
  then have "parse_nat 10 (?ip @ ?fp) = Some k" by (simp add: parse_nat_def) (rule div_mult_mod_eq)
  then show ?thesis
    by (simp add: parse_decimal_def decimal_text_def ip fp parse_exponent_def pow10_def)
qed

lemma decimal_text_set: "c \<in> set (decimal_text n k) \<Longrightarrow> is_digit c \<or> c = CHR ''.''"
  using number_digits pad_digits_digits by (auto simp: decimal_text_def split: if_splits)

lemma is_digit_no_space: "is_digit c \<Longrightarrow> \<not> is_space c"
  by (auto simp: is_digit_def is_space_def)

lemma plain_decimal_text [simp]: "plain (decimal_text n k)"
proof -
  have "c \<noteq> CHR '':'' \<and> \<not> is_space c" if "c \<in> set (decimal_text n k)" for c
    using decimal_text_set [OF that] is_digit_no_space [of c] by (auto simp: is_space_def is_digit_def)
  then show ?thesis by (simp add: plain_def)
qed

lemma decimal_text_Cons: "\<exists>c cs. decimal_text n k = c # cs \<and> is_digit c"
proof (cases "q_number_nat 10 (k div 10 ^ n)")
  case (Cons c cs)
  then have "is_digit c" using number_digits [of "k div 10 ^ n"] by simp
  with Cons show ?thesis by (simp add: decimal_text_def)
qed simp

lemma plain_number_f [simp]: "plain (d_number_f d n)"
  by (cases d) (simp_all add: is_space_def)

text \<open>What is printed reads back as the printed decimal, rounded to a double.\<close>

lemma toDouble_number_f:
  "d_toDouble (d_number_f (Fin r) n) =
    mk_double ((if r < 0 then - 1 else 1) * of_nat (decimal_units n r) / 10 ^ n)"
proof -
  obtain c cs where c: "decimal_text n (decimal_units n r) = c # cs" "is_digit c"
    using decimal_text_Cons by blast
  then have c': "c \<noteq> CHR ''-''" "c \<noteq> CHR ''+''" "c \<noteq> CHR ''n''" "c \<noteq> CHR ''i''"
    by (auto simp: is_digit_def)
  have "parse_decimal (c # cs) = Some (of_nat (decimal_units n r) / 10 ^ n)"
    using parse_decimal_text [of n "decimal_units n r"] c by simp
  then have m: "read_magnitude neg (c # cs) =
      Some (mk_double ((if neg then - 1 else 1) * of_nat (decimal_units n r) / 10 ^ n))" for neg
    using c' by (simp add: read_magnitude_def)
  have "q_trimmed (d_number_f (Fin r) n) = d_number_f (Fin r) n"
    by (rule plain_trimmed) (rule plain_number_f)
  then show ?thesis
    using c c' m by (simp add: d_toDouble_def d_toDouble_opt_def)
qed

subsection \<open>Decimals survive\<close>

text \<open>\<open>dec n k\<close> is the double nearest to the decimal \<open>k / 10 ^ n\<close>: what a coordinate given with \<open>n\<close>
  digits after the point is in the program. \<open>survives n d\<close>: \<open>d\<close> printed with \<open>n\<close> digits reads back
  as \<open>d\<close>.\<close>

definition dec :: "nat \<Rightarrow> int \<Rightarrow> double" where
  "dec n k = mk_double (of_int k / 10 ^ n)"

definition survives :: "nat \<Rightarrow> double \<Rightarrow> bool" where
  "survives n d \<longleftrightarrow> d_toDouble (d_number_f d n) = d"

lemma round_mag_nonneg: "0 < x \<Longrightarrow> pow2 (- 1022) \<le> x \<Longrightarrow> 0 < round_mag x"
proof -
  assume x: "0 < x" "pow2 (- 1022) \<le> x"
  then have "\<bar>round_mag x - x\<bar> \<le> x / 2 ^ 53" by (rule round_mag_rel_error)
  also have "\<dots> < x" using x by (simp add: field_simps)
  finally show ?thesis by linarith
qed

lemma mk_double_normal:
  assumes "r \<noteq> 0" "pow2 (- 1022) \<le> \<bar>r\<bar>" "\<bar>r\<bar> < 2 ^ 1000"
  shows "\<exists>q. mk_double r = Fin q \<and> \<bar>q - r\<bar> \<le> \<bar>r\<bar> / 2 ^ 53 \<and> (q < 0 \<longleftrightarrow> r < 0)"
proof -
  let ?m = "round_mag \<bar>r\<bar>"
  have e: "\<bar>?m - \<bar>r\<bar>\<bar> \<le> \<bar>r\<bar> / 2 ^ 53" using assms(1,2) by (intro round_mag_rel_error) auto
  have p: "0 < ?m" using assms(1,2) by (intro round_mag_nonneg) auto
  have "\<bar>r\<bar> / 2 ^ 53 \<le> \<bar>r\<bar>" by (simp add: field_simps)
  with e have "?m \<le> 2 * \<bar>r\<bar>" by linarith
  also have "\<dots> < 2 * 2 ^ 1000" using assms(3) by simp
  also have "\<dots> \<le> 2 ^ 1024"
    using power_increasing [of "Suc 1000" 1024 "2 :: rat"] by (simp only: power_Suc)
  finally have "\<not> 2 ^ 1024 \<le> ?m" by (simp only: not_le)
  then have "mk_double r = Fin (if r < 0 then - ?m else ?m)"
    unfolding mk_double_def Let_def using assms(1) by (simp only: if_False)
  then show ?thesis using e p by (cases "r < 0") auto
qed

lemma decimal_units_near:
  assumes "\<bar>q * 10 ^ n - of_int k\<bar> < 1 / 2"
  shows "decimal_units n q = nat \<bar>k\<bar>"
proof -
  have "\<bar>q\<bar> * 10 ^ n = \<bar>q * 10 ^ n\<bar>" by (simp add: abs_mult)
  moreover have "\<bar>\<bar>q * 10 ^ n\<bar> - \<bar>of_int k\<bar>\<bar> \<le> \<bar>q * 10 ^ n - of_int k\<bar>" by (rule abs_triangle_ineq3)
  ultimately have "\<bar>\<bar>q\<bar> * 10 ^ n - of_int \<bar>k\<bar>\<bar> < 1 / 2" using assms by simp
  then have "\<lfloor>\<bar>q\<bar> * 10 ^ n + 1 / 2\<rfloor> = \<bar>k\<bar>" unfolding abs_less_iff by (intro floor_unique) linarith+
  then show ?thesis by (simp add: decimal_units_def)
qed

lemma pow2_min: "n \<le> 300 \<Longrightarrow> pow2 (- 1022) \<le> 1 / 10 ^ n"
proof -
  assume n: "n \<le> 300"
  have "(10::rat) ^ n \<le> (10::rat) ^ 300" using n by (intro power_increasing) auto
  also have "\<dots> \<le> 2 ^ 1022"
    using power_mono [of 10 "2 ^ 3 * (4/3) :: rat" 300] by simp
  finally show ?thesis by (simp add: pow2_def field_simps)
qed

theorem dec_survives:
  assumes "\<bar>k\<bar> < 2 ^ 52" "n \<le> 300"
  shows "survives n (dec n k)"
proof (cases "k = 0")
  case True
  then show ?thesis
    using toDouble_number_f [of 0 n] by (simp add: survives_def dec_def mk_double_def decimal_units_def)
next
  case False
  let ?r = "of_int k / 10 ^ n :: rat"
  have a: "\<bar>?r\<bar> = of_int \<bar>k\<bar> / 10 ^ n" by simp
  have "1 \<le> \<bar>k\<bar>" using False by simp
  then have "1 / 10 ^ n \<le> \<bar>?r\<bar>" unfolding a by (simp add: divide_right_mono)
  then have lo: "pow2 (- 1022) \<le> \<bar>?r\<bar>" using pow2_min [OF assms(2)] by linarith
  have k: "of_int \<bar>k\<bar> < (2 ^ 52 :: rat)" using assms(1) by (metis of_int_less_iff of_int_numeral of_int_power)
  have "\<bar>?r\<bar> \<le> of_int \<bar>k\<bar>" unfolding a using False by (simp add: field_simps)
  also have "\<dots> < 2 ^ 1000" using k by simp
  finally obtain q where q: "mk_double ?r = Fin q" "\<bar>q - ?r\<bar> \<le> \<bar>?r\<bar> / 2 ^ 53" "q < 0 \<longleftrightarrow> ?r < 0"
    using mk_double_normal [of ?r] False lo by auto
  have "q * 10 ^ n - of_int k = (q - ?r) * 10 ^ n" by (simp add: left_diff_distrib)
  then have "\<bar>q * 10 ^ n - of_int k\<bar> = \<bar>q - ?r\<bar> * 10 ^ n" by (simp only: abs_mult) simp
  also have "\<dots> \<le> \<bar>?r\<bar> / 2 ^ 53 * 10 ^ n" using q(2) by (intro mult_right_mono) auto
  also have "\<dots> = of_int \<bar>k\<bar> / 2 ^ 53" unfolding a by simp
  also have "\<dots> < 1 / 2" using k by simp
  finally have "decimal_units n q = nat \<bar>k\<bar>" by (rule decimal_units_near)
  moreover have "q < 0 \<longleftrightarrow> k < 0" using q(3) by (simp add: divide_less_0_iff)
  moreover have "(if k < 0 then - 1 else 1) * of_nat (nat \<bar>k\<bar>) = (of_int k :: rat)" by simp
  ultimately have "d_toDouble (d_number_f (Fin q) n) = mk_double ?r"
    by (simp only: toDouble_number_f)
  then show ?thesis by (simp only: survives_def dec_def q(1))
qed

text \<open>Any double of moderate size is a decimal after one trip, so a second trip changes nothing.\<close>

theorem number_f_settles:
  assumes "\<bar>r\<bar> * 10 ^ n < 2 ^ 51" "n \<le> 300"
  shows "survives n (d_toDouble (d_number_f (Fin r) n))"
proof -
  let ?k = "(if r < 0 then - 1 else 1) * int (decimal_units n r)"
  have d: "d_toDouble (d_number_f (Fin r) n) = dec n ?k" by (simp only: toDouble_number_f dec_def) simp
  have "\<lfloor>\<bar>r\<bar> * 10 ^ n + 1 / 2\<rfloor> < 2 ^ 52"
    using assms(1) by (simp add: floor_less_iff)
  moreover have "int (nat x) < c" if "x < c" "0 < c" for x c :: int using that by simp
  ultimately have "int (decimal_units n r) < 2 ^ 52" unfolding decimal_units_def by (metis zero_less_power zero_less_numeral)
  then have "\<bar>?k\<bar> < 2 ^ 52" by simp
  then show ?thesis using assms(2) unfolding d by (rule dec_survives)
qed

subsection \<open>Small values, evaluated\<close>

lemma expo_less: assumes "0 < x" shows "x < pow2 (expo x + 1)"
proof (cases "1 \<le> x")
  case True
  let ?n = "nat \<lfloor>x\<rfloor>"
  have "0 < ?n" using True by (simp add: zero_less_nat_eq)
  then have "?n + 1 \<le> 2 ^ Suc (ilog2 ?n)" using ilog2_bounds [of ?n] by linarith
  then have "(of_nat (?n + 1) :: rat) \<le> of_nat (2 ^ Suc (ilog2 ?n))" by (simp only: of_nat_le_iff)
  moreover have "x < of_nat (?n + 1)" using True by (simp add: of_nat_nat) linarith
  ultimately have "x < 2 ^ Suc (ilog2 ?n)" by (simp only: of_nat_power of_nat_numeral)
  moreover have "nat (expo x + 1) = Suc (ilog2 ?n)" "0 \<le> expo x + 1" using True by (simp_all add: expo_def)
  ultimately show ?thesis by (simp only: pow2_def if_True)
next
  case False
  let ?n = "nat (\<lceil>1 / x\<rceil> - 1)"
  have "1 < 1 / x" using False assms by simp
  then have "2 \<le> \<lceil>1 / x\<rceil>" by (simp add: le_ceiling_iff)
  then have "0 < ?n" by simp
  then have "2 ^ ilog2 ?n \<le> ?n" using ilog2_bounds by blast
  then have "(of_nat (2 ^ ilog2 ?n) :: rat) \<le> of_nat ?n" by (simp only: of_nat_le_iff)
  also have "\<dots> = of_int (\<lceil>1 / x\<rceil> - 1)"
    by (rule of_nat_nat) (use \<open>0 < ?n\<close> in linarith)
  also have "\<dots> < 1 / x" by linarith
  finally have "x < 1 / 2 ^ ilog2 ?n" using assms by (simp add: field_simps)
  moreover have "expo x + 1 = - int (ilog2 ?n)" using False by (simp add: expo_def)
  ultimately show ?thesis by (simp only: pow2_neg)
qed

lemma pow2_mono: "a \<le> b \<Longrightarrow> pow2 a \<le> pow2 b"
proof -
  assume "a \<le> b"
  then have "a = b - int (nat (b - a))" by simp
  then have "pow2 a = pow2 b / 2 ^ nat (b - a)" by (metis pow2_diff)
  also have "\<dots> \<le> pow2 b / 1" by (intro divide_left_mono) auto
  finally show ?thesis by simp
qed

lemma expo_eqI: "pow2 e \<le> x \<Longrightarrow> x < pow2 (e + 1) \<Longrightarrow> expo x = e"
proof -
  assume e: "pow2 e \<le> x" "x < pow2 (e + 1)"
  then have x: "0 < x" using pow2_pos(1) [of e] by linarith
  have "\<not> expo x + 1 \<le> e" using pow2_mono [of "expo x + 1" e] expo_less [OF x] e by linarith
  moreover have "\<not> e + 1 \<le> expo x" using pow2_mono [of "e + 1" "expo x"] expo_le [OF x] e by linarith
  ultimately show ?thesis by linarith
qed

text \<open>A positive value of known exponent rounds to a multiple of a known unit.\<close>

lemma mk_double_eval:
  assumes "pow2 e \<le> x" "x < pow2 (e + 1)" "- 1022 \<le> e" "e \<le> 999"
  shows "mk_double x = Fin (of_int (round_half_even (x / pow2 (e - 52))) * pow2 (e - 52))"
    and "mk_double (- x) = Fin (- (of_int (round_half_even (x / pow2 (e - 52))) * pow2 (e - 52)))"
proof -
  have x: "0 < x" using assms(1) pow2_pos(1) [of e] by linarith
  have "max (e - 52) (- 1074) = e - 52" using assms(3) by simp
  then have u: "ulp x = pow2 (e - 52)" using expo_eqI [OF assms(1,2)] by (simp add: ulp_def)
  have m: "round_mag x = of_int (round_half_even (x / pow2 (e - 52))) * pow2 (e - 52)"
    by (simp add: round_mag_def u)
  have lo: "pow2 (- 1022) \<le> \<bar>x\<bar>" using pow2_mono [OF assms(3)] assms(1) x by linarith
  have "pow2 (e + 1) \<le> pow2 1000" using assms(4) by (intro pow2_mono) simp
  moreover have "pow2 1000 = 2 ^ 1000" by (simp only: pow2_def) simp
  ultimately have hi: "\<bar>x\<bar> < 2 ^ 1000" using assms(2) x by linarith
  from mk_double_normal [OF _ lo hi] x obtain q where "mk_double x = Fin q" by auto
  moreover have "mk_double x = (if 2 ^ 1024 \<le> round_mag x then Inf False else Fin (round_mag x))"
    using x by (simp add: mk_double_def Let_def)
  ultimately have f: "\<not> 2 ^ 1024 \<le> round_mag x" by (metis double.distinct(1))
  then show "mk_double x = Fin (of_int (round_half_even (x / pow2 (e - 52))) * pow2 (e - 52))"
    using x m by (simp add: mk_double_def Let_def)
  show "mk_double (- x) = Fin (- (of_int (round_half_even (x / pow2 (e - 52))) * pow2 (e - 52)))"
    using x m f by (simp add: mk_double_def Let_def)
qed

text \<open>Up to \<open>2^12\<close> the rounding error is below \<open>2^-40\<close>, and integers are exact.\<close>

lemma ulp_small:
  assumes "0 < x" "x \<le> 2 ^ 12" shows "ulp x \<le> 1 / 2 ^ 40"
proof -
  have "pow2 (expo x - 52) \<le> x / 2 ^ 52" using expo_le [OF assms(1)] pow2_diff [of "expo x" 52] by simp
  also have "\<dots> \<le> 1 / 2 ^ 40" using assms(2) by simp
  finally have "pow2 (expo x - 52) \<le> 1 / 2 ^ 40" .
  moreover have "pow2 (- 1074) \<le> 1 / 2 ^ 40"
    unfolding pow2_neg [symmetric] by (intro pow2_mono) simp
  ultimately show ?thesis by (simp add: ulp_def max_def)
qed

lemma mk_double_close:
  assumes "\<bar>r\<bar> \<le> 2 ^ 12"
  shows "\<exists>q. mk_double r = Fin q \<and> \<bar>q - r\<bar> \<le> 1 / 2 ^ 41"
proof (cases "r = 0")
  case False
  let ?m = "round_mag \<bar>r\<bar>"
  have e: "\<bar>?m - \<bar>r\<bar>\<bar> \<le> 1 / 2 ^ 41"
    using round_mag_error [of "\<bar>r\<bar>"] ulp_small [of "\<bar>r\<bar>"] False assms by simp
  then have "?m - \<bar>r\<bar> \<le> 1 / 2 ^ 41" by (rule abs_le_D1)
  also have "\<dots> \<le> 1" by simp
  finally have "?m \<le> 2 ^ 12 + 1" using assms by linarith
  also have "\<dots> < 2 ^ 13" by simp
  also have "\<dots> < 2 ^ 1024" by (rule power_strict_increasing) auto
  finally have "\<not> 2 ^ 1024 \<le> ?m" by (simp only: not_le)
  then have "mk_double r = Fin (if r < 0 then - ?m else ?m)"
    unfolding mk_double_def Let_def using False by (simp only: if_False)
  moreover have "(if r < 0 then - ?m else ?m) - r = (if r < 0 then - (?m - \<bar>r\<bar>) else ?m - \<bar>r\<bar>)" by simp
  then have "\<bar>(if r < 0 then - ?m else ?m) - r\<bar> = \<bar>?m - \<bar>r\<bar>\<bar>" by (metis abs_minus_cancel)
  then have "\<bar>(if r < 0 then - ?m else ?m) - r\<bar> \<le> 1 / 2 ^ 41" using e by (simp only:)
  ultimately show ?thesis by blast
qed (simp add: mk_double_def)

lemma round_half_even_int [simp]: "round_half_even (of_int k) = k"
  by (simp add: round_half_even_def)

lemma mk_double_int:
  assumes "\<bar>k\<bar> < 2 ^ 53" shows "d_of_int k = Fin (of_int k)"
proof (cases "k = 0")
  case False
  let ?x = "\<bar>of_int k\<bar> :: rat"
  have x: "0 < ?x" using False by simp
  have b: "?x < 2 ^ 53" using assms by (metis of_int_abs of_int_less_iff of_int_numeral of_int_power)
  have "pow2 (expo ?x) < pow2 53" using expo_le [OF x] b by (simp add: pow2_def)
  then have e: "expo ?x < 53" using pow2_mono [of 53 "expo ?x"] by linarith
  have "1 \<le> ?x" using False by (simp flip: of_int_abs)
  then have e0: "0 \<le> expo ?x" by (simp add: expo_def)
  let ?s = "nat (52 - expo ?x)"
  have ex: "expo ?x - 52 = - int ?s" using e by simp
  have u: "ulp ?x = 1 / 2 ^ ?s" using e0 ex pow2_neg [of ?s] by (simp add: ulp_def)
  have "?x / ulp ?x = of_int (\<bar>k\<bar> * 2 ^ ?s)" by (simp add: u)
  then have "round_mag ?x = of_int (\<bar>k\<bar> * 2 ^ ?s) * (1 / 2 ^ ?s)"
    unfolding round_mag_def by (simp only: round_half_even_int u)
  then have m: "round_mag ?x = ?x" by simp
  have "?x < 2 ^ 1024" using b power_strict_increasing [of 53 1024 "2::rat"] by linarith
  then have "\<not> 2 ^ 1024 \<le> ?x" by (simp only: not_le)
  then show ?thesis
    using False m by (simp add: d_of_int_def mk_double_def Let_def)
qed (simp add: d_of_int_def mk_double_def)

text \<open>An \<open>int\<close> printed and read as a double is itself.\<close>

lemma toDouble_number_int: "int32 i \<Longrightarrow> d_toDouble (q_number i) = Fin (of_int i)"
proof -
  assume "int32 i"
  then have i: "\<bar>i\<bar> < 2 ^ 53" by (simp add: int32_def abs_less_iff)
  have "decimal_units 0 (of_int i) = nat \<bar>i\<bar>"
    by (rule decimal_units_near) simp
  then have "q_number i = d_number_f (Fin (of_int i)) 0"
    by (simp add: q_number_def decimal_text_def)
  then have "d_toDouble (q_number i) = mk_double ((if of_int i < (0::rat) then - 1 else 1) * of_nat (nat \<bar>i\<bar>) / 10 ^ 0)"
    using toDouble_number_f [of "of_int i" 0] \<open>decimal_units 0 (of_int i) = nat \<bar>i\<bar>\<close> by (simp only:)
  also have "\<dots> = d_of_int i" by (simp add: d_of_int_def)
  finally show ?thesis using mk_double_int [OF i] by simp
qed

lemma round_half_even_eqI: "\<bar>x - of_int k\<bar> < 1 / 2 \<Longrightarrow> round_half_even x = k"
proof -
  assume a: "\<bar>x - of_int k\<bar> < 1 / 2"
  have "\<bar>of_int (round_half_even x - k)\<bar> \<le> \<bar>of_int (round_half_even x) - x\<bar> + \<bar>x - of_int k :: rat\<bar>"
    using abs_triangle_ineq [of "of_int (round_half_even x) - x" "x - of_int k"] by simp
  also have "\<dots> < 1" using a round_half_even_error [of x] by linarith
  finally have "\<bar>round_half_even x - k\<bar> < 1" by (metis of_int_abs of_int_less_1_iff)
  then show ?thesis by simp
qed

lemma mk_double_eqI:
  assumes "pow2 e \<le> x" "x < pow2 (e + 1)" "- 1022 \<le> e" "e \<le> 999"
    and "\<bar>x / pow2 (e - 52) - of_int k\<bar> < 1 / 2"
  shows "mk_double x = Fin (of_int k * pow2 (e - 52))" "mk_double (- x) = Fin (- (of_int k * pow2 (e - 52)))"
  using mk_double_eval [OF assms(1-4)] round_half_even_eqI [OF assms(5)] by simp_all

end
