(* ===== verification/FsdPbh.thy ===== *)
theory FsdPbh
  imports Doubles
begin

section \<open>Pitch, bank and heading in 32 bits\<close>

text \<open>
  \<open>blackcore/fsd/pbh.h\<close>. The union \<open>PBH\<close> is its 32-bit word; the bit fields are laid out from the
  least significant bit up, as the supported compilers do: \<open>unused\<close> 1 bit, \<open>onground\<close> 1, \<open>hdg\<close> 10,
  \<open>bank\<close> 10 and \<open>pitch\<close> 10, the last two signed. Assigning a field keeps its low bits.
\<close>

unbundle bit_operations_syntax

definition PBH_pack :: "int \<Rightarrow> int \<Rightarrow> 32 word \<Rightarrow> bool \<Rightarrow> 32 word" where
  "PBH_pack pitch bank hdg onground =
     push_bit 22 (take_bit 10 (word_of_int pitch)) OR push_bit 12 (take_bit 10 (word_of_int bank))
     OR push_bit 2 (take_bit 10 hdg) OR (if onground then 2 else 0)"

definition PBH_pitch :: "32 word \<Rightarrow> int" where
  "PBH_pitch w = signed_take_bit 9 (uint (drop_bit 22 w))"

definition PBH_bank :: "32 word \<Rightarrow> int" where
  "PBH_bank w = signed_take_bit 9 (uint (drop_bit 12 w))"

definition PBH_hdg :: "32 word \<Rightarrow> int" where
  "PBH_hdg w = uint (take_bit 10 (drop_bit 2 w))"

definition PBH_onground :: "32 word \<Rightarrow> bool" where
  "PBH_onground w \<longleftrightarrow> drop_bit 1 w AND 1 = 1"

text \<open>The constants are doubles too: the quotients rounded.\<close>

definition pitchMultiplier :: double where
  "pitchMultiplier = d_div (Fin 256) (Fin 90)"

definition bankMultiplier :: double where
  "bankMultiplier = d_div (Fin 512) (Fin 180)"

definition headingMultiplier :: double where
  "headingMultiplier = d_div (Fin 1024) (Fin 360)"

definition packPBH :: "double \<Rightarrow> double \<Rightarrow> double \<Rightarrow> bool \<Rightarrow> 32 word" where
  "packPBH pitch bank heading onGround =
     PBH_pack (qFloor (d_mul pitch (d_neg pitchMultiplier)))
       (qFloor (d_mul bank (d_neg bankMultiplier)))
       (d_to_uint (d_mul heading headingMultiplier)) onGround"

definition unpackPBH :: "32 word \<Rightarrow> double \<times> double \<times> double \<times> bool" where
  "unpackPBH pbh =
     (let iPitch = qFloor (d_div (d_of_int (PBH_pitch pbh)) (d_neg pitchMultiplier));
          iBank = qFloor (d_div (d_of_int (PBH_bank pbh)) (d_neg bankMultiplier))
      in (d_of_int iPitch, d_of_int iBank,
          d_div (d_of_int (PBH_hdg pbh)) headingMultiplier, PBH_onground pbh))"

subsection \<open>The fields are independent\<close>

lemma PBH_onground_bit: "PBH_onground w \<longleftrightarrow> bit w 1"
  by (simp add: PBH_onground_def and_one_eq bit_iff_odd_drop_bit mod_2_eq_odd)

lemma PBH_fields:
  "PBH_pitch (PBH_pack p b h g) = signed_take_bit 9 p"
  "PBH_bank (PBH_pack p b h g) = signed_take_bit 9 b"
  "PBH_hdg (PBH_pack p b h g) = uint (take_bit 10 h)"
  "PBH_onground (PBH_pack p b h g) = g"
proof -
  show "PBH_pitch (PBH_pack p b h g) = signed_take_bit 9 p"
    unfolding PBH_pitch_def PBH_pack_def
    by (rule bit_eqI) (auto simp: bit_simps bit_1_iff min_def)
  show "PBH_bank (PBH_pack p b h g) = signed_take_bit 9 b"
    unfolding PBH_bank_def PBH_pack_def
    by (rule bit_eqI) (auto simp: bit_simps bit_1_iff min_def)
  show "PBH_hdg (PBH_pack p b h g) = uint (take_bit 10 h)"
    unfolding PBH_hdg_def PBH_pack_def
    by (rule bit_eqI) (auto simp: bit_simps bit_1_iff min_def)
  show "PBH_onground (PBH_pack p b h g) = g"
    unfolding PBH_onground_bit PBH_pack_def by (cases g) (simp_all add: bit_simps bit_1_iff)
qed

subsection \<open>The attitude survives\<close>

text \<open>The three multipliers are one double, a little above 128/45.\<close>

definition mult45 :: rat where
  "mult45 = 6405119470038039 / 2251799813685248"

lemma multipliers:
  "pitchMultiplier = Fin mult45" "bankMultiplier = Fin mult45" "headingMultiplier = Fin mult45"
proof -
  have "mk_double (128 / 45) = Fin mult45"
    using mk_double_eqI(1) [of 1 "128 / 45" 6405119470038039] by (simp add: mult45_def pow2_def)
  then show "pitchMultiplier = Fin mult45" "bankMultiplier = Fin mult45" "headingMultiplier = Fin mult45"
    by (simp_all add: pitchMultiplier_def bankMultiplier_def headingMultiplier_def)
qed

lemma mult45_bounds: "128 / 45 < mult45" "mult45 < 128 / 45 + 1 / 2 ^ 50"
  by (simp_all add: mult45_def)

text \<open>What is stored for an angle, and what is read from a stored number.\<close>

definition stored :: "rat \<Rightarrow> int" where
  "stored x = qFloor (d_mul (Fin x) (d_neg (Fin mult45)))"

definition restored :: "int \<Rightarrow> int" where
  "restored k = qFloor (d_div (d_of_int k) (d_neg (Fin mult45)))"

lemma qFloor_bounds:
  assumes "\<bar>q\<bar> \<le> 2 ^ 13"
  shows "of_int (qFloor (Fin q)) \<le> q" "q < of_int (qFloor (Fin q)) + 1"
proof -
  have "int32 \<lfloor>q\<rfloor>" using assms by (simp add: int32_def le_floor_iff floor_less_iff abs_le_iff)
  then have "qFloor (Fin q) = \<lfloor>q\<rfloor>" by (simp add: to_c_int_def)
  then show "of_int (qFloor (Fin q)) \<le> q" "q < of_int (qFloor (Fin q)) + 1" by linarith+
qed

lemma near_bound: "\<bar>q - r\<bar> \<le> 1 / 2 ^ 41 \<Longrightarrow> \<bar>r\<bar> \<le> 1024 \<Longrightarrow> \<bar>q :: rat\<bar> \<le> 2 ^ 13"
proof -
  assume a: "\<bar>q - r\<bar> \<le> 1 / 2 ^ 41" "\<bar>r\<bar> \<le> 1024"
  have "\<bar>q\<bar> \<le> \<bar>q - r\<bar> + \<bar>r\<bar>" using abs_triangle_ineq [of "q - r" r] by simp
  also have "\<dots> \<le> 1 / 2 ^ 41 + 1024" using a by (rule add_mono)
  also have "\<dots> \<le> 2 ^ 13" by simp
  finally show ?thesis .
qed

lemma stored_bounds:
  assumes "\<bar>x\<bar> \<le> 200"
  shows "of_int (stored x) \<le> - (x * mult45) + 1 / 2 ^ 41" "- (x * mult45) - 1 / 2 ^ 41 < of_int (stored x) + 1"
proof -
  have "\<bar>x * - mult45\<bar> \<le> 200 * 4"
    unfolding abs_mult using assms by (intro mult_mono) (simp_all add: mult45_def)
  also have "\<dots> \<le> 2 ^ 12" by simp
  finally have r: "\<bar>x * - mult45\<bar> \<le> 800" "\<bar>x * - mult45\<bar> \<le> 2 ^ 12"
    using \<open>\<bar>x * - mult45\<bar> \<le> 200 * 4\<close> by simp_all
  obtain q where q: "mk_double (x * - mult45) = Fin q" "\<bar>q - x * - mult45\<bar> \<le> 1 / 2 ^ 41"
    using mk_double_close [OF r(2)] by blast
  have "\<bar>q\<bar> \<le> 2 ^ 13" using q(2) r(1) by (rule near_bound [OF _ order_trans]) simp
  moreover have "stored x = qFloor (Fin q)" using q(1) by (simp add: stored_def)
  ultimately have "of_int (stored x) \<le> q" "q < of_int (stored x) + 1"
    using qFloor_bounds by simp_all
  with q(2) show "of_int (stored x) \<le> - (x * mult45) + 1 / 2 ^ 41"
    "- (x * mult45) - 1 / 2 ^ 41 < of_int (stored x) + 1" unfolding abs_le_iff by linarith+
qed

lemma restored_bounds:
  assumes "\<bar>k\<bar> \<le> 1024"
  shows "of_int (restored k) \<le> - (of_int k / mult45) + 1 / 2 ^ 41"
    "- (of_int k / mult45) - 1 / 2 ^ 41 < of_int (restored k) + 1"
proof -
  have m: "0 < mult45" by (simp add: mult45_def)
  have "\<bar>of_int k / - mult45\<bar> \<le> 1024 / 1"
    unfolding abs_divide using assms by (intro frac_le) (simp_all add: mult45_def flip: of_int_abs)
  then have r: "\<bar>of_int k / - mult45\<bar> \<le> 1024" "\<bar>of_int k / - mult45\<bar> \<le> 2 ^ 12" by simp_all
  obtain q where q: "mk_double (of_int k / - mult45) = Fin q" "\<bar>q - of_int k / - mult45\<bar> \<le> 1 / 2 ^ 41"
    using mk_double_close [OF r(2)] by blast
  have "\<bar>q\<bar> \<le> 2 ^ 13" using q(2) r(1) by (rule near_bound)
  moreover have "d_of_int k = Fin (of_int k)" using assms by (intro mk_double_int) simp
  then have "restored k = qFloor (Fin q)" using q(1) m by (simp add: restored_def)
  ultimately have "of_int (restored k) \<le> q" "q < of_int (restored k) + 1"
    using qFloor_bounds by simp_all
  with q(2) show "of_int (restored k) \<le> - (of_int k / mult45) + 1 / 2 ^ 41"
    "- (of_int k / mult45) - 1 / 2 ^ 41 < of_int (restored k) + 1" unfolding abs_le_iff by linarith+
qed


text \<open>Storing and reading an angle loses less than a degree and a bit below, and gains less than the
  step of the field; a whole number of degrees comes back as it was.\<close>

lemma restored_stored_bounds:
  assumes "\<bar>x\<bar> \<le> 180"
  shows "x - 1 - 1 / 2 ^ 40 < of_int (restored (stored x))"
    and "of_int (restored (stored x)) < x + 45 / 128 + 1 / 2 ^ 40" and "\<bar>stored x\<bar> \<le> 514"
proof -
  have m: "0 < mult45" by (simp add: mult45_def)
  have s: "of_int (stored x) \<le> - (x * mult45) + 1 / 2 ^ 41" "- (x * mult45) - 1 - 1 / 2 ^ 41 < of_int (stored x)"
    using stored_bounds [of x] assms by linarith+
  have "\<bar>x * mult45\<bar> \<le> 180 * (513 / 180)"
    unfolding abs_mult using assms by (intro mult_mono) (simp_all add: mult45_def)
  then have "x * mult45 \<le> 513" "- 513 \<le> x * mult45" by (simp_all add: abs_le_iff)
  moreover have "(1::rat) / 2 ^ 41 < 1" by simp
  ultimately have "of_int (stored x) \<le> (514 :: rat)" "(- 515 :: rat) < of_int (stored x)"
    using s by linarith+
  then show k: "\<bar>stored x\<bar> \<le> 514" by linarith
  have "(x * mult45 - 1 / 2 ^ 41) / mult45 \<le> - of_int (stored x) / mult45"
    using s(1) m by (intro divide_right_mono) auto
  moreover have "- of_int (stored x) / mult45 < (x * mult45 + 1 + 1 / 2 ^ 41) / mult45"
    using s(2) m by (intro divide_strict_right_mono) auto
  moreover have "(x * mult45 - 1 / 2 ^ 41) / mult45 = x - 1 / 2 ^ 41 / mult45"
    "(x * mult45 + 1 + 1 / 2 ^ 41) / mult45 = x + (1 + 1 / 2 ^ 41) / mult45"
    using m by (simp_all add: field_simps)
  moreover have "1 / 2 ^ 41 / mult45 \<le> 1 / 2 ^ 41" "(1 + 1 / 2 ^ 41) / mult45 + 1 / 2 ^ 41 < 45 / 128 + 1 / 2 ^ 40"
    by (simp_all add: mult45_def)
  moreover have "(1::rat) / 2 ^ 41 + 1 / 2 ^ 41 = 1 / 2 ^ 40" by simp
  ultimately show "x - 1 - 1 / 2 ^ 40 < of_int (restored (stored x))"
    "of_int (restored (stored x)) < x + 45 / 128 + 1 / 2 ^ 40"
    using restored_bounds [of "stored x"] k by linarith+
qed


lemma stored_45:
  "stored 45 = - 128" "stored 90 = - 256" "stored 135 = - 384" "stored 180 = - 512"
  "stored (- 45) = 128" "stored (- 90) = 256" "stored (- 135) = 384" "stored (- 180) = 512" "stored 0 = 0"
proof -
  have p: "mk_double (45 * mult45) = Fin 128" "mk_double (- (45 * mult45)) = Fin (- 128)"
    using mk_double_eqI [of 7 "45 * mult45" "2 ^ 52"] by (simp_all add: mult45_def pow2_def)
  have q: "mk_double (90 * mult45) = Fin 256" "mk_double (- (90 * mult45)) = Fin (- 256)"
    using mk_double_eqI [of 8 "90 * mult45" "2 ^ 52"] by (simp_all add: mult45_def pow2_def)
  have r: "mk_double (135 * mult45) = Fin 384" "mk_double (- (135 * mult45)) = Fin (- 384)"
    using mk_double_eqI [of 8 "135 * mult45" "3 * 2 ^ 51"] by (simp_all add: mult45_def pow2_def)
  have t: "mk_double (180 * mult45) = Fin 512" "mk_double (- (180 * mult45)) = Fin (- 512)"
    using mk_double_eqI [of 9 "180 * mult45" "2 ^ 52"] by (simp_all add: mult45_def pow2_def)
  show "stored 45 = - 128" "stored 90 = - 256" "stored 135 = - 384" "stored 180 = - 512"
    "stored (- 45) = 128" "stored (- 90) = 256" "stored (- 135) = 384" "stored (- 180) = 512" "stored 0 = 0"
    by (simp_all add: stored_def p q r t to_c_int_def int32_def mk_double_def [of 0])
qed

lemma restored_128:
  "restored (- 128) = 45" "restored (- 256) = 90" "restored (- 384) = 135" "restored (- 512) = 180"
  "restored 128 = - 45" "restored 256 = - 90" "restored 384 = - 135" "restored 512 = - 180" "restored 0 = 0"
proof -
  have p: "mk_double (128 / mult45) = Fin 45" "mk_double (- (128 / mult45)) = Fin (- 45)"
    using mk_double_eqI [of 5 "128 / mult45" "45 * 2 ^ 47"] by (simp_all add: mult45_def pow2_def)
  have q: "mk_double (256 / mult45) = Fin 90" "mk_double (- (256 / mult45)) = Fin (- 90)"
    using mk_double_eqI [of 6 "256 / mult45" "45 * 2 ^ 47"] by (simp_all add: mult45_def pow2_def)
  have r: "mk_double (384 / mult45) = Fin 135" "mk_double (- (384 / mult45)) = Fin (- 135)"
    using mk_double_eqI [of 7 "384 / mult45" "135 * 2 ^ 45"] by (simp_all add: mult45_def pow2_def)
  have t: "mk_double (512 / mult45) = Fin 180" "mk_double (- (512 / mult45)) = Fin (- 180)"
    using mk_double_eqI [of 7 "512 / mult45" "45 * 2 ^ 47"] by (simp_all add: mult45_def pow2_def)
  have m: "mult45 \<noteq> 0" by (simp add: mult45_def)
  show "restored (- 128) = 45" "restored (- 256) = 90" "restored (- 384) = 135" "restored (- 512) = 180"
    "restored 128 = - 45" "restored 256 = - 90" "restored 384 = - 135" "restored 512 = - 180" "restored 0 = 0"
    by (simp_all add: restored_def mk_double_int p q r t m to_c_int_def int32_def mk_double_def [of 0])
qed

lemma restored_stored_int:
  assumes "\<bar>i\<bar> \<le> 180" shows "restored (stored (of_int i)) = i"
proof (cases "45 dvd i")
  case True
  then obtain j where j: "i = 45 * j" by blast
  with assms have "j \<in> {-4, -3, -2, -1, 0, 1, 2, 3, 4}" by simp presburger
  with j show ?thesis by (elim insertE emptyE) (simp_all add: stored_45 restored_128)
next
  case False
  let ?s = "stored (of_int i)"
  have x: "\<bar>of_int i :: rat\<bar> \<le> 180" using assms by (metis of_int_abs of_int_le_iff of_int_numeral)
  have m: "0 < mult45" by (simp add: mult45_def)
  have ex: "of_int i * (mult45 - 128 / 45) = of_int i * mult45 - 128 / 45 * of_int i"
    by (simp add: algebra_simps)
  have "\<bar>of_int i * (mult45 - 128 / 45)\<bar> \<le> 180 * (1 / 2 ^ 50)"
    unfolding abs_mult using x mult45_bounds by (intro mult_mono) auto
  then have d: "of_int i * mult45 \<le> 128 / 45 * of_int i + 180 / 2 ^ 50"
    "128 / 45 * of_int i - 180 / 2 ^ 50 \<le> of_int i * mult45"
    unfolding ex abs_le_iff by linarith+
  have "of_int ?s \<le> - (128 / 45 * of_int i) + (180 / 2 ^ 50 + 1 / 2 ^ 41 :: rat)"
    using stored_bounds(1) [of "of_int i"] x d(2) by linarith
  also have "\<dots> < - (128 / 45 * of_int i) + 1 / 45" by simp
  finally have "(of_int (45 * ?s) :: rat) < of_int (- (128 * i) + 1)" by simp
  then have "45 * ?s < - (128 * i) + 1" by (simp only: of_int_less_iff)
  moreover have "45 * ?s \<noteq> - (128 * i)"
  proof
    assume e: "45 * ?s = - (128 * i)"
    have "45 * (- 91 * i - 32 * ?s) = - 4095 * i - 32 * (45 * ?s)" by (simp add: algebra_simps)
    also have "\<dots> = i" unfolding e by simp
    finally have "i = 45 * (- 91 * i - 32 * ?s)" ..
    with False show False by (metis dvd_triv_left)
  qed
  ultimately have "45 * ?s \<le> - (128 * i) - 1" by linarith
  then have "(of_int (45 * ?s) :: rat) \<le> of_int (- (128 * i) - 1)" by (simp only: of_int_le_iff)
  then have "(of_int i + 1 / 200) * mult45 \<le> - of_int ?s"
    using d(1) by (simp add: algebra_simps mult45_def)
  then have "of_int i + 1 / 200 \<le> - of_int ?s / mult45" using m by (simp only: pos_le_divide_eq)
  moreover have k: "\<bar>?s\<bar> \<le> 1024" using restored_stored_bounds(3) [OF x] by linarith
  moreover have "(1::rat) / 2 ^ 41 < 1 / 200" by simp
  ultimately have "of_int i < (of_int (restored ?s) + 1 :: rat)"
    using restored_bounds(2) [OF k] by linarith
  moreover have "of_int (restored ?s) < (of_int i + 1 :: rat)"
  proof -
    have "(1 :: rat) / 2 ^ 40 < 1 / 2" by simp
    with restored_stored_bounds(2) [OF x] show ?thesis by linarith
  qed
  ultimately show ?thesis by linarith
qed


lemma signed_10_bits: "- 512 \<le> k \<Longrightarrow> k < 512 \<Longrightarrow> signed_take_bit 9 k = (k :: int)"
  by (rule signed_take_bit_int_eq_self) auto

lemma unpack_pack:
  "unpackPBH (packPBH (Fin p) (Fin b) h g) =
    (d_of_int (restored (signed_take_bit 9 (stored p))), d_of_int (restored (signed_take_bit 9 (stored b))),
     d_div (d_of_int (uint (take_bit 10 (d_to_uint (d_mul h headingMultiplier))))) headingMultiplier, g)"
  by (simp add: unpackPBH_def packPBH_def PBH_fields multipliers stored_def restored_def Let_def)

lemma stored_fits:
  assumes "\<bar>x\<bar> \<le> 359 / 2" shows "signed_take_bit 9 (stored x) = stored x"
proof (rule signed_10_bits)
  have "\<bar>x * mult45\<bar> \<le> 359 / 2 * (512 / 180 + 1 / 2 ^ 40)"
    unfolding abs_mult using assms by (intro mult_mono) (simp_all add: mult45_def)
  also have "\<dots> < 511" by simp
  finally have "x * mult45 < 511" "- 511 < x * mult45" by (simp_all add: abs_less_iff)
  moreover have "(1::rat) / 2 ^ 41 < 1" by simp
  ultimately have "of_int (stored x) < (512 :: rat)" "- 513 < (of_int (stored x) :: rat)"
    using stored_bounds [OF order_trans [OF assms]] \<open>(1::rat) / 2 ^ 41 < 1\<close> by linarith+
  then show "- 512 \<le> stored x" "stored x < 512" by linarith+
qed

text \<open>The heading is cut to the step of its field.\<close>

lemma heading_stored:
  assumes "0 \<le> x" "x \<le> 359"
  shows "\<exists>r. d_div (d_of_int (uint (take_bit 10 (d_to_uint (d_mul (Fin x) headingMultiplier))))) headingMultiplier
      = Fin r \<and> x - 45 / 128 - 1 / 2 ^ 40 < r \<and> r < x + 1 / 2 ^ 40"
proof -
  have m: "0 < mult45" by (simp add: mult45_def)
  have xm: "0 \<le> x * mult45" "x * mult45 \<le> 359 * (513 / 180)"
    using assms m by (auto intro: mult_mono simp: mult45_def)
  have "\<bar>x * mult45\<bar> \<le> 2 ^ 12" using xm by simp
  then obtain q where q: "mk_double (x * mult45) = Fin q" "\<bar>q - x * mult45\<bar> \<le> 1 / 2 ^ 41"
    using mk_double_close by blast
  define k where "k = trunc q"
  have "(1::rat) / 2 ^ 41 < 1 / 2" by simp
  then have b: "x * mult45 - 1 / 2 ^ 41 \<le> q" "q \<le> x * mult45 + 1 / 2 ^ 41" "- 1 < q" "q < 1024"
    using q(2) xm unfolding abs_le_iff by linarith+
  have k: "0 \<le> k" "k < 1024" "of_int k \<le> max q 0" "q - 1 < of_int k"
    using b(3,4) unfolding k_def trunc_def by (auto simp: ceiling_less_iff floor_less_iff le_ceiling_iff) linarith+
  have u: "uint (take_bit 10 (word_of_int k :: 32 word)) = k"
    using k(1,2) by (simp add: take_bit_int_eq_self unsigned_take_bit_eq uint_word_of_int)
  have "d_to_uint (Fin q) = word_of_int k"
    using k(1,2) by (simp add: k_def int64_def)
  then have d: "d_div (d_of_int (uint (take_bit 10 (d_to_uint (d_mul (Fin x) headingMultiplier))))) headingMultiplier
      = mk_double (of_int k / mult45)"
    using m k(1,2) q(1) u by (simp add: multipliers mk_double_int)
  have "of_int k / mult45 \<le> 1024 / 1" using k m by (intro frac_le) (simp_all add: mult45_def)
  then have "\<bar>of_int k / mult45\<bar> \<le> 2 ^ 12" using k m by simp
  then obtain r where r: "mk_double (of_int k / mult45) = Fin r" "\<bar>r - of_int k / mult45\<bar> \<le> 1 / 2 ^ 41"
    using mk_double_close by blast
  have "(x * mult45 - 1 / 2 ^ 41 - 1) / mult45 < of_int k / mult45"
    using k(4) b(1) m by (intro divide_strict_right_mono) auto
  moreover have "of_int k / mult45 \<le> (x * mult45 + 1 / 2 ^ 41) / mult45"
    using k(3) b(2) xm(1) m by (intro divide_right_mono) auto
  moreover have "(x * mult45 - 1 / 2 ^ 41 - 1) / mult45 = x - (1 / 2 ^ 41 + 1) / mult45"
    "(x * mult45 + 1 / 2 ^ 41) / mult45 = x + 1 / 2 ^ 41 / mult45" using m by (simp_all add: field_simps)
  moreover have "(1 / 2 ^ 41 + 1) / mult45 + 1 / 2 ^ 41 < 45 / 128 + 1 / 2 ^ 40" "1 / 2 ^ 41 / mult45 < 1 / 2 ^ 41"
    "(1::rat) / 2 ^ 41 + 1 / 2 ^ 41 = 1 / 2 ^ 40" by (simp_all add: mult45_def)
  ultimately have "x - 45 / 128 - 1 / 2 ^ 40 < r" "r < x + 1 / 2 ^ 40" using r(2) unfolding abs_le_iff by linarith+
  with d r(1) show ?thesis by auto
qed


subsection \<open>What survives of an attitude\<close>

text \<open>A pitch and a bank in whole degrees, and the ground flag, come back exactly; a bank of -180
  degrees comes back as the same attitude, 180. The heading stays within the step of its field.\<close>

lemma attitude_whole_degrees:
  assumes "\<bar>p\<bar> \<le> 90" "- 180 < b" "b \<le> 180"
  shows "\<exists>h'. unpackPBH (packPBH (d_of_int p) (d_of_int b) h g) = (d_of_int p, d_of_int b, h', g)"
proof -
  have d: "d_of_int p = Fin (of_int p)" "d_of_int b = Fin (of_int b)"
    using assms by (simp_all add: mk_double_int)
  have "\<bar>of_int p :: rat\<bar> \<le> 90" using assms(1) by (metis of_int_abs of_int_le_iff of_int_numeral)
  then have p: "signed_take_bit 9 (stored (of_int p)) = stored (of_int p)" by (intro stored_fits) simp
  have b: "signed_take_bit 9 (stored (of_int b)) = stored (of_int b)"
  proof (cases "b = 180")
    case False
    then have "\<bar>b\<bar> \<le> 179" using assms by simp
    then have "\<bar>of_int b :: rat\<bar> \<le> 179" by (metis of_int_abs of_int_le_iff of_int_numeral)
    then show ?thesis by (intro stored_fits) simp
  qed (simp add: stored_45 signed_10_bits)
  have "\<bar>p\<bar> \<le> 180" "\<bar>b\<bar> \<le> 180" using assms by simp_all
  then show ?thesis unfolding d unpack_pack p b by (simp add: restored_stored_int d)
qed

lemma attitude_accuracy:
  assumes "\<bar>p\<bar> \<le> 90" "\<bar>b\<bar> \<le> 359 / 2" "0 \<le> h" "h \<le> 359"
  shows "\<exists>p' b' h'. unpackPBH (packPBH (Fin p) (Fin b) (Fin h) g) = (d_of_int p', d_of_int b', Fin h', g)
    \<and> p - 1 - 1 / 2 ^ 40 < of_int p' \<and> of_int p' < p + 45 / 128 + 1 / 2 ^ 40
    \<and> b - 1 - 1 / 2 ^ 40 < of_int b' \<and> of_int b' < b + 45 / 128 + 1 / 2 ^ 40
    \<and> h - 45 / 128 - 1 / 2 ^ 40 < h' \<and> h' < h + 1 / 2 ^ 40"
proof -
  have p: "\<bar>p\<bar> \<le> 359 / 2" "\<bar>p\<bar> \<le> 180" and b: "\<bar>b\<bar> \<le> 180" using assms by linarith+
  from heading_stored [OF assms(3,4)] show ?thesis
    unfolding unpack_pack stored_fits [OF p(1)] stored_fits [OF assms(2)]
    using restored_stored_bounds [OF p(2)] restored_stored_bounds [OF b] by auto
qed

lemma attitude_bank_180:
  "(case unpackPBH (packPBH p (Fin (- 180)) h g) of (p', b', h', g') \<Rightarrow> b') = d_of_int 180"
proof -
  have "signed_take_bit 9 (512 :: int) = - 512" by (simp add: signed_take_bit_eq_if_negative)
  then have "qFloor (d_div (d_of_int (signed_take_bit 9 (stored (- 180)))) (d_neg (Fin mult45))) = 180"
    using restored_128(4) by (simp only: stored_45 restored_def)
  then show ?thesis
    unfolding unpackPBH_def packPBH_def PBH_fields multipliers stored_def Let_def by simp
qed

text \<open>An attitude the word represents exactly.\<close>

definition attitude :: "double \<Rightarrow> double \<Rightarrow> double \<Rightarrow> bool \<Rightarrow> bool" where
  "attitude pitch bank heading onGround \<longleftrightarrow>
     unpackPBH (packPBH pitch bank heading onGround) = (pitch, bank, heading, onGround)"

lemma attitude_north:
  assumes "\<bar>p\<bar> \<le> 90" "- 180 < b" "b \<le> 180" shows "attitude (d_of_int p) (d_of_int b) (Fin 0) g"
proof -
  have "d_mul (Fin 0) headingMultiplier = Fin 0" by (simp add: multipliers mk_double_def)
  then have "unpackPBH (packPBH pp bb (Fin 0) g) = (p', b', h', g') \<Longrightarrow> h' = Fin 0" for pp bb p' b' h' g'
    by (simp add: unpackPBH_def packPBH_def PBH_fields Let_def trunc_def int64_def multipliers
      d_of_int_def mk_double_def mult45_def)
  with attitude_whole_degrees [OF assms, of "Fin 0" g] show ?thesis
    unfolding attitude_def by auto
qed

end
