(* ===== verification/FsdDataMessages.thy ===== *)
theory FsdDataMessages
  imports FsdQueryMessages FsdPbh
begin

section \<open>Messages that carry data\<close>

text \<open>
  The classes of \<open>blackcore/fsd\<close> that log a client in or carry its position: logins, the client
  identification, flight plans, position updates and the visual pilot updates. Named as in
  \<open>FsdTextMessages\<close>. Where \<open>fromTokens\<close> reads a token past the number it has checked, it returns
  the fault. \<open>X_wf\<close> holds of the messages whose numbers the wire can carry: an \<open>int\<close> in range, a
  double that survives being printed with the class's digits, an attitude of the 32-bit word.
\<close>

lemma enum_fields [simp]:
  "field (toQString_AtcRating r)" "field (toQString_PilotRating p)" "field (toQString_SimType s)"
  "field (toQString_FacilityType f)" "field (toQString_FlightType t)" "field (toQString_TransponderMode x)"
proof -
  show "field (toQString_AtcRating r)" by (cases r) simp_all
  show "field (toQString_PilotRating p)" by (cases p) simp_all
  show "field (toQString_SimType s)" by (cases s) simp_all
  show "field (toQString_FacilityType f)" by (cases f) simp_all
  show "field (toQString_FlightType t)" by (cases t) simp_all
  show "field (toQString_TransponderMode x)" by (cases x) simp_all
qed

lemma field_number_f [simp]: "field (d_number_f d n)"
  by (simp add: plain_field)

lemma field_decimal_text [simp]: "field (decimal_text n k)"
  by (simp add: plain_field)

lemma enums_back [number_simps]:
  "fromQString_AtcRating (toQString_AtcRating r) = r"
  "fromQString_PilotRating (toQString_PilotRating p) = p"
  "fromQString_SimType (toQString_SimType s) = SimType_canon s"
  "fromQString_FacilityType (toQString_FacilityType f) = f"
  "fromQString_FlightType (toQString_FlightType t) = t"
  "fromQString_TransponderMode (toQString_TransponderMode x) = TransponderMode_canon x"
  by (simp_all add: atc_rating.dec_enc pilot_rating.dec_enc sim_type.dec_enc facility.dec_enc
    flight_type.dec_enc transponder_mode.dec_enc)

lemma c_int_difference [number_simps]:
  "int32 p \<Longrightarrow> c_int (t + c_int (p - t)) = p"
  "int32 p \<Longrightarrow> c_int (c_int (p - t) + t) = p"
  using c_int_add_cancel [of p t] by (simp_all add: add.commute)

subsection \<open>AddAtc\<close>

record AddAtc = message_base +
  AddAtc_m_cid :: string
  AddAtc_m_password :: string
  AddAtc_m_rating :: AtcRating
  AddAtc_m_protocolRevision :: int
  AddAtc_m_realName :: string

definition AddAtc :: "string \<Rightarrow> string \<Rightarrow> string \<Rightarrow> string \<Rightarrow> AtcRating \<Rightarrow> int \<Rightarrow> AddAtc" where
  "AddAtc callsign realName cid password rating protocolRevision =
     \<lparr>m_sender = callsign, m_receiver = ''SERVER'', m_isValid = True,
      AddAtc_m_cid = cid,
      AddAtc_m_password = password,
      AddAtc_m_rating = rating,
      AddAtc_m_protocolRevision = protocolRevision,
      AddAtc_m_realName = realName\<rparr>"

definition AddAtc_default :: AddAtc where
  "AddAtc_default =
     \<lparr>m_sender = '''', m_receiver = '''', m_isValid = True,
      AddAtc_m_cid = '''',
      AddAtc_m_password = '''',
      AddAtc_m_rating = AtcRating_Unknown,
      AddAtc_m_protocolRevision = 0,
      AddAtc_m_realName = ''''\<rparr>"

definition AddAtc_pdu :: string where
  "AddAtc_pdu = ''#AA''"

definition AddAtc_toTokens :: "AddAtc \<Rightarrow> string list" where
  "AddAtc_toTokens m =
     [m_sender m, m_receiver m, AddAtc_m_realName m, AddAtc_m_cid m, AddAtc_m_password m,
      toQString_AtcRating (AddAtc_m_rating m), q_number (AddAtc_m_protocolRevision m)]"

definition AddAtc_fromTokens :: "string list \<Rightarrow> AddAtc" where
  "AddAtc_fromTokens tokens =
     (if length tokens < 7 then AddAtc_default
      else AddAtc (tokens ! 0) (tokens ! 2) (tokens ! 3) (tokens ! 4)
        (fromQString_AtcRating (tokens ! 5)) (q_toInt (tokens ! 6)))"

definition AddAtc_wf :: "AddAtc \<Rightarrow> bool" where
  "AddAtc_wf m \<longleftrightarrow> m_isValid m \<and> m_receiver m = ''SERVER'' \<and> field (m_sender m) \<and> field (AddAtc_m_realName m)
     \<and> field (AddAtc_m_cid m) \<and> field (AddAtc_m_password m)
     \<and> int32 (AddAtc_m_protocolRevision m)"

lemmas AddAtc_defs [wire_defs] = AddAtc_def AddAtc_default_def AddAtc_pdu_def
  AddAtc_toTokens_def AddAtc_fromTokens_def AddAtc_wf_def

interpretation add_atc: fsd_token_codec AddAtc_pdu AddAtc_toTokens
    "\<lambda>ts. Inr (AddAtc_fromTokens ts)" AddAtc_wf
  by unfold_locales (simp add: wire_defs is_space_def, simp add: wire_defs,
    (rename_tac m, case_tac m, simp add: wire_defs number_simps)+)

subsection \<open>AddPilot\<close>

record AddPilot = message_base +
  AddPilot_m_cid :: string
  AddPilot_m_password :: string
  AddPilot_m_rating :: PilotRating
  AddPilot_m_protocolRevision :: int
  AddPilot_m_simType :: SimType
  AddPilot_m_realName :: string

definition AddPilot :: "string \<Rightarrow> string \<Rightarrow> string \<Rightarrow> PilotRating \<Rightarrow> int \<Rightarrow> SimType \<Rightarrow> string \<Rightarrow> AddPilot" where
  "AddPilot callsign cid password rating protocolRevision simType realName =
     \<lparr>m_sender = callsign, m_receiver = ''SERVER'', m_isValid = True,
      AddPilot_m_cid = cid,
      AddPilot_m_password = password,
      AddPilot_m_rating = rating,
      AddPilot_m_protocolRevision = protocolRevision,
      AddPilot_m_simType = simType,
      AddPilot_m_realName = realName\<rparr>"

definition AddPilot_default :: AddPilot where
  "AddPilot_default =
     \<lparr>m_sender = '''', m_receiver = '''', m_isValid = True,
      AddPilot_m_cid = '''',
      AddPilot_m_password = '''',
      AddPilot_m_rating = PilotRating_Unknown,
      AddPilot_m_protocolRevision = 0,
      AddPilot_m_simType = SimType_Unknown,
      AddPilot_m_realName = ''''\<rparr>"

definition AddPilot_pdu :: string where
  "AddPilot_pdu = ''#AP''"

definition AddPilot_toTokens :: "AddPilot \<Rightarrow> string list" where
  "AddPilot_toTokens m =
     [m_sender m, m_receiver m, AddPilot_m_cid m, AddPilot_m_password m,
      toQString_PilotRating (AddPilot_m_rating m),
      q_number (AddPilot_m_protocolRevision m), toQString_SimType (AddPilot_m_simType m),
      AddPilot_m_realName m]"

definition AddPilot_fromTokens :: "string list \<Rightarrow> fault + AddPilot" where
  "AddPilot_fromTokens tokens =
     (if length tokens < 6 then Inr AddPilot_default
      else case list_at tokens 6 of
        Inl f \<Rightarrow> Inl f
      | Inr simType \<Rightarrow> (case list_at tokens 7 of
          Inl f \<Rightarrow> Inl f
        | Inr realName \<Rightarrow> Inr (AddPilot (tokens ! 0) (tokens ! 2) (tokens ! 3)
            (fromQString_PilotRating (tokens ! 4)) (q_toInt (tokens ! 5))
            (fromQString_SimType simType) realName)))"

definition AddPilot_wf :: "AddPilot \<Rightarrow> bool" where
  "AddPilot_wf m \<longleftrightarrow> m_isValid m \<and> m_receiver m = ''SERVER'' \<and> field (m_sender m) \<and> field (AddPilot_m_cid m)
     \<and> field (AddPilot_m_password m) \<and> field (AddPilot_m_realName m)
     \<and> int32 (AddPilot_m_protocolRevision m)
     \<and> SimType_canon (AddPilot_m_simType m) = AddPilot_m_simType m"

lemmas AddPilot_defs [wire_defs] = AddPilot_def AddPilot_default_def AddPilot_pdu_def
  AddPilot_toTokens_def AddPilot_fromTokens_def AddPilot_wf_def

interpretation add_pilot: fsd_token_codec AddPilot_pdu AddPilot_toTokens
    AddPilot_fromTokens AddPilot_wf
  by unfold_locales (simp add: wire_defs is_space_def, simp add: wire_defs,
    (rename_tac m, case_tac m, simp add: wire_defs number_simps)+)

subsection \<open>AtcDataUpdate\<close>

record AtcDataUpdate = message_base +
  AtcDataUpdate_m_frequencykHz :: int
  AtcDataUpdate_m_facility :: FacilityType
  AtcDataUpdate_m_visibleRange :: int
  AtcDataUpdate_m_rating :: AtcRating
  AtcDataUpdate_m_latitude :: double
  AtcDataUpdate_m_longitude :: double
  AtcDataUpdate_m_elevation :: int

definition AtcDataUpdate :: "string \<Rightarrow> int \<Rightarrow> FacilityType \<Rightarrow> int \<Rightarrow> AtcRating \<Rightarrow> double \<Rightarrow> double \<Rightarrow> int \<Rightarrow> AtcDataUpdate" where
  "AtcDataUpdate sender frequencykHz facility visibleRange rating latitude longitude elevation =
     \<lparr>m_sender = sender, m_receiver = '''', m_isValid = True,
      AtcDataUpdate_m_frequencykHz = frequencykHz,
      AtcDataUpdate_m_facility = facility,
      AtcDataUpdate_m_visibleRange = visibleRange,
      AtcDataUpdate_m_rating = rating,
      AtcDataUpdate_m_latitude = latitude,
      AtcDataUpdate_m_longitude = longitude,
      AtcDataUpdate_m_elevation = elevation\<rparr>"

definition AtcDataUpdate_default :: AtcDataUpdate where
  "AtcDataUpdate_default =
     \<lparr>m_sender = '''', m_receiver = '''', m_isValid = True,
      AtcDataUpdate_m_frequencykHz = 0,
      AtcDataUpdate_m_facility = Facility_Unknown,
      AtcDataUpdate_m_visibleRange = 0,
      AtcDataUpdate_m_rating = AtcRating_Unknown,
      AtcDataUpdate_m_latitude = Fin 0,
      AtcDataUpdate_m_longitude = Fin 0,
      AtcDataUpdate_m_elevation = 0\<rparr>"

definition AtcDataUpdate_pdu :: string where
  "AtcDataUpdate_pdu = ''%''"

definition AtcDataUpdate_toTokens :: "AtcDataUpdate \<Rightarrow> string list" where
  "AtcDataUpdate_toTokens m =
     [m_sender m, q_number (c_int (AtcDataUpdate_m_frequencykHz m - 100000)),
      toQString_FacilityType (AtcDataUpdate_m_facility m),
      q_number (AtcDataUpdate_m_visibleRange m),
      toQString_AtcRating (AtcDataUpdate_m_rating m),
      d_number_f (AtcDataUpdate_m_latitude m) 5,
      d_number_f (AtcDataUpdate_m_longitude m) 5, q_number (AtcDataUpdate_m_elevation m)]"

definition AtcDataUpdate_fromTokens :: "string list \<Rightarrow> fault + AtcDataUpdate" where
  "AtcDataUpdate_fromTokens tokens =
     (if length tokens < 7 then Inr AtcDataUpdate_default
      else case list_at tokens 7 of
        Inl f \<Rightarrow> Inl f
      | Inr elevation \<Rightarrow> Inr (AtcDataUpdate (tokens ! 0) (c_int (q_toInt (tokens ! 1) + 100000))
          (fromQString_FacilityType (tokens ! 2)) (q_toInt (tokens ! 3))
          (fromQString_AtcRating (tokens ! 4)) (d_toDouble (tokens ! 5)) (d_toDouble (tokens ! 6))
          (q_toInt elevation)))"

definition AtcDataUpdate_wf :: "AtcDataUpdate \<Rightarrow> bool" where
  "AtcDataUpdate_wf m \<longleftrightarrow> m_isValid m \<and> m_receiver m = '''' \<and> field (m_sender m) \<and> int32 (AtcDataUpdate_m_frequencykHz m)
     \<and> int32 (AtcDataUpdate_m_visibleRange m) \<and> int32 (AtcDataUpdate_m_elevation m)
     \<and> survives 5 (AtcDataUpdate_m_latitude m) \<and> survives 5 (AtcDataUpdate_m_longitude m)"

lemmas AtcDataUpdate_defs [wire_defs] = AtcDataUpdate_def AtcDataUpdate_default_def AtcDataUpdate_pdu_def
  AtcDataUpdate_toTokens_def AtcDataUpdate_fromTokens_def AtcDataUpdate_wf_def

interpretation atc_data_update: fsd_token_codec AtcDataUpdate_pdu AtcDataUpdate_toTokens
    AtcDataUpdate_fromTokens AtcDataUpdate_wf
  by unfold_locales (simp add: wire_defs is_space_def, simp add: wire_defs,
    (rename_tac m, case_tac m, simp add: wire_defs number_simps survives_def c_int_add_cancel)+)

subsection \<open>ClientIdentification\<close>

record ClientIdentification = message_base +
  ClientIdentification_m_clientId :: "16 word"
  ClientIdentification_m_clientName :: string
  ClientIdentification_m_clientVersionMajor :: int
  ClientIdentification_m_clientVersionMinor :: int
  ClientIdentification_m_userCid :: string
  ClientIdentification_m_sysUid :: string
  ClientIdentification_m_initialChallenge :: string

definition ClientIdentification :: "string \<Rightarrow> 16 word \<Rightarrow> string \<Rightarrow> int \<Rightarrow> int \<Rightarrow> string \<Rightarrow> string \<Rightarrow> string \<Rightarrow> ClientIdentification" where
  "ClientIdentification sender clientId clientName clientVersionMajor clientVersionMinor userCid sysUid initialChallenge =
     \<lparr>m_sender = sender, m_receiver = ''SERVER'', m_isValid = True,
      ClientIdentification_m_clientId = clientId,
      ClientIdentification_m_clientName = clientName,
      ClientIdentification_m_clientVersionMajor = clientVersionMajor,
      ClientIdentification_m_clientVersionMinor = clientVersionMinor,
      ClientIdentification_m_userCid = userCid,
      ClientIdentification_m_sysUid = sysUid,
      ClientIdentification_m_initialChallenge = initialChallenge\<rparr>"

text \<open>The default object's versions are those of the build (\<open>CBuildConfig\<close>, generated): parameters.\<close>

definition ClientIdentification_default :: "int \<Rightarrow> int \<Rightarrow> ClientIdentification" where
  "ClientIdentification_default versionMajor versionMinor =
     \<lparr>m_sender = '''', m_receiver = '''', m_isValid = True,
      ClientIdentification_m_clientId = 0,
      ClientIdentification_m_clientName = '''',
      ClientIdentification_m_clientVersionMajor = versionMajor,
      ClientIdentification_m_clientVersionMinor = versionMinor,
      ClientIdentification_m_userCid = '''',
      ClientIdentification_m_sysUid = '''',
      ClientIdentification_m_initialChallenge = ''''\<rparr>"

definition ClientIdentification_pdu :: string where
  "ClientIdentification_pdu = ''$ID''"

definition ClientIdentification_toTokens :: "ClientIdentification \<Rightarrow> string list" where
  "ClientIdentification_toTokens m =
     [m_sender m, m_receiver m, q_number_nat 16 (unat (ClientIdentification_m_clientId m)),
      ClientIdentification_m_clientName m, q_number (ClientIdentification_m_clientVersionMajor m),
      q_number (ClientIdentification_m_clientVersionMinor m), ClientIdentification_m_userCid m, ClientIdentification_m_sysUid m,
      ClientIdentification_m_initialChallenge m]"

definition ClientIdentification_fromTokens :: "int \<Rightarrow> int \<Rightarrow> string list \<Rightarrow> ClientIdentification" where
  "ClientIdentification_fromTokens versionMajor versionMinor tokens =
     (if length tokens < 8 then ClientIdentification_default versionMajor versionMinor
      else ClientIdentification (tokens ! 0) (q_toUShort_hex (tokens ! 2)) (tokens ! 3)
        (q_toInt (tokens ! 4)) (q_toInt (tokens ! 5)) (tokens ! 6) (tokens ! 7)
        (if length tokens > 8 then tokens ! 8 else ''''))"

definition ClientIdentification_wf :: "ClientIdentification \<Rightarrow> bool" where
  "ClientIdentification_wf m \<longleftrightarrow> m_isValid m \<and> m_receiver m = ''SERVER'' \<and> field (m_sender m) \<and> field (ClientIdentification_m_clientName m)
     \<and> field (ClientIdentification_m_userCid m) \<and> field (ClientIdentification_m_sysUid m) \<and> field (ClientIdentification_m_initialChallenge m)
     \<and> int32 (ClientIdentification_m_clientVersionMajor m) \<and> int32 (ClientIdentification_m_clientVersionMinor m)"

lemmas ClientIdentification_defs [wire_defs] = ClientIdentification_def ClientIdentification_default_def ClientIdentification_pdu_def
  ClientIdentification_toTokens_def ClientIdentification_fromTokens_def ClientIdentification_wf_def

interpretation client_identification: fsd_token_codec ClientIdentification_pdu ClientIdentification_toTokens
    "\<lambda>ts. Inr (ClientIdentification_fromTokens versionMajor versionMinor ts)" ClientIdentification_wf
  for versionMajor versionMinor
  by unfold_locales (simp add: wire_defs is_space_def, simp add: wire_defs,
    (rename_tac m, case_tac m, simp add: wire_defs number_simps)+)

subsection \<open>FlightPlan\<close>

record FlightPlan = message_base +
  FlightPlan_m_flightType :: FlightType
  FlightPlan_m_aircraftIcaoType :: string
  FlightPlan_m_trueCruisingSpeed :: int
  FlightPlan_m_depAirport :: string
  FlightPlan_m_estimatedDepTime :: int
  FlightPlan_m_actualDepTime :: int
  FlightPlan_m_cruiseAlt :: string
  FlightPlan_m_destAirport :: string
  FlightPlan_m_hoursEnroute :: int
  FlightPlan_m_minutesEnroute :: int
  FlightPlan_m_fuelAvailHours :: int
  FlightPlan_m_fuelAvailMinutes :: int
  FlightPlan_m_altAirport :: string
  FlightPlan_m_remarks :: string
  FlightPlan_m_route :: string

definition FlightPlan :: "string \<Rightarrow> string \<Rightarrow> FlightType \<Rightarrow> string \<Rightarrow> int \<Rightarrow> string \<Rightarrow> int \<Rightarrow> int \<Rightarrow> string \<Rightarrow> string \<Rightarrow> int \<Rightarrow> int \<Rightarrow> int \<Rightarrow> int \<Rightarrow> string \<Rightarrow> string \<Rightarrow> string \<Rightarrow> FlightPlan" where
  "FlightPlan sender receiver flightType aircraftIcaoType trueCruisingSpeed depAirport estimatedDepTime actualDepTime cruiseAlt destAirport hoursEnroute minutesEnroute fuelAvailHours fuelAvailMinutes altAirport remarks route =
     \<lparr>m_sender = sender, m_receiver = receiver, m_isValid = True,
      FlightPlan_m_flightType = flightType,
      FlightPlan_m_aircraftIcaoType = aircraftIcaoType,
      FlightPlan_m_trueCruisingSpeed = trueCruisingSpeed,
      FlightPlan_m_depAirport = depAirport,
      FlightPlan_m_estimatedDepTime = estimatedDepTime,
      FlightPlan_m_actualDepTime = actualDepTime,
      FlightPlan_m_cruiseAlt = cruiseAlt,
      FlightPlan_m_destAirport = destAirport,
      FlightPlan_m_hoursEnroute = hoursEnroute,
      FlightPlan_m_minutesEnroute = minutesEnroute,
      FlightPlan_m_fuelAvailHours = fuelAvailHours,
      FlightPlan_m_fuelAvailMinutes = fuelAvailMinutes,
      FlightPlan_m_altAirport = altAirport,
      FlightPlan_m_remarks = remarks,
      FlightPlan_m_route = route\<rparr>"

definition FlightPlan_default :: FlightPlan where
  "FlightPlan_default =
     \<lparr>m_sender = '''', m_receiver = '''', m_isValid = True,
      FlightPlan_m_flightType = FlightType_IFR,
      FlightPlan_m_aircraftIcaoType = '''',
      FlightPlan_m_trueCruisingSpeed = 0,
      FlightPlan_m_depAirport = '''',
      FlightPlan_m_estimatedDepTime = 0,
      FlightPlan_m_actualDepTime = 0,
      FlightPlan_m_cruiseAlt = '''',
      FlightPlan_m_destAirport = '''',
      FlightPlan_m_hoursEnroute = 0,
      FlightPlan_m_minutesEnroute = 0,
      FlightPlan_m_fuelAvailHours = 0,
      FlightPlan_m_fuelAvailMinutes = 0,
      FlightPlan_m_altAirport = '''',
      FlightPlan_m_remarks = '''',
      FlightPlan_m_route = ''''\<rparr>"

definition FlightPlan_pdu :: string where
  "FlightPlan_pdu = ''$FP''"

definition FlightPlan_toTokens :: "FlightPlan \<Rightarrow> string list" where
  "FlightPlan_toTokens m =
     [m_sender m, m_receiver m, toQString_FlightType (FlightPlan_m_flightType m),
      FlightPlan_m_aircraftIcaoType m, q_number (FlightPlan_m_trueCruisingSpeed m),
      FlightPlan_m_depAirport m, q_number (FlightPlan_m_estimatedDepTime m),
      q_number (FlightPlan_m_actualDepTime m), FlightPlan_m_cruiseAlt m,
      FlightPlan_m_destAirport m, q_number (FlightPlan_m_hoursEnroute m),
      q_number (FlightPlan_m_minutesEnroute m), q_number (FlightPlan_m_fuelAvailHours m),
      q_number (FlightPlan_m_fuelAvailMinutes m), FlightPlan_m_altAirport m,
      FlightPlan_m_remarks m, FlightPlan_m_route m]"

definition FlightPlan_fromTokens :: "string list \<Rightarrow> FlightPlan" where
  "FlightPlan_fromTokens tokens =
     (if length tokens < 17 then FlightPlan_default
      else FlightPlan (tokens ! 0) (tokens ! 1) (fromQString_FlightType (tokens ! 2)) (tokens ! 3)
        (q_toInt (tokens ! 4)) (tokens ! 5) (q_toInt (tokens ! 6)) (q_toInt (tokens ! 7))
        (tokens ! 8) (tokens ! 9) (q_toInt (tokens ! 10)) (q_toInt (tokens ! 11))
        (q_toInt (tokens ! 12)) (q_toInt (tokens ! 13)) (tokens ! 14) (tokens ! 15)
        (tokens ! 16))"

definition FlightPlan_wf :: "FlightPlan \<Rightarrow> bool" where
  "FlightPlan_wf m \<longleftrightarrow> m_isValid m \<and> field (m_sender m) \<and> field (m_receiver m) \<and> field (FlightPlan_m_aircraftIcaoType m)
     \<and> int32 (FlightPlan_m_trueCruisingSpeed m) \<and> field (FlightPlan_m_depAirport m)
     \<and> int32 (FlightPlan_m_estimatedDepTime m) \<and> int32 (FlightPlan_m_actualDepTime m)
     \<and> field (FlightPlan_m_cruiseAlt m) \<and> field (FlightPlan_m_destAirport m)
     \<and> int32 (FlightPlan_m_hoursEnroute m) \<and> int32 (FlightPlan_m_minutesEnroute m)
     \<and> int32 (FlightPlan_m_fuelAvailHours m) \<and> int32 (FlightPlan_m_fuelAvailMinutes m)
     \<and> field (FlightPlan_m_altAirport m) \<and> field (FlightPlan_m_remarks m)
     \<and> field (FlightPlan_m_route m)"

lemmas FlightPlan_defs [wire_defs] = FlightPlan_def FlightPlan_default_def FlightPlan_pdu_def
  FlightPlan_toTokens_def FlightPlan_fromTokens_def FlightPlan_wf_def

interpretation flight_plan: fsd_token_codec FlightPlan_pdu FlightPlan_toTokens
    "\<lambda>ts. Inr (FlightPlan_fromTokens ts)" FlightPlan_wf
  by unfold_locales (simp add: wire_defs is_space_def, simp add: wire_defs,
    (rename_tac m, case_tac m, simp add: wire_defs number_simps)+)

subsection \<open>PilotDataUpdate\<close>

record PilotDataUpdate = message_base +
  PilotDataUpdate_m_transponderMode :: TransponderMode
  PilotDataUpdate_m_transponderCode :: int
  PilotDataUpdate_m_rating :: PilotRating
  PilotDataUpdate_m_latitude :: double
  PilotDataUpdate_m_longitude :: double
  PilotDataUpdate_m_altitudeTrue :: int
  PilotDataUpdate_m_altitudePressure :: int
  PilotDataUpdate_m_groundSpeed :: int
  PilotDataUpdate_m_pitch :: double
  PilotDataUpdate_m_bank :: double
  PilotDataUpdate_m_heading :: double
  PilotDataUpdate_m_onGround :: bool

definition PilotDataUpdate :: "TransponderMode \<Rightarrow> string \<Rightarrow> int \<Rightarrow> PilotRating \<Rightarrow> double \<Rightarrow> double \<Rightarrow> int \<Rightarrow> int \<Rightarrow> int \<Rightarrow> double \<Rightarrow> double \<Rightarrow> double \<Rightarrow> bool \<Rightarrow> PilotDataUpdate" where
  "PilotDataUpdate transponderMode sender transponderCode rating latitude longitude altitudeTrue altitudePressure groundSpeed pitch bank heading onGround =
     \<lparr>m_sender = sender, m_receiver = '''', m_isValid = True,
      PilotDataUpdate_m_transponderMode = transponderMode,
      PilotDataUpdate_m_transponderCode = transponderCode,
      PilotDataUpdate_m_rating = rating,
      PilotDataUpdate_m_latitude = latitude,
      PilotDataUpdate_m_longitude = longitude,
      PilotDataUpdate_m_altitudeTrue = altitudeTrue,
      PilotDataUpdate_m_altitudePressure = altitudePressure,
      PilotDataUpdate_m_groundSpeed = groundSpeed,
      PilotDataUpdate_m_pitch = pitch,
      PilotDataUpdate_m_bank = bank,
      PilotDataUpdate_m_heading = heading,
      PilotDataUpdate_m_onGround = onGround\<rparr>"

definition PilotDataUpdate_default :: PilotDataUpdate where
  "PilotDataUpdate_default =
     \<lparr>m_sender = '''', m_receiver = '''', m_isValid = True,
      PilotDataUpdate_m_transponderMode = StateStandby,
      PilotDataUpdate_m_transponderCode = 0,
      PilotDataUpdate_m_rating = PilotRating_Unknown,
      PilotDataUpdate_m_latitude = Fin 0,
      PilotDataUpdate_m_longitude = Fin 0,
      PilotDataUpdate_m_altitudeTrue = 0,
      PilotDataUpdate_m_altitudePressure = 0,
      PilotDataUpdate_m_groundSpeed = 0,
      PilotDataUpdate_m_pitch = Fin 0,
      PilotDataUpdate_m_bank = Fin 0,
      PilotDataUpdate_m_heading = Fin 0,
      PilotDataUpdate_m_onGround = False\<rparr>"

definition PilotDataUpdate_pdu :: string where
  "PilotDataUpdate_pdu = ''@''"

definition PilotDataUpdate_toTokens :: "PilotDataUpdate \<Rightarrow> string list" where
  "PilotDataUpdate_toTokens m =
     [toQString_TransponderMode (PilotDataUpdate_m_transponderMode m), m_sender m,
      q_number (PilotDataUpdate_m_transponderCode m),
      toQString_PilotRating (PilotDataUpdate_m_rating m),
      d_number_f (PilotDataUpdate_m_latitude m) 5,
      d_number_f (PilotDataUpdate_m_longitude m) 5,
      q_number (PilotDataUpdate_m_altitudeTrue m),
      q_number (PilotDataUpdate_m_groundSpeed m),
      q_number_nat 10 (unat (packPBH (PilotDataUpdate_m_pitch m) (PilotDataUpdate_m_bank m) (PilotDataUpdate_m_heading m)
        (PilotDataUpdate_m_onGround m))),
      q_number (c_int (PilotDataUpdate_m_altitudePressure m - PilotDataUpdate_m_altitudeTrue m))]"

definition PilotDataUpdate_fromTokens :: "string list \<Rightarrow> PilotDataUpdate" where
  "PilotDataUpdate_fromTokens tokens =
     (if length tokens < 10 then PilotDataUpdate_default
      else (case unpackPBH (q_toUInt (tokens ! 8)) of (pitch, bank, heading, onGround) \<Rightarrow>
        PilotDataUpdate (fromQString_TransponderMode (tokens ! 0)) (tokens ! 1)
          (q_toInt (tokens ! 2)) (fromQString_PilotRating (tokens ! 3))
          (d_toDouble (tokens ! 4)) (d_toDouble (tokens ! 5)) (q_toInt (tokens ! 6))
          (c_int (q_toInt (tokens ! 6) + q_toInt (tokens ! 9))) (q_toInt (tokens ! 7))
          pitch bank heading onGround))"

definition PilotDataUpdate_wf :: "PilotDataUpdate \<Rightarrow> bool" where
  "PilotDataUpdate_wf m \<longleftrightarrow> m_isValid m \<and> m_receiver m = '''' \<and> field (m_sender m)
     \<and> TransponderMode_canon (PilotDataUpdate_m_transponderMode m) = PilotDataUpdate_m_transponderMode m
     \<and> int32 (PilotDataUpdate_m_transponderCode m) \<and> survives 5 (PilotDataUpdate_m_latitude m)
     \<and> survives 5 (PilotDataUpdate_m_longitude m) \<and> int32 (PilotDataUpdate_m_altitudeTrue m)
     \<and> int32 (PilotDataUpdate_m_altitudePressure m) \<and> int32 (PilotDataUpdate_m_groundSpeed m)
     \<and> attitude (PilotDataUpdate_m_pitch m) (PilotDataUpdate_m_bank m) (PilotDataUpdate_m_heading m) (PilotDataUpdate_m_onGround m)"

lemmas PilotDataUpdate_defs [wire_defs] = PilotDataUpdate_def PilotDataUpdate_default_def PilotDataUpdate_pdu_def
  PilotDataUpdate_toTokens_def PilotDataUpdate_fromTokens_def PilotDataUpdate_wf_def

interpretation pilot_data_update: fsd_token_codec PilotDataUpdate_pdu PilotDataUpdate_toTokens
    "\<lambda>ts. Inr (PilotDataUpdate_fromTokens ts)" PilotDataUpdate_wf
  by unfold_locales (simp add: wire_defs is_space_def, simp add: wire_defs,
    (rename_tac m, case_tac m, simp add: wire_defs number_simps survives_def attitude_def)+)

subsection \<open>InterimPilotDataUpdate\<close>

record InterimPilotDataUpdate = message_base +
  InterimPilotDataUpdate_m_latitude :: double
  InterimPilotDataUpdate_m_longitude :: double
  InterimPilotDataUpdate_m_altitudeTrue :: int
  InterimPilotDataUpdate_m_groundSpeed :: int
  InterimPilotDataUpdate_m_pitch :: double
  InterimPilotDataUpdate_m_bank :: double
  InterimPilotDataUpdate_m_heading :: double
  InterimPilotDataUpdate_m_onGround :: bool

definition InterimPilotDataUpdate :: "string \<Rightarrow> string \<Rightarrow> double \<Rightarrow> double \<Rightarrow> int \<Rightarrow> int \<Rightarrow> double \<Rightarrow> double \<Rightarrow> double \<Rightarrow> bool \<Rightarrow> InterimPilotDataUpdate" where
  "InterimPilotDataUpdate sender receiver latitude longitude altitudeTrue groundSpeed pitch bank heading onGround =
     \<lparr>m_sender = sender, m_receiver = receiver, m_isValid = True,
      InterimPilotDataUpdate_m_latitude = latitude,
      InterimPilotDataUpdate_m_longitude = longitude,
      InterimPilotDataUpdate_m_altitudeTrue = altitudeTrue,
      InterimPilotDataUpdate_m_groundSpeed = groundSpeed,
      InterimPilotDataUpdate_m_pitch = pitch,
      InterimPilotDataUpdate_m_bank = bank,
      InterimPilotDataUpdate_m_heading = heading,
      InterimPilotDataUpdate_m_onGround = onGround\<rparr>"

definition InterimPilotDataUpdate_default :: InterimPilotDataUpdate where
  "InterimPilotDataUpdate_default =
     \<lparr>m_sender = '''', m_receiver = '''', m_isValid = True,
      InterimPilotDataUpdate_m_latitude = Fin 0,
      InterimPilotDataUpdate_m_longitude = Fin 0,
      InterimPilotDataUpdate_m_altitudeTrue = 0,
      InterimPilotDataUpdate_m_groundSpeed = 0,
      InterimPilotDataUpdate_m_pitch = Fin 0,
      InterimPilotDataUpdate_m_bank = Fin 0,
      InterimPilotDataUpdate_m_heading = Fin 0,
      InterimPilotDataUpdate_m_onGround = False\<rparr>"

definition InterimPilotDataUpdate_pdu :: string where
  "InterimPilotDataUpdate_pdu = ''#SB''"

definition InterimPilotDataUpdate_toTokens :: "InterimPilotDataUpdate \<Rightarrow> string list" where
  "InterimPilotDataUpdate_toTokens m =
     [m_sender m, m_receiver m, ''VI'',
      d_number_f (InterimPilotDataUpdate_m_latitude m) 5,
      d_number_f (InterimPilotDataUpdate_m_longitude m) 5,
      q_number (InterimPilotDataUpdate_m_altitudeTrue m),
      q_number (InterimPilotDataUpdate_m_groundSpeed m),
      q_number_nat 10 (unat (packPBH (InterimPilotDataUpdate_m_pitch m) (InterimPilotDataUpdate_m_bank m)
        (InterimPilotDataUpdate_m_heading m) (InterimPilotDataUpdate_m_onGround m)))]"

definition InterimPilotDataUpdate_fromTokens :: "string list \<Rightarrow> InterimPilotDataUpdate" where
  "InterimPilotDataUpdate_fromTokens tokens =
     (if length tokens < 8 then InterimPilotDataUpdate_default
      else (case unpackPBH (q_toUInt (tokens ! 7)) of (pitch, bank, heading, onGround) \<Rightarrow>
        InterimPilotDataUpdate (tokens ! 0) (tokens ! 1) (d_toDouble (tokens ! 3))
          (d_toDouble (tokens ! 4)) (q_toInt (tokens ! 5)) (q_toInt (tokens ! 6))
          pitch bank heading onGround))"

definition InterimPilotDataUpdate_wf :: "InterimPilotDataUpdate \<Rightarrow> bool" where
  "InterimPilotDataUpdate_wf m \<longleftrightarrow> m_isValid m \<and> field (m_sender m) \<and> field (m_receiver m)
     \<and> survives 5 (InterimPilotDataUpdate_m_latitude m)
     \<and> survives 5 (InterimPilotDataUpdate_m_longitude m)
     \<and> int32 (InterimPilotDataUpdate_m_altitudeTrue m)
     \<and> int32 (InterimPilotDataUpdate_m_groundSpeed m)
     \<and> attitude (InterimPilotDataUpdate_m_pitch m) (InterimPilotDataUpdate_m_bank m) (InterimPilotDataUpdate_m_heading m)
       (InterimPilotDataUpdate_m_onGround m)"

lemmas InterimPilotDataUpdate_defs [wire_defs] = InterimPilotDataUpdate_def InterimPilotDataUpdate_default_def InterimPilotDataUpdate_pdu_def
  InterimPilotDataUpdate_toTokens_def InterimPilotDataUpdate_fromTokens_def InterimPilotDataUpdate_wf_def

interpretation interim_pilot_data_update: fsd_token_codec InterimPilotDataUpdate_pdu InterimPilotDataUpdate_toTokens
    "\<lambda>ts. Inr (InterimPilotDataUpdate_fromTokens ts)" InterimPilotDataUpdate_wf
  by unfold_locales (simp add: wire_defs is_space_def, simp add: wire_defs,
    (rename_tac m, case_tac m, simp add: wire_defs number_simps survives_def attitude_def)+)

subsection \<open>VisualPilotDataUpdate\<close>

record VisualPilotDataUpdate = message_base +
  VisualPilotDataUpdate_m_latitude :: double
  VisualPilotDataUpdate_m_longitude :: double
  VisualPilotDataUpdate_m_altitudeTrue :: double
  VisualPilotDataUpdate_m_heightAgl :: double
  VisualPilotDataUpdate_m_pitch :: double
  VisualPilotDataUpdate_m_bank :: double
  VisualPilotDataUpdate_m_heading :: double
  VisualPilotDataUpdate_m_xVelocity :: double
  VisualPilotDataUpdate_m_yVelocity :: double
  VisualPilotDataUpdate_m_zVelocity :: double
  VisualPilotDataUpdate_m_pitchRadPerSec :: double
  VisualPilotDataUpdate_m_bankRadPerSec :: double
  VisualPilotDataUpdate_m_headingRadPerSec :: double
  VisualPilotDataUpdate_m_noseGearAngle :: double

definition VisualPilotDataUpdate :: "string \<Rightarrow> double \<Rightarrow> double \<Rightarrow> double \<Rightarrow> double \<Rightarrow> double \<Rightarrow> double \<Rightarrow> double \<Rightarrow> double \<Rightarrow> double \<Rightarrow> double \<Rightarrow> double \<Rightarrow> double \<Rightarrow> double \<Rightarrow> double \<Rightarrow> VisualPilotDataUpdate" where
  "VisualPilotDataUpdate sender latitude longitude altitudeTrue heightAgl pitch bank heading xVelocity yVelocity zVelocity pitchRadPerSec bankRadPerSec headingRadPerSec noseGearAngle =
     \<lparr>m_sender = sender, m_receiver = '''', m_isValid = True,
      VisualPilotDataUpdate_m_latitude = latitude,
      VisualPilotDataUpdate_m_longitude = longitude,
      VisualPilotDataUpdate_m_altitudeTrue = altitudeTrue,
      VisualPilotDataUpdate_m_heightAgl = heightAgl,
      VisualPilotDataUpdate_m_pitch = pitch,
      VisualPilotDataUpdate_m_bank = bank,
      VisualPilotDataUpdate_m_heading = heading,
      VisualPilotDataUpdate_m_xVelocity = xVelocity,
      VisualPilotDataUpdate_m_yVelocity = yVelocity,
      VisualPilotDataUpdate_m_zVelocity = zVelocity,
      VisualPilotDataUpdate_m_pitchRadPerSec = pitchRadPerSec,
      VisualPilotDataUpdate_m_bankRadPerSec = bankRadPerSec,
      VisualPilotDataUpdate_m_headingRadPerSec = headingRadPerSec,
      VisualPilotDataUpdate_m_noseGearAngle = noseGearAngle\<rparr>"

definition VisualPilotDataUpdate_default :: VisualPilotDataUpdate where
  "VisualPilotDataUpdate_default =
     \<lparr>m_sender = '''', m_receiver = '''', m_isValid = True,
      VisualPilotDataUpdate_m_latitude = Fin 0,
      VisualPilotDataUpdate_m_longitude = Fin 0,
      VisualPilotDataUpdate_m_altitudeTrue = Fin 0,
      VisualPilotDataUpdate_m_heightAgl = Fin 0,
      VisualPilotDataUpdate_m_pitch = Fin 0,
      VisualPilotDataUpdate_m_bank = Fin 0,
      VisualPilotDataUpdate_m_heading = Fin 0,
      VisualPilotDataUpdate_m_xVelocity = Fin 0,
      VisualPilotDataUpdate_m_yVelocity = Fin 0,
      VisualPilotDataUpdate_m_zVelocity = Fin 0,
      VisualPilotDataUpdate_m_pitchRadPerSec = Fin 0,
      VisualPilotDataUpdate_m_bankRadPerSec = Fin 0,
      VisualPilotDataUpdate_m_headingRadPerSec = Fin 0,
      VisualPilotDataUpdate_m_noseGearAngle = Fin 0\<rparr>"

definition VisualPilotDataUpdate_pdu :: string where
  "VisualPilotDataUpdate_pdu = ''^''"

definition VisualPilotDataUpdate_toTokens :: "VisualPilotDataUpdate \<Rightarrow> string list" where
  "VisualPilotDataUpdate_toTokens m =
     [m_sender m, d_number_f (VisualPilotDataUpdate_m_latitude m) 7,
      d_number_f (VisualPilotDataUpdate_m_longitude m) 7,
      d_number_f (VisualPilotDataUpdate_m_altitudeTrue m) 2,
      d_number_f (VisualPilotDataUpdate_m_heightAgl m) 2,
      q_number_nat 10 (unat (packPBH (VisualPilotDataUpdate_m_pitch m) (VisualPilotDataUpdate_m_bank m)
        (VisualPilotDataUpdate_m_heading m) False)),
      d_number_f (VisualPilotDataUpdate_m_xVelocity m) 4,
      d_number_f (VisualPilotDataUpdate_m_yVelocity m) 4,
      d_number_f (VisualPilotDataUpdate_m_zVelocity m) 4,
      d_number_f (VisualPilotDataUpdate_m_pitchRadPerSec m) 4,
      d_number_f (VisualPilotDataUpdate_m_headingRadPerSec m) 4,
      d_number_f (VisualPilotDataUpdate_m_bankRadPerSec m) 4,
      d_number_f (VisualPilotDataUpdate_m_noseGearAngle m) 2]"

definition VisualPilotDataUpdate_fromTokens :: "string list \<Rightarrow> VisualPilotDataUpdate" where
  "VisualPilotDataUpdate_fromTokens tokens =
     (if length tokens < 12 then VisualPilotDataUpdate_default
      else (case unpackPBH (q_toUInt (tokens ! 5)) of (pitch, bank, heading, unused) \<Rightarrow>
        VisualPilotDataUpdate (tokens ! 0) (d_toDouble (tokens ! 1)) (d_toDouble (tokens ! 2))
          (d_toDouble (tokens ! 3)) (d_toDouble (tokens ! 4)) pitch bank heading
          (d_toDouble (tokens ! 6)) (d_toDouble (tokens ! 7)) (d_toDouble (tokens ! 8))
          (d_toDouble (tokens ! 9)) (d_toDouble (tokens ! 11)) (d_toDouble (tokens ! 10))
          (d_toDouble (list_value tokens 12 ''0''))))"

definition VisualPilotDataUpdate_wf :: "VisualPilotDataUpdate \<Rightarrow> bool" where
  "VisualPilotDataUpdate_wf m \<longleftrightarrow> m_isValid m \<and> m_receiver m = '''' \<and> field (m_sender m)
     \<and> survives 7 (VisualPilotDataUpdate_m_latitude m)
     \<and> survives 7 (VisualPilotDataUpdate_m_longitude m)
     \<and> survives 2 (VisualPilotDataUpdate_m_altitudeTrue m)
     \<and> survives 2 (VisualPilotDataUpdate_m_heightAgl m)
     \<and> survives 4 (VisualPilotDataUpdate_m_xVelocity m)
     \<and> survives 4 (VisualPilotDataUpdate_m_yVelocity m)
     \<and> survives 4 (VisualPilotDataUpdate_m_zVelocity m)
     \<and> survives 4 (VisualPilotDataUpdate_m_pitchRadPerSec m)
     \<and> survives 4 (VisualPilotDataUpdate_m_bankRadPerSec m)
     \<and> survives 4 (VisualPilotDataUpdate_m_headingRadPerSec m)
     \<and> survives 2 (VisualPilotDataUpdate_m_noseGearAngle m)
     \<and> attitude (VisualPilotDataUpdate_m_pitch m) (VisualPilotDataUpdate_m_bank m)
       (VisualPilotDataUpdate_m_heading m) False"

lemmas VisualPilotDataUpdate_defs [wire_defs] = VisualPilotDataUpdate_def VisualPilotDataUpdate_default_def VisualPilotDataUpdate_pdu_def
  VisualPilotDataUpdate_toTokens_def VisualPilotDataUpdate_fromTokens_def VisualPilotDataUpdate_wf_def

interpretation visual_update: fsd_token_codec VisualPilotDataUpdate_pdu VisualPilotDataUpdate_toTokens
    "\<lambda>ts. Inr (VisualPilotDataUpdate_fromTokens ts)" VisualPilotDataUpdate_wf
  by unfold_locales (simp add: wire_defs is_space_def, simp add: wire_defs,
    (rename_tac m, case_tac m, simp add: wire_defs number_simps survives_def attitude_def list_value_def)+)

subsection \<open>VisualPilotDataPeriodic\<close>

record VisualPilotDataPeriodic = message_base +
  VisualPilotDataPeriodic_m_latitude :: double
  VisualPilotDataPeriodic_m_longitude :: double
  VisualPilotDataPeriodic_m_altitudeTrue :: double
  VisualPilotDataPeriodic_m_heightAgl :: double
  VisualPilotDataPeriodic_m_pitch :: double
  VisualPilotDataPeriodic_m_bank :: double
  VisualPilotDataPeriodic_m_heading :: double
  VisualPilotDataPeriodic_m_xVelocity :: double
  VisualPilotDataPeriodic_m_yVelocity :: double
  VisualPilotDataPeriodic_m_zVelocity :: double
  VisualPilotDataPeriodic_m_pitchRadPerSec :: double
  VisualPilotDataPeriodic_m_bankRadPerSec :: double
  VisualPilotDataPeriodic_m_headingRadPerSec :: double
  VisualPilotDataPeriodic_m_noseGearAngle :: double

definition VisualPilotDataPeriodic :: "string \<Rightarrow> double \<Rightarrow> double \<Rightarrow> double \<Rightarrow> double \<Rightarrow> double \<Rightarrow> double \<Rightarrow> double \<Rightarrow> double \<Rightarrow> double \<Rightarrow> double \<Rightarrow> double \<Rightarrow> double \<Rightarrow> double \<Rightarrow> double \<Rightarrow> VisualPilotDataPeriodic" where
  "VisualPilotDataPeriodic sender latitude longitude altitudeTrue heightAgl pitch bank heading xVelocity yVelocity zVelocity pitchRadPerSec bankRadPerSec headingRadPerSec noseGearAngle =
     \<lparr>m_sender = sender, m_receiver = '''', m_isValid = True,
      VisualPilotDataPeriodic_m_latitude = latitude,
      VisualPilotDataPeriodic_m_longitude = longitude,
      VisualPilotDataPeriodic_m_altitudeTrue = altitudeTrue,
      VisualPilotDataPeriodic_m_heightAgl = heightAgl,
      VisualPilotDataPeriodic_m_pitch = pitch,
      VisualPilotDataPeriodic_m_bank = bank,
      VisualPilotDataPeriodic_m_heading = heading,
      VisualPilotDataPeriodic_m_xVelocity = xVelocity,
      VisualPilotDataPeriodic_m_yVelocity = yVelocity,
      VisualPilotDataPeriodic_m_zVelocity = zVelocity,
      VisualPilotDataPeriodic_m_pitchRadPerSec = pitchRadPerSec,
      VisualPilotDataPeriodic_m_bankRadPerSec = bankRadPerSec,
      VisualPilotDataPeriodic_m_headingRadPerSec = headingRadPerSec,
      VisualPilotDataPeriodic_m_noseGearAngle = noseGearAngle\<rparr>"

definition VisualPilotDataPeriodic_default :: VisualPilotDataPeriodic where
  "VisualPilotDataPeriodic_default =
     \<lparr>m_sender = '''', m_receiver = '''', m_isValid = True,
      VisualPilotDataPeriodic_m_latitude = Fin 0,
      VisualPilotDataPeriodic_m_longitude = Fin 0,
      VisualPilotDataPeriodic_m_altitudeTrue = Fin 0,
      VisualPilotDataPeriodic_m_heightAgl = Fin 0,
      VisualPilotDataPeriodic_m_pitch = Fin 0,
      VisualPilotDataPeriodic_m_bank = Fin 0,
      VisualPilotDataPeriodic_m_heading = Fin 0,
      VisualPilotDataPeriodic_m_xVelocity = Fin 0,
      VisualPilotDataPeriodic_m_yVelocity = Fin 0,
      VisualPilotDataPeriodic_m_zVelocity = Fin 0,
      VisualPilotDataPeriodic_m_pitchRadPerSec = Fin 0,
      VisualPilotDataPeriodic_m_bankRadPerSec = Fin 0,
      VisualPilotDataPeriodic_m_headingRadPerSec = Fin 0,
      VisualPilotDataPeriodic_m_noseGearAngle = Fin 0\<rparr>"

definition VisualPilotDataPeriodic_pdu :: string where
  "VisualPilotDataPeriodic_pdu = ''#SL''"

definition VisualPilotDataPeriodic_toTokens :: "VisualPilotDataPeriodic \<Rightarrow> string list" where
  "VisualPilotDataPeriodic_toTokens m =
     [m_sender m, d_number_f (VisualPilotDataPeriodic_m_latitude m) 7,
      d_number_f (VisualPilotDataPeriodic_m_longitude m) 7,
      d_number_f (VisualPilotDataPeriodic_m_altitudeTrue m) 2,
      d_number_f (VisualPilotDataPeriodic_m_heightAgl m) 2,
      q_number_nat 10 (unat (packPBH (VisualPilotDataPeriodic_m_pitch m) (VisualPilotDataPeriodic_m_bank m)
        (VisualPilotDataPeriodic_m_heading m) False)),
      d_number_f (VisualPilotDataPeriodic_m_xVelocity m) 4,
      d_number_f (VisualPilotDataPeriodic_m_yVelocity m) 4,
      d_number_f (VisualPilotDataPeriodic_m_zVelocity m) 4,
      d_number_f (VisualPilotDataPeriodic_m_pitchRadPerSec m) 4,
      d_number_f (VisualPilotDataPeriodic_m_headingRadPerSec m) 4,
      d_number_f (VisualPilotDataPeriodic_m_bankRadPerSec m) 4,
      d_number_f (VisualPilotDataPeriodic_m_noseGearAngle m) 2]"

definition VisualPilotDataPeriodic_fromTokens :: "string list \<Rightarrow> VisualPilotDataPeriodic" where
  "VisualPilotDataPeriodic_fromTokens tokens =
     (if length tokens < 12 then VisualPilotDataPeriodic_default
      else (case unpackPBH (q_toUInt (tokens ! 5)) of (pitch, bank, heading, unused) \<Rightarrow>
        VisualPilotDataPeriodic (tokens ! 0) (d_toDouble (tokens ! 1)) (d_toDouble (tokens ! 2))
          (d_toDouble (tokens ! 3)) (d_toDouble (tokens ! 4)) pitch bank heading
          (d_toDouble (tokens ! 6)) (d_toDouble (tokens ! 7)) (d_toDouble (tokens ! 8))
          (d_toDouble (tokens ! 9)) (d_toDouble (tokens ! 11)) (d_toDouble (tokens ! 10))
          (d_toDouble (list_value tokens 12 ''0''))))"

definition VisualPilotDataPeriodic_wf :: "VisualPilotDataPeriodic \<Rightarrow> bool" where
  "VisualPilotDataPeriodic_wf m \<longleftrightarrow> m_isValid m \<and> m_receiver m = '''' \<and> field (m_sender m)
     \<and> survives 7 (VisualPilotDataPeriodic_m_latitude m)
     \<and> survives 7 (VisualPilotDataPeriodic_m_longitude m)
     \<and> survives 2 (VisualPilotDataPeriodic_m_altitudeTrue m)
     \<and> survives 2 (VisualPilotDataPeriodic_m_heightAgl m)
     \<and> survives 4 (VisualPilotDataPeriodic_m_xVelocity m)
     \<and> survives 4 (VisualPilotDataPeriodic_m_yVelocity m)
     \<and> survives 4 (VisualPilotDataPeriodic_m_zVelocity m)
     \<and> survives 4 (VisualPilotDataPeriodic_m_pitchRadPerSec m)
     \<and> survives 4 (VisualPilotDataPeriodic_m_bankRadPerSec m)
     \<and> survives 4 (VisualPilotDataPeriodic_m_headingRadPerSec m)
     \<and> survives 2 (VisualPilotDataPeriodic_m_noseGearAngle m)
     \<and> attitude (VisualPilotDataPeriodic_m_pitch m) (VisualPilotDataPeriodic_m_bank m)
       (VisualPilotDataPeriodic_m_heading m) False"

lemmas VisualPilotDataPeriodic_defs [wire_defs] = VisualPilotDataPeriodic_def VisualPilotDataPeriodic_default_def VisualPilotDataPeriodic_pdu_def
  VisualPilotDataPeriodic_toTokens_def VisualPilotDataPeriodic_fromTokens_def VisualPilotDataPeriodic_wf_def

interpretation visual_periodic: fsd_token_codec VisualPilotDataPeriodic_pdu VisualPilotDataPeriodic_toTokens
    "\<lambda>ts. Inr (VisualPilotDataPeriodic_fromTokens ts)" VisualPilotDataPeriodic_wf
  by unfold_locales (simp add: wire_defs is_space_def, simp add: wire_defs,
    (rename_tac m, case_tac m, simp add: wire_defs number_simps survives_def attitude_def list_value_def)+)

subsection \<open>VisualPilotDataStopped\<close>

record VisualPilotDataStopped = message_base +
  VisualPilotDataStopped_m_latitude :: double
  VisualPilotDataStopped_m_longitude :: double
  VisualPilotDataStopped_m_altitudeTrue :: double
  VisualPilotDataStopped_m_heightAgl :: double
  VisualPilotDataStopped_m_pitch :: double
  VisualPilotDataStopped_m_bank :: double
  VisualPilotDataStopped_m_heading :: double
  VisualPilotDataStopped_m_noseGearAngle :: double

definition VisualPilotDataStopped :: "string \<Rightarrow> double \<Rightarrow> double \<Rightarrow> double \<Rightarrow> double \<Rightarrow> double \<Rightarrow> double \<Rightarrow> double \<Rightarrow> double \<Rightarrow> VisualPilotDataStopped" where
  "VisualPilotDataStopped sender latitude longitude altitudeTrue heightAgl pitch bank heading noseGearAngle =
     \<lparr>m_sender = sender, m_receiver = '''', m_isValid = True,
      VisualPilotDataStopped_m_latitude = latitude,
      VisualPilotDataStopped_m_longitude = longitude,
      VisualPilotDataStopped_m_altitudeTrue = altitudeTrue,
      VisualPilotDataStopped_m_heightAgl = heightAgl,
      VisualPilotDataStopped_m_pitch = pitch,
      VisualPilotDataStopped_m_bank = bank,
      VisualPilotDataStopped_m_heading = heading,
      VisualPilotDataStopped_m_noseGearAngle = noseGearAngle\<rparr>"

definition VisualPilotDataStopped_default :: VisualPilotDataStopped where
  "VisualPilotDataStopped_default =
     \<lparr>m_sender = '''', m_receiver = '''', m_isValid = True,
      VisualPilotDataStopped_m_latitude = Fin 0,
      VisualPilotDataStopped_m_longitude = Fin 0,
      VisualPilotDataStopped_m_altitudeTrue = Fin 0,
      VisualPilotDataStopped_m_heightAgl = Fin 0,
      VisualPilotDataStopped_m_pitch = Fin 0,
      VisualPilotDataStopped_m_bank = Fin 0,
      VisualPilotDataStopped_m_heading = Fin 0,
      VisualPilotDataStopped_m_noseGearAngle = Fin 0\<rparr>"

definition VisualPilotDataStopped_pdu :: string where
  "VisualPilotDataStopped_pdu = ''#ST''"

definition VisualPilotDataStopped_toTokens :: "VisualPilotDataStopped \<Rightarrow> string list" where
  "VisualPilotDataStopped_toTokens m =
     [m_sender m, d_number_f (VisualPilotDataStopped_m_latitude m) 7,
      d_number_f (VisualPilotDataStopped_m_longitude m) 7,
      d_number_f (VisualPilotDataStopped_m_altitudeTrue m) 2,
      d_number_f (VisualPilotDataStopped_m_heightAgl m) 2,
      q_number_nat 10 (unat (packPBH (VisualPilotDataStopped_m_pitch m) (VisualPilotDataStopped_m_bank m)
        (VisualPilotDataStopped_m_heading m) False)),
      d_number_f (VisualPilotDataStopped_m_noseGearAngle m) 2]"

definition VisualPilotDataStopped_fromTokens :: "string list \<Rightarrow> VisualPilotDataStopped" where
  "VisualPilotDataStopped_fromTokens tokens =
     (if length tokens < 6 then VisualPilotDataStopped_default
      else (case unpackPBH (q_toUInt (tokens ! 5)) of (pitch, bank, heading, unused) \<Rightarrow>
        VisualPilotDataStopped (tokens ! 0) (d_toDouble (tokens ! 1)) (d_toDouble (tokens ! 2))
          (d_toDouble (tokens ! 3)) (d_toDouble (tokens ! 4)) pitch bank heading
          (d_toDouble (list_value tokens 12 ''0''))))"

definition VisualPilotDataStopped_wf :: "VisualPilotDataStopped \<Rightarrow> bool" where
  "VisualPilotDataStopped_wf m \<longleftrightarrow> m_isValid m \<and> m_receiver m = '''' \<and> field (m_sender m)
     \<and> survives 7 (VisualPilotDataStopped_m_latitude m)
     \<and> survives 7 (VisualPilotDataStopped_m_longitude m)
     \<and> survives 2 (VisualPilotDataStopped_m_altitudeTrue m)
     \<and> survives 2 (VisualPilotDataStopped_m_heightAgl m)
     \<and> VisualPilotDataStopped_m_noseGearAngle m = Fin 0
     \<and> attitude (VisualPilotDataStopped_m_pitch m) (VisualPilotDataStopped_m_bank m)
       (VisualPilotDataStopped_m_heading m) False"

lemmas VisualPilotDataStopped_defs [wire_defs] = VisualPilotDataStopped_def VisualPilotDataStopped_default_def VisualPilotDataStopped_pdu_def
  VisualPilotDataStopped_toTokens_def VisualPilotDataStopped_fromTokens_def VisualPilotDataStopped_wf_def

lemma toDouble_0: "d_toDouble ''0'' = Fin 0"
  using toDouble_number_int [of 0] by (simp add: int32_def number_01)

interpretation visual_stopped: fsd_token_codec VisualPilotDataStopped_pdu VisualPilotDataStopped_toTokens
    "\<lambda>ts. Inr (VisualPilotDataStopped_fromTokens ts)" VisualPilotDataStopped_wf
  by unfold_locales (simp add: wire_defs is_space_def, simp add: wire_defs,
    (rename_tac m, case_tac m, simp add: wire_defs number_simps survives_def attitude_def list_value_def toDouble_0)+)

subsection \<open>From one visual message to another\<close>

definition VisualPilotDataUpdate_toPeriodic :: "VisualPilotDataUpdate \<Rightarrow> VisualPilotDataPeriodic" where
  "VisualPilotDataUpdate_toPeriodic m = VisualPilotDataPeriodic (m_sender m)
     (VisualPilotDataUpdate_m_latitude m) (VisualPilotDataUpdate_m_longitude m)
     (VisualPilotDataUpdate_m_altitudeTrue m) (VisualPilotDataUpdate_m_heightAgl m)
     (VisualPilotDataUpdate_m_pitch m) (VisualPilotDataUpdate_m_bank m)
     (VisualPilotDataUpdate_m_heading m) (VisualPilotDataUpdate_m_xVelocity m)
     (VisualPilotDataUpdate_m_yVelocity m) (VisualPilotDataUpdate_m_zVelocity m)
     (VisualPilotDataUpdate_m_pitchRadPerSec m)
     (VisualPilotDataUpdate_m_bankRadPerSec m)
     (VisualPilotDataUpdate_m_headingRadPerSec m)
     (VisualPilotDataUpdate_m_noseGearAngle m)"

definition VisualPilotDataUpdate_toStopped :: "VisualPilotDataUpdate \<Rightarrow> VisualPilotDataStopped" where
  "VisualPilotDataUpdate_toStopped m = VisualPilotDataStopped (m_sender m)
     (VisualPilotDataUpdate_m_latitude m) (VisualPilotDataUpdate_m_longitude m)
     (VisualPilotDataUpdate_m_altitudeTrue m) (VisualPilotDataUpdate_m_heightAgl m)
     (VisualPilotDataUpdate_m_pitch m) (VisualPilotDataUpdate_m_bank m)
     (VisualPilotDataUpdate_m_heading m) (VisualPilotDataUpdate_m_noseGearAngle m)"

definition VisualPilotDataPeriodic_toUpdate :: "VisualPilotDataPeriodic \<Rightarrow> VisualPilotDataUpdate" where
  "VisualPilotDataPeriodic_toUpdate m = VisualPilotDataUpdate (m_sender m)
     (VisualPilotDataPeriodic_m_latitude m) (VisualPilotDataPeriodic_m_longitude m)
     (VisualPilotDataPeriodic_m_altitudeTrue m)
     (VisualPilotDataPeriodic_m_heightAgl m) (VisualPilotDataPeriodic_m_pitch m)
     (VisualPilotDataPeriodic_m_bank m) (VisualPilotDataPeriodic_m_heading m)
     (VisualPilotDataPeriodic_m_xVelocity m) (VisualPilotDataPeriodic_m_yVelocity m)
     (VisualPilotDataPeriodic_m_zVelocity m)
     (VisualPilotDataPeriodic_m_pitchRadPerSec m)
     (VisualPilotDataPeriodic_m_bankRadPerSec m)
     (VisualPilotDataPeriodic_m_headingRadPerSec m)
     (VisualPilotDataPeriodic_m_noseGearAngle m)"

definition VisualPilotDataStopped_toUpdate :: "VisualPilotDataStopped \<Rightarrow> VisualPilotDataUpdate" where
  "VisualPilotDataStopped_toUpdate m = VisualPilotDataUpdate (m_sender m)
     (VisualPilotDataStopped_m_latitude m) (VisualPilotDataStopped_m_longitude m)
     (VisualPilotDataStopped_m_altitudeTrue m) (VisualPilotDataStopped_m_heightAgl m)
     (VisualPilotDataStopped_m_pitch m) (VisualPilotDataStopped_m_bank m)
     (VisualPilotDataStopped_m_heading m) (Fin 0) (Fin 0) (Fin 0) (Fin 0) (Fin 0)
     (Fin 0) (VisualPilotDataStopped_m_noseGearAngle m)"

subsection \<open>Aircraft lights\<close>

text \<open>\<open>blackmisc/aviation/aircraftlights.h\<close>: the flags, the eight-argument constructor and the two
  factories.\<close>

record CAircraftLights =
  lights_isNull :: bool
  strobeOn :: bool
  landingOn :: bool
  taxiOn :: bool
  beaconOn :: bool
  navOn :: bool
  logoOn :: bool
  recognition :: bool
  cabin :: bool

definition CAircraftLights ::
    "bool \<Rightarrow> bool \<Rightarrow> bool \<Rightarrow> bool \<Rightarrow> bool \<Rightarrow> bool \<Rightarrow> bool \<Rightarrow> bool \<Rightarrow> CAircraftLights" where
  "CAircraftLights strobe landing taxi beacon nav logo recog cab =
     \<lparr>lights_isNull = False, strobeOn = strobe, landingOn = landing, taxiOn = taxi,
      beaconOn = beacon, navOn = nav, logoOn = logo, recognition = recog, cabin = cab\<rparr>"

definition allLightsOn :: CAircraftLights where
  "allLightsOn = CAircraftLights True True True True True True True True"

definition allLightsOff :: CAircraftLights where
  "allLightsOff = CAircraftLights False False False False False False False False"

text \<open>The flags of the Euroscope message.\<close>

definition toFlags :: "CAircraftLights \<Rightarrow> int" where
  "toFlags l =
     (if beaconOn l then 0x002 else 0) OR (if cabin l then 0x400 else 0)
     OR (if landingOn l then 0x020 else 0) OR (if logoOn l then 0x200 else 0)
     OR (if navOn l then 0x008 else 0) OR (if recognition l then 0x080 else 0)
     OR (if strobeOn l then 0x004 else 0) OR (if taxiOn l then 0x040 else 0)"

definition fromFlags :: "int \<Rightarrow> CAircraftLights" where
  "fromFlags n = CAircraftLights (n AND 0x4 \<noteq> 0) (n AND 0x20 \<noteq> 0) (n AND 0x40 \<noteq> 0) (n AND 0x2 \<noteq> 0)
     (n AND 0x8 \<noteq> 0) (n AND 0x200 \<noteq> 0) (n AND 0x80 \<noteq> 0) (n AND 0x400 \<noteq> 0)"

lemma flags_roundtrip: "\<not> lights_isNull l \<Longrightarrow> fromFlags (toFlags l) = l"
proof (cases l)
  case (fields n s ld t b nv lg r c)
  assume "\<not> lights_isNull l"
  with fields show ?thesis
    by (cases s; cases ld; cases t; cases b; cases nv; cases lg; cases r; cases c)
      (simp_all add: fromFlags_def toFlags_def CAircraftLights_def)
qed

lemma toFlags_int32: "int32 (toFlags l)"
  by (cases "strobeOn l"; cases "landingOn l"; cases "taxiOn l"; cases "beaconOn l"; cases "navOn l";
      cases "logoOn l"; cases "recognition l"; cases "cabin l") (simp_all add: toFlags_def int32_def)

subsection \<open>EuroscopeSimData\<close>

record EuroscopeSimData = message_base +
  EuroscopeSimData_m_model :: string
  EuroscopeSimData_m_livery :: string
  EuroscopeSimData_m_timestamp :: "64 word"
  EuroscopeSimData_m_latitude :: double
  EuroscopeSimData_m_longitude :: double
  EuroscopeSimData_m_altitude :: double
  EuroscopeSimData_m_heading :: double
  EuroscopeSimData_m_bank :: int
  EuroscopeSimData_m_pitch :: int
  EuroscopeSimData_m_groundSpeed :: int
  EuroscopeSimData_m_onGround :: bool
  EuroscopeSimData_m_gearPercent :: int
  EuroscopeSimData_m_thrustPercent :: int
  EuroscopeSimData_m_lights :: CAircraftLights

definition EuroscopeSimData :: "string \<Rightarrow> string \<Rightarrow> string \<Rightarrow> 64 word \<Rightarrow> double \<Rightarrow> double \<Rightarrow> double \<Rightarrow> double \<Rightarrow> int \<Rightarrow> int \<Rightarrow> int \<Rightarrow> bool \<Rightarrow> double \<Rightarrow> double \<Rightarrow> CAircraftLights \<Rightarrow> EuroscopeSimData" where
  "EuroscopeSimData sender model livery timestamp latitude longitude altitude heading bank pitch groundSpeed onGround gearPercent thrustPercent lights =
     \<lparr>m_sender = sender, m_receiver = '''', m_isValid = True,
      EuroscopeSimData_m_model = model,
      EuroscopeSimData_m_livery = livery,
      EuroscopeSimData_m_timestamp = timestamp,
      EuroscopeSimData_m_latitude = latitude,
      EuroscopeSimData_m_longitude = longitude,
      EuroscopeSimData_m_altitude = altitude,
      EuroscopeSimData_m_heading = heading,
      EuroscopeSimData_m_bank = bank,
      EuroscopeSimData_m_pitch = pitch,
      EuroscopeSimData_m_groundSpeed = groundSpeed,
      EuroscopeSimData_m_onGround = onGround,
      EuroscopeSimData_m_gearPercent = d_to_int gearPercent,
      EuroscopeSimData_m_thrustPercent = d_to_int thrustPercent,
      EuroscopeSimData_m_lights = lights\<rparr>"

definition EuroscopeSimData_default :: EuroscopeSimData where
  "EuroscopeSimData_default =
     \<lparr>m_sender = '''', m_receiver = '''', m_isValid = True,
      EuroscopeSimData_m_model = '''',
      EuroscopeSimData_m_livery = '''',
      EuroscopeSimData_m_timestamp = 0,
      EuroscopeSimData_m_latitude = Fin 0,
      EuroscopeSimData_m_longitude = Fin 0,
      EuroscopeSimData_m_altitude = Fin 0,
      EuroscopeSimData_m_heading = Fin 0,
      EuroscopeSimData_m_bank = 0,
      EuroscopeSimData_m_pitch = 0,
      EuroscopeSimData_m_groundSpeed = 0,
      EuroscopeSimData_m_onGround = False,
      EuroscopeSimData_m_gearPercent = 0,
      EuroscopeSimData_m_thrustPercent = 0,
      EuroscopeSimData_m_lights = allLightsOff\<rparr>"

definition EuroscopeSimData_pdu :: string where
  "EuroscopeSimData_pdu = ''SIMDATA''"

definition EuroscopeSimData_toTokens :: "EuroscopeSimData \<Rightarrow> string list" where
  "EuroscopeSimData_toTokens m =
     ['''', m_sender m, EuroscopeSimData_m_model m, EuroscopeSimData_m_livery m,
      q_number_nat 10 (unat (EuroscopeSimData_m_timestamp m)),
      d_number_f (EuroscopeSimData_m_latitude m) 7,
      d_number_f (EuroscopeSimData_m_longitude m) 7,
      d_number_f (EuroscopeSimData_m_altitude m) 1,
      d_number_f (EuroscopeSimData_m_heading m) 2, q_number (EuroscopeSimData_m_bank m),
      q_number (EuroscopeSimData_m_pitch m), q_number (EuroscopeSimData_m_groundSpeed m),
      (if EuroscopeSimData_m_onGround m then ''1'' else ''0''),
      q_number (EuroscopeSimData_m_gearPercent m),
      q_number (EuroscopeSimData_m_thrustPercent m), ''0'', ''0.0'',
      q_number (toFlags (EuroscopeSimData_m_lights m))]"

definition EuroscopeSimData_fromTokens :: "string list \<Rightarrow> EuroscopeSimData" where
  "EuroscopeSimData_fromTokens tokens =
     (if length tokens < 18 then EuroscopeSimData_default
      else EuroscopeSimData (tokens ! 1) (tokens ! 2) (tokens ! 3) (q_toULongLong (tokens ! 4))
        (d_toDouble (tokens ! 5)) (d_toDouble (tokens ! 6)) (d_toDouble (tokens ! 7))
        (d_toDouble (tokens ! 8)) (q_toInt (tokens ! 9)) (q_toInt (tokens ! 10))
        (q_toInt (tokens ! 11)) (q_toInt (tokens ! 12) \<noteq> 0)
        (d_toDouble (tokens ! 13)) (d_toDouble (tokens ! 14))
        (fromFlags (q_toInt (tokens ! 17))))"

definition EuroscopeSimData_wf :: "EuroscopeSimData \<Rightarrow> bool" where
  "EuroscopeSimData_wf m \<longleftrightarrow> m_isValid m \<and> m_receiver m = '''' \<and> field (m_sender m) \<and> field (EuroscopeSimData_m_model m)
     \<and> field (EuroscopeSimData_m_livery m) \<and> survives 7 (EuroscopeSimData_m_latitude m)
     \<and> survives 7 (EuroscopeSimData_m_longitude m) \<and> survives 1 (EuroscopeSimData_m_altitude m)
     \<and> survives 2 (EuroscopeSimData_m_heading m) \<and> int32 (EuroscopeSimData_m_bank m)
     \<and> int32 (EuroscopeSimData_m_pitch m) \<and> int32 (EuroscopeSimData_m_groundSpeed m)
     \<and> int32 (EuroscopeSimData_m_gearPercent m) \<and> int32 (EuroscopeSimData_m_thrustPercent m)
     \<and> \<not> lights_isNull (EuroscopeSimData_m_lights m)"

lemmas EuroscopeSimData_defs [wire_defs] = EuroscopeSimData_def EuroscopeSimData_default_def EuroscopeSimData_pdu_def
  EuroscopeSimData_toTokens_def EuroscopeSimData_fromTokens_def EuroscopeSimData_wf_def

lemma trunc_int [simp]: "trunc (of_int i) = i"
  by (simp add: trunc_def)

lemma int_through_double: "int32 i \<Longrightarrow> d_to_int (d_toDouble (q_number i)) = i"
  by (simp add: toDouble_number_int to_c_int_def)

lemma flag_texts: "q_toInt ''1'' = 1" "q_toInt ''0'' = 0"
  using q_toInt_number [of 1] q_toInt_number [of 0] by (simp_all add: number_01 int32_def)

interpretation euroscope: fsd_token_codec EuroscopeSimData_pdu EuroscopeSimData_toTokens
    "\<lambda>ts. Inr (EuroscopeSimData_fromTokens ts)" EuroscopeSimData_wf
  by unfold_locales (simp add: wire_defs is_space_def, simp add: wire_defs,
    (rename_tac m, case_tac m, simp add: wire_defs number_simps survives_def int_through_double flag_texts flags_roundtrip toFlags_int32)+)

end
