(* ===== verification/WireProperties.thy ===== *)
theory WireProperties
  imports FsdDataMessages
begin

section \<open>What the messages guarantee\<close>

text \<open>
  The properties of the FSD messages: what the wire keeps, what it changes, and where a reader
  fails. They rest on the interpretations of \<open>fsd_token_codec\<close> for the message classes.
\<close>

text \<open>C30: A pilot login that the client sends is what the other side reads: the identifier, the seven
  members and the frame lose nothing, provided that no text holds a colon, the simulator is one
  with a number of its own, and neither end of the line is blank.\<close>

lemma login_reaches_server:
  assumes "field callsign" "field cid" "field password" "field realName"
    and "int32 revision" "SimType_canon sim = sim" "callsign \<noteq> []" "\<not> is_space (hd callsign)"
    and "realName \<noteq> []" "\<not> is_space (last realName)"
  shows "AddPilot_fromTokens (line_tokens AddPilot_pdu (messageToFSDString AddPilot_pdu AddPilot_toTokens
      (AddPilot callsign cid password rating revision sim realName)))
    = Inr (AddPilot callsign cid password rating revision sim realName)"
proof (rule add_pilot.wire_roundtrip)
  show "AddPilot_wf (AddPilot callsign cid password rating revision sim realName)"
    using assms(1-6) by (simp add: AddPilot_defs)
  show "unpadded (q_join '':'' (AddPilot_toTokens (AddPilot callsign cid password rating revision sim realName)))"
    using assms(7-10) by (simp add: AddPilot_defs unpadded_def q_join_Cons)
qed

lemma login_reaches_server_witness:
  "AddPilot_fromTokens (line_tokens AddPilot_pdu (messageToFSDString AddPilot_pdu AddPilot_toTokens
      (AddPilot ''DLH1AB'' ''1234567'' ''secret'' PilotRating_Student 100 XPLANE11 ''Jon EDDF'')))
    = Inr (AddPilot ''DLH1AB'' ''1234567'' ''secret'' PilotRating_Student 100 XPLANE11 ''Jon EDDF'')"
  by (rule login_reaches_server) (simp_all add: is_space_def int32_def SimType_canon_def)





lemma number_f_not_Nil: "d_number_f d n \<noteq> []"
  by (cases d) (simp_all add: decimal_text_def Let_def)

text \<open>A visual position whose numbers are decimals with the digits the message has room for comes back
  bit for bit: the writer and the reader agree on the order of the rotation rates (pitch, heading, bank)
  and on the optional nose gear.\<close>

lemma visual_position_exact:
  assumes "plain sender" "sender \<noteq> []" "attitude p b h False"
    and "\<forall>k\<in>{lat, lon, alt, agl, vx, vy, vz, rp, rb, rh, gear}. \<bar>k\<bar> < 2 ^ 52"
  shows "let m = VisualPilotDataUpdate sender (dec 7 lat) (dec 7 lon) (dec 2 alt) (dec 2 agl) p b h
      (dec 4 vx) (dec 4 vy) (dec 4 vz) (dec 4 rp) (dec 4 rb) (dec 4 rh) (dec 2 gear)
    in VisualPilotDataUpdate_fromTokens (line_tokens VisualPilotDataUpdate_pdu
         (messageToFSDString VisualPilotDataUpdate_pdu VisualPilotDataUpdate_toTokens m)) = m"
proof -
  define m where "m = VisualPilotDataUpdate sender (dec 7 lat) (dec 7 lon) (dec 2 alt) (dec 2 agl) p b h
      (dec 4 vx) (dec 4 vy) (dec 4 vz) (dec 4 rp) (dec 4 rb) (dec 4 rh) (dec 2 gear)"
  have "VisualPilotDataUpdate_wf m"
    using assms by (simp add: VisualPilotDataUpdate_defs m_def dec_survives plain_field)
  moreover have "unpadded (q_join '':'' (VisualPilotDataUpdate_toTokens m))"
    unfolding VisualPilotDataUpdate_toTokens_def using assms(1,2)
    by (intro unpadded_join_plain) (simp_all add: m_def VisualPilotDataUpdate_def dec_def number_f_not_Nil)
  ultimately show ?thesis
    using visual_update.wire_roundtrip [of m] by (simp add: Let_def flip: m_def)
qed

lemma visual_position_exact_witness:
  "let m = VisualPilotDataUpdate ''DLH1AB'' (dec 7 500333333) (dec 7 85000000) (dec 2 36400) (dec 2 12)
      (d_of_int 3) (d_of_int (- 20)) (Fin 0)
      (dec 4 12345) (dec 4 (- 17)) (dec 4 0) (dec 4 5) (dec 4 (- 9)) (dec 4 1) (dec 2 250)
    in VisualPilotDataUpdate_fromTokens (line_tokens VisualPilotDataUpdate_pdu
         (messageToFSDString VisualPilotDataUpdate_pdu VisualPilotDataUpdate_toTokens m)) = m"
  by (rule visual_position_exact) (simp_all add: is_space_def attitude_north)

text \<open>The message that a stopped aircraft sends carries the nose gear angle in its seventh token, but the
  reader looks for it in the thirteenth: the angle read is always 0, all the rest is as sent.\<close>

lemma stopped_position_loses_gear:
  "VisualPilotDataStopped_fromTokens (VisualPilotDataStopped_toTokens
      (VisualPilotDataStopped sender lat lon alt agl p b h gear))
    = (case unpackPBH (packPBH p b h False) of (p', b', h', g') \<Rightarrow>
        VisualPilotDataStopped sender (d_toDouble (d_number_f lat 7)) (d_toDouble (d_number_f lon 7))
          (d_toDouble (d_number_f alt 2)) (d_toDouble (d_number_f agl 2)) p' b' h' (Fin 0))"
  by (cases "unpackPBH (packPBH p b h False)")
    (simp add: VisualPilotDataStopped_defs number_simps list_value_def toDouble_0)

text \<open>Which token lists make a reader run past its end: a pilot login of six or seven tokens, and a
  controller position of seven. Shorter ones are rejected, longer ones are read.\<close>

lemma short_logins_fault:
  "((\<exists>e. AddPilot_fromTokens tokens = Inl e) \<longleftrightarrow> length tokens \<in> {6, 7})
   \<and> ((\<exists>e. AtcDataUpdate_fromTokens tokens = Inl e) \<longleftrightarrow> length tokens = 7)"
proof
  show "(\<exists>e. AddPilot_fromTokens tokens = Inl e) \<longleftrightarrow> length tokens \<in> {6, 7}"
    by (auto simp: AddPilot_fromTokens_def list_at_def)
  show "(\<exists>e. AtcDataUpdate_fromTokens tokens = Inl e) \<longleftrightarrow> length tokens = 7"
    by (auto simp: AtcDataUpdate_fromTokens_def list_at_def)
qed

text \<open>A text may hold colons: sender, receiver and the whole text arrive, and with the receiver the type
  (private or radio) and the frequencies.\<close>

lemma text_message_reaches_receiver:
  assumes "plain sender" "sender \<noteq> []" "field receiver" "txt \<noteq> []" "\<not> is_space (last txt)"
  shows "TextMessage_fromTokens (line_tokens TextMessage_pdu
      (messageToFSDString TextMessage_pdu TextMessage_toTokens (TextMessage sender receiver txt)))
    = TextMessage sender receiver txt"
proof -
  have parts: "m_sender (TextMessage sender receiver txt) = sender"
      "m_receiver (TextMessage sender receiver txt) = receiver"
      "TextMessage_m_message (TextMessage sender receiver txt) = txt"
    by (simp_all add: TextMessage_def Let_def)
  have "Inr (TextMessage_fromTokens (line_tokens TextMessage_pdu
      (messageToFSDString TextMessage_pdu TextMessage_toTokens (TextMessage sender receiver txt))))
    = (Inr (TextMessage sender receiver txt) :: fault + TextMessage)"
  proof (rule text_message.wire_roundtrip)
    show "TextMessage_wf (TextMessage sender receiver txt)"
      using assms by (simp add: TextMessage_wf_def parts plain_field)
    show "unpadded (q_join '':'' (TextMessage_toTokens (TextMessage sender receiver txt)))"
      using assms join_last [of "[sender, receiver, txt]" "'':''"] join_hd [of "[sender, receiver, txt]" "'':''"]
      by (simp add: TextMessage_toTokens_def parts unpadded_def plain_def)
  qed
  then show ?thesis by simp
qed

lemma text_message_reaches_receiver_witness:
  "TextMessage_fromTokens (line_tokens TextMessage_pdu
      (messageToFSDString TextMessage_pdu TextMessage_toTokens (TextMessage ''DLH1AB'' ''@22800&@18300'' ''METAR: EDDF'')))
    = TextMessage ''DLH1AB'' ''@22800&@18300'' ''METAR: EDDF''"
  by (rule text_message_reaches_receiver) (simp_all add: is_space_def)

text \<open>Whole degrees of pitch and bank survive the packing into ten bits each; only a bank of -180 comes
  back with its sign turned.\<close>

lemma attitude_accurate:
  assumes "\<bar>p\<bar> \<le> 90" "\<bar>b\<bar> \<le> 180"
  shows "\<exists>h'. unpackPBH (packPBH (d_of_int p) (d_of_int b) h g)
    = (d_of_int p, d_of_int (if b = - 180 then 180 else b), h', g)"
proof (cases "b = - 180")
  case True
  have "\<bar>p\<bar> < 2 ^ 53" using assms(1) by simp
  then have "d_of_int p = Fin (of_int p)" "d_of_int (- 180) = Fin (- 180)"
    using mk_double_int [of p] mk_double_int [of "- 180"] by simp_all
  moreover obtain h' where "unpackPBH (packPBH (d_of_int p) (d_of_int 0) h g) = (d_of_int p, d_of_int 0, h', g)"
    using attitude_whole_degrees [of p 0] assms(1) by auto
  ultimately show ?thesis
    using True attitude_bank_180 [of "d_of_int p" h g] mk_double_int [of 0]
    by (auto simp: unpack_pack)
next
  case False
  then show ?thesis using attitude_whole_degrees [of p b] assms by simp
qed

lemma attitude_accurate_witness:
  "\<exists>h'. unpackPBH (packPBH (d_of_int (- 7)) (d_of_int (- 180)) (Fin 250) True)
    = (d_of_int (- 7), d_of_int (if - 180 = (- 180 :: int) then 180 else - 180), h', True)"
  by (rule attitude_accurate) simp_all

text \<open>Which enumerators are read back as they were written: all ratings, facilities and flight types, and
  every single capability; all query types but the Euroscope one; of the simulators those with a number
  of their own; of the transponder modes the three that the protocol tells apart.\<close>

lemma enums_on_wire:
  "fromQString_AtcRating (toQString_AtcRating a) = a
   \<and> fromQString_PilotRating (toQString_PilotRating p) = p
   \<and> fromQString_FacilityType (toQString_FacilityType f) = f
   \<and> fromQString_FlightType (toQString_FlightType t) = t
   \<and> fromQString_Capabilities (toQString_Capabilities (capability c)) = capability c
   \<and> (fromQString_ClientQueryType (toQString_ClientQueryType q) = q \<longleftrightarrow> q \<noteq> Query_EuroscopeSimData)
   \<and> (fromQString_SimType (toQString_SimType s) = s \<longleftrightarrow> s \<notin> {P3Dv1, P3Dv2, P3Dv3, P3Dv5, XPLANE12, MSFS})
   \<and> (fromQString_TransponderMode (toQString_TransponderMode x) = x \<longleftrightarrow> x \<in> {StateStandby, StateIdent, ModeC})"
  by (simp add: atc_rating.dec_enc pilot_rating.dec_enc facility.dec_enc flight_type.dec_enc)
    (auto simp: query_type.faithful_iff sim_type.faithful_iff transponder_mode.faithful_iff
      ClientQueryType_canon_def SimType_canon_def TransponderMode_canon_def)

end
