(* ===== verification/Callsign.thy ===== *)
theory Callsign
  imports QtText
begin

section \<open>Callsigns\<close>

text \<open>
  \<open>blackmisc/aviation/callsign.cpp\<close>: the record is the class's members; equality and hashing use
  \<open>m_callsign\<close> only (\<open>BLACK_METACLASS\<close>), without regard to case. Icons, property indexes and the
  log helpers of the class are not modelled.
\<close>

datatype TypeHint = NoHint | Aircraft | Atc

record CCallsign =
  m_callsignAsSet :: string
  m_callsign :: string
  m_telephonyDesignator :: string
  m_typeHint :: TypeHint

subsection \<open>Unification\<close>

definition removeChars :: "string \<Rightarrow> (char \<Rightarrow> bool) \<Rightarrow> string" where
  "removeChars s predicate = filter (\<lambda>c. \<not> predicate c) s"

definition containsChar :: "string \<Rightarrow> (char \<Rightarrow> bool) \<Rightarrow> bool" where
  "containsChar s predicate \<longleftrightarrow> list_ex predicate s"

definition atcCallsignSuffixes :: "string list" where
  "atcCallsignSuffixes = [''APP'', ''GND'', ''DEP'', ''TWR'', ''DEL'', ''CTR'']"

definition atcAlikeCallsignSuffixes :: "string list" where
  "atcAlikeCallsignSuffixes =
     [''ATIS'', ''APP'', ''GND'', ''OBS'', ''DEP'', ''TWR'', ''DEL'', ''CTR'', ''SUP'', ''FSS'', ''INS'']"

definition looksLikeAtcCallsign :: "string \<Rightarrow> bool" where
  "looksLikeAtcCallsign callsign \<longleftrightarrow>
     CHR ''_'' \<in> set callsign \<and> list_ex (q_endsWith (q_toUpper callsign)) atcAlikeCallsignSuffixes"

definition not_atc_char :: "char \<Rightarrow> bool" where
  "not_atc_char c \<longleftrightarrow> \<not> is_letter_or_number c \<and> c \<noteq> CHR ''_'' \<and> c \<noteq> CHR ''-''"

definition not_aircraft_char :: "char \<Rightarrow> bool" where
  "not_aircraft_char c \<longleftrightarrow> \<not> is_letter_or_number c \<and> c \<noteq> CHR ''_''"

definition unifyCallsign :: "string \<Rightarrow> TypeHint \<Rightarrow> string" where
  "unifyCallsign callsign hint =
     (let ucCallsign = q_toUpper (q_trimmed callsign) in
      case hint of
        Atc \<Rightarrow> removeChars ucCallsign not_atc_char
      | Aircraft \<Rightarrow> removeChars ucCallsign not_aircraft_char
      | NoHint \<Rightarrow>
          if looksLikeAtcCallsign ucCallsign then removeChars ucCallsign not_atc_char
          else removeChars ucCallsign not_aircraft_char)"

text \<open>The constructors from a \<open>QString\<close>, with and without a telephony designator, and from a
  \<open>const char *\<close>, which keeps the text as it was given.\<close>

definition CCallsign_default :: CCallsign where
  "CCallsign_default =
     \<lparr>m_callsignAsSet = '''', m_callsign = '''', m_telephonyDesignator = '''', m_typeHint = NoHint\<rparr>"

definition CCallsign_telephony :: "string \<Rightarrow> string \<Rightarrow> TypeHint \<Rightarrow> CCallsign" where
  "CCallsign_telephony callsign telephonyDesignator hint =
     \<lparr>m_callsignAsSet = q_trimmed callsign, m_callsign = unifyCallsign callsign hint,
      m_telephonyDesignator = q_trimmed telephonyDesignator, m_typeHint = hint\<rparr>"

definition CCallsign :: "string \<Rightarrow> TypeHint \<Rightarrow> CCallsign" where
  "CCallsign callsign hint =
     \<lparr>m_callsignAsSet = q_trimmed callsign, m_callsign = unifyCallsign callsign hint,
      m_telephonyDesignator = '''', m_typeHint = hint\<rparr>"

definition CCallsign_cstr :: "string \<Rightarrow> TypeHint \<Rightarrow> CCallsign" where
  "CCallsign_cstr callsign hint =
     \<lparr>m_callsignAsSet = callsign, m_callsign = unifyCallsign callsign hint,
      m_telephonyDesignator = '''', m_typeHint = hint\<rparr>"

definition callsign_eq :: "CCallsign \<Rightarrow> CCallsign \<Rightarrow> bool" where
  "callsign_eq a b \<longleftrightarrow> q_eq_nocase (m_callsign a) (m_callsign b)"

definition equalsString :: "CCallsign \<Rightarrow> string \<Rightarrow> bool" where
  "equalsString c callsignString \<longleftrightarrow> callsign_eq (CCallsign callsignString NoHint) c"

definition isEmpty :: "CCallsign \<Rightarrow> bool" where
  "isEmpty c \<longleftrightarrow> m_callsignAsSet c = []"

definition asString :: "CCallsign \<Rightarrow> string" where
  "asString c = m_callsign c"

definition getFsdCallsignString :: "CCallsign \<Rightarrow> string" where
  "getFsdCallsignString c =
     (if q_startsWith (m_callsignAsSet c) ''*'' then m_callsignAsSet c else asString c)"

definition isSameAsSet :: "CCallsign \<Rightarrow> bool" where
  "isSameAsSet c \<longleftrightarrow> m_callsign c = m_callsignAsSet c"

subsection \<open>Suffixes and roles\<close>

definition hasSuffix :: "CCallsign \<Rightarrow> bool" where
  "hasSuffix c \<longleftrightarrow> CHR ''_'' \<in> set (m_callsignAsSet c)"

definition getSuffix :: "CCallsign \<Rightarrow> string" where
  "getSuffix c =
     (if hasSuffix c then q_toUpper (last (q_split CHR ''_'' (m_callsignAsSet c))) else '''')"

definition hasAtcSuffix :: "CCallsign \<Rightarrow> bool" where
  "hasAtcSuffix c \<longleftrightarrow> getSuffix c \<noteq> [] \<and> getSuffix c \<in> set atcCallsignSuffixes"

definition suffixToSortOrder :: "string \<Rightarrow> int" where
  "suffixToSortOrder suffix =
     (if suffix = ''FSS'' then 1 else if suffix = ''CTR'' then 2 else if suffix = ''APP'' then 3
      else if suffix = ''DEP'' then 4 else if suffix = ''TWR'' then 5 else if suffix = ''GND'' then 6
      else if suffix = ''DEL'' then 7 else if suffix = ''ATIS'' then 8 else if suffix = ''SUP'' then 9
      else if suffix = ''OBS'' then 10 else if suffix = ''INS'' then 11 else if suffix = ''ADM'' then 12
      else if suffix = ''VATGOV'' then 13 else if suffix = ''VATSIM'' then 14
      else if suffix = ''EXAM'' then 15 else 2 ^ 31 - 1)"

definition getSuffixSortOrder :: "CCallsign \<Rightarrow> int" where
  "getSuffixSortOrder c = suffixToSortOrder (getSuffix c)"

definition contains_nocase :: "string list \<Rightarrow> string \<Rightarrow> bool" where
  "contains_nocase xs s \<longleftrightarrow> list_ex (q_eq_nocase s) xs"

definition isAtcCallsign :: "CCallsign \<Rightarrow> bool" where
  "isAtcCallsign c \<longleftrightarrow>
     (if m_typeHint c = Atc then True
      else if \<not> hasSuffix c then False
      else contains_nocase atcCallsignSuffixes (getSuffix c))"

definition isAtcAlikeCallsign :: "CCallsign \<Rightarrow> bool" where
  "isAtcAlikeCallsign c \<longleftrightarrow>
     (if m_typeHint c = Aircraft then False
      else if \<not> hasSuffix c then False
      else contains_nocase atcAlikeCallsignSuffixes (getSuffix c))"

definition isObserverCallsign :: "CCallsign \<Rightarrow> bool" where
  "isObserverCallsign c \<longleftrightarrow> q_endsWith (q_toLower (m_callsignAsSet c)) ''_obs''"

definition isSupervisorCallsign :: "CCallsign \<Rightarrow> bool" where
  "isSupervisorCallsign c \<longleftrightarrow> (if m_typeHint c = Aircraft then False else q_endsWith (m_callsign c) ''SUP'')"

definition isBroadcastCallsign :: "CCallsign \<Rightarrow> bool" where
  "isBroadcastCallsign c \<longleftrightarrow>
     m_callsignAsSet c = ''*'' \<or> m_callsign c = ''*'' \<or> m_callsignAsSet c = ''BROADCAST''"

definition markAsBroadcastCallsign :: "CCallsign \<Rightarrow> CCallsign" where
  "markAsBroadcastCallsign c = c\<lparr>m_callsignAsSet := ''BROADCAST'', m_callsign := ''BROADCAST''\<rparr>"

definition markAsWallopCallsign :: "CCallsign \<Rightarrow> CCallsign" where
  "markAsWallopCallsign c = c\<lparr>m_callsignAsSet := ''SUP'', m_callsign := ''SUP''\<rparr>"

definition isMaybeCopilotCallsign :: "CCallsign \<Rightarrow> CCallsign \<Rightarrow> bool" where
  "isMaybeCopilotCallsign c pilotCallsign \<longleftrightarrow>
     q_startsWith (m_callsign c) (asString pilotCallsign) \<and>
     length (m_callsign c) = length (asString pilotCallsign) + 1 \<and>
     (let l = of_char (m_callsign c ! (length (m_callsign c) - 1)) :: nat in 65 \<le> l \<and> l \<le> 90)"

definition getIcaoCode :: "CCallsign \<Rightarrow> string" where
  "getIcaoCode c =
     (if isAtcCallsign c then
        (if length (m_callsign c) \<ge> 4 then q_toUpper (take 4 (m_callsign c)) else '''')
      else '''')"

text \<open>\<open>obs.left(obs.lastIndexOf('_'))\<close>: what stands before the last underscore.\<close>

definition before_last :: "char \<Rightarrow> string \<Rightarrow> string" where
  "before_last x s = rev (drop 1 (dropWhile (\<lambda>c. c \<noteq> x) (rev s)))"

definition getAsObserverCallsignString :: "CCallsign \<Rightarrow> string" where
  "getAsObserverCallsignString c =
     (if isEmpty c then ''''
      else let obs = m_callsignAsSet c in
        if q_endsWith (q_toLower obs) ''_obs'' then obs
        else q_toUpper ((if CHR ''_'' \<in> set obs then before_last CHR ''_'' obs else obs) @ ''_OBS''))"

subsection \<open>Airline prefix and flight number\<close>

definition is_AZ :: "char \<Rightarrow> bool" where
  "is_AZ c \<longleftrightarrow> (let n = of_char c :: nat in 65 \<le> n \<and> n \<le> 90)"

text \<open>The match of \<open>(^[A-Z]{3,})(\d+)\<close>: the longest run of letters, then the longest run of digits.\<close>

definition match_airline :: "string \<Rightarrow> (string \<times> string) option" where
  "match_airline s =
     (let airline = takeWhile is_AZ s; number = takeWhile is_digit (dropWhile is_AZ s) in
      if length airline \<ge> 3 \<and> number \<noteq> [] then Some (airline, number) else None)"

text \<open>The airline, the flight number and the flight identification; the identification is an
  out-parameter that keeps the value it came with where none is found.\<close>

definition getAirlinePrefix :: "CCallsign \<Rightarrow> string \<Rightarrow> string \<times> string \<times> string" where
  "getAirlinePrefix c flightIdentification =
     (if length (m_callsign c) < 3 then ('''', '''', flightIdentification)
      else if isAtcCallsign c then ('''', '''', flightIdentification)
      else case match_airline (m_callsign c) of
        None \<Rightarrow> ('''', '''', flightIdentification)
      | Some (airline, flightNumber) \<Rightarrow>
          if length airline = 3 then
            (airline, flightNumber, if length (m_callsign c) > 3 then drop 3 (m_callsign c) else '''')
          else if length airline = 4 \<and> q_startsWith airline ''V'' then
            (airline, flightNumber, if length (m_callsign c) > 4 then drop 4 (m_callsign c) else '''')
          else if length flightNumber \<ge> 1 \<and> length airline = 4 then
            (take 3 airline, flightNumber, drop 3 (m_callsign c))
          else ('''', flightNumber, flightIdentification))"

definition getFlightIndentification :: "CCallsign \<Rightarrow> string" where
  "getFlightIndentification c =
     (if isAtcCallsign c then ''''
      else case getAirlinePrefix c '''' of (airline, number, identification) \<Rightarrow>
        if airline = [] then '''' else identification)"

definition getFlightNumber :: "CCallsign \<Rightarrow> string" where
  "getFlightNumber c =
     (if isAtcCallsign c then ''''
      else case getAirlinePrefix c '''' of (airline, number, identification) \<Rightarrow>
        if airline = [] then '''' else number)"

definition getFlightNumberInt :: "CCallsign \<Rightarrow> int" where
  "getFlightNumberInt c =
     (if isAtcCallsign c then - 1
      else case q_toInt_opt (getFlightNumber c) of Some fn \<Rightarrow> fn | None \<Rightarrow> - 1)"

subsection \<open>Validity\<close>

definition isValidAircraftCallsign :: "string \<Rightarrow> bool" where
  "isValidAircraftCallsign callsign \<longleftrightarrow>
     (if length callsign < 2 \<or> length callsign > 10 then False
      else \<not> containsChar callsign (\<lambda>c. \<not> is_upper c \<and> \<not> is_digit c))"

definition isValidAtcCallsign :: "string \<Rightarrow> bool" where
  "isValidAtcCallsign callsign \<longleftrightarrow>
     (if length callsign < 2 \<or> length callsign > 10 then False
      else \<not> containsChar callsign
        (\<lambda>c. c \<noteq> CHR ''-'' \<and> c \<noteq> CHR ''_'' \<and> \<not> is_upper c \<and> \<not> is_digit c))"

definition callsign_isValid :: "CCallsign \<Rightarrow> bool" where
  "callsign_isValid c =
     (case m_typeHint c of
        Atc \<Rightarrow> isValidAtcCallsign (asString c)
      | Aircraft \<Rightarrow> isValidAircraftCallsign (asString c)
      | NoHint \<Rightarrow> \<not> isEmpty c)"

subsection \<open>Unification is a projection\<close>

lemma removeChars_set: "c \<in> set (removeChars s p) \<longleftrightarrow> c \<in> set s \<and> \<not> p c"
  by (auto simp: removeChars_def)

lemma removeChars_id: "\<forall>c\<in>set s. \<not> p c \<Longrightarrow> removeChars s p = s"
  by (simp add: removeChars_def filter_id_conv)

lemma unify_chars: "c \<in> set (unifyCallsign s h) \<Longrightarrow> \<not> not_atc_char c \<and> to_upper c = c"
proof -
  assume "c \<in> set (unifyCallsign s h)"
  then have "c \<in> set (q_toUpper (q_trimmed s))" "\<not> not_atc_char c"
    by (auto simp: unifyCallsign_def Let_def removeChars_set not_atc_char_def
      not_aircraft_char_def split: TypeHint.splits if_splits)
  then show ?thesis by (auto simp: q_toUpper_def)
qed

lemma callsign_char_not_space: "\<not> not_atc_char c \<Longrightarrow> \<not> is_space c"
  by (auto simp: not_atc_char_def is_letter_or_number_def is_digit_def is_upper_def is_lower_def
    is_space_def Let_def)

lemma unify_trimmed: "q_trimmed (unifyCallsign s h) = unifyCallsign s h"
proof (rule q_trimmed_id)
  have "\<forall>c\<in>set (unifyCallsign s h). \<not> is_space c"
    using unify_chars callsign_char_not_space by blast
  then show "unifyCallsign s h = [] \<or>
      \<not> is_space (hd (unifyCallsign s h)) \<and> \<not> is_space (last (unifyCallsign s h))"
    by (cases "unifyCallsign s h = []") auto
qed

lemma unify_upper: "q_toUpper (unifyCallsign s h) = unifyCallsign s h"
  unfolding q_toUpper_def by (rule map_idI) (blast dest: unify_chars)

lemma endsWith_removeChars:
  "q_endsWith s r \<Longrightarrow> \<forall>c\<in>set r. \<not> p c \<Longrightarrow> q_endsWith (removeChars s p) r"
  by (auto simp: q_endsWith_iff removeChars_def filter_id_conv)

lemma suffix_chars: "r \<in> set atcAlikeCallsignSuffixes \<Longrightarrow> \<forall>c\<in>set r. \<not> not_atc_char c"
  by (auto simp: atcAlikeCallsignSuffixes_def not_atc_char_def is_letter_or_number_def is_upper_def)

lemma looksLike_removeChars:
  assumes "looksLikeAtcCallsign s" "q_toUpper s = s"
  shows "looksLikeAtcCallsign (removeChars s not_atc_char)"
proof -
  from assms obtain r where r: "r \<in> set atcAlikeCallsignSuffixes" "q_endsWith s r"
    by (auto simp: looksLikeAtcCallsign_def list_ex_iff)
  then have "q_endsWith (removeChars s not_atc_char) r"
    using endsWith_removeChars suffix_chars by blast
  moreover have "q_toUpper (removeChars s not_atc_char) = removeChars s not_atc_char"
    unfolding q_toUpper_def
  proof (rule map_idI)
    fix c assume "c \<in> set (removeChars s not_atc_char)"
    then have "c \<in> set (q_toUpper s)" using assms(2) by (simp add: removeChars_set)
    then show "to_upper c = c" by (auto simp: q_toUpper_def)
  qed
  ultimately show ?thesis
    using r assms(1) by (auto simp: looksLikeAtcCallsign_def list_ex_iff removeChars_set not_atc_char_def)
qed

lemma unify_idempotent: "unifyCallsign (unifyCallsign s h) h = unifyCallsign s h"
proof -
  let ?u = "unifyCallsign s h"
  have a: "removeChars ?u not_atc_char = ?u" by (rule removeChars_id) (blast dest: unify_chars)
  have b: "h = Aircraft \<Longrightarrow> removeChars ?u not_aircraft_char = ?u"
    by (rule removeChars_id) (auto simp: unifyCallsign_def Let_def removeChars_set)
  have e: "unifyCallsign ?u h = (case h of Atc \<Rightarrow> removeChars ?u not_atc_char
      | Aircraft \<Rightarrow> removeChars ?u not_aircraft_char
      | NoHint \<Rightarrow> if looksLikeAtcCallsign ?u then removeChars ?u not_atc_char
          else removeChars ?u not_aircraft_char)"
    unfolding unifyCallsign_def [of ?u] unify_trimmed unify_upper Let_def by (rule refl)
  have "h = NoHint \<Longrightarrow> looksLikeAtcCallsign ?u \<or> removeChars ?u not_aircraft_char = ?u"
  proof (cases "looksLikeAtcCallsign (q_toUpper (q_trimmed s))")
    case True
    assume "h = NoHint"
    with True show ?thesis
      using looksLike_removeChars [OF True] by (simp add: unifyCallsign_def [of s] Let_def)
  next
    case False
    assume "h = NoHint"
    with False show ?thesis
      by (intro disjI2 removeChars_id) (simp add: unifyCallsign_def [of s] Let_def removeChars_set)
  qed
  with a b show ?thesis unfolding e by (cases h) auto
qed

end
