(* ===== verification/Transponder.thy ===== *)
theory Transponder
  imports FsdEnums
begin

section \<open>Transponder\<close>

text \<open>
  \<open>blackmisc/aviation/transponder.cpp\<close>: code and mode, the checks and the texts. A text asked for a
  mode that has none ends the program (\<open>qFatal\<close>): \<^const>\<open>None\<close>. The property index functions and
  the other constructors are not modelled.
\<close>

record CTransponder =
  m_transponderCode :: int
  m_transponderMode :: TransponderMode

definition CTransponder :: "int \<Rightarrow> TransponderMode \<Rightarrow> CTransponder" where
  "CTransponder code mode = \<lparr>m_transponderCode = code, m_transponderMode = mode\<rparr>"

definition CTransponder_text :: "string \<Rightarrow> TransponderMode \<Rightarrow> CTransponder" where
  "CTransponder_text code mode =
     CTransponder (case q_toInt_opt code of Some i \<Rightarrow> i | None \<Rightarrow> - 1) mode"

definition is_octal :: "char \<Rightarrow> bool" where
  "is_octal c \<longleftrightarrow> (let n = of_char c :: nat in 48 \<le> n \<and> n \<le> 55)"

text \<open>The match of \<open>^[0-7]{1,4}$\<close>; the dollar also matches before a final line feed.\<close>

definition match_octal4 :: "string \<Rightarrow> bool" where
  "match_octal4 s =
     (let ds = takeWhile is_octal s; rest = dropWhile is_octal s in
      1 \<le> length ds \<and> length ds \<le> 4 \<and> (rest = [] \<or> rest = [CHR 0x0A]))"

definition isValidTransponderCode_text :: "string \<Rightarrow> bool" where
  "isValidTransponderCode_text transponderCode =
     (if transponderCode = [] \<or> length transponderCode > 4 then False
      else case q_toInt_opt transponderCode of
        None \<Rightarrow> False
      | Some tc \<Rightarrow> if tc < 0 \<or> tc > 7777 then False else match_octal4 transponderCode)"

definition isValidTransponderCode :: "int \<Rightarrow> bool" where
  "isValidTransponderCode transponderCode =
     (if transponderCode < 0 \<or> transponderCode > 7777 then False
      else isValidTransponderCode_text (q_number transponderCode))"

definition validValues :: "CTransponder \<Rightarrow> bool" where
  "validValues t = isValidTransponderCode (m_transponderCode t)"

definition setTransponderCode_text :: "string \<Rightarrow> CTransponder \<Rightarrow> fault + CTransponder" where
  "setTransponderCode_text code t =
     (if isValidTransponderCode_text code then Inr (t\<lparr>m_transponderCode := q_toInt code\<rparr>)
      else Inl AssertFailed)"

definition setTransponderMode :: "TransponderMode \<Rightarrow> CTransponder \<Rightarrow> bool \<times> CTransponder" where
  "setTransponderMode mode t =
     (if mode = m_transponderMode t then (False, t) else (True, t\<lparr>m_transponderMode := mode\<rparr>))"

definition isInNormalSendingMode :: "CTransponder \<Rightarrow> bool" where
  "isInNormalSendingMode t \<longleftrightarrow>
     m_transponderMode t \<in> {ModeA, ModeC, ModeMil1, ModeMil2, ModeMil3, ModeMil4, ModeMil5}"

definition toggleTransponderMode :: "CTransponder \<Rightarrow> CTransponder" where
  "toggleTransponderMode t =
     (if m_transponderMode t = StateIdent \<or> isInNormalSendingMode t
      then snd (setTransponderMode StateStandby t)
      else snd (setTransponderMode ModeC t))"

fun modeAsString :: "TransponderMode \<Rightarrow> string option" where
  "modeAsString StateIdent = Some ''Ident''"
| "modeAsString StateStandby = Some ''Standby''"
| "modeAsString ModeC = Some ''Mode C''"
| "modeAsString ModeS = Some ''Mode S''"
| "modeAsString ModeMil1 = Some ''Mil.Mode 1''"
| "modeAsString ModeMil2 = Some ''Mil.Mode 2''"
| "modeAsString ModeMil3 = Some ''Mil.Mode 3''"
| "modeAsString ModeMil4 = Some ''Mil.Mode 4''"
| "modeAsString ModeMil5 = Some ''Mil.Mode 5''"
| "modeAsString ModeA = None"

fun modeAsShortString :: "TransponderMode \<Rightarrow> string option" where
  "modeAsShortString StateIdent = Some ''I''"
| "modeAsShortString StateStandby = Some ''S''"
| "modeAsShortString ModeC = Some ''C''"
| "modeAsShortString ModeS = Some ''S''"
| "modeAsShortString ModeMil1 = Some ''1''"
| "modeAsShortString ModeMil2 = Some ''2''"
| "modeAsShortString ModeMil3 = Some ''3''"
| "modeAsShortString ModeMil4 = Some ''4''"
| "modeAsShortString ModeMil5 = Some ''5''"
| "modeAsShortString ModeA = None"

definition startsWith_nocase :: "string \<Rightarrow> string \<Rightarrow> bool" where
  "startsWith_nocase s p \<longleftrightarrow> q_startsWith (q_toLower s) (q_toLower p)"

definition modeFromString :: "string \<Rightarrow> TransponderMode" where
  "modeFromString modeString =
     (if startsWith_nocase modeString ''I'' then StateIdent
      else if startsWith_nocase modeString ''S'' then StateStandby
      else if startsWith_nocase modeString ''Mode C'' then ModeC
      else if startsWith_nocase modeString ''C'' then ModeC
      else if startsWith_nocase modeString ''Mode S'' then ModeS
      else if CHR ''1'' \<in> set modeString then ModeMil1
      else if CHR ''2'' \<in> set modeString then ModeMil2
      else if CHR ''3'' \<in> set modeString then ModeMil3
      else if CHR ''4'' \<in> set modeString then ModeMil4
      else if CHR ''5'' \<in> set modeString then ModeMil5
      else StateStandby)"

definition getTransponderCodeFormatted :: "CTransponder \<Rightarrow> string" where
  "getTransponderCodeFormatted t = q_right (''0000'' @ q_number (m_transponderCode t)) 4"

definition getTransponderCodeAndModeFormatted :: "CTransponder \<Rightarrow> string option" where
  "getTransponderCodeAndModeFormatted t =
     map_option (\<lambda>m. getTransponderCodeFormatted t @ '' '' @ m) (modeAsString (m_transponderMode t))"

subsection \<open>Codes\<close>

text \<open>The specification of a code: up to four octal digits.\<close>

fun octal_digits :: "nat \<Rightarrow> nat \<Rightarrow> bool" where
  "octal_digits 0 n \<longleftrightarrow> n = 0"
| "octal_digits (Suc k) n \<longleftrightarrow> n mod 10 < 8 \<and> octal_digits k (n div 10)"

lemma is_octal_digit: "d < 10 \<Longrightarrow> is_octal (digit_char d) \<longleftrightarrow> d < 8"
  by (auto simp: is_octal_def of_char_digit_char)

lemma octal_text:
  "n < 10 ^ k \<Longrightarrow> (\<forall>c\<in>set (q_number_nat 10 n). is_octal c) \<longleftrightarrow> octal_digits k n"
proof (induction k arbitrary: n)
  case 0
  then show ?case by (simp add: q_number_nat.simps is_octal_def)
next
  case (Suc k)
  show ?case
  proof (cases "n < 10")
    case True
    have "octal_digits k 0" by (induction k) auto
    with True show ?thesis by (simp add: q_number_nat.simps [of 10 n] is_octal_digit)
  next
    case False
    have "n div 10 < 10 ^ k" using Suc.prems by (simp add: less_mult_imp_div_less mult.commute)
    with False Suc.IH show ?thesis by (auto simp: q_number_nat.simps [of 10 n] is_octal_digit)
  qed
qed

lemma length_number: "n < 10 ^ Suc k \<Longrightarrow> length (q_number_nat 10 n) \<le> Suc k"
proof (induction k arbitrary: n)
  case (Suc k)
  show ?case
  proof (cases "n < 10")
    case False
    have "n div 10 < 10 ^ Suc k" using Suc.prems by simp
    with Suc.IH [of "n div 10"] False show ?thesis by (simp add: q_number_nat.simps [of 10 n])
  qed (simp add: q_number_nat.simps [of 10 n])
qed (simp add: q_number_nat.simps)

lemma valid_code_iff:
  "isValidTransponderCode c \<longleftrightarrow> 0 \<le> c \<and> c \<le> 7777 \<and> octal_digits 4 (nat c)"
proof (cases "0 \<le> c \<and> c \<le> 7777")
  case True
  let ?s = "q_number_nat 10 (nat c)"
  have s: "q_number c = ?s" using True by (simp add: q_number_def)
  have c4: "nat c < 10 ^ 4" using True by (simp add: nat_less_iff)
  have len: "length ?s \<le> 4" using length_number [of "nat c" 3] c4 by simp
  have "q_toInt_opt ?s = Some c" using q_toInt_opt_number [of c] True s by (simp add: int32_def)
  then have "isValidTransponderCode c = match_octal4 ?s"
    using True len by (simp add: isValidTransponderCode_def isValidTransponderCode_text_def s)
  also have "\<dots> \<longleftrightarrow> (\<forall>d\<in>set ?s. is_octal d)"
  proof
    assume "match_octal4 ?s"
    then have "dropWhile is_octal ?s = [] \<or> dropWhile is_octal ?s = [CHR 0x0A]"
      by (simp add: match_octal4_def Let_def)
    moreover have "CHR 0x0A \<notin> set ?s"
    proof
      assume "CHR 0x0A \<in> set ?s"
      then have "\<not> is_space CHR 0x0A" using plain_q_number_nat [of 10 "nat c"] unfolding plain_def by auto
      then show False by (simp add: is_space_def)
    qed
    then have "dropWhile is_octal ?s \<noteq> [CHR 0x0A]"
      using set_dropWhileD [of "CHR 0x0A" is_octal ?s] by auto
    ultimately have "dropWhile is_octal ?s = []" by blast
    then show "\<forall>d\<in>set ?s. is_octal d" by (simp add: dropWhile_eq_Nil_conv)
  next
    assume "\<forall>d\<in>set ?s. is_octal d"
    then have t: "takeWhile is_octal ?s = ?s" "dropWhile is_octal ?s = []"
      by (simp_all only: takeWhile_eq_all_conv dropWhile_eq_Nil_conv)
    show "match_octal4 ?s" unfolding match_octal4_def Let_def t using len by (simp add: Suc_le_eq)
  qed
  also have "\<dots> \<longleftrightarrow> octal_digits 4 (nat c)" by (rule octal_text [OF c4])
  finally show ?thesis using True by simp
qed (auto simp: isValidTransponderCode_def)

lemma mode_text_roundtrip:
  "modeAsString m = Some s \<Longrightarrow> modeFromString s = m"
  by (cases m) (auto simp: modeFromString_def startsWith_nocase_def q_toLower_def to_lower_def)

lemma modeAsString_None: "modeAsString m = None \<longleftrightarrow> m = ModeA"
  by (cases m) simp_all

lemma toggle_twice:
  "m_transponderMode (toggleTransponderMode (toggleTransponderMode t)) \<in> {StateStandby, ModeC}"
  by (cases t) (auto simp: toggleTransponderMode_def setTransponderMode_def isInNormalSendingMode_def)

lemma formatted_length: "length (getTransponderCodeFormatted t) = 4"
  by (simp add: getTransponderCodeFormatted_def q_right_def)

end
