(* ===== verification/TokenBucket.thy ===== *)
theory TokenBucket
  imports Prelude
begin

section \<open>Token bucket\<close>

text \<open>
  \<open>blackmisc/tokenbucket.cpp\<close>: the bucket that throttles the aircraft configuration messages. The
  clock is an argument: the time of construction, and for a consumption the time that is current
  when none is passed. The division by an interval of 0 is a fault, as is the assertion on the
  number of tokens asked for.
\<close>

record CTokenBucket =
  m_capacity :: int
  m_availableTokens :: int
  m_numTokensToRefill :: int
  m_intervalMs :: int
  m_lastReplenishmentTime :: int

definition CTokenBucket :: "int \<Rightarrow> int \<Rightarrow> int \<Rightarrow> int \<Rightarrow> CTokenBucket" where
  "CTokenBucket now capacity intervalMs numTokensToRefill =
     \<lparr>m_capacity = capacity, m_availableTokens = 10, m_numTokensToRefill = numTokensToRefill,
      m_intervalMs = intervalMs, m_lastReplenishmentTime = now\<rparr>"

definition getTokens :: "int \<Rightarrow> int \<Rightarrow> CTokenBucket \<Rightarrow> fault + (int \<times> CTokenBucket)" where
  "getTokens currentMs msSinceEpoch b =
     (if m_intervalMs b = 0 then Inl AssertFailed
      else let now = (if msSinceEpoch > 0 then msSinceEpoch else currentMs);
               deltaMs = c_int64 (now - m_lastReplenishmentTime b);
               numberOfTokens = c_int (c_div (c_int64 (m_numTokensToRefill b * deltaMs)) (m_intervalMs b))
           in Inr (numberOfTokens,
                if numberOfTokens > 0 then b\<lparr>m_lastReplenishmentTime := now\<rparr> else b))"

definition tryConsume :: "int \<Rightarrow> int \<Rightarrow> int \<Rightarrow> CTokenBucket \<Rightarrow> fault + (bool \<times> CTokenBucket)" where
  "tryConsume currentMs numTokens msSinceEpoch b =
     (if \<not> (numTokens > 0 \<and> numTokens < m_capacity b) then Inl AssertFailed
      else if numTokens \<le> m_availableTokens b
      then Inr (True, b\<lparr>m_availableTokens := m_availableTokens b - numTokens\<rparr>)
      else case getTokens currentMs msSinceEpoch b of
        Inl f \<Rightarrow> Inl f
      | Inr (tokens, b) \<Rightarrow>
          let replenishedTokens = min (m_capacity b) tokens;
              b = b\<lparr>m_availableTokens := min (c_int (m_availableTokens b + replenishedTokens)) (m_capacity b)\<rparr>
          in if numTokens \<le> m_availableTokens b
             then Inr (True, b\<lparr>m_availableTokens := m_availableTokens b - numTokens\<rparr>)
             else Inr (False, b))"

definition setNumberOfTokensToRefill :: "int \<Rightarrow> CTokenBucket \<Rightarrow> CTokenBucket" where
  "setNumberOfTokensToRefill numTokens b = b\<lparr>m_numTokensToRefill := numTokens\<rparr>"

definition setCapacity :: "int \<Rightarrow> CTokenBucket \<Rightarrow> CTokenBucket" where
  "setCapacity capacity b = b\<lparr>m_capacity := capacity\<rparr>"

definition setCapacityAndTokensToRefill :: "int \<Rightarrow> CTokenBucket \<Rightarrow> CTokenBucket" where
  "setCapacityAndTokensToRefill numTokens b =
     setNumberOfTokensToRefill numTokens (setCapacity numTokens b)"

definition setInterval :: "int \<Rightarrow> CTokenBucket \<Rightarrow> CTokenBucket" where
  "setInterval intervalMs b = b\<lparr>m_intervalMs := intervalMs\<rparr>"

definition getTokensPerSecond :: "CTokenBucket \<Rightarrow> int" where
  "getTokensPerSecond b =
     (if m_intervalMs b < 1 then 0
      else c_int (c_div (m_numTokensToRefill b * 1000) (m_intervalMs b)))"

subsection \<open>Bounds\<close>

text \<open>A bucket whose numbers are of ordinary size, and a clock within its range.\<close>

definition sane :: "CTokenBucket \<Rightarrow> bool" where
  "sane b \<longleftrightarrow> 0 < m_capacity b \<and> m_capacity b \<le> 1000000 \<and> 0 \<le> m_availableTokens b
     \<and> m_availableTokens b \<le> m_capacity b \<and> 0 < m_intervalMs b
     \<and> 0 \<le> m_numTokensToRefill b \<and> m_numTokensToRefill b \<le> m_intervalMs b
     \<and> m_intervalMs b \<le> 1000000 \<and> 0 \<le> m_lastReplenishmentTime b"

text \<open>The time that passed is at most about three weeks, so no product leaves its width.\<close>

definition near :: "CTokenBucket \<Rightarrow> int \<Rightarrow> bool" where
  "near b now \<longleftrightarrow> m_lastReplenishmentTime b \<le> now \<and> now \<le> m_lastReplenishmentTime b + 2000000000 \<and> 0 < now"

lemma getTokens_exact:
  assumes "sane b" "near b now"
  shows "getTokens now (- 1) b =
    (let n = m_numTokensToRefill b * (now - m_lastReplenishmentTime b) div m_intervalMs b in
     Inr (n, if n > 0 then b\<lparr>m_lastReplenishmentTime := now\<rparr> else b))"
proof -
  let ?d = "now - m_lastReplenishmentTime b" and ?r = "m_numTokensToRefill b"
  have d: "0 \<le> ?d" "?d \<le> 2000000000" using assms(2) by (auto simp: near_def)
  have r: "0 \<le> ?r" "?r \<le> m_intervalMs b" "m_intervalMs b \<le> 1000000" "0 < m_intervalMs b"
    using assms(1) by (auto simp: sane_def)
  have c1: "c_int64 ?d = ?d" using d by (simp add: int64_def)
  have p: "0 \<le> ?r * ?d" using d r by simp
  have "?r * ?d \<le> 1000000 * 2000000000" using d r by (intro mult_mono) auto
  then have c2: "c_int64 (?r * ?d) = ?r * ?d" using p by (simp add: int64_def)
  have "?r * ?d \<le> m_intervalMs b * ?d" using d r by (intro mult_right_mono) auto
  then have "?r * ?d div m_intervalMs b \<le> m_intervalMs b * ?d div m_intervalMs b"
    using r by (intro zdiv_mono1) auto
  also have "\<dots> = ?d" using r by simp
  finally have q: "?r * ?d div m_intervalMs b \<le> 2000000000" using d by linarith
  have q0: "0 \<le> ?r * ?d div m_intervalMs b" using p r by (simp add: pos_imp_zdiv_nonneg_iff)
  have "c_div (?r * ?d) (m_intervalMs b) = ?r * ?d div m_intervalMs b"
    using p r by (simp add: c_div_nonneg)
  then show ?thesis using r q q0 by (simp add: getTokens_def c1 c2 Let_def int32_def)
qed

text \<open>What a call at \<open>now\<close> does, without the machine widths.\<close>

definition granted :: "CTokenBucket \<Rightarrow> int \<Rightarrow> int" where
  "granted b now = m_numTokensToRefill b * (now - m_lastReplenishmentTime b) div m_intervalMs b"

lemma granted_nonneg: "sane b \<Longrightarrow> near b now \<Longrightarrow> 0 \<le> granted b now"
  by (simp add: granted_def sane_def near_def pos_imp_zdiv_nonneg_iff)

lemma tryConsume_exact:
  assumes "sane b" "near b now" "0 < n" "n < m_capacity b"
  shows "tryConsume now n (- 1) b =
    (if n \<le> m_availableTokens b then Inr (True, b\<lparr>m_availableTokens := m_availableTokens b - n\<rparr>)
     else let avail = min (m_availableTokens b + granted b now) (m_capacity b);
              b = (if granted b now > 0 then b\<lparr>m_lastReplenishmentTime := now\<rparr> else b)
          in if n \<le> avail then Inr (True, b\<lparr>m_availableTokens := avail - n\<rparr>)
             else Inr (False, b\<lparr>m_availableTokens := avail\<rparr>))"
proof -
  have g: "0 \<le> granted b now" by (rule granted_nonneg [OF assms(1,2)])
  have a: "0 \<le> m_availableTokens b" "m_availableTokens b \<le> m_capacity b" "m_capacity b \<le> 1000000"
    using assms(1) by (auto simp: sane_def)
  have c: "c_int (m_availableTokens b + min (m_capacity b) (granted b now))
      = m_availableTokens b + min (m_capacity b) (granted b now)"
    using g a by (intro c_int_id) (auto simp: int32_def min_def)
  have m: "min (m_availableTokens b + min (m_capacity b) (granted b now)) (m_capacity b)
      = min (m_availableTokens b + granted b now) (m_capacity b)"
    using g a by (auto simp: min_def)
  define A where "A = min (m_availableTokens b + granted b now) (m_capacity b)"
  have cm: "min (c_int (m_availableTokens b + min (m_capacity b) (granted b now))) (m_capacity b) = A"
    unfolding c m A_def ..
  show ?thesis
    unfolding A_def [symmetric] Let_def
    using assms(3,4) by (cases "granted b now > 0")
      (simp_all add: tryConsume_def getTokens_exact [OF assms(1,2)] Let_def cm
        del: min.bounded_iff min.absorb1 min.absorb2 min.absorb3 min.absorb4 flip: granted_def)
qed

lemma tryConsume_sane:
  assumes "sane b" "near b now" "0 < n" "n < m_capacity b" "tryConsume now n (- 1) b = Inr (ok, b')"
  shows "sane b' \<and> m_lastReplenishmentTime b' \<le> now \<and> m_capacity b' = m_capacity b
    \<and> m_intervalMs b' = m_intervalMs b \<and> m_numTokensToRefill b' = m_numTokensToRefill b"
  using assms(5) granted_nonneg [OF assms(1,2)] assms(1-4) unfolding tryConsume_exact [OF assms(1-4)]
  by (auto simp: Let_def sane_def near_def split: if_splits)

text \<open>
  The account of a bucket in units of one token times the interval: the tokens it has, less what
  the time up to the last replenishment may have added. No call raises it, and a call that
  succeeds lowers it by what it takes. This bounds the rate over any run of calls.
\<close>

definition account :: "CTokenBucket \<Rightarrow> int" where
  "account b = m_availableTokens b * m_intervalMs b - m_numTokensToRefill b * m_lastReplenishmentTime b"

lemma tryConsume_account:
  assumes "sane b" "near b now" "0 < n" "n < m_capacity b" "tryConsume now n (- 1) b = Inr (ok, b')"
  shows "account b' + (if ok then n * m_intervalMs b else 0) \<le> account b"
proof -
  let ?g = "granted b now" and ?I = "m_intervalMs b" and ?r = "m_numTokensToRefill b"
  let ?avail = "min (m_availableTokens b + ?g) (m_capacity b)"
  have I: "0 < ?I" using assms(1) by (simp add: sane_def)
  have "?g * ?I \<le> ?r * (now - m_lastReplenishmentTime b)"
    using I unfolding granted_def by (metis div_mult_mod_eq le_add_same_cancel1 pos_mod_sign)
  then have g: "?g * ?I \<le> ?r * now - ?r * m_lastReplenishmentTime b" by (simp add: algebra_simps)
  have "?avail * ?I \<le> (m_availableTokens b + ?g) * ?I" using I by (intro mult_right_mono) auto
  then have a: "?avail * ?I \<le> m_availableTokens b * ?I + ?g * ?I" by (simp add: algebra_simps)
  have z: "?g = 0 \<Longrightarrow> ?avail = m_availableTokens b" using assms(1) by (simp add: sane_def)
  from assms(5) show ?thesis
    unfolding tryConsume_exact [OF assms(1-4)] account_def
    using a g z granted_nonneg [OF assms(1,2)]
    by (auto simp: Let_def algebra_simps split: if_splits)
qed

end
