(* ===== verification/FsdOffsets.thy ===== *)
theory FsdOffsets
  imports Doubles Callsign
begin

section \<open>Offset times of received positions\<close>

text \<open>
  The part of \<open>CFSDClient\<close> that decides how far in the future a received position is placed
  (\<open>receivedPositionFixTsAndGetOffsetTime\<close> and what it calls). Its four members are a record of
  their own; a \<open>QHash\<close> keyed by callsigns is a map keyed by the callsign's text, which is what
  its equality and its hash look at.
\<close>

record offset_state =
  m_lastPositionUpdate :: "string \<rightharpoonup> int"
  m_lastOffsetTimes :: "string \<rightharpoonup> int list"
  m_interpolatedOffsetTime :: "string \<rightharpoonup> int"
  m_additionalOffsetTime :: int

definition offset_state_init :: offset_state where
  "offset_state_init =
     \<lparr>m_lastPositionUpdate = Map.empty, m_lastOffsetTimes = Map.empty,
      m_interpolatedOffsetTime = Map.empty, m_additionalOffsetTime = 0\<rparr>"

definition c_positionTimeOffsetMsec :: int where
  "c_positionTimeOffsetMsec = 6000"

definition c_minimumPositionTimeOffsetMsec :: int where
  "c_minimumPositionTimeOffsetMsec = 700"

definition c_offsetTimeInterpolationInverseRate :: int where
  "c_offsetTimeInterpolationInverseRate = 4"

definition MaxOffseTimes :: nat where
  "MaxOffseTimes = 6"

definition map_value :: "('k \<rightharpoonup> 'v) \<Rightarrow> 'k \<Rightarrow> 'v \<Rightarrow> 'v" where
  "map_value m k d = (case m k of Some v \<Rightarrow> v | None \<Rightarrow> d)"

definition insertLatestOffsetTime :: "string \<Rightarrow> int \<Rightarrow> offset_state \<Rightarrow> offset_state" where
  "insertLatestOffsetTime callsign offsetMs s =
     (let offsets = offsetMs # map_value (m_lastOffsetTimes s) callsign [];
          offsets = (if length offsets > MaxOffseTimes then butlast offsets else offsets)
      in s\<lparr>m_lastOffsetTimes := (m_lastOffsetTimes s)(callsign \<mapsto> offsets)\<rparr>)"

text \<open>The loop over the values: the sum and the number of values taken.\<close>

fun average_loop :: "int \<Rightarrow> int \<Rightarrow> int \<Rightarrow> int list \<Rightarrow> int \<times> int" where
  "average_loop maxLastValues acc count [] = (acc, count)"
| "average_loop maxLastValues acc count (v # vs) =
     (let count = count + 1; acc = c_int64 (acc + v) in
      if count > maxLastValues then (acc, count) else average_loop maxLastValues acc count vs)"

text \<open>The average and the value of the out-parameter \<open>count\<close>, which keeps what it had when there
  is no value.\<close>

definition averageOffsetTimeMs_count :: "string \<Rightarrow> int \<Rightarrow> int \<Rightarrow> offset_state \<Rightarrow> int \<times> int" where
  "averageOffsetTimeMs_count callsign count maxLastValues s =
     (let offsets = map_value (m_lastOffsetTimes s) callsign [] in
      if length offsets < 1 then (- 1, count)
      else case average_loop maxLastValues 0 0 offsets of
        (acc, count) \<Rightarrow> (qRound (d_div (d_of_int acc) (d_of_int count)), count))"

text \<open>The overload without \<open>count\<close> passes its two arguments in the other order.\<close>

definition averageOffsetTimeMs :: "string \<Rightarrow> int \<Rightarrow> offset_state \<Rightarrow> int" where
  "averageOffsetTimeMs callsign maxLastValues s =
     (let count = 0 in fst (averageOffsetTimeMs_count callsign maxLastValues count s))"

definition currentOffsetTime :: "CCallsign \<Rightarrow> offset_state \<Rightarrow> fault + int" where
  "currentOffsetTime callsign s =
     (if isEmpty callsign then Inl AssertFailed
      else case m_lastOffsetTimes s (asString callsign) of
        None \<Rightarrow> Inr c_positionTimeOffsetMsec
      | Some [] \<Rightarrow> Inr c_positionTimeOffsetMsec
      | Some (v # vs) \<Rightarrow> Inr v)"

definition receivedPositionFixTsAndGetOffsetTime ::
    "int \<Rightarrow> CCallsign \<Rightarrow> int \<Rightarrow> offset_state \<Rightarrow> fault + (int \<times> offset_state)" where
  "receivedPositionFixTsAndGetOffsetTime now cs markerTs s =
     (if isEmpty cs then Inl AssertFailed
      else let callsign = asString cs; markerTs = (if markerTs < 0 then now else markerTs) in
        case m_lastPositionUpdate s callsign of
          None \<Rightarrow> Inr (c_positionTimeOffsetMsec,
            s\<lparr>m_lastPositionUpdate := (m_lastPositionUpdate s)(callsign \<mapsto> markerTs)\<rparr>)
        | Some oldTs \<Rightarrow>
            let s = s\<lparr>m_lastPositionUpdate := (m_lastPositionUpdate s)(callsign \<mapsto> markerTs)\<rparr>;
                diff = \<bar>c_int64 (markerTs - oldTs)\<bar>;
                s = insertLatestOffsetTime callsign diff s;
                (avgTimeMs, count) = averageOffsetTimeMs_count callsign 0 3 s;
                targetOffsetTime =
                  (if avgTimeMs < c_minimumPositionTimeOffsetMsec \<and> count \<ge> 3
                   then c_minimumPositionTimeOffsetMsec else c_positionTimeOffsetMsec);
                previousInterpolatedOffsetTime = map_value (m_interpolatedOffsetTime s) callsign 0;
                offsetDiff =
                  (if targetOffsetTime < previousInterpolatedOffsetTime
                   then max (targetOffsetTime - previousInterpolatedOffsetTime)
                          (c_div diff (- c_offsetTimeInterpolationInverseRate))
                   else min (targetOffsetTime - previousInterpolatedOffsetTime)
                          (c_div diff c_offsetTimeInterpolationInverseRate));
                offsetTime = previousInterpolatedOffsetTime + offsetDiff
            in Inr (m_additionalOffsetTime s + offsetTime,
                 s\<lparr>m_interpolatedOffsetTime := (m_interpolatedOffsetTime s)(callsign \<mapsto> offsetTime)\<rparr>))"

text \<open>What \<open>clearState\<close> resets of these members, for all callsigns and for one.\<close>

definition clear_offsets :: "offset_state \<Rightarrow> offset_state" where
  "clear_offsets s = s\<lparr>m_lastPositionUpdate := Map.empty, m_lastOffsetTimes := Map.empty\<rparr>"

definition clear_offsets_of :: "string \<Rightarrow> offset_state \<Rightarrow> offset_state" where
  "clear_offsets_of callsign s =
     s\<lparr>m_lastPositionUpdate := (m_lastPositionUpdate s)(callsign := None),
       m_lastOffsetTimes := (m_lastOffsetTimes s)(callsign := None)\<rparr>"

subsection \<open>The invariant\<close>

text \<open>
  At most six offsets are kept per callsign, none negative, and the interpolated offset stays
  between 0 and the default offset.
\<close>

definition offsets_ok :: "offset_state \<Rightarrow> bool" where
  "offsets_ok s \<longleftrightarrow>
     (\<forall>c vs. m_lastOffsetTimes s c = Some vs \<longrightarrow> length vs \<le> MaxOffseTimes \<and> (\<forall>v\<in>set vs. 0 \<le> v))
     \<and> (\<forall>c t. m_interpolatedOffsetTime s c = Some t \<longrightarrow> 0 \<le> t \<and> t \<le> c_positionTimeOffsetMsec)"

lemma offsets_ok_init: "offsets_ok offset_state_init"
  by (simp add: offsets_ok_def offset_state_init_def)

lemma offsets_ok_clear: "offsets_ok s \<Longrightarrow> offsets_ok (clear_offsets s)"
  "offsets_ok s \<Longrightarrow> offsets_ok (clear_offsets_of c s)"
  by (auto simp: offsets_ok_def clear_offsets_def clear_offsets_of_def)

lemma offsets_ok_insert:
  "offsets_ok s \<Longrightarrow> 0 \<le> v \<Longrightarrow> offsets_ok (insertLatestOffsetTime c v s)"
  by (auto simp: offsets_ok_def insertLatestOffsetTime_def map_value_def Let_def MaxOffseTimes_def
    split: option.splits if_splits dest: in_set_butlastD)

text \<open>One step of the interpolation: towards the target, by at most a quarter of the time since
  the last position, never past it.\<close>

definition interpolation_step :: "int \<Rightarrow> int \<Rightarrow> int \<Rightarrow> int" where
  "interpolation_step target previous diff =
     (if target < previous then max target (previous - diff div 4) else min target (previous + diff div 4))"

lemma interpolation_step_between:
  "0 \<le> diff \<Longrightarrow> min target previous \<le> interpolation_step target previous diff
    \<and> interpolation_step target previous diff \<le> max target previous"
  by (auto simp: interpolation_step_def)

lemma interpolation_step_reaches:
  "0 \<le> diff \<Longrightarrow> \<bar>target - previous\<bar> \<le> diff div 4 \<Longrightarrow> interpolation_step target previous diff = target"
  by (auto simp: interpolation_step_def)

text \<open>The handler in terms of that step.\<close>

definition offset_target :: "string \<Rightarrow> offset_state \<Rightarrow> int" where
  "offset_target callsign s =
     (let (avg, count) = averageOffsetTimeMs_count callsign 0 3 s in
      if avg < c_minimumPositionTimeOffsetMsec \<and> count \<ge> 3
      then c_minimumPositionTimeOffsetMsec else c_positionTimeOffsetMsec)"

lemma received_later:
  assumes "\<not> isEmpty cs" "asString cs = callsign" "m_lastPositionUpdate s callsign = Some oldTs" "0 \<le> markerTs"
    and "int64 (markerTs - oldTs)"
  defines "diff \<equiv> \<bar>markerTs - oldTs\<bar>"
  defines "s1 \<equiv> insertLatestOffsetTime callsign diff
    (s\<lparr>m_lastPositionUpdate := (m_lastPositionUpdate s)(callsign \<mapsto> markerTs)\<rparr>)"
  defines "t \<equiv> interpolation_step (offset_target callsign s1)
    (map_value (m_interpolatedOffsetTime s) callsign 0) diff"
  shows "receivedPositionFixTsAndGetOffsetTime now cs markerTs s =
    Inr (m_additionalOffsetTime s + t,
      s1\<lparr>m_interpolatedOffsetTime := (m_interpolatedOffsetTime s)(callsign \<mapsto> t)\<rparr>)"
proof -
  have "0 \<le> diff" by (simp add: diff_def)
  then have c: "c_div diff 4 = diff div 4" "c_div diff (- 4) = - (diff div 4)"
    by (auto simp: c_div_def)
  have i: "m_interpolatedOffsetTime s1 = m_interpolatedOffsetTime s"
    "m_additionalOffsetTime s1 = m_additionalOffsetTime s"
    by (simp_all add: s1_def insertLatestOffsetTime_def Let_def)
  obtain avg count where a: "averageOffsetTimeMs_count callsign 0 3 s1 = (avg, count)" by fastforce
  show ?thesis
    using assms(1-4)
    by (simp add: receivedPositionFixTsAndGetOffsetTime_def c_int64_id [OF assms(5)] Let_def a c i
        t_def offset_target_def interpolation_step_def c_offsetTimeInterpolationInverseRate_def
        flip: diff_def s1_def) (simp add: max_def min_def)
qed

lemma received_first:
  "\<not> isEmpty cs \<Longrightarrow> asString cs = callsign \<Longrightarrow> m_lastPositionUpdate s callsign = None \<Longrightarrow> 0 \<le> markerTs \<Longrightarrow>
    receivedPositionFixTsAndGetOffsetTime now cs markerTs s =
      Inr (c_positionTimeOffsetMsec,
        s\<lparr>m_lastPositionUpdate := (m_lastPositionUpdate s)(callsign \<mapsto> markerTs)\<rparr>)"
  by (simp add: receivedPositionFixTsAndGetOffsetTime_def)

lemma offset_target_range:
  "c_minimumPositionTimeOffsetMsec \<le> offset_target c s \<and> offset_target c s \<le> c_positionTimeOffsetMsec"
  by (simp add: offset_target_def c_minimumPositionTimeOffsetMsec_def c_positionTimeOffsetMsec_def Let_def
    split: prod.splits)

lemma average_loop_count:
  "0 \<le> count \<Longrightarrow> count \<le> maxLast \<Longrightarrow>
    snd (average_loop maxLast acc count vs) = min (count + int (length vs)) (maxLast + 1)"
proof (induction vs arbitrary: acc count)
  case (Cons v vs)
  show ?case
  proof (cases "count + 1 > maxLast")
    case False
    then show ?thesis using Cons.IH [of "count + 1" "c_int64 (acc + v)"] Cons.prems by (simp add: Let_def)
  qed (use Cons.prems in \<open>simp add: Let_def\<close>)
qed simp

end
