(* ===== verification/FsdStatistics.thy ===== *)
theory FsdStatistics
  imports QtText
begin

section \<open>Call statistics of the client\<close>

text \<open>
  The statistics of \<open>CFSDClient\<close>: how often a function was called (\<open>m_callStatistics\<close>, a \<open>QMap\<close>:
  pairs in the order of their keys) and the last calls with their times (\<open>m_callByTime\<close>). The
  lock around them is not modelled: every function is one step.
\<close>

record statistics_state =
  m_statistics :: bool
  m_callStatistics :: "(string \<times> int) list"
  m_callByTime :: "(int \<times> string) list"

text \<open>\<open>QString::operator<\<close>: by code unit.\<close>

fun text_less :: "string \<Rightarrow> string \<Rightarrow> bool" where
  "text_less [] t \<longleftrightarrow> t \<noteq> []"
| "text_less (x # xs) [] \<longleftrightarrow> False"
| "text_less (x # xs) (y # ys) \<longleftrightarrow>
     (of_char x :: nat) < of_char y \<or> x = y \<and> text_less xs ys"

text \<open>\<open>int &v = map[key]; v++\<close>: the new map and the new value.\<close>

fun qmap_increase :: "string \<Rightarrow> (string \<times> int) list \<Rightarrow> (string \<times> int) list \<times> int" where
  "qmap_increase k [] = ([(k, 1)], 1)"
| "qmap_increase k ((x, n) # xs) =
     (if k = x then ((x, c_int (n + 1)) # xs, c_int (n + 1))
      else if text_less k x then ((k, 1) # (x, n) # xs, 1)
      else (case qmap_increase k xs of (ys, v) \<Rightarrow> ((x, n) # ys, v)))"

definition MaxTimeValues :: nat where
  "MaxTimeValues = 50"

definition increaseStatisticsValue ::
    "int \<Rightarrow> string \<Rightarrow> string \<Rightarrow> statistics_state \<Rightarrow> int \<times> statistics_state" where
  "increaseStatisticsValue now identifier appendix s =
     (if identifier = [] \<or> \<not> m_statistics s then (- 1, s)
      else let i = (if appendix = [] then identifier else identifier @ ''.'' @ appendix);
               (calls, v) = qmap_increase i (m_callStatistics s);
               byTime = (now, i) # m_callByTime s;
               byTime = (if length byTime > MaxTimeValues then butlast byTime else byTime)
           in (v, s\<lparr>m_callStatistics := calls, m_callByTime := byTime\<rparr>))"

definition increaseStatisticsValue_int ::
    "int \<Rightarrow> string \<Rightarrow> int \<Rightarrow> statistics_state \<Rightarrow> int \<times> statistics_state" where
  "increaseStatisticsValue_int now identifier v s = increaseStatisticsValue now identifier (q_number v) s"

definition clearStatistics :: "statistics_state \<Rightarrow> statistics_state" where
  "clearStatistics s = s\<lparr>m_callStatistics := [], m_callByTime := []\<rparr>"

text \<open>\<open>std::sort\<close> with \<open>std::greater\<close> on the pairs of value and key.\<close>

definition pair_greater :: "int \<times> string \<Rightarrow> int \<times> string \<Rightarrow> bool" where
  "pair_greater p q \<longleftrightarrow> fst p > fst q \<or> fst p = fst q \<and> text_less (snd q) (snd p)"

fun insert_greater :: "int \<times> string \<Rightarrow> (int \<times> string) list \<Rightarrow> (int \<times> string) list" where
  "insert_greater p [] = [p]"
| "insert_greater p (q # qs) = (if pair_greater q p then q # insert_greater p qs else p # q # qs)"

definition sort_greater :: "(int \<times> string) list \<Rightarrow> (int \<times> string) list" where
  "sort_greater ps = foldr insert_greater ps []"

text \<open>One round of the two loops that write the calls, and the padded time difference.\<close>

definition add_call :: "string \<Rightarrow> int \<times> string \<Rightarrow> string \<Rightarrow> string" where
  "add_call separator p stats =
     stats @ (if stats = [] then [] else separator) @ snd p @ '': '' @ q_number (fst p)"

definition right_justified :: "nat \<Rightarrow> char \<Rightarrow> string \<Rightarrow> string" where
  "right_justified n c s = replicate (n - length s) c @ s"

definition getNetworkStatisticsAsText ::
    "bool \<Rightarrow> string \<Rightarrow> statistics_state \<Rightarrow> string \<times> statistics_state" where
  "getNetworkStatisticsAsText reset separator s =
     (if m_callStatistics s = [] then ('''', s)
      else let transformed = sort_greater (map prod.swap (m_callStatistics s));
               stats = fold (add_call separator) transformed '''';
               stats = fold (add_call separator) transformed stats;
               stats = (case m_callByTime s of
                   [] \<Rightarrow> stats
                 | (lastTs, _) # _ \<Rightarrow>
                     fold (\<lambda>(ts, i) stats. stats @ separator @
                         right_justified 5 CHR ''0'' (q_number (c_int64 (lastTs - ts))) @ '': '' @ i)
                       (m_callByTime s) stats)
           in (stats, if reset then clearStatistics s else s))"

subsection \<open>What the statistics hold\<close>

lemma qmap_increase_value:
  "snd (qmap_increase k xs) = (case map_of (fst (qmap_increase k xs)) k of Some v \<Rightarrow> v | None \<Rightarrow> 0)"
  by (induction xs rule: qmap_increase.induct) (auto split: prod.splits)

text \<open>Keys in order: the invariant of a \<open>QMap\<close>.\<close>

fun keys_sorted :: "string list \<Rightarrow> bool" where
  "keys_sorted [] \<longleftrightarrow> True"
| "keys_sorted [x] \<longleftrightarrow> True"
| "keys_sorted (x # y # zs) \<longleftrightarrow> text_less x y \<and> keys_sorted (y # zs)"

lemma text_less_irrefl [simp]: "\<not> text_less s s"
  by (induction s) auto

lemma text_less_trans: "text_less a b \<Longrightarrow> text_less b c \<Longrightarrow> text_less a c"
proof (induction a b arbitrary: c rule: text_less.induct)
  case (1 t)
  then show ?case by (cases t; cases c) auto
next
  case (3 x xs y ys)
  then show ?case by (cases c) auto
qed simp

lemma text_less_linear: "text_less a b \<or> a = b \<or> text_less b a"
proof (induction a b rule: text_less.induct)
  case (3 x xs y ys)
  then show ?case using linorder_less_linear [of "of_char x :: nat" "of_char y"] by auto
qed auto

lemma keys_sorted_Cons:
  "keys_sorted (x # ys) \<longleftrightarrow> keys_sorted ys \<and> (\<forall>y\<in>set ys. text_less x y)"
proof (induction ys arbitrary: x)
  case (Cons y ys)
  then show ?case using text_less_trans by (auto; blast)
qed simp

lemma qmap_increase_keys:
  "fst ` set (fst (qmap_increase k xs)) = insert k (fst ` set xs)"
proof (induction k xs rule: qmap_increase.induct)
  case (2 k x n xs)
  then show ?case by (cases "qmap_increase k xs") (auto simp: insert_commute)
qed simp

lemma qmap_increase_sorted:
  "keys_sorted (map fst xs) \<Longrightarrow> keys_sorted (map fst (fst (qmap_increase k xs)))"
proof (induction k xs rule: qmap_increase.induct)
  case (2 k x n xs)
  obtain ys v where e: "qmap_increase k xs = (ys, v)" by fastforce
  have "fst ` set ys = insert k (fst ` set xs)" using qmap_increase_keys [of k xs] e by simp
  then show ?case
    using 2 e text_less_linear [of k x] text_less_trans [of k x] by (auto simp: keys_sorted_Cons)
qed simp

lemma qmap_increase_other:
  "j \<noteq> k \<Longrightarrow> map_of (fst (qmap_increase k xs)) j = map_of xs j"
  by (induction k xs rule: qmap_increase.induct) (auto split: prod.splits)

lemma qmap_increase_self:
  "keys_sorted (map fst xs) \<Longrightarrow>
    map_of (fst (qmap_increase k xs)) k = Some (case map_of xs k of Some n \<Rightarrow> c_int (n + 1) | None \<Rightarrow> 1)"
proof (induction k xs rule: qmap_increase.induct)
  case (2 k x n xs)
  have "map_of xs k = None" if "text_less k x"
  proof -
    have "\<forall>y\<in>fst ` set xs. text_less k y"
      using 2(2) that text_less_trans by (auto simp: keys_sorted_Cons)
    then have "k \<notin> fst ` set xs" by auto
    then show ?thesis by (simp add: map_of_eq_None_iff)
  qed
  then show ?case using 2 by (cases "qmap_increase k xs") (auto simp: keys_sorted_Cons)
qed simp

lemma increase_bounded:
  "length (m_callByTime s) \<le> MaxTimeValues \<Longrightarrow>
    length (m_callByTime (snd (increaseStatisticsValue now i a s))) \<le> MaxTimeValues"
  by (simp add: increaseStatisticsValue_def Let_def split: prod.splits)

end
