(* ===== verification/ComponentProperties.thy ===== *)
theory ComponentProperties
  imports Callsign Transponder TokenBucket FsdOffsets FsdStatistics
begin

section \<open>What the parts guarantee\<close>

text \<open>
  The properties of the parts that the client is built on: callsigns, the transponder, the token
  bucket that limits what is sent, the estimation of position delays, and the call statistics.
\<close>

text \<open>A unified callsign is in upper case and trimmed, holds no character that a controller callsign may not
  hold, and unifying it once more changes nothing, whatever was typed and whatever the type hint.\<close>

lemma callsigns_normalised:
  "unifyCallsign (unifyCallsign s hint) hint = unifyCallsign s hint
   \<and> q_toUpper (unifyCallsign s hint) = unifyCallsign s hint
   \<and> q_trimmed (unifyCallsign s hint) = unifyCallsign s hint
   \<and> \<not> containsChar (unifyCallsign s hint) not_atc_char"
proof (intro conjI)
  show "\<not> containsChar (unifyCallsign s hint) not_atc_char"
    using unify_chars [of _ s hint] by (auto simp: containsChar_def list_ex_iff)
qed (rule unify_idempotent unify_upper unify_trimmed)+

lemma last_digit: "e \<le> 7 \<Longrightarrow> (10 * k + e) mod 10 = e \<and> (10 * k + e) div 10 = (k :: nat)"
  by presburger

lemma octal_digits_add: "e \<le> 7 \<Longrightarrow> octal_digits k m \<Longrightarrow> octal_digits (Suc k) (10 * m + e)"
  using last_digit [of e m] by (simp only: octal_digits.simps) simp

lemma numeral_4_Suc: "4 = Suc (Suc (Suc (Suc 0)))"
  by simp

lemma octal_digits_4: "octal_digits 4 n \<longleftrightarrow> n mod 10 < 8 \<and> n div 10 mod 10 < 8 \<and> n div 10 div 10 mod 10 < 8
    \<and> n div 10 div 10 div 10 mod 10 < 8 \<and> n div 10 div 10 div 10 div 10 = 0"
  unfolding numeral_4_Suc by (simp only: octal_digits.simps)

text \<open>A transponder code is accepted when it is the decimal reading of four octal digits, and no other
  number is; the code shown always has four characters.\<close>

lemma squawks_are_octal:
  "(isValidTransponderCode c \<longleftrightarrow> (\<exists>a b d e. a \<le> 7 \<and> b \<le> 7 \<and> d \<le> 7 \<and> e \<le> (7 :: nat)
     \<and> c = int (1000 * a + 100 * b + 10 * d + e)))
   \<and> length (getTransponderCodeFormatted t) = 4"
proof (intro conjI)
  show "length (getTransponderCodeFormatted t) = 4" by (rule formatted_length)
  show "isValidTransponderCode c \<longleftrightarrow> (\<exists>a b d e. a \<le> 7 \<and> b \<le> 7 \<and> d \<le> 7 \<and> e \<le> (7 :: nat)
     \<and> c = int (1000 * a + 100 * b + 10 * d + e))" (is "_ \<longleftrightarrow> ?R")
  proof
    assume "isValidTransponderCode c"
    then have c: "0 \<le> c" "c \<le> 7777" "octal_digits 4 (nat c)" by (auto simp: valid_code_iff)
    let ?n = "nat c"
    have o: "?n mod 10 < 8" "?n div 10 mod 10 < 8" "?n div 10 div 10 mod 10 < 8" "?n div 10 div 10 div 10 mod 10 < 8"
      using c(3) unfolding octal_digits_4 by blast+
    have "?n div 10 div 10 div 10 = ?n div 1000" by (simp add: div_mult2_eq)
    then have "?n div 10 div 10 div 10 mod 10 = ?n div 10 div 10 div 10" using c(2) by simp
    then have "?n = 1000 * (?n div 10 div 10 div 10 mod 10) + 100 * (?n div 10 div 10 mod 10)
        + 10 * (?n div 10 mod 10) + ?n mod 10"
      using mult_div_mod_eq [of 10 ?n] mult_div_mod_eq [of 10 "?n div 10"] mult_div_mod_eq [of 10 "?n div 10 div 10"]
      by linarith
    then have "c = int (1000 * (?n div 10 div 10 div 10 mod 10) + 100 * (?n div 10 div 10 mod 10)
        + 10 * (?n div 10 mod 10) + ?n mod 10)"
      using c(1) by (metis int_nat_eq)
    moreover have "?n mod 10 \<le> 7" "?n div 10 mod 10 \<le> 7" "?n div 10 div 10 mod 10 \<le> 7" "?n div 10 div 10 div 10 mod 10 \<le> 7"
      using o by linarith+
    ultimately show ?R by blast
  next
    assume ?R
    then obtain a b d e where r: "a \<le> 7" "b \<le> 7" "d \<le> 7" "e \<le> (7 :: nat)"
      and c: "c = int (1000 * a + 100 * b + 10 * d + e)" by blast
    let ?m = "1000 * a + 100 * b + 10 * d + e"
    have m: "?m = 10 * (10 * (10 * a + b) + d) + e" by simp
    have "octal_digits (Suc 0) a" using r(1) by simp
    then have "octal_digits (Suc (Suc (Suc (Suc 0)))) (10 * (10 * (10 * a + b) + d) + e)"
      using r by (intro octal_digits_add)
    then have "octal_digits 4 ?m" by (simp only: m numeral_4_Suc)
    moreover have "int ?m \<le> 7777" using r by simp
    ultimately have "0 \<le> int ?m" "int ?m \<le> 7777" "octal_digits 4 (nat (int ?m))"
      by (simp_all only: nat_int of_nat_0_le_iff)
    then show "isValidTransponderCode c" unfolding valid_code_iff c by blast
  qed
qed

text \<open>A sequence of calls, each a time and a number of tokens: the tokens handed out in all. The
  calls are as \<open>tryConsume\<close> asserts them, at times near the last refill.\<close>

fun run_bucket :: "CTokenBucket \<Rightarrow> (int \<times> int) list \<Rightarrow> fault + (int \<times> CTokenBucket)" where
  "run_bucket b [] = Inr (0, b)"
| "run_bucket b ((now, n) # calls) =
     (case tryConsume now n (- 1) b of Inl e \<Rightarrow> Inl e
      | Inr (ok, b') \<Rightarrow> (case run_bucket b' calls of Inl e \<Rightarrow> Inl e
          | Inr (taken, b'') \<Rightarrow> Inr ((if ok then n else 0) + taken, b'')))"

fun bucket_calls :: "CTokenBucket \<Rightarrow> (int \<times> int) list \<Rightarrow> bool" where
  "bucket_calls b [] \<longleftrightarrow> True"
| "bucket_calls b ((now, n) # calls) \<longleftrightarrow> near b now \<and> 0 < n \<and> n < m_capacity b
     \<and> (case tryConsume now n (- 1) b of Inl e \<Rightarrow> True | Inr (ok, b') \<Rightarrow> bucket_calls b' calls)"

lemma run_bucket_account:
  "sane b \<Longrightarrow> run_bucket b calls = Inr (consumed, b') \<Longrightarrow> bucket_calls b calls \<Longrightarrow>
   account b' + consumed * m_intervalMs b \<le> account b \<and> sane b'
   \<and> m_intervalMs b' = m_intervalMs b \<and> m_numTokensToRefill b' = m_numTokensToRefill b"
proof (induction b calls arbitrary: consumed rule: run_bucket.induct)
  case (2 b now n calls)
  from "2.prems"(3) have r: "near b now" "0 < n" "n < m_capacity b" by simp_all
  from "2.prems"(2) obtain ok b1 taken where t: "tryConsume now n (- 1) b = Inr (ok, b1)"
      "run_bucket b1 calls = Inr (taken, b')" "consumed = (if ok then n else 0) + taken"
    by (auto split: sum.splits prod.splits)
  have s: "sane b1" "m_intervalMs b1 = m_intervalMs b" "m_numTokensToRefill b1 = m_numTokensToRefill b"
    using tryConsume_sane [OF "2.prems"(1) r t(1)] by auto
  have "account b1 + (if ok then n * m_intervalMs b else 0) \<le> account b"
    by (rule tryConsume_account [OF "2.prems"(1) r t(1)])
  moreover have "account b' + taken * m_intervalMs b1 \<le> account b1 \<and> sane b'
      \<and> m_intervalMs b' = m_intervalMs b1 \<and> m_numTokensToRefill b' = m_numTokensToRefill b1"
    using "2.IH" [OF t(1) refl s(1) t(2)] "2.prems"(3) t(1) by simp
  ultimately show ?case using s t(3) by (auto simp: algebra_simps split: if_splits)
qed simp

text \<open>The token bucket keeps its promise: however often and whenever it is asked, the tokens it hands out
  are at most those it held at the start and what the refill rate grants for the time that has passed.\<close>

lemma bucket_limits_rate:
  assumes "sane b" "run_bucket b calls = Inr (consumed, b')" "bucket_calls b calls"
  shows "consumed * m_intervalMs b \<le> m_availableTokens b * m_intervalMs b
    + m_numTokensToRefill b * (m_lastReplenishmentTime b' - m_lastReplenishmentTime b)"
proof -
  from run_bucket_account [OF assms] have
    "account b' + consumed * m_intervalMs b \<le> account b" "sane b'"
    "m_intervalMs b' = m_intervalMs b" "m_numTokensToRefill b' = m_numTokensToRefill b" by auto
  moreover from this have "0 \<le> m_availableTokens b' * m_intervalMs b" by (simp add: sane_def)
  ultimately show ?thesis by (simp add: account_def algebra_simps)
qed

lemma bucket_limits_rate_witness:
  "\<exists>b'. run_bucket (CTokenBucket 100000 10 5000 1) [(100010, 2), (100020, 2)] = Inr (4, b')
    \<and> 4 * 5000 \<le> 10 * 5000 + 1 * (m_lastReplenishmentTime b' - 100000)"
proof -
  let ?b = "CTokenBucket 100000 10 5000 1"
  have "run_bucket ?b [(100010, 2), (100020, 2)] = Inr (4, ?b\<lparr>m_availableTokens := 6\<rparr>)"
    by (simp add: CTokenBucket_def tryConsume_def Let_def)
  moreover have "sane ?b" "bucket_calls ?b [(100010, 2), (100020, 2)]"
    by (simp_all add: sane_def CTokenBucket_def near_def tryConsume_def Let_def)
  ultimately show ?thesis using bucket_limits_rate [of ?b "[(100010, 2), (100020, 2)]" 4 "?b\<lparr>m_availableTokens := 6\<rparr>"]
    by (simp add: CTokenBucket_def)
qed

lemma dlh1ab: "\<not> isEmpty (CCallsign ''DLH1AB'' Aircraft)" "asString (CCallsign ''DLH1AB'' Aircraft) = ''DLH1AB''"
  by (simp_all add: isEmpty_def asString_def CCallsign_def q_trimmed_def is_space_def unifyCallsign_def q_toUpper_def to_upper_def
    removeChars_def not_aircraft_char_def is_letter_or_number_def is_upper_def is_digit_def)

text \<open>Receiving a position keeps the bookkeeping of delays in range: at most six differences per callsign,
  none negative, and an interpolated delay from 0 to 6000 ms. The delay returned, less the additional
  one, is in that range too.\<close>

lemma offsets_stay_in_range:
  assumes "offsets_ok s" "receivedPositionFixTsAndGetOffsetTime now cs markerTs s = Inr (offset, s')"
    and "0 \<le> now" "now < 2 ^ 62" "markerTs < 2 ^ 62"
    and "\<forall>t. m_lastPositionUpdate s (asString cs) = Some t \<longrightarrow> 0 \<le> t \<and> t < 2 ^ 62"
  shows "offsets_ok s' \<and> (offset = c_positionTimeOffsetMsec \<or>
    0 \<le> offset - m_additionalOffsetTime s \<and> offset - m_additionalOffsetTime s \<le> c_positionTimeOffsetMsec)"
proof -
  define callsign where "callsign = asString cs"
  have c: "\<not> isEmpty cs" "asString cs = callsign"
    using assms(2) by (auto simp: receivedPositionFixTsAndGetOffsetTime_def callsign_def)
  define ts where "ts = (if markerTs < 0 then now else markerTs)"
  have ts: "0 \<le> ts" "ts < 2 ^ 62" using assms(3-5) by (simp_all add: ts_def)
  have r: "receivedPositionFixTsAndGetOffsetTime now cs ts s = Inr (offset, s')"
    using assms(2,3) c by (simp add: receivedPositionFixTsAndGetOffsetTime_def ts_def Let_def)
  show ?thesis
  proof (cases "m_lastPositionUpdate s callsign")
    case None
    then show ?thesis using received_first [OF c None ts(1), of now] r assms(1) by (auto simp: offsets_ok_def)
  next
    case (Some old)
    define diff where "diff = \<bar>ts - old\<bar>"
    define s1 where "s1 = insertLatestOffsetTime callsign diff
      (s\<lparr>m_lastPositionUpdate := (m_lastPositionUpdate s)(callsign \<mapsto> ts)\<rparr>)"
    define t where "t = interpolation_step (offset_target callsign s1)
      (map_value (m_interpolatedOffsetTime s) callsign 0) diff"
    have "0 \<le> old" "old < 2 ^ 62" using assms(6) Some c(2) by auto
    then have "int64 (ts - old)" using ts by (simp add: int64_def)
    from received_later [OF c Some ts(1) this, of now] r
    have e: "offset = m_additionalOffsetTime s + t"
        "s' = s1\<lparr>m_interpolatedOffsetTime := (m_interpolatedOffsetTime s)(callsign \<mapsto> t)\<rparr>"
      by (simp_all add: t_def s1_def diff_def)
    have i: "m_interpolatedOffsetTime s1 = m_interpolatedOffsetTime s"
      by (simp add: s1_def insertLatestOffsetTime_def Let_def)
    have ok1: "offsets_ok s1"
      unfolding s1_def by (rule offsets_ok_insert) (use assms(1) in \<open>auto simp: offsets_ok_def diff_def\<close>)
    have "0 \<le> map_value (m_interpolatedOffsetTime s) callsign 0"
        "map_value (m_interpolatedOffsetTime s) callsign 0 \<le> c_positionTimeOffsetMsec"
      using assms(1) by (auto simp: offsets_ok_def map_value_def c_positionTimeOffsetMsec_def split: option.splits)
    moreover have "c_minimumPositionTimeOffsetMsec \<le> offset_target callsign s1"
        "offset_target callsign s1 \<le> c_positionTimeOffsetMsec"
      using offset_target_range by auto
    moreover have "0 \<le> diff" by (simp add: diff_def)
    note interpolation_step_between [OF this, of "offset_target callsign s1" "map_value (m_interpolatedOffsetTime s) callsign 0"]
    ultimately have "0 \<le> t" "t \<le> c_positionTimeOffsetMsec"
      by (auto simp: t_def c_minimumPositionTimeOffsetMsec_def)
    then show ?thesis using ok1 e i by (auto simp: offsets_ok_def)
  qed
qed

lemma offsets_stay_in_range_witness:
  "offsets_ok (offset_state_init\<lparr>m_lastPositionUpdate := [''DLH1AB'' \<mapsto> 1000]\<rparr>) \<and>
    (c_positionTimeOffsetMsec = c_positionTimeOffsetMsec \<or>
     0 \<le> c_positionTimeOffsetMsec - m_additionalOffsetTime offset_state_init
     \<and> c_positionTimeOffsetMsec - m_additionalOffsetTime offset_state_init \<le> c_positionTimeOffsetMsec)"
proof (rule offsets_stay_in_range [of offset_state_init 1000 "CCallsign ''DLH1AB'' Aircraft" "- 1"])
  show "offsets_ok offset_state_init" by (rule offsets_ok_init)
qed (simp_all add: receivedPositionFixTsAndGetOffsetTime_def offset_state_init_def dlh1ab)

text \<open>The delay does not move gradually from its default: the first position gets 6000 ms, the second at
  most a quarter of the time between the two (and the additional delay), because the interpolation
  starts from 0.\<close>

lemma second_fix_drops_offset:
  assumes "\<not> isEmpty cs" "m_lastPositionUpdate s (asString cs) = None" "m_interpolatedOffsetTime s (asString cs) = None"
    and "0 \<le> t1" "t1 \<le> t2" "t2 < 2 ^ 62"
    and "receivedPositionFixTsAndGetOffsetTime now1 cs t1 s = Inr (o1, s1)"
    and "receivedPositionFixTsAndGetOffsetTime now2 cs t2 s1 = Inr (o2, s2)"
  shows "o1 = c_positionTimeOffsetMsec \<and> o2 - m_additionalOffsetTime s \<le> (t2 - t1) div 4"
proof -
  have s1: "o1 = c_positionTimeOffsetMsec" "s1 = s\<lparr>m_lastPositionUpdate := (m_lastPositionUpdate s)(asString cs \<mapsto> t1)\<rparr>"
    using received_first [OF assms(1) refl assms(2,4), of now1] assms(7) by simp_all
  have "int64 (t2 - t1)" using assms(4-6) by (simp add: int64_def)
  from received_later [OF assms(1) refl _ _ this, of s1 now2] assms(4,5,8)
  have "o2 = m_additionalOffsetTime s + interpolation_step (offset_target (asString cs)
      (insertLatestOffsetTime (asString cs) \<bar>t2 - t1\<bar> (s1\<lparr>m_lastPositionUpdate := (m_lastPositionUpdate s1)(asString cs \<mapsto> t2)\<rparr>)))
      0 \<bar>t2 - t1\<bar>"
    by (simp add: s1(2) map_value_def assms(3))
  moreover have "interpolation_step (offset_target (asString cs) x) 0 \<bar>t2 - t1\<bar> \<le> (t2 - t1) div 4" for x
    using offset_target_range [of "asString cs" x] assms(5)
    by (auto simp: interpolation_step_def c_minimumPositionTimeOffsetMsec_def)
  ultimately show ?thesis using s1(1) by (simp only:) simp
qed

lemma second_fix_drops_offset_witness:
  "\<exists>o1 s1 o2 s2. receivedPositionFixTsAndGetOffsetTime 0 (CCallsign ''DLH1AB'' Aircraft) 1000 offset_state_init = Inr (o1, s1)
     \<and> receivedPositionFixTsAndGetOffsetTime 0 (CCallsign ''DLH1AB'' Aircraft) 6000 s1 = Inr (o2, s2)
     \<and> o1 = c_positionTimeOffsetMsec \<and> o2 - m_additionalOffsetTime offset_state_init \<le> (6000 - 1000) div 4"
proof -
  have f: "receivedPositionFixTsAndGetOffsetTime 0 (CCallsign ''DLH1AB'' Aircraft) 1000 offset_state_init
      = Inr (c_positionTimeOffsetMsec, offset_state_init\<lparr>m_lastPositionUpdate := [''DLH1AB'' \<mapsto> 1000]\<rparr>)"
    by (simp add: receivedPositionFixTsAndGetOffsetTime_def offset_state_init_def dlh1ab)
  obtain o2 s2 where g: "receivedPositionFixTsAndGetOffsetTime 0 (CCallsign ''DLH1AB'' Aircraft) 6000
      (offset_state_init\<lparr>m_lastPositionUpdate := [''DLH1AB'' \<mapsto> 1000]\<rparr>) = Inr (o2, s2)"
    using received_later [of "CCallsign ''DLH1AB'' Aircraft" "''DLH1AB''" "offset_state_init\<lparr>m_lastPositionUpdate := [''DLH1AB'' \<mapsto> 1000]\<rparr>" 1000 6000 0]
    by (auto simp: int64_def dlh1ab)
  have "c_positionTimeOffsetMsec = c_positionTimeOffsetMsec \<and> o2 - m_additionalOffsetTime offset_state_init \<le> (6000 - 1000) div 4"
    by (rule second_fix_drops_offset [OF _ _ _ _ _ _ f g]) (simp_all add: offset_state_init_def dlh1ab)
  then show ?thesis using f g by blast
qed

end
