(* ===== verification/ComFrequency.thy ===== *)
theory ComFrequency
  imports Prelude
begin

section \<open>Radio frequencies\<close>

text \<open>
  The part of \<open>blackmisc/aviation/comsystem.cpp\<close> that the messages use. A frequency is its value
  in kHz, as the code takes it (\<open>valueInteger\<close>, to avoid comparing doubles); the null frequency is
  \<open>None\<close>. The 25 kHz spacing is the only one the client rounds to.
\<close>

definition isValidCivilAviationFrequency :: "int option \<Rightarrow> bool" where
  "isValidCivilAviationFrequency f =
     (case f of None \<Rightarrow> False | Some fr \<Rightarrow> 118000 \<le> fr \<and> fr \<le> 136975)"

definition isValidMilitaryFrequency :: "int option \<Rightarrow> bool" where
  "isValidMilitaryFrequency f =
     (case f of None \<Rightarrow> False | Some fr \<Rightarrow> 220000 \<le> fr \<and> fr \<le> 399950)"

definition isValidComFrequency :: "int option \<Rightarrow> bool" where
  "isValidComFrequency f =
     (case f of None \<Rightarrow> False
      | Some fr \<Rightarrow> isValidCivilAviationFrequency (Some fr) \<or> isValidMilitaryFrequency (Some fr))"

text \<open>Down to the multiple below where that is closer, else up; the cast to \<open>int\<close> cuts towards 0.\<close>

definition roundToChannelSpacing25 :: "int \<Rightarrow> int" where
  "roundToChannelSpacing25 fKHz =
     (let dDown = c_div fKHz 25; fDownKHz = dDown * 25; fUpKHz = (dDown + 1) * 25;
          down = \<bar>fKHz - fDownKHz\<bar> < \<bar>fUpKHz - fKHz\<bar>
      in if down then fDownKHz else fUpKHz)"

text \<open>Both ends of the half spacing of 12.5 kHz are excluded.\<close>

definition isWithinChannelSpacing25 :: "int option \<Rightarrow> int option \<Rightarrow> bool" where
  "isWithinChannelSpacing25 setFrequency compareFrequency =
     (case (setFrequency, compareFrequency) of
        (Some s, Some c) \<Rightarrow> s = c \<or> (2 * s - 25 < 2 * c \<and> 2 * s + 25 > 2 * c)
      | _ \<Rightarrow> False)"

lemma round25_mod: "roundToChannelSpacing25 f mod 25 = 0"
  by (simp add: roundToChannelSpacing25_def Let_def)

lemma round25_near:
  assumes "0 \<le> f" shows "2 * \<bar>roundToChannelSpacing25 f - f\<bar> \<le> 25"
proof -
  have "c_div f 25 = f div 25" using assms by (simp add: c_div_def)
  then show ?thesis
    using mult_div_mod_eq [of 25 f] pos_mod_bound [of 25 f] pos_mod_sign [of 25 f]
    by (simp add: roundToChannelSpacing25_def Let_def)
qed

lemma round25_fixed:
  assumes "0 \<le> f" shows "roundToChannelSpacing25 (25 * f) = 25 * f"
  using assms by (simp add: roundToChannelSpacing25_def c_div_def Let_def)

text \<open>VATSIM drops the last 5 kHz of a channel: rounding restores it.\<close>

lemma round25_restores:
  assumes "0 \<le> f" "0 \<le> d" "d \<le> 12" shows "roundToChannelSpacing25 (25 * f - d) = 25 * f"
proof (cases "d = 0 \<or> f = 0")
  case True
  then show ?thesis
  proof
    assume "d = 0" then show ?thesis using round25_fixed [OF assms(1)] by simp
  next
    assume f: "f = 0"
    have "c_div (- d) 25 = 0" using assms by (auto simp: c_div_def)
    then show ?thesis using f assms by (simp add: roundToChannelSpacing25_def)
  qed
next
  case False
  have "25 * f - d = 25 * (f - 1) + (25 - d)" by simp
  then have "(25 * f - d) div 25 = f - 1"
    using assms False by (simp only: div_mult_self4) simp
  then show ?thesis using assms False by (simp add: roundToChannelSpacing25_def c_div_def Let_def algebra_simps)
qed

end
