(* ===== verification/Selcal.thy ===== *)
theory Selcal
  imports QtText
begin

section \<open>SELCAL codes\<close>

text \<open>
  \<open>blackmisc/aviation/selcal.cpp\<close>: codes of two pairs out of sixteen letters. An audio frequency
  is given in tenths of a hertz.
\<close>

definition validCharacters :: string where
  "validCharacters = ''ABCDEFGHJKLMPQRS''"

definition q_indexOf :: "string \<Rightarrow> char \<Rightarrow> int" where
  "q_indexOf s c = (if c \<in> set s then int (length (takeWhile (\<lambda>x. x \<noteq> c) s)) else - 1)"

definition isValidCharacter :: "char \<Rightarrow> bool" where
  "isValidCharacter c \<longleftrightarrow> to_upper c \<in> set validCharacters"

definition isValidCode :: "string \<Rightarrow> bool" where
  "isValidCode code \<longleftrightarrow>
     (if length code \<noteq> 4 then False
      else let codeUpper = q_toUpper code;
               p1 = q_indexOf validCharacters (codeUpper ! 0); p2 = q_indexOf validCharacters (codeUpper ! 1);
               p3 = q_indexOf validCharacters (codeUpper ! 2); p4 = q_indexOf validCharacters (codeUpper ! 3)
        in if p1 < 0 \<or> p2 < 0 \<or> p3 < 0 \<or> p4 < 0 then False
           else if p1 \<ge> p2 \<or> p3 \<ge> p4 then False
           else if p1 = p3 \<or> p2 = p3 \<or> p2 = p4 \<or> p3 = p4 then False
           else True)"

definition unifyCode :: "string \<Rightarrow> string" where
  "unifyCode selcalCandidate =
     (let s = filter isValidCharacter selcalCandidate in if isValidCode s then s else '''')"

text \<open>An object is its \<open>m_code\<close>; both constructors unify.\<close>

definition selcal_equalsString :: "string \<Rightarrow> string \<Rightarrow> bool" where
  "selcal_equalsString m_code code \<longleftrightarrow> (if code = [] then False else q_eq_nocase m_code code)"

definition audioFrequencyEquivalents :: "int list" where
  "audioFrequencyEquivalents =
     [3127, 3467, 3846, 4266, 4732, 5248, 5821, 6457, 7161, 7943, 8810, 9772, 10839, 12023, 13335, 14791]"

definition audioFrequencyEquivalent :: "char \<Rightarrow> fault + int" where
  "audioFrequencyEquivalent c =
     (let pos = q_indexOf validCharacters c in
      if pos < 0 then Inl AssertFailed
      else if \<not> int (length audioFrequencyEquivalents) > pos then Inl AssertFailed
      else list_at audioFrequencyEquivalents (nat pos))"

fun audio_frequencies :: "string \<Rightarrow> fault + int list" where
  "audio_frequencies [] = Inr []"
| "audio_frequencies (c # cs) =
     (case audioFrequencyEquivalent c of Inl e \<Rightarrow> Inl e
      | Inr f \<Rightarrow> (case audio_frequencies cs of Inl e \<Rightarrow> Inl e | Inr fs \<Rightarrow> Inr (f # fs)))"

definition getFrequencies :: "string \<Rightarrow> fault + int list" where
  "getFrequencies m_code = (if \<not> isValidCode m_code then Inr [] else audio_frequencies m_code)"

definition codePairs :: "string list" where
  "codePairs = concat (map (\<lambda>p1. map (\<lambda>p2. [validCharacters ! p1, validCharacters ! p2])
     [Suc p1..<length validCharacters]) [0..<length validCharacters - 1])"

subsection \<open>What the codes are\<close>

lemma takeWhile_hit:
  "c \<in> set s \<Longrightarrow> length (takeWhile (\<lambda>x. x \<noteq> c) s) < length s \<and> s ! length (takeWhile (\<lambda>x. x \<noteq> c) s) = c"
  by (induction s) auto

lemma q_indexOf_nth: "c \<in> set s \<Longrightarrow> q_indexOf s c < int (length s) \<and> s ! nat (q_indexOf s c) = c"
  using takeWhile_hit [of c s] by (simp add: q_indexOf_def)

lemma q_indexOf_neg [simp]: "q_indexOf s c < 0 \<longleftrightarrow> c \<notin> set s"
  by (simp add: q_indexOf_def)

lemma q_indexOf_inject:
  assumes "c \<in> set s" "d \<in> set s" shows "q_indexOf s c = q_indexOf s d \<longleftrightarrow> c = d"
proof
  assume "q_indexOf s c = q_indexOf s d"
  then have "s ! nat (q_indexOf s c) = s ! nat (q_indexOf s d)" by (rule arg_cong)
  then show "c = d" using q_indexOf_nth [OF assms(1)] q_indexOf_nth [OF assms(2)] by simp
qed (rule arg_cong)

lemma q_indexOf_distinct:
  "distinct s \<Longrightarrow> i < length s \<Longrightarrow> q_indexOf s (s ! i) = int i"
proof -
  assume s: "distinct s" "i < length s"
  have "0 \<le> q_indexOf s (s ! i)" using s(2) by (simp add: q_indexOf_def)
  moreover have "q_indexOf s (s ! i) < int (length s)" "s ! nat (q_indexOf s (s ! i)) = s ! i"
    using q_indexOf_nth [of "s ! i" s] s(2) by auto
  ultimately have "nat (q_indexOf s (s ! i)) = i"
    using nth_eq_iff_index_eq [OF s(1), of "nat (q_indexOf s (s ! i))" i] s(2) by linarith
  then show ?thesis using \<open>0 \<le> q_indexOf s (s ! i)\<close> by linarith
qed

lemma validCharacters_distinct: "distinct validCharacters" and validCharacters_length: "length validCharacters = 16"
  by (simp_all add: validCharacters_def)

text \<open>Upper-case letters of the sixteen, in two rising pairs, with the comparisons the code makes.\<close>

lemma isValidCode_upper:
  assumes "q_toUpper [a, b, c, d] = [a, b, c, d]"
  shows "isValidCode [a, b, c, d] \<longleftrightarrow> {a, b, c, d} \<subseteq> set validCharacters
    \<and> q_indexOf validCharacters a < q_indexOf validCharacters b
    \<and> q_indexOf validCharacters c < q_indexOf validCharacters d \<and> a \<noteq> c \<and> b \<noteq> c \<and> b \<noteq> d"
proof -
  have "to_upper a = a" "to_upper b = b" "to_upper c = c" "to_upper d = d"
    using assms by (simp_all add: q_toUpper_def)
  then show ?thesis
    by (auto simp: isValidCode_def q_toUpper_def Let_def q_indexOf_inject)
qed

lemma audio_frequency_total:
  "c \<in> set validCharacters \<Longrightarrow> \<exists>f. audioFrequencyEquivalent c = Inr f"
  using q_indexOf_nth [of c validCharacters]
  by (auto simp: audioFrequencyEquivalent_def Let_def list_at_def validCharacters_length audioFrequencyEquivalents_def)

lemma audio_frequencies_total:
  "set s \<subseteq> set validCharacters \<Longrightarrow> \<exists>fs. audio_frequencies s = Inr fs \<and> length fs = length s"
proof (induction s)
  case (Cons c s)
  then obtain f fs where "audioFrequencyEquivalent c = Inr f" "audio_frequencies s = Inr fs" "length fs = length s"
    using audio_frequency_total [of c] by auto
  then show ?case by simp
qed simp

end
