(* ===== verification/TextMessages.thy ===== *)
theory TextMessages
  imports Callsign ComFrequency Selcal
begin

section \<open>Text messages\<close>

text \<open>
  \<open>blackmisc/network/textmessage.cpp\<close> and \<open>textmessagelist.cpp\<close>: the message a user reads or
  writes, as opposed to the FSD message that carries it. A frequency is in kHz, the null frequency
  is \<open>None\<close>. Time stamps, icons, property indexes and the HTML and log renderings are not modelled.
\<close>

record CTextMessage =
  m_message :: string
  m_senderCallsign :: CCallsign
  m_recipientCallsign :: CCallsign
  m_frequency :: "int option"
  m_wasSent :: bool
  m_relayedMessage :: bool

text \<open>\<open>QString::simplified\<close>: blanks at the ends go, blanks inside become one space.\<close>

definition q_simplified :: "string \<Rightarrow> string" where
  "q_simplified s = q_join '' '' (filter (\<lambda>w. w \<noteq> [])
     (q_split CHR '' '' (map (\<lambda>c. if is_space c then CHR '' '' else c) s)))"

text \<open>\<open>QString::remove\<close> of a text, at every place it is found from left to right.\<close>

function q_remove :: "string \<Rightarrow> string \<Rightarrow> string" where
  "q_remove p [] = []"
| "q_remove p (c # s) =
     (if p \<noteq> [] \<and> q_startsWith (c # s) p then q_remove p (drop (length p) (c # s)) else c # q_remove p s)"
  by pat_completeness auto

termination
  by (relation "measure (length \<circ> snd)") auto

subsection \<open>One message\<close>

definition setMessage :: "string \<Rightarrow> CTextMessage \<Rightarrow> CTextMessage" where
  "setMessage message m = m\<lparr>m_message := q_trimmed (q_simplified message)\<rparr>"

definition CTextMessage_default :: CTextMessage where
  "CTextMessage_default = \<lparr>m_message = '''', m_senderCallsign = CCallsign_default,
     m_recipientCallsign = CCallsign_default, m_frequency = None, m_wasSent = False, m_relayedMessage = False\<rparr>"

definition CTextMessage_radio :: "string \<Rightarrow> int option \<Rightarrow> CCallsign \<Rightarrow> CTextMessage" where
  "CTextMessage_radio message frequency senderCallsign =
     setMessage message (CTextMessage_default\<lparr>m_senderCallsign := senderCallsign, m_frequency := frequency\<rparr>)"

definition CTextMessage_private :: "string \<Rightarrow> CCallsign \<Rightarrow> CCallsign \<Rightarrow> CTextMessage" where
  "CTextMessage_private message senderCallsign recipientCallsign =
     setMessage message (CTextMessage_default\<lparr>m_senderCallsign := senderCallsign,
       m_recipientCallsign := recipientCallsign\<rparr>)"

definition message_isEmpty :: "CTextMessage \<Rightarrow> bool" where
  "message_isEmpty m \<longleftrightarrow> m_message m = []"

definition isPrivateMessage :: "CTextMessage \<Rightarrow> bool" where
  "isPrivateMessage m \<longleftrightarrow> \<not> isEmpty (m_senderCallsign m) \<and> \<not> isEmpty (m_recipientCallsign m)"

definition isRadioMessage :: "CTextMessage \<Rightarrow> bool" where
  "isRadioMessage m \<longleftrightarrow> isValidCivilAviationFrequency (m_frequency m)"

definition isBroadcastMessage :: "CTextMessage \<Rightarrow> bool" where
  "isBroadcastMessage m \<longleftrightarrow> isBroadcastCallsign (m_recipientCallsign m)"

definition isSupervisorMessage :: "CTextMessage \<Rightarrow> bool" where
  "isSupervisorMessage m \<longleftrightarrow>
     (if isBroadcastMessage m then False else isSupervisorCallsign (m_senderCallsign m))"

definition isWallopMessage :: "CTextMessage \<Rightarrow> bool" where
  "isWallopMessage m \<longleftrightarrow> m_callsignAsSet (m_recipientCallsign m) = ''*S''"

definition isServerMessage :: "CTextMessage \<Rightarrow> bool" where
  "isServerMessage m \<longleftrightarrow>
     (if \<not> isPrivateMessage m then False
      else q_startsWith (q_toLower (asString (m_senderCallsign m))) ''server'')"

definition hasValidRecipient :: "CTextMessage \<Rightarrow> bool" where
  "hasValidRecipient m \<longleftrightarrow>
     (if \<not> isEmpty (m_recipientCallsign m) then True else isValidCivilAviationFrequency (m_frequency m))"

definition mentionsCallsign :: "CCallsign \<Rightarrow> CTextMessage \<Rightarrow> bool" where
  "mentionsCallsign callsign m \<longleftrightarrow>
     (if isEmpty callsign then False
      else if length (m_message m) < length (asString callsign) then False
      else q_contains (q_toLower (m_message m)) (q_toLower (asString callsign)))"

definition isSendToFrequency :: "int option \<Rightarrow> CTextMessage \<Rightarrow> bool" where
  "isSendToFrequency frequency m \<longleftrightarrow> (if \<not> isRadioMessage m then False else m_frequency m = frequency)"

definition markAsSent :: "CTextMessage \<Rightarrow> CTextMessage" where
  "markAsSent m = m\<lparr>m_wasSent := True\<rparr>"

definition toggleSenderRecipient :: "CTextMessage \<Rightarrow> CTextMessage" where
  "toggleSenderRecipient m = m\<lparr>m_senderCallsign := m_recipientCallsign m, m_recipientCallsign := m_senderCallsign m\<rparr>"

subsection \<open>Messages passed on to the partner in a shared cockpit\<close>

definition swiftRelayMessage :: string where
  "swiftRelayMessage = ''swift relayed: ''"

definition isRelayedMessage :: "CTextMessage \<Rightarrow> bool" where
  "isRelayedMessage m \<longleftrightarrow> m_relayedMessage m \<or> q_startsWith (m_message m) swiftRelayMessage"

definition makeRelayedMessage :: "CCallsign \<Rightarrow> CTextMessage \<Rightarrow> CTextMessage" where
  "makeRelayedMessage partnerCallsign m =
     (if q_startsWith (m_message m) swiftRelayMessage then m
      else let sender = asString (m_senderCallsign m); recipient = asString (m_recipientCallsign m) in
        m\<lparr>m_relayedMessage := True, m_recipientCallsign := partnerCallsign\<lparr>m_typeHint := Aircraft\<rparr>,
          m_message := swiftRelayMessage @ sender @ '' '' @ recipient @ '';'' @ m_message m\<rparr>)"

definition relayedMessageToPrivateMessage :: "CTextMessage \<Rightarrow> bool \<times> CTextMessage" where
  "relayedMessageToPrivateMessage m =
     (if \<not> isRelayedMessage m then (False, m)
      else let index = q_indexOf (m_message m) CHR '';'' in
        if index < int (length swiftRelayMessage) then (False, m)
        else if int (length (m_message m)) \<le> index + 1 then (False, m)
        else let senderRecipient = q_trimmed (q_remove swiftRelayMessage (take (nat index) (m_message m)));
                 sr = q_split CHR '' '' senderRecipient
          in if length sr \<noteq> 2 then (False, m)
             else (True, m\<lparr>m_senderCallsign := CCallsign (hd sr) NoHint,
                            m_recipientCallsign := CCallsign (last sr) NoHint,
                            m_message := drop (nat index + 1) (m_message m)\<rparr>))"

subsection \<open>Messages that continue one another\<close>

definition canBeAppended :: "CTextMessage \<Rightarrow> CTextMessage \<Rightarrow> bool" where
  "canBeAppended m textMessage \<longleftrightarrow>
     (if message_isEmpty textMessage then False
      else if \<not> callsign_eq (m_senderCallsign m) (m_senderCallsign textMessage) then False
      else if isRadioMessage m \<and> isRadioMessage textMessage then
        (if m_frequency m \<noteq> m_frequency textMessage then False else True)
      else if isPrivateMessage m \<and> isPrivateMessage textMessage then
        (if \<not> callsign_eq (m_recipientCallsign m) (m_recipientCallsign textMessage) then False else True)
      else False)"

definition appendIfPossible :: "CTextMessage \<Rightarrow> CTextMessage \<Rightarrow> bool \<times> CTextMessage" where
  "appendIfPossible m textMessage =
     (if message_isEmpty textMessage then (False, m)
      else if \<not> canBeAppended m textMessage then (False, m)
      else (True, m\<lparr>m_message := m_message m @ '' '' @ m_message textMessage\<rparr>))"

text \<open>The loop over the list stops at the first message that takes the new one.\<close>

fun append_first :: "CTextMessage \<Rightarrow> CTextMessage list \<Rightarrow> CTextMessage list option" where
  "append_first message [] = None"
| "append_first message (tm # tms) =
     (case appendIfPossible tm message of
        (True, tm') \<Rightarrow> Some (tm' # tms)
      | (False, tm') \<Rightarrow> map_option ((#) tm') (append_first message tms))"

definition addConsolidatedTextMessage :: "CTextMessage \<Rightarrow> CTextMessage list \<Rightarrow> CTextMessage list" where
  "addConsolidatedTextMessage message tms =
     (if message_isEmpty message then tms
      else case append_first message tms of Some tms' \<Rightarrow> tms' | None \<Rightarrow> tms @ [message])"

subsection \<open>Lists of messages\<close>

definition getPrivateMessages :: "CTextMessage list \<Rightarrow> CTextMessage list" where
  "getPrivateMessages tms = filter isPrivateMessage tms"

definition getRadioMessages :: "CTextMessage list \<Rightarrow> CTextMessage list" where
  "getRadioMessages tms = filter isRadioMessage tms"

definition getSupervisorMessages :: "CTextMessage list \<Rightarrow> CTextMessage list" where
  "getSupervisorMessages tms = filter isSupervisorMessage tms"

definition findByNotForRecipient :: "CCallsign \<Rightarrow> CTextMessage list \<Rightarrow> CTextMessage list" where
  "findByNotForRecipient recipient tms =
     (if isEmpty recipient then []
      else filter (\<lambda>m. \<not> isEmpty (m_recipientCallsign m) \<and> \<not> callsign_eq (m_recipientCallsign m) recipient) tms)"

definition relayedToPrivateMessages :: "CTextMessage list \<Rightarrow> int \<times> CTextMessage list" where
  "relayedToPrivateMessages tms =
     (let rs = map relayedMessageToPrivateMessage tms in (int (length (filter fst rs)), map snd rs))"

definition withRemovedPrivateMessagesFromCallsign :: "CCallsign \<Rightarrow> CTextMessage list \<Rightarrow> CTextMessage list" where
  "withRemovedPrivateMessagesFromCallsign callsign tms =
     (if tms = [] then [] else if isEmpty callsign then tms
      else filter (\<lambda>m. \<not> (isPrivateMessage m \<and> callsign_eq (m_senderCallsign m) callsign)) tms)"

definition removePrivateMessagesFromCallsign :: "CCallsign \<Rightarrow> CTextMessage list \<Rightarrow> int \<times> CTextMessage list" where
  "removePrivateMessagesFromCallsign callsign tms =
     (if tms = [] then (0, tms)
      else let r = withRemovedPrivateMessagesFromCallsign callsign tms; c = int (length tms) - int (length r) in
        if c < 1 then (0, tms) else (c, r))"

definition markedAsSent :: "CTextMessage list \<Rightarrow> CTextMessage list" where
  "markedAsSent tms = (if tms = [] then [] else map markAsSent tms)"

text \<open>One message per frequency it came on.\<close>

definition messages_on :: "string \<Rightarrow> int list \<Rightarrow> CCallsign \<Rightarrow> CTextMessage list" where
  "messages_on message frequencies fromCallsign =
     (if frequencies = [] then [] else map (\<lambda>f. CTextMessage_radio message (Some f) fromCallsign) frequencies)"

subsection \<open>SELCAL messages\<close>

definition is_letter :: "char \<Rightarrow> bool" where
  "is_letter c \<longleftrightarrow> is_upper c \<or> is_lower c \<or> (of_char c :: nat) \<in> {170, 186}"

definition getSelcalCode :: "CTextMessage \<Rightarrow> string" where
  "getSelcalCode m =
     (if message_isEmpty m then ''''
      else if isPrivateMessage m then ''''
      else if \<not> q_startsWith (q_toLower (m_message m)) ''selcal'' then ''''
      else if length (m_message m) > 15 \<or> length (m_message m) < 10 then ''''
      else let candidate = removeChars (m_message m) (\<lambda>c. \<not> is_letter c) in
        if length candidate \<noteq> 10 then '''' else q_toUpper (q_right candidate 4))"

definition isSelcalMessage :: "CTextMessage \<Rightarrow> bool" where
  "isSelcalMessage m \<longleftrightarrow>
     (if message_isEmpty m then False
      else if isPrivateMessage m then False
      else if length (m_message m) > 15 \<or> length (m_message m) < 10 then False
      else length (getSelcalCode m) = 4)"

definition isSelcalMessageFor :: "string \<Rightarrow> CTextMessage \<Rightarrow> bool" where
  "isSelcalMessageFor selcal m \<longleftrightarrow>
     (if \<not> isValidCode selcal then False else q_toUpper selcal = getSelcalCode m)"

end
