(* ===== verification/TextProperties.thy ===== *)
theory TextProperties
  imports TextMessages
begin

section \<open>What text messages guarantee\<close>

text \<open>
  The properties of text messages: relaying to the partner of a shared cockpit, joining messages
  that continue one another, frequencies and SELCAL codes.
\<close>

text \<open>What a unified callsign is made of, as far as relaying is concerned.\<close>

definition callsign_text :: "string \<Rightarrow> bool" where
  "callsign_text s \<longleftrightarrow> (\<forall>c\<in>set s. \<not> is_space c \<and> c \<noteq> CHR '';'' \<and> c \<noteq> CHR '':'' \<and> to_upper c = c)"

lemma callsign_text_unify: "callsign_text (unifyCallsign s h)"
proof -
  have "\<not> is_space c \<and> c \<noteq> CHR '';'' \<and> c \<noteq> CHR '':'' \<and> to_upper c = c" if "c \<in> set (unifyCallsign s h)" for c
  proof -
    have n: "\<not> not_atc_char c" "to_upper c = c" using unify_chars [OF that] by auto
    have "not_atc_char CHR '';''" "not_atc_char CHR '':''"
      by (simp_all add: not_atc_char_def is_letter_or_number_def is_digit_def is_upper_def is_lower_def)
    then show ?thesis using n callsign_char_not_space [OF n(1)] by auto
  qed
  then show ?thesis by (simp add: callsign_text_def)
qed

lemma q_indexOf_append: "c \<notin> set xs \<Longrightarrow> q_indexOf (xs @ c # ys) c = int (length xs)"
proof -
  assume "c \<notin> set xs"
  then have "takeWhile (\<lambda>x. x \<noteq> c) (xs @ c # ys) = xs" by (induction xs) auto
  then show ?thesis by (simp add: q_indexOf_def)
qed

lemma callsign_text_blank: "callsign_text s \<Longrightarrow> CHR '' '' \<notin> set s"
proof
  assume "callsign_text s" "CHR '' '' \<in> set s"
  then have "\<not> is_space CHR '' ''" unfolding callsign_text_def by blast
  then show False by (simp add: is_space_def)
qed

text \<open>The prefix cannot be found once more in what follows it: it holds a colon, which is neither in a
  callsign nor a blank.\<close>

lemma q_remove_missing: "p \<noteq> [] \<Longrightarrow> x \<in> set p \<Longrightarrow> x \<notin> set s \<Longrightarrow> q_remove p s = s"
proof (induction p s rule: q_remove.induct)
  case (2 p c s)
  have "\<not> q_startsWith (c # s) p"
  proof
    assume "q_startsWith (c # s) p"
    then have "set p \<subseteq> set (c # s)"
      using set_take_subset [of "length p" "c # s"] by (simp add: q_startsWith_def)
    then show False using "2.prems" by blast
  qed
  then show ?case using 2 by simp
qed simp

lemma relay_prefix_removed:
  assumes "callsign_text s" "callsign_text r" "s \<noteq> []" "r \<noteq> []"
  shows "q_trimmed (q_remove swiftRelayMessage (swiftRelayMessage @ s @ '' '' @ r)) = s @ '' '' @ r"
proof -
  have "q_remove swiftRelayMessage (swiftRelayMessage @ s @ '' '' @ r) = q_remove swiftRelayMessage (s @ '' '' @ r)"
    by (simp add: swiftRelayMessage_def q_startsWith_def)
  also have "\<dots> = s @ '' '' @ r"
    using assms(1,2) by (intro q_remove_missing [of _ "CHR '':''"]) (auto simp: swiftRelayMessage_def callsign_text_def)
  finally have "q_remove swiftRelayMessage (swiftRelayMessage @ s @ '' '' @ r) = s @ '' '' @ r" .
  moreover have "q_trimmed (s @ '' '' @ r) = s @ '' '' @ r"
  proof (rule q_trimmed_id)
    have "hd s \<in> set s" "last r \<in> set r" using assms(3,4) by auto
    then show "s @ '' '' @ r = [] \<or> \<not> is_space (hd (s @ '' '' @ r)) \<and> \<not> is_space (last (s @ '' '' @ r))"
      using assms by (auto simp: callsign_text_def)
  qed
  ultimately show ?thesis by simp
qed

text \<open>A message passed on to the partner can be turned back: the sender, the recipient and the text are
  those of the original, even when the text itself holds blanks and semicolons.\<close>

lemma relayed_message_restored:
  assumes "m_senderCallsign m = CCallsign s NoHint" "m_recipientCallsign m = CCallsign r NoHint"
    and "unifyCallsign s NoHint \<noteq> []" "unifyCallsign r NoHint \<noteq> []"
    and "m_message m \<noteq> []" "\<not> q_startsWith (m_message m) swiftRelayMessage"
  shows "\<exists>m'. relayedMessageToPrivateMessage (makeRelayedMessage partner m) = (True, m')
    \<and> m_message m' = m_message m
    \<and> callsign_eq (m_senderCallsign m') (m_senderCallsign m)
    \<and> callsign_eq (m_recipientCallsign m') (m_recipientCallsign m)"
proof -
  let ?S = "unifyCallsign s NoHint" and ?R = "unifyCallsign r NoHint"
  have S: "callsign_text ?S" and R: "callsign_text ?R" using callsign_text_unify by blast+
  define m1 where "m1 = makeRelayedMessage partner m"
  define p where "p = swiftRelayMessage @ ?S @ '' '' @ ?R"
  have m1: "m_message m1 = p @ CHR '';'' # m_message m" "isRelayedMessage m1"
    using assms(1,2,6) by (simp_all add: m1_def p_def makeRelayedMessage_def asString_def CCallsign_def isRelayedMessage_def)
  have "CHR '';'' \<notin> set p"
    using S R by (auto simp: p_def swiftRelayMessage_def callsign_text_def)
  then have i: "q_indexOf (m_message m1) CHR '';'' = int (length p)"
    unfolding m1 by (rule q_indexOf_append)
  have "length swiftRelayMessage \<le> length p" by (simp add: p_def)
  moreover have "q_trimmed (q_remove swiftRelayMessage p) = ?S @ '' '' @ ?R"
    unfolding p_def using relay_prefix_removed [OF S R assms(3,4)] .
  moreover have "q_split CHR '' '' (?S @ '' '' @ ?R) = [?S, ?R]"
    using q_split_append_sep [OF callsign_text_blank [OF S]] q_split_no_sep [OF callsign_text_blank [OF R]] by simp
  ultimately have "relayedMessageToPrivateMessage m1 = (True, m1\<lparr>m_senderCallsign := CCallsign ?S NoHint,
      m_recipientCallsign := CCallsign ?R NoHint, m_message := m_message m\<rparr>)"
    unfolding relayedMessageToPrivateMessage_def Let_def i using m1(2) assms(5)
    by (simp add: m1(1))
  then show ?thesis
    using assms(1,2) by (simp add: m1_def callsign_eq_def CCallsign_def unify_idempotent q_eq_nocase_def)
qed

lemma relayed_message_restored_witness:
  "\<exists>m'. relayedMessageToPrivateMessage (makeRelayedMessage (CCallsign ''DLH1BB'' Aircraft)
      (CTextMessage_private ''good day; contact 121.9'' (CCallsign ''EDDF_TWR'' NoHint) (CCallsign ''DLH1AB'' NoHint))) = (True, m')
    \<and> m_message m' = ''good day; contact 121.9''
    \<and> callsign_eq (m_senderCallsign m') (CCallsign ''EDDF_TWR'' NoHint)
    \<and> callsign_eq (m_recipientCallsign m') (CCallsign ''DLH1AB'' NoHint)"
proof -
  let ?m = "CTextMessage_private ''good day; contact 121.9'' (CCallsign ''EDDF_TWR'' NoHint) (CCallsign ''DLH1AB'' NoHint)"
  have m: "m_message ?m = ''good day; contact 121.9''" "m_senderCallsign ?m = CCallsign ''EDDF_TWR'' NoHint"
      "m_recipientCallsign ?m = CCallsign ''DLH1AB'' NoHint"
    by (simp_all add: CTextMessage_private_def CTextMessage_default_def setMessage_def q_simplified_def is_space_def q_trimmed_def)
  have "unifyCallsign ''EDDF_TWR'' NoHint \<noteq> []" "unifyCallsign ''DLH1AB'' NoHint \<noteq> []"
    by code_simp+
  then show ?thesis
    using relayed_message_restored [OF m(2,3), of "CCallsign ''DLH1BB'' Aircraft"]
    by (simp add: m swiftRelayMessage_def q_startsWith_def)
qed

subsection \<open>Conversations\<close>

text \<open>Two messages are of one conversation when the second could be appended to the first, were it not
  empty. No message of a list is empty, and no two are of one conversation.\<close>

definition same_stream :: "CTextMessage \<Rightarrow> CTextMessage \<Rightarrow> bool" where
  "same_stream a b \<longleftrightarrow> callsign_eq (m_senderCallsign a) (m_senderCallsign b) \<and>
     (if isRadioMessage a \<and> isRadioMessage b then m_frequency a = m_frequency b
      else isPrivateMessage a \<and> isPrivateMessage b
        \<and> callsign_eq (m_recipientCallsign a) (m_recipientCallsign b))"

definition streams_apart :: "CTextMessage list \<Rightarrow> bool" where
  "streams_apart tms \<longleftrightarrow> (\<forall>i<length tms. \<not> message_isEmpty (tms ! i)
     \<and> (\<forall>j<length tms. i \<noteq> j \<longrightarrow> \<not> canBeAppended (tms ! i) (tms ! j)))"

lemma canBeAppended_stream: "canBeAppended a b \<longleftrightarrow> \<not> message_isEmpty b \<and> same_stream a b"
  by (auto simp: canBeAppended_def same_stream_def)

lemma same_stream_sym: "same_stream a b \<longleftrightarrow> same_stream b a"
  by (auto simp: same_stream_def callsign_eq_def q_eq_nocase_def)

lemma streams_apart_iff: "streams_apart tms \<longleftrightarrow> (\<forall>tm\<in>set tms. \<not> message_isEmpty tm)
    \<and> (\<forall>i<length tms. \<forall>j<length tms. i \<noteq> j \<longrightarrow> \<not> same_stream (tms ! i) (tms ! j))"
  by (auto simp: streams_apart_def canBeAppended_stream all_set_conv_all_nth)

lemma append_first_None: "append_first message tms = None \<longleftrightarrow> (\<forall>tm\<in>set tms. \<not> canBeAppended tm message)"
  by (induction tms) (auto simp: appendIfPossible_def canBeAppended_def split: prod.splits bool.splits)

lemma append_first_Some:
  "append_first message tms = Some tms' \<Longrightarrow> \<exists>as tm bs. tms = as @ tm # bs \<and> canBeAppended tm message
    \<and> tms' = as @ tm\<lparr>m_message := m_message tm @ '' '' @ m_message message\<rparr> # bs"
proof (induction tms arbitrary: tms')
  case (Cons tm tms)
  show ?case
  proof (cases "canBeAppended tm message")
    case True
    then have "\<not> message_isEmpty message" by (simp add: canBeAppended_stream)
    then have "tms' = tm\<lparr>m_message := m_message tm @ '' '' @ m_message message\<rparr> # tms"
      using Cons.prems True by (simp add: appendIfPossible_def)
    then show ?thesis using True by (intro exI [of _ "[]"]) auto
  next
    case False
    then obtain us where "append_first message tms = Some us" "tms' = tm # us"
      using Cons.prems by (auto simp: appendIfPossible_def split: if_splits)
    then show ?thesis using Cons.IH [of us] by (metis append_Cons)
  qed
qed simp

lemma streams_apart_snoc:
  assumes "streams_apart tms" "\<not> message_isEmpty m" "\<forall>tm\<in>set tms. \<not> canBeAppended tm m"
  shows "streams_apart (tms @ [m])"
proof -
  have "\<not> same_stream (tms ! i) m \<and> \<not> same_stream m (tms ! i)" if "i < length tms" for i
    using assms(2,3) that nth_mem [OF that] same_stream_sym by (auto simp: canBeAppended_stream)
  then show ?thesis
    using assms(1,2) unfolding streams_apart_iff by (auto simp: nth_append less_Suc_eq)
qed

text \<open>An entry may be exchanged for one of the same conversation that is not empty.\<close>

lemma streams_apart_replace:
  assumes "streams_apart (as @ tm # bs)" "\<And>x. same_stream tm' x = same_stream tm x" "\<not> message_isEmpty tm'"
  shows "streams_apart (as @ tm' # bs)"
proof -
  have n: "(as @ tm' # bs) ! i = (if i = length as then tm' else (as @ tm # bs) ! i)" for i
    by (simp add: nth_append nth_Cons')
  have "same_stream x tm' = same_stream x tm" for x
    using assms(2) [of x] same_stream_sym by blast
  then have "same_stream ((as @ tm' # bs) ! i) ((as @ tm' # bs) ! j) = same_stream ((as @ tm # bs) ! i) ((as @ tm # bs) ! j)" for i j
    unfolding n using assms(2) by simp
  then show ?thesis
    using assms(1,3) unfolding streams_apart_iff by simp
qed

text \<open>Joining messages keeps one entry per conversation: no two entries of the list could be appended to
  one another, and a new message makes the list longer only when no entry could take it.\<close>

lemma consolidation_keeps_streams_apart:
  assumes "streams_apart tms"
  shows "streams_apart (addConsolidatedTextMessage message tms)
    \<and> length (addConsolidatedTextMessage message tms) =
        length tms + (if message_isEmpty message \<or> (\<exists>tm\<in>set tms. canBeAppended tm message) then 0 else 1)"
proof (cases "append_first message tms")
  case None
  then have "\<forall>tm\<in>set tms. \<not> canBeAppended tm message" by (simp add: append_first_None)
  then show ?thesis
    using assms None by (auto simp: addConsolidatedTextMessage_def streams_apart_snoc)
next
  case (Some tms')
  then obtain as tm bs where s: "tms = as @ tm # bs" "tms' = as @ tm\<lparr>m_message := m_message tm @ '' '' @ m_message message\<rparr> # bs"
      "canBeAppended tm message"
    by (blast dest: append_first_Some)
  have "streams_apart tms'"
    using assms unfolding s by (rule streams_apart_replace) (simp_all add: same_stream_def isRadioMessage_def isPrivateMessage_def message_isEmpty_def)
  then show ?thesis using s Some assms by (auto simp: addConsolidatedTextMessage_def)
qed

lemma consolidation_keeps_streams_apart_witness:
  "let a = CTextMessage_default\<lparr>m_message := ''good day'', m_senderCallsign := CCallsign ''EDDF_TWR'' Atc, m_frequency := Some 119900\<rparr>;
       b = a\<lparr>m_message := ''wind calm''\<rparr>
    in streams_apart (addConsolidatedTextMessage b [a]) \<and> length (addConsolidatedTextMessage b [a]) =
        length [a] + (if message_isEmpty b \<or> (\<exists>tm\<in>set [a]. canBeAppended tm b) then 0 else 1)"
  unfolding Let_def by (rule consolidation_keeps_streams_apart) (simp add: streams_apart_def message_isEmpty_def)

text \<open>Rounding to the 25 kHz spacing gives a multiple of it at most half a spacing away, keeps a multiple,
  and gives back a channel whose last 5 kHz were dropped.\<close>

lemma dropped_5kHz_restored:
  assumes "0 \<le> f"
  shows "roundToChannelSpacing25 f mod 25 = 0 \<and> 2 * \<bar>roundToChannelSpacing25 f - f\<bar> \<le> 25
    \<and> roundToChannelSpacing25 (roundToChannelSpacing25 f) = roundToChannelSpacing25 f
    \<and> roundToChannelSpacing25 (25 * f - 5) = 25 * f"
proof (intro conjI)
  show r: "2 * \<bar>roundToChannelSpacing25 f - f\<bar> \<le> 25" by (rule round25_near [OF assms])
  have m: "roundToChannelSpacing25 f mod 25 = 0" by (rule round25_mod)
  then show "roundToChannelSpacing25 f mod 25 = 0" .
  then obtain k where k: "roundToChannelSpacing25 f = 25 * k" by (auto simp: mod_eq_0_iff_dvd)
  have "0 \<le> k" using r assms unfolding k by presburger
  then show "roundToChannelSpacing25 (roundToChannelSpacing25 f) = roundToChannelSpacing25 f"
    unfolding k by (rule round25_fixed)
  show "roundToChannelSpacing25 (25 * f - 5) = 25 * f" by (rule round25_restores [OF assms]) simp_all
qed

lemma dropped_5kHz_restored_witness:
  "roundToChannelSpacing25 4793 mod 25 = 0 \<and> 2 * \<bar>roundToChannelSpacing25 4793 - 4793\<bar> \<le> 25
    \<and> roundToChannelSpacing25 (roundToChannelSpacing25 4793) = roundToChannelSpacing25 4793
    \<and> roundToChannelSpacing25 (25 * 4793 - 5) = 25 * 4793"
  by (rule dropped_5kHz_restored) simp

text \<open>Which codes of four capitals pass the SELCAL check: two rising pairs of the sixteen letters in which
  three of the four letters across the pairs are compared. The first and the last are not, so that
  a code that uses a letter twice passes.\<close>

lemma selcal_letter_may_repeat:
  "(\<forall>a b c d. q_toUpper [a, b, c, d] = [a, b, c, d] \<longrightarrow>
     isValidCode [a, b, c, d] = ({a, b, c, d} \<subseteq> set validCharacters
       \<and> q_indexOf validCharacters a < q_indexOf validCharacters b
       \<and> q_indexOf validCharacters c < q_indexOf validCharacters d \<and> a \<noteq> c \<and> b \<noteq> c \<and> b \<noteq> d))
   \<and> isValidCode ''BCAB''"
proof (intro conjI allI impI)
  fix a b c d assume "q_toUpper [a, b, c, d] = [a, b, c, d]"
  then show "isValidCode [a, b, c, d] = ({a, b, c, d} \<subseteq> set validCharacters
       \<and> q_indexOf validCharacters a < q_indexOf validCharacters b
       \<and> q_indexOf validCharacters c < q_indexOf validCharacters d \<and> a \<noteq> c \<and> b \<noteq> c \<and> b \<noteq> d)"
    by (rule isValidCode_upper)
next
  show "isValidCode ''BCAB''" by code_simp
qed

lemma selcal_letter_may_repeat_witness:
  "q_toUpper ''ABCD'' = ''ABCD'' \<and> isValidCode ''ABCD''"
proof -
  have "q_toUpper ''ABCD'' = ''ABCD''" by code_simp
  moreover from this have "isValidCode ''ABCD'' = ({CHR ''A'', CHR ''B'', CHR ''C'', CHR ''D''} \<subseteq> set validCharacters
       \<and> q_indexOf validCharacters CHR ''A'' < q_indexOf validCharacters CHR ''B''
       \<and> q_indexOf validCharacters CHR ''C'' < q_indexOf validCharacters CHR ''D''
       \<and> CHR ''A'' \<noteq> CHR ''C'' \<and> CHR ''B'' \<noteq> CHR ''C'' \<and> CHR ''B'' \<noteq> CHR ''D'')"
    using selcal_letter_may_repeat by blast
  ultimately show ?thesis by (simp add: validCharacters_def q_indexOf_def)
qed

lemma valid_upper: "c \<in> set validCharacters \<Longrightarrow> to_upper c = c"
  by (auto simp: validCharacters_def to_upper_def Let_def)

lemma isValidCode_letters: "isValidCode code \<Longrightarrow> length code = 4 \<and> set (q_toUpper code) \<subseteq> set validCharacters"
proof -
  assume v: "isValidCode code"
  then obtain a b c d where "code = [a, b, c, d]"
    by (auto simp: isValidCode_def length_Suc_conv numeral_eq_Suc split: if_splits)
  then show ?thesis using v
    by (auto simp: isValidCode_def Let_def q_toUpper_def split: if_splits)
qed

lemma audio_frequency_fault: "c \<notin> set validCharacters \<Longrightarrow> audioFrequencyEquivalent c = Inl AssertFailed"
  by (simp add: audioFrequencyEquivalent_def q_indexOf_def)

lemma audio_frequencies_fault:
  "\<exists>c\<in>set s. c \<notin> set validCharacters \<Longrightarrow> audio_frequencies s = Inl AssertFailed"
proof (induction s)
  case (Cons c s)
  show ?case
  proof (cases "c \<in> set validCharacters")
    case True
    then obtain f where "audioFrequencyEquivalent c = Inr f" using audio_frequency_total by blast
    then show ?thesis using Cons True by auto
  qed (simp add: audio_frequency_fault)
qed simp

text \<open>A code in capitals that passes the check has four tones. In lower case it passes the check as well,
  and is kept by the constructor, but asking for its tones fails an assertion, because the letters are
  looked up as they are.\<close>

lemma selcal_tones:
  assumes "isValidCode code"
  shows "unifyCode code = code
    \<and> (if q_toUpper code = code then \<exists>fs. getFrequencies code = Inr fs \<and> length fs = 4
       else getFrequencies code = Inl AssertFailed)"
proof
  have l: "length code = 4" and v: "set (q_toUpper code) \<subseteq> set validCharacters"
    using isValidCode_letters [OF assms] by auto
  have "\<forall>c\<in>set code. isValidCharacter c"
    using v by (auto simp: q_toUpper_def isValidCharacter_def)
  then have "filter isValidCharacter code = code" by simp
  then show "unifyCode code = code" using assms by (simp add: unifyCode_def)
  show "if q_toUpper code = code then \<exists>fs. getFrequencies code = Inr fs \<and> length fs = 4
      else getFrequencies code = Inl AssertFailed"
  proof (cases "q_toUpper code = code")
    case True
    then show ?thesis using audio_frequencies_total [of code] v l assms by (simp add: getFrequencies_def)
  next
    case False
    then have "\<exists>c\<in>set code. to_upper c \<noteq> c" by (auto simp: q_toUpper_def list_eq_iff_nth_eq)
    then have "\<exists>c\<in>set code. c \<notin> set validCharacters" using valid_upper by blast
    then show ?thesis using False assms by (simp add: getFrequencies_def audio_frequencies_fault)
  qed
qed

lemma selcal_tones_witness:
  "unifyCode ''ABcd'' = ''ABcd'' \<and> getFrequencies ''ABcd'' = Inl AssertFailed"
proof -
  have "isValidCode ''ABcd''" "q_toUpper ''ABcd'' \<noteq> ''ABcd''" by code_simp+
  then show ?thesis using selcal_tones [of "''ABcd''"] by simp
qed

end
