(* ===== verification/TimedLists.thy ===== *)
theory TimedLists
  imports Doubles
begin

section \<open>Objects with a time stamp, and lists of them\<close>

text \<open>
  \<open>blackmisc/timestampbased.h\<close>, \<open>.cpp\<close> and \<open>blackmisc/timestampobjectlist.h\<close>: an object with a time
  stamp in milliseconds (negative when it has none), one with an offset besides, and the operations
  of the lists of such objects in which the program keeps situations and parts. A class that inherits
  from these extends their records. Where the code returns a default-constructed object for
  "there is none", the model returns \<open>None\<close>; a \<open>QDateTime\<close> is its milliseconds, -1 when invalid.
  \<open>std::sort\<close> leaves the order of equal elements open; the model's sorting is stable.
\<close>

subsection \<open>Time stamps\<close>

record timestamp_based =
  m_timestampMSecsSinceEpoch :: int

record timestamp_with_offset = timestamp_based +
  m_timeOffsetMs :: int

definition getTimeDifferenceMs :: "'a timestamp_based_scheme \<Rightarrow> int \<Rightarrow> int" where
  "getTimeDifferenceMs obj compareTime = c_int64 (compareTime - m_timestampMSecsSinceEpoch obj)"

definition getAbsTimeDifferenceMs :: "'a timestamp_based_scheme \<Rightarrow> 'b timestamp_based_scheme \<Rightarrow> int" where
  "getAbsTimeDifferenceMs obj compare_obj = \<bar>getTimeDifferenceMs obj (m_timestampMSecsSinceEpoch compare_obj)\<bar>"

definition hasValidTimestamp :: "'a timestamp_based_scheme \<Rightarrow> bool" where
  "hasValidTimestamp obj \<longleftrightarrow> m_timestampMSecsSinceEpoch obj \<ge> 0"

definition getUtcTimestamp :: "'a timestamp_based_scheme \<Rightarrow> int" where
  "getUtcTimestamp obj = (if m_timestampMSecsSinceEpoch obj < 0 then - 1 else m_timestampMSecsSinceEpoch obj)"

definition setUtcTimestamp :: "int \<Rightarrow> 'a timestamp_based_scheme \<Rightarrow> 'a timestamp_based_scheme" where
  "setUtcTimestamp timestamp obj = obj\<lparr>m_timestampMSecsSinceEpoch := if timestamp < 0 then - 1 else timestamp\<rparr>"

definition setTimestampToNull :: "'a timestamp_based_scheme \<Rightarrow> 'a timestamp_based_scheme" where
  "setTimestampToNull obj = obj\<lparr>m_timestampMSecsSinceEpoch := - 1\<rparr>"

definition isNewerThan :: "'a timestamp_based_scheme \<Rightarrow> int \<Rightarrow> bool" where
  "isNewerThan obj mSecsSinceEpoch \<longleftrightarrow> m_timestampMSecsSinceEpoch obj > mSecsSinceEpoch"

definition isOlderThan :: "'a timestamp_based_scheme \<Rightarrow> int \<Rightarrow> bool" where
  "isOlderThan obj mSecsSinceEpoch \<longleftrightarrow> m_timestampMSecsSinceEpoch obj < mSecsSinceEpoch"

definition isOlderThanNowMinusOffset :: "int \<Rightarrow> int \<Rightarrow> 'a timestamp_based_scheme \<Rightarrow> bool" where
  "isOlderThanNowMinusOffset t offsetMs obj \<longleftrightarrow> offsetMs > 0 \<and> m_timestampMSecsSinceEpoch obj < c_int64 (t - offsetMs)"

definition isSame :: "'a timestamp_based_scheme \<Rightarrow> 'b timestamp_based_scheme \<Rightarrow> bool" where
  "isSame obj other \<longleftrightarrow> m_timestampMSecsSinceEpoch obj = m_timestampMSecsSinceEpoch other"

definition msecsTo :: "'a timestamp_based_scheme \<Rightarrow> 'b timestamp_based_scheme \<Rightarrow> int" where
  "msecsTo obj other = c_int64 (m_timestampMSecsSinceEpoch other - m_timestampMSecsSinceEpoch obj)"

definition absMsecsTo :: "'a timestamp_based_scheme \<Rightarrow> 'b timestamp_based_scheme \<Rightarrow> int" where
  "absMsecsTo obj other = (let dt = msecsTo obj other in if dt > 0 then dt else c_int64 (- dt))"

definition msecsToNow :: "int \<Rightarrow> 'a timestamp_based_scheme \<Rightarrow> int" where
  "msecsToNow t obj = (if m_timestampMSecsSinceEpoch obj < 0 then t else c_int64 (t - m_timestampMSecsSinceEpoch obj))"

definition addMsecs :: "int \<Rightarrow> 'a timestamp_based_scheme \<Rightarrow> 'a timestamp_based_scheme" where
  "addMsecs ms obj = obj\<lparr>m_timestampMSecsSinceEpoch := c_int64 (m_timestampMSecsSinceEpoch obj + ms)\<rparr>"

definition updateMissingTimestamp :: "'b timestamp_based_scheme \<Rightarrow> 'a timestamp_based_scheme \<Rightarrow> 'a timestamp_based_scheme" where
  "updateMissingTimestamp other obj =
     (if m_timestampMSecsSinceEpoch obj < 0 then obj\<lparr>m_timestampMSecsSinceEpoch := m_timestampMSecsSinceEpoch other\<rparr> else obj)"

definition getAdjustedMSecsSinceEpoch :: "'a timestamp_with_offset_scheme \<Rightarrow> int" where
  "getAdjustedMSecsSinceEpoch obj = c_int64 (m_timestampMSecsSinceEpoch obj + m_timeOffsetMs obj)"

definition setAdjustedMSecsSinceEpoch :: "int \<Rightarrow> 'a timestamp_with_offset_scheme \<Rightarrow> 'a timestamp_with_offset_scheme" where
  "setAdjustedMSecsSinceEpoch adjustedTimeMs obj =
     obj\<lparr>m_timestampMSecsSinceEpoch := c_int64 (adjustedTimeMs - m_timeOffsetMs obj)\<rparr>"

definition getAdjustedTimeDifferenceMs :: "'a timestamp_with_offset_scheme \<Rightarrow> int \<Rightarrow> int" where
  "getAdjustedTimeDifferenceMs obj compareTime = c_int64 (getAdjustedMSecsSinceEpoch obj - compareTime)"

definition isNewerThanAdjusted :: "'a timestamp_with_offset_scheme \<Rightarrow> int \<Rightarrow> bool" where
  "isNewerThanAdjusted obj mSecsSinceEpoch \<longleftrightarrow> getAdjustedMSecsSinceEpoch obj > mSecsSinceEpoch"

definition isOlderThanAdjusted :: "'a timestamp_with_offset_scheme \<Rightarrow> int \<Rightarrow> bool" where
  "isOlderThanAdjusted obj mSecsSinceEpoch \<longleftrightarrow> getAdjustedMSecsSinceEpoch obj < mSecsSinceEpoch"

definition addMsecsToOffsetTime :: "int \<Rightarrow> 'a timestamp_with_offset_scheme \<Rightarrow> 'a timestamp_with_offset_scheme" where
  "addMsecsToOffsetTime msToAdd obj = obj\<lparr>m_timeOffsetMs := c_int64 (m_timeOffsetMs obj + msToAdd)\<rparr>"

definition getTimeOffsetWithUnit :: "'a timestamp_with_offset_scheme \<Rightarrow> string" where
  "getTimeOffsetWithUnit obj = q_number (m_timeOffsetMs obj) @ ''ms''"

subsection \<open>Finding\<close>

text \<open>\<open>std::min_element\<close> and \<open>std::max_element\<close>: the first of several.\<close>

fun min_from :: "('a \<Rightarrow> int) \<Rightarrow> 'a \<Rightarrow> 'a list \<Rightarrow> 'a" where
  "min_from f best [] = best"
| "min_from f best (x # xs) = min_from f (if f x < f best then x else best) xs"

definition min_element :: "('a \<Rightarrow> int) \<Rightarrow> 'a list \<Rightarrow> 'a option" where
  "min_element f xs = (case xs of [] \<Rightarrow> None | x # xs \<Rightarrow> Some (min_from f x xs))"

fun max_from :: "('a \<Rightarrow> int) \<Rightarrow> 'a \<Rightarrow> 'a list \<Rightarrow> 'a" where
  "max_from f best [] = best"
| "max_from f best (x # xs) = max_from f (if f best < f x then x else best) xs"

definition max_element :: "('a \<Rightarrow> int) \<Rightarrow> 'a list \<Rightarrow> 'a option" where
  "max_element f xs = (case xs of [] \<Rightarrow> None | x # xs \<Rightarrow> Some (max_from f x xs))"

definition latestObject :: "'a timestamp_based_scheme list \<Rightarrow> 'a timestamp_based_scheme option" where
  "latestObject c = max_element m_timestampMSecsSinceEpoch c"

definition oldestObject :: "'a timestamp_based_scheme list \<Rightarrow> 'a timestamp_based_scheme option" where
  "oldestObject c = min_element m_timestampMSecsSinceEpoch c"

definition latestTimestampMsecsSinceEpoch :: "'a timestamp_based_scheme list \<Rightarrow> int" where
  "latestTimestampMsecsSinceEpoch c = (case latestObject c of None \<Rightarrow> - 1 | Some obj \<Rightarrow> getUtcTimestamp obj)"

definition oldestTimestampMsecsSinceEpoch :: "'a timestamp_based_scheme list \<Rightarrow> int" where
  "oldestTimestampMsecsSinceEpoch c = (case oldestObject c of None \<Rightarrow> - 1 | Some obj \<Rightarrow> getUtcTimestamp obj)"

definition findBefore :: "int \<Rightarrow> 'a timestamp_based_scheme list \<Rightarrow> 'a timestamp_based_scheme list" where
  "findBefore msSinceEpoch c = filter (\<lambda>obj. isOlderThan obj msSinceEpoch) c"

definition findObjectBeforeOrDefault :: "int \<Rightarrow> 'a timestamp_based_scheme list \<Rightarrow> 'a timestamp_based_scheme option" where
  "findObjectBeforeOrDefault msSinceEpoch c =
     (let before = findBefore msSinceEpoch c in if before = [] then None else latestObject before)"

definition findAfter :: "int \<Rightarrow> 'a timestamp_based_scheme list \<Rightarrow> 'a timestamp_based_scheme list" where
  "findAfter msSinceEpoch c = filter (\<lambda>obj. isNewerThan obj msSinceEpoch) c"

definition findObjectAfterOrDefault :: "int \<Rightarrow> 'a timestamp_based_scheme list \<Rightarrow> 'a timestamp_based_scheme option" where
  "findObjectAfterOrDefault msSinceEpoch c =
     (let after = findAfter msSinceEpoch c in if after = [] then None else oldestObject after)"

definition findBeforeNowMinusOffset :: "int \<Rightarrow> int \<Rightarrow> 'a timestamp_based_scheme list \<Rightarrow> 'a timestamp_based_scheme list" where
  "findBeforeNowMinusOffset t msOffset c = findBefore (c_int64 (t - msOffset)) c"

definition findAfterNowMinusOffset :: "int \<Rightarrow> int \<Rightarrow> 'a timestamp_based_scheme list \<Rightarrow> 'a timestamp_based_scheme list" where
  "findAfterNowMinusOffset t msOffset c = findAfter (c_int64 (t - msOffset)) c"

definition findInvalidTimestamps :: "'a timestamp_based_scheme list \<Rightarrow> 'a timestamp_based_scheme list" where
  "findInvalidTimestamps c = filter (\<lambda>obj. \<not> hasValidTimestamp obj) c"

definition hasInvalidTimestamps :: "'a timestamp_based_scheme list \<Rightarrow> bool" where
  "hasInvalidTimestamps c \<longleftrightarrow> list_ex (\<lambda>obj. hasValidTimestamp obj = False) c"

definition findClosestTimeDistance :: "int \<Rightarrow> 'a timestamp_based_scheme list \<Rightarrow> 'a timestamp_based_scheme option" where
  "findClosestTimeDistance msSinceEpoch c = min_element (\<lambda>a. \<bar>getTimeDifferenceMs a msSinceEpoch\<bar>) c"

text \<open>The list without the older ones, and how many were removed.\<close>

definition removeBefore :: "int \<Rightarrow> 'a timestamp_based_scheme list \<Rightarrow> int \<times> 'a timestamp_based_scheme list" where
  "removeBefore msSinceEpoch c =
     (let rest = filter (\<lambda>obj. \<not> isOlderThan obj msSinceEpoch) c in (int (length c) - int (length rest), rest))"

definition removeOlderThanNowMinusOffset :: "int \<Rightarrow> int \<Rightarrow> 'a timestamp_based_scheme list \<Rightarrow> int \<times> 'a timestamp_based_scheme list" where
  "removeOlderThanNowMinusOffset t offsetMs c = removeBefore (c_int64 (t - offsetMs)) c"

definition findBeforeAndRemove ::
    "int \<Rightarrow> 'a timestamp_based_scheme list \<Rightarrow> 'a timestamp_based_scheme list \<times> 'a timestamp_based_scheme list" where
  "findBeforeAndRemove msSinceEpoch c = (let result = findBefore msSinceEpoch c in (result, snd (removeBefore msSinceEpoch c)))"

subsection \<open>Setting times\<close>

definition setUtcTime :: "int \<Rightarrow> 'a timestamp_based_scheme list \<Rightarrow> 'a timestamp_based_scheme list" where
  "setUtcTime msSinceEpoch c = map (\<lambda>tsObj. tsObj\<lparr>m_timestampMSecsSinceEpoch := msSinceEpoch\<rparr>) c"

definition setInvalidTimestampsToCurrentUtcTime :: "int \<Rightarrow> 'a timestamp_based_scheme list \<Rightarrow> 'a timestamp_based_scheme list" where
  "setInvalidTimestampsToCurrentUtcTime t c =
     map (\<lambda>tsObj. if hasValidTimestamp tsObj then tsObj else tsObj\<lparr>m_timestampMSecsSinceEpoch := t\<rparr>) c"

definition addMsecs_all :: "int \<Rightarrow> 'a timestamp_based_scheme list \<Rightarrow> 'a timestamp_based_scheme list" where
  "addMsecs_all msToAdd c = (if msToAdd = 0 then c else map (addMsecs msToAdd) c)"

definition addMsecsToOffset :: "int \<Rightarrow> 'a timestamp_with_offset_scheme list \<Rightarrow> 'a timestamp_with_offset_scheme list" where
  "addMsecsToOffset msToAdd c = map (addMsecsToOffsetTime msToAdd) c"

fun timestamps_from :: "int \<Rightarrow> int \<Rightarrow> 'a timestamp_based_scheme list \<Rightarrow> 'a timestamp_based_scheme list" where
  "timestamps_from currentMs deltaTimeMs [] = []"
| "timestamps_from currentMs deltaTimeMs (obj # objs) =
     obj\<lparr>m_timestampMSecsSinceEpoch := currentMs\<rparr> # timestamps_from (c_int64 (currentMs + deltaTimeMs)) deltaTimeMs objs"

definition setNewTimestampStartingLast :: "int \<Rightarrow> int \<Rightarrow> 'a timestamp_based_scheme list \<Rightarrow> 'a timestamp_based_scheme list" where
  "setNewTimestampStartingLast startTimeStampMs deltaTimeMs c = rev (timestamps_from startTimeStampMs deltaTimeMs (rev c))"

definition push_backOverrideTimestamp :: "'a timestamp_based_scheme \<Rightarrow> int \<Rightarrow> 'a timestamp_based_scheme list \<Rightarrow> 'a timestamp_based_scheme list" where
  "push_backOverrideTimestamp newObject newTsMsSinceEpoch c = c @ [newObject\<lparr>m_timestampMSecsSinceEpoch := newTsMsSinceEpoch\<rparr>]"

definition push_backIncreaseTimestamp :: "'a timestamp_based_scheme \<Rightarrow> 'a timestamp_based_scheme list \<Rightarrow> 'a timestamp_based_scheme list" where
  "push_backIncreaseTimestamp newObject c =
     (if c = [] then c @ [newObject]
      else let newMs = m_timestampMSecsSinceEpoch newObject; oldMs = m_timestampMSecsSinceEpoch (last c) in
        if newMs > oldMs then c @ [newObject]
        else push_backOverrideTimestamp newObject (c_int64 (oldMs + 1)) c)"

definition replaceIfSameTimestamp :: "'a timestamp_based_scheme \<Rightarrow> 'a timestamp_based_scheme list \<Rightarrow> int \<times> 'a timestamp_based_scheme list" where
  "replaceIfSameTimestamp newObject c =
     (int (length (filter (\<lambda>obj. isSame obj newObject) c)), map (\<lambda>obj. if isSame obj newObject then newObject else obj) c)"

subsection \<open>Order\<close>

definition sortOldestFirst :: "'a timestamp_based_scheme list \<Rightarrow> 'a timestamp_based_scheme list" where
  "sortOldestFirst c = sort_key m_timestampMSecsSinceEpoch c"

definition sortLatestFirst :: "'a timestamp_based_scheme list \<Rightarrow> 'a timestamp_based_scheme list" where
  "sortLatestFirst c = rev (sortOldestFirst c)"

definition sortAdjustedOldestFirst :: "'a timestamp_with_offset_scheme list \<Rightarrow> 'a timestamp_with_offset_scheme list" where
  "sortAdjustedOldestFirst c = sort_key getAdjustedMSecsSinceEpoch c"

definition sortAdjustedLatestFirst :: "'a timestamp_with_offset_scheme list \<Rightarrow> 'a timestamp_with_offset_scheme list" where
  "sortAdjustedLatestFirst c = rev (sortAdjustedOldestFirst c)"

definition getLatestAdjustedTwoObjects :: "bool \<Rightarrow> 'a timestamp_with_offset_scheme list \<Rightarrow> 'a timestamp_with_offset_scheme list" where
  "getLatestAdjustedTwoObjects alreadySortedLatestFirst c =
     (if length c < 2 then [] else take 2 (if alreadySortedLatestFirst then c else sortAdjustedLatestFirst c))"

text \<open>The loops of the four checks: the key of the elements, the key before.\<close>

fun ascending_from :: "('a timestamp_based_scheme \<Rightarrow> int) \<Rightarrow> int \<Rightarrow> 'a timestamp_based_scheme list \<Rightarrow> bool" where
  "ascending_from key m [] \<longleftrightarrow> True"
| "ascending_from key m (obj # objs) \<longleftrightarrow>
     (if \<not> hasValidTimestamp obj then False else if key obj < m then False else ascending_from key (key obj) objs)"

fun descending_from :: "('a timestamp_based_scheme \<Rightarrow> int) \<Rightarrow> int \<Rightarrow> 'a timestamp_based_scheme list \<Rightarrow> bool" where
  "descending_from key m [] \<longleftrightarrow> True"
| "descending_from key m (obj # objs) \<longleftrightarrow>
     (if \<not> hasValidTimestamp obj then False else if key obj > m then False else descending_from key (key obj) objs)"

definition isSortedLatestLast :: "'a timestamp_based_scheme list \<Rightarrow> bool" where
  "isSortedLatestLast c \<longleftrightarrow> (if length c < 2 then True else ascending_from m_timestampMSecsSinceEpoch (- 1) c)"

definition isSortedLatestFirst :: "'a timestamp_based_scheme list \<Rightarrow> bool" where
  "isSortedLatestFirst c \<longleftrightarrow> (if length c < 2 then True else descending_from m_timestampMSecsSinceEpoch (2 ^ 63 - 1) c)"

definition isSortedAdjustedLatestLast :: "'a timestamp_with_offset_scheme list \<Rightarrow> bool" where
  "isSortedAdjustedLatestLast c \<longleftrightarrow>
     (if c = [] then False else if length c < 2 then True else ascending_from getAdjustedMSecsSinceEpoch (- 1) c)"

definition isSortedAdjustedLatestFirst :: "'a timestamp_with_offset_scheme list \<Rightarrow> bool" where
  "isSortedAdjustedLatestFirst c \<longleftrightarrow>
     (if length c < 2 then True else descending_from getAdjustedMSecsSinceEpoch (2 ^ 63 - 1) c)"

subsection \<open>Inserting at the front\<close>

text \<open>\<open>CSequence::truncate\<close> keeps the first elements.\<close>

definition max_elements_ok :: "int \<Rightarrow> bool" where
  "max_elements_ok maxElements \<longleftrightarrow> maxElements < 0 \<or> maxElements > 1"

definition truncate_max :: "int \<Rightarrow> int \<Rightarrow> 'a list \<Rightarrow> 'a list" where
  "truncate_max maxElements n c = (if maxElements > 0 then take (nat n) c else c)"

definition push_frontKeepLatestFirst ::
    "'a timestamp_based_scheme \<Rightarrow> bool \<Rightarrow> int \<Rightarrow> 'a timestamp_based_scheme list \<Rightarrow> fault + 'a timestamp_based_scheme list" where
  "push_frontKeepLatestFirst v replaceSameTimestamp maxElements c =
     (if \<not> max_elements_ok maxElements then Inl AssertFailed
      else if replaceSameTimestamp \<and> c \<noteq> [] \<and> m_timestampMSecsSinceEpoch (hd c) = m_timestampMSecsSinceEpoch v
      then Inr (truncate_max maxElements maxElements (v # tl c))
      else let c = truncate_max maxElements (maxElements - 1) c;
               needSort = (c \<noteq> [] \<and> m_timestampMSecsSinceEpoch v < m_timestampMSecsSinceEpoch (hd c));
               c = v # c
           in Inr (if needSort then sortLatestFirst c else c))"

definition push_frontKeepLatestAdjustedFirst ::
    "'a timestamp_with_offset_scheme \<Rightarrow> bool \<Rightarrow> int \<Rightarrow> 'a timestamp_with_offset_scheme list
      \<Rightarrow> fault + 'a timestamp_with_offset_scheme list" where
  "push_frontKeepLatestAdjustedFirst v replaceSameTimestamp maxElements c =
     (if \<not> max_elements_ok maxElements then Inl AssertFailed
      else if replaceSameTimestamp \<and> c \<noteq> [] \<and> m_timestampMSecsSinceEpoch (hd c) = m_timestampMSecsSinceEpoch v
      then Inr (truncate_max maxElements maxElements (v # tl c))
      else let c = truncate_max maxElements (maxElements - 1) c;
               needSort = (c \<noteq> [] \<and> isOlderThanAdjusted v (getAdjustedMSecsSinceEpoch (hd c)));
               c = v # c
           in Inr (if needSort then sortAdjustedLatestFirst c else c))"

text \<open>The end of \<open>push_frontKeepLatestFirstAdjustOffset\<close>: the first two elements.\<close>

definition adjust_front :: "'a timestamp_with_offset_scheme list \<Rightarrow> 'a timestamp_with_offset_scheme list" where
  "adjust_front c =
     (case c of
        front # second # rest \<Rightarrow>
          if isNewerThanAdjusted front (getAdjustedMSecsSinceEpoch second) then c
          else let minReqOs = c_int64 (getAdjustedMSecsSinceEpoch second - m_timestampMSecsSinceEpoch front);
                   avgOs = c_div (c_int64 (m_timeOffsetMs front + m_timeOffsetMs second)) 2;
                   os = max (c_int64 (minReqOs + 1)) avgOs
               in front\<lparr>m_timeOffsetMs := os\<rparr> # second # rest
      | _ \<Rightarrow> c)"

definition push_frontKeepLatestFirstAdjustOffset ::
    "'a timestamp_with_offset_scheme \<Rightarrow> bool \<Rightarrow> int \<Rightarrow> 'a timestamp_with_offset_scheme list
      \<Rightarrow> fault + 'a timestamp_with_offset_scheme list" where
  "push_frontKeepLatestFirstAdjustOffset v replaceSameTimestamp maxElements c =
     and_then (push_frontKeepLatestFirst v replaceSameTimestamp maxElements c) (\<lambda>c. Inr (adjust_front c))"

definition push_frontKeepLatestFirstIgnoreOverlapping ::
    "'a timestamp_with_offset_scheme \<Rightarrow> bool \<Rightarrow> int \<Rightarrow> 'a timestamp_with_offset_scheme list
      \<Rightarrow> fault + 'a timestamp_with_offset_scheme list" where
  "push_frontKeepLatestFirstIgnoreOverlapping v replaceSameTimestamp maxElements c =
     (if length c > 1 \<and> getAdjustedMSecsSinceEpoch v \<le> getAdjustedMSecsSinceEpoch (hd c) then Inr c
      else push_frontKeepLatestFirst v replaceSameTimestamp maxElements c)"

text \<open>The list a first value is spread to: copies further and further back.\<close>

definition prefillLatestAdjustedFirst ::
    "'a timestamp_with_offset_scheme \<Rightarrow> nat \<Rightarrow> int \<Rightarrow> 'a timestamp_with_offset_scheme list" where
  "prefillLatestAdjustedFirst v elements deltaTimeMs =
     (let osTime = m_timeOffsetMs v;
          os = - \<bar>if deltaTimeMs < 0 then osTime else deltaTimeMs\<bar>
      in v # map (\<lambda>i. addMsecs (c_int64 (os * int i)) v) [1..<elements])"

subsection \<open>Adjusted times\<close>

datatype HintAdjustedTimestampSort = NoAdjustedTimestampSortHint | AdjustedTimestampLatestFirst

definition findAfterAdjusted :: "int \<Rightarrow> 'a timestamp_with_offset_scheme list \<Rightarrow> 'a timestamp_with_offset_scheme list" where
  "findAfterAdjusted msSinceEpoch c = filter (\<lambda>obj. isNewerThanAdjusted obj msSinceEpoch) c"

definition findBeforeAdjusted :: "int \<Rightarrow> 'a timestamp_with_offset_scheme list \<Rightarrow> 'a timestamp_with_offset_scheme list" where
  "findBeforeAdjusted msSinceEpoch c = filter (\<lambda>obj. isOlderThanAdjusted obj msSinceEpoch) c"

text \<open>With the hint the first (the last) element is taken without a look at the others.\<close>

definition latestAdjustedObject ::
    "HintAdjustedTimestampSort \<Rightarrow> 'a timestamp_with_offset_scheme list \<Rightarrow> 'a timestamp_with_offset_scheme option" where
  "latestAdjustedObject hint c =
     (if c = [] then None else if hint = AdjustedTimestampLatestFirst then Some (hd c)
      else max_element getAdjustedMSecsSinceEpoch c)"

definition oldestAdjustedObject ::
    "HintAdjustedTimestampSort \<Rightarrow> 'a timestamp_with_offset_scheme list \<Rightarrow> 'a timestamp_with_offset_scheme option" where
  "oldestAdjustedObject hint c =
     (if c = [] then None else if hint = AdjustedTimestampLatestFirst then Some (last c)
      else min_element getAdjustedMSecsSinceEpoch c)"

text \<open>The lists found have no hint of their own.\<close>

definition findObjectAfterAdjustedOrDefault ::
    "int \<Rightarrow> 'a timestamp_with_offset_scheme list \<Rightarrow> 'a timestamp_with_offset_scheme option" where
  "findObjectAfterAdjustedOrDefault msSinceEpoch c =
     (let after = findAfterAdjusted msSinceEpoch c in
      if after = [] then None else oldestAdjustedObject NoAdjustedTimestampSortHint after)"

definition findObjectBeforeAdjustedOrDefault ::
    "int \<Rightarrow> 'a timestamp_with_offset_scheme list \<Rightarrow> 'a timestamp_with_offset_scheme option" where
  "findObjectBeforeAdjustedOrDefault msSinceEpoch c =
     (let before = findBeforeAdjusted msSinceEpoch c in
      if before = [] then None else latestAdjustedObject NoAdjustedTimestampSortHint before)"

definition findClosestTimeDistanceAdjusted ::
    "int \<Rightarrow> 'a timestamp_with_offset_scheme list \<Rightarrow> 'a timestamp_with_offset_scheme option" where
  "findClosestTimeDistanceAdjusted msSinceEpoch c = min_element (\<lambda>a. \<bar>getAdjustedTimeDifferenceMs a msSinceEpoch\<bar>) c"

text \<open>Both give the time stamp without its offset.\<close>

definition latestAdjustedTimestampMsecsSinceEpoch :: "HintAdjustedTimestampSort \<Rightarrow> 'a timestamp_with_offset_scheme list \<Rightarrow> int" where
  "latestAdjustedTimestampMsecsSinceEpoch hint c =
     (case latestAdjustedObject hint c of None \<Rightarrow> - 1 | Some obj \<Rightarrow> getUtcTimestamp obj)"

definition oldestAdjustedTimestampMsecsSinceEpoch :: "HintAdjustedTimestampSort \<Rightarrow> 'a timestamp_with_offset_scheme list \<Rightarrow> int" where
  "oldestAdjustedTimestampMsecsSinceEpoch hint c =
     (case oldestAdjustedObject hint c of None \<Rightarrow> - 1 | Some obj \<Rightarrow> getUtcTimestamp obj)"

definition containsZeroOrNegativeOffsetTime :: "'a timestamp_with_offset_scheme list \<Rightarrow> bool" where
  "containsZeroOrNegativeOffsetTime c \<longleftrightarrow> list_ex (\<lambda>obj. m_timeOffsetMs obj \<le> 0) c"

definition containsNegativeOffsetTime :: "'a timestamp_with_offset_scheme list \<Rightarrow> bool" where
  "containsNegativeOffsetTime c \<longleftrightarrow> list_ex (\<lambda>obj. m_timeOffsetMs obj < 0) c"

subsection \<open>Minimum, maximum and mean\<close>

record MillisecondsMinMaxMean =
  mmm_min :: int
  mmm_max :: int
  mmm_mean :: double

definition mmm_reset :: MillisecondsMinMaxMean where
  "mmm_reset = \<lparr>mmm_min = - 1, mmm_max = - 1, mmm_mean = d_of_int (- 1)\<rparr>"

definition mmm_isValid :: "MillisecondsMinMaxMean \<Rightarrow> bool" where
  "mmm_isValid mmm \<longleftrightarrow> mmm_min mmm \<ge> 0 \<and> mmm_max mmm \<ge> 0"

text \<open>The loop over the objects: the one before, minimum, maximum, sum and count so far.\<close>

fun difference_loop :: "'a timestamp_based_scheme \<Rightarrow> int \<Rightarrow> int \<Rightarrow> int \<Rightarrow> int \<Rightarrow> 'a timestamp_based_scheme list
    \<Rightarrow> int \<times> int \<times> int \<times> int" where
  "difference_loop l mn mx mean c [] = (mn, mx, mean, c)"
| "difference_loop l mn mx mean c (obj # objs) =
     (let diff = getAbsTimeDifferenceMs l obj in
      difference_loop obj (if diff < mn then diff else mn) (if diff > mx then diff else mx) (c_int64 (mean + diff)) (c + 1) objs)"

definition getTimestampDifferenceMinMaxMean :: "bool \<Rightarrow> 'a timestamp_based_scheme list \<Rightarrow> MillisecondsMinMaxMean" where
  "getTimestampDifferenceMinMaxMean hasSortHint container =
     (if length container < 2 then mmm_reset
      else let container = (if hasSortHint then container else sortLatestFirst container);
               (mn, mx, mean, c) = difference_loop (hd container) (2 ^ 63 - 1) (- (2 ^ 63)) 0 1 (tl container)
           in \<lparr>mmm_min = mn, mmm_max = mx, mmm_mean = d_of_int (c_div mean c)\<rparr>)"

fun offset_loop :: "int \<Rightarrow> int \<Rightarrow> int \<Rightarrow> int \<Rightarrow> 'a timestamp_with_offset_scheme list \<Rightarrow> int \<times> int \<times> int \<times> int" where
  "offset_loop mn mx mean c [] = (mn, mx, mean, c)"
| "offset_loop mn mx mean c (obj # objs) =
     (if m_timeOffsetMs obj = 0 then offset_loop mn mx mean c objs
      else let os = m_timeOffsetMs obj in
        offset_loop (if os < mn then os else mn) (if os > mx then os else mx) (c_int64 (mean + os)) (c + 1) objs)"

definition getOffsetMinMaxMean :: "'a timestamp_with_offset_scheme list \<Rightarrow> MillisecondsMinMaxMean" where
  "getOffsetMinMaxMean container =
     (if container = [] then mmm_reset
      else case offset_loop (2 ^ 63 - 1) (- (2 ^ 63)) 0 0 container of
        (mn, mx, mean, c) \<Rightarrow> \<lparr>mmm_min = mn, mmm_max = mx,
          mmm_mean = if c > 0 then d_of_int (c_div mean c) else d_of_int (- 1)\<rparr>)"

end
