(* ===== verification/Json.thy ===== *)
theory Json
  imports Doubles "HOL-Library.List_Lexorder" "HOL-Library.Char_ord"
begin

section \<open>JSON objects and their increments\<close>

text \<open>
  The JSON values that aircraft configurations are made of, as Qt keeps them: an object is the list
  of its members, sorted by their keys, and reading a value as another kind gives a default.
  \<open>getIncrementalObject\<close> and \<open>applyIncrementalObject\<close> of \<open>blackmisc/json.cpp\<close> are the two ends of the
  protocol that sends only what changed; the lemmas show when the second undoes the first.
\<close>

subsection \<open>Values\<close>

datatype json =
  JNull
| JBool bool
| JNumber double
| JString string
| JArray "json list"
| JObject "(string \<times> json) list"

type_synonym json_object = "(string \<times> json) list"

text \<open>\<open>QJsonValue::toObject\<close>, \<open>toBool\<close>, \<open>toInt\<close>, \<open>toString\<close>; \<open>None\<close> is the undefined value.\<close>

fun j_toObject :: "json option \<Rightarrow> json_object" where
  "j_toObject (Some (JObject ob)) = ob"
| "j_toObject v = []"

fun j_toBool :: "json option \<Rightarrow> bool" where
  "j_toBool (Some (JBool b)) = b"
| "j_toBool v = False"

fun j_toInt :: "json option \<Rightarrow> int" where
  "j_toInt (Some (JNumber (Fin r))) = (if r = of_int \<lfloor>r\<rfloor> \<and> int32 \<lfloor>r\<rfloor> then \<lfloor>r\<rfloor> else 0)"
| "j_toInt v = 0"

fun j_isObject :: "json option \<Rightarrow> bool" where
  "j_isObject (Some (JObject ob)) \<longleftrightarrow> True"
| "j_isObject v \<longleftrightarrow> False"

subsection \<open>Members\<close>

text \<open>\<open>QJsonObject::value\<close>, \<open>insert\<close>, \<open>remove\<close>, \<open>keys\<close>.\<close>

abbreviation j_value :: "json_object \<Rightarrow> string \<Rightarrow> json option" where
  "j_value \<equiv> map_of"

fun j_insert :: "string \<Rightarrow> json \<Rightarrow> json_object \<Rightarrow> json_object" where
  "j_insert k v [] = [(k, v)]"
| "j_insert k v ((k', v') # ob) =
     (if k < k' then (k, v) # (k', v') # ob else if k = k' then (k, v) # ob else (k', v') # j_insert k v ob)"

definition j_remove :: "string \<Rightarrow> json_object \<Rightarrow> json_object" where
  "j_remove k ob = filter (\<lambda>kv. fst kv \<noteq> k) ob"

definition j_keys :: "json_object \<Rightarrow> string list" where
  "j_keys ob = map fst ob"

definition j_of_list :: "(string \<times> json) list \<Rightarrow> json_object" where
  "j_of_list kvs = fold (\<lambda>(k, v). j_insert k v) kvs []"

definition appendJsonObject :: "json_object \<Rightarrow> json_object \<Rightarrow> json_object" where
  "appendJsonObject target toBeAppended = fold (\<lambda>(k, v). j_insert k v) toBeAppended target"

subsection \<open>Increments\<close>

text \<open>
  The loop over the members of the previous object: the member in turn, the current object and the
  incremental one so far. A member that is an object itself is compared member by member.
\<close>

function incremental_loop :: "json_object \<Rightarrow> json_object \<Rightarrow> json_object \<Rightarrow> json_object" where
  "incremental_loop [] currentObject incrementalObject = incrementalObject"
| "incremental_loop ((key, v) # members) currentObject incrementalObject =
     incremental_loop members currentObject
       (case v of
          JObject previousChild \<Rightarrow>
            let currentChild = j_toObject (j_value currentObject key);
                child = incremental_loop previousChild currentChild currentChild
            in if child = [] then j_remove key incrementalObject else j_insert key (JObject child) incrementalObject
        | _ \<Rightarrow> if j_value currentObject key = Some v then j_remove key incrementalObject else incrementalObject)"
  by pat_completeness auto
termination
  by (relation "measure (\<lambda>(p, c, i). size_list (size_prod (\<lambda>k. 0) size) p)") (auto simp: less_Suc_eq_le)

definition getIncrementalObject :: "json_object \<Rightarrow> json_object \<Rightarrow> json_object" where
  "getIncrementalObject previousObject currentObject = incremental_loop previousObject currentObject currentObject"

text \<open>The loop over the members of the incremental object: the object so far.\<close>

function applyIncrementalObject :: "json_object \<Rightarrow> json_object \<Rightarrow> json_object" where
  "applyIncrementalObject currentObject [] = currentObject"
| "applyIncrementalObject currentObject ((key, v) # members) =
     applyIncrementalObject
       (case v of
          JObject child \<Rightarrow> j_insert key (JObject (applyIncrementalObject (j_toObject (j_value currentObject key)) child)) currentObject
        | _ \<Rightarrow> j_insert key v currentObject)
       members"
  by pat_completeness auto
termination
  by (relation "measure (\<lambda>(c, i). size_list (size_prod (\<lambda>k. 0) size) i)") (auto simp: less_Suc_eq_le)

subsection \<open>Well-formed objects\<close>

text \<open>As Qt keeps them: keys in order, each once, also inside.\<close>

fun wf_json :: "json \<Rightarrow> bool" where
  "wf_json (JArray vs) \<longleftrightarrow> list_all wf_json vs"
| "wf_json (JObject ob) \<longleftrightarrow> sorted_wrt (<) (map fst ob) \<and> list_all (\<lambda>kv. wf_json (snd kv)) ob"
| "wf_json v \<longleftrightarrow> True"

abbreviation wf_object :: "json_object \<Rightarrow> bool" where
  "wf_object ob \<equiv> wf_json (JObject ob)"

lemma wf_object_iff: "wf_object ob \<longleftrightarrow> sorted_wrt (<) (map fst ob) \<and> list_all (\<lambda>kv. wf_json (snd kv)) ob"
  by simp

declare wf_json.simps(2) [simp del]

lemma wf_object_simps [simp]:
  "wf_object []"
  "wf_object (m # ob) \<longleftrightarrow> (\<forall>x\<in>fst ` set ob. fst m < x) \<and> wf_json (snd m) \<and> wf_object ob"
  by (auto simp: wf_object_iff)

subsection \<open>Reading after writing\<close>

lemma map_of_insert [simp]: "map_of (j_insert k v ob) = (map_of ob)(k \<mapsto> v)"
  by (induction ob) (auto simp: fun_eq_iff)

lemma map_of_remove [simp]: "map_of (j_remove k ob) = (map_of ob)(k := None)"
  by (induction ob) (auto simp: j_remove_def fun_eq_iff)

lemma insert_keys [simp]: "fst ` set (j_insert k v ob) = insert k (fst ` set ob)"
  by (simp add: dom_map_of_conv_image_fst [symmetric])

lemma insert_sorted: "sorted_wrt (<) (map fst ob) \<Longrightarrow> sorted_wrt (<) (map fst (j_insert k v ob))"
proof (induction ob)
  case (Cons m ob)
  obtain k' v' where m: "m = (k', v')" by (cases m)
  have "\<forall>x\<in>fst ` set (j_insert k v ob). k' < x" if "k' < k"
    using Cons.prems that unfolding insert_keys m by simp
  moreover have "\<forall>x\<in>fst ` set ob. k < x" if "k < k'"
    using Cons.prems that by (auto simp: m dest: order.strict_trans)
  ultimately show ?case using Cons by (auto simp: m not_less_iff_gr_or_eq)
qed simp

lemma insert_wf [simp]: "wf_object ob \<Longrightarrow> wf_json v \<Longrightarrow> wf_object (j_insert k v ob)"
proof -
  assume "wf_object ob" "wf_json v"
  moreover from this have "list_all (\<lambda>kv. wf_json (snd kv)) (j_insert k v ob)"
    by (induction ob) (auto simp: wf_object_iff)
  ultimately show ?thesis by (simp add: insert_sorted wf_object_iff)
qed

lemma remove_wf [simp]: "wf_object ob \<Longrightarrow> wf_object (j_remove k ob)"
  by (induction ob) (auto simp: j_remove_def)

lemma wf_value: "wf_object ob \<Longrightarrow> map_of ob k = Some v \<Longrightarrow> wf_json v"
  by (force simp: wf_object_iff list_all_iff dest: map_of_SomeD)

lemma wf_toObject: "wf_object ob \<Longrightarrow> wf_object (j_toObject (map_of ob k))"
  using wf_value [of ob k] by (cases "map_of ob k" rule: j_toObject.cases) auto

lemma wf_distinct: "wf_object ob \<Longrightarrow> distinct (map fst ob)"
  by (simp add: wf_object_iff strict_sorted_iff)

lemma object_eqI:
  assumes "wf_object a" "wf_object b" "map_of a = map_of b"
  shows "a = b"
proof -
  have "a = map (\<lambda>k. (k, the (map_of a k))) (map fst a)" if "wf_object a" for a
    using map_of_is_SomeI [OF wf_distinct [OF that]] by (auto simp: comp_def intro!: map_idI [symmetric])
  moreover have "map fst a = map fst b"
  proof (rule strict_sorted_equal)
    show "set (map fst a) = set (map fst b)"
      using assms(3) by (simp add: dom_map_of_conv_image_fst [symmetric])
  qed (use assms(1,2) in \<open>simp_all add: wf_object_iff\<close>)
  ultimately show ?thesis using assms by metis
qed

subsection \<open>What the loops compute, member by member\<close>

definition incremental_member :: "json \<Rightarrow> json option \<Rightarrow> json option \<Rightarrow> json option" where
  "incremental_member v current incremental =
     (case v of
        JObject p \<Rightarrow> let child = getIncrementalObject p (j_toObject current) in if child = [] then None else Some (JObject child)
      | _ \<Rightarrow> if current = Some v then None else incremental)"

lemma incremental_loop_value:
  "distinct (map fst p) \<Longrightarrow> map_of (incremental_loop p c i) k =
     (case map_of p k of None \<Rightarrow> map_of i k | Some v \<Rightarrow> incremental_member v (map_of c k) (map_of i k))"
proof (induction p arbitrary: i)
  case (Cons m p)
  obtain k' v where m: "m = (k', v)" by (cases m)
  have "map_of p k' = None" using Cons.prems by (simp add: m map_of_eq_None_iff)
  then show ?case using Cons
    by (cases v) (auto simp: m incremental_member_def getIncrementalObject_def Let_def split: option.splits)
qed simp

lemma getIncrementalObject_value:
  "distinct (map fst p) \<Longrightarrow> map_of (getIncrementalObject p c) k =
     (case map_of p k of None \<Rightarrow> map_of c k | Some v \<Rightarrow> incremental_member v (map_of c k) (map_of c k))"
  by (simp add: getIncrementalObject_def incremental_loop_value)

definition applied_member :: "json \<Rightarrow> json option \<Rightarrow> json" where
  "applied_member v current =
     (case v of JObject child \<Rightarrow> JObject (applyIncrementalObject (j_toObject current) child) | _ \<Rightarrow> v)"

lemma applyIncrementalObject_value:
  "distinct (map fst i) \<Longrightarrow> map_of (applyIncrementalObject c i) k =
     (case map_of i k of None \<Rightarrow> map_of c k | Some v \<Rightarrow> Some (applied_member v (map_of c k)))"
proof (induction i arbitrary: c)
  case (Cons m i)
  obtain k' v where m: "m = (k', v)" by (cases m)
  have "map_of i k' = None" using Cons.prems by (simp add: m map_of_eq_None_iff)
  then show ?case using Cons by (cases v) (auto simp: m applied_member_def split: option.splits)
qed simp

lemma incremental_loop_wf:
  "wf_object p \<Longrightarrow> wf_object c \<Longrightarrow> wf_object i \<Longrightarrow> wf_object (incremental_loop p c i)"
proof (induction p c i rule: incremental_loop.induct)
  case (2 key v members c i)
  have "wf_object members" using 2(3) by simp
  moreover have "wf_object (j_insert key (JObject (incremental_loop q (j_toObject (map_of c key)) (j_toObject (map_of c key)))) i)"
    if "v = JObject q" for q
  proof -
    have "wf_object q" using 2(3) that by simp
    from 2(1) [OF that refl this wf_toObject [OF 2(4)] wf_toObject [OF 2(4)]]
    show ?thesis using 2(5) by simp
  qed
  ultimately show ?case using 2(2,4,5) by (cases v) (auto simp: Let_def)
qed simp

lemma getIncrementalObject_wf: "wf_object p \<Longrightarrow> wf_object c \<Longrightarrow> wf_object (getIncrementalObject p c)"
  by (simp add: getIncrementalObject_def incremental_loop_wf)

lemma applyIncrementalObject_wf: "wf_object c \<Longrightarrow> wf_object i \<Longrightarrow> wf_object (applyIncrementalObject c i)"
proof (induction c i rule: applyIncrementalObject.induct)
  case (2 c key v members)
  have "wf_object members" using 2(4) by simp
  moreover have "wf_object (j_insert key (JObject (applyIncrementalObject (j_toObject (map_of c key)) q)) c)"
    if "v = JObject q" for q
  proof -
    have "wf_object q" using 2(4) that by simp
    from 2(1) [OF that wf_toObject [OF 2(3)] this] show ?thesis using 2(3) by simp
  qed
  moreover have "wf_json v" using 2(4) by simp
  ultimately show ?case using 2(2,3) by (cases v) auto
qed simp

subsection \<open>When applying an increment gives the current object\<close>

text \<open>
  An increment names what is new or different, never what is gone. \<open>kept_by\<close>: the members that are
  no objects are still there, with whatever value, and the objects are still objects and keep theirs.
\<close>

fun kept_member :: "json \<Rightarrow> json option \<Rightarrow> bool" where
  "kept_member (JObject p) current \<longleftrightarrow>
     j_isObject current \<and> list_all (\<lambda>kv. kept_member (snd kv) (map_of (j_toObject current) (fst kv))) p"
| "kept_member v current \<longleftrightarrow> current \<noteq> None"

abbreviation kept_by :: "json_object \<Rightarrow> json_object \<Rightarrow> bool" where
  "kept_by p c \<equiv> kept_member (JObject p) (Some (JObject c))"

lemma kept_by_iff: "distinct (map fst p) \<Longrightarrow> kept_by p c \<longleftrightarrow> (\<forall>k v. map_of p k = Some v \<longrightarrow> kept_member v (map_of c k))"
  by (auto simp: list_all_iff dest: map_of_SomeD)

lemma applied_to_nothing: "wf_json v \<Longrightarrow> applied_member v None = v"
proof (induction v)
  case (JObject c)
  have "applied_member v None = v" if "map_of c k = Some v" for k v
    using JObject.IH [of "(k, v)" v] map_of_SomeD [OF that] wf_value [OF JObject.prems that] by simp
  then have "map_of (applyIncrementalObject [] c) = map_of c"
    using JObject.prems by (intro ext) (simp add: applyIncrementalObject_value wf_distinct split: option.splits)
  then have "applyIncrementalObject [] c = c"
    using JObject.prems by (intro object_eqI applyIncrementalObject_wf) simp_all
  then show ?case by (simp add: applied_member_def)
qed (simp_all add: applied_member_def)

lemma apply_to_empty: "wf_object c \<Longrightarrow> applyIncrementalObject [] c = c"
  using applied_to_nothing [of "JObject c"] by (simp add: applied_member_def)

lemma applied_to_no_object: "wf_json w \<Longrightarrow> \<not> j_isObject current \<Longrightarrow> applied_member w current = w"
proof -
  assume "wf_json w" "\<not> j_isObject current"
  moreover from this(2) have "j_toObject current = []" by (cases current rule: j_toObject.cases) simp_all
  ultimately show ?thesis using applied_to_nothing [of w] by (cases w) (simp_all add: applied_member_def)
qed

lemma restored_member:
  assumes "wf_object p" "wf_object c"
    and "\<And>q c'. map_of p k = Some (JObject q) \<Longrightarrow> wf_object c' \<Longrightarrow>
      applyIncrementalObject q (getIncrementalObject q c') = c' \<longleftrightarrow> kept_by q c'"
  shows "map_of (applyIncrementalObject p (getIncrementalObject p c)) k = map_of c k
    \<longleftrightarrow> (\<forall>v. map_of p k = Some v \<longrightarrow> kept_member v (map_of c k))"
proof -
  have inc: "map_of (applyIncrementalObject p (getIncrementalObject p c)) k =
    (case map_of (getIncrementalObject p c) k of None \<Rightarrow> map_of p k | Some v \<Rightarrow> Some (applied_member v (map_of p k)))"
    using getIncrementalObject_wf [OF assms(1,2)] by (simp add: applyIncrementalObject_value wf_distinct)
  note [simp] = getIncrementalObject_value [OF wf_distinct [OF assms(1)]]
  have w: "map_of c k = Some w \<Longrightarrow> wf_json w" for w using wf_value [OF assms(2)] .
  show ?thesis
  proof (cases "map_of p k")
    case None
    then show ?thesis using w by (cases "map_of c k") (simp_all add: inc applied_to_nothing)
  next
    case (Some v)
    show ?thesis
    proof (cases "j_isObject (Some v)")
      case False
      then show ?thesis using Some w
        by (cases "map_of c k"; cases v) (auto simp: inc incremental_member_def applied_to_no_object)
    next
      case True
      then obtain q where q: "v = JObject q" by (cases v) auto
      define c' where "c' = j_toObject (map_of c k)"
      have "wf_object c'" using wf_toObject [OF assms(2)] by (simp add: c'_def)
      from assms(3) [OF _ this] have IH: "applyIncrementalObject q (getIncrementalObject q c') = c' \<longleftrightarrow> kept_by q c'"
        using Some q by simp
      have r: "map_of (applyIncrementalObject p (getIncrementalObject p c)) k
          = Some (JObject (applyIncrementalObject q (getIncrementalObject q c')))"
        using Some q by (simp add: inc incremental_member_def applied_member_def c'_def Let_def)
      show ?thesis unfolding r
        using IH Some q by (cases "map_of c k" rule: j_toObject.cases) (auto simp: c'_def)
    qed
  qed
qed

lemma applied_increment_value:
  "\<lbrakk>v = JObject p; wf_json v; wf_object c\<rbrakk> \<Longrightarrow> applyIncrementalObject p (getIncrementalObject p c) = c \<longleftrightarrow> kept_by p c"
proof (induction v arbitrary: p c)
  case (JObject ob)
  have p: "ob = p" "wf_object p" using JObject.prems by simp_all
  let ?r = "applyIncrementalObject p (getIncrementalObject p c)"
  have "map_of ?r k = map_of c k \<longleftrightarrow> (\<forall>v. map_of p k = Some v \<longrightarrow> kept_member v (map_of c k))" for k
  proof (rule restored_member [OF p(2) JObject.prems(3)])
    fix q c' assume "map_of p k = Some (JObject q)" "wf_object c'"
    then show "applyIncrementalObject q (getIncrementalObject q c') = c' \<longleftrightarrow> kept_by q c'"
      using JObject.IH [of "(k, JObject q)" "JObject q" q c'] wf_value [OF p(2)] p(1) by (auto dest: map_of_SomeD)
  qed
  moreover have "?r = c \<longleftrightarrow> map_of ?r = map_of c"
    using object_eqI [of ?r c] p(2) JObject.prems(3) by (auto intro: applyIncrementalObject_wf getIncrementalObject_wf)
  ultimately show ?case unfolding kept_by_iff [OF wf_distinct [OF p(2)]] fun_eq_iff by blast
qed simp_all

lemma applied_increment:
  "wf_object p \<Longrightarrow> wf_object c \<Longrightarrow> applyIncrementalObject p (getIncrementalObject p c) = c \<longleftrightarrow> kept_by p c"
  using applied_increment_value [of "JObject p" p c] by blast

end
