(* ===== verification/AircraftParts.thy ===== *)
theory AircraftParts
  imports Json TimedLists FsdDataMessages
begin

section \<open>Aircraft parts\<close>

text \<open>
  \<open>blackmisc/aviation/aircraftengine\<close>, \<open>aircraftenginelist\<close>, \<open>aircraftlights\<close> and \<open>aircraftparts\<close>:
  engines, lights, gear, flaps and spoilers of an aircraft, as values and as the JSON objects that go
  over the network. The metaclass of each class decides which members are in its JSON object and
  which are compared; a member the object does not have keeps its value. The text that only helps
  debugging is left out.
\<close>

subsection \<open>Lights\<close>

definition setAllOn :: "CAircraftLights \<Rightarrow> CAircraftLights" where
  "setAllOn l = l\<lparr>beaconOn := True, landingOn := True, logoOn := True, navOn := True, strobeOn := True, taxiOn := True,
     cabin := True, recognition := True\<rparr>"

definition setAllOff :: "CAircraftLights \<Rightarrow> CAircraftLights" where
  "setAllOff l = l\<lparr>beaconOn := False, landingOn := False, logoOn := False, navOn := False, strobeOn := False, taxiOn := False,
     cabin := False, recognition := False\<rparr>"

definition lights_toJson :: "CAircraftLights \<Rightarrow> json_object" where
  "lights_toJson l = j_of_list [(''strobe_on'', JBool (strobeOn l)), (''landing_on'', JBool (landingOn l)),
     (''taxi_on'', JBool (taxiOn l)), (''beacon_on'', JBool (beaconOn l)), (''nav_on'', JBool (navOn l)),
     (''logo_on'', JBool (logoOn l))]"

text \<open>One member: the value of an object that has it, and the value it had.\<close>

definition json_bool :: "json_object \<Rightarrow> string \<Rightarrow> bool \<Rightarrow> bool" where
  "json_bool ob key old = (case j_value ob key of None \<Rightarrow> old | Some v \<Rightarrow> j_toBool (Some v))"

definition json_int :: "json_object \<Rightarrow> string \<Rightarrow> int \<Rightarrow> int" where
  "json_int ob key old = (case j_value ob key of None \<Rightarrow> old | Some v \<Rightarrow> j_toInt (Some v))"

definition lights_convertFromJson :: "json_object \<Rightarrow> CAircraftLights \<Rightarrow> CAircraftLights" where
  "lights_convertFromJson ob l = l\<lparr>strobeOn := json_bool ob ''strobe_on'' (strobeOn l),
     landingOn := json_bool ob ''landing_on'' (landingOn l), taxiOn := json_bool ob ''taxi_on'' (taxiOn l),
     beaconOn := json_bool ob ''beacon_on'' (beaconOn l), navOn := json_bool ob ''nav_on'' (navOn l),
     logoOn := json_bool ob ''logo_on'' (logoOn l)\<rparr>"

subsection \<open>Engines\<close>

record CAircraftEngine =
  m_number :: int
  m_on :: bool

definition CAircraftEngine_default :: CAircraftEngine where
  "CAircraftEngine_default = \<lparr>m_number = 1, m_on = True\<rparr>"

definition CAircraftEngine :: "int \<Rightarrow> bool \<Rightarrow> fault + CAircraftEngine" where
  "CAircraftEngine number on = (if number > 0 then Inr \<lparr>m_number = number, m_on = on\<rparr> else Inl AssertFailed)"

definition setNumber :: "int \<Rightarrow> CAircraftEngine \<Rightarrow> fault + CAircraftEngine" where
  "setNumber number e = (if number > 0 then Inr (e\<lparr>m_number := number\<rparr>) else Inl AssertFailed)"

definition engine_toJson :: "CAircraftEngine \<Rightarrow> json_object" where
  "engine_toJson e = [(''on'', JBool (m_on e))]"

definition engine_convertFromJson :: "json_object \<Rightarrow> CAircraftEngine \<Rightarrow> CAircraftEngine" where
  "engine_convertFromJson ob e = e\<lparr>m_on := json_bool ob ''on'' (m_on e)\<rparr>"

definition CAircraftEngineList :: "bool list \<Rightarrow> CAircraftEngine list" where
  "CAircraftEngineList enginesOnOff = map (\<lambda>(i, on). \<lparr>m_number = int i + 1, m_on = on\<rparr>) (enumerate 0 enginesOnOff)"

definition getEngine :: "int \<Rightarrow> CAircraftEngine list \<Rightarrow> fault + CAircraftEngine" where
  "getEngine engineNumber es =
     (if engineNumber > 0
      then Inr (case filter (\<lambda>e. m_number e = engineNumber) es of [] \<Rightarrow> CAircraftEngine_default | e # rest \<Rightarrow> e)
      else Inl AssertFailed)"

definition isEngineOn :: "int \<Rightarrow> CAircraftEngine list \<Rightarrow> fault + bool" where
  "isEngineOn engineNumber es = and_then (getEngine engineNumber es) (\<lambda>e. Inr (m_on e))"

fun set_engine_on :: "int \<Rightarrow> bool \<Rightarrow> CAircraftEngine list \<Rightarrow> CAircraftEngine list" where
  "set_engine_on engineNumber on [] = []"
| "set_engine_on engineNumber on (e # es) =
     (if m_number e = engineNumber then e\<lparr>m_on := on\<rparr> # es else e # set_engine_on engineNumber on es)"

definition setEngineOn :: "int \<Rightarrow> bool \<Rightarrow> CAircraftEngine list \<Rightarrow> fault + CAircraftEngine list" where
  "setEngineOn engineNumber on es = (if engineNumber > 0 then Inr (set_engine_on engineNumber on es) else Inl AssertFailed)"

text \<open>The renumbered copy is made and not used.\<close>

definition setEngines_list :: "CAircraftEngine \<Rightarrow> int \<Rightarrow> CAircraftEngine list" where
  "setEngines_list engine engineNumber = map (\<lambda>e. engine) [0..<nat engineNumber]"

definition initEngines :: "int \<Rightarrow> bool \<Rightarrow> CAircraftEngine list" where
  "initEngines engineNumber on = map (\<lambda>e. \<lparr>m_number = int e + 1, m_on = on\<rparr>) [0..<nat engineNumber]"

definition anyEngineOn :: "CAircraftEngine list \<Rightarrow> bool" where
  "anyEngineOn es \<longleftrightarrow> list_ex m_on es"

definition engines_toJson :: "CAircraftEngine list \<Rightarrow> json_object" where
  "engines_toJson es = fold (\<lambda>e. j_insert (q_number (m_number e)) (JObject (engine_toJson e))) es []"

text \<open>A key that is no positive number stops the program where assertions are compiled in.\<close>

fun engines_from_members :: "json_object \<Rightarrow> fault + CAircraftEngine list" where
  "engines_from_members [] = Inr []"
| "engines_from_members ((key, v) # members) =
     and_then (setNumber (q_toInt key) (engine_convertFromJson (j_toObject (Some v)) CAircraftEngine_default)) (\<lambda>e.
     and_then (engines_from_members members) (\<lambda>es. Inr (e # es)))"

definition engines_convertFromJson :: "json_object \<Rightarrow> fault + CAircraftEngine list" where
  "engines_convertFromJson ob = engines_from_members ob"

subsection \<open>Parts\<close>

datatype PartsDetails = PartsNotSet | FSDAircraftParts | GuessedParts

record CAircraftParts = timestamp_with_offset +
  m_lights :: CAircraftLights
  m_engines :: "CAircraftEngine list"
  m_partsDetails :: PartsDetails
  m_flapsPercentage :: int
  m_gearDown :: bool
  m_spoilersOut :: bool
  m_isOnGround :: bool

definition CAircraftParts_flaps :: "int \<Rightarrow> CAircraftParts" where
  "CAircraftParts_flaps flapsPercent = \<lparr>m_timestampMSecsSinceEpoch = - 1, m_timeOffsetMs = 0, m_lights = allLightsOff, m_engines = [],
     m_partsDetails = PartsNotSet, m_flapsPercentage = flapsPercent, m_gearDown = False, m_spoilersOut = False, m_isOnGround = False\<rparr>"

definition CAircraftParts_default :: CAircraftParts where
  "CAircraftParts_default = CAircraftParts_flaps 0"

definition CAircraftParts :: "CAircraftLights \<Rightarrow> bool \<Rightarrow> int \<Rightarrow> bool \<Rightarrow> CAircraftEngine list \<Rightarrow> bool \<Rightarrow> CAircraftParts" where
  "CAircraftParts lights gearDown flapsPercent spoilersOut engines onGround =
     CAircraftParts_default\<lparr>m_lights := lights, m_engines := engines, m_flapsPercentage := flapsPercent, m_gearDown := gearDown,
       m_spoilersOut := spoilersOut, m_isOnGround := onGround\<rparr>"

definition parts_null :: CAircraftParts where
  "parts_null = CAircraftParts_flaps (- 1)"

definition parts_isNull :: "CAircraftParts \<Rightarrow> bool" where
  "parts_isNull p \<longleftrightarrow> m_partsDetails p = PartsNotSet \<and> m_flapsPercentage p < 0"

text \<open>\<open>operator ==\<close>: time stamp, offset and details are not compared.\<close>

definition equalValues :: "CAircraftParts \<Rightarrow> CAircraftParts \<Rightarrow> bool" where
  "equalValues p q \<longleftrightarrow> m_lights p = m_lights q \<and> m_gearDown p = m_gearDown q \<and> m_flapsPercentage p = m_flapsPercentage q
     \<and> m_spoilersOut p = m_spoilersOut q \<and> m_engines p = m_engines q \<and> m_isOnGround p = m_isOnGround q"

definition partsDetailsToString :: "PartsDetails \<Rightarrow> string" where
  "partsDetailsToString details =
     (case details of GuessedParts \<Rightarrow> ''guessed'' | FSDAircraftParts \<Rightarrow> ''FSD parts'' | PartsNotSet \<Rightarrow> ''not set'')"

definition getAdjustedLights :: "CAircraftParts \<Rightarrow> CAircraftLights" where
  "getAdjustedLights p = (let anyEngine = anyEngineOn (m_engines p) in (m_lights p)\<lparr>recognition := anyEngine, cabin := anyEngine\<rparr>)"

definition setAllLightsOn :: "CAircraftParts \<Rightarrow> CAircraftParts" where
  "setAllLightsOn p = p\<lparr>m_lights := setAllOn (m_lights p)\<rparr>"

definition setAllLightsOff :: "CAircraftParts \<Rightarrow> CAircraftParts" where
  "setAllLightsOff p = p\<lparr>m_lights := setAllOff (m_lights p)\<rparr>"

definition isFixedGearDown :: "CAircraftParts \<Rightarrow> bool" where
  "isFixedGearDown p \<longleftrightarrow> m_gearDown p \<or> m_isOnGround p"

definition setEngines :: "CAircraftEngine \<Rightarrow> int \<Rightarrow> CAircraftParts \<Rightarrow> CAircraftParts" where
  "setEngines engine engineNumber p = p\<lparr>m_engines := setEngines_list engine engineNumber\<rparr>"

definition parts_toJson :: "CAircraftParts \<Rightarrow> json_object" where
  "parts_toJson p = j_of_list [(''lights'', JObject (lights_toJson (m_lights p))), (''gear_down'', JBool (m_gearDown p)),
     (''flaps_pct'', JNumber (d_of_int (m_flapsPercentage p))), (''spoilers_out'', JBool (m_spoilersOut p)),
     (''engines'', JObject (engines_toJson (m_engines p))), (''on_ground'', JBool (m_isOnGround p))]"

definition parts_convertFromJson :: "json_object \<Rightarrow> CAircraftParts \<Rightarrow> fault + CAircraftParts" where
  "parts_convertFromJson ob p =
     (let p = (case j_value ob ''lights'' of None \<Rightarrow> p
                | v \<Rightarrow> p\<lparr>m_lights := lights_convertFromJson (j_toObject v) (m_lights p)\<rparr>);
          p = p\<lparr>m_gearDown := json_bool ob ''gear_down'' (m_gearDown p),
                m_flapsPercentage := json_int ob ''flaps_pct'' (m_flapsPercentage p),
                m_spoilersOut := json_bool ob ''spoilers_out'' (m_spoilersOut p)\<rparr>
      in and_then (case j_value ob ''engines'' of None \<Rightarrow> Inr p
                    | v \<Rightarrow> and_then (engines_convertFromJson (j_toObject v)) (\<lambda>es. Inr (p\<lparr>m_engines := es\<rparr>)))
           (\<lambda>p. Inr (p\<lparr>m_isOnGround := json_bool ob ''on_ground'' (m_isOnGround p)\<rparr>)))"

definition attributeNameIsFullJson :: string where
  "attributeNameIsFullJson = ''is_full_data''"

definition toIncrementalJson :: "CAircraftParts \<Rightarrow> json_object" where
  "toIncrementalJson p = j_insert attributeNameIsFullJson (JBool False) (j_remove attributeNameIsFullJson (parts_toJson p))"

definition toFullJson :: "CAircraftParts \<Rightarrow> json_object" where
  "toFullJson p = j_insert attributeNameIsFullJson (JBool True) (j_remove attributeNameIsFullJson (parts_toJson p))"

definition parts_list_setOnGround :: "bool \<Rightarrow> CAircraftParts list \<Rightarrow> int \<times> CAircraftParts list" where
  "parts_list_setOnGround onGround ps =
     (int (length (filter (\<lambda>p. m_isOnGround p \<noteq> onGround) ps)),
      map (\<lambda>p. if m_isOnGround p = onGround then p else p\<lparr>m_isOnGround := onGround\<rparr>) ps)"

subsection \<open>The JSON object of the parts\<close>

lemma of_list_wf: "list_all (\<lambda>kv. wf_json (snd kv)) kvs \<Longrightarrow> wf_object (j_of_list kvs)"
proof -
  have "list_all (\<lambda>kv. wf_json (snd kv)) kvs \<Longrightarrow> wf_object ob \<Longrightarrow> wf_object (fold (\<lambda>(k, v). j_insert k v) kvs ob)" for ob
    by (induction kvs arbitrary: ob) auto
  then show "list_all (\<lambda>kv. wf_json (snd kv)) kvs \<Longrightarrow> ?thesis" by (simp add: j_of_list_def)
qed

lemma lights_wf: "wf_object (lights_toJson l)"
  unfolding lights_toJson_def by (rule of_list_wf) simp

lemma lights_values: "map_of (lights_toJson l) = [''strobe_on'' \<mapsto> JBool (strobeOn l), ''landing_on'' \<mapsto> JBool (landingOn l),
    ''taxi_on'' \<mapsto> JBool (taxiOn l), ''beacon_on'' \<mapsto> JBool (beaconOn l), ''nav_on'' \<mapsto> JBool (navOn l), ''logo_on'' \<mapsto> JBool (logoOn l)]"
  by (rule ext) (simp add: lights_toJson_def j_of_list_def)

text \<open>The lights as JSON shows them: the rest from another object.\<close>

definition shown_lights :: "CAircraftLights \<Rightarrow> CAircraftLights \<Rightarrow> CAircraftLights" where
  "shown_lights l old = l\<lparr>lights_isNull := lights_isNull old, recognition := recognition old, cabin := cabin old\<rparr>"

lemma lights_read: "lights_convertFromJson (lights_toJson l) old = shown_lights l old"
  by (simp add: lights_convertFromJson_def lights_values json_bool_def shown_lights_def)

lemma engine_read: "engine_convertFromJson (engine_toJson e) old = old\<lparr>m_on := m_on e\<rparr>"
  by (simp add: engine_convertFromJson_def engine_toJson_def json_bool_def)

text \<open>Engines that a JSON object can hold: numbered from 1, each once, in the order of the keys.\<close>

definition engines_ok :: "CAircraftEngine list \<Rightarrow> bool" where
  "engines_ok es \<longleftrightarrow> sorted_wrt (<) (map (\<lambda>e. q_number (m_number e)) es) \<and> list_all (\<lambda>e. 0 < m_number e \<and> int32 (m_number e)) es"

lemma engines_wf: "wf_object (engines_toJson es)"
proof -
  have "wf_object ob \<Longrightarrow> wf_object (fold (\<lambda>e. j_insert (q_number (m_number e)) (JObject (engine_toJson e))) es ob)" for ob
    by (induction es arbitrary: ob) (auto simp: engine_toJson_def)
  then show ?thesis by (simp add: engines_toJson_def)
qed

lemma engines_value:
  "distinct (map (\<lambda>e. q_number (m_number e)) es) \<Longrightarrow>
    map_of (engines_toJson es) = map_of (map (\<lambda>e. (q_number (m_number e), JObject (engine_toJson e))) es)"
proof -
  have "distinct (map (\<lambda>e. q_number (m_number e)) es) \<Longrightarrow>
    map_of (fold (\<lambda>e. j_insert (q_number (m_number e)) (JObject (engine_toJson e))) es ob)
      = map_of ob ++ map_of (map (\<lambda>e. (q_number (m_number e), JObject (engine_toJson e))) es)" for ob
  proof (induction es arbitrary: ob)
    case (Cons e es)
    then have "q_number (m_number e) \<notin> dom (map_of (map (\<lambda>e. (q_number (m_number e), JObject (engine_toJson e))) es))"
      by (auto simp: dom_map_of_conv_image_fst)
    with Cons show ?case by (auto simp: map_add_def fun_eq_iff dom_def split: option.splits)
  qed simp
  then show "distinct (map (\<lambda>e. q_number (m_number e)) es) \<Longrightarrow> ?thesis" by (simp add: engines_toJson_def)
qed

lemma engines_shown: "engines_ok es \<Longrightarrow> engines_toJson es = map (\<lambda>e. (q_number (m_number e), JObject (engine_toJson e))) es"
proof (rule object_eqI [OF engines_wf])
  assume es: "engines_ok es"
  then have "distinct (map (\<lambda>e. q_number (m_number e)) es)" by (simp add: engines_ok_def strict_sorted_iff)
  then show "map_of (engines_toJson es) = map_of (map (\<lambda>e. (q_number (m_number e), JObject (engine_toJson e))) es)"
    by (rule engines_value)
  show "wf_object (map (\<lambda>e. (q_number (m_number e), JObject (engine_toJson e))) es)"
    using es by (simp add: wf_object_iff engines_ok_def comp_def engine_toJson_def list_all_iff)
qed

lemma engines_read: "engines_ok es \<Longrightarrow> engines_convertFromJson (engines_toJson es) = Inr es"
proof -
  assume es: "engines_ok es"
  have "list_all (\<lambda>e. 0 < m_number e \<and> int32 (m_number e)) es \<Longrightarrow>
    engines_from_members (map (\<lambda>e. (q_number (m_number e), JObject (engine_toJson e))) es) = Inr es"
  proof (induction es)
    case (Cons e es)
    have "CAircraftEngine_default\<lparr>m_on := m_on e, m_number := m_number e\<rparr> = e"
      by (simp add: CAircraftEngine_default_def)
    with Cons show ?case by (simp add: setNumber_def q_toInt_number engine_read)
  qed simp
  then show ?thesis using es by (simp add: engines_convertFromJson_def engines_shown engines_ok_def)
qed

lemma engines_kept:
  assumes "engines_ok es" "engines_ok es'"
  shows "kept_by (engines_toJson es) (engines_toJson es') \<longleftrightarrow> m_number ` set es \<subseteq> m_number ` set es'"
proof -
  have inj: "q_number (m_number e) = q_number (m_number e') \<longleftrightarrow> m_number e = m_number e'" if "e \<in> set es" "e' \<in> set es'" for e e'
    using that assms q_toInt_number by (auto simp: engines_ok_def list_all_iff) (metis q_toInt_number)
  have member: "kept_member (JObject (engine_toJson e)) (map_of (engines_toJson es') (q_number (m_number e)))
      \<longleftrightarrow> m_number e \<in> m_number ` set es'" if "e \<in> set es" for e
  proof (cases "map_of (engines_toJson es') (q_number (m_number e))")
    case None
    then have "m_number e \<notin> m_number ` set es'"
      using inj [OF that] by (auto simp: engines_shown [OF assms(2)] map_of_eq_None_iff image_iff)
    with None show ?thesis by simp
  next
    case (Some v)
    then obtain e' where "e' \<in> set es'" "q_number (m_number e) = q_number (m_number e')" "v = JObject (engine_toJson e')"
      by (auto simp: engines_shown [OF assms(2)] dest!: map_of_SomeD)
    with inj [OF that] Some show ?thesis by (auto simp: engine_toJson_def)
  qed
  show ?thesis
    unfolding engines_shown [OF assms(1)] using member by (auto simp: list_all_iff)
qed

lemma parts_wf: "wf_object (parts_toJson p)"
  unfolding parts_toJson_def by (rule of_list_wf) (simp add: lights_wf engines_wf)

lemma parts_values: "map_of (parts_toJson p) = [''lights'' \<mapsto> JObject (lights_toJson (m_lights p)),
    ''gear_down'' \<mapsto> JBool (m_gearDown p), ''flaps_pct'' \<mapsto> JNumber (d_of_int (m_flapsPercentage p)),
    ''spoilers_out'' \<mapsto> JBool (m_spoilersOut p), ''engines'' \<mapsto> JObject (engines_toJson (m_engines p)),
    ''on_ground'' \<mapsto> JBool (m_isOnGround p)]"
  by (rule ext) (simp add: parts_toJson_def j_of_list_def)

lemma toInt_of_int: "int32 i \<Longrightarrow> j_toInt (Some (JNumber (d_of_int i))) = i"
proof -
  assume i: "int32 i"
  then have "d_of_int i = Fin (of_int i)" by (intro mk_double_int) (auto simp: int32_def abs_less_iff)
  with i show ?thesis by simp
qed

text \<open>The parts as JSON shows them: the rest from another object.\<close>

definition shown_parts :: "CAircraftParts \<Rightarrow> CAircraftParts \<Rightarrow> CAircraftParts" where
  "shown_parts p old = old\<lparr>m_lights := shown_lights (m_lights p) (m_lights old), m_engines := m_engines p,
     m_flapsPercentage := m_flapsPercentage p, m_gearDown := m_gearDown p, m_spoilersOut := m_spoilersOut p,
     m_isOnGround := m_isOnGround p\<rparr>"

definition parts_ok :: "CAircraftParts \<Rightarrow> bool" where
  "parts_ok p \<longleftrightarrow> engines_ok (m_engines p) \<and> int32 (m_flapsPercentage p)"

lemma parts_read: "parts_ok p \<Longrightarrow> parts_convertFromJson (parts_toJson p) old = Inr (shown_parts p old)"
  by (simp add: parts_convertFromJson_def parts_values json_bool_def json_int_def toInt_of_int parts_ok_def lights_read
    engines_read shown_parts_def Let_def)

lemma lights_kept: "kept_by (lights_toJson l) (lights_toJson l')"
  by (simp add: kept_by_iff wf_distinct lights_wf lights_values del: kept_member.simps(1) fun_upd_apply) (simp split: if_splits)

lemma parts_kept:
  assumes "parts_ok p" "parts_ok q"
  shows "kept_by (parts_toJson p) (parts_toJson q) \<longleftrightarrow> m_number ` set (m_engines p) \<subseteq> m_number ` set (m_engines q)"
proof -
  have "kept_by (parts_toJson p) (parts_toJson q) \<longleftrightarrow> kept_by (engines_toJson (m_engines p)) (engines_toJson (m_engines q))"
    unfolding kept_by_iff [OF wf_distinct [OF parts_wf]] parts_values
    using lights_kept by (auto simp del: kept_member.simps(1))
  then show ?thesis using assms by (simp add: engines_kept parts_ok_def del: kept_member.simps(1))
qed

lemma increment_read:
  assumes "parts_ok p" "parts_ok q" "m_number ` set (m_engines p) \<subseteq> m_number ` set (m_engines q)"
  shows "parts_convertFromJson (applyIncrementalObject (parts_toJson p) (getIncrementalObject (parts_toJson p) (parts_toJson q))) old
    = Inr (shown_parts q old)"
  using applied_increment [OF parts_wf parts_wf, of p q] assms by (simp add: parts_kept parts_read del: kept_member.simps(1))

end
