(* ===== verification/FsdClientTypes.thy ===== *)
theory FsdClientTypes
  imports TimedLists AircraftParts FsdDataMessages FsdOffsets FsdStatistics Transponder TokenBucket TextMessages
begin

section \<open>The client's data\<close>

text \<open>
  \<open>blackcore/fsd/fsdclient.h\<close>: the members of \<open>CFSDClient\<close>, the values of other classes it keeps,
  what it asks of its surroundings (\<open>environment\<close>) and the signals it emits (\<open>fsd_event\<close>).
  Physical quantities are the numbers the code takes from them, in the unit it asks for.
\<close>

datatype ConnectionStatus = Connected | Connecting | Disconnecting | Disconnected

datatype LoginMode = Pilot | Observer

datatype FsdServerType = LegacyFsd | Vatsim

datatype CServerType =
  Server_Unspecified | FSDServerVatsim | FSDServer | VoiceServerVatsim | VoiceServer | WebService

datatype Ecosystem =
  System_Unspecified | NoSystem | System_VATSIM | SwiftTest | Swift | PrivateFSD

datatype MessageType =
  Msg_Unknown | Msg_AddAtc | Msg_AddPilot | Msg_AtcDataUpdate | Msg_AuthChallenge
| Msg_AuthResponse | Msg_ClientIdentification | Msg_ClientQuery | Msg_ClientResponse
| Msg_DeleteATC | Msg_DeletePilot | Msg_EuroscopeSimData | Msg_FlightPlan | Msg_ProController
| Msg_FsdIdentification | Msg_KillRequest | Msg_PilotDataUpdate | Msg_VisualPilotDataUpdate
| Msg_VisualPilotDataPeriodic | Msg_VisualPilotDataStopped | Msg_VisualPilotDataToggle | Msg_Ping
| Msg_Pong | Msg_ServerError | Msg_ServerHeartbeat | Msg_RegistrationInfo | Msg_TextMessage
| Msg_PilotClientCom | Msg_RevBClientParts | Msg_RevBPilotDescription | Msg_Rehost

text \<open>The bits of \<open>CFsdSetup::SendReceiveDetails\<close> and of \<open>CClient::Capabilities\<close>.\<close>

definition SendAircraftParts :: "32 word" where "SendAircraftParts = push_bit 0 1"
definition SendInterimPositions :: "32 word" where "SendInterimPositions = push_bit 1 1"
definition ReceiveAircraftParts :: "32 word" where "ReceiveAircraftParts = push_bit 3 1"
definition ReceiveInterimPositions :: "32 word" where "ReceiveInterimPositions = push_bit 4 1"
definition Force3LetterAirlineICAO :: "32 word" where "Force3LetterAirlineICAO = push_bit 6 1"
definition SendVisualPositions :: "32 word" where "SendVisualPositions = push_bit 7 1"
definition ReceiveEuroscopeSimData :: "32 word" where "ReceiveEuroscopeSimData = push_bit 8 1"

definition testFlag :: "32 word \<Rightarrow> 32 word \<Rightarrow> bool" where
  "testFlag flags f \<longleftrightarrow> flags AND f = f \<and> (f \<noteq> 0 \<or> flags = f)"

definition FsdWithInterimPositions :: "32 word" where "FsdWithInterimPositions = push_bit 0 1"
definition FsdWithIcaoCodes :: "32 word" where "FsdWithIcaoCodes = push_bit 1 1"
definition FsdAtisCanBeReceived :: "32 word" where "FsdAtisCanBeReceived = push_bit 2 1"
definition FsdWithAircraftConfig :: "32 word" where "FsdWithAircraftConfig = push_bit 3 1"
definition FsdWithVisualPositions :: "32 word" where "FsdWithVisualPositions = push_bit 6 1"

record server_data =
  srv_name :: string
  srv_address :: string
  srv_serverType :: CServerType
  srv_ecosystem :: Ecosystem
  srv_userId :: string
  srv_userPassword :: string
  srv_userRealName :: string
  srv_userRealNameAndHomeBase :: string
  srv_sendReceiveDetails :: "32 word"
  srv_isConnected :: bool

text \<open>The own aircraft as the provider gives it: degrees, feet, knots, metres per second, radians
  per second, kHz.\<close>

record own_aircraft =
  own_callsign :: CCallsign
  own_latitude :: double
  own_longitude :: double
  own_altitude_ft :: double
  own_altitude_ft_int :: int
  own_pressureAltitude_ft_int :: int
  own_groundElevation_ft :: double
  own_groundSpeed_kts_int :: int
  own_pitch :: double
  own_bank :: double
  own_heading360 :: double
  own_onGround :: bool
  own_velocityX :: double
  own_velocityY :: double
  own_velocityZ :: double
  own_pitchVelocity :: double
  own_rollVelocity :: double
  own_headingVelocity :: double
  own_transponderMode :: TransponderMode
  own_transponderCode :: int
  own_com1_MHz :: double
  own_com1_kHz :: int
  own_com2_kHz :: int
  own_modelString :: string
  own_swiftLiveryString :: string
  own_airlineDesignator :: string
  own_airlineVDesignator :: string
  own_aircraftDesignator :: string
  own_aircraftCombinedType :: string
  own_parts :: CAircraftParts

text \<open>A flight plan as the client takes it apart: the altitude already in VATSIM's notation, the
  times as hours and minutes, the take-off times as the number of their four digits.\<close>

datatype FlightRules = VFR | IFR | SVFR | DVFR | FlightRules_UNKNOWN

record CFlightPlan =
  fp_route :: string
  fp_remarks :: string
  fp_asFpVatsimAltitudeString :: string
  fp_combinedPrefixIcaoSuffix :: string
  fp_aircraftDesignator :: string
  fp_flightRules :: FlightRules
  fp_enrouteHours :: int
  fp_enrouteMinutes :: int
  fp_fuelHours :: int
  fp_fuelMinutes :: int
  fp_cruiseTrueAirspeed_kts :: int
  fp_originAirport :: string
  fp_destinationAirport :: string
  fp_alternateAirport :: string
  fp_takeoffTimePlanned_hhmm :: int
  fp_takeoffTimeActual_hhmm :: int

record AtisMessage =
  voiceRoom :: string
  textLines :: "string list"
  zuluLogoff :: string
  lineCount :: int

definition AtisMessage_default :: AtisMessage where
  "AtisMessage_default = \<lparr>voiceRoom = [], textLines = [], zuluLogoff = [], lineCount = 0\<rparr>"

record PendingAtisQuery =
  m_queryTime :: int
  m_atisMessage :: "string list"

record atc_station =
  st_callsign :: CCallsign
  st_frequency_kHz :: int
  st_latitude :: double
  st_longitude :: double
  st_range_NM :: int

record situation = timestamp_with_offset +
  sit_callsign :: CCallsign
  sit_latitude :: double
  sit_longitude :: double
  sit_altitude_ft :: double
  sit_heading :: double
  sit_pitch :: double
  sit_bank :: double
  sit_groundSpeed_kts :: "double option"
  sit_pressureAltitude_ft :: "int option"
  sit_onGround :: "bool option"

datatype fsd_event =
  atcDataUpdateReceived CCallsign int double double int
| deleteAtcReceived string
| deletePilotReceived string
| pilotDataUpdateReceived situation CTransponder
| pongReceived string double
| flightPlanReceived CCallsign FlightPlan FlightRules string string string
| textMessagesReceived "CTextMessage list"
| aircraftConfigReceived string json_object int
| validAtcResponseReceived string bool
| capabilityResponseReceived CCallsign "32 word"
| com1FrequencyResponseReceived string double
| realNameResponseReceived string string
| serverResponseReceived string string
| planeInformationReceived string string string string
| customPilotPacketReceived string "string list"
| interimPilotDataUpdatedReceived situation
| visualPilotDataUpdateReceived situation
| euroscopeSimDataUpdatedReceived situation CAircraftParts int string string
| rawFsdMessage string
| planeInformationFsinnReceived CCallsign string string string string
| revbAircraftConfigReceived string string int
| atisReplyReceived CCallsign string
| atisLogoffTimeReplyReceived CCallsign string
| textMessageSent CTextMessage
| connectionStatusChanged ConnectionStatus ConnectionStatus
| severeNetworkError string
| killRequestReceived string

text \<open>
  The surroundings: the clock, the own aircraft, the aircraft in range, the geographically closest
  of some stations, the authentication library (\<open>vatsim_auth\<close>, not part of the sources; \<open>'au\<close> is
  its context), Qt's compact JSON text of an object and its parser (\<open>None\<close> for an error), the machine's identification and local address, and the aircraft's simulator name.
\<close>

record 'au environment =
  now :: int
  own :: own_aircraft
  isAircraftInRange :: "CCallsign \<Rightarrow> bool"
  closestStation :: "atc_station list \<Rightarrow> atc_station"
  auth_generate_response :: "'au \<Rightarrow> string \<Rightarrow> string \<times> 'au"
  auth_generate_challenge :: "'au \<Rightarrow> string \<times> 'au"
  auth_set_initial_challenge :: "'au \<Rightarrow> string \<Rightarrow> 'au"
  auth_get_client_id :: "'au \<Rightarrow> 16 word"
  auth_create :: "16 word \<Rightarrow> string \<Rightarrow> 'au"
  json_toText :: "json_object \<Rightarrow> string"
  json_fromText :: "string \<Rightarrow> json option"
  system_unique_id :: string
  localAddress :: string
  simulatorNameAndVersion :: string

record 'au fsd_client =
  m_connectionStatus :: ConnectionStatus
  m_loginMode :: LoginMode
  m_server :: server_data
  m_serverType :: FsdServerType
  m_simType :: SimType
  m_pilotRating :: PilotRating
  m_atcRating :: AtcRating
  m_clientName :: string
  m_hostApplication :: string
  m_versionMajor :: int
  m_versionMinor :: int
  m_protocolRevision :: int
  m_capabilities :: capabilities
  m_ownCallsign :: CCallsign
  m_partnerCallsign :: CCallsign
  m_ownAircraftIcaoCode :: string
  m_ownAirlineIcaoCode :: string
  m_ownLivery :: string
  m_ownModelString :: string
  m_sendLiveryString :: bool
  m_sendModelString :: bool
  m_unitTestMode :: bool
  m_rawFsdMessagesEnabled :: bool
  m_filterPasswordFromLogin :: bool
  m_clientAuth :: 'au
  m_serverAuth :: 'au
  m_lastServerAuthChallenge :: string
  m_loginSince :: int
  m_rehosting :: bool
  m_messageTypeMapping :: "(string \<times> MessageType) list"
  m_sentAircraftConfig :: CAircraftParts
  m_tokenBucket :: CTokenBucket
  m_interimPositionReceivers :: "CCallsign list"
  m_textMessagesToConsolidate :: "CTextMessage list"
  m_dsSendTextMessage_active :: bool
  m_inputsCount :: int
  m_mapAtisMessages :: "string \<rightharpoonup> AtisMessage"
  m_pendingAtisQueries :: "string \<rightharpoonup> PendingAtisQuery"
  offsets :: offset_state
  m_atcStations :: "atc_station list"
  stats :: statistics_state
  m_queuedFsdMessages :: "string list"
  m_stoppedSendingVisualPositions :: bool
  m_serverWantsVisualPositions :: bool
  m_visualPositionUpdateSentCount :: "32 word"
  m_positionUpdateTimer :: bool
  m_interimPositionUpdateTimer :: bool
  m_visualPositionUpdateTimer :: bool
  m_scheduledConfigUpdate :: bool
  m_fsdSendMessageTimer :: bool
  m_socketIsOpen :: bool
  m_currentEcosystem :: Ecosystem
  m_lastEcosystem :: Ecosystem
  written :: "string list"
  emitted :: "fsd_event list"

definition emit :: "fsd_event \<Rightarrow> 'au fsd_client \<Rightarrow> 'au fsd_client" where
  "emit e c = c\<lparr>emitted := emitted c @ [e]\<rparr>"

end
