(* ===== verification/FsdClientSend.thy ===== *)
theory FsdClientSend
  imports FsdClientTypes
begin

section \<open>Sending\<close>

text \<open>
  \<open>fsdclient.cpp\<close>, the half that writes: the queue and the socket, and one function per \<open>send...\<close>
  method. Each method runs in the client's own thread (the branch that moves a call there is not
  modelled). The socket is the list of the texts written to it, the codec that turns them into
  bytes is left out, a closed socket takes nothing.
\<close>

subsection \<open>Raw messages\<close>

text \<open>The expression \<open>^(#AP\w+:SERVER:\d+:)[^:]+(:\d+:\d+:\d+:.+)$\<close>: no part but the last may hold a
  colon, so the parts between colons decide. The dot stops at a line feed; the dollar accepts one.\<close>

definition is_word :: "char \<Rightarrow> bool" where
  "is_word c \<longleftrightarrow> is_digit c \<or> is_AZ c \<or> is_AZ (to_upper c) \<and> is_lower c \<or> c = CHR ''_''"

definition digits1 :: "string \<Rightarrow> bool" where
  "digits1 s \<longleftrightarrow> s \<noteq> [] \<and> list_all is_digit s"

definition dots1 :: "string \<Rightarrow> bool" where
  "dots1 s \<longleftrightarrow> (let t = (if s \<noteq> [] \<and> last s = CHR 0x0A then butlast s else s) in
     t \<noteq> [] \<and> CHR 0x0A \<notin> set t)"

definition hide_password :: "string \<Rightarrow> string" where
  "hide_password s =
     (let parts = q_split CHR '':'' s in
      if 8 \<le> length parts
         \<and> q_startsWith (parts ! 0) ''#AP'' \<and> drop 3 (parts ! 0) \<noteq> [] \<and> list_all is_word (drop 3 (parts ! 0))
         \<and> parts ! 1 = ''SERVER'' \<and> digits1 (parts ! 2) \<and> parts ! 3 \<noteq> []
         \<and> digits1 (parts ! 4) \<and> digits1 (parts ! 5) \<and> digits1 (parts ! 6)
         \<and> dots1 (q_join '':'' (drop 7 parts))
      then q_join '':'' (parts[3 := ''<password>'']) else s)"

definition emitRawFsdMessage :: "string \<Rightarrow> bool \<Rightarrow> 'au fsd_client \<Rightarrow> 'au fsd_client" where
  "emitRawFsdMessage fsdMessage isSent c =
     (if \<not> m_unitTestMode c \<and> \<not> m_rawFsdMessagesEnabled c then c
      else let filter_it = m_filterPasswordFromLogin c \<and> q_startsWith fsdMessage ''#AP'';
               fsdMessageFiltered = (if filter_it then hide_password fsdMessage else fsdMessage);
               c = (if filter_it then c\<lparr>m_filterPasswordFromLogin := False\<rparr> else c);
               prefix = (if isSent then ''FSD Sent=>'' else ''FSD Recv=>'')
           in emit (rawFsdMessage (prefix @ fsdMessageFiltered)) c)"

definition sendMessageString :: "string \<Rightarrow> 'au fsd_client \<Rightarrow> 'au fsd_client" where
  "sendMessageString message c =
     (if message = [] then c
      else let c = (if \<not> m_unitTestMode c \<and> m_socketIsOpen c then c\<lparr>written := written c @ [message]\<rparr> else c)
           in emitRawFsdMessage (q_trimmed message) True c)"

subsection \<open>The queue\<close>

definition sendDirectMessage ::
    "string \<Rightarrow> ('a message_base_scheme \<Rightarrow> string list) \<Rightarrow> 'a message_base_scheme \<Rightarrow> 'au fsd_client \<Rightarrow> 'au fsd_client" where
  "sendDirectMessage pdu toTokens message c =
     (if \<not> m_isValid message then c
      else sendMessageString (messageToFSDString pdu toTokens message) c)"

definition sendQueudedMessage ::
    "string \<Rightarrow> ('a message_base_scheme \<Rightarrow> string list) \<Rightarrow> 'a message_base_scheme \<Rightarrow> 'au fsd_client \<Rightarrow> 'au fsd_client" where
  "sendQueudedMessage pdu toTokens message c =
     (if \<not> m_isValid message then c
      else if m_unitTestMode c then sendDirectMessage pdu toTokens message c
      else c\<lparr>m_queuedFsdMessages := m_queuedFsdMessages c @ [messageToFSDString pdu toTokens message]\<rparr>)"

text \<open>\<open>m_queuedFsdMessages.dequeue()\<close>, which must not be empty, and sending what it returns.\<close>

definition dequeue_and_send :: "'au fsd_client \<Rightarrow> fault + 'au fsd_client" where
  "dequeue_and_send c =
     (case m_queuedFsdMessages c of
        [] \<Rightarrow> Inl EmptyContainer
      | message # rest \<Rightarrow> Inr (sendMessageString message (c\<lparr>m_queuedFsdMessages := rest\<rparr>)))"

fun repeat_send :: "nat \<Rightarrow> 'au fsd_client \<Rightarrow> fault + 'au fsd_client" where
  "repeat_send 0 c = Inr c"
| "repeat_send (Suc n) c = and_then (dequeue_and_send c) (repeat_send n)"

definition sendQueuedMessage :: "'au fsd_client \<Rightarrow> fault + 'au fsd_client" where
  "sendQueuedMessage c =
     (if m_queuedFsdMessages c = [] then Inr c
      else let s = length (m_queuedFsdMessages c) in
        and_then (dequeue_and_send c) (\<lambda>c.
        and_then (if s > 5 then dequeue_and_send c else Inr c) (\<lambda>c.
        and_then (if s > 10 then dequeue_and_send c else Inr c) (\<lambda>c.
        and_then (if s > 20 then dequeue_and_send c else Inr c) (\<lambda>c.
        and_then (if s > 30 then dequeue_and_send c else Inr c) (\<lambda>c.
        if s > 50 then
          let sendNo = 10;
              sendNo = (if s > 75 then 20 else sendNo);
              sendNo = (if s > 100 then 30 else sendNo)
          in repeat_send sendNo c
        else Inr c))))))"

text \<open>A call of \<open>increaseStatisticsValue\<close> whose value is not used.\<close>

definition count :: "'au environment \<Rightarrow> string \<Rightarrow> string \<Rightarrow> 'au fsd_client \<Rightarrow> 'au fsd_client" where
  "count env identifier appendix c =
     c\<lparr>stats := snd (increaseStatisticsValue (now env) identifier appendix (stats c))\<rparr>"

definition getOwnCallsignAsString :: "'au fsd_client \<Rightarrow> string" where
  "getOwnCallsignAsString c = asString (m_ownCallsign c)"

subsection \<open>Server settings\<close>

definition getSetupForServer :: "'au fsd_client \<Rightarrow> 32 word" where
  "getSetupForServer c = srv_sendReceiveDetails (m_server c)"

definition isInterimPositionSendingEnabledForServer :: "'au fsd_client \<Rightarrow> bool" where
  "isInterimPositionSendingEnabledForServer c \<longleftrightarrow> getSetupForServer c AND SendInterimPositions \<noteq> 0"

definition isInterimPositionReceivingEnabledForServer :: "'au fsd_client \<Rightarrow> bool" where
  "isInterimPositionReceivingEnabledForServer c \<longleftrightarrow> getSetupForServer c AND ReceiveInterimPositions \<noteq> 0"

definition isVisualPositionSendingEnabledForServer :: "'au fsd_client \<Rightarrow> bool" where
  "isVisualPositionSendingEnabledForServer c \<longleftrightarrow> getSetupForServer c AND SendVisualPositions \<noteq> 0"

definition isConnected :: "'au fsd_client \<Rightarrow> bool" where
  "isConnected c \<longleftrightarrow> m_connectionStatus c = Connected"

definition isDisconnected :: "'au fsd_client \<Rightarrow> bool" where
  "isDisconnected c \<longleftrightarrow> m_connectionStatus c = Disconnected"

definition isPendingConnection :: "'au fsd_client \<Rightarrow> bool" where
  "isPendingConnection c \<longleftrightarrow> m_connectionStatus c = Connecting \<or> m_connectionStatus c = Disconnecting"

subsection \<open>Positions\<close>

definition sendAtcDataUpdate :: "double \<Rightarrow> double \<Rightarrow> 'au fsd_client \<Rightarrow> 'au fsd_client" where
  "sendAtcDataUpdate latitude longitude c =
     sendQueudedMessage AtcDataUpdate_pdu AtcDataUpdate_toTokens
       (AtcDataUpdate (getOwnCallsignAsString c) 199998 OBS 300 AtcRating_Observer latitude longitude 0) c"

definition minVelocity :: rat where
  "minVelocity = (case mk_double (5 / 100000) of Fin r \<Rightarrow> r | _ \<Rightarrow> 0)"

definition own_visual_update :: "'au environment \<Rightarrow> 'au fsd_client \<Rightarrow> VisualPilotDataUpdate" where
  "own_visual_update env c =
     (let a = own env in
      VisualPilotDataUpdate (getOwnCallsignAsString c) (own_latitude a) (own_longitude a) (own_altitude_ft a)
        (d_sub (own_altitude_ft a) (own_groundElevation_ft a)) (own_pitch a) (own_bank a) (own_heading360 a)
        (own_velocityX a) (own_velocityY a) (own_velocityZ a)
        (own_pitchVelocity a) (own_rollVelocity a) (own_headingVelocity a) (Fin 0))"

definition stands_still :: "own_aircraft \<Rightarrow> bool" where
  "stands_still a \<longleftrightarrow> d_abs_less (own_velocityX a) minVelocity \<and> d_abs_less (own_velocityY a) minVelocity
     \<and> d_abs_less (own_velocityZ a) minVelocity \<and> d_abs_less (own_pitchVelocity a) minVelocity
     \<and> d_abs_less (own_rollVelocity a) minVelocity \<and> d_abs_less (own_headingVelocity a) minVelocity"

text \<open>The last part of \<open>sendVisualPilotDataUpdate\<close>: which of the three messages goes out.\<close>

definition send_visual_message :: "'au environment \<Rightarrow> 'au fsd_client \<Rightarrow> 'au fsd_client" where
  "send_visual_message env c =
     (let visualPilotDataUpdate = own_visual_update env c in
      if m_stoppedSendingVisualPositions c then
        sendQueudedMessage VisualPilotDataStopped_pdu VisualPilotDataStopped_toTokens
          (VisualPilotDataUpdate_toStopped visualPilotDataUpdate) c
      else let sentCount = m_visualPositionUpdateSentCount c;
               c = c\<lparr>m_visualPositionUpdateSentCount := sentCount + 1\<rparr> in
        if sentCount mod 25 = 0 then
          sendQueudedMessage VisualPilotDataPeriodic_pdu VisualPilotDataPeriodic_toTokens
            (VisualPilotDataUpdate_toPeriodic visualPilotDataUpdate) c
        else sendQueudedMessage VisualPilotDataUpdate_pdu VisualPilotDataUpdate_toTokens visualPilotDataUpdate c)"

definition sendVisualPilotDataUpdate :: "'au environment \<Rightarrow> bool \<Rightarrow> 'au fsd_client \<Rightarrow> 'au fsd_client" where
  "sendVisualPilotDataUpdate env slowUpdate c =
     (if isDisconnected c \<and> \<not> m_unitTestMode c then c
      else if m_loginMode c = Observer \<or> \<not> isVisualPositionSendingEnabledForServer c then c
      else if slowUpdate then send_visual_message env c
      else if stands_still (own env) then
        (if m_stoppedSendingVisualPositions c then c
         else let c = c\<lparr>m_stoppedSendingVisualPositions := True, m_visualPositionUpdateSentCount := 0\<rparr> in
           if \<not> m_serverWantsVisualPositions c then c else send_visual_message env c)
      else let c = c\<lparr>m_stoppedSendingVisualPositions := False\<rparr> in
        if \<not> m_serverWantsVisualPositions c then c else send_visual_message env c)"

definition c_int16 :: "int \<Rightarrow> int" where
  "c_int16 i = signed_take_bit 15 i"

definition sendPilotDataUpdate :: "'au environment \<Rightarrow> 'au fsd_client \<Rightarrow> 'au fsd_client" where
  "sendPilotDataUpdate env c =
     (let a = own env in
      if isDisconnected c \<and> \<not> m_unitTestMode c then c
      else if m_loginMode c = Observer then sendAtcDataUpdate (own_latitude a) (own_longitude a) c
      else let c = (if isVisualPositionSendingEnabledForServer c then sendVisualPilotDataUpdate env True c else c)
        in sendQueudedMessage PilotDataUpdate_pdu PilotDataUpdate_toTokens
             (PilotDataUpdate (own_transponderMode a) (getOwnCallsignAsString c) (c_int16 (own_transponderCode a))
               (m_pilotRating c) (own_latitude a) (own_longitude a) (own_altitude_ft_int a)
               (own_pressureAltitude_ft_int a) (own_groundSpeed_kts_int a) (own_pitch a) (own_bank a)
               (own_heading360 a) (own_onGround a)) c)"

definition sendInterimPilotDataUpdate :: "'au environment \<Rightarrow> 'au fsd_client \<Rightarrow> 'au fsd_client" where
  "sendInterimPilotDataUpdate env c =
     (let a = own env in
      if isDisconnected c then c
      else fold (\<lambda>receiver c. sendQueudedMessage InterimPilotDataUpdate_pdu InterimPilotDataUpdate_toTokens
          (InterimPilotDataUpdate (getOwnCallsignAsString c) (asString receiver) (own_latitude a) (own_longitude a)
            (own_altitude_ft_int a) (own_groundSpeed_kts_int a) (own_pitch a) (own_bank a) (own_heading360 a)
            (own_onGround a)) c) (m_interimPositionReceivers c) c)"

end
