(* ===== verification/FsdClientQueries.thy ===== *)
theory FsdClientQueries
  imports FsdClientSend
begin

section \<open>Sending queries, answers and texts\<close>

text \<open>The other \<open>send...\<close> methods of \<open>fsdclient.cpp\<close>, in the order of the file.\<close>

definition sendPing :: "'au environment \<Rightarrow> string \<Rightarrow> 'au fsd_client \<Rightarrow> 'au fsd_client" where
  "sendPing env receiver c =
     (let timeString = q_number (now env) in
      count env ''sendPing'' ''''
        (sendQueudedMessage Ping_pdu Ping_toTokens (Ping (getOwnCallsignAsString c) receiver timeString) c))"

subsection \<open>Client queries\<close>

abbreviation queue_query :: "string \<Rightarrow> ClientQueryType \<Rightarrow> string list \<Rightarrow> 'au fsd_client \<Rightarrow> 'au fsd_client" where
  "queue_query receiver queryType queryData c \<equiv>
     sendQueudedMessage ClientQuery_pdu ClientQuery_toTokens
       (ClientQuery (getOwnCallsignAsString c) receiver queryType queryData) c"

definition sendClientQuery ::
    "'au environment \<Rightarrow> ClientQueryType \<Rightarrow> CCallsign \<Rightarrow> string list \<Rightarrow> 'au fsd_client \<Rightarrow> 'au fsd_client" where
  "sendClientQuery env queryType receiver queryData c =
     (let receiverCallsign = getFsdCallsignString receiver;
          done = count env ''sendClientQuery'' (toQString_ClientQueryType queryType)
      in case queryType of
        Query_Unknown \<Rightarrow> c
      | Query_IsValidATC \<Rightarrow> done (queue_query ''SERVER'' Query_IsValidATC queryData c)
      | Query_Capabilities \<Rightarrow> done (queue_query receiverCallsign Query_Capabilities [] c)
      | Query_Com1Freq \<Rightarrow> done (queue_query receiverCallsign Query_Com1Freq [] c)
      | Query_RealName \<Rightarrow> done (queue_query receiverCallsign Query_RealName [] c)
      | Query_Server \<Rightarrow> done (queue_query receiverCallsign Query_Server [] c)
      | Query_ATIS \<Rightarrow>
          (let c = queue_query receiverCallsign Query_ATIS [] c;
               c = (if m_serverType c \<noteq> Vatsim
                    then c\<lparr>m_pendingAtisQueries := (m_pendingAtisQueries c)(asString receiver \<mapsto>
                           \<lparr>m_queryTime = now env, m_atisMessage = []\<rparr>)\<rparr> else c)
           in done c)
      | Query_PublicIP \<Rightarrow> done (queue_query receiverCallsign Query_PublicIP [] c)
      | Query_INF \<Rightarrow> done (queue_query receiverCallsign Query_INF [] c)
      | Query_FP \<Rightarrow> if queryData = [] then c else done (queue_query ''SERVER'' Query_FP queryData c)
      | Query_AircraftConfig \<Rightarrow>
          if queryData = [] then c else done (queue_query receiverCallsign Query_AircraftConfig queryData c)
      | Query_EuroscopeSimData \<Rightarrow> done (queue_query ''@94835'' Query_EuroscopeSimData [''1''] c))"

definition sendClientQueryIsValidAtc :: "'au environment \<Rightarrow> CCallsign \<Rightarrow> 'au fsd_client \<Rightarrow> 'au fsd_client" where
  "sendClientQueryIsValidAtc env callsign = sendClientQuery env Query_IsValidATC CCallsign_default [asString callsign]"

definition sendClientQueryCapabilities :: "'au environment \<Rightarrow> CCallsign \<Rightarrow> 'au fsd_client \<Rightarrow> 'au fsd_client" where
  "sendClientQueryCapabilities env callsign = sendClientQuery env Query_Capabilities callsign []"

definition sendClientQueryCom1Freq :: "'au environment \<Rightarrow> CCallsign \<Rightarrow> 'au fsd_client \<Rightarrow> 'au fsd_client" where
  "sendClientQueryCom1Freq env callsign = sendClientQuery env Query_Com1Freq callsign []"

definition sendClientQueryRealName :: "'au environment \<Rightarrow> CCallsign \<Rightarrow> 'au fsd_client \<Rightarrow> 'au fsd_client" where
  "sendClientQueryRealName env callsign = sendClientQuery env Query_RealName callsign []"

definition sendClientQueryServer :: "'au environment \<Rightarrow> CCallsign \<Rightarrow> 'au fsd_client \<Rightarrow> 'au fsd_client" where
  "sendClientQueryServer env callsign = sendClientQuery env Query_Server callsign []"

definition sendClientQueryAtis :: "'au environment \<Rightarrow> CCallsign \<Rightarrow> 'au fsd_client \<Rightarrow> 'au fsd_client" where
  "sendClientQueryAtis env callsign = sendClientQuery env Query_ATIS callsign []"

definition sendClientQueryFlightPlan :: "'au environment \<Rightarrow> CCallsign \<Rightarrow> 'au fsd_client \<Rightarrow> 'au fsd_client" where
  "sendClientQueryFlightPlan env callsign = sendClientQuery env Query_FP CCallsign_default [asString callsign]"

text \<open>Characters above 7 bits become \<open>\u\<close> and four hexadecimal digits.\<close>

definition convertToUnicodeEscaped :: "string \<Rightarrow> string" where
  "convertToUnicodeEscaped str = concat (map (\<lambda>ch. let code = of_char ch :: nat in
     if code < 128 then [ch] else [CHR 0x5C, CHR ''u''] @ right_justified 4 CHR ''0'' (q_number_nat 16 code)) str)"

text \<open>\<open>{"request":"full"}\<close>.\<close>

definition aircraftConfigRequest :: json_object where
  "aircraftConfigRequest = [(''request'', JString ''full'')]"

definition sendClientQueryAircraftConfig :: "'au environment \<Rightarrow> CCallsign \<Rightarrow> 'au fsd_client \<Rightarrow> 'au fsd_client" where
  "sendClientQueryAircraftConfig env callsign =
     sendClientQuery env Query_AircraftConfig callsign [convertToUnicodeEscaped (json_toText env aircraftConfigRequest)]"

subsection \<open>Text messages\<close>

definition sendRadioMessage :: "'au environment \<Rightarrow> int list \<Rightarrow> string \<Rightarrow> 'au fsd_client \<Rightarrow> 'au fsd_client" where
  "sendRadioMessage env frequencieskHz message c =
     (let receivers = map (\<lambda>frequency. ''@'' @ q_number (c_int (frequency - 100000))) frequencieskHz in
      count env ''sendTextMessages'' ''''
        (sendQueudedMessage TextMessage_pdu TextMessage_toTokens
          (TextMessage (getOwnCallsignAsString c) (q_join ''&'' receivers) message) c))"

definition send_private :: "'au environment \<Rightarrow> CTextMessage \<Rightarrow> 'au fsd_client \<Rightarrow> 'au fsd_client" where
  "send_private env message c =
     (if isEmpty (m_recipientCallsign message) then c
      else emit (textMessageSent message) (count env ''sendTextMessages.PM'' ''''
        (sendQueudedMessage TextMessage_pdu TextMessage_toTokens
          (TextMessage (getOwnCallsignAsString c) (getFsdCallsignString (m_recipientCallsign message)) (m_message message)) c)))"

text \<open>A station within the channel gives its own frequency; of several the closest one does.\<close>

definition send_radio :: "'au environment \<Rightarrow> CTextMessage \<Rightarrow> 'au fsd_client \<Rightarrow> 'au fsd_client" where
  "send_radio env message c =
     (let stations = (if m_frequency message = None then [] else
            filter (\<lambda>s. isWithinChannelSpacing25 (m_frequency message) (Some (st_frequency_kHz s))) (m_atcStations c));
          freqkHz = (if stations = [] then (case m_frequency message of Some f \<Rightarrow> f | None \<Rightarrow> 0)
                     else st_frequency_kHz (closestStation env stations))
      in emit (textMessageSent message) (count env ''sendTextMessages.FREQ'' ''''
           (sendRadioMessage env [freqkHz] (m_message message) c)))"

definition sendTextMessages :: "'au environment \<Rightarrow> CTextMessage list \<Rightarrow> 'au fsd_client \<Rightarrow> 'au fsd_client" where
  "sendTextMessages env messages c =
     (if messages = [] then c
      else let c = fold (send_private env) (markedAsSent (getPrivateMessages messages)) c
        in fold (send_radio env) (markedAsSent (getRadioMessages messages)) c)"

definition sendTextMessage :: "'au environment \<Rightarrow> CTextMessage \<Rightarrow> 'au fsd_client \<Rightarrow> 'au fsd_client" where
  "sendTextMessage env message c = (if message_isEmpty message then c else sendTextMessages env [message] c)"

datatype TextMessageGroups = AllClients | AllAtcClients | AllPilotClients | AllSups

fun group_receiver :: "TextMessageGroups \<Rightarrow> string" where
  "group_receiver AllClients = ''*''"
| "group_receiver AllAtcClients = ''*A''"
| "group_receiver AllPilotClients = ''*P''"
| "group_receiver AllSups = ''*S''"

definition sendTextMessage_group ::
    "'au environment \<Rightarrow> TextMessageGroups \<Rightarrow> string \<Rightarrow> 'au fsd_client \<Rightarrow> 'au fsd_client" where
  "sendTextMessage_group env receiverGroup message c =
     (if message = [] then c
      else let receiver = group_receiver receiverGroup;
               own = getOwnCallsignAsString c;
               c = sendQueudedMessage TextMessage_pdu TextMessage_toTokens (TextMessage own receiver message) c;
               c = (if receiver = ''*S''
                    then emit (textMessageSent (markAsSent
                      (CTextMessage_private message (CCallsign own NoHint) (CCallsign receiver NoHint)))) c
                    else c)
           in count env ''sendTextMessages'' '''' c)"

definition sendTextMessage_to :: "'au environment \<Rightarrow> string \<Rightarrow> string \<Rightarrow> 'au fsd_client \<Rightarrow> 'au fsd_client" where
  "sendTextMessage_to env receiver message =
     sendTextMessage env (CTextMessage_private message (own_callsign (own env)) (CCallsign receiver NoHint))"

subsection \<open>Flight plans and plane information\<close>

definition noColons :: "string \<Rightarrow> string" where
  "noColons input = filter (\<lambda>c. c \<noteq> CHR '':'') input"

fun getFlightType :: "FlightRules \<Rightarrow> FlightType" where
  "getFlightType IFR = FlightType_IFR"
| "getFlightType VFR = FlightType_VFR"
| "getFlightType SVFR = FlightType_SVFR"
| "getFlightType DVFR = FlightType_DVFR"
| "getFlightType FlightRules_UNKNOWN = FlightType_IFR"

definition sendFlightPlan :: "'au environment \<Rightarrow> CFlightPlan \<Rightarrow> 'au fsd_client \<Rightarrow> 'au fsd_client" where
  "sendFlightPlan env flightPlan c =
     (let route = filter (\<lambda>x. x \<noteq> CHR '':'') (fp_route flightPlan);
          remarks = filter (\<lambda>x. x \<noteq> CHR '':'') (fp_remarks flightPlan);
          act = fp_combinedPrefixIcaoSuffix flightPlan;
          act = (if act = [] then fp_aircraftDesignator flightPlan else act);
          fp = FlightPlan (getOwnCallsignAsString c) ''SERVER'' (getFlightType (fp_flightRules flightPlan)) act
            (fp_cruiseTrueAirspeed_kts flightPlan) (fp_originAirport flightPlan)
            (fp_takeoffTimePlanned_hhmm flightPlan) (fp_takeoffTimeActual_hhmm flightPlan)
            (fp_asFpVatsimAltitudeString flightPlan) (fp_destinationAirport flightPlan)
            (fp_enrouteHours flightPlan) (fp_enrouteMinutes flightPlan)
            (fp_fuelHours flightPlan) (fp_fuelMinutes flightPlan) (fp_alternateAirport flightPlan) remarks route
      in count env ''sendFlightPlan'' '''' (sendQueudedMessage FlightPlan_pdu FlightPlan_toTokens fp c))"

definition sendPlaneInfoRequest :: "'au environment \<Rightarrow> CCallsign \<Rightarrow> 'au fsd_client \<Rightarrow> 'au fsd_client" where
  "sendPlaneInfoRequest env receiver c =
     count env ''sendPlaneInfoRequest'' '''' (sendQueudedMessage PlaneInfoRequest_pdu PlaneInfoRequest_toTokens
       (PlaneInfoRequest (getOwnCallsignAsString c) (asString receiver)) c)"

definition noModelString :: string where
  "noModelString = ''swift empty string''"

definition getConfiguredModelString :: "own_aircraft \<Rightarrow> 'au fsd_client \<Rightarrow> string" where
  "getConfiguredModelString myAircraft c =
     (if \<not> m_sendModelString c then noModelString
      else let ms = (if m_ownModelString c = [] then own_modelString myAircraft else m_ownModelString c) in
        if ms = [] then noModelString else ms)"

definition getConfiguredLiveryString :: "own_aircraft \<Rightarrow> 'au fsd_client \<Rightarrow> string" where
  "getConfiguredLiveryString myAircraft c =
     (if \<not> m_sendLiveryString c then ''''
      else if m_ownLivery c = [] then own_swiftLiveryString myAircraft else m_ownLivery c)"

definition sendPlaneInfoRequestFsinn :: "'au environment \<Rightarrow> CCallsign \<Rightarrow> 'au fsd_client \<Rightarrow> 'au fsd_client" where
  "sendPlaneInfoRequestFsinn env callsign c =
     (if \<not> isConnected c then c
      else count env ''sendPlaneInfoRequestFsinn'' ''''
        (sendQueudedMessage PlaneInfoRequestFsinn_pdu PlaneInfoRequestFsinn_toTokens
          (PlaneInfoRequestFsinn (getOwnCallsignAsString c) (asString callsign) (own_airlineDesignator (own env))
            (own_aircraftDesignator (own env)) (own_aircraftCombinedType (own env))
            (getConfiguredModelString (own env) c)) c))"

definition sendPlaneInformation ::
    "'au environment \<Rightarrow> string \<Rightarrow> string \<Rightarrow> string \<Rightarrow> string \<Rightarrow> 'au fsd_client \<Rightarrow> 'au fsd_client" where
  "sendPlaneInformation env receiver aircraft airline livery c =
     count env ''sendPlaneInformation'' '''' (sendQueudedMessage PlaneInformation_pdu PlaneInformation_toTokens
       (PlaneInformation (getOwnCallsignAsString c) receiver aircraft airline livery) c)"

definition sendPlaneInformationFsinn :: "'au environment \<Rightarrow> CCallsign \<Rightarrow> 'au fsd_client \<Rightarrow> 'au fsd_client" where
  "sendPlaneInformationFsinn env callsign c =
     (if isDisconnected c \<and> \<not> m_unitTestMode c then c
      else count env ''sendPlaneInformationFsinn'' ''''
        (sendQueudedMessage PlaneInformationFsinn_pdu PlaneInformationFsinn_toTokens
          (PlaneInformationFsinn (getOwnCallsignAsString c) (asString callsign) (own_airlineDesignator (own env))
            (own_aircraftDesignator (own env)) (own_aircraftCombinedType (own env))
            (getConfiguredModelString (own env) c)) c))"

definition sendAircraftConfiguration :: "string \<Rightarrow> string \<Rightarrow> 'au fsd_client \<Rightarrow> 'au fsd_client" where
  "sendAircraftConfiguration receiver aircraftConfigJson c =
     (if aircraftConfigJson = [] then c else queue_query receiver Query_AircraftConfig [aircraftConfigJson] c)"

definition sendIncrementalAircraftConfig :: "'au environment \<Rightarrow> 'au fsd_client \<Rightarrow> fault + 'au fsd_client" where
  "sendIncrementalAircraftConfig env c =
     (if \<not> m_unitTestMode c \<and> (\<not> isConnected c \<or> \<not> testFlag (getSetupForServer c) SendAircraftParts) then Inr c
      else let currentParts = own_parts (own env) in
        if equalValues (m_sentAircraftConfig c) currentParts then Inr c
        else and_then (tryConsume (now env) 1 (- 1) (m_tokenBucket c)) (\<lambda>(ok, bucket).
          let c = c\<lparr>m_tokenBucket := bucket\<rparr> in
          if \<not> ok then Inr c
          else let previousConfig = parts_toJson (m_sentAircraftConfig c);
                   currentConfig = parts_toJson currentParts;
                   incrementalConfig = getIncrementalObject previousConfig currentConfig;
                   dataStr = convertToUnicodeEscaped (json_toText env [(''config'', JObject incrementalConfig)]);
                   c = sendAircraftConfiguration ''@94836'' dataStr c
               in Inr (c\<lparr>m_sentAircraftConfig := currentParts\<rparr>)))"

subsection \<open>Authentication, pong\<close>

definition sendAuthChallenge :: "'au environment \<Rightarrow> string \<Rightarrow> 'au fsd_client \<Rightarrow> 'au fsd_client" where
  "sendAuthChallenge env challenge c =
     count env ''sendAuthChallenge'' '''' (sendDirectMessage AuthChallenge_pdu AuthChallenge_toTokens
       (AuthChallenge (getOwnCallsignAsString c) ''SERVER'' challenge) c)"

definition sendAuthResponse :: "'au environment \<Rightarrow> string \<Rightarrow> 'au fsd_client \<Rightarrow> 'au fsd_client" where
  "sendAuthResponse env response c =
     count env ''sendAuthResponse'' '''' (sendDirectMessage AuthResponse_pdu AuthResponse_toTokens
       (AuthResponse (getOwnCallsignAsString c) ''SERVER'' response) c)"

definition sendPong :: "'au environment \<Rightarrow> string \<Rightarrow> string \<Rightarrow> 'au fsd_client \<Rightarrow> 'au fsd_client" where
  "sendPong env receiver timestamp c =
     count env ''sendPong'' '''' (sendQueudedMessage Pong_pdu Pong_toTokens
       (Pong (getOwnCallsignAsString c) receiver timestamp) c)"

subsection \<open>Client responses\<close>

text \<open>\<open>QString::number\<close> of a double with its default format \<open>g\<close> and six digits: the decimal exponent
  of the rounded value chooses between the two notations, zeros at the end are left out.\<close>

fun decimal_exponent_up :: "nat \<Rightarrow> rat \<Rightarrow> int" where
  "decimal_exponent_up 0 r = 0"
| "decimal_exponent_up (Suc n) r = (if r < 10 then 0 else 1 + decimal_exponent_up n (r / 10))"

fun decimal_exponent_down :: "nat \<Rightarrow> rat \<Rightarrow> int" where
  "decimal_exponent_down 0 r = 0"
| "decimal_exponent_down (Suc n) r = (if 1 \<le> r then 0 else decimal_exponent_down n (r * 10) - 1)"

definition decimal_exponent :: "rat \<Rightarrow> int" where
  "decimal_exponent r = (if 1 \<le> r then decimal_exponent_up 310 r else decimal_exponent_down 330 r)"

definition pow10_int :: "int \<Rightarrow> rat" where
  "pow10_int k = (if 0 \<le> k then 10 ^ nat k else 1 / 10 ^ nat (- k))"

definition strip_zeros :: "string \<Rightarrow> string" where
  "strip_zeros s = (if CHR ''.'' \<in> set s
     then (let t = rev (dropWhile (\<lambda>c. c = CHR ''0'') (rev s)) in if last t = CHR ''.'' then butlast t else t) else s)"

fun d_number_g6 :: "double \<Rightarrow> string" where
  "d_number_g6 (Fin r) =
     (if r = 0 then ''0''
      else let e = decimal_exponent \<bar>r\<bar>; m = nat \<lfloor>\<bar>r\<bar> * pow10_int (5 - e) + 1 / 2\<rfloor>;
               (m, e) = (if m = 1000000 then (100000, e + 1) else (m, e));
               sign = (if r < 0 then ''-'' else '''')
        in if - 4 \<le> e \<and> e < 6 then sign @ strip_zeros (decimal_text (nat (5 - e)) m)
           else sign @ strip_zeros (decimal_text 5 m) @ ''e'' @ (if e < 0 then ''-'' else ''+'')
             @ right_justified 2 CHR ''0'' (q_number_nat 10 (nat \<bar>e\<bar>)))"
| "d_number_g6 (Inf s) = (if s then ''-inf'' else ''inf'')"
| "d_number_g6 NaN = ''nan''"

abbreviation queue_response :: "string \<Rightarrow> ClientQueryType \<Rightarrow> string list \<Rightarrow> 'au fsd_client \<Rightarrow> 'au fsd_client" where
  "queue_response receiver queryType responseData c \<equiv>
     sendQueudedMessage ClientResponse_pdu ClientResponse_toTokens
       (ClientResponse (getOwnCallsignAsString c) receiver queryType responseData) c"

definition capability_entries :: "capabilities \<Rightarrow> string list" where
  "capability_entries caps =
     concat (map (\<lambda>k. if capabilities_and caps (capability k) then [toQString_Capabilities (capability k) @ ''=1''] else [])
       [Cap_AtcInfo, Cap_SecondaryPos, Cap_AircraftInfo, Cap_OngoingCoord, Cap_InterminPos, Cap_FastPos, Cap_VisPos,
        Cap_Stealth, Cap_AircraftConfig])"

definition user_info :: "'au environment \<Rightarrow> 'au fsd_client \<Rightarrow> string" where
  "user_info env c =
     ''CID='' @ srv_userId (m_server c) @ '' '' @ m_clientName c @ '' IP='' @ localAddress env @ '' SYS_UID='' @ system_unique_id env
     @ '' FSVER='' @ m_hostApplication c @ '' LT='' @ d_number_g6 (own_latitude (own env))
     @ '' LO='' @ d_number_g6 (own_longitude (own env)) @ '' AL='' @ q_number (own_altitude_ft_int (own env))
     @ '' '' @ srv_userRealName (m_server c)"

text \<open>\<open>handleIllegalFsdState\<close> only logs.\<close>

definition sendClientResponse :: "'au environment \<Rightarrow> ClientQueryType \<Rightarrow> string \<Rightarrow> 'au fsd_client \<Rightarrow> 'au fsd_client" where
  "sendClientResponse env queryType receiver c =
     (if queryType = Query_Unknown then c
      else if queryType = Query_IsValidATC then c
      else let c = count env ''sendClientResponse'' (toQString_ClientQueryType queryType) c in
        case queryType of
          Query_Capabilities \<Rightarrow> queue_response receiver Query_Capabilities (capability_entries (m_capabilities c)) c
        | Query_Com1Freq \<Rightarrow> queue_response receiver Query_Com1Freq [d_number_f (own_com1_MHz (own env)) 3] c
        | Query_RealName \<Rightarrow> queue_response receiver Query_RealName
            [srv_userRealNameAndHomeBase (m_server c), '''',
             if m_loginMode c = Observer then toQString_AtcRating (m_atcRating c) else toQString_PilotRating (m_pilotRating c)] c
        | Query_Server \<Rightarrow> queue_response receiver Query_Server [srv_address (m_server c)] c
        | Query_INF \<Rightarrow> sendQueudedMessage TextMessage_pdu TextMessage_toTokens
            (TextMessage (getOwnCallsignAsString c) receiver (user_info env c)) c
        | _ \<Rightarrow> c)"

end
