(* ===== verification/FsdClientState.thy ===== *)
theory FsdClientState
  imports FsdClientQueries
begin

section \<open>Connecting and disconnecting\<close>

text \<open>
  The connection state of \<open>CFSDClient\<close>: its settings, the timers, \<open>clearState\<close>, the changes of
  \<open>m_connectionStatus\<close>, login and logoff, and the ATIS and text message buffers. The statistics
  file that is written on disconnecting is not modelled.
\<close>

definition PROTOCOL_REVISION_CLASSIC :: int where "PROTOCOL_REVISION_CLASSIC = 9"
definition PROTOCOL_REVISION_VATSIM_AUTH :: int where "PROTOCOL_REVISION_VATSIM_AUTH = 100"
definition PROTOCOL_REVISION_VATSIM_VELOCITY :: int where "PROTOCOL_REVISION_VATSIM_VELOCITY = 101"
definition PendingConnectionTimeoutMs :: int where "PendingConnectionTimeoutMs = 7500"

subsection \<open>Settings\<close>

definition setServer :: "server_data \<Rightarrow> 'au fsd_client \<Rightarrow> fault + 'au fsd_client" where
  "setServer server c =
     (if \<not> isDisconnected c then Inl AssertFailed
      else Inr (c\<lparr>m_server := server,
        m_protocolRevision := (if srv_serverType server = FSDServerVatsim
          then PROTOCOL_REVISION_VATSIM_VELOCITY else PROTOCOL_REVISION_CLASSIC)\<rparr>))"

definition setCallsign :: "CCallsign \<Rightarrow> 'au fsd_client \<Rightarrow> fault + 'au fsd_client" where
  "setCallsign callsign c =
     (if \<not> isDisconnected c then Inl AssertFailed else Inr (c\<lparr>m_ownCallsign := callsign\<rparr>))"

definition setIcaoCodes :: "string \<Rightarrow> string \<Rightarrow> 'au fsd_client \<Rightarrow> fault + 'au fsd_client" where
  "setIcaoCodes aircraftIcao airlineIcao c =
     (if \<not> isDisconnected c then Inl AssertFailed
      else Inr (c\<lparr>m_ownAircraftIcaoCode := aircraftIcao, m_ownAirlineIcaoCode := airlineIcao\<rparr>))"

definition setLiveryAndModelString ::
    "string \<Rightarrow> bool \<Rightarrow> string \<Rightarrow> bool \<Rightarrow> 'au fsd_client \<Rightarrow> 'au fsd_client" where
  "setLiveryAndModelString livery sendLiveryString modelString sendModelString c =
     c\<lparr>m_ownLivery := livery, m_ownModelString := modelString,
       m_sendLiveryString := sendLiveryString, m_sendModelString := sendModelString\<rparr>"

datatype Simulator = Simulator_None | FSX | FS9 | XPLANE | P3D | FG | Simulator_MSFS | Simulator_Several

definition setSimType :: "Simulator \<Rightarrow> 'au fsd_client \<Rightarrow> 'au fsd_client" where
  "setSimType simulator c =
     c\<lparr>m_simType := (case simulator of
        FSX \<Rightarrow> MSFSX | P3D \<Rightarrow> P3Dv4 | FS9 \<Rightarrow> MSFS2004 | FG \<Rightarrow> FlightGear | XPLANE \<Rightarrow> XPLANE11 | _ \<Rightarrow> SimType_Unknown)\<rparr>"

definition setClientName :: "string \<Rightarrow> 'au fsd_client \<Rightarrow> 'au fsd_client" where
  "setClientName clientName c = c\<lparr>m_clientName := clientName\<rparr>"

definition setHostApplication :: "string \<Rightarrow> 'au fsd_client \<Rightarrow> 'au fsd_client" where
  "setHostApplication hostApplication c = c\<lparr>m_hostApplication := hostApplication\<rparr>"

definition setVersion :: "int \<Rightarrow> int \<Rightarrow> 'au fsd_client \<Rightarrow> 'au fsd_client" where
  "setVersion major minor c = c\<lparr>m_versionMajor := major, m_versionMinor := minor\<rparr>"

text \<open>\<open>auth\<close> is what \<open>vatsim_auth_create\<close> makes of the identifier and the key.\<close>

definition setClientIdAndKey :: "'au \<Rightarrow> 'au fsd_client \<Rightarrow> 'au fsd_client" where
  "setClientIdAndKey auth c = c\<lparr>m_clientAuth := auth, m_serverAuth := auth\<rparr>"

definition setClientCapabilities :: "capabilities \<Rightarrow> 'au fsd_client \<Rightarrow> 'au fsd_client" where
  "setClientCapabilities capabs c = c\<lparr>m_capabilities := capabs\<rparr>"

definition setLoginMode :: "LoginMode \<Rightarrow> 'au fsd_client \<Rightarrow> 'au fsd_client" where
  "setLoginMode mode c = c\<lparr>m_loginMode := mode\<rparr>"

definition setPartnerCallsign :: "CCallsign \<Rightarrow> 'au fsd_client \<Rightarrow> 'au fsd_client" where
  "setPartnerCallsign callsign c = c\<lparr>m_partnerCallsign := callsign\<rparr>"

definition setPilotRating :: "PilotRating \<Rightarrow> 'au fsd_client \<Rightarrow> 'au fsd_client" where
  "setPilotRating rating c = c\<lparr>m_pilotRating := rating\<rparr>"

definition setAtcRating :: "AtcRating \<Rightarrow> 'au fsd_client \<Rightarrow> 'au fsd_client" where
  "setAtcRating rating c = c\<lparr>m_atcRating := rating\<rparr>"

definition setStatisticsEnable :: "bool \<Rightarrow> 'au fsd_client \<Rightarrow> 'au fsd_client" where
  "setStatisticsEnable enabled c = c\<lparr>stats := (stats c)\<lparr>m_statistics := enabled\<rparr>\<rparr>"

definition addInterimPositionReceiver :: "CCallsign \<Rightarrow> 'au fsd_client \<Rightarrow> 'au fsd_client" where
  "addInterimPositionReceiver receiver c =
     (if list_ex (callsign_eq receiver) (m_interimPositionReceivers c) then c
      else c\<lparr>m_interimPositionReceivers := m_interimPositionReceivers c @ [receiver]\<rparr>)"

definition removeInterimPositionReceiver :: "CCallsign \<Rightarrow> 'au fsd_client \<Rightarrow> 'au fsd_client" where
  "removeInterimPositionReceiver receiver c =
     c\<lparr>m_interimPositionReceivers := filter (\<lambda>x. \<not> callsign_eq x receiver) (m_interimPositionReceivers c)\<rparr>"

text \<open>The one value of the settings the model knows; the log file is not modelled.\<close>

definition fsdMessageSettingsChanged :: "bool \<Rightarrow> 'au fsd_client \<Rightarrow> 'au fsd_client" where
  "fsdMessageSettingsChanged areRawFsdMessagesEnabled c = c\<lparr>m_rawFsdMessagesEnabled := areRawFsdMessagesEnabled\<rparr>"

definition setInterimPositionReceivers :: "CCallsign list \<Rightarrow> 'au fsd_client \<Rightarrow> 'au fsd_client" where
  "setInterimPositionReceivers interimPositionReceivers c =
     c\<lparr>m_interimPositionReceivers := interimPositionReceivers\<rparr>"

text \<open>The preset values, with the designators that the buffered codes stand for.\<close>

definition getPresetValues :: "'au fsd_client \<Rightarrow> string list" where
  "getPresetValues c = [m_ownModelString c, m_ownLivery c, m_ownAircraftIcaoCode c, m_ownAirlineIcaoCode c,
     asString (m_ownCallsign c), asString (m_partnerCallsign c)]"

subsection \<open>Timers and state\<close>

definition stopPositionTimers :: "'au fsd_client \<Rightarrow> 'au fsd_client" where
  "stopPositionTimers c =
     c\<lparr>m_positionUpdateTimer := False, m_interimPositionUpdateTimer := False, m_visualPositionUpdateTimer := False,
       m_scheduledConfigUpdate := False, m_fsdSendMessageTimer := False\<rparr>"

definition startPositionTimers :: "'au fsd_client \<Rightarrow> 'au fsd_client" where
  "startPositionTimers c =
     c\<lparr>m_positionUpdateTimer := True, m_scheduledConfigUpdate := True, m_fsdSendMessageTimer := True,
       m_queuedFsdMessages := [],
       m_interimPositionUpdateTimer := isInterimPositionSendingEnabledForServer c,
       m_visualPositionUpdateTimer := isVisualPositionSendingEnabledForServer c\<rparr>"

definition clearState :: "'au fsd_client \<Rightarrow> 'au fsd_client" where
  "clearState c =
     c\<lparr>m_rehosting := False, m_stoppedSendingVisualPositions := False, m_serverWantsVisualPositions := False,
       m_visualPositionUpdateSentCount := 0, m_textMessagesToConsolidate := [], m_pendingAtisQueries := Map.empty,
       offsets := clear_offsets (offsets c), m_atcStations := [], m_queuedFsdMessages := [],
       m_sentAircraftConfig := parts_null, m_loginSince := - 1\<rparr>"

definition clearState_callsign :: "CCallsign \<Rightarrow> 'au fsd_client \<Rightarrow> 'au fsd_client" where
  "clearState_callsign callsign c =
     (if isEmpty callsign then c
      else c\<lparr>m_pendingAtisQueries := (m_pendingAtisQueries c)(asString callsign := None),
             offsets := clear_offsets_of (asString callsign) (offsets c),
             m_interimPositionReceivers := filter (\<lambda>x. \<not> callsign_eq x callsign) (m_interimPositionReceivers c)\<rparr>)"

subsection \<open>The connection status\<close>

definition updateConnectionStatus :: "ConnectionStatus \<Rightarrow> 'au fsd_client \<Rightarrow> 'au fsd_client" where
  "updateConnectionStatus newStatus c =
     (if m_connectionStatus c = newStatus then c
      else let c = (if newStatus = Connected
                    then c\<lparr>m_server := (m_server c)\<lparr>srv_isConnected := True\<rparr>, m_currentEcosystem := srv_ecosystem (m_server c)\<rparr>
                    else c\<lparr>m_server := (m_server c)\<lparr>srv_isConnected := False\<rparr>\<rparr>);
               c = (if newStatus = Disconnected
                    then (clearState (stopPositionTimers c))
                      \<lparr>m_lastEcosystem := srv_ecosystem (m_server c), m_currentEcosystem := NoSystem\<rparr>
                    else c);
               oldStatus = m_connectionStatus c
           in emit (connectionStatusChanged oldStatus newStatus) (c\<lparr>m_connectionStatus := newStatus\<rparr>))"

definition sendDeletePilot :: "'au fsd_client \<Rightarrow> 'au fsd_client" where
  "sendDeletePilot c = sendQueudedMessage DeletePilot_pdu DeletePilot_toTokens
     (DeletePilot (getFsdCallsignString (m_ownCallsign c)) (srv_userId (m_server c))) c"

definition sendDeleteAtc :: "'au fsd_client \<Rightarrow> 'au fsd_client" where
  "sendDeleteAtc c = sendQueudedMessage DeleteAtc_pdu DeleteAtc_toTokens
     (DeleteAtc (getOwnCallsignAsString c) (srv_userId (m_server c))) c"

definition disconnectFromServer :: "'au fsd_client \<Rightarrow> 'au fsd_client" where
  "disconnectFromServer c =
     (let c = updateConnectionStatus Disconnecting (stopPositionTimers c);
          c = (if m_socketIsOpen c
               then (case m_loginMode c of Pilot \<Rightarrow> sendDeletePilot c | Observer \<Rightarrow> sendDeleteAtc c) else c);
          c = c\<lparr>m_socketIsOpen := False\<rparr>
      in clearState (updateConnectionStatus Disconnected c))"

definition connectToServer :: "'au environment \<Rightarrow> 'au fsd_client \<Rightarrow> fault + 'au fsd_client" where
  "connectToServer env c =
     (if m_socketIsOpen c then Inr c
      else if m_clientName c = [] \<or> \<not> c_int (m_versionMajor c + m_versionMinor c) > 0
         \<or> m_capabilities c = capability Cap_None
      then Inl AssertFailed
      else let c = (if m_hostApplication c = []
                    then c\<lparr>m_hostApplication := map (\<lambda>x. if x = CHR '':'' then CHR '' '' else x) (simulatorNameAndVersion env)\<rparr> else c);
               c = (clearState c)\<lparr>m_filterPasswordFromLogin := True, m_loginSince := now env\<rparr>;
               c = (updateConnectionStatus Connecting c)\<lparr>m_socketIsOpen := True\<rparr>
           in Inr (startPositionTimers c))"

definition pendingTimeoutCheck :: "'au environment \<Rightarrow> 'au fsd_client \<Rightarrow> 'au fsd_client" where
  "pendingTimeoutCheck env c =
     (if \<not> isPendingConnection c then c
      else let age = c_int64 (now env - m_loginSince c) in
        if age < PendingConnectionTimeoutMs then c else disconnectFromServer c)"

subsection \<open>Login\<close>

definition sendLogin :: "'au environment \<Rightarrow> string \<Rightarrow> 'au fsd_client \<Rightarrow> 'au fsd_client" where
  "sendLogin env token c =
     (let cid = srv_userId (m_server c);
          password = (if token = [] then srv_userPassword (m_server c) else token);
          name = srv_userRealNameAndHomeBase (m_server c);
          callsign = asString (m_ownCallsign c);
          c = (case m_loginMode c of
            Pilot \<Rightarrow> sendQueudedMessage AddPilot_pdu AddPilot_toTokens
              (AddPilot callsign cid password (m_pilotRating c) (m_protocolRevision c) (m_simType c) name) c
          | Observer \<Rightarrow> sendQueudedMessage AddAtc_pdu AddAtc_toTokens
              (AddAtc callsign name cid password (m_atcRating c) (m_protocolRevision c)) c)
      in if testFlag (srv_sendReceiveDetails (m_server c)) ReceiveEuroscopeSimData
         then sendClientQuery env Query_EuroscopeSimData CCallsign_default [] c else c)"

definition login_and_connected :: "'au environment \<Rightarrow> string \<Rightarrow> 'au fsd_client \<Rightarrow> 'au fsd_client" where
  "login_and_connected env token c = updateConnectionStatus Connected (sendLogin env token c)"

text \<open>On VATSIM the login waits for a token of the web service: the two outcomes of
  \<open>getVatsimAuthToken\<close> are \<open>vatsim_token_received\<close> and \<open>vatsim_token_refused\<close>.\<close>

definition sendClientIdentification :: "'au environment \<Rightarrow> string \<Rightarrow> 'au fsd_client \<Rightarrow> 'au fsd_client" where
  "sendClientIdentification env fsdChallenge c =
     (let c = sendQueudedMessage ClientIdentification_pdu ClientIdentification_toTokens
            (ClientIdentification (getOwnCallsignAsString c) (auth_get_client_id env (m_clientAuth c)) (m_clientName c)
              (m_versionMajor c) (m_versionMinor c) (srv_userId (m_server c)) (system_unique_id env) fsdChallenge) c;
          c = (if srv_ecosystem (m_server c) = System_VATSIM then c else login_and_connected env '''' c)
      in count env ''sendClientIdentification'' '''' c)"

definition vatsim_token_received :: "'au environment \<Rightarrow> string \<Rightarrow> 'au fsd_client \<Rightarrow> 'au fsd_client" where
  "vatsim_token_received env token c = login_and_connected env token c"

definition vatsim_token_refused :: "'au fsd_client \<Rightarrow> 'au fsd_client" where
  "vatsim_token_refused c = disconnectFromServer c"

definition handleSocketConnected :: "'au environment \<Rightarrow> 'au fsd_client \<Rightarrow> 'au fsd_client" where
  "handleSocketConnected env c =
     (if m_protocolRevision c = PROTOCOL_REVISION_CLASSIC then login_and_connected env '''' c else c)"

datatype SocketError = RemoteHostClosedError | OtherSocketError

definition handleSocketError :: "SocketError \<Rightarrow> string \<Rightarrow> 'au fsd_client \<Rightarrow> 'au fsd_client" where
  "handleSocketError socketError error c =
     (if m_rehosting c then c
      else case socketError of
        RemoteHostClosedError \<Rightarrow> disconnectFromServer (emit (severeNetworkError error) c)
      | OtherSocketError \<Rightarrow> c)"

subsection \<open>Text messages that belong together\<close>

definition emitConsolidatedTextMessages :: "'au fsd_client \<Rightarrow> 'au fsd_client" where
  "emitConsolidatedTextMessages c =
     (emit (textMessagesReceived (m_textMessagesToConsolidate c)) c)\<lparr>m_textMessagesToConsolidate := []\<rparr>"

text \<open>\<open>CDigestSignal\<close> with at most ten inputs: the signal comes when its timer ends or with the tenth.\<close>

definition digest_timerTimeout :: "'au fsd_client \<Rightarrow> 'au fsd_client" where
  "digest_timerTimeout c =
     emitConsolidatedTextMessages (c\<lparr>m_dsSendTextMessage_active := False, m_inputsCount := 0\<rparr>)"

definition digest_inputSignal :: "'au fsd_client \<Rightarrow> 'au fsd_client" where
  "digest_inputSignal c =
     (let c = c\<lparr>m_dsSendTextMessage_active := True, m_inputsCount := m_inputsCount c + 1\<rparr> in
      if m_inputsCount c \<ge> 10 then digest_timerTimeout c else c)"

definition consolidateTextMessage :: "CTextMessage \<Rightarrow> 'au fsd_client \<Rightarrow> 'au fsd_client" where
  "consolidateTextMessage textMessage c =
     (if isSupervisorMessage textMessage then emit (textMessagesReceived [textMessage]) c
      else digest_inputSignal (c\<lparr>m_textMessagesToConsolidate :=
        addConsolidatedTextMessage textMessage (m_textMessagesToConsolidate c)\<rparr>))"

subsection \<open>ATIS\<close>

definition atis_of :: "string \<Rightarrow> 'au fsd_client \<Rightarrow> AtisMessage" where
  "atis_of callsign c = (case m_mapAtisMessages c callsign of Some a \<Rightarrow> a | None \<Rightarrow> AtisMessage_default)"

definition set_atis :: "string \<Rightarrow> AtisMessage \<Rightarrow> 'au fsd_client \<Rightarrow> 'au fsd_client" where
  "set_atis callsign a c = c\<lparr>m_mapAtisMessages := (m_mapAtisMessages c)(callsign \<mapsto> a\<lparr>lineCount := c_int (lineCount a + 1)\<rparr>)\<rparr>"

text \<open>The loop over the lines: \<open>None\<close> where it leaves the function at a placeholder (\<open>z\<close>, \<open>z1\<close>,
  and so on), else the joined lines.\<close>

fun atis_text :: "string list \<Rightarrow> string \<Rightarrow> string option" where
  "atis_text [] atisMessage = Some atisMessage"
| "atis_text (tm # tms) atisMessage =
     (let fixed = q_trimmed tm in
      if fixed = [] then atis_text tms atisMessage
      else let test = removeChars (q_toLower fixed) (\<lambda>c. c \<in> {CHR 0x0A, CHR 0x09, CHR 0x0D}) in
        if test = ''z'' then None
        else if q_startsWith test ''z'' \<and> length test = 2 then None
        else if length test = 1 then None
        else atis_text tms ((if atisMessage = [] then [] else atisMessage @ [CHR 0x0A]) @ fixed))"

definition updateAtisMap :: "string \<Rightarrow> AtisLineType \<Rightarrow> string \<Rightarrow> 'au fsd_client \<Rightarrow> 'au fsd_client" where
  "updateAtisMap callsign type line c =
     (let a = atis_of callsign c in
      case type of
        AtisLine_VoiceRoom \<Rightarrow> set_atis callsign (a\<lparr>voiceRoom := line\<rparr>) c
      | AtisLine_TextMessage \<Rightarrow> set_atis callsign (a\<lparr>textLines := textLines a @ [line]\<rparr>) c
      | AtisLine_ZuluLogoff \<Rightarrow> set_atis callsign (a\<lparr>zuluLogoff := line\<rparr>) c
      | _ \<Rightarrow>
          if m_mapAtisMessages c callsign = None then c
          else let c = set_atis callsign a c;
                   cs = CCallsign callsign Atc;
                   c = emit (atisLogoffTimeReplyReceived cs (zuluLogoff a)) c
               in case atis_text (textLines a) '''' of
                    None \<Rightarrow> c
                  | Some atisMessage \<Rightarrow>
                      (emit (atisReplyReceived cs atisMessage) c)
                        \<lparr>m_mapAtisMessages := (m_mapAtisMessages c)(callsign := None)\<rparr>)"

text \<open>\<open>^\d{0,4}z$\<close>; the dollar accepts a line feed at the end.\<close>

definition is_logoff :: "string \<Rightarrow> bool" where
  "is_logoff s \<longleftrightarrow> (let t = (if s \<noteq> [] \<and> last s = CHR 0x0A then butlast s else s) in
     t \<noteq> [] \<and> last t = CHR ''z'' \<and> length (butlast t) \<le> 4 \<and> list_all is_digit (butlast t))"

definition join_lines :: "string list \<Rightarrow> string" where
  "join_lines ls = fold (\<lambda>line atisMessage. (if atisMessage = [] then [] else atisMessage @ [CHR 0x0A]) @ line) ls ''''"

text \<open>\<open>QDateTime::secsTo\<close> counts whole seconds, so more than five of them are six.\<close>

definition secsTo :: "int \<Rightarrow> int \<Rightarrow> int" where
  "secsTo t u = c_div (u - t) 1000"

definition maybeHandleAtisReply ::
    "'au environment \<Rightarrow> CCallsign \<Rightarrow> CCallsign \<Rightarrow> string \<Rightarrow> 'au fsd_client \<Rightarrow> fault + 'au fsd_client" where
  "maybeHandleAtisReply env sender receiver message c =
     (case m_pendingAtisQueries c (asString sender) of
        None \<Rightarrow> Inl AssertFailed
      | Some pendingQuery \<Rightarrow>
          let pendingQuery = pendingQuery\<lparr>m_atisMessage := m_atisMessage pendingQuery @ [message]\<rparr>;
              c = c\<lparr>m_pendingAtisQueries := (m_pendingAtisQueries c)(asString sender \<mapsto> pendingQuery)\<rparr>
          in if secsTo (m_queryTime pendingQuery) (now env) > 5 then
               let atisMessage = q_join [CHR 0x0A] (m_atisMessage pendingQuery);
                   c = consolidateTextMessage (CTextMessage_private atisMessage sender receiver) c
               in Inr (c\<lparr>m_pendingAtisQueries := (m_pendingAtisQueries c)(asString sender := None)\<rparr>)
             else if is_logoff message then
               let c = emit (atisLogoffTimeReplyReceived sender message) c;
                   c = emit (atisReplyReceived (CCallsign (asString sender) Atc) (join_lines (m_atisMessage pendingQuery))) c
               in Inr (c\<lparr>m_pendingAtisQueries := (m_pendingAtisQueries c)(asString sender := None)\<rparr>)
             else Inr c)"

subsection \<open>Ranges of ATC stations\<close>

text \<open>In whole nautical miles; a range from the network is never null.\<close>

definition maxOrNotNull :: "int option \<Rightarrow> int option \<Rightarrow> int option" where
  "maxOrNotNull l1 l2 =
     (case l1 of None \<Rightarrow> l2 | Some a \<Rightarrow> (case l2 of None \<Rightarrow> l1 | Some b \<Rightarrow> if b > a then l2 else l1))"

definition fixAtcRange :: "int \<Rightarrow> CCallsign \<Rightarrow> int" where
  "fixAtcRange networkRange cs =
     (let suffix = q_toLower (getSuffix cs);
          least = (\<lambda>r. case maxOrNotNull (Some networkRange) (Some r) of Some m \<Rightarrow> m | None \<Rightarrow> networkRange) in
      if q_contains suffix ''atis'' then least 150
      else if q_contains suffix ''gnd'' then least 10
      else if q_contains suffix ''twr'' then least 25
      else if q_contains suffix ''dep'' then least 150
      else if q_contains suffix ''app'' then least 150
      else if q_contains suffix ''ctr'' then least 300
      else if q_contains suffix ''fss'' then least 1500
      else networkRange)"

end
