(* ===== verification/FsdClientReceive.thy ===== *)
theory FsdClientReceive
  imports FsdClientState
begin

section \<open>Receiving\<close>

text \<open>
  \<open>fsdclient.cpp\<close>, the half that reads: one function per \<open>handle...\<close> method, \<open>parseMessage\<close> that
  chooses among them, and the loop that takes lines from the socket. What the methods log is left
  out, so the messages that are only logged leave the client as it is. A handler faults where the
  code would assert or read a list out of range.
\<close>

subsection \<open>Kinds of messages\<close>

text \<open>The table is a hash map, so its order is not the program's; see \<open>identifiers_prefix_free\<close>.\<close>

definition initializeMessageTypes :: "(string \<times> MessageType) list" where
  "initializeMessageTypes =
     [(''#AA'', Msg_AddAtc), (''#AP'', Msg_AddPilot), (''%'', Msg_AtcDataUpdate),
      (''$ZC'', Msg_AuthChallenge), (''$ZR'', Msg_AuthResponse), (''$ID'', Msg_ClientIdentification),
      (''$CQ'', Msg_ClientQuery), (''$CR'', Msg_ClientResponse), (''#DA'', Msg_DeleteATC),
      (''#DP'', Msg_DeletePilot), (''$FP'', Msg_FlightPlan), (''#PC'', Msg_ProController),
      (''$DI'', Msg_FsdIdentification), (''$!!'', Msg_KillRequest), (''@'', Msg_PilotDataUpdate),
      (''^'', Msg_VisualPilotDataUpdate), (''#SL'', Msg_VisualPilotDataPeriodic),
      (''#ST'', Msg_VisualPilotDataStopped), (''$SF'', Msg_VisualPilotDataToggle), (''$PI'', Msg_Ping),
      (''$PO'', Msg_Pong), (''$ER'', Msg_ServerError), (''#DL'', Msg_ServerHeartbeat),
      (''#TM'', Msg_TextMessage), (''#SB'', Msg_PilotClientCom), (''$XX'', Msg_Rehost),
      (''SIMDATA'', Msg_EuroscopeSimData), (''!R'', Msg_RegistrationInfo), (''-MD'', Msg_RevBClientParts),
      (''-PD'', Msg_RevBPilotDescription)]"

definition messageTypeToString :: "MessageType \<Rightarrow> 'au fsd_client \<Rightarrow> string" where
  "messageTypeToString mt c =
     (case find (\<lambda>(key, value). value = mt) (m_messageTypeMapping c) of Some (key, value) \<Rightarrow> key | None \<Rightarrow> '''')"

subsection \<open>Stations and authentication\<close>

definition replaceOrAddObjectByCallsign :: "atc_station \<Rightarrow> atc_station list \<Rightarrow> atc_station list" where
  "replaceOrAddObjectByCallsign otherObject container =
     (let cs = st_callsign otherObject in
      if isEmpty cs then container
      else filter (\<lambda>s. \<not> callsign_eq (st_callsign s) cs) container @ [otherObject])"

definition removeByCallsign :: "CCallsign \<Rightarrow> atc_station list \<Rightarrow> atc_station list" where
  "removeByCallsign callsign container = filter (\<lambda>s. \<not> callsign_eq (st_callsign s) callsign) container"

definition handleAtcDataUpdate :: "string list \<Rightarrow> 'au fsd_client \<Rightarrow> fault + 'au fsd_client" where
  "handleAtcDataUpdate tokens c =
     and_then (AtcDataUpdate_fromTokens tokens) (\<lambda>atcDataUpdate.
       let cs = CCallsign (m_sender atcDataUpdate) Atc;
           facility = AtcDataUpdate_m_facility atcDataUpdate in
       if facility = Facility_Unknown \<and> \<not> isObserverCallsign cs then Inr c
       else if facility = OBS \<and> \<not> hasSuffix cs then Inr c
       else let freq = AtcDataUpdate_m_frequencykHz atcDataUpdate;
                range = fixAtcRange (AtcDataUpdate_m_visibleRange atcDataUpdate) cs;
                latitude = AtcDataUpdate_m_latitude atcDataUpdate;
                longitude = AtcDataUpdate_m_longitude atcDataUpdate;
                c = emit (atcDataUpdateReceived cs freq latitude longitude range) c
            in Inr (c\<lparr>m_atcStations := replaceOrAddObjectByCallsign
                 \<lparr>st_callsign = cs, st_frequency_kHz = freq, st_latitude = latitude, st_longitude = longitude,
                  st_range_NM = range\<rparr> (m_atcStations c)\<rparr>))"

definition handleAuthChallenge :: "'au environment \<Rightarrow> string list \<Rightarrow> 'au fsd_client \<Rightarrow> 'au fsd_client" where
  "handleAuthChallenge env tokens c =
     (let authChallenge = AuthChallenge_fromTokens tokens;
          (response, clientAuth) = auth_generate_response env (m_clientAuth c) (AuthChallenge_m_challengeKey authChallenge);
          c = sendAuthResponse env response (c\<lparr>m_clientAuth := clientAuth\<rparr>);
          (challenge, serverAuth) = auth_generate_challenge env (m_serverAuth c);
          c = c\<lparr>m_serverAuth := serverAuth, m_lastServerAuthChallenge := challenge\<rparr>
      in sendAuthChallenge env (m_lastServerAuthChallenge c) c)"

definition handleAuthResponse :: "'au environment \<Rightarrow> string list \<Rightarrow> 'au fsd_client \<Rightarrow> 'au fsd_client" where
  "handleAuthResponse env tokens c =
     (let authResponse = AuthResponse_fromTokens tokens;
          (expectedResponse, serverAuth) = auth_generate_response env (m_serverAuth c) (m_lastServerAuthChallenge c);
          c = c\<lparr>m_serverAuth := serverAuth\<rparr>
      in if AuthResponse_m_response authResponse \<noteq> expectedResponse then disconnectFromServer c else c)"

definition handleDeleteATC :: "string list \<Rightarrow> 'au fsd_client \<Rightarrow> 'au fsd_client" where
  "handleDeleteATC tokens c =
     (let deleteAtc = DeleteAtc_fromTokens tokens;
          c = emit (deleteAtcReceived (DeleteAtc_m_cid deleteAtc)) c
      in c\<lparr>m_atcStations := removeByCallsign (CCallsign (DeleteAtc_m_cid deleteAtc) NoHint) (m_atcStations c)\<rparr>)"

definition handleDeletePilot :: "string list \<Rightarrow> 'au fsd_client \<Rightarrow> 'au fsd_client" where
  "handleDeletePilot tokens c =
     (let deletePilot = DeletePilot_fromTokens tokens;
          cs = CCallsign (m_sender deletePilot) Aircraft
      in emit (deletePilotReceived (DeletePilot_m_cid deletePilot)) (clearState_callsign cs c))"

subsection \<open>Text messages\<close>

text \<open>Frequencies are compared in kHz; the time stamps of text messages are left out.\<close>

definition handleTextMessage :: "'au environment \<Rightarrow> string list \<Rightarrow> 'au fsd_client \<Rightarrow> fault + 'au fsd_client" where
  "handleTextMessage env tokens c =
     (let textMessage = TextMessage_fromTokens tokens;
          sender = CCallsign (m_sender textMessage) NoHint;
          receiver = CCallsign (m_receiver textMessage) NoHint in
      case TextMessage_m_type textMessage of
        PrivateMessage \<Rightarrow>
          if srv_serverType (m_server c) \<noteq> FSDServerVatsim
             \<and> asString (m_ownCallsign c) = m_receiver textMessage
             \<and> m_pendingAtisQueries c (asString sender) \<noteq> None
          then maybeHandleAtisReply env sender receiver (TextMessage_m_message textMessage) c
          else Inr (consolidateTextMessage (CTextMessage_private (TextMessage_m_message textMessage) sender receiver) c)
      | RadioMessage \<Rightarrow>
          let com1 = own_com1_kHz (own env); com2 = own_com2_kHz (own env);
              frequencies = filter (\<lambda>f. f = com1 \<or> f = com2)
                (map roundToChannelSpacing25 (TextMessage_m_frequencies textMessage))
          in if frequencies = [] then Inr c
             else Inr (emit (textMessagesReceived (messages_on (TextMessage_m_message textMessage) frequencies
                    (CCallsign (m_sender textMessage) NoHint))) c))"

subsection \<open>Positions\<close>

text \<open>\<open>setCurrentUtcTime\<close> and the offset of T297, the end of every situation.\<close>

definition with_offset :: "'au environment \<Rightarrow> situation \<Rightarrow> 'au fsd_client \<Rightarrow> fault + (situation \<times> 'au fsd_client)" where
  "with_offset env situation c =
     (let situation = situation\<lparr>m_timestampMSecsSinceEpoch := now env\<rparr> in
      and_then (receivedPositionFixTsAndGetOffsetTime (now env) (sit_callsign situation) (m_timestampMSecsSinceEpoch situation)
          (offsets c)) (\<lambda>(offsetTimeMs, os).
        Inr (situation\<lparr>m_timeOffsetMs := offsetTimeMs\<rparr>, c\<lparr>offsets := os\<rparr>)))"

definition handlePilotDataUpdate :: "'au environment \<Rightarrow> string list \<Rightarrow> 'au fsd_client \<Rightarrow> fault + 'au fsd_client" where
  "handlePilotDataUpdate env tokens c =
     (let dataUpdate = PilotDataUpdate_fromTokens tokens;
          callsign = CCallsign (m_sender dataUpdate) Aircraft;
          situation = \<lparr>m_timestampMSecsSinceEpoch = - 1, m_timeOffsetMs = 0, sit_callsign = callsign,
            sit_latitude = PilotDataUpdate_m_latitude dataUpdate,
            sit_longitude = PilotDataUpdate_m_longitude dataUpdate,
            sit_altitude_ft = d_of_int (PilotDataUpdate_m_altitudeTrue dataUpdate),
            sit_heading = PilotDataUpdate_m_heading dataUpdate,
            sit_pitch = PilotDataUpdate_m_pitch dataUpdate,
            sit_bank = PilotDataUpdate_m_bank dataUpdate,
            sit_groundSpeed_kts = Some (d_of_int (PilotDataUpdate_m_groundSpeed dataUpdate)),
            sit_pressureAltitude_ft = Some (PilotDataUpdate_m_altitudePressure dataUpdate),
            sit_onGround = Some (PilotDataUpdate_m_onGround dataUpdate)\<rparr>
      in and_then (with_offset env situation c) (\<lambda>(situation, c).
        let code = PilotDataUpdate_m_transponderCode dataUpdate;
            transponder = (if isValidTransponderCode code
              then CTransponder code (PilotDataUpdate_m_transponderMode dataUpdate)
              else CTransponder 2000 StateStandby)
        in Inr (emit (pilotDataUpdateReceived situation transponder) c)))"

definition handleEuroscopeSimData :: "'au environment \<Rightarrow> string list \<Rightarrow> 'au fsd_client \<Rightarrow> fault + 'au fsd_client" where
  "handleEuroscopeSimData env tokens c =
     (let d = EuroscopeSimData_fromTokens tokens;
          situation = \<lparr>m_timestampMSecsSinceEpoch = - 1, m_timeOffsetMs = 0, sit_callsign = CCallsign (m_sender d) Aircraft,
            sit_latitude = EuroscopeSimData_m_latitude d,
            sit_longitude = EuroscopeSimData_m_longitude d,
            sit_altitude_ft = EuroscopeSimData_m_altitude d,
            sit_heading = EuroscopeSimData_m_heading d,
            sit_pitch = d_of_int (c_int (- EuroscopeSimData_m_pitch d)),
            sit_bank = d_of_int (c_int (- EuroscopeSimData_m_bank d)),
            sit_groundSpeed_kts = Some (d_of_int (EuroscopeSimData_m_groundSpeed d)),
            sit_pressureAltitude_ft = None,
            sit_onGround = Some (EuroscopeSimData_m_onGround d)\<rparr>
      in and_then (with_offset env situation c) (\<lambda>(situation, c).
         and_then (currentOffsetTime (CCallsign (m_sender d) NoHint) (offsets c)) (\<lambda>currentOffsetTimeMs.
           Inr (emit (euroscopeSimDataUpdatedReceived situation
             (CAircraftParts_default\<lparr>m_lights := EuroscopeSimData_m_lights d, m_gearDown := EuroscopeSimData_m_gearPercent d \<noteq> 0,
                m_isOnGround := EuroscopeSimData_m_onGround d\<rparr>) currentOffsetTimeMs
             (EuroscopeSimData_m_model d) (EuroscopeSimData_m_livery d)) c))))"

definition visual_update_of :: "string list \<Rightarrow> MessageType \<Rightarrow> fault + VisualPilotDataUpdate" where
  "visual_update_of tokens messageType =
     (case messageType of
        Msg_VisualPilotDataUpdate \<Rightarrow> Inr (VisualPilotDataUpdate_fromTokens tokens)
      | Msg_VisualPilotDataPeriodic \<Rightarrow> Inr (VisualPilotDataPeriodic_toUpdate (VisualPilotDataPeriodic_fromTokens tokens))
      | Msg_VisualPilotDataStopped \<Rightarrow> Inr (VisualPilotDataStopped_toUpdate (VisualPilotDataStopped_fromTokens tokens))
      | _ \<Rightarrow> Inl AssertFailed)"

definition handleVisualPilotDataUpdate ::
    "'au environment \<Rightarrow> string list \<Rightarrow> MessageType \<Rightarrow> 'au fsd_client \<Rightarrow> fault + 'au fsd_client" where
  "handleVisualPilotDataUpdate env tokens messageType c =
     and_then (visual_update_of tokens messageType) (\<lambda>dataUpdate.
       let situation = \<lparr>m_timestampMSecsSinceEpoch = - 1, m_timeOffsetMs = 0, sit_callsign = CCallsign (m_sender dataUpdate) Aircraft,
            sit_latitude = VisualPilotDataUpdate_m_latitude dataUpdate,
            sit_longitude = VisualPilotDataUpdate_m_longitude dataUpdate,
            sit_altitude_ft = VisualPilotDataUpdate_m_altitudeTrue dataUpdate,
            sit_heading = VisualPilotDataUpdate_m_heading dataUpdate,
            sit_pitch = VisualPilotDataUpdate_m_pitch dataUpdate,
            sit_bank = VisualPilotDataUpdate_m_bank dataUpdate,
            sit_groundSpeed_kts = None, sit_pressureAltitude_ft = None, sit_onGround = None\<rparr>
       in and_then (with_offset env situation c) (\<lambda>(situation, c).
         Inr (emit (visualPilotDataUpdateReceived situation) c)))"

definition handleVisualPilotDataToggle :: "string list \<Rightarrow> 'au fsd_client \<Rightarrow> 'au fsd_client" where
  "handleVisualPilotDataToggle tokens c =
     c\<lparr>m_serverWantsVisualPositions := VisualPilotDataToggle_m_active (VisualPilotDataToggle_fromTokens tokens)\<rparr>"

subsection \<open>Ping, kill, flight plans\<close>

definition handlePing :: "'au environment \<Rightarrow> string list \<Rightarrow> 'au fsd_client \<Rightarrow> 'au fsd_client" where
  "handlePing env tokens c =
     (let ping = Ping_fromTokens tokens in sendPong env (m_sender ping) (Ping_m_timestamp ping) c)"

definition handlePong :: "'au environment \<Rightarrow> string list \<Rightarrow> 'au fsd_client \<Rightarrow> 'au fsd_client" where
  "handlePong env tokens c =
     (let pong = Pong_fromTokens tokens;
          elapsedTime = c_int64 (now env - q_toLongLong (Pong_m_timestamp pong))
      in emit (pongReceived (m_sender pong) (d_of_int elapsedTime)) c)"

definition handleKillRequest :: "string list \<Rightarrow> 'au fsd_client \<Rightarrow> 'au fsd_client" where
  "handleKillRequest tokens c =
     disconnectFromServer (emit (killRequestReceived (KillRequest_m_reason (KillRequest_fromTokens tokens))) c)"

definition is09OnlyString :: "string \<Rightarrow> bool" where
  "is09OnlyString testString \<longleftrightarrow> \<not> containsChar testString (\<lambda>c. \<not> is_digit c)"

fun flight_rules_of :: "FlightType \<Rightarrow> FlightRules" where
  "flight_rules_of FlightType_VFR = VFR"
| "flight_rules_of FlightType_IFR = IFR"
| "flight_rules_of FlightType_DVFR = DVFR"
| "flight_rules_of FlightType_SVFR = SVFR"

text \<open>An altitude of digits only is a flight level or, below 5000 and not under IFR, feet.\<close>

definition cruise_altitude_text :: "FlightRules \<Rightarrow> string \<Rightarrow> string" where
  "cruise_altitude_text rules cruiseAlt =
     (let cruiseAltString = q_trimmed cruiseAlt in
      if cruiseAltString \<noteq> [] \<and> is09OnlyString cruiseAltString
      then let ca = q_toInt cruiseAltString in
        (if rules = IFR
         then (if ca \<ge> 1000 then ''FL'' @ q_number (c_div ca 100) else ''FL'' @ cruiseAltString)
         else (if ca \<ge> 5000 then ''FL'' @ q_number (c_div ca 100) else cruiseAltString @ ''ft''))
      else cruiseAltString)"

definition time_text :: "int \<Rightarrow> string" where
  "time_text t = q_right (''0000'' @ q_number t) 4"

definition handleFlightPlan :: "string list \<Rightarrow> 'au fsd_client \<Rightarrow> 'au fsd_client" where
  "handleFlightPlan tokens c =
     (let fp = FlightPlan_fromTokens tokens;
          rules = flight_rules_of (FlightPlan_m_flightType fp);
          cruiseAltString = cruise_altitude_text rules (FlightPlan_m_cruiseAlt fp);
          depTimePlanned = time_text (FlightPlan_m_estimatedDepTime fp);
          depTimeActual = time_text (FlightPlan_m_actualDepTime fp);
          callsign = CCallsign (m_sender fp) Aircraft
      in emit (flightPlanReceived callsign fp rules cruiseAltString depTimePlanned depTimeActual) c)"

subsection \<open>Queries and responses\<close>

definition handle_config_query :: "'au environment \<Rightarrow> string \<Rightarrow> string list \<Rightarrow> 'au fsd_client \<Rightarrow> fault + 'au fsd_client" where
  "handle_config_query env sender tokens c =
     (let aircraftConfigJson = q_join '':'' (drop 3 tokens);
          callsign = CCallsign sender Aircraft;
          inRange = isAircraftInRange env callsign;
          receiveAircraftParts = testFlag (getSetupForServer c) ReceiveAircraftParts;
          doc = json_fromText env aircraftConfigJson;
          packet = j_toObject doc in
      if doc = None then Inr c
      else if packet = aircraftConfigRequest then
        let config = j_insert attributeNameIsFullJson (JBool True) (parts_toJson (own_parts (own env)))
        in Inr (sendAircraftConfiguration sender (convertToUnicodeEscaped (json_toText env [(''config'', JObject config)])) c)
      else if \<not> inRange then Inr c
      else if \<not> receiveAircraftParts then Inr c
      else let config = j_toObject (j_value packet ''config'') in
        if config = [] then Inr c
        else and_then (currentOffsetTime callsign (offsets c)) (\<lambda>offsetTimeMs.
          Inr (emit (aircraftConfigReceived sender config offsetTimeMs) c)))"

definition handleClientQuery :: "'au environment \<Rightarrow> string list \<Rightarrow> 'au fsd_client \<Rightarrow> fault + 'au fsd_client" where
  "handleClientQuery env tokens c =
     (let clientQuery = ClientQuery_fromTokens tokens; sender = m_sender clientQuery in
      case ClientQuery_m_queryType clientQuery of
        Query_Unknown \<Rightarrow> Inr c
      | Query_IsValidATC \<Rightarrow> Inr c
      | Query_Capabilities \<Rightarrow> Inr (sendClientResponse env Query_Capabilities sender c)
      | Query_Com1Freq \<Rightarrow> Inr (sendClientResponse env Query_Com1Freq sender c)
      | Query_RealName \<Rightarrow> Inr (sendClientResponse env Query_RealName sender c)
      | Query_Server \<Rightarrow> Inr (sendClientResponse env Query_Server sender c)
      | Query_ATIS \<Rightarrow> Inr c
      | Query_PublicIP \<Rightarrow> Inr c
      | Query_INF \<Rightarrow> Inr (sendClientResponse env Query_INF sender c)
      | Query_FP \<Rightarrow> Inr c
      | Query_AircraftConfig \<Rightarrow> handle_config_query env sender tokens c
      | Query_EuroscopeSimData \<Rightarrow> Inr c)"

definition read_capability :: "string \<Rightarrow> capabilities \<Rightarrow> capabilities" where
  "read_capability keyValuePair caps =
     (if count_list keyValuePair CHR ''='' \<noteq> 1 then caps
      else case q_split CHR ''='' keyValuePair of
        key # value # rest \<Rightarrow> if value = ''1'' then capabilities_or caps (fromQString_Capabilities key) else caps
      | _ \<Rightarrow> caps)"

definition client_capabilities :: "capabilities \<Rightarrow> 32 word" where
  "client_capabilities caps =
     (if capabilities_and caps (capability Cap_AtcInfo) then FsdAtisCanBeReceived else 0)
     OR (if capabilities_and caps (capability Cap_FastPos) then FsdWithInterimPositions else 0)
     OR (if capabilities_and caps (capability Cap_VisPos) then FsdWithVisualPositions else 0)
     OR (if capabilities_and caps (capability Cap_AircraftInfo) then FsdWithIcaoCodes else 0)
     OR (if capabilities_and caps (capability Cap_AircraftConfig) then FsdWithAircraftConfig else 0)"

definition handleClientReponse :: "string list \<Rightarrow> 'au fsd_client \<Rightarrow> 'au fsd_client" where
  "handleClientReponse tokens c =
     (let clientResponse = ClientResponse_fromTokens tokens;
          sender = m_sender clientResponse;
          responseData = ClientResponse_m_responseData clientResponse;
          responseData1 = (if length responseData > 0 then responseData ! 0 else '''');
          responseData2 = (if length responseData > 1 then responseData ! 1 else '''') in
      if isUnknownQuery clientResponse then c
      else case ClientResponse_m_queryType clientResponse of
        Query_IsValidATC \<Rightarrow> emit (validAtcResponseReceived responseData2 (responseData1 = ''Y'')) c
      | Query_Capabilities \<Rightarrow>
          let caps = fold read_capability responseData (capability Cap_None)
          in emit (capabilityResponseReceived (CCallsign sender NoHint) (client_capabilities caps)) c
      | Query_Com1Freq \<Rightarrow>
          if responseData1 = [] then c
          else (case d_toDouble_opt responseData1 of
                  None \<Rightarrow> c
                | Some freqMHz \<Rightarrow> emit (com1FrequencyResponseReceived sender freqMHz) c)
      | Query_RealName \<Rightarrow> emit (realNameResponseReceived sender responseData1) c
      | Query_Server \<Rightarrow> emit (serverResponseReceived sender responseData1) c
      | Query_ATIS \<Rightarrow> updateAtisMap sender (fromQString_AtisLineType responseData1) responseData2 c
      | _ \<Rightarrow> c)"

subsection \<open>Errors, IVAO parts, rehosting\<close>

definition handleServerError :: "string list \<Rightarrow> 'au fsd_client \<Rightarrow> 'au fsd_client" where
  "handleServerError tokens c =
     (let serverError = ServerError_fromTokens tokens in
      if isFatalError serverError then disconnectFromServer c else c)"

definition handleRevBClientPartsPacket :: "'au environment \<Rightarrow> string list \<Rightarrow> 'au fsd_client \<Rightarrow> fault + 'au fsd_client" where
  "handleRevBClientPartsPacket env tokens c =
     (let parts = RevBClientParts_fromTokens tokens; callsign = CCallsign (m_sender parts) Aircraft in
      if \<not> isAircraftInRange env callsign then Inr c
      else if \<not> testFlag (getSetupForServer c) ReceiveAircraftParts then Inr c
      else and_then (currentOffsetTime callsign (offsets c)) (\<lambda>offsetTimeMs.
        Inr (emit (revbAircraftConfigReceived (m_sender parts) (RevBClientParts_m_partsval1 parts) offsetTimeMs) c)))"

text \<open>The new socket connects in the background: \<open>rehost_failed\<close> and \<open>rehost_connected\<close> are its two
  outcomes. Whether the old socket is still connected is asked then.\<close>

definition handleRehost :: "string list \<Rightarrow> 'au fsd_client \<Rightarrow> 'au fsd_client" where
  "handleRehost tokens c = c\<lparr>m_rehosting := True\<rparr>"

definition rehost_connected :: "'au fsd_client \<Rightarrow> 'au fsd_client" where
  "rehost_connected c = c\<lparr>m_socketIsOpen := True, m_rehosting := False\<rparr>"

definition rehost_failed :: "bool \<Rightarrow> 'au fsd_client \<Rightarrow> 'au fsd_client" where
  "rehost_failed socketConnected c =
     (let c = c\<lparr>m_rehosting := False\<rparr> in
      if \<not> socketConnected then updateConnectionStatus Disconnected c else c)"

subsection \<open>Custom packets of pilot clients\<close>

definition handle_interim_position :: "'au environment \<Rightarrow> string list \<Rightarrow> 'au fsd_client \<Rightarrow> fault + 'au fsd_client" where
  "handle_interim_position env tokens c =
     (if \<not> isInterimPositionReceivingEnabledForServer c then Inr c
      else let d = InterimPilotDataUpdate_fromTokens tokens;
          situation = \<lparr>m_timestampMSecsSinceEpoch = - 1, m_timeOffsetMs = 0, sit_callsign = CCallsign (m_sender d) Aircraft,
            sit_latitude = InterimPilotDataUpdate_m_latitude d,
            sit_longitude = InterimPilotDataUpdate_m_longitude d,
            sit_altitude_ft = d_of_int (InterimPilotDataUpdate_m_altitudeTrue d),
            sit_heading = InterimPilotDataUpdate_m_heading d,
            sit_pitch = InterimPilotDataUpdate_m_pitch d,
            sit_bank = InterimPilotDataUpdate_m_bank d,
            sit_groundSpeed_kts = Some (d_of_int (InterimPilotDataUpdate_m_groundSpeed d)),
            sit_pressureAltitude_ft = None,
            sit_onGround = Some (InterimPilotDataUpdate_m_onGround d)\<rparr>
        in and_then (with_offset env situation c) (\<lambda>(situation, c).
          Inr (emit (interimPilotDataUpdatedReceived situation) c)))"

definition handleCustomPilotPacket :: "'au environment \<Rightarrow> string list \<Rightarrow> 'au fsd_client \<Rightarrow> fault + 'au fsd_client" where
  "handleCustomPilotPacket env tokens c =
     and_then (list_at tokens 2) (\<lambda>subType.
       if subType = ''PIR'' then
         let planeInfoRequest = PlaneInfoRequest_fromTokens tokens;
             myAircraft = own env;
             airlineIcao = (if testFlag (getSetupForServer c) Force3LetterAirlineICAO
               then own_airlineDesignator myAircraft else own_airlineVDesignator myAircraft);
             acTypeICAO = own_aircraftDesignator myAircraft;
             livery = getConfiguredLiveryString myAircraft c
         in Inr (sendPlaneInformation env (m_sender planeInfoRequest) acTypeICAO airlineIcao livery c)
       else if subType = ''PI'' then
         if length tokens > 6 \<and> tokens ! 3 = ''X'' then Inr c
         else if length tokens > 4 \<and> tokens ! 3 = ''GEN'' then
           let p = PlaneInformation_fromTokens tokens
           in Inr (emit (planeInformationReceived (m_sender p) (PlaneInformation_m_aircraft p)
                (PlaneInformation_m_airline p) (PlaneInformation_m_livery p)) c)
         else Inr c
       else if subType = ''I'' then Inr c
       else if subType = ''VI'' then handle_interim_position env tokens c
       else if subType = ''FSIPI'' then
         let p = PlaneInformationFsinn_fromTokens tokens
         in Inr (emit (planeInformationFsinnReceived (CCallsign (m_sender p) NoHint)
              (PlaneInformationFsinn_m_airlineIcao p) (PlaneInformationFsinn_m_aircraftIcao p)
              (PlaneInformationFsinn_m_aircraftIcaoCombinedType p) (PlaneInformationFsinn_m_sendMModelString p)) c)
       else if subType = ''FSIPIR'' then
         let p = PlaneInfoRequestFsinn_fromTokens tokens;
             c = sendPlaneInformationFsinn env (CCallsign (m_sender p) NoHint) c
         in Inr (emit (planeInformationFsinnReceived (CCallsign (m_sender p) NoHint)
              (PlaneInfoRequestFsinn_m_airlineIcao p) (PlaneInfoRequestFsinn_m_aircraftIcao p)
              (PlaneInfoRequestFsinn_m_aircraftIcaoCombinedType p) (PlaneInfoRequestFsinn_m_sendMModelString p)) c)
       else and_then (list_at tokens 0) (\<lambda>sender.
         Inr (emit (customPilotPacketReceived sender (drop 3 tokens)) c)))"

definition handleFsdIdentification :: "'au environment \<Rightarrow> string list \<Rightarrow> 'au fsd_client \<Rightarrow> 'au fsd_client" where
  "handleFsdIdentification env tokens c =
     (if m_protocolRevision c \<ge> PROTOCOL_REVISION_VATSIM_AUTH then
        let fsdIdentification = FSDIdentification_fromTokens tokens;
            c = c\<lparr>m_clientAuth := auth_set_initial_challenge env (m_clientAuth c)
                   (FSDIdentification_m_initialChallenge fsdIdentification)\<rparr>;
            (fsdChallenge, serverAuth) = auth_generate_challenge env (m_serverAuth c);
            c = c\<lparr>m_serverAuth := auth_set_initial_challenge env serverAuth fsdChallenge\<rparr>
        in sendClientIdentification env fsdChallenge c
      else disconnectFromServer c)"

subsection \<open>One line\<close>

definition handle_message :: "'au environment \<Rightarrow> MessageType \<Rightarrow> string list \<Rightarrow> 'au fsd_client \<Rightarrow> fault + 'au fsd_client" where
  "handle_message env messageType tokens c =
     (case messageType of
        Msg_AtcDataUpdate \<Rightarrow> handleAtcDataUpdate tokens c
      | Msg_AuthChallenge \<Rightarrow> Inr (handleAuthChallenge env tokens c)
      | Msg_AuthResponse \<Rightarrow> Inr (handleAuthResponse env tokens c)
      | Msg_ClientQuery \<Rightarrow> handleClientQuery env tokens c
      | Msg_ClientResponse \<Rightarrow> Inr (handleClientReponse tokens c)
      | Msg_DeleteATC \<Rightarrow> Inr (handleDeleteATC tokens c)
      | Msg_DeletePilot \<Rightarrow> Inr (handleDeletePilot tokens c)
      | Msg_FlightPlan \<Rightarrow> Inr (handleFlightPlan tokens c)
      | Msg_FsdIdentification \<Rightarrow> Inr (handleFsdIdentification env tokens c)
      | Msg_KillRequest \<Rightarrow> Inr (handleKillRequest tokens c)
      | Msg_PilotDataUpdate \<Rightarrow> handlePilotDataUpdate env tokens c
      | Msg_Ping \<Rightarrow> Inr (handlePing env tokens c)
      | Msg_Pong \<Rightarrow> Inr (handlePong env tokens c)
      | Msg_ServerError \<Rightarrow> Inr (handleServerError tokens c)
      | Msg_TextMessage \<Rightarrow> handleTextMessage env tokens c
      | Msg_PilotClientCom \<Rightarrow> handleCustomPilotPacket env tokens c
      | Msg_RevBClientParts \<Rightarrow> handleRevBClientPartsPacket env tokens c
      | Msg_VisualPilotDataUpdate \<Rightarrow> handleVisualPilotDataUpdate env tokens messageType c
      | Msg_VisualPilotDataPeriodic \<Rightarrow> handleVisualPilotDataUpdate env tokens messageType c
      | Msg_VisualPilotDataStopped \<Rightarrow> handleVisualPilotDataUpdate env tokens messageType c
      | Msg_VisualPilotDataToggle \<Rightarrow> Inr (handleVisualPilotDataToggle tokens c)
      | Msg_EuroscopeSimData \<Rightarrow> handleEuroscopeSimData env tokens c
      | Msg_Rehost \<Rightarrow> Inr (handleRehost tokens c)
      | _ \<Rightarrow> Inr c)"

definition parseMessage :: "'au environment \<Rightarrow> string \<Rightarrow> 'au fsd_client \<Rightarrow> fault + 'au fsd_client" where
  "parseMessage env lineRaw c =
     (let line = q_trimmed lineRaw;
          c = emitRawFsdMessage line False c;
          (cmd, messageType) = (case find (\<lambda>(str, mt). q_startsWith line str) (m_messageTypeMapping c) of
             Some (str, mt) \<Rightarrow> (str, mt) | None \<Rightarrow> ('''', Msg_Unknown));
          c = count env ''parseMessage'' (messageTypeToString messageType c) c in
      if messageType \<noteq> Msg_Unknown then
        let payload = q_trimmed (drop (length cmd) line) in
        if length payload = 0 then Inr c
        else handle_message env messageType (q_split CHR '':'' payload) c
      else Inr c)"

subsection \<open>The socket\<close>

text \<open>The loop of \<open>readDataFromSocketMaxLines\<close> over the lines the socket holds: the lines that are
  left and the limit of the next reading, if one is scheduled. A closed socket has no lines.\<close>

definition MaxLines :: int where
  "MaxLines = 75 - 1"

definition newMaxLines :: "int \<Rightarrow> int" where
  "newMaxLines lines = qRound (d_mul (mk_double (12 / 10)) (d_of_int lines))"

fun read_lines :: "'au environment \<Rightarrow> int \<Rightarrow> int \<Rightarrow> string list \<Rightarrow> 'au fsd_client
    \<Rightarrow> fault + ('au fsd_client \<times> string list \<times> int option)" where
  "read_lines env maxLines lines [] c = Inr (c, [], None)"
| "read_lines env maxLines lines (data # available) c =
     (if \<not> m_socketIsOpen c then Inr (c, [], None)
      else if data = [] then read_lines env maxLines lines available c
      else and_then (parseMessage env data c) (\<lambda>c.
        let lines = lines + 1;
            maxLines = (if maxLines < 0 then MaxLines else maxLines) in
        if lines > maxLines then Inr (c, available, Some (newMaxLines lines))
        else read_lines env maxLines lines available c))"

definition readDataFromSocketMaxLines :: "'au environment \<Rightarrow> int \<Rightarrow> string list \<Rightarrow> 'au fsd_client
    \<Rightarrow> fault + ('au fsd_client \<times> string list \<times> int option)" where
  "readDataFromSocketMaxLines env maxLines available c = read_lines env maxLines 0 available c"

definition sendFsdMessage :: "'au environment \<Rightarrow> string \<Rightarrow> 'au fsd_client \<Rightarrow> fault + 'au fsd_client" where
  "sendFsdMessage env message c = parseMessage env message c"

end
