(* ===== verification/FsdClientMachine.thy ===== *)
theory FsdClientMachine
  imports FsdClientReceive
begin

section \<open>The client as a state machine\<close>

text \<open>
  The constructor of \<open>CFSDClient\<close>, the events that reach a client (its timers, its socket, the web
  service that gives the token, and every public method its user calls, \<open>gracefulShutdown\<close> being
  \<open>disconnectFromServer\<close> and a \<open>sendClientQuery...\<close> a \<open>SendClientQuery\<close>) with the method each calls,
  and what a client is after a sequence of events. A timer fires only while it runs, a line comes only from an open socket.
  The environment is a new one at each event: the clock goes on, the own aircraft moves.
\<close>

definition CFSDClient :: "int \<Rightarrow> 'au \<Rightarrow> server_data \<Rightarrow> bool \<Rightarrow> 'au fsd_client" where
  "CFSDClient t0 auth server statistics =
     \<lparr>m_connectionStatus = Disconnected, m_loginMode = Pilot, m_server = server, m_serverType = LegacyFsd,
      m_simType = SimType_Unknown, m_pilotRating = PilotRating_Unknown, m_atcRating = AtcRating_Unknown,
      m_clientName = '''', m_hostApplication = '''', m_versionMajor = 0, m_versionMinor = 0,
      m_protocolRevision = 0, m_capabilities = capability Cap_None, m_ownCallsign = CCallsign_default,
      m_partnerCallsign = CCallsign_default, m_ownAircraftIcaoCode = '''', m_ownAirlineIcaoCode = '''',
      m_ownLivery = '''', m_ownModelString = '''', m_sendLiveryString = True, m_sendModelString = True,
      m_unitTestMode = False, m_rawFsdMessagesEnabled = False, m_filterPasswordFromLogin = False,
      m_clientAuth = auth, m_serverAuth = auth, m_lastServerAuthChallenge = '''', m_loginSince = - 1,
      m_rehosting = False, m_messageTypeMapping = initializeMessageTypes, m_sentAircraftConfig = CAircraftParts_default,
      m_tokenBucket = CTokenBucket t0 10 5000 1, m_interimPositionReceivers = [],
      m_textMessagesToConsolidate = [], m_dsSendTextMessage_active = False, m_inputsCount = 0,
      m_mapAtisMessages = Map.empty, m_pendingAtisQueries = Map.empty, offsets = offset_state_init,
      m_atcStations = [], stats = \<lparr>m_statistics = statistics, m_callStatistics = [], m_callByTime = []\<rparr>,
      m_queuedFsdMessages = [], m_stoppedSendingVisualPositions = False, m_serverWantsVisualPositions = False,
      m_visualPositionUpdateSentCount = 0, m_positionUpdateTimer = False, m_interimPositionUpdateTimer = False,
      m_visualPositionUpdateTimer = False, m_scheduledConfigUpdate = False, m_fsdSendMessageTimer = False,
      m_socketIsOpen = False, m_currentEcosystem = NoSystem, m_lastEcosystem = NoSystem,
      written = [], emitted = []\<rparr>"

datatype client_event =
  PositionTimer | InterimPositionTimer | VisualPositionTimer | ConfigTimer | SendTimer
| DigestTimer | PendingTimer
| SocketConnected | LineReceived string | SocketFailed SocketError string
| TokenReceived string | TokenRefused | RehostConnected | RehostFailed bool
| ConnectToServer | DisconnectFromServer
| SetServer server_data | SetCallsign CCallsign | SetLoginMode LoginMode | SetClientCapabilities capabilities
| SetClientName string | SetVersion int int | SetInterimPositionReceivers "CCallsign list"
| SetIcaoCodes string string | SetLiveryAndModelString string bool string bool | SetSimType Simulator
| SetHostApplication string | SetClientIdAndKey "16 word" string | SetPartnerCallsign CCallsign
| SetPilotRating PilotRating | SetAtcRating AtcRating
| AddInterimPositionReceiver CCallsign | RemoveInterimPositionReceiver CCallsign
| RawMessagesEnabled bool | StatisticsEnabled bool | ClearStatistics | StatisticsAsText bool string
| SendTextMessages "CTextMessage list" | SendTextMessage CTextMessage | SendGroupMessage TextMessageGroups string
| SendRadioMessage "int list" string
| SendPing string | SendClientQuery ClientQueryType CCallsign "string list"
| SendFlightPlan CFlightPlan | SendPlaneInfoRequest CCallsign | SendPlaneInfoRequestFsinn CCallsign

text \<open>Whether an event can come at all.\<close>

fun enabled :: "client_event \<Rightarrow> 'au fsd_client \<Rightarrow> bool" where
  "enabled PositionTimer c \<longleftrightarrow> m_positionUpdateTimer c"
| "enabled InterimPositionTimer c \<longleftrightarrow> m_interimPositionUpdateTimer c"
| "enabled VisualPositionTimer c \<longleftrightarrow> m_visualPositionUpdateTimer c"
| "enabled ConfigTimer c \<longleftrightarrow> m_scheduledConfigUpdate c"
| "enabled SendTimer c \<longleftrightarrow> m_fsdSendMessageTimer c"
| "enabled DigestTimer c \<longleftrightarrow> m_dsSendTextMessage_active c"
| "enabled SocketConnected c \<longleftrightarrow> m_socketIsOpen c"
| "enabled (LineReceived line) c \<longleftrightarrow> m_socketIsOpen c"
| "enabled (RehostFailed b) c \<longleftrightarrow> m_rehosting c"
| "enabled RehostConnected c \<longleftrightarrow> m_rehosting c"
| "enabled _ c \<longleftrightarrow> True"

fun handle_event :: "'au environment \<Rightarrow> client_event \<Rightarrow> 'au fsd_client \<Rightarrow> fault + 'au fsd_client" where
  "handle_event env PositionTimer c = Inr (sendPilotDataUpdate env c)"
| "handle_event env InterimPositionTimer c = Inr (sendInterimPilotDataUpdate env c)"
| "handle_event env VisualPositionTimer c = Inr (sendVisualPilotDataUpdate env False c)"
| "handle_event env ConfigTimer c = sendIncrementalAircraftConfig env c"
| "handle_event env SendTimer c = sendQueuedMessage c"
| "handle_event env DigestTimer c = Inr (digest_timerTimeout c)"
| "handle_event env PendingTimer c = Inr (pendingTimeoutCheck env c)"
| "handle_event env SocketConnected c = Inr (handleSocketConnected env c)"
| "handle_event env (LineReceived line) c = parseMessage env line c"
| "handle_event env (SocketFailed e text) c = Inr (handleSocketError e text c)"
| "handle_event env (TokenReceived token) c = Inr (vatsim_token_received env token c)"
| "handle_event env TokenRefused c = Inr (vatsim_token_refused c)"
| "handle_event env RehostConnected c = Inr (rehost_connected c)"
| "handle_event env (RehostFailed socketConnected) c = Inr (rehost_failed socketConnected c)"
| "handle_event env ConnectToServer c = connectToServer env c"
| "handle_event env DisconnectFromServer c = Inr (disconnectFromServer c)"
| "handle_event env (SetServer server) c = setServer server c"
| "handle_event env (SetCallsign callsign) c = setCallsign callsign c"
| "handle_event env (SetLoginMode mode) c = Inr (setLoginMode mode c)"
| "handle_event env (SetClientCapabilities caps) c = Inr (setClientCapabilities caps c)"
| "handle_event env (SetClientName name) c = Inr (setClientName name c)"
| "handle_event env (SetVersion major minor) c = Inr (setVersion major minor c)"
| "handle_event env (SetInterimPositionReceivers cs) c = Inr (setInterimPositionReceivers cs c)"
| "handle_event env (SetIcaoCodes aircraftIcao airlineIcao) c = setIcaoCodes aircraftIcao airlineIcao c"
| "handle_event env (SetLiveryAndModelString livery sendLivery model sendModel) c =
     Inr (setLiveryAndModelString livery sendLivery model sendModel c)"
| "handle_event env (SetSimType simulator) c = Inr (setSimType simulator c)"
| "handle_event env (SetHostApplication name) c = Inr (setHostApplication name c)"
| "handle_event env (SetClientIdAndKey i key) c = Inr (setClientIdAndKey (auth_create env i key) c)"
| "handle_event env (SetPartnerCallsign callsign) c = Inr (setPartnerCallsign callsign c)"
| "handle_event env (SetPilotRating rating) c = Inr (setPilotRating rating c)"
| "handle_event env (SetAtcRating rating) c = Inr (setAtcRating rating c)"
| "handle_event env (AddInterimPositionReceiver callsign) c = Inr (addInterimPositionReceiver callsign c)"
| "handle_event env (RemoveInterimPositionReceiver callsign) c = Inr (removeInterimPositionReceiver callsign c)"
| "handle_event env (RawMessagesEnabled b) c = Inr (fsdMessageSettingsChanged b c)"
| "handle_event env (StatisticsEnabled b) c = Inr (setStatisticsEnable b c)"
| "handle_event env ClearStatistics c = Inr (c\<lparr>stats := clearStatistics (stats c)\<rparr>)"
| "handle_event env (StatisticsAsText reset separator) c =
     Inr (c\<lparr>stats := snd (getNetworkStatisticsAsText reset separator (stats c))\<rparr>)"
| "handle_event env (SendTextMessages tms) c = Inr (sendTextMessages env tms c)"
| "handle_event env (SendTextMessage tm) c = Inr (sendTextMessage env tm c)"
| "handle_event env (SendRadioMessage frequencieskHz text) c = Inr (sendRadioMessage env frequencieskHz text c)"
| "handle_event env (SendGroupMessage grp text) c = Inr (sendTextMessage_group env grp text c)"
| "handle_event env (SendPing receiver) c = Inr (sendPing env receiver c)"
| "handle_event env (SendClientQuery qt receiver qd) c = Inr (sendClientQuery env qt receiver qd c)"
| "handle_event env (SendFlightPlan fp) c = Inr (sendFlightPlan env fp c)"
| "handle_event env (SendPlaneInfoRequest cs) c = Inr (sendPlaneInfoRequest env cs c)"
| "handle_event env (SendPlaneInfoRequestFsinn cs) c = Inr (sendPlaneInfoRequestFsinn env cs c)"

text \<open>A time some way from the ends of 64 bits.\<close>

definition clock_sane :: "'au environment \<Rightarrow> bool" where
  "clock_sane env \<longleftrightarrow> \<bar>now env\<bar> < 2 ^ 62"

inductive client_step :: "'au fsd_client \<Rightarrow> client_event \<Rightarrow> 'au fsd_client \<Rightarrow> bool" where
  client_step: "clock_sane env \<Longrightarrow> enabled ev c \<Longrightarrow> handle_event env ev c = Inr c' \<Longrightarrow> client_step c ev c'"

inductive_cases client_stepE: "client_step c ev c'"

inductive client_run :: "'au fsd_client \<Rightarrow> client_event list \<Rightarrow> 'au fsd_client \<Rightarrow> bool" where
  run_start: "client_run (CFSDClient t0 auth server statistics) [] (CFSDClient t0 auth server statistics)"
| run_step: "client_run c0 evs c \<Longrightarrow> client_step c ev c' \<Longrightarrow> client_run c0 (evs @ [ev]) c'"

inductive_cases client_runE: "client_run c0 evs c"

inductive_simps client_run_Nil: "client_run c0 [] c"

text \<open>The states a client can be in.\<close>

definition reachable :: "'au fsd_client \<Rightarrow> bool" where
  "reachable c \<longleftrightarrow> (\<exists>c0 evs. client_run c0 evs c)"

lemma reachable_induct [consumes 1, case_names start step]:
  assumes "reachable c"
    and "\<And>t0 auth server statistics. P (CFSDClient t0 auth server statistics)"
    and "\<And>c ev c'. reachable c \<Longrightarrow> P c \<Longrightarrow> client_step c ev c' \<Longrightarrow> P c'"
  shows "P c"
proof -
  obtain c0 evs where "client_run c0 evs c" using assms(1) by (auto simp: reachable_def)
  then show ?thesis
    by induction (use assms(2,3) reachable_def in blast)+
qed

lemma reachable_start: "reachable (CFSDClient t0 auth server statistics)"
  unfolding reachable_def by (blast intro: run_start)

lemma reachable_step: "reachable c \<Longrightarrow> client_step c ev c' \<Longrightarrow> reachable c'"
  unfolding reachable_def by (blast intro: run_step)

end
