(* ===== verification/FsdClientQueue.thy ===== *)
theory FsdClientQueue
  imports FsdClientSend
begin

section \<open>The send queue as a first-in first-out queue\<close>

text \<open>
  What the client relies on when it queues a message: it will be written after everything queued
  before it, once. The contract is a locale over a state with a pending and a sent sequence; the
  queue and the socket of \<open>CFSDClient\<close> interpret it. \<open>sendQueuedMessage\<close> is a number of dequeue steps
  that depends on the length of the queue alone (\<open>batch\<close>).
\<close>

subsection \<open>The contract\<close>

datatype 'm queue_op = Enq 'm | Deq

fun run_ops :: "('m \<Rightarrow> 's \<Rightarrow> 's) \<Rightarrow> ('s \<Rightarrow> fault + 's) \<Rightarrow> 'm queue_op list \<Rightarrow> 's \<Rightarrow> fault + 's" where
  "run_ops enq deq [] s = Inr s"
| "run_ops enq deq (Enq m # ops) s = run_ops enq deq ops (enq m s)"
| "run_ops enq deq (Deq # ops) s = and_then (deq s) (run_ops enq deq ops)"

text \<open>The abstract queue: what was sent and what is pending. Taking from an empty one is refused.\<close>

fun abstract_ops :: "'m queue_op list \<Rightarrow> 'm list \<times> 'm list \<Rightarrow> ('m list \<times> 'm list) option" where
  "abstract_ops [] q = Some q"
| "abstract_ops (Enq m # ops) (sent, pending) = abstract_ops ops (sent, pending @ [m])"
| "abstract_ops (Deq # ops) (sent, []) = None"
| "abstract_ops (Deq # ops) (sent, m # pending) = abstract_ops ops (sent @ [m], pending)"

fun enqueued :: "'m queue_op list \<Rightarrow> 'm list" where
  "enqueued [] = []"
| "enqueued (Enq m # ops) = m # enqueued ops"
| "enqueued (Deq # ops) = enqueued ops"

lemma abstract_ops_fifo:
  "abstract_ops ops (sent, pending) = Some (sent', pending') \<Longrightarrow>
    sent' @ pending' = sent @ pending @ enqueued ops"
  by (induction ops "(sent, pending)" arbitrary: sent pending rule: abstract_ops.induct) auto

lemma abstract_deqs:
  "n \<le> length pending \<Longrightarrow> abstract_ops (replicate n Deq) (sent, pending) = Some (sent @ take n pending, drop n pending)"
proof (induction n arbitrary: sent pending)
  case (Suc n)
  then show ?case by (cases pending) auto
qed simp

locale fifo_queue =
  fixes pending sent :: "'s \<Rightarrow> 'm list" and enq :: "'m \<Rightarrow> 's \<Rightarrow> 's" and deq :: "'s \<Rightarrow> fault + 's"
    and usable :: "'s \<Rightarrow> bool" and message_ok :: "'m \<Rightarrow> bool"
  assumes enq_queue: "usable s \<Longrightarrow> message_ok m \<Longrightarrow>
      usable (enq m s) \<and> pending (enq m s) = pending s @ [m] \<and> sent (enq m s) = sent s"
    and deq_queue: "usable s \<Longrightarrow> pending s = m # rest \<Longrightarrow>
      \<exists>s'. deq s = Inr s' \<and> usable s' \<and> pending s' = rest \<and> sent s' = sent s @ [m]"
    and deq_empty: "usable s \<Longrightarrow> pending s = [] \<Longrightarrow> deq s = Inl EmptyContainer"
begin

lemma refines:
  "usable s \<Longrightarrow> \<forall>m\<in>set (enqueued ops). message_ok m \<Longrightarrow>
   (case abstract_ops ops (sent s, pending s) of
      None \<Rightarrow> run_ops enq deq ops s = Inl EmptyContainer
    | Some q \<Rightarrow> \<exists>s'. run_ops enq deq ops s = Inr s' \<and> usable s' \<and> (sent s', pending s') = q)"
proof (induction ops arbitrary: s)
  case (Cons op ops)
  note IH = Cons.IH and prems = Cons.prems
  show ?case
  proof (cases op)
    case (Enq m)
    then show ?thesis using IH [of "enq m s"] prems enq_queue [of s m] by (auto split: option.splits)
  next
    case Deq
    show ?thesis
    proof (cases "pending s")
      case Nil
      with Deq prems deq_empty show ?thesis by simp
    next
      case (Cons m rest)
      from deq_queue [OF prems(1) this] obtain s' where s': "deq s = Inr s'" "usable s'"
        "pending s' = rest" "sent s' = sent s @ [m]" by blast
      with IH [of s'] prems Deq Cons show ?thesis by (auto split: option.splits)
    qed
  qed
qed simp

lemma deqs:
  assumes "usable s" "n \<le> length (pending s)"
  shows "\<exists>s'. run_ops enq deq (replicate n Deq) s = Inr s' \<and> usable s'
    \<and> sent s' = sent s @ take n (pending s) \<and> pending s' = drop n (pending s)"
proof -
  have "enqueued (replicate n Deq) = ([] :: 'm list)" by (induction n) auto
  then show ?thesis using refines [OF assms(1), of "replicate n Deq"] abstract_deqs [OF assms(2), of "sent s"] by auto
qed

end

subsection \<open>The client's queue\<close>

definition queue_text :: "string \<Rightarrow> 'au fsd_client \<Rightarrow> 'au fsd_client" where
  "queue_text s c = c\<lparr>m_queuedFsdMessages := m_queuedFsdMessages c @ [s]\<rparr>"

lemma sendQueudedMessage_queues:
  "m_isValid m \<Longrightarrow> \<not> m_unitTestMode c \<Longrightarrow>
    sendQueudedMessage pdu toTokens m c = queue_text (messageToFSDString pdu toTokens m) c"
  by (simp add: sendQueudedMessage_def queue_text_def)

lemma emitRaw_keeps [simp]:
  "m_queuedFsdMessages (emitRawFsdMessage s b c) = m_queuedFsdMessages c"
  "written (emitRawFsdMessage s b c) = written c"
  "m_unitTestMode (emitRawFsdMessage s b c) = m_unitTestMode c"
  "m_socketIsOpen (emitRawFsdMessage s b c) = m_socketIsOpen c"
  by (simp_all add: emitRawFsdMessage_def Let_def emit_def)

definition can_write :: "'au fsd_client \<Rightarrow> bool" where
  "can_write c \<longleftrightarrow> m_socketIsOpen c \<and> \<not> m_unitTestMode c \<and> [] \<notin> set (m_queuedFsdMessages c)"

interpretation client_queue: fifo_queue m_queuedFsdMessages written queue_text dequeue_and_send can_write
    "\<lambda>s. s \<noteq> []"
  by unfold_locales
    (auto simp: can_write_def queue_text_def dequeue_and_send_def sendMessageString_def Let_def)

subsection \<open>Batches\<close>

definition batch :: "nat \<Rightarrow> nat" where
  "batch s = (if s = 0 then 0 else 1) + (if s > 5 then 1 else 0) + (if s > 10 then 1 else 0)
     + (if s > 20 then 1 else 0) + (if s > 30 then 1 else 0)
     + (if s > 100 then 30 else if s > 75 then 20 else if s > 50 then 10 else 0)"

lemma repeat_send_ops: "repeat_send n c = run_ops queue_text dequeue_and_send (replicate n Deq) c"
  by (induction n arbitrary: c) (auto simp: and_then_def split: sum.splits)

lemma repeat_send_0 [simp]: "repeat_send 0 = Inr"
  by (rule ext) simp

lemma repeat_send_add: "repeat_send (m + n) c = and_then (repeat_send m c) (repeat_send n)"
  by (induction m arbitrary: c) (auto simp: and_then_def split: sum.splits)

lemma repeat_send_if: "(if b then dequeue_and_send c else Inr c) = repeat_send (if b then 1 else 0) c"
  by (simp add: repeat_send.simps(2) [abs_def])

lemma sendQueuedMessage_batch: "sendQueuedMessage c = repeat_send (batch (length (m_queuedFsdMessages c))) c"
proof (cases "m_queuedFsdMessages c = []")
  case False
  define s where "s = length (m_queuedFsdMessages c)"
  let ?n = "\<lambda>k. if s > k then 1 else (0 :: nat)"
  let ?big = "if s > 100 then 30 else if s > 75 then 20 else if s > 50 then 10 else (0 :: nat)"
  have "sendQueuedMessage c = and_then (repeat_send 1 c) (\<lambda>c. and_then (repeat_send (?n 5) c) (\<lambda>c.
      and_then (repeat_send (?n 10) c) (\<lambda>c. and_then (repeat_send (?n 20) c) (\<lambda>c.
      and_then (repeat_send (?n 30) c) (repeat_send ?big)))))"
    using False unfolding sendQueuedMessage_def repeat_send_if Let_def s_def by simp
  also have "\<dots> = repeat_send (1 + ?n 5 + ?n 10 + ?n 20 + ?n 30 + ?big) c"
    by (simp only: repeat_send_add and_then_assoc)
  finally show ?thesis using False by (simp add: batch_def s_def)
qed (simp add: sendQueuedMessage_def batch_def)

lemma batch_le: "batch s \<le> s"
  by (simp add: batch_def)

lemma batch_pos: "0 < s \<Longrightarrow> 0 < batch s"
  by (simp add: batch_def)

lemma batch_max: "batch s \<le> 35"
  by (simp add: batch_def)

text \<open>One firing of the send timer.\<close>

lemma sendQueuedMessage_sends:
  assumes "can_write c"
  shows "\<exists>c'. sendQueuedMessage c = Inr c' \<and> can_write c'
    \<and> written c' = written c @ take (batch (length (m_queuedFsdMessages c))) (m_queuedFsdMessages c)
    \<and> m_queuedFsdMessages c' = drop (batch (length (m_queuedFsdMessages c))) (m_queuedFsdMessages c)"
  using client_queue.deqs [OF assms batch_le] unfolding sendQueuedMessage_batch repeat_send_ops by blast

text \<open>It never faults, whatever the client's state.\<close>

lemma sendQueuedMessage_total: "\<exists>c'. sendQueuedMessage c = Inr c'"
proof -
  have "n \<le> length (m_queuedFsdMessages c) \<Longrightarrow> \<exists>c'. repeat_send n c = Inr c'" for n and c :: "'a fsd_client"
  proof (induction n arbitrary: c)
    case (Suc n)
    then obtain m rest where q: "m_queuedFsdMessages c = m # rest" by (cases "m_queuedFsdMessages c") auto
    have "m_queuedFsdMessages (sendMessageString m (c\<lparr>m_queuedFsdMessages := rest\<rparr>)) = rest"
      by (simp add: sendMessageString_def Let_def)
    with Suc q show ?case by (simp add: dequeue_and_send_def)
  qed simp
  then show ?thesis using batch_le sendQueuedMessage_batch by metis
qed

end
