(* ===== verification/FsdClientInvariant.thy ===== *)
theory FsdClientInvariant
  imports FsdClientMachine FsdClientQueue
begin

section \<open>An invariant of the client\<close>

text \<open>
  \<open>client_ok\<close> holds in every reachable state: the timers are off while disconnected, whatever is
  queued or written is a message with its line end, buffered text messages have a running timer
  that will deliver them, the bookkeeping of delays and statistics stays within its bounds, the
  stations have different callsigns, the throttle of configurations cannot fault. Each operation
  keeps it: the primitive ones are unfolded once, the others follow by simplification.
\<close>

subsection \<open>The invariant\<close>

definition framed :: "string \<Rightarrow> bool" where
  "framed s \<longleftrightarrow> (\<exists>p. s = p @ crlf)"

definition timers_off :: "'au fsd_client \<Rightarrow> bool" where
  "timers_off c \<longleftrightarrow> \<not> m_positionUpdateTimer c \<and> \<not> m_interimPositionUpdateTimer c \<and> \<not> m_visualPositionUpdateTimer c
     \<and> \<not> m_scheduledConfigUpdate c \<and> \<not> m_fsdSendMessageTimer c"

definition stations_distinct :: "atc_station list \<Rightarrow> bool" where
  "stations_distinct ss \<longleftrightarrow> sorted_wrt (\<lambda>a b. \<not> callsign_eq (st_callsign a) (st_callsign b)) ss"

text \<open>A position that is sent on carries a time of the clock and a delay of at most six seconds.\<close>

definition sane_times :: "'a timestamp_with_offset_scheme \<Rightarrow> bool" where
  "sane_times s \<longleftrightarrow> \<bar>m_timestampMSecsSinceEpoch s\<bar> < 2 ^ 62 \<and> 0 \<le> m_timeOffsetMs s \<and> m_timeOffsetMs s \<le> c_positionTimeOffsetMsec"

fun signal_sane :: "fsd_event \<Rightarrow> bool" where
  "signal_sane (pilotDataUpdateReceived s transponder) = sane_times s"
| "signal_sane (interimPilotDataUpdatedReceived s) = sane_times s"
| "signal_sane (visualPilotDataUpdateReceived s) = sane_times s"
| "signal_sane (euroscopeSimDataUpdatedReceived s parts os model livery) = sane_times s"
| "signal_sane _ = True"

definition client_ok :: "'au fsd_client \<Rightarrow> bool" where
  "client_ok c \<longleftrightarrow>
     (m_connectionStatus c = Disconnected \<longrightarrow> timers_off c)
     \<and> (\<forall>s\<in>set (m_queuedFsdMessages c). framed s) \<and> (\<forall>s\<in>set (written c). framed s)
     \<and> offsets_ok (offsets c) \<and> length (m_callByTime (stats c)) \<le> MaxTimeValues
     \<and> 0 \<le> m_inputsCount c \<and> m_inputsCount c < 10 \<and> (m_dsSendTextMessage_active c \<longleftrightarrow> m_inputsCount c > 0)
     \<and> (m_textMessagesToConsolidate c \<noteq> [] \<longrightarrow> 0 < m_inputsCount c)
     \<and> m_messageTypeMapping c = initializeMessageTypes
     \<and> m_capacity (m_tokenBucket c) = 10 \<and> m_intervalMs (m_tokenBucket c) = 5000
     \<and> stations_distinct (m_atcStations c) \<and> \<not> m_unitTestMode c
     \<and> m_additionalOffsetTime (offsets c) = 0 \<and> list_all signal_sane (emitted c)"

lemma additional_offset [simp]:
  "m_additionalOffsetTime offset_state_init = 0" "m_additionalOffsetTime (clear_offsets os) = m_additionalOffsetTime os"
  "m_additionalOffsetTime (clear_offsets_of cs os) = m_additionalOffsetTime os"
  by (simp_all add: offset_state_init_def clear_offsets_def clear_offsets_of_def)

lemma ok_start: "client_ok (CFSDClient t0 auth server statistics)"
  by (simp add: client_ok_def CFSDClient_def timers_off_def offsets_ok_init CTokenBucket_def stations_distinct_def)

text \<open>The members the invariant does not mention.\<close>

lemma ok_other_members [simp]:
  "client_ok (c\<lparr>m_filterPasswordFromLogin := b\<rparr>) = client_ok c"
  "client_ok (c\<lparr>m_visualPositionUpdateSentCount := w\<rparr>) = client_ok c"
  "client_ok (c\<lparr>m_stoppedSendingVisualPositions := b\<rparr>) = client_ok c"
  "client_ok (c\<lparr>m_serverWantsVisualPositions := b\<rparr>) = client_ok c"
  "client_ok (c\<lparr>m_pendingAtisQueries := q\<rparr>) = client_ok c"
  "client_ok (c\<lparr>m_mapAtisMessages := a\<rparr>) = client_ok c"
  "client_ok (c\<lparr>m_clientAuth := x\<rparr>) = client_ok c"
  "client_ok (c\<lparr>m_serverAuth := x\<rparr>) = client_ok c"
  "client_ok (c\<lparr>m_lastServerAuthChallenge := s\<rparr>) = client_ok c"
  "client_ok (c\<lparr>m_rehosting := b\<rparr>) = client_ok c"
  "client_ok (c\<lparr>m_sentAircraftConfig := p\<rparr>) = client_ok c"
  "client_ok (c\<lparr>m_hostApplication := s\<rparr>) = client_ok c"
  "client_ok (c\<lparr>m_ownAircraftIcaoCode := s\<rparr>) = client_ok c"
  "client_ok (c\<lparr>m_ownAirlineIcaoCode := s\<rparr>) = client_ok c"
  "client_ok (c\<lparr>m_ownLivery := s\<rparr>) = client_ok c"
  "client_ok (c\<lparr>m_ownModelString := s\<rparr>) = client_ok c"
  "client_ok (c\<lparr>m_sendLiveryString := b\<rparr>) = client_ok c"
  "client_ok (c\<lparr>m_sendModelString := b\<rparr>) = client_ok c"
  "client_ok (c\<lparr>m_simType := st\<rparr>) = client_ok c"
  "client_ok (c\<lparr>m_partnerCallsign := cs\<rparr>) = client_ok c"
  "client_ok (c\<lparr>m_pilotRating := pr\<rparr>) = client_ok c"
  "client_ok (c\<lparr>m_atcRating := ar\<rparr>) = client_ok c"
  "client_ok (c\<lparr>m_loginSince := i\<rparr>) = client_ok c"
  "client_ok (c\<lparr>m_socketIsOpen := b\<rparr>) = client_ok c"
  "client_ok (c\<lparr>m_server := srv\<rparr>) = client_ok c"
  "client_ok (c\<lparr>m_protocolRevision := i\<rparr>) = client_ok c"
  "client_ok (c\<lparr>m_ownCallsign := cs\<rparr>) = client_ok c"
  "client_ok (c\<lparr>m_ownAircraftIcaoCode := s\<rparr>) = client_ok c"
  "client_ok (c\<lparr>m_ownAirlineIcaoCode := s\<rparr>) = client_ok c"
  "client_ok (c\<lparr>m_interimPositionReceivers := l\<rparr>) = client_ok c"
  "client_ok (c\<lparr>m_currentEcosystem := e\<rparr>) = client_ok c"
  "client_ok (c\<lparr>m_lastEcosystem := e\<rparr>) = client_ok c"
  "client_ok (c\<lparr>m_loginMode := mode\<rparr>) = client_ok c"
  "client_ok (c\<lparr>m_capabilities := caps\<rparr>) = client_ok c"
  "client_ok (c\<lparr>m_clientName := s\<rparr>) = client_ok c"
  "client_ok (c\<lparr>m_versionMajor := i\<rparr>) = client_ok c"
  "client_ok (c\<lparr>m_versionMinor := i\<rparr>) = client_ok c"
  "client_ok (c\<lparr>m_rawFsdMessagesEnabled := b\<rparr>) = client_ok c"
  by (simp_all add: client_ok_def timers_off_def)

lemma ok_emit [simp]: "client_ok (emit e c) = (client_ok c \<and> signal_sane e)"
  by (auto simp: emit_def client_ok_def timers_off_def)

subsection \<open>Sending\<close>

lemma framed_message: "m_isValid m \<Longrightarrow> framed (messageToFSDString pdu toTokens m)"
  by (auto simp: framed_def messageToFSDString_def)

lemma ok_emitRaw [simp]: "client_ok (emitRawFsdMessage s b c) = client_ok c"
  by (simp add: emitRawFsdMessage_def Let_def)

lemma ok_sendMessageString [simp]: "framed s \<Longrightarrow> client_ok c \<Longrightarrow> client_ok (sendMessageString s c)"
  by (simp add: sendMessageString_def Let_def) (simp add: client_ok_def timers_off_def)

lemma ok_sendDirectMessage [simp]: "client_ok c \<Longrightarrow> client_ok (sendDirectMessage pdu toTokens m c)"
  by (simp add: sendDirectMessage_def framed_message)

lemma ok_sendQueudedMessage [simp]: "client_ok c \<Longrightarrow> client_ok (sendQueudedMessage pdu toTokens m c)"
  by (auto simp: sendQueudedMessage_def client_ok_def framed_message timers_off_def)

lemma ok_dequeue [simp]: "client_ok c \<Longrightarrow> all_ok client_ok (dequeue_and_send c)"
proof (cases "m_queuedFsdMessages c")
  case (Cons s rest)
  assume "client_ok c"
  with Cons have "framed s" "client_ok (c\<lparr>m_queuedFsdMessages := rest\<rparr>)"
    by (simp_all add: client_ok_def timers_off_def)
  with Cons show ?thesis by (simp add: dequeue_and_send_def)
qed (simp add: dequeue_and_send_def)

lemma ok_repeat_send [simp]: "client_ok c \<Longrightarrow> all_ok client_ok (repeat_send n c)"
  by (induction n arbitrary: c) (auto intro: all_ok_mono [OF ok_dequeue])

lemma ok_sendQueuedMessage [simp]: "client_ok c \<Longrightarrow> all_ok client_ok (sendQueuedMessage c)"
  by (simp add: sendQueuedMessage_batch)

lemma ok_count [simp]: "client_ok c \<Longrightarrow> client_ok (count env i a c)"
  using increase_bounded by (simp add: count_def client_ok_def timers_off_def)

lemma ok_fold: "(\<And>x c. client_ok c \<Longrightarrow> client_ok (f x c)) \<Longrightarrow> client_ok c \<Longrightarrow> client_ok (fold f xs c)"
  by (induction xs arbitrary: c) auto

lemma ok_positions [simp]: assumes "client_ok c"
  shows "client_ok (sendVisualPilotDataUpdate env slow c)" "client_ok (sendPilotDataUpdate env c)"
    "client_ok (sendInterimPilotDataUpdate env c)"
proof -
  have 1: "client_ok (send_visual_message env c)" if "client_ok c" for c :: "'a fsd_client"
    using that by (simp add: send_visual_message_def Let_def)
  show 2: "client_ok (sendVisualPilotDataUpdate env slow c)" for slow
    using assms by (simp add: sendVisualPilotDataUpdate_def Let_def 1)
  show "client_ok (sendPilotDataUpdate env c)"
    using assms by (simp add: sendPilotDataUpdate_def Let_def 2 sendAtcDataUpdate_def)
  show "client_ok (sendInterimPilotDataUpdate env c)"
    using assms by (auto simp: sendInterimPilotDataUpdate_def Let_def intro!: ok_fold)
qed

lemma ok_sendClientQuery [simp]: "client_ok c \<Longrightarrow> client_ok (sendClientQuery env qt receiver qd c)"
  unfolding sendClientQuery_def Let_def by (cases qt) simp_all

lemma ok_sendRadioMessage [simp]: "client_ok c \<Longrightarrow> client_ok (sendRadioMessage env fs m c)"
  by (simp add: sendRadioMessage_def Let_def)

lemma ok_sendTextMessages [simp]: "client_ok c \<Longrightarrow> client_ok (sendTextMessages env tms c)"
  unfolding sendTextMessages_def Let_def
  by (auto intro!: ok_fold simp: send_private_def send_radio_def Let_def)

lemma ok_sendTextMessage_group [simp]: "client_ok c \<Longrightarrow> client_ok (sendTextMessage_group env g m c)"
  unfolding sendTextMessage_group_def Let_def by simp

lemma ok_send_other [simp]:
  assumes "client_ok c"
  shows "client_ok (sendPing env r c)"
    "client_ok (sendFlightPlan env fp c)" "client_ok (sendPlaneInfoRequest env cs c)"
    "client_ok (sendPlaneInfoRequestFsinn env cs c)" "client_ok (sendPlaneInformation env r a l v c)"
    "client_ok (sendPlaneInformationFsinn env cs c)" "client_ok (sendAircraftConfiguration r j c)"
    "client_ok (sendAuthChallenge env s c)" "client_ok (sendAuthResponse env s c)" "client_ok (sendPong env r s c)"
  using assms unfolding sendPing_def sendFlightPlan_def sendPlaneInfoRequest_def
    sendPlaneInfoRequestFsinn_def sendPlaneInformation_def sendPlaneInformationFsinn_def
    sendAircraftConfiguration_def sendAuthChallenge_def sendAuthResponse_def sendPong_def Let_def
  by (simp_all split: if_split)

lemma ok_sendClientResponse [simp]: "client_ok c \<Longrightarrow> client_ok (sendClientResponse env qt r c)"
  unfolding sendClientResponse_def Let_def by (cases qt) simp_all

text \<open>The bucket keeps its capacity and interval, so taking one token from it does not fault.\<close>

lemma getTokens_result:
  "m_intervalMs b \<noteq> 0 \<Longrightarrow> \<exists>n b'. getTokens t ms b = Inr (n, b') \<and> m_capacity b' = m_capacity b
    \<and> m_intervalMs b' = m_intervalMs b"
  unfolding getTokens_def Let_def by simp

lemma tryConsume_result:
  assumes "m_intervalMs b \<noteq> 0" "0 < n" "n < m_capacity b"
  shows "\<exists>ok b'. tryConsume t n ms b = Inr (ok, b') \<and> m_capacity b' = m_capacity b \<and> m_intervalMs b' = m_intervalMs b"
proof -
  from getTokens_result [OF assms(1), of t ms] obtain k b' where
    "getTokens t ms b = Inr (k, b')" "m_capacity b' = m_capacity b" "m_intervalMs b' = m_intervalMs b" by blast
  then show ?thesis using assms(2,3) unfolding tryConsume_def Let_def by auto
qed

lemma ok_bucket:
  assumes "client_ok c"
  shows "\<exists>ok b. tryConsume t 1 ms (m_tokenBucket c) = Inr (ok, b) \<and> client_ok (c\<lparr>m_tokenBucket := b\<rparr>)"
proof -
  from assms have b: "m_intervalMs (m_tokenBucket c) = 5000" "m_capacity (m_tokenBucket c) = 10"
    by (simp_all add: client_ok_def)
  then obtain ok b' where "tryConsume t 1 ms (m_tokenBucket c) = Inr (ok, b')"
      "m_capacity b' = 10" "m_intervalMs b' = 5000"
    using tryConsume_result [of "m_tokenBucket c" 1 t ms] by auto
  moreover from this(2,3) have "client_ok (c\<lparr>m_tokenBucket := b'\<rparr>)"
    using assms by (simp add: client_ok_def timers_off_def)
  ultimately show ?thesis by blast
qed

lemma incremental_result:
  assumes "client_ok c"
  shows "\<exists>c'. sendIncrementalAircraftConfig env c = Inr c' \<and> client_ok c'"
proof -
  from ok_bucket [OF assms, of "now env" "- 1"] obtain ok b where
    "tryConsume (now env) 1 (- 1) (m_tokenBucket c) = Inr (ok, b)" "client_ok (c\<lparr>m_tokenBucket := b\<rparr>)" by blast
  then show ?thesis using assms unfolding sendIncrementalAircraftConfig_def Let_def by simp
qed

lemma ok_incremental [simp]: "client_ok c \<Longrightarrow> all_ok client_ok (sendIncrementalAircraftConfig env c)"
  using incremental_result [of c env] by auto

subsection \<open>The connection\<close>

lemma ok_stop_timers [simp]: "client_ok c \<Longrightarrow> client_ok (stopPositionTimers c)"
  by (simp add: client_ok_def stopPositionTimers_def timers_off_def)

lemma ok_clearState [simp]: "client_ok c \<Longrightarrow> client_ok (clearState c)"
  by (simp add: client_ok_def clearState_def timers_off_def offsets_ok_clear stations_distinct_def)

lemma ok_clearState_callsign [simp]: "client_ok c \<Longrightarrow> client_ok (clearState_callsign cs c)"
  by (simp add: clearState_callsign_def client_ok_def timers_off_def offsets_ok_clear)

lemma ok_new_status:
  "client_ok c \<Longrightarrow> (s = Disconnected \<Longrightarrow> timers_off c) \<Longrightarrow> client_ok (c\<lparr>m_connectionStatus := s\<rparr>)"
  by (simp add: client_ok_def timers_off_def)

lemma timers_off_simps [simp]: "timers_off (stopPositionTimers c)" "timers_off (clearState c) = timers_off c"
  "timers_off (c\<lparr>m_currentEcosystem := e\<rparr>) = timers_off c" "timers_off (c\<lparr>m_lastEcosystem := e\<rparr>) = timers_off c"
  by (simp_all add: timers_off_def stopPositionTimers_def clearState_def)

lemma ok_updateConnectionStatus [simp]: "client_ok c \<Longrightarrow> client_ok (updateConnectionStatus s c)"
  by (simp add: updateConnectionStatus_def Let_def ok_new_status)

lemma ok_disconnect [simp]: "client_ok c \<Longrightarrow> client_ok (disconnectFromServer c)"
  unfolding disconnectFromServer_def Let_def
  by (simp add: sendDeletePilot_def sendDeleteAtc_def split: LoginMode.split)

lemma status_Connecting: "m_connectionStatus (updateConnectionStatus s c) = s"
  by (simp add: updateConnectionStatus_def Let_def emit_def)

lemma ok_start_timers: "client_ok c \<Longrightarrow> m_connectionStatus c \<noteq> Disconnected \<Longrightarrow> client_ok (startPositionTimers c)"
  by (simp add: client_ok_def startPositionTimers_def)

lemma ok_connectToServer [simp]: "client_ok c \<Longrightarrow> all_ok client_ok (connectToServer env c)"
  unfolding connectToServer_def Let_def
  by (auto intro!: ok_start_timers simp: status_Connecting)

lemma ok_sendLogin [simp]: "client_ok c \<Longrightarrow> client_ok (sendLogin env token c)"
  unfolding sendLogin_def Let_def by (simp split: LoginMode.split)

lemma ok_login [simp]:
  assumes "client_ok c"
  shows "client_ok (login_and_connected env token c)" "client_ok (sendClientIdentification env s c)"
    "client_ok (vatsim_token_received env token c)" "client_ok (vatsim_token_refused c)"
    "client_ok (handleSocketConnected env c)" "client_ok (pendingTimeoutCheck env c)"
  using assms unfolding login_and_connected_def sendClientIdentification_def vatsim_token_received_def
    vatsim_token_refused_def handleSocketConnected_def pendingTimeoutCheck_def Let_def
  by simp_all

lemma ok_socket_error [simp]: "client_ok c \<Longrightarrow> client_ok (handleSocketError e s c)"
  unfolding handleSocketError_def by (simp split: SocketError.split)

lemma ok_settings [simp]:
  assumes "client_ok c"
  shows "all_ok client_ok (setServer server c)" "all_ok client_ok (setCallsign cs c)"
    "client_ok (setLoginMode mode c)" "client_ok (setClientCapabilities caps c)" "client_ok (setClientName n c)"
    "client_ok (setVersion i j c)" "client_ok (setInterimPositionReceivers l c)"
    "client_ok (fsdMessageSettingsChanged b c)" "client_ok (setStatisticsEnable b c)"
    "all_ok client_ok (setIcaoCodes ac al c)" "client_ok (setLiveryAndModelString lv b1 mdl b2 c)"
    "client_ok (setSimType sim c)" "client_ok (setHostApplication n c)" "client_ok (setClientIdAndKey auth c)"
    "client_ok (setPartnerCallsign cs c)" "client_ok (setPilotRating pr c)" "client_ok (setAtcRating ar c)"
    "client_ok (addInterimPositionReceiver cs c)" "client_ok (removeInterimPositionReceiver cs c)"
    "client_ok (c\<lparr>stats := clearStatistics (stats c)\<rparr>)"
    "client_ok (c\<lparr>stats := snd (getNetworkStatisticsAsText b sep (stats c))\<rparr>)"
    "client_ok (sendTextMessage env tm c)"
proof -
  show "client_ok (setStatisticsEnable b c)"
    using assms by (simp add: setStatisticsEnable_def client_ok_def timers_off_def)
  show "client_ok (c\<lparr>stats := clearStatistics (stats c)\<rparr>)"
    using assms by (simp add: clearStatistics_def client_ok_def timers_off_def)
  show "client_ok (c\<lparr>stats := snd (getNetworkStatisticsAsText b sep (stats c))\<rparr>)"
    using assms by (simp add: getNetworkStatisticsAsText_def clearStatistics_def client_ok_def timers_off_def Let_def)
  show "client_ok (sendTextMessage env tm c)"
    using assms by (simp add: sendTextMessage_def)
qed (use assms in \<open>simp_all add: setServer_def setCallsign_def setLoginMode_def setClientCapabilities_def
  setClientName_def setVersion_def setInterimPositionReceivers_def fsdMessageSettingsChanged_def setIcaoCodes_def
  setLiveryAndModelString_def setSimType_def setHostApplication_def setClientIdAndKey_def setPartnerCallsign_def
  setPilotRating_def setAtcRating_def addInterimPositionReceiver_def removeInterimPositionReceiver_def\<close>)

text \<open>The buffer of text messages: its timer runs from the first message until it is emptied.\<close>

lemma ok_digest_timeout [simp]: "client_ok c \<Longrightarrow> client_ok (digest_timerTimeout c)"
  by (simp add: digest_timerTimeout_def emitConsolidatedTextMessages_def emit_def client_ok_def timers_off_def)

lemma ok_consolidate [simp]:
  assumes "client_ok c" shows "client_ok (consolidateTextMessage tm c)"
proof (cases "isSupervisorMessage tm")
  case False
  define tms where "tms = addConsolidatedTextMessage tm (m_textMessagesToConsolidate c)"
  have "client_ok (digest_inputSignal (c\<lparr>m_textMessagesToConsolidate := tms\<rparr>))"
    using assms unfolding digest_inputSignal_def Let_def
    by (auto simp: digest_timerTimeout_def emitConsolidatedTextMessages_def emit_def client_ok_def timers_off_def)
  with False show ?thesis by (simp add: consolidateTextMessage_def tms_def)
qed (use assms in \<open>simp add: consolidateTextMessage_def\<close>)

lemma ok_updateAtisMap [simp]: "client_ok c \<Longrightarrow> client_ok (updateAtisMap cs t l c)"
  unfolding updateAtisMap_def Let_def set_atis_def
  by (simp split: AtisLineType.split option.split)

lemma ok_maybeHandleAtisReply [simp]: "client_ok c \<Longrightarrow> all_ok client_ok (maybeHandleAtisReply env s r m c)"
  unfolding maybeHandleAtisReply_def Let_def
  by (cases "m_pendingAtisQueries c (asString s)") simp_all

subsection \<open>Receiving\<close>

lemma distinct_replaceOrAdd: "stations_distinct ss \<Longrightarrow> stations_distinct (replaceOrAddObjectByCallsign s ss)"
  by (auto simp: stations_distinct_def replaceOrAddObjectByCallsign_def Let_def sorted_wrt_append sorted_wrt_filter)

lemma distinct_remove: "stations_distinct ss \<Longrightarrow> stations_distinct (removeByCallsign cs ss)"
  by (simp add: stations_distinct_def removeByCallsign_def sorted_wrt_filter)

lemma ok_stations: "client_ok c \<Longrightarrow> stations_distinct ss \<Longrightarrow> client_ok (c\<lparr>m_atcStations := ss\<rparr>)"
  by (simp add: client_ok_def timers_off_def)

lemma ok_distinct: "client_ok c \<Longrightarrow> stations_distinct (m_atcStations c)"
  by (simp add: client_ok_def)

lemma emit_stations [simp]: "m_atcStations (emit e c) = m_atcStations c"
  by (simp add: emit_def)

lemma ok_station_handlers [simp]:
  assumes "client_ok c"
  shows "all_ok client_ok (handleAtcDataUpdate tokens c)" "client_ok (handleDeleteATC tokens c)"
    "client_ok (handleDeletePilot tokens c)"
proof -
  show "client_ok (handleDeleteATC tokens c)" "client_ok (handleDeletePilot tokens c)"
    using assms unfolding handleDeleteATC_def handleDeletePilot_def Let_def
    by (simp_all add: ok_stations ok_distinct distinct_remove)
  show "all_ok client_ok (handleAtcDataUpdate tokens c)"
    using assms unfolding handleAtcDataUpdate_def Let_def
    by (auto intro!: all_ok_always ok_stations distinct_replaceOrAdd simp: ok_distinct)
qed

lemma ok_auth_handlers [simp]:
  assumes "client_ok c"
  shows "client_ok (handleAuthChallenge env tokens c)" "client_ok (handleAuthResponse env tokens c)"
    "client_ok (handleFsdIdentification env tokens c)"
  using assms unfolding handleAuthChallenge_def handleAuthResponse_def handleFsdIdentification_def Let_def
  by (simp_all split: prod.split)

lemma ok_handleTextMessage [simp]: "client_ok c \<Longrightarrow> all_ok client_ok (handleTextMessage env tokens c)"
  unfolding handleTextMessage_def Let_def by (simp split: TextMessageType.split)

text \<open>Receiving a position keeps the bookkeeping of delays within its bounds, whatever the clock says; so is the delay it gives.\<close>

lemma received_keeps:
  assumes "offsets_ok s" "receivedPositionFixTsAndGetOffsetTime t cs markerTs s = Inr (off, s')"
  shows "offsets_ok s' \<and> m_additionalOffsetTime s' = m_additionalOffsetTime s
    \<and> (off = c_positionTimeOffsetMsec \<or> 0 \<le> off - m_additionalOffsetTime s \<and> off - m_additionalOffsetTime s \<le> c_positionTimeOffsetMsec)"
proof -
  define callsign where "callsign = asString cs"
  define ts where "ts = (if markerTs < 0 then t else markerTs)"
  define s0 where "s0 = s\<lparr>m_lastPositionUpdate := (m_lastPositionUpdate s)(callsign \<mapsto> ts)\<rparr>"
  have ok0: "offsets_ok s0" using assms(1) by (simp add: s0_def offsets_ok_def)
  have ne: "\<not> isEmpty cs" using assms(2) by (auto simp: receivedPositionFixTsAndGetOffsetTime_def)
  show ?thesis
  proof (cases "m_lastPositionUpdate s callsign")
    case None
    then have "s' = s0" "off = c_positionTimeOffsetMsec" using assms(2) ne
      by (simp_all add: receivedPositionFixTsAndGetOffsetTime_def Let_def ts_def s0_def callsign_def)
    then show ?thesis using ok0 by (simp add: s0_def)
  next
    case (Some old)
    define diff where "diff = \<bar>c_int64 (ts - old)\<bar>"
    define s1 where "s1 = insertLatestOffsetTime callsign diff s0"
    define p where "p = map_value (m_interpolatedOffsetTime s1) callsign 0"
    define x where "x = interpolation_step (offset_target callsign s1) p diff"
    have d: "0 \<le> diff" by (simp add: diff_def)
    then have c: "c_div diff 4 = diff div 4" "c_div diff (- 4) = - (diff div 4)" by (auto simp: c_div_def)
    obtain avg cnt where a: "averageOffsetTimeMs_count callsign 0 3 s1 = (avg, cnt)" by fastforce
    have i: "m_additionalOffsetTime s1 = m_additionalOffsetTime s"
      by (simp add: s1_def s0_def insertLatestOffsetTime_def Let_def)
    have "receivedPositionFixTsAndGetOffsetTime t cs markerTs s = Inr (m_additionalOffsetTime s + x,
        s1\<lparr>m_interpolatedOffsetTime := (m_interpolatedOffsetTime s1)(callsign \<mapsto> x)\<rparr>)"
      using ne Some
      by (simp add: receivedPositionFixTsAndGetOffsetTime_def Let_def a c i x_def p_def offset_target_def
          interpolation_step_def c_offsetTimeInterpolationInverseRate_def
          flip: callsign_def ts_def s0_def diff_def s1_def) (simp add: max_def min_def)
    then have "s' = s1\<lparr>m_interpolatedOffsetTime := (m_interpolatedOffsetTime s1)(callsign \<mapsto> x)\<rparr>"
      "off = m_additionalOffsetTime s + x"
      using assms(2) by simp_all
    moreover have ok1: "offsets_ok s1" using offsets_ok_insert [OF ok0 d] by (simp add: s1_def)
    moreover have "0 \<le> p \<and> p \<le> c_positionTimeOffsetMsec"
      using ok1 by (auto simp: p_def map_value_def offsets_ok_def c_positionTimeOffsetMsec_def split: option.splits)
    then have "0 \<le> x \<and> x \<le> c_positionTimeOffsetMsec"
      using interpolation_step_between [OF d, of "offset_target callsign s1" p] offset_target_range [of callsign s1]
      by (auto simp: x_def c_minimumPositionTimeOffsetMsec_def)
    ultimately show ?thesis using i by (auto simp: offsets_ok_def)
  qed
qed

lemma ok_with_offset:
  "client_ok c \<Longrightarrow> clock_sane env \<Longrightarrow> all_ok (\<lambda>(situation, c). client_ok c \<and> sane_times situation) (with_offset env s c)"
  using received_keeps [of "offsets c" "now env" "sit_callsign s" "now env"]
  by (auto simp: with_offset_def all_ok_def client_ok_def and_then_def timers_off_def sane_times_def clock_sane_def
    c_positionTimeOffsetMsec_def Let_def split: sum.splits)

lemma ok_position_handlers [simp]:
  assumes "client_ok c" "clock_sane env"
  shows "all_ok client_ok (handlePilotDataUpdate env tokens c)" "all_ok client_ok (handleEuroscopeSimData env tokens c)"
    "all_ok client_ok (handleVisualPilotDataUpdate env tokens mt c)" "all_ok client_ok (handle_interim_position env tokens c)"
proof -
  note with_off = all_ok_mono [OF ok_with_offset [OF assms]]
  show "all_ok client_ok (handlePilotDataUpdate env tokens c)" "all_ok client_ok (handle_interim_position env tokens c)"
    using assms unfolding handlePilotDataUpdate_def handle_interim_position_def Let_def
    by (auto intro!: with_off)
  show "all_ok client_ok (handleVisualPilotDataUpdate env tokens mt c)"
    unfolding handleVisualPilotDataUpdate_def Let_def
    by (simp, rule all_ok_always, rule with_off) auto
  show "all_ok client_ok (handleEuroscopeSimData env tokens c)"
    unfolding handleEuroscopeSimData_def Let_def
    by (simp, rule with_off) (auto intro: all_ok_always)
qed

lemma ok_visual_toggle [simp]: "client_ok (handleVisualPilotDataToggle tokens c) = client_ok c"
  by (simp add: handleVisualPilotDataToggle_def)

lemma ok_query_handlers [simp]:
  assumes "client_ok c"
  shows "all_ok client_ok (handleClientQuery env tokens c)" "client_ok (handleClientReponse tokens c)"
proof -
  have 1: "all_ok client_ok (handle_config_query env s tokens c)" for s
    using assms unfolding handle_config_query_def Let_def
    by (auto intro!: all_ok_always)
  show "all_ok client_ok (handleClientQuery env tokens c)"
    using assms 1 unfolding handleClientQuery_def Let_def by (simp split: ClientQueryType.split)
  show "client_ok (handleClientReponse tokens c)"
    using assms unfolding handleClientReponse_def Let_def by (simp split: ClientQueryType.split option.split)
qed

lemma ok_other_handlers [simp]:
  assumes "client_ok c"
  shows "client_ok (handlePing env tokens c)" "client_ok (handlePong env tokens c)" "client_ok (handleKillRequest tokens c)"
    "client_ok (handleFlightPlan tokens c)" "client_ok (handleServerError tokens c)" "client_ok (handleRehost tokens c)"
    "client_ok (rehost_connected c)" "client_ok (rehost_failed b c)"
    "all_ok client_ok (handleRevBClientPartsPacket env tokens c)"
  using assms unfolding handlePing_def handlePong_def handleKillRequest_def handleFlightPlan_def handleServerError_def
    handleRehost_def rehost_connected_def rehost_failed_def handleRevBClientPartsPacket_def Let_def
  by (auto intro: all_ok_always)

lemma ok_handleCustomPilotPacket [simp]: "client_ok c \<Longrightarrow> clock_sane env \<Longrightarrow> all_ok client_ok (handleCustomPilotPacket env tokens c)"
  unfolding handleCustomPilotPacket_def Let_def all_ok_simps(3)
  by (rule all_ok_always) (auto intro: all_ok_always)

lemma ok_handle_message [simp]: "client_ok c \<Longrightarrow> clock_sane env \<Longrightarrow> all_ok client_ok (handle_message env mt tokens c)"
  by (cases mt) (simp_all add: handle_message_def)

lemma ok_parseMessage [simp]: "client_ok c \<Longrightarrow> clock_sane env \<Longrightarrow> all_ok client_ok (parseMessage env line c)"
  unfolding parseMessage_def Let_def by (simp split: prod.split)

lemma ok_handle_event: "client_ok c \<Longrightarrow> clock_sane env \<Longrightarrow> all_ok client_ok (handle_event env ev c)"
  by (cases ev) simp_all

lemma ok_step: "client_step c ev c' \<Longrightarrow> client_ok c \<Longrightarrow> client_ok c'"
  by (erule client_stepE) (rule all_okD [OF ok_handle_event])

theorem reachable_ok: "reachable c \<Longrightarrow> client_ok c"
  by (induction rule: reachable_induct) (auto intro: ok_start ok_step)

end
