(* ===== verification/FsdClientFacts.thy ===== *)
theory FsdClientFacts
  imports FsdClientInvariant
begin

section \<open>Facts about the client's operations\<close>

text \<open>
  Lemmas the properties of the client share: sending on a timer until nothing is left, the lines
  of a socket read in rounds, which members an operation leaves alone, what \<open>parseMessage\<close>
  does with a message of a known kind, logins, visual positions, capabilities, ATIS lines.
\<close>

subsection \<open>Rounds of the send timer\<close>

fun send_ticks :: "nat \<Rightarrow> 'au fsd_client \<Rightarrow> fault + 'au fsd_client" where
  "send_ticks 0 c = Inr c"
| "send_ticks (Suc n) c = and_then (sendQueuedMessage c) (send_ticks n)"

lemma send_ticks_empty_queue:
  "can_write c \<Longrightarrow> length (m_queuedFsdMessages c) \<le> n \<Longrightarrow>
    \<exists>c'. send_ticks n c = Inr c' \<and> m_queuedFsdMessages c' = [] \<and> written c' = written c @ m_queuedFsdMessages c"
proof (induction n arbitrary: c)
  case (Suc n)
  define b where "b = batch (length (m_queuedFsdMessages c))"
  from sendQueuedMessage_sends [OF Suc.prems(1)] obtain c1 where c1: "sendQueuedMessage c = Inr c1" "can_write c1"
    "written c1 = written c @ take b (m_queuedFsdMessages c)"
    "m_queuedFsdMessages c1 = drop b (m_queuedFsdMessages c)" unfolding b_def by blast
  have "length (m_queuedFsdMessages c1) \<le> n"
    using Suc.prems(2) batch_pos [of "length (m_queuedFsdMessages c)"] c1(4) by (cases "m_queuedFsdMessages c") (auto simp: b_def)
  from Suc.IH [OF c1(2) this] c1 show ?case by auto
qed simp

subsection \<open>Rounds of reading\<close>

text \<open>All the lines one after the other, up to the one that closes the socket.\<close>

fun parse_lines :: "'au environment \<Rightarrow> string list \<Rightarrow> 'au fsd_client \<Rightarrow> fault + 'au fsd_client" where
  "parse_lines env [] c = Inr c"
| "parse_lines env (data # available) c =
     (if \<not> m_socketIsOpen c then Inr c
      else if data = [] then parse_lines env available c
      else and_then (parseMessage env data c) (parse_lines env available))"

text \<open>The rounds that \<open>readDataFromSocketMaxLines\<close> schedules, at most \<open>n\<close> of them.\<close>

fun read_rounds :: "nat \<Rightarrow> 'au environment \<Rightarrow> int \<Rightarrow> string list \<Rightarrow> 'au fsd_client \<Rightarrow> (fault + 'au fsd_client) option" where
  "read_rounds 0 env maxLines available c = None"
| "read_rounds (Suc n) env maxLines available c =
     (case readDataFromSocketMaxLines env maxLines available c of
        Inl f \<Rightarrow> Some (Inl f)
      | Inr (c, rest, None) \<Rightarrow> Some (Inr c)
      | Inr (c, rest, Some newMax) \<Rightarrow> read_rounds n env newMax rest c)"

lemma read_lines_parse:
  "case read_lines env m k av c of
     Inl f \<Rightarrow> parse_lines env av c = Inl f
   | Inr (c', rest, None) \<Rightarrow> parse_lines env av c = Inr c'
   | Inr (c', rest, Some m') \<Rightarrow> length rest < length av \<and> parse_lines env av c = parse_lines env rest c'"
proof (induction av arbitrary: m k c)
  case (Cons data av)
  show ?case
  proof (cases "m_socketIsOpen c \<and> data \<noteq> []")
    case False
    then show ?thesis using Cons.IH [where m = m and k = k and c = c] by (auto split: sum.splits option.splits)
  next
    case True
    show ?thesis
    proof (cases "parseMessage env data c")
      case (Inr c1)
      define m' where "m' = (if m < 0 then MaxLines else m)"
      have step: "read_lines env m k (data # av) c =
          (if k + 1 > m' then Inr (c1, av, Some (newMaxLines (k + 1))) else read_lines env m' (k + 1) av c1)"
        using True Inr by (simp add: Let_def m'_def)
      show ?thesis
        using True Inr Cons.IH [where m = m' and k = "k + 1" and c = c1] unfolding step
        by (auto split: sum.splits option.splits)
    qed (use True in simp)
  qed
qed simp

lemma read_rounds_parse:
  "length av < n \<Longrightarrow> read_rounds n env m av c = Some (parse_lines env av c)"
proof (induction n arbitrary: m av c)
  case (Suc n)
  note r = read_lines_parse [where env = env and m = m and k = 0 and av = av and c = c]
  show ?case
  proof (cases "read_lines env m 0 av c")
    case (Inr x)
    obtain c' rest nxt where "x = (c', rest, nxt)" by (cases x)
    with Inr r Suc show ?thesis by (cases nxt) (simp_all add: readDataFromSocketMaxLines_def)
  qed (use r in \<open>simp add: readDataFromSocketMaxLines_def\<close>)
qed simp

subsection \<open>What operations leave alone\<close>

lemma emit_keeps [simp]:
  "m_connectionStatus (emit e c) = m_connectionStatus c" "m_queuedFsdMessages (emit e c) = m_queuedFsdMessages c"
  "written (emit e c) = written c" "m_server (emit e c) = m_server c" "m_unitTestMode (emit e c) = m_unitTestMode c"
  "m_socketIsOpen (emit e c) = m_socketIsOpen c" "m_messageTypeMapping (emit e c) = m_messageTypeMapping c"
  "emitted (emit e c) = emitted c @ [e]" "offsets (emit e c) = offsets c" "m_pendingAtisQueries (emit e c) = m_pendingAtisQueries c"
  "m_mapAtisMessages (emit e c) = m_mapAtisMessages c" "m_interimPositionReceivers (emit e c) = m_interimPositionReceivers c"
  "m_textMessagesToConsolidate (emit e c) = m_textMessagesToConsolidate c"
  by (simp_all add: emit_def)

lemma count_keeps [simp]:
  "m_connectionStatus (count env i a c) = m_connectionStatus c" "m_queuedFsdMessages (count env i a c) = m_queuedFsdMessages c"
  "written (count env i a c) = written c" "m_server (count env i a c) = m_server c"
  "m_unitTestMode (count env i a c) = m_unitTestMode c" "m_socketIsOpen (count env i a c) = m_socketIsOpen c"
  "m_messageTypeMapping (count env i a c) = m_messageTypeMapping c" "emitted (count env i a c) = emitted c"
  "offsets (count env i a c) = offsets c" "m_loginMode (count env i a c) = m_loginMode c"
  "m_ownCallsign (count env i a c) = m_ownCallsign c" "m_mapAtisMessages (count env i a c) = m_mapAtisMessages c"
  by (simp_all add: count_def)

lemma queue_text_keeps [simp]:
  "m_connectionStatus (queue_text s c) = m_connectionStatus c" "m_queuedFsdMessages (queue_text s c) = m_queuedFsdMessages c @ [s]"
  "written (queue_text s c) = written c" "m_server (queue_text s c) = m_server c"
  "m_unitTestMode (queue_text s c) = m_unitTestMode c" "m_socketIsOpen (queue_text s c) = m_socketIsOpen c"
  "emitted (queue_text s c) = emitted c" "m_loginMode (queue_text s c) = m_loginMode c"
  "m_ownCallsign (queue_text s c) = m_ownCallsign c"
  by (simp_all add: queue_text_def)

subsection \<open>Which handler a line reaches\<close>

lemma startsWith_iff: "q_startsWith s p \<longleftrightarrow> (\<exists>r. s = p @ r)"
  unfolding q_startsWith_def by (metis append_take_drop_id append_eq_conv_conj)

lemma startsWith_both: "q_startsWith s p \<Longrightarrow> q_startsWith s q \<Longrightarrow> q_startsWith p q \<or> q_startsWith q p"
  by (auto simp: startsWith_iff append_eq_append_conv2)

lemma identifiers_prefix_free:
  "\<forall>p\<in>set initializeMessageTypes. \<forall>q\<in>set initializeMessageTypes. q_startsWith (fst p) (fst q) \<longrightarrow> p = q"
  by code_simp

lemma identifiers_unique:
  assumes "(a, x) \<in> set initializeMessageTypes" "(b, y) \<in> set initializeMessageTypes"
    and "q_startsWith line a" "q_startsWith line b"
  shows "a = b \<and> x = y"
  using startsWith_both [OF assms(3,4)] bspec [OF bspec [OF identifiers_prefix_free assms(1)] assms(2)]
    bspec [OF bspec [OF identifiers_prefix_free assms(2)] assms(1)] by auto

lemma find_identifier:
  assumes "(cmd, mt) \<in> set m" "q_startsWith line cmd" "set m \<subseteq> set initializeMessageTypes"
  shows "find (\<lambda>(str, mt). q_startsWith line str) m = Some (cmd, mt)"
proof (cases "find (\<lambda>(str, mt). q_startsWith line str) m")
  case None
  then show ?thesis using assms(1,2) by (auto simp: find_None_iff)
next
  case (Some p)
  then have p: "p \<in> set m" "q_startsWith line (fst p)" by (auto simp: find_Some_iff in_set_conv_nth)
  obtain a x where ax: "p = (a, x)" by (cases p)
  with p assms(1,3) have "(a, x) \<in> set initializeMessageTypes" "(cmd, mt) \<in> set initializeMessageTypes" by auto
  from identifiers_unique [OF this, of line] p(2) assms(2) ax Some show ?thesis by simp
qed

lemma identifier_names: "\<forall>p\<in>set initializeMessageTypes. snd p \<noteq> Msg_Unknown
    \<and> find (\<lambda>(key, value). value = snd p) initializeMessageTypes = Some p"
  by (simp add: initializeMessageTypes_def)

text \<open>What happens before a handler is chosen.\<close>

definition note_line :: "'au environment \<Rightarrow> string \<Rightarrow> string \<Rightarrow> 'au fsd_client \<Rightarrow> 'au fsd_client" where
  "note_line env cmd line c = count env ''parseMessage'' cmd (emitRawFsdMessage line False c)"

lemma emitRaw_mapping [simp]: "m_messageTypeMapping (emitRawFsdMessage s b c) = m_messageTypeMapping c"
  "offsets (emitRawFsdMessage s b c) = offsets c"
  by (simp_all add: emitRawFsdMessage_def Let_def)

lemma parse_known:
  assumes "m_messageTypeMapping c = initializeMessageTypes" "(cmd, mt) \<in> set initializeMessageTypes"
    and "q_startsWith (q_trimmed line) cmd"
  shows "parseMessage env line c =
    (if line_payload cmd line = [] then Inr (note_line env cmd (q_trimmed line) c)
     else handle_message env mt (line_tokens cmd line) (note_line env cmd (q_trimmed line) c))"
proof -
  from identifier_names assms(2) have "mt \<noteq> Msg_Unknown"
      "find (\<lambda>(key, value). value = mt) initializeMessageTypes = Some (cmd, mt)" by force+
  then show ?thesis
    using find_identifier [OF assms(2,3) order_refl] assms(1)
    by (simp add: parseMessage_def messageTypeToString_def line_payload_def line_tokens_def note_line_def Let_def)
qed

lemma parse_unknown:
  assumes "m_messageTypeMapping c = initializeMessageTypes"
    and "\<forall>p\<in>set initializeMessageTypes. \<not> q_startsWith (q_trimmed line) (fst p)"
  shows "parseMessage env line c = Inr (note_line env '''' (q_trimmed line) c)"
proof -
  have "find (\<lambda>(str, mt). q_startsWith (q_trimmed line) str) initializeMessageTypes = None"
    using assms(2) by (auto simp: find_None_iff)
  moreover have "find (\<lambda>(key, value). value = Msg_Unknown) initializeMessageTypes = None"
    by (simp add: initializeMessageTypes_def)
  ultimately show ?thesis
    using assms(1) by (simp add: parseMessage_def messageTypeToString_def note_line_def)
qed

text \<open>A message of a known class that comes in as it was sent.\<close>

lemma parse_frame:
  assumes "m_messageTypeMapping c = initializeMessageTypes" "(pdu, mt) \<in> set initializeMessageTypes"
    and "plain pdu" "pdu \<noteq> []" "m_isValid m" "unpadded (q_join '':'' (toTokens m))"
  shows "parseMessage env (messageToFSDString pdu toTokens m) c =
    handle_message env mt (q_split CHR '':'' (q_join '':'' (toTokens m)))
      (note_line env pdu (pdu @ q_join '':'' (toTokens m)) c)"
proof -
  let ?p = "q_join '':'' (toTokens m)"
  have l: "messageToFSDString pdu toTokens m = pdu @ ?p @ crlf" using assms(5) by (simp add: messageToFSDString_def)
  have t: "q_trimmed (pdu @ ?p @ crlf) = pdu @ ?p" by (rule trimmed_frame [OF assms(3,4,6)])
  have "line_payload pdu (pdu @ ?p @ crlf) = ?p" by (rule frame_payload [OF assms(3,4,6)])
  moreover have "q_startsWith (q_trimmed (pdu @ ?p @ crlf)) pdu" by (simp add: t startsWith_iff)
  note parse_known [OF assms(1,2) this]
  ultimately show ?thesis using assms(6) unfolding l by (simp add: line_tokens_def t unpadded_def)
qed

subsection \<open>Faults of the handlers\<close>

text \<open>The sender in the messages whose handlers look up the delay of the sender's positions.\<close>

definition sender_of :: "MessageType \<Rightarrow> string list \<Rightarrow> string option" where
  "sender_of mt tokens =
     (case mt of
        Msg_PilotDataUpdate \<Rightarrow> Some (m_sender (PilotDataUpdate_fromTokens tokens))
      | Msg_EuroscopeSimData \<Rightarrow> Some (m_sender (EuroscopeSimData_fromTokens tokens))
      | Msg_VisualPilotDataUpdate \<Rightarrow> Some (m_sender (VisualPilotDataUpdate_fromTokens tokens))
      | Msg_VisualPilotDataPeriodic \<Rightarrow> Some (m_sender (VisualPilotDataPeriodic_fromTokens tokens))
      | Msg_VisualPilotDataStopped \<Rightarrow> Some (m_sender (VisualPilotDataStopped_fromTokens tokens))
      | Msg_PilotClientCom \<Rightarrow> Some (m_sender (InterimPilotDataUpdate_fromTokens tokens))
      | Msg_ClientQuery \<Rightarrow> Some (m_sender (ClientQuery_fromTokens tokens))
      | Msg_RevBClientParts \<Rightarrow> Some (m_sender (RevBClientParts_fromTokens tokens))
      | _ \<Rightarrow> None)"

lemma isEmpty_text [simp]: "isEmpty (CCallsign s h) \<longleftrightarrow> q_trimmed s = []"
  by (simp add: isEmpty_def CCallsign_def)

lemma with_offset_Inl: "with_offset env s c = Inl f \<longleftrightarrow> isEmpty (sit_callsign s) \<and> f = AssertFailed"
  by (auto simp: with_offset_def and_then_Inl receivedPositionFixTsAndGetOffsetTime_def Let_def split: option.splits prod.splits)

lemma currentOffsetTime_Inl: "currentOffsetTime cs s = Inl f \<longleftrightarrow> isEmpty cs \<and> f = AssertFailed"
  by (auto simp: currentOffsetTime_def split: option.splits list.splits)

lemma list_at_fault: "list_at xs i = Inl f \<longleftrightarrow> length xs \<le> i \<and> f = OutOfRange i"
  by (auto simp: list_at_def)

lemmas fault_simps = and_then_Inl with_offset_Inl currentOffsetTime_Inl list_at_fault

lemma visual_sender:
  "m_sender (VisualPilotDataPeriodic_toUpdate p) = m_sender p" "m_sender (VisualPilotDataStopped_toUpdate s) = m_sender s"
  by (simp_all add: VisualPilotDataPeriodic_toUpdate_def VisualPilotDataStopped_toUpdate_def VisualPilotDataUpdate_def)

lemma position_faults:
  "handlePilotDataUpdate env tokens c = Inl f \<Longrightarrow> q_trimmed (m_sender (PilotDataUpdate_fromTokens tokens)) = [] \<and> f = AssertFailed"
  "handleEuroscopeSimData env tokens c = Inl f \<Longrightarrow> q_trimmed (m_sender (EuroscopeSimData_fromTokens tokens)) = [] \<and> f = AssertFailed"
  "handleVisualPilotDataUpdate env tokens mt c = Inl f \<Longrightarrow> mt \<in> {Msg_VisualPilotDataUpdate, Msg_VisualPilotDataPeriodic,
     Msg_VisualPilotDataStopped} \<Longrightarrow> (\<exists>s. sender_of mt tokens = Some s \<and> q_trimmed s = []) \<and> f = AssertFailed"
  "handle_interim_position env tokens c = Inl f \<Longrightarrow> q_trimmed (m_sender (InterimPilotDataUpdate_fromTokens tokens)) = [] \<and> f = AssertFailed"
  by (auto simp: handlePilotDataUpdate_def handleEuroscopeSimData_def handleVisualPilotDataUpdate_def visual_update_of_def
    handle_interim_position_def fault_simps visual_sender sender_of_def Let_def split: if_splits)

lemma atc_fault: "handleAtcDataUpdate tokens c = Inl f \<Longrightarrow> length tokens = 7 \<and> f = OutOfRange 7"
  by (auto simp: handleAtcDataUpdate_def AtcDataUpdate_fromTokens_def list_at_fault and_then_Inl Let_def
    split: if_splits sum.splits)

lemma query_fault:
  assumes "handleClientQuery env tokens c = Inl f"
  shows "q_trimmed (m_sender (ClientQuery_fromTokens tokens)) = [] \<and> f = AssertFailed"
  using assms unfolding handleClientQuery_def handle_config_query_def Let_def
  by (auto simp: fault_simps split: ClientQueryType.splits if_splits)

lemma parts_fault:
  "handleRevBClientPartsPacket env tokens c = Inl f \<Longrightarrow> q_trimmed (m_sender (RevBClientParts_fromTokens tokens)) = [] \<and> f = AssertFailed"
  by (auto simp: handleRevBClientPartsPacket_def fault_simps Let_def split: if_splits)

lemma custom_fault:
  assumes "handleCustomPilotPacket env tokens c = Inl f"
  shows "length tokens < 3 \<and> f = OutOfRange 2
    \<or> q_trimmed (m_sender (InterimPilotDataUpdate_fromTokens tokens)) = [] \<and> f = AssertFailed"
  using assms position_faults(4) [of env tokens c f] unfolding handleCustomPilotPacket_def Let_def
  by (auto simp: fault_simps split: if_splits)

lemma text_no_fault: "handleTextMessage env tokens c \<noteq> Inl f"
  by (auto simp: handleTextMessage_def maybeHandleAtisReply_def Let_def split: TextMessageType.splits option.splits if_splits)

lemma handle_message_fault:
  assumes "handle_message env mt tokens c = Inl f"
  shows "mt = Msg_AtcDataUpdate \<and> length tokens = 7 \<and> f = OutOfRange 7
    \<or> mt = Msg_PilotClientCom \<and> length tokens < 3 \<and> f = OutOfRange 2
    \<or> (\<exists>sender. sender_of mt tokens = Some sender \<and> q_trimmed sender = [] \<and> f = AssertFailed)"
  using assms atc_fault [of tokens c f] custom_fault [of env tokens c f] query_fault [of env tokens c f]
    parts_fault [of env tokens c f] position_faults(1,2) [of env tokens c f]
    position_faults(3) [of env tokens Msg_VisualPilotDataUpdate c f]
    position_faults(3) [of env tokens Msg_VisualPilotDataPeriodic c f]
    position_faults(3) [of env tokens Msg_VisualPilotDataStopped c f] text_no_fault [of env tokens c f]
  by (cases mt) (auto simp: handle_message_def sender_of_def)

lemma short_custom_packet:
  assumes "reachable c" shows "parseMessage env ''#SBA:B'' c = Inl (OutOfRange 2)"
proof -
  have m: "m_messageTypeMapping c = initializeMessageTypes" using reachable_ok [OF assms] by (simp add: client_ok_def)
  have k: "(''#SB'', Msg_PilotClientCom) \<in> set initializeMessageTypes" by (simp add: initializeMessageTypes_def)
  show ?thesis
    using parse_known [OF m k, of "''#SBA:B''" env]
    by (simp add: q_trimmed_def is_space_def line_payload_def line_tokens_def handle_message_def
      handleCustomPilotPacket_def list_at_def)
qed

lemma short_atc_position:
  assumes "reachable c" shows "parseMessage env ''%A_TWR:18700:4:100:3:50:8'' c = Inl (OutOfRange 7)"
proof -
  have m: "m_messageTypeMapping c = initializeMessageTypes" using reachable_ok [OF assms] by (simp add: client_ok_def)
  have k: "(''%'', Msg_AtcDataUpdate) \<in> set initializeMessageTypes" by (simp add: initializeMessageTypes_def)
  show ?thesis
    using parse_known [OF m k, of "''%A_TWR:18700:4:100:3:50:8''" env]
    by (simp add: q_trimmed_def is_space_def line_payload_def line_tokens_def handle_message_def
      handleAtcDataUpdate_def AtcDataUpdate_fromTokens_def list_at_def)
qed

lemma short_position:
  assumes "reachable c" shows "parseMessage env ''@N'' c = Inl AssertFailed"
proof -
  have m: "m_messageTypeMapping c = initializeMessageTypes" using reachable_ok [OF assms] by (simp add: client_ok_def)
  have k: "(''@'', Msg_PilotDataUpdate) \<in> set initializeMessageTypes" by (simp add: initializeMessageTypes_def)
  show ?thesis
    using parse_known [OF m k, of "''@N''" env]
    by (simp add: q_trimmed_def is_space_def line_payload_def line_tokens_def handle_message_def
      handlePilotDataUpdate_def PilotDataUpdate_fromTokens_def PilotDataUpdate_default_def with_offset_def
      receivedPositionFixTsAndGetOffsetTime_def)
qed

subsection \<open>Connecting\<close>

lemma check_delay: "qRound (d_mul (d_of_int PendingConnectionTimeoutMs) (mk_double (5 / 4))) = 9375"
proof -
  have "mk_double (5 / 4) = Fin (5 / 4)"
    using mk_double_eqI(1) [of 0 "5 / 4" "5 * 2 ^ 50"] by (simp add: pow2_def)
  moreover have "d_of_int 7500 = Fin 7500" "mk_double 9375 = Fin 9375"
    using mk_double_int [of 7500] mk_double_int [of 9375] by (simp_all add: d_of_int_def)
  moreover have "mk_double (18751 / 2) = Fin (18751 / 2)"
    using mk_double_eqI(1) [of 13 "18751 / 2" "18751 * 2 ^ 38"] by (simp add: pow2_def)
  moreover have "\<lfloor>18751 / 2 :: rat\<rfloor> = 9375" by (rule floor_unique) simp_all
  ultimately show ?thesis
    by (simp add: PendingConnectionTimeoutMs_def qRound_def d_nonneg_def trunc_def to_c_int_def int32_def)
qed

lemma disconnect_status: "isDisconnected (disconnectFromServer c)"
  by (simp add: disconnectFromServer_def isDisconnected_def clearState_def status_Connecting Let_def)

lemma emitRaw_keeps_more [simp]:
  "m_connectionStatus (emitRawFsdMessage s b c) = m_connectionStatus c" "m_server (emitRawFsdMessage s b c) = m_server c"
  "timers_off (emitRawFsdMessage s b c) = timers_off c"
  by (simp_all add: emitRawFsdMessage_def Let_def timers_off_def emit_def)

lemma sendMessageString_keeps [simp]:
  "m_connectionStatus (sendMessageString s c) = m_connectionStatus c" "m_server (sendMessageString s c) = m_server c"
  "m_socketIsOpen (sendMessageString s c) = m_socketIsOpen c" "m_unitTestMode (sendMessageString s c) = m_unitTestMode c"
  "timers_off (sendMessageString s c) = timers_off c"
  by (simp_all add: sendMessageString_def Let_def) (simp add: timers_off_def)

lemma timers_queue [simp]: "timers_off (c\<lparr>m_queuedFsdMessages := q\<rparr>) = timers_off c"
  by (simp add: timers_off_def)

lemma sendQueuded_keeps [simp]:
  "m_connectionStatus (sendQueudedMessage pdu toTokens m c) = m_connectionStatus c"
  "m_server (sendQueudedMessage pdu toTokens m c) = m_server c"
  "m_socketIsOpen (sendQueudedMessage pdu toTokens m c) = m_socketIsOpen c"
  "m_unitTestMode (sendQueudedMessage pdu toTokens m c) = m_unitTestMode c"
  "timers_off (sendQueudedMessage pdu toTokens m c) = timers_off c"
  by (simp_all add: sendQueudedMessage_def sendDirectMessage_def)

lemma count_timers [simp]: "timers_off (count env i a c) = timers_off c"
  by (simp add: count_def timers_off_def)

lemma valid_logins [simp]: "m_isValid (AddPilot a b p r i s n)" "m_isValid (AddAtc a n b p q i)"
  "m_isValid (ClientQuery a b t d)"
  by (simp_all add: AddPilot_def AddAtc_def ClientQuery_def)

lemma login_effect:
  assumes "\<not> m_unitTestMode c"
  shows "m_connectionStatus (sendLogin env token c) = m_connectionStatus c \<and> m_server (sendLogin env token c) = m_server c
    \<and> m_socketIsOpen (sendLogin env token c) = m_socketIsOpen c \<and> timers_off (sendLogin env token c) = timers_off c
    \<and> length (m_queuedFsdMessages (sendLogin env token c)) > length (m_queuedFsdMessages c)"
  using assms by (simp add: sendLogin_def sendClientQuery_def sendQueudedMessage_queues Let_def split: LoginMode.split)
    (simp add: timers_off_def queue_text_def)

subsection \<open>The password in the raw messages\<close>

lemma word_not_space: "is_word c \<Longrightarrow> \<not> is_space c \<and> c \<noteq> CHR '':''"
  by (auto simp: is_word_def is_digit_def is_AZ_def is_lower_def is_space_def Let_def)

lemma digits1_codes [simp]: "digits1 (toQString_PilotRating r)" "digits1 (toQString_SimType s)"
  by (cases r; simp add: digits1_def is_digit_def) (cases s; simp add: digits1_def is_digit_def)

lemma number_9: "q_number 9 = ''9''" and number_101: "q_number 101 = ''101''"
  by code_simp+

lemma digits1_field: "digits1 s \<Longrightarrow> field s"
  by (auto simp: digits1_def field_def list_all_iff is_digit_def)

text \<open>A pilot login with its eight parts.\<close>

lemma hide_login:
  assumes "cs \<noteq> []" "list_all is_word cs" "digits1 cid" "pw \<noteq> []" "field pw"
    and "digits1 r" "digits1 v" "digits1 s" "field name" "name \<noteq> []" "CHR 0x0A \<notin> set name"
  shows "hide_password (''#AP'' @ q_join '':'' [cs, ''SERVER'', cid, pw, r, v, s, name])
    = ''#AP'' @ q_join '':'' [cs, ''SERVER'', cid, ''<password>'', r, v, s, name]"
proof -
  let ?p = "[''#AP'' @ cs, ''SERVER'', cid, pw, r, v, s, name]"
  have "field cs" using assms(2) word_not_space by (auto simp: field_def list_all_iff)
  then have "\<forall>x\<in>set ?p. field x" using assms digits1_field by simp
  then have "q_split CHR '':'' (q_join '':'' ?p) = ?p" by (intro split_join_fields) simp_all
  moreover have "''#AP'' @ q_join '':'' (cs # xs) = q_join '':'' ((''#AP'' @ cs) # xs)" for xs
    by (cases xs) simp_all
  moreover have "last name \<noteq> CHR 0x0A" using assms(10,11) last_in_set [of name] by metis
  then have "dots1 name" using assms(10,11) by (simp add: dots1_def)
  moreover have "q_startsWith (''#AP'' @ cs) ''#AP''" by simp
  ultimately show ?thesis using assms by (simp add: hide_password_def Let_def)
qed

lemma raw_of_login:
  assumes "m_rawFsdMessagesEnabled c" "m_filterPasswordFromLogin c" "q_trimmed (''#AP'' @ p @ crlf) = ''#AP'' @ p"
    and "hide_password (''#AP'' @ p) = ''#AP'' @ h"
  shows "emitted (sendMessageString (''#AP'' @ p @ crlf) c) = emitted c @ [rawFsdMessage (''FSD Sent=>#AP'' @ h)]"
  using assms by (simp add: sendMessageString_def emitRawFsdMessage_def emit_def Let_def)

subsection \<open>Visual positions\<close>

text \<open>A pilot client whose visual positions the server wants.\<close>

definition sends_visual :: "'au fsd_client \<Rightarrow> bool" where
  "sends_visual c \<longleftrightarrow> \<not> m_unitTestMode c \<and> \<not> isDisconnected c \<and> m_loginMode c = Pilot
     \<and> isVisualPositionSendingEnabledForServer c \<and> m_serverWantsVisualPositions c"

text \<open>The three texts it may queue for an own aircraft.\<close>

definition visual_text :: "'au environment \<Rightarrow> 'au fsd_client \<Rightarrow> string" where
  "visual_text env c = messageToFSDString VisualPilotDataUpdate_pdu VisualPilotDataUpdate_toTokens (own_visual_update env c)"

definition periodic_text :: "'au environment \<Rightarrow> 'au fsd_client \<Rightarrow> string" where
  "periodic_text env c = messageToFSDString VisualPilotDataPeriodic_pdu VisualPilotDataPeriodic_toTokens
     (VisualPilotDataUpdate_toPeriodic (own_visual_update env c))"

definition stopped_text :: "'au environment \<Rightarrow> 'au fsd_client \<Rightarrow> string" where
  "stopped_text env c = messageToFSDString VisualPilotDataStopped_pdu VisualPilotDataStopped_toTokens
     (VisualPilotDataUpdate_toStopped (own_visual_update env c))"

lemma visual_valid [simp]: "m_isValid (own_visual_update env c)" "m_isValid (VisualPilotDataUpdate_toPeriodic u)"
  "m_isValid (VisualPilotDataUpdate_toStopped u)"
  by (simp_all add: own_visual_update_def VisualPilotDataUpdate_def VisualPilotDataUpdate_toPeriodic_def
    VisualPilotDataUpdate_toStopped_def VisualPilotDataPeriodic_def VisualPilotDataStopped_def Let_def)

lemma own_visual_same:
  "m_ownCallsign c = m_ownCallsign c' \<Longrightarrow> own_visual_update env c = own_visual_update env c'"
  by (simp add: own_visual_update_def getOwnCallsignAsString_def Let_def)

lemma own_visual_updates [simp]:
  "own_visual_update env (c\<lparr>m_stoppedSendingVisualPositions := b\<rparr>) = own_visual_update env c"
  "own_visual_update env (c\<lparr>m_visualPositionUpdateSentCount := n\<rparr>) = own_visual_update env c"
  by (rule own_visual_same, simp)+

lemma visual_moving:
  assumes "sends_visual c" "\<not> stands_still (own env)"
  shows "sendVisualPilotDataUpdate env False c =
    queue_text (if m_visualPositionUpdateSentCount c mod 25 = 0 then periodic_text env c else visual_text env c)
      (c\<lparr>m_stoppedSendingVisualPositions := False, m_visualPositionUpdateSentCount := m_visualPositionUpdateSentCount c + 1\<rparr>)"
  using assms unfolding sends_visual_def sendVisualPilotDataUpdate_def send_visual_message_def Let_def
  by (simp add: sendQueudedMessage_queues visual_text_def periodic_text_def isDisconnected_def)

lemma visual_standing:
  assumes "sends_visual c" "stands_still (own env)"
  shows "sendVisualPilotDataUpdate env False c =
    (if m_stoppedSendingVisualPositions c then c
     else queue_text (stopped_text env c)
       (c\<lparr>m_stoppedSendingVisualPositions := True, m_visualPositionUpdateSentCount := 0\<rparr>))"
  using assms unfolding sends_visual_def sendVisualPilotDataUpdate_def send_visual_message_def Let_def
  by (simp add: sendQueudedMessage_queues stopped_text_def isDisconnected_def)

lemma sends_visual_kept [simp]:
  "sends_visual (queue_text t c) = sends_visual c"
  "sends_visual (c\<lparr>m_stoppedSendingVisualPositions := b, m_visualPositionUpdateSentCount := n\<rparr>) = sends_visual c"
  by (simp_all add: sends_visual_def queue_text_def isDisconnected_def isVisualPositionSendingEnabledForServer_def
    getSetupForServer_def)

lemma texts_same:
  "m_ownCallsign c = m_ownCallsign c' \<Longrightarrow> visual_text env c = visual_text env c' \<and> periodic_text env c = periodic_text env c'
     \<and> stopped_text env c = stopped_text env c'"
  unfolding visual_text_def periodic_text_def stopped_text_def by (drule own_visual_same [of c c' env]) simp

lemma word_cycle:
  assumes "n < 2 ^ 32" shows "(word_of_nat n :: 32 word) mod 25 = 0 \<longleftrightarrow> n mod 25 = 0"
proof -
  have "n mod 25 < 4294967296" using mod_less_divisor [of 25 n] by linarith
  then have "4294967296 dvd n mod 25 \<longleftrightarrow> n mod 25 = 0" using nat_dvd_not_less by auto
  then show ?thesis
    using assms by (simp add: word_arith_nat_mod unat_of_nat take_bit_nat_eq_self_iff word_of_nat_eq_0_iff)
qed

lemma visual_run:
  "sends_visual c \<Longrightarrow> m_visualPositionUpdateSentCount c = word_of_nat n \<Longrightarrow> n + length envs \<le> 2 ^ 32 \<Longrightarrow>
   \<forall>env\<in>set envs. \<not> stands_still (own env) \<Longrightarrow>
   m_queuedFsdMessages (fold (\<lambda>env. sendVisualPilotDataUpdate env False) envs c) = m_queuedFsdMessages c
     @ map (\<lambda>k. if (n + k) mod 25 = 0 then periodic_text (envs ! k) c else visual_text (envs ! k) c) [0..<length envs]"
proof (induction envs arbitrary: c n)
  case (Cons env envs)
  define c1 where "c1 = sendVisualPilotDataUpdate env False c"
  have c1: "c1 = queue_text (if n mod 25 = 0 then periodic_text env c else visual_text env c)
      (c\<lparr>m_stoppedSendingVisualPositions := False, m_visualPositionUpdateSentCount := m_visualPositionUpdateSentCount c + 1\<rparr>)"
    using visual_moving [OF Cons.prems(1), of env] Cons.prems(2-4) word_cycle [of n] by (simp add: c1_def)
  have own: "m_ownCallsign c1 = m_ownCallsign c" by (simp add: c1)
  have "m_visualPositionUpdateSentCount c1 = word_of_nat (Suc n)"
    using Cons.prems(2) by (simp add: c1 queue_text_def add.commute)
  moreover have "sends_visual c1" using Cons.prems(1) by (simp add: c1)
  ultimately have "m_queuedFsdMessages (fold (\<lambda>env. sendVisualPilotDataUpdate env False) envs c1) = m_queuedFsdMessages c1
     @ map (\<lambda>k. if (Suc n + k) mod 25 = 0 then periodic_text (envs ! k) c1 else visual_text (envs ! k) c1) [0..<length envs]"
    using Cons.prems(3,4) by (intro Cons.IH) simp_all
  moreover have "m_queuedFsdMessages c1 = m_queuedFsdMessages c @ [if n mod 25 = 0 then periodic_text env c else visual_text env c]"
    by (simp add: c1)
  moreover have "[0..<length (env # envs)] = 0 # map Suc [0..<length envs]"
    by (simp add: map_Suc_upt upt_conv_Cons del: upt_Suc)
  ultimately show ?case using texts_same [OF own] by (simp add: o_def flip: c1_def)
qed simp

subsection \<open>Capabilities on the wire\<close>

lemma read_capability_entry:
  "read_capability (toQString_Capabilities (capability k) @ ''=1'') caps = capabilities_or caps (capability k)"
  if "k \<noteq> Cap_None"
  using that by (cases k) (simp_all add: read_capability_def toQString_Capabilities_def fromQString_Capabilities_def)

lemma capability_and: "capabilities_and (capability k) (capability j) \<longleftrightarrow> k = j"
  by (cases k; cases j) (simp_all add: capabilities_and_def push_bit_eq_mult)

lemma capabilities_and_or:
  "capabilities_and (capabilities_or a b) c \<longleftrightarrow> capabilities_and a c \<or> capabilities_and b c"
  by (simp add: capabilities_and_def capabilities_or_def bit.conj_disj_distrib2 or_eq_0_iff)

lemma fold_read_capability:
  "Cap_None \<notin> set ks \<Longrightarrow>
   capabilities_and (fold read_capability (concat (map (\<lambda>k. if P k then [toQString_Capabilities (capability k) @ ''=1''] else []) ks)) c)
     (capability j) \<longleftrightarrow> capabilities_and c (capability j) \<or> j \<in> set ks \<and> P j"
proof (induction ks arbitrary: c)
  case (Cons k ks)
  have k: "k \<noteq> Cap_None" and ks: "Cap_None \<notin> set ks" using Cons.prems by auto
  show ?case
    using Cons.IH [OF ks] by (cases "P k")
      (simp_all only: list.map concat.simps if_True if_False append.simps fold_simps read_capability_entry [OF k] o_apply
        capabilities_and_or capability_and list.set insert_iff, blast+)
qed simp

lemma capabilities_read:
  "client_capabilities (fold read_capability (capability_entries caps) (capability Cap_None)) = client_capabilities caps"
  unfolding client_capabilities_def capability_entries_def
  by (simp only: fold_read_capability capability_and list.set insert_iff empty_iff Capability.distinct simp_thms)

lemma capability_entries_field: "\<forall>t\<in>set (capability_entries caps). field t \<and> t \<noteq> [] \<and> \<not> is_space (last t)"
  by (auto simp: capability_entries_def toQString_Capabilities_def field_def is_space_def)

subsection \<open>An ATIS line by line\<close>

text \<open>What of a line ends up in the ATIS; a line that makes the code give up.\<close>

definition placeholder :: "string \<Rightarrow> bool" where
  "placeholder tm \<longleftrightarrow> (let test = removeChars (q_toLower (q_trimmed tm)) (\<lambda>c. c \<in> {CHR 0x0A, CHR 0x09, CHR 0x0D}) in
     q_trimmed tm \<noteq> [] \<and> (length test = 1 \<or> q_startsWith test ''z'' \<and> length test = 2))"

lemma atis_text_lines:
  "\<forall>tm\<in>set tms. \<not> placeholder tm \<Longrightarrow> atis_text tms acc =
     Some (fold (\<lambda>line atisMessage. (if atisMessage = [] then [] else atisMessage @ [CHR 0x0A]) @ line)
       (filter (\<lambda>l. l \<noteq> []) (map q_trimmed tms)) acc)"
proof (induction tms arbitrary: acc)
  case (Cons tm tms)
  then have "\<not> placeholder tm" by simp
  then have "atis_text (tm # tms) acc = atis_text tms
      (if q_trimmed tm = [] then acc else (if acc = [] then [] else acc @ [CHR 0x0A]) @ q_trimmed tm)"
    by (auto simp: placeholder_def Let_def)
  with Cons show ?case by simp
qed simp

lemma atis_text_placeholder: "tm \<in> set tms \<Longrightarrow> placeholder tm \<Longrightarrow> atis_text tms acc = None"
  by (induction tms arbitrary: acc) (auto simp: placeholder_def Let_def)

lemma join_lines_join: "join_lines (filter (\<lambda>l. l \<noteq> []) ls) = q_join [CHR 0x0A] (filter (\<lambda>l. l \<noteq> []) ls)"
proof -
  have "\<forall>l\<in>set ls. l \<noteq> [] \<Longrightarrow> fold (\<lambda>line atisMessage. (if atisMessage = [] then [] else atisMessage @ [CHR 0x0A]) @ line) ls acc
     = (if acc = [] \<or> ls = [] then acc else acc @ [CHR 0x0A]) @ q_join [CHR 0x0A] ls" for ls :: "string list" and acc
    by (induction ls arbitrary: acc) (auto simp: q_join_Cons)
  from this [of "filter (\<lambda>l. l \<noteq> []) ls" "[]"] show ?thesis by (simp add: join_lines_def)
qed

lemma set_atis_keeps [simp]:
  "m_mapAtisMessages (set_atis cs a c) = (m_mapAtisMessages c)(cs \<mapsto> a\<lparr>lineCount := c_int (lineCount a + 1)\<rparr>)"
  "emitted (set_atis cs a c) = emitted c"
  by (simp_all add: set_atis_def)

lemma atis_of_set [simp]: "atis_of cs (set_atis cs a c) = a\<lparr>lineCount := c_int (lineCount a + 1)\<rparr>"
  by (simp add: atis_of_def)

lemma atis_lines:
  "textLines (atis_of cs (fold (\<lambda>l. updateAtisMap cs AtisLine_TextMessage l) ls c)) = textLines (atis_of cs c) @ ls
   \<and> emitted (fold (\<lambda>l. updateAtisMap cs AtisLine_TextMessage l) ls c) = emitted c"
  by (induction ls arbitrary: c) (simp_all add: updateAtisMap_def Let_def)

subsection \<open>Text messages in the buffer\<close>

lemma consolidate_delivers:
  assumes "\<not> isSupervisorMessage tm"
  shows "let c' = consolidateTextMessage tm c; buffered = addConsolidatedTextMessage tm (m_textMessagesToConsolidate c) in
    (emitted c' = emitted c @ [textMessagesReceived buffered] \<and> m_textMessagesToConsolidate c' = [])
    \<or> (emitted c' = emitted c \<and> m_textMessagesToConsolidate c' = buffered \<and> enabled DigestTimer c'
       \<and> (\<exists>c''. handle_event env DigestTimer c' = Inr c'' \<and> emitted c'' = emitted c @ [textMessagesReceived buffered]
            \<and> m_textMessagesToConsolidate c'' = []))"
  using assms(1) unfolding consolidateTextMessage_def digest_inputSignal_def Let_def
  by (simp add: digest_timerTimeout_def emitConsolidatedTextMessages_def emit_def)

lemma standing_idle:
  "sends_visual c \<Longrightarrow> m_stoppedSendingVisualPositions c \<Longrightarrow> \<forall>env\<in>set envs. stands_still (own env) \<Longrightarrow>
    fold (\<lambda>env. sendVisualPilotDataUpdate env False) envs c = c"
  by (induction envs) (simp_all add: visual_standing)

lemma standing_run:
  assumes "sends_visual c" "\<forall>env\<in>set envs. stands_still (own env)" "envs \<noteq> []" "\<not> m_stoppedSendingVisualPositions c"
  shows "fold (\<lambda>env. sendVisualPilotDataUpdate env False) envs c =
    queue_text (stopped_text (hd envs) c) (c\<lparr>m_stoppedSendingVisualPositions := True, m_visualPositionUpdateSentCount := 0\<rparr>)"
    (is "_ = ?d")
proof -
  obtain e es where e: "envs = e # es" using assms(3) by (cases envs) auto
  have "sends_visual ?d" using assms(1) by (simp only: sends_visual_kept)
  moreover have "m_stoppedSendingVisualPositions ?d" by (simp add: queue_text_def)
  ultimately have "fold (\<lambda>env. sendVisualPilotDataUpdate env False) es ?d = ?d"
    using assms(2) e by (intro standing_idle) simp_all
  then show ?thesis using visual_standing [OF assms(1), of e] assms(2,4) e by simp
qed

end
