(* ===== verification/ClientProperties.thy ===== *)
theory ClientProperties
  imports FsdClientFacts
begin

section \<open>What the client guarantees\<close>

text \<open>
  The properties of the client as a whole: its invariant, which events can fault, the send queue,
  reading in rounds, the table of identifiers, connecting and disconnecting.
\<close>

text \<open>A client to try the properties on, and what surrounds it.\<close>

definition sample_server :: server_data where
  "sample_server = \<lparr>srv_name = ''S'', srv_address = ''localhost'', srv_serverType = FSDServer, srv_ecosystem = PrivateFSD,
     srv_userId = ''1234567'', srv_userPassword = ''secret'', srv_userRealName = ''Joe'',
     srv_userRealNameAndHomeBase = ''Joe EDDF'', srv_sendReceiveDetails = SendAircraftParts, srv_isConnected = False\<rparr>"

definition sample_client :: "unit fsd_client" where
  "sample_client = CFSDClient 0 () sample_server False"

lemma sample_reachable: "reachable sample_client"
  unfolding sample_client_def by (rule reachable_start)

lemmas sample_defs = sample_client_def CFSDClient_def sample_server_def

text \<open>Surroundings at a time, with an own aircraft.\<close>

definition sample_environment :: "int \<Rightarrow> own_aircraft \<Rightarrow> unit environment" where
  "sample_environment t aircraft = \<lparr>now = t, own = aircraft, isAircraftInRange = (\<lambda>cs. True), closestStation = hd,
     auth_generate_response = (\<lambda>a s. (s, a)), auth_generate_challenge = (\<lambda>a. (''c'', a)), auth_set_initial_challenge = (\<lambda>a s. a),
     auth_get_client_id = (\<lambda>a. 0), auth_create = (\<lambda>i key. ()), json_toText = (\<lambda>ob. []), json_fromText = (\<lambda>s. None), system_unique_id = ''1'', localAddress = ''127.0.0.1'', simulatorNameAndVersion = ''FSX''\<rparr>"

text \<open>C1: In every state a client can reach, whatever events came: no timer runs while it is
  disconnected; whatever is queued or was written ends with a line end; while text messages are
  buffered the timer that delivers them runs, and there are fewer than ten inputs; at most six
  delays per callsign and fifty calls in the statistics are kept; no two stations have the same
  callsign; a position passed on carries a time of the clock and a delay of at most six seconds; the
  bucket that throttles configurations has its capacity and interval.\<close>

lemma client_invariant:
  assumes "reachable c"
  shows "client_ok c"
  using assms by (rule reachable_ok)

lemma client_invariant_witness: "client_ok sample_client"
  by (rule client_invariant [OF sample_reachable])

text \<open>C2: Of all events but the lines from the server a client in a reachable state fails exactly those that break an assertion of
  the source: a new server, callsign or ICAO codes while it is not disconnected, and connecting, with the socket closed, before
  name, version and capabilities are set.\<close>

lemma events_that_fault:
  assumes "reachable c" "\<And>line. ev \<noteq> LineReceived line"
  shows "handle_event env ev c = Inl f \<longleftrightarrow> f = AssertFailed
    \<and> (((\<exists>server. ev = SetServer server) \<or> (\<exists>callsign. ev = SetCallsign callsign)
          \<or> (\<exists>aircraftIcao airlineIcao. ev = SetIcaoCodes aircraftIcao airlineIcao)) \<and> \<not> isDisconnected c
      \<or> ev = ConnectToServer \<and> \<not> m_socketIsOpen c
        \<and> (m_clientName c = [] \<or> \<not> c_int (m_versionMajor c + m_versionMinor c) > 0 \<or> m_capabilities c = capability Cap_None))"
proof (cases ev)
  case ConfigTimer
  with incremental_result [OF reachable_ok [OF assms(1)], of env] show ?thesis by auto
next
  case SendTimer
  with sendQueuedMessage_total [of c] show ?thesis by auto
next
  case (LineReceived line)
  with assms(2) [of line] show ?thesis by simp
qed (auto simp: setServer_def setCallsign_def setIcaoCodes_def connectToServer_def Let_def)

lemma events_that_fault_witness:
  "handle_event (sample_environment 0 (undefined :: own_aircraft)) ConnectToServer sample_client = Inl AssertFailed
    \<and> handle_event (sample_environment 0 (undefined :: own_aircraft)) (SetIcaoCodes ''A320'' ''DLH'') sample_client \<noteq> Inl AssertFailed"
  using events_that_fault [OF sample_reachable, of ConnectToServer "sample_environment 0 undefined" AssertFailed]
    events_that_fault [OF sample_reachable, of "SetIcaoCodes ''A320'' ''DLH''" "sample_environment 0 undefined" AssertFailed]
  by (simp add: sample_defs isDisconnected_def)

text \<open>C7: With an open socket the send timer empties the queue: after at most as many firings as there are
  messages, all of them have been written, in their order, and none is left.\<close>

lemma send_timer_drains:
  assumes "can_write c" "length (m_queuedFsdMessages c) \<le> n"
  shows "\<exists>c'. send_ticks n c = Inr c' \<and> m_queuedFsdMessages c' = [] \<and> written c' = written c @ m_queuedFsdMessages c"
  using assms by (rule send_ticks_empty_queue)

lemma send_timer_drains_witness:
  "\<exists>c'. send_ticks 2 (sample_client\<lparr>m_socketIsOpen := True, m_queuedFsdMessages := [''a'', ''b'']\<rparr>) = Inr c'
    \<and> m_queuedFsdMessages c' = []
    \<and> written c' = written (sample_client\<lparr>m_socketIsOpen := True, m_queuedFsdMessages := [''a'', ''b'']\<rparr>)
        @ m_queuedFsdMessages (sample_client\<lparr>m_socketIsOpen := True, m_queuedFsdMessages := [''a'', ''b'']\<rparr>)"
  by (rule send_timer_drains) (simp_all add: sample_defs can_write_def)

text \<open>One firing of the send timer writes the first messages of a queue that is not empty: at least one,
  at most 35, and at most 5 as long as no more than 50 are waiting.\<close>

lemma batches_bounded:
  assumes "can_write c" "m_queuedFsdMessages c \<noteq> []"
  shows "\<exists>n c'. sendQueuedMessage c = Inr c' \<and> written c' = written c @ take n (m_queuedFsdMessages c)
    \<and> m_queuedFsdMessages c' = drop n (m_queuedFsdMessages c)
    \<and> 1 \<le> n \<and> n \<le> length (m_queuedFsdMessages c) \<and> n \<le> (if length (m_queuedFsdMessages c) \<le> 50 then 5 else 35)"
proof -
  define s where "s = length (m_queuedFsdMessages c)"
  have "0 < s" using assms(2) by (simp add: s_def)
  then have "1 \<le> batch s" using batch_pos [of s] by simp
  moreover have "batch s \<le> (if s \<le> 50 then 5 else 35)" using batch_max [of s] by (simp add: batch_def)
  ultimately show ?thesis
    using sendQueuedMessage_sends [OF assms(1)] batch_le [of s] unfolding s_def by blast
qed

lemma batches_bounded_witness:
  "\<exists>n c'. sendQueuedMessage (sample_client\<lparr>m_socketIsOpen := True, m_queuedFsdMessages := [''a'']\<rparr>) = Inr c'
    \<and> written c' = written (sample_client\<lparr>m_socketIsOpen := True, m_queuedFsdMessages := [''a'']\<rparr>)
        @ take n (m_queuedFsdMessages (sample_client\<lparr>m_socketIsOpen := True, m_queuedFsdMessages := [''a'']\<rparr>))
    \<and> m_queuedFsdMessages c' = drop n (m_queuedFsdMessages (sample_client\<lparr>m_socketIsOpen := True, m_queuedFsdMessages := [''a'']\<rparr>))
    \<and> 1 \<le> n \<and> n \<le> length (m_queuedFsdMessages (sample_client\<lparr>m_socketIsOpen := True, m_queuedFsdMessages := [''a'']\<rparr>))
    \<and> n \<le> (if length (m_queuedFsdMessages (sample_client\<lparr>m_socketIsOpen := True, m_queuedFsdMessages := [''a'']\<rparr>)) \<le> 50 then 5 else 35)"
  by (rule batches_bounded) (simp_all add: sample_defs can_write_def)

text \<open>C31: Reading in limited rounds, each of which schedules the next with a larger limit, ends and does
  what parsing all the lines one after the other does, whatever the first limit.\<close>

lemma rounds_read_everything:
  "read_rounds (Suc (length available)) env maxLines available c = Some (parse_lines env available c)"
  by (rule read_rounds_parse) simp

text \<open>The table of identifiers is a hash map, which parseMessage searches in an order the program does
  not fix: whatever that order, a line is taken for the same kind of message.\<close>

lemma identifiers_unambiguous:
  assumes "set m = set initializeMessageTypes"
  shows "find (\<lambda>(str, mt). q_startsWith line str) m = find (\<lambda>(str, mt). q_startsWith line str) initializeMessageTypes"
proof (cases "\<exists>p\<in>set m. q_startsWith line (fst p)")
  case True
  then obtain cmd mt where p: "(cmd, mt) \<in> set m" "q_startsWith line cmd" by auto
  then show ?thesis using find_identifier [of cmd mt m line] find_identifier [of cmd mt initializeMessageTypes line] assms by simp
next
  case False
  then have "find (\<lambda>(str, mt). q_startsWith line str) m = None"
      "find (\<lambda>(str, mt). q_startsWith line str) initializeMessageTypes = None"
    using assms by (auto simp: find_None_iff)
  then show ?thesis by simp
qed

lemma identifiers_unambiguous_witness:
  "find (\<lambda>(str, mt). q_startsWith ''$CQA:B:RN'' str) (rev initializeMessageTypes)
    = find (\<lambda>(str, mt). q_startsWith ''$CQA:B:RN'' str) initializeMessageTypes"
  by (rule identifiers_unambiguous) simp

end
