(* ===== verification/ClientErrors.thy ===== *)
theory ClientErrors
  imports ClientProperties
begin

section \<open>What goes wrong, and what is kept secret\<close>

text \<open>
  Which received lines a client cannot survive, what happens around a disconnect and a late token,
  the timeout of a pending connection, and which logins show the password in the raw messages.
\<close>

text \<open>C36: Only these lines make a client in a reachable state fault: a controller position of exactly seven
  tokens, whose eighth is read; a custom pilot packet of fewer than three tokens, whose third is
  read; and a position or configuration message with a blank sender, on which an assertion fails.\<close>

lemma lines_that_fault:
  assumes "reachable c" "parseMessage env line c = Inl f"
  shows "\<exists>(cmd, mt)\<in>set initializeMessageTypes. q_startsWith (q_trimmed line) cmd \<and>
    (let tokens = line_tokens cmd line in
      mt = Msg_AtcDataUpdate \<and> length tokens = 7 \<and> f = OutOfRange 7
      \<or> mt = Msg_PilotClientCom \<and> length tokens < 3 \<and> f = OutOfRange 2
      \<or> (\<exists>sender. sender_of mt tokens = Some sender \<and> q_trimmed sender = [] \<and> f = AssertFailed))"
proof -
  have m: "m_messageTypeMapping c = initializeMessageTypes" using reachable_ok [OF assms(1)] by (simp add: client_ok_def)
  obtain cmd mt where p: "(cmd, mt) \<in> set initializeMessageTypes" "q_startsWith (q_trimmed line) cmd"
    using assms(2) parse_unknown [OF m, of line env] by force
  then have "handle_message env mt (line_tokens cmd line) (note_line env cmd (q_trimmed line) c) = Inl f"
    using assms(2) parse_known [OF m p] by (simp split: if_splits)
  from handle_message_fault [OF this] p show ?thesis by (intro bexI [of _ "(cmd, mt)"]) (auto simp: Let_def)
qed

lemma lines_that_fault_witness:
  "\<exists>(cmd, mt)\<in>set initializeMessageTypes. q_startsWith (q_trimmed ''#SBA:B'') cmd \<and>
    (let tokens = line_tokens cmd ''#SBA:B'' in
      mt = Msg_AtcDataUpdate \<and> length tokens = 7 \<and> OutOfRange 2 = OutOfRange 7
      \<or> mt = Msg_PilotClientCom \<and> length tokens < 3 \<and> OutOfRange 2 = OutOfRange 2
      \<or> (\<exists>sender. sender_of mt tokens = Some sender \<and> q_trimmed sender = [] \<and> OutOfRange 2 = AssertFailed))"
proof (rule lines_that_fault [OF sample_reachable])
  show "parseMessage env ''#SBA:B'' sample_client = Inl (OutOfRange 2)" for env
    by (rule short_custom_packet [OF sample_reachable])
qed

text \<open>The faults do occur: a custom packet of two tokens, a controller position without elevation and a
  position too short to be read each fault in every reachable state, so what the server relays can stop a client.\<close>

lemma malformed_lines_fault:
  assumes "reachable c"
  shows "parseMessage env ''#SBA:B'' c = Inl (OutOfRange 2)
    \<and> parseMessage env ''%A_TWR:18700:4:100:3:50:8'' c = Inl (OutOfRange 7)
    \<and> parseMessage env ''@N'' c = Inl AssertFailed"
  using short_custom_packet [OF assms] short_atc_position [OF assms] short_position [OF assms] by simp

lemma malformed_lines_fault_witness:
  "\<exists>env. parseMessage env ''#SBA:B'' sample_client = Inl (OutOfRange 2)
    \<and> parseMessage env ''%A_TWR:18700:4:100:3:50:8'' sample_client = Inl (OutOfRange 7)
    \<and> parseMessage env ''@N'' sample_client = Inl AssertFailed"
  using malformed_lines_fault [OF sample_reachable] by blast

text \<open>Disconnecting ends in the state Disconnected with the socket closed, every timer stopped and the
  session's data gone. Nothing is written on the way: the logoff message that is queued first is
  dropped with the queue, so the server never gets it.\<close>

lemma disconnecting_forgets:
  assumes "\<not> m_unitTestMode c"
  shows "let c' = disconnectFromServer c in
    isDisconnected c' \<and> timers_off c' \<and> \<not> m_socketIsOpen c' \<and> m_queuedFsdMessages c' = [] \<and> m_atcStations c' = []
    \<and> m_textMessagesToConsolidate c' = [] \<and> m_pendingAtisQueries c' = Map.empty \<and> m_loginSince c' = - 1
    \<and> m_lastPositionUpdate (offsets c') = Map.empty \<and> written c' = written c"
  using assms by (simp add: disconnectFromServer_def updateConnectionStatus_def sendDeletePilot_def sendDeleteAtc_def
    sendQueudedMessage_def clearState_def stopPositionTimers_def isDisconnected_def clear_offsets_def timers_off_def
    emit_def Let_def split: LoginMode.split)

lemma disconnecting_forgets_witness:
  "let c' = disconnectFromServer (sample_client\<lparr>m_socketIsOpen := True, m_connectionStatus := Connected\<rparr>) in
    isDisconnected c' \<and> timers_off c' \<and> \<not> m_socketIsOpen c' \<and> m_queuedFsdMessages c' = [] \<and> m_atcStations c' = []
    \<and> m_textMessagesToConsolidate c' = [] \<and> m_pendingAtisQueries c' = Map.empty \<and> m_loginSince c' = - 1
    \<and> m_lastPositionUpdate (offsets c') = Map.empty
    \<and> written c' = written (sample_client\<lparr>m_socketIsOpen := True, m_connectionStatus := Connected\<rparr>)"
  by (rule disconnecting_forgets) (simp add: sample_defs)

text \<open>A connection attempt does not stay pending: the check that connectToServer schedules after 9375 ms
  disconnects a client that is still pending on that attempt, and leaves a more recent one alone.\<close>

lemma pending_login_ends:
  assumes "connectToServer env c = Inr c1" "\<not> m_socketIsOpen c" "isPendingConnection c2"
    and "0 \<le> now env" "now env' < 2 ^ 62" "now env' \<ge> now env + qRound (d_mul (d_of_int PendingConnectionTimeoutMs) (mk_double (5 / 4)))"
    and "0 \<le> m_loginSince c2" "m_loginSince c2 \<le> now env'"
  shows "m_loginSince c1 + PendingConnectionTimeoutMs \<le> now env'
    \<and> isDisconnected (pendingTimeoutCheck env' c2) = (m_loginSince c2 + PendingConnectionTimeoutMs \<le> now env')
    \<and> pendingTimeoutCheck env' c2 \<in> {c2, disconnectFromServer c2}"
proof -
  have l: "m_loginSince c1 = now env"
    using assms(1,2) by (auto simp: connectToServer_def updateConnectionStatus_def startPositionTimers_def clearState_def
      stopPositionTimers_def emit_def Let_def split: if_splits)
  have "now env' \<ge> now env + 9375" using assms(6) check_delay by simp
  then have t: "m_loginSince c1 + PendingConnectionTimeoutMs \<le> now env'" using l by (simp add: PendingConnectionTimeoutMs_def)
  have "c_int64 (now env' - m_loginSince c2) = now env' - m_loginSince c2"
    using assms(5,7,8) by (intro c_int64_id) (simp add: int64_def)
  moreover have "\<not> isDisconnected c2" using assms(3) by (auto simp: isPendingConnection_def isDisconnected_def status_Connecting)
  ultimately show ?thesis
    using t assms(3) by (simp add: pendingTimeoutCheck_def PendingConnectionTimeoutMs_def disconnect_status)
qed

text \<open>The sample client ready to connect, and two moments.\<close>

abbreviation at_time :: "int \<Rightarrow> unit environment" where
  "at_time t \<equiv> sample_environment t undefined"

definition ready_client :: "unit fsd_client" where
  "ready_client = sample_client\<lparr>m_clientName := ''swift'', m_versionMajor := 1, m_capabilities := capability Cap_AtcInfo\<rparr>"

lemma pending_login_ends_witness:
  "\<exists>c1. connectToServer (at_time 1000) ready_client = Inr c1
    \<and> m_loginSince c1 + PendingConnectionTimeoutMs \<le> now (at_time 11000)
    \<and> isDisconnected (pendingTimeoutCheck (at_time 11000) c1) = (m_loginSince c1 + PendingConnectionTimeoutMs \<le> now (at_time 11000))
    \<and> pendingTimeoutCheck (at_time 11000) c1 \<in> {c1, disconnectFromServer c1}"
proof -
  have r: "m_clientName ready_client \<noteq> []" "m_versionMajor ready_client = 1" "m_versionMinor ready_client = 0"
      "m_capabilities ready_client \<noteq> capability Cap_None" "\<not> m_socketIsOpen ready_client"
      "m_connectionStatus ready_client = Disconnected"
    by (simp_all add: ready_client_def sample_defs)
  define c1 where "c1 = startPositionTimers ((updateConnectionStatus Connecting
    ((clearState (ready_client\<lparr>m_hostApplication := ''FSX''\<rparr>))\<lparr>m_filterPasswordFromLogin := True, m_loginSince := 1000\<rparr>))
      \<lparr>m_socketIsOpen := True\<rparr>)"
  have c: "connectToServer (at_time 1000) ready_client = Inr c1"
    using r by (simp add: connectToServer_def c1_def sample_environment_def c_int_id int32_def Let_def)
      (simp add: ready_client_def sample_defs)
  have "isPendingConnection c1"
    using r by (simp add: c1_def isPendingConnection_def startPositionTimers_def status_Connecting)
  moreover have "m_loginSince c1 = 1000" by (simp add: c1_def startPositionTimers_def updateConnectionStatus_def emit_def Let_def)
  ultimately have "m_loginSince c1 + PendingConnectionTimeoutMs \<le> now (at_time 11000)
    \<and> isDisconnected (pendingTimeoutCheck (at_time 11000) c1) = (m_loginSince c1 + PendingConnectionTimeoutMs \<le> now (at_time 11000))
    \<and> pendingTimeoutCheck (at_time 11000) c1 \<in> {c1, disconnectFromServer c1}"
    by (intro pending_login_ends [OF c r(5)]) (simp_all add: sample_environment_def check_delay)
  with c show ?thesis by blast
qed

text \<open>The token of the web service may come after the client gave up: a disconnected client then turns
  Connected, with its socket closed and its timers stopped, so it stays connected to nothing.\<close>

lemma late_token_connects:
  assumes "reachable c" "isDisconnected c" "\<not> m_socketIsOpen c"
  shows "let c' = vatsim_token_received env token c in isConnected c' \<and> timers_off c' \<and> \<not> m_socketIsOpen c'
    \<and> srv_isConnected (m_server c') \<and> length (m_queuedFsdMessages c') > length (m_queuedFsdMessages c)"
proof -
  have k: "client_ok c" by (rule reachable_ok [OF assms(1)])
  then have t: "timers_off c" "\<not> m_unitTestMode c" using assms(2) by (simp_all add: client_ok_def isDisconnected_def)
  then show ?thesis
    using login_effect [OF t(2), of env token] assms(2,3)
    by (simp add: vatsim_token_received_def login_and_connected_def updateConnectionStatus_def isConnected_def isDisconnected_def
      timers_off_def emit_def Let_def)
qed

lemma late_token_connects_witness:
  "let c' = vatsim_token_received (at_time 0) ''t'' sample_client in isConnected c' \<and> timers_off c' \<and> \<not> m_socketIsOpen c'
    \<and> srv_isConnected (m_server c') \<and> length (m_queuedFsdMessages c') > length (m_queuedFsdMessages sample_client)"
  by (rule late_token_connects [OF sample_reachable]) (simp_all add: sample_defs isDisconnected_def)

end
