(* ===== verification/ClientBehaviour.thy ===== *)
theory ClientBehaviour
  imports ClientProperties
begin

section \<open>What the client does\<close>

text \<open>
  Properties of single activities: logging in, showing raw messages, visual positions, ATIS, station
  ranges, capabilities, positions from sender to receiver, buffered text messages.
\<close>



text \<open>The filter misses two logins: an observer's is shown as it is, password included, and so is a pilot's
  once a line that begins with \<open>#AP\<close> has come in, because that line switches the filter off.\<close>

lemma password_shown:
  assumes "m_rawFsdMessagesEnabled c" "q_startsWith (q_trimmed observer) ''#AA''" "observer \<noteq> []"
    and "q_startsWith line ''#AP''" "pilot \<noteq> []"
  defines "c' \<equiv> emitRawFsdMessage line False c"
  shows "emitted (sendMessageString observer c) = emitted c @ [rawFsdMessage (''FSD Sent=>'' @ q_trimmed observer)]
    \<and> emitted (sendMessageString pilot c') = emitted c' @ [rawFsdMessage (''FSD Sent=>'' @ q_trimmed pilot)]"
proof -
  have "\<not> (q_startsWith s ''#AA'' \<and> q_startsWith s ''#AP'')" for s
    by (cases s; cases "tl s"; cases "tl (tl s)") auto
  then show ?thesis
    using assms(1-5) unfolding c'_def by (auto simp: sendMessageString_def emitRawFsdMessage_def emit_def Let_def)
qed

lemma password_shown_witness:
  "emitted (sendMessageString ''#AAA_OBS:SERVER:Joe:1:pw:1:9'' (sample_client\<lparr>m_rawFsdMessagesEnabled := True\<rparr>))
      = emitted (sample_client\<lparr>m_rawFsdMessagesEnabled := True\<rparr>)
        @ [rawFsdMessage (''FSD Sent=>'' @ q_trimmed ''#AAA_OBS:SERVER:Joe:1:pw:1:9'')]
    \<and> emitted (sendMessageString ''#APA:SERVER:1:pw:1:9:2:Joe'' (emitRawFsdMessage ''#APX'' False
        (sample_client\<lparr>m_rawFsdMessagesEnabled := True, m_filterPasswordFromLogin := True\<rparr>)))
      = emitted (emitRawFsdMessage ''#APX'' False (sample_client\<lparr>m_rawFsdMessagesEnabled := True, m_filterPasswordFromLogin := True\<rparr>))
        @ [rawFsdMessage (''FSD Sent=>'' @ q_trimmed ''#APA:SERVER:1:pw:1:9:2:Joe'')]"
proof
  have "q_startsWith (q_trimmed ''#AAA_OBS:SERVER:Joe:1:pw:1:9'') ''#AA''" by (simp add: q_trimmed_def is_space_def)
  from password_shown [of "sample_client\<lparr>m_rawFsdMessagesEnabled := True, m_filterPasswordFromLogin := True\<rparr>",
      OF _ this, of "''#APX''" "''#APA:SERVER:1:pw:1:9:2:Joe''"]
    password_shown [of "sample_client\<lparr>m_rawFsdMessagesEnabled := True\<rparr>", OF _ this, of "''#APX''" "''#APA:SERVER:1:pw:1:9:2:Joe''"]
  show "emitted (sendMessageString ''#AAA_OBS:SERVER:Joe:1:pw:1:9'' (sample_client\<lparr>m_rawFsdMessagesEnabled := True\<rparr>))
      = emitted (sample_client\<lparr>m_rawFsdMessagesEnabled := True\<rparr>)
        @ [rawFsdMessage (''FSD Sent=>'' @ q_trimmed ''#AAA_OBS:SERVER:Joe:1:pw:1:9'')]"
    "emitted (sendMessageString ''#APA:SERVER:1:pw:1:9:2:Joe'' (emitRawFsdMessage ''#APX'' False
        (sample_client\<lparr>m_rawFsdMessagesEnabled := True, m_filterPasswordFromLogin := True\<rparr>)))
      = emitted (emitRawFsdMessage ''#APX'' False (sample_client\<lparr>m_rawFsdMessagesEnabled := True, m_filterPasswordFromLogin := True\<rparr>))
        @ [rawFsdMessage (''FSD Sent=>'' @ q_trimmed ''#APA:SERVER:1:pw:1:9:2:Joe'')]"
    by simp_all
qed

text \<open>The sample client on its way to its server.\<close>

lemma connecting_sample:
  "\<exists>c. reachable (c :: unit fsd_client) \<and> m_protocolRevision c = PROTOCOL_REVISION_CLASSIC \<and> m_connectionStatus c = Connecting
    \<and> m_server c = sample_server \<and> m_socketIsOpen c"
proof -
  define env :: "unit environment" where "env = sample_environment 1000 undefined"
  have sane: "clock_sane env" by (simp add: clock_sane_def env_def sample_environment_def)
  define c1 where "c1 = sample_client\<lparr>m_server := sample_server, m_protocolRevision := PROTOCOL_REVISION_CLASSIC\<rparr>"
  define c2 where "c2 = setClientName ''swift'' c1"
  define c3 where "c3 = setVersion 1 0 c2"
  define c4 where "c4 = setClientCapabilities (capability Cap_AtcInfo) c3"
  have "client_step sample_client (SetServer sample_server) c1"
    by (rule client_step [where env = env]) (simp_all add: setServer_def c1_def isDisconnected_def sample_defs sane)
  moreover have "client_step c1 (SetClientName ''swift'') c2" "client_step c2 (SetVersion 1 0) c3"
      "client_step c3 (SetClientCapabilities (capability Cap_AtcInfo)) c4"
    by (rule client_step [where env = env]; simp add: c2_def c3_def c4_def sane)+
  ultimately have r: "reachable c4" using sample_reachable reachable_step by metis
  have "\<exists>c. connectToServer env c4 = Inr c \<and> m_protocolRevision c = PROTOCOL_REVISION_CLASSIC
      \<and> m_connectionStatus c = Connecting \<and> m_server c = sample_server \<and> m_socketIsOpen c"
    by (simp add: connectToServer_def c4_def c3_def c2_def c1_def setClientCapabilities_def setVersion_def setClientName_def
      sample_defs c_int_id int32_def updateConnectionStatus_def clearState_def startPositionTimers_def emit_def Let_def)
  then obtain c where c: "connectToServer env c4 = Inr c" "m_protocolRevision c = PROTOCOL_REVISION_CLASSIC"
    "m_connectionStatus c = Connecting" "m_server c = sample_server" "m_socketIsOpen c" by blast
  have "client_step c4 ConnectToServer c" by (rule client_step [where env = env]) (simp_all add: c(1) sane)
  from reachable_step [OF r this] c show ?thesis by blast
qed

text \<open>On a server with the classic protocol a client logs in as soon as its socket is connected: the login
  of its kind is queued last, nothing else is, and the client counts as connected.\<close>

lemma classic_login:
  assumes "reachable c" "m_protocolRevision c = PROTOCOL_REVISION_CLASSIC" "m_connectionStatus c = Connecting"
    and "\<not> testFlag (srv_sendReceiveDetails (m_server c)) ReceiveEuroscopeSimData"
  shows "let c' = handleSocketConnected env c; s = m_server c in
    isConnected c' \<and> written c' = written c \<and>
    m_queuedFsdMessages c' = m_queuedFsdMessages c @
      [case m_loginMode c of
         Pilot \<Rightarrow> messageToFSDString AddPilot_pdu AddPilot_toTokens (AddPilot (asString (m_ownCallsign c)) (srv_userId s)
           (srv_userPassword s) (m_pilotRating c) PROTOCOL_REVISION_CLASSIC (m_simType c) (srv_userRealNameAndHomeBase s))
       | Observer \<Rightarrow> messageToFSDString AddAtc_pdu AddAtc_toTokens (AddAtc (asString (m_ownCallsign c))
           (srv_userRealNameAndHomeBase s) (srv_userId s) (srv_userPassword s) (m_atcRating c) PROTOCOL_REVISION_CLASSIC)]"
proof -
  have "\<not> m_unitTestMode c" using reachable_ok [OF assms(1)] by (simp add: client_ok_def)
  then show ?thesis
    using assms(2-4) by (simp add: handleSocketConnected_def login_and_connected_def sendLogin_def
      sendQueudedMessage_queues updateConnectionStatus_def isConnected_def Let_def split: LoginMode.split)
qed

lemma classic_login_witness:
  "\<exists>c env. reachable (c :: unit fsd_client) \<and> (let c' = handleSocketConnected env c; s = m_server c in
    isConnected c' \<and> written c' = written c \<and>
    m_queuedFsdMessages c' = m_queuedFsdMessages c @
      [case m_loginMode c of
         Pilot \<Rightarrow> messageToFSDString AddPilot_pdu AddPilot_toTokens (AddPilot (asString (m_ownCallsign c)) (srv_userId s)
           (srv_userPassword s) (m_pilotRating c) PROTOCOL_REVISION_CLASSIC (m_simType c) (srv_userRealNameAndHomeBase s))
       | Observer \<Rightarrow> messageToFSDString AddAtc_pdu AddAtc_toTokens (AddAtc (asString (m_ownCallsign c))
           (srv_userRealNameAndHomeBase s) (srv_userId s) (srv_userPassword s) (m_atcRating c) PROTOCOL_REVISION_CLASSIC)])"
proof -
  from connecting_sample obtain c where "reachable (c :: unit fsd_client)" "m_protocolRevision c = PROTOCOL_REVISION_CLASSIC"
    "m_connectionStatus c = Connecting" "m_server c = sample_server" by blast
  from classic_login [OF this(1-3)] this(1,4) show ?thesis
    by (intro exI [of _ c] exI conjI) (assumption, simp add: sample_server_def testFlag_def
      SendAircraftParts_def ReceiveEuroscopeSimData_def)
qed

end
