(* ===== verification/ClientMessages.thy ===== *)
theory ClientMessages
  imports ClientProperties
begin

section \<open>What goes over the wire and comes in\<close>

text \<open>
  Properties that join a sending client and a receiving one: the rhythm of visual positions, a
  position and a client's capabilities from sender to receiver, the ATIS put together line by line,
  text messages in the buffer, and what a pilot's logoff leaves behind.
\<close>

text \<open>An aircraft that stands still, and the same one moving forward.\<close>

definition sample_aircraft :: "double \<Rightarrow> own_aircraft" where
  "sample_aircraft v = \<lparr>own_callsign = CCallsign ''DLH1'' Aircraft, own_latitude = Fin 50, own_longitude = Fin 8,
     own_altitude_ft = Fin 364, own_altitude_ft_int = 364, own_pressureAltitude_ft_int = 364, own_groundElevation_ft = Fin 364,
     own_groundSpeed_kts_int = 0, own_pitch = Fin 0, own_bank = Fin 0, own_heading360 = Fin 90, own_onGround = True,
     own_velocityX = v, own_velocityY = Fin 0, own_velocityZ = Fin 0, own_pitchVelocity = Fin 0, own_rollVelocity = Fin 0,
     own_headingVelocity = Fin 0, own_transponderMode = ModeC, own_transponderCode = 2000, own_com1_MHz = Fin 122,
     own_com1_kHz = 122000, own_com2_kHz = 122800, own_modelString = ''model'', own_swiftLiveryString = [],
     own_airlineDesignator = ''DLH'', own_airlineVDesignator = [], own_aircraftDesignator = ''A320'',
     own_aircraftCombinedType = ''L2J'', own_parts = CAircraftParts_default\<rparr>"

definition sample_pilot :: "unit fsd_client" where
  "sample_pilot = sample_client\<lparr>m_connectionStatus := Connected, m_serverWantsVisualPositions := True,
     m_server := sample_server\<lparr>srv_sendReceiveDetails := SendVisualPositions\<rparr>\<rparr>"

abbreviation moment :: "double \<Rightarrow> unit environment" where
  "moment v \<equiv> sample_environment 0 (sample_aircraft v)"



lemma sample_sends: "sends_visual sample_pilot" "m_visualPositionUpdateSentCount sample_pilot = 0"
    "\<not> m_stoppedSendingVisualPositions sample_pilot"
  by (simp_all add: sends_visual_def sample_pilot_def sample_defs isDisconnected_def isVisualPositionSendingEnabledForServer_def
    getSetupForServer_def testFlag_def SendVisualPositions_def)

lemma sample_motion: "stands_still (sample_aircraft (Fin 0))" "\<not> stands_still (sample_aircraft (Fin 10))"
proof -
  obtain q where q: "mk_double (5 / 100000) = Fin q" "\<bar>q - 5 / 100000\<bar> \<le> 1 / 2 ^ 41"
    using mk_double_close [of "5 / 100000"] by auto
  then have m: "minVelocity = q" by (simp add: minVelocity_def)
  have "0 < q" "q < 10" using q(2) unfolding abs_le_iff by (simp_all add: field_simps)
  then show "stands_still (sample_aircraft (Fin 0))" "\<not> stands_still (sample_aircraft (Fin 10))"
    unfolding stands_still_def sample_aircraft_def m by simp_all
qed

text \<open>While the aircraft keeps moving every tick of the visual timer queues one message: the first and then
  every twenty-fifth is the periodic one, the others are the fast ones, for as long as the 32-bit
  counter has not gone round.\<close>

lemma visual_cycle:
  assumes "sends_visual c" "m_visualPositionUpdateSentCount c = 0" "length envs \<le> 2 ^ 32"
    and "\<forall>env\<in>set envs. \<not> stands_still (own env)"
  shows "m_queuedFsdMessages (fold (\<lambda>env. sendVisualPilotDataUpdate env False) envs c) = m_queuedFsdMessages c
    @ map (\<lambda>k. if k mod 25 = 0 then periodic_text (envs ! k) c else visual_text (envs ! k) c) [0..<length envs]"
  using visual_run [OF assms(1), of 0 envs] assms(2-4) by simp

lemma visual_cycle_witness:
  "m_queuedFsdMessages (fold (\<lambda>env. sendVisualPilotDataUpdate env False) (replicate 30 (moment (Fin 10))) sample_pilot)
    = m_queuedFsdMessages sample_pilot
    @ map (\<lambda>k. if k mod 25 = 0 then periodic_text (replicate 30 (moment (Fin 10)) ! k) sample_pilot
        else visual_text (replicate 30 (moment (Fin 10)) ! k) sample_pilot) [0..<length (replicate 30 (moment (Fin 10)))]"
  by (rule visual_cycle) (simp_all add: sample_sends sample_motion sample_environment_def)

text \<open>An aircraft that stands still is reported once: however long it stands, one stopped message is
  queued, and when it moves again the first message is a periodic one.\<close>

lemma standing_still_once:
  assumes "sends_visual c" "\<not> m_stoppedSendingVisualPositions c"
    and "envs \<noteq> []" "\<forall>env\<in>set envs. stands_still (own env)" "\<not> stands_still (own env')"
  shows "m_queuedFsdMessages (fold (\<lambda>env. sendVisualPilotDataUpdate env False) (envs @ [env']) c)
    = m_queuedFsdMessages c @ [stopped_text (hd envs) c, periodic_text env' c]"
proof -
  let ?d = "queue_text (stopped_text (hd envs) c)
    (c\<lparr>m_stoppedSendingVisualPositions := True, m_visualPositionUpdateSentCount := 0\<rparr>)"
  have "sends_visual ?d" using assms(1) by (simp only: sends_visual_kept)
  moreover have "m_visualPositionUpdateSentCount ?d = 0" by (simp add: queue_text_def)
  moreover have "periodic_text env' ?d = periodic_text env' c" using texts_same [of ?d c env'] by simp
  ultimately show ?thesis
    using standing_run [OF assms(1,4,3,2)] visual_moving [of ?d env'] assms(5) by simp
qed

lemma standing_still_once_witness:
  "m_queuedFsdMessages (fold (\<lambda>env. sendVisualPilotDataUpdate env False)
      ([moment (Fin 0), moment (Fin 0)] @ [moment (Fin 10)]) sample_pilot)
    = m_queuedFsdMessages sample_pilot
      @ [stopped_text (hd [moment (Fin 0), moment (Fin 0)]) sample_pilot, periodic_text (moment (Fin 10)) sample_pilot]"
  by (rule standing_still_once) (simp_all add: sample_sends sample_motion sample_environment_def)

text \<open>A client's answer to a question for its capabilities tells the asking client exactly those of them
  that the receiver knows flags for, and who has them.\<close>

lemma capabilities_end_to_end:
  assumes "reachable c" "field cs" "unpadded cs" "field receiver" "capability_entries caps \<noteq> []"
  shows "parseMessage env (messageToFSDString ClientResponse_pdu ClientResponse_toTokens
      (ClientResponse cs receiver Query_Capabilities (capability_entries caps))) c
    = Inr (emit (capabilityResponseReceived (CCallsign cs NoHint) (client_capabilities caps))
        (note_line env ClientResponse_pdu (ClientResponse_pdu @ q_join '':''
          (ClientResponse_toTokens (ClientResponse cs receiver Query_Capabilities (capability_entries caps)))) c))"
proof -
  let ?m = "ClientResponse cs receiver Query_Capabilities (capability_entries caps)"
  let ?ts = "ClientResponse_toTokens ?m"
  have m: "m_messageTypeMapping c = initializeMessageTypes" using reachable_ok [OF assms(1)] by (simp add: client_ok_def)
  have k: "(ClientResponse_pdu, Msg_ClientResponse) \<in> set initializeMessageTypes"
    by (simp add: initializeMessageTypes_def ClientResponse_pdu_def)
  have w: "ClientResponse_wf ?m"
    using assms(2,4) capability_entries_field by (simp add: ClientResponse_wf_def ClientResponse_def ClientQueryType_canon_def)
  have "last ?ts \<in> set (capability_entries caps)" "hd ?ts = cs" "?ts \<noteq> []"
    using assms(5) by (simp_all add: ClientResponse_toTokens_def ClientResponse_def)
  then have u: "unpadded (q_join '':'' ?ts)"
    using assms(3) capability_entries_field by (intro unpadded_join) (simp_all add: unpadded_def)
  have "ClientResponse_fromTokens (q_split CHR '':'' (q_join '':'' ?ts)) = ?m"
    using client_response.reads_back [OF w] by simp
  then have "handle_message env Msg_ClientResponse (q_split CHR '':'' (q_join '':'' ?ts)) d
      = Inr (emit (capabilityResponseReceived (CCallsign cs NoHint) (client_capabilities caps)) d)" for d
    by (simp add: handle_message_def handleClientReponse_def isUnknownQuery_def Let_def)
      (use assms(5) in \<open>simp add: ClientResponse_def capabilities_read del: capability.simps\<close>)
  then show ?thesis
    using parse_frame [where toTokens = ClientResponse_toTokens and m = ?m, OF m k client_response.pdu_plain client_response.pdu_not_Nil
      client_response.wf_valid [OF w] u] by simp
qed

lemma capabilities_end_to_end_witness:
  "parseMessage (moment (Fin 0)) (messageToFSDString ClientResponse_pdu ClientResponse_toTokens
      (ClientResponse ''DLH1'' ''BAW2'' Query_Capabilities (capability_entries (capability Cap_AtcInfo)))) sample_client
    = Inr (emit (capabilityResponseReceived (CCallsign ''DLH1'' NoHint) (client_capabilities (capability Cap_AtcInfo)))
        (note_line (moment (Fin 0)) ClientResponse_pdu (ClientResponse_pdu @ q_join '':''
          (ClientResponse_toTokens (ClientResponse ''DLH1'' ''BAW2'' Query_Capabilities
            (capability_entries (capability Cap_AtcInfo))))) sample_client))"
  by (rule capabilities_end_to_end [OF sample_reachable])
    (simp_all add: field_def unpadded_def is_space_def capability_entries_def capabilities_and_def)



text \<open>Text lines, a logoff line and the end of an ATIS answer deliver the logoff time and the trimmed lines
  that are not empty, joined by line feeds, and the client forgets the lines. With a placeholder
  among them no ATIS is delivered and the lines are kept: they precede those of the next answer.\<close>

lemma atis_assembled:
  fixes c :: "'au fsd_client" and ls :: "string list" and z n cs :: string
  assumes "m_mapAtisMessages c cs = None"
  defines "c' \<equiv> updateAtisMap cs AtisLine_LineCount n (updateAtisMap cs AtisLine_ZuluLogoff z
      (fold (\<lambda>l. updateAtisMap cs AtisLine_TextMessage l) ls c))"
  shows "if list_ex placeholder ls
    then textLines (atis_of cs c') = ls \<and> emitted c' = emitted c @ [atisLogoffTimeReplyReceived (CCallsign cs Atc) z]
    else m_mapAtisMessages c' cs = None \<and> emitted c' = emitted c
      @ [atisLogoffTimeReplyReceived (CCallsign cs Atc) z,
         atisReplyReceived (CCallsign cs Atc) (q_join [CHR 0x0A] (filter (\<lambda>l. l \<noteq> []) (map q_trimmed ls)))]"
proof -
  define d where "d = fold (\<lambda>l. updateAtisMap cs AtisLine_TextMessage l) ls c"
  have "textLines (atis_of cs c) = []" using assms(1) by (simp add: atis_of_def AtisMessage_default_def)
  then have d: "textLines (atis_of cs d) = ls" "emitted d = emitted c"
    using atis_lines [of cs ls c] by (simp_all add: d_def)
  have c': "c' = updateAtisMap cs AtisLine_LineCount n (set_atis cs ((atis_of cs d)\<lparr>zuluLogoff := z\<rparr>) d)"
    by (simp add: c'_def d_def updateAtisMap_def Let_def)
  show ?thesis
  proof (cases "\<exists>l\<in>set ls. placeholder l")
    case True
    then have "atis_text ls [] = None" using atis_text_placeholder by blast
    with True show ?thesis
      unfolding c' list_ex_iff using d by (simp add: updateAtisMap_def [of cs AtisLine_LineCount] atis_of_def Let_def)
  next
    case False
    then have "atis_text ls [] = Some (q_join [CHR 0x0A] (filter (\<lambda>l. l \<noteq> []) (map q_trimmed ls)))"
      using atis_text_lines [of ls "[]"] join_lines_join [of "map q_trimmed ls"] by (simp add: join_lines_def)
    with False show ?thesis
      unfolding c' list_ex_iff using d by (simp add: updateAtisMap_def [of cs AtisLine_LineCount] Let_def)
  qed
qed

lemma atis_assembled_witness:
  "if list_ex placeholder [''RWY 25'', '' '', ''QNH 1013'']
    then textLines (atis_of ''EDDF_ATIS'' (updateAtisMap ''EDDF_ATIS'' AtisLine_LineCount ''3'' (updateAtisMap ''EDDF_ATIS'' AtisLine_ZuluLogoff ''2200z''
        (fold (\<lambda>l. updateAtisMap ''EDDF_ATIS'' AtisLine_TextMessage l) [''RWY 25'', '' '', ''QNH 1013''] sample_client)))) = [''RWY 25'', '' '', ''QNH 1013'']
      \<and> emitted (updateAtisMap ''EDDF_ATIS'' AtisLine_LineCount ''3'' (updateAtisMap ''EDDF_ATIS'' AtisLine_ZuluLogoff ''2200z''
        (fold (\<lambda>l. updateAtisMap ''EDDF_ATIS'' AtisLine_TextMessage l) [''RWY 25'', '' '', ''QNH 1013''] sample_client))) = emitted sample_client @ [atisLogoffTimeReplyReceived (CCallsign ''EDDF_ATIS'' Atc) ''2200z'']
    else m_mapAtisMessages (updateAtisMap ''EDDF_ATIS'' AtisLine_LineCount ''3'' (updateAtisMap ''EDDF_ATIS'' AtisLine_ZuluLogoff ''2200z''
        (fold (\<lambda>l. updateAtisMap ''EDDF_ATIS'' AtisLine_TextMessage l) [''RWY 25'', '' '', ''QNH 1013''] sample_client))) ''EDDF_ATIS'' = None
      \<and> emitted (updateAtisMap ''EDDF_ATIS'' AtisLine_LineCount ''3'' (updateAtisMap ''EDDF_ATIS'' AtisLine_ZuluLogoff ''2200z''
        (fold (\<lambda>l. updateAtisMap ''EDDF_ATIS'' AtisLine_TextMessage l) [''RWY 25'', '' '', ''QNH 1013''] sample_client))) = emitted sample_client
        @ [atisLogoffTimeReplyReceived (CCallsign ''EDDF_ATIS'' Atc) ''2200z'', atisReplyReceived (CCallsign ''EDDF_ATIS'' Atc)
            (q_join [CHR 0x0A] (filter (\<lambda>l. l \<noteq> []) (map q_trimmed [''RWY 25'', '' '', ''QNH 1013''])))]"
  by (rule atis_assembled) (simp add: sample_defs)

text \<open>When a pilot logs off, the client forgets the time of the last position, the delays and the
  subscription for interim positions of that callsign, but not the offset it had interpolated: a
  pilot who comes back under the callsign starts from the old one.\<close>

lemma logoff_leaves_offset:
  assumes "m_interpolatedOffsetTime (offsets c) (asString cs) = Some offset" "\<not> isEmpty cs"
    and "cs = CCallsign (m_sender (DeletePilot_fromTokens tokens)) Aircraft"
  shows "let c' = handleDeletePilot tokens c in
    currentOffsetTime cs (offsets c') = Inr 6000 \<and> m_lastPositionUpdate (offsets c') (asString cs) = None
    \<and> filter (\<lambda>r. callsign_eq r cs) (m_interimPositionReceivers c') = []
    \<and> m_interpolatedOffsetTime (offsets c') (asString cs) = Some offset
    \<and> last (emitted c') = deletePilotReceived (DeletePilot_m_cid (DeletePilot_fromTokens tokens))"
  using assms by (simp add: handleDeletePilot_def clearState_callsign_def clear_offsets_of_def currentOffsetTime_def
    c_positionTimeOffsetMsec_def Let_def)

lemma logoff_leaves_offset_witness:
  "let c' = handleDeletePilot [''DLH1'', ''SERVER''] (sample_client\<lparr>offsets :=
      (offsets sample_client)\<lparr>m_interpolatedOffsetTime := [''DLH1'' \<mapsto> 900]\<rparr>\<rparr>) in
    currentOffsetTime (CCallsign ''DLH1'' Aircraft) (offsets c') = Inr 6000
    \<and> m_lastPositionUpdate (offsets c') (asString (CCallsign ''DLH1'' Aircraft)) = None
    \<and> filter (\<lambda>r. callsign_eq r (CCallsign ''DLH1'' Aircraft)) (m_interimPositionReceivers c') = []
    \<and> m_interpolatedOffsetTime (offsets c') (asString (CCallsign ''DLH1'' Aircraft)) = Some 900
    \<and> last (emitted c') = deletePilotReceived (DeletePilot_m_cid (DeletePilot_fromTokens [''DLH1'', ''SERVER'']))"
proof (rule logoff_leaves_offset)
  have "asString (CCallsign ''DLH1'' Aircraft) = ''DLH1''" by code_simp
  then show "m_interpolatedOffsetTime (offsets (sample_client\<lparr>offsets :=
      (offsets sample_client)\<lparr>m_interpolatedOffsetTime := [''DLH1'' \<mapsto> 900]\<rparr>\<rparr>)) (asString (CCallsign ''DLH1'' Aircraft)) = Some 900"
    by simp
qed (simp_all add: DeletePilot_fromTokens_def DeletePilot_def q_trimmed_def is_space_def)

text \<open>A private message that is taken into the buffer is delivered with everything buffered before it:
  at once when it is the tenth, else by the timer, which is running then and can fire.\<close>

lemma buffered_text_delivered:
  assumes "\<not> isSupervisorMessage tm"
  shows "let c' = consolidateTextMessage tm c; buffered = addConsolidatedTextMessage tm (m_textMessagesToConsolidate c) in
    (emitted c' = emitted c @ [textMessagesReceived buffered] \<and> m_textMessagesToConsolidate c' = [])
    \<or> (emitted c' = emitted c \<and> m_textMessagesToConsolidate c' = buffered \<and> enabled DigestTimer c'
       \<and> (\<exists>c''. handle_event env DigestTimer c' = Inr c'' \<and> emitted c'' = emitted c @ [textMessagesReceived buffered]
            \<and> m_textMessagesToConsolidate c'' = []))"
  using assms by (rule consolidate_delivers)

lemma buffered_text_delivered_witness:
  "let c' = consolidateTextMessage (CTextMessage_private ''hi'' (CCallsign ''DLH1'' NoHint) (CCallsign ''BAW2'' NoHint)) sample_client;
       buffered = addConsolidatedTextMessage (CTextMessage_private ''hi'' (CCallsign ''DLH1'' NoHint) (CCallsign ''BAW2'' NoHint))
         (m_textMessagesToConsolidate sample_client) in
    (emitted c' = emitted sample_client @ [textMessagesReceived buffered] \<and> m_textMessagesToConsolidate c' = [])
    \<or> (emitted c' = emitted sample_client \<and> m_textMessagesToConsolidate c' = buffered \<and> enabled DigestTimer c'
       \<and> (\<exists>c''. handle_event (moment (Fin 0)) DigestTimer c' = Inr c''
            \<and> emitted c'' = emitted sample_client @ [textMessagesReceived buffered] \<and> m_textMessagesToConsolidate c'' = []))"
  by (rule buffered_text_delivered) (code_simp)

end
