(* ===== verification/TimedListFacts.thy ===== *)
theory TimedListFacts
  imports TimedLists
begin

section \<open>Facts about lists of timed objects\<close>

text \<open>
  The order checks of the code as \<open>sorted_wrt\<close>, the contract of the lists that keep the latest
  first with a bound on their length, and when inserting with an adjusted offset keeps both orders.
\<close>

subsection \<open>Order\<close>

definition latest_first :: "('o \<Rightarrow> int) \<Rightarrow> 'o list \<Rightarrow> bool" where
  "latest_first key c \<longleftrightarrow> sorted_wrt (\<lambda>a b. key b \<le> key a) c"

lemma latest_first_simps [simp]:
  "latest_first key []"
  "latest_first key (x # c) \<longleftrightarrow> (\<forall>y\<in>set c. key y \<le> key x) \<and> latest_first key c"
  by (simp_all add: latest_first_def)

lemma latest_first_take: "latest_first key c \<Longrightarrow> latest_first key (take n c)"
  by (simp add: latest_first_def sorted_wrt_take)

lemma latest_first_tl: "latest_first key c \<Longrightarrow> latest_first key (tl c)"
  by (cases c) simp_all

lemma latest_first_hd: "latest_first key c \<Longrightarrow> x \<in> set c \<Longrightarrow> key x \<le> key (hd c)"
  by (cases c) auto

lemma latest_first_last: "latest_first key c \<Longrightarrow> x \<in> set c \<Longrightarrow> key (last c) \<le> key x"
  by (induction c) auto

lemma latest_first_sort: "latest_first key (rev (sort_key key c))"
proof -
  have "sorted_wrt (\<lambda>a b. key a \<le> key b) (sort_key key c)"
    using sorted_sort_key [of key c] by (simp add: sorted_map)
  then show ?thesis by (simp add: latest_first_def sorted_wrt_rev)
qed

lemma descending_iff:
  "descending_from key m c \<longleftrightarrow> (\<forall>x\<in>set c. hasValidTimestamp x \<and> key x \<le> m) \<and> latest_first key c"
  by (induction c arbitrary: m) force+

lemma ascending_iff:
  "ascending_from key m c \<longleftrightarrow> (\<forall>x\<in>set c. hasValidTimestamp x \<and> m \<le> key x) \<and> sorted_wrt (\<lambda>a b. key a \<le> key b) c"
  by (induction c arbitrary: m) force+

subsection \<open>The first of the extreme elements\<close>

lemma max_from_le: "f b \<le> f (max_from f b c)"
proof (induction c arbitrary: b)
  case (Cons y c)
  show ?case using Cons [of y] Cons [of b] by (cases "f b < f y") simp_all
qed simp

lemma max_from_max: "x \<in> set (b # c) \<Longrightarrow> f x \<le> f (max_from f b c)"
proof (induction c arbitrary: b)
  case (Cons y c)
  let ?b = "if f b < f y then y else b"
  have "f b \<le> f ?b" "f y \<le> f ?b" by auto
  then have "f b \<le> f (max_from f ?b c)" "f y \<le> f (max_from f ?b c)" using max_from_le [of f ?b c] by linarith+
  then show ?case using Cons.IH [of ?b] Cons.prems by auto
qed simp

lemma max_from_in: "max_from f b c \<in> set (b # c)"
proof (induction c arbitrary: b)
  case (Cons y c)
  show ?case using Cons [of "if f b < f y then y else b"] by (auto split: if_splits)
qed simp

lemma min_from_max_from: "min_from f b c = max_from (\<lambda>x. - f x) b c"
  by (induction c arbitrary: b) simp_all

lemma max_element_Some:
  "c \<noteq> [] \<Longrightarrow> \<exists>x. max_element f c = Some x \<and> x \<in> set c \<and> (\<forall>y\<in>set c. f y \<le> f x)"
  by (cases c) (use max_from_max max_from_in in \<open>fastforce simp: max_element_def\<close>)+

lemma min_element_Some:
  "c \<noteq> [] \<Longrightarrow> \<exists>x. min_element f c = Some x \<and> x \<in> set c \<and> (\<forall>y\<in>set c. f x \<le> f y)"
proof -
  have "min_element f c = max_element (\<lambda>x. - f x) c"
    by (cases c) (simp_all add: min_element_def max_element_def min_from_max_from)
  then show "c \<noteq> [] \<Longrightarrow> ?thesis" using max_element_Some [of c "\<lambda>x. - f x"] by auto
qed

lemma max_from_descending: "\<forall>y\<in>set c. f y \<le> f b \<Longrightarrow> max_from f b c = b"
  by (induction c) auto

lemma max_element_hd: "latest_first f c \<Longrightarrow> c \<noteq> [] \<Longrightarrow> max_element f c = Some (hd c)"
  by (cases c) (simp_all add: max_element_def max_from_descending)

lemma nearest_before:
  fixes c :: "'a timestamp_with_offset_scheme list"
  shows "case findObjectBeforeAdjustedOrDefault t c of
       None \<Rightarrow> filter (\<lambda>x. getAdjustedMSecsSinceEpoch x < t) c = []
     | Some b \<Rightarrow> b \<in> set c \<and> getAdjustedMSecsSinceEpoch b < t
         \<and> filter (\<lambda>x. getAdjustedMSecsSinceEpoch b < getAdjustedMSecsSinceEpoch x \<and> getAdjustedMSecsSinceEpoch x < t) c = []"
proof (cases "findBeforeAdjusted t c = []")
  case True
  then show ?thesis by (simp add: findObjectBeforeAdjustedOrDefault_def findBeforeAdjusted_def isOlderThanAdjusted_def)
next
  case False
  from max_element_Some [OF this, of getAdjustedMSecsSinceEpoch] False show ?thesis
    by (force simp: findObjectBeforeAdjustedOrDefault_def latestAdjustedObject_def findBeforeAdjusted_def isOlderThanAdjusted_def
      filter_empty_conv not_less)
qed

lemma nearest_after:
  fixes c :: "'a timestamp_with_offset_scheme list"
  shows "case findObjectAfterAdjustedOrDefault t c of
       None \<Rightarrow> filter (\<lambda>x. t < getAdjustedMSecsSinceEpoch x) c = []
     | Some a \<Rightarrow> a \<in> set c \<and> t < getAdjustedMSecsSinceEpoch a
         \<and> filter (\<lambda>x. t < getAdjustedMSecsSinceEpoch x \<and> getAdjustedMSecsSinceEpoch x < getAdjustedMSecsSinceEpoch a) c = []"
proof (cases "findAfterAdjusted t c = []")
  case True
  then show ?thesis by (simp add: findObjectAfterAdjustedOrDefault_def findAfterAdjusted_def isNewerThanAdjusted_def)
next
  case False
  from min_element_Some [OF this, of getAdjustedMSecsSinceEpoch] False show ?thesis
    by (force simp: findObjectAfterAdjustedOrDefault_def oldestAdjustedObject_def findAfterAdjusted_def isNewerThanAdjusted_def
      filter_empty_conv not_less)
qed

subsection \<open>Bounded lists, latest first\<close>

text \<open>
  What the users of these lists rely on: inserting into a list that is in order and not too long
  gives such a list, which holds the new object and otherwise objects of the old one.
\<close>

locale bounded_list =
  fixes push :: "'o \<Rightarrow> 'o list \<Rightarrow> fault + 'o list"
    and key :: "'o \<Rightarrow> int"
    and cap :: nat
  assumes push: "latest_first key c \<Longrightarrow> length c \<le> cap \<Longrightarrow>
    \<exists>r. push v c = Inr r \<and> latest_first key r \<and> length r \<le> cap \<and> v \<in> set r \<and> set r \<subseteq> insert v (set c)"
begin

fun push_all :: "'o list \<Rightarrow> 'o list \<Rightarrow> fault + 'o list" where
  "push_all [] c = Inr c"
| "push_all (v # vs) c = and_then (push v c) (push_all vs)"

lemma push_all:
  "latest_first key c \<Longrightarrow> length c \<le> cap \<Longrightarrow>
    \<exists>r. push_all vs c = Inr r \<and> latest_first key r \<and> length r \<le> cap \<and> set r \<subseteq> set vs \<union> set c"
proof (induction vs arbitrary: c)
  case (Cons v vs)
  from push [OF Cons.prems, of v] obtain c1 where c1: "push v c = Inr c1" "latest_first key c1" "length c1 \<le> cap"
    "set c1 \<subseteq> insert v (set c)" by blast
  from Cons.IH [OF c1(2,3)] c1(1,4) show ?case by auto
qed simp

lemma newest_in_front: "latest_first key c \<Longrightarrow> length c \<le> cap \<Longrightarrow> push v c = Inr r \<Longrightarrow> key v \<le> key (hd r)"
  using push [of c v] latest_first_hd by fastforce

end

lemma push_by_key:
  fixes f :: "'o \<Rightarrow> int"
  assumes "latest_first f c" "length c \<le> cap" "2 \<le> cap"
    and "r = (if p \<and> c \<noteq> [] \<and> same (hd c) v then take cap (v # tl c)
              else let c = take (cap - 1) c in if c \<noteq> [] \<and> f v < f (hd c) then rev (sort_key f (v # c)) else v # c)"
    and "\<And>x. same x v \<Longrightarrow> f x \<le> f v"
  shows "latest_first f r \<and> length r \<le> cap \<and> v \<in> set r \<and> set r \<subseteq> insert v (set c)"
proof (cases "p \<and> c \<noteq> [] \<and> same (hd c) v")
  case True
  then obtain x xs where c: "c = x # xs" by (cases c) auto
  with True assms(5) [of x] have "f x \<le> f v" by simp
  with assms(1) c have "latest_first f (v # xs)" by fastforce
  moreover have "r = v # xs" using assms(2-4) True c by simp
  ultimately show ?thesis using c assms(2) by auto
next
  case False
  define d where "d = take (cap - 1) c"
  have d: "latest_first f d" "length d \<le> cap - 1" "set d \<subseteq> set c"
    unfolding d_def using latest_first_take [OF assms(1)] set_take_subset [of "cap - 1" c] by auto
  have r: "r = (if d \<noteq> [] \<and> f v < f (hd d) then rev (sort_key f (v # d)) else v # d)"
    using False assms(4) by (auto simp: d_def Let_def)
  show ?thesis
  proof (cases "d \<noteq> [] \<and> f v < f (hd d)")
    case True
    then have "r = rev (sort_key f (v # d))" using r by simp
    moreover have "length (sort_key f (v # d)) \<le> cap" using d(2) assms(3) by simp
    moreover have "set (sort_key f (v # d)) = insert v (set d)" by (simp only: set_sort list.set)
    ultimately show ?thesis using latest_first_sort [of f "v # d"] d(3) by auto
  next
    case False
    then have "r = v # d" using r by auto
    moreover have "\<forall>y\<in>set d. f y \<le> f v" using False latest_first_hd [OF d(1)] by (cases d) fastforce+
    ultimately show ?thesis using d assms(3) by auto
  qed
qed

interpretation by_time: bounded_list
    "\<lambda>v. push_frontKeepLatestFirst (v :: 'a timestamp_based_scheme) replace_same (int k + 2)" m_timestampMSecsSinceEpoch "k + 2"
proof unfold_locales
  fix c :: "'a timestamp_based_scheme list" and v :: "'a timestamp_based_scheme"
  assume c: "latest_first m_timestampMSecsSinceEpoch c" "length c \<le> k + 2"
  define r where "r = (if replace_same \<and> c \<noteq> [] \<and> m_timestampMSecsSinceEpoch (hd c) = m_timestampMSecsSinceEpoch v
      then take (k + 2) (v # tl c)
      else let c = take (k + 2 - 1) c in
        if c \<noteq> [] \<and> m_timestampMSecsSinceEpoch v < m_timestampMSecsSinceEpoch (hd c)
        then rev (sort_key m_timestampMSecsSinceEpoch (v # c)) else v # c)"
  have "push_frontKeepLatestFirst v replace_same (int k + 2) c = Inr r"
    by (simp add: push_frontKeepLatestFirst_def max_elements_ok_def truncate_max_def r_def Let_def sortLatestFirst_def
      sortOldestFirst_def nat_add_distrib)
  with push_by_key [where same = "\<lambda>x v. m_timestampMSecsSinceEpoch x = m_timestampMSecsSinceEpoch v" and p = replace_same, OF c, of r v] show "\<exists>r. push_frontKeepLatestFirst v replace_same (int k + 2) c = Inr r
      \<and> latest_first m_timestampMSecsSinceEpoch r \<and> length r \<le> k + 2 \<and> v \<in> set r \<and> set r \<subseteq> insert v (set c)"
    by (simp add: r_def)
qed

text \<open>By adjusted time only without replacing: which object is replaced is decided by the time stamp.\<close>

interpretation by_adjusted_time: bounded_list
    "\<lambda>v. push_frontKeepLatestAdjustedFirst (v :: 'a timestamp_with_offset_scheme) False (int k + 2)" getAdjustedMSecsSinceEpoch "k + 2"
proof unfold_locales
  fix c :: "'a timestamp_with_offset_scheme list" and v :: "'a timestamp_with_offset_scheme"
  assume c: "latest_first getAdjustedMSecsSinceEpoch c" "length c \<le> k + 2"
  define r where "r = (if False \<and> c \<noteq> [] \<and> m_timestampMSecsSinceEpoch (hd c) = m_timestampMSecsSinceEpoch v
      then take (k + 2) (v # tl c)
      else let c = take (k + 2 - 1) c in
        if c \<noteq> [] \<and> getAdjustedMSecsSinceEpoch v < getAdjustedMSecsSinceEpoch (hd c)
        then rev (sort_key getAdjustedMSecsSinceEpoch (v # c)) else v # c)"
  have "push_frontKeepLatestAdjustedFirst v False (int k + 2) c = Inr r"
    by (simp add: push_frontKeepLatestAdjustedFirst_def max_elements_ok_def truncate_max_def r_def Let_def
      sortAdjustedLatestFirst_def sortAdjustedOldestFirst_def isOlderThanAdjusted_def nat_add_distrib)
  with push_by_key [where same = "\<lambda>x v. False" and p = False, OF c, of r v] show "\<exists>r. push_frontKeepLatestAdjustedFirst v False (int k + 2) c = Inr r
      \<and> latest_first getAdjustedMSecsSinceEpoch r \<and> length r \<le> k + 2 \<and> v \<in> set r \<and> set r \<subseteq> insert v (set c)"
    by (simp add: r_def)
qed

subsection \<open>Inserting with an adjusted offset\<close>

text \<open>Times far from the ends of the 64 bits, so that nothing wraps around.\<close>

definition moderate :: "'a timestamp_with_offset_scheme \<Rightarrow> bool" where
  "moderate x \<longleftrightarrow> \<bar>m_timestampMSecsSinceEpoch x\<bar> < 2 ^ 61 \<and> \<bar>m_timeOffsetMs x\<bar> < 2 ^ 61"

lemma moderate_adjusted: "moderate x \<Longrightarrow> getAdjustedMSecsSinceEpoch x = m_timestampMSecsSinceEpoch x + m_timeOffsetMs x"
  unfolding moderate_def getAdjustedMSecsSinceEpoch_def by (intro c_int64_id) (auto simp: int64_def)

lemma c_div_2: "2 * c_div a 2 \<le> a + 1 \<and> a - 1 \<le> 2 * c_div a 2"
  by (auto simp: c_div_def)

text \<open>The front becomes the newest by adjusted time too, whatever its offset was.\<close>

lemma adjust_front_order:
  assumes "moderate x" "moderate y"
  shows "\<exists>x'. adjust_front (x # y # c) = x' # y # c \<and> m_timestampMSecsSinceEpoch x' = m_timestampMSecsSinceEpoch x
    \<and> getAdjustedMSecsSinceEpoch y < getAdjustedMSecsSinceEpoch x'"
proof (cases "getAdjustedMSecsSinceEpoch y < getAdjustedMSecsSinceEpoch x")
  case True
  then show ?thesis by (simp add: adjust_front_def isNewerThanAdjusted_def)
next
  case False
  let ?tx = "m_timestampMSecsSinceEpoch x" and ?ox = "m_timeOffsetMs x" and ?oy = "m_timeOffsetMs y"
  let ?ay = "m_timestampMSecsSinceEpoch y + m_timeOffsetMs y"
  have ay: "getAdjustedMSecsSinceEpoch y = ?ay" using assms(2) by (rule moderate_adjusted)
  have b: "\<bar>?tx\<bar> < 2 ^ 61" "\<bar>?ox\<bar> < 2 ^ 61" "\<bar>?oy\<bar> < 2 ^ 61" "\<bar>?ay\<bar> < 2 ^ 62"
    using assms by (auto simp: moderate_def)
  have min: "c_int64 (?ay - ?tx) = ?ay - ?tx" "c_int64 (?ay - ?tx + 1) = ?ay - ?tx + 1"
    using b(1,4) by (intro c_int64_id; auto simp: int64_def)+
  have sum: "c_int64 (?ox + ?oy) = ?ox + ?oy" using b(2,3) by (intro c_int64_id) (auto simp: int64_def)
  define os where "os = max (?ay - ?tx + 1) (c_div (?ox + ?oy) 2)"
  have "\<bar>?tx + os\<bar> < 2 ^ 63" using b c_div_2 [of "?ox + ?oy"] by (auto simp: os_def max_def)
  then have "c_int64 (?tx + os) = ?tx + os" by (intro c_int64_id) (auto simp: int64_def)
  moreover have "?ay < ?tx + os" by (simp add: os_def)
  moreover have "adjust_front (x # y # c) = x\<lparr>m_timeOffsetMs := os\<rparr> # y # c"
    using False by (simp add: adjust_front_def isNewerThanAdjusted_def ay min sum os_def Let_def)
  ultimately show ?thesis by (simp add: getAdjustedMSecsSinceEpoch_def [of "x\<lparr>m_timeOffsetMs := os\<rparr>"] ay)
qed

lemma adjust_front_short: "length c < 2 \<Longrightarrow> adjust_front c = c"
  by (auto simp: adjust_front_def split: list.splits)

text \<open>An object that is not older than the front, put there: the rest stays or loses its old front or its end.\<close>

lemma push_in_time:
  assumes "n > 1" "c \<noteq> [] \<Longrightarrow> m_timestampMSecsSinceEpoch (hd c) \<le> m_timestampMSecsSinceEpoch v"
  shows "\<exists>d. push_frontKeepLatestFirst v replace_same n c = Inr (v # d) \<and> (d = take (nat n - 1) c \<or> d = take (nat n - 1) (tl c))"
  using assms by (cases c) (auto simp: push_frontKeepLatestFirst_def max_elements_ok_def truncate_max_def Let_def
    take_Cons' nat_diff_distrib')

lemma push_adjusted_in_time:
  assumes "n > 1" "c \<noteq> [] \<Longrightarrow> m_timestampMSecsSinceEpoch (hd c) \<le> m_timestampMSecsSinceEpoch v"
    and "latest_first m_timestampMSecsSinceEpoch c" "latest_first getAdjustedMSecsSinceEpoch c" "\<forall>x\<in>insert v (set c). moderate x"
  shows "\<exists>v' d. push_frontKeepLatestFirstAdjustOffset v replace_same n c = Inr (v' # d)
    \<and> m_timestampMSecsSinceEpoch v' = m_timestampMSecsSinceEpoch v \<and> set d \<subseteq> set c \<and> length (v' # d) \<le> nat n
    \<and> latest_first m_timestampMSecsSinceEpoch (v' # d) \<and> latest_first getAdjustedMSecsSinceEpoch (v' # d)
    \<and> (\<forall>x\<in>set d. getAdjustedMSecsSinceEpoch x < getAdjustedMSecsSinceEpoch v')"
proof -
  from push_in_time [OF assms(1,2)] obtain d where d: "push_frontKeepLatestFirst v replace_same n c = Inr (v # d)"
    "d = take (nat n - 1) c \<or> d = take (nat n - 1) (tl c)" by blast
  have o: "latest_first m_timestampMSecsSinceEpoch d" "latest_first getAdjustedMSecsSinceEpoch d"
    using d(2) assms(3,4) by (auto intro: latest_first_take latest_first_tl)
  have s: "set d \<subseteq> set c" "length d \<le> nat n - 1"
    using d(2) by (auto dest: in_set_takeD intro: list.set_sel(2))
  have t: "\<forall>x\<in>set d. m_timestampMSecsSinceEpoch x \<le> m_timestampMSecsSinceEpoch v"
    using s(1) assms(2) latest_first_hd [OF assms(3)] by (cases "c = []") force+
  show ?thesis
  proof (cases d)
    case Nil
    then show ?thesis using d(1) assms(1) s by (simp add: push_frontKeepLatestFirstAdjustOffset_def adjust_front_short)
  next
    case (Cons y e)
    then have "moderate v" "moderate y" using assms(5) s(1) by auto
    from adjust_front_order [OF this, of e] obtain v' where v': "adjust_front (v # d) = v' # d"
      "m_timestampMSecsSinceEpoch v' = m_timestampMSecsSinceEpoch v" "getAdjustedMSecsSinceEpoch y < getAdjustedMSecsSinceEpoch v'"
      using Cons by auto
    have "\<forall>x\<in>set d. getAdjustedMSecsSinceEpoch x < getAdjustedMSecsSinceEpoch v'"
      using v'(3) o(2) Cons by fastforce
    moreover have "length (v' # d) \<le> nat n" using s(2) assms(1) by simp
    ultimately show ?thesis
      using d(1) v' t o s(1) by (auto simp: push_frontKeepLatestFirstAdjustOffset_def intro!: less_imp_le)
  qed
qed

end
