(* ===== verification/TimedProperties.thy ===== *)
theory TimedProperties
  imports TimedListFacts AircraftParts
begin

section \<open>Timed lists and aircraft parts\<close>

text \<open>
  The lists in which situations and parts are kept: when they stay in order, when not, and what a
  look-up between two times finds. Aircraft parts as JSON objects: what a reader gets back, and what an
  increment carries over.
\<close>

text \<open>Objects for the examples: a time and an offset.\<close>

abbreviation timed :: "int \<Rightarrow> int \<Rightarrow> timestamp_with_offset" where
  "timed t offset \<equiv> \<lparr>m_timestampMSecsSinceEpoch = t, m_timeOffsetMs = offset\<rparr>"

lemma adjusted_timed: "int64 (t + offset) \<Longrightarrow> getAdjustedMSecsSinceEpoch (timed t offset) = t + offset"
  by (simp add: getAdjustedMSecsSinceEpoch_def)

text \<open>C27: A list in order by time stamp and by adjusted time stays so when an object that is not older than
  its front comes in: the new object gets an offset that makes it the newest by adjusted time as
  well, all others are kept from the list, and the list does not grow over its limit.\<close>

lemma positions_stay_ordered:
  fixes v :: "'a timestamp_with_offset_scheme" and c :: "'a timestamp_with_offset_scheme list"
  assumes "n > 1" "c \<noteq> [] \<Longrightarrow> m_timestampMSecsSinceEpoch (hd c) \<le> m_timestampMSecsSinceEpoch v"
    and "latest_first m_timestampMSecsSinceEpoch c" "latest_first getAdjustedMSecsSinceEpoch c" "\<forall>x\<in>insert v (set c). moderate x"
  shows "\<exists>v' d. push_frontKeepLatestFirstAdjustOffset v replace_same n c = Inr (v' # d)
    \<and> m_timestampMSecsSinceEpoch v' = m_timestampMSecsSinceEpoch v \<and> set d \<subseteq> set c \<and> length (v' # d) \<le> nat n
    \<and> latest_first m_timestampMSecsSinceEpoch (v' # d) \<and> latest_first getAdjustedMSecsSinceEpoch (v' # d)
    \<and> (\<forall>x\<in>set d. getAdjustedMSecsSinceEpoch x < getAdjustedMSecsSinceEpoch v')"
  using assms by (rule push_adjusted_in_time)

lemma positions_stay_ordered_witness:
  "\<exists>v' d. push_frontKeepLatestFirstAdjustOffset (timed 6 2) True 50 [timed 5 5, timed 0 5] = Inr (v' # d)
    \<and> m_timestampMSecsSinceEpoch v' = 6 \<and> set d \<subseteq> {timed 5 5, timed 0 5} \<and> length (v' # d) \<le> 50
    \<and> latest_first m_timestampMSecsSinceEpoch (v' # d) \<and> latest_first getAdjustedMSecsSinceEpoch (v' # d)
    \<and> filter (\<lambda>x. getAdjustedMSecsSinceEpoch v' \<le> getAdjustedMSecsSinceEpoch x) d = []"
  using positions_stay_ordered [of 50 "[timed 5 5, timed 0 5]" "timed 6 2" True]
  by (simp add: adjusted_timed int64_def moderate_def filter_empty_conv not_le)

text \<open>The offset is adjusted for the first two elements only. An object that comes in late is sorted
  behind the front by its time stamp, where its adjusted time may be later than the front's. The
  lists kept by adjusted time have a gap too: an object with the time stamp of the front replaces
  it, however old it is by adjusted time.\<close>

lemma late_position_breaks_order:
  "isSortedAdjustedLatestFirst [timed 10 10, timed 5 10]
    \<and> push_frontKeepLatestFirstAdjustOffset (timed 7 2) True 50 [timed 10 10, timed 5 10] = Inr [timed 10 10, timed 7 2, timed 5 10]
    \<and> \<not> isSortedAdjustedLatestFirst [timed 10 10, timed 7 2, timed 5 10]
    \<and> push_frontKeepLatestAdjustedFirst (timed 10 0) True 50 [timed 10 10, timed 5 10] = Inr [timed 10 0, timed 5 10]
    \<and> \<not> isSortedAdjustedLatestFirst [timed 10 0, timed 5 10]"
  by (simp add: isSortedAdjustedLatestFirst_def push_frontKeepLatestFirstAdjustOffset_def push_frontKeepLatestFirst_def
    push_frontKeepLatestAdjustedFirst_def max_elements_ok_def truncate_max_def sortLatestFirst_def sortOldestFirst_def
    adjust_front_def isNewerThanAdjusted_def isOlderThanAdjusted_def adjusted_timed int64_def hasValidTimestamp_def Let_def)

text \<open>The mean of the time differences divides by the number of objects, which is one more than the
  number of differences: two objects ten milliseconds apart have the mean difference five.\<close>

lemma mean_divides_by_objects:
  "getTimestampDifferenceMinMaxMean True [timed 10 0, timed 0 0] = \<lparr>mmm_min = 10, mmm_max = 10, mmm_mean = d_of_int 5\<rparr>"
  by (simp add: getTimestampDifferenceMinMaxMean_def getAbsTimeDifferenceMs_def getTimeDifferenceMs_def int64_def c_div_def)

text \<open>The two look-ups an interpolation needs, the object before a time and the one after it by adjusted
  time, return the nearest on each side, and nothing only if there is none on that side, in
  whatever order the list is.\<close>

lemma neighbours_found:
  fixes c :: "'a timestamp_with_offset_scheme list"
  shows "(case findObjectBeforeAdjustedOrDefault t c of
       None \<Rightarrow> filter (\<lambda>x. getAdjustedMSecsSinceEpoch x < t) c = []
     | Some b \<Rightarrow> b \<in> set c \<and> getAdjustedMSecsSinceEpoch b < t
         \<and> filter (\<lambda>x. getAdjustedMSecsSinceEpoch b < getAdjustedMSecsSinceEpoch x \<and> getAdjustedMSecsSinceEpoch x < t) c = [])
   \<and> (case findObjectAfterAdjustedOrDefault t c of
       None \<Rightarrow> filter (\<lambda>x. t < getAdjustedMSecsSinceEpoch x) c = []
     | Some a \<Rightarrow> a \<in> set c \<and> t < getAdjustedMSecsSinceEpoch a
         \<and> filter (\<lambda>x. t < getAdjustedMSecsSinceEpoch x \<and> getAdjustedMSecsSinceEpoch x < getAdjustedMSecsSinceEpoch a) c = [])"
  using nearest_before [of t c] nearest_after [of t c] by simp

subsection \<open>JSON objects\<close>

text \<open>C26: Applying an increment to the object it was computed from gives the current object exactly when
  that has kept every member of the previous one. What is gone is not told: a member that was
  removed, and an object that became a plain value, come back.\<close>

lemma increments_restore:
  assumes "wf_object p" "wf_object c"
  shows "applyIncrementalObject p (getIncrementalObject p c) = c \<longleftrightarrow> kept_by p c"
  using assms by (rule applied_increment)

lemma increments_restore_witness:
  "applyIncrementalObject [(''a'', JBool True)] (getIncrementalObject [(''a'', JBool True)] [(''a'', JNull), (''b'', JObject [])])
      = [(''a'', JNull), (''b'', JObject [])]
    \<and> applyIncrementalObject [(''a'', JBool True)] (getIncrementalObject [(''a'', JBool True)] []) \<noteq> []"
  using increments_restore [of "[(''a'', JBool True)]" "[(''a'', JNull), (''b'', JObject [])]"]
    increments_restore [of "[(''a'', JBool True)]" "[]"] by simp

text \<open>Parts with some engines, flaps half out.\<close>

definition sample_parts :: "bool list \<Rightarrow> CAircraftParts" where
  "sample_parts es = CAircraftParts (CAircraftLights True False False True True False False False) True 50 False (CAircraftEngineList es) True"

lemma sample_parts_ok: "parts_ok (sample_parts [True, False])" "parts_ok (sample_parts [True])"
  by (simp_all add: parts_ok_def sample_parts_def CAircraftParts_def engines_ok_def CAircraftEngineList_def int32_def
    q_number_def q_number_nat.simps digit_char_def less_char_def)

lemma sample_shown: "shown_parts (sample_parts es) CAircraftParts_default = sample_parts es"
  by (simp add: shown_parts_def sample_parts_def CAircraftParts_default_def CAircraftParts_flaps_def CAircraftParts_def
    shown_lights_def allLightsOff_def CAircraftLights_def)

lemma null_parts: "parts_ok parts_null" "m_engines parts_null = []"
  by (simp_all add: parts_ok_def engines_ok_def parts_null_def CAircraftParts_flaps_def int32_def)

text \<open>Parts go over the network as the difference of two JSON objects. Whoever has the old object and
  applies the difference reads the new parts, as long as no engine has disappeared; whatever JSON
  does not show (time, details, recognition and cabin lights) stays as the reader had it.\<close>

lemma increment_carries_parts:
  assumes "parts_ok p" "parts_ok q" "m_number ` set (m_engines p) \<subseteq> m_number ` set (m_engines q)"
  shows "parts_convertFromJson (applyIncrementalObject (parts_toJson p) (getIncrementalObject (parts_toJson p) (parts_toJson q))) old
    = Inr (shown_parts q old)"
  using assms by (rule increment_read)

lemma increment_carries_parts_witness:
  "parts_convertFromJson (applyIncrementalObject (parts_toJson parts_null) (getIncrementalObject (parts_toJson parts_null)
      (parts_toJson (sample_parts [True, False])))) CAircraftParts_default = Inr (sample_parts [True, False])"
  using increment_carries_parts [OF null_parts(1) sample_parts_ok(1), of CAircraftParts_default] by (simp add: null_parts sample_shown)

text \<open>An engine that is gone is not in the increment, so a reader that applies it keeps the engine.\<close>

lemma dropped_engine_stays:
  "applyIncrementalObject (parts_toJson (sample_parts [True, False]))
      (getIncrementalObject (parts_toJson (sample_parts [True, False])) (parts_toJson (sample_parts [True])))
    \<noteq> parts_toJson (sample_parts [True])"
  using applied_increment [OF parts_wf parts_wf] parts_kept [OF sample_parts_ok(1,2)]
  by (simp add: sample_parts_def CAircraftParts_def CAircraftEngineList_def del: kept_member.simps(1))

text \<open>Setting several engines from one makes a renumbered copy and then stores the original: all have
  the same number. Engine two of four engines that are off is not found and is reported as on.\<close>

lemma copied_engines_share_a_number:
  "map m_number (m_engines (setEngines \<lparr>m_number = 1, m_on = False\<rparr> 4 p)) = [1, 1, 1, 1]
    \<and> isEngineOn 2 (m_engines (setEngines \<lparr>m_number = 1, m_on = False\<rparr> 4 p)) = Inr True
    \<and> \<not> anyEngineOn (m_engines (setEngines \<lparr>m_number = 1, m_on = False\<rparr> 4 p))"
  by (simp add: setEngines_def setEngines_list_def isEngineOn_def getEngine_def CAircraftEngine_default_def anyEngineOn_def
    upt_rec numeral_eq_Suc)

end
