(* ===== verification/RemoteAircraft.thy ===== *)
theory RemoteAircraft
  imports AircraftParts TimedListFacts Callsign Transponder
begin

section \<open>The remote aircraft\<close>

text \<open>
  \<open>CRemoteAircraftProvider\<close> (\<open>blackmisc/simulation/remoteaircraftprovider\<close>): the aircraft in range, and for
  each callsign the last situations and parts that came in. Hashes keyed by callsign are maps keyed by
  the callsign's text, lengths are feet (\<open>None\<close> for null), status messages their texts, signals a list.
  A situation has here the members this class reads or writes; its geometry is a type parameter, and
  what is computed from it (elevations, the guess whether an aircraft is on the ground, the change of a
  list of situations) comes with the environment.
\<close>

subsection \<open>Situations as far as the ground flag goes\<close>

datatype IsOnGround = NotOnGround | OnGround | OnGroundSituationUnknown

datatype OnGroundDetails = NotSetGroundDetails | OnGroundByInterpolation | OnGroundByElevationAndCG | OnGroundByElevation
  | OnGroundByGuessing | InFromNetwork | InFromParts | InNoGroundInfo | OutOnGroundOwnAircraft

record remote_situation = timestamp_with_offset +
  rs_callsign :: CCallsign
  m_onGround :: IsOnGround
  m_onGroundDetails :: OnGroundDetails
  m_onGroundFactor :: double
  m_hasVelocity :: bool
  m_cg :: "double option"
  m_sceneryOffset :: "double option"

definition setOnGround :: "IsOnGround \<Rightarrow> 'a remote_situation_scheme \<Rightarrow> 'a remote_situation_scheme" where
  "setOnGround onGround s =
     (if m_onGround s = onGround then s
      else s\<lparr>m_onGround := onGround, m_onGroundFactor := if onGround = OnGround then Fin 1 else Fin 0\<rparr>)"

definition setOnGround_details :: "IsOnGround \<Rightarrow> OnGroundDetails \<Rightarrow> 'a remote_situation_scheme \<Rightarrow> 'a remote_situation_scheme" where
  "setOnGround_details onGround details s = (setOnGround onGround s)\<lparr>m_onGroundDetails := details\<rparr>"

definition hasInboundGroundDetails :: "'a remote_situation_scheme \<Rightarrow> bool" where
  "hasInboundGroundDetails s \<longleftrightarrow> m_onGroundDetails s = InFromParts \<or> m_onGroundDetails s = InFromNetwork"

text \<open>Less than a product of a double and an integer.\<close>

fun d_gt_int :: "double \<Rightarrow> int \<Rightarrow> bool" where
  "d_gt_int (Fin r) i \<longleftrightarrow> of_int i < r"
| "d_gt_int (Inf neg) i \<longleftrightarrow> \<not> neg"
| "d_gt_int NaN i \<longleftrightarrow> False"

definition adjustGroundFlag ::
    "CAircraftParts \<Rightarrow> bool \<Rightarrow> double \<Rightarrow> 'a remote_situation_scheme \<Rightarrow> bool \<times> 'a remote_situation_scheme" where
  "adjustGroundFlag parts alwaysSetDetails timeDeviationFactor s =
     (if m_onGroundDetails s = InFromNetwork then (False, s)
      else let s = (if alwaysSetDetails then s\<lparr>m_onGroundDetails := InFromParts\<rparr> else s);
               d = getAdjustedTimeDifferenceMs s (getAdjustedMSecsSinceEpoch parts);
               adjust = (d \<ge> 0 \<or> d_gt_int (d_mul timeDeviationFactor (d_of_int (m_timeOffsetMs parts))) \<bar>d\<bar>)
           in if \<not> adjust then (False, s)
              else (True, setOnGround_details (if m_isOnGround parts then OnGround else NotOnGround) InFromParts s))"

text \<open>The default factor is 0.1; each situation is marked as set from parts before it is asked.\<close>

definition adjustGroundFlag_list :: "CAircraftParts \<Rightarrow> 'a remote_situation_scheme list \<Rightarrow> int \<times> 'a remote_situation_scheme list" where
  "adjustGroundFlag_list parts situations =
     (let rs = map (\<lambda>s. adjustGroundFlag parts True (mk_double (1 / 10)) (s\<lparr>m_onGroundDetails := InFromParts\<rparr>)) situations
      in (int (length (filter fst rs)), map snd rs))"

definition setOnGroundDetails_list :: "OnGroundDetails \<Rightarrow> 'a remote_situation_scheme list \<Rightarrow> 'a remote_situation_scheme list" where
  "setOnGroundDetails_list details situations = map (\<lambda>s. s\<lparr>m_onGroundDetails := details\<rparr>) situations"

subsection \<open>Aircraft\<close>

text \<open>Of a model: its string, ICAO designators, centre of gravity, whether it takes off vertically and comes from the database.\<close>

record aircraft_model =
  mdl_modelString :: string
  mdl_aircraftIcao :: string
  mdl_airlineIcao :: string
  mdl_cg :: "double option"
  mdl_isVtol :: bool
  mdl_hasValidDbKey :: bool

definition aircraft_model_default :: aircraft_model where
  "aircraft_model_default = \<lparr>mdl_modelString = [], mdl_aircraftIcao = [], mdl_airlineIcao = [], mdl_cg = None,
     mdl_isVtol = False, mdl_hasValidDbKey = False\<rparr>"

text \<open>The model in use and the one the network told.\<close>

record simulated_aircraft =
  a_callsign :: CCallsign
  a_transponder :: CTransponder
  a_com1_MHz :: double
  a_parts :: CAircraftParts
  a_enabled :: bool
  a_rendered :: bool
  a_partsSynchronized :: bool
  a_fastPositionUpdates :: bool
  a_model :: aircraft_model
  a_networkModel :: aircraft_model
  a_pilotRealName :: string

definition simulated_aircraft_default :: simulated_aircraft where
  "simulated_aircraft_default = \<lparr>a_callsign = CCallsign_default, a_transponder = CTransponder 0 StateStandby, a_com1_MHz = Fin 0,
     a_parts = CAircraftParts_default, a_enabled = True, a_rendered = False,
     a_partsSynchronized = False, a_fastPositionUpdates = False, a_model = aircraft_model_default, a_networkModel = aircraft_model_default,
     a_pilotRealName = []\<rparr>"

text \<open>The setters of flags say whether they changed anything.\<close>

definition setEnabled :: "bool \<Rightarrow> 'a simulated_aircraft_scheme \<Rightarrow> bool \<times> 'a simulated_aircraft_scheme" where
  "setEnabled enabled a = (if a_enabled a = enabled then (False, a) else (True, a\<lparr>a_enabled := enabled\<rparr>))"

definition setRendered :: "bool \<Rightarrow> 'a simulated_aircraft_scheme \<Rightarrow> bool \<times> 'a simulated_aircraft_scheme" where
  "setRendered rendered a = (if a_rendered a = rendered then (False, a) else (True, a\<lparr>a_rendered := rendered\<rparr>))"

definition setFastPositionUpdates :: "bool \<Rightarrow> 'a simulated_aircraft_scheme \<Rightarrow> bool \<times> 'a simulated_aircraft_scheme" where
  "setFastPositionUpdates useFastPositions a =
     (if a_fastPositionUpdates a = useFastPositions then (False, a) else (True, a\<lparr>a_fastPositionUpdates := useFastPositions\<rparr>))"

text \<open>Which lengths count as the same is the comparison of quantities.\<close>

definition setCG_model :: "(double option \<Rightarrow> double option \<Rightarrow> bool) \<Rightarrow> double option \<Rightarrow> aircraft_model \<Rightarrow> aircraft_model" where
  "setCG_model same cg model = (if same (mdl_cg model) cg then model else model\<lparr>mdl_cg := cg\<rparr>)"

definition setCG :: "(double option \<Rightarrow> double option \<Rightarrow> bool) \<Rightarrow> double option \<Rightarrow> 'a simulated_aircraft_scheme \<Rightarrow> 'a simulated_aircraft_scheme" where
  "setCG same cg a =
     (if cg = None then a
      else a\<lparr>a_model := setCG_model same cg (a_model a), a_networkModel := setCG_model same cg (a_networkModel a)\<rparr>)"

subsection \<open>Updates by property\<close>

text \<open>
  \<open>CValueObject::apply\<close>: a property comes as the setter for its value and whether the object has that value
  already; a map of properties is a list of these. The number says how many were set.
\<close>

type_synonym 'o property_update = "('o \<Rightarrow> 'o) \<times> ('o \<Rightarrow> bool)"

fun apply_updates :: "bool \<Rightarrow> 'o property_update list \<Rightarrow> 'o \<Rightarrow> int \<times> 'o" where
  "apply_updates skipEqualValues [] ob = (0, ob)"
| "apply_updates skipEqualValues ((set_value, has_value) # vm) ob =
     (if skipEqualValues \<and> has_value ob then apply_updates skipEqualValues vm ob
      else let (c, ob) = apply_updates skipEqualValues vm (set_value ob) in (c + 1, ob))"

text \<open>Models are the same when the members kept here are.\<close>

definition with_pilotRealName :: "(string \<Rightarrow> string) \<Rightarrow> string \<Rightarrow> simulated_aircraft property_update" where
  "with_pilotRealName kept v = (\<lambda>a. a\<lparr>a_pilotRealName := kept v\<rparr>, \<lambda>a. a_pilotRealName a = v)"

definition with_transponder :: "CTransponder \<Rightarrow> simulated_aircraft property_update" where
  "with_transponder v = (\<lambda>a. a\<lparr>a_transponder := v\<rparr>, \<lambda>a. a_transponder a = v)"

definition with_model :: "aircraft_model \<Rightarrow> simulated_aircraft property_update" where
  "with_model v = (\<lambda>a. a\<lparr>a_model := v\<rparr>, \<lambda>a. a_model a = v)"

definition with_networkModel :: "aircraft_model \<Rightarrow> simulated_aircraft property_update" where
  "with_networkModel v = (\<lambda>a. a\<lparr>a_networkModel := v\<rparr>, \<lambda>a. a_networkModel a = v)"

subsection \<open>State\<close>

text \<open>The change of a list of situations: its time, whose it is, and the deviation of the scenery if there is one.\<close>

record situation_change = timestamp_with_offset +
  c_callsign :: CCallsign
  m_guessedSceneryDeviation :: "double option"

text \<open>
  The clock, the comparison of lengths, Qt's compact JSON text, and what is computed from the geometry:
  the elevation taken over from an older situation, the situation higher or lower, the change of a list
  (for which centre of gravity, vertical take-off, with standard deviations), the guess about the ground.
\<close>

record ('a, 'b) provider_environment =
  p_now :: int
  sameLength :: "double option \<Rightarrow> double option \<Rightarrow> bool"
  isZeroLength :: "double \<Rightarrow> bool"
  p_json_toText :: "json_object \<Rightarrow> string"
  transferGroundElevation :: "'a remote_situation_scheme \<Rightarrow> 'a remote_situation_scheme \<Rightarrow> 'a remote_situation_scheme"
  withAltitudeOffset :: "double \<Rightarrow> 'a remote_situation_scheme \<Rightarrow> 'a remote_situation_scheme"
  situationChange :: "'a remote_situation_scheme list \<Rightarrow> double option \<Rightarrow> bool \<Rightarrow> bool \<Rightarrow> 'b situation_change_scheme"
  guessOnGround :: "'b situation_change_scheme \<Rightarrow> simulated_aircraft \<Rightarrow> 'a remote_situation_scheme \<Rightarrow> 'a remote_situation_scheme"

datatype 's provider_event =
  addedAircraft simulated_aircraft
| addedAircraftParts string CAircraftParts
| addedAircraftSituation 's
| changedAircraftInRange
| removedAircraft string

record ('a, 'b) remote_aircraft_provider =
  m_situationsByCallsign :: "string \<rightharpoonup> 'a remote_situation_scheme list"
  m_latestSituationByCallsign :: "string \<rightharpoonup> 'a remote_situation_scheme"
  m_latestOnGroundProviderElevation :: "string \<rightharpoonup> 'a remote_situation_scheme"
  m_partsByCallsign :: "string \<rightharpoonup> CAircraftParts list"
  m_changesByCallsign :: "string \<rightharpoonup> 'b situation_change_scheme list"
  m_aircraftWithParts :: "string set"
  m_situationsAdded :: int
  m_partsAdded :: int
  m_enableReverseLookupMsgs :: "32 word"
  m_aircraftInRange :: "string \<rightharpoonup> simulated_aircraft"
  m_reverseLookupMessages :: "string \<rightharpoonup> string list"
  m_aircraftPartsMessages :: "string \<rightharpoonup> string list"
  m_situationsLastModified :: "string \<rightharpoonup> int"
  m_partsLastModified :: "string \<rightharpoonup> int"
  m_testOffset :: "string \<rightharpoonup> double"
  m_dbCGPerCallsign :: "string \<rightharpoonup> double option"
  m_dbCGPerModelString :: "string \<rightharpoonup> double option"
  m_enableAircraftPartsHistory :: bool
  provider_events :: "'a remote_situation_scheme provider_event list"

definition CRemoteAircraftProvider :: "('a, 'b) remote_aircraft_provider" where
  "CRemoteAircraftProvider = \<lparr>m_situationsByCallsign = Map.empty, m_latestSituationByCallsign = Map.empty,
     m_latestOnGroundProviderElevation = Map.empty, m_partsByCallsign = Map.empty, m_changesByCallsign = Map.empty,
     m_aircraftWithParts = {}, m_situationsAdded = 0, m_partsAdded = 0, m_enableReverseLookupMsgs = 2,
     m_aircraftInRange = Map.empty, m_reverseLookupMessages = Map.empty, m_aircraftPartsMessages = Map.empty,
     m_situationsLastModified = Map.empty, m_partsLastModified = Map.empty, m_testOffset = Map.empty,
     m_dbCGPerCallsign = Map.empty, m_dbCGPerModelString = Map.empty, m_enableAircraftPartsHistory = True,
     provider_events = []\<rparr>"

definition signal :: "'a remote_situation_scheme provider_event \<Rightarrow> ('a, 'b) remote_aircraft_provider \<Rightarrow> ('a, 'b) remote_aircraft_provider" where
  "signal e p = p\<lparr>provider_events := provider_events p @ [e]\<rparr>"

definition MaxSituationsPerCallsign :: int where "MaxSituationsPerCallsign = 50"
definition MaxPartsPerCallsign :: int where "MaxPartsPerCallsign = 50"
definition MaxPartsAgePerCallsignSecs :: int where "MaxPartsAgePerCallsignSecs = 60"

subsection \<open>Looking up\<close>

text \<open>A hash read with an operator gives the default value where it has none.\<close>

definition at_key :: "(string \<rightharpoonup> 'v list) \<Rightarrow> string \<Rightarrow> 'v list" where
  "at_key m k = (case m k of None \<Rightarrow> [] | Some vs \<Rightarrow> vs)"

definition is_in_range :: "CCallsign \<Rightarrow> ('a, 'b) remote_aircraft_provider \<Rightarrow> bool" where
  "is_in_range callsign p \<longleftrightarrow> \<not> isEmpty callsign \<and> m_aircraftInRange p (asString callsign) \<noteq> None"

definition getAircraftInRangeForCallsign :: "CCallsign \<Rightarrow> ('a, 'b) remote_aircraft_provider \<Rightarrow> simulated_aircraft" where
  "getAircraftInRangeForCallsign callsign p =
     (case m_aircraftInRange p (asString callsign) of None \<Rightarrow> simulated_aircraft_default | Some a \<Rightarrow> a)"

definition remoteAircraftSituations :: "CCallsign \<Rightarrow> ('a, 'b) remote_aircraft_provider \<Rightarrow> 'a remote_situation_scheme list" where
  "remoteAircraftSituations callsign p = at_key (m_situationsByCallsign p) (asString callsign)"

definition remoteAircraftSituation :: "CCallsign \<Rightarrow> int \<Rightarrow> ('a, 'b) remote_aircraft_provider \<Rightarrow> 'a remote_situation_scheme option" where
  "remoteAircraftSituation callsign index p =
     (let situations = remoteAircraftSituations callsign p in
      if index < 0 \<or> index \<ge> int (length situations) then None else Some (situations ! nat index))"

definition remoteAircraftSituationsCount :: "CCallsign \<Rightarrow> ('a, 'b) remote_aircraft_provider \<Rightarrow> int" where
  "remoteAircraftSituationsCount callsign p =
     (case m_situationsByCallsign p (asString callsign) of None \<Rightarrow> - 1 | Some situations \<Rightarrow> int (length situations))"

definition remoteAircraftParts :: "CCallsign \<Rightarrow> ('a, 'b) remote_aircraft_provider \<Rightarrow> CAircraftParts list" where
  "remoteAircraftParts callsign p = at_key (m_partsByCallsign p) (asString callsign)"

definition remoteAircraftPartsCount :: "CCallsign \<Rightarrow> ('a, 'b) remote_aircraft_provider \<Rightarrow> int" where
  "remoteAircraftPartsCount callsign p =
     (case m_partsByCallsign p (asString callsign) of None \<Rightarrow> - 1 | Some parts \<Rightarrow> int (length parts))"

definition isRemoteAircraftSupportingParts :: "CCallsign \<Rightarrow> ('a, 'b) remote_aircraft_provider \<Rightarrow> bool" where
  "isRemoteAircraftSupportingParts callsign p \<longleftrightarrow> asString callsign \<in> m_aircraftWithParts p"

definition remoteAircraftSituationChanges :: "CCallsign \<Rightarrow> ('a, 'b) remote_aircraft_provider \<Rightarrow> 'b situation_change_scheme list" where
  "remoteAircraftSituationChanges callsign p = at_key (m_changesByCallsign p) (asString callsign)"

definition situationsLastModified :: "CCallsign \<Rightarrow> ('a, 'b) remote_aircraft_provider \<Rightarrow> int" where
  "situationsLastModified callsign p = (case m_situationsLastModified p (asString callsign) of None \<Rightarrow> - 1 | Some t \<Rightarrow> t)"

definition partsLastModified :: "CCallsign \<Rightarrow> ('a, 'b) remote_aircraft_provider \<Rightarrow> int" where
  "partsLastModified callsign p = (case m_partsLastModified p (asString callsign) of None \<Rightarrow> - 1 | Some t \<Rightarrow> t)"

definition isVtolAircraft :: "CCallsign \<Rightarrow> ('a, 'b) remote_aircraft_provider \<Rightarrow> bool" where
  "isVtolAircraft callsign p \<longleftrightarrow> \<not> isEmpty callsign \<and> mdl_isVtol (a_model (getAircraftInRangeForCallsign callsign p))"

text \<open>The model string is looked up among the callsigns.\<close>

definition getCGFromDB :: "CCallsign \<Rightarrow> ('a, 'b) remote_aircraft_provider \<Rightarrow> double option" where
  "getCGFromDB callsign p = (case m_dbCGPerCallsign p (asString callsign) of None \<Rightarrow> None | Some cg \<Rightarrow> cg)"

definition getCGFromDB_model :: "string \<Rightarrow> ('a, 'b) remote_aircraft_provider \<Rightarrow> double option" where
  "getCGFromDB_model modelString p = getCGFromDB (CCallsign modelString NoHint) p"

subsection \<open>Adding, changing and removing aircraft\<close>

definition addNewAircraftInRange :: "simulated_aircraft \<Rightarrow> ('a, 'b) remote_aircraft_provider \<Rightarrow> bool \<times> ('a, 'b) remote_aircraft_provider" where
  "addNewAircraftInRange aircraft p =
     (if is_in_range (a_callsign aircraft) p then (False, p)
      else (True, signal changedAircraftInRange (signal (addedAircraft aircraft)
             (p\<lparr>m_aircraftInRange := (m_aircraftInRange p)(asString (a_callsign aircraft) \<mapsto> aircraft)\<rparr>))))"

definition update_aircraft ::
    "string \<Rightarrow> (simulated_aircraft \<Rightarrow> bool \<times> simulated_aircraft) \<Rightarrow> ('a, 'b) remote_aircraft_provider
      \<Rightarrow> bool \<times> ('a, 'b) remote_aircraft_provider" where
  "update_aircraft cs f p =
     (case m_aircraftInRange p cs of
        None \<Rightarrow> (False, p)
      | Some a \<Rightarrow> let (changed, a) = f a in (changed, p\<lparr>m_aircraftInRange := (m_aircraftInRange p)(cs \<mapsto> a)\<rparr>))"

definition updateAircraftInRange ::
    "CCallsign \<Rightarrow> simulated_aircraft property_update list \<Rightarrow> bool \<Rightarrow> ('a, 'b) remote_aircraft_provider
      \<Rightarrow> fault + int \<times> ('a, 'b) remote_aircraft_provider" where
  "updateAircraftInRange callsign vm skipEqualValues p =
     (if isEmpty callsign then Inl AssertFailed
      else case m_aircraftInRange p (asString callsign) of
          None \<Rightarrow> Inr (0, p)
        | Some a \<Rightarrow>
            let (c, a) = apply_updates skipEqualValues vm a;
                p = p\<lparr>m_aircraftInRange := (m_aircraftInRange p)(asString callsign \<mapsto> a)\<rparr>
            in Inr (c, if c > 0 then signal changedAircraftInRange p else p))"

text \<open>The originator is never the provider itself.\<close>

definition updateAircraftModel ::
    "CCallsign \<Rightarrow> aircraft_model \<Rightarrow> ('a, 'b) remote_aircraft_provider \<Rightarrow> fault + bool \<times> ('a, 'b) remote_aircraft_provider" where
  "updateAircraftModel callsign model p =
     and_then (updateAircraftInRange callsign [with_model model] True p) (\<lambda>(c, p). Inr (c > 0, p))"

definition updateAircraftNetworkModel ::
    "CCallsign \<Rightarrow> aircraft_model \<Rightarrow> ('a, 'b) remote_aircraft_provider \<Rightarrow> fault + bool \<times> ('a, 'b) remote_aircraft_provider" where
  "updateAircraftNetworkModel callsign model p =
     and_then (updateAircraftInRange callsign [with_networkModel model] True p) (\<lambda>(c, p). Inr (c > 0, p))"

definition setAircraftEnabledFlag :: "CCallsign \<Rightarrow> bool \<Rightarrow> ('a, 'b) remote_aircraft_provider \<Rightarrow> bool \<times> ('a, 'b) remote_aircraft_provider" where
  "setAircraftEnabledFlag callsign enabledForRendering p = update_aircraft (asString callsign) (setEnabled enabledForRendering) p"

definition updateAircraftRendered :: "CCallsign \<Rightarrow> bool \<Rightarrow> ('a, 'b) remote_aircraft_provider \<Rightarrow> bool \<times> ('a, 'b) remote_aircraft_provider" where
  "updateAircraftRendered callsign rendered p = update_aircraft (asString callsign) (setRendered rendered) p"

definition updateFastPositionEnabled :: "CCallsign \<Rightarrow> bool \<Rightarrow> ('a, 'b) remote_aircraft_provider \<Rightarrow> bool \<times> ('a, 'b) remote_aircraft_provider" where
  "updateFastPositionEnabled callsign enableFastPositonUpdates p =
     update_aircraft (asString callsign) (setFastPositionUpdates enableFastPositonUpdates) p"

fun update_multiple ::
    "(CCallsign \<Rightarrow> ('a, 'b) remote_aircraft_provider \<Rightarrow> bool \<times> ('a, 'b) remote_aircraft_provider) \<Rightarrow> int \<Rightarrow> CCallsign list
      \<Rightarrow> ('a, 'b) remote_aircraft_provider \<Rightarrow> int \<times> ('a, 'b) remote_aircraft_provider" where
  "update_multiple update c [] p = (c, p)"
| "update_multiple update c (cs # callsigns) p =
     (let (changed, p) = update cs p in update_multiple update (if changed then c + 1 else c) callsigns p)"

definition updateMultipleAircraftEnabled :: "CCallsign list \<Rightarrow> bool \<Rightarrow> ('a, 'b) remote_aircraft_provider \<Rightarrow> int \<times> ('a, 'b) remote_aircraft_provider" where
  "updateMultipleAircraftEnabled callsigns enabledForRendering p =
     update_multiple (\<lambda>cs. setAircraftEnabledFlag cs enabledForRendering) 0 callsigns p"

definition updateMultipleAircraftRendered :: "CCallsign list \<Rightarrow> bool \<Rightarrow> ('a, 'b) remote_aircraft_provider \<Rightarrow> int \<times> ('a, 'b) remote_aircraft_provider" where
  "updateMultipleAircraftRendered callsigns rendered p =
     update_multiple (\<lambda>cs. updateAircraftRendered cs rendered) 0 callsigns p"

definition updateMarkAllAsNotRendered :: "('a, 'b) remote_aircraft_provider \<Rightarrow> ('a, 'b) remote_aircraft_provider" where
  "updateMarkAllAsNotRendered p =
     p\<lparr>m_aircraftInRange := map_option (\<lambda>a. snd (setRendered False a)) \<circ> m_aircraftInRange p\<rparr>"

definition updateCG :: "('a, 'b) provider_environment \<Rightarrow> CCallsign \<Rightarrow> double option \<Rightarrow> ('a, 'b) remote_aircraft_provider
    \<Rightarrow> bool \<times> ('a, 'b) remote_aircraft_provider" where
  "updateCG env callsign cg p = update_aircraft (asString callsign) (\<lambda>a. (True, setCG (sameLength env) cg a)) p"

definition updateCGAndModelString :: "('a, 'b) provider_environment \<Rightarrow> CCallsign \<Rightarrow> double option \<Rightarrow> string \<Rightarrow> ('a, 'b) remote_aircraft_provider
    \<Rightarrow> bool \<times> ('a, 'b) remote_aircraft_provider" where
  "updateCGAndModelString env callsign cg modelString p = update_aircraft (asString callsign) (\<lambda>a.
     let a = (if cg = None then a else setCG (sameLength env) cg a)
     in (True, if modelString = [] then a else a\<lparr>a_model := (a_model a)\<lparr>mdl_modelString := modelString\<rparr>\<rparr>)) p"

text \<open>Whose aircraft has the model, and the provider with their centres of gravity set.\<close>

definition updateCGForModel :: "('a, 'b) provider_environment \<Rightarrow> string \<Rightarrow> double option \<Rightarrow> ('a, 'b) remote_aircraft_provider
    \<Rightarrow> (string \<Rightarrow> bool) \<times> ('a, 'b) remote_aircraft_provider" where
  "updateCGForModel env modelString cg p =
     (if modelString = [] then (\<lambda>cs. False, p)
      else let same = (\<lambda>a. q_eq_nocase (mdl_modelString (a_model a)) modelString) in
        (\<lambda>cs. case m_aircraftInRange p cs of None \<Rightarrow> False | Some a \<Rightarrow> same a,
         p\<lparr>m_aircraftInRange := map_option (\<lambda>a. if same a then setCG (sameLength env) cg a else a) \<circ> m_aircraftInRange p\<rparr>))"

definition rememberCGFromDB :: "double option \<Rightarrow> CCallsign \<Rightarrow> ('a, 'b) remote_aircraft_provider \<Rightarrow> ('a, 'b) remote_aircraft_provider" where
  "rememberCGFromDB cgFromDB callsign p = p\<lparr>m_dbCGPerCallsign := (m_dbCGPerCallsign p)(asString callsign \<mapsto> cgFromDB)\<rparr>"

definition rememberCGFromDB_model :: "double option \<Rightarrow> string \<Rightarrow> ('a, 'b) remote_aircraft_provider \<Rightarrow> ('a, 'b) remote_aircraft_provider" where
  "rememberCGFromDB_model cgFromDB modelString p = p\<lparr>m_dbCGPerModelString := (m_dbCGPerModelString p)(modelString \<mapsto> cgFromDB)\<rparr>"

definition removeAircraft :: "CCallsign \<Rightarrow> ('a, 'b) remote_aircraft_provider \<Rightarrow> bool \<times> ('a, 'b) remote_aircraft_provider" where
  "removeAircraft callsign p =
     (let cs = asString callsign;
          p' = p\<lparr>m_partsByCallsign := (m_partsByCallsign p)(cs := None), m_aircraftWithParts := m_aircraftWithParts p - {cs},
                 m_partsLastModified := (m_partsLastModified p)(cs := None),
                 m_situationsByCallsign := (m_situationsByCallsign p)(cs := None),
                 m_latestSituationByCallsign := (m_latestSituationByCallsign p)(cs := None),
                 m_latestOnGroundProviderElevation := (m_latestOnGroundProviderElevation p)(cs := None),
                 m_situationsLastModified := (m_situationsLastModified p)(cs := None),
                 m_aircraftPartsMessages := (m_aircraftPartsMessages p)(cs := None),
                 m_dbCGPerCallsign := (m_dbCGPerCallsign p)(cs := None),
                 m_aircraftInRange := (m_aircraftInRange p)(cs := None)\<rparr>
      in (m_aircraftInRange p cs \<noteq> None, p'))"

text \<open>In which order a set of callsigns is visited is left open: \<open>order\<close> lists them.\<close>

definition removeAllAircraft :: "string list \<Rightarrow> ('a, 'b) remote_aircraft_provider \<Rightarrow> ('a, 'b) remote_aircraft_provider" where
  "removeAllAircraft order p =
     fold (\<lambda>cs. signal (removedAircraft cs)) order
       (p\<lparr>m_partsByCallsign := Map.empty, m_aircraftWithParts := {}, m_partsAdded := 0, m_partsLastModified := Map.empty,
          m_situationsByCallsign := Map.empty, m_latestSituationByCallsign := Map.empty,
          m_latestOnGroundProviderElevation := Map.empty, m_situationsAdded := 0, m_situationsLastModified := Map.empty,
          m_testOffset := Map.empty, m_changesByCallsign := Map.empty, m_aircraftPartsMessages := Map.empty,
          m_reverseLookupMessages := Map.empty, m_aircraftInRange := Map.empty, m_dbCGPerCallsign := Map.empty\<rparr>)"

subsection \<open>Storing situations\<close>

definition hasTestAltitudeOffset :: "CCallsign \<Rightarrow> ('a, 'b) remote_aircraft_provider \<Rightarrow> bool" where
  "hasTestAltitudeOffset callsign p \<longleftrightarrow> \<not> isEmpty callsign \<and> m_testOffset p (asString callsign) \<noteq> None"

definition hasTestAltitudeOffsetGlobalValue :: "('a, 'b) remote_aircraft_provider \<Rightarrow> bool" where
  "hasTestAltitudeOffsetGlobalValue p \<longleftrightarrow> m_testOffset p ''ZZZZ'' \<noteq> None"

definition testAddAltitudeOffset ::
    "('a, 'b) provider_environment \<Rightarrow> CCallsign \<Rightarrow> double option \<Rightarrow> ('a, 'b) remote_aircraft_provider \<Rightarrow> bool \<times> ('a, 'b) remote_aircraft_provider" where
  "testAddAltitudeOffset env callsign offset p =
     (case offset of
        None \<Rightarrow> (False, p\<lparr>m_testOffset := (m_testOffset p)(asString callsign := None)\<rparr>)
      | Some os \<Rightarrow>
          if isZeroLength env os then (False, p\<lparr>m_testOffset := (m_testOffset p)(asString callsign := None)\<rparr>)
          else (True, p\<lparr>m_testOffset := (m_testOffset p)(asString callsign \<mapsto> os)\<rparr>))"

definition addTestAltitudeOffsetToSituation ::
    "('a, 'b) provider_environment \<Rightarrow> ('a, 'b) remote_aircraft_provider \<Rightarrow> 'a remote_situation_scheme \<Rightarrow> 'a remote_situation_scheme" where
  "addTestAltitudeOffsetToSituation env p situation =
     (let cs = rs_callsign situation in
      if \<not> hasTestAltitudeOffsetGlobalValue p \<and> \<not> hasTestAltitudeOffset cs p then situation
      else case (if m_testOffset p (asString cs) \<noteq> None then m_testOffset p (asString cs) else m_testOffset p ''ZZZZ'') of
          None \<Rightarrow> situation
        | Some os \<Rightarrow> if isZeroLength env os then situation else withAltitudeOffset env os situation)"

text \<open>Each situation passes its elevation on to the next newer one, beginning with the newest.\<close>

fun transferElevationForward ::
    "('a remote_situation_scheme \<Rightarrow> 'a remote_situation_scheme \<Rightarrow> 'a remote_situation_scheme) \<Rightarrow> 'a remote_situation_scheme list
      \<Rightarrow> 'a remote_situation_scheme list" where
  "transferElevationForward transfer (new # old # rest) = transfer old new # transferElevationForward transfer (old # rest)"
| "transferElevationForward transfer situations = situations"

text \<open>A list of two and more has to say that its latest situation is the first.\<close>

definition transferElevationForward_hint ::
    "('a remote_situation_scheme \<Rightarrow> 'a remote_situation_scheme \<Rightarrow> 'a remote_situation_scheme) \<Rightarrow> HintAdjustedTimestampSort
      \<Rightarrow> 'a remote_situation_scheme list \<Rightarrow> fault + 'a remote_situation_scheme list" where
  "transferElevationForward_hint transfer tsAdjustedSortHint situations =
     (if length situations < 2 then Inr situations
      else if tsAdjustedSortHint \<noteq> AdjustedTimestampLatestFirst then Inl AssertFailed
      else Inr (transferElevationForward transfer situations))"

definition storeChange :: "'b situation_change_scheme \<Rightarrow> ('a, 'b) remote_aircraft_provider \<Rightarrow> fault + ('a, 'b) remote_aircraft_provider" where
  "storeChange change p =
     (let cs = asString (c_callsign change) in
      and_then (push_frontKeepLatestAdjustedFirst change True MaxSituationsPerCallsign (at_key (m_changesByCallsign p) cs))
        (\<lambda>changeList. Inr (p\<lparr>m_changesByCallsign := (m_changesByCallsign p)(cs \<mapsto> changeList)\<rparr>)))"

text \<open>
  The list a situation goes to: filled with copies when it is the first one, \<open>None\<close> when a situation
  without velocity comes after one with it.
\<close>

definition situations_after ::
    "('a, 'b) provider_environment \<Rightarrow> 'a remote_situation_scheme \<Rightarrow> 'a remote_situation_scheme \<Rightarrow> 'a remote_situation_scheme list
      \<Rightarrow> fault + 'a remote_situation_scheme list option" where
  "situations_after env situation situationCorrected situations =
     (if situations = [] then Inr (Some (prefillLatestAdjustedFirst situationCorrected (nat MaxSituationsPerCallsign) (- 1)))
      else if \<not> m_hasVelocity situationCorrected \<and> m_hasVelocity (hd situations) then Inr None
      else and_then (push_frontKeepLatestFirstAdjustOffset situationCorrected True MaxSituationsPerCallsign situations)
        (\<lambda>situations. let tsAdjustedSortHint = AdjustedTimestampLatestFirst in
          and_then (transferElevationForward_hint (transferGroundElevation env) tsAdjustedSortHint situations)
            (\<lambda>situations. Inr (Some (if hasInboundGroundDetails situation
               then setOnGroundDetails_list (m_onGroundDetails situation) situations else situations)))))"

text \<open>The first guess looks at a change of no situations at all: the list it takes is filled later.\<close>

definition guess_front ::
    "('a, 'b) provider_environment \<Rightarrow> simulated_aircraft \<Rightarrow> 'a remote_situation_scheme \<Rightarrow> 'a remote_situation_scheme
      \<Rightarrow> 'a remote_situation_scheme list \<Rightarrow> fault + 'a remote_situation_scheme list" where
  "guess_front env aircraft situation situationCorrected situations =
     (if hasInboundGroundDetails situation then Inr situations
      else if situations = [] then Inl EmptyContainer
      else let simpleChange = situationChange env [] (m_cg situationCorrected) (mdl_isVtol (a_model aircraft)) False
           in Inr (guessOnGround env simpleChange aircraft (hd situations) # tl situations))"

text \<open>
  What follows once the list of situations is made: the change, and the deviation of the scenery it gives
  for the latest situation.
\<close>

definition situation_stored ::
    "('a, 'b) provider_environment \<Rightarrow> string \<Rightarrow> bool \<Rightarrow> 'a remote_situation_scheme \<Rightarrow> 'a remote_situation_scheme list
      \<Rightarrow> ('a, 'b) remote_aircraft_provider \<Rightarrow> fault + 'a remote_situation_scheme \<times> ('a, 'b) remote_aircraft_provider" where
  "situation_stored env cs isVtol situationCorrected situations p =
     (let p = p\<lparr>m_situationsByCallsign := (m_situationsByCallsign p)(cs \<mapsto> situations),
               m_latestSituationByCallsign := (m_latestSituationByCallsign p)(cs \<mapsto> situationCorrected)\<rparr>;
          updatedSituations = at_key (m_situationsByCallsign p) cs;
          change = situationChange env updatedSituations (m_cg situationCorrected) isVtol True
      in if updatedSituations = [] then Inl AssertFailed
         else and_then (storeChange change p) (\<lambda>p.
           let offset = m_guessedSceneryDeviation change;
               deviates = (offset \<noteq> None);
               situationCorrected = (if deviates then situationCorrected\<lparr>m_sceneryOffset := offset\<rparr> else situationCorrected);
               p = (if deviates
                    then p\<lparr>m_latestSituationByCallsign := (m_latestSituationByCallsign p)(cs \<mapsto> situationCorrected),
                           m_situationsByCallsign := (m_situationsByCallsign p)(cs \<mapsto>
                             (hd updatedSituations)\<lparr>m_sceneryOffset := offset\<rparr> # tl updatedSituations)\<rparr>
                    else p)
           in Inr (situationCorrected, signal (addedAircraftSituation situationCorrected) p)))"

definition storeAircraftSituation ::
    "('a, 'b) provider_environment \<Rightarrow> 'a remote_situation_scheme \<Rightarrow> bool \<Rightarrow> ('a, 'b) remote_aircraft_provider
      \<Rightarrow> fault + 'a remote_situation_scheme \<times> ('a, 'b) remote_aircraft_provider" where
  "storeAircraftSituation env situation allowTestAltitudeOffset p =
     (let callsign = rs_callsign situation; cs = asString callsign in
      if isEmpty callsign then Inr (situation, p)
      else
        let situationCorrected = (if allowTestAltitudeOffset then addTestAltitudeOffsetToSituation env p situation else situation);
            aircraft = getAircraftInRangeForCallsign callsign p;
            p = (if m_cg situation \<noteq> None \<and> \<not> sameLength env (mdl_cg (a_model aircraft)) (m_cg situation)
                 then snd (updateCG env callsign (m_cg situation) p) else p);
            p = p\<lparr>m_situationsAdded := c_int (m_situationsAdded p + 1),
                  m_situationsLastModified := (m_situationsLastModified p)(cs \<mapsto> p_now env)\<rparr>
        in and_then (situations_after env situation situationCorrected (at_key (m_situationsByCallsign p) cs)) (\<lambda>result.
           case result of
             None \<Rightarrow> Inr (situationCorrected, p)
           | Some situations \<Rightarrow>
               and_then (guess_front env aircraft situation situationCorrected situations) (\<lambda>situations.
                 situation_stored env cs (mdl_isVtol (a_model aircraft)) situationCorrected situations p)))"

subsection \<open>Storing parts\<close>

definition removeOutdatedParts :: "CAircraftParts list \<Rightarrow> fault + CAircraftParts list" where
  "removeOutdatedParts partsList =
     (if partsList = [] then Inr []
      else let ts = c_int64 (latestTimestampMsecsSinceEpoch partsList - MaxPartsAgePerCallsignSecs * 1000);
               partsList = snd (removeBefore ts partsList)
           in if partsList = [] then Inl AssertFailed else Inr partsList)"

text \<open>What follows once the list of parts is stored: the ground flags of the situations, the aircraft itself.\<close>

definition parts_stored ::
    "('a, 'b) provider_environment \<Rightarrow> string \<Rightarrow> CAircraftParts \<Rightarrow> CAircraftParts list \<Rightarrow> ('a, 'b) remote_aircraft_provider
      \<Rightarrow> ('a, 'b) remote_aircraft_provider" where
  "parts_stored env cs parts correctiveParts p =
     (let p = (if correctiveParts = [] then p
               else let (c, situationList) = adjustGroundFlag_list parts (at_key (m_situationsByCallsign p) cs);
                        p = p\<lparr>m_situationsByCallsign := (m_situationsByCallsign p)(cs \<mapsto> situationList)\<rparr>
                    in if c > 0 then p\<lparr>m_situationsLastModified := (m_situationsLastModified p)(cs \<mapsto> p_now env)\<rparr> else p);
          p = snd (update_aircraft cs (\<lambda>a. (True, a\<lparr>a_parts := parts, a_partsSynchronized := True\<rparr>)) p);
          p = p\<lparr>m_aircraftWithParts := insert cs (m_aircraftWithParts p)\<rparr>
      in signal (addedAircraftParts cs parts) p)"

definition storeAircraftParts ::
    "('a, 'b) provider_environment \<Rightarrow> CCallsign \<Rightarrow> CAircraftParts \<Rightarrow> bool \<Rightarrow> ('a, 'b) remote_aircraft_provider
      \<Rightarrow> fault + ('a, 'b) remote_aircraft_provider" where
  "storeAircraftParts env callsign parts removeOutdated p =
     (let cs = asString callsign in
      if isEmpty callsign then Inr p
      else
        let p = p\<lparr>m_partsAdded := c_int (m_partsAdded p + 1), m_partsLastModified := (m_partsLastModified p)(cs \<mapsto> p_now env)\<rparr>
        in and_then (push_frontKeepLatestFirstAdjustOffset parts True MaxPartsPerCallsign (at_key (m_partsByCallsign p) cs)) (\<lambda>partsList.
           and_then (if removeOutdated then removeOutdatedParts partsList else Inr partsList) (\<lambda>partsList.
           if \<not> isSortedAdjustedLatestFirst partsList \<or> int (length partsList) > MaxPartsPerCallsign then Inl AssertFailed
           else Inr (parts_stored env cs parts partsList (p\<lparr>m_partsByCallsign := (m_partsByCallsign p)(cs \<mapsto> partsList)\<rparr>)))))"

text \<open>The parts an object stands for: all of them, or the latest ones with what the object changes.\<close>

definition parts_of_json :: "json_object \<Rightarrow> CAircraftParts list \<Rightarrow> fault + CAircraftParts" where
  "parts_of_json jsonObject latest =
     (if j_toBool (j_value jsonObject attributeNameIsFullJson) then parts_convertFromJson jsonObject CAircraftParts_default
      else let parts = (if latest = [] then CAircraftParts_default else hd latest)
           in parts_convertFromJson (applyIncrementalObject (parts_toJson parts) jsonObject) parts)"

definition storeAircraftParts_json ::
    "('a, 'b) provider_environment \<Rightarrow> CCallsign \<Rightarrow> json_object \<Rightarrow> int \<Rightarrow> ('a, 'b) remote_aircraft_provider
      \<Rightarrow> fault + ('a, 'b) remote_aircraft_provider" where
  "storeAircraftParts_json env callsign jsonObject currentOffsetMs p =
     (let cs = asString callsign;
          remoteAircraft = getAircraftInRangeForCallsign callsign p;
          isFull = j_toBool (j_value jsonObject attributeNameIsFullJson) in
      if \<not> isValidAircraftCallsign (asString (a_callsign remoteAircraft)) then Inr p
      else if \<not> a_partsSynchronized remoteAircraft \<and> \<not> isFull then Inr p
      else and_then (parts_of_json jsonObject (remoteAircraftParts callsign p)) (\<lambda>parts.
        let parts = parts\<lparr>m_timestampMSecsSinceEpoch := p_now env, m_timeOffsetMs := currentOffsetMs, m_partsDetails := FSDAircraftParts\<rparr>
        in and_then (storeAircraftParts env callsign parts False p) (\<lambda>p.
           if \<not> m_enableAircraftPartsHistory p then Inr p
           else let text = q_trimmed (p_json_toText env jsonObject);
                    message = (if isEmpty callsign then cs @ '': '' @ text else text)
                in Inr (p\<lparr>m_aircraftPartsMessages := (m_aircraftPartsMessages p)(cs \<mapsto>
                          at_key (m_aircraftPartsMessages p) cs @ [message])\<rparr>))))"

subsection \<open>Messages\<close>

definition enableReverseLookupMessages :: "32 word \<Rightarrow> ('a, 'b) remote_aircraft_provider \<Rightarrow> ('a, 'b) remote_aircraft_provider" where
  "enableReverseLookupMessages enable p = p\<lparr>m_enableReverseLookupMsgs := enable\<rparr>"

definition enableAircraftPartsHistory :: "bool \<Rightarrow> ('a, 'b) remote_aircraft_provider \<Rightarrow> ('a, 'b) remote_aircraft_provider" where
  "enableAircraftPartsHistory enabled p = p\<lparr>m_enableAircraftPartsHistory := enabled\<rparr>"

definition addReverseLookupMessages :: "CCallsign \<Rightarrow> string list \<Rightarrow> ('a, 'b) remote_aircraft_provider \<Rightarrow> ('a, 'b) remote_aircraft_provider" where
  "addReverseLookupMessages callsign messages p =
     (if isEmpty callsign then p else if messages = [] then p else if m_enableReverseLookupMsgs p = 0 then p
      else p\<lparr>m_reverseLookupMessages := (m_reverseLookupMessages p)(asString callsign \<mapsto>
             at_key (m_reverseLookupMessages p) (asString callsign) @ messages)\<rparr>)"

definition getReverseLookupMessages :: "CCallsign \<Rightarrow> ('a, 'b) remote_aircraft_provider \<Rightarrow> string list" where
  "getReverseLookupMessages callsign p = at_key (m_reverseLookupMessages p) (asString callsign)"

definition removeReverseLookupMessages :: "CCallsign \<Rightarrow> ('a, 'b) remote_aircraft_provider \<Rightarrow> ('a, 'b) remote_aircraft_provider" where
  "removeReverseLookupMessages callsign p =
     p\<lparr>m_reverseLookupMessages := (m_reverseLookupMessages p)(asString callsign := None)\<rparr>"

definition getAircraftPartsHistory :: "CCallsign \<Rightarrow> ('a, 'b) remote_aircraft_provider \<Rightarrow> string list" where
  "getAircraftPartsHistory callsign p = at_key (m_aircraftPartsMessages p) (asString callsign)"

end
