(* ===== verification/RemoteAircraftFacts.thy ===== *)
theory RemoteAircraftFacts
  imports RemoteAircraft
begin

section \<open>What holds of the remote aircraft\<close>

text \<open>
  The invariant of the provider over every sequence of its operations: aircraft are kept under their own
  callsign, lists of situations and parts are in order of time and never longer than their limit, whatever
  order the messages come in. It rests on the contract of bounded lists, which the list operations provide.
\<close>

subsection \<open>Lists in order\<close>

text \<open>What the geometry must leave alone.\<close>

definition geometry_ok :: "('a, 'b) provider_environment \<Rightarrow> bool" where
  "geometry_ok env \<longleftrightarrow>
     (\<forall>old new. m_timestampMSecsSinceEpoch (transferGroundElevation env old new) = m_timestampMSecsSinceEpoch new)
     \<and> (\<forall>os s. m_timestampMSecsSinceEpoch (withAltitudeOffset env os s) = m_timestampMSecsSinceEpoch s
              \<and> m_timeOffsetMs (withAltitudeOffset env os s) = m_timeOffsetMs s)
     \<and> (\<forall>change a s. m_timestampMSecsSinceEpoch (guessOnGround env change a s) = m_timestampMSecsSinceEpoch s)"

text \<open>A list as the provider keeps it.\<close>

definition kept_list :: "'a timestamp_based_scheme list \<Rightarrow> bool" where
  "kept_list l \<longleftrightarrow> sorted_wrt (\<ge>) (map m_timestampMSecsSinceEpoch l) \<and> length l \<le> 50"

lemma kept_Nil [simp]: "kept_list []"
  by (simp add: kept_list_def)

lemma kept_iff: "kept_list l \<longleftrightarrow> latest_first m_timestampMSecsSinceEpoch l \<and> length l \<le> 50"
  by (simp add: kept_list_def latest_first_def sorted_wrt_map)

lemma kept_same_times:
  "map m_timestampMSecsSinceEpoch l' = map m_timestampMSecsSinceEpoch l \<Longrightarrow> kept_list l' = kept_list l"
  unfolding kept_list_def by (metis length_map)

lemma adjust_front_times: "map m_timestampMSecsSinceEpoch (adjust_front l) = map m_timestampMSecsSinceEpoch l"
  by (auto simp: adjust_front_def Let_def split: list.split)

lemma push_kept:
  fixes l :: "'a timestamp_with_offset_scheme list"
  assumes "kept_list l"
  shows "\<exists>r. push_frontKeepLatestFirstAdjustOffset v replace_same 50 l = Inr r \<and> kept_list r \<and> r \<noteq> []"
proof -
  have "latest_first m_timestampMSecsSinceEpoch l" "length l \<le> 48 + 2" using assms by (simp_all add: kept_iff)
  from by_time.push [OF this, of v replace_same] obtain r where r: "push_frontKeepLatestFirst v replace_same 50 l = Inr r"
    "latest_first m_timestampMSecsSinceEpoch r" "length r \<le> 50" "v \<in> set r" by auto
  have "kept_list r" using r(2,3) by (simp add: kept_iff)
  then have "kept_list (adjust_front r)" by (simp only: kept_same_times [OF adjust_front_times])
  moreover have "adjust_front r \<noteq> []" using r(4) adjust_front_times [of r] by (metis empty_iff empty_set map_is_Nil_conv)
  ultimately show ?thesis using r(1) by (simp add: push_frontKeepLatestFirstAdjustOffset_def)
qed

lemma transfer_times:
  "geometry_ok env \<Longrightarrow> map m_timestampMSecsSinceEpoch (transferElevationForward (transferGroundElevation env) l)
    = map m_timestampMSecsSinceEpoch l"
  by (induction "transferGroundElevation env" l rule: transferElevationForward.induct) (simp_all add: geometry_ok_def)

lemma details_times:
  "map m_timestampMSecsSinceEpoch (setOnGroundDetails_list d l) = map m_timestampMSecsSinceEpoch l"
  by (simp add: setOnGroundDetails_list_def)

lemma guess_times:
  assumes "geometry_ok env" "l \<noteq> []"
  shows "\<exists>l'. guess_front env a s s' l = Inr l' \<and> map m_timestampMSecsSinceEpoch l' = map m_timestampMSecsSinceEpoch l"
  using assms by (cases l) (simp_all add: guess_front_def geometry_ok_def Let_def)

lemma guess_not_Nil: "guess_front env a s s' l = Inr l' \<Longrightarrow> l \<noteq> [] \<Longrightarrow> l' \<noteq> []"
  by (auto simp: guess_front_def Let_def split: if_splits)

lemma transfer_hint [simp]:
  "transferElevationForward_hint transfer AdjustedTimestampLatestFirst l = Inr (transferElevationForward transfer l)"
  by (cases l; cases "tl l") (simp_all add: transferElevationForward_hint_def)

lemma ground_times: "map m_timestampMSecsSinceEpoch (snd (adjustGroundFlag_list parts l)) = map m_timestampMSecsSinceEpoch l"
  by (simp add: adjustGroundFlag_list_def adjustGroundFlag_def setOnGround_details_def setOnGround_def Let_def)

text \<open>Times of a situation that can be spread over a filled list without a wrap-around.\<close>

definition spreadable :: "'a timestamp_with_offset_scheme \<Rightarrow> bool" where
  "spreadable s \<longleftrightarrow> \<bar>m_timestampMSecsSinceEpoch s\<bar> < 2 ^ 62 \<and> \<bar>m_timeOffsetMs s\<bar> < 2 ^ 56"

lemma prefill_time:
  fixes v :: "'a timestamp_with_offset_scheme"
  assumes "spreadable v" "i < 50"
  shows "m_timestampMSecsSinceEpoch (addMsecs (c_int64 (- \<bar>m_timeOffsetMs v\<bar> * int i)) v)
    = m_timestampMSecsSinceEpoch v - \<bar>m_timeOffsetMs v\<bar> * int i"
proof -
  define q where "q = \<bar>m_timeOffsetMs v\<bar> * int i"
  have "q \<le> 2 ^ 56 * 50" unfolding q_def using assms by (intro mult_mono) (auto simp: spreadable_def)
  moreover have "0 \<le> q" unfolding q_def by (intro mult_nonneg_nonneg) simp_all
  ultimately have "int64 (- q)" "int64 (m_timestampMSecsSinceEpoch v - q)"
    using assms(1) by (auto simp: int64_def spreadable_def abs_less_iff)
  then show ?thesis by (simp add: addMsecs_def q_def)
qed

lemma prefill_kept:
  fixes v :: "'a timestamp_with_offset_scheme"
  assumes "spreadable v"
  shows "kept_list (prefillLatestAdjustedFirst v 50 (- 1))"
proof -
  let ?t = "m_timestampMSecsSinceEpoch v" and ?o = "\<bar>m_timeOffsetMs v\<bar>"
  have "map m_timestampMSecsSinceEpoch (prefillLatestAdjustedFirst v 50 (- 1)) = map (\<lambda>i. ?t - ?o * int i) [0..<50]"
  proof -
    have "[0..<50] = 0 # [1..<50]" by (simp add: upt_rec)
    then show ?thesis
      using prefill_time [OF assms] by (simp add: prefillLatestAdjustedFirst_def Let_def)
  qed
  moreover have "sorted_wrt (\<ge>) (map (\<lambda>i. ?t - ?o * int i) [0..<50])"
    unfolding sorted_wrt_map
  proof (rule sorted_wrt_mono_rel [of _ "(<)"])
    fix i j :: nat assume "i < j"
    then have "?o * int i \<le> ?o * int j" by (intro mult_left_mono) simp_all
    then show "?t - ?o * int j \<le> ?t - ?o * int i" by simp
  qed simp
  moreover have "length (prefillLatestAdjustedFirst v 50 (- 1)) = 50"
    by (simp add: prefillLatestAdjustedFirst_def Let_def)
  ultimately show ?thesis by (simp add: kept_list_def)
qed

subsection \<open>The invariant\<close>

definition provider_ok :: "('a, 'b) remote_aircraft_provider \<Rightarrow> bool" where
  "provider_ok p \<longleftrightarrow>
     finite (dom (m_aircraftInRange p)) \<and> (\<forall>cs a. m_aircraftInRange p cs = Some a \<longrightarrow> asString (a_callsign a) = cs)
     \<and> (\<forall>cs. kept_list (at_key (m_situationsByCallsign p) cs))
     \<and> (\<forall>cs. kept_list (at_key (m_partsByCallsign p) cs))
     \<and> (\<forall>cs. length (at_key (m_changesByCallsign p) cs) \<le> 50)
     \<and> (\<forall>cs. cs \<in> m_aircraftWithParts p \<longleftrightarrow> at_key (m_partsByCallsign p) cs \<noteq> [])
     \<and> (\<forall>cs. m_latestSituationByCallsign p cs \<noteq> None \<longleftrightarrow> at_key (m_situationsByCallsign p) cs \<noteq> [])"

lemma at_key_upd [simp]:
  "at_key (m(k \<mapsto> v)) k' = (if k' = k then v else at_key m k')"
  "at_key (m(k := None)) k' = (if k' = k then [] else at_key m k')"
  "at_key Map.empty k' = []"
  by (simp_all add: at_key_def)

lemma provider_okD:
  assumes "provider_ok p"
  shows "m_aircraftInRange p cs = Some a \<Longrightarrow> asString (a_callsign a) = cs"
    "kept_list (at_key (m_situationsByCallsign p) cs)" "kept_list (at_key (m_partsByCallsign p) cs)"
    "length (at_key (m_changesByCallsign p) cs) \<le> 50"
  using assms by (auto simp: provider_ok_def)

lemma provider_ok_start: "provider_ok CRemoteAircraftProvider"
  by (simp add: provider_ok_def CRemoteAircraftProvider_def)

text \<open>The members the invariant does not speak of.\<close>

lemma provider_ok_other [simp]:
  "provider_ok (signal e p) = provider_ok p"
  "provider_ok (p\<lparr>provider_events := es\<rparr>) = provider_ok p"
  "provider_ok (p\<lparr>m_situationsAdded := n\<rparr>) = provider_ok p"
  "provider_ok (p\<lparr>m_partsAdded := n\<rparr>) = provider_ok p"
  "provider_ok (p\<lparr>m_situationsLastModified := t\<rparr>) = provider_ok p"
  "provider_ok (p\<lparr>m_partsLastModified := t\<rparr>) = provider_ok p"
  "provider_ok (p\<lparr>m_testOffset := os\<rparr>) = provider_ok p"
  "provider_ok (p\<lparr>m_dbCGPerCallsign := cgs\<rparr>) = provider_ok p"
  "provider_ok (p\<lparr>m_dbCGPerModelString := cgs\<rparr>) = provider_ok p"
  "provider_ok (p\<lparr>m_reverseLookupMessages := ms\<rparr>) = provider_ok p"
  "provider_ok (p\<lparr>m_aircraftPartsMessages := ms\<rparr>) = provider_ok p"
  "provider_ok (p\<lparr>m_enableReverseLookupMsgs := f\<rparr>) = provider_ok p"
  "provider_ok (p\<lparr>m_enableAircraftPartsHistory := b\<rparr>) = provider_ok p"
  by (simp_all add: provider_ok_def signal_def)

lemma update_aircraft_ok:
  assumes "provider_ok p" "\<And>a. a_callsign (snd (f a)) = a_callsign a"
  shows "provider_ok (snd (update_aircraft cs f p))"
proof (cases "m_aircraftInRange p cs")
  case (Some a)
  obtain b a' where "f a = (b, a')" by (cases "f a")
  moreover from this have "asString (a_callsign a') = cs"
    using assms(2) [of a] provider_okD(1) [OF assms(1) Some] by simp
  ultimately show ?thesis using assms(1) Some by (simp add: update_aircraft_def provider_ok_def)
qed (simp add: update_aircraft_def assms(1))

lemma update_aircraft_others [simp]:
  "m_situationsByCallsign (snd (update_aircraft cs f p)) = m_situationsByCallsign p"
  "m_partsByCallsign (snd (update_aircraft cs f p)) = m_partsByCallsign p"
  by (cases "m_aircraftInRange p cs"; simp add: update_aircraft_def case_prod_beta Let_def)+

lemma map_aircraft_ok:
  assumes "provider_ok p" "\<And>a. a_callsign (f a) = a_callsign a"
  shows "provider_ok (p\<lparr>m_aircraftInRange := map_option f \<circ> m_aircraftInRange p\<rparr>)"
  using assms by (auto simp: provider_ok_def)

lemma setters_callsign [simp]:
  "a_callsign (snd (setEnabled b a)) = a_callsign a" "a_callsign (snd (setRendered b a)) = a_callsign a"
  "a_callsign (snd (setFastPositionUpdates b a)) = a_callsign a" "a_callsign (setCG same cg a) = a_callsign a"
  by (simp_all add: setEnabled_def setRendered_def setFastPositionUpdates_def setCG_def Let_def)

lemma update_multiple_ok:
  "provider_ok p \<Longrightarrow> (\<And>cs p. provider_ok p \<Longrightarrow> provider_ok (snd (update cs p))) \<Longrightarrow>
    provider_ok (snd (update_multiple update c callsigns p))"
proof (induction callsigns arbitrary: c p)
  case (Cons cs callsigns)
  obtain b q where "update cs p = (b, q)" by (cases "update cs p")
  with Cons.prems(2) [OF Cons.prems(1), of cs] Cons.IH [of q] Cons.prems(2) show ?case by simp
qed simp

lemma aircraft_ops_ok:
  assumes "provider_ok p"
  shows "provider_ok (snd (addNewAircraftInRange a p))"
    "provider_ok (snd (setAircraftEnabledFlag cs b p))" "provider_ok (snd (updateAircraftRendered cs b p))"
    "provider_ok (snd (updateFastPositionEnabled cs b p))" "provider_ok (snd (updateCG env cs cg p))"
    "provider_ok (snd (updateCGAndModelString env cs cg ms p))" "provider_ok (snd (updateCGForModel env ms cg p))"
    "provider_ok (updateMarkAllAsNotRendered p)"
  using assms
  by (auto simp: addNewAircraftInRange_def setAircraftEnabledFlag_def updateAircraftRendered_def updateFastPositionEnabled_def
      updateCG_def updateCGAndModelString_def updateCGForModel_def updateMarkAllAsNotRendered_def Let_def
      intro!: update_aircraft_ok map_aircraft_ok) (simp add: provider_ok_def)

lemma remove_ok: "provider_ok p \<Longrightarrow> provider_ok (snd (removeAircraft cs p))"
  by (auto simp: provider_ok_def removeAircraft_def Let_def)

lemma signals_ok: "provider_ok (fold (\<lambda>cs. signal (e cs)) order p) = provider_ok p"
  by (induction order arbitrary: p) simp_all

lemma remove_all_ok: "provider_ok (removeAllAircraft order p)"
  unfolding removeAllAircraft_def signals_ok by (simp add: provider_ok_def)

subsection \<open>Storing keeps the invariant\<close>

lemma push_adjusted_length:
  "length l \<le> 50 \<Longrightarrow> \<exists>r. push_frontKeepLatestAdjustedFirst v replace_same 50 l = Inr r \<and> length r \<le> 50"
  by (cases l) (auto simp: push_frontKeepLatestAdjustedFirst_def max_elements_ok_def truncate_max_def
    sortAdjustedLatestFirst_def sortAdjustedOldestFirst_def Let_def)

lemma store_change_ok:
  assumes "provider_ok p"
  shows "\<exists>l. storeChange change p = Inr (p\<lparr>m_changesByCallsign := (m_changesByCallsign p)(asString (c_callsign change) \<mapsto> l)\<rparr>)
    \<and> length l \<le> 50"
  using push_adjusted_length [OF provider_okD(4) [OF assms], of change True "asString (c_callsign change)"]
  by (auto simp: storeChange_def MaxSituationsPerCallsign_def Let_def)

lemma situations_after_ok:
  assumes "geometry_ok env" "spreadable s'" "kept_list l"
  shows "\<exists>r. situations_after env s s' l = Inr r \<and> (r = None \<or> kept_list (the r) \<and> the r \<noteq> [])"
proof (cases "l = []")
  case True
  have "prefillLatestAdjustedFirst s' 50 (- 1) \<noteq> []" by (simp add: prefillLatestAdjustedFirst_def Let_def)
  then show ?thesis using True prefill_kept [OF assms(2)] by (simp add: situations_after_def MaxSituationsPerCallsign_def)
next
  case False
  from push_kept [OF assms(3), of s' True] obtain r where r: "push_frontKeepLatestFirstAdjustOffset s' True 50 l = Inr r"
    "kept_list r" "r \<noteq> []" by blast
  define q where "q = transferElevationForward (transferGroundElevation env) r"
  define q' where "q' = (if hasInboundGroundDetails s then setOnGroundDetails_list (m_onGroundDetails s) q else q)"
  have "map m_timestampMSecsSinceEpoch q' = map m_timestampMSecsSinceEpoch r"
    using details_times [of _ q] transfer_times [OF assms(1), of r] by (simp add: q'_def q_def)
  then have "kept_list q'" "q' \<noteq> []" using r(2,3) kept_same_times [of q' r] by auto
  then show ?thesis
    using False r(1) by (auto simp: situations_after_def MaxSituationsPerCallsign_def q_def q'_def Let_def)
qed

lemma with_offset_spreadable: "geometry_ok env \<Longrightarrow> spreadable s \<Longrightarrow> spreadable (addTestAltitudeOffsetToSituation env p s)"
  by (auto simp: addTestAltitudeOffsetToSituation_def geometry_ok_def spreadable_def Let_def split: option.split)

lemma stored_ok:
  assumes "provider_ok p" "kept_list l" "l \<noteq> []"
  shows "provider_ok (p\<lparr>m_situationsByCallsign := (m_situationsByCallsign p)(cs \<mapsto> l),
    m_latestSituationByCallsign := (m_latestSituationByCallsign p)(cs \<mapsto> s)\<rparr>)"
  using assms by (simp add: provider_ok_def)

lemma changes_ok:
  "provider_ok p \<Longrightarrow> length l \<le> 50 \<Longrightarrow> provider_ok (p\<lparr>m_changesByCallsign := (m_changesByCallsign p)(cs \<mapsto> l)\<rparr>)"
  by (simp add: provider_ok_def)

text \<open>The list is made, the rest is bookkeeping: the times of the situations stay what they are.\<close>

lemma situation_stored_result:
  fixes p :: "('a, 'b) remote_aircraft_provider"
  assumes p: "provider_ok p" and l: "kept_list l" "l \<noteq> []"
  shows "\<exists>r p'. situation_stored env cs vtol s l p = Inr (r, p') \<and> provider_ok p'
    \<and> map m_timestampMSecsSinceEpoch (at_key (m_situationsByCallsign p') cs) = map m_timestampMSecsSinceEpoch l
    \<and> m_latestSituationByCallsign p' cs = Some r \<and> r\<lparr>m_sceneryOffset := m_sceneryOffset s\<rparr> = s
    \<and> provider_events p' = provider_events p @ [addedAircraftSituation r]"
proof -
  define p3 where "p3 = p\<lparr>m_situationsByCallsign := (m_situationsByCallsign p)(cs \<mapsto> l),
    m_latestSituationByCallsign := (m_latestSituationByCallsign p)(cs \<mapsto> s)\<rparr>"
  define change where "change = situationChange env l (m_cg s) vtol True"
  define l2 where "l2 = (hd l)\<lparr>m_sceneryOffset := m_guessedSceneryDeviation change\<rparr> # tl l"
  have p3: "provider_ok p3" using stored_ok [OF p l] by (simp add: p3_def)
  from store_change_ok [OF this, of change] obtain ch where
    c: "storeChange change p3 = Inr (p3\<lparr>m_changesByCallsign := (m_changesByCallsign p3)(asString (c_callsign change) \<mapsto> ch)\<rparr>)"
    "length ch \<le> 50" by blast
  define p4 where "p4 = p3\<lparr>m_changesByCallsign := (m_changesByCallsign p3)(asString (c_callsign change) \<mapsto> ch)\<rparr>"
  have p4: "provider_ok p4" unfolding p4_def by (rule changes_ok [OF p3 c(2)])
  have l2: "kept_list l2" "l2 \<noteq> []" "map m_timestampMSecsSinceEpoch l2 = map m_timestampMSecsSinceEpoch l"
    using l kept_same_times [of l2 l] by (cases l; simp add: l2_def)+
  then have "provider_ok (p4\<lparr>m_latestSituationByCallsign := (m_latestSituationByCallsign p4)(cs \<mapsto> s2),
      m_situationsByCallsign := (m_situationsByCallsign p4)(cs \<mapsto> l2)\<rparr>)" for s2
    using p4 by (simp add: provider_ok_def)
  then show ?thesis using c(1) p4 l(2) l2(3)
    by (simp add: situation_stored_def p3_def [symmetric] change_def [symmetric] l2_def [symmetric] p4_def [symmetric])
      (auto simp: p4_def p3_def signal_def Let_def l2_def change_def)
qed

text \<open>Sorting numbers that go down.\<close>

lemma insort_last: "sorted ys \<Longrightarrow> \<forall>y\<in>set ys. y \<le> x \<Longrightarrow> insort (x::int) ys = ys @ [x]"
proof (induction ys)
  case (Cons y ys)
  show ?case
  proof (cases "x = y")
    case True
    then have "x # ys = ys @ [x]" using Cons insort_is_Cons [of ys id x] by (simp add: insort_is_Cons)
    have "insort x (y # ys) = y # (x # ys)" using True by simp
    also have "x # ys = ys @ [x]" by fact
    finally show ?thesis by simp
  qed (use Cons in auto)
qed simp

lemma sort_descending: "sorted_wrt (\<ge>) xs \<Longrightarrow> rev (sort xs) = (xs :: int list)"
proof (induction xs)
  case (Cons x xs)
  then have "sort xs = rev xs" by (metis rev_rev_ident sorted_wrt.simps(2))
  moreover have "sorted (rev xs)" using Cons.prems by (simp add: sorted_wrt_rev)
  ultimately show ?case using Cons.prems by (simp add: insort_last)
qed simp

lemma map_insort: "map f (insort_key f x ys) = insort (f x) (map f ys)"
  by (induction ys) simp_all

lemma map_sort: "map f (sort_key f xs) = sort (map f xs)"
  by (induction xs) (simp_all add: map_insort)

text \<open>The times of the list a situation comes to: spread, or put in order among at most 49 of the others.\<close>

definition times_after :: "'a timestamp_with_offset_scheme \<Rightarrow> 'a timestamp_with_offset_scheme list \<Rightarrow> 'a timestamp_with_offset_scheme list \<Rightarrow> bool" where
  "times_after s l l' \<longleftrightarrow>
     (if l = [] then map m_timestampMSecsSinceEpoch l' = map (\<lambda>i. m_timestampMSecsSinceEpoch s - \<bar>m_timeOffsetMs s\<bar> * int i) [0..<50]
      else map m_timestampMSecsSinceEpoch l' = rev (sort (m_timestampMSecsSinceEpoch s #
        map m_timestampMSecsSinceEpoch (take 49 (if m_timestampMSecsSinceEpoch (hd l) = m_timestampMSecsSinceEpoch s then tl l else l)))))"

lemma times_after_same:
  assumes "map m_timestampMSecsSinceEpoch q = map m_timestampMSecsSinceEpoch q'"
  shows "times_after s l q = times_after s l q'"
  by (simp add: times_after_def assms)

lemma pushed_times:
  assumes "push_frontKeepLatestFirstAdjustOffset v True 50 l = Inr r" "l \<noteq> []" "kept_list l"
  shows "times_after v l r"
proof -
  from assms(1) obtain q where q: "push_frontKeepLatestFirst v True 50 l = Inr q" "r = adjust_front q"
    by (auto simp: push_frontKeepLatestFirstAdjustOffset_def and_then_eq_Inr)
  define t where "t = m_timestampMSecsSinceEpoch v"
  from assms(2) obtain a rest where l: "l = a # rest" by (cases l) auto
  have down: "sorted_wrt (\<ge>) (map m_timestampMSecsSinceEpoch (a # rest))" using assms(3) by (simp add: l kept_list_def)
  then have down49: "sorted_wrt (\<ge>) (map m_timestampMSecsSinceEpoch (take 49 rest))"
      "sorted_wrt (\<ge>) (map m_timestampMSecsSinceEpoch (take 49 (a # rest)))"
    using sorted_wrt_take [of "(\<ge>)" "map m_timestampMSecsSinceEpoch rest" 49] sorted_wrt_take [OF down, of 49]
    by (simp_all add: take_map)
  have "map m_timestampMSecsSinceEpoch q = rev (sort (t # map m_timestampMSecsSinceEpoch
      (take 49 (if m_timestampMSecsSinceEpoch a = t then rest else a # rest))))"
  proof (cases "m_timestampMSecsSinceEpoch a = t")
    case True
    then have "q = v # take 49 rest"
      using q(1) by (simp add: push_frontKeepLatestFirst_def max_elements_ok_def truncate_max_def l t_def)
    moreover have "sorted_wrt (\<ge>) (t # map m_timestampMSecsSinceEpoch (take 49 rest))"
      using down down49(1) True by (auto dest: in_set_takeD)
    from sort_descending [OF this] have "rev (sort (t # map m_timestampMSecsSinceEpoch (take 49 rest)))
      = t # map m_timestampMSecsSinceEpoch (take 49 rest)" .
    ultimately show ?thesis using True by (simp add: t_def)
  next
    case older: False
    then have r: "q = (if t < m_timestampMSecsSinceEpoch a then sortLatestFirst (v # take 49 (a # rest)) else v # take 49 (a # rest))"
      using q(1) by (simp add: push_frontKeepLatestFirst_def max_elements_ok_def truncate_max_def l t_def Let_def split: if_splits)
    show ?thesis
    proof (cases "t < m_timestampMSecsSinceEpoch a")
      case True
      then show ?thesis using r older
        by (simp add: sortLatestFirst_def sortOldestFirst_def rev_map [symmetric] map_sort map_insort t_def)
    next
      case False
      have "sorted_wrt (\<ge>) (t # map m_timestampMSecsSinceEpoch (take 49 (a # rest)))"
        using down down49(2) False by (auto simp: l dest!: in_set_takeD)
      from sort_descending [OF this] show ?thesis using r older False by (simp add: t_def)
    qed
  qed
  then have "times_after v l q" by (simp add: times_after_def l t_def)
  then show ?thesis using times_after_same [OF adjust_front_times [of q]] q(2) by blast
qed

lemma prefilled_times: "spreadable v \<Longrightarrow> times_after v [] (prefillLatestAdjustedFirst v 50 (- 1))"
  using prefill_time [of v] by (simp add: times_after_def prefillLatestAdjustedFirst_def upt_rec [of 0] Let_def)

lemma situations_after_times:
  assumes "geometry_ok env" "spreadable s'" "kept_list l" "situations_after env s s' l = Inr (Some r)"
  shows "times_after s' l r"
proof (cases "l = []")
  case True
  then show ?thesis using assms(4) prefilled_times [OF assms(2)] by (simp add: situations_after_def MaxSituationsPerCallsign_def)
next
  case False
  with assms(4) obtain q where q: "push_frontKeepLatestFirstAdjustOffset s' True 50 l = Inr q"
    "r = (let q = transferElevationForward (transferGroundElevation env) q
          in if hasInboundGroundDetails s then setOnGroundDetails_list (m_onGroundDetails s) q else q)"
    by (auto simp: situations_after_def MaxSituationsPerCallsign_def and_then_eq_Inr Let_def split: if_splits)
  have "map m_timestampMSecsSinceEpoch r = map m_timestampMSecsSinceEpoch q"
    using details_times [of _ "transferElevationForward (transferGroundElevation env) q"] transfer_times [OF assms(1), of q]
    by (simp add: q(2) Let_def)
  with pushed_times [OF q(1) False assms(3)] show ?thesis using times_after_same by blast
qed

text \<open>Storing a situation: it is dropped when it lost its velocity, and kept at its time otherwise.\<close>

lemma store_situation_result:
  fixes p :: "('a, 'b) remote_aircraft_provider" and b :: bool
  assumes p: "provider_ok p" and env: "geometry_ok env" and s: "spreadable s" and cs: "\<not> isEmpty (rs_callsign s)"
  defines "k \<equiv> asString (rs_callsign s)" and "s' \<equiv> (if b then addTestAltitudeOffsetToSituation env p s else s)"
  shows "\<exists>r p'. storeAircraftSituation env s b p = Inr (r, p') \<and> provider_ok p'
    \<and> (let l = at_key (m_situationsByCallsign p) k; l' = at_key (m_situationsByCallsign p') k
       in if l \<noteq> [] \<and> \<not> m_hasVelocity s' \<and> m_hasVelocity (hd l) then l' = l
          else times_after s' l l' \<and> m_latestSituationByCallsign p' k = Some r
            \<and> r\<lparr>m_sceneryOffset := m_sceneryOffset s'\<rparr> = s' \<and> addedAircraftSituation r \<in> set (provider_events p'))"
proof -
  define a where "a = getAircraftInRangeForCallsign (rs_callsign s) p"
  define p1 where "p1 = (if m_cg s \<noteq> None \<and> \<not> sameLength env (mdl_cg (a_model a)) (m_cg s)
    then snd (updateCG env (rs_callsign s) (m_cg s) p) else p)"
  define p2 where "p2 = p1\<lparr>m_situationsAdded := c_int (m_situationsAdded p1 + 1),
    m_situationsLastModified := (m_situationsLastModified p1)(k \<mapsto> p_now env)\<rparr>"
  define l where "l = at_key (m_situationsByCallsign p) k"
  have same: "m_situationsByCallsign p2 = m_situationsByCallsign p" by (simp add: p2_def p1_def updateCG_def)
  have "provider_ok p1" using p by (simp add: p1_def aircraft_ops_ok)
  then have p2: "provider_ok p2" by (simp add: p2_def)
  have s': "spreadable s'" using with_offset_spreadable [OF env s] s by (simp add: s'_def)
  have e: "storeAircraftSituation env s b p = and_then (situations_after env s s' l) (\<lambda>result. case result of
      None \<Rightarrow> Inr (s', p2)
    | Some situations \<Rightarrow> and_then (guess_front env a s s' situations)
        (\<lambda>situations. situation_stored env k (mdl_isVtol (a_model a)) s' situations p2))"
    unfolding storeAircraftSituation_def Let_def k_def [symmetric] s'_def [symmetric] a_def [symmetric] p1_def [symmetric]
      p2_def [symmetric] using cs same by (simp add: l_def)
  from situations_after_ok [OF env s' provider_okD(2) [OF p], of s k] obtain r where
    r: "situations_after env s s' l = Inr r" "r = None \<or> kept_list (the r) \<and> the r \<noteq> []" unfolding l_def by blast
  show ?thesis
  proof (cases r)
    case None
    then have "l \<noteq> [] \<and> \<not> m_hasVelocity s' \<and> m_hasVelocity (hd l)"
      using r(1) by (auto simp: situations_after_def and_then_def Let_def split: if_splits sum.splits)
    then show ?thesis using None r(1) p2 same by (simp add: e l_def Let_def)
  next
    case (Some q)
    then have q: "kept_list q" "q \<noteq> []" and no: "\<not> (l \<noteq> [] \<and> \<not> m_hasVelocity s' \<and> m_hasVelocity (hd l))"
      using r by (auto simp: situations_after_def split: if_splits)
    from guess_times [OF env q(2)] obtain q' where q': "guess_front env a s s' q = Inr q'"
      "map m_timestampMSecsSinceEpoch q' = map m_timestampMSecsSinceEpoch q" by blast
    then have "kept_list q'" "q' \<noteq> []" using q kept_same_times [of q' q] by auto
    from situation_stored_result [OF p2 this, of env k "mdl_isVtol (a_model a)" s'] obtain x p' where
      x: "situation_stored env k (mdl_isVtol (a_model a)) s' q' p2 = Inr (x, p')" "provider_ok p'"
      "map m_timestampMSecsSinceEpoch (at_key (m_situationsByCallsign p') k) = map m_timestampMSecsSinceEpoch q'"
      "m_latestSituationByCallsign p' k = Some x" "x\<lparr>m_sceneryOffset := m_sceneryOffset s'\<rparr> = s'"
      "addedAircraftSituation x \<in> set (provider_events p')" by auto
    have "times_after s' l q" using situations_after_times [OF env s'] provider_okD(2) [OF p] r(1) Some unfolding l_def by blast
    then have "times_after s' l (at_key (m_situationsByCallsign p') k)"
      using times_after_same [OF x(3) [unfolded q'(2)]] by blast
    then show ?thesis using no x r(1) Some q'(1) by (auto simp: e l_def Let_def)
  qed
qed

lemma store_situation_ok:
  assumes "provider_ok p" "geometry_ok env" "spreadable s"
  shows "\<exists>r p'. storeAircraftSituation env s b p = Inr (r, p') \<and> provider_ok p'"
proof (cases "isEmpty (rs_callsign s)")
  case True
  then show ?thesis using assms(1) by (simp add: storeAircraftSituation_def)
qed (use store_situation_result [OF assms, of b] in blast)

lemma filter_kept: "kept_list l \<Longrightarrow> kept_list (filter P l)"
  unfolding kept_iff latest_first_def by (blast intro: sorted_wrt_filter order.trans [OF length_filter_le])

lemma outdated_kept:
  assumes "kept_list l"
  shows "all_ok kept_list (removeOutdatedParts l)"
  using filter_kept [OF assms] by (simp add: removeOutdatedParts_def removeBefore_def Let_def)

lemma outdated_not_Nil: "l \<noteq> [] \<Longrightarrow> all_ok (\<lambda>l'. l' \<noteq> []) (removeOutdatedParts l)"
  by (simp add: removeOutdatedParts_def Let_def)

lemma ground_stored:
  assumes "provider_ok p"
  shows "provider_ok (p\<lparr>m_situationsByCallsign := (m_situationsByCallsign p)(cs \<mapsto>
    snd (adjustGroundFlag_list parts (at_key (m_situationsByCallsign p) cs)))\<rparr>)"
proof -
  have "kept_list (snd (adjustGroundFlag_list parts (at_key (m_situationsByCallsign p) cs)))"
    unfolding kept_same_times [OF ground_times] using assms by (rule provider_okD)
  moreover have "snd (adjustGroundFlag_list parts l) = [] \<longleftrightarrow> l = []" for l :: "'a remote_situation_scheme list"
    by (simp add: adjustGroundFlag_list_def Let_def)
  ultimately show ?thesis using assms by (simp add: provider_ok_def)
qed

lemma provider_ok_cong:
  assumes "m_aircraftInRange p = m_aircraftInRange q" "m_situationsByCallsign p = m_situationsByCallsign q"
    "m_partsByCallsign p = m_partsByCallsign q" "m_changesByCallsign p = m_changesByCallsign q"
    "m_aircraftWithParts p = m_aircraftWithParts q" "m_latestSituationByCallsign p = m_latestSituationByCallsign q"
  shows "provider_ok p = provider_ok q"
  by (simp add: provider_ok_def assms)

text \<open>What storing parts does to the members of the invariant.\<close>

lemma parts_stored_members:
  assumes "l \<noteq> []"
  shows "m_aircraftInRange (parts_stored env cs parts l p)
      = m_aircraftInRange (snd (update_aircraft cs (\<lambda>a. (True, a\<lparr>a_parts := parts, a_partsSynchronized := True\<rparr>)) p))"
    "m_situationsByCallsign (parts_stored env cs parts l p)
      = (m_situationsByCallsign p)(cs \<mapsto> snd (adjustGroundFlag_list parts (at_key (m_situationsByCallsign p) cs)))"
    "m_partsByCallsign (parts_stored env cs parts l p) = m_partsByCallsign p"
    "m_changesByCallsign (parts_stored env cs parts l p) = m_changesByCallsign p"
    "m_aircraftWithParts (parts_stored env cs parts l p) = insert cs (m_aircraftWithParts p)"
    "m_latestSituationByCallsign (parts_stored env cs parts l p) = m_latestSituationByCallsign p"
  using assms by (cases "m_aircraftInRange p cs"; simp add: parts_stored_def signal_def update_aircraft_def case_prod_beta Let_def)+

lemma parts_stored_ok:
  assumes "provider_ok p" "kept_list l" "l \<noteq> []"
  shows "provider_ok (parts_stored env cs parts l (p\<lparr>m_partsByCallsign := (m_partsByCallsign p)(cs \<mapsto> l)\<rparr>))"
proof -
  let ?f = "\<lambda>a::simulated_aircraft. (True, a\<lparr>a_parts := parts, a_partsSynchronized := True\<rparr>)"
  define q where "q = p\<lparr>m_partsByCallsign := (m_partsByCallsign p)(cs \<mapsto> l), m_aircraftWithParts := insert cs (m_aircraftWithParts p)\<rparr>"
  define q1 where "q1 = q\<lparr>m_situationsByCallsign := (m_situationsByCallsign q)(cs \<mapsto>
    snd (adjustGroundFlag_list parts (at_key (m_situationsByCallsign q) cs)))\<rparr>"
  have "provider_ok q" using assms by (simp add: provider_ok_def q_def)
  then have "provider_ok q1" unfolding q1_def by (rule ground_stored)
  then have "provider_ok (snd (update_aircraft cs ?f q1))" by (rule update_aircraft_ok) simp
  also have "provider_ok (snd (update_aircraft cs ?f q1))
    = provider_ok (parts_stored env cs parts l (p\<lparr>m_partsByCallsign := (m_partsByCallsign p)(cs \<mapsto> l)\<rparr>))"
    using assms(3) by (intro provider_ok_cong; cases "m_aircraftInRange p cs")
      (simp_all add: parts_stored_members q1_def q_def update_aircraft_def)
  finally show ?thesis .
qed

lemma store_parts_ok:
  assumes p: "provider_ok p"
  shows "all_ok provider_ok (storeAircraftParts env callsign parts outdated p)"
proof (cases "isEmpty callsign")
  case True
  then show ?thesis using p by (simp add: storeAircraftParts_def Let_def)
next
  case False
  define cs where "cs = asString callsign"
  define p1 where "p1 = p\<lparr>m_partsAdded := c_int (m_partsAdded p + 1), m_partsLastModified := (m_partsLastModified p)(cs \<mapsto> p_now env)\<rparr>"
  have p1: "provider_ok p1" using p by (simp add: p1_def)
  from push_kept [OF provider_okD(3) [OF p1], of parts True cs] obtain l where
    l: "push_frontKeepLatestFirstAdjustOffset parts True 50 (at_key (m_partsByCallsign p1) cs) = Inr l" "kept_list l" "l \<noteq> []"
    by blast
  define r where "r = (if outdated then removeOutdatedParts l else Inr l)"
  have r: "kept_list l' \<and> l' \<noteq> []" if "r = Inr l'" for l'
    using all_okD [OF outdated_kept [OF l(2)], of l'] all_okD [OF outdated_not_Nil [OF l(3)], of l'] l(2,3) that
    by (auto simp: r_def split: if_splits)
  have "storeAircraftParts env callsign parts outdated p = and_then r (\<lambda>l'.
      if \<not> isSortedAdjustedLatestFirst l' \<or> int (length l') > MaxPartsPerCallsign then Inl AssertFailed
      else Inr (parts_stored env cs parts l' (p1\<lparr>m_partsByCallsign := (m_partsByCallsign p1)(cs \<mapsto> l')\<rparr>)))"
    unfolding r_def using False l(1) by (simp add: storeAircraftParts_def cs_def p1_def MaxPartsPerCallsign_def Let_def cong: if_cong)
  then show ?thesis using r parts_stored_ok [OF p1] by (cases r) auto
qed

lemma store_json_ok:
  assumes "provider_ok p"
  shows "all_ok provider_ok (storeAircraftParts_json env callsign ob offset p)"
proof -
  have always: "all_ok P r" if "\<And>x. P x" for P and r :: "fault + 'c" using that by (rule all_ok_always)
  have "all_ok (\<lambda>q. (\<not> m_enableAircraftPartsHistory q \<longrightarrow> provider_ok q) \<and> (m_enableAircraftPartsHistory q \<longrightarrow> provider_ok q))
      (storeAircraftParts env callsign parts False p)" for parts
    by (rule all_ok_mono [OF store_parts_ok [OF assms]]) simp
  then show ?thesis
    using assms by (simp add: storeAircraftParts_json_def Let_def always)
qed

lemma message_ops_ok:
  "provider_ok p \<Longrightarrow> provider_ok (addReverseLookupMessages cs ms p)" "provider_ok p \<Longrightarrow> provider_ok (removeReverseLookupMessages cs p)"
  "provider_ok p \<Longrightarrow> provider_ok (snd (testAddAltitudeOffset env cs os p))"
  by (auto simp: addReverseLookupMessages_def removeReverseLookupMessages_def testAddAltitudeOffset_def split: option.split)

text \<open>What storing a situation leaves alone.\<close>

lemma stored_others:
  assumes "storeAircraftSituation env s b p = Inr (r, p')"
  shows "if isEmpty (rs_callsign s) then p' = p else
    m_situationsByCallsign p' |` (- {asString (rs_callsign s)}) = m_situationsByCallsign p |` (- {asString (rs_callsign s)})
    \<and> m_partsByCallsign p' = m_partsByCallsign p"
  using assms
  by (auto simp: storeAircraftSituation_def situation_stored_def storeChange_def and_then_def updateCG_def signal_def
    restrict_map_def Let_def split: sum.splits if_splits option.splits)

subsection \<open>Every sequence of operations\<close>

datatype 's provider_call =
  call_addNewAircraftInRange simulated_aircraft
| call_setAircraftEnabledFlag CCallsign bool
| call_updateAircraftRendered CCallsign bool
| call_updateFastPositionEnabled CCallsign bool
| call_updateMultipleAircraftEnabled "CCallsign list" bool
| call_updateMultipleAircraftRendered "CCallsign list" bool
| call_updateMarkAllAsNotRendered
| call_updateCG CCallsign "double option"
| call_updateCGAndModelString CCallsign "double option" string
| call_updateCGForModel string "double option"
| call_rememberCGFromDB "double option" CCallsign
| call_rememberCGFromDB_model "double option" string
| call_removeAircraft CCallsign
| call_removeAllAircraft "string list"
| call_testAddAltitudeOffset CCallsign "double option"
| call_storeAircraftSituation 's bool
| call_storeAircraftParts CCallsign CAircraftParts bool
| call_storeAircraftParts_json CCallsign json_object int
| call_enableReverseLookupMessages "32 word"
| call_enableAircraftPartsHistory bool
| call_addReverseLookupMessages CCallsign "string list"
| call_removeReverseLookupMessages CCallsign

fun provider_step ::
    "('a, 'b) provider_environment \<Rightarrow> 'a remote_situation_scheme provider_call \<Rightarrow> ('a, 'b) remote_aircraft_provider
      \<Rightarrow> fault + ('a, 'b) remote_aircraft_provider" where
  "provider_step env (call_addNewAircraftInRange a) p = Inr (snd (addNewAircraftInRange a p))"
| "provider_step env (call_setAircraftEnabledFlag cs b) p = Inr (snd (setAircraftEnabledFlag cs b p))"
| "provider_step env (call_updateAircraftRendered cs b) p = Inr (snd (updateAircraftRendered cs b p))"
| "provider_step env (call_updateFastPositionEnabled cs b) p = Inr (snd (updateFastPositionEnabled cs b p))"
| "provider_step env (call_updateMultipleAircraftEnabled css b) p = Inr (snd (updateMultipleAircraftEnabled css b p))"
| "provider_step env (call_updateMultipleAircraftRendered css b) p = Inr (snd (updateMultipleAircraftRendered css b p))"
| "provider_step env call_updateMarkAllAsNotRendered p = Inr (updateMarkAllAsNotRendered p)"
| "provider_step env (call_updateCG cs cg) p = Inr (snd (updateCG env cs cg p))"
| "provider_step env (call_updateCGAndModelString cs cg ms) p = Inr (snd (updateCGAndModelString env cs cg ms p))"
| "provider_step env (call_updateCGForModel ms cg) p = Inr (snd (updateCGForModel env ms cg p))"
| "provider_step env (call_rememberCGFromDB cg cs) p = Inr (rememberCGFromDB cg cs p)"
| "provider_step env (call_rememberCGFromDB_model cg ms) p = Inr (rememberCGFromDB_model cg ms p)"
| "provider_step env (call_removeAircraft cs) p = Inr (snd (removeAircraft cs p))"
| "provider_step env (call_removeAllAircraft order) p = Inr (removeAllAircraft order p)"
| "provider_step env (call_testAddAltitudeOffset cs os) p = Inr (snd (testAddAltitudeOffset env cs os p))"
| "provider_step env (call_storeAircraftSituation s b) p = and_then (storeAircraftSituation env s b p) (Inr \<circ> snd)"
| "provider_step env (call_storeAircraftParts cs parts b) p = storeAircraftParts env cs parts b p"
| "provider_step env (call_storeAircraftParts_json cs ob os) p = storeAircraftParts_json env cs ob os p"
| "provider_step env (call_enableReverseLookupMessages f) p = Inr (enableReverseLookupMessages f p)"
| "provider_step env (call_enableAircraftPartsHistory b) p = Inr (enableAircraftPartsHistory b p)"
| "provider_step env (call_addReverseLookupMessages cs ms) p = Inr (addReverseLookupMessages cs ms p)"
| "provider_step env (call_removeReverseLookupMessages cs) p = Inr (removeReverseLookupMessages cs p)"

text \<open>Only a situation's times are constrained.\<close>

fun call_ok :: "'a remote_situation_scheme provider_call \<Rightarrow> bool" where
  "call_ok (call_storeAircraftSituation s b) \<longleftrightarrow> spreadable s"
| "call_ok c \<longleftrightarrow> True"

inductive provider_reachable :: "('a, 'b) remote_aircraft_provider \<Rightarrow> bool" where
  start: "provider_reachable CRemoteAircraftProvider"
| step: "provider_reachable p \<Longrightarrow> geometry_ok env \<Longrightarrow> call_ok c \<Longrightarrow> provider_step env c p = Inr p' \<Longrightarrow> provider_reachable p'"

lemma multiple_ok:
  "provider_ok p \<Longrightarrow> provider_ok (snd (updateMultipleAircraftEnabled css b p))"
  "provider_ok p \<Longrightarrow> provider_ok (snd (updateMultipleAircraftRendered css b p))"
  by (simp_all add: updateMultipleAircraftEnabled_def updateMultipleAircraftRendered_def update_multiple_ok aircraft_ops_ok)

lemma provider_step_ok:
  assumes "provider_ok p" "geometry_ok env" "call_ok c"
  shows "all_ok provider_ok (provider_step env c p)"
proof (cases c)
  case (call_storeAircraftSituation s b)
  then show ?thesis using store_situation_ok [OF assms(1,2), of s b] assms(3) by fastforce
qed (use assms(1) in \<open>simp_all add: aircraft_ops_ok multiple_ok remove_ok remove_all_ok store_parts_ok store_json_ok message_ops_ok
  rememberCGFromDB_def rememberCGFromDB_model_def enableReverseLookupMessages_def enableAircraftPartsHistory_def\<close>)

theorem provider_reachable_ok: "provider_reachable p \<Longrightarrow> provider_ok p"
proof (induction rule: provider_reachable.induct)
  case (step p env c p')
  then show ?case using all_okD [OF provider_step_ok] by blast
qed (rule provider_ok_start)

subsection \<open>Parts that come in time\<close>

text \<open>A list in order both ways whose newest object is not younger than the clock.\<close>

definition in_time :: "int \<Rightarrow> 'a timestamp_with_offset_scheme list \<Rightarrow> bool" where
  "in_time t l \<longleftrightarrow> sorted_wrt (\<ge>) (map m_timestampMSecsSinceEpoch l) \<and> sorted_wrt (\<ge>) (map getAdjustedMSecsSinceEpoch l)
     \<and> list_all (\<lambda>x. moderate x \<and> hasValidTimestamp x \<and> m_timestampMSecsSinceEpoch x \<le> t) l"

lemma adjust_front_hd: "\<exists>os. hd (adjust_front (v # d)) = v\<lparr>m_timeOffsetMs := os\<rparr>"
proof -
  have "v = v\<lparr>m_timeOffsetMs := m_timeOffsetMs v\<rparr>" by simp
  then show ?thesis by (cases d) (auto simp: adjust_front_def Let_def intro: exI [of _ "m_timeOffsetMs v"])
qed

lemma push_in_time_front:
  fixes v :: "'a timestamp_with_offset_scheme"
  assumes "in_time (m_timestampMSecsSinceEpoch v) c" "moderate v" "hasValidTimestamp v" "length c \<le> 50"
  shows "\<exists>os d. push_frontKeepLatestFirstAdjustOffset v replace_same 50 c = Inr (v\<lparr>m_timeOffsetMs := os\<rparr> # d)
    \<and> isSortedAdjustedLatestFirst (v\<lparr>m_timeOffsetMs := os\<rparr> # d) \<and> length d < 50"
proof -
  have c: "latest_first m_timestampMSecsSinceEpoch c" "latest_first getAdjustedMSecsSinceEpoch c" "\<forall>x\<in>insert v (set c). moderate x"
    "c \<noteq> [] \<Longrightarrow> m_timestampMSecsSinceEpoch (hd c) \<le> m_timestampMSecsSinceEpoch v" "\<forall>x\<in>set c. hasValidTimestamp x"
    using assms by (auto simp: in_time_def latest_first_def sorted_wrt_map list_all_iff)
  from push_adjusted_in_time [of 50, OF _ c(4,1-3), of replace_same] obtain v' d where
    d: "push_frontKeepLatestFirstAdjustOffset v replace_same 50 c = Inr (v' # d)" "set d \<subseteq> set c" "length (v' # d) \<le> 50"
      "latest_first getAdjustedMSecsSinceEpoch (v' # d)" "m_timestampMSecsSinceEpoch v' = m_timestampMSecsSinceEpoch v"
    by auto
  from push_in_time [of 50, OF _ c(4), of replace_same] obtain e where
    "push_frontKeepLatestFirst v replace_same 50 c = Inr (v # e)" by auto
  with d(1) have "v' # d = adjust_front (v # e)" by (simp add: push_frontKeepLatestFirstAdjustOffset_def)
  with adjust_front_hd [of v e] obtain os where v': "v' = v\<lparr>m_timeOffsetMs := os\<rparr>" by (metis list.sel(1))
  have "getAdjustedMSecsSinceEpoch x \<le> 2 ^ 63 - 1" for x :: "'a timestamp_with_offset_scheme"
    using c_int64_range [of "m_timestampMSecsSinceEpoch x + m_timeOffsetMs x"]
    by (simp add: getAdjustedMSecsSinceEpoch_def int64_def)
  then have "\<forall>x\<in>set (v' # d). hasValidTimestamp x \<and> getAdjustedMSecsSinceEpoch x \<le> 2 ^ 63 - 1"
    using c(5) d(2,5) assms(3) by (auto simp: hasValidTimestamp_def)
  then have "isSortedAdjustedLatestFirst (v' # d)"
    unfolding isSortedAdjustedLatestFirst_def using d(4) by (simp only: descending_iff split: if_split) simp
  then show ?thesis using d(1,3) unfolding v' by auto
qed

lemma stored_in_time:
  assumes "\<not> isEmpty callsign" "in_time (m_timestampMSecsSinceEpoch parts) (remoteAircraftParts callsign p)"
    and "moderate parts" "hasValidTimestamp parts" "provider_ok p"
  shows "\<exists>p' os d. storeAircraftParts env callsign parts False p = Inr p'
    \<and> remoteAircraftParts callsign p' = parts\<lparr>m_timeOffsetMs := os\<rparr> # d
    \<and> m_aircraftInRange p' = (m_aircraftInRange p)(asString callsign
        := map_option (\<lambda>a. a\<lparr>a_parts := parts, a_partsSynchronized := True\<rparr>) (m_aircraftInRange p (asString callsign)))"
proof -
  have "length (remoteAircraftParts callsign p) \<le> 50"
    using provider_okD(3) [OF assms(5)] by (simp add: remoteAircraftParts_def kept_list_def)
  from push_in_time_front [OF assms(2-4) this, of True] obtain os d where
    d: "push_frontKeepLatestFirstAdjustOffset parts True 50 (at_key (m_partsByCallsign p) (asString callsign))
        = Inr (parts\<lparr>m_timeOffsetMs := os\<rparr> # d)"
      "isSortedAdjustedLatestFirst (parts\<lparr>m_timeOffsetMs := os\<rparr> # d)" "length d < 50"
    by (auto simp: remoteAircraftParts_def)
  have "m_aircraftInRange p (asString callsign) = None \<Longrightarrow>
      (m_aircraftInRange p)(asString callsign := None) = m_aircraftInRange p" by auto
  then show ?thesis
    using assms(1) d by (cases "m_aircraftInRange p (asString callsign)")
      (simp_all add: storeAircraftParts_def MaxPartsPerCallsign_def remoteAircraftParts_def parts_stored_members
        update_aircraft_def Let_def, (rule exI [of _ os], rule refl)+)
qed

lemma shown_toJson: "parts_toJson (shown_parts q old) = parts_toJson q"
  by (simp add: parts_toJson_def shown_parts_def lights_toJson_def shown_lights_def)

lemma other_members_toJson [simp]:
  "parts_toJson (q\<lparr>m_timestampMSecsSinceEpoch := t\<rparr>) = parts_toJson q" "parts_toJson (q\<lparr>m_timeOffsetMs := os\<rparr>) = parts_toJson q"
  "parts_toJson (q\<lparr>m_partsDetails := d\<rparr>) = parts_toJson q"
  by (simp_all add: parts_toJson_def)

text \<open>An object that says all, and one that says what is new.\<close>

lemma full_read:
  "parts_ok q \<Longrightarrow> parts_of_json (j_insert attributeNameIsFullJson (JBool True) (parts_toJson q)) latest
    = Inr (shown_parts q CAircraftParts_default)"
  by (simp add: parts_of_json_def parts_convertFromJson_def parts_values json_bool_def json_int_def toInt_of_int parts_ok_def lights_read
    engines_read shown_parts_def attributeNameIsFullJson_def Let_def)

lemma increment_not_full: "j_value (getIncrementalObject (parts_toJson p) (parts_toJson q)) attributeNameIsFullJson = None"
  by (simp add: getIncrementalObject_value parts_wf wf_distinct parts_values attributeNameIsFullJson_def)

lemma increment_of_json:
  assumes "parts_ok p" "parts_ok q" "m_number ` set (m_engines p) \<subseteq> m_number ` set (m_engines q)"
    and "parts_toJson l = parts_toJson p"
  shows "parts_of_json (getIncrementalObject (parts_toJson p) (parts_toJson q)) (l # ls) = Inr (shown_parts q l)"
  using increment_read [OF assms(1-3), of l] assms(4) by (simp add: parts_of_json_def increment_not_full)

lemma json_in_time:
  assumes "provider_ok p" "\<not> isEmpty callsign" "m_aircraftInRange p (asString callsign) = Some a"
    and "isValidAircraftCallsign (asString callsign)" "a_partsSynchronized a \<or> j_toBool (j_value ob attributeNameIsFullJson)"
    and "in_time (p_now env) (remoteAircraftParts callsign p)" "0 \<le> p_now env" "p_now env < 2 ^ 61" "\<bar>offset\<bar> < 2 ^ 61"
    and "parts_of_json ob (remoteAircraftParts callsign p) = Inr parts"
  shows "\<exists>p' a'. storeAircraftParts_json env callsign ob offset p = Inr p'
    \<and> parts_toJson (hd (remoteAircraftParts callsign p')) = parts_toJson parts
    \<and> m_aircraftInRange p' (asString callsign) = Some a' \<and> a_partsSynchronized a' \<and> parts_toJson (a_parts a') = parts_toJson parts"
proof -
  define new where "new = parts\<lparr>m_timestampMSecsSinceEpoch := p_now env, m_timeOffsetMs := offset, m_partsDetails := FSDAircraftParts\<rparr>"
  have "moderate new" "hasValidTimestamp new" "in_time (m_timestampMSecsSinceEpoch new) (remoteAircraftParts callsign p)"
    using assms(6-9) by (simp_all add: new_def moderate_def hasValidTimestamp_def)
  from stored_in_time [OF assms(2) this(3,1,2) assms(1), of env] obtain p' os d where
    p': "storeAircraftParts env callsign new False p = Inr p'" "remoteAircraftParts callsign p' = new\<lparr>m_timeOffsetMs := os\<rparr> # d"
    "m_aircraftInRange p' (asString callsign) = Some (a\<lparr>a_parts := new, a_partsSynchronized := True\<rparr>)"
    using assms(3) by auto
  have new: "parts_toJson new = parts_toJson parts" by (simp add: new_def)
  have "asString (a_callsign a) = asString callsign" using provider_okD(1) [OF assms(1,3)] .
  then have "\<exists>p''. storeAircraftParts_json env callsign ob offset p = Inr p'' \<and> m_aircraftInRange p'' = m_aircraftInRange p'
      \<and> m_partsByCallsign p'' = m_partsByCallsign p'"
    using assms(3-5) p'(1) assms(10)
    by (auto simp: storeAircraftParts_json_def getAircraftInRangeForCallsign_def new_def [symmetric] Let_def)
  then show ?thesis using p'(2,3) new by (auto simp: remoteAircraftParts_def)
qed

end
