(* ===== verification/AircraftProperties.thy ===== *)
theory AircraftProperties
  imports RemoteAircraftFacts TimedProperties ClientMessages
begin

section \<open>Remote aircraft, from the wire to the provider\<close>

text \<open>
  What the provider of remote aircraft keeps to over every sequence of its operations, what storing and
  removing do, and how a change of an aircraft's lights or engines gets from the sender's client through
  the receiver's client into the receiver's provider.
\<close>

text \<open>Surroundings whose geometry changes nothing.\<close>

definition still_geometry :: "int \<Rightarrow> (unit, unit) provider_environment" where
  "still_geometry t = \<lparr>p_now = t, sameLength = (=), isZeroLength = (\<lambda>d. d = Fin 0), p_json_toText = (\<lambda>ob. []),
     transferGroundElevation = (\<lambda>old new. new), withAltitudeOffset = (\<lambda>os s. s),
     situationChange = (\<lambda>l cg vtol dev. \<lparr>m_timestampMSecsSinceEpoch = t, m_timeOffsetMs = 0,
       c_callsign = CCallsign ''DLH1'' Aircraft, m_guessedSceneryDeviation = None\<rparr>),
     guessOnGround = (\<lambda>change a s. s)\<rparr>"

lemma still_ok: "geometry_ok (still_geometry t)"
  by (simp add: geometry_ok_def still_geometry_def)

definition sample_situation :: "int \<Rightarrow> unit remote_situation_scheme" where
  "sample_situation t = \<lparr>m_timestampMSecsSinceEpoch = t, m_timeOffsetMs = 6000, rs_callsign = CCallsign ''DLH1'' Aircraft,
     m_onGround = NotOnGround, m_onGroundDetails = NotSetGroundDetails, m_onGroundFactor = Fin 0, m_hasVelocity = False, m_cg = None,
     m_sceneryOffset = None, \<dots> = ()\<rparr>"

definition flying :: simulated_aircraft where
  "flying = simulated_aircraft_default\<lparr>a_callsign := CCallsign ''DLH1'' Aircraft\<rparr>"

text \<open>C14: Whatever is added, updated, stored and removed in whatever order: an aircraft in range is found under
  its own callsign, the situations and parts of every callsign are latest first and never more than
  fifty, neither are the changes, aircraft said to support parts are those with parts, and there is a
  latest situation exactly when there are situations.\<close>

lemma provider_invariant:
  assumes "provider_reachable p"
  shows "(m_aircraftInRange p (asString callsign) = Some a \<longrightarrow> asString (a_callsign a) = asString callsign)
    \<and> latest_first m_timestampMSecsSinceEpoch (remoteAircraftSituations callsign p)
    \<and> latest_first m_timestampMSecsSinceEpoch (remoteAircraftParts callsign p)
    \<and> remoteAircraftSituationsCount callsign p \<le> MaxSituationsPerCallsign \<and> remoteAircraftPartsCount callsign p \<le> MaxPartsPerCallsign
    \<and> length (remoteAircraftSituationChanges callsign p) \<le> 50
    \<and> (isRemoteAircraftSupportingParts callsign p \<longleftrightarrow> remoteAircraftParts callsign p \<noteq> [])
    \<and> (m_latestSituationByCallsign p (asString callsign) \<noteq> None \<longleftrightarrow> remoteAircraftSituations callsign p \<noteq> [])"
  using provider_okD [OF provider_reachable_ok [OF assms], of "asString callsign"] provider_reachable_ok [OF assms]
  by (auto simp: remoteAircraftSituations_def remoteAircraftParts_def remoteAircraftSituationsCount_def remoteAircraftPartsCount_def
    remoteAircraftSituationChanges_def isRemoteAircraftSupportingParts_def provider_ok_def kept_iff at_key_def
    MaxSituationsPerCallsign_def MaxPartsPerCallsign_def split: option.splits)

lemma provider_invariant_witness:
  "let p = snd (addNewAircraftInRange flying CRemoteAircraftProvider) :: (unit, unit) remote_aircraft_provider;
       callsign = CCallsign ''DLH1'' Aircraft in
    latest_first m_timestampMSecsSinceEpoch (remoteAircraftSituations callsign p) \<and> length (remoteAircraftSituationChanges callsign p) \<le> 50"
proof -
  define p :: "(unit, unit) remote_aircraft_provider" where "p = snd (addNewAircraftInRange flying CRemoteAircraftProvider)"
  have "provider_step (still_geometry 0) (call_addNewAircraftInRange flying) CRemoteAircraftProvider = Inr p" by (simp add: p_def)
  then have "provider_reachable p"
    using provider_reachable.step [OF provider_reachable.start still_ok, of "call_addNewAircraftInRange flying"] by simp
  from provider_invariant [OF this, of "CCallsign ''DLH1'' Aircraft"] show ?thesis by (simp add: p_def Let_def)
qed



text \<open>C24: A full configuration makes the aircraft show the sender's lights, engines, gear, flaps, spoilers and
  ground flag, and synchronised. From then on the increments the sender computes keep it so, as
  long as no engine disappears and the clock does not go back. Before, increments are ignored.\<close>

lemma parts_follow_sender:
  fixes callsign :: CCallsign and env :: "('a, 'b) provider_environment"
  assumes "provider_reachable p" "\<not> isEmpty callsign" "m_aircraftInRange p (asString callsign) = Some a"
    and "isValidAircraftCallsign (asString callsign)" "in_time (p_now env) (remoteAircraftParts callsign p)"
    and "0 \<le> p_now env" "p_now env < 2 ^ 61" "\<bar>offset\<bar> < 2 ^ 61"
    and "parts_ok old" "parts_ok q" "m_number ` set (m_engines old) \<subseteq> m_number ` set (m_engines q)"
  defines "full \<equiv> j_insert attributeNameIsFullJson (JBool True) (parts_toJson q)"
    and "increment \<equiv> getIncrementalObject (parts_toJson old) (parts_toJson q)"
    and "shows_q \<equiv> \<lambda>p'. parts_toJson (hd (remoteAircraftParts callsign p')) = parts_toJson q
        \<and> (\<exists>a'. m_aircraftInRange p' (asString callsign) = Some a' \<and> a_partsSynchronized a' \<and> parts_toJson (a_parts a') = parts_toJson q)"
  shows "(\<exists>p'. storeAircraftParts_json env callsign full offset p = Inr p' \<and> shows_q p')
    \<and> (if \<not> a_partsSynchronized a then storeAircraftParts_json env callsign increment offset p = Inr p
       else map parts_toJson (take 1 (remoteAircraftParts callsign p)) = [parts_toJson old] \<longrightarrow>
         (\<exists>p'. storeAircraftParts_json env callsign increment offset p = Inr p' \<and> shows_q p'))"
proof (intro conjI)
  note json = json_in_time [OF provider_reachable_ok [OF assms(1)] assms(2-4) _ assms(5-8)]
  have "parts_of_json full (remoteAircraftParts callsign p) = Inr (shown_parts q CAircraftParts_default)"
    unfolding full_def by (rule full_read [OF assms(10)])
  moreover have "j_toBool (j_value full attributeNameIsFullJson)" by (simp add: full_def)
  ultimately show "\<exists>p'. storeAircraftParts_json env callsign full offset p = Inr p' \<and> shows_q p'"
    using json [of full] by (auto simp: shows_q_def shown_toJson)
  have no_full: "\<not> j_toBool (j_value increment attributeNameIsFullJson)" by (simp add: increment_def increment_not_full)
  have "asString (a_callsign a) = asString callsign" using provider_okD(1) [OF provider_reachable_ok [OF assms(1)] assms(3)] .
  then have "storeAircraftParts_json env callsign increment offset p = Inr p" if "\<not> a_partsSynchronized a"
    using that assms(3) no_full by (simp add: storeAircraftParts_json_def getAircraftInRangeForCallsign_def Let_def)
  moreover have "\<exists>p'. storeAircraftParts_json env callsign increment offset p = Inr p' \<and> shows_q p'"
    if s: "a_partsSynchronized a" and l: "map parts_toJson (take 1 (remoteAircraftParts callsign p)) = [parts_toJson old]"
  proof -
    from l obtain l1 ls where "remoteAircraftParts callsign p = l1 # ls" "parts_toJson l1 = parts_toJson old"
      by (cases "remoteAircraftParts callsign p") auto
    then have "parts_of_json increment (remoteAircraftParts callsign p) = Inr (shown_parts q l1)"
      unfolding increment_def using increment_of_json [OF assms(9-11)] by simp
    with json [of increment] s show ?thesis by (auto simp: shows_q_def shown_toJson)
  qed
  ultimately show "if \<not> a_partsSynchronized a then storeAircraftParts_json env callsign increment offset p = Inr p
     else map parts_toJson (take 1 (remoteAircraftParts callsign p)) = [parts_toJson old] \<longrightarrow>
       (\<exists>p'. storeAircraftParts_json env callsign increment offset p = Inr p' \<and> shows_q p')" by simp
qed

lemma parts_follow_sender_witness:
  "\<exists>p p'. provider_reachable p
    \<and> storeAircraftParts_json (still_geometry 5) (CCallsign ''DLH1'' Aircraft)
        (j_insert attributeNameIsFullJson (JBool True) (parts_toJson (sample_parts [True, False]))) 0 p = Inr p'
    \<and> parts_toJson (hd (remoteAircraftParts (CCallsign ''DLH1'' Aircraft) p')) = parts_toJson (sample_parts [True, False])"
proof -
  define p :: "(unit, unit) remote_aircraft_provider" where "p = snd (addNewAircraftInRange flying CRemoteAircraftProvider)"
  have "provider_step (still_geometry 0) (call_addNewAircraftInRange flying) CRemoteAircraftProvider = Inr p" by (simp add: p_def)
  then have p: "provider_reachable p"
    using provider_reachable.step [OF provider_reachable.start still_ok, of "call_addNewAircraftInRange flying"] by simp
  have cs: "\<not> isEmpty (CCallsign ''DLH1'' Aircraft)" "isValidAircraftCallsign (asString (CCallsign ''DLH1'' Aircraft))"
    "m_aircraftInRange p (asString (CCallsign ''DLH1'' Aircraft)) = Some flying"
    "remoteAircraftParts (CCallsign ''DLH1'' Aircraft) p = []"
    by (code_simp, code_simp, simp_all add: p_def addNewAircraftInRange_def flying_def signal_def CRemoteAircraftProvider_def
      is_in_range_def remoteAircraftParts_def at_key_def)
  then show ?thesis
    using p parts_follow_sender [OF p cs(1,3,2), of "still_geometry 5" 0 parts_null "sample_parts [True, False]"]
      sample_parts_ok(1) null_parts by (fastforce simp: in_time_def still_geometry_def)
qed

text \<open>A sender that has put its gear down and a receiver, with Qt's printer and parser for this object.\<close>

definition config_increment :: json_object where
  "config_increment = getIncrementalObject (parts_toJson CAircraftParts_default) (parts_toJson (sample_parts [True]))"

definition config_environment :: "unit environment" where
  "config_environment = (sample_environment 0 ((sample_aircraft (Fin 0))\<lparr>own_parts := sample_parts [True]\<rparr>))
     \<lparr>json_toText := (\<lambda>ob. ''{}''), json_fromText := (\<lambda>s. Some (JObject [(''config'', JObject config_increment)]))\<rparr>"

definition config_sender :: "unit fsd_client" where
  "config_sender = sample_client\<lparr>m_connectionStatus := Connected, m_ownCallsign := CCallsign ''DLH1'' Aircraft\<rparr>"

definition config_receiver :: "unit fsd_client" where
  "config_receiver = CFSDClient 0 () (sample_server\<lparr>srv_sendReceiveDetails := ReceiveAircraftParts\<rparr>) False"

text \<open>C25: A client whose lights, engines, gear, flaps or spoilers have changed queues one line for everyone and
  remembers what it has sent. A client that gets the line, knows the sender and takes part reports
  just the object of the changes, with the delay of the sender's positions. The JSON text
  is Qt's: it is required that the parser reads what was printed.\<close>

lemma increment_reaches_receiver:
  fixes s :: "'au fsd_client" and c :: "'au2 fsd_client" and env' :: "'au environment" and env :: "'au2 environment"
  defines "me \<equiv> getOwnCallsignAsString s"
    and "increment \<equiv> getIncrementalObject (parts_toJson (m_sentAircraftConfig s)) (parts_toJson (own_parts (own env')))"
  defines "dataStr \<equiv> convertToUnicodeEscaped (json_toText env' [(''config'', JObject increment)])"
  assumes "\<not> m_unitTestMode s" "isConnected s" "testFlag (getSetupForServer s) SendAircraftParts"
    and "\<not> equalValues (m_sentAircraftConfig s) (own_parts (own env'))" "tryConsume (now env') 1 (- 1) (m_tokenBucket s) = Inr (True, b)"
    and "field me" "me \<noteq> []" "\<not> is_space (hd me)" "dataStr \<noteq> []" "\<not> is_space (last dataStr)"
    and "json_fromText env dataStr = Some (JObject [(''config'', JObject increment)])" "increment \<noteq> []"
    and "reachable c" "isAircraftInRange env (CCallsign me Aircraft)" "testFlag (getSetupForServer c) ReceiveAircraftParts"
    and "currentOffsetTime (CCallsign me Aircraft) (offsets c) = Inr delay"
  shows "\<exists>s' line c'. sendIncrementalAircraftConfig env' s = Inr s' \<and> m_queuedFsdMessages s' = m_queuedFsdMessages s @ [line]
    \<and> m_sentAircraftConfig s' = own_parts (own env')
    \<and> parseMessage env line c = Inr c' \<and> emitted c' = emitted (note_line env ClientQuery_pdu (q_trimmed line) c)
        @ [aircraftConfigReceived me increment delay]"
proof -
  let ?m = "ClientQuery me ''@94836'' Query_AircraftConfig [dataStr]"
  let ?line = "messageToFSDString ClientQuery_pdu ClientQuery_toTokens ?m"
  have m: "ClientQuery_toTokens ?m = [me, ''@94836'', ''ACC'', dataStr]"
    by (simp add: ClientQuery_toTokens_def ClientQuery_def)
  have u: "unpadded (q_join '':'' (ClientQuery_toTokens ?m))" unfolding m by (rule unpadded_join) (use assms(10-13) in simp_all)
  have sent: "sendIncrementalAircraftConfig env' s = Inr (s\<lparr>m_tokenBucket := b,
      m_queuedFsdMessages := m_queuedFsdMessages s @ [?line], m_sentAircraftConfig := own_parts (own env')\<rparr>)"
    using assms(4-8,12) unfolding dataStr_def increment_def me_def
    by (simp add: sendIncrementalAircraftConfig_def sendAircraftConfiguration_def sendQueudedMessage_def
      getOwnCallsignAsString_def ClientQuery_def Let_def)
  have "q_split CHR '':'' (q_join '':'' (ClientQuery_toTokens ?m)) = [me, ''@94836'', ''ACC''] @ q_split CHR '':'' dataStr"
    using split_join_tail [of "[me, ''@94836'', ''ACC'']" dataStr] assms(9) unfolding m by simp
  moreover define d where "d = note_line env ClientQuery_pdu (ClientQuery_pdu @ q_join '':'' (ClientQuery_toTokens ?m)) c"
  have d: "getSetupForServer d = getSetupForServer c" "offsets d = offsets c"
    by (simp_all add: d_def note_line_def getSetupForServer_def emitRawFsdMessage_def Let_def)
  then have "handle_message env Msg_ClientQuery ([me, ''@94836'', ''ACC''] @ q_split CHR '':'' dataStr) d
      = Inr (emit (aircraftConfigReceived me increment delay) d)"
    using assms(14,15,17-19)
    by (simp add: handle_message_def handleClientQuery_def ClientQuery_fromTokens_def ClientQuery_def handle_config_query_def
      aircraftConfigRequest_def q_join_split fromQString_ClientQueryType_def Let_def)
  moreover have "parseMessage env ?line c = handle_message env Msg_ClientQuery (q_split CHR '':'' (q_join '':'' (ClientQuery_toTokens ?m))) d"
    unfolding d_def
  proof (rule parse_frame)
    show "m_messageTypeMapping c = initializeMessageTypes" using reachable_ok [OF assms(16)] by (simp add: client_ok_def)
  qed (use u client_query.pdu_plain client_query.pdu_not_Nil in \<open>simp_all add: initializeMessageTypes_def ClientQuery_pdu_def ClientQuery_def\<close>)
  moreover have "q_trimmed ?line = ClientQuery_pdu @ q_join '':'' (ClientQuery_toTokens ?m)"
    using trimmed_frame [OF client_query.pdu_plain client_query.pdu_not_Nil u] by (simp add: messageToFSDString_def ClientQuery_def)
  ultimately show ?thesis using sent d_def by (auto simp: emit_def)
qed

lemma increment_reaches_receiver_witness:
  "\<exists>s' line c'. sendIncrementalAircraftConfig config_environment config_sender = Inr s'
    \<and> m_queuedFsdMessages s' = m_queuedFsdMessages config_sender @ [line] \<and> parseMessage config_environment line config_receiver = Inr c'
    \<and> last (emitted c') = aircraftConfigReceived ''DLH1'' config_increment 6000"
proof -
  have me: "getOwnCallsignAsString config_sender = ''DLH1''" "convertToUnicodeEscaped ''{}'' = ''{}''" by code_simp+
  have "map_of config_increment ''gear_down'' = Some (JBool True)"
    unfolding config_increment_def getIncrementalObject_value [OF wf_distinct [OF parts_wf]] parts_values
    by (simp add: incremental_member_def sample_parts_def CAircraftParts_def CAircraftParts_flaps_def CAircraftParts_default_def)
  then have inc: "config_increment \<noteq> []" by auto
  have own: "m_sentAircraftConfig config_sender = CAircraftParts_default" "own_parts (own config_environment) = sample_parts [True]"
    by (simp_all add: config_sender_def sample_defs config_environment_def sample_environment_def)
  have bucket: "\<exists>b. tryConsume (now config_environment) 1 (- 1) (m_tokenBucket config_sender) = Inr (True, b)"
    by (simp add: config_sender_def sample_defs config_environment_def sample_environment_def tryConsume_def getTokens_def
      CTokenBucket_def c_int64_id int64_def Let_def)
  have differ: "\<not> equalValues CAircraftParts_default (sample_parts [True])"
    by (simp add: equalValues_def sample_parts_def CAircraftParts_def CAircraftParts_flaps_def CAircraftParts_default_def)
  have r: "reachable config_receiver" unfolding config_receiver_def by (rule reachable_start)
  from bucket obtain b where b: "tryConsume (now config_environment) 1 (- 1) (m_tokenBucket config_sender) = Inr (True, b)" by blast
  have reads: "json_toText config_environment ob = ''{}''" "json_fromText config_environment t = Some (JObject [(''config'', JObject config_increment)])" for ob t
    by (simp_all add: config_environment_def)
  have flags: "\<not> m_unitTestMode config_sender" "isConnected config_sender" "testFlag (getSetupForServer config_sender) SendAircraftParts"
    "testFlag (getSetupForServer config_receiver) ReceiveAircraftParts" "isAircraftInRange config_environment cs" for cs
    by (simp_all add: config_sender_def config_receiver_def sample_defs isConnected_def getSetupForServer_def testFlag_def
      SendAircraftParts_def ReceiveAircraftParts_def config_environment_def sample_environment_def)
  have delay: "currentOffsetTime (CCallsign ''DLH1'' Aircraft) (offsets config_receiver) = Inr 6000"
    by (simp add: config_receiver_def CFSDClient_def currentOffsetTime_def offset_state_init_def c_positionTimeOffsetMsec_def q_trimmed_def is_space_def)
  from increment_reaches_receiver [of config_sender config_environment b config_environment config_receiver 6000]
  show ?thesis
    using b r inc flags differ delay reads own me by (auto simp: config_increment_def [symmetric] is_space_def)
qed

text \<open>A removed aircraft is not in range, has no situations, parts, history or times of modification, and
  supports no parts; all other callsigns keep theirs. What is not removed are its changes of
  situations and its altitude offset for tests: the next aircraft of that callsign finds them.\<close>

lemma removed_aircraft_forgotten:
  "let p' = snd (removeAircraft callsign p) in
     \<not> is_in_range callsign p' \<and> remoteAircraftSituationsCount callsign p' = - 1 \<and> remoteAircraftPartsCount callsign p' = - 1
     \<and> \<not> isRemoteAircraftSupportingParts callsign p' \<and> getAircraftPartsHistory callsign p' = []
     \<and> situationsLastModified callsign p' = - 1 \<and> partsLastModified callsign p' = - 1
     \<and> fst (removeAircraft callsign p) = (m_aircraftInRange p (asString callsign) \<noteq> None)
     \<and> (\<forall>other. asString other \<noteq> asString callsign \<longrightarrow>
          remoteAircraftSituations other p' = remoteAircraftSituations other p \<and> remoteAircraftParts other p' = remoteAircraftParts other p
          \<and> getAircraftInRangeForCallsign other p' = getAircraftInRangeForCallsign other p)
     \<and> remoteAircraftSituationChanges callsign p' = remoteAircraftSituationChanges callsign p
     \<and> hasTestAltitudeOffset callsign p' = hasTestAltitudeOffset callsign p"
  by (simp add: removeAircraft_def is_in_range_def remoteAircraftSituationsCount_def remoteAircraftPartsCount_def
    isRemoteAircraftSupportingParts_def getAircraftPartsHistory_def situationsLastModified_def partsLastModified_def
    remoteAircraftSituations_def remoteAircraftParts_def getAircraftInRangeForCallsign_def remoteAircraftSituationChanges_def
    hasTestAltitudeOffset_def Let_def at_key_upd at_key_def)

lemma removed_aircraft_forgotten_witness:
  "let p = snd (addNewAircraftInRange flying CRemoteAircraftProvider) :: (unit, unit) remote_aircraft_provider;
       p' = snd (removeAircraft (a_callsign flying) p) in
    fst (removeAircraft (a_callsign flying) p) \<and> remoteAircraftSituations (CCallsign ''BAW2'' Aircraft) p' = []"
proof -
  have cs: "asString (CCallsign ''BAW2'' Aircraft) \<noteq> asString (a_callsign flying)" by code_simp
  show ?thesis
    using removed_aircraft_forgotten [of "a_callsign flying" "snd (addNewAircraftInRange flying CRemoteAircraftProvider)"] cs
    by (auto simp: Let_def remoteAircraftSituations_def at_key_def addNewAircraftInRange_def is_in_range_def CRemoteAircraftProvider_def
      signal_def)
qed

text \<open>A ground flag that came from the network is not to be adjusted from parts. Adjusting a list, which is what
  storing parts does, marks each situation as set from parts first, and the guard never holds: a
  situation that said it is in the air is put on the ground.\<close>

lemma parts_override_network_flag:
  assumes "m_onGroundDetails s = InFromNetwork" "getAdjustedTimeDifferenceMs s (getAdjustedMSecsSinceEpoch parts) \<ge> 0"
  shows "adjustGroundFlag parts alwaysSet factor s = (False, s)
    \<and> (let (c, situations) = adjustGroundFlag_list parts [s] in
        c = 1 \<and> map m_onGroundDetails situations = [InFromParts]
        \<and> map m_onGround situations = [if m_isOnGround parts then OnGround else NotOnGround])"
  using assms by (simp add: adjustGroundFlag_def adjustGroundFlag_list_def setOnGround_details_def setOnGround_def
    getAdjustedTimeDifferenceMs_def getAdjustedMSecsSinceEpoch_def Let_def)

lemma parts_override_network_flag_witness:
  "let s = (sample_situation 5)\<lparr>m_onGroundDetails := InFromNetwork\<rparr>;
       parts = CAircraftParts_default\<lparr>m_timestampMSecsSinceEpoch := 5, m_timeOffsetMs := 6000, m_isOnGround := True\<rparr> in
    m_onGround s = NotOnGround \<and> map m_onGround (snd (adjustGroundFlag_list parts [s])) = [OnGround]"
proof -
  let ?s = "(sample_situation 5)\<lparr>m_onGroundDetails := InFromNetwork\<rparr>"
  let ?p = "CAircraftParts_default\<lparr>m_timestampMSecsSinceEpoch := 5, m_timeOffsetMs := 6000, m_isOnGround := True\<rparr>"
  have d: "getAdjustedTimeDifferenceMs ?s (getAdjustedMSecsSinceEpoch ?p) \<ge> 0"
    by (simp add: getAdjustedTimeDifferenceMs_def getAdjustedMSecsSinceEpoch_def sample_situation_def c_int64_id int64_def)
  show ?thesis
    using parts_override_network_flag [OF _ d, of True NaN] by (simp add: case_prod_beta sample_situation_def Let_def)
qed

text \<open>Centres of gravity are remembered per callsign and per model string, and looked up per callsign only.
  What was remembered for a model is not found for it; what was remembered for a callsign is
  found for a model whose name reads the same.\<close>

lemma model_cg_not_found:
  "getCGFromDB_model modelString (rememberCGFromDB_model (Some cg) modelString p) = getCGFromDB_model modelString p
    \<and> getCGFromDB_model modelString (rememberCGFromDB_model (Some cg) modelString CRemoteAircraftProvider) = None
    \<and> getCGFromDB_model modelString (rememberCGFromDB (Some cg) (CCallsign modelString NoHint) p) = Some cg"
  by (simp add: getCGFromDB_model_def getCGFromDB_def rememberCGFromDB_model_def rememberCGFromDB_def CRemoteAircraftProvider_def)

text \<open>Parts that come in behind the newest by their time stamp may end up out of order by adjusted time. Storing
  parts asserts that they are in order, so such parts stop the program where assertions are
  compiled in, as does a clock that was set back.\<close>

lemma late_parts_fault:
  "let store = (\<lambda>t offset. storeAircraftParts (still_geometry 20) (CCallsign ''DLH1'' Aircraft)
         (CAircraftParts_default\<lparr>m_timestampMSecsSinceEpoch := t, m_timeOffsetMs := offset\<rparr>) False);
       stored = and_then (store 5 10 CRemoteAircraftProvider) (store 10 10) in
    stored \<noteq> Inl AssertFailed \<and> and_then stored (store 7 2) = Inl AssertFailed"
proof -
  have cs: "q_trimmed ''DLH1'' \<noteq> []" by code_simp
  show ?thesis
    by (simp add: cs storeAircraftParts_def MaxPartsPerCallsign_def push_frontKeepLatestFirstAdjustOffset_def push_frontKeepLatestFirst_def
      max_elements_ok_def truncate_max_def sortLatestFirst_def sortOldestFirst_def adjust_front_def isNewerThanAdjusted_def
      isSortedAdjustedLatestFirst_def hasValidTimestamp_def getAdjustedMSecsSinceEpoch_def int64_def parts_stored_members at_key_def
      CRemoteAircraftProvider_def Let_def)
qed

end
