(* ===== verification/Clients.thy ===== *)
theory Clients
  imports RemoteAircraft FsdClientTypes
begin

section \<open>Other clients\<close>

text \<open>
  \<open>CClient\<close> and \<open>CClientProvider\<close> (\<open>blackmisc/network/client\<close>, \<open>clientprovider\<close>): what is known of the
  software other users fly with, kept per callsign. Of the user only the callsign and the real name, voice
  capabilities not at all.
\<close>

subsection \<open>Clients\<close>

definition FsdWithGroundFlag :: "32 word" where "FsdWithGroundFlag = push_bit 4 1"
definition FsdModelString :: "32 word" where "FsdModelString = push_bit 5 1"

record CClient =
  cl_callsign :: CCallsign
  cl_capabilities :: "32 word"
  cl_swift :: bool
  cl_modelString :: string
  cl_server :: string
  cl_userRealName :: string

definition CClient_default :: CClient where
  "CClient_default = \<lparr>cl_callsign = CCallsign_default, cl_capabilities = 0, cl_swift = False, cl_modelString = [], cl_server = [],
     cl_userRealName = []\<rparr>"

definition CClient_callsign :: "CCallsign \<Rightarrow> string \<Rightarrow> CClient" where
  "CClient_callsign callsign modelString = CClient_default\<lparr>cl_callsign := callsign, cl_modelString := q_trimmed modelString\<rparr>"

definition client_isValid :: "CClient \<Rightarrow> bool" where
  "client_isValid c \<longleftrightarrow> \<not> isEmpty (cl_callsign c)"

definition hasCapability :: "32 word \<Rightarrow> CClient \<Rightarrow> bool" where
  "hasCapability k c \<longleftrightarrow> testFlag (cl_capabilities c) k"

definition addCapability :: "32 word \<Rightarrow> CClient \<Rightarrow> CClient" where
  "addCapability k c = c\<lparr>cl_capabilities := cl_capabilities c OR k\<rparr>"

definition removeCapability :: "32 word \<Rightarrow> CClient \<Rightarrow> CClient" where
  "removeCapability k c = c\<lparr>cl_capabilities := cl_capabilities c AND NOT k\<rparr>"

definition hasGndFlagCapability :: "CClient \<Rightarrow> bool" where
  "hasGndFlagCapability c \<longleftrightarrow> hasCapability FsdWithGroundFlag c"

definition getCapabilitiesAsString :: "CClient \<Rightarrow> string" where
  "getCapabilitiesAsString c = q_join '', ''
     ((if hasCapability FsdAtisCanBeReceived c then [''ATIS''] else []) @
      (if hasCapability FsdWithInterimPositions c then [''interim pos.''] else []) @
      (if hasCapability FsdWithIcaoCodes c then [''ICAO''] else []) @
      (if hasCapability FsdWithAircraftConfig c then [''aircraft config''] else []) @
      (if hasCapability FsdWithGroundFlag c then [''gnd.flag''] else []) @
      (if hasCapability FsdModelString c then [''modelstring''] else []) @
      (if hasCapability FsdWithVisualPositions c then [''visual pos.''] else []))"

definition setUserCallsign :: "CCallsign \<Rightarrow> CClient \<Rightarrow> CClient" where
  "setUserCallsign callsign c = (if callsign_eq (cl_callsign c) callsign then c else c\<lparr>cl_callsign := callsign\<rparr>)"

text \<open>The flag is set for a text that is not empty, even when trimming leaves nothing.\<close>

definition setQueriedModelString :: "string \<Rightarrow> CClient \<Rightarrow> CClient" where
  "setQueriedModelString modelString c =
     (let c = c\<lparr>cl_modelString := q_trimmed modelString\<rparr>
      in if modelString \<noteq> [] then addCapability FsdModelString c else c)"

text \<open>The properties the program updates by index. The model string set this way is not trimmed and sets no capability.\<close>

definition with_capabilities :: "32 word \<Rightarrow> CClient property_update" where
  "with_capabilities v = (\<lambda>c. c\<lparr>cl_capabilities := v\<rparr>, \<lambda>c. cl_capabilities c = v)"

definition with_server :: "string \<Rightarrow> CClient property_update" where
  "with_server v = (\<lambda>c. c\<lparr>cl_server := v\<rparr>, \<lambda>c. cl_server c = v)"

definition with_modelString :: "string \<Rightarrow> CClient property_update" where
  "with_modelString v = (\<lambda>c. c\<lparr>cl_modelString := v\<rparr>, \<lambda>c. cl_modelString c = v)"

text \<open>\<open>kept\<close> is what the user keeps of a name (\<open>CUser::setRealName\<close>); the old name is compared with the one given.\<close>

definition with_userRealName :: "(string \<Rightarrow> string) \<Rightarrow> string \<Rightarrow> CClient property_update" where
  "with_userRealName kept v = (\<lambda>c. c\<lparr>cl_userRealName := kept v\<rparr>, \<lambda>c. cl_userRealName c = v)"

subsection \<open>The provider\<close>

type_synonym clients = "string \<rightharpoonup> CClient"

definition hasClientInfo :: "CCallsign \<Rightarrow> clients \<Rightarrow> bool" where
  "hasClientInfo callsign m \<longleftrightarrow> \<not> isEmpty callsign \<and> m (asString callsign) \<noteq> None"

definition getClientOrDefaultForCallsign :: "CCallsign \<Rightarrow> clients \<Rightarrow> CClient" where
  "getClientOrDefaultForCallsign callsign m =
     (if isEmpty callsign then CClient_default
      else case m (asString callsign) of None \<Rightarrow> CClient_default | Some c \<Rightarrow> c)"

definition setClients :: "CClient list \<Rightarrow> clients" where
  "setClients cs = fold (\<lambda>c m. if isEmpty (cl_callsign c) then m else m(asString (cl_callsign c) \<mapsto> c)) cs Map.empty"

definition setOtherClient :: "CClient \<Rightarrow> clients \<Rightarrow> bool \<times> clients" where
  "setOtherClient c m =
     (if isEmpty (cl_callsign c) then (False, m) else (True, m(asString (cl_callsign c) \<mapsto> c)))"

definition addNewClient :: "CClient \<Rightarrow> clients \<Rightarrow> bool \<times> clients" where
  "addNewClient c m =
     (let callsign = cl_callsign c in
      if isEmpty callsign then (False, m)
      else if hasClientInfo callsign m then (False, m)
      else (True, m(asString callsign \<mapsto> c)))"

definition updateOrAddClient :: "CCallsign \<Rightarrow> CClient property_update list \<Rightarrow> bool \<Rightarrow> clients \<Rightarrow> int \<times> clients" where
  "updateOrAddClient callsign vm skipEqualValues m =
     (if isEmpty callsign then (0, m)
      else case m (asString callsign) of
          Some client \<Rightarrow> let (c, client) = apply_updates skipEqualValues vm client in (c, m(asString callsign \<mapsto> client))
        | None \<Rightarrow> let (c, client) = apply_updates False vm (CClient_callsign callsign []) in (c, m(asString callsign \<mapsto> client)))"

definition removeClient :: "CCallsign \<Rightarrow> clients \<Rightarrow> clients" where
  "removeClient callsign m = m(asString callsign := None)"

definition setClientGndCapability :: "CCallsign \<Rightarrow> bool \<Rightarrow> clients \<Rightarrow> bool \<times> clients" where
  "setClientGndCapability callsign supportGndFlag m =
     (if isEmpty callsign then (False, m)
      else let client = getClientOrDefaultForCallsign callsign m in
        if \<not> client_isValid client then (False, m)
        else if hasGndFlagCapability client = supportGndFlag then (True, m)
        else (True, m(asString callsign \<mapsto>
               (if supportGndFlag then addCapability FsdWithGroundFlag client else removeCapability FsdWithGroundFlag client))))"

definition addClientGndCapability :: "CCallsign \<Rightarrow> clients \<Rightarrow> bool \<times> clients" where
  "addClientGndCapability callsign m = setClientGndCapability callsign True m"

definition autoAdjustCientGndCapability :: "'a remote_situation_scheme \<Rightarrow> clients \<Rightarrow> bool \<times> clients" where
  "autoAdjustCientGndCapability s m =
     (if isEmpty (rs_callsign s) then (False, m)
      else if m_onGround s \<noteq> OnGround then (False, m)
      else if m_onGroundDetails s \<noteq> InFromNetwork then (False, m)
      else addClientGndCapability (rs_callsign s) m)"

definition markAsSwiftClient :: "CCallsign \<Rightarrow> clients \<Rightarrow> clients" where
  "markAsSwiftClient callsign m =
     (if isEmpty callsign then m
      else case m (asString callsign) of None \<Rightarrow> m | Some c \<Rightarrow> m(asString callsign \<mapsto> c\<lparr>cl_swift := True\<rparr>))"

subsection \<open>What holds of the map\<close>

text \<open>A client is kept under its own callsign, which is not empty.\<close>

definition clients_ok :: "clients \<Rightarrow> bool" where
  "clients_ok m \<longleftrightarrow> (\<forall>cs c. m cs = Some c \<longrightarrow> asString (cl_callsign c) = cs \<and> \<not> isEmpty (cl_callsign c))"

lemma clients_okI: "clients_ok m \<Longrightarrow> asString (cl_callsign c) = cs \<Longrightarrow> \<not> isEmpty (cl_callsign c) \<Longrightarrow> clients_ok (m(cs \<mapsto> c))"
  by (simp add: clients_ok_def)

lemma apply_callsign:
  assumes "\<forall>u\<in>set vm. \<forall>c. cl_callsign (fst u c) = cl_callsign c"
  shows "cl_callsign (snd (apply_updates skip vm c)) = cl_callsign c"
  using assms by (induction skip vm c rule: apply_updates.induct) (auto simp: case_prod_beta Let_def)

lemma capability_callsign [simp]:
  "cl_callsign (addCapability k c) = cl_callsign c" "cl_callsign (removeCapability k c) = cl_callsign c"
  by (simp_all add: addCapability_def removeCapability_def)

text \<open>Capabilities of single bits.\<close>

lemma added_capability: "k \<noteq> 0 \<Longrightarrow> hasCapability k (addCapability k c)"
  by (simp add: hasCapability_def addCapability_def testFlag_def bit_eq_iff bit_and_iff bit_or_iff)

lemma removed_capability: "k \<noteq> 0 \<Longrightarrow> \<not> hasCapability k (removeCapability k c)"
  by (auto simp: hasCapability_def removeCapability_def testFlag_def and.assoc)

lemma other_capability:
  assumes "k AND k' = 0" "k \<noteq> 0"
  shows "hasCapability k (addCapability k' c) = hasCapability k c"
proof -
  have "\<not> (bit k n \<and> bit k' n)" for n using assms(1) by (metis bit_and_iff bit_0_eq bot_apply bot_bool_def)
  then have "(cl_capabilities c OR k') AND k = cl_capabilities c AND k"
    by (auto simp: bit_eq_iff bit_and_iff bit_or_iff)
  then show ?thesis using assms(2) by (simp add: hasCapability_def addCapability_def testFlag_def)
qed

lemma clients_ops_ok:
  assumes "clients_ok m"
  shows "clients_ok (snd (setOtherClient c m))" "clients_ok (snd (addNewClient c m))" "clients_ok (removeClient callsign m)"
    "clients_ok (snd (setClientGndCapability callsign b m))" "clients_ok (snd (autoAdjustCientGndCapability s m))"
    "clients_ok (markAsSwiftClient callsign m)"
    "\<forall>u\<in>set vm. \<forall>c. cl_callsign (fst u c) = cl_callsign c \<Longrightarrow> clients_ok (snd (updateOrAddClient callsign vm skip m))"
proof -
  show "clients_ok (snd (setOtherClient c m))" "clients_ok (snd (addNewClient c m))" "clients_ok (removeClient callsign m)"
    "clients_ok (markAsSwiftClient callsign m)"
    using assms by (auto simp: setOtherClient_def addNewClient_def removeClient_def markAsSwiftClient_def clients_ok_def Let_def split: option.splits)
  have gnd: "clients_ok (snd (setClientGndCapability callsign b m))" for callsign b
    using assms by (auto simp: setClientGndCapability_def getClientOrDefaultForCallsign_def clients_ok_def client_isValid_def Let_def
      CClient_default_def isEmpty_def CCallsign_default_def split: option.splits)
  then show "clients_ok (snd (setClientGndCapability callsign b m))" "clients_ok (snd (autoAdjustCientGndCapability s m))"
    using assms by (simp_all add: autoAdjustCientGndCapability_def addClientGndCapability_def)
  assume vm: "\<forall>u\<in>set vm. \<forall>c. cl_callsign (fst u c) = cl_callsign c"
  show "clients_ok (snd (updateOrAddClient callsign vm skip m))"
    using assms apply_callsign [OF vm]
    by (auto simp: updateOrAddClient_def clients_ok_def case_prod_beta CClient_callsign_def Let_def split: option.splits)
qed

lemma update_callsigns [simp]:
  "cl_callsign (fst (with_capabilities v) c) = cl_callsign c" "cl_callsign (fst (with_server s) c) = cl_callsign c"
  "cl_callsign (fst (with_modelString s) c) = cl_callsign c" "cl_callsign (fst (with_userRealName kept s) c) = cl_callsign c"
  by (simp_all add: with_capabilities_def with_server_def with_modelString_def with_userRealName_def)

end
