(* ===== verification/AtcStations.thy ===== *)
theory AtcStations
  imports Clients
begin

section \<open>Stations of controllers\<close>

text \<open>
  \<open>CAtcStation\<close> and the lists of them (\<open>blackmisc/aviation/atcstation\<close>, \<open>atcstationlist\<close>): stations that are
  online and stations that are booked, and how the two are kept in step. Times are milliseconds,
  \<open>None\<close> where they are null; the ATIS is its text. The controller as a user, METARs, distances and bearings
  are not modelled.
\<close>

record CAtcStation = atc_station +
  m_isOnline :: bool
  m_bookedFromUtc :: "int option"
  m_bookedUntilUtc :: "int option"
  m_atis :: string

definition CAtcStation_default :: CAtcStation where
  "CAtcStation_default = \<lparr>st_callsign = CCallsign_default, st_frequency_kHz = 0, st_latitude = Fin 0, st_longitude = Fin 0,
     st_range_NM = 0, m_isOnline = False, m_bookedFromUtc = None, m_bookedUntilUtc = None, m_atis = []\<rparr>"

definition setOnline :: "bool \<Rightarrow> CAtcStation \<Rightarrow> bool \<times> CAtcStation" where
  "setOnline online s = (if online = m_isOnline s then (False, s) else (True, s\<lparr>m_isOnline := online\<rparr>))"

definition hasValidBookingTimes :: "CAtcStation \<Rightarrow> bool" where
  "hasValidBookingTimes s \<longleftrightarrow> m_bookedFromUtc s \<noteq> None \<and> m_bookedUntilUtc s \<noteq> None"

definition setBookedFromUntil :: "CAtcStation \<Rightarrow> CAtcStation \<Rightarrow> CAtcStation" where
  "setBookedFromUntil other s = s\<lparr>m_bookedFromUtc := m_bookedFromUtc other, m_bookedUntilUtc := m_bookedUntilUtc other\<rparr>"

definition isBookedNow :: "int \<Rightarrow> CAtcStation \<Rightarrow> bool" where
  "isBookedNow utc s =
     (case (m_bookedFromUtc s, m_bookedUntilUtc s) of
        (Some from_t, Some until_t) \<Rightarrow> \<not> from_t > utc \<and> \<not> utc > until_t
      | _ \<Rightarrow> False)"

text \<open>Milliseconds until a booking begins, less than 0 since one has ended.\<close>

definition bookedWhen :: "int \<Rightarrow> CAtcStation \<Rightarrow> int" where
  "bookedWhen utc s =
     (case (m_bookedFromUtc s, m_bookedUntilUtc s) of
        (Some from_t, Some until_t) \<Rightarrow> if from_t > utc then from_t - utc else if until_t > utc then 0 else - (utc - until_t)
      | _ \<Rightarrow> 0)"

text \<open>The station online and the booked one, both brought up to date from each other.\<close>

definition synchronizeWithBookedStation :: "int \<Rightarrow> CAtcStation \<Rightarrow> CAtcStation \<Rightarrow> CAtcStation \<times> CAtcStation" where
  "synchronizeWithBookedStation utc s booked =
     (if \<not> callsign_eq (st_callsign booked) (st_callsign s) then (s, booked)
      else
        let booked = (snd (setOnline True booked))\<lparr>st_frequency_kHz := st_frequency_kHz s\<rparr>;
            booked = (if m_bookedUntilUtc s \<noteq> None then booked\<lparr>m_bookedUntilUtc := m_bookedUntilUtc s\<rparr> else booked);
            copied = setBookedFromUntil booked s;
            booking = bookedWhen utc booked; mine = bookedWhen utc s;
            s = (if \<not> isBookedNow utc s \<and> hasValidBookingTimes booked
                 then if hasValidBookingTimes s
                      then if isBookedNow utc booked then copied
                           else if booking < 0 \<and> mine < 0 then (if booking > mine then copied else s)
                           else if booking > 0 \<and> mine > 0 then (if booking < mine then copied else s)
                           else if booking > 0 \<and> mine < 0 then copied
                           else s
                      else copied
                 else s)
        in (s, booked))"

subsection \<open>Lists\<close>

definition with_callsign :: "CCallsign \<Rightarrow> CAtcStation \<Rightarrow> bool" where
  "with_callsign callsign s \<longleftrightarrow> callsign_eq (st_callsign s) callsign"

definition containsCallsign :: "CCallsign \<Rightarrow> CAtcStation list \<Rightarrow> bool" where
  "containsCallsign callsign stations \<longleftrightarrow> list_ex (with_callsign callsign) stations"

definition removeStationByCallsign :: "CCallsign \<Rightarrow> CAtcStation list \<Rightarrow> CAtcStation list" where
  "removeStationByCallsign callsign stations = filter (\<lambda>s. \<not> with_callsign callsign s) stations"

definition findFirstByCallsign :: "CCallsign \<Rightarrow> CAtcStation list \<Rightarrow> CAtcStation" where
  "findFirstByCallsign callsign stations =
     (case filter (with_callsign callsign) stations of [] \<Rightarrow> CAtcStation_default | s # rest \<Rightarrow> s)"

fun applyIfCallsign ::
    "CCallsign \<Rightarrow> CAtcStation property_update list \<Rightarrow> bool \<Rightarrow> CAtcStation list \<Rightarrow> int \<times> CAtcStation list" where
  "applyIfCallsign callsign vm skipEqualValues [] = (0, [])"
| "applyIfCallsign callsign vm skipEqualValues (s # stations) =
     (let (c, stations) = applyIfCallsign callsign vm skipEqualValues stations in
      if with_callsign callsign s
      then let (changed, s) = apply_updates skipEqualValues vm s in (if changed > 0 then c + 1 else c, s # stations)
      else (c, s # stations))"

definition setOnline_list :: "CCallsign \<Rightarrow> bool \<Rightarrow> CAtcStation list \<Rightarrow> int \<times> CAtcStation list" where
  "setOnline_list callsign online stations =
     (int (length (filter (\<lambda>s. with_callsign callsign s \<and> fst (setOnline online s)) stations)),
      map (\<lambda>s. if with_callsign callsign s then snd (setOnline online s) else s) stations)"

text \<open>Only the first station of the callsign gets the message.\<close>

fun updateIfMessageChanged :: "string \<Rightarrow> CCallsign \<Rightarrow> CAtcStation list \<Rightarrow> bool \<times> CAtcStation list" where
  "updateIfMessageChanged atis callsign [] = (False, [])"
| "updateIfMessageChanged atis callsign (s # stations) =
     (if \<not> with_callsign callsign s
      then let (unequal, stations) = updateIfMessageChanged atis callsign stations in (unequal, s # stations)
      else (m_atis s \<noteq> atis, s\<lparr>m_atis := atis\<rparr> # stations))"

text \<open>The stations online and one booking; more than one station of its callsign is not expected.\<close>

fun synchronize_each :: "int \<Rightarrow> CAtcStation list \<Rightarrow> CAtcStation \<Rightarrow> int \<times> CAtcStation list \<times> CAtcStation" where
  "synchronize_each utc [] booked = (0, [], booked)"
| "synchronize_each utc (s # stations) booked =
     (if \<not> callsign_eq (st_callsign s) (st_callsign booked)
      then let (c, stations, booked) = synchronize_each utc stations booked in (c, s # stations, booked)
      else let (s, booked) = synchronizeWithBookedStation utc s booked;
               (c, stations, booked) = synchronize_each utc stations booked
           in (c + 1, s # stations, booked))"

definition synchronizeWithBookedStation_list ::
    "int \<Rightarrow> CAtcStation list \<Rightarrow> CAtcStation \<Rightarrow> fault + CAtcStation list \<times> CAtcStation" where
  "synchronizeWithBookedStation_list utc stations booked =
     (let booked = snd (setOnline False booked) in
      if stations = [] then Inr (stations, booked)
      else let (c, stations, booked) = synchronize_each utc stations booked
           in if c = 0 \<or> c = 1 then Inr (stations, booked) else Inl AssertFailed)"

subsection \<open>Stations with one callsign each\<close>

definition one_each :: "CAtcStation list \<Rightarrow> bool" where
  "one_each stations \<longleftrightarrow> sorted_wrt (\<lambda>a b. \<not> callsign_eq (st_callsign a) (st_callsign b)) stations"

lemma callsign_eq_iff: "callsign_eq a b \<longleftrightarrow> q_toLower (m_callsign a) = q_toLower (m_callsign b)"
  by (simp add: callsign_eq_def q_eq_nocase_def)

lemma one_each_callsigns:
  "map st_callsign stations' = map st_callsign stations \<Longrightarrow> one_each stations' = one_each stations"
proof -
  assume eq: "map st_callsign stations' = map st_callsign stations"
  have "one_each s \<longleftrightarrow> sorted_wrt (\<lambda>a b. \<not> callsign_eq a b) (map st_callsign s)" for s
    by (simp add: one_each_def sorted_wrt_map)
  with eq show ?thesis by simp
qed

lemma one_each_removed: "one_each stations \<Longrightarrow> one_each (removeStationByCallsign callsign stations)"
  by (simp add: one_each_def removeStationByCallsign_def sorted_wrt_filter)

lemma one_each_added: "one_each stations \<Longrightarrow> \<not> containsCallsign (st_callsign s) stations \<Longrightarrow> one_each (stations @ [s])"
  by (auto simp: one_each_def containsCallsign_def list_ex_iff with_callsign_def sorted_wrt_append)

lemma apply_station_callsign:
  assumes "\<forall>u\<in>set vm. \<forall>s. st_callsign (fst u s) = st_callsign s"
  shows "st_callsign (snd (apply_updates skip vm s)) = st_callsign s"
  using assms by (induction skip vm s rule: apply_updates.induct) (auto simp: case_prod_beta Let_def)

lemma applied_callsigns:
  "\<forall>u\<in>set vm. \<forall>s. st_callsign (fst u s) = st_callsign s \<Longrightarrow>
    map st_callsign (snd (applyIfCallsign callsign vm skip stations)) = map st_callsign stations"
  by (induction stations) (auto simp: case_prod_beta apply_station_callsign Let_def)

lemma online_callsigns [simp]: "st_callsign (snd (setOnline b s)) = st_callsign s"
  by (simp add: setOnline_def)

lemma online_list_callsigns [simp]: "map st_callsign (snd (setOnline_list callsign b stations)) = map st_callsign stations"
  by (simp add: setOnline_list_def)

lemma message_callsigns [simp]: "map st_callsign (snd (updateIfMessageChanged atis callsign stations)) = map st_callsign stations"
  by (induction stations) (auto simp: case_prod_beta Let_def)

lemma synchronized_callsigns [simp]:
  "st_callsign (fst (synchronizeWithBookedStation utc s booked)) = st_callsign s"
  "st_callsign (snd (synchronizeWithBookedStation utc s booked)) = st_callsign booked"
  by (auto simp: synchronizeWithBookedStation_def setBookedFromUntil_def Let_def)

lemma each_callsigns [simp]:
  "map st_callsign (fst (snd (synchronize_each utc stations booked))) = map st_callsign stations"
  "st_callsign (snd (snd (synchronize_each utc stations booked))) = st_callsign booked"
  by (induction stations arbitrary: booked) (simp_all add: case_prod_beta Let_def)

lemma each_count:
  "one_each stations \<Longrightarrow> fst (synchronize_each utc stations booked)
    = (if list_ex (\<lambda>s. callsign_eq (st_callsign s) (st_callsign booked)) stations then 1 else 0)"
proof (induction stations arbitrary: booked)
  case (Cons s stations)
  have none: "\<not> list_ex (\<lambda>s. callsign_eq (st_callsign s) (st_callsign booked)) stations" if "callsign_eq (st_callsign s) (st_callsign booked)"
    using Cons(2) that by (auto simp: one_each_def list_ex_iff callsign_eq_iff)
  have "one_each stations" using Cons(2) by (simp add: one_each_def)
  then show ?case using Cons(1) none
    by (cases "callsign_eq (st_callsign s) (st_callsign booked)") (simp_all add: case_prod_beta Let_def)
qed simp

lemma synchronized_list:
  assumes "one_each stations"
  shows "\<exists>stations' booked'. synchronizeWithBookedStation_list utc stations booked = Inr (stations', booked')
    \<and> map st_callsign stations' = map st_callsign stations \<and> st_callsign booked' = st_callsign booked"
proof -
  let ?b = "snd (setOnline False booked)"
  let ?r = "snd (synchronize_each utc stations ?b)"
  have "synchronizeWithBookedStation_list utc stations booked = Inr (if stations = [] then (stations, ?b) else ?r)"
    using each_count [OF assms, of utc ?b] by (simp add: synchronizeWithBookedStation_list_def case_prod_beta Let_def)
  moreover have "map st_callsign (fst ?r) = map st_callsign stations" "st_callsign (snd ?r) = st_callsign booked" by simp_all
  ultimately show ?thesis by (cases "stations = []"; cases ?r) auto
qed

end
