(* ===== verification/AirspaceMonitor.thy ===== *)
theory AirspaceMonitor
  imports AtcStations FsdClientReceive
begin

section \<open>The airspace monitor\<close>

text \<open>
  \<open>CAirspaceMonitor\<close> (\<open>blackcore/airspacemonitor\<close>): what is made of the client's signals. It is the provider of
  the remote aircraft and of the other clients, keeps the stations of controllers, asks the network for
  what it misses, and says when enough is known of an aircraft to look for its model. A record extends none
  of its parts: \<open>provider\<close>, \<open>m_clients\<close> and \<open>network\<close> are members. A single shot of a timer is kept with the time
  it is due. The texts of messages about the reverse lookup, voice capabilities and the controller of a station as a user are left out; so
  are the copies of a situation, distance and bearing in the aircraft itself.
\<close>

subsection \<open>State\<close>

text \<open>The flags of \<open>MatchingReadiness\<close>.\<close>

definition NotReady :: "32 word" where "NotReady = 0"
definition ReceivedIcaoCodes :: "32 word" where "ReceivedIcaoCodes = push_bit 0 1"
definition ReceivedFsInnPacket :: "32 word" where "ReceivedFsInnPacket = push_bit 1 1"
definition ReadyForMatchingSent :: "32 word" where "ReadyForMatchingSent = push_bit 2 1"
definition RecursiveCall :: "32 word" where "RecursiveCall = push_bit 3 1"
definition ReceivedAll :: "32 word" where "ReceivedAll = ReceivedIcaoCodes OR ReceivedFsInnPacket"
definition Verified :: "32 word" where "Verified = push_bit 4 1"

record Readiness =
  ts :: int
  readyness :: "32 word"

record FsInnPacket =
  fsi_aircraftIcaoDesignator :: string
  fsi_airlineIcaoDesignator :: string
  fsi_combinedCode :: string
  fsi_modelString :: string

text \<open>A flight plan as the client's signal gives it, with the time it came.\<close>

type_synonym loaded_flight_plan = "FlightPlan \<times> FlightRules \<times> string \<times> string \<times> string \<times> int"

datatype monitor_timer =
  CheckAgain CCallsign "32 word"
| VerifyIcao CCallsign
| ReInitialize simulated_aircraft bool

datatype monitor_event =
  changedAtcStationsOnline
| changedAtcStationsBooked
| changedAtcStationOnlineConnectionStatus CAtcStation bool
| requestedNewAircraft CCallsign string string string
| readyForModelMatching simulated_aircraft
| changedAtisReceived CCallsign
| requestElevation CCallsign

record ('a, 'b, 'au) airspace_monitor =
  provider :: "('a, 'b) remote_aircraft_provider"
  m_clients :: clients
  network :: "'au fsd_client"
  m_atcStationsOnline :: "CAtcStation list"
  m_atcStationsBooked :: "CAtcStation list"
  m_tempFsInnPackets :: "string \<rightharpoonup> FsInnPacket"
  m_flightPlanCache :: "string \<rightharpoonup> loaded_flight_plan"
  m_readiness :: "string \<rightharpoonup> Readiness"
  m_queryAtis :: "CCallsign list"
  m_queryPilot :: "CCallsign list"
  m_bookingsRequested :: bool
  m_maxDistanceNM :: int
  m_maxDistanceNMHysteresis :: int
  m_foundInNonMovingAircraft :: int
  m_foundInElevationsOnGnd :: int
  single_shots :: "(int \<times> monitor_timer) list"
  monitor_events :: "monitor_event list"

definition MMCheckAgainMs :: int where "MMCheckAgainMs = 2000"
definition MMMaxAgeMs :: int where "MMMaxAgeMs = MMCheckAgainMs * 3"
definition MMMaxAgeThresholdMs :: int where "MMMaxAgeThresholdMs = MMCheckAgainMs * 10"
definition MMVerifyMs :: int where "MMVerifyMs = MMCheckAgainMs * 12"
definition FastProcessIntervalMs :: int where "FastProcessIntervalMs = 50"
definition SlowProcessIntervalMs :: int where "SlowProcessIntervalMs = 125 * 1000"

text \<open>qRound(1.1 * 125)\<close>

definition hysteresis :: "int \<Rightarrow> int" where
  "hysteresis rIntNM = qRound (d_mul (mk_double (11 / 10)) (d_of_int rIntNM))"

definition CAirspaceMonitor :: "'au fsd_client \<Rightarrow> bool \<Rightarrow> ('a, 'b, 'au) airspace_monitor" where
  "CAirspaceMonitor fsdClient developer =
     \<lparr>provider = enableReverseLookupMessages (if developer then 1 else 3) CRemoteAircraftProvider, m_clients = Map.empty,
      network = fsdClient, m_atcStationsOnline = [], m_atcStationsBooked = [], m_tempFsInnPackets = Map.empty,
      m_flightPlanCache = Map.empty, m_readiness = Map.empty, m_queryAtis = [], m_queryPilot = [],
      m_bookingsRequested = False, m_maxDistanceNM = 125, m_maxDistanceNMHysteresis = hysteresis 125,
      m_foundInNonMovingAircraft = 0, m_foundInElevationsOnGnd = 0, single_shots = [], monitor_events = []\<rparr>"

definition report :: "monitor_event \<Rightarrow> ('a, 'b, 'au) airspace_monitor \<Rightarrow> ('a, 'b, 'au) airspace_monitor" where
  "report e m = m\<lparr>monitor_events := monitor_events m @ [e]\<rparr>"

definition on_network :: "('au fsd_client \<Rightarrow> 'au fsd_client) \<Rightarrow> ('a, 'b, 'au) airspace_monitor \<Rightarrow> ('a, 'b, 'au) airspace_monitor" where
  "on_network f m = m\<lparr>network := f (network m)\<rparr>"

definition on_provider ::
    "(('a, 'b) remote_aircraft_provider \<Rightarrow> ('a, 'b) remote_aircraft_provider) \<Rightarrow> ('a, 'b, 'au) airspace_monitor
      \<Rightarrow> ('a, 'b, 'au) airspace_monitor" where
  "on_provider f m = m\<lparr>provider := f (provider m)\<rparr>"

definition try_provider ::
    "(('a, 'b) remote_aircraft_provider \<Rightarrow> fault + 'r \<times> ('a, 'b) remote_aircraft_provider) \<Rightarrow> ('a, 'b, 'au) airspace_monitor
      \<Rightarrow> fault + 'r \<times> ('a, 'b, 'au) airspace_monitor" where
  "try_provider f m = and_then (f (provider m)) (\<lambda>(r, p). Inr (r, m\<lparr>provider := p\<rparr>))"

definition on_clients :: "(clients \<Rightarrow> clients) \<Rightarrow> ('a, 'b, 'au) airspace_monitor \<Rightarrow> ('a, 'b, 'au) airspace_monitor" where
  "on_clients f m = m\<lparr>m_clients := f (m_clients m)\<rparr>"

definition single_shot :: "int \<Rightarrow> monitor_timer \<Rightarrow> ('a, 'b, 'au) airspace_monitor \<Rightarrow> ('a, 'b, 'au) airspace_monitor" where
  "single_shot due what m = m\<lparr>single_shots := single_shots m @ [(due, what)]\<rparr>"

subsection \<open>Surroundings\<close>

text \<open>A piece of terrain, and what is known to be better than what about it.\<close>

record elevation_plane =
  ep_latitude :: double
  ep_longitude :: double
  ep_altitude_ft :: double
  ep_radius_ft :: double

datatype GndElevationInfo = NoElevationInfo | ElevationInfo_Test | ElevationInfo_SituationChange | Extrapolated | Average
  | ElevationInfo_Interpolated | FromCache | FromProvider

text \<open>
  The environments of the client and of the provider; the application and its services (the data file,
  the database, the matcher with its settings, the simulator); what is computed from the geometry of a
  situation, whose members the client's situations give. \<open>hashOrder\<close> is the order in which a hash gives its keys.
 \<open>keptRealName\<close> is
  what \<open>CUser::setRealName\<close> keeps of a name (without accents, a home base at its end).
\<close>

record ('a, 'b, 'au) monitor_environment =
  fsd_env :: "'au environment"
  prov_env :: "('a, 'b) provider_environment"
  isShuttingDown :: bool
  observerLogin :: bool
  utcDay :: int
  hashOrder :: "(string \<rightharpoonup> simulated_aircraft) \<Rightarrow> string list"
  reverseLookup :: "CCallsign \<Rightarrow> string \<Rightarrow> string \<Rightarrow> string \<Rightarrow> string \<Rightarrow> string \<Rightarrow> aircraft_model"
  updateMissingParts :: "aircraft_model \<Rightarrow> aircraft_model \<Rightarrow> aircraft_model"
  isReverseLookupModelString :: bool
  isKnownModelString :: "string \<Rightarrow> bool"
  hasVatsimDataFileReader :: bool
  flightPlanRemarksInDataFile :: "CCallsign \<Rightarrow> string"
  updateWithVatsimDataFileData :: "simulated_aircraft \<Rightarrow> simulated_aircraft"
  stationInDataFile :: "CCallsign \<Rightarrow> CAtcStation"
  modelForModelString :: "string \<Rightarrow> aircraft_model"
  simulatorOrDbCG :: "CCallsign \<Rightarrow> double option \<Rightarrow> double option"
  sameFrequency :: "double \<Rightarrow> double \<Rightarrow> bool"
  keptRealName :: "string \<Rightarrow> string"
  situationGeometry :: "situation \<Rightarrow> 'a"
  isNullSituation :: "'a remote_situation_scheme \<Rightarrow> bool"
  distanceToOwn_NM :: "'a remote_situation_scheme \<Rightarrow> int"
  equalNormalVector :: "'a remote_situation_scheme \<Rightarrow> 'a remote_situation_scheme \<Rightarrow> bool"
  withGroundSpeedOf :: "'a remote_situation_scheme \<Rightarrow> 'a remote_situation_scheme \<Rightarrow> 'a remote_situation_scheme"
  groundSpeed_kts :: "'a remote_situation_scheme \<Rightarrow> double"
  fasterThanRotating :: "aircraft_model \<Rightarrow> 'a remote_situation_scheme \<Rightarrow> bool"
  isMoving :: "'a remote_situation_scheme \<Rightarrow> bool"
  canLikelySkipNearGround :: "'a remote_situation_scheme \<Rightarrow> bool"
  getGroundElevation :: "'a remote_situation_scheme \<Rightarrow> elevation_plane option"
  setGroundElevation :: "elevation_plane option \<Rightarrow> GndElevationInfo \<Rightarrow> 'a remote_situation_scheme \<Rightarrow> 'a remote_situation_scheme"
  otherElevationInfoBetter :: "GndElevationInfo \<Rightarrow> 'a remote_situation_scheme \<Rightarrow> bool"
  resetGroundElevation :: "'a remote_situation_scheme \<Rightarrow> 'a remote_situation_scheme"
  transferClosestElevation :: "'a remote_situation_scheme list \<Rightarrow> 'a remote_situation_scheme \<Rightarrow> 'a remote_situation_scheme option"
  transferElevation :: "'a remote_situation_scheme \<Rightarrow> 'a remote_situation_scheme \<Rightarrow> 'a remote_situation_scheme option"
  closestElevationInCache :: "'a remote_situation_scheme \<Rightarrow> elevation_plane option"
  averageElevationOnGround :: "'a remote_situation_scheme \<Rightarrow> elevation_plane option"
  averageElevationNonMoving :: "('a, 'b) remote_aircraft_provider \<Rightarrow> 'a remote_situation_scheme \<Rightarrow> elevation_plane option"
  isNullChange :: "'b situation_change_scheme \<Rightarrow> bool"
  isConstAscending :: "'b situation_change_scheme \<Rightarrow> bool"
  steadyOnGround :: "'b situation_change_scheme \<Rightarrow> bool"
  withinAltitudeDeviation :: "'a remote_situation_scheme \<Rightarrow> 'a remote_situation_scheme \<Rightarrow> bool"

definition clock :: "('a, 'b, 'au) monitor_environment \<Rightarrow> int" where
  "clock env = now (fsd_env env)"

definition monitor_isConnected :: "('a, 'b, 'au) airspace_monitor \<Rightarrow> bool" where
  "monitor_isConnected m \<longleftrightarrow> m_connectionStatus (network m) = Connected"

definition isConnectedAndNotShuttingDown :: "('a, 'b, 'au) monitor_environment \<Rightarrow> ('a, 'b, 'au) airspace_monitor \<Rightarrow> bool" where
  "isConnectedAndNotShuttingDown env m \<longleftrightarrow> \<not> isShuttingDown env \<and> monitor_isConnected m"

definition connectedToVatsim :: "('a, 'b, 'au) airspace_monitor \<Rightarrow> bool" where
  "connectedToVatsim m \<longleftrightarrow> monitor_isConnected m \<and> srv_ecosystem (m_server (network m)) = System_VATSIM"

definition isCopilotAircraft :: "('a, 'b, 'au) monitor_environment \<Rightarrow> CCallsign \<Rightarrow> bool" where
  "isCopilotAircraft env callsign \<longleftrightarrow>
     \<not> isShuttingDown env \<and> observerLogin env \<and> isMaybeCopilotCallsign (own_callsign (own (fsd_env env))) callsign"

subsection \<open>Readiness\<close>

definition Readiness_default :: Readiness where
  "Readiness_default = \<lparr>ts = - 1, readyness = NotReady\<rparr>"

definition addFlag :: "int \<Rightarrow> 32 word \<Rightarrow> Readiness \<Rightarrow> Readiness" where
  "addFlag t flag r =
     (if flag = RecursiveCall then r
      else \<lparr>ts = (if ts r < 0 then t else ts r), readyness = readyness r OR flag\<rparr>)"

definition setFlag :: "int \<Rightarrow> 32 word \<Rightarrow> Readiness \<Rightarrow> Readiness" where
  "setFlag t flag r = (if flag = RecursiveCall then r else addFlag t flag (r\<lparr>readyness := NotReady\<rparr>))"

definition receivedIcaoCodes :: "Readiness \<Rightarrow> bool" where
  "receivedIcaoCodes r \<longleftrightarrow> testFlag (readyness r) ReceivedIcaoCodes"

definition receivedAll :: "Readiness \<Rightarrow> bool" where
  "receivedAll r \<longleftrightarrow> testFlag (readyness r) ReceivedIcaoCodes \<and> testFlag (readyness r) ReceivedFsInnPacket"

definition wasMatchingSent :: "Readiness \<Rightarrow> bool" where
  "wasMatchingSent r \<longleftrightarrow> testFlag (readyness r) ReadyForMatchingSent"

definition wasVerified :: "Readiness \<Rightarrow> bool" where
  "wasVerified r \<longleftrightarrow> testFlag (readyness r) Verified"

definition getAgeMs :: "int \<Rightarrow> Readiness \<Rightarrow> int" where
  "getAgeMs t r = (if ts r < 0 then - 1 else c_int64 (t - ts r))"

definition readiness_of :: "CCallsign \<Rightarrow> ('a, 'b, 'au) airspace_monitor \<Rightarrow> Readiness" where
  "readiness_of callsign m = (case m_readiness m (asString callsign) of None \<Rightarrow> Readiness_default | Some r \<Rightarrow> r)"

definition set_readiness :: "CCallsign \<Rightarrow> Readiness \<Rightarrow> ('a, 'b, 'au) airspace_monitor \<Rightarrow> ('a, 'b, 'au) airspace_monitor" where
  "set_readiness callsign r m = m\<lparr>m_readiness := (m_readiness m)(asString callsign \<mapsto> r)\<rparr>"

definition addMatchingReadinessFlag ::
    "int \<Rightarrow> CCallsign \<Rightarrow> 32 word \<Rightarrow> ('a, 'b, 'au) airspace_monitor \<Rightarrow> ('a, 'b, 'au) airspace_monitor" where
  "addMatchingReadinessFlag t callsign mrf m = set_readiness callsign (addFlag t mrf (readiness_of callsign m)) m"

definition enumFlagToString :: "32 word \<Rightarrow> string" where
  "enumFlagToString r =
     (if r = NotReady then ''not ready'' else if r = ReceivedIcaoCodes then ''rec. ICAO''
      else if r = ReceivedFsInnPacket then ''rec. FsInn'' else if r = ReadyForMatchingSent then ''ready sent''
      else if r = RecursiveCall then ''recursive'' else ''????'')"

definition enumToString :: "32 word \<Rightarrow> string" where
  "enumToString r = q_join '', '' (map enumFlagToString
     (filter (testFlag r) [NotReady, ReceivedIcaoCodes, ReceivedFsInnPacket, ReadyForMatchingSent, RecursiveCall]))"

subsection \<open>Queries\<close>

definition sendInitialAtcQueries ::
    "('a, 'b, 'au) monitor_environment \<Rightarrow> CCallsign \<Rightarrow> ('a, 'b, 'au) airspace_monitor \<Rightarrow> ('a, 'b, 'au) airspace_monitor" where
  "sendInitialAtcQueries env callsign m =
     (if \<not> isConnectedAndNotShuttingDown env m then m
      else let e = fsd_env env in
        on_network (sendClientQueryServer e callsign \<circ> sendClientQueryCapabilities e callsign \<circ> sendClientQueryAtis e callsign
          \<circ> sendClientQueryRealName e callsign) m)"

definition sendInitialPilotQueries ::
    "('a, 'b, 'au) monitor_environment \<Rightarrow> CCallsign \<Rightarrow> bool \<Rightarrow> bool \<Rightarrow> ('a, 'b, 'au) airspace_monitor \<Rightarrow> ('a, 'b, 'au) airspace_monitor" where
  "sendInitialPilotQueries env callsign withIcaoQuery withFsInn m =
     (if \<not> isConnectedAndNotShuttingDown env m then m
      else let e = fsd_env env;
               m = (if withIcaoQuery then on_network (sendPlaneInfoRequest e callsign) m else m);
               m = (if withFsInn then on_network (sendPlaneInfoRequestFsinn e callsign) m else m) in
        on_network (sendClientQueryServer e callsign \<circ> sendClientQueryCapabilities e callsign \<circ> sendClientQueryRealName e callsign
          \<circ> sendClientQueryCom1Freq e callsign) m)"

definition queryAllOnlineAtcStations ::
    "('a, 'b, 'au) monitor_environment \<Rightarrow> ('a, 'b, 'au) airspace_monitor \<Rightarrow> ('a, 'b, 'au) airspace_monitor" where
  "queryAllOnlineAtcStations env m =
     (if \<not> isConnectedAndNotShuttingDown env m then m
      else fold (\<lambda>station m. if isEmpty (st_callsign station) then m
                   else on_network (sendClientQueryRealName (fsd_env env) (st_callsign station)) m) (m_atcStationsOnline m) m)"

definition sendNextStaggeredAtisQuery ::
    "('a, 'b, 'au) monitor_environment \<Rightarrow> ('a, 'b, 'au) airspace_monitor \<Rightarrow> bool \<times> ('a, 'b, 'au) airspace_monitor" where
  "sendNextStaggeredAtisQuery env m =
     (case m_queryAtis m of
        [] \<Rightarrow> (False, m)
      | cs # queue \<Rightarrow>
          if \<not> isConnectedAndNotShuttingDown env m then (False, m)
          else let m = m\<lparr>m_queryAtis := queue\<rparr> in
            if \<not> containsCallsign cs (m_atcStationsOnline m) then (False, m)
            else (True, on_network (sendClientQueryAtis (fsd_env env) cs) m))"

definition sendNextStaggeredPilotDataQuery ::
    "('a, 'b, 'au) monitor_environment \<Rightarrow> ('a, 'b, 'au) airspace_monitor \<Rightarrow> bool \<times> ('a, 'b, 'au) airspace_monitor" where
  "sendNextStaggeredPilotDataQuery env m =
     (case m_queryPilot m of
        [] \<Rightarrow> (False, m)
      | cs # queue \<Rightarrow>
          if \<not> isConnectedAndNotShuttingDown env m then (False, m)
          else let m = m\<lparr>m_queryPilot := queue\<rparr> in
            if \<not> is_in_range cs (provider m) then (False, m)
            else let m = on_network (sendClientQueryCom1Freq (fsd_env env) cs) m in
              (True, if mdl_aircraftIcao (a_model (getAircraftInRangeForCallsign cs (provider m))) = []
                     then on_network (sendPlaneInfoRequest (fsd_env env) cs) m else m))"

definition fastProcessing :: "('a, 'b, 'au) monitor_environment \<Rightarrow> ('a, 'b, 'au) airspace_monitor \<Rightarrow> ('a, 'b, 'au) airspace_monitor" where
  "fastProcessing env m =
     (if \<not> isConnectedAndNotShuttingDown env m then m
      else let (send, m) = sendNextStaggeredAtisQuery env m
           in if send then m else snd (sendNextStaggeredPilotDataQuery env m))"

definition slowProcessing :: "('a, 'b, 'au) monitor_environment \<Rightarrow> ('a, 'b, 'au) airspace_monitor \<Rightarrow> ('a, 'b, 'au) airspace_monitor" where
  "slowProcessing env m = (if \<not> isConnectedAndNotShuttingDown env m then m else queryAllOnlineAtcStations env m)"

definition getAircraftInRange :: "('a, 'b, 'au) monitor_environment \<Rightarrow> ('a, 'b, 'au) airspace_monitor \<Rightarrow> simulated_aircraft list" where
  "getAircraftInRange env m =
     (let aircraft = m_aircraftInRange (provider m) in List.map_filter aircraft (hashOrder env aircraft))"

text \<open>A queue takes a callsign it does not hold.\<close>

definition enqueue_callsign :: "CCallsign \<Rightarrow> CCallsign list \<Rightarrow> CCallsign list" where
  "enqueue_callsign cs queue = (if list_ex (callsign_eq cs) queue then queue else queue @ [cs])"

definition requestAircraftDataUpdates ::
    "('a, 'b, 'au) monitor_environment \<Rightarrow> ('a, 'b, 'au) airspace_monitor \<Rightarrow> ('a, 'b, 'au) airspace_monitor" where
  "requestAircraftDataUpdates env m =
     (if \<not> isConnectedAndNotShuttingDown env m then m
      else m\<lparr>m_queryPilot := fold enqueue_callsign (map a_callsign (getAircraftInRange env m)) (m_queryPilot m)\<rparr>)"

definition requestAtisUpdates :: "('a, 'b, 'au) monitor_environment \<Rightarrow> ('a, 'b, 'au) airspace_monitor \<Rightarrow> ('a, 'b, 'au) airspace_monitor" where
  "requestAtisUpdates env m =
     (if \<not> isConnectedAndNotShuttingDown env m then m
      else m\<lparr>m_queryAtis := fold enqueue_callsign (map st_callsign (m_atcStationsOnline m)) (m_queryAtis m)\<rparr>)"

definition requestAtcBookingsUpdate :: "('a, 'b, 'au) monitor_environment \<Rightarrow> ('a, 'b, 'au) airspace_monitor \<Rightarrow> ('a, 'b, 'au) airspace_monitor" where
  "requestAtcBookingsUpdate env m = (if isShuttingDown env then m else m\<lparr>m_bookingsRequested := True\<rparr>)"

end
