(* ===== verification/AirspaceMonitorReceive.thy ===== *)
theory AirspaceMonitorReceive
  imports AirspaceMonitor
begin

section \<open>What the airspace monitor receives\<close>

text \<open>
  The handlers of the client's signals in \<open>blackcore/airspacemonitor.cpp\<close>: aircraft that come and go, their
  situations and parts, the readiness for matching a model, clients, controllers and their bookings.
\<close>

subsection \<open>Ready for matching\<close>

text \<open>Whether everything that can be expected of an aircraft is there.\<close>

definition matching_complete :: "CCallsign \<Rightarrow> ('a, 'b, 'au) airspace_monitor \<Rightarrow> bool" where
  "matching_complete callsign m \<longleftrightarrow>
     (let remoteAircraft = getAircraftInRangeForCallsign callsign (provider m) in
      isValidAircraftCallsign (asString (a_callsign remoteAircraft))
      \<and> remoteAircraftSituationsCount callsign (provider m) > 1
      \<and> (receivedAll (readiness_of callsign m) \<or> mdl_modelString (a_model remoteAircraft) \<noteq> []))"

definition sendReadyForModelMatching ::
    "('a, 'b, 'au) monitor_environment \<Rightarrow> CCallsign \<Rightarrow> 32 word \<Rightarrow> ('a, 'b, 'au) airspace_monitor \<Rightarrow> fault + ('a, 'b, 'au) airspace_monitor" where
  "sendReadyForModelMatching env callsign rf m =
     (if \<not> isConnectedAndNotShuttingDown env m then Inr m
      else if isEmpty callsign then Inl AssertFailed
      else
        let m = addMatchingReadinessFlag (clock env) callsign rf m;
            readiness = readiness_of callsign m;
            ageMs = getAgeMs (clock env) readiness in
        if wasMatchingSent readiness \<and> ageMs < MMMaxAgeThresholdMs then Inr m
        else
          let remoteAircraft = getAircraftInRangeForCallsign callsign (provider m);
              validRemoteCs = isValidAircraftCallsign (asString (a_callsign remoteAircraft)) in
          if rf \<noteq> Verified \<and> validRemoteCs \<and> ageMs \<le> MMMaxAgeMs \<and> \<not> matching_complete callsign m
          then Inr (single_shot (clock env + MMCheckAgainMs) (CheckAgain callsign rf) m)
          else if validRemoteCs
          then Inr (report (readyForModelMatching remoteAircraft)
                 (set_readiness callsign (setFlag (clock env) ReadyForMatchingSent readiness) m))
          else Inr (m\<lparr>m_readiness := (m_readiness m)(asString callsign := None)\<rparr>))"

definition verifyReceivedIcaoData ::
    "('a, 'b, 'au) monitor_environment \<Rightarrow> CCallsign \<Rightarrow> ('a, 'b, 'au) airspace_monitor \<Rightarrow> fault + ('a, 'b, 'au) airspace_monitor" where
  "verifyReceivedIcaoData env callsign m =
     (if isEmpty callsign \<or> \<not> is_in_range callsign (provider m) then Inr m
      else
        let readiness = readiness_of callsign m;
            m = set_readiness callsign readiness m in
        if wasMatchingSent readiness then Inr m
        else if wasVerified readiness then sendReadyForModelMatching env callsign Verified m
        else
          let m = set_readiness callsign (addFlag (clock env) Verified readiness) m in
          if \<not> receivedIcaoCodes readiness
          then Inr (single_shot (clock env + MMVerifyMs) (VerifyIcao callsign) (sendInitialPilotQueries env callsign True True m))
          else sendReadyForModelMatching env callsign Verified m)"

subsection \<open>Models\<close>

text \<open>The ids a livery string of another pilot gives, each \<open>None\<close> where it is not there.\<close>

record DBTripleIds =
  ids_model :: "int option"
  ids_livery :: "int option"
  ids_aircraft :: "int option"

definition DBTripleIds_none :: DBTripleIds where
  "DBTripleIds_none = \<lparr>ids_model = None, ids_livery = None, ids_aircraft = None\<rparr>"

definition hasAnyId :: "DBTripleIds \<Rightarrow> bool" where
  "hasAnyId ids \<longleftrightarrow> ids_model ids \<noteq> None \<or> ids_livery ids \<noteq> None \<or> ids_aircraft ids \<noteq> None"

definition liveryStringPrefix :: string where "liveryStringPrefix = ''swift_''"

definition isSwiftLiveryString :: "string \<Rightarrow> bool" where
  "isSwiftLiveryString liveryString \<longleftrightarrow>
     length liveryString > length liveryStringPrefix
     \<and> q_eq_nocase (take (length liveryStringPrefix) liveryString) liveryStringPrefix"

text \<open>The string of a model with the given ids, \<open>None\<close> where a key is not valid.\<close>

definition getSwiftLiveryString :: "bool \<Rightarrow> bool \<Rightarrow> bool \<Rightarrow> DBTripleIds \<Rightarrow> string" where
  "getSwiftLiveryString aircraftIcao livery model ids =
     (if \<not> aircraftIcao \<and> \<not> livery \<and> \<not> model then []
      else
        let key = (\<lambda>wanted c i. case i of Some n \<Rightarrow> if wanted then c # q_number n else [] | None \<Rightarrow> []);
            l = key livery (CHR ''l'') (ids_livery ids) @ key aircraftIcao (CHR ''a'') (ids_aircraft ids)
                  @ key model (CHR ''m'') (ids_model ids)
        in if l = [] then [] else liveryStringPrefix @ l)"

definition set_id :: "char \<Rightarrow> int \<Rightarrow> DBTripleIds \<Rightarrow> DBTripleIds" where
  "set_id m n ids =
     (if m = CHR ''m'' then ids\<lparr>ids_model := Some n\<rparr> else if m = CHR ''a'' then ids\<lparr>ids_aircraft := Some n\<rparr>
      else ids\<lparr>ids_livery := Some n\<rparr>)"

function parse_ids :: "string \<Rightarrow> DBTripleIds \<Rightarrow> DBTripleIds" where
  "parse_ids [] ids = ids"
| "parse_ids (m # ls) ids =
     (let digits = takeWhile is_digit ls in
      if (m = CHR ''m'' \<or> m = CHR ''a'' \<or> m = CHR ''l'') \<and> digits \<noteq> []
      then parse_ids (drop (length digits) ls) (set_id m (q_toInt digits) ids)
      else parse_ids ls ids)"
  by pat_completeness auto
termination by (relation "measure (length \<circ> fst)") (auto simp: Let_def)

definition parseNetworkLiveryString :: "string \<Rightarrow> DBTripleIds" where
  "parseNetworkLiveryString liveryString =
     (if \<not> isSwiftLiveryString liveryString then DBTripleIds_none
      else parse_ids (q_toLower (drop (length liveryStringPrefix) liveryString)) DBTripleIds_none)"

text \<open>The data file is asked only of VATSIM.\<close>

definition tryToGetFlightPlanRemarks ::
    "('a, 'b, 'au) monitor_environment \<Rightarrow> CCallsign \<Rightarrow> ('a, 'b, 'au) airspace_monitor \<Rightarrow> string" where
  "tryToGetFlightPlanRemarks env callsign m =
     (if isEmpty callsign then []
      else case m_flightPlanCache m (asString callsign) of
          Some (plan, _) \<Rightarrow> FlightPlan_m_remarks plan
        | None \<Rightarrow> if hasVatsimDataFileReader env \<and> connectedToVatsim m then flightPlanRemarksInDataFile env callsign else [])"

definition reverseLookupModelWithFlightplanData ::
    "('a, 'b, 'au) monitor_environment \<Rightarrow> CCallsign \<Rightarrow> string \<Rightarrow> string \<Rightarrow> string \<Rightarrow> string \<Rightarrow> ('a, 'b, 'au) airspace_monitor
      \<Rightarrow> aircraft_model \<times> ('a, 'b, 'au) airspace_monitor" where
  "reverseLookupModelWithFlightplanData env callsign aircraftIcao airlineIcao livery modelString m =
     (let m = (if hasAnyId (parseNetworkLiveryString livery) then on_clients (markAsSwiftClient callsign) m else m)
      in (reverseLookup env callsign aircraftIcao airlineIcao livery modelString (tryToGetFlightPlanRemarks env callsign m), m))"

definition addOrUpdateAircraftInRange ::
    "('a, 'b, 'au) monitor_environment \<Rightarrow> CCallsign \<Rightarrow> string \<Rightarrow> string \<Rightarrow> string \<Rightarrow> string \<Rightarrow> ('a, 'b, 'au) airspace_monitor
      \<Rightarrow> fault + ('a, 'b, 'au) airspace_monitor" where
  "addOrUpdateAircraftInRange env callsign aircraftIcao airlineIcao livery modelString m =
     (let aircraft = getAircraftInRangeForCallsign callsign (provider m) in
      if isValidAircraftCallsign (asString (a_callsign aircraft)) \<and> \<not> mdl_hasValidDbKey (a_model aircraft)
      then
        let (model, m) = reverseLookupModelWithFlightplanData env callsign aircraftIcao airlineIcao livery modelString m;
            model = updateMissingParts env model (a_model aircraft)
        in and_then (try_provider (updateAircraftModel callsign model) m) (\<lambda>(_, m).
           and_then (try_provider (updateAircraftNetworkModel callsign model) m) (\<lambda>(_, m). Inr m))
      else Inr m)"

subsection \<open>ICAO codes and FsInn packets\<close>

definition FsInnPacket_cstr :: "string \<Rightarrow> string \<Rightarrow> string \<Rightarrow> string \<Rightarrow> FsInnPacket" where
  "FsInnPacket_cstr aircraftIcaoDesignator airlineIcaoDesignator combinedCode modelString =
     \<lparr>fsi_aircraftIcaoDesignator = q_toUpper (q_trimmed aircraftIcaoDesignator),
      fsi_airlineIcaoDesignator = q_toUpper (q_trimmed airlineIcaoDesignator),
      fsi_combinedCode = q_toUpper (q_trimmed combinedCode), fsi_modelString = q_trimmed modelString\<rparr>"

definition onCustomFSInnPacketReceived ::
    "('a, 'b, 'au) monitor_environment \<Rightarrow> CCallsign \<Rightarrow> string \<Rightarrow> string \<Rightarrow> string \<Rightarrow> string \<Rightarrow> ('a, 'b, 'au) airspace_monitor
      \<Rightarrow> fault + ('a, 'b, 'au) airspace_monitor" where
  "onCustomFSInnPacketReceived env callsign airlineIcaoDesignator aircraftIcaoDesignator combinedAircraftType modelString m =
     (if \<not> callsign_isValid callsign then Inr m
      else if \<not> isConnectedAndNotShuttingDown env m then Inr m
      else
        let isAircraft = is_in_range callsign (provider m);
            isAtc = containsCallsign callsign (m_atcStationsOnline m) in
        if \<not> isAircraft \<and> \<not> isAtc
        then Inr (m\<lparr>m_tempFsInnPackets := (m_tempFsInnPackets m)(asString callsign \<mapsto>
               FsInnPacket_cstr aircraftIcaoDesignator airlineIcaoDesignator combinedAircraftType modelString)\<rparr>)
        else
          let m = on_clients (\<lambda>cs. snd (updateOrAddClient callsign [with_modelString modelString] True cs)) m in
          if \<not> isAircraft then Inr m
          else
            let m = addMatchingReadinessFlag (clock env) callsign ReceivedFsInnPacket m;
                usedModelString = (if modelString \<noteq> [] \<and> \<not> isReverseLookupModelString env then []
                                   else if \<not> isKnownModelString env modelString then [] else modelString)
            in and_then (if usedModelString = [] then Inr m
                 else addOrUpdateAircraftInRange env callsign aircraftIcaoDesignator airlineIcaoDesignator [] usedModelString m)
               (sendReadyForModelMatching env callsign ReceivedFsInnPacket))"

definition recallFsInnPacket ::
    "('a, 'b, 'au) monitor_environment \<Rightarrow> CCallsign \<Rightarrow> ('a, 'b, 'au) airspace_monitor \<Rightarrow> fault + bool \<times> ('a, 'b, 'au) airspace_monitor" where
  "recallFsInnPacket env callsign m =
     (case m_tempFsInnPackets m (asString callsign) of
        None \<Rightarrow> Inr (False, m)
      | Some packet \<Rightarrow>
          and_then (onCustomFSInnPacketReceived env callsign (fsi_airlineIcaoDesignator packet) (fsi_aircraftIcaoDesignator packet)
              (fsi_combinedCode packet) (fsi_modelString packet)
              (m\<lparr>m_tempFsInnPackets := (m_tempFsInnPackets m)(asString callsign := None)\<rparr>))
            (\<lambda>m. Inr (True, m)))"

definition onIcaoCodesReceived ::
    "('a, 'b, 'au) monitor_environment \<Rightarrow> CCallsign \<Rightarrow> string \<Rightarrow> string \<Rightarrow> string \<Rightarrow> ('a, 'b, 'au) airspace_monitor
      \<Rightarrow> fault + ('a, 'b, 'au) airspace_monitor" where
  "onIcaoCodesReceived env callsign aircraftIcaoDesignator airlineIcaoDesignator livery m =
     (if \<not> isConnectedAndNotShuttingDown env m then Inr m
      else if \<not> callsign_isValid callsign then Inr m
      else if \<not> is_in_range callsign (provider m) then Inr m
      else
        let client = getClientOrDefaultForCallsign callsign (m_clients m) in
        and_then (addOrUpdateAircraftInRange env callsign aircraftIcaoDesignator airlineIcaoDesignator livery (cl_modelString client) m) (\<lambda>m.
        and_then (sendReadyForModelMatching env callsign ReceivedIcaoCodes m) (\<lambda>m.
          Inr (report (requestedNewAircraft callsign aircraftIcaoDesignator airlineIcaoDesignator livery) m))))"

subsection \<open>Aircraft in range\<close>

definition monitor_addNewAircraftInRange ::
    "('a, 'b, 'au) monitor_environment \<Rightarrow> simulated_aircraft \<Rightarrow> ('a, 'b, 'au) airspace_monitor \<Rightarrow> fault + bool \<times> ('a, 'b, 'au) airspace_monitor" where
  "monitor_addNewAircraftInRange env aircraft m =
     (let callsign = a_callsign aircraft in
      if isEmpty callsign then Inl AssertFailed
      else if isShuttingDown env then Inr (False, m)
      else
        let newAircraft = snd (setRendered False aircraft);
            newAircraft = (if connectedToVatsim m then updateWithVatsimDataFileData env newAircraft else newAircraft);
            (added, p) = addNewAircraftInRange newAircraft (provider m);
            m = m\<lparr>provider := p\<rparr> in
        if \<not> added then Inr (False, m)
        else
          let m = single_shot (clock env + MMVerifyMs) (VerifyIcao callsign) m;
              modelString = mdl_modelString (a_model aircraft) in
          if modelString = [] then Inr (True, m)
          else
            let model = modelForModelString env modelString;
                cg = (if mdl_hasValidDbKey model then mdl_cg model else None)
            in Inr (True, on_provider (rememberCGFromDB cg callsign \<circ> rememberCGFromDB_model cg modelString) m))"

text \<open>\<open>None\<close> is a range that is null, negative or zero.\<close>

definition setMaxRange :: "int option \<Rightarrow> ('a, 'b, 'au) airspace_monitor \<Rightarrow> ('a, 'b, 'au) airspace_monitor" where
  "setMaxRange range_NM m =
     (case range_NM of
        None \<Rightarrow> m\<lparr>m_maxDistanceNM := - 1, m_maxDistanceNMHysteresis := - 1\<rparr>
      | Some rIntNM \<Rightarrow> m\<lparr>m_maxDistanceNM := rIntNM, m_maxDistanceNMHysteresis := hysteresis rIntNM\<rparr>)"

definition handleMaxRange ::
    "('a, 'b, 'au) monitor_environment \<Rightarrow> 'a remote_situation_scheme \<Rightarrow> ('a, 'b, 'au) airspace_monitor \<Rightarrow> bool \<times> ('a, 'b, 'au) airspace_monitor" where
  "handleMaxRange env situation m =
     (if isNullSituation env situation then (False, m)
      else if m_maxDistanceNM m < 0 then (True, m)
      else
        let distanceNM = distanceToOwn_NM env situation in
        if distanceNM > m_maxDistanceNMHysteresis m
        then (False, on_provider (\<lambda>p. snd (removeAircraft (rs_callsign situation) p)) m)
        else (distanceNM \<le> m_maxDistanceNM m, m))"

end
