(* ===== verification/AirspaceMonitorUpdates.thy ===== *)
theory AirspaceMonitorUpdates
  imports AirspaceMonitorReceive
begin

section \<open>Situations, parts and stations\<close>

text \<open>
  The rest of the handlers in \<open>blackcore/airspacemonitor.cpp\<close>: what is done to a situation before it is
  stored, positions, parts, controllers, the connection, starting the aircraft anew.
\<close>

subsection \<open>The ground flag from the best parts\<close>

fun best_parts ::
    "'a remote_situation_scheme \<Rightarrow> (int \<times> CAircraftParts) option \<Rightarrow> CAircraftParts list \<Rightarrow> (int \<times> CAircraftParts) option" where
  "best_parts s best [] = best"
| "best_parts s best (parts # partsList) =
     (let d = getAdjustedTimeDifferenceMs s (getAdjustedMSecsSinceEpoch parts);
          posD = \<bar>d\<bar>;
          candidate = (d \<ge> 0 \<or> d_gt_int (d_mul (mk_double (1 / 10)) (d_of_int (m_timeOffsetMs parts))) posD);
          bestDistance = (case best of None \<Rightarrow> 2 ^ 63 - 1 | Some (b, _) \<Rightarrow> b) in
      if \<not> candidate \<or> bestDistance \<le> posD then best_parts s best partsList
      else if posD = 0 then Some (posD, parts)
      else best_parts s (Some (posD, parts)) partsList)"

definition adjustGroundFlag_parts ::
    "CAircraftParts list \<Rightarrow> bool \<Rightarrow> 'a remote_situation_scheme \<Rightarrow> bool \<times> 'a remote_situation_scheme" where
  "adjustGroundFlag_parts partsList alwaysSetDetails s =
     (if m_onGroundDetails s = InFromNetwork then (False, s)
      else let s = (if alwaysSetDetails then s\<lparr>m_onGroundDetails := InFromParts\<rparr> else s) in
        case best_parts s None partsList of
          None \<Rightarrow> (False, s)
        | Some (_, parts) \<Rightarrow> (True, setOnGround_details (if m_isOnGround parts then OnGround else NotOnGround) InFromParts s))"

subsection \<open>Elevations\<close>

definition extrapolateElevation ::
    "('a, 'b, 'au) monitor_environment \<Rightarrow> 'a remote_situation_scheme \<Rightarrow> 'a remote_situation_scheme \<Rightarrow> 'a remote_situation_scheme
      \<Rightarrow> 'b situation_change_scheme option \<Rightarrow> bool \<times> 'a remote_situation_scheme" where
  "extrapolateElevation env situationToBeUpdated oldSituation olderSituation oldChange =
     (if getGroundElevation env situationToBeUpdated \<noteq> None then (False, situationToBeUpdated)
      else case transferElevation env oldSituation situationToBeUpdated of
          Some s \<Rightarrow> (True, s)
        | None \<Rightarrow>
            if isNullSituation env oldSituation \<or> isNullSituation env olderSituation then (False, situationToBeUpdated)
            else case oldChange of
                None \<Rightarrow> (False, situationToBeUpdated)
              | Some change \<Rightarrow>
                  if \<not> isNullChange env change \<and> steadyOnGround env change \<and> withinAltitudeDeviation env situationToBeUpdated olderSituation
                  then (True, setGroundElevation env (getGroundElevation env oldSituation) Extrapolated situationToBeUpdated)
                  else (False, situationToBeUpdated))"

text \<open>Aircraft far from the ground, unknown or too fast to be on it need no elevation.\<close>

definition tooFastForGround ::
    "('a, 'b, 'au) monitor_environment \<Rightarrow> aircraft_model \<Rightarrow> 'a remote_situation_scheme \<Rightarrow> bool" where
  "tooFastForGround env model situation \<longleftrightarrow>
     (if mdl_isVtol model then d_gt_int (groundSpeed_kts env situation) 60 else fasterThanRotating env model situation)"

text \<open>A situation with what was found about the ground below: whether to ask for it, whether it does not matter, which guess was used.\<close>

datatype ground_guess = NoGuess | FromNonMoving | FromElevationsOnGnd

definition presetElevation ::
    "('a, 'b, 'au) monitor_environment \<Rightarrow> 'a remote_situation_scheme \<Rightarrow> 'b situation_change_scheme option
      \<Rightarrow> ('a, 'b) remote_aircraft_provider \<Rightarrow> 'a remote_situation_scheme \<Rightarrow> 'a remote_situation_scheme \<times> ground_guess" where
  "presetElevation env situation change p corrected =
     (case averageElevationOnGround env situation of
        Some plane \<Rightarrow> (setGroundElevation env (Some plane) Average corrected, FromElevationsOnGnd)
      | None \<Rightarrow>
          (case averageElevationNonMoving env p situation of
             Some plane \<Rightarrow> (setGroundElevation env (Some plane) Average corrected, FromNonMoving)
           | None \<Rightarrow>
               (case remoteAircraftSituations (rs_callsign situation) p of
                  s0 # s1 # rest \<Rightarrow> (snd (extrapolateElevation env corrected s0 s1 change), NoGuess)
                | _ \<Rightarrow> (corrected, NoGuess))))"

definition elevationFromSurroundings ::
    "('a, 'b, 'au) monitor_environment \<Rightarrow> 'a remote_situation_scheme \<Rightarrow> 'b situation_change_scheme option
      \<Rightarrow> ('a, 'b) remote_aircraft_provider \<Rightarrow> 'a remote_situation_scheme \<Rightarrow> 'a remote_situation_scheme \<times> bool \<times> ground_guess" where
  "elevationFromSurroundings env situation change p corrected =
     (let (corrected, needToRequestElevation) =
            (case transferClosestElevation env (remoteAircraftSituations (rs_callsign situation) p) corrected of
               Some corrected \<Rightarrow> (corrected, False)
             | None \<Rightarrow> let ep = closestElevationInCache env corrected
                        in (setGroundElevation env ep FromCache corrected, ep = None)) in
      if getGroundElevation env corrected \<noteq> None then (corrected, needToRequestElevation, NoGuess)
      else let (corrected, guess) = presetElevation env situation change p corrected
           in (corrected, getGroundElevation env corrected = None \<or> needToRequestElevation, guess))"

definition latest_change :: "CCallsign \<Rightarrow> ('a, 'b) remote_aircraft_provider \<Rightarrow> 'b situation_change_scheme option" where
  "latest_change callsign p = (case remoteAircraftSituationChanges callsign p of [] \<Rightarrow> None | c # cs \<Rightarrow> Some c)"

definition findElevation ::
    "('a, 'b, 'au) monitor_environment \<Rightarrow> 'a remote_situation_scheme \<Rightarrow> ('a, 'b) remote_aircraft_provider
      \<Rightarrow> 'a remote_situation_scheme \<Rightarrow> 'a remote_situation_scheme \<times> bool \<times> bool \<times> ground_guess" where
  "findElevation env situation p corrected =
     (let canSkip = canLikelySkipNearGround env corrected in
      if canSkip \<or> getGroundElevation env corrected \<noteq> None then (corrected, False, canSkip, NoGuess)
      else
        let corrected = resetGroundElevation env corrected;
            model = a_model (getAircraftInRangeForCallsign (rs_callsign situation) p);
            change = latest_change (rs_callsign situation) p in
        if mdl_aircraftIcao model = [] \<or> tooFastForGround env model situation then (corrected, False, canSkip, NoGuess)
        else if (case change of None \<Rightarrow> False | Some c \<Rightarrow> \<not> isNullChange env c \<and> isConstAscending env c)
        then (corrected, False, True, NoGuess)
        else let (corrected, needToRequestElevation, guess) = elevationFromSurroundings env situation change p corrected
             in (corrected, needToRequestElevation, False, guess))"

subsection \<open>Storing a situation\<close>

text \<open>Who told whether the aircraft is on the ground, as far as its client can tell.\<close>

definition withGroundDetails ::
    "'a remote_situation_scheme \<Rightarrow> ('a, 'b, 'au) airspace_monitor \<Rightarrow> 'a remote_situation_scheme \<Rightarrow> 'a remote_situation_scheme" where
  "withGroundDetails situation m corrected =
     (if m_onGroundDetails situation \<noteq> NotSetGroundDetails then corrected
      else
        let client = getClientOrDefaultForCallsign (rs_callsign situation) (m_clients m) in
        if hasCapability FsdWithGroundFlag client then corrected\<lparr>m_onGroundDetails := InFromNetwork\<rparr>
        else if hasCapability FsdWithAircraftConfig client
        then let parts = remoteAircraftParts (rs_callsign situation) (provider m)
             in if parts = [] then corrected else snd (adjustGroundFlag_parts parts True corrected)
        else corrected)"

definition monitor_storeAircraftSituation ::
    "('a, 'b, 'au) monitor_environment \<Rightarrow> 'a remote_situation_scheme \<Rightarrow> bool \<Rightarrow> ('a, 'b, 'au) airspace_monitor
      \<Rightarrow> fault + 'a remote_situation_scheme \<times> ('a, 'b, 'au) airspace_monitor" where
  "monitor_storeAircraftSituation env situation allowTestOffset m =
     (let callsign = rs_callsign situation in
      if isEmpty callsign then Inr (situation, m)
      else
        let corrected = (if allowTestOffset then addTestAltitudeOffsetToSituation (prov_env env) (provider m) situation else situation);
            (corrected, needToRequestElevation, canSkip, guess) = findElevation env situation (provider m) corrected;
            m = (case guess of NoGuess \<Rightarrow> m
                 | FromNonMoving \<Rightarrow> m\<lparr>m_foundInNonMovingAircraft := c_int (m_foundInNonMovingAircraft m + 1)\<rparr>
                 | FromElevationsOnGnd \<Rightarrow> m\<lparr>m_foundInElevationsOnGnd := c_int (m_foundInElevationsOnGnd m + 1)\<rparr>);
            corrected = withGroundDetails situation m corrected;
            cg = simulatorOrDbCG env callsign (getCGFromDB callsign (provider m));
            corrected = (if cg = None then corrected else corrected\<lparr>m_cg := cg\<rparr>) in
        and_then (try_provider (storeAircraftSituation (prov_env env) corrected False) m) (\<lambda>(corrected, m).
          Inr (corrected,
            if needToRequestElevation \<and> \<not> canSkip
               \<and> (otherElevationInfoBetter env FromCache corrected \<or> (isMoving env corrected \<and> otherElevationInfoBetter env FromProvider corrected))
            then report (requestElevation callsign) m else m)))"

subsection \<open>Positions\<close>

text \<open>A situation as the client sends it on; it sets no velocity.\<close>

definition received_situation :: "('a, 'b, 'au) monitor_environment \<Rightarrow> OnGroundDetails \<Rightarrow> situation \<Rightarrow> 'a remote_situation_scheme" where
  "received_situation env details s =
     \<lparr>m_timestampMSecsSinceEpoch = m_timestampMSecsSinceEpoch s, m_timeOffsetMs = m_timeOffsetMs s, rs_callsign = sit_callsign s,
      m_onGround = (case sit_onGround s of None \<Rightarrow> OnGroundSituationUnknown | Some g \<Rightarrow> if g then OnGround else NotOnGround),
      m_onGroundDetails = details,
      m_onGroundFactor = (case sit_onGround s of None \<Rightarrow> Fin (- 1) | Some g \<Rightarrow> if g then Fin 1 else Fin 0),
      m_hasVelocity = False, m_cg = None, m_sceneryOffset = None, \<dots> = situationGeometry env s\<rparr>"

definition onAircraftUpdateReceived ::
    "('a, 'b, 'au) monitor_environment \<Rightarrow> 'a remote_situation_scheme \<Rightarrow> CTransponder \<Rightarrow> ('a, 'b, 'au) airspace_monitor
      \<Rightarrow> fault + ('a, 'b, 'au) airspace_monitor" where
  "onAircraftUpdateReceived env situation transponder m =
     (let callsign = rs_callsign situation in
      if \<not> isConnectedAndNotShuttingDown env m then Inr m
      else if isEmpty callsign then Inl AssertFailed
      else if isCopilotAircraft env callsign then Inr m
      else
        let (validMaxRange, m) = handleMaxRange env situation m;
            existsInRange = is_in_range callsign (provider m) in
        if \<not> validMaxRange \<and> \<not> existsInRange then Inr m
        else
          let m = on_clients (\<lambda>cs. snd (autoAdjustCientGndCapability situation cs)) m in
          and_then (monitor_storeAircraftSituation env situation True m) (\<lambda>(_, m).
            if \<not> existsInRange
            then
              let hasFsInnPacket = (m_tempFsInnPackets m (asString callsign) \<noteq> None);
                  aircraft = simulated_aircraft_default\<lparr>a_callsign := callsign, a_transponder := transponder\<rparr> in
              and_then (monitor_addNewAircraftInRange env aircraft m) (\<lambda>(_, m).
                let m = sendInitialPilotQueries env callsign True (\<not> hasFsInnPacket) m
                in Inr (on_clients (\<lambda>cs. snd (addNewClient (CClient_callsign callsign []) cs)) m))
            else and_then (try_provider (updateAircraftInRange callsign [with_transponder transponder] True) m) (\<lambda>(_, m). Inr m)))"

text \<open>Interim and visual positions: the code has the same handler twice.\<close>

definition between_update ::
    "('a, 'b, 'au) monitor_environment \<Rightarrow> 'a remote_situation_scheme \<Rightarrow> ('a, 'b, 'au) airspace_monitor
      \<Rightarrow> fault + ('a, 'b, 'au) airspace_monitor" where
  "between_update env situation m =
     (let callsign = rs_callsign situation in
      if \<not> isConnectedAndNotShuttingDown env m then Inr m
      else if isEmpty callsign then Inl AssertFailed
      else if isCopilotAircraft env callsign then Inr m
      else if \<not> is_in_range callsign (provider m) then Inr m
      else case latestObject (remoteAircraftSituations callsign (provider m)) of
          None \<Rightarrow> Inr m
        | Some lastSituation \<Rightarrow>
            and_then (monitor_storeAircraftSituation env
                (withGroundSpeedOf env lastSituation (situation\<lparr>m_timestampMSecsSinceEpoch := clock env\<rparr>)) True m)
              (\<lambda>(_, m). Inr m))"

definition onAircraftInterimUpdateReceived ::
    "('a, 'b, 'au) monitor_environment \<Rightarrow> 'a remote_situation_scheme \<Rightarrow> ('a, 'b, 'au) airspace_monitor
      \<Rightarrow> fault + ('a, 'b, 'au) airspace_monitor" where
  "onAircraftInterimUpdateReceived env situation m = between_update env situation m"

definition onAircraftVisualUpdateReceived ::
    "('a, 'b, 'au) monitor_environment \<Rightarrow> 'a remote_situation_scheme \<Rightarrow> ('a, 'b, 'au) airspace_monitor
      \<Rightarrow> fault + ('a, 'b, 'au) airspace_monitor" where
  "onAircraftVisualUpdateReceived env situation m = between_update env situation m"

subsection \<open>Parts and clients\<close>

text \<open>A client that sends parts can send them, whatever it said.\<close>

definition sendsParts :: "CCallsign \<Rightarrow> clients \<Rightarrow> clients" where
  "sendsParts callsign cs =
     (let client = setUserCallsign callsign (getClientOrDefaultForCallsign callsign cs) in
      if hasCapability FsdWithAircraftConfig client then cs
      else snd (setOtherClient (addCapability FsdWithAircraftConfig client) cs))"

definition onAircraftConfigReceived ::
    "('a, 'b, 'au) monitor_environment \<Rightarrow> CCallsign \<Rightarrow> json_object \<Rightarrow> int \<Rightarrow> ('a, 'b, 'au) airspace_monitor
      \<Rightarrow> fault + ('a, 'b, 'au) airspace_monitor" where
  "onAircraftConfigReceived env callsign jsonObject currentOffsetMs m =
     (if isEmpty callsign then Inr m
      else and_then (storeAircraftParts_json (prov_env env) callsign jsonObject currentOffsetMs (provider m)) (\<lambda>p.
        Inr (on_clients (sendsParts callsign) (m\<lparr>provider := p\<rparr>))))"

definition revb_engines :: "64 word \<Rightarrow> fault + CAircraftEngine list" where
  "revb_engines pp =
     and_then (setEngineOn 1 (bit pp 6) (initEngines 4 False)) (\<lambda>es. and_then (setEngineOn 2 (bit pp 7) es) (\<lambda>es.
     and_then (setEngineOn 3 (bit pp 8) es) (\<lambda>es. setEngineOn 4 (bit pp 9) es)))"

definition revb_parts :: "int \<Rightarrow> string \<Rightarrow> int \<Rightarrow> fault + CAircraftParts" where
  "revb_parts t config currentOffsetMs =
     (let pp = of_nat (q_toUnsigned 64 10 config) :: 64 word in
      and_then (revb_engines pp) (\<lambda>engines.
        Inr (CAircraftParts_default\<lparr>m_gearDown := bit pp 0,
          m_lights := CAircraftLights (bit pp 3) (bit pp 1) (bit pp 5) (bit pp 4) (bit pp 2) False False False,
          m_engines := engines, m_timestampMSecsSinceEpoch := t, m_timeOffsetMs := currentOffsetMs, m_partsDetails := FSDAircraftParts\<rparr>)))"

definition onRevBAircraftConfigReceived ::
    "('a, 'b, 'au) monitor_environment \<Rightarrow> CCallsign \<Rightarrow> string \<Rightarrow> int \<Rightarrow> ('a, 'b, 'au) airspace_monitor
      \<Rightarrow> fault + ('a, 'b, 'au) airspace_monitor" where
  "onRevBAircraftConfigReceived env callsign config currentOffsetMs m =
     (if isEmpty callsign then Inr m
      else and_then (revb_parts (clock env) config currentOffsetMs) (\<lambda>aircraftparts.
        and_then (storeAircraftParts (prov_env env) callsign aircraftparts True (provider m)) (\<lambda>p.
          Inr (on_clients (sendsParts callsign) (m\<lparr>provider := p\<rparr>)))))"

text \<open>The livery passed on is the designator of the airline.\<close>

definition onAircraftSimDataUpdateReceived ::
    "('a, 'b, 'au) monitor_environment \<Rightarrow> 'a remote_situation_scheme \<Rightarrow> CAircraftParts \<Rightarrow> int \<Rightarrow> string \<Rightarrow> string
      \<Rightarrow> ('a, 'b, 'au) airspace_monitor \<Rightarrow> fault + ('a, 'b, 'au) airspace_monitor" where
  "onAircraftSimDataUpdateReceived env situation parts currentOffsetMs aircraftIcao airlineIcao m =
     and_then (onAircraftUpdateReceived env situation (CTransponder 2000 ModeC) m) (\<lambda>m.
       let callsign = rs_callsign situation;
           model = a_networkModel (getAircraftInRangeForCallsign callsign (provider m)) in
       and_then (if mdl_aircraftIcao model \<noteq> aircraftIcao then onIcaoCodesReceived env callsign aircraftIcao airlineIcao airlineIcao m
                 else Inr m)
         (onAircraftConfigReceived env callsign (toFullJson parts) currentOffsetMs))"

definition onCapabilitiesReplyReceived ::
    "('a, 'b, 'au) monitor_environment \<Rightarrow> CCallsign \<Rightarrow> 32 word \<Rightarrow> ('a, 'b, 'au) airspace_monitor \<Rightarrow> ('a, 'b, 'au) airspace_monitor" where
  "onCapabilitiesReplyReceived env callsign clientCaps m =
     (if \<not> isConnectedAndNotShuttingDown env m \<or> isEmpty callsign then m
      else let m = on_clients (\<lambda>cs. snd (updateOrAddClient callsign [with_capabilities clientCaps] False cs)) m
           in if testFlag clientCaps FsdWithAircraftConfig then on_network (sendClientQueryAircraftConfig (fsd_env env) callsign) m else m)"

definition onServerReplyReceived ::
    "('a, 'b, 'au) monitor_environment \<Rightarrow> CCallsign \<Rightarrow> string \<Rightarrow> ('a, 'b, 'au) airspace_monitor \<Rightarrow> ('a, 'b, 'au) airspace_monitor" where
  "onServerReplyReceived env callsign server m =
     (if \<not> isConnectedAndNotShuttingDown env m \<or> isEmpty callsign \<or> server = [] then m
      else on_clients (\<lambda>cs. snd (updateOrAddClient callsign [with_server server] True cs)) m)"

definition onFlightPlanReceived ::
    "('a, 'b, 'au) monitor_environment \<Rightarrow> CCallsign \<Rightarrow> FlightPlan \<times> FlightRules \<times> string \<times> string \<times> string
      \<Rightarrow> ('a, 'b, 'au) airspace_monitor \<Rightarrow> ('a, 'b, 'au) airspace_monitor" where
  "onFlightPlanReceived env callsign flightPlan m =
     (if \<not> isConnectedAndNotShuttingDown env m \<or> isEmpty callsign then m
      else m\<lparr>m_flightPlanCache := (m_flightPlanCache m)(asString callsign \<mapsto>
             (case flightPlan of (plan, rules, alt, planned, actual) \<Rightarrow> (plan, rules, alt, planned, actual, clock env)))\<rparr>)"

definition with_com1 :: "('a, 'b, 'au) monitor_environment \<Rightarrow> double \<Rightarrow> simulated_aircraft property_update" where
  "with_com1 env v = (\<lambda>a. a\<lparr>a_com1_MHz := v\<rparr>, \<lambda>a. sameFrequency env (a_com1_MHz a) v)"

definition onFrequencyReceived ::
    "('a, 'b, 'au) monitor_environment \<Rightarrow> CCallsign \<Rightarrow> double \<Rightarrow> ('a, 'b, 'au) airspace_monitor \<Rightarrow> fault + ('a, 'b, 'au) airspace_monitor" where
  "onFrequencyReceived env callsign frequency m =
     and_then (try_provider (updateAircraftInRange callsign [with_com1 env frequency] True) m) (\<lambda>(_, m). Inr m)"

end
