(* ===== verification/AirspaceMonitorMachine.thy ===== *)
theory AirspaceMonitorMachine
  imports AirspaceMonitorUpdates FsdClientMachine
begin

section \<open>The airspace monitor as a state machine\<close>

text \<open>
  Controllers, the connection and starting anew (\<open>blackcore/airspacemonitor.cpp\<close>); then everything that
  can happen to a monitor: an event of its client, whose signals it gets one after the other, its timers,
  the watchdog's reports, bookings that were read, and what the user asks for.
\<close>

subsection \<open>Controllers\<close>

text \<open>Properties of a station.\<close>

definition with_frequency :: "int \<Rightarrow> CAtcStation property_update" where
  "with_frequency v = (\<lambda>s. s\<lparr>st_frequency_kHz := v\<rparr>, \<lambda>s. st_frequency_kHz s = v)"

definition with_position :: "double \<Rightarrow> double \<Rightarrow> CAtcStation property_update" where
  "with_position lat lon = (\<lambda>s. s\<lparr>st_latitude := lat, st_longitude := lon\<rparr>, \<lambda>s. st_latitude s = lat \<and> st_longitude s = lon)"

definition with_range :: "int \<Rightarrow> CAtcStation property_update" where
  "with_range v = (\<lambda>s. s\<lparr>st_range_NM := v\<rparr>, \<lambda>s. st_range_NM s = v)"

definition with_isOnline :: "bool \<Rightarrow> CAtcStation property_update" where
  "with_isOnline v = (\<lambda>s. s\<lparr>m_isOnline := v\<rparr>, \<lambda>s. m_isOnline s = v)"

definition with_bookedUntil :: "int \<Rightarrow> CAtcStation property_update" where
  "with_bookedUntil v = (\<lambda>s. s\<lparr>m_bookedUntilUtc := Some v\<rparr>, \<lambda>s. m_bookedUntilUtc s = Some v)"

definition updateOnlineStation ::
    "CCallsign \<Rightarrow> CAtcStation property_update list \<Rightarrow> bool \<Rightarrow> bool \<Rightarrow> ('a, 'b, 'au) airspace_monitor \<Rightarrow> int \<times> ('a, 'b, 'au) airspace_monitor" where
  "updateOnlineStation callsign vm skipEqualValues sendSignal m =
     (let (c, stations) = applyIfCallsign callsign vm skipEqualValues (m_atcStationsOnline m);
          m = m\<lparr>m_atcStationsOnline := stations\<rparr>
      in (c, if c > 0 \<and> sendSignal then report changedAtcStationsOnline m else m))"

definition updateBookedStation ::
    "CCallsign \<Rightarrow> CAtcStation property_update list \<Rightarrow> bool \<Rightarrow> bool \<Rightarrow> ('a, 'b, 'au) airspace_monitor \<Rightarrow> int \<times> ('a, 'b, 'au) airspace_monitor" where
  "updateBookedStation callsign vm skipEqualValues sendSignal m =
     (let (c, stations) = applyIfCallsign callsign vm skipEqualValues (m_atcStationsBooked m);
          m = m\<lparr>m_atcStationsBooked := stations\<rparr>
      in (c, if c > 0 \<and> sendSignal then report changedAtcStationsBooked m else m))"

text \<open>A station heard for the first time, aligned with its booking.\<close>

definition new_station ::
    "('a, 'b, 'au) monitor_environment \<Rightarrow> CCallsign \<Rightarrow> int \<Rightarrow> double \<Rightarrow> double \<Rightarrow> int \<Rightarrow> CAtcStation list \<Rightarrow> CAtcStation \<times> CAtcStation list" where
  "new_station env callsign frequency_kHz lat lon range_NM booked =
     (let station = (stationInDataFile env callsign)\<lparr>st_callsign := callsign, st_range_NM := range_NM, st_frequency_kHz := frequency_kHz,
            st_latitude := lat, st_longitude := lon, m_isOnline := True\<rparr> in
      if containsCallsign callsign booked
      then let (station, bookedStation) = synchronizeWithBookedStation (clock env) station (findFirstByCallsign callsign booked)
           in (station, map (\<lambda>s. if with_callsign callsign s then bookedStation else s) booked)
      else (station, booked))"

definition onAtcPositionUpdate ::
    "('a, 'b, 'au) monitor_environment \<Rightarrow> CCallsign \<Rightarrow> int \<Rightarrow> double \<Rightarrow> double \<Rightarrow> int
      \<Rightarrow> ('a, 'b, 'au) airspace_monitor \<Rightarrow> ('a, 'b, 'au) airspace_monitor" where
  "onAtcPositionUpdate env callsign frequency_kHz lat lon range_NM m =
     (if \<not> isConnectedAndNotShuttingDown env m then m
      else if \<not> containsCallsign callsign (m_atcStationsOnline m)
      then let (station, booked) = new_station env callsign frequency_kHz lat lon range_NM (m_atcStationsBooked m);
               m = m\<lparr>m_atcStationsBooked := booked, m_atcStationsOnline := m_atcStationsOnline m @ [station]\<rparr>
           in report changedAtcStationsOnline (sendInitialAtcQueries env callsign m)
      else snd (updateOnlineStation callsign [with_frequency frequency_kHz, with_position lat lon, with_range range_NM] True True m))"

definition onAtcControllerDisconnected ::
    "('a, 'b, 'au) monitor_environment \<Rightarrow> CCallsign \<Rightarrow> ('a, 'b, 'au) airspace_monitor \<Rightarrow> ('a, 'b, 'au) airspace_monitor" where
  "onAtcControllerDisconnected env callsign m =
     (if \<not> isConnectedAndNotShuttingDown env m then m
      else
        let m = on_clients (removeClient callsign) m;
            m = (if containsCallsign callsign (m_atcStationsOnline m)
                 then let removedStation = findFirstByCallsign callsign (m_atcStationsOnline m);
                          m = m\<lparr>m_atcStationsOnline := removeStationByCallsign callsign (m_atcStationsOnline m)\<rparr>
                      in report (changedAtcStationOnlineConnectionStatus removedStation False) (report changedAtcStationsOnline m)
                 else m)
        in snd (updateBookedStation callsign [with_isOnline False] True False m))"

definition onAtisReceived ::
    "('a, 'b, 'au) monitor_environment \<Rightarrow> CCallsign \<Rightarrow> string \<Rightarrow> ('a, 'b, 'au) airspace_monitor \<Rightarrow> ('a, 'b, 'au) airspace_monitor" where
  "onAtisReceived env callsign atisMessage m =
     (if \<not> isConnectedAndNotShuttingDown env m \<or> isEmpty callsign then m
      else
        let (changedAtis, stations) = updateIfMessageChanged atisMessage callsign (m_atcStationsOnline m);
            m = m\<lparr>m_atcStationsOnline := stations, m_atcStationsBooked := snd (setOnline_list callsign True (m_atcStationsBooked m))\<rparr>
        in if changedAtis then report (changedAtisReceived callsign) m else m)"

text \<open>Hours and minutes of the day; a time there is not is midnight.\<close>

definition time_of_day :: "int \<Rightarrow> int \<Rightarrow> int \<Rightarrow> int" where
  "time_of_day day h mi = (if 0 \<le> h \<and> h < 24 \<and> 0 \<le> mi \<and> mi < 60 then day + (h * 60 + mi) * 60000 else day)"

definition onAtisLogoffTimeReceived ::
    "('a, 'b, 'au) monitor_environment \<Rightarrow> CCallsign \<Rightarrow> string \<Rightarrow> ('a, 'b, 'au) airspace_monitor \<Rightarrow> ('a, 'b, 'au) airspace_monitor" where
  "onAtisLogoffTimeReceived env callsign zuluTime m =
     (if \<not> isConnectedAndNotShuttingDown env m \<or> length zuluTime \<noteq> 4 then m
      else case (q_toInt_opt (take 2 zuluTime), q_toInt_opt (drop 2 zuluTime)) of
          (Some h, Some mi) \<Rightarrow>
            let vm = [with_bookedUntil (time_of_day (utcDay env) h mi)];
                m = snd (updateOnlineStation callsign vm True True m)
            in snd (updateBookedStation callsign vm True True m)
        | _ \<Rightarrow> m)"

text \<open>Each booking and the station online of its callsign are brought up to date from each other.\<close>

fun synchronize_bookings ::
    "int \<Rightarrow> CAtcStation list \<Rightarrow> CAtcStation list \<Rightarrow> fault + CAtcStation list \<times> CAtcStation list" where
  "synchronize_bookings utc online [] = Inr (online, [])"
| "synchronize_bookings utc online (booked # bookings) =
     and_then (synchronizeWithBookedStation_list utc online booked) (\<lambda>(online, booked).
     and_then (synchronize_bookings utc online bookings) (\<lambda>(online, bookings). Inr (online, booked # bookings)))"

definition onReceivedAtcBookings ::
    "('a, 'b, 'au) monitor_environment \<Rightarrow> CAtcStation list \<Rightarrow> ('a, 'b, 'au) airspace_monitor \<Rightarrow> fault + ('a, 'b, 'au) airspace_monitor" where
  "onReceivedAtcBookings env bookedStations m =
     and_then (synchronize_bookings (clock env) (m_atcStationsOnline m) bookedStations) (\<lambda>(online, booked).
       Inr (report changedAtcStationsBooked
         (m\<lparr>m_atcStationsOnline := online, m_atcStationsBooked := booked, m_bookingsRequested := False\<rparr>)))"

definition onReadUnchangedAtcBookings :: "('a, 'b, 'au) airspace_monitor \<Rightarrow> ('a, 'b, 'au) airspace_monitor" where
  "onReadUnchangedAtcBookings m =
     (if \<not> m_bookingsRequested m then m else report changedAtcStationsBooked (m\<lparr>m_bookingsRequested := False\<rparr>))"

subsection \<open>Real names\<close>

text \<open>Whether the loop over the letters finds a name in mixed case: it looks before each letter, not after the last.\<close>

fun mixed_case :: "int \<Rightarrow> int \<Rightarrow> string \<Rightarrow> bool" where
  "mixed_case uc lc [] \<longleftrightarrow> False"
| "mixed_case uc lc (ch # s) \<longleftrightarrow>
     (if uc > 1 \<and> lc > 2 \<and> lc > uc then True
      else if is_lower ch then mixed_case uc (lc + 1) s
      else if is_upper ch then mixed_case (uc + 1) lc s
      else mixed_case uc lc s)"

fun title_case :: "bool \<Rightarrow> string \<Rightarrow> string" where
  "title_case upperNextChar [] = []"
| "title_case upperNextChar (ch # s) =
     (if is_space ch \<or> ch = CHR ''-'' then ch # title_case True s
      else if upperNextChar then to_upper ch # title_case False s
      else ch # title_case False s)"

definition beautifyRealName :: "string \<Rightarrow> string" where
  "beautifyRealName realName =
     (let newRealName = q_trimmed (q_simplified realName) in
      if newRealName = [] then newRealName
      else if is09OnlyString newRealName then newRealName
      else if mixed_case 0 0 realName then newRealName
      else title_case True (q_toLower newRealName))"

text \<open>The controller of a station is no member of the model: setting its name changes the station as far as the program asks.\<close>

definition with_controllerRealName :: "CAtcStation property_update" where
  "with_controllerRealName = (\<lambda>s. s, \<lambda>s. False)"

text \<open>What follows for an aircraft, unless it was a station, and for the client.\<close>

definition real_name_of_pilot ::
    "('a, 'b, 'au) monitor_environment \<Rightarrow> CCallsign \<Rightarrow> string \<Rightarrow> bool \<Rightarrow> ('a, 'b, 'au) airspace_monitor \<Rightarrow> fault + ('a, 'b, 'au) airspace_monitor" where
  "real_name_of_pilot env callsign rn wasAtc m =
     and_then (if wasAtc then Inr (0, m)
               else try_provider (updateAircraftInRange callsign [with_pilotRealName (keptRealName env) rn] True) m) (\<lambda>(_, m).
       Inr (on_clients (\<lambda>cs. snd (updateOrAddClient callsign [with_userRealName (keptRealName env) rn] False cs)) m))"

definition onRealNameReplyReceived ::
    "('a, 'b, 'au) monitor_environment \<Rightarrow> CCallsign \<Rightarrow> string \<Rightarrow> ('a, 'b, 'au) airspace_monitor \<Rightarrow> fault + ('a, 'b, 'au) airspace_monitor" where
  "onRealNameReplyReceived env callsign realname m =
     (if \<not> isConnectedAndNotShuttingDown env m \<or> realname = [] then Inr m
      else
        let rn = beautifyRealName realname;
            (wasAtc, m) = (if hasSuffix callsign
              then let vm = [with_controllerRealName];
                       (c1, m) = updateOnlineStation callsign vm False True m;
                       (c2, m) = updateBookedStation callsign vm False True m
                   in (c1 > 0 \<or> c2 > 0, m)
              else (False, m))
        in real_name_of_pilot env callsign rn wasAtc m)"

subsection \<open>Flight plans\<close>

text \<open>
  A plan loaded in the last thirty seconds is used again, except the own one; otherwise the network is
  asked. The event loop that waits for the reply is the signals that follow.
\<close>

definition loadFlightPlanFromNetwork ::
    "('a, 'b, 'au) monitor_environment \<Rightarrow> CCallsign \<Rightarrow> ('a, 'b, 'au) airspace_monitor \<Rightarrow> ('a, 'b, 'au) airspace_monitor" where
  "loadFlightPlanFromNetwork env callsign m =
     (let plan = m_flightPlanCache m (asString callsign);
          ownAircraft = callsign_eq (own_callsign (own (fsd_env env))) callsign;
          outdated = (case plan of None \<Rightarrow> True
                      | Some (_, _, _, _, _, loaded) \<Rightarrow> loaded < 0 \<or> c_int64 (clock env - loaded) > 30 * 1000)
      in if ownAircraft \<or> outdated
         then on_network (sendClientQueryFlightPlan (fsd_env env) callsign)
                (m\<lparr>m_flightPlanCache := (m_flightPlanCache m)(asString callsign := None)\<rparr>)
         else m)"

subsection \<open>Leaving and starting anew\<close>

definition removeAllOnlineAtcStations :: "('a, 'b, 'au) airspace_monitor \<Rightarrow> ('a, 'b, 'au) airspace_monitor" where
  "removeAllOnlineAtcStations m = m\<lparr>m_atcStationsOnline := [], m_queryAtis := []\<rparr>"

definition provider_removeAllAircraft ::
    "('a, 'b, 'au) monitor_environment \<Rightarrow> ('a, 'b, 'au) airspace_monitor \<Rightarrow> ('a, 'b, 'au) airspace_monitor" where
  "provider_removeAllAircraft env m =
     on_provider (removeAllAircraft (hashOrder env (m_aircraftInRange (provider m)))) m"

definition monitor_removeAllAircraft ::
    "('a, 'b, 'au) monitor_environment \<Rightarrow> ('a, 'b, 'au) airspace_monitor \<Rightarrow> ('a, 'b, 'au) airspace_monitor" where
  "monitor_removeAllAircraft env m =
     (provider_removeAllAircraft env m)\<lparr>m_flightPlanCache := Map.empty, m_readiness := Map.empty, m_queryPilot := []\<rparr>"

definition monitor_clear :: "('a, 'b, 'au) monitor_environment \<Rightarrow> ('a, 'b, 'au) airspace_monitor \<Rightarrow> ('a, 'b, 'au) airspace_monitor" where
  "monitor_clear env m =
     (let m = m\<lparr>m_flightPlanCache := Map.empty, m_tempFsInnPackets := Map.empty, m_readiness := Map.empty\<rparr>;
          m = monitor_removeAllAircraft env (removeAllOnlineAtcStations m)
      in m\<lparr>m_clients := Map.empty, m_foundInNonMovingAircraft := 0, m_foundInElevationsOnGnd := 0\<rparr>)"

definition monitor_onConnectionStatusChanged ::
    "('a, 'b, 'au) monitor_environment \<Rightarrow> ConnectionStatus \<Rightarrow> ('a, 'b, 'au) airspace_monitor \<Rightarrow> ('a, 'b, 'au) airspace_monitor" where
  "monitor_onConnectionStatusChanged env newStatus m =
     (let m = (if newStatus = Connecting
               then setMaxRange (if srv_ecosystem (m_server (network m)) = System_VATSIM then Some 125 else None) m else m)
      in if newStatus = Disconnected then monitor_clear env m else m)"

definition removeFromAircraftCachesAndLogs :: "CCallsign \<Rightarrow> ('a, 'b, 'au) airspace_monitor \<Rightarrow> ('a, 'b, 'au) airspace_monitor" where
  "removeFromAircraftCachesAndLogs callsign m =
     (if isEmpty callsign then m
      else on_provider (removeReverseLookupMessages callsign)
        (m\<lparr>m_flightPlanCache := (m_flightPlanCache m)(asString callsign := None),
           m_readiness := (m_readiness m)(asString callsign := None)\<rparr>))"

definition onPilotDisconnected :: "CCallsign \<Rightarrow> ('a, 'b, 'au) airspace_monitor \<Rightarrow> ('a, 'b, 'au) airspace_monitor" where
  "onPilotDisconnected callsign m =
     (let m = removeFromAircraftCachesAndLogs callsign m;
          (removed, p) = removeAircraft callsign (provider m);
          m = on_clients (removeClient callsign) (m\<lparr>provider := p\<rparr>)
      in if removed then on_provider (signal (removedAircraft (asString callsign))) m else m)"

text \<open>The aircraft come back one by one, 25 ms apart.\<close>

definition asyncReInitializeAllAircraft ::
    "('a, 'b, 'au) monitor_environment \<Rightarrow> simulated_aircraft list \<Rightarrow> bool \<Rightarrow> ('a, 'b, 'au) airspace_monitor \<Rightarrow> ('a, 'b, 'au) airspace_monitor" where
  "asyncReInitializeAllAircraft env aircraft matchNow m =
     (if isShuttingDown env then m
      else fold (\<lambda>(c, ac). single_shot (clock env + (int c + 1) * 25) (ReInitialize ac matchNow)) (List.enumerate 0 aircraft) m)"

definition reInitializeAllAircraft ::
    "('a, 'b, 'au) monitor_environment \<Rightarrow> ('a, 'b, 'au) airspace_monitor \<Rightarrow> ('a, 'b, 'au) airspace_monitor" where
  "reInitializeAllAircraft env m =
     asyncReInitializeAllAircraft env (getAircraftInRange env m) True (provider_removeAllAircraft env m)"

subsection \<open>Timers\<close>

fun fire :: "('a, 'b, 'au) monitor_environment \<Rightarrow> monitor_timer \<Rightarrow> ('a, 'b, 'au) airspace_monitor \<Rightarrow> fault + ('a, 'b, 'au) airspace_monitor" where
  "fire env (CheckAgain callsign rf) m =
     (if isShuttingDown env then Inr m
      else if \<not> is_in_range callsign (provider m) then Inr m
      else and_then (if rf \<noteq> ReceivedFsInnPacket then recallFsInnPacket env callsign m else Inr (False, m)) (\<lambda>(recalled, m).
        if recalled then Inr m else sendReadyForModelMatching env callsign RecursiveCall m))"
| "fire env (VerifyIcao callsign) m = (if isShuttingDown env then Inr m else verifyReceivedIcaoData env callsign m)"
| "fire env (ReInitialize ac matchNow) m =
     and_then (monitor_addNewAircraftInRange env ac m) (\<lambda>(_, m).
       if \<not> matchNow then Inr m
       else sendReadyForModelMatching env (a_callsign ac) ReceivedAll
              (m\<lparr>m_readiness := (m_readiness m)(asString (a_callsign ac) := None)\<rparr>))"

subsection \<open>Signals of the client\<close>

text \<open>A signal with a text where a callsign is expected makes one of it.\<close>

fun on_signal :: "('a, 'b, 'au) monitor_environment \<Rightarrow> fsd_event \<Rightarrow> ('a, 'b, 'au) airspace_monitor \<Rightarrow> fault + ('a, 'b, 'au) airspace_monitor" where
  "on_signal env (atcDataUpdateReceived cs f lat lon r) m = Inr (onAtcPositionUpdate env cs f lat lon r m)"
| "on_signal env (atisReplyReceived cs atis) m = Inr (onAtisReceived env cs atis m)"
| "on_signal env (atisLogoffTimeReplyReceived cs zulu) m = Inr (onAtisLogoffTimeReceived env cs zulu m)"
| "on_signal env (flightPlanReceived cs fp rules alt planned actual) m =
     Inr (onFlightPlanReceived env cs (fp, rules, alt, planned, actual) m)"
| "on_signal env (realNameResponseReceived cs name) m = onRealNameReplyReceived env (CCallsign cs NoHint) name m"
| "on_signal env (planeInformationReceived cs aircraft airline livery) m =
     onIcaoCodesReceived env (CCallsign cs NoHint) aircraft airline livery m"
| "on_signal env (deletePilotReceived cs) m = Inr (onPilotDisconnected (CCallsign cs NoHint) m)"
| "on_signal env (deleteAtcReceived cs) m = Inr (onAtcControllerDisconnected env (CCallsign cs NoHint) m)"
| "on_signal env (pilotDataUpdateReceived s transponder) m =
     onAircraftUpdateReceived env (received_situation env NotSetGroundDetails s) transponder m"
| "on_signal env (interimPilotDataUpdatedReceived s) m = onAircraftInterimUpdateReceived env (received_situation env NotSetGroundDetails s) m"
| "on_signal env (visualPilotDataUpdateReceived s) m = onAircraftVisualUpdateReceived env (received_situation env NotSetGroundDetails s) m"
| "on_signal env (euroscopeSimDataUpdatedReceived s parts os model livery) m =
     onAircraftSimDataUpdateReceived env (received_situation env InFromNetwork s) parts os model livery m"
| "on_signal env (com1FrequencyResponseReceived cs f) m = onFrequencyReceived env (CCallsign cs NoHint) f m"
| "on_signal env (capabilityResponseReceived cs caps) m = Inr (onCapabilitiesReplyReceived env cs caps m)"
| "on_signal env (planeInformationFsinnReceived cs airline aircraft combined model) m =
     onCustomFSInnPacketReceived env cs airline aircraft combined model m"
| "on_signal env (serverResponseReceived cs server) m = Inr (onServerReplyReceived env (CCallsign cs NoHint) server m)"
| "on_signal env (aircraftConfigReceived cs config os) m = onAircraftConfigReceived env (CCallsign cs NoHint) config os m"
| "on_signal env (connectionStatusChanged old new) m = Inr (monitor_onConnectionStatusChanged env new m)"
| "on_signal env (revbAircraftConfigReceived cs config os) m = onRevBAircraftConfigReceived env (CCallsign cs NoHint) config os m"
| "on_signal env e m = Inr m"

fun on_signals :: "('a, 'b, 'au) monitor_environment \<Rightarrow> fsd_event list \<Rightarrow> ('a, 'b, 'au) airspace_monitor \<Rightarrow> fault + ('a, 'b, 'au) airspace_monitor" where
  "on_signals env [] m = Inr m"
| "on_signals env (e # es) m = and_then (on_signal env e m) (on_signals env es)"

text \<open>The client asks the monitor which aircraft are in range.\<close>

definition client_environment :: "('a, 'b, 'au) monitor_environment \<Rightarrow> ('a, 'b, 'au) airspace_monitor \<Rightarrow> 'au environment" where
  "client_environment env m = (fsd_env env)\<lparr>isAircraftInRange := \<lambda>cs. is_in_range cs (provider m)\<rparr>"

definition deliver_client_event ::
    "('a, 'b, 'au) monitor_environment \<Rightarrow> client_event \<Rightarrow> ('a, 'b, 'au) airspace_monitor \<Rightarrow> fault + ('a, 'b, 'au) airspace_monitor" where
  "deliver_client_event env ev m =
     and_then (handle_event (client_environment env m) ev (network m)) (\<lambda>c.
       on_signals env (drop (length (emitted (network m))) (emitted c)) (m\<lparr>network := c\<rparr>))"

subsection \<open>Everything that can happen\<close>

definition monitor_updateFastPositionEnabled ::
    "('a, 'b, 'au) monitor_environment \<Rightarrow> CCallsign \<Rightarrow> bool \<Rightarrow> ('a, 'b, 'au) airspace_monitor \<Rightarrow> bool \<times> ('a, 'b, 'au) airspace_monitor" where
  "monitor_updateFastPositionEnabled env callsign enableFastPositonUpdates m =
     (let (r, p) = updateFastPositionEnabled callsign enableFastPositonUpdates (provider m);
          m = m\<lparr>provider := p\<rparr>
      in (r, if isShuttingDown env then m
             else on_network (if enableFastPositonUpdates then addInterimPositionReceiver callsign
                              else removeInterimPositionReceiver callsign) m))"

datatype monitor_input =
  ClientEvent client_event
| ShotFires nat
| FastTimer
| SlowTimer
| TimeoutAircraft CCallsign
| TimeoutAtc CCallsign
| BookingsRead "CAtcStation list"
| BookingsReadUnchanged
| RequestAircraftDataUpdates
| RequestAtisUpdates
| RequestBookingsUpdate
| RequestFlightPlan CCallsign
| SetMaxRange "int option"
| ReInitializeAll
| FastPosition CCallsign bool

fun monitor_enabled :: "('a, 'b, 'au) monitor_environment \<Rightarrow> monitor_input \<Rightarrow> ('a, 'b, 'au) airspace_monitor \<Rightarrow> bool" where
  "monitor_enabled env (ClientEvent ev) m \<longleftrightarrow> enabled ev (network m)"
| "monitor_enabled env (ShotFires n) m \<longleftrightarrow> n < length (single_shots m) \<and> fst (single_shots m ! n) \<le> clock env"
| "monitor_enabled env _ m \<longleftrightarrow> True"

fun monitor_handle :: "('a, 'b, 'au) monitor_environment \<Rightarrow> monitor_input \<Rightarrow> ('a, 'b, 'au) airspace_monitor \<Rightarrow> fault + ('a, 'b, 'au) airspace_monitor" where
  "monitor_handle env (ClientEvent ev) m = deliver_client_event env ev m"
| "monitor_handle env (ShotFires n) m =
     fire env (snd (single_shots m ! n)) (m\<lparr>single_shots := take n (single_shots m) @ drop (n + 1) (single_shots m)\<rparr>)"
| "monitor_handle env FastTimer m = Inr (fastProcessing env m)"
| "monitor_handle env SlowTimer m = Inr (slowProcessing env m)"
| "monitor_handle env (TimeoutAircraft cs) m = Inr (onPilotDisconnected cs m)"
| "monitor_handle env (TimeoutAtc cs) m = Inr (onAtcControllerDisconnected env cs m)"
| "monitor_handle env (BookingsRead stations) m = onReceivedAtcBookings env stations m"
| "monitor_handle env BookingsReadUnchanged m = Inr (onReadUnchangedAtcBookings m)"
| "monitor_handle env RequestAircraftDataUpdates m = Inr (requestAircraftDataUpdates env m)"
| "monitor_handle env RequestAtisUpdates m = Inr (requestAtisUpdates env m)"
| "monitor_handle env RequestBookingsUpdate m = Inr (requestAtcBookingsUpdate env m)"
| "monitor_handle env (RequestFlightPlan cs) m = Inr (loadFlightPlanFromNetwork env cs m)"
| "monitor_handle env (SetMaxRange r) m = Inr (setMaxRange r m)"
| "monitor_handle env ReInitializeAll m = Inr (reInitializeAllAircraft env m)"
| "monitor_handle env (FastPosition cs b) m = Inr (snd (monitor_updateFastPositionEnabled env cs b m))"

end
