(* ===== verification/AirspaceMonitorFacts.thy ===== *)
theory AirspaceMonitorFacts
  imports AirspaceMonitorMachine RemoteAircraftFacts FsdClientInvariant
begin

section \<open>What holds of the airspace monitor\<close>

text \<open>
  The invariant of the monitor over everything that can happen: its aircraft, its clients and its stations
  are in order, and its network client is a client in a reachable state, so that what is proved of
  clients holds of it too.
\<close>

subsection \<open>Surroundings\<close>

text \<open>
  Computing with the geometry of a situation leaves its times and its callsign alone; going through a hash
  gives each of its keys once.
\<close>

definition same_times :: "'a remote_situation_scheme \<Rightarrow> 'a remote_situation_scheme \<Rightarrow> bool" where
  "same_times s s' \<longleftrightarrow> m_timestampMSecsSinceEpoch s' = m_timestampMSecsSinceEpoch s \<and> m_timeOffsetMs s' = m_timeOffsetMs s
     \<and> rs_callsign s' = rs_callsign s"

lemma same_times_refl [simp]: "same_times s s"
  by (simp add: same_times_def)

lemma same_times_trans [trans]: "same_times s s' \<Longrightarrow> same_times s' s'' \<Longrightarrow> same_times s s''"
  by (simp add: same_times_def)

definition surroundings_ok :: "('a, 'b, 'au) monitor_environment \<Rightarrow> bool" where
  "surroundings_ok env \<longleftrightarrow>
     clock_sane (fsd_env env) \<and> geometry_ok (prov_env env)
     \<and> (\<forall>a. a_callsign (updateWithVatsimDataFileData env a) = a_callsign a)
     \<and> (\<forall>old s. same_times s (withGroundSpeedOf env old s))
     \<and> (\<forall>p i s. same_times s (setGroundElevation env p i s)) \<and> (\<forall>s. same_times s (resetGroundElevation env s))
     \<and> (\<forall>l s s'. transferClosestElevation env l s = Some s' \<longrightarrow> same_times s s')
     \<and> (\<forall>old s s'. transferElevation env old s = Some s' \<longrightarrow> same_times s s')
     \<and> (\<forall>os s. rs_callsign (withAltitudeOffset (prov_env env) os s) = rs_callsign s)
     \<and> (\<forall>m. finite (dom m) \<longrightarrow> distinct (hashOrder env m) \<and> set (hashOrder env m) = dom m)"

lemma surroundings_okD:
  assumes "surroundings_ok env"
  shows "clock_sane (fsd_env env)" "geometry_ok (prov_env env)" "clock_sane (client_environment env m)"
    "a_callsign (updateWithVatsimDataFileData env a) = a_callsign a" "same_times s (withGroundSpeedOf env old s)"
    "same_times s (setGroundElevation env p i s)" "same_times s (resetGroundElevation env s)"
    "transferClosestElevation env l s = Some s' \<Longrightarrow> same_times s s'" "transferElevation env old s = Some s' \<Longrightarrow> same_times s s'"
  using assms by (simp_all add: surroundings_ok_def client_environment_def clock_sane_def)

lemma hash_order:
  assumes "surroundings_ok env" "finite (dom m)"
  shows "distinct (hashOrder env m)" "set (hashOrder env m) = dom m"
  using assms by (simp_all add: surroundings_ok_def)

lemma spreadable_same: "same_times s s' \<Longrightarrow> spreadable s' = spreadable s"
  by (simp add: same_times_def spreadable_def)

lemma sane_spreadable: "sane_times s \<Longrightarrow> spreadable s"
  by (simp add: sane_times_def spreadable_def c_positionTimeOffsetMsec_def)

lemma test_offset_times:
  "surroundings_ok env \<Longrightarrow> same_times s (addTestAltitudeOffsetToSituation (prov_env env) p s)"
  by (auto simp: addTestAltitudeOffsetToSituation_def surroundings_ok_def geometry_ok_def same_times_def Let_def split: option.split)

lemma extrapolate_times:
  "surroundings_ok env \<Longrightarrow> same_times s (snd (extrapolateElevation env s old older change))"
  by (auto simp: extrapolateElevation_def surroundings_okD split: option.split)

lemma preset_times: "surroundings_ok env \<Longrightarrow> same_times c (fst (presetElevation env s change p c))"
  by (auto simp: presetElevation_def surroundings_okD extrapolate_times split: option.split list.split)

lemma from_surroundings_times:
  assumes "surroundings_ok env"
  shows "same_times c (fst (elevationFromSurroundings env s change p c))"
proof -
  obtain c' b where r: "(case transferClosestElevation env (remoteAircraftSituations (rs_callsign s) p) c of
               Some corrected \<Rightarrow> (corrected, False)
             | None \<Rightarrow> let ep = closestElevationInCache env c in (setGroundElevation env ep FromCache c, ep = None)) = (c', b)"
    by fastforce
  then have "same_times c c'" using surroundings_okD(6,8) [OF assms] by (auto simp: Let_def split: option.splits)
  moreover have "same_times c' (fst (presetElevation env s change p c'))" by (rule preset_times [OF assms])
  ultimately show ?thesis using r same_times_trans by (auto simp: elevationFromSurroundings_def case_prod_beta)
qed

lemma find_elevation_times:
  assumes "surroundings_ok env" shows "same_times c (fst (findElevation env s p c))"
proof -
  have "same_times c (resetGroundElevation env c)" by (rule surroundings_okD(7) [OF assms])
  moreover have "same_times (resetGroundElevation env c)
      (fst (elevationFromSurroundings env s change p (resetGroundElevation env c)))" for change
    by (rule from_surroundings_times [OF assms])
  ultimately show ?thesis
    by (auto simp: findElevation_def case_prod_beta Let_def intro: same_times_trans)
qed

lemma ground_details_times: "same_times c (withGroundDetails s m c)"
  by (auto simp: withGroundDetails_def same_times_def adjustGroundFlag_parts_def setOnGround_details_def setOnGround_def Let_def
    split: option.split)

subsection \<open>The invariant\<close>

text \<open>No callsign waits twice in a queue.\<close>

definition one_query_each :: "CCallsign list \<Rightarrow> bool" where
  "one_query_each queue \<longleftrightarrow> sorted_wrt (\<lambda>a b. \<not> callsign_eq a b) queue"

definition monitor_ok :: "('a, 'b, 'au) airspace_monitor \<Rightarrow> bool" where
  "monitor_ok m \<longleftrightarrow> provider_ok (provider m) \<and> clients_ok (m_clients m) \<and> one_each (m_atcStationsOnline m)
     \<and> one_query_each (m_queryPilot m) \<and> one_query_each (m_queryAtis m) \<and> reachable (network m)"

lemma ok_monitor_start: "reachable c \<Longrightarrow> monitor_ok (CAirspaceMonitor c developer)"
  using provider_ok_start
  by (simp add: monitor_ok_def CAirspaceMonitor_def clients_ok_def one_each_def one_query_each_def enableReverseLookupMessages_def)

text \<open>The members it does not mention.\<close>

lemma monitor_ok_other [simp]:
  "monitor_ok (report e m) = monitor_ok m" "monitor_ok (single_shot t what m) = monitor_ok m"
  "monitor_ok (set_readiness cs r m) = monitor_ok m" "monitor_ok (addMatchingReadinessFlag t cs f m) = monitor_ok m"
  "monitor_ok (m\<lparr>m_readiness := rs\<rparr>) = monitor_ok m" "monitor_ok (m\<lparr>m_tempFsInnPackets := ps\<rparr>) = monitor_ok m"
  "monitor_ok (m\<lparr>m_flightPlanCache := fs\<rparr>) = monitor_ok m" "monitor_ok (m\<lparr>m_atcStationsBooked := ss\<rparr>) = monitor_ok m"
  "monitor_ok (m\<lparr>m_bookingsRequested := b\<rparr>) = monitor_ok m" "monitor_ok (m\<lparr>single_shots := shots\<rparr>) = monitor_ok m"
  "monitor_ok (m\<lparr>m_maxDistanceNM := i\<rparr>) = monitor_ok m" "monitor_ok (m\<lparr>m_maxDistanceNMHysteresis := i\<rparr>) = monitor_ok m"
  "monitor_ok (m\<lparr>m_foundInNonMovingAircraft := i\<rparr>) = monitor_ok m" "monitor_ok (m\<lparr>m_foundInElevationsOnGnd := i\<rparr>) = monitor_ok m"
  by (simp_all add: monitor_ok_def report_def single_shot_def set_readiness_def addMatchingReadinessFlag_def)

lemma ok_if_report: "monitor_ok (if b then report e m else m) = monitor_ok m"
  by simp

lemma monitor_okI:
  assumes "monitor_ok m"
  shows "provider_ok p \<Longrightarrow> monitor_ok (m\<lparr>provider := p\<rparr>)" "reachable c \<Longrightarrow> monitor_ok (m\<lparr>network := c\<rparr>)"
    "clients_ok cs \<Longrightarrow> monitor_ok (m\<lparr>m_clients := cs\<rparr>)" "one_each ss \<Longrightarrow> monitor_ok (m\<lparr>m_atcStationsOnline := ss\<rparr>)"
    "one_query_each q \<Longrightarrow> monitor_ok (m\<lparr>m_queryPilot := q\<rparr>)" "one_query_each q \<Longrightarrow> monitor_ok (m\<lparr>m_queryAtis := q\<rparr>)"
  using assms by (simp_all add: monitor_ok_def)

lemma monitor_okD:
  assumes "monitor_ok m"
  shows "provider_ok (provider m)" "clients_ok (m_clients m)" "one_each (m_atcStationsOnline m)" "one_query_each (m_queryPilot m)"
    "one_query_each (m_queryAtis m)" "reachable (network m)"
  using assms by (simp_all add: monitor_ok_def)

text \<open>Its parts one at a time.\<close>

lemma ok_on_network: "monitor_ok m \<Longrightarrow> (\<And>c. reachable c \<Longrightarrow> reachable (f c)) \<Longrightarrow> monitor_ok (on_network f m)"
  by (simp add: on_network_def monitor_ok_def)

lemma ok_on_provider: "monitor_ok m \<Longrightarrow> (\<And>p. provider_ok p \<Longrightarrow> provider_ok (f p)) \<Longrightarrow> monitor_ok (on_provider f m)"
  by (simp add: on_provider_def monitor_ok_def)

lemma ok_on_clients: "monitor_ok m \<Longrightarrow> (\<And>cs. clients_ok cs \<Longrightarrow> clients_ok (f cs)) \<Longrightarrow> monitor_ok (on_clients f m)"
  by (simp add: on_clients_def monitor_ok_def)

lemma ok_try_provider:
  assumes "monitor_ok m" "\<And>p. provider_ok p \<Longrightarrow> all_ok (\<lambda>x. provider_ok (snd x)) (f p)"
  shows "all_ok (\<lambda>x. monitor_ok (snd x)) (try_provider f m)"
proof -
  have "all_ok (\<lambda>x. monitor_ok (m\<lparr>provider := snd x\<rparr>)) (f (provider m))"
    by (rule all_ok_mono [OF assms(2) [OF monitor_okD(1) [OF assms(1)]]]) (auto intro: monitor_okI assms(1))
  then show ?thesis by (simp add: try_provider_def case_prod_beta)
qed

subsection \<open>Queries\<close>

lemma network_event:
  "reachable c \<Longrightarrow> clock_sane env \<Longrightarrow> enabled ev c \<Longrightarrow> handle_event env ev c = Inr c' \<Longrightarrow> reachable c'"
  by (blast intro: reachable_step client_step)

lemma network_query [intro]:
  assumes "reachable c" "clock_sane env"
  shows "reachable (sendClientQuery env qt cs qd c)" "reachable (sendPlaneInfoRequest env cs c)"
    "reachable (sendPlaneInfoRequestFsinn env cs c)" "reachable (addInterimPositionReceiver cs c)"
    "reachable (removeInterimPositionReceiver cs c)"
proof -
  note step = network_event [OF assms]
  show "reachable (sendClientQuery env qt cs qd c)" by (rule step [of "SendClientQuery qt cs qd"]) simp_all
  show "reachable (sendPlaneInfoRequest env cs c)" by (rule step [of "SendPlaneInfoRequest cs"]) simp_all
  show "reachable (sendPlaneInfoRequestFsinn env cs c)" by (rule step [of "SendPlaneInfoRequestFsinn cs"]) simp_all
  have set: "reachable (c\<lparr>m_interimPositionReceivers := l\<rparr>)" for l
    by (rule step [of "SetInterimPositionReceivers l"]) (simp_all add: setInterimPositionReceivers_def)
  then show "reachable (addInterimPositionReceiver cs c)" "reachable (removeInterimPositionReceiver cs c)"
    using assms(1) by (simp_all add: addInterimPositionReceiver_def removeInterimPositionReceiver_def)
qed

lemmas client_query_defs = sendClientQueryRealName_def sendClientQueryAtis_def sendClientQueryCapabilities_def sendClientQueryServer_def
  sendClientQueryCom1Freq_def sendClientQueryAircraftConfig_def sendClientQueryFlightPlan_def

lemma ok_queries [intro]:
  assumes "monitor_ok m" "surroundings_ok env"
  shows "monitor_ok (sendInitialAtcQueries env cs m)" "monitor_ok (sendInitialPilotQueries env cs b b' m)"
    "monitor_ok (queryAllOnlineAtcStations env m)"
proof -
  note clock = surroundings_okD(1) [OF assms(2)]
  show "monitor_ok (sendInitialAtcQueries env cs m)"
    using assms(1) clock unfolding sendInitialAtcQueries_def client_query_defs Let_def by (auto intro!: ok_on_network network_query)
  show "monitor_ok (sendInitialPilotQueries env cs b b' m)"
    using assms(1) clock unfolding sendInitialPilotQueries_def client_query_defs Let_def by (auto intro!: ok_on_network network_query)
  have "monitor_ok (fold (\<lambda>station m. if isEmpty (st_callsign station) then m
      else on_network (sendClientQuery (fsd_env env) Query_RealName (st_callsign station) []) m) ss m)" for ss :: "CAtcStation list"
    using assms(1) clock by (induction ss arbitrary: m) (auto intro!: ok_on_network network_query)
  then show "monitor_ok (queryAllOnlineAtcStations env m)"
    using assms(1) unfolding queryAllOnlineAtcStations_def client_query_defs by simp
qed

lemma one_query_enqueue: "one_query_each q \<Longrightarrow> one_query_each (enqueue_callsign cs q)"
  by (auto simp: one_query_each_def enqueue_callsign_def sorted_wrt_append list_ex_iff callsign_eq_iff)

lemma one_query_fold: "one_query_each q \<Longrightarrow> one_query_each (fold enqueue_callsign css q)"
  by (induction css arbitrary: q) (simp_all add: one_query_enqueue)

lemma one_query_tl: "one_query_each (cs # q) \<Longrightarrow> one_query_each q"
  by (simp add: one_query_each_def)

lemma ok_staggered [intro]:
  assumes "monitor_ok m" "surroundings_ok env"
  shows "monitor_ok (snd (sendNextStaggeredAtisQuery env m))" "monitor_ok (snd (sendNextStaggeredPilotDataQuery env m))"
proof -
  note clock = surroundings_okD(1) [OF assms(2)]
  show "monitor_ok (snd (sendNextStaggeredAtisQuery env m))"
    using assms(1) clock one_query_tl monitor_okD(5) [OF assms(1)] unfolding sendNextStaggeredAtisQuery_def client_query_defs Let_def
    by (auto intro!: ok_on_network network_query monitor_okI split: list.split)
  show "monitor_ok (snd (sendNextStaggeredPilotDataQuery env m))"
    using assms(1) clock one_query_tl monitor_okD(4) [OF assms(1)] unfolding sendNextStaggeredPilotDataQuery_def client_query_defs Let_def
    by (auto intro!: ok_on_network network_query monitor_okI split: list.split)
qed

lemma ok_processing:
  assumes "monitor_ok m" "surroundings_ok env"
  shows "monitor_ok (fastProcessing env m)" "monitor_ok (slowProcessing env m)" "monitor_ok (requestAircraftDataUpdates env m)"
    "monitor_ok (requestAtisUpdates env m)" "monitor_ok (requestAtcBookingsUpdate env m)"
proof -
  show "monitor_ok (fastProcessing env m)"
    using assms ok_staggered(1) [OF assms] ok_staggered(2) [OF _ assms(2)]
    by (cases "sendNextStaggeredAtisQuery env m") (auto simp: fastProcessing_def)
qed (use assms monitor_okD [OF assms(1)] in \<open>auto simp: slowProcessing_def requestAircraftDataUpdates_def requestAtisUpdates_def
  requestAtcBookingsUpdate_def intro!: monitor_okI one_query_fold\<close>)

subsection \<open>Aircraft\<close>

lemma apply_aircraft_callsign:
  assumes "\<forall>u\<in>set vm. \<forall>a. a_callsign (fst u a) = a_callsign a"
  shows "a_callsign (snd (apply_updates skip vm a)) = a_callsign a"
  using assms by (induction skip vm a rule: apply_updates.induct) (auto simp: case_prod_beta Let_def)

lemma update_in_range_ok:
  assumes "provider_ok p" "\<forall>u\<in>set vm. \<forall>a. a_callsign (fst u a) = a_callsign a"
  shows "all_ok (\<lambda>x. provider_ok (snd x)) (updateAircraftInRange callsign vm skip p)"
proof (cases "isEmpty callsign \<or> m_aircraftInRange p (asString callsign) = None")
  case False
  then obtain a where a: "m_aircraftInRange p (asString callsign) = Some a" by blast
  have "provider_ok (p\<lparr>m_aircraftInRange := (m_aircraftInRange p)(asString callsign \<mapsto> snd (apply_updates skip vm a))\<rparr>)"
    using update_aircraft_ok [OF assms(1), of "\<lambda>a. (True, snd (apply_updates skip vm a))" "asString callsign"] a
      apply_aircraft_callsign [OF assms(2)] by (simp add: update_aircraft_def)
  then show ?thesis using False a by (simp add: updateAircraftInRange_def case_prod_beta Let_def)
qed (use assms(1) in \<open>auto simp: updateAircraftInRange_def\<close>)

lemma update_aircraft_callsigns [simp]:
  "a_callsign (fst (with_transponder v) a) = a_callsign a" "a_callsign (fst (with_model mdl) a) = a_callsign a"
  "a_callsign (fst (with_networkModel mdl) a) = a_callsign a" "a_callsign (fst (with_com1 env f) a) = a_callsign a"
  "a_callsign (fst (with_pilotRealName kept n) a) = a_callsign a"
  by (simp_all add: with_transponder_def with_model_def with_networkModel_def with_com1_def with_pilotRealName_def)

lemma update_model_ok:
  assumes "provider_ok p"
  shows "all_ok (\<lambda>x. provider_ok (snd x)) (updateAircraftModel cs model p)"
    "all_ok (\<lambda>x. provider_ok (snd x)) (updateAircraftNetworkModel cs model p)"
  using all_ok_mono [OF update_in_range_ok [OF assms]] by (auto simp: updateAircraftModel_def updateAircraftNetworkModel_def case_prod_beta)

subsection \<open>Receiving\<close>

lemma ok_sendReady [simp]: "monitor_ok m \<Longrightarrow> all_ok monitor_ok (sendReadyForModelMatching env cs rf m)"
  by (simp add: sendReadyForModelMatching_def Let_def)

lemma ok_verify [simp]:
  "monitor_ok m \<Longrightarrow> surroundings_ok env \<Longrightarrow> all_ok monitor_ok (verifyReceivedIcaoData env cs m)"
  by (auto simp: verifyReceivedIcaoData_def Let_def intro!: ok_queries)

lemma ok_addOrUpdate [simp]:
  assumes "monitor_ok m"
  shows "all_ok monitor_ok (addOrUpdateAircraftInRange env cs aircraft airline livery modelString m)"
proof -
  define m1 where "m1 = snd (reverseLookupModelWithFlightplanData env cs aircraft airline livery modelString m)"
  have m1: "monitor_ok m1"
    using assms by (auto simp: m1_def reverseLookupModelWithFlightplanData_def Let_def intro!: ok_on_clients clients_ops_ok)
  have "all_ok (\<lambda>x. all_ok (\<lambda>x. monitor_ok (snd x)) (try_provider (updateAircraftNetworkModel cs model) (snd x)))
      (try_provider (updateAircraftModel cs model) m1)" for model
    by (rule all_ok_mono [OF ok_try_provider [OF m1]]) (auto intro: ok_try_provider update_model_ok)
  then show ?thesis using assms
    by (simp add: addOrUpdateAircraftInRange_def case_prod_beta Let_def flip: m1_def)
qed

lemma ok_fsinn [simp]:
  assumes "monitor_ok m" "surroundings_ok env"
  shows "all_ok monitor_ok (onCustomFSInnPacketReceived env cs airline aircraft combined modelString m)"
proof -
  have 1: "monitor_ok (on_clients (\<lambda>c. snd (updateOrAddClient cs [with_modelString modelString] True c)) m)"
    using assms(1) by (intro ok_on_clients clients_ops_ok) auto
  then have "all_ok (\<lambda>x. all_ok monitor_ok (sendReadyForModelMatching env cs ReceivedFsInnPacket x))
      (addOrUpdateAircraftInRange env cs aircraft airline [] used (addMatchingReadinessFlag t cs f
        (on_clients (\<lambda>c. snd (updateOrAddClient cs [with_modelString modelString] True c)) m)))" for used t f
    by (intro all_ok_mono [OF ok_addOrUpdate]) simp_all
  then show ?thesis using assms 1 by (simp add: onCustomFSInnPacketReceived_def Let_def)
qed

lemma ok_recall [simp]:
  "monitor_ok m \<Longrightarrow> surroundings_ok env \<Longrightarrow> all_ok (\<lambda>x. monitor_ok (snd x)) (recallFsInnPacket env cs m)"
  by (simp add: recallFsInnPacket_def split: option.split)

lemma ok_icao [simp]:
  assumes "monitor_ok m"
  shows "all_ok monitor_ok (onIcaoCodesReceived env cs aircraft airline livery m)"
proof -
  have "all_ok (\<lambda>x. all_ok monitor_ok (sendReadyForModelMatching env cs ReceivedIcaoCodes x))
      (addOrUpdateAircraftInRange env cs aircraft airline livery modelString m)" for modelString
    by (rule all_ok_mono [OF ok_addOrUpdate [OF assms]]) simp
  then show ?thesis using assms by (simp add: onIcaoCodesReceived_def Let_def)
qed

lemma ok_addNew [simp]:
  assumes "monitor_ok m"
  shows "all_ok (\<lambda>x. monitor_ok (snd x)) (monitor_addNewAircraftInRange env a m)"
proof -
  have "monitor_ok (m\<lparr>provider := snd (addNewAircraftInRange a' (provider m))\<rparr>)" for a'
    using assms by (intro monitor_okI aircraft_ops_ok monitor_okD)
  then show ?thesis using assms
    by (auto simp: monitor_addNewAircraftInRange_def case_prod_beta Let_def rememberCGFromDB_def rememberCGFromDB_model_def
      intro!: ok_on_provider)
qed

lemma ok_range:
  assumes "monitor_ok m"
  shows "monitor_ok (setMaxRange r m)" "monitor_ok (snd (handleMaxRange env s m))"
  using assms by (auto simp: setMaxRange_def handleMaxRange_def Let_def intro!: ok_on_provider remove_ok split: option.split)

lemma ok_store [simp]:
  assumes "monitor_ok m" "surroundings_ok env" "spreadable s"
  shows "all_ok (\<lambda>x. monitor_ok (snd x)) (monitor_storeAircraftSituation env s b m)"
proof -
  define c0 where "c0 = (if b then addTestAltitudeOffsetToSituation (prov_env env) (provider m) s else s)"
  obtain c1 need skip guess where f: "findElevation env s (provider m) c0 = (c1, need, skip, guess)"
    by (cases "findElevation env s (provider m) c0") auto
  define m1 where "m1 = (case guess of NoGuess \<Rightarrow> m
                 | FromNonMoving \<Rightarrow> m\<lparr>m_foundInNonMovingAircraft := c_int (m_foundInNonMovingAircraft m + 1)\<rparr>
                 | FromElevationsOnGnd \<Rightarrow> m\<lparr>m_foundInElevationsOnGnd := c_int (m_foundInElevationsOnGnd m + 1)\<rparr>)"
  define c2 where "c2 = withGroundDetails s m1 c1"
  have "same_times s c0" using test_offset_times [OF assms(2)] by (simp add: c0_def)
  moreover have "same_times c0 c1" using find_elevation_times [OF assms(2), of c0 s "provider m"] f by simp
  moreover have "same_times c1 c2" by (simp add: c2_def ground_details_times)
  ultimately have sp: "spreadable c2" using assms(3) spreadable_same same_times_trans by blast
  have m1: "monitor_ok m1" using assms(1) by (simp add: m1_def split: ground_guess.split)
  have "all_ok (\<lambda>x. provider_ok (snd x)) (storeAircraftSituation (prov_env env) c False p)" if "spreadable c" "provider_ok p" for c p
    using store_situation_ok [OF that(2) surroundings_okD(2) [OF assms(2)] that(1), of False] by auto
  then have "all_ok (\<lambda>x. monitor_ok (snd x)) (try_provider (storeAircraftSituation (prov_env env) c False) m1)" if "spreadable c" for c
    using that by (intro ok_try_provider [OF m1])
  moreover have "spreadable (c2\<lparr>m_cg := cg\<rparr>)" for cg using sp by (simp add: spreadable_def)
  ultimately have "all_ok (\<lambda>x. monitor_ok (snd x)) (try_provider (storeAircraftSituation (prov_env env) c2 False) m1)"
    "all_ok (\<lambda>x. monitor_ok (snd x)) (try_provider (storeAircraftSituation (prov_env env) (c2\<lparr>m_cg := cg\<rparr>) False) m1)" for cg
    using sp by simp_all
  then show ?thesis using assms(1) unfolding monitor_storeAircraftSituation_def Let_def
    by (simp add: f case_prod_beta ok_if_report flip: c0_def m1_def c2_def)
qed

lemma received_sane [simp]: "sane_times (received_situation env d s) = sane_times s"
  by (simp add: received_situation_def sane_times_def)

text \<open>The callsign of a situation under a pilot's handlers is the callsign of its signal.\<close>

lemma ok_update [simp]:
  assumes "monitor_ok m" "surroundings_ok env" "spreadable s"
  shows "all_ok monitor_ok (onAircraftUpdateReceived env s transponder m)"
proof -
  define m1 where "m1 = on_clients (\<lambda>cs. snd (autoAdjustCientGndCapability s cs)) (snd (handleMaxRange env s m))"
  have m1: "monitor_ok m1" using ok_range(2) [OF assms(1)] by (auto simp: m1_def intro!: ok_on_clients clients_ops_ok)
  have new: "all_ok (\<lambda>x. monitor_ok (on_clients (\<lambda>cs. snd (addNewClient c cs)) (sendInitialPilotQueries env cs True q (snd x))))
      (monitor_addNewAircraftInRange env a m)" if "monitor_ok m" for a m q c cs
    by (rule all_ok_mono [OF ok_addNew [OF that]]) (auto intro!: ok_on_clients clients_ops_ok ok_queries assms(2))
  have old: "all_ok (\<lambda>x. monitor_ok (snd x)) (try_provider (updateAircraftInRange cs [with_transponder transponder] True) m)"
    if "monitor_ok m" for cs m
    by (rule ok_try_provider [OF that]) (rule update_in_range_ok, simp_all)
  have "all_ok (\<lambda>x. all_ok (\<lambda>y. monitor_ok (on_clients (\<lambda>cs. snd (addNewClient c cs)) (sendInitialPilotQueries env cs True (q x) (snd y))))
      (monitor_addNewAircraftInRange env a (snd x))) (monitor_storeAircraftSituation env s True m1)" for a q c cs
    by (rule all_ok_mono [OF ok_store [OF m1 assms(2,3)]]) (use new in auto)
  moreover have "all_ok (\<lambda>x. all_ok (\<lambda>x. monitor_ok (snd x)) (try_provider (updateAircraftInRange cs [with_transponder transponder] True) (snd x)))
      (monitor_storeAircraftSituation env s True m1)" for cs
    by (rule all_ok_mono [OF ok_store [OF m1 assms(2,3)]]) (use old in auto)
  ultimately show ?thesis using assms(1) ok_range(2) [OF assms(1)]
    by (cases "is_in_range (rs_callsign s) (provider (snd (handleMaxRange env s m)))")
      (simp_all add: onAircraftUpdateReceived_def case_prod_beta Let_def flip: m1_def)
qed

lemma ok_between [simp]:
  assumes "monitor_ok m" "surroundings_ok env" "sane_times s"
  shows "all_ok monitor_ok (between_update env s m)"
proof -
  have "spreadable (withGroundSpeedOf env old (s\<lparr>m_timestampMSecsSinceEpoch := clock env\<rparr>))" for old
    using surroundings_okD(1) [OF assms(2)] sane_spreadable [OF assms(3)]
    by (subst spreadable_same [OF surroundings_okD(5) [OF assms(2)]]) (simp add: spreadable_def clock_sane_def clock_def)
  then have "all_ok (\<lambda>x. monitor_ok (snd x)) (monitor_storeAircraftSituation env
      (withGroundSpeedOf env old (s\<lparr>m_timestampMSecsSinceEpoch := clock env\<rparr>)) True m)" for old
    by (rule ok_store [OF assms(1,2)])
  then show ?thesis using assms(1)
    by (simp add: between_update_def case_prod_beta Let_def split: option.split)
qed

lemma sends_parts_ok: "clients_ok cs \<Longrightarrow> clients_ok (sendsParts callsign cs)"
  by (simp add: sendsParts_def clients_ops_ok Let_def)

lemma ok_config [simp]:
  assumes "monitor_ok m"
  shows "all_ok monitor_ok (onAircraftConfigReceived env cs ob os m)" "all_ok monitor_ok (onRevBAircraftConfigReceived env cs config os m)"
proof -
  have store: "monitor_ok (on_clients (sendsParts cs) (m\<lparr>provider := p\<rparr>))" if "provider_ok p" for p
    using assms that by (intro ok_on_clients monitor_okI sends_parts_ok)
  have "all_ok (\<lambda>p. monitor_ok (on_clients (sendsParts cs) (m\<lparr>provider := p\<rparr>)))
      (storeAircraftParts_json (prov_env env) cs ob os (provider m))"
    by (rule all_ok_mono [OF store_json_ok [OF monitor_okD(1) [OF assms]] store])
  then show "all_ok monitor_ok (onAircraftConfigReceived env cs ob os m)" using assms by (simp add: onAircraftConfigReceived_def)
  have "all_ok (\<lambda>p. monitor_ok (on_clients (sendsParts cs) (m\<lparr>provider := p\<rparr>)))
      (storeAircraftParts (prov_env env) cs parts True (provider m))" for parts
    by (rule all_ok_mono [OF store_parts_ok [OF monitor_okD(1) [OF assms]] store])
  then show "all_ok monitor_ok (onRevBAircraftConfigReceived env cs config os m)"
    using assms by (simp add: onRevBAircraftConfigReceived_def all_ok_always)
qed

lemma ok_sim_data [simp]:
  assumes "monitor_ok m" "surroundings_ok env" "sane_times s"
  shows "all_ok monitor_ok (onAircraftSimDataUpdateReceived env s parts os aircraft airline m)"
proof -
  have after: "all_ok monitor_ok (and_then (if b then onIcaoCodesReceived env cs aircraft airline airline m else Inr m)
      (onAircraftConfigReceived env cs ob os))" if "monitor_ok m" for b cs ob and m :: "('a, 'b, 'c) airspace_monitor"
    using that by (auto intro: all_ok_mono [OF ok_icao [OF that]])
  show ?thesis unfolding onAircraftSimDataUpdateReceived_def Let_def all_ok_simps(3)
    by (rule all_ok_mono [OF ok_update [OF assms(1,2) sane_spreadable [OF assms(3)]]]) (use after in simp)
qed

lemma ok_frequency [simp]:
  assumes "monitor_ok m" shows "all_ok monitor_ok (onFrequencyReceived env cs f m)"
proof -
  have "all_ok (\<lambda>x. monitor_ok (snd x)) (try_provider (updateAircraftInRange cs [with_com1 env f] True) m)"
    by (intro ok_try_provider [OF assms] update_in_range_ok) auto
  then show ?thesis by (simp add: onFrequencyReceived_def case_prod_beta)
qed

lemma ok_clients_handlers [simp]:
  assumes "monitor_ok m" "surroundings_ok env"
  shows "monitor_ok (onCapabilitiesReplyReceived env cs caps m)" "monitor_ok (onServerReplyReceived env cs server m)"
    "monitor_ok (onFlightPlanReceived env cs fp m)"
proof -
  show "monitor_ok (onCapabilitiesReplyReceived env cs caps m)"
    using assms surroundings_okD(1) [OF assms(2)] unfolding onCapabilitiesReplyReceived_def client_query_defs Let_def
    by (auto intro!: ok_on_network network_query ok_on_clients clients_ops_ok)
  show "monitor_ok (onServerReplyReceived env cs server m)"
    using assms unfolding onServerReplyReceived_def by (auto intro!: ok_on_clients clients_ops_ok)
qed (use assms(1) in \<open>simp add: onFlightPlanReceived_def\<close>)

subsection \<open>Controllers\<close>

lemma station_callsigns [simp]:
  "st_callsign (fst (with_frequency f) s) = st_callsign s" "st_callsign (fst (with_position lat lon) s) = st_callsign s"
  "st_callsign (fst (with_range r) s) = st_callsign s" "st_callsign (fst (with_isOnline b) s) = st_callsign s"
  "st_callsign (fst (with_bookedUntil t) s) = st_callsign s" "st_callsign (fst with_controllerRealName s) = st_callsign s"
  by (simp_all add: with_controllerRealName_def with_frequency_def with_position_def with_range_def with_isOnline_def with_bookedUntil_def)

lemma ok_update_station:
  assumes "monitor_ok m" "\<forall>u\<in>set vm. \<forall>s. st_callsign (fst u s) = st_callsign s"
  shows "monitor_ok (snd (updateOnlineStation cs vm skip b m))" "monitor_ok (snd (updateBookedStation cs vm skip b m))"
  using assms(1) one_each_callsigns [OF applied_callsigns [OF assms(2)]] monitor_okD(3) [OF assms(1)]
  by (auto simp: updateOnlineStation_def updateBookedStation_def case_prod_beta Let_def intro!: monitor_okI)

lemma ok_real_name_of_pilot:
  assumes "monitor_ok m" shows "all_ok monitor_ok (real_name_of_pilot env cs rn wasAtc m)"
proof -
  have named: "monitor_ok (on_clients (\<lambda>c. snd (updateOrAddClient cs [with_userRealName kept n] False c)) m')"
    if "monitor_ok m'" for kept n and m' :: "('a, 'b, 'c) airspace_monitor"
    using that by (intro ok_on_clients clients_ops_ok) auto
  have "all_ok (\<lambda>x. monitor_ok (snd x)) (try_provider (updateAircraftInRange cs [with_pilotRealName kept n] True) m)" for kept n
    by (intro ok_try_provider [OF assms] update_in_range_ok) auto
  then have "all_ok (\<lambda>x. monitor_ok (on_clients (\<lambda>c. snd (updateOrAddClient cs [with_userRealName kept n] False c)) (snd x)))
      (try_provider (updateAircraftInRange cs [with_pilotRealName kept n] True) m)" for kept n
    by (rule all_ok_mono) (rule named)
  then show ?thesis using assms named
    by (cases wasAtc) (simp_all add: real_name_of_pilot_def case_prod_beta)
qed

lemma ok_real_name [simp]:
  assumes "monitor_ok m" shows "all_ok monitor_ok (onRealNameReplyReceived env cs name m)"
proof -
  define m1 where "m1 = snd (updateOnlineStation cs [with_controllerRealName] False True m)"
  have "monitor_ok m1" using assms by (simp add: m1_def ok_update_station)
  then have "monitor_ok (snd (updateBookedStation cs [with_controllerRealName] False True m1))" by (simp add: ok_update_station)
  then show ?thesis using assms
    by (simp add: onRealNameReplyReceived_def case_prod_beta ok_real_name_of_pilot Let_def flip: m1_def)
qed

lemma new_station_callsign: "st_callsign (fst (new_station env cs f lat lon r booked)) = cs"
  by (simp add: new_station_def case_prod_beta Let_def)

lemma ok_atc_position [simp]:
  assumes "monitor_ok m" "surroundings_ok env"
  shows "monitor_ok (onAtcPositionUpdate env cs f lat lon r m)"
proof (cases "containsCallsign cs (m_atcStationsOnline m)")
  case True
  then show ?thesis using assms ok_update_station(1) [OF assms(1)] by (simp add: onAtcPositionUpdate_def)
next
  case False
  define station where "station = fst (new_station env cs f lat lon r (m_atcStationsBooked m))"
  have "one_each (m_atcStationsOnline m @ [station])"
    using False monitor_okD(3) [OF assms(1)] by (intro one_each_added) (simp_all add: station_def new_station_callsign)
  then have "monitor_ok (sendInitialAtcQueries env cs (m\<lparr>m_atcStationsBooked := booked, m_atcStationsOnline := m_atcStationsOnline m @ [station]\<rparr>))" for booked
    using assms by (intro ok_queries monitor_okI) simp_all
  then show ?thesis using assms(1) False by (simp add: onAtcPositionUpdate_def case_prod_beta Let_def station_def)
qed

lemma ok_atc_disconnected [simp]:
  assumes "monitor_ok m" shows "monitor_ok (onAtcControllerDisconnected env cs m)"
proof -
  define m1 where "m1 = on_clients (removeClient cs) m"
  have m1: "monitor_ok m1" using assms by (auto simp: m1_def intro!: ok_on_clients clients_ops_ok)
  have "monitor_ok (m1\<lparr>m_atcStationsOnline := removeStationByCallsign cs (m_atcStationsOnline m1)\<rparr>)"
    by (intro monitor_okI one_each_removed monitor_okD(3) m1)
  then have "monitor_ok (snd (updateBookedStation cs [with_isOnline False] True False
      (report e (report e' (m1\<lparr>m_atcStationsOnline := removeStationByCallsign cs (m_atcStationsOnline m1)\<rparr>)))))"
    "monitor_ok (snd (updateBookedStation cs [with_isOnline False] True False m1))" for e e'
    using m1 by (auto intro!: ok_update_station)
  then show ?thesis using assms unfolding onAtcControllerDisconnected_def Let_def by (simp flip: m1_def)
qed

lemma ok_atis [simp]:
  assumes "monitor_ok m"
  shows "monitor_ok (onAtisReceived env cs atis m)" "monitor_ok (onAtisLogoffTimeReceived env cs zulu m)"
proof -
  have "one_each (snd (updateIfMessageChanged atis cs (m_atcStationsOnline m)))"
    using one_each_callsigns [OF message_callsigns] monitor_okD(3) [OF assms] by blast
  then have "monitor_ok (m\<lparr>m_atcStationsOnline := snd (updateIfMessageChanged atis cs (m_atcStationsOnline m)), m_atcStationsBooked := booked\<rparr>)"
    for booked using assms by (simp add: monitor_ok_def)
  then show "monitor_ok (onAtisReceived env cs atis m)"
    using assms by (simp add: onAtisReceived_def case_prod_beta Let_def)
  show "monitor_ok (onAtisLogoffTimeReceived env cs zulu m)"
    using assms by (auto simp: onAtisLogoffTimeReceived_def Let_def intro!: ok_update_station split: option.split)
qed

text \<open>Bookings that are read never fault, and change no callsign.\<close>

lemma synchronize_bookings_result:
  assumes "one_each online"
  shows "\<exists>online' booked'. synchronize_bookings utc online bookings = Inr (online', booked')
    \<and> map st_callsign online' = map st_callsign online \<and> map st_callsign booked' = map st_callsign bookings"
  using assms
proof (induction bookings arbitrary: online)
  case (Cons booked bookings)
  from synchronized_list [OF Cons.prems, of utc booked] obtain online1 booked1 where
    1: "synchronizeWithBookedStation_list utc online booked = Inr (online1, booked1)"
      "map st_callsign online1 = map st_callsign online" "st_callsign booked1 = st_callsign booked" by blast
  from Cons.IH [of online1] one_each_callsigns [OF 1(2)] Cons.prems show ?case using 1 by auto
qed simp

lemma ok_bookings [simp]:
  assumes "monitor_ok m"
  shows "\<exists>m'. onReceivedAtcBookings env stations m = Inr m' \<and> monitor_ok m'" "monitor_ok (onReadUnchangedAtcBookings m)"
proof -
  obtain online booked where r: "synchronize_bookings (clock env) (m_atcStationsOnline m) stations = Inr (online, booked)"
    "map st_callsign online = map st_callsign (m_atcStationsOnline m)"
    using synchronize_bookings_result [OF monitor_okD(3) [OF assms]] by blast
  then have "one_each online" using one_each_callsigns monitor_okD(3) [OF assms] by blast
  then show "\<exists>m'. onReceivedAtcBookings env stations m = Inr m' \<and> monitor_ok m'"
    using assms r(1) by (simp add: onReceivedAtcBookings_def) (simp add: monitor_ok_def)
qed (use assms in \<open>simp add: onReadUnchangedAtcBookings_def\<close>)

subsection \<open>Leaving and starting anew\<close>

lemma ok_remove_all:
  assumes "monitor_ok m"
  shows "monitor_ok (provider_removeAllAircraft env m)" "monitor_ok (monitor_clear env m)"
    "monitor_ok (monitor_onConnectionStatusChanged env st m)"
proof -
  have 1: "monitor_ok (provider_removeAllAircraft env m)" if "monitor_ok m" for m :: "('a, 'b, 'c) airspace_monitor"
    using that unfolding provider_removeAllAircraft_def by (auto intro!: ok_on_provider remove_all_ok)
  have 2: "monitor_ok (monitor_clear env m)" if "monitor_ok m" for m :: "('a, 'b, 'c) airspace_monitor"
  proof -
    define m0 where "m0 = removeAllOnlineAtcStations (m\<lparr>m_flightPlanCache := Map.empty, m_tempFsInnPackets := Map.empty, m_readiness := Map.empty\<rparr>)"
    have "monitor_ok m0" using that by (simp add: m0_def removeAllOnlineAtcStations_def monitor_ok_def one_each_def one_query_each_def)
    from 1 [OF this] show ?thesis
      by (simp add: monitor_clear_def monitor_removeAllAircraft_def monitor_ok_def one_query_each_def clients_ok_def Let_def flip: m0_def)
  qed
  show "monitor_ok (provider_removeAllAircraft env m)" by (rule 1 [OF assms])
  show "monitor_ok (monitor_clear env m)" by (rule 2 [OF assms])
  show "monitor_ok (monitor_onConnectionStatusChanged env st m)"
    using 2 assms ok_range(1) [OF assms] by (simp add: monitor_onConnectionStatusChanged_def Let_def)
qed

lemma ok_pilot_disconnected [simp]:
  assumes "monitor_ok m" shows "monitor_ok (onPilotDisconnected cs m)"
proof -
  define m1 where "m1 = removeFromAircraftCachesAndLogs cs m"
  have "monitor_ok m1"
    using assms by (auto simp: m1_def removeFromAircraftCachesAndLogs_def intro!: ok_on_provider message_ops_ok)
  then have "monitor_ok (on_clients (removeClient cs) (m1\<lparr>provider := snd (removeAircraft cs (provider m1))\<rparr>))"
    by (intro ok_on_clients monitor_okI remove_ok monitor_okD clients_ops_ok)
  then show ?thesis
    by (auto simp: onPilotDisconnected_def case_prod_beta Let_def simp flip: m1_def intro!: ok_on_provider)
qed

lemma fold_keeps: "(\<And>x m. P (f x m) = P m) \<Longrightarrow> P (fold f xs m) = P m"
  by (induction xs arbitrary: m) simp_all

lemma ok_reinitialize [simp]:
  assumes "monitor_ok m" shows "monitor_ok (reInitializeAllAircraft env m)"
  unfolding reInitializeAllAircraft_def asyncReInitializeAllAircraft_def
  using ok_remove_all(1) [OF assms] by (simp add: fold_keeps [of monitor_ok] case_prod_beta)

lemma ok_fast_position [simp]:
  assumes "monitor_ok m" "surroundings_ok env"
  shows "monitor_ok (snd (monitor_updateFastPositionEnabled env cs b m))"
proof -
  have "monitor_ok (m\<lparr>provider := snd (updateFastPositionEnabled cs b (provider m))\<rparr>)"
    using assms(1) by (intro monitor_okI aircraft_ops_ok monitor_okD)
  then show ?thesis using surroundings_okD(1) [OF assms(2)]
    by (auto simp: monitor_updateFastPositionEnabled_def case_prod_beta Let_def intro!: ok_on_network network_query)
qed

subsection \<open>Every step\<close>

lemma ok_fire:
  assumes "monitor_ok m" "surroundings_ok env"
  shows "all_ok monitor_ok (fire env shot m)"
proof (cases shot)
  case (CheckAgain cs rf)
  have "all_ok (\<lambda>x. all_ok monitor_ok (if fst x then Inr (snd x) else sendReadyForModelMatching env cs RecursiveCall (snd x)))
      (recallFsInnPacket env cs m)"
    by (rule all_ok_mono [OF ok_recall [OF assms]]) auto
  then show ?thesis using CheckAgain assms by (simp add: case_prod_beta)
next
  case (VerifyIcao cs)
  then show ?thesis using assms by simp
next
  case (ReInitialize ac b)
  have "all_ok (\<lambda>x. all_ok monitor_ok (if \<not> b then Inr (snd x) else sendReadyForModelMatching env (a_callsign ac) ReceivedAll
      ((snd x)\<lparr>m_readiness := (m_readiness (snd x))(asString (a_callsign ac) := None)\<rparr>))) (monitor_addNewAircraftInRange env ac m)"
    by (rule all_ok_mono [OF ok_addNew [OF assms(1)]]) simp
  then show ?thesis using ReInitialize by (simp add: case_prod_beta)
qed

lemma ok_signal:
  assumes "monitor_ok m" "surroundings_ok env" "signal_sane e"
  shows "all_ok monitor_ok (on_signal env e m)"
proof (cases e)
  case (pilotDataUpdateReceived s transponder)
  then show ?thesis using assms ok_update [OF assms(1,2) sane_spreadable] by simp
next
  case (interimPilotDataUpdatedReceived s)
  then show ?thesis using assms by (simp add: onAircraftInterimUpdateReceived_def)
next
  case (visualPilotDataUpdateReceived s)
  then show ?thesis using assms by (simp add: onAircraftVisualUpdateReceived_def)
next
  case (euroscopeSimDataUpdatedReceived s parts os model livery)
  then show ?thesis using assms by simp
next
  case (connectionStatusChanged old new)
  then show ?thesis using assms(1) by (simp add: ok_remove_all)
qed (use assms(1,2) in simp_all)

lemma ok_signals:
  "monitor_ok m \<Longrightarrow> surroundings_ok env \<Longrightarrow> list_all signal_sane es \<Longrightarrow> all_ok monitor_ok (on_signals env es m)"
  by (induction es arbitrary: m) (auto intro: all_ok_mono [OF ok_signal])

lemma ok_deliver_client_event:
  assumes "monitor_ok m" "surroundings_ok env" "enabled ev (network m)"
  shows "all_ok monitor_ok (deliver_client_event env ev m)"
proof (cases "handle_event (client_environment env m) ev (network m)")
  case (Inr c)
  have c: "reachable c" by (rule network_event [OF monitor_okD(6) [OF assms(1)] surroundings_okD(3) [OF assms(2)] assms(3) Inr])
  then have "list_all signal_sane (emitted c)" using reachable_ok by (auto simp: client_ok_def)
  then have "list_all signal_sane (drop n (emitted c))" for n by (auto simp: list_all_iff dest: in_set_dropD)
  then show ?thesis using Inr ok_signals [OF monitor_okI(2) [OF assms(1) c] assms(2)] by (simp add: deliver_client_event_def)
qed (simp add: deliver_client_event_def)

lemma ok_monitor_handle:
  assumes "monitor_ok m" "surroundings_ok env" "monitor_enabled env i m"
  shows "all_ok monitor_ok (monitor_handle env i m)"
proof (cases i)
  case (BookingsRead stations)
  then show ?thesis using ok_bookings(1) [OF assms(1), of env stations] by auto
next
  case (RequestFlightPlan cs)
  then show ?thesis using assms(1) surroundings_okD(1) [OF assms(2)]
    by (auto simp: loadFlightPlanFromNetwork_def client_query_defs Let_def intro!: ok_on_network network_query)
qed (use assms in \<open>simp_all add: ok_deliver_client_event ok_fire ok_processing ok_range\<close>)

inductive monitor_reachable :: "('a, 'b, 'au) airspace_monitor \<Rightarrow> bool" where
  monitor_start: "reachable c \<Longrightarrow> monitor_reachable (CAirspaceMonitor c developer)"
| monitor_step: "monitor_reachable m \<Longrightarrow> surroundings_ok env \<Longrightarrow> monitor_enabled env i m \<Longrightarrow> monitor_handle env i m = Inr m'
    \<Longrightarrow> monitor_reachable m'"

theorem monitor_reachable_ok: "monitor_reachable m \<Longrightarrow> monitor_ok m"
proof (induction rule: monitor_reachable.induct)
  case (monitor_step m env i m')
  then show ?case using all_okD [OF ok_monitor_handle] by blast
qed (rule ok_monitor_start)

end
