(* ===== verification/AirspaceAnalyzer.thy ===== *)
theory AirspaceAnalyzer
  imports Prelude "HOL-Library.Word"
begin

section \<open>The watchdog over the airspace\<close>

text \<open>
  The part of \<open>CAirspaceAnalyzer\<close> (\<open>blackcore/airspaceanalyzer\<close>) that watches who still sends: when each
  callsign was heard last, and the check that reports those silent for too long. Times are
  milliseconds. In which order a hash gives its keys is open, so the reports of a check are the two
  sets of callsigns, as predicates. The snapshot of the airspace is not modelled.
\<close>

record airspace_analyzer =
  m_aircraftCallsignTimestamps :: "string \<rightharpoonup> int"
  m_atcCallsignTimestamps :: "string \<rightharpoonup> int"
  m_timeoutAircraft :: int
  m_timeoutAtc :: int
  m_lastWatchdogCallMsSinceEpoch :: int
  m_doNotRunAgainBefore :: int
  m_enabledWatchdog :: bool
  m_updateTimer_active :: bool

definition CAirspaceAnalyzer :: "int \<Rightarrow> airspace_analyzer" where
  "CAirspaceAnalyzer now = \<lparr>m_aircraftCallsignTimestamps = Map.empty, m_atcCallsignTimestamps = Map.empty, m_timeoutAircraft = 15000,
     m_timeoutAtc = 50000, m_lastWatchdogCallMsSinceEpoch = now, m_doNotRunAgainBefore = - 1, m_enabledWatchdog = True,
     m_updateTimer_active = True\<rparr>"

definition m_updateTimer_interval :: int where "m_updateTimer_interval = 7500"

definition watchdogTouchAircraftCallsign :: "int \<Rightarrow> string \<Rightarrow> airspace_analyzer \<Rightarrow> fault + airspace_analyzer" where
  "watchdogTouchAircraftCallsign now cs a =
     (if cs = [] then Inl AssertFailed
      else Inr (a\<lparr>m_aircraftCallsignTimestamps := (m_aircraftCallsignTimestamps a)(cs \<mapsto> now)\<rparr>))"

definition watchdogTouchAtcCallsign :: "int \<Rightarrow> string \<Rightarrow> airspace_analyzer \<Rightarrow> airspace_analyzer" where
  "watchdogTouchAtcCallsign now cs a = a\<lparr>m_atcCallsignTimestamps := (m_atcCallsignTimestamps a)(cs \<mapsto> now)\<rparr>"

definition watchdogRemoveAircraftCallsign :: "string \<Rightarrow> airspace_analyzer \<Rightarrow> airspace_analyzer" where
  "watchdogRemoveAircraftCallsign cs a = a\<lparr>m_aircraftCallsignTimestamps := (m_aircraftCallsignTimestamps a)(cs := None)\<rparr>"

definition watchdogRemoveAtcCallsign :: "string \<Rightarrow> airspace_analyzer \<Rightarrow> airspace_analyzer" where
  "watchdogRemoveAtcCallsign cs a = a\<lparr>m_atcCallsignTimestamps := (m_atcCallsignTimestamps a)(cs := None)\<rparr>"

definition onChangedAtcStationOnlineConnectionStatus :: "int \<Rightarrow> string \<Rightarrow> bool \<Rightarrow> airspace_analyzer \<Rightarrow> airspace_analyzer" where
  "onChangedAtcStationOnlineConnectionStatus now cs connected a =
     (if connected then a\<lparr>m_atcCallsignTimestamps := (m_atcCallsignTimestamps a)(cs \<mapsto> now)\<rparr> else watchdogRemoveAtcCallsign cs a)"

definition analyzer_clear :: "airspace_analyzer \<Rightarrow> airspace_analyzer" where
  "analyzer_clear a = a\<lparr>m_aircraftCallsignTimestamps := Map.empty, m_atcCallsignTimestamps := Map.empty\<rparr>"

definition analyzer_onConnectionStatusChanged :: "bool \<Rightarrow> bool \<Rightarrow> airspace_analyzer \<Rightarrow> airspace_analyzer" where
  "analyzer_onConnectionStatusChanged newDisconnected newConnected a =
     (if newDisconnected then (analyzer_clear a)\<lparr>m_updateTimer_active := False\<rparr>
      else if newConnected then a\<lparr>m_updateTimer_active := True\<rparr> else a)"

definition setEnabledWatchdog :: "bool \<Rightarrow> airspace_analyzer \<Rightarrow> airspace_analyzer" where
  "setEnabledWatchdog enabled a = a\<lparr>m_enabledWatchdog := enabled\<rparr>"

text \<open>Whose time is not after a limit, and the times without them.\<close>

definition timed_out :: "int \<Rightarrow> (string \<rightharpoonup> int) \<Rightarrow> string \<Rightarrow> bool" where
  "timed_out limit m cs \<longleftrightarrow> (case m cs of None \<Rightarrow> False | Some t \<Rightarrow> t \<le> limit)"

definition without :: "(string \<Rightarrow> bool) \<Rightarrow> (string \<rightharpoonup> int) \<Rightarrow> string \<rightharpoonup> int" where
  "without P m cs = (if P cs then None else m cs)"

text \<open>
  A check that comes late only puts the next ones off: the program was held up, not the network. With
  the watchdog off every callsign is to get a time that is not over; the loop over the stations of
  controllers writes that time among the aircraft.
\<close>

definition watchdogCheckTimeouts :: "int \<Rightarrow> airspace_analyzer \<Rightarrow> (string \<Rightarrow> bool) \<times> (string \<Rightarrow> bool) \<times> airspace_analyzer" where
  "watchdogCheckTimeouts now a =
     (let callDiffMs = c_int64 (now - m_lastWatchdogCallMsSinceEpoch a);
          callThresholdMs = 11250;
          a = a\<lparr>m_lastWatchdogCallMsSinceEpoch := now\<rparr> in
      if callDiffMs > callThresholdMs
      then (\<lambda>cs. False, \<lambda>cs. False, a\<lparr>m_doNotRunAgainBefore := c_int64 (now + 2 * callThresholdMs)\<rparr>)
      else if m_doNotRunAgainBefore a > now then (\<lambda>cs. False, \<lambda>cs. False, a)
      else
        let a = a\<lparr>m_doNotRunAgainBefore := - 1\<rparr>;
            timeoutAircraftEpochMs = c_int64 (now - m_timeoutAircraft a);
            timeoutAtcEpochMs = c_int64 (now - m_timeoutAtc a);
            enabled = m_enabledWatchdog a;
            aircraft = m_aircraftCallsignTimestamps a;
            aircraft = (if \<not> enabled then map_option (\<lambda>t. c_int64 (timeoutAircraftEpochMs + 1000)) \<circ> aircraft else aircraft);
            out = timed_out timeoutAircraftEpochMs aircraft;
            aircraft = without out aircraft;
            atc = m_atcCallsignTimestamps a;
            aircraft = (if \<not> enabled then (\<lambda>cs. if atc cs \<noteq> None then Some (c_int64 (timeoutAtcEpochMs + 1000)) else aircraft cs)
              else aircraft);
            outAtc = timed_out timeoutAtcEpochMs atc
        in (out, outAtc, a\<lparr>m_aircraftCallsignTimestamps := aircraft, m_atcCallsignTimestamps := without outAtc atc\<rparr>))"

subsection \<open>What a check reports\<close>

text \<open>Clocks and limits of ordinary size.\<close>

definition clock_ok :: "int \<Rightarrow> airspace_analyzer \<Rightarrow> bool" where
  "clock_ok now a \<longleftrightarrow> \<bar>now\<bar> < 2 ^ 61 \<and> \<bar>m_lastWatchdogCallMsSinceEpoch a\<bar> < 2 ^ 61 \<and> \<bar>m_timeoutAircraft a\<bar> < 2 ^ 61
     \<and> \<bar>m_timeoutAtc a\<bar> < 2 ^ 61"

definition check_runs :: "int \<Rightarrow> airspace_analyzer \<Rightarrow> bool" where
  "check_runs now a \<longleftrightarrow> now - m_lastWatchdogCallMsSinceEpoch a \<le> 11250 \<and> m_doNotRunAgainBefore a \<le> now"

lemma clock_words:
  assumes "clock_ok now a"
  shows "c_int64 (now - m_lastWatchdogCallMsSinceEpoch a) = now - m_lastWatchdogCallMsSinceEpoch a"
    "c_int64 (now + 2 * 11250) = now + 22500" "c_int64 (now - m_timeoutAircraft a) = now - m_timeoutAircraft a"
    "c_int64 (now - m_timeoutAtc a) = now - m_timeoutAtc a" "c_int64 (now - m_timeoutAircraft a + 1000) = now - m_timeoutAircraft a + 1000"
    "c_int64 (now - m_timeoutAtc a + 1000) = now - m_timeoutAtc a + 1000"
  using assms by (auto simp: clock_ok_def int64_def abs_less_iff intro!: c_int64_id)

lemma check_enabled:
  assumes "clock_ok now a" "check_runs now a" "m_enabledWatchdog a"
  shows "watchdogCheckTimeouts now a =
    (timed_out (now - m_timeoutAircraft a) (m_aircraftCallsignTimestamps a), timed_out (now - m_timeoutAtc a) (m_atcCallsignTimestamps a),
     a\<lparr>m_lastWatchdogCallMsSinceEpoch := now, m_doNotRunAgainBefore := - 1,
       m_aircraftCallsignTimestamps := without (timed_out (now - m_timeoutAircraft a) (m_aircraftCallsignTimestamps a)) (m_aircraftCallsignTimestamps a),
       m_atcCallsignTimestamps := without (timed_out (now - m_timeoutAtc a) (m_atcCallsignTimestamps a)) (m_atcCallsignTimestamps a)\<rparr>)"
  using assms by (simp add: watchdogCheckTimeouts_def clock_words check_runs_def Let_def)

lemma check_put_off:
  assumes "clock_ok now a" "\<not> check_runs now a"
  shows "fst (watchdogCheckTimeouts now a) cs = False" "fst (snd (watchdogCheckTimeouts now a)) cs = False"
    "m_aircraftCallsignTimestamps (snd (snd (watchdogCheckTimeouts now a))) = m_aircraftCallsignTimestamps a"
  using assms by (auto simp: watchdogCheckTimeouts_def clock_words check_runs_def Let_def)

lemma check_disabled:
  assumes "clock_ok now a" "check_runs now a" "\<not> m_enabledWatchdog a"
  shows "fst (watchdogCheckTimeouts now a) cs = False"
    "fst (snd (watchdogCheckTimeouts now a)) = timed_out (now - m_timeoutAtc a) (m_atcCallsignTimestamps a)"
    "m_aircraftCallsignTimestamps (snd (snd (watchdogCheckTimeouts now a))) cs =
       (if m_atcCallsignTimestamps a cs \<noteq> None then Some (now - m_timeoutAtc a + 1000)
        else if m_aircraftCallsignTimestamps a cs \<noteq> None then Some (now - m_timeoutAircraft a + 1000) else None)"
  using assms by (auto simp: watchdogCheckTimeouts_def clock_words check_runs_def timed_out_def without_def Let_def split: option.splits)

end
