(* ===== verification/AirspaceMonitorBehaviour.thy ===== *)
theory AirspaceMonitorBehaviour
  imports AirspaceMonitorFacts AirspaceAnalyzer FsdClientFacts
begin

section \<open>How the airspace monitor behaves\<close>

text \<open>
  Lemmas about the operations of the monitor that the properties share: which members an operation leaves
  alone, checking again whether an aircraft can be matched, what storing and adding leave of the
  clients.
\<close>

subsection \<open>Checking again\<close>

text \<open>Checking again and again whether an aircraft can be matched, one environment for each time.\<close>

fun checks :: "CCallsign \<Rightarrow> ('a, 'b, 'au) monitor_environment list \<Rightarrow> ('a, 'b, 'au) airspace_monitor \<Rightarrow> fault + ('a, 'b, 'au) airspace_monitor" where
  "checks callsign [] m = Inr m"
| "checks callsign (env # envs) m = and_then (fire env (CheckAgain callsign RecursiveCall) m) (checks callsign envs)"

lemma readiness_set [simp]: "readiness_of cs (set_readiness cs r m) = r"
  by (simp add: readiness_of_def set_readiness_def)

lemma recursive_flag [simp]: "addFlag t RecursiveCall r = r"
  by (simp add: addFlag_def)

lemma recursive_add: "addMatchingReadinessFlag t cs RecursiveCall m = set_readiness cs (readiness_of cs m) m"
  by (simp add: addMatchingReadinessFlag_def)

lemma set_readiness_members [simp]:
  "provider (set_readiness cs r m) = provider m" "network (set_readiness cs r m) = network m"
  "monitor_events (set_readiness cs r m) = monitor_events m" "single_shots (set_readiness cs r m) = single_shots m"
  "m_tempFsInnPackets (set_readiness cs r m) = m_tempFsInnPackets m" "m_clients (set_readiness cs r m) = m_clients m"
  by (simp_all add: set_readiness_def)

lemma report_members [simp]:
  "provider (report e m) = provider m" "network (report e m) = network m" "monitor_events (report e m) = monitor_events m @ [e]"
  "single_shots (report e m) = single_shots m" "m_tempFsInnPackets (report e m) = m_tempFsInnPackets m" "m_clients (report e m) = m_clients m"
  "m_readiness (report e m) = m_readiness m"
  by (simp_all add: report_def)

lemma single_shot_members [simp]:
  "provider (single_shot t w m) = provider m" "network (single_shot t w m) = network m" "monitor_events (single_shot t w m) = monitor_events m"
  "single_shots (single_shot t w m) = single_shots m @ [(t, w)]" "m_tempFsInnPackets (single_shot t w m) = m_tempFsInnPackets m"
  "m_clients (single_shot t w m) = m_clients m" "m_readiness (single_shot t w m) = m_readiness m"
  by (simp_all add: single_shot_def)

lemma connected_cong [simp]:
  "isConnectedAndNotShuttingDown env (set_readiness cs r m) = isConnectedAndNotShuttingDown env m"
  "isConnectedAndNotShuttingDown env (report e m) = isConnectedAndNotShuttingDown env m"
  "isConnectedAndNotShuttingDown env (single_shot t w m) = isConnectedAndNotShuttingDown env m"
  by (simp_all add: isConnectedAndNotShuttingDown_def monitor_isConnected_def)

lemma readiness_other [simp]:
  "readiness_of cs (report e m) = readiness_of cs m" "readiness_of cs (single_shot t w m) = readiness_of cs m"
  by (simp_all add: readiness_of_def)

text \<open>A callsign of an aircraft in range that can be one.\<close>

definition matchable :: "CCallsign \<Rightarrow> ('a, 'b, 'au) airspace_monitor \<Rightarrow> bool" where
  "matchable callsign m \<longleftrightarrow> is_in_range callsign (provider m)
     \<and> isValidAircraftCallsign (asString (a_callsign (getAircraftInRangeForCallsign callsign (provider m))))"

lemma one_check:
  assumes "isConnectedAndNotShuttingDown env m" "matchable cs m" "m_tempFsInnPackets m (asString cs) = None"
  shows "\<exists>m'. fire env (CheckAgain cs RecursiveCall) m = Inr m' \<and> provider m' = provider m \<and> network m' = network m
    \<and> m_tempFsInnPackets m' = m_tempFsInnPackets m \<and> set (monitor_events m) \<subseteq> set (monitor_events m')
    \<and> (wasMatchingSent (readiness_of cs m)
       \<or> readyForModelMatching (getAircraftInRangeForCallsign cs (provider m)) \<in> set (monitor_events m')
       \<or> readiness_of cs m' = readiness_of cs m \<and> getAgeMs (clock env) (readiness_of cs m) \<le> MMMaxAgeMs
         \<and> single_shots m' = single_shots m @ [(clock env + MMCheckAgainMs, CheckAgain cs RecursiveCall)])"
proof -
  have ne: "\<not> isEmpty cs" "\<not> isShuttingDown env" "is_in_range cs (provider m)" "RecursiveCall \<noteq> Verified"
    using assms(1,2) by (auto simp: matchable_def is_in_range_def isConnectedAndNotShuttingDown_def RecursiveCall_def Verified_def)
  have f: "fire env (CheckAgain cs RecursiveCall) m = sendReadyForModelMatching env cs RecursiveCall m"
    using ne assms(3) by (auto simp: recallFsInnPacket_def)
  show ?thesis unfolding f
    using assms(1,2) ne unfolding matchable_def
    by (simp add: sendReadyForModelMatching_def recursive_add Let_def) auto
qed

lemma matchable_cong: "provider m' = provider m \<Longrightarrow> matchable cs m' = matchable cs m"
  by (simp add: matchable_def)

lemma connected_network: "network m' = network m \<Longrightarrow> isConnectedAndNotShuttingDown env m' = isConnectedAndNotShuttingDown env m"
  by (simp add: isConnectedAndNotShuttingDown_def monitor_isConnected_def)

lemma checks_keep:
  assumes "\<forall>env\<in>set envs. isConnectedAndNotShuttingDown env m" "matchable cs m" "m_tempFsInnPackets m (asString cs) = None"
  shows "\<exists>m'. checks cs envs m = Inr m' \<and> set (monitor_events m) \<subseteq> set (monitor_events m')"
  using assms
proof (induction envs arbitrary: m)
  case (Cons env envs)
  from one_check [of env m cs] Cons.prems obtain m1 where
    1: "fire env (CheckAgain cs RecursiveCall) m = Inr m1" "provider m1 = provider m" "network m1 = network m"
      "m_tempFsInnPackets m1 = m_tempFsInnPackets m" "set (monitor_events m) \<subseteq> set (monitor_events m1)" by auto
  from Cons.IH [of m1] Cons.prems 1(2-4) show ?case
    using 1(1,5) by (auto simp: matchable_cong [OF 1(2)] connected_network [OF 1(3)])
qed simp

lemma checks_progress:
  assumes "\<forall>env\<in>set envs. isConnectedAndNotShuttingDown env m \<and> clock env < 2 ^ 62"
    "matchable cs m" "m_tempFsInnPackets m (asString cs) = None" "\<not> wasMatchingSent (readiness_of cs m)"
    "0 \<le> ts (readiness_of cs m)" "\<forall>i<length envs. ts (readiness_of cs m) + 2000 * int (k + i) \<le> clock (envs ! i)" "5 \<le> k + length envs" "k \<le> 4"
  shows "\<exists>m'. checks cs envs m = Inr m' \<and> readyForModelMatching (getAircraftInRangeForCallsign cs (provider m)) \<in> set (monitor_events m')"
  using assms
proof (induction envs arbitrary: m k)
  case (Cons env envs)
  have c: "isConnectedAndNotShuttingDown env m" "clock env < 2 ^ 62" using Cons.prems(1) by auto
  from one_check [OF c(1) Cons.prems(2,3)] obtain m1 where
    1: "fire env (CheckAgain cs RecursiveCall) m = Inr m1" "provider m1 = provider m" "network m1 = network m"
      "m_tempFsInnPackets m1 = m_tempFsInnPackets m"
      "readyForModelMatching (getAircraftInRangeForCallsign cs (provider m)) \<in> set (monitor_events m1)
       \<or> readiness_of cs m1 = readiness_of cs m \<and> getAgeMs (clock env) (readiness_of cs m) \<le> MMMaxAgeMs"
    using Cons.prems(4) by auto
  from Cons.prems(6) have k: "ts (readiness_of cs m) + 2000 * int k \<le> clock env" by (auto dest: spec [of _ 0])
  show ?case
  proof (cases "readyForModelMatching (getAircraftInRangeForCallsign cs (provider m)) \<in> set (monitor_events m1)")
    case True
    have "\<exists>m'. checks cs envs m1 = Inr m' \<and> set (monitor_events m1) \<subseteq> set (monitor_events m')"
      using Cons.prems(1-3) 1(2-4) by (intro checks_keep) (auto simp: matchable_cong [OF 1(2)] connected_network [OF 1(3)])
    then show ?thesis using True 1(1) by auto
  next
    case False
    then have r: "readiness_of cs m1 = readiness_of cs m" "getAgeMs (clock env) (readiness_of cs m) \<le> 6000"
      using 1(5) by (auto simp: MMMaxAgeMs_def MMCheckAgainMs_def)
    have "int64 (clock env - ts (readiness_of cs m))" using c(2) Cons.prems(5) k by (simp add: int64_def)
    then have "clock env - ts (readiness_of cs m) \<le> 6000" using r(2) Cons.prems(5) by (simp add: getAgeMs_def)
    then have "k \<le> 3" using k by simp
    have "\<exists>m'. checks cs envs m1 = Inr m' \<and> readyForModelMatching (getAircraftInRangeForCallsign cs (provider m1)) \<in> set (monitor_events m')"
    proof (rule Cons.IH)
      show "\<forall>i<length envs. ts (readiness_of cs m1) + 2000 * int (Suc k + i) \<le> clock (envs ! i)"
        using Cons.prems(6) by (auto simp: r(1) dest: spec [of _ "Suc _"])
    qed (use Cons.prems 1(2-4) r(1) \<open>k \<le> 3\<close> in \<open>auto simp: matchable_cong [OF 1(2)] connected_network [OF 1(3)]\<close>)
    then show ?thesis using 1(1,2) by simp
  qed
qed simp

lemma flag_kept: "testFlag w k \<Longrightarrow> k \<noteq> 0 \<Longrightarrow> testFlag (w OR f) k"
proof -
  assume "testFlag w k" "k \<noteq> 0"
  then have "w AND k = k" by (simp add: testFlag_def)
  moreover have "(w OR f) AND k = (w AND k) OR (f AND k)" by (simp add: bit.conj_disj_distrib2)
  moreover have "k OR (f AND k) = k" by (simp add: bit_eq_iff bit_or_iff bit_and_iff)
  ultimately show ?thesis using \<open>k \<noteq> 0\<close> by (simp add: testFlag_def)
qed

lemma signals_of_fold: "provider_events (fold (\<lambda>cs. signal (e cs)) order p) = provider_events p @ map e order"
  by (induction order arbitrary: p) (simp_all add: signal_def)

lemma fold_signal_members [simp]:
  "m_aircraftInRange (fold (\<lambda>cs. signal (e cs)) order p) = m_aircraftInRange p"
  "m_situationsByCallsign (fold (\<lambda>cs. signal (e cs)) order p) = m_situationsByCallsign p"
  "m_partsByCallsign (fold (\<lambda>cs. signal (e cs)) order p) = m_partsByCallsign p"
  by (induction order arbitrary: p) (simp_all add: signal_def)

text \<open>The ground flag of positions.\<close>

lemma no_gnd_capability_from_positions:
  "autoAdjustCientGndCapability (received_situation env NotSetGroundDetails s) cs = (False, cs)"
  by (simp add: autoAdjustCientGndCapability_def received_situation_def)

lemma new_client_capability [simp]: "cl_capabilities (CClient_callsign cs ms) = 0"
  by (simp add: CClient_callsign_def CClient_default_def)

lemma default_client_capability [simp]: "cl_capabilities CClient_default = 0"
  by (simp add: CClient_default_def)

lemma stored_clients:
  assumes "monitor_storeAircraftSituation env s b m = Inr (r, m')"
  shows "m_clients m' = m_clients m"
  using assms by (auto simp: monitor_storeAircraftSituation_def try_provider_def and_then_eq_Inr case_prod_beta Let_def
    split: if_splits ground_guess.splits)

lemma queries_members [simp]:
  "m_clients (sendInitialPilotQueries env cs b b' m) = m_clients m" "provider (sendInitialPilotQueries env cs b b' m) = provider m"
  "m_clients (on_network f m) = m_clients m" "m_clients (on_provider g m) = m_clients m"
  by (simp_all add: sendInitialPilotQueries_def on_network_def on_provider_def Let_def)

lemma range_clients [simp]: "m_clients (snd (handleMaxRange env s m)) = m_clients m"
  by (simp add: handleMaxRange_def Let_def)

lemma add_clients: "monitor_addNewAircraftInRange env a m = Inr (r, m') \<Longrightarrow> m_clients m' = m_clients m"
  by (auto simp: monitor_addNewAircraftInRange_def case_prod_beta Let_def split: if_splits)

subsection \<open>Storing and adding\<close>

text \<open>The first situation of a callsign fills its list.\<close>

lemma first_list: "situations_after env s s' [] = Inr (Some l) \<Longrightarrow> length l = 50"
  by (auto simp: situations_after_def prefillLatestAdjustedFirst_def MaxSituationsPerCallsign_def)

lemma guess_length: "guess_front env a s s' l = Inr l' \<Longrightarrow> length l' = length l"
  by (auto simp: guess_front_def Let_def split: if_splits)

lemma first_not_dropped: "situations_after env s s' [] \<noteq> Inr None"
  by (simp add: situations_after_def)

lemma first_situation:
  assumes "storeAircraftSituation env s b p = Inr (r, p')" "\<not> isEmpty (rs_callsign s)"
    "at_key (m_situationsByCallsign p) (asString (rs_callsign s)) = []"
  shows "length (remoteAircraftSituations (rs_callsign s) p') = 50"
proof -
  have "at_key (m_situationsByCallsign (snd (updateCG env cs cg p))) k = at_key (m_situationsByCallsign p) k" for cs cg k
    by (simp add: updateCG_def)
  then show ?thesis using assms first_not_dropped
    by (auto simp: storeAircraftSituation_def situation_stored_def storeChange_def and_then_def signal_def Let_def remoteAircraftSituations_def
      split: sum.splits if_splits option.splits dest!: first_list guess_length)
qed

lemma range_after_store:
  assumes "storeAircraftSituation env s b p = Inr (r, p')"
  shows "m_aircraftInRange p' k = None \<longleftrightarrow> m_aircraftInRange p k = None"
proof -
  have "(m_aircraftInRange (snd (updateCG env cs cg p)) k = None) = (m_aircraftInRange p k = None)" for cs cg
    by (cases "m_aircraftInRange p (asString cs)") (auto simp: updateCG_def update_aircraft_def case_prod_beta signal_def Let_def)
  then show ?thesis using assms
    by (auto simp: storeAircraftSituation_def situation_stored_def storeChange_def and_then_def signal_def Let_def
      split: sum.splits if_splits option.splits)
qed

lemma adding_keeps:
  assumes "monitor_addNewAircraftInRange env a m = Inr (r, m')"
  shows "network m' = network m" "m_situationsByCallsign (provider m') = m_situationsByCallsign (provider m)"
    "m_tempFsInnPackets m' = m_tempFsInnPackets m"
  using assms by (auto simp: monitor_addNewAircraftInRange_def addNewAircraftInRange_def on_provider_def rememberCGFromDB_def rememberCGFromDB_model_def
    signal_def case_prod_beta Let_def split: if_splits)

lemma adding_adds:
  assumes "\<not> isEmpty (a_callsign a)" "\<not> isShuttingDown env" "\<not> is_in_range (a_callsign a) (provider m)" "surroundings_ok env"
  shows "\<exists>m'. monitor_addNewAircraftInRange env a m = Inr (True, m') \<and> is_in_range (a_callsign a) (provider m')
    \<and> single_shots m' = single_shots m @ [(clock env + MMVerifyMs, VerifyIcao (a_callsign a))]"
proof -
  define a' where "a' = (if connectedToVatsim m then updateWithVatsimDataFileData env (snd (setRendered False a)) else snd (setRendered False a))"
  have "a_callsign a' = a_callsign a" using surroundings_okD(4) [OF assms(4)] by (simp add: a'_def setRendered_def)
  then have "\<exists>p. addNewAircraftInRange a' (provider m) = (True, p) \<and> is_in_range (a_callsign a) p"
    using assms(1,3) by (simp add: addNewAircraftInRange_def is_in_range_def signal_def)
  then obtain p where p: "addNewAircraftInRange a' (provider m) = (True, p)" "is_in_range (a_callsign a) p" by blast
  define m0 where "m0 = single_shot (clock env + MMVerifyMs) (VerifyIcao (a_callsign a)) (m\<lparr>provider := p\<rparr>)"
  have "\<exists>q. monitor_addNewAircraftInRange env a m = Inr (True, q)
    \<and> (q = m0 \<or> (\<exists>cg ms. q = on_provider (rememberCGFromDB cg (a_callsign a) \<circ> rememberCGFromDB_model cg ms) m0))"
    unfolding monitor_addNewAircraftInRange_def Let_def a'_def [symmetric] p(1) prod.case m0_def [symmetric] using assms(1,2) by auto
  then show ?thesis using p(2)
    by (auto simp: m0_def on_provider_def rememberCGFromDB_def rememberCGFromDB_model_def single_shot_def is_in_range_def)
qed

lemma storing_keeps:
  assumes "monitor_storeAircraftSituation env s b m = Inr (r, m')"
  shows "network m' = network m" "single_shots m' = single_shots m" "m_tempFsInnPackets m' = m_tempFsInnPackets m"
    "m_readiness m' = m_readiness m"
  using assms
  by (auto simp: monitor_storeAircraftSituation_def try_provider_def and_then_eq_Inr case_prod_beta Let_def
    split: if_splits ground_guess.splits)

lemma storing_in_provider:
  fixes m :: "('a, 'b, 'au) airspace_monitor"
  assumes "\<not> isEmpty (rs_callsign s)" "surroundings_ok env"
  shows "\<exists>c f. same_times s c \<and> (\<forall>r p. provider (f r p) = p)
    \<and> monitor_storeAircraftSituation env s b m
      = and_then (storeAircraftSituation (prov_env env) c False (provider m)) (\<lambda>(r, p). Inr (r, f r p))"
proof -
  define c0 where "c0 = (if b then addTestAltitudeOffsetToSituation (prov_env env) (provider m) s else s)"
  obtain c1 need skip guess where f: "findElevation env s (provider m) c0 = (c1, need, skip, guess)"
    by (cases "findElevation env s (provider m) c0") auto
  define m1 where "m1 = (case guess of NoGuess \<Rightarrow> m
                 | FromNonMoving \<Rightarrow> m\<lparr>m_foundInNonMovingAircraft := c_int (m_foundInNonMovingAircraft m + 1)\<rparr>
                 | FromElevationsOnGnd \<Rightarrow> m\<lparr>m_foundInElevationsOnGnd := c_int (m_foundInElevationsOnGnd m + 1)\<rparr>)"
  define c2 where "c2 = withGroundDetails s m1 c1"
  define cg where "cg = simulatorOrDbCG env (rs_callsign s) (getCGFromDB (rs_callsign s) (provider m1))"
  define c3 where "c3 = (if cg = None then c2 else c2\<lparr>m_cg := cg\<rparr>)"
  define k where "k r q = (if need \<and> \<not> skip
               \<and> (otherElevationInfoBetter env FromCache r \<or> (isMoving env r \<and> otherElevationInfoBetter env FromProvider r))
            then report (requestElevation (rs_callsign s)) q else q)" for r and q :: "('a, 'b, 'au) airspace_monitor"
  have "same_times s c0" by (simp add: c0_def test_offset_times assms(2))
  also have "same_times c0 c1" using find_elevation_times [OF assms(2), of c0 s "provider m"] f by simp
  also have "same_times c1 c2" by (simp add: c2_def ground_details_times)
  finally have c3: "same_times s c3" by (simp add: c3_def same_times_def)
  have p: "provider m1 = provider m" by (simp add: m1_def split: ground_guess.split)
  have "monitor_storeAircraftSituation env s b m
      = and_then (storeAircraftSituation (prov_env env) c3 False (provider m)) (\<lambda>(r, p). Inr (r, k r (m1\<lparr>provider := p\<rparr>)))"
    using assms(1) p unfolding monitor_storeAircraftSituation_def Let_def c0_def [symmetric] f prod.case m1_def [symmetric]
      c2_def [symmetric] cg_def [symmetric] c3_def [symmetric] k_def
    by (simp add: try_provider_def and_then_def case_prod_beta split: sum.split)
  moreover have "\<forall>r p. provider (k r (m1\<lparr>provider := p\<rparr>)) = p" by (simp add: k_def)
  ultimately show ?thesis by (intro exI [of _ c3] exI [of _ "\<lambda>r p. k r (m1\<lparr>provider := p\<rparr>)"]) (simp add: c3)
qed

lemma storing_succeeds:
  assumes "monitor_ok m" "surroundings_ok env" "spreadable s"
  shows "\<exists>r m'. monitor_storeAircraftSituation env s b m = Inr (r, m')"
proof (cases "isEmpty (rs_callsign s)")
  case False
  from storing_in_provider [OF this assms(2), of b m] obtain c f where "same_times s c" and
    e: "monitor_storeAircraftSituation env s b m
      = and_then (storeAircraftSituation (prov_env env) c False (provider m)) (\<lambda>(r, p). Inr (r, f r p))" by blast
  then have "spreadable c" using assms(3) spreadable_same by blast
  from store_situation_ok [OF monitor_okD(1) [OF assms(1)] surroundings_okD(2) [OF assms(2)] this, of False] e show ?thesis by auto
qed (simp add: monitor_storeAircraftSituation_def)

lemma storing_stores:
  assumes "monitor_storeAircraftSituation env s b m = Inr (r, m')" "\<not> isEmpty (rs_callsign s)" "surroundings_ok env"
  shows "\<exists>c. same_times s c \<and> storeAircraftSituation (prov_env env) c False (provider m) = Inr (r, provider m')"
proof -
  from storing_in_provider [OF assms(2,3), of b m] obtain c f where c: "same_times s c" "\<And>r p. provider (f r p) = p" and
    e: "monitor_storeAircraftSituation env s b m
      = and_then (storeAircraftSituation (prov_env env) c False (provider m)) (\<lambda>(r, p). Inr (r, f r p))" by blast
  have "and_then (storeAircraftSituation (prov_env env) c False (provider m)) (\<lambda>(r, p). Inr (r, f r p)) = Inr (r, m')"
    using assms(1) e by simp
  then show ?thesis using c by (auto simp: and_then_eq_Inr)
qed

text \<open>What is queued for a pilot who is new: the order is that of the composition, from the right.\<close>

definition pilot_queries :: "'au environment \<Rightarrow> 'au fsd_client \<Rightarrow> CCallsign \<Rightarrow> bool \<Rightarrow> string list" where
  "pilot_queries e c callsign withFsInn =
     (let own_cs = getOwnCallsignAsString c in
      messageToFSDString PlaneInfoRequest_pdu PlaneInfoRequest_toTokens (PlaneInfoRequest own_cs (asString callsign)) #
      (if withFsInn
       then [messageToFSDString PlaneInfoRequestFsinn_pdu PlaneInfoRequestFsinn_toTokens
              (PlaneInfoRequestFsinn own_cs (asString callsign) (own_airlineDesignator (own e)) (own_aircraftDesignator (own e))
                (own_aircraftCombinedType (own e)) (getConfiguredModelString (own e) c))]
       else []) @
      map (\<lambda>q. messageToFSDString ClientQuery_pdu ClientQuery_toTokens (ClientQuery own_cs (getFsdCallsignString callsign) q []))
        [Query_Com1Freq, Query_RealName, Query_Capabilities, Query_Server])"

lemma queue_keeps [simp]:
  "m_queuedFsdMessages (queue_text s c) = m_queuedFsdMessages c @ [s]" "m_unitTestMode (queue_text s c) = m_unitTestMode c"
  "getOwnCallsignAsString (queue_text s c) = getOwnCallsignAsString c" "FsdClientSend.isConnected (queue_text s c) = FsdClientSend.isConnected c"
  "getConfiguredModelString a (queue_text s c) = getConfiguredModelString a c"
  "m_unitTestMode (count e i p c) = m_unitTestMode c" "getOwnCallsignAsString (count e i p c) = getOwnCallsignAsString c"
  "FsdClientSend.isConnected (count e i p c) = FsdClientSend.isConnected c" "m_queuedFsdMessages (count e i p c) = m_queuedFsdMessages c"
  "getConfiguredModelString a (count e i p c) = getConfiguredModelString a c"
  by (simp_all add: queue_text_def count_def getOwnCallsignAsString_def FsdClientSend.isConnected_def getConfiguredModelString_def)

lemma request_valid [simp]: "m_isValid (PlaneInfoRequest a b)" "m_isValid (PlaneInfoRequestFsinn a b x y z w)"
  by (simp_all add: PlaneInfoRequest_def PlaneInfoRequestFsinn_def)

lemma queued_queries:
  assumes "reachable (network m)" "isConnectedAndNotShuttingDown env m"
  shows "m_queuedFsdMessages (network (sendInitialPilotQueries env cs True withFsInn m))
    = m_queuedFsdMessages (network m) @ pilot_queries (fsd_env env) (network m) cs withFsInn"
proof -
  have "\<not> m_unitTestMode (network m)" "FsdClientSend.isConnected (network m)"
    using reachable_ok [OF assms(1)] assms(2)
    by (simp_all add: client_ok_def isConnectedAndNotShuttingDown_def monitor_isConnected_def FsdClientSend.isConnected_def)
  then show ?thesis using assms(2)
    by (simp add: sendInitialPilotQueries_def on_network_def pilot_queries_def sendPlaneInfoRequest_def sendPlaneInfoRequestFsinn_def
      client_query_defs sendClientQuery_def sendQueudedMessage_queues Let_def)
qed

lemma received_callsign [simp]: "rs_callsign (received_situation env d s) = sit_callsign s"
  by (simp add: received_situation_def)

lemma fifty: "length (remoteAircraftSituations cs p) = 50 \<Longrightarrow> remoteAircraftSituationsCount cs p = 50"
  by (auto simp: remoteAircraftSituations_def remoteAircraftSituationsCount_def at_key_def split: option.split_asm)

lemma engines_result: "\<exists>es. revb_engines pp = Inr es"
  by (simp add: revb_engines_def initEngines_def setEngineOn_def)

lemma revb_result: "\<exists>parts. revb_parts t config os = Inr parts \<and> \<not> m_isOnGround parts \<and> m_timestampMSecsSinceEpoch parts = t
    \<and> m_timeOffsetMs parts = os"
  using engines_result [of "of_nat (q_toUnsigned 64 10 config)"]
  by (auto simp: revb_parts_def CAircraftParts_default_def CAircraftParts_flaps_def CAircraftParts_def Let_def)

text \<open>A first set of parts is kept as it is.\<close>

lemma one_part:
  assumes "0 \<le> m_timestampMSecsSinceEpoch (parts :: CAircraftParts)" "m_timestampMSecsSinceEpoch parts < 2 ^ 62"
  shows "push_frontKeepLatestFirstAdjustOffset parts True MaxPartsPerCallsign [] = Inr [parts]" "removeOutdatedParts [parts] = Inr [parts]"
proof -
  show "push_frontKeepLatestFirstAdjustOffset parts True MaxPartsPerCallsign [] = Inr [parts]"
    by (simp add: push_frontKeepLatestFirstAdjustOffset_def push_frontKeepLatestFirst_def max_elements_ok_def truncate_max_def
      adjust_front_def MaxPartsPerCallsign_def Let_def)
  have "c_int64 (m_timestampMSecsSinceEpoch parts - 60000) = m_timestampMSecsSinceEpoch parts - 60000"
    using assms by (intro c_int64_id) (auto simp: int64_def)
  then show "removeOutdatedParts [parts] = Inr [parts]" using assms
    by (simp add: removeOutdatedParts_def latestTimestampMsecsSinceEpoch_def latestObject_def max_element_def removeBefore_def isOlderThan_def
      getUtcTimestamp_def MaxPartsAgePerCallsignSecs_def Let_def)
qed

lemma first_parts:
  assumes "at_key (m_partsByCallsign p) (asString cs) = []" "\<not> isEmpty cs" "0 \<le> m_timestampMSecsSinceEpoch parts" "m_timestampMSecsSinceEpoch parts < 2 ^ 62"
  shows "\<exists>p'. storeAircraftParts env cs parts True p = Inr p' \<and> remoteAircraftParts cs p' = [parts]"
  using assms
proof -
  have "int 1 \<le> MaxPartsPerCallsign" by (simp add: MaxPartsPerCallsign_def)
  then show ?thesis using assms
    by (simp add: storeAircraftParts_def remoteAircraftParts_def parts_stored_members one_part isSortedAdjustedLatestFirst_def Let_def)
qed

lemma best_of_one:
  assumes "0 \<le> getAdjustedTimeDifferenceMs s (getAdjustedMSecsSinceEpoch parts)"
    "getAdjustedTimeDifferenceMs s (getAdjustedMSecsSinceEpoch parts) < 2 ^ 63 - 1"
  shows "\<exists>d. best_parts s None [parts] = Some (d, parts)"
  using assms by (simp add: Let_def)

lemma sends_caps:
  assumes "clients_ok c" "\<not> isEmpty cs" "asString cs \<noteq> []"
  shows "hasCapability FsdWithAircraftConfig (getClientOrDefaultForCallsign cs (sendsParts cs c))"
    "hasCapability FsdWithGroundFlag (getClientOrDefaultForCallsign cs (sendsParts cs c))
      = hasCapability FsdWithGroundFlag (getClientOrDefaultForCallsign cs c)"
proof -
  define a where "a = setUserCallsign cs (getClientOrDefaultForCallsign cs c)"
  have same: "cl_capabilities a = cl_capabilities (getClientOrDefaultForCallsign cs c)" by (simp add: a_def setUserCallsign_def)
  have "asString (cl_callsign a) = asString cs" "\<not> isEmpty (cl_callsign a)"
    using assms by (auto simp: a_def setUserCallsign_def getClientOrDefaultForCallsign_def clients_ok_def CClient_default_def
      callsign_eq_iff isEmpty_def CCallsign_default_def asString_def q_toLower_def split: option.split)
  then have key: "sendsParts cs c = (if hasCapability FsdWithAircraftConfig a then c
      else c(asString cs \<mapsto> addCapability FsdWithAircraftConfig a))"
    by (simp add: sendsParts_def a_def [symmetric] setOtherClient_def Let_def)
  have bits: "FsdWithGroundFlag AND FsdWithAircraftConfig = 0" "FsdWithGroundFlag \<noteq> 0" "FsdWithAircraftConfig \<noteq> 0"
    by (simp_all add: FsdWithGroundFlag_def FsdWithAircraftConfig_def)
  show "hasCapability FsdWithAircraftConfig (getClientOrDefaultForCallsign cs (sendsParts cs c))"
    using assms(2) same added_capability [OF bits(3), of a] by (simp add: key getClientOrDefaultForCallsign_def hasCapability_def)
  show "hasCapability FsdWithGroundFlag (getClientOrDefaultForCallsign cs (sendsParts cs c))
      = hasCapability FsdWithGroundFlag (getClientOrDefaultForCallsign cs c)"
    using assms(2) same other_capability [OF bits(1,2), of a]
    by (simp add: key getClientOrDefaultForCallsign_def hasCapability_def)
qed

subsection \<open>Bookings\<close>

lemma synchronized_online:
  "callsign_eq (st_callsign booked) (st_callsign s) \<Longrightarrow> m_isOnline (snd (synchronizeWithBookedStation utc s booked))"
  "\<not> callsign_eq (st_callsign booked) (st_callsign s) \<Longrightarrow> snd (synchronizeWithBookedStation utc s booked) = booked"
  by (simp_all add: synchronizeWithBookedStation_def setOnline_def Let_def)

lemma each_online:
  "m_isOnline (snd (snd (synchronize_each utc stations booked)))
    = (m_isOnline booked \<or> list_ex (\<lambda>s. callsign_eq (st_callsign s) (st_callsign booked)) stations)"
proof (induction stations arbitrary: booked)
  case (Cons s stations)
  show ?case
  proof (cases "callsign_eq (st_callsign s) (st_callsign booked)")
    case True
    then have "callsign_eq (st_callsign booked) (st_callsign s)" by (simp add: callsign_eq_iff)
    from synchronized_online(1) [OF this] show ?thesis using True Cons by (simp add: case_prod_beta Let_def)
  qed (use Cons in \<open>simp add: case_prod_beta Let_def\<close>)
qed simp

lemma contains_by_callsigns:
  "map st_callsign stations' = map st_callsign stations \<Longrightarrow> containsCallsign cs stations' = containsCallsign cs stations"
proof -
  assume "map st_callsign stations' = map st_callsign stations"
  moreover have "containsCallsign cs s = list_ex (\<lambda>c. callsign_eq c cs) (map st_callsign s)" for s
    by (induction s) (simp_all add: containsCallsign_def with_callsign_def)
  ultimately show ?thesis by simp
qed

lemma list_online:
  assumes "one_each stations" "synchronizeWithBookedStation_list utc stations booked = Inr (stations', booked')"
  shows "m_isOnline booked' = containsCallsign (st_callsign booked) stations"
  using assms(2) each_online [of utc stations "snd (setOnline False booked)"]
  by (auto simp: synchronizeWithBookedStation_list_def case_prod_beta containsCallsign_def with_callsign_def list_ex_iff setOnline_def Let_def
    split: if_splits)

lemma bookings_online:
  assumes "one_each online" "synchronize_bookings utc online bookings = Inr (online', booked')"
  shows "map st_callsign online' = map st_callsign online \<and> map st_callsign booked' = map st_callsign bookings
    \<and> list_all (\<lambda>b. m_isOnline b = containsCallsign (st_callsign b) online) booked'"
  using assms
proof (induction bookings arbitrary: online online' booked')
  case (Cons booked bookings)
  from synchronized_list [OF Cons.prems(1), of utc booked] obtain online1 booked1 where
    1: "synchronizeWithBookedStation_list utc online booked = Inr (online1, booked1)"
      "map st_callsign online1 = map st_callsign online" "st_callsign booked1 = st_callsign booked" by blast
  from Cons.prems(2) 1(1) obtain booked2 where
    2: "synchronize_bookings utc online1 bookings = Inr (online', booked2)" "booked' = booked1 # booked2"
    by (auto simp: and_then_eq_Inr)
  have "one_each online1" using one_each_callsigns [OF 1(2)] Cons.prems(1) by simp
  from Cons.IH [OF this 2(1)] show ?case
    using 1(2,3) 2(2) list_online [OF Cons.prems(1) 1(1)] contains_by_callsigns [OF 1(2)] by simp
qed simp

subsection \<open>Livery strings\<close>

lemma digits_of_number:
  assumes "0 \<le> n" "c \<in> set (q_number n)"
  shows "is_digit c \<and> to_lower c = c"
proof -
  from assms obtain d where d: "d < 10" "c = digit_char d" using set_q_number_nat [of 10 c "nat n"] by (auto simp: q_number_def)
  then have "of_char c = 48 + d" by (simp add: digit_char_def)
  then show ?thesis using d(1) by (simp add: is_digit_def to_lower_def)
qed

lemma parse_one_id:
  assumes "0 \<le> n" "int32 n" "c = CHR ''m'' \<or> c = CHR ''a'' \<or> c = CHR ''l''" "rest = [] \<or> \<not> is_digit (hd rest)"
  shows "parse_ids (c # q_number n @ rest) ids = parse_ids rest (set_id c n ids)"
proof -
  have "takeWhile is_digit (q_number n @ rest) = q_number n"
    using digits_of_number [OF assms(1)] assms(4) by (cases rest) (simp_all add: takeWhile_append2)
  moreover have "q_number n \<noteq> []" by (simp add: q_number_def)
  ultimately show ?thesis using assms(2,3) by (auto simp: q_toInt_number Let_def)
qed

definition id_ok :: "int option \<Rightarrow> bool" where
  "id_ok i \<longleftrightarrow> (case i of None \<Rightarrow> True | Some n \<Rightarrow> 0 \<le> n \<and> int32 n)"

subsection \<open>What never faults\<close>

definition succeeds :: "fault + 'x \<Rightarrow> bool" where
  "succeeds r \<longleftrightarrow> (\<exists>x. r = Inr x)"

lemma succeeds_simps [simp]:
  "succeeds (Inr x)" "\<not> succeeds (Inl f)" "succeeds (if b then r else r') = (if b then succeeds r else succeeds r')"
  by (simp_all add: succeeds_def)

lemma succeeds_and_then: "succeeds r \<Longrightarrow> (\<And>x. r = Inr x \<Longrightarrow> succeeds (f x)) \<Longrightarrow> succeeds (and_then r f)"
  by (auto simp: succeeds_def)

lemma updating_succeeds: "\<not> isEmpty cs \<Longrightarrow> succeeds (updateAircraftInRange cs vm b p)"
  by (simp add: updateAircraftInRange_def case_prod_beta Let_def split: option.split)

lemma trying_succeeds: "succeeds (f (provider m)) \<Longrightarrow> succeeds (try_provider f m)"
  by (auto simp: try_provider_def succeeds_def)

lemma models_succeed:
  assumes "\<not> isEmpty cs"
  shows "succeeds (updateAircraftModel cs model p)" "succeeds (updateAircraftNetworkModel cs model p)"
  using assms updating_succeeds
  by (auto simp: updateAircraftModel_def updateAircraftNetworkModel_def case_prod_beta intro!: succeeds_and_then)

lemma add_or_update_succeeds:
  "\<not> isEmpty cs \<Longrightarrow> succeeds (addOrUpdateAircraftInRange env cs a b l ms m)"
  by (auto simp: addOrUpdateAircraftInRange_def case_prod_beta Let_def intro!: succeeds_and_then trying_succeeds models_succeed)

lemma ready_succeeds: "\<not> isEmpty cs \<Longrightarrow> succeeds (sendReadyForModelMatching env cs rf m)"
  by (simp add: sendReadyForModelMatching_def Let_def)

lemma adding_succeeds: "\<not> isEmpty (a_callsign a) \<Longrightarrow> succeeds (monitor_addNewAircraftInRange env a m)"
  by (simp add: monitor_addNewAircraftInRange_def case_prod_beta Let_def)

lemma codes_succeed:
  "\<not> isEmpty cs \<Longrightarrow> succeeds (onIcaoCodesReceived env cs a b l m)"
  "\<not> isEmpty cs \<Longrightarrow> succeeds (onCustomFSInnPacketReceived env cs b a c ms m)"
  "succeeds (onIcaoCodesReceived env (CCallsign t NoHint) a b l m)"
proof -
  show "\<not> isEmpty cs \<Longrightarrow> succeeds (onCustomFSInnPacketReceived env cs b a c ms m)"
    and icao: "\<not> isEmpty cs \<Longrightarrow> succeeds (onIcaoCodesReceived env cs a b l m)" for cs
  by (auto simp: onIcaoCodesReceived_def onCustomFSInnPacketReceived_def Let_def
    intro!: succeeds_and_then add_or_update_succeeds ready_succeeds)
  have none: "\<not> callsign_isValid (CCallsign t NoHint)" if "isEmpty (CCallsign t NoHint)"
    using that by (simp add: callsign_isValid_def CCallsign_def Let_def)
  show "succeeds (onIcaoCodesReceived env (CCallsign t NoHint) a b l m)"
  proof (cases "isEmpty (CCallsign t NoHint)")
    case True
    with none show ?thesis by (simp add: onIcaoCodesReceived_def)
  qed (rule icao)
qed

lemma update_succeeds:
  assumes "monitor_ok m" "surroundings_ok env" "spreadable s" "\<not> isEmpty (rs_callsign s)"
  shows "succeeds (onAircraftUpdateReceived env s transponder m)"
proof -
  have st: "succeeds (monitor_storeAircraftSituation env s True
      (on_clients (\<lambda>cs. snd (autoAdjustCientGndCapability s cs)) (snd (handleMaxRange env s m))))"
    using storing_succeeds [OF _ assms(2,3)] ok_range(2) [OF assms(1)]
    by (metis (no_types, lifting) clients_ops_ok(5) ok_on_clients succeeds_def)
  show ?thesis using assms(4) st
    by (auto simp: onAircraftUpdateReceived_def case_prod_beta Let_def
      intro!: succeeds_and_then adding_succeeds trying_succeeds updating_succeeds)
qed

lemma between_succeeds:
  assumes "monitor_ok m" "surroundings_ok env" "sane_times s" "\<not> isEmpty (rs_callsign s)"
  shows "succeeds (between_update env s m)"
proof -
  have "spreadable (withGroundSpeedOf env old (s\<lparr>m_timestampMSecsSinceEpoch := clock env\<rparr>))" for old
    using surroundings_okD(1) [OF assms(2)] sane_spreadable [OF assms(3)]
    by (subst spreadable_same [OF surroundings_okD(5) [OF assms(2)]]) (simp add: spreadable_def clock_sane_def clock_def)
  then have "succeeds (monitor_storeAircraftSituation env
      (withGroundSpeedOf env old (s\<lparr>m_timestampMSecsSinceEpoch := clock env\<rparr>)) True m)" for old
    using storing_succeeds [OF assms(1,2)] by (auto simp: succeeds_def)
  then show ?thesis using assms(4)
    by (auto simp: between_update_def Let_def intro!: succeeds_and_then split: option.split)
qed

subsection \<open>Queries\<close>

lemma fast_tick:
  assumes "isConnectedAndNotShuttingDown env m"
  shows "length (m_queryAtis (fastProcessing env m)) + length (m_queryPilot (fastProcessing env m))
      \<le> length (m_queryAtis m) + length (m_queryPilot m) - 1"
proof (cases "m_queryAtis m")
  case Nil
  then show ?thesis using assms
    by (cases "m_queryPilot m") (simp_all add: fastProcessing_def sendNextStaggeredAtisQuery_def sendNextStaggeredPilotDataQuery_def
      on_network_def Let_def)
next
  case (Cons cs queue)
  then show ?thesis using assms
    by (cases "m_queryPilot m") (simp_all add: fastProcessing_def sendNextStaggeredAtisQuery_def sendNextStaggeredPilotDataQuery_def
      on_network_def isConnectedAndNotShuttingDown_def monitor_isConnected_def Let_def)
qed

lemma queries_keep_connection:
  assumes "\<not> m_unitTestMode c"
  shows "m_connectionStatus (sendClientQueryAtis e cs c) = m_connectionStatus c \<and> \<not> m_unitTestMode (sendClientQueryAtis e cs c)"
    "m_connectionStatus (sendClientQueryCom1Freq e cs c) = m_connectionStatus c \<and> \<not> m_unitTestMode (sendClientQueryCom1Freq e cs c)"
    "m_connectionStatus (sendPlaneInfoRequest e cs c) = m_connectionStatus c \<and> \<not> m_unitTestMode (sendPlaneInfoRequest e cs c)"
  using assms by (simp_all add: client_query_defs sendClientQuery_def sendPlaneInfoRequest_def sendQueudedMessage_queues queue_text_def Let_def)

lemma fast_tick_connection:
  assumes "\<not> m_unitTestMode (network m)"
  shows "isConnectedAndNotShuttingDown env' (fastProcessing env m) = isConnectedAndNotShuttingDown env' m
    \<and> \<not> m_unitTestMode (network (fastProcessing env m))"
  using assms
  by (auto simp: queries_keep_connection fastProcessing_def sendNextStaggeredAtisQuery_def sendNextStaggeredPilotDataQuery_def
      on_network_def isConnectedAndNotShuttingDown_def monitor_isConnected_def Let_def split: list.split)

end
