(* ===== verification/AirspaceProperties.thy ===== *)
theory AirspaceProperties
  imports AirspaceMonitorBehaviour AircraftProperties ClientBehaviour "HOL-Library.Char_ord" "HOL-Library.List_Lexorder"
begin

section \<open>The airspace monitor, its watchdog and its client together\<close>

text \<open>
  What the monitor keeps to in every state it can reach, what becomes of a pilot who enters, leaves, returns,
  is matched with a model or lost by the watchdog, and of the bookings of controllers.
\<close>

text \<open>Surroundings in which nothing is computed, at a given time.\<close>

definition sample_surroundings :: "int \<Rightarrow> (unit, unit, unit) monitor_environment" where
  "sample_surroundings t = \<lparr>fsd_env = sample_environment t (sample_aircraft (Fin 0)), prov_env = still_geometry t, isShuttingDown = False,
     observerLogin = False, utcDay = 0, hashOrder = (\<lambda>m. sorted_list_of_set (dom m)), reverseLookup = (\<lambda>cs a b l ms r. aircraft_model_default),
     updateMissingParts = (\<lambda>m other. m), isReverseLookupModelString = False, isKnownModelString = (\<lambda>s. False),
     hasVatsimDataFileReader = False, flightPlanRemarksInDataFile = (\<lambda>cs. []), updateWithVatsimDataFileData = (\<lambda>a. a),
     stationInDataFile = (\<lambda>cs. CAtcStation_default), modelForModelString = (\<lambda>s. aircraft_model_default),
     simulatorOrDbCG = (\<lambda>cs cg. cg), sameFrequency = (=), keptRealName = (\<lambda>s. s), situationGeometry = (\<lambda>s. ()), isNullSituation = (\<lambda>s. False),
     distanceToOwn_NM = (\<lambda>s. 200), equalNormalVector = (\<lambda>s s'. True), withGroundSpeedOf = (\<lambda>old s. s), groundSpeed_kts = (\<lambda>s. Fin 0),
     fasterThanRotating = (\<lambda>m s. False), isMoving = (\<lambda>s. False), canLikelySkipNearGround = (\<lambda>s. False),
     getGroundElevation = (\<lambda>s. None), setGroundElevation = (\<lambda>p i s. s), otherElevationInfoBetter = (\<lambda>i s. False),
     resetGroundElevation = (\<lambda>s. s), transferClosestElevation = (\<lambda>l s. None), transferElevation = (\<lambda>old s. None),
     closestElevationInCache = (\<lambda>s. None), averageElevationOnGround = (\<lambda>s. None), averageElevationNonMoving = (\<lambda>p s. None),
     isNullChange = (\<lambda>c. True), isConstAscending = (\<lambda>c. False), steadyOnGround = (\<lambda>c. False), withinAltitudeDeviation = (\<lambda>s s'. False)\<rparr>"

lemma sample_surroundings_ok: "\<bar>t\<bar> < 2 ^ 62 \<Longrightarrow> surroundings_ok (sample_surroundings t)"
  using still_ok [of t]
  by (simp add: surroundings_ok_def sample_surroundings_def clock_sane_def sample_environment_def still_geometry_def)

lemma sample_clock [simp]: "clock (sample_surroundings t) = t" "isShuttingDown (sample_surroundings t) = False"
  by (simp_all add: clock_def sample_surroundings_def sample_environment_def)

definition sample_monitor :: "unit fsd_client \<Rightarrow> (unit, unit, unit) airspace_monitor" where
  "sample_monitor c = CAirspaceMonitor c False"

lemma sample_monitor_reachable: "reachable c \<Longrightarrow> monitor_reachable (sample_monitor c)"
  unfolding sample_monitor_def by (rule monitor_start)

text \<open>A client that is connected, and the monitor above it, with no limit of the range.\<close>

lemma connected_sample: "\<exists>c. reachable (c :: unit fsd_client) \<and> m_connectionStatus c = Connected"
proof -
  from connecting_sample obtain c where c: "reachable (c :: unit fsd_client)" "m_protocolRevision c = PROTOCOL_REVISION_CLASSIC"
    "m_connectionStatus c = Connecting" "m_socketIsOpen c" "m_server c = sample_server" by blast
  define env :: "unit environment" where "env = sample_environment 1000 undefined"
  have "client_step c SocketConnected (handleSocketConnected env c)"
    by (rule client_step [where env = env]) (simp_all add: c(4) clock_sane_def env_def sample_environment_def)
  moreover have "\<not> m_unitTestMode c" using reachable_ok [OF c(1)] by (simp add: client_ok_def)
  then have "m_connectionStatus (handleSocketConnected env c) = Connected"
    using c(2,5) by (simp add: handleSocketConnected_def login_and_connected_def sendLogin_def sendQueudedMessage_queues
      updateConnectionStatus_def sample_server_def testFlag_def SendAircraftParts_def ReceiveEuroscopeSimData_def Let_def split: LoginMode.split)
  ultimately show ?thesis using reachable_step [OF c(1)] by blast
qed

lemma connected_monitor:
  "\<exists>m. monitor_reachable (m :: (unit, unit, unit) airspace_monitor) \<and> monitor_isConnected m \<and> m_maxDistanceNM m < 0
    \<and> provider m = provider (sample_monitor sample_client) \<and> m_tempFsInnPackets m = Map.empty"
proof -
  from connected_sample obtain c :: "unit fsd_client" where c: "reachable c" "m_connectionStatus c = Connected" by blast
  have "monitor_reachable (setMaxRange None (sample_monitor c))"
    by (rule monitor_step [OF sample_monitor_reachable [OF c(1)] sample_surroundings_ok [of 0], of "SetMaxRange None"]) simp_all
  then show ?thesis using c(2)
    by (intro exI [of _ "setMaxRange None (sample_monitor c)"])
      (simp add: setMaxRange_def sample_monitor_def CAirspaceMonitor_def monitor_isConnected_def)
qed

definition sample_position :: situation where
  "sample_position = \<lparr>m_timestampMSecsSinceEpoch = 1000, m_timeOffsetMs = 6000, sit_callsign = CCallsign ''DLH1'' Aircraft,
     sit_latitude = Fin 50, sit_longitude = Fin 8, sit_altitude_ft = Fin 3000, sit_heading = Fin 90, sit_pitch = Fin 0, sit_bank = Fin 0,
     sit_groundSpeed_kts = Some (Fin 120), sit_pressureAltitude_ft = None, sit_onGround = Some False\<rparr>"

lemma dlh1 [simp]: "\<not> isEmpty (CCallsign ''DLH1'' Aircraft)" "asString (CCallsign ''DLH1'' Aircraft) = ''DLH1''"
  "isValidAircraftCallsign ''DLH1''" "q_trimmed ''DLH1'' \<noteq> []"
  by code_simp+

text \<open>C3: Whatever reaches the airspace monitor in whatever order, events of its client, timers, the watchdog, bookings
  and requests: an aircraft in range is found under its own callsign, so is a client; no two stations
  online have the same callsign; no callsign waits twice in a queue; the lists of the provider keep
  to their bounds; and the client below is in a state it can reach by itself.\<close>

lemma monitor_invariant:
  assumes "monitor_reachable m"
  shows "(m_aircraftInRange (provider m) cs = Some a \<longrightarrow> asString (a_callsign a) = cs)
    \<and> (m_clients m cs = Some c \<longrightarrow> asString (cl_callsign c) = cs)
    \<and> sorted_wrt (\<lambda>s s'. \<not> callsign_eq (st_callsign s) (st_callsign s')) (m_atcStationsOnline m)
    \<and> sorted_wrt (\<lambda>a b. \<not> callsign_eq a b) (m_queryPilot m) \<and> sorted_wrt (\<lambda>a b. \<not> callsign_eq a b) (m_queryAtis m)
    \<and> length (at_key (m_situationsByCallsign (provider m)) cs) \<le> 50 \<and> length (at_key (m_partsByCallsign (provider m)) cs) \<le> 50
    \<and> reachable (network m)"
proof -
  have ok: "monitor_ok m" by (rule monitor_reachable_ok [OF assms])
  show ?thesis using ok provider_okD [OF monitor_okD(1) [OF ok]]
    by (auto simp: monitor_ok_def provider_ok_def clients_ok_def one_each_def one_query_each_def kept_list_def)
qed

lemma monitor_invariant_witness: "reachable (network (sample_monitor sample_client))"
  using monitor_invariant [OF sample_monitor_reachable [OF sample_reachable]] by blast

text \<open>C4: The first position of a pilot who is within range: the aircraft is in range, its list of situations
  is full at once (so asking for two situations before matching asks for nothing), there is a
  client of its callsign, the check of its ICAO codes is due in 24 seconds, and what is asked of its pilot
  is queued last: plane information, an FsInn packet unless one came before, the frequency, the
  real name, the capabilities and the server.\<close>

lemma pilot_enters:
  assumes "monitor_reachable m" "surroundings_ok env" "isConnectedAndNotShuttingDown env m" "sane_times s"
    and "\<not> isEmpty (sit_callsign s)" "\<not> isCopilotAircraft env (sit_callsign s)" "\<not> is_in_range (sit_callsign s) (provider m)"
    and "remoteAircraftSituations (sit_callsign s) (provider m) = []"
    and "fst (handleMaxRange env (received_situation env NotSetGroundDetails s) m)"
  shows "\<exists>m'. on_signal env (pilotDataUpdateReceived s transponder) m = Inr m'
    \<and> is_in_range (sit_callsign s) (provider m') \<and> remoteAircraftSituationsCount (sit_callsign s) (provider m') = 50
    \<and> hasClientInfo (sit_callsign s) (m_clients m')
    \<and> single_shots m' = single_shots m @ [(clock env + 24000, VerifyIcao (sit_callsign s))]
    \<and> m_queuedFsdMessages (network m') = m_queuedFsdMessages (network m)
        @ pilot_queries (fsd_env env) (network m) (sit_callsign s) (m_tempFsInnPackets m (asString (sit_callsign s)) = None)"
proof -
  let ?cs = "sit_callsign s" and ?s = "received_situation env NotSetGroundDetails s"
  have ok: "monitor_ok m" by (rule monitor_reachable_ok [OF assms(1)])
  have c: "\<not> isShuttingDown env" using assms(3) by (simp add: isConnectedAndNotShuttingDown_def)
  have range_m: "handleMaxRange env ?s m = (True, m)"
    using assms(9) by (auto simp: handleMaxRange_def Let_def split: if_splits)
  define m1 where "m1 = on_clients (\<lambda>cs. snd (autoAdjustCientGndCapability ?s cs)) m"
  have "monitor_ok m1" unfolding m1_def by (intro ok_on_clients clients_ops_ok ok)
  moreover have m1: "network m1 = network m" "provider m1 = provider m" "m_tempFsInnPackets m1 = m_tempFsInnPackets m"
      "single_shots m1 = single_shots m"
    by (simp_all add: m1_def on_clients_def)
  ultimately obtain r m2 where m2: "monitor_storeAircraftSituation env ?s True m1 = Inr (r, m2)"
    using storing_succeeds [OF _ assms(2) sane_spreadable, of m1 ?s True] assms(4) by auto
  note kept = storing_keeps [OF m2]
  from storing_stores [OF m2 _ assms(2)] assms(5) obtain s' where
    s': "same_times ?s s'" "storeAircraftSituation (prov_env env) s' False (provider m) = Inr (r, provider m2)"
    by (auto simp: m1(2))
  have "length (remoteAircraftSituations ?cs (provider m2)) = 50"
    using first_situation [OF s'(2)] s'(1) assms(5,8) by (simp add: same_times_def remoteAircraftSituations_def)
  moreover have "\<not> is_in_range ?cs (provider m2)"
    using assms(7) range_after_store [OF s'(2)] by (simp add: is_in_range_def)
  moreover define a where "a = simulated_aircraft_default\<lparr>a_callsign := ?cs, a_transponder := transponder\<rparr>"
  ultimately obtain m3 where m3: "monitor_addNewAircraftInRange env a m2 = Inr (True, m3)" "is_in_range ?cs (provider m3)"
    "single_shots m3 = single_shots m2 @ [(clock env + MMVerifyMs, VerifyIcao ?cs)]"
    "length (remoteAircraftSituations ?cs (provider m3)) = 50"
    using adding_adds [of a env m2] adding_keeps(2) assms(2,5) c by (fastforce simp: remoteAircraftSituations_def)
  define q where "q = (m_tempFsInnPackets m (asString ?cs) = None)"
  define m4 where "m4 = on_clients (\<lambda>cs. snd (addNewClient (CClient_callsign ?cs []) cs)) (sendInitialPilotQueries env ?cs True q m3)"
  have net: "network m3 = network m" using adding_keeps(1) [OF m3(1)] kept(1) m1(1) by simp
  have "on_signal env (pilotDataUpdateReceived s transponder) m = Inr m4"
    using assms(3,5-7) range_m m2 m3(1) adding_keeps(3) [OF m3(1)] kept(3) m1(3)
    by (simp add: onAircraftUpdateReceived_def m1_def [symmetric] a_def [symmetric] m4_def q_def Let_def)
  moreover have "m_queuedFsdMessages (network m4) = m_queuedFsdMessages (network m) @ pilot_queries (fsd_env env) (network m) ?cs q"
    using queued_queries [of m3 env ?cs q] monitor_okD(6) [OF ok] net assms(3) connected_network [OF net, of env]
    by (simp add: m4_def on_clients_def)
  moreover have "hasClientInfo ?cs (m_clients m4)"
    using assms(5) by (auto simp: m4_def on_clients_def addNewClient_def hasClientInfo_def CClient_callsign_def Let_def)
  ultimately show ?thesis using m3(1-3) fifty [OF m3(4)] kept(2) m1(4)
    by (auto simp: m4_def on_clients_def sendInitialPilotQueries_def on_network_def MMVerifyMs_def MMCheckAgainMs_def q_def Let_def)
qed

lemma pilot_enters_witness:
  "\<exists>(m :: (unit, unit, unit) airspace_monitor) m'. on_signal (sample_surroundings 1000) (pilotDataUpdateReceived sample_position (CTransponder 7000 ModeC)) m = Inr m'
    \<and> is_in_range (CCallsign ''DLH1'' Aircraft) (provider m') \<and> remoteAircraftSituationsCount (CCallsign ''DLH1'' Aircraft) (provider m') = 50"
proof -
  from connected_monitor obtain m :: "(unit, unit, unit) airspace_monitor" where m: "monitor_reachable m" "monitor_isConnected m"
    "m_maxDistanceNM m < 0" "provider m = provider (sample_monitor sample_client)" by blast
  have cs: "sit_callsign sample_position = CCallsign ''DLH1'' Aircraft" by (simp add: sample_position_def)
  have empty: "\<not> is_in_range (CCallsign ''DLH1'' Aircraft) (provider m)" "remoteAircraftSituations (CCallsign ''DLH1'' Aircraft) (provider m) = []"
    by (simp_all add: m(4) sample_monitor_def CAirspaceMonitor_def CRemoteAircraftProvider_def is_in_range_def remoteAircraftSituations_def
      enableReverseLookupMessages_def)
  have range_m: "fst (handleMaxRange (sample_surroundings 1000) (received_situation (sample_surroundings 1000) NotSetGroundDetails sample_position) m)"
    using m(3) by (simp add: handleMaxRange_def sample_surroundings_def)
  have "isConnectedAndNotShuttingDown (sample_surroundings 1000) m" "sane_times sample_position"
    "\<not> isCopilotAircraft (sample_surroundings 1000) (sit_callsign sample_position)" "surroundings_ok (sample_surroundings 1000)"
    using m(2) sample_surroundings_ok [of 1000]
    by (simp_all add: isConnectedAndNotShuttingDown_def sane_times_def sample_position_def c_positionTimeOffsetMsec_def isCopilotAircraft_def
      sample_surroundings_def)
  from pilot_enters [OF m(1) this(4,1,2) _ this(3) _ _ range_m, of "CTransponder 7000 ModeC"] empty
  obtain m' where "on_signal (sample_surroundings 1000) (pilotDataUpdateReceived sample_position (CTransponder 7000 ModeC)) m = Inr m'"
    "is_in_range (CCallsign ''DLH1'' Aircraft) (provider m')" "remoteAircraftSituationsCount (CCallsign ''DLH1'' Aircraft) (provider m') = 50"
    unfolding cs by auto
  then show ?thesis by blast
qed





text \<open>C22: Bookings that were read: the assertion that no callsign is online twice holds, no station is gained or
  lost in either list, and a booking counts as online exactly when there is a station of its callsign.\<close>

lemma bookings_follow_stations:
  assumes "monitor_reachable m"
  shows "\<exists>m'. onReceivedAtcBookings env bookedStations m = Inr m'
    \<and> map st_callsign (m_atcStationsOnline m') = map st_callsign (m_atcStationsOnline m)
    \<and> map st_callsign (m_atcStationsBooked m') = map st_callsign bookedStations
    \<and> list_all (\<lambda>b. m_isOnline b = containsCallsign (st_callsign b) (m_atcStationsOnline m')) (m_atcStationsBooked m')"
proof -
  have one: "one_each (m_atcStationsOnline m)" using monitor_okD(3) [OF monitor_reachable_ok [OF assms]] .
  from synchronize_bookings_result [OF one] obtain online booked where
    r: "synchronize_bookings (clock env) (m_atcStationsOnline m) bookedStations = Inr (online, booked)" by blast
  from bookings_online [OF one r] contains_by_callsigns [of online "m_atcStationsOnline m"] r show ?thesis
    by (simp add: onReceivedAtcBookings_def report_def)
qed

lemma bookings_follow_stations_witness:
  "\<exists>m'. onReceivedAtcBookings (sample_surroundings 0) [CAtcStation_default\<lparr>m_isOnline := True\<rparr>] (sample_monitor sample_client) = Inr m'
    \<and> map st_callsign (m_atcStationsBooked m') = [CCallsign_default]"
  using bookings_follow_stations [OF sample_monitor_reachable [OF sample_reachable], of "sample_surroundings 0"
    "[CAtcStation_default\<lparr>m_isOnline := True\<rparr>]"] by (auto simp: CAtcStation_default_def)



text \<open>C23: A check that is not put off reports the callsigns that have been silent for the whole timeout, aircraft and
  stations, no others, and forgets exactly these.\<close>

lemma watchdog_reports_the_silent:
  assumes "clock_ok t0 a" "check_runs t0 a" "m_enabledWatchdog a"
  shows "let (aircraft, atc, a') = watchdogCheckTimeouts t0 a in
    (\<forall>cs. aircraft cs \<longleftrightarrow> (\<exists>t. m_aircraftCallsignTimestamps a cs = Some t \<and> m_timeoutAircraft a \<le> t0 - t))
    \<and> (\<forall>cs. atc cs \<longleftrightarrow> (\<exists>t. m_atcCallsignTimestamps a cs = Some t \<and> m_timeoutAtc a \<le> t0 - t))
    \<and> (\<forall>cs. m_aircraftCallsignTimestamps a' cs = (if aircraft cs then None else m_aircraftCallsignTimestamps a cs))
    \<and> (\<forall>cs. m_atcCallsignTimestamps a' cs = (if atc cs then None else m_atcCallsignTimestamps a cs))"
  using assms by (auto simp: check_enabled timed_out_def without_def split: option.splits)

lemma watchdog_reports_the_silent_witness:
  "fst (watchdogCheckTimeouts 15000 ((CAirspaceAnalyzer 7500)\<lparr>m_aircraftCallsignTimestamps := [''DLH1'' \<mapsto> 0, ''DLH2'' \<mapsto> 1]\<rparr>)) ''DLH1''"
proof -
  let ?a = "(CAirspaceAnalyzer 7500)\<lparr>m_aircraftCallsignTimestamps := [''DLH1'' \<mapsto> 0, ''DLH2'' \<mapsto> 1]\<rparr>"
  have "clock_ok 15000 ?a" "check_runs 15000 ?a" "m_enabledWatchdog ?a"
    by (simp_all add: CAirspaceAnalyzer_def clock_ok_def check_runs_def)
  from watchdog_reports_the_silent [OF this] show ?thesis by (simp add: case_prod_beta CAirspaceAnalyzer_def Let_def)
qed

text \<open>With the watchdog off a station that has been silent is reported all the same; and every station is put among
  the aircraft, so that the first check after switching it on again reports the station as an aircraft.\<close>

lemma disabled_watchdog_mixes_up:
  assumes "clock_ok t0 a" "check_runs t0 a" "\<not> m_enabledWatchdog a" "m_atcCallsignTimestamps a cs = Some t"
    and "m_timeoutAtc a \<ge> m_timeoutAircraft a + 1000" "0 \<le> t0"
  shows "fst (snd (watchdogCheckTimeouts t0 a)) cs = (t \<le> t0 - m_timeoutAtc a) \<and>
    (let a' = setEnabledWatchdog True (snd (snd (watchdogCheckTimeouts t0 a)))
     in fst (watchdogCheckTimeouts t0 a') cs)"
proof -
  define a1 where "a1 = snd (snd (watchdogCheckTimeouts t0 a))"
  have m: "m_aircraftCallsignTimestamps a1 cs = Some (t0 - m_timeoutAtc a + 1000)"
    using check_disabled(3) [OF assms(1-3), of cs] assms(4) by (simp add: a1_def)
  have s: "m_timeoutAircraft a1 = m_timeoutAircraft a" "m_timeoutAtc a1 = m_timeoutAtc a" "m_lastWatchdogCallMsSinceEpoch a1 = t0"
      "m_doNotRunAgainBefore a1 = - 1"
    using assms(1-3) by (simp_all add: a1_def watchdogCheckTimeouts_def clock_words check_runs_def Let_def)
  have "clock_ok t0 (setEnabledWatchdog True a1)" "check_runs t0 (setEnabledWatchdog True a1)"
    using assms(1,2,6) s by (simp_all add: clock_ok_def check_runs_def setEnabledWatchdog_def)
  then show ?thesis
    using assms m s check_disabled(2) [OF assms(1-3)] check_enabled [of t0 "setEnabledWatchdog True a1"]
    by (auto simp: timed_out_def setEnabledWatchdog_def a1_def [symmetric] Let_def)
qed

lemma disabled_watchdog_mixes_up_witness:
  "let a = (CAirspaceAnalyzer 7500)\<lparr>m_atcCallsignTimestamps := [''EDDF_TWR'' \<mapsto> 14000], m_enabledWatchdog := False\<rparr>;
       a' = setEnabledWatchdog True (snd (snd (watchdogCheckTimeouts 15000 a)))
   in fst (watchdogCheckTimeouts 15000 a') ''EDDF_TWR''"
proof -
  let ?a = "(CAirspaceAnalyzer 7500)\<lparr>m_atcCallsignTimestamps := [''EDDF_TWR'' \<mapsto> 14000], m_enabledWatchdog := False\<rparr>"
  have "clock_ok 15000 ?a" "check_runs 15000 ?a" "\<not> m_enabledWatchdog ?a" "m_atcCallsignTimestamps ?a ''EDDF_TWR'' = Some 14000"
    "m_timeoutAircraft ?a + 1000 \<le> m_timeoutAtc ?a"
    by (simp_all add: CAirspaceAnalyzer_def clock_ok_def check_runs_def)
  from disabled_watchdog_mixes_up [OF this] show ?thesis by (simp add: Let_def)
qed

text \<open>An aircraft whose matching was reported, which left the range (its readiness is not forgotten) and is back
  within twenty seconds is not reported again: neither its codes nor the verification do anything.\<close>

lemma returning_unmatched:
  assumes "wasMatchingSent (readiness_of cs m)" "0 \<le> ts (readiness_of cs m)" "ts (readiness_of cs m) \<le> clock env"
    "clock env - ts (readiness_of cs m) < MMMaxAgeThresholdMs" "\<not> isEmpty cs"
  shows "(\<exists>m'. sendReadyForModelMatching env cs ReceivedIcaoCodes m = Inr m' \<and> monitor_events m' = monitor_events m
      \<and> single_shots m' = single_shots m)
    \<and> (\<exists>m'. verifyReceivedIcaoData env cs m = Inr m' \<and> monitor_events m' = monitor_events m \<and> single_shots m' = single_shots m)"
proof -
  have age: "c_int64 (clock env - ts (readiness_of cs m)) = clock env - ts (readiness_of cs m)"
    using assms(2-4) by (intro c_int64_id) (simp add: int64_def MMMaxAgeThresholdMs_def MMCheckAgainMs_def)
  have "wasMatchingSent (addFlag t ReceivedIcaoCodes (readiness_of cs m))" for t
    using assms(1) by (simp add: wasMatchingSent_def addFlag_def flag_kept ReadyForMatchingSent_def)
  moreover have "getAgeMs (clock env) (addFlag (clock env) ReceivedIcaoCodes (readiness_of cs m)) < MMMaxAgeThresholdMs"
    using assms(2-4) age by (simp add: getAgeMs_def addFlag_def)
  ultimately show ?thesis using assms(1,5)
    by (auto simp: sendReadyForModelMatching_def addMatchingReadinessFlag_def verifyReceivedIcaoData_def Let_def)
qed

lemma returning_unmatched_witness:
  "\<exists>m' :: (unit, unit, unit) airspace_monitor. sendReadyForModelMatching (sample_surroundings 5000) (CCallsign ''DLH1'' Aircraft) ReceivedIcaoCodes
      ((sample_monitor (sample_client\<lparr>m_connectionStatus := Connected\<rparr>))\<lparr>m_readiness := [''DLH1'' \<mapsto> \<lparr>ts = 0, readyness = ReadyForMatchingSent\<rparr>]\<rparr>) = Inr m'
    \<and> monitor_events m' = []"
proof -
  let ?m = "(sample_monitor (sample_client\<lparr>m_connectionStatus := Connected\<rparr>))\<lparr>m_readiness := [''DLH1'' \<mapsto> \<lparr>ts = 0, readyness = ReadyForMatchingSent\<rparr>]\<rparr>"
  have "wasMatchingSent (readiness_of (CCallsign ''DLH1'' Aircraft) ?m)" "ts (readiness_of (CCallsign ''DLH1'' Aircraft) ?m) = 0" "monitor_events ?m = []"
    by (simp_all add: readiness_of_def wasMatchingSent_def testFlag_def ReadyForMatchingSent_def sample_monitor_def CAirspaceMonitor_def)
  with returning_unmatched [of "CCallsign ''DLH1'' Aircraft" ?m "sample_surroundings 5000"] show ?thesis
    by (auto simp: MMMaxAgeThresholdMs_def MMCheckAgainMs_def)
qed

text \<open>A position too far away takes the aircraft out of range with its situations, but nobody is told, and what
  else is known of the callsign stays.\<close>

lemma out_of_range_silent:
  assumes "isConnectedAndNotShuttingDown env m" "\<not> isEmpty (rs_callsign s)" "\<not> isCopilotAircraft env (rs_callsign s)"
    "\<not> isNullSituation env s" "0 \<le> m_maxDistanceNM m" "m_maxDistanceNMHysteresis m < distanceToOwn_NM env s"
  shows "\<exists>p. onAircraftUpdateReceived env s transponder m = Inr (m\<lparr>provider := p\<rparr>) \<and> \<not> is_in_range (rs_callsign s) p
    \<and> remoteAircraftSituations (rs_callsign s) p = [] \<and> provider_events p = provider_events (provider m)"
proof -
  have "is_in_range (rs_callsign s) (snd (removeAircraft (rs_callsign s) p)) = False" for p :: "('a, 'b) remote_aircraft_provider"
    by (simp add: is_in_range_def removeAircraft_def Let_def)
  then show ?thesis using assms
    by (simp add: onAircraftUpdateReceived_def handleMaxRange_def on_provider_def Let_def)
      (auto simp: removeAircraft_def remoteAircraftSituations_def at_key_def Let_def intro!: exI [of _ "snd (removeAircraft (rs_callsign s) (provider m))"])
qed

lemma out_of_range_silent_witness:
  "\<exists>p. onAircraftUpdateReceived (sample_surroundings 5) (sample_situation 5) (CTransponder 7000 ModeC)
      ((sample_monitor (sample_client\<lparr>m_connectionStatus := Connected\<rparr>))\<lparr>m_maxDistanceNMHysteresis := 138\<rparr>)
      = Inr ((sample_monitor (sample_client\<lparr>m_connectionStatus := Connected\<rparr>))\<lparr>m_maxDistanceNMHysteresis := 138, provider := p\<rparr>)
    \<and> provider_events p = []"
proof -
  let ?m = "(sample_monitor (sample_client\<lparr>m_connectionStatus := Connected\<rparr>))\<lparr>m_maxDistanceNMHysteresis := 138\<rparr>"
  have "isConnectedAndNotShuttingDown (sample_surroundings 5) ?m" "\<not> isEmpty (rs_callsign (sample_situation 5))"
    "\<not> isCopilotAircraft (sample_surroundings 5) (rs_callsign (sample_situation 5))" "\<not> isNullSituation (sample_surroundings 5) (sample_situation 5)"
    "0 \<le> m_maxDistanceNM ?m" "m_maxDistanceNMHysteresis ?m < distanceToOwn_NM (sample_surroundings 5) (sample_situation 5)"
    "provider_events (provider ?m) = []"
    by (simp_all add: isConnectedAndNotShuttingDown_def monitor_isConnected_def sample_monitor_def CAirspaceMonitor_def sample_situation_def
      isCopilotAircraft_def sample_surroundings_def CRemoteAircraftProvider_def enableReverseLookupMessages_def)
  with out_of_range_silent [OF this(1-6), of "CTransponder 7000 ModeC"] show ?thesis by auto
qed

text \<open>Starting all aircraft anew and then losing the connection: the timers that are left put the aircraft back
  in range of a monitor that is not connected.\<close>

lemma added_while_disconnected:
  assumes "\<not> monitor_isConnected m" "\<not> isShuttingDown env" "\<not> isEmpty (a_callsign ac)" "\<not> is_in_range (a_callsign ac) (provider m)"
  shows "\<exists>m'. fire env (ReInitialize ac True) m = Inr m' \<and> is_in_range (a_callsign ac) (provider m') \<and> \<not> monitor_isConnected m'
    \<and> m_situationsByCallsign (provider m') = m_situationsByCallsign (provider m)"
proof -
  have v: "\<not> connectedToVatsim m" using assms(1) by (simp add: connectedToVatsim_def)
  define a where "a = snd (setRendered False ac)"
  define m0 where "m0 = single_shot (clock env + MMVerifyMs) (VerifyIcao (a_callsign ac)) (m\<lparr>provider := snd (addNewAircraftInRange a (provider m))\<rparr>)"
  define m1 where "m1 = snd (case monitor_addNewAircraftInRange env ac m of Inr r \<Rightarrow> r)"
  have a: "\<not> is_in_range (a_callsign a) (provider m)" "a_callsign a = a_callsign ac" using assms(4) by (simp_all add: a_def)
  have "is_in_range (a_callsign ac) (provider m0)" "network m0 = network m" "m_situationsByCallsign (provider m0) = m_situationsByCallsign (provider m)"
    using a assms(3) by (simp_all add: m0_def addNewAircraftInRange_def is_in_range_def signal_def)
  moreover have "monitor_addNewAircraftInRange env ac m = Inr (True, m0) \<or>
      (\<exists>cg s. monitor_addNewAircraftInRange env ac m = Inr (True, on_provider (rememberCGFromDB cg (a_callsign ac) \<circ> rememberCGFromDB_model cg s) m0))"
    using assms(2,3) v a(1) by (auto simp: monitor_addNewAircraftInRange_def addNewAircraftInRange_def m0_def Let_def simp flip: a_def)
  ultimately have m1: "monitor_addNewAircraftInRange env ac m = Inr (True, m1)" "is_in_range (a_callsign ac) (provider m1)"
    "network m1 = network m" "m_situationsByCallsign (provider m1) = m_situationsByCallsign (provider m)"
    by (auto simp: m1_def on_provider_def rememberCGFromDB_def rememberCGFromDB_model_def is_in_range_def)
  have "\<not> isConnectedAndNotShuttingDown env (m1\<lparr>m_readiness := r\<rparr>)" for r
    using assms(1) m1(3) by (simp add: isConnectedAndNotShuttingDown_def monitor_isConnected_def)
  then show ?thesis using m1 assms(1) by (simp add: sendReadyForModelMatching_def monitor_isConnected_def)
qed

lemma added_while_disconnected_witness:
  "\<exists>m'. fire (sample_surroundings 5) (ReInitialize flying True) (sample_monitor sample_client) = Inr m' \<and> is_in_range (a_callsign flying) (provider m')"
proof -
  have "\<not> monitor_isConnected (sample_monitor sample_client)" "\<not> isEmpty (a_callsign flying)"
    "\<not> is_in_range (a_callsign flying) (provider (sample_monitor sample_client))"
    by (simp_all add: monitor_isConnected_def sample_monitor_def CAirspaceMonitor_def sample_defs flying_def is_in_range_def CRemoteAircraftProvider_def
      enableReverseLookupMessages_def)
  from added_while_disconnected [OF this(1) _ this(2,3), of "sample_surroundings 5"] show ?thesis by auto
qed

text \<open>Parts as RevB clients send them have no ground flag and are taken for parts of an aircraft in the air: from
  then on every position of the callsign, whatever its own flag, is marked as not on ground.\<close>

lemma revb_marks_airborne:
  assumes "monitor_reachable m" "\<not> isEmpty callsign" "remoteAircraftParts callsign (provider m) = []"
    and "0 \<le> clock env" "clock env < 2 ^ 62" "\<not> hasCapability FsdWithGroundFlag (getClientOrDefaultForCallsign callsign (m_clients m))"
    and "rs_callsign s = callsign" "m_onGroundDetails s = NotSetGroundDetails"
    and "d = m_timestampMSecsSinceEpoch s + m_timeOffsetMs s - (clock env + os)" "0 \<le> d" "d < 2 ^ 62"
    and "\<bar>clock env + os\<bar> < 2 ^ 62" "\<bar>m_timestampMSecsSinceEpoch s + m_timeOffsetMs s\<bar> < 2 ^ 62" "asString callsign \<noteq> []"
  shows "\<exists>m'. onRevBAircraftConfigReceived env callsign config os m = Inr m'
    \<and> m_onGround (withGroundDetails s m' s) = NotOnGround \<and> m_onGroundDetails (withGroundDetails s m' s) = InFromParts"
proof -
  from revb_result [of "clock env" config os] obtain parts where parts: "revb_parts (clock env) config os = Inr parts"
    "\<not> m_isOnGround parts" "m_timestampMSecsSinceEpoch parts = clock env" "m_timeOffsetMs parts = os" by blast
  from first_parts [of "provider m" callsign parts "prov_env env"] assms(2-5) parts(3) obtain p where
    p: "storeAircraftParts (prov_env env) callsign parts True (provider m) = Inr p" "remoteAircraftParts callsign p = [parts]"
    by (auto simp: remoteAircraftParts_def)
  define m' where "m' = on_clients (sendsParts callsign) (m\<lparr>provider := p\<rparr>)"
  have received: "onRevBAircraftConfigReceived env callsign config os m = Inr m'"
    using assms(2) parts(1) p(1) by (simp add: onRevBAircraftConfigReceived_def m'_def)
  have caps: "hasCapability FsdWithAircraftConfig (getClientOrDefaultForCallsign callsign (m_clients m'))"
    "\<not> hasCapability FsdWithGroundFlag (getClientOrDefaultForCallsign callsign (m_clients m'))"
    using assms(2,6,14) sends_caps [OF monitor_okD(2) [OF monitor_reachable_ok [OF assms(1)]]] by (auto simp: m'_def on_clients_def)
  have adj: "getAdjustedMSecsSinceEpoch parts = clock env + os" "getAdjustedTimeDifferenceMs s (clock env + os) = d"
    using assms(9-13) parts(3,4) by (auto simp: getAdjustedMSecsSinceEpoch_def getAdjustedTimeDifferenceMs_def int64_def abs_less_iff c_int64_id)
  then obtain b where "best_parts s None [parts] = Some (b, parts)"
    using best_of_one [of s parts] assms(10,11) by auto
  moreover have "best_parts (s\<lparr>m_onGroundDetails := InFromParts\<rparr>) None [parts] = best_parts s None [parts]"
    by (simp add: getAdjustedTimeDifferenceMs_def getAdjustedMSecsSinceEpoch_def Let_def)
  ultimately have "m_onGround (withGroundDetails s m' s) = NotOnGround \<and> m_onGroundDetails (withGroundDetails s m' s) = InFromParts"
    using caps assms(7,8) p(2) parts(2)
    by (simp add: withGroundDetails_def m'_def on_clients_def adjustGroundFlag_parts_def setOnGround_details_def setOnGround_def Let_def
      del: best_parts.simps)
  with received show ?thesis by blast
qed

lemma revb_marks_airborne_witness:
  "\<exists>m'. onRevBAircraftConfigReceived (sample_surroundings 1000) (CCallsign ''DLH1'' Aircraft) ''0'' 0 (sample_monitor sample_client) = Inr m'
    \<and> m_onGround (withGroundDetails ((sample_situation 2000)\<lparr>m_onGround := OnGround\<rparr>) m' ((sample_situation 2000)\<lparr>m_onGround := OnGround\<rparr>)) = NotOnGround"
proof -
  have "remoteAircraftParts (CCallsign ''DLH1'' Aircraft) (provider (sample_monitor sample_client)) = []"
    "\<not> hasCapability FsdWithGroundFlag (getClientOrDefaultForCallsign (CCallsign ''DLH1'' Aircraft) (m_clients (sample_monitor sample_client)))"
    by (simp_all add: sample_monitor_def CAirspaceMonitor_def remoteAircraftParts_def CRemoteAircraftProvider_def getClientOrDefaultForCallsign_def
      enableReverseLookupMessages_def CClient_default_def hasCapability_def testFlag_def FsdWithGroundFlag_def)
  from revb_marks_airborne [OF sample_monitor_reachable [OF sample_reachable] _ this(1) _ _ this(2),
      of "sample_surroundings 1000" "(sample_situation 2000)\<lparr>m_onGround := OnGround\<rparr>" 7000 0 "''0''"]
  show ?thesis by (auto simp: sample_situation_def)
qed

text \<open>What the monitor knows of the ground flag of a callsign, and what keeps it.\<close>

definition sends_ground_flag :: "CCallsign \<Rightarrow> ('a, 'b, 'au) airspace_monitor \<Rightarrow> bool" where
  "sends_ground_flag cs m \<longleftrightarrow> hasGndFlagCapability (getClientOrDefaultForCallsign cs (m_clients m))"

lemma no_flag_of_new [simp]: "\<not> hasGndFlagCapability (CClient_callsign cs ms)" "\<not> hasGndFlagCapability CClient_default"
  by (simp_all add: hasGndFlagCapability_def hasCapability_def testFlag_def FsdWithGroundFlag_def)

lemma new_client_keeps_flag:
  "hasGndFlagCapability (getClientOrDefaultForCallsign cs (snd (addNewClient (CClient_callsign cs' []) c)))
    = hasGndFlagCapability (getClientOrDefaultForCallsign cs c)"
  by (auto simp: addNewClient_def getClientOrDefaultForCallsign_def hasClientInfo_def CClient_callsign_def
    hasGndFlagCapability_def hasCapability_def testFlag_def FsdWithGroundFlag_def Let_def)

lemma plain_position_keeps_flag:
  assumes "onAircraftUpdateReceived env (received_situation env NotSetGroundDetails s) transponder m = Inr m'"
  shows "sends_ground_flag cs m' = sends_ground_flag cs m"
proof -
  have "m_clients m' = m_clients m \<or> (\<exists>cs. m_clients m' = snd (addNewClient (CClient_callsign cs []) (m_clients m)))"
    using assms
    by (auto simp: onAircraftUpdateReceived_def no_gnd_capability_from_positions try_provider_def and_then_eq_Inr case_prod_beta Let_def
      on_clients_def dest!: stored_clients add_clients split: if_splits)
  then show ?thesis using new_client_keeps_flag by (auto simp: sends_ground_flag_def)
qed

lemma between_keeps_flag:
  assumes "between_update env (received_situation env NotSetGroundDetails s) m = Inr m'"
  shows "sends_ground_flag cs m' = sends_ground_flag cs m"
  using assms
  by (auto simp: between_update_def sends_ground_flag_def no_gnd_capability_from_positions try_provider_def and_then_eq_Inr case_prod_beta Let_def
    on_clients_def dest!: stored_clients split: if_splits option.splits)

lemma ground_position_marks:
  assumes "monitor_ok m" "isConnectedAndNotShuttingDown env m" "hasClientInfo (sit_callsign s) (m_clients m)"
    "\<not> isCopilotAircraft env (sit_callsign s)" "sit_onGround s = Some True"
    "fst (handleMaxRange env (received_situation env InFromNetwork s) m)"
    and "onAircraftUpdateReceived env (received_situation env InFromNetwork s) transponder m = Inr m'"
  shows "sends_ground_flag (sit_callsign s) m'"
proof -
  let ?cs = "sit_callsign s"
  have e: "\<not> isEmpty ?cs" using assms(3) by (simp add: hasClientInfo_def)
  have range_m: "handleMaxRange env (received_situation env InFromNetwork s) m = (True, m)"
    using assms(6) by (auto simp: handleMaxRange_def Let_def split: if_splits)
  define c where "c = snd (autoAdjustCientGndCapability (received_situation env InFromNetwork s) (m_clients m))"
  obtain k where k: "m_clients m (asString ?cs) = Some k" using assms(3) by (auto simp: hasClientInfo_def)
  then have "client_isValid k" using monitor_okD(2) [OF assms(1)] by (auto simp: clients_ok_def client_isValid_def)
  then have flag: "hasGndFlagCapability (getClientOrDefaultForCallsign ?cs c)"
    using e k assms(5)
    by (auto simp: c_def autoAdjustCientGndCapability_def received_situation_def addClientGndCapability_def setClientGndCapability_def
      getClientOrDefaultForCallsign_def hasGndFlagCapability_def hasCapability_def addCapability_def testFlag_def FsdWithGroundFlag_def Let_def
      bit_simps)
  have "m_clients m' = c \<or> (\<exists>cs. m_clients m' = snd (addNewClient (CClient_callsign cs []) c))"
    using assms(7) range_m e assms(2,4)
    by (auto simp: onAircraftUpdateReceived_def try_provider_def and_then_eq_Inr case_prod_beta Let_def c_def [symmetric]
      on_clients_def dest!: stored_clients add_clients split: if_splits)
  then show ?thesis using flag new_client_keeps_flag by (auto simp: sends_ground_flag_def)
qed

lemma readiness_keeps_clients:
  assumes "sendReadyForModelMatching env cs rf m = Inr m'"
  shows "m_clients m' = m_clients m"
  using assms
  by (auto simp: sendReadyForModelMatching_def addMatchingReadinessFlag_def set_readiness_def single_shot_def report_def Let_def split: if_splits)

lemma codes_keep_clients:
  assumes "onIcaoCodesReceived env cs a b l m = Inr m'"
  shows "m_clients m' = m_clients m \<or> m_clients m' = markAsSwiftClient cs (m_clients m)"
  using assms
  by (auto simp: onIcaoCodesReceived_def addOrUpdateAircraftInRange_def reverseLookupModelWithFlightplanData_def try_provider_def
    and_then_eq_Inr case_prod_beta on_clients_def report_def Let_def dest!: readiness_keeps_clients split: if_splits)

lemma swift_keeps_flag:
  "hasGndFlagCapability (getClientOrDefaultForCallsign cs' (markAsSwiftClient cs c)) = hasGndFlagCapability (getClientOrDefaultForCallsign cs' c)"
  by (auto simp: markAsSwiftClient_def getClientOrDefaultForCallsign_def hasGndFlagCapability_def hasCapability_def split: option.split)

text \<open>The codes and parts that SIMDATA brings too.\<close>

lemma sim_data_keeps_flag:
  assumes "monitor_ok m" "\<not> isEmpty cs" "asString cs \<noteq> []" "sends_ground_flag cs m"
    and "m1 = m \<or> onIcaoCodesReceived env cs a b l m = Inr m1" "onAircraftConfigReceived env cs config os m1 = Inr m2"
  shows "sends_ground_flag cs m2"
proof -
  have m1: "m_clients m1 = m_clients m \<or> m_clients m1 = markAsSwiftClient cs (m_clients m)"
    using assms(5) codes_keep_clients by blast
  then have "sends_ground_flag cs m1" using assms(4) swift_keeps_flag by (auto simp: sends_ground_flag_def)
  moreover have "clients_ok (m_clients m1)"
    using m1 monitor_okD(2) [OF assms(1)] clients_ops_ok(6) [OF monitor_okD(2) [OF assms(1)]] by auto
  moreover have "m_clients m2 = sendsParts cs (m_clients m1)"
    using assms(2,6) by (auto simp: onAircraftConfigReceived_def and_then_eq_Inr on_clients_def)
  ultimately show ?thesis using sends_caps(2) [of "m_clients m1" cs] assms(2,3)
    by (simp add: sends_ground_flag_def hasGndFlagCapability_def)
qed

text \<open>C35: The monitor is meant to learn from a position on the ground that the client sends its ground flag. From EuroScope's
  simulator data it does: the known client of a position within range is marked. From the positions pilots
  send it never does: what it knows of any callsign's ground flag is the same before and after an ordinary, interim or visual
  position.\<close>

lemma ground_flag_learned:
  assumes "monitor_ok m" "surroundings_ok env" "isConnectedAndNotShuttingDown env m" "sane_times s"
    and "hasClientInfo (sit_callsign s) (m_clients m)" "\<not> isCopilotAircraft env (sit_callsign s)" "sit_onGround s = Some True"
    and "fst (handleMaxRange env (received_situation env InFromNetwork s) m)" "asString (sit_callsign s) \<noteq> []"
  shows "(\<exists>m'. onAircraftUpdateReceived env (received_situation env InFromNetwork s) (CTransponder 2000 ModeC) m = Inr m'
        \<and> sends_ground_flag (sit_callsign s) m')
    \<and> (\<forall>parts os aircraft livery m'. on_signal env (euroscopeSimDataUpdatedReceived s parts os aircraft livery) m = Inr m'
        \<longrightarrow> sends_ground_flag (sit_callsign s) m')
    \<and> (\<forall>e s' transponder m' cs. e \<in> {pilotDataUpdateReceived s' transponder, interimPilotDataUpdatedReceived s', visualPilotDataUpdateReceived s'}
        \<and> on_signal env e m = Inr m' \<longrightarrow> sends_ground_flag cs m' = sends_ground_flag cs m)"
proof (intro conjI allI impI)
  let ?cs = "sit_callsign s"
  have e: "\<not> isEmpty ?cs" using assms(5) by (simp add: hasClientInfo_def)
  have "sane_times (received_situation env InFromNetwork s)" using assms(4) by simp
  then have sp: "spreadable (received_situation env InFromNetwork s)" by (rule sane_spreadable)
  obtain m1 where m1: "onAircraftUpdateReceived env (received_situation env InFromNetwork s) (CTransponder 2000 ModeC) m = Inr m1"
    using update_succeeds [OF assms(1,2) sp, of "CTransponder 2000 ModeC"] e by (auto simp: succeeds_def)
  have g: "sends_ground_flag ?cs m1" by (rule ground_position_marks [OF assms(1,3,5-8) m1])
  then show "\<exists>m'. onAircraftUpdateReceived env (received_situation env InFromNetwork s) (CTransponder 2000 ModeC) m = Inr m'
      \<and> sends_ground_flag ?cs m'" using m1 by blast
  show "sends_ground_flag ?cs m'"
    if "on_signal env (euroscopeSimDataUpdatedReceived s parts os aircraft livery) m = Inr m'" for parts os aircraft livery m'
  proof -
    have "monitor_ok m1" using all_okD [OF ok_update [OF assms(1,2) sp] m1] by simp
    note keep = sim_data_keeps_flag [OF this e assms(9) g]
    from that m1 show ?thesis
      by (auto simp: onAircraftSimDataUpdateReceived_def and_then_eq_Inr Let_def split: if_splits intro: keep)
  qed
next
  fix e s' transponder m' cs
  assume "e \<in> {pilotDataUpdateReceived s' transponder, interimPilotDataUpdatedReceived s', visualPilotDataUpdateReceived s'}
    \<and> on_signal env e m = Inr m'"
  then show "sends_ground_flag cs m' = sends_ground_flag cs m"
    by (auto dest: plain_position_keeps_flag between_keeps_flag
      simp: onAircraftInterimUpdateReceived_def onAircraftVisualUpdateReceived_def)
qed

lemma ground_flag_learned_witness:
  "\<exists>(m :: (unit, unit, unit) airspace_monitor) m'. onAircraftUpdateReceived (sample_surroundings 1000)
      (received_situation (sample_surroundings 1000) InFromNetwork (sample_position\<lparr>sit_onGround := Some True\<rparr>)) (CTransponder 2000 ModeC) m = Inr m'
    \<and> \<not> sends_ground_flag (CCallsign ''DLH1'' Aircraft) m \<and> sends_ground_flag (CCallsign ''DLH1'' Aircraft) m'"
proof -
  let ?env = "sample_surroundings 1000" and ?p = "sample_position\<lparr>sit_onGround := Some True\<rparr>" and ?cs = "CCallsign ''DLH1'' Aircraft"
  from connected_monitor obtain m0 :: "(unit, unit, unit) airspace_monitor" where m0: "monitor_reachable m0" "monitor_isConnected m0"
    "m_maxDistanceNM m0 < 0" by blast
  define m where "m = on_clients (\<lambda>cs. snd (setOtherClient (CClient_callsign ?cs []) cs)) m0"
  have ok: "monitor_ok m"
    unfolding m_def by (intro ok_on_clients monitor_reachable_ok [OF m0(1)] clients_ops_ok)
  have c: "hasClientInfo ?cs (m_clients m)" "\<not> sends_ground_flag ?cs m"
    by (simp_all add: m_def on_clients_def setOtherClient_def hasClientInfo_def sends_ground_flag_def getClientOrDefaultForCallsign_def
      CClient_callsign_def hasGndFlagCapability_def hasCapability_def testFlag_def FsdWithGroundFlag_def CClient_default_def)
  have cs: "sit_callsign ?p = ?cs" by (simp add: sample_position_def)
  have "isConnectedAndNotShuttingDown ?env m" "sane_times ?p" "\<not> isCopilotAircraft ?env ?cs" "sit_onGround ?p = Some True"
    "fst (handleMaxRange ?env (received_situation ?env InFromNetwork ?p) m)"
    using m0(2,3) by (simp_all add: m_def on_clients_def isConnectedAndNotShuttingDown_def monitor_isConnected_def sane_times_def
      sample_position_def c_positionTimeOffsetMsec_def isCopilotAircraft_def sample_surroundings_def handleMaxRange_def)
  with ground_flag_learned [OF ok sample_surroundings_ok [of 1000], of ?p] c cs dlh1 show ?thesis by auto
qed

text \<open>C6: The livery string a swift client makes of the ids of its model gives the same ids at the receiver, and none
  where none were put in. The ids are non-negative 32-bit numbers.\<close>

lemma livery_string_restored:
  assumes "id_ok (ids_model ids)" "id_ok (ids_livery ids)" "id_ok (ids_aircraft ids)"
  shows "parseNetworkLiveryString (getSwiftLiveryString aircraftIcao livery model ids)
    = \<lparr>ids_model = (if model then ids_model ids else None), ids_livery = (if livery then ids_livery ids else None),
       ids_aircraft = (if aircraftIcao then ids_aircraft ids else None)\<rparr>"
proof -
  define key where "key wanted c i = (case i of Some n \<Rightarrow> if wanted then c # q_number n else [] | None \<Rightarrow> [])"
    for wanted :: bool and c :: char and i :: "int option"
  define l where "l = key livery (CHR ''l'') (ids_livery ids) @ key aircraftIcao (CHR ''a'') (ids_aircraft ids)
    @ key model (CHR ''m'') (ids_model ids)"
  have lower: "q_toLower l = l"
    using assms digits_of_number by (auto simp: l_def key_def q_toLower_def id_ok_def to_lower_def intro!: map_idI split: option.splits)
  have one: "parse_ids (key b c i @ rest) r = parse_ids rest (case i of Some n \<Rightarrow> if b then set_id c n r else r | None \<Rightarrow> r)"
    if "id_ok i" "c = CHR ''m'' \<or> c = CHR ''a'' \<or> c = CHR ''l''" "rest = [] \<or> \<not> is_digit (hd rest)" for b c i r rest
    using that parse_one_id [of _ c rest r] by (auto simp: key_def id_ok_def split: option.split)
  have nd: "key b c i @ rest = [] \<or> \<not> is_digit (hd (key b c i @ rest))"
    if "rest = [] \<or> \<not> is_digit (hd rest)" "\<not> is_digit c" for b c i rest
    using that by (auto simp: key_def split: option.split)
  have letters: "\<not> is_digit (CHR ''l'')" "\<not> is_digit (CHR ''a'')" "\<not> is_digit (CHR ''m'')" by (simp_all add: is_digit_def)
  have nd2: "key b c i = [] \<or> \<not> is_digit (hd (key b c i))" if "\<not> is_digit c" for b c i
    using nd [of "[]"] that by auto
  define result where "result = \<lparr>ids_model = (if model then ids_model ids else None), ids_livery = (if livery then ids_livery ids else None),
       ids_aircraft = (if aircraftIcao then ids_aircraft ids else None)\<rparr>"
  have parsed: "parse_ids l DBTripleIds_none = result"
    unfolding l_def using assms one [where rest = "[]"] nd nd2 letters
    by (simp add: one DBTripleIds_none_def set_id_def result_def split: option.split)
  have string: "getSwiftLiveryString aircraftIcao livery model ids = (if l = [] then [] else liveryStringPrefix @ l)"
  proof (cases "\<not> aircraftIcao \<and> \<not> livery \<and> \<not> model")
    case True
    then have "l = []" by (simp add: l_def key_def split: option.split)
    then show ?thesis using True by (simp add: getSwiftLiveryString_def)
  next
    case False
    then show ?thesis unfolding getSwiftLiveryString_def Let_def key_def [symmetric] l_def [symmetric] by (simp only: if_False)
  qed
  show ?thesis unfolding result_def [symmetric]
  proof (cases "l = []")
    case True
    then show "parseNetworkLiveryString (getSwiftLiveryString aircraftIcao livery model ids) = result"
      using parsed by (simp add: string parseNetworkLiveryString_def isSwiftLiveryString_def)
  next
    case False
    then have "isSwiftLiveryString (liveryStringPrefix @ l)" by (simp add: isSwiftLiveryString_def q_eq_nocase_def)
    then show "parseNetworkLiveryString (getSwiftLiveryString aircraftIcao livery model ids) = result"
      using parsed lower False by (simp add: string parseNetworkLiveryString_def)
  qed
qed

lemma livery_string_restored_witness:
  "parseNetworkLiveryString (getSwiftLiveryString True True True \<lparr>ids_model = Some 22, ids_livery = Some 33, ids_aircraft = Some 11\<rparr>)
    = \<lparr>ids_model = Some 22, ids_livery = Some 33, ids_aircraft = Some 11\<rparr>"
  using livery_string_restored [of "\<lparr>ids_model = Some 22, ids_livery = Some 33, ids_aircraft = Some 11\<rparr>" True True True]
  by (simp add: id_ok_def int32_def)

text \<open>The queues of callsigns to be asked again run dry: after as many ticks of the fast timer as they are long
  together both are empty.\<close>

lemma ticks_drain:
  assumes "\<forall>env\<in>set envs. isConnectedAndNotShuttingDown env m" "\<not> m_unitTestMode (network m)"
    "length (m_queryAtis m) + length (m_queryPilot m) \<le> length envs"
  shows "m_queryAtis (fold fastProcessing envs m) = [] \<and> m_queryPilot (fold fastProcessing envs m) = []"
  using assms
proof (induction envs arbitrary: m)
  case (Cons env envs)
  have c: "isConnectedAndNotShuttingDown env m" using Cons.prems(1) by simp
  show ?case using Cons.prems fast_tick [OF c] fast_tick_connection [OF Cons.prems(2)] by (simp add: Cons.IH)
qed simp

lemma ticks_drain_witness:
  "m_queryPilot (fold fastProcessing [sample_surroundings 50, sample_surroundings 100]
    ((sample_monitor (sample_client\<lparr>m_connectionStatus := Connected\<rparr>))\<lparr>m_queryPilot := [CCallsign ''DLH1'' Aircraft, CCallsign ''DLH2'' Aircraft]\<rparr>)) = []"
  using ticks_drain [of "[sample_surroundings 50, sample_surroundings 100]"
    "(sample_monitor (sample_client\<lparr>m_connectionStatus := Connected\<rparr>))\<lparr>m_queryPilot := [CCallsign ''DLH1'' Aircraft, CCallsign ''DLH2'' Aircraft]\<rparr>"]
  by (simp add: isConnectedAndNotShuttingDown_def monitor_isConnected_def sample_monitor_def CAirspaceMonitor_def sample_defs)

end
