(* ===== verification/VoiceDelays.thy ===== *)
theory VoiceDelays
  imports Prelude
begin

section \<open>Delays and buffers of received voices\<close>

text \<open>
  \<open>CallsignDelayCache\<close> (\<open>src/src/blackcore/afv/audio/callsigndelaycache.cpp\<close>) keeps, for each callsign heard,
  how many milliseconds its voice is held back: more after the buffer ran empty, less after a row of
  transmissions without that. \<open>CBufferedWaveProvider\<close> (\<open>src/src/blacksound/sampleprovider/\<close>) is the
  buffer itself; its samples have an arbitrary type.
\<close>

record delay_cache =
  m_delayCache :: "string \<rightharpoonup> int"
  successfulTransmissionsCache :: "string \<rightharpoonup> int"

definition delay_cache_empty :: delay_cache where
  "delay_cache_empty = \<lparr>m_delayCache = Map.empty, successfulTransmissionsCache = Map.empty\<rparr>"

definition delayDefault :: int where "delayDefault = 60"
definition delayMin :: int where "delayMin = 40"
definition delayIncrement :: int where "delayIncrement = 20"
definition delayMax :: int where "delayMax = 300"

lemmas delay_defs = delayDefault_def delayMin_def delayIncrement_def delayMax_def

definition delay_initialise :: "string \<Rightarrow> delay_cache \<Rightarrow> delay_cache" where
  "delay_initialise callsign c =
     (let c = (if m_delayCache c callsign = None then c\<lparr>m_delayCache := (m_delayCache c)(callsign \<mapsto> delayDefault)\<rparr> else c)
      in if successfulTransmissionsCache c callsign = None
         then c\<lparr>successfulTransmissionsCache := (successfulTransmissionsCache c)(callsign \<mapsto> 0)\<rparr> else c)"

text \<open>\<open>operator[]\<close> of a hash that is not constant inserts the default, 0, for a key that is not there.\<close>

definition delay_get :: "string \<Rightarrow> delay_cache \<Rightarrow> int \<times> delay_cache" where
  "delay_get callsign c =
     (case m_delayCache c callsign of
        Some d \<Rightarrow> (d, c)
      | None \<Rightarrow> (0, c\<lparr>m_delayCache := (m_delayCache c)(callsign \<mapsto> 0)\<rparr>))"

definition increaseDelayMs :: "string \<Rightarrow> delay_cache \<Rightarrow> delay_cache" where
  "increaseDelayMs callsign c =
     (case m_delayCache c callsign of
        None \<Rightarrow> c
      | Some d \<Rightarrow> let d = c_int (d + delayIncrement)
                  in c\<lparr>m_delayCache := (m_delayCache c)(callsign \<mapsto> if d > delayMax then delayMax else d)\<rparr>)"

definition decreaseDelayMs :: "string \<Rightarrow> delay_cache \<Rightarrow> delay_cache" where
  "decreaseDelayMs callsign c =
     (case m_delayCache c callsign of
        None \<Rightarrow> c
      | Some d \<Rightarrow> let d = c_int (d - delayIncrement)
                  in c\<lparr>m_delayCache := (m_delayCache c)(callsign \<mapsto> if d < delayMin then delayMin else d)\<rparr>)"

definition delay_underflow :: "string \<Rightarrow> delay_cache \<Rightarrow> delay_cache" where
  "delay_underflow callsign c =
     (if successfulTransmissionsCache c callsign = None then c
      else increaseDelayMs callsign (c\<lparr>successfulTransmissionsCache := (successfulTransmissionsCache c)(callsign \<mapsto> 0)\<rparr>))"

definition delay_success :: "string \<Rightarrow> delay_cache \<Rightarrow> delay_cache" where
  "delay_success callsign c =
     (case successfulTransmissionsCache c callsign of
        None \<Rightarrow> c
      | Some n \<Rightarrow>
          let n = c_int (n + 1); c = c\<lparr>successfulTransmissionsCache := (successfulTransmissionsCache c)(callsign \<mapsto> n)\<rparr> in
          if n > 5
          then let c = decreaseDelayMs callsign c
               in c\<lparr>successfulTransmissionsCache := (successfulTransmissionsCache c)(callsign \<mapsto> 0)\<rparr>
          else c)"

subsection \<open>What the cache keeps to\<close>

definition delays_ok :: "delay_cache \<Rightarrow> bool" where
  "delays_ok c \<longleftrightarrow> (\<forall>cs d. m_delayCache c cs = Some d \<longrightarrow> delayMin \<le> d \<and> d \<le> delayMax \<and> 20 dvd d)
     \<and> (\<forall>cs n. successfulTransmissionsCache c cs = Some n \<longrightarrow> 0 \<le> n \<and> n \<le> 5)
     \<and> (\<forall>cs. m_delayCache c cs = None \<longleftrightarrow> successfulTransmissionsCache c cs = None)"

lemma delays_okD:
  assumes "delays_ok c"
  shows "m_delayCache c cs = Some d \<Longrightarrow> delayMin \<le> d \<and> d \<le> delayMax \<and> 20 dvd d"
    and "successfulTransmissionsCache c cs = Some n \<Longrightarrow> 0 \<le> n \<and> n \<le> 5"
    and "m_delayCache c cs = None \<longleftrightarrow> successfulTransmissionsCache c cs = None"
  using assms by (auto simp: delays_ok_def)

lemma ok_empty [simp]: "delays_ok delay_cache_empty"
  by (simp add: delays_ok_def delay_cache_empty_def)

lemma delays_ok_with_delay:
  assumes "delays_ok c" "m_delayCache c cs \<noteq> None" "delayMin \<le> d" "d \<le> delayMax" "20 dvd d" "0 \<le> n" "n \<le> 5"
    and "m_delayCache c' = (m_delayCache c)(cs \<mapsto> d)" "successfulTransmissionsCache c' = (successfulTransmissionsCache c)(cs \<mapsto> n)"
  shows "delays_ok c'"
  using assms by (auto simp: delays_ok_def)

lemma delays_ok_counted:
  assumes "delays_ok c" "m_delayCache c cs \<noteq> None" "0 \<le> n" "n \<le> 5"
  shows "delays_ok (c\<lparr>successfulTransmissionsCache := (successfulTransmissionsCache c)(cs \<mapsto> n)\<rparr>)"
  using assms by (auto simp: delays_ok_def)

lemma ok_initialise [simp]: "delays_ok c \<Longrightarrow> delays_ok (delay_initialise cs c)"
  using delays_okD(3) [of c cs]
  by (auto simp: delay_initialise_def delays_ok_def delay_defs Let_def)

lemma initialised: "delays_ok c \<Longrightarrow> \<exists>d. delay_get cs (delay_initialise cs c) = (d, delay_initialise cs c) \<and> delayMin \<le> d \<and> d \<le> delayMax"
  using ok_initialise [of c cs] delays_okD(1) [of "delay_initialise cs c" cs]
  by (auto simp: delay_get_def delay_initialise_def Let_def split: option.splits)

lemma ok_underflow [simp]:
  assumes "delays_ok c"
  shows "delays_ok (delay_underflow cs c)"
proof (cases "m_delayCache c cs")
  case None
  then show ?thesis using assms delays_okD(3) [OF assms, of cs] by (simp add: delay_underflow_def)
next
  case (Some d)
  then have d: "delayMin \<le> d" "d \<le> delayMax" "20 dvd d" using delays_okD(1) [OF assms] by blast+
  then have "c_int (d + 20) = d + 20" by (intro c_int_id) (simp add: int32_def delay_defs)
  moreover have "20 dvd (if d + 20 > 300 then 300 else d + 20)" using d(3) by simp
  ultimately show ?thesis using Some d delays_okD(3) [OF assms, of cs]
    by (intro delays_ok_with_delay [OF assms, of cs "if d + 20 > 300 then 300 else d + 20" 0])
      (auto simp: delay_underflow_def increaseDelayMs_def delay_defs Let_def)
qed

lemma ok_success [simp]:
  assumes "delays_ok c"
  shows "delays_ok (delay_success cs c)"
proof (cases "m_delayCache c cs")
  case None
  then show ?thesis using assms delays_okD(3) [OF assms, of cs] by (simp add: delay_success_def)
next
  case (Some d)
  then obtain n where n: "successfulTransmissionsCache c cs = Some n" using delays_okD(3) [OF assms, of cs] by fastforce
  have b: "delayMin \<le> d" "d \<le> delayMax" "20 dvd d" "0 \<le> n" "n \<le> 5"
    using delays_okD(1) [OF assms Some] delays_okD(2) [OF assms n] by blast+
  then have c: "c_int (d - 20) = d - 20" "c_int (n + 1) = n + 1" by (simp_all add: int32_def delay_defs)
  show ?thesis
  proof (cases "n + 1 > 5")
    case True
    have "20 dvd (if d - 20 < 40 then 40 else d - 20)" using b(3) by simp
    then show ?thesis using True Some n b c
      by (intro delays_ok_with_delay [OF assms, of cs "if d - 20 < 40 then 40 else d - 20" 0])
        (auto simp: delay_success_def decreaseDelayMs_def delay_defs Let_def)
  next
    case False
    then show ?thesis using delays_ok_counted [OF assms, of cs "n + 1"] Some n b c by (simp add: delay_success_def Let_def)
  qed
qed

text \<open>After ten underflows in a row the delay is the largest, after sixty-one good transmissions the smallest.\<close>

lemma underflow_raises:
  assumes "delays_ok c" "m_delayCache c cs = Some d"
  shows "m_delayCache ((delay_underflow cs ^^ k) c) cs = Some (min 300 (d + 20 * int k))"
proof (induction k)
  case 0
  then show ?case using assms delays_okD(1) [OF assms] by (simp add: delay_defs)
next
  case (Suc k)
  define c' where "c' = (delay_underflow cs ^^ k) c"
  have ok: "delays_ok c'" unfolding c'_def using assms(1) by (induction k) simp_all
  let ?e = "min 300 (d + 20 * int k)"
  have d: "m_delayCache c' cs = Some ?e" using Suc by (simp add: c'_def)
  have "0 \<le> ?e" using delays_okD(1) [OF assms] by (simp add: delay_defs)
  then have "c_int (?e + 20) = ?e + 20" by (intro c_int_id) (simp add: int32_def)
  then have "m_delayCache (delay_underflow cs c') cs = Some (min 300 (?e + 20))"
    using d delays_okD(3) [OF ok, of cs] by (auto simp: delay_underflow_def increaseDelayMs_def delay_defs Let_def)
  then show ?case by (simp add: c'_def min_def)
qed

subsection \<open>The buffer\<close>

record 'f wave_buffer =
  m_audioBuffer :: "'f list"
  m_maxBufferSize :: int

text \<open>Ten seconds in bytes: two bytes per sample of the one channel.\<close>

definition CBufferedWaveProvider :: "int \<Rightarrow> 'f wave_buffer" where
  "CBufferedWaveProvider sampleRate = \<lparr>m_audioBuffer = [], m_maxBufferSize = c_int (10 * sampleRate * 2)\<rparr>"

definition addSamples :: "'f list \<Rightarrow> 'f wave_buffer \<Rightarrow> fault + 'f wave_buffer" where
  "addSamples samples b =
     (let delta = c_int (int (length (m_audioBuffer b)) + int (length samples) - m_maxBufferSize b) in
      if delta > 0
      then (if int (length (m_audioBuffer b)) < delta then Inl AssertFailed
            else Inr (b\<lparr>m_audioBuffer := drop (nat delta) (m_audioBuffer b) @ samples\<rparr>))
      else Inr (b\<lparr>m_audioBuffer := m_audioBuffer b @ samples\<rparr>))"

definition wave_readSamples :: "nat \<Rightarrow> 'f wave_buffer \<Rightarrow> 'f list \<times> 'f wave_buffer" where
  "wave_readSamples count b =
     (let len = min count (length (m_audioBuffer b))
      in (take len (m_audioBuffer b), b\<lparr>m_audioBuffer := drop len (m_audioBuffer b)\<rparr>))"

definition getBufferedBytes :: "'f wave_buffer \<Rightarrow> nat" where
  "getBufferedBytes b = length (m_audioBuffer b)"

definition clearBuffer :: "'f wave_buffer \<Rightarrow> 'f wave_buffer" where
  "clearBuffer b = b\<lparr>m_audioBuffer := []\<rparr>"

definition buffer_ok :: "'f wave_buffer \<Rightarrow> bool" where
  "buffer_ok b \<longleftrightarrow> int (length (m_audioBuffer b)) \<le> m_maxBufferSize b \<and> int32 (m_maxBufferSize b)"

lemma addSamples_result:
  assumes "buffer_ok b" "int (length samples) \<le> m_maxBufferSize b"
  shows "addSamples samples b = Inr (b\<lparr>m_audioBuffer :=
      drop (length (m_audioBuffer b) + length samples - nat (m_maxBufferSize b)) (m_audioBuffer b) @ samples\<rparr>)"
proof -
  let ?d = "int (length (m_audioBuffer b)) + int (length samples) - m_maxBufferSize b"
  have "c_int ?d = ?d" using assms by (intro c_int_id) (auto simp: buffer_ok_def int32_def)
  moreover have "nat ?d = length (m_audioBuffer b) + length samples - nat (m_maxBufferSize b)" using assms(2) by linarith
  ultimately show ?thesis using assms by (simp add: addSamples_def buffer_ok_def Let_def)
qed

lemma buffer_addSamples:
  assumes "buffer_ok b" "int (length samples) \<le> m_maxBufferSize b"
  shows "\<exists>b'. addSamples samples b = Inr b' \<and> buffer_ok b' \<and> m_maxBufferSize b' = m_maxBufferSize b
    \<and> (samples \<noteq> [] \<longrightarrow> m_audioBuffer b' \<noteq> [])"
  using assms by (auto simp: addSamples_result [OF assms] buffer_ok_def)

end
