(* ===== verification/VoiceCrypto.thy ===== *)
theory VoiceCrypto
  imports QtText
begin

section \<open>The encrypted channel of the voice server\<close>

text \<open>
  \<open>src/src/blackcore/afv/crypto/\<close>: the channel with its keys and sequence numbers
  (\<open>cryptodtochannel.cpp\<close>), and how a voice message is packed into a datagram and taken out of it
  (\<open>cryptodtoserializer.h\<close>, \<open>.cpp\<close>). A \<open>QByteArray\<close> is a list of 8-bit words. The msgpack library
  and libsodium are not part of the sources: \<open>voice_library\<close> holds the functions the code calls.
\<close>

unbundle bit_operations_syntax

type_synonym bytes = "8 word list"

definition CryptoDtoMode_Undefined :: int where "CryptoDtoMode_Undefined = 0"
definition CryptoDtoMode_None :: int where "CryptoDtoMode_None = 1"
definition AEAD_ChaCha20Poly1305 :: int where "AEAD_ChaCha20Poly1305 = 2"

record CryptoDtoHeaderDto =
  ChannelTag :: string
  Sequence :: "64 word"
  Mode :: int

record CryptoDtoChannelConfigDto =
  cfg_channelTag :: string
  cfg_aeadReceiveKey :: bytes
  cfg_aeadTransmitKey :: bytes
  cfg_hmacKey :: bytes

text \<open>
  \<open>unpack_header\<close> gives nothing where the library throws; no caller catches. \<open>aead_decrypt\<close> gives
  nothing where the datagram was not made with the key.
\<close>

record voice_library =
  pack_header :: "CryptoDtoHeaderDto \<Rightarrow> bytes"
  unpack_header :: "bytes \<Rightarrow> CryptoDtoHeaderDto option"
  aead_encrypt :: "bytes \<Rightarrow> bytes \<Rightarrow> bytes \<Rightarrow> bytes \<Rightarrow> bytes option"
  aead_decrypt :: "bytes \<Rightarrow> bytes \<Rightarrow> bytes \<Rightarrow> bytes \<Rightarrow> bytes option"

definition aead_abytes :: nat where "aead_abytes = 16"

text \<open>What both libraries promise: what was packed is unpacked, what was encrypted is decrypted, sixteen bytes longer.\<close>

definition library_ok :: "voice_library \<Rightarrow> bool" where
  "library_ok lib \<longleftrightarrow> (\<forall>h. Mode h = AEAD_ChaCha20Poly1305 \<longrightarrow> unpack_header lib (pack_header lib h) = Some h)
     \<and> (\<forall>key nonce ad text. \<exists>c. aead_encrypt lib key nonce ad text = Some c \<and> length c = length text + aead_abytes
          \<and> aead_decrypt lib key nonce ad c = Some text)"

subsection \<open>The channel\<close>

record crypto_channel =
  m_aeadTransmitKey :: bytes
  m_aeadReceiveKey :: bytes
  m_transmitSequence :: "32 word"
  m_receiveSequenceHistory :: "32 word list"
  m_receiveSequenceHistoryDepth :: nat
  m_receiveSequenceSizeMaxSize :: int
  m_hmacKey :: bytes
  m_channelTag :: string
  m_LastTransmitUtc :: "int option"
  m_lastReceiveUtc :: "int option"

definition CCryptoDtoChannel :: "CryptoDtoChannelConfigDto \<Rightarrow> int \<Rightarrow> crypto_channel" where
  "CCryptoDtoChannel config receiveSequenceHistorySize =
     (let size = (if receiveSequenceHistorySize < 1 then 1 else receiveSequenceHistorySize)
      in \<lparr>m_aeadTransmitKey = cfg_aeadTransmitKey config, m_aeadReceiveKey = cfg_aeadReceiveKey config, m_transmitSequence = 0,
         m_receiveSequenceHistory = replicate (nat size) 0, m_receiveSequenceHistoryDepth = 0, m_receiveSequenceSizeMaxSize = size,
         m_hmacKey = cfg_hmacKey config, m_channelTag = cfg_channelTag config, m_LastTransmitUtc = None, m_lastReceiveUtc = None\<rparr>)"

definition getTransmitKey :: "int \<Rightarrow> crypto_channel \<Rightarrow> bytes" where
  "getTransmitKey mode ch = (if mode = AEAD_ChaCha20Poly1305 then m_aeadTransmitKey ch else [])"

definition getReceiveKey :: "int \<Rightarrow> crypto_channel \<Rightarrow> bytes" where
  "getReceiveKey mode ch = (if mode = AEAD_ChaCha20Poly1305 then m_aeadReceiveKey ch else [])"

definition getTransmitKey_sequence :: "int \<Rightarrow> int \<Rightarrow> crypto_channel \<Rightarrow> bytes \<times> 32 word \<times> crypto_channel" where
  "getTransmitKey_sequence t mode ch =
     (let sequenceToSend = m_transmitSequence ch;
          ch = ch\<lparr>m_transmitSequence := m_transmitSequence ch + 1, m_LastTransmitUtc := Some t\<rparr>
      in (getTransmitKey mode ch, sequenceToSend, ch))"

definition contains_sequence :: "32 word \<Rightarrow> crypto_channel \<Rightarrow> bool" where
  "contains_sequence sequence ch \<longleftrightarrow> sequence \<in> set (take (m_receiveSequenceHistoryDepth ch) (m_receiveSequenceHistory ch))"

text \<open>The loop of \<open>getMin\<close>: the value and the index found so far, and the index to look at.\<close>

fun min_loop :: "32 word list \<Rightarrow> nat \<Rightarrow> 32 word \<Rightarrow> nat option \<Rightarrow> 32 word \<times> nat option" where
  "min_loop [] index minValue minIndex = (minValue, minIndex)"
| "min_loop (x # xs) index minValue minIndex =
     (if x \<le> minValue then min_loop xs (index + 1) x (Some index) else min_loop xs (index + 1) minValue minIndex)"

definition getMin :: "crypto_channel \<Rightarrow> 32 word \<times> nat option" where
  "getMin ch = min_loop (take (m_receiveSequenceHistoryDepth ch) (m_receiveSequenceHistory ch)) 0 (- 1) None"

definition checkReceivedSequence :: "int \<Rightarrow> 32 word \<Rightarrow> crypto_channel \<Rightarrow> fault + bool \<times> crypto_channel" where
  "checkReceivedSequence t sequenceReceived ch =
     (if contains_sequence sequenceReceived ch then Inr (False, ch)
      else
        let depth = m_receiveSequenceHistoryDepth ch; history = m_receiveSequenceHistory ch in
        if int depth < m_receiveSequenceSizeMaxSize ch
        then (if length history \<le> depth then Inl (OutOfRange depth)
              else Inr (True, ch\<lparr>m_receiveSequenceHistory := history[depth := sequenceReceived],
                                 m_receiveSequenceHistoryDepth := depth + 1, m_lastReceiveUtc := Some t\<rparr>))
        else
          let (minValue, minIndex) = getMin ch in
          if sequenceReceived < minValue then Inr (False, ch)
          else (case minIndex of
                  None \<Rightarrow> Inl EmptyContainer
                | Some i \<Rightarrow> Inr (True, ch\<lparr>m_receiveSequenceHistory := history[i := sequenceReceived], m_lastReceiveUtc := Some t\<rparr>)))"

subsection \<open>Datagrams\<close>

text \<open>Integers are written in the byte order of the machine, least byte first.\<close>

definition le_bytes :: "nat \<Rightarrow> 'a::len word \<Rightarrow> bytes" where
  "le_bytes n w = map (\<lambda>i. ucast (drop_bit (8 * i) w)) [0..<n]"

fun read_u16 :: "bytes \<Rightarrow> (16 word \<times> bytes) option" where
  "read_u16 (b # c # rest) = Some (ucast b OR push_bit 8 (ucast c), rest)"
| "read_u16 _ = None"

definition nonce_of :: "64 word \<Rightarrow> bytes" where
  "nonce_of sequence = le_bytes 4 (0 :: 32 word) @ le_bytes 8 sequence"

definition length_bytes :: "bytes \<Rightarrow> bytes" where
  "length_bytes bs = le_bytes 2 (of_nat (length bs) :: 16 word)"

definition serialize_voice :: "voice_library \<Rightarrow> string \<Rightarrow> int \<Rightarrow> bytes \<Rightarrow> 32 word \<Rightarrow> bytes \<Rightarrow> bytes \<Rightarrow> bytes" where
  "serialize_voice lib channelTag mode transmitKey sequenceToBeSent dtoShortName dto =
     (let header = \<lparr>ChannelTag = channelTag, Sequence = ucast sequenceToBeSent, Mode = mode\<rparr>;
          headerBuffer = pack_header lib header in
      if mode = AEAD_ChaCha20Poly1305
      then
        let aePayload = length_bytes dtoShortName @ dtoShortName @ length_bytes dto @ dto;
            adPayload = length_bytes headerBuffer @ headerBuffer in
        case aead_encrypt lib transmitKey (nonce_of (Sequence header)) adPayload aePayload of
          None \<Rightarrow> []
        | Some aeadPayload \<Rightarrow> length_bytes headerBuffer @ headerBuffer @ aeadPayload
      else [])"

text \<open>The short name and the packed message of a \<open>dto\<close> come from msgpack.\<close>

definition serialize_on_channel ::
    "voice_library \<Rightarrow> int \<Rightarrow> int \<Rightarrow> bytes \<Rightarrow> bytes \<Rightarrow> crypto_channel \<Rightarrow> bytes \<times> crypto_channel" where
  "serialize_on_channel lib t mode dtoShortName dto ch =
     (let (transmitKey, sequenceToSend, ch) = getTransmitKey_sequence t mode ch
      in (serialize_voice lib (m_channelTag ch) mode transmitKey sequenceToSend dtoShortName dto, ch))"

text \<open>
  What taking a datagram apart may end in besides its result: the length fields have no initial value, so a
  datagram too short for them is taken apart with an indeterminate length; an exception of the
  library ends the program; and the buffer the library decrypts into has 500 bytes, while it may write as many as the
  cipher text has, less sixteen.
\<close>

datatype voice_fault = LengthUninitialised | UnpackThrows | BufferTooSmall

record Deserializer =
  m_header :: CryptoDtoHeaderDto
  m_dtoNameBuffer :: bytes
  m_dataBuffer :: bytes
  m_verified :: bool

definition decrypted_size :: nat where "decrypted_size = 500"

definition deserialize :: "voice_library \<Rightarrow> bool \<Rightarrow> bytes \<Rightarrow> crypto_channel \<Rightarrow> voice_fault + Deserializer" where
  "deserialize lib loopback bytes ch =
     (case read_u16 bytes of
        None \<Rightarrow> Inl LengthUninitialised
      | Some (headerLength, rest) \<Rightarrow>
          case unpack_header lib (take (unat headerLength) rest) of
            None \<Rightarrow> Inl UnpackThrows
          | Some header \<Rightarrow>
              let unverified = \<lparr>m_header = header, m_dtoNameBuffer = [], m_dataBuffer = [], m_verified = False\<rparr> in
              if Mode header = AEAD_ChaCha20Poly1305
              then
                let aePayload = drop (unat headerLength) rest;
                    ad = take (2 + unat headerLength) bytes;
                    key = (if loopback then getTransmitKey AEAD_ChaCha20Poly1305 ch else getReceiveKey AEAD_ChaCha20Poly1305 ch) in
                if decrypted_size + aead_abytes < length aePayload then Inl BufferTooSmall
                else case aead_decrypt lib key (nonce_of (Sequence header)) ad aePayload of
                  None \<Rightarrow> Inr unverified
                | Some decryptedPayload \<Rightarrow>
                    case read_u16 decryptedPayload of
                      None \<Rightarrow> Inl LengthUninitialised
                    | Some (nameLength, rest) \<Rightarrow>
                        case read_u16 (drop (unat nameLength) rest) of
                          None \<Rightarrow> Inl LengthUninitialised
                        | Some (dataLength, rest2) \<Rightarrow>
                            Inr \<lparr>m_header = header, m_dtoNameBuffer = take (unat nameLength) rest,
                               m_dataBuffer = take (unat dataLength) rest2, m_verified = True\<rparr>
              else Inr unverified)"

text \<open>Reading the message: an empty one where nothing was verified or the name is another, and otherwise what msgpack makes of the data.\<close>

definition getDto :: "bytes \<Rightarrow> bytes \<Rightarrow> (bytes \<Rightarrow> 'd option) \<Rightarrow> 'd \<Rightarrow> Deserializer \<Rightarrow> voice_fault + 'd" where
  "getDto dtoName dtoShortName unpack nothing d =
     (if \<not> m_verified d then Inr nothing
      else if m_dtoNameBuffer d = dtoName \<or> m_dtoNameBuffer d = dtoShortName
      then (case unpack (m_dataBuffer d) of None \<Rightarrow> Inl UnpackThrows | Some dto \<Rightarrow> Inr dto)
      else Inr nothing)"

subsection \<open>Lengths and nonces\<close>

lemma length_le_bytes [simp]: "length (le_bytes n w) = n"
  by (simp add: le_bytes_def)

lemma read_length [simp]:
  "read_u16 (length_bytes bs @ rest) = Some (of_nat (length bs), rest)"
proof -
  have "ucast (ucast w :: 8 word) OR push_bit 8 (ucast (ucast (drop_bit 8 w) :: 8 word)) = w" for w :: "16 word"
    by (rule bit_word_eqI) (auto simp: bit_or_iff bit_ucast_iff bit_push_bit_iff bit_drop_bit_eq)
  moreover have "[0..<2] = [0, 1 :: nat]" by (simp add: upt_rec)
  ultimately show ?thesis by (simp add: length_bytes_def le_bytes_def)
qed

lemma le_bytes_inj:
  fixes v w :: "'a::len word"
  assumes "le_bytes n v = le_bytes n w" "LENGTH('a) \<le> 8 * n"
  shows "v = w"
proof (rule bit_word_eqI)
  fix i assume i: "i < LENGTH('a)"
  then have "i div 8 < n" using assms(2) by (simp add: less_mult_imp_div_less mult.commute)
  then have "(ucast (drop_bit (8 * (i div 8)) v) :: 8 word) = ucast (drop_bit (8 * (i div 8)) w)"
    using arg_cong [OF assms(1), of "\<lambda>l. l ! (i div 8)"] by (simp add: le_bytes_def)
  then have "bit (ucast (drop_bit (8 * (i div 8)) v) :: 8 word) (i mod 8) = bit (ucast (drop_bit (8 * (i div 8)) w) :: 8 word) (i mod 8)"
    by simp
  then show "bit v i = bit w i" by (simp add: bit_ucast_iff bit_drop_bit_eq)
qed

lemma nonce_inj: "nonce_of v = nonce_of w \<longleftrightarrow> v = w"
  using le_bytes_inj [of 8 v w] by (auto simp: nonce_of_def)

text \<open>What is packed comes out again.\<close>

lemma deserialize_serialize:
  assumes "library_ok lib" "length name < 2 ^ 16" "length dto < 2 ^ 16" "length name + length dto + 4 \<le> decrypted_size"
    and "length (pack_header lib \<lparr>ChannelTag = channel, Sequence = ucast n, Mode = AEAD_ChaCha20Poly1305\<rparr>) < 2 ^ 16"
    and "key = (if loopback then m_aeadTransmitKey ch else m_aeadReceiveKey ch)"
  shows "deserialize lib loopback (serialize_voice lib channel AEAD_ChaCha20Poly1305 key n name dto) ch
    = Inr \<lparr>m_header = \<lparr>ChannelTag = channel, Sequence = ucast n, Mode = AEAD_ChaCha20Poly1305\<rparr>,
        m_dtoNameBuffer = name, m_dataBuffer = dto, m_verified = True\<rparr>"
proof -
  define h where "h = \<lparr>ChannelTag = channel, Sequence = ucast n :: 64 word, Mode = AEAD_ChaCha20Poly1305\<rparr>"
  define hb where "hb = pack_header lib h"
  have hb: "length hb < 2 ^ 16" using assms(5) by (simp add: hb_def h_def)
  have nat16: "unat (of_nat (length l) :: 16 word) = length l" if "length l < 2 ^ 16" for l :: bytes
    using that by (simp add: unat_of_nat)
  define p where "p = length_bytes name @ name @ length_bytes dto @ dto"
  have two: "length (length_bytes l) = 2" for l by (simp add: length_bytes_def)
  obtain c where c: "aead_encrypt lib key (nonce_of (Sequence h)) (length_bytes hb @ hb) p = Some c"
      "length c = length p + aead_abytes" "aead_decrypt lib key (nonce_of (Sequence h)) (length_bytes hb @ hb) c = Some p"
    using assms(1) unfolding library_ok_def by blast
  have "serialize_voice lib channel AEAD_ChaCha20Poly1305 key n name dto = length_bytes hb @ hb @ c"
    using c(1) by (simp add: serialize_voice_def h_def [symmetric] hb_def [symmetric] p_def [symmetric] Let_def)
  moreover have "unpack_header lib hb = Some h" using assms(1) by (simp add: library_ok_def hb_def h_def)
  moreover have "length p \<le> decrypted_size" using assms(4) by (simp add: p_def two)
  moreover have "take (2 + length hb) (length_bytes hb @ hb @ c) = length_bytes hb @ hb" by (simp add: two)
  moreover have "key = (if loopback then getTransmitKey AEAD_ChaCha20Poly1305 ch else getReceiveKey AEAD_ChaCha20Poly1305 ch)"
    using assms(6) by (simp add: getTransmitKey_def getReceiveKey_def)
  ultimately show ?thesis using c(2,3) nat16 [OF hb] nat16 [OF assms(2)] nat16 [OF assms(3)]
    by (simp add: deserialize_def h_def [symmetric] p_def Let_def) (simp add: h_def)
qed

subsection \<open>The window of sequence numbers\<close>

text \<open>The numbers remembered.\<close>

definition window :: "crypto_channel \<Rightarrow> 32 word list" where
  "window ch = take (m_receiveSequenceHistoryDepth ch) (m_receiveSequenceHistory ch)"

definition window_ok :: "crypto_channel \<Rightarrow> bool" where
  "window_ok ch \<longleftrightarrow> 1 \<le> m_receiveSequenceSizeMaxSize ch \<and> length (m_receiveSequenceHistory ch) = nat (m_receiveSequenceSizeMaxSize ch)
     \<and> m_receiveSequenceHistoryDepth ch \<le> length (m_receiveSequenceHistory ch) \<and> distinct (window ch)"

text \<open>A number that was accepted is still remembered, or smaller than all that are, and then the window is full.\<close>

definition covers :: "32 word set \<Rightarrow> crypto_channel \<Rightarrow> bool" where
  "covers accepted ch \<longleftrightarrow> set (window ch) \<subseteq> accepted
     \<and> (\<forall>n\<in>accepted - set (window ch). length (window ch) = length (m_receiveSequenceHistory ch) \<and> (\<forall>m\<in>set (window ch). n < m))"

lemma min_loop_result:
  "min_loop xs i v mi = (w, j) \<Longrightarrow> w \<le> v \<and> (\<forall>x\<in>set xs. w \<le> x)
     \<and> (j = mi \<and> w = v \<or> (\<exists>k. j = Some (i + k) \<and> k < length xs \<and> xs ! k = w))"
proof (induction xs arbitrary: i v mi)
  case (Cons x xs)
  show ?case
  proof (cases "x \<le> v")
    case True
    then have "min_loop xs (i + 1) x (Some i) = (w, j)" using Cons.prems by simp
    from Cons.IH [OF this] True show ?thesis by fastforce
  next
    case False
    then have "min_loop xs (i + 1) v mi = (w, j)" using Cons.prems by simp
    from Cons.IH [OF this] False show ?thesis by fastforce
  qed
qed simp

lemma min_loop_some: "xs \<noteq> [] \<Longrightarrow> snd (min_loop xs i (- 1) mi) \<noteq> None"
proof -
  have *: "snd (min_loop ys j v (Some k)) \<noteq> None" for ys j v k by (induction ys arbitrary: j v k) auto
  show "xs \<noteq> [] \<Longrightarrow> ?thesis" using * by (cases xs) auto
qed

lemma getMin_result:
  assumes "window ch \<noteq> []"
  obtains i where "getMin ch = (window ch ! i, Some i)" "i < length (window ch)" "\<forall>n\<in>set (window ch). window ch ! i \<le> n"
proof -
  obtain w j where r: "getMin ch = (w, j)" by fastforce
  then have "min_loop (window ch) 0 (- 1) None = (w, j)" by (simp add: getMin_def window_def)
  from min_loop_result [OF this] min_loop_some [OF assms, of 0 None] this show thesis using that r by auto
qed

lemma check_step:
  assumes "window_ok ch" "covers accepted ch"
  obtains b ch' where "checkReceivedSequence t n ch = Inr (b, ch')" "window_ok ch'"
    "covers (if b then insert n accepted else accepted) ch'" "b \<Longrightarrow> n \<notin> accepted"
    "m_receiveSequenceHistory ch' \<noteq> []"
proof -
  let ?d = "m_receiveSequenceHistoryDepth ch" and ?h = "m_receiveSequenceHistory ch"
  have h: "?h \<noteq> []" using assms(1) by (auto simp: window_ok_def)
  consider (known) "n \<in> set (window ch)" | (room) "n \<notin> set (window ch)" "int ?d < m_receiveSequenceSizeMaxSize ch"
    | (full) "n \<notin> set (window ch)" "\<not> int ?d < m_receiveSequenceSizeMaxSize ch" by blast
  then show thesis
  proof cases
    case known
    then have "checkReceivedSequence t n ch = Inr (False, ch)" by (simp add: checkReceivedSequence_def contains_sequence_def window_def)
    then show thesis using that assms h by simp
  next
    case room
    then have d: "?d < length ?h" using assms(1) by (auto simp: window_ok_def)
    let ?ch = "ch\<lparr>m_receiveSequenceHistory := ?h[?d := n], m_receiveSequenceHistoryDepth := ?d + 1, m_lastReceiveUtc := Some t\<rparr>"
    have r: "checkReceivedSequence t n ch = Inr (True, ?ch)"
      using room d by (simp add: checkReceivedSequence_def contains_sequence_def window_def Let_def)
    have w: "window ?ch = window ch @ [n]" using d by (simp add: window_def take_Suc_conv_app_nth)
    have new: "n \<notin> accepted" using room(1) d assms(2) by (auto simp: covers_def window_def)
    have all: "accepted - set (window ch) = {}" using d assms(2) by (auto simp: covers_def window_def)
    show thesis
      by (rule that [OF r]) (use assms room(1) d w new all h in \<open>auto simp: window_ok_def covers_def\<close>)
  next
    case full
    then have d: "?d = length ?h" "window ch = ?h" using assms(1) by (auto simp: window_ok_def window_def)
    obtain i where i: "getMin ch = (window ch ! i, Some i)" "i < length (window ch)" "\<forall>n\<in>set (window ch). window ch ! i \<le> n"
      using getMin_result [of ch] h d(2) by metis
    show thesis
    proof (cases "n < window ch ! i")
      case True
      then have "checkReceivedSequence t n ch = Inr (False, ch)"
        using full i(1) by (simp add: checkReceivedSequence_def contains_sequence_def window_def Let_def)
      then show thesis using that assms h by simp
    next
      case False
      let ?ch = "ch\<lparr>m_receiveSequenceHistory := ?h[i := n], m_lastReceiveUtc := Some t\<rparr>"
      have r: "checkReceivedSequence t n ch = Inr (True, ?ch)"
        using full i(1) False by (simp add: checkReceivedSequence_def contains_sequence_def window_def Let_def)
      have w: "window ?ch = ?h[i := n]" using d by (simp add: window_def)
      have dist: "distinct ?h" using assms(1) d by (simp add: window_ok_def)
      have above: "\<forall>m\<in>set ?h - {?h ! i}. ?h ! i < m" using i(3) d(2) by (auto simp: order.strict_iff_order)
      have n: "?h ! i < n" using False full(1) i(2) d(2) by (metis linorder_neqE nth_mem)
      have set_w: "set (?h[i := n]) = insert n (set ?h - {?h ! i})"
        using i(2) d(2) dist by (simp add: set_update_distinct)
      have old: "\<forall>m\<in>accepted - set ?h. m < ?h ! i" using assms(2) i(2) d(2) by (auto simp: covers_def)
      have new: "n \<notin> accepted" using old n full(1) d(2) by (metis Diff_iff order.asym)
      have "distinct (?h[i := n])" using dist full(1) d(2) by (simp add: distinct_list_update)
      moreover have "covers (insert n accepted) ?ch"
      proof -
        have sub: "set ?h \<subseteq> accepted" using assms(2) d(2) by (simp add: covers_def)
        have above: "?h ! i < k" if "k \<in> insert n (set ?h - {?h ! i})" for k using that above n by blast
        have below: "m \<le> ?h ! i" if "m \<in> insert n accepted - insert n (set ?h - {?h ! i})" for m using that old order.strict_implies_order [of m] by (cases "m \<in> set ?h") auto
        have "m < k" if "m \<in> insert n accepted - insert n (set ?h - {?h ! i})" "k \<in> insert n (set ?h - {?h ! i})" for m k
          using above [OF that(2)] below [OF that(1)] by (rule order.strict_trans1 [rotated])
        then show ?thesis unfolding covers_def w set_w using sub by auto
      qed
      ultimately show thesis
        by (intro that [OF r]) (use assms(1) new w d h in \<open>auto simp: window_ok_def\<close>)
    qed
  qed
qed

text \<open>Checking numbers one after the other: those accepted, in order.\<close>

fun check_all :: "(int \<times> 32 word) list \<Rightarrow> crypto_channel \<Rightarrow> fault + 32 word list \<times> crypto_channel" where
  "check_all [] ch = Inr ([], ch)"
| "check_all ((t, n) # rest) ch =
     and_then (checkReceivedSequence t n ch) (\<lambda>(b, ch).
       and_then (check_all rest ch) (\<lambda>(ns, ch). Inr (if b then n # ns else ns, ch)))"

lemma check_all_distinct:
  assumes "window_ok ch" "covers accepted ch"
  shows "\<exists>ns ch'. check_all received ch = Inr (ns, ch') \<and> distinct ns \<and> set ns \<inter> accepted = {}"
  using assms
proof (induction received arbitrary: ch accepted)
  case (Cons tn received)
  obtain t n where tn: "tn = (t, n)" by fastforce
  obtain b ch1 where s: "checkReceivedSequence t n ch = Inr (b, ch1)" "window_ok ch1"
      "covers (if b then insert n accepted else accepted) ch1" "b \<Longrightarrow> n \<notin> accepted"
    using check_step [OF Cons.prems, of t n] by blast
  from Cons.IH [OF s(2,3)] obtain ns ch2 where "check_all received ch1 = Inr (ns, ch2)" "distinct ns"
      "set ns \<inter> (if b then insert n accepted else accepted) = {}" by blast
  then show ?case using s(1,4) tn by (auto split: if_splits)
qed simp

text \<open>A number above all that are remembered is accepted.\<close>

lemma check_later:
  assumes "window_ok ch" "\<forall>m\<in>set (window ch). m < n"
  shows "\<exists>ch'. checkReceivedSequence t n ch = Inr (True, ch') \<and> window_ok ch' \<and> set (window ch') \<subseteq> insert n (set (window ch))"
proof -
  let ?d = "m_receiveSequenceHistoryDepth ch" and ?h = "m_receiveSequenceHistory ch"
  have n: "n \<notin> set (window ch)" using assms(2) by blast
  have h: "?h \<noteq> []" using assms(1) by (auto simp: window_ok_def)
  show ?thesis
  proof (cases "int ?d < m_receiveSequenceSizeMaxSize ch")
    case True
    then have d: "?d < length ?h" using assms(1) by (auto simp: window_ok_def)
    let ?ch = "ch\<lparr>m_receiveSequenceHistory := ?h[?d := n], m_receiveSequenceHistoryDepth := ?d + 1, m_lastReceiveUtc := Some t\<rparr>"
    have "checkReceivedSequence t n ch = Inr (True, ?ch)"
      using n True d by (simp add: checkReceivedSequence_def contains_sequence_def window_def Let_def)
    moreover have "window ?ch = window ch @ [n]" using d by (simp add: window_def take_Suc_conv_app_nth)
    ultimately show ?thesis using assms(1) n d by (auto simp: window_ok_def)
  next
    case False
    then have d: "?d = length ?h" "window ch = ?h" using assms(1) by (auto simp: window_ok_def window_def)
    obtain i where i: "getMin ch = (window ch ! i, Some i)" "i < length (window ch)"
      using getMin_result [of ch] h d(2) by metis
    let ?ch = "ch\<lparr>m_receiveSequenceHistory := ?h[i := n], m_lastReceiveUtc := Some t\<rparr>"
    have "\<not> n < window ch ! i" using assms(2) i(2) nth_mem order.asym by blast
    then have r: "checkReceivedSequence t n ch = Inr (True, ?ch)"
      using n False i(1) by (simp add: checkReceivedSequence_def contains_sequence_def window_def Let_def)
    have w: "window ?ch = ?h[i := n]" using d by (simp add: window_def)
    have "distinct (?h[i := n])" using assms(1) n d by (simp add: window_ok_def distinct_list_update)
    then have "window_ok ?ch" using assms(1) w d by (simp add: window_ok_def)
    moreover have "set (window ?ch) \<subseteq> insert n (set (window ch))" unfolding w d(2) by (rule set_update_subset_insert)
    ultimately show ?thesis using r by blast
  qed
qed

lemma check_all_increasing:
  assumes "window_ok ch" "sorted_wrt (<) (map snd received)" "\<forall>m\<in>set (window ch). \<forall>(t, n)\<in>set received. m < n"
  shows "\<exists>ch'. check_all received ch = Inr (map snd received, ch')"
  using assms
proof (induction received arbitrary: ch)
  case (Cons tn received)
  obtain t n where tn: "tn = (t, n)" by fastforce
  obtain ch1 where s: "checkReceivedSequence t n ch = Inr (True, ch1)" "window_ok ch1" "set (window ch1) \<subseteq> insert n (set (window ch))"
    using check_later [OF Cons.prems(1), of n t] Cons.prems(3) tn by auto
  have "\<forall>m\<in>set (window ch1). \<forall>(t, n)\<in>set received. m < n"
    using Cons.prems(2,3) s(3) tn by fastforce
  from Cons.IH [OF s(2) _ this] Cons.prems(2) s(1) tn show ?case by auto
qed simp

lemma fresh_window: "window_ok (CCryptoDtoChannel config n)" "covers {} (CCryptoDtoChannel config n)"
  by (simp_all add: window_ok_def window_def covers_def CCryptoDtoChannel_def Let_def)

lemma fresh_empty: "window (CCryptoDtoChannel config n) = []"
  by (simp add: window_def CCryptoDtoChannel_def Let_def)

subsection \<open>The numbers that are sent\<close>

fun transmit_all :: "(int \<times> int) list \<Rightarrow> crypto_channel \<Rightarrow> 32 word list" where
  "transmit_all [] ch = []"
| "transmit_all ((t, mode) # rest) ch =
     (let (key, n, ch) = getTransmitKey_sequence t mode ch in n # transmit_all rest ch)"

lemma transmit_all_numbers:
  "length (transmit_all calls ch) = length calls
    \<and> (\<forall>i<length calls. transmit_all calls ch ! i = m_transmitSequence ch + of_nat i)"
proof (induction calls arbitrary: ch)
  case (Cons c calls)
  obtain t mode where c: "c = (t, mode)" by fastforce
  show ?case using Cons.IH [of "ch\<lparr>m_transmitSequence := m_transmitSequence ch + 1, m_LastTransmitUtc := Some t\<rparr>"]
    by (auto simp: c getTransmitKey_sequence_def Let_def nth_Cons algebra_simps split: nat.splits)
qed simp

lemma same_number:
  assumes "i \<le> j"
  shows "(n :: 32 word) + of_nat i = n + of_nat j \<longleftrightarrow> 2 ^ 32 dvd j - i"
proof -
  have "n + of_nat i = n + of_nat j \<longleftrightarrow> (of_nat (j - i) :: 32 word) = 0"
    using assms by (simp add: of_nat_diff) (metis)
  then show ?thesis by (simp add: word_of_nat_eq_0_iff)
qed

end
