(* ===== verification/VoiceReceivers.thy ===== *)
theory VoiceReceivers
  imports VoiceDelays VoiceCrypto Doubles
begin

section \<open>The voices of the receivers\<close>

text \<open>
  \<open>src/src/blackcore/afv/audio/\<close>: a \<open>CCallsignSampleProvider\<close> plays the voice of one callsign, a
  \<open>CReceiverSampleProvider\<close> has some of them for the callsigns heard on its frequency, and the
  \<open>CSoundcardSampleProvider\<close> has one receiver per transceiver. What is modelled is who is heard,
  what waits in which buffer, and the settings of the effects; the samples themselves (mixing,
  filters, noise) are not. The cache of delays is one for the whole program and is passed along.
\<close>

text \<open>The code compares a computed double with constants.\<close>

fun d_less :: "double \<Rightarrow> double \<Rightarrow> bool" where
  "d_less (Fin a) (Fin b) \<longleftrightarrow> a < b"
| "d_less (Fin a) (Inf s) \<longleftrightarrow> \<not> s"
| "d_less (Inf s) (Fin b) \<longleftrightarrow> s"
| "d_less (Inf s) (Inf t) \<longleftrightarrow> s \<and> \<not> t"
| "d_less _ _ \<longleftrightarrow> False"

text \<open>
  What a call finds outside: the time in milliseconds, the decoder with the conversion to floating
  point, a silent sample, the value of the crackle's formula for a distance, and two settings.
\<close>

record 'f voice_environment =
  voice_clock :: int
  decodeOpus :: "bytes \<Rightarrow> 'f list"
  silence :: 'f
  crackleFormula :: "rat \<Rightarrow> double"
  afvClicked :: bool
  afvBlocked :: bool

record IAudioDto =
  dto_callsign :: string
  dto_audio :: bytes
  dto_lastPacket :: bool

record audio_effects =
  crackleGain :: double
  whiteNoiseGain :: double
  hfWhiteNoiseGain :: double
  acBusGain :: double
  compressorEnabled :: bool
  equalizerBypassed :: bool
  equalizerGain :: double

record 'f callsign_provider =
  csp_sampleRate :: int
  csp_callsign :: string
  csp_aircraftType :: string
  m_inUse :: bool
  m_bypassEffects :: bool
  m_distanceRatio :: rat
  csp_effects :: audio_effects
  m_audioInput :: "'f wave_buffer"
  csp_timer :: bool
  m_lastPacketLatch :: bool
  m_lastSamplesAddedUtc :: "int option"
  m_underflow :: bool

definition m_whiteNoiseGainMin :: double where "m_whiteNoiseGainMin = mk_double (17 / 100)"
definition m_hfWhiteNoiseGainMin :: double where "m_hfWhiteNoiseGainMin = mk_double (6 / 10)"
definition m_acBusGainMin :: double where "m_acBusGainMin = mk_double (28 / 10000)"
definition m_idleTimeoutMs :: int where "m_idleTimeoutMs = 500"

definition CCallsignSampleProvider :: "int \<Rightarrow> 'f callsign_provider" where
  "CCallsignSampleProvider sampleRate =
     \<lparr>csp_sampleRate = sampleRate, csp_callsign = [], csp_aircraftType = [], m_inUse = False, m_bypassEffects = False,
      m_distanceRatio = 1,
      csp_effects = \<lparr>crackleGain = Fin 0, whiteNoiseGain = Fin 0, hfWhiteNoiseGain = Fin 0, acBusGain = Fin 0,
        compressorEnabled = True, equalizerBypassed = False, equalizerGain = Fin 1\<rparr>,
      m_audioInput = CBufferedWaveProvider sampleRate, csp_timer = False, m_lastPacketLatch = False,
      m_lastSamplesAddedUtc = None, m_underflow = False\<rparr>"

definition crackleFactor :: "'f voice_environment \<Rightarrow> rat \<Rightarrow> double" where
  "crackleFactor env ratio =
     (let crackleFactor = crackleFormula env ratio;
          crackleFactor = (if d_less crackleFactor (Fin 0) then Fin 0 else crackleFactor)
      in if d_less (mk_double (20 / 100)) crackleFactor then mk_double (20 / 100) else crackleFactor)"

text \<open>The float \<open>0.001f\<close>.\<close>

definition float_001 :: double where "float_001 = Fin (8589935 / 2 ^ 33)"

definition setEffects :: "'f voice_environment \<Rightarrow> 32 word \<Rightarrow> bool \<Rightarrow> 'f callsign_provider \<Rightarrow> 'f callsign_provider" where
  "setEffects env frequencyHz noEffects p =
     (let e = csp_effects p in
      p\<lparr>csp_effects :=
        if noEffects \<or> m_bypassEffects p \<or> \<not> m_inUse p
        then e\<lparr>crackleGain := Fin 0, whiteNoiseGain := Fin 0, hfWhiteNoiseGain := Fin 0, acBusGain := Fin 0,
               compressorEnabled := False, equalizerBypassed := True\<rparr>
        else if frequencyHz < 30000000
        then e\<lparr>hfWhiteNoiseGain := m_hfWhiteNoiseGainMin, acBusGain := d_add m_acBusGainMin float_001,
               compressorEnabled := True, equalizerBypassed := False, equalizerGain := mk_double (38 / 100),
               whiteNoiseGain := Fin 0\<rparr>
        else let crackle = crackleFactor env (m_distanceRatio p) in
          e\<lparr>crackleGain := d_mul crackle (Fin 2), whiteNoiseGain := m_whiteNoiseGainMin, acBusGain := m_acBusGainMin,
            compressorEnabled := True, equalizerBypassed := False,
            equalizerGain := d_sub (Fin 1) (d_mul crackle (mk_double (37 / 10)))\<rparr>\<rparr>)"

definition csp_idle :: "'f voice_environment \<Rightarrow> 32 word \<Rightarrow> 'f callsign_provider \<Rightarrow> 'f callsign_provider" where
  "csp_idle env frequencyHz p =
     (setEffects env frequencyHz False (p\<lparr>csp_timer := False, m_inUse := False\<rparr>))\<lparr>csp_callsign := [], csp_aircraftType := []\<rparr>"

text \<open>Reading samples: the sources are mixed, which takes what it can from the buffer.\<close>

definition csp_readSamples ::
    "'f voice_environment \<Rightarrow> 32 word \<Rightarrow> nat \<Rightarrow> delay_cache \<times> 'f callsign_provider \<Rightarrow> delay_cache \<times> 'f callsign_provider" where
  "csp_readSamples env frequencyHz count cp =
     (let (c, p) = cp;
          p = p\<lparr>m_audioInput := snd (wave_readSamples count (m_audioInput p))\<rparr>;
          p = (if m_inUse p \<and> m_lastPacketLatch p \<and> getBufferedBytes (m_audioInput p) = 0
               then (csp_idle env frequencyHz p)\<lparr>m_lastPacketLatch := False\<rparr> else p)
      in if m_inUse p \<and> \<not> m_underflow p \<and> getBufferedBytes (m_audioInput p) = 0
         then (delay_underflow (csp_callsign p) c, p\<lparr>m_underflow := True\<rparr>)
         else (c, p))"

definition csp_timerElapsed :: "'f voice_environment \<Rightarrow> 32 word \<Rightarrow> 'f callsign_provider \<Rightarrow> 'f callsign_provider" where
  "csp_timerElapsed env frequencyHz p =
     (if m_inUse p \<and> getBufferedBytes (m_audioInput p) = 0
         \<and> (case m_lastSamplesAddedUtc p of None \<Rightarrow> False | Some t \<Rightarrow> c_int64 (voice_clock env - t) > m_idleTimeoutMs)
      then csp_idle env frequencyHz p else p)"

definition csp_active ::
    "'f voice_environment \<Rightarrow> 32 word \<Rightarrow> string \<Rightarrow> string \<Rightarrow> delay_cache \<times> 'f callsign_provider \<Rightarrow> fault + delay_cache \<times> 'f callsign_provider" where
  "csp_active env frequencyHz callsign aircraftType cp =
     (let (c, p) = cp;
          c = delay_initialise callsign c;
          p = setEffects env frequencyHz False (p\<lparr>csp_callsign := callsign, csp_aircraftType := aircraftType, m_inUse := True\<rparr>);
          p = p\<lparr>m_underflow := False\<rparr>;
          (delayMs, c) = delay_get callsign c
      in if delayMs > 0
         then
           let phaseDelayLength = c_int (c_div (csp_sampleRate p) 1000 * delayMs);
               phaseDelay = replicate (nat (c_int (phaseDelayLength * 2))) (silence env) in
           and_then (addSamples phaseDelay (m_audioInput p)) (\<lambda>b. Inr (c, p\<lparr>m_audioInput := b\<rparr>))
         else Inr (c, p))"

text \<open>Nothing in the sources calls this one.\<close>

definition csp_activeSilent ::
    "'f voice_environment \<Rightarrow> 32 word \<Rightarrow> string \<Rightarrow> string \<Rightarrow> delay_cache \<times> 'f callsign_provider \<Rightarrow> delay_cache \<times> 'f callsign_provider" where
  "csp_activeSilent env frequencyHz callsign aircraftType cp =
     (let (c, p) = cp
      in (delay_initialise callsign c,
          (setEffects env frequencyHz True (p\<lparr>csp_callsign := callsign, csp_aircraftType := aircraftType, m_inUse := True\<rparr>))\<lparr>m_underflow := True\<rparr>))"

definition csp_clear :: "'f voice_environment \<Rightarrow> 32 word \<Rightarrow> 'f callsign_provider \<Rightarrow> 'f callsign_provider" where
  "csp_clear env frequencyHz p =
     (let p = csp_idle env frequencyHz p in p\<lparr>m_audioInput := clearBuffer (m_audioInput p)\<rparr>)"

definition csp_addOpusSamples ::
    "'f voice_environment \<Rightarrow> 32 word \<Rightarrow> IAudioDto \<Rightarrow> rat \<Rightarrow> delay_cache \<times> 'f callsign_provider \<Rightarrow> fault + delay_cache \<times> 'f callsign_provider" where
  "csp_addOpusSamples env frequencyHz audioDto distanceRatio cp =
     (let (c, p) = cp;
          p = setEffects env frequencyHz False (p\<lparr>m_distanceRatio := distanceRatio\<rparr>) in
      and_then (addSamples (decodeOpus env (dto_audio audioDto)) (m_audioInput p)) (\<lambda>b.
        let p = p\<lparr>m_audioInput := b, m_lastPacketLatch := dto_lastPacket audioDto\<rparr>;
            c = (if dto_lastPacket audioDto \<and> \<not> m_underflow p then delay_success (csp_callsign p) c else c)
        in Inr (c, p\<lparr>m_lastSamplesAddedUtc := Some (voice_clock env), csp_timer := True\<rparr>)))"

definition csp_addSilentSamples ::
    "'f voice_environment \<Rightarrow> 32 word \<Rightarrow> IAudioDto \<Rightarrow> 'f callsign_provider \<Rightarrow> 'f callsign_provider" where
  "csp_addSilentSamples env frequencyHz audioDto p =
     (setEffects env frequencyHz True p)
       \<lparr>m_lastPacketLatch := dto_lastPacket audioDto, m_lastSamplesAddedUtc := Some (voice_clock env), csp_timer := True\<rparr>"

definition csp_setBypassEffects :: "'f voice_environment \<Rightarrow> 32 word \<Rightarrow> bool \<Rightarrow> 'f callsign_provider \<Rightarrow> 'f callsign_provider" where
  "csp_setBypassEffects env frequencyHz bypass p = setEffects env frequencyHz False (p\<lparr>m_bypassEffects := bypass\<rparr>)"

subsection \<open>A receiver\<close>

datatype receiver_event = receivingCallsignsChanged "16 word" "string list" | Click

record 'f receiver =
  m_frequencyHz :: "32 word"
  m_mute :: bool
  m_id :: "16 word"
  m_voiceInputs :: "'f callsign_provider list"
  m_receivingCallsigns :: "string list"
  m_doClickWhenAppropriate :: bool
  m_doBlockWhenAppropriate :: bool
  m_lastNumberOfInUseInputs :: nat
  m_blockToneGain :: double
  receiver_events :: "receiver_event list"

definition CReceiverSampleProvider :: "int \<Rightarrow> 16 word \<Rightarrow> nat \<Rightarrow> 'f receiver" where
  "CReceiverSampleProvider sampleRate i voiceInputNumber =
     \<lparr>m_frequencyHz = 122800000, m_mute = False, m_id = i,
      m_voiceInputs = replicate voiceInputNumber (CCallsignSampleProvider sampleRate), m_receivingCallsigns = [],
      m_doClickWhenAppropriate = False, m_doBlockWhenAppropriate = False, m_lastNumberOfInUseInputs = 0,
      m_blockToneGain = Fin 0, receiver_events = []\<rparr>"

definition receiver_setBypassEffects :: "'f voice_environment \<Rightarrow> bool \<Rightarrow> 'f receiver \<Rightarrow> 'f receiver" where
  "receiver_setBypassEffects env v r =
     r\<lparr>m_voiceInputs := map (csp_setBypassEffects env (m_frequencyHz r) v) (m_voiceInputs r)\<rparr>"

text \<open>The inputs are cleared while the receiver still has the old frequency.\<close>

definition setFrequency :: "'f voice_environment \<Rightarrow> 32 word \<Rightarrow> 'f receiver \<Rightarrow> 'f receiver" where
  "setFrequency env frequencyHz r =
     (let r = (if frequencyHz \<noteq> m_frequencyHz r
               then r\<lparr>m_voiceInputs := map (csp_clear env (m_frequencyHz r)) (m_voiceInputs r)\<rparr> else r)
      in r\<lparr>m_frequencyHz := frequencyHz\<rparr>)"

definition activeCallsigns :: "'f receiver \<Rightarrow> nat" where
  "activeCallsigns r = length (filter m_inUse (m_voiceInputs r))"

definition setMute :: "'f voice_environment \<Rightarrow> bool \<Rightarrow> 'f receiver \<Rightarrow> 'f receiver" where
  "setMute env v r =
     (let r = r\<lparr>m_mute := v\<rparr>
      in if v then r\<lparr>m_voiceInputs := map (csp_clear env (m_frequencyHz r)) (m_voiceInputs r)\<rparr> else r)"

fun read_inputs ::
    "'f voice_environment \<Rightarrow> 32 word \<Rightarrow> nat \<Rightarrow> delay_cache \<Rightarrow> 'f callsign_provider list \<Rightarrow> delay_cache \<times> 'f callsign_provider list" where
  "read_inputs env frequencyHz count c [] = (c, [])"
| "read_inputs env frequencyHz count c (p # ps) =
     (let (c, p) = csp_readSamples env frequencyHz count (c, p);
          (c, ps) = read_inputs env frequencyHz count c ps in (c, p # ps))"

definition receiver_readSamples :: "'f voice_environment \<Rightarrow> nat \<Rightarrow> delay_cache \<times> 'f receiver \<Rightarrow> delay_cache \<times> 'f receiver" where
  "receiver_readSamples env count cr =
     (let (c, r) = cr;
          numberOfInUseInputs = activeCallsigns r;
          r = r\<lparr>m_blockToneGain := if numberOfInUseInputs > 1 \<and> m_doBlockWhenAppropriate r then mk_double (10 / 100) else Fin 0\<rparr>;
          r = (if m_doClickWhenAppropriate r \<and> numberOfInUseInputs = 0
               then r\<lparr>receiver_events := receiver_events r @ [Click], m_doClickWhenAppropriate := False\<rparr> else r);
          r = (if numberOfInUseInputs \<noteq> m_lastNumberOfInUseInputs r
               then let callsigns = filter (\<lambda>cs. cs \<noteq> []) (map csp_callsign (m_voiceInputs r))
                    in r\<lparr>m_receivingCallsigns := callsigns,
                        receiver_events := receiver_events r @ [receivingCallsignsChanged (m_id r) callsigns]\<rparr>
               else r);
          r = r\<lparr>m_lastNumberOfInUseInputs := numberOfInUseInputs\<rparr>;
          (c, inputs) = read_inputs env (m_frequencyHz r) count c (m_voiceInputs r)
      in (c, r\<lparr>m_voiceInputs := inputs\<rparr>))"

text \<open>\<open>std::find_if\<close>: the index of the first that fits.\<close>

fun find_index :: "('x \<Rightarrow> bool) \<Rightarrow> 'x list \<Rightarrow> nat option" where
  "find_index P [] = None"
| "find_index P (x # xs) = (if P x then Some 0 else map_option Suc (find_index P xs))"

text \<open>
  The input for a callsign: the one that has it, or the first that is not in use, which becomes active. Both ways
  of adding samples begin with it.
\<close>

definition voice_input ::
    "'f voice_environment \<Rightarrow> string \<Rightarrow> delay_cache \<times> 'f receiver \<Rightarrow> fault + (delay_cache \<times> 'f receiver) \<times> nat option" where
  "voice_input env callsign cr =
     (let (c, r) = cr in
      case find_index (\<lambda>p. csp_callsign p = callsign) (m_voiceInputs r) of
        Some i \<Rightarrow> Inr ((c, r), Some i)
      | None \<Rightarrow>
          (case find_index (\<lambda>p. \<not> m_inUse p) (m_voiceInputs r) of
             None \<Rightarrow> Inr ((c, r), None)
           | Some i \<Rightarrow>
               and_then (csp_active env (m_frequencyHz r) callsign [] (c, m_voiceInputs r ! i)) (\<lambda>(c, p).
                 Inr ((c, r\<lparr>m_voiceInputs := (m_voiceInputs r)[i := p]\<rparr>), Some i))))"

definition receiver_addOpusSamples ::
    "'f voice_environment \<Rightarrow> IAudioDto \<Rightarrow> 32 word \<Rightarrow> rat \<Rightarrow> delay_cache \<times> 'f receiver \<Rightarrow> fault + delay_cache \<times> 'f receiver" where
  "receiver_addOpusSamples env audioDto frequency distanceRatio cr =
     (if m_frequencyHz (snd cr) \<noteq> frequency then Inr cr
      else
        and_then (voice_input env (dto_callsign audioDto) cr) (\<lambda>((c, r), input).
          and_then
            (case input of
               None \<Rightarrow> Inr (c, r)
             | Some i \<Rightarrow>
                 and_then (csp_addOpusSamples env (m_frequencyHz r) audioDto distanceRatio (c, m_voiceInputs r ! i)) (\<lambda>(c, p).
                   Inr (c, r\<lparr>m_voiceInputs := (m_voiceInputs r)[i := p]\<rparr>)))
            (\<lambda>(c, r). Inr (c, r\<lparr>m_doClickWhenAppropriate := afvClicked env, m_doBlockWhenAppropriate := afvBlocked env\<rparr>))))"

definition receiver_addSilentSamples ::
    "'f voice_environment \<Rightarrow> IAudioDto \<Rightarrow> 32 word \<Rightarrow> delay_cache \<times> 'f receiver \<Rightarrow> fault + delay_cache \<times> 'f receiver" where
  "receiver_addSilentSamples env audioDto frequency cr =
     (if m_frequencyHz (snd cr) \<noteq> frequency then Inr cr
      else
        and_then (voice_input env (dto_callsign audioDto) cr) (\<lambda>((c, r), input).
          case input of
            None \<Rightarrow> Inr (c, r)
          | Some i \<Rightarrow>
              Inr (c, r\<lparr>m_voiceInputs := (m_voiceInputs r)[i := csp_addSilentSamples env (m_frequencyHz r) audioDto (m_voiceInputs r ! i)]\<rparr>)))"

definition receiver_timerElapsed :: "'f voice_environment \<Rightarrow> nat \<Rightarrow> 'f receiver \<Rightarrow> 'f receiver" where
  "receiver_timerElapsed env i r =
     r\<lparr>m_voiceInputs := (m_voiceInputs r)[i := csp_timerElapsed env (m_frequencyHz r) (m_voiceInputs r ! i)]\<rparr>"

subsection \<open>The sound card\<close>

record RxTransceiverDto =
  rx_id :: "16 word"
  rx_frequency :: "32 word"
  rx_distanceRatio :: rat

record 'f soundcard =
  m_receiverIDs :: "16 word list"
  m_receiverInputs :: "'f receiver list"

definition voiceInputNumber :: nat where "voiceInputNumber = 4"

text \<open>The ids are copied first and then appended one by one, so each stands there twice.\<close>

definition CSoundcardSampleProvider :: "int \<Rightarrow> 16 word list \<Rightarrow> 'f soundcard" where
  "CSoundcardSampleProvider sampleRate transceiverIDs =
     \<lparr>m_receiverIDs = transceiverIDs @ transceiverIDs,
      m_receiverInputs = map (\<lambda>i. CReceiverSampleProvider sampleRate i voiceInputNumber) transceiverIDs\<rparr>"

definition on_receiver :: "nat \<Rightarrow> ('f receiver \<Rightarrow> 'f receiver) \<Rightarrow> 'f soundcard \<Rightarrow> 'f soundcard" where
  "on_receiver i f s = s\<lparr>m_receiverInputs := (m_receiverInputs s)[i := f (m_receiverInputs s ! i)]\<rparr>"

definition soundcard_setBypassEffects :: "'f voice_environment \<Rightarrow> bool \<Rightarrow> 'f soundcard \<Rightarrow> 'f soundcard" where
  "soundcard_setBypassEffects env v s = s\<lparr>m_receiverInputs := map (receiver_setBypassEffects env v) (m_receiverInputs s)\<rparr>"

definition receiver_of :: "16 word \<Rightarrow> 'f soundcard \<Rightarrow> nat option" where
  "receiver_of i s = find_index (\<lambda>r. m_id r = i) (m_receiverInputs s)"

text \<open>Pressing the button mutes the receivers of the transceivers that send, releasing it unmutes all.\<close>

definition pttUpdate :: "'f voice_environment \<Rightarrow> bool \<Rightarrow> 16 word list \<Rightarrow> 'f soundcard \<Rightarrow> 'f soundcard" where
  "pttUpdate env active txTransceivers s =
     (if active
      then fold (\<lambda>tx s. case receiver_of tx s of None \<Rightarrow> s | Some i \<Rightarrow> on_receiver i (setMute env True) s)
             (filter (\<lambda>tx. tx \<in> set (m_receiverIDs s)) txTransceivers) s
      else s\<lparr>m_receiverInputs := map (setMute env False) (m_receiverInputs s)\<rparr>)"

fun read_receivers :: "'f voice_environment \<Rightarrow> nat \<Rightarrow> delay_cache \<Rightarrow> 'f receiver list \<Rightarrow> delay_cache \<times> 'f receiver list" where
  "read_receivers env count c [] = (c, [])"
| "read_receivers env count c (r # rs) =
     (let (c, r) = receiver_readSamples env count (c, r);
          (c, rs) = read_receivers env count c rs in (c, r # rs))"

definition soundcard_readSamples :: "'f voice_environment \<Rightarrow> nat \<Rightarrow> delay_cache \<times> 'f soundcard \<Rightarrow> delay_cache \<times> 'f soundcard" where
  "soundcard_readSamples env count cs =
     (let (c, s) = cs; (c, rs) = read_receivers env count c (m_receiverInputs s) in (c, s\<lparr>m_receiverInputs := rs\<rparr>))"

text \<open>The loop over the transceivers that heard a voice: the ids handled so far, and whether somebody plays the voice already.\<close>

fun add_to_receivers ::
    "'f voice_environment \<Rightarrow> IAudioDto \<Rightarrow> RxTransceiverDto list \<Rightarrow> 16 word list \<Rightarrow> bool \<Rightarrow> delay_cache \<times> 'f soundcard
      \<Rightarrow> fault + delay_cache \<times> 'f soundcard" where
  "add_to_receivers env audioDto [] handled audioPlayed cs = Inr cs"
| "add_to_receivers env audioDto (rx # rxs) handled audioPlayed (c, s) =
     (if rx_id rx \<in> set handled then add_to_receivers env audioDto rxs handled audioPlayed (c, s)
      else
        let handled = handled @ [rx_id rx] in
        case receiver_of (rx_id rx) s of
          None \<Rightarrow> add_to_receivers env audioDto rxs handled audioPlayed (c, s)
        | Some i \<Rightarrow>
            let r = m_receiverInputs s ! i in
            if m_mute r then add_to_receivers env audioDto rxs handled audioPlayed (c, s)
            else
              and_then
                (if \<not> audioPlayed then receiver_addOpusSamples env audioDto (rx_frequency rx) (rx_distanceRatio rx) (c, r)
                 else receiver_addSilentSamples env audioDto (rx_frequency rx) (c, r))
                (\<lambda>(c, r). add_to_receivers env audioDto rxs handled True (c, on_receiver i (\<lambda>_. r) s)))"

definition soundcard_addOpusSamples ::
    "'f voice_environment \<Rightarrow> IAudioDto \<Rightarrow> RxTransceiverDto list \<Rightarrow> delay_cache \<times> 'f soundcard \<Rightarrow> fault + delay_cache \<times> 'f soundcard" where
  "soundcard_addOpusSamples env audioDto rxTransceivers cs =
     (let filteredAndSorted = sort_key (\<lambda>rx. - rx_distanceRatio rx) (filter (\<lambda>rx. rx_id rx \<in> set (m_receiverIDs (snd cs))) rxTransceivers)
      in add_to_receivers env audioDto filteredAndSorted [] False cs)"

text \<open>
  The first loop looks at \<open>it\<close> itself instead of comparing it with the end: where no receiver has the id the end is
  dereferenced.
\<close>

fun tune_receivers :: "'f voice_environment \<Rightarrow> (16 word \<times> 32 word) list \<Rightarrow> 'f soundcard \<Rightarrow> fault + 'f soundcard" where
  "tune_receivers env [] s = Inr s"
| "tune_receivers env ((i, frequencyHz) # txs) s =
     (case receiver_of i s of
        None \<Rightarrow> Inl (OutOfRange (length (m_receiverInputs s)))
      | Some k \<Rightarrow> tune_receivers env txs (on_receiver k (setFrequency env frequencyHz) s))"

definition updateRadioTransceivers :: "'f voice_environment \<Rightarrow> (16 word \<times> 32 word) list \<Rightarrow> 'f soundcard \<Rightarrow> fault + 'f soundcard" where
  "updateRadioTransceivers env radioTransceivers s =
     and_then (tune_receivers env radioTransceivers s) (\<lambda>s.
       Inr (s\<lparr>m_receiverInputs :=
         map (\<lambda>r. if m_id r \<in> fst ` set radioTransceivers then r else setFrequency env 0 r) (m_receiverInputs s)\<rparr>))"

text \<open>The id of a transceiver is taken as an index.\<close>

definition soundcard_getReceivingCallsigns :: "16 word \<Rightarrow> 'f soundcard \<Rightarrow> fault + string list" where
  "soundcard_getReceivingCallsigns transceiverID s =
     and_then (list_at (m_receiverInputs s) (unat transceiverID)) (\<lambda>r. Inr (m_receivingCallsigns r))"

end
