(* ===== verification/VoiceConnection.thy ===== *)
theory VoiceConnection
  imports VoiceReceivers Json
begin

section \<open>The connection to the voice server\<close>

text \<open>
  \<open>src/src/blackcore/afv/connection/\<close>: \<open>CApiServerConnection\<close> logs in at a web service and registers
  the callsign there, \<open>CClientConnectionData\<close> keeps what came of it, and \<open>CClientConnection\<close> exchanges
  datagrams with the voice server. Both objects are one record here. A web request is a member of
  \<open>api_requests\<close>; its reply is an event of its own, or, where the code waits for it in an event loop, comes
  with the environment.
\<close>

subsection \<open>What the service answers\<close>

record PostCallsignResponseDto =
  tok_addressIpV4 :: string
  tok_addressIpV6 :: string
  tok_channelConfig :: CryptoDtoChannelConfigDto
  tok_isValid :: bool

definition CryptoDtoChannelConfigDto_default :: CryptoDtoChannelConfigDto where
  "CryptoDtoChannelConfigDto_default = \<lparr>cfg_channelTag = [], cfg_aeadReceiveKey = [], cfg_aeadTransmitKey = [], cfg_hmacKey = []\<rparr>"

definition PostCallsignResponseDto_default :: PostCallsignResponseDto where
  "PostCallsignResponseDto_default =
     \<lparr>tok_addressIpV4 = [], tok_addressIpV6 = [], tok_channelConfig = CryptoDtoChannelConfigDto_default, tok_isValid = False\<rparr>"

fun j_toString :: "json option \<Rightarrow> string" where
  "j_toString (Some (JString s)) = s"
| "j_toString v = []"

text \<open>\<open>QJsonValue::toInt\<close> with a default.\<close>

fun j_toInt_default :: "int \<Rightarrow> json option \<Rightarrow> int" where
  "j_toInt_default d (Some (JNumber (Fin r))) = (if r = of_int \<lfloor>r\<rfloor> \<and> int32 \<lfloor>r\<rfloor> then \<lfloor>r\<rfloor> else d)"
| "j_toInt_default d v = d"

definition CryptoDtoChannelConfigDto_fromJson :: "(string \<Rightarrow> bytes) \<Rightarrow> json_object \<Rightarrow> CryptoDtoChannelConfigDto" where
  "CryptoDtoChannelConfigDto_fromJson fromBase64 json =
     \<lparr>cfg_channelTag = j_toString (j_value json ''channelTag''),
      cfg_aeadReceiveKey = fromBase64 (j_toString (j_value json ''aeadReceiveKey'')),
      cfg_aeadTransmitKey = fromBase64 (j_toString (j_value json ''aeadTransmitKey'')),
      cfg_hmacKey = fromBase64 (j_toString (j_value json ''hmacKey''))\<rparr>"

definition PostCallsignResponseDto_fromJson :: "(string \<Rightarrow> bytes) \<Rightarrow> json_object \<Rightarrow> PostCallsignResponseDto" where
  "PostCallsignResponseDto_fromJson fromBase64 json =
     (let server = j_toObject (j_value json ''voiceServer'')
      in \<lparr>tok_addressIpV4 = j_toString (j_value server ''addressIpV4''), tok_addressIpV6 = j_toString (j_value server ''addressIpV6''),
         tok_channelConfig = CryptoDtoChannelConfigDto_fromJson fromBase64 (j_toObject (j_value server ''channelConfig'')),
         tok_isValid = True\<rparr>)"

subsection \<open>State\<close>

record AudioRxOnTransceiversDto =
  rxd_callsign :: string
  rxd_sequenceCounter :: "32 word"
  rxd_audio :: bytes
  rxd_lastPacket :: bool
  rxd_transceivers :: "RxTransceiverDto list"

definition AudioRxOnTransceiversDto_default :: AudioRxOnTransceiversDto where
  "AudioRxOnTransceiversDto_default =
     \<lparr>rxd_callsign = [], rxd_sequenceCounter = 0, rxd_audio = [], rxd_lastPacket = False, rxd_transceivers = []\<rparr>"

text \<open>Short names and names of the messages as bytes.\<close>

definition byte_text :: "string \<Rightarrow> bytes" where
  "byte_text = map (\<lambda>c. word_of_nat (of_char c))"

definition name_AR :: bytes where "name_AR = byte_text ''AR''"
definition name_AudioRx :: bytes where "name_AudioRx = byte_text ''AudioRxOnTransceiversDto''"
definition name_H :: bytes where "name_H = byte_text ''H''"
definition name_HA :: bytes where "name_HA = byte_text ''HA''"
definition name_AT :: bytes where "name_AT = byte_text ''AT''"

text \<open>
  Outside of the connection: the clock, the two libraries, whether the program shuts down, and the answer to
  registering a callsign, an empty object if the request failed.
\<close>

record connection_environment =
  conn_clock :: int
  library :: voice_library
  unpack_audio :: "bytes \<Rightarrow> AudioRxOnTransceiversDto option"
  pack_heartbeat :: "string \<Rightarrow> bytes"
  fromBase64 :: "string \<Rightarrow> bytes"
  shuttingDown :: bool
  callsignReply :: json_object

text \<open>A login remembers what it was asked with: its answer's callback has captured it.\<close>

datatype api_request = Login string string string string | Renewal | PostCallsign string | DeleteCallsign string | PostTransceivers string

record voice_connection =
  vc_userName :: string
  vc_callsign :: string
  vc_tokens :: PostCallsignResponseDto
  m_authenticatedDateTimeUtc :: "int option"
  m_lastVoiceServerHeartbeatAckUtc :: "int option"
  m_lastDataServerHeartbeatAckUtc :: "int option"
  m_receiveAudio :: bool
  vc_connected :: bool
  m_voiceCryptoChannel :: "crypto_channel option"
  vc_voiceServerTimer :: bool
  api_username :: string
  api_password :: string
  api_client :: string
  m_isAuthenticated :: bool
  m_serverToUserOffsetMs :: int
  m_expiryLocalUtc :: "int option"
  api_pending :: "api_request list"
  api_requests :: "api_request list"
  sent_datagrams :: "(string \<times> bytes) list"
  audio_received :: "AudioRxOnTransceiversDto list"

definition CClientConnection :: voice_connection where
  "CClientConnection =
     \<lparr>vc_userName = [], vc_callsign = [], vc_tokens = PostCallsignResponseDto_default, m_authenticatedDateTimeUtc = None,
      m_lastVoiceServerHeartbeatAckUtc = None, m_lastDataServerHeartbeatAckUtc = None, m_receiveAudio = True, vc_connected = False,
      m_voiceCryptoChannel = None, vc_voiceServerTimer = False, api_username = [], api_password = [], api_client = [],
      m_isAuthenticated = False, m_serverToUserOffsetMs = 0, m_expiryLocalUtc = None, api_pending = [], api_requests = [],
      sent_datagrams = [], audio_received = []\<rparr>"

definition ServerTimeoutSecs :: int where "ServerTimeoutSecs = 10"

definition isVoiceServerAlive :: "int \<Rightarrow> voice_connection \<Rightarrow> bool" where
  "isVoiceServerAlive t v \<longleftrightarrow>
     (case m_lastVoiceServerHeartbeatAckUtc v of None \<Rightarrow> False | Some a \<Rightarrow> \<bar>c_div (t - a) 1000\<bar> < ServerTimeoutSecs)"

definition createCryptoChannels :: "voice_connection \<Rightarrow> voice_connection" where
  "createCryptoChannels v =
     (if \<not> tok_isValid (vc_tokens v) then v
      else v\<lparr>m_voiceCryptoChannel := Some (CCryptoDtoChannel (tok_channelConfig (vc_tokens v)) 10)\<rparr>)"

definition setTsHeartbeatToNow :: "int \<Rightarrow> voice_connection \<Rightarrow> voice_connection" where
  "setTsHeartbeatToNow t v = v\<lparr>m_lastVoiceServerHeartbeatAckUtc := Some t, m_lastDataServerHeartbeatAckUtc := Some t\<rparr>"

text \<open>The data server's time and the channel are left.\<close>

definition connection_reset :: "voice_connection \<Rightarrow> voice_connection" where
  "connection_reset v = v\<lparr>vc_userName := [], vc_callsign := [], m_authenticatedDateTimeUtc := None,
     m_lastVoiceServerHeartbeatAckUtc := None, vc_tokens := PostCallsignResponseDto_default\<rparr>"

subsection \<open>The web service\<close>

text \<open>Asking for a login; the kind of request says what happens with the answer.\<close>

definition api_connectTo :: "connection_environment \<Rightarrow> api_request \<Rightarrow> string \<Rightarrow> string \<Rightarrow> string \<Rightarrow> voice_connection \<Rightarrow> voice_connection" where
  "api_connectTo env kind username password client v =
     (if shuttingDown env then v
      else v\<lparr>api_username := username, api_password := password, api_client := client, m_isAuthenticated := False,
             api_pending := api_pending v @ [kind], api_requests := api_requests v @ [kind]\<rparr>)"

definition checkExpiry :: "connection_environment \<Rightarrow> voice_connection \<Rightarrow> voice_connection" where
  "checkExpiry env v =
     (if (case m_expiryLocalUtc v of None \<Rightarrow> True | Some e \<Rightarrow> conn_clock env > e - 5 * 60 * 1000)
      then api_connectTo env Renewal (api_username v) (api_password v) (api_client v) v else v)"

definition sendToNetworkIfAuthenticated :: "connection_environment \<Rightarrow> voice_connection \<Rightarrow> bool" where
  "sendToNetworkIfAuthenticated env v \<longleftrightarrow> m_isAuthenticated v \<and> \<not> shuttingDown env"

definition addCallsign :: "connection_environment \<Rightarrow> string \<Rightarrow> voice_connection \<Rightarrow> PostCallsignResponseDto \<times> voice_connection" where
  "addCallsign env callsign v =
     (if \<not> sendToNetworkIfAuthenticated env v then (PostCallsignResponseDto_default, v)
      else let v = checkExpiry env v
           in (PostCallsignResponseDto_fromJson (fromBase64 env) (callsignReply env),
               v\<lparr>api_requests := api_requests v @ [PostCallsign callsign]\<rparr>))"

definition removeCallsign :: "connection_environment \<Rightarrow> string \<Rightarrow> voice_connection \<Rightarrow> voice_connection" where
  "removeCallsign env callsign v =
     (if shuttingDown env then v else v\<lparr>api_requests := api_requests v @ [DeleteCallsign callsign]\<rparr>)"

definition connection_updateTransceivers :: "connection_environment \<Rightarrow> string \<Rightarrow> voice_connection \<Rightarrow> voice_connection" where
  "connection_updateTransceivers env callsign v =
     (if \<not> sendToNetworkIfAuthenticated env v then v
      else let v = checkExpiry env v in v\<lparr>api_requests := api_requests v @ [PostTransceivers callsign]\<rparr>)"

text \<open>
  The life time of a login in seconds and the offset of the server's clock, from the members of its token: both \<open>-1\<close>
  where the token has none. A time that is no 32-bit integer counts as missing.
\<close>

definition token_times :: "int \<Rightarrow> json_object \<Rightarrow> int \<times> int" where
  "token_times localSecsSinceEpoch doc =
     (if doc = [] then (- 1, - 1)
      else let validFromSecs = j_toInt_default (- 1) (j_value doc ''nbf'') in
        if validFromSecs < 0 then (- 1, - 1)
        else let serverToUserOffsetSecs = validFromSecs - localSecsSinceEpoch;
                 serverExpirySecs = j_toInt (j_value doc ''exp'');
                 expiryLocalUtc = serverExpirySecs - serverToUserOffsetSecs
             in (expiryLocalUtc - localSecsSinceEpoch, serverToUserOffsetSecs))"

text \<open>The answer: nothing for an error, or the members of the token.\<close>

definition api_answered :: "connection_environment \<Rightarrow> json_object option \<Rightarrow> voice_connection \<Rightarrow> bool \<times> voice_connection" where
  "api_answered env answer v =
     (case answer of
        None \<Rightarrow> (False, v)
      | Some doc \<Rightarrow>
          let v = v\<lparr>m_serverToUserOffsetMs := 0, m_expiryLocalUtc := None\<rparr>;
              (lifeTimeSecs, serverToUserOffsetSecs) = token_times (conn_clock env div 1000) doc;
              v = (if lifeTimeSecs > 0
                   then v\<lparr>m_serverToUserOffsetMs := serverToUserOffsetSecs * 1000,
                          m_expiryLocalUtc := Some (conn_clock env + lifeTimeSecs * 1000), m_isAuthenticated := True\<rparr>
                   else v)
          in (m_isAuthenticated v, v))"

subsection \<open>The connection\<close>

definition connection_connectTo ::
    "connection_environment \<Rightarrow> string \<Rightarrow> string \<Rightarrow> string \<Rightarrow> string \<Rightarrow> voice_connection \<Rightarrow> voice_connection" where
  "connection_connectTo env userName password callsign client v =
     (if vc_connected v then v
      else api_connectTo env (Login userName password callsign client) userName password client (v\<lparr>vc_userName := userName, vc_callsign := callsign\<rparr>))"

text \<open>What a login's answer does.\<close>

definition login_answered :: "connection_environment \<Rightarrow> bool \<Rightarrow> voice_connection \<Rightarrow> voice_connection" where
  "login_answered env authenticated v =
     (let v = (if authenticated
               then
                 let (tokens, v) = addCallsign env (vc_callsign v) v;
                     v = v\<lparr>vc_tokens := tokens, m_authenticatedDateTimeUtc := Some (conn_clock env)\<rparr>;
                     v = setTsHeartbeatToNow (conn_clock env) (createCryptoChannels v)
                 in v\<lparr>vc_voiceServerTimer := True\<rparr>
               else connection_reset v)
      in v\<lparr>vc_connected := authenticated\<rparr>)"

definition connection_disconnectFrom :: "connection_environment \<Rightarrow> voice_connection \<Rightarrow> voice_connection" where
  "connection_disconnectFrom env v =
     (if \<not> vc_connected v then v
      else
        let v = v\<lparr>vc_connected := False\<rparr>;
            v = (if vc_callsign v \<noteq> [] then removeCallsign env (vc_callsign v) v else v);
            v = v\<lparr>vc_voiceServerTimer := False\<rparr>;
            v = v\<lparr>m_isAuthenticated := False\<rparr>
        in connection_reset v)"

definition sendToVoiceServer :: "connection_environment \<Rightarrow> bytes \<Rightarrow> bytes \<Rightarrow> voice_connection \<Rightarrow> voice_connection" where
  "sendToVoiceServer env dtoShortName dto v =
     (case m_voiceCryptoChannel v of
        None \<Rightarrow> v
      | Some ch \<Rightarrow>
          let (dataBytes, ch) = serialize_on_channel (library env) (conn_clock env) AEAD_ChaCha20Poly1305 dtoShortName dto ch
          in v\<lparr>m_voiceCryptoChannel := Some ch,
               sent_datagrams := sent_datagrams v @ [(tok_addressIpV4 (vc_tokens v), dataBytes)]\<rparr>)"

definition voiceServerHeartbeat :: "connection_environment \<Rightarrow> voice_connection \<Rightarrow> voice_connection" where
  "voiceServerHeartbeat env v = sendToVoiceServer env name_H (pack_heartbeat env (vc_callsign v)) v"

definition processMessage :: "connection_environment \<Rightarrow> bytes \<Rightarrow> bool \<Rightarrow> voice_connection \<Rightarrow> voice_fault + voice_connection" where
  "processMessage env messageData loopback v =
     (case m_voiceCryptoChannel v of
        None \<Rightarrow> Inr v
      | Some ch \<Rightarrow>
          (case deserialize (library env) loopback messageData ch of
             Inl f \<Rightarrow> Inl f
           | Inr d \<Rightarrow>
               if m_dtoNameBuffer d = name_AR
               then (case getDto name_AudioRx name_AR (unpack_audio env) AudioRxOnTransceiversDto_default d of
                       Inl f \<Rightarrow> Inl f
                     | Inr dto \<Rightarrow> Inr (if m_receiveAudio v \<and> vc_connected v then v\<lparr>audio_received := audio_received v @ [dto]\<rparr> else v))
               else if m_dtoNameBuffer d = name_HA then Inr (setTsHeartbeatToNow (conn_clock env) v)
               else Inr v))"

subsection \<open>Everything that may happen to the connection\<close>

datatype connection_event =
  ConnectTo string string string string
| Answered nat "json_object option"
| DisconnectFrom
| DatagramArrived bytes
| HeartbeatTimer
| SendVoice bytes bytes
| SetReceiveAudio bool
| UpdateTransceivers string

fun connection_enabled :: "connection_environment \<Rightarrow> connection_event \<Rightarrow> voice_connection \<Rightarrow> bool" where
  "connection_enabled env (Answered n answer) v \<longleftrightarrow> n < length (api_pending v) \<and> \<not> shuttingDown env"
| "connection_enabled env HeartbeatTimer v \<longleftrightarrow> vc_voiceServerTimer v"
| "connection_enabled env _ v \<longleftrightarrow> True"

definition answer_request :: "connection_environment \<Rightarrow> nat \<Rightarrow> json_object option \<Rightarrow> voice_connection \<Rightarrow> voice_connection" where
  "answer_request env n answer v =
     (let kind = api_pending v ! n;
          v = v\<lparr>api_pending := take n (api_pending v) @ drop (n + 1) (api_pending v)\<rparr>;
          (authenticated, v) = api_answered env answer v
      in if kind = Renewal then v else login_answered env authenticated v)"

fun connection_handle :: "connection_environment \<Rightarrow> connection_event \<Rightarrow> voice_connection \<Rightarrow> voice_fault + voice_connection" where
  "connection_handle env (ConnectTo user password callsign client) v = Inr (connection_connectTo env user password callsign client v)"
| "connection_handle env (Answered n answer) v = Inr (answer_request env n answer v)"
| "connection_handle env DisconnectFrom v = Inr (connection_disconnectFrom env v)"
| "connection_handle env (DatagramArrived message) v = processMessage env message False v"
| "connection_handle env HeartbeatTimer v = Inr (voiceServerHeartbeat env v)"
| "connection_handle env (SendVoice name dto) v = Inr (sendToVoiceServer env name dto v)"
| "connection_handle env (SetReceiveAudio b) v = Inr (v\<lparr>m_receiveAudio := b\<rparr>)"
| "connection_handle env (UpdateTransceivers callsign) v = Inr (connection_updateTransceivers env callsign v)"

inductive connection_reachable :: "voice_connection \<Rightarrow> bool" where
  connection_start: "connection_reachable CClientConnection"
| connection_step: "connection_reachable v \<Longrightarrow> connection_enabled env ev v \<Longrightarrow> connection_handle env ev v = Inr v'
    \<Longrightarrow> connection_reachable v'"

text \<open>Heartbeats are only sent where there is a channel; a connection has one, and a time it was logged in at.\<close>

definition connection_ok :: "voice_connection \<Rightarrow> bool" where
  "connection_ok v \<longleftrightarrow> (vc_voiceServerTimer v \<longrightarrow> m_voiceCryptoChannel v \<noteq> None)
     \<and> (vc_connected v \<longrightarrow> vc_voiceServerTimer v \<and> m_authenticatedDateTimeUtc v \<noteq> None)
     \<and> (\<forall>ch. m_voiceCryptoChannel v = Some ch \<longrightarrow> window ch = [])"

lemma channel_kept_empty:
  "m_voiceCryptoChannel (sendToVoiceServer env n d v) = Some ch \<Longrightarrow> \<exists>ch0. m_voiceCryptoChannel v = Some ch0 \<and> window ch = window ch0"
  by (auto simp: sendToVoiceServer_def serialize_on_channel_def getTransmitKey_sequence_def window_def Let_def split: option.splits)

lemma sendToVoiceServer_ok: "connection_ok v \<Longrightarrow> connection_ok (sendToVoiceServer env n d v)"
  using channel_kept_empty [of env n d v]
  by (auto simp: connection_ok_def sendToVoiceServer_def case_prod_beta Let_def split: option.splits)

lemma api_connectTo_ok [simp]: "connection_ok v \<Longrightarrow> connection_ok (api_connectTo env k u p c v)"
  by (simp add: connection_ok_def api_connectTo_def)

lemma checkExpiry_ok [simp]: "connection_ok v \<Longrightarrow> connection_ok (checkExpiry env v)"
  by (simp add: checkExpiry_def)

lemma answered_ok:
  "connection_ok v \<Longrightarrow> connection_ok (snd (api_answered env answer v))"
  "fst (api_answered env answer v) \<Longrightarrow> m_isAuthenticated (snd (api_answered env answer v))"
  by (auto simp: api_answered_def connection_ok_def case_prod_beta Let_def split: option.splits)

lemma valid_tokens: "sendToNetworkIfAuthenticated env v \<Longrightarrow> tok_isValid (fst (addCallsign env cs v))"
  by (simp add: addCallsign_def PostCallsignResponseDto_fromJson_def Let_def)

lemma addCallsign_ok: "connection_ok v \<Longrightarrow> connection_ok (snd (addCallsign env cs v))"
proof (cases "sendToNetworkIfAuthenticated env v")
  case True
  assume "connection_ok v"
  then have "connection_ok (checkExpiry env v)" by simp
  then show ?thesis using True by (simp add: addCallsign_def connection_ok_def Let_def)
qed (simp add: addCallsign_def)

lemma login_ok:
  assumes "connection_ok v" "authenticated \<Longrightarrow> sendToNetworkIfAuthenticated env v"
  shows "connection_ok (login_answered env authenticated v)"
proof (cases authenticated)
  case True
  then have "tok_isValid (fst (addCallsign env (vc_callsign v) v))" using valid_tokens assms(2) by blast
  then show ?thesis using True fresh_empty
    by (simp add: login_answered_def createCryptoChannels_def setTsHeartbeatToNow_def connection_ok_def case_prod_beta Let_def)
next
  case False
  then show ?thesis using assms(1) by (simp add: login_answered_def connection_reset_def connection_ok_def)
qed

lemma transceivers_ok: "connection_ok v \<Longrightarrow> connection_ok (connection_updateTransceivers env cs v)"
proof -
  have "connection_ok (w\<lparr>api_requests := l\<rparr>) = connection_ok w" for w l by (simp add: connection_ok_def)
  then show "connection_ok v \<Longrightarrow> ?thesis" by (simp add: connection_updateTransceivers_def Let_def)
qed

lemma removeCallsign_keeps [simp]:
  "vc_connected (removeCallsign env cs v) = vc_connected v" "m_voiceCryptoChannel (removeCallsign env cs v) = m_voiceCryptoChannel v"
  by (simp_all add: removeCallsign_def)

lemma disconnect_fields:
  "\<not> vc_connected (connection_disconnectFrom env v)"
  "m_voiceCryptoChannel (connection_disconnectFrom env v) = m_voiceCryptoChannel v"
  "vc_connected v \<Longrightarrow> \<not> vc_voiceServerTimer (connection_disconnectFrom env v)"
  "\<not> vc_connected v \<Longrightarrow> connection_disconnectFrom env v = v"
  by (simp_all add: connection_disconnectFrom_def connection_reset_def Let_def)

theorem connection_reachable_ok: "connection_reachable v \<Longrightarrow> connection_ok v"
proof (induction rule: connection_reachable.induct)
  case connection_start
  then show ?case by (simp add: connection_ok_def CClientConnection_def)
next
  case (connection_step v env ev v')
  note ok = connection_step.IH
  show ?case
  proof (cases ev)
    case (ConnectTo u p cs cl)
    have "connection_ok (v\<lparr>vc_userName := u, vc_callsign := cs\<rparr>)" using ok by (simp add: connection_ok_def)
    then show ?thesis using ConnectTo ok connection_step.hyps(3) by (auto simp: connection_connectTo_def)
  next
    case (Answered n answer)
    define v0 where "v0 = v\<lparr>api_pending := take n (api_pending v) @ drop (n + 1) (api_pending v)\<rparr>"
    have v0: "connection_ok v0" using ok by (simp add: v0_def connection_ok_def)
    have a: "connection_ok (snd (api_answered env answer v0))"
      "fst (api_answered env answer v0) \<Longrightarrow> sendToNetworkIfAuthenticated env (snd (api_answered env answer v0))"
      using answered_ok(1) [OF v0] answered_ok(2) [of env answer v0] connection_step.hyps(2) Answered
      by (auto simp: sendToNetworkIfAuthenticated_def)
    show ?thesis using Answered connection_step.hyps(3) a login_ok [OF a]
      by (auto simp: answer_request_def v0_def case_prod_beta Let_def)
  next
    case DisconnectFrom
    then have "v' = connection_disconnectFrom env v" using connection_step.hyps(3) by simp
    then show ?thesis using ok disconnect_fields [where v = v] by (cases "vc_connected v") (auto simp: connection_ok_def)
  next
    case (DatagramArrived message)
    then show ?thesis using ok connection_step.hyps(3)
      by (auto simp: processMessage_def setTsHeartbeatToNow_def connection_ok_def split: option.splits sum.splits if_splits)
  next
    case HeartbeatTimer
    then show ?thesis using ok connection_step.hyps(3) sendToVoiceServer_ok by (auto simp: voiceServerHeartbeat_def)
  next
    case (SendVoice n d)
    then show ?thesis using ok connection_step.hyps(3) sendToVoiceServer_ok by auto
  next
    case (SetReceiveAudio b)
    then show ?thesis using ok connection_step.hyps(3) by (auto simp: connection_ok_def)
  next
    case (UpdateTransceivers cs)
    then show ?thesis using transceivers_ok [OF ok] connection_step.hyps(3) by auto
  qed
qed

end
