(* ===== verification/VoiceReceiverFacts.thy ===== *)
theory VoiceReceiverFacts
  imports VoiceReceivers
begin

section \<open>What the voices keep to\<close>

text \<open>
  An input that is not in use has no callsign and nothing to play, one in use has a callsign no other
  input of the receiver has; buffers stay within their size. Every event keeps it, as long as voices carry a
  callsign.
\<close>

definition SampleRate :: int where "SampleRate = 48000"
definition wave_limit :: int where "wave_limit = 960000"

definition csp_ok :: "'f callsign_provider \<Rightarrow> bool" where
  "csp_ok p \<longleftrightarrow> (m_inUse p \<longleftrightarrow> csp_callsign p \<noteq> []) \<and> (\<not> m_inUse p \<longrightarrow> m_audioBuffer (m_audioInput p) = [])
     \<and> buffer_ok (m_audioInput p) \<and> m_maxBufferSize (m_audioInput p) = wave_limit \<and> csp_sampleRate p = SampleRate"

text \<open>A packet of opus data has at most ten seconds.\<close>

definition decoder_ok :: "'f voice_environment \<Rightarrow> bool" where
  "decoder_ok env \<longleftrightarrow> (\<forall>bs. int (length (decodeOpus env bs)) \<le> wave_limit)"

lemma setEffects_keeps [simp]:
  "csp_sampleRate (setEffects env f b p) = csp_sampleRate p" "csp_callsign (setEffects env f b p) = csp_callsign p"
  "m_inUse (setEffects env f b p) = m_inUse p" "m_audioInput (setEffects env f b p) = m_audioInput p"
  "m_underflow (setEffects env f b p) = m_underflow p" "csp_timer (setEffects env f b p) = csp_timer p"
  by (simp_all add: setEffects_def Let_def)

lemma idle_fields [simp]:
  "csp_callsign (csp_idle env f p) = []" "\<not> m_inUse (csp_idle env f p)" "m_audioInput (csp_idle env f p) = m_audioInput p"
  "csp_sampleRate (csp_idle env f p) = csp_sampleRate p"
  by (simp_all add: csp_idle_def)

lemma csp_start [simp]: "csp_ok (CCallsignSampleProvider SampleRate)"
  by (simp add: csp_ok_def CCallsignSampleProvider_def CBufferedWaveProvider_def SampleRate_def wave_limit_def buffer_ok_def int32_def c_int_id)

lemma csp_idle_ok: "csp_ok p \<Longrightarrow> m_audioBuffer (m_audioInput p) = [] \<Longrightarrow> csp_ok (csp_idle env f p)"
  by (simp add: csp_ok_def)

lemma csp_clear_ok [simp]: "csp_ok p \<Longrightarrow> csp_ok (csp_clear env f p)"
  by (auto simp: csp_ok_def csp_clear_def clearBuffer_def buffer_ok_def wave_limit_def Let_def)

lemma csp_clear_callsign [simp]: "csp_callsign (csp_clear env f p) = []"
  by (simp add: csp_clear_def Let_def)

lemma csp_bypass_ok [simp]:
  "csp_ok p \<Longrightarrow> csp_ok (csp_setBypassEffects env f b p)" "csp_callsign (csp_setBypassEffects env f b p) = csp_callsign p"
  by (auto simp: csp_ok_def csp_setBypassEffects_def)

lemma csp_silent_ok [simp]:
  "csp_ok p \<Longrightarrow> csp_ok (csp_addSilentSamples env f dto p)" "csp_callsign (csp_addSilentSamples env f dto p) = csp_callsign p"
  by (auto simp: csp_ok_def csp_addSilentSamples_def)

lemma csp_timer_ok [simp]: "csp_ok p \<Longrightarrow> csp_ok (csp_timerElapsed env f p)"
  by (simp add: csp_timerElapsed_def getBufferedBytes_def csp_idle_ok)

lemma csp_timer_callsign: "csp_callsign (csp_timerElapsed env f p) = csp_callsign p \<or> csp_callsign (csp_timerElapsed env f p) = []"
  by (simp add: csp_timerElapsed_def)

lemma csp_read_ok:
  assumes "csp_ok p"
  shows "csp_ok (snd (csp_readSamples env f n (c, p)))"
    and "csp_callsign (snd (csp_readSamples env f n (c, p))) \<in> {csp_callsign p, []}"
  using assms
  by (auto simp: csp_readSamples_def csp_ok_def wave_readSamples_def buffer_ok_def getBufferedBytes_def Let_def)

lemma csp_read_delays: "delays_ok c \<Longrightarrow> delays_ok (fst (csp_readSamples env f n (c, p)))"
  by (simp add: csp_readSamples_def Let_def)

lemma csp_active_ok:
  assumes "csp_ok p" "\<not> m_inUse p" "delays_ok c" "cs \<noteq> []"
  shows "\<exists>c' p'. csp_active env f cs ty (c, p) = Inr (c', p') \<and> csp_ok p' \<and> delays_ok c' \<and> csp_callsign p' = cs \<and> m_inUse p'"
proof -
  from initialised [OF assms(3)] obtain d where d: "delay_get cs (delay_initialise cs c) = (d, delay_initialise cs c)" "40 \<le> d" "d \<le> 300"
    by (auto simp: delay_defs)
  let ?s = "replicate (nat (c_int (c_int (c_div 48000 1000 * d) * 2))) (silence env)"
  have l: "c_int (c_int (c_div 48000 1000 * d) * 2) = 96 * d" using d by (simp add: c_div_def int32_def)
  have b: "m_audioBuffer (m_audioInput p) = []" "m_maxBufferSize (m_audioInput p) = wave_limit" "buffer_ok (m_audioInput p)"
    "csp_sampleRate p = 48000"
    using assms(1,2) by (auto simp: csp_ok_def SampleRate_def)
  then obtain b' where b': "addSamples ?s (m_audioInput p) = Inr b'" "buffer_ok b'" "m_maxBufferSize b' = wave_limit"
    using buffer_addSamples [of "m_audioInput p" ?s] d l by (auto simp: wave_limit_def)
  show ?thesis using d b b' assms
    by (simp add: csp_active_def Let_def) (simp add: csp_ok_def SampleRate_def)
qed

lemma csp_opus_ok:
  assumes "csp_ok p" "m_inUse p" "delays_ok c" "decoder_ok env"
  shows "\<exists>c' p'. csp_addOpusSamples env f dto ratio (c, p) = Inr (c', p') \<and> csp_ok p' \<and> delays_ok c' \<and> csp_callsign p' = csp_callsign p"
proof -
  have "buffer_ok (m_audioInput p)" "m_maxBufferSize (m_audioInput p) = wave_limit" using assms(1) by (simp_all add: csp_ok_def)
  then obtain b where "addSamples (decodeOpus env (dto_audio dto)) (m_audioInput p) = Inr b" "buffer_ok b" "m_maxBufferSize b = wave_limit"
    using buffer_addSamples [of "m_audioInput p" "decodeOpus env (dto_audio dto)"] assms(4) by (auto simp: decoder_ok_def)
  then show ?thesis using assms(1-3)
    by (simp add: csp_addOpusSamples_def Let_def) (auto simp: csp_ok_def)
qed

subsection \<open>Receivers\<close>

text \<open>The callsigns of the inputs, without the empty ones.\<close>

definition heard :: "'f callsign_provider list \<Rightarrow> string list" where
  "heard ps = filter (\<lambda>cs. cs \<noteq> []) (map csp_callsign ps)"

definition inputs_ok :: "'f callsign_provider list \<Rightarrow> bool" where
  "inputs_ok ps \<longleftrightarrow> list_all csp_ok ps \<and> distinct (heard ps)"

definition receiver_ok :: "'f receiver \<Rightarrow> bool" where
  "receiver_ok r \<longleftrightarrow> inputs_ok (m_voiceInputs r)"

lemma heard_simps [simp]: "heard [] = []"
  "heard (p # ps) = (if csp_callsign p = [] then heard ps else csp_callsign p # heard ps)" "heard (ps @ qs) = heard ps @ heard qs"
  by (simp_all add: heard_def)

lemma heard_subset:
  "list_all2 (\<lambda>p q. csp_callsign q = csp_callsign p \<or> csp_callsign q = []) ps qs \<Longrightarrow> set (heard qs) \<subseteq> set (heard ps)"
  by (induction rule: list_all2_induct) auto

lemma heard_distinct:
  "list_all2 (\<lambda>p q. csp_callsign q = csp_callsign p \<or> csp_callsign q = []) ps qs \<Longrightarrow> distinct (heard ps) \<Longrightarrow> distinct (heard qs)"
proof (induction rule: list_all2_induct)
  case (Cons p ps q qs)
  have "set (heard qs) \<subseteq> set (heard ps)" by (rule heard_subset [OF Cons.hyps(2)])
  then show ?case using Cons.hyps(1) Cons.IH Cons.prems by (auto split: if_splits)
qed simp

lemma inputs_ok_map:
  assumes "inputs_ok ps" "\<And>p. csp_ok p \<Longrightarrow> csp_ok (g p)" "\<And>p. csp_callsign (g p) = csp_callsign p \<or> csp_callsign (g p) = []"
  shows "inputs_ok (map g ps)"
proof -
  have "list_all2 (\<lambda>p q. csp_callsign q = csp_callsign p \<or> csp_callsign q = []) ps (map g ps)"
    using assms(3) by (simp add: list_all2_map2 list_all2_same)
  from heard_distinct [OF this] assms(1,2) show ?thesis by (auto simp: inputs_ok_def list_all_iff)
qed

lemma list_all2_update: "k < length ps \<Longrightarrow> (\<And>x. R x x) \<Longrightarrow> R (ps ! k) q \<Longrightarrow> list_all2 R ps (ps[k := q])"
  by (auto simp: list_all2_conv_all_nth nth_list_update)

text \<open>An input may change in place, unless its callsign becomes one that another has.\<close>

lemma inputs_ok_update:
  assumes "inputs_ok ps" "k < length ps" "csp_ok q"
    and "csp_callsign q = csp_callsign (ps ! k) \<or> csp_callsign q \<notin> set (heard ps)"
  shows "inputs_ok (ps[k := q])"
proof -
  have split: "ps = take k ps @ ps ! k # drop (Suc k) ps" using assms(2) by (simp add: id_take_nth_drop)
  have new: "ps[k := q] = take k ps @ q # drop (Suc k) ps" using assms(2) by (simp add: upd_conv_take_nth_drop)
  have h: "heard ps = heard (take k ps) @ heard [ps ! k] @ heard (drop (Suc k) ps)"
    by (subst split) simp
  have "list_all csp_ok (ps[k := q])"
    using assms(1,3) set_update_subset_insert [of ps k q] by (auto simp: inputs_ok_def list_all_iff)
  moreover have "distinct (heard (ps[k := q]))"
    using assms(1,4) unfolding new inputs_ok_def h by (auto split: if_splits)
  ultimately show ?thesis by (simp add: inputs_ok_def)
qed

lemma find_index_Some: "find_index P xs = Some i \<Longrightarrow> i < length xs \<and> P (xs ! i)"
  by (induction xs arbitrary: i) (auto split: if_splits)

lemma find_index_None: "find_index P xs = None \<longleftrightarrow> (\<forall>x\<in>set xs. \<not> P x)"
  by (induction xs) auto

lemma nth_csp_ok: "inputs_ok ps \<Longrightarrow> i < length ps \<Longrightarrow> csp_ok (ps ! i)"
  by (simp add: inputs_ok_def list_all_length)

lemma voice_input_ok:
  assumes "receiver_ok r" "delays_ok c" "cs \<noteq> []"
  shows "\<exists>c' r' i. voice_input env cs (c, r) = Inr ((c', r'), i) \<and> receiver_ok r' \<and> delays_ok c'
    \<and> m_id r' = m_id r \<and> m_frequencyHz r' = m_frequencyHz r \<and> m_mute r' = m_mute r
    \<and> (case i of None \<Rightarrow> True | Some k \<Rightarrow> k < length (m_voiceInputs r') \<and> csp_callsign (m_voiceInputs r' ! k) = cs
          \<and> m_inUse (m_voiceInputs r' ! k))"
proof (cases "find_index (\<lambda>p. csp_callsign p = cs) (m_voiceInputs r)")
  case (Some k)
  from find_index_Some [OF this] have k: "k < length (m_voiceInputs r)" "csp_callsign (m_voiceInputs r ! k) = cs" by blast+
  then have "m_inUse (m_voiceInputs r ! k)"
    using nth_csp_ok [of "m_voiceInputs r" k] assms by (simp add: receiver_ok_def csp_ok_def)
  with k Some assms show ?thesis by (simp add: voice_input_def)
next
  case none: None
  show ?thesis
  proof (cases "find_index (\<lambda>p. \<not> m_inUse p) (m_voiceInputs r)")
    case None
    then show ?thesis using none assms by (simp add: voice_input_def)
  next
    case (Some k)
    from find_index_Some [OF this] have k: "k < length (m_voiceInputs r)" "\<not> m_inUse (m_voiceInputs r ! k)" by blast+
    from csp_active_ok [OF nth_csp_ok [OF _ k(1)] k(2) assms(2,3)] assms(1)
    obtain c' p' where a: "csp_active env (m_frequencyHz r) cs [] (c, m_voiceInputs r ! k) = Inr (c', p')" "csp_ok p'" "delays_ok c'"
      "csp_callsign p' = cs" "m_inUse p'" unfolding receiver_ok_def by blast
    have "cs \<notin> set (heard (m_voiceInputs r))" using none by (auto simp: find_index_None heard_def)
    then have "inputs_ok ((m_voiceInputs r)[k := p'])"
      using inputs_ok_update [of "m_voiceInputs r" k p'] assms(1) k(1) a(2,4) by (simp add: receiver_ok_def)
    then show ?thesis using none Some a k(1) by (simp add: voice_input_def receiver_ok_def)
  qed
qed

lemma receiver_opus_ok:
  assumes "receiver_ok r" "delays_ok c" "dto_callsign dto \<noteq> []" "decoder_ok env"
  shows "\<exists>c' r'. receiver_addOpusSamples env dto f ratio (c, r) = Inr (c', r') \<and> receiver_ok r' \<and> delays_ok c' \<and> m_id r' = m_id r"
proof -
  obtain c1 r1 i where v: "voice_input env (dto_callsign dto) (c, r) = Inr ((c1, r1), i)" "receiver_ok r1" "delays_ok c1" "m_id r1 = m_id r"
    "case i of None \<Rightarrow> True | Some k \<Rightarrow> k < length (m_voiceInputs r1) \<and> csp_callsign (m_voiceInputs r1 ! k) = dto_callsign dto
          \<and> m_inUse (m_voiceInputs r1 ! k)"
    using voice_input_ok [OF assms(1-3), of env] by blast
  show ?thesis
  proof (cases i)
    case None
    then show ?thesis using v assms(1,2) by (simp add: receiver_addOpusSamples_def receiver_ok_def)
  next
    case (Some k)
    then have k: "k < length (m_voiceInputs r1)" "m_inUse (m_voiceInputs r1 ! k)" using v(5) by simp_all
    from csp_opus_ok [OF nth_csp_ok [OF _ k(1)] k(2) v(3) assms(4)] v(2)
    obtain c2 p where p: "csp_addOpusSamples env (m_frequencyHz r1) dto ratio (c1, m_voiceInputs r1 ! k) = Inr (c2, p)" "csp_ok p"
      "delays_ok c2" "csp_callsign p = csp_callsign (m_voiceInputs r1 ! k)" unfolding receiver_ok_def by blast
    have "inputs_ok ((m_voiceInputs r1)[k := p])"
      using inputs_ok_update [of "m_voiceInputs r1" k p] v(2) k(1) p(2,4) by (simp add: receiver_ok_def)
    then show ?thesis using v p Some assms(1,2) by (simp add: receiver_addOpusSamples_def receiver_ok_def)
  qed
qed

lemma receiver_silent_ok:
  assumes "receiver_ok r" "delays_ok c" "dto_callsign dto \<noteq> []"
  shows "\<exists>c' r'. receiver_addSilentSamples env dto f (c, r) = Inr (c', r') \<and> receiver_ok r' \<and> delays_ok c' \<and> m_id r' = m_id r"
proof -
  obtain c1 r1 i where v: "voice_input env (dto_callsign dto) (c, r) = Inr ((c1, r1), i)" "receiver_ok r1" "delays_ok c1" "m_id r1 = m_id r"
    "case i of None \<Rightarrow> True | Some k \<Rightarrow> k < length (m_voiceInputs r1) \<and> csp_callsign (m_voiceInputs r1 ! k) = dto_callsign dto
          \<and> m_inUse (m_voiceInputs r1 ! k)"
    using voice_input_ok [OF assms(1-3), of env] by blast
  show ?thesis
  proof (cases i)
    case None
    then show ?thesis using v assms(1,2) by (simp add: receiver_addSilentSamples_def)
  next
    case (Some k)
    then have k: "k < length (m_voiceInputs r1)" using v(5) by simp
    have "inputs_ok ((m_voiceInputs r1)[k := csp_addSilentSamples env (m_frequencyHz r1) dto (m_voiceInputs r1 ! k)])"
      using inputs_ok_update [of "m_voiceInputs r1" k] v(2) k nth_csp_ok [of "m_voiceInputs r1" k] by (simp add: receiver_ok_def)
    then show ?thesis using v Some assms(1,2) by (simp add: receiver_addSilentSamples_def receiver_ok_def)
  qed
qed

lemma read_inputs_keeps:
  assumes "list_all csp_ok ps" "delays_ok c"
  shows "list_all csp_ok (snd (read_inputs env f n c ps)) \<and> delays_ok (fst (read_inputs env f n c ps))
    \<and> list_all2 (\<lambda>p q. csp_callsign q = csp_callsign p \<or> csp_callsign q = []) ps (snd (read_inputs env f n c ps))"
  using assms
proof (induction ps arbitrary: c)
  case (Cons p ps)
  have "csp_ok p" using Cons.prems by simp
  from csp_read_ok [OF this, of env f n c] csp_read_delays [OF Cons.prems(2), of env f n p] Cons.IH [of "fst (csp_readSamples env f n (c, p))"] Cons.prems
  show ?case by (auto simp: case_prod_beta Let_def)
qed simp

lemma receiver_read_ok:
  assumes "receiver_ok r" "delays_ok c"
  shows "receiver_ok (snd (receiver_readSamples env n (c, r))) \<and> delays_ok (fst (receiver_readSamples env n (c, r)))
    \<and> m_id (snd (receiver_readSamples env n (c, r))) = m_id r"
proof -
  have "list_all csp_ok (m_voiceInputs r)" using assms(1) by (simp add: receiver_ok_def inputs_ok_def)
  note k = read_inputs_keeps [OF this assms(2), of env "m_frequencyHz r" n]
  have "inputs_ok (snd (read_inputs env (m_frequencyHz r) n c (m_voiceInputs r)))"
    using k heard_distinct assms(1) by (auto simp: receiver_ok_def inputs_ok_def)
  then show ?thesis using k by (simp add: receiver_readSamples_def receiver_ok_def case_prod_beta Let_def)
qed

lemma receiver_simple_ok:
  assumes "receiver_ok r"
  shows "receiver_ok (setFrequency env f r)" "receiver_ok (setMute env b r)" "receiver_ok (receiver_setBypassEffects env b r)"
    "i < length (m_voiceInputs r) \<Longrightarrow> receiver_ok (receiver_timerElapsed env i r)"
proof -
  show "receiver_ok (setFrequency env f r)" "receiver_ok (setMute env b r)" "receiver_ok (receiver_setBypassEffects env b r)"
    using assms unfolding receiver_ok_def
    by (auto simp: setFrequency_def setMute_def receiver_setBypassEffects_def Let_def intro!: inputs_ok_map)
  assume i: "i < length (m_voiceInputs r)"
  let ?q = "csp_timerElapsed env (m_frequencyHz r) (m_voiceInputs r ! i)"
  have ok: "inputs_ok (m_voiceInputs r)" using assms by (simp add: receiver_ok_def)
  have "[] \<notin> set (heard (m_voiceInputs r))" by (simp add: heard_def)
  then have "inputs_ok ((m_voiceInputs r)[i := ?q])"
    using csp_timer_callsign [of env "m_frequencyHz r" "m_voiceInputs r ! i"] nth_csp_ok [OF ok i]
    by (intro inputs_ok_update [OF ok i]) auto
  then show "receiver_ok (receiver_timerElapsed env i r)" by (simp add: receiver_timerElapsed_def receiver_ok_def)
qed

lemma receiver_ids [simp]:
  "m_id (setFrequency env f r) = m_id r" "m_id (setMute env b r) = m_id r" "m_id (receiver_setBypassEffects env b r) = m_id r"
  "m_id (receiver_timerElapsed env i r) = m_id r"
  by (simp_all add: setFrequency_def setMute_def receiver_setBypassEffects_def receiver_timerElapsed_def Let_def)

subsection \<open>The sound card\<close>

definition soundcard_ok :: "'f soundcard \<Rightarrow> bool" where
  "soundcard_ok s \<longleftrightarrow> list_all receiver_ok (m_receiverInputs s) \<and> set (m_receiverIDs s) = m_id ` set (m_receiverInputs s)
     \<and> distinct (map m_id (m_receiverInputs s))"

lemma soundcard_nth: "soundcard_ok s \<Longrightarrow> i < length (m_receiverInputs s) \<Longrightarrow> receiver_ok (m_receiverInputs s ! i)"
  by (simp add: soundcard_ok_def list_all_length)

lemma receiver_of_Some: "receiver_of n s = Some i \<Longrightarrow> i < length (m_receiverInputs s) \<and> m_id (m_receiverInputs s ! i) = n"
  unfolding receiver_of_def by (rule find_index_Some)

lemma map_update_same: "i < length xs \<Longrightarrow> f y = f (xs ! i) \<Longrightarrow> map f (xs[i := y]) = map f xs"
  by (auto intro!: nth_equalityI simp: nth_list_update)

lemma on_receiver_ok:
  assumes "soundcard_ok s" "i < length (m_receiverInputs s)" "receiver_ok (f (m_receiverInputs s ! i))"
    and "m_id (f (m_receiverInputs s ! i)) = m_id (m_receiverInputs s ! i)"
  shows "soundcard_ok (on_receiver i f s)"
proof -
  have ids: "map m_id ((m_receiverInputs s)[i := f (m_receiverInputs s ! i)]) = map m_id (m_receiverInputs s)"
    using assms(2,4) by (rule map_update_same)
  have "list_all receiver_ok ((m_receiverInputs s)[i := f (m_receiverInputs s ! i)])"
    using assms(1,3) set_update_subset_insert [of "m_receiverInputs s" i] by (auto simp: soundcard_ok_def list_all_iff)
  moreover have "m_id ` set ((m_receiverInputs s)[i := f (m_receiverInputs s ! i)]) = m_id ` set (m_receiverInputs s)"
    by (metis ids set_map)
  ultimately show ?thesis using assms(1) ids by (simp add: soundcard_ok_def on_receiver_def)
qed

lemma soundcard_map_ok:
  assumes "soundcard_ok s" "\<And>r. receiver_ok r \<Longrightarrow> receiver_ok (f r)" "\<And>r. m_id (f r) = m_id r"
  shows "soundcard_ok (s\<lparr>m_receiverInputs := map f (m_receiverInputs s)\<rparr>)"
  using assms by (auto simp: soundcard_ok_def list_all_iff image_image comp_def)

lemma soundcard_start [simp]: "distinct ids \<Longrightarrow> soundcard_ok (CSoundcardSampleProvider SampleRate ids)"
  by (auto simp: soundcard_ok_def CSoundcardSampleProvider_def CReceiverSampleProvider_def receiver_ok_def inputs_ok_def heard_def
    list_all_iff CCallsignSampleProvider_def [of SampleRate, THEN arg_cong [of _ _ csp_callsign]] comp_def image_image)

lemma add_to_receivers_ok:
  assumes "soundcard_ok s" "delays_ok c" "dto_callsign dto \<noteq> []" "decoder_ok env"
  shows "\<exists>c' s'. add_to_receivers env dto rxs handled played (c, s) = Inr (c', s') \<and> soundcard_ok s' \<and> delays_ok c'"
  using assms(1,2)
proof (induction rxs arbitrary: handled played c s)
  case (Cons rx rxs)
  show ?case
  proof (cases "rx_id rx \<in> set handled \<or> receiver_of (rx_id rx) s = None")
    case True
    then show ?thesis using Cons by auto
  next
    case False
    then obtain i where i: "receiver_of (rx_id rx) s = Some i" by blast
    note in_range = receiver_of_Some [OF i]
    let ?r = "m_receiverInputs s ! i"
    show ?thesis
    proof (cases "m_mute ?r")
      case True
      then show ?thesis using False i Cons by (simp add: Let_def)
    next
      case unmuted: False
      have ok: "receiver_ok ?r" using soundcard_nth [OF Cons.prems(1)] in_range by blast
      obtain c1 r1 where r1: "(if \<not> played then receiver_addOpusSamples env dto (rx_frequency rx) (rx_distanceRatio rx) (c, ?r)
            else receiver_addSilentSamples env dto (rx_frequency rx) (c, ?r)) = Inr (c1, r1)"
          "receiver_ok r1" "delays_ok c1" "m_id r1 = m_id ?r"
        using receiver_opus_ok [OF ok Cons.prems(2) assms(3,4)] receiver_silent_ok [OF ok Cons.prems(2) assms(3)]
        by (cases played) (simp, blast)+
      have "soundcard_ok (on_receiver i (\<lambda>_. r1) s)"
        using on_receiver_ok [OF Cons.prems(1), of i "\<lambda>_. r1"] in_range r1 by blast
      from Cons.IH [OF this r1(3)] r1(1) False i unmuted show ?thesis by (simp add: Let_def)
    qed
  qed
qed auto

lemma read_receivers_ok:
  assumes "list_all receiver_ok rs" "delays_ok c"
  shows "list_all receiver_ok (snd (read_receivers env n c rs)) \<and> delays_ok (fst (read_receivers env n c rs))
    \<and> map m_id (snd (read_receivers env n c rs)) = map m_id rs"
  using assms
proof (induction rs arbitrary: c)
  case (Cons r rs)
  have "receiver_ok r" using Cons.prems by simp
  from receiver_read_ok [OF this Cons.prems(2), of env n] Cons.IH [of "fst (receiver_readSamples env n (c, r))"] Cons.prems
  show ?case by (auto simp: case_prod_beta Let_def)
qed simp

lemma soundcard_read_ok:
  assumes "soundcard_ok s" "delays_ok c"
  shows "soundcard_ok (snd (soundcard_readSamples env n (c, s))) \<and> delays_ok (fst (soundcard_readSamples env n (c, s)))"
proof -
  have "list_all receiver_ok (m_receiverInputs s)" using assms(1) by (simp add: soundcard_ok_def)
  note k = read_receivers_ok [OF this assms(2), of env n]
  have "set (map m_id (snd (read_receivers env n c (m_receiverInputs s)))) = set (map m_id (m_receiverInputs s))" using k by simp
  then have "m_id ` set (snd (read_receivers env n c (m_receiverInputs s))) = m_id ` set (m_receiverInputs s)" by simp
  then show ?thesis using k assms(1) by (simp add: soundcard_readSamples_def soundcard_ok_def case_prod_beta Let_def)
qed

lemma ptt_ok:
  assumes "soundcard_ok s"
  shows "soundcard_ok (pttUpdate env b txs s)"
proof -
  have "soundcard_ok (fold (\<lambda>tx s. case receiver_of tx s of None \<Rightarrow> s | Some i \<Rightarrow> on_receiver i (setMute env True) s) l s)" for l
    using assms
  proof (induction l arbitrary: s)
    case (Cons tx l)
    have "soundcard_ok (case receiver_of tx s of None \<Rightarrow> s | Some i \<Rightarrow> on_receiver i (setMute env True) s)"
      using Cons.prems receiver_of_Some [of tx s] soundcard_nth [OF Cons.prems]
      by (auto split: option.split intro!: on_receiver_ok receiver_simple_ok)
    then show ?case by (simp add: Cons.IH)
  qed simp
  then show ?thesis using assms by (auto simp: pttUpdate_def intro!: soundcard_map_ok receiver_simple_ok)
qed

lemma tune_result:
  assumes "soundcard_ok s"
  shows "(\<exists>s'. tune_receivers env txs s = Inr s' \<and> soundcard_ok s' \<and> map m_id (m_receiverInputs s') = map m_id (m_receiverInputs s))
      \<and> fst ` set txs \<subseteq> m_id ` set (m_receiverInputs s)
    \<or> tune_receivers env txs s = Inl (OutOfRange (length (m_receiverInputs s))) \<and> \<not> fst ` set txs \<subseteq> m_id ` set (m_receiverInputs s)"
  using assms
proof (induction txs arbitrary: s)
  case (Cons tx txs)
  obtain n f where tx: "tx = (n, f)" by fastforce
  show ?case
  proof (cases "receiver_of n s")
    case None
    then have "n \<notin> m_id ` set (m_receiverInputs s)" by (auto simp: receiver_of_def find_index_None)
    then show ?thesis using None by (auto simp: tx)
  next
    case (Some i)
    note in_range = receiver_of_Some [OF Some]
    let ?s = "on_receiver i (setFrequency env f) s"
    have ok: "soundcard_ok ?s"
      using in_range soundcard_nth [OF Cons.prems] by (intro on_receiver_ok [OF Cons.prems]) (auto intro: receiver_simple_ok)
    have ids: "map m_id (m_receiverInputs ?s) = map m_id (m_receiverInputs s)"
      using in_range by (simp add: on_receiver_def map_update_same)
    have len: "length (m_receiverInputs ?s) = length (m_receiverInputs s)" by (simp add: on_receiver_def)
    have set: "m_id ` set (m_receiverInputs ?s) = m_id ` set (m_receiverInputs s)"
      using arg_cong [OF ids, of set] by simp
    have "n \<in> m_id ` set (m_receiverInputs s)" using in_range by auto
    then show ?thesis using Cons.IH [OF ok] Some len by (auto simp: tx ids set)
  qed
qed simp

lemma update_transceivers_ok:
  assumes "soundcard_ok s" "updateRadioTransceivers env txs s = Inr s'"
  shows "soundcard_ok s'"
proof -
  obtain s1 where s1: "tune_receivers env txs s = Inr s1" "soundcard_ok s1"
    using tune_result [OF assms(1), of env txs] assms(2) by (auto simp: updateRadioTransceivers_def)
  have "s' = s1\<lparr>m_receiverInputs := map (\<lambda>r. if m_id r \<in> fst ` set txs then r else setFrequency env 0 r) (m_receiverInputs s1)\<rparr>"
    using assms(2) s1(1) by (simp add: updateRadioTransceivers_def)
  then show ?thesis using s1(2) by (auto intro!: soundcard_map_ok receiver_simple_ok)
qed

subsection \<open>Everything that may happen to the voices\<close>

datatype voice_event =
  SamplesRead nat
| VoiceHeard IAudioDto "RxTransceiverDto list"
| PushToTalk bool "16 word list"
| Tuned "(16 word \<times> 32 word) list"
| VoiceTimer nat nat
| BypassEffects bool

fun voice_enabled :: "voice_event \<Rightarrow> 'f soundcard \<Rightarrow> bool" where
  "voice_enabled (VoiceTimer i k) s \<longleftrightarrow> i < length (m_receiverInputs s) \<and> k < length (m_voiceInputs (m_receiverInputs s ! i))
     \<and> csp_timer (m_voiceInputs (m_receiverInputs s ! i) ! k)"
| "voice_enabled _ s \<longleftrightarrow> True"

fun voice_handle :: "'f voice_environment \<Rightarrow> voice_event \<Rightarrow> delay_cache \<times> 'f soundcard \<Rightarrow> fault + delay_cache \<times> 'f soundcard" where
  "voice_handle env (SamplesRead n) cs = Inr (soundcard_readSamples env n cs)"
| "voice_handle env (VoiceHeard dto rxs) cs = soundcard_addOpusSamples env dto rxs cs"
| "voice_handle env (PushToTalk b txs) (c, s) = Inr (c, pttUpdate env b txs s)"
| "voice_handle env (Tuned txs) (c, s) = and_then (updateRadioTransceivers env txs s) (\<lambda>s. Inr (c, s))"
| "voice_handle env (VoiceTimer i k) (c, s) = Inr (c, on_receiver i (receiver_timerElapsed env k) s)"
| "voice_handle env (BypassEffects b) (c, s) = Inr (c, soundcard_setBypassEffects env b s)"

fun named_voice :: "voice_event \<Rightarrow> bool" where
  "named_voice (VoiceHeard dto rxs) \<longleftrightarrow> dto_callsign dto \<noteq> []"
| "named_voice _ \<longleftrightarrow> True"

inductive voices_reachable :: "16 word list \<Rightarrow> delay_cache \<Rightarrow> 'f soundcard \<Rightarrow> bool" for ids where
  voices_start: "voices_reachable ids delay_cache_empty (CSoundcardSampleProvider SampleRate ids)"
| voices_step: "voices_reachable ids c s \<Longrightarrow> decoder_ok env \<Longrightarrow> voice_enabled ev s \<Longrightarrow> named_voice ev
    \<Longrightarrow> voice_handle env ev (c, s) = Inr (c', s') \<Longrightarrow> voices_reachable ids c' s'"

theorem voices_reachable_ok:
  assumes "voices_reachable ids c s" "distinct ids"
  shows "soundcard_ok s \<and> delays_ok c"
  using assms(1)
proof induction
  case voices_start
  then show ?case using assms(2) by simp
next
  case (voices_step c s env ev c' s')
  then have ok: "soundcard_ok s" "delays_ok c" by blast+
  show ?case
  proof (cases ev)
    case (SamplesRead n)
    then show ?thesis using soundcard_read_ok [OF ok, of env n] voices_step.hyps(5) by (metis Inr_inject fst_conv snd_conv voice_handle.simps(1))
  next
    case (VoiceHeard dto rxs)
    then have "dto_callsign dto \<noteq> []" using voices_step.hyps(4) by simp
    from add_to_receivers_ok [OF ok this voices_step.hyps(2)] show ?thesis using VoiceHeard voices_step.hyps(5)
      by (auto simp: soundcard_addOpusSamples_def Let_def) (metis Inr_inject prod.inject)+
  next
    case (PushToTalk b txs)
    then show ?thesis using ok ptt_ok voices_step.hyps(5) by auto
  next
    case (Tuned txs)
    then show ?thesis using ok update_transceivers_ok voices_step.hyps(5) by (fastforce simp: and_then_eq_Inr)
  next
    case (VoiceTimer i k)
    then show ?thesis using ok voices_step.hyps(3,5) soundcard_nth [OF ok(1), of i]
      by (auto intro!: on_receiver_ok receiver_simple_ok)
  next
    case (BypassEffects b)
    then show ?thesis using ok voices_step.hyps(5) by (auto simp: soundcard_setBypassEffects_def intro!: soundcard_map_ok receiver_simple_ok)
  qed
qed

subsection \<open>Reading to the end\<close>

text \<open>An input that got its last packet becomes free when its buffer is empty.\<close>

lemma read_releases:
  assumes "m_inUse p" "m_lastPacketLatch p" "length (m_audioBuffer (m_audioInput p)) \<le> count"
  shows "\<not> m_inUse (snd (csp_readSamples env f count (c, p))) \<and> csp_callsign (snd (csp_readSamples env f count (c, p))) = []
    \<and> fst (csp_readSamples env f count (c, p)) = c"
  using assms by (simp add: csp_readSamples_def wave_readSamples_def getBufferedBytes_def Let_def)

lemma read_waits:
  assumes "count < length (m_audioBuffer (m_audioInput p))"
  shows "csp_readSamples env f count (c, p) = (c, p\<lparr>m_audioInput := (m_audioInput p)\<lparr>m_audioBuffer := drop count (m_audioBuffer (m_audioInput p))\<rparr>\<rparr>)"
  using assms by (simp add: csp_readSamples_def wave_readSamples_def getBufferedBytes_def Let_def)

end
