(* ===== verification/VoiceClient.thy ===== *)
theory VoiceClient
  imports VoiceConnection VoiceReceiverFacts
begin

section \<open>The voice client\<close>

text \<open>
  \<open>CAfvClient\<close> (\<open>src/src/blackcore/afv/clients/afvclient.cpp\<close>): it holds the connection and the receivers,
  tunes the receivers from the own aircraft's radios, sends what the microphone gives while the button
  is pressed, and tries again when the connection fails. Volumes, devices and locks are not modelled.
  The mutexes make each method atomic, and methods called in another thread are those called
  in the own one. A timer that fires once is an entry of \<open>afv_shots\<close> with the time it is due.
\<close>

datatype ComUnit = Com1 | Com2

record TransceiverDto =
  tr_id :: "16 word"
  tr_frequencyHz :: "32 word"
  LatDeg :: double
  LonDeg :: double
  HeightMslM :: double
  HeightAglM :: double

record StationDto =
  sta_name :: string
  sta_frequencyHz :: "32 word"
  sta_frequencyAliasHz :: "32 word"

record AudioTxOnTransceiversDto =
  txd_callsign :: string
  txd_sequenceCounter :: "32 word"
  txd_audio :: bytes
  txd_lastPacket :: bool
  txd_transceivers :: "16 word list"

text \<open>
  Outside of the client: what the connection and the voices find, the own aircraft (its position, its radios), the
  online station closest to it on a frequency, the answer to the query for aliased stations, and settings.
\<close>

record 'f afv_environment =
  at_connection :: connection_environment
  at_voice :: "'f voice_environment"
  hasContexts :: bool
  fsdConnected :: bool
  ownLatitudeDeg :: double
  ownLongitudeDeg :: double
  ownAltitudeM :: double
  ownAltitudeFt :: double
  com1Hz :: "32 word"
  com2Hz :: "32 word"
  com1Transmit :: bool
  com1Receive :: bool
  com2Transmit :: bool
  com2Receive :: bool
  networkContext :: bool
  closestStation :: "32 word \<Rightarrow> string"
  aliasedStationsReply :: "StationDto list"
  comIntegrated :: bool
  effectsEnabled :: bool
  sameDevices :: bool
  pack_audio :: "AudioTxOnTransceiversDto \<Rightarrow> bytes"

datatype afv_shot =
  NoAnswerCheck string string string string
| HeartbeatRetry string string string string
| Reconnect string string string string

datatype afv_event =
  connectionStatusChanged bool
| afvConnectionFailure int int
| updatedFromOwnAircraftCockpit
| ptt bool
| startedAudio
| stoppedAudio

record 'f afv_client =
  afv_connection :: voice_connection
  afv_delays :: delay_cache
  m_soundcardSampleProvider :: "'f soundcard option"
  afv_callsign :: string
  m_transmit :: bool
  m_transmitHistory :: bool
  m_transmittingTransceivers :: "16 word list"
  m_transceivers :: "TransceiverDto list"
  m_enabledTransceivers :: "16 word set"
  m_fsdConnectMismatches :: int
  m_retryConnectAttempt :: int
  m_heartBeatFailures :: int
  m_isStarted :: bool
  m_loopbackOn :: bool
  m_enableAliased :: bool
  m_integratedComUnit :: bool
  m_aliasedStations :: "StationDto list"
  afv_updateTimer :: bool
  afv_shots :: "(int \<times> afv_shot) list"
  afv_events :: "afv_event list"
  sent_audio :: "AudioTxOnTransceiversDto list"

definition PositionUpdatesMs :: int where "PositionUpdatesMs = 20000"
definition UniCom :: "32 word" where "UniCom = 122800000"

definition CAfvClient :: "'f afv_client" where
  "CAfvClient =
     \<lparr>afv_connection = CClientConnection\<lparr>m_receiveAudio := False\<rparr>, afv_delays = delay_cache_empty,
      m_soundcardSampleProvider = None, afv_callsign = [], m_transmit = False, m_transmitHistory = False,
      m_transmittingTransceivers = [], m_transceivers = [], m_enabledTransceivers = {}, m_fsdConnectMismatches = 0,
      m_retryConnectAttempt = 0, m_heartBeatFailures = 0, m_isStarted = False, m_loopbackOn = False, m_enableAliased = True,
      m_integratedComUnit = False, m_aliasedStations = [], afv_updateTimer = False, afv_shots = [], afv_events = [], sent_audio = []\<rparr>"

fun comUnitToTransceiverId :: "ComUnit \<Rightarrow> 16 word" where
  "comUnitToTransceiverId Com1 = 0"
| "comUnitToTransceiverId Com2 = 1"

definition transceiverIdToComUnit :: "16 word \<Rightarrow> ComUnit" where
  "transceiverIdToComUnit i = (if comUnitToTransceiverId Com1 = i then Com1 else if comUnitToTransceiverId Com2 = i then Com2 else Com1)"

definition afv_emit :: "afv_event \<Rightarrow> 'f afv_client \<Rightarrow> 'f afv_client" where
  "afv_emit e c = c\<lparr>afv_events := afv_events c @ [e]\<rparr>"

definition afv_singleShot :: "int \<Rightarrow> afv_shot \<Rightarrow> 'f afv_client \<Rightarrow> 'f afv_client" where
  "afv_singleShot t s c = c\<lparr>afv_shots := afv_shots c @ [(t, s)]\<rparr>"

abbreviation afv_clock :: "'f afv_environment \<Rightarrow> int" where
  "afv_clock env \<equiv> conn_clock (at_connection env)"

abbreviation afv_isConnected :: "'f afv_client \<Rightarrow> bool" where
  "afv_isConnected c \<equiv> vc_connected (afv_connection c)"

subsection \<open>Aliased stations\<close>

text \<open>The expression \<open>[(\-|_)]\<close> is one character out of five.\<close>

definition split_callsign :: "string \<Rightarrow> string list" where
  "split_callsign callsign = q_split (CHR ''_'') (map (\<lambda>c. if c \<in> set ''(-|)'' then CHR ''_'' else c) callsign)"

definition getPrefixSuffix :: "string \<Rightarrow> string \<times> string" where
  "getPrefixSuffix callsign =
     (let parts = split_callsign callsign
      in (if length parts > 0 then hd parts else [], if length parts > 1 then last parts else []))"

definition fuzzyMatchCallsign :: "string \<Rightarrow> string \<Rightarrow> bool" where
  "fuzzyMatchCallsign callsign compareTo \<longleftrightarrow>
     (if callsign = [] \<or> compareTo = [] then False else getPrefixSuffix callsign = getPrefixSuffix compareTo)"

text \<open>To whole kilohertz.\<close>

definition round_kHz :: "32 word \<Rightarrow> 32 word" where
  "round_kHz frequencyHz = word_of_int (qRound (d_div (d_of_int (uint frequencyHz)) (Fin 1000))) * 1000"

definition alias_matches :: "32 word \<Rightarrow> StationDto \<Rightarrow> bool" where
  "alias_matches roundedFrequencyHz d \<longleftrightarrow>
     (if sta_frequencyAliasHz d > 100000000 \<and> roundedFrequencyHz > 100000000
      then sta_frequencyAliasHz d div 10000 * 10000 = roundedFrequencyHz div 10000 * 10000
      else sta_frequencyAliasHz d = roundedFrequencyHz)"

definition getAliasFrequencyHz :: "'f afv_environment \<Rightarrow> 32 word \<Rightarrow> 'f afv_client \<Rightarrow> 32 word" where
  "getAliasFrequencyHz env frequencyHz c =
     (let roundedFrequencyHz = round_kHz frequencyHz in
      if \<not> m_enableAliased c then roundedFrequencyHz
      else case find (alias_matches roundedFrequencyHz) (m_aliasedStations c) of
             None \<Rightarrow> roundedFrequencyHz
           | Some station \<Rightarrow>
               if networkContext env
               then (if fuzzyMatchCallsign (sta_name station) (closestStation env roundedFrequencyHz)
                     then sta_frequencyHz station else roundedFrequencyHz)
               else sta_frequencyHz station)"

subsection \<open>Transceivers\<close>

text \<open>Telling the voice server and the receivers about the enabled transceivers.\<close>

definition publish_transceivers :: "'f afv_environment \<Rightarrow> TransceiverDto list \<Rightarrow> 'f afv_client \<Rightarrow> fault + 'f afv_client" where
  "publish_transceivers env newEnabledTransceivers c =
     (let c = c\<lparr>afv_connection := connection_updateTransceivers (at_connection env) (afv_callsign c) (afv_connection c)\<rparr> in
      case m_soundcardSampleProvider c of
        None \<Rightarrow> Inr c
      | Some s \<Rightarrow>
          and_then (updateRadioTransceivers (at_voice env) (map (\<lambda>t. (tr_id t, tr_frequencyHz t)) newEnabledTransceivers) s) (\<lambda>s.
            Inr (c\<lparr>m_soundcardSampleProvider := Some s\<rparr>)))"

definition updatePosition :: "double \<Rightarrow> double \<Rightarrow> double \<Rightarrow> 'f afv_client \<Rightarrow> 'f afv_client" where
  "updatePosition latitudeDeg longitudeDeg heightMeters c =
     c\<lparr>m_transceivers := map (\<lambda>t. t\<lparr>LatDeg := latitudeDeg, LonDeg := longitudeDeg, HeightAglM := heightMeters, HeightMslM := heightMeters\<rparr>)
         (m_transceivers c)\<rparr>"

text \<open>Without the update of the frequencies; the height is handed over in feet.\<close>

definition updateTransceivers_position :: "'f afv_environment \<Rightarrow> 'f afv_client \<Rightarrow> 'f afv_client" where
  "updateTransceivers_position env c =
     (if hasContexts env then updatePosition (ownLatitudeDeg env) (ownLongitudeDeg env) (ownAltitudeFt env) c else c)"

definition updateTransceivers_publish :: "'f afv_environment \<Rightarrow> 'f afv_client \<Rightarrow> fault + 'f afv_client" where
  "updateTransceivers_publish env c =
     publish_transceivers env (filter (\<lambda>t. tr_id t \<in> m_enabledTransceivers c) (m_transceivers c)) c"

definition updateComFrequency :: "'f afv_environment \<Rightarrow> 16 word \<Rightarrow> 32 word \<Rightarrow> 'f afv_client \<Rightarrow> fault + 'f afv_client" where
  "updateComFrequency env i frequencyHz c =
     (if i \<noteq> 0 \<and> i \<noteq> 1 then Inr c
      else
        let roundedFrequencyHz = getAliasFrequencyHz env (round_kHz frequencyHz) c; n = unat i in
        if length (m_transceivers c) \<ge> n + 1 \<and> tr_frequencyHz (m_transceivers c ! n) \<noteq> roundedFrequencyHz
        then updateTransceivers_publish env (updateTransceivers_position env
               (c\<lparr>m_transceivers := (m_transceivers c)[n := (m_transceivers c ! n)\<lparr>tr_frequencyHz := roundedFrequencyHz\<rparr>]\<rparr>))
        else Inr c)"

definition updateTransceivers :: "'f afv_environment \<Rightarrow> bool \<Rightarrow> 'f afv_client \<Rightarrow> fault + 'f afv_client" where
  "updateTransceivers env updateFrequencies c =
     (let c = updateTransceivers_position env c in
      and_then
        (if hasContexts env \<and> updateFrequencies
         then and_then (updateComFrequency env (comUnitToTransceiverId Com1) (com1Hz env) c) (\<lambda>c.
                updateComFrequency env (comUnitToTransceiverId Com2) (com2Hz env) c)
         else Inr c)
        (updateTransceivers_publish env))"

definition enableTransceiver :: "'f afv_environment \<Rightarrow> 16 word \<Rightarrow> bool \<Rightarrow> 'f afv_client \<Rightarrow> fault + 'f afv_client" where
  "enableTransceiver env i enable c =
     updateTransceivers env True
       (c\<lparr>m_enabledTransceivers := if enable then insert i (m_enabledTransceivers c) else m_enabledTransceivers c - {i}\<rparr>)"

definition updateFromOwnAircraft :: "'f afv_environment \<Rightarrow> bool \<Rightarrow> 'f afv_client \<Rightarrow> fault + 'f afv_client" where
  "updateFromOwnAircraft env withSignals c =
     (if shuttingDown (at_connection env) then Inr c
      else
        let tr = (\<lambda>unit f. \<lparr>tr_id = comUnitToTransceiverId unit, tr_frequencyHz = getAliasFrequencyHz env f c, LatDeg = ownLatitudeDeg env,
                     LonDeg = ownLongitudeDeg env, HeightMslM = ownAltitudeM env, HeightAglM = ownAltitudeM env\<rparr>);
            transceiverCom1 = tr Com1 (com1Hz env); transceiverCom2 = tr Com2 (com2Hz env);
            (newEnabledTransceivers, c) =
              (if m_integratedComUnit c
               then
                 let e1 = com1Receive env; e2 = com2Receive env;
                     newEnabledTransceivers = (if e1 then [transceiverCom1] else []) @ (if e2 then [transceiverCom2] else [])
                 in (newEnabledTransceivers,
                     c\<lparr>m_transceivers := [transceiverCom1, transceiverCom2], m_enabledTransceivers := tr_id ` set newEnabledTransceivers,
                       m_transmittingTransceivers :=
                         if com1Transmit env \<and> e1 then [tr_id transceiverCom1] else if com2Transmit env \<and> e2 then [tr_id transceiverCom2] else []\<rparr>)
               else
                 ((if comUnitToTransceiverId Com1 \<in> m_enabledTransceivers c then [transceiverCom1] else [])
                   @ (if comUnitToTransceiverId Com2 \<in> m_enabledTransceivers c then [transceiverCom2] else []), c)) in
        and_then (publish_transceivers env newEnabledTransceivers c) (\<lambda>c.
          Inr (if withSignals then afv_emit updatedFromOwnAircraftCockpit c else c)))"

subsection \<open>Connecting, and connecting again\<close>

definition afv_connectTo :: "'f afv_environment \<Rightarrow> string \<Rightarrow> string \<Rightarrow> string \<Rightarrow> string \<Rightarrow> 'f afv_client \<Rightarrow> 'f afv_client" where
  "afv_connectTo env cid password callsign client c =
     (let c = c\<lparr>afv_callsign := callsign\<rparr>;
          c = (if \<not> afv_isConnected c \<and> m_retryConnectAttempt c = 0
               then afv_singleShot (afv_clock env + 20 * 1000) (NoAnswerCheck cid password callsign client) c else c)
      in c\<lparr>afv_connection := connection_connectTo (at_connection env) cid password callsign client (afv_connection c)\<rparr>)"

definition afv_reconnectTo :: "'f afv_environment \<Rightarrow> string \<Rightarrow> string \<Rightarrow> string \<Rightarrow> string \<Rightarrow> int \<Rightarrow> int \<Rightarrow> 'f afv_client \<Rightarrow> 'f afv_client" where
  "afv_reconnectTo env cid password callsign client delayMs attempt c =
     afv_singleShot (afv_clock env + delayMs) (Reconnect cid password callsign client)
       (afv_emit (afvConnectionFailure (c_div delayMs 1000) attempt) c)"

definition retryConnectTo :: "'f afv_environment \<Rightarrow> string \<Rightarrow> string \<Rightarrow> string \<Rightarrow> string \<Rightarrow> 'f afv_client \<Rightarrow> 'f afv_client" where
  "retryConnectTo env cid password callsign client c =
     (if afv_isConnected c then c
      else
        let c = c\<lparr>m_retryConnectAttempt := c_int (m_retryConnectAttempt c + 1)\<rparr>;
            retrySecs = min (3 * 60) (c_int (m_retryConnectAttempt c * 30))
        in afv_reconnectTo env cid password callsign client (c_int (retrySecs * 1000)) (m_retryConnectAttempt c) c)"

definition stopAudio :: "'f afv_environment \<Rightarrow> 'f afv_client \<Rightarrow> 'f afv_client" where
  "stopAudio env c =
     (if \<not> m_isStarted c then c
      else afv_emit stoppedAudio (c\<lparr>m_isStarted := False, afv_connection := (afv_connection c)\<lparr>m_receiveAudio := False\<rparr>\<rparr>))"

definition afv_disconnectFrom :: "'f afv_environment \<Rightarrow> bool \<Rightarrow> 'f afv_client \<Rightarrow> 'f afv_client" where
  "afv_disconnectFrom env stop c =
     (let c = c\<lparr>afv_connection := connection_disconnectFrom (at_connection env) (afv_connection c),
                m_heartBeatFailures := 0, m_retryConnectAttempt := 0, m_fsdConnectMismatches := 0\<rparr>;
          c = afv_emit (connectionStatusChanged False) c
      in if stop then stopAudio env c else c)"

text \<open>The name and password of the connection are taken before it is reset.\<close>

definition checkServerHeartbeat :: "'f afv_environment \<Rightarrow> 'f afv_client \<Rightarrow> 'f afv_client" where
  "checkServerHeartbeat env c =
     (if \<not> m_isStarted c then c
      else if \<not> afv_isConnected c then c
      else if isVoiceServerAlive (afv_clock env) (afv_connection c) then c\<lparr>m_heartBeatFailures := 0\<rparr>
      else
        let c = c\<lparr>m_heartBeatFailures := c_int (m_heartBeatFailures c + 1)\<rparr> in
        if m_heartBeatFailures c < 2 then c
        else
          let un = vc_userName (afv_connection c); pw = api_password (afv_connection c);
              cs = vc_callsign (afv_connection c); client = api_client (afv_connection c) in
          if un = [] \<or> pw = [] then c
          else afv_singleShot (afv_clock env + 5 * 1000) (HeartbeatRetry un pw cs client) (afv_disconnectFrom env False c))"

definition autoLogoffWithoutFsdNetwork :: "'f afv_environment \<Rightarrow> 'f afv_client \<Rightarrow> 'f afv_client" where
  "autoLogoffWithoutFsdNetwork env c =
     (if \<not> hasContexts env then c
      else if \<not> afv_isConnected c then c\<lparr>m_fsdConnectMismatches := 0\<rparr>
      else if fsdConnected env then c\<lparr>m_fsdConnectMismatches := 0\<rparr>
      else
        let c = c\<lparr>m_fsdConnectMismatches := c_int (m_fsdConnectMismatches c + 1)\<rparr>
        in if m_fsdConnectMismatches c < 2 then c else afv_disconnectFrom env False c)"

definition fetchSimulatorSettings :: "'f afv_environment \<Rightarrow> 'f afv_client \<Rightarrow> 'f afv_client" where
  "fetchSimulatorSettings env c =
     (if \<not> hasContexts env then c
      else let changed = (comIntegrated env \<noteq> m_integratedComUnit c); c = c\<lparr>m_integratedComUnit := comIntegrated env\<rparr>
           in if changed then afv_emit updatedFromOwnAircraftCockpit c else c)"

definition onTimerUpdate :: "'f afv_environment \<Rightarrow> 'f afv_client \<Rightarrow> fault + 'f afv_client" where
  "onTimerUpdate env c =
     and_then
       (if hasContexts env
        then and_then (updateFromOwnAircraft env False c) (\<lambda>c. Inr (fetchSimulatorSettings env (autoLogoffWithoutFsdNetwork env c)))
        else updateTransceivers env True c)
       (\<lambda>c. Inr (checkServerHeartbeat env c))"

text \<open>What the client does when its login was answered, after the connection did its part.\<close>

definition afv_login_answered ::
    "'f afv_environment \<Rightarrow> string \<Rightarrow> string \<Rightarrow> string \<Rightarrow> string \<Rightarrow> bool \<Rightarrow> 'f afv_client \<Rightarrow> fault + 'f afv_client" where
  "afv_login_answered env cid password callsign client authenticated c =
     (let (stations, v) =
            (if sendToNetworkIfAuthenticated (at_connection env) (afv_connection c)
             then (aliasedStationsReply env, checkExpiry (at_connection env) (afv_connection c))
             else ([], afv_connection c));
          c = c\<lparr>afv_connection := v, m_aliasedStations := stations\<rparr> in
      and_then (onTimerUpdate env c) (\<lambda>c.
        Inr (if authenticated
             then afv_emit (connectionStatusChanged True) (c\<lparr>afv_updateTimer := True, m_retryConnectAttempt := 0\<rparr>)
             else afv_emit (connectionStatusChanged False) (retryConnectTo env cid password callsign client c))))"

fun afv_fire :: "'f afv_environment \<Rightarrow> afv_shot \<Rightarrow> 'f afv_client \<Rightarrow> 'f afv_client" where
  "afv_fire env (NoAnswerCheck cid pw cs client) c =
     (if m_retryConnectAttempt c > 0 then c else retryConnectTo env cid pw cs client c)"
| "afv_fire env (HeartbeatRetry un pw cs client) c = retryConnectTo env un pw cs client c"
| "afv_fire env (Reconnect cid pw cs client) c =
     (if afv_isConnected c then c else afv_connectTo env cid pw cs client c)"

subsection \<open>Starting, and talking\<close>

definition initTransceivers :: "'f afv_environment \<Rightarrow> 'f afv_client \<Rightarrow> fault + 'f afv_client" where
  "initTransceivers env c =
     (let tr = (\<lambda>i. \<lparr>tr_id = i, tr_frequencyHz = UniCom, LatDeg = mk_double (485 / 10), LonDeg = mk_double (115 / 10),
                     HeightMslM = Fin 1000, HeightAglM = Fin 1000\<rparr>)
      in onTimerUpdate env (c\<lparr>m_transceivers := [tr 0, tr 1], m_enabledTransceivers := {0, 1}, m_transmittingTransceivers := [0]\<rparr>))"

definition startAudio :: "'f afv_environment \<Rightarrow> 'f afv_client \<Rightarrow> fault + 'f afv_client" where
  "startAudio env c =
     (if m_isStarted c \<and> sameDevices env then Inr c
      else
        let c = (if m_isStarted c then stopAudio env c else c) in
        and_then (initTransceivers env c) (\<lambda>c.
          let s = soundcard_setBypassEffects (at_voice env) (\<not> effectsEnabled env) (CSoundcardSampleProvider SampleRate [0, 1]);
              c = c\<lparr>m_soundcardSampleProvider := Some s, afv_updateTimer := True,
                    afv_connection := (afv_connection c)\<lparr>m_receiveAudio := True\<rparr>, m_isStarted := True\<rparr> in
          and_then (onTimerUpdate env c) (\<lambda>c. Inr (afv_emit startedAudio c))))"

definition setRxTx :: "'f afv_environment \<Rightarrow> bool \<Rightarrow> bool \<Rightarrow> bool \<Rightarrow> bool \<Rightarrow> 'f afv_client \<Rightarrow> fault + 'f afv_client" where
  "setRxTx env rx1 tx1 rx2 tx2 c =
     onTimerUpdate env
       (c\<lparr>m_transmittingTransceivers :=
            (if tx1 then [comUnitToTransceiverId Com1] else []) @ (if tx2 then [comUnitToTransceiverId Com2] else []),
          m_enabledTransceivers :=
            (if rx1 \<or> tx1 then {comUnitToTransceiverId Com1} else {}) \<union> (if rx2 \<or> tx2 then {comUnitToTransceiverId Com2} else {})\<rparr>)"

definition getRxTx :: "'f afv_client \<Rightarrow> bool \<times> bool \<times> bool \<times> bool" where
  "getRxTx c =
     (comUnitToTransceiverId Com1 \<in> m_enabledTransceivers c, comUnitToTransceiverId Com1 \<in> set (m_transmittingTransceivers c),
      comUnitToTransceiverId Com2 \<in> m_enabledTransceivers c, comUnitToTransceiverId Com2 \<in> set (m_transmittingTransceivers c))"

definition setPttForCom :: "'f afv_environment \<Rightarrow> bool \<Rightarrow> 'f afv_client \<Rightarrow> 'f afv_client" where
  "setPttForCom env active c =
     (if \<not> m_isStarted c then c
      else if m_transmit c = active then c
      else
        let c = c\<lparr>m_transmit := active\<rparr>;
            c = c\<lparr>m_soundcardSampleProvider :=
                  map_option (pttUpdate (at_voice env) active (m_transmittingTransceivers c)) (m_soundcardSampleProvider c)\<rparr>
        in afv_emit (ptt active) c)"

definition send_audio :: "'f afv_environment \<Rightarrow> AudioTxOnTransceiversDto \<Rightarrow> 'f afv_client \<Rightarrow> 'f afv_client" where
  "send_audio env dto c =
     c\<lparr>sent_audio := sent_audio c @ [dto],
       afv_connection := sendToVoiceServer (at_connection env) name_AT (pack_audio env dto) (afv_connection c)\<rparr>"

text \<open>Samples for the receivers; the pointer to them is not checked.\<close>

definition play_audio :: "'f afv_environment \<Rightarrow> IAudioDto \<Rightarrow> RxTransceiverDto list \<Rightarrow> 'f afv_client \<Rightarrow> fault + 'f afv_client" where
  "play_audio env audioData rxTransceivers c =
     (case m_soundcardSampleProvider c of
        None \<Rightarrow> Inl EmptyContainer
      | Some s \<Rightarrow>
          and_then (soundcard_addOpusSamples (at_voice env) audioData rxTransceivers (afv_delays c, s)) (\<lambda>(d, s).
            Inr (c\<lparr>afv_delays := d, m_soundcardSampleProvider := Some s\<rparr>)))"

definition opusDataAvailable :: "'f afv_environment \<Rightarrow> bytes \<Rightarrow> 32 word \<Rightarrow> 'f afv_client \<Rightarrow> fault + 'f afv_client" where
  "opusDataAvailable env audio sequenceCounter c =
     (let transmit = m_transmit c; transmitHistory = m_transmitHistory c; transceivers = m_transceivers c in
      if m_loopbackOn c \<and> transmit
      then
        let com = (\<lambda>i. \<lparr>rx_id = of_nat i, rx_frequency = if length transceivers > i then tr_frequencyHz (transceivers ! i) else UniCom,
                        rx_distanceRatio = 1\<rparr>)
        in play_audio env \<lparr>dto_callsign = ''loopback'', dto_audio = audio, dto_lastPacket = False\<rparr> [com 0, com 1] c
      else if \<not> afv_isConnected c then Inr c
      else if m_transmittingTransceivers c = [] then Inr c
      else
        let dto = (\<lambda>lastPacket. \<lparr>txd_callsign = afv_callsign c, txd_sequenceCounter = sequenceCounter, txd_audio = audio,
                     txd_lastPacket = lastPacket, txd_transceivers = m_transmittingTransceivers c\<rparr>);
            c = (if transmit then send_audio env (dto False) c else c);
            c = (if \<not> transmit \<and> transmitHistory then send_audio env (dto True) c else c)
        in Inr (c\<lparr>m_transmitHistory := transmit\<rparr>))"

definition audioOutDataAvailable :: "'f afv_environment \<Rightarrow> AudioRxOnTransceiversDto \<Rightarrow> 'f afv_client \<Rightarrow> fault + 'f afv_client" where
  "audioOutDataAvailable env dto c =
     play_audio env \<lparr>dto_callsign = rxd_callsign dto, dto_audio = rxd_audio dto, dto_lastPacket = rxd_lastPacket dto\<rparr> (rxd_transceivers dto) c"

end
