(* ===== verification/VoiceClientMachine.thy ===== *)
theory VoiceClientMachine
  imports VoiceClient
begin

section \<open>Everything that may happen to the voice client\<close>

text \<open>
  The events that reach the client: calls of the user interface, its timers, the answers of the web service, datagrams,
  the microphone and the sound card. The signal of the connection for a voice that came in is handled in the
  same step. Its invariant holds whatever datagrams contain.
\<close>

datatype afv_fault = InDatagram voice_fault | InProgram fault

definition in_program :: "fault + 'x \<Rightarrow> afv_fault + 'x" where
  "in_program r = (case r of Inl f \<Rightarrow> Inl (InProgram f) | Inr x \<Rightarrow> Inr x)"

lemma in_program_simps [simp]: "in_program (Inr x) = Inr x" "in_program (Inl f) = Inl (InProgram f)"
  "in_program r = Inr x \<longleftrightarrow> r = Inr x" "in_program r = Inl g \<longleftrightarrow> (\<exists>f. r = Inl f \<and> g = InProgram f)"
  by (auto simp: in_program_def split: sum.splits)

datatype afv_input =
  AfvConnect string string string string
| AfvDisconnect bool
| AfvAnswered nat "json_object option"
| AfvDatagram bytes
| AfvHeartbeatTimer
| AfvUpdateTimer
| AfvShot nat
| AfvDeferredInit
| AfvStartAudio
| AfvStopAudio
| AfvPushToTalk bool
| AfvMicrophone bytes "32 word"
| AfvSamplesRead nat
| AfvVoiceTimer nat nat
| AfvEnable "16 word" bool
| AfvRxTx bool bool bool bool
| AfvTransmitting "16 word list"
| AfvComFrequency "16 word" "32 word"
| AfvOwnAircraft
| AfvLoopback bool
| AfvAliased bool
| AfvBypass bool

text \<open>A datagram, and the voice it may bring.\<close>

definition afv_datagram :: "'f afv_environment \<Rightarrow> bytes \<Rightarrow> 'f afv_client \<Rightarrow> afv_fault + 'f afv_client" where
  "afv_datagram env message c =
     (case processMessage (at_connection env) message False (afv_connection c) of
        Inl f \<Rightarrow> Inl (InDatagram f)
      | Inr v \<Rightarrow>
          (case drop (length (audio_received (afv_connection c))) (audio_received v) of
             [] \<Rightarrow> Inr (c\<lparr>afv_connection := v\<rparr>)
           | dto # dtos \<Rightarrow> in_program (audioOutDataAvailable env dto (c\<lparr>afv_connection := v\<rparr>))))"

text \<open>An answer of the web service; the client's own part follows for a login.\<close>

definition afv_answered :: "'f afv_environment \<Rightarrow> nat \<Rightarrow> json_object option \<Rightarrow> 'f afv_client \<Rightarrow> fault + 'f afv_client" where
  "afv_answered env n answer c =
     (let kind = api_pending (afv_connection c) ! n;
          c = c\<lparr>afv_connection := answer_request (at_connection env) n answer (afv_connection c)\<rparr> in
      case kind of
        Login cid password callsign client \<Rightarrow> afv_login_answered env cid password callsign client (afv_isConnected c) c
      | _ \<Rightarrow> Inr c)"

fun afv_enabled :: "'f afv_environment \<Rightarrow> afv_input \<Rightarrow> 'f afv_client \<Rightarrow> bool" where
  "afv_enabled env (AfvAnswered n answer) c \<longleftrightarrow> n < length (api_pending (afv_connection c)) \<and> \<not> shuttingDown (at_connection env)"
| "afv_enabled env AfvHeartbeatTimer c \<longleftrightarrow> vc_voiceServerTimer (afv_connection c)"
| "afv_enabled env AfvUpdateTimer c \<longleftrightarrow> afv_updateTimer c"
| "afv_enabled env (AfvShot n) c \<longleftrightarrow> n < length (afv_shots c) \<and> fst (afv_shots c ! n) \<le> afv_clock env"
| "afv_enabled env (AfvMicrophone audio n) c \<longleftrightarrow> m_isStarted c"
| "afv_enabled env (AfvSamplesRead n) c \<longleftrightarrow> m_isStarted c"
| "afv_enabled env (AfvVoiceTimer i k) c \<longleftrightarrow> (case m_soundcardSampleProvider c of None \<Rightarrow> False | Some s \<Rightarrow> voice_enabled (VoiceTimer i k) s)"
| "afv_enabled env _ c \<longleftrightarrow> True"

definition on_soundcard :: "('f soundcard \<Rightarrow> 'f soundcard) \<Rightarrow> 'f afv_client \<Rightarrow> 'f afv_client" where
  "on_soundcard f c = c\<lparr>m_soundcardSampleProvider := map_option f (m_soundcardSampleProvider c)\<rparr>"

fun afv_handle :: "'f afv_environment \<Rightarrow> afv_input \<Rightarrow> 'f afv_client \<Rightarrow> afv_fault + 'f afv_client" where
  "afv_handle env (AfvConnect cid pw cs client) c = Inr (afv_connectTo env cid pw cs client c)"
| "afv_handle env (AfvDisconnect stop) c = Inr (afv_disconnectFrom env stop c)"
| "afv_handle env (AfvAnswered n answer) c = in_program (afv_answered env n answer c)"
| "afv_handle env (AfvDatagram message) c = afv_datagram env message c"
| "afv_handle env AfvHeartbeatTimer c = Inr (c\<lparr>afv_connection := voiceServerHeartbeat (at_connection env) (afv_connection c)\<rparr>)"
| "afv_handle env AfvUpdateTimer c = in_program (onTimerUpdate env c)"
| "afv_handle env (AfvShot n) c =
     Inr (afv_fire env (snd (afv_shots c ! n)) (c\<lparr>afv_shots := take n (afv_shots c) @ drop (n + 1) (afv_shots c)\<rparr>))"
| "afv_handle env AfvDeferredInit c =
     in_program (and_then (initTransceivers env c) (\<lambda>c. Inr (on_soundcard (soundcard_setBypassEffects (at_voice env) (\<not> effectsEnabled env)) c)))"
| "afv_handle env AfvStartAudio c = in_program (startAudio env c)"
| "afv_handle env AfvStopAudio c = Inr (stopAudio env c)"
| "afv_handle env (AfvPushToTalk b) c = Inr (setPttForCom env b c)"
| "afv_handle env (AfvMicrophone audio n) c = in_program (opusDataAvailable env audio n c)"
| "afv_handle env (AfvSamplesRead n) c =
     Inr (case m_soundcardSampleProvider c of
            None \<Rightarrow> c
          | Some s \<Rightarrow> let (d, s) = soundcard_readSamples (at_voice env) n (afv_delays c, s)
                      in c\<lparr>afv_delays := d, m_soundcardSampleProvider := Some s\<rparr>)"
| "afv_handle env (AfvVoiceTimer i k) c = Inr (on_soundcard (on_receiver i (receiver_timerElapsed (at_voice env) k)) c)"
| "afv_handle env (AfvEnable i b) c = in_program (enableTransceiver env i b c)"
| "afv_handle env (AfvRxTx rx1 tx1 rx2 tx2) c = in_program (setRxTx env rx1 tx1 rx2 tx2 c)"
| "afv_handle env (AfvTransmitting txs) c = Inr (c\<lparr>m_transmittingTransceivers := txs\<rparr>)"
| "afv_handle env (AfvComFrequency i f) c = in_program (updateComFrequency env i f c)"
| "afv_handle env AfvOwnAircraft c = in_program (updateFromOwnAircraft env True c)"
| "afv_handle env (AfvLoopback b) c = Inr (c\<lparr>m_loopbackOn := b\<rparr>)"
| "afv_handle env (AfvAliased b) c = Inr (c\<lparr>m_enableAliased := b\<rparr>)"
| "afv_handle env (AfvBypass b) c = Inr (on_soundcard (soundcard_setBypassEffects (at_voice env) b) c)"

inductive afv_reachable :: "'f afv_client \<Rightarrow> bool" where
  afv_start: "afv_reachable CAfvClient"
| afv_step: "afv_reachable c \<Longrightarrow> afv_enabled env i c \<Longrightarrow> afv_handle env i c = Inr c' \<Longrightarrow> afv_reachable c'"

subsection \<open>Ids and delays, whatever is heard\<close>

definition ids_of :: "'f soundcard \<Rightarrow> 16 word list" where
  "ids_of s = map m_id (m_receiverInputs s)"

lemma active_delays: "csp_active env f cs ty (c, p) = Inr (c', p') \<Longrightarrow> delays_ok c \<Longrightarrow> delays_ok c'"
  using initialised [of c cs] ok_initialise [of c cs]
  by (auto simp: csp_active_def case_prod_beta and_then_eq_Inr Let_def split: if_splits)

lemma opus_delays: "csp_addOpusSamples env f dto ratio (c, p) = Inr (c', p') \<Longrightarrow> delays_ok c \<Longrightarrow> delays_ok c'"
  by (auto simp: csp_addOpusSamples_def and_then_eq_Inr Let_def)

lemma input_delays:
  "voice_input env cs (c, r) = Inr ((c', r'), i) \<Longrightarrow> m_id r' = m_id r \<and> (delays_ok c \<longrightarrow> delays_ok c')"
  by (auto simp: voice_input_def and_then_eq_Inr dest: active_delays split: option.splits)

lemma receiver_opus_delays:
  assumes "receiver_addOpusSamples env dto f ratio (c, r) = Inr (c', r')" "delays_ok c"
  shows "m_id r' = m_id r \<and> delays_ok c'"
  using assms input_delays [of env "dto_callsign dto" c r]
  by (auto simp: receiver_addOpusSamples_def and_then_eq_Inr dest!: opus_delays split: if_splits option.splits)

lemma receiver_silent_delays:
  assumes "receiver_addSilentSamples env dto f (c, r) = Inr (c', r')" "delays_ok c"
  shows "m_id r' = m_id r \<and> delays_ok c'"
  using assms input_delays [of env "dto_callsign dto" c r]
  by (auto simp: receiver_addSilentSamples_def and_then_eq_Inr split: if_splits option.splits)

lemma ids_on_receiver: "i < length (m_receiverInputs s) \<Longrightarrow> m_id (f (m_receiverInputs s ! i)) = m_id (m_receiverInputs s ! i)
    \<Longrightarrow> ids_of (on_receiver i f s) = ids_of s"
  by (simp add: ids_of_def on_receiver_def map_update_same)

lemma add_to_receivers_ids:
  "add_to_receivers env dto rxs handled played (c, s) = Inr (c', s') \<Longrightarrow> delays_ok c \<Longrightarrow> ids_of s' = ids_of s \<and> delays_ok c'"
proof (induction rxs arbitrary: handled played c s)
  case (Cons rx rxs)
  show ?case
  proof (cases "rx_id rx \<in> set handled \<or> receiver_of (rx_id rx) s = None")
    case True
    then show ?thesis using Cons by (auto split: if_splits option.splits)
  next
    case False
    then obtain i where i: "receiver_of (rx_id rx) s = Some i" by blast
    let ?r = "m_receiverInputs s ! i"
    show ?thesis
    proof (cases "m_mute ?r")
      case True
      then show ?thesis using False i Cons by (auto simp: Let_def)
    next
      case unmuted: False
      define add where "add = (if \<not> played then receiver_addOpusSamples env dto (rx_frequency rx) (rx_distanceRatio rx) (c, ?r)
            else receiver_addSilentSamples env dto (rx_frequency rx) (c, ?r))"
      obtain c1 r1 where r1: "add = Inr (c1, r1)"
          "add_to_receivers env dto rxs (handled @ [rx_id rx]) True (c1, on_receiver i (\<lambda>_. r1) s) = Inr (c', s')"
        using Cons.prems(1) False i unmuted by (auto simp: add_def Let_def and_then_eq_Inr split: if_splits)
      have "m_id r1 = m_id ?r \<and> delays_ok c1"
        using r1(1) receiver_opus_delays receiver_silent_delays Cons.prems(2) unfolding add_def by (metis (full_types))
      then show ?thesis using Cons.IH [OF r1(2)] ids_on_receiver [of i s "\<lambda>_. r1"] receiver_of_Some [OF i] by simp
    qed
  qed
qed simp

lemma read_receivers_ids:
  "delays_ok c \<Longrightarrow> map m_id (snd (read_receivers env n c rs)) = map m_id rs \<and> delays_ok (fst (read_receivers env n c rs))"
proof (induction rs arbitrary: c)
  case (Cons r rs)
  have inputs: "delays_ok d \<Longrightarrow> delays_ok (fst (read_inputs env f n d ps))" for f d ps
    by (induction ps arbitrary: d) (simp_all add: csp_read_delays case_prod_beta Let_def)
  have "delays_ok (fst (receiver_readSamples env n (c, r)))" "m_id (snd (receiver_readSamples env n (c, r))) = m_id r"
    using inputs [OF Cons.prems] by (simp_all add: receiver_readSamples_def case_prod_beta Let_def)
  then show ?case using Cons.IH by (simp add: case_prod_beta Let_def)
qed simp

lemma ptt_ids: "ids_of (pttUpdate env b txs s) = ids_of s"
proof -
  have "ids_of (fold (\<lambda>tx s. case receiver_of tx s of None \<Rightarrow> s | Some i \<Rightarrow> on_receiver i (setMute env True) s) l s) = ids_of s" for l
  proof (induction l arbitrary: s)
    case (Cons tx l)
    have "ids_of (case receiver_of tx s of None \<Rightarrow> s | Some i \<Rightarrow> on_receiver i (setMute env True) s) = ids_of s"
      using receiver_of_Some [of tx s] by (auto split: option.split intro!: ids_on_receiver)
    then show ?case by (simp add: Cons.IH)
  qed simp
  then show ?thesis by (simp add: pttUpdate_def ids_of_def)
qed

lemma tune_known:
  assumes "fst ` set txs \<subseteq> set (ids_of s)"
  shows "\<exists>s'. tune_receivers env txs s = Inr s' \<and> ids_of s' = ids_of s"
  using assms
proof (induction txs arbitrary: s)
  case (Cons tx txs)
  obtain n f where tx: "tx = (n, f)" by fastforce
  obtain i where i: "receiver_of n s = Some i"
    using Cons.prems tx find_index_None [of "\<lambda>r. m_id r = n" "m_receiverInputs s"] by (fastforce simp: receiver_of_def ids_of_def)
  have "ids_of (on_receiver i (setFrequency env f) s) = ids_of s" using receiver_of_Some [OF i] by (intro ids_on_receiver) auto
  with Cons.IH [of "on_receiver i (setFrequency env f) s"] Cons.prems i show ?case by (simp add: tx)
qed simp

lemma update_known:
  assumes "fst ` set txs \<subseteq> set (ids_of s)"
  shows "\<exists>s'. updateRadioTransceivers env txs s = Inr s' \<and> ids_of s' = ids_of s"
proof -
  have "m_id \<circ> (\<lambda>r. if m_id r \<in> fst ` set txs then r else setFrequency env 0 r) = m_id" by (simp add: fun_eq_iff)
  then show ?thesis using tune_known [OF assms, of env] by (auto simp: updateRadioTransceivers_def ids_of_def)
qed

subsection \<open>The invariant\<close>

definition afv_ok :: "'f afv_client \<Rightarrow> bool" where
  "afv_ok c \<longleftrightarrow> connection_ok (afv_connection c) \<and> delays_ok (afv_delays c)
     \<and> (\<forall>s. m_soundcardSampleProvider c = Some s \<longrightarrow> ids_of s = [0, 1])
     \<and> set (map tr_id (m_transceivers c)) \<subseteq> {0, 1}
     \<and> ((m_isStarted c \<or> m_receiveAudio (afv_connection c)) \<longrightarrow> m_soundcardSampleProvider c \<noteq> None)"

lemma afv_okD:
  assumes "afv_ok c"
  shows "connection_ok (afv_connection c)" "delays_ok (afv_delays c)" "m_soundcardSampleProvider c = Some s \<Longrightarrow> ids_of s = [0, 1]"
    "set (map tr_id (m_transceivers c)) \<subseteq> {0, 1}" "m_isStarted c \<Longrightarrow> m_soundcardSampleProvider c \<noteq> None"
    "m_receiveAudio (afv_connection c) \<Longrightarrow> m_soundcardSampleProvider c \<noteq> None"
  using assms by (simp_all add: afv_ok_def)

text \<open>A result that is no fault and keeps the invariant.\<close>

definition fine :: "fault + 'f afv_client \<Rightarrow> bool" where
  "fine r \<longleftrightarrow> (\<exists>c. r = Inr c \<and> afv_ok c)"

lemma fine_Inr [simp]: "fine (Inr c) \<longleftrightarrow> afv_ok c" by (simp add: fine_def)

lemma fine_and_then: "fine r \<Longrightarrow> (\<And>c. afv_ok c \<Longrightarrow> fine (g c)) \<Longrightarrow> fine (and_then r g)"
  by (auto simp: fine_def)

lemma fine_if: "(b \<Longrightarrow> fine x) \<Longrightarrow> (\<not> b \<Longrightarrow> fine y) \<Longrightarrow> fine (if b then x else y)" by simp

text \<open>What the invariant does not look at.\<close>

lemma afv_ok_fields [simp]:
  "afv_ok (c\<lparr>afv_events := x1\<rparr>) = afv_ok c" "afv_ok (c\<lparr>afv_shots := x2\<rparr>) = afv_ok c" "afv_ok (c\<lparr>m_heartBeatFailures := x3\<rparr>) = afv_ok c"
  "afv_ok (c\<lparr>m_retryConnectAttempt := x3\<rparr>) = afv_ok c" "afv_ok (c\<lparr>m_fsdConnectMismatches := x3\<rparr>) = afv_ok c"
  "afv_ok (c\<lparr>m_enabledTransceivers := x4\<rparr>) = afv_ok c" "afv_ok (c\<lparr>m_transmittingTransceivers := x5\<rparr>) = afv_ok c"
  "afv_ok (c\<lparr>m_transmit := b\<rparr>) = afv_ok c" "afv_ok (c\<lparr>m_transmitHistory := b\<rparr>) = afv_ok c" "afv_ok (c\<lparr>m_loopbackOn := b\<rparr>) = afv_ok c"
  "afv_ok (c\<lparr>m_enableAliased := b\<rparr>) = afv_ok c" "afv_ok (c\<lparr>m_integratedComUnit := b\<rparr>) = afv_ok c"
  "afv_ok (c\<lparr>afv_updateTimer := b\<rparr>) = afv_ok c" "afv_ok (c\<lparr>afv_callsign := x6\<rparr>) = afv_ok c"
  "afv_ok (c\<lparr>m_aliasedStations := x7\<rparr>) = afv_ok c" "afv_ok (c\<lparr>sent_audio := x8\<rparr>) = afv_ok c"
  by (simp_all add: afv_ok_def)

lemma ok_afv_emit [simp]: "afv_ok (afv_emit e c) = afv_ok c"
  by (simp add: afv_emit_def)

lemma ok_singleShot [simp]: "afv_ok (afv_singleShot t s c) = afv_ok c"
  by (simp add: afv_singleShot_def)

lemma ok_connection:
  "afv_ok c \<Longrightarrow> connection_ok v \<Longrightarrow> m_receiveAudio v = m_receiveAudio (afv_connection c) \<Longrightarrow> afv_ok (c\<lparr>afv_connection := v\<rparr>)"
  by (simp add: afv_ok_def)

lemma ok_on_soundcard: "afv_ok c \<Longrightarrow> (\<And>s. ids_of (f s) = ids_of s) \<Longrightarrow> afv_ok (on_soundcard f c)"
  by (auto simp: afv_ok_def on_soundcard_def)

lemma ok_transceivers: "afv_ok c \<Longrightarrow> set (map tr_id ts) \<subseteq> {0, 1} \<Longrightarrow> afv_ok (c\<lparr>m_transceivers := ts\<rparr>)"
  by (simp add: afv_ok_def)

text \<open>The parts of the connection the client uses never change whether audio is received.\<close>

lemma receive_kept [simp]:
  "m_receiveAudio (api_connectTo e k u p cl v) = m_receiveAudio v" "m_receiveAudio (checkExpiry e v) = m_receiveAudio v"
  "m_receiveAudio (connection_updateTransceivers e cs v) = m_receiveAudio v" "m_receiveAudio (sendToVoiceServer e n d v) = m_receiveAudio v"
  "m_receiveAudio (connection_connectTo e u p cs cl v) = m_receiveAudio v" "m_receiveAudio (removeCallsign e cs v) = m_receiveAudio v"
  by (simp_all add: api_connectTo_def checkExpiry_def connection_updateTransceivers_def sendToVoiceServer_def connection_connectTo_def
    removeCallsign_def case_prod_beta Let_def split: option.split)

lemma receive_kept2 [simp]:
  "m_receiveAudio (connection_disconnectFrom e v) = m_receiveAudio v" "m_receiveAudio (snd (addCallsign e cs v)) = m_receiveAudio v"
  "m_receiveAudio (snd (api_answered e a v)) = m_receiveAudio v" "m_receiveAudio (login_answered e b v) = m_receiveAudio v"
  "m_receiveAudio (answer_request e n a v) = m_receiveAudio v"
proof -
  show a: "m_receiveAudio (connection_disconnectFrom e v) = m_receiveAudio v" "m_receiveAudio (snd (addCallsign e cs v)) = m_receiveAudio v"
      "m_receiveAudio (snd (api_answered e a v)) = m_receiveAudio v" for v cs
    by (simp_all add: connection_disconnectFrom_def connection_reset_def addCallsign_def api_answered_def case_prod_beta Let_def split: option.split)
  show b: "m_receiveAudio (login_answered e b v) = m_receiveAudio v" for b v
    using a(2) by (simp add: login_answered_def connection_reset_def createCryptoChannels_def setTsHeartbeatToNow_def case_prod_beta Let_def)
  show "m_receiveAudio (answer_request e n a v) = m_receiveAudio v"
    by (simp add: answer_request_def case_prod_beta a(3) b Let_def)
qed

end
