(* ===== verification/VoiceClientFacts.thy ===== *)
theory VoiceClientFacts
  imports VoiceClientMachine
begin

section \<open>The voice client keeps its invariant\<close>

text \<open>
  Every operation of the client is fine: it ends without a fault and keeps \<open>afv_ok\<close>. The exceptions are
  datagrams and the microphone's loopback, which may fault but keep the invariant if they do not.
\<close>

lemma publish_fine:
  assumes "afv_ok c" "set (map tr_id ts) \<subseteq> {0, 1}"
  shows "fine (publish_transceivers env ts c)"
proof -
  define c1 where "c1 = c\<lparr>afv_connection := connection_updateTransceivers (at_connection env) (afv_callsign c) (afv_connection c)\<rparr>"
  have ok: "afv_ok c1" unfolding c1_def using assms(1) by (intro ok_connection transceivers_ok afv_okD) simp_all
  show ?thesis
  proof (cases "m_soundcardSampleProvider c1")
    case None
    then show ?thesis using ok by (simp add: publish_transceivers_def c1_def [symmetric] Let_def)
  next
    case (Some s)
    have "fst ` set (map (\<lambda>t. (tr_id t, tr_frequencyHz t)) ts) \<subseteq> set (ids_of s)"
      using assms(2) afv_okD(3) [OF ok Some] by (auto simp: image_image)
    from update_known [OF this] obtain s' where
      s': "updateRadioTransceivers (at_voice env) (map (\<lambda>t. (tr_id t, tr_frequencyHz t)) ts) s = Inr s'" "ids_of s' = ids_of s"
      by blast
    have "afv_ok (c1\<lparr>m_soundcardSampleProvider := Some s'\<rparr>)" using ok Some s'(2) by (simp add: afv_ok_def)
    then show ?thesis using Some s'(1) by (simp add: publish_transceivers_def c1_def [symmetric] Let_def)
  qed
qed

lemma position_ok [simp]: "afv_ok c \<Longrightarrow> afv_ok (updateTransceivers_position env c)"
  by (auto simp: updateTransceivers_position_def updatePosition_def afv_ok_def image_image)

lemma update_publish_fine: "afv_ok c \<Longrightarrow> fine (updateTransceivers_publish env c)"
  unfolding updateTransceivers_publish_def using afv_okD(4) [of c] by (intro publish_fine) auto

lemma ComFrequency_fine: "afv_ok c \<Longrightarrow> fine (updateComFrequency env i f c)"
proof -
  assume ok: "afv_ok c"
  have "afv_ok (c\<lparr>m_transceivers := (m_transceivers c)[n := (m_transceivers c ! n)\<lparr>tr_frequencyHz := g\<rparr>]\<rparr>)" for n g
  proof (cases "n < length (m_transceivers c)")
    case True
    then have "map tr_id ((m_transceivers c)[n := (m_transceivers c ! n)\<lparr>tr_frequencyHz := g\<rparr>]) = map tr_id (m_transceivers c)"
      by (simp add: map_update_same)
    then show ?thesis using afv_okD(4) [OF ok] by (intro ok_transceivers [OF ok]) (simp only:)
  qed (simp add: ok list_update_beyond)
  then show ?thesis unfolding updateComFrequency_def Let_def by (auto intro!: update_publish_fine simp: ok)
qed

lemma updateTransceivers_fine: "afv_ok c \<Longrightarrow> fine (updateTransceivers env b c)"
  unfolding updateTransceivers_def Let_def
  by (auto intro!: fine_and_then update_publish_fine ComFrequency_fine)

lemma OwnAircraft_fine: "afv_ok c \<Longrightarrow> fine (updateFromOwnAircraft env b c)"
proof -
  assume ok: "afv_ok c"
  show ?thesis
    unfolding updateFromOwnAircraft_def Let_def
    by (auto simp: ok intro!: fine_and_then publish_fine ok_transceivers)
qed

lemma stopAudio_ok [simp]: "afv_ok c \<Longrightarrow> afv_ok (stopAudio env c)"
proof (cases "m_isStarted c")
  case True
  assume "afv_ok c"
  then have "afv_ok (c\<lparr>m_isStarted := False, afv_connection := (afv_connection c)\<lparr>m_receiveAudio := False\<rparr>\<rparr>)"
    by (simp add: afv_ok_def connection_ok_def)
  then show ?thesis using True by (simp add: stopAudio_def)
qed (simp add: stopAudio_def)

lemma disconnect_ok: "connection_ok v \<Longrightarrow> connection_ok (connection_disconnectFrom e v)"
  using disconnect_fields [where v = v] by (cases "vc_connected v") (auto simp: connection_ok_def)

lemma disconnectFrom_ok [simp]: "afv_ok c \<Longrightarrow> afv_ok (afv_disconnectFrom env b c)"
proof -
  assume ok: "afv_ok c"
  have "afv_ok (c\<lparr>afv_connection := connection_disconnectFrom (at_connection env) (afv_connection c), m_heartBeatFailures := 0,
      m_retryConnectAttempt := 0, m_fsdConnectMismatches := 0\<rparr>)"
    using ok ok_connection [OF ok disconnect_ok [OF afv_okD(1) [OF ok]]] by simp
  then show ?thesis by (simp add: afv_disconnectFrom_def Let_def)
qed

lemma heartbeat_ok [simp]: "afv_ok c \<Longrightarrow> afv_ok (checkServerHeartbeat env c)"
  by (simp add: checkServerHeartbeat_def Let_def)

lemma autoLogoff_ok [simp]: "afv_ok c \<Longrightarrow> afv_ok (autoLogoffWithoutFsdNetwork env c)"
  by (simp add: autoLogoffWithoutFsdNetwork_def Let_def)

lemma settings_ok [simp]: "afv_ok c \<Longrightarrow> afv_ok (fetchSimulatorSettings env c)"
  by (simp add: fetchSimulatorSettings_def Let_def)

lemma timer_fine: "afv_ok c \<Longrightarrow> fine (onTimerUpdate env c)"
  unfolding onTimerUpdate_def
  by (auto intro!: fine_and_then OwnAircraft_fine updateTransceivers_fine)

lemma connectTo_ok: "connection_ok v \<Longrightarrow> connection_ok (connection_connectTo e u p cs cl v)"
proof -
  assume "connection_ok v"
  then have "connection_ok (v\<lparr>vc_userName := u, vc_callsign := cs\<rparr>)" by (simp add: connection_ok_def)
  then show ?thesis using \<open>connection_ok v\<close> by (simp add: connection_connectTo_def)
qed

lemma afv_connectTo_ok [simp]: "afv_ok c \<Longrightarrow> afv_ok (afv_connectTo env u p cs cl c)"
proof -
  assume ok: "afv_ok c"
  define c1 where "c1 = (let c = c\<lparr>afv_callsign := cs\<rparr> in if \<not> afv_isConnected c \<and> m_retryConnectAttempt c = 0
    then afv_singleShot (afv_clock env + 20 * 1000) (NoAnswerCheck u p cs cl) c else c)"
  have "afv_ok c1" using ok by (simp add: c1_def Let_def)
  moreover have "afv_connectTo env u p cs cl c = c1\<lparr>afv_connection := connection_connectTo (at_connection env) u p cs cl (afv_connection c1)\<rparr>"
    by (simp add: afv_connectTo_def c1_def Let_def)
  ultimately show ?thesis by (simp add: ok_connection connectTo_ok afv_okD)
qed

lemma retry_ok [simp]: "afv_ok c \<Longrightarrow> afv_ok (retryConnectTo env u p cs cl c)"
  by (simp add: retryConnectTo_def afv_reconnectTo_def Let_def)

lemma fire_ok [simp]: "afv_ok c \<Longrightarrow> afv_ok (afv_fire env s c)"
  by (cases s) simp_all

lemma login_fine: "afv_ok c \<Longrightarrow> fine (afv_login_answered env u p cs cl b c)"
proof -
  assume ok: "afv_ok c"
  have "afv_ok (c\<lparr>afv_connection := v, m_aliasedStations := l\<rparr>)" if "v = afv_connection c \<or> v = checkExpiry (at_connection env) (afv_connection c)" for v l
    using that ok_connection [OF ok, of v] afv_okD(1) [OF ok] by auto
  then show ?thesis unfolding afv_login_answered_def Let_def
    by (auto simp: case_prod_beta ok intro!: fine_and_then timer_fine)
qed

lemma initTransceivers_fine: "afv_ok c \<Longrightarrow> fine (initTransceivers env c)"
  unfolding initTransceivers_def Let_def by (auto intro!: timer_fine simp: afv_ok_def)

lemma startAudio_fine: "afv_ok c \<Longrightarrow> fine (startAudio env c)"
proof -
  assume ok: "afv_ok c"
  have ids: "ids_of (soundcard_setBypassEffects e b (CSoundcardSampleProvider r [0, 1])) = [0, 1]" for e :: "'a voice_environment" and b r
    by (simp add: ids_of_def soundcard_setBypassEffects_def CSoundcardSampleProvider_def CReceiverSampleProvider_def)
  have "fine (onTimerUpdate env (c\<lparr>m_soundcardSampleProvider := Some (soundcard_setBypassEffects (at_voice env) (\<not> effectsEnabled env) (CSoundcardSampleProvider SampleRate [0, 1])),
      afv_updateTimer := True, afv_connection := (afv_connection c)\<lparr>m_receiveAudio := True\<rparr>, m_isStarted := True\<rparr>))" if "afv_ok c" for c
    using that ids by (intro timer_fine) (simp add: afv_ok_def connection_ok_def)
  then show ?thesis unfolding startAudio_def Let_def using ok
    by (auto intro!: fine_and_then initTransceivers_fine)
qed

lemma ptt_ok_client [simp]: "afv_ok c \<Longrightarrow> afv_ok (setPttForCom env b c)"
  by (auto simp: setPttForCom_def afv_ok_def afv_emit_def ptt_ids Let_def)

lemma send_audio_ok [simp]: "afv_ok c \<Longrightarrow> afv_ok (send_audio env dto c)"
proof -
  assume ok: "afv_ok c"
  have "afv_ok (c\<lparr>sent_audio := sent_audio c @ [dto]\<rparr>)" using ok by simp
  from ok_connection [OF this, of "sendToVoiceServer (at_connection env) name_AT (pack_audio env dto) (afv_connection c)"]
  show ?thesis using afv_okD(1) [OF ok] sendToVoiceServer_ok by (simp add: send_audio_def)
qed

lemma play_keeps: "play_audio env dto rxs c = Inr c' \<Longrightarrow> afv_ok c \<Longrightarrow> afv_ok c'"
  using add_to_receivers_ids
  by (fastforce simp: play_audio_def soundcard_addOpusSamples_def and_then_eq_Inr afv_ok_def Let_def split: option.splits)

lemma microphone_keeps: "opusDataAvailable env audio n c = Inr c' \<Longrightarrow> afv_ok c \<Longrightarrow> afv_ok c'"
  by (auto simp: opusDataAvailable_def Let_def split: if_splits dest: play_keeps)

lemma microphone_fine: "afv_ok c \<Longrightarrow> \<not> (m_loopbackOn c \<and> m_transmit c) \<Longrightarrow> fine (opusDataAvailable env audio n c)"
  by (auto simp: opusDataAvailable_def Let_def)

lemma process_keeps:
  assumes "connection_ok v" "processMessage e message b v = Inr v'"
  shows "connection_ok v'" "m_receiveAudio v' = m_receiveAudio v"
  using assms by (auto simp: processMessage_def setTsHeartbeatToNow_def connection_ok_def split: option.splits sum.splits if_splits)

lemma datagram_keeps:
  assumes "afv_datagram env message c = Inr c'" "afv_ok c"
  shows "afv_ok c'"
proof -
  obtain v where v: "processMessage (at_connection env) message False (afv_connection c) = Inr v"
    using assms(1) by (auto simp: afv_datagram_def split: sum.splits)
  have ok: "afv_ok (c\<lparr>afv_connection := v\<rparr>)"
    using process_keeps [OF afv_okD(1) [OF assms(2)] v] assms(2) by (intro ok_connection) simp_all
  then show ?thesis using assms(1) v play_keeps
    by (auto simp: afv_datagram_def audioOutDataAvailable_def split: list.splits dest: play_keeps)
qed

lemma answer_ok:
  assumes "connection_ok v" "n < length (api_pending v)" "\<not> shuttingDown e"
  shows "connection_ok (answer_request e n a v)"
proof -
  define v0 where "v0 = v\<lparr>api_pending := take n (api_pending v) @ drop (n + 1) (api_pending v)\<rparr>"
  have "connection_ok v0" using assms(1) by (simp add: v0_def connection_ok_def)
  note a = answered_ok(1) [OF this, of e a]
  have "fst (api_answered e a v0) \<Longrightarrow> sendToNetworkIfAuthenticated e (snd (api_answered e a v0))"
    using answered_ok(2) [of e a v0] assms(3) by (simp add: sendToNetworkIfAuthenticated_def)
  from login_ok [OF a this] a show ?thesis by (simp add: answer_request_def v0_def case_prod_beta Let_def)
qed

lemma answered_fine:
  assumes "afv_ok c" "afv_enabled env (AfvAnswered n a) c"
  shows "fine (afv_answered env n a c)"
proof -
  have "afv_ok (c\<lparr>afv_connection := answer_request (at_connection env) n a (afv_connection c)\<rparr>)"
    using assms answer_ok [OF afv_okD(1) [OF assms(1)]] by (intro ok_connection) simp_all
  then show ?thesis by (auto simp: afv_answered_def Let_def intro: login_fine split: api_request.split)
qed

text \<open>What every event but two is.\<close>

lemma bypass_ids: "ids_of (soundcard_setBypassEffects e b s) = ids_of s"
  by (simp add: ids_of_def soundcard_setBypassEffects_def)

lemma handle_fine:
  assumes "afv_ok c" "afv_enabled env i c"
  shows "(\<exists>c'. afv_handle env i c = Inr c' \<and> afv_ok c') \<or> (\<exists>m. i = AfvDatagram m)
    \<or> (\<exists>audio n. i = AfvMicrophone audio n \<and> m_loopbackOn c \<and> m_transmit c)"
proof -
  have f: "fine r \<Longrightarrow> \<exists>c'. in_program r = Inr c' \<and> afv_ok c'" for r :: "fault + 'a afv_client" by (auto simp: fine_def)
  show ?thesis
  proof (cases i)
    case AfvHeartbeatTimer
    have "afv_ok (c\<lparr>afv_connection := voiceServerHeartbeat (at_connection env) (afv_connection c)\<rparr>)"
      using assms(1) sendToVoiceServer_ok [OF afv_okD(1) [OF assms(1)]] by (intro ok_connection) (auto simp: voiceServerHeartbeat_def)
    then show ?thesis using AfvHeartbeatTimer by simp
  next
    case AfvDeferredInit
    have "fine (and_then (initTransceivers env c) (\<lambda>c. Inr (on_soundcard (soundcard_setBypassEffects (at_voice env) (\<not> effectsEnabled env)) c)))"
      using assms(1) by (auto intro!: fine_and_then initTransceivers_fine ok_on_soundcard simp: bypass_ids)
    from f [OF this] show ?thesis using AfvDeferredInit by auto
  next
    case (AfvMicrophone audio n)
    then show ?thesis using f [OF microphone_fine [OF assms(1)]] by auto
  next
    case (AfvSamplesRead n)
    show ?thesis
    proof (cases "m_soundcardSampleProvider c")
      case (Some s)
      have k: "map m_id (snd (read_receivers e n (afv_delays c) rs)) = map m_id rs \<and> delays_ok (fst (read_receivers e n (afv_delays c) rs))"
        for e :: "'a voice_environment" and rs using read_receivers_ids [OF afv_okD(2) [OF assms(1)]] .
      then have "ids_of (snd (soundcard_readSamples (at_voice env) n (afv_delays c, s))) = [0, 1]"
        "delays_ok (fst (soundcard_readSamples (at_voice env) n (afv_delays c, s)))"
        using afv_okD(3) [OF assms(1) Some] by (simp_all add: soundcard_readSamples_def ids_of_def case_prod_beta Let_def)
      then show ?thesis using assms(1) Some AfvSamplesRead by (auto simp: afv_ok_def case_prod_beta Let_def)
    qed (use AfvSamplesRead assms(1) in simp)
  next
    case (AfvVoiceTimer j k)
    then obtain s where s: "m_soundcardSampleProvider c = Some s" "j < length (m_receiverInputs s)"
      using assms(2) by (auto split: option.splits)
    then have "ids_of (on_receiver j (receiver_timerElapsed (at_voice env) k) s) = [0, 1]"
      using afv_okD(3) [OF assms(1) s(1)] by (simp add: ids_on_receiver)
    then show ?thesis using AfvVoiceTimer assms(1) s by (simp add: on_soundcard_def afv_ok_def)
  next
    case (AfvBypass b)
    then show ?thesis using ok_on_soundcard [OF assms(1)] by (simp add: bypass_ids)
  next
    case (AfvRxTx rx1 tx1 rx2 tx2)
    have "fine (setRxTx env rx1 tx1 rx2 tx2 c)" unfolding setRxTx_def using assms(1) by (intro timer_fine) simp
    from f [OF this] show ?thesis using AfvRxTx by auto
  next
    case (AfvEnable j b)
    have "fine (enableTransceiver env j b c)" unfolding enableTransceiver_def using assms(1) by (intro updateTransceivers_fine) simp
    from f [OF this] show ?thesis using AfvEnable by auto
  next
    case (AfvAnswered n a)
    then show ?thesis using f [OF answered_fine [OF assms(1), of env n a]] assms(2) by auto
  qed (use assms(1) f [OF timer_fine [OF assms(1)]] f [OF startAudio_fine [OF assms(1)]] f [OF ComFrequency_fine [OF assms(1)]]
        f [OF OwnAircraft_fine [OF assms(1)]] in auto)
qed

lemma handle_keeps:
  assumes "afv_ok c" "afv_enabled env i c" "afv_handle env i c = Inr c'"
  shows "afv_ok c'"
  using handle_fine [OF assms(1,2)] assms(1,3) by (auto dest: datagram_keeps microphone_keeps)

theorem afv_reachable_ok: "afv_reachable c \<Longrightarrow> afv_ok c"
proof (induction rule: afv_reachable.induct)
  case afv_start
  then show ?case by (simp add: afv_ok_def CAfvClient_def connection_ok_def CClientConnection_def)
next
  case (afv_step c env i c')
  then show ?case using handle_keeps by blast
qed

end
