(* ===== verification/VoiceProperties.thy ===== *)
theory VoiceProperties
  imports VoiceClientFacts
begin

section \<open>Voices over the air\<close>

text \<open>
  What holds of the voice client: which numbered packets its channel would accept, what comes out of a
  packet, who is heard and until when, when it connects, and how a transmission ends.
\<close>

text \<open>C11: The channel's check of received numbers: no number is accepted twice, however late it comes and however small the
  window is, and none that comes in increasing order is refused.\<close>

lemma replays_rejected:
  "\<exists>ns ch. check_all received (CCryptoDtoChannel config n) = Inr (ns, ch) \<and> distinct ns
    \<and> (sorted_wrt (<) (map snd received) \<longrightarrow> ns = map snd received)"
proof -
  have "\<exists>ns ch. check_all received (CCryptoDtoChannel config n) = Inr (ns, ch) \<and> distinct ns"
    using check_all_distinct [OF fresh_window] by fastforce
  moreover have "sorted_wrt (<) (map snd received) \<Longrightarrow> \<exists>ch. check_all received (CCryptoDtoChannel config n) = Inr (map snd received, ch)"
    using check_all_increasing [OF fresh_window(1)] by (simp add: fresh_empty)
  ultimately show ?thesis by auto
qed

lemma replays_rejected_witness:
  "\<exists>ch. check_all [(0, 5), (1, 7), (2, 9)] (CCryptoDtoChannel CryptoDtoChannelConfigDto_default 2) = Inr ([5, 7, 9], ch)"
proof -
  have "sorted_wrt (<) (map snd [(0 :: int, 5 :: 32 word), (1, 7), (2, 9)])" by simp
  with replays_rejected [of "[(0, 5), (1, 7), (2, 9)]" CryptoDtoChannelConfigDto_default 2] show ?thesis by auto
qed

text \<open>A library that satisfies the laws, and keys of a channel.\<close>

definition sample_library :: voice_library where
  "sample_library = \<lparr>pack_header = (\<lambda>h. map (\<lambda>i. if bit (Sequence h) i then 1 else 0) [0..<64] @ map (\<lambda>c. word_of_nat (of_char c)) (ChannelTag h)),
     unpack_header = (\<lambda>bs. if length bs < 64 then None
       else Some \<lparr>ChannelTag = map (\<lambda>b. char_of (unat b)) (drop 64 bs), Sequence = horner_sum of_bool 2 (map (\<lambda>b. b = 1) (take 64 bs)), Mode = AEAD_ChaCha20Poly1305\<rparr>),
     aead_encrypt = (\<lambda>k n ad m. Some (m @ replicate 16 0)),
     aead_decrypt = (\<lambda>k n ad c. if length c < 16 then None else Some (take (length c - 16) c))\<rparr>"

lemma sample_library_ok: "library_ok sample_library"
proof -
  have bits: "horner_sum of_bool 2 (map (bit w) [0..<64]) = w" for w :: "64 word"
    by (simp add: horner_sum_bit_eq_take_bit take_bit_word_eq_self)
  have flag: "(\<lambda>i. (if b i then 1 else 0 :: 8 word) = 1) = b" for b :: "nat \<Rightarrow> bool" by auto
  have char: "char_of (unat (word_of_nat (of_char c) :: 8 word)) = c" for c
  proof -
    have "of_char c \<in> {0 :: nat..<256}" using range_nat_of_char by blast
    then have "of_char c < (2 :: nat) ^ 8" by simp
    then show ?thesis by (simp add: unat_of_nat take_bit_nat_eq_self)
  qed
  show ?thesis unfolding library_ok_def
    by (auto simp: sample_library_def bits flag char aead_abytes_def comp_def)
qed

definition sample_config :: CryptoDtoChannelConfigDto where
  "sample_config = \<lparr>cfg_channelTag = [], cfg_aeadReceiveKey = replicate 32 7, cfg_aeadTransmitKey = replicate 32 7, cfg_hmacKey = []\<rparr>"

text \<open>C10: A message that one end of a channel packs into a datagram comes out at the other end as it was, with the number it
  was sent with: as long as it fits the fields for the lengths and the 500 bytes it is decrypted into.\<close>

lemma voice_packet_restored:
  assumes "library_ok lib" "m_aeadReceiveKey there = m_aeadTransmitKey here"
    and "length name < 2 ^ 16" "length dto < 2 ^ 16" "length name + length dto + 4 \<le> decrypted_size"
    and "length (pack_header lib \<lparr>ChannelTag = m_channelTag here, Sequence = ucast (m_transmitSequence here), Mode = AEAD_ChaCha20Poly1305\<rparr>) < 2 ^ 16"
  shows "\<exists>d. deserialize lib False (fst (serialize_on_channel lib t AEAD_ChaCha20Poly1305 name dto here)) there = Inr d
    \<and> m_verified d \<and> m_dtoNameBuffer d = name \<and> m_dataBuffer d = dto \<and> Sequence (m_header d) = ucast (m_transmitSequence here)
    \<and> m_transmitSequence (snd (serialize_on_channel lib t AEAD_ChaCha20Poly1305 name dto here)) = m_transmitSequence here + 1"
proof -
  have sent: "fst (serialize_on_channel lib t AEAD_ChaCha20Poly1305 name dto here)
      = serialize_voice lib (m_channelTag here) AEAD_ChaCha20Poly1305 (m_aeadTransmitKey here) (m_transmitSequence here) name dto"
    by (simp add: serialize_on_channel_def getTransmitKey_sequence_def getTransmitKey_def Let_def)
  have key: "m_aeadTransmitKey here = (if False then m_aeadTransmitKey there else m_aeadReceiveKey there)" using assms(2) by simp
  show ?thesis unfolding sent deserialize_serialize [OF assms(1,3,4,5,6) key]
    by (simp add: serialize_on_channel_def getTransmitKey_sequence_def Let_def)
qed

lemma voice_packet_restored_witness:
  "\<exists>d. deserialize sample_library False (fst (serialize_on_channel sample_library 0 AEAD_ChaCha20Poly1305 [72] [1, 2, 3]
      (CCryptoDtoChannel sample_config 10))) (CCryptoDtoChannel sample_config 10) = Inr d \<and> m_dataBuffer d = [1, 2, 3]"
proof -
  have "m_aeadReceiveKey (CCryptoDtoChannel sample_config 10) = m_aeadTransmitKey (CCryptoDtoChannel sample_config 10)"
    "m_channelTag (CCryptoDtoChannel sample_config 10) = []"
    by (simp_all add: CCryptoDtoChannel_def sample_config_def Let_def)
  then show ?thesis
    using voice_packet_restored [OF sample_library_ok, of "CCryptoDtoChannel sample_config 10" "CCryptoDtoChannel sample_config 10" "[72]" "[1, 2, 3]" 0]
    by (auto simp: decrypted_size_def sample_library_def)
qed

text \<open>Two packets sent on a channel have the same nonce exactly if a multiple of \<open>2\<close> to the \<open>32\<close> sends lies between
  them: the counter has 32 bits although the nonce has room for 64.\<close>

lemma nonces_repeat_late:
  assumes "i \<le> j" "j < length calls"
  shows "nonce_of (ucast (transmit_all calls ch ! i)) = nonce_of (ucast (transmit_all calls ch ! j)) \<longleftrightarrow> 2 ^ 32 dvd j - i"
proof -
  have short: "n < 32" if "bit x n" for x :: "32 word" and n using bit_imp_le_length [OF that] by simp
  have "(ucast v :: 64 word) = ucast w \<longleftrightarrow> v = w" for v w :: "32 word"
    by (auto simp: bit_eq_iff bit_ucast_iff) (use short in blast)+
  then show ?thesis using assms transmit_all_numbers [of calls ch] same_number [OF assms(1)] by (simp add: nonce_inj)
qed

lemma nonces_repeat_late_witness:
  "nonce_of (ucast (transmit_all (replicate 3 (0, 2)) (CCryptoDtoChannel sample_config 10) ! 0))
    \<noteq> nonce_of (ucast (transmit_all (replicate 3 (0, 2)) (CCryptoDtoChannel sample_config 10) ! 2))"
  using nonces_repeat_late [of 0 2 "replicate 3 (0, 2)" "CCryptoDtoChannel sample_config 10"] by (simp add: nat_dvd_not_less)

text \<open>C8: Whatever happens to the receivers, with voices that carry a callsign: no two inputs of a receiver play the same
  callsign, an input not in use has no callsign and nothing to play, no buffer grows beyond its size, and a callsign is
  held back for 40 to 300 milliseconds.\<close>

lemma voices_invariant:
  assumes "voices_reachable ids c s" "distinct ids" "r \<in> set (m_receiverInputs s)"
  shows "distinct (filter (\<lambda>cs. cs \<noteq> []) (map csp_callsign (m_voiceInputs r)))
    \<and> (\<forall>p\<in>set (m_voiceInputs r). length (m_audioBuffer (m_audioInput p)) \<le> 960000
         \<and> (\<not> m_inUse p \<longrightarrow> csp_callsign p = [] \<and> m_audioBuffer (m_audioInput p) = []))
    \<and> (\<forall>cs d. m_delayCache c cs = Some d \<longrightarrow> 40 \<le> d \<and> d \<le> 300)"
proof -
  have ok: "soundcard_ok s" "delays_ok c" using voices_reachable_ok [OF assms(1,2)] by blast+
  then have r: "inputs_ok (m_voiceInputs r)" using assms(3) by (auto simp: soundcard_ok_def list_all_iff receiver_ok_def)
  have p: "length (m_audioBuffer (m_audioInput p)) \<le> 960000 \<and> (\<not> m_inUse p \<longrightarrow> csp_callsign p = [] \<and> m_audioBuffer (m_audioInput p) = [])"
    if "p \<in> set (m_voiceInputs r)" for p
  proof -
    have "csp_ok p" using r that by (auto simp: inputs_ok_def list_all_iff)
    then show ?thesis by (auto simp: csp_ok_def buffer_ok_def wave_limit_def)
  qed
  have "40 \<le> d \<and> d \<le> 300" if "m_delayCache c cs = Some d" for cs d
    using delays_okD(1) [OF ok(2) that] by (simp add: delay_defs)
  then show ?thesis using r p by (auto simp: inputs_ok_def heard_def)
qed

lemma voices_invariant_witness:
  "distinct (filter (\<lambda>cs. cs \<noteq> []) (map csp_callsign (m_voiceInputs (hd (m_receiverInputs (CSoundcardSampleProvider SampleRate [0, 1] :: unit soundcard))))))"
proof -
  have "hd (m_receiverInputs (CSoundcardSampleProvider SampleRate [0, 1] :: unit soundcard)) \<in> set (m_receiverInputs (CSoundcardSampleProvider SampleRate [0, 1]))"
    by (simp add: CSoundcardSampleProvider_def)
  from voices_invariant [OF voices_start _ this] show ?thesis by simp
qed

text \<open>A decoder that makes one sample of each byte of a short packet, and nothing of a long one.\<close>

definition sample_voice :: "unit voice_environment" where
  "sample_voice = \<lparr>voice_clock = 0, decodeOpus = (\<lambda>bs. if length bs \<le> 1000 then map (\<lambda>b. ()) bs else []), silence = (),
     crackleFormula = (\<lambda>r. Fin 0), afvClicked = False, afvBlocked = False\<rparr>"

lemma sample_voice_ok: "decoder_ok sample_voice"
  by (simp add: decoder_ok_def sample_voice_def wave_limit_def)

text \<open>A voice ends: an input that has got the last packet of a transmission is free as soon as so many samples were read as
  its buffer holds, and its callsign is not counted as late.\<close>

lemma voice_released:
  assumes "m_inUse p" "m_lastPacketLatch p" "0 < count" "0 < k" "length (m_audioBuffer (m_audioInput p)) \<le> k * count"
  shows "\<not> m_inUse (snd ((csp_readSamples env f count ^^ k) (c, p))) \<and> csp_callsign (snd ((csp_readSamples env f count ^^ k) (c, p))) = []
    \<and> fst ((csp_readSamples env f count ^^ k) (c, p)) = c"
  using assms
proof (induction k arbitrary: p)
  case (Suc k)
  have free: "\<not> m_inUse (snd ((csp_readSamples env f count ^^ j) (c, q))) \<and> csp_callsign (snd ((csp_readSamples env f count ^^ j) (c, q))) = []
      \<and> fst ((csp_readSamples env f count ^^ j) (c, q)) = c" if "\<not> m_inUse q" "csp_callsign q = []" for j q
    using that by (induction j) (auto simp: csp_readSamples_def case_prod_beta Let_def)
  show ?case
  proof (cases "length (m_audioBuffer (m_audioInput p)) \<le> count")
    case True
    from read_releases [OF Suc.prems(1,2) True, of env f c] free [of "snd (csp_readSamples env f count (c, p))" k]
    show ?thesis by (cases "csp_readSamples env f count (c, p)") (auto simp: funpow_swap1 simp del: funpow.simps simp add: funpow_Suc_right)
  next
    case False
    then have w: "csp_readSamples env f count (c, p) = (c, p\<lparr>m_audioInput := (m_audioInput p)\<lparr>m_audioBuffer := drop count (m_audioBuffer (m_audioInput p))\<rparr>\<rparr>)"
      by (intro read_waits) simp
    have "0 < k" using False Suc.prems(5) by (cases k) auto
    then show ?thesis using Suc.IH [of "p\<lparr>m_audioInput := (m_audioInput p)\<lparr>m_audioBuffer := drop count (m_audioBuffer (m_audioInput p))\<rparr>\<rparr>"] Suc.prems
      by (simp del: funpow.simps add: funpow_Suc_right w)
  qed
qed simp

lemma voice_released_witness:
  "\<not> m_inUse (snd ((csp_readSamples sample_voice 0 960 ^^ 2) (delay_cache_empty,
     (CCallsignSampleProvider 48000)\<lparr>csp_callsign := ''DLH1'', m_inUse := True, m_lastPacketLatch := True,
       m_audioInput := (CBufferedWaveProvider 48000)\<lparr>m_audioBuffer := replicate 1000 ()\<rparr>\<rparr>)))"
  using voice_released [of "(CCallsignSampleProvider 48000)\<lparr>csp_callsign := ''DLH1'', m_inUse := True, m_lastPacketLatch := True,
       m_audioInput := (CBufferedWaveProvider 48000)\<lparr>m_audioBuffer := replicate 1000 ()\<rparr>\<rparr>" 960 2 sample_voice 0 delay_cache_empty] by simp

text \<open>Two transceivers hear a voice, and the nearer one has just been tuned away: the voice counts as played by it, the other
  one is only told that somebody speaks, and nobody plays it.\<close>

lemma lagging_receiver_silences:
  assumes "rx_distanceRatio rx2 < rx_distanceRatio rx1" "rx_id rx1 \<noteq> rx_id rx2" "rx_id rx1 \<in> set (m_receiverIDs s)" "rx_id rx2 \<in> set (m_receiverIDs s)"
    and "receiver_of (rx_id rx1) s = Some i" "receiver_of (rx_id rx2) s = Some j"
    and "\<not> m_mute (m_receiverInputs s ! i)" "\<not> m_mute (m_receiverInputs s ! j)" "m_frequencyHz (m_receiverInputs s ! i) \<noteq> rx_frequency rx1"
  shows "soundcard_addOpusSamples env dto [rx1, rx2] (c, s)
    = and_then (receiver_addSilentSamples env dto (rx_frequency rx2) (c, m_receiverInputs s ! j)) (\<lambda>(c, r). Inr (c, on_receiver j (\<lambda>_. r) s))"
proof -
  have same: "on_receiver i (\<lambda>_. m_receiverInputs s ! i) s = s" by (simp add: on_receiver_def)
  have sorted: "sort_key (\<lambda>rx. - rx_distanceRatio rx) [rx1, rx2] = [rx1, rx2]" using assms(1) by simp
  have "soundcard_addOpusSamples env dto [rx1, rx2] (c, s) = add_to_receivers env dto [rx1, rx2] [] False (c, s)"
    using assms(3,4) sorted by (simp add: soundcard_addOpusSamples_def Let_def)
  also have "\<dots> = add_to_receivers env dto [rx2] [rx_id rx1] True (c, s)"
    using assms(5,7,9) by (subst add_to_receivers.simps(2)) (simp add: receiver_addOpusSamples_def Let_def same del: add_to_receivers.simps(2))
  also have "\<dots> = and_then (receiver_addSilentSamples env dto (rx_frequency rx2) (c, m_receiverInputs s ! j)) (\<lambda>(c, r). Inr (c, on_receiver j (\<lambda>_. r) s))"
    using assms(2,6,8) by (simp add: Let_def)
  finally show ?thesis .
qed

lemma lagging_receiver_silences_witness:
  "let s = CSoundcardSampleProvider SampleRate [0, 1] in
   soundcard_addOpusSamples sample_voice \<lparr>dto_callsign = ''DLH1'', dto_audio = [1], dto_lastPacket = False\<rparr>
      [\<lparr>rx_id = 0, rx_frequency = 118000000, rx_distanceRatio = 1\<rparr>, \<lparr>rx_id = 1, rx_frequency = 122800000, rx_distanceRatio = 1 / 2\<rparr>] (delay_cache_empty, s)
    = and_then (receiver_addSilentSamples sample_voice \<lparr>dto_callsign = ''DLH1'', dto_audio = [1], dto_lastPacket = False\<rparr> 122800000
        (delay_cache_empty, m_receiverInputs s ! 1)) (\<lambda>(c, r). Inr (c, on_receiver 1 (\<lambda>_. r) s))"
proof -
  let ?s = "CSoundcardSampleProvider SampleRate [0, 1] :: unit soundcard"
  let ?rx1 = "\<lparr>rx_id = 0, rx_frequency = 118000000, rx_distanceRatio = 1\<rparr>" and ?rx2 = "\<lparr>rx_id = 1, rx_frequency = 122800000, rx_distanceRatio = 1 / 2\<rparr>"
  have s: "m_receiverIDs ?s = [0, 1, 0, 1]" "receiver_of 0 ?s = Some 0" "receiver_of 1 ?s = Some 1" "\<not> m_mute (m_receiverInputs ?s ! 0)"
    "\<not> m_mute (m_receiverInputs ?s ! 1)" "m_frequencyHz (m_receiverInputs ?s ! 0) = 122800000"
    by (simp_all add: CSoundcardSampleProvider_def CReceiverSampleProvider_def receiver_of_def)
  show ?thesis unfolding Let_def using lagging_receiver_silences [of ?rx2 ?rx1 ?s 0 1] s by simp
qed

text \<open>A voice that carries no callsign is found to be that of the first input that is free: it is played there, while the
  input stays free and no callsign is heard.\<close>

lemma anonymous_voice:
  assumes "receiver_ok r" "m_voiceInputs r = p # ps" "\<not> m_inUse p" "dto_callsign dto = []" "m_frequencyHz r = frequency" "decoder_ok env"
  shows "\<exists>c' r' p'. receiver_addOpusSamples env dto frequency ratio (c, r) = Inr (c', r') \<and> m_voiceInputs r' = p' # ps
    \<and> \<not> m_inUse p' \<and> csp_callsign p' = [] \<and> m_audioBuffer (m_audioInput p') = decodeOpus env (dto_audio dto)
    \<and> activeCallsigns r' = activeCallsigns r"
proof -
  have p: "csp_callsign p = []" "m_audioBuffer (m_audioInput p) = []" "buffer_ok (m_audioInput p)" "m_maxBufferSize (m_audioInput p) = wave_limit"
    using assms(1-3) by (simp_all add: receiver_ok_def inputs_ok_def csp_ok_def)
  have "int (length (decodeOpus env (dto_audio dto))) \<le> m_maxBufferSize (m_audioInput p)" using assms(6) p(4) by (simp add: decoder_ok_def)
  from addSamples_result [OF p(3) this] p(2)
  have "addSamples (decodeOpus env (dto_audio dto)) (m_audioInput p) = Inr ((m_audioInput p)\<lparr>m_audioBuffer := decodeOpus env (dto_audio dto)\<rparr>)"
    by simp
  then show ?thesis using assms(2-5) p(1)
    by (simp add: receiver_addOpusSamples_def voice_input_def csp_addOpusSamples_def activeCallsigns_def Let_def)
qed

lemma anonymous_voice_witness:
  "\<exists>c' r'. receiver_addOpusSamples sample_voice \<lparr>dto_callsign = [], dto_audio = [1, 2], dto_lastPacket = False\<rparr> 122800000 1
      (delay_cache_empty, CReceiverSampleProvider SampleRate 0 4) = Inr (c', r') \<and> activeCallsigns r' = 0
    \<and> m_audioBuffer (m_audioInput (hd (m_voiceInputs r'))) = [(), ()]"
proof -
  let ?r = "CReceiverSampleProvider SampleRate 0 4 :: unit receiver"
  have "receiver_ok ?r" "m_voiceInputs ?r = CCallsignSampleProvider SampleRate # replicate 3 (CCallsignSampleProvider SampleRate)"
    "\<not> m_inUse (CCallsignSampleProvider SampleRate)" "m_frequencyHz ?r = 122800000" "activeCallsigns ?r = 0"
    by (simp_all add: receiver_ok_def inputs_ok_def CReceiverSampleProvider_def numeral_eq_Suc activeCallsigns_def)
      (simp_all add: CCallsignSampleProvider_def)
  from anonymous_voice [OF this(1-3) _ this(4) sample_voice_ok, of "\<lparr>dto_callsign = [], dto_audio = [1, 2], dto_lastPacket = False\<rparr>" 1 delay_cache_empty] this(5)
  show ?thesis by (auto simp: sample_voice_def)
qed

text \<open>A voice is held back twice as long as its delay says: the silence put in front has as many samples as the delay has
  bytes.\<close>

lemma delay_is_doubled:
  assumes "csp_ok p" "\<not> m_inUse p" "delays_ok c" "cs \<noteq> []"
  shows "\<exists>c' p' d. csp_active env f cs ty (c, p) = Inr (c', p') \<and> m_delayCache c' cs = Some d
    \<and> m_audioBuffer (m_audioInput p') = replicate (2 * nat (d * csp_sampleRate p div 1000)) (silence env)"
proof -
  from initialised [OF assms(3)] obtain d where d: "delay_get cs (delay_initialise cs c) = (d, delay_initialise cs c)" "40 \<le> d" "d \<le> 300"
    by (auto simp: delay_defs)
  then have known: "m_delayCache (delay_initialise cs c) cs = Some d"
    by (auto simp: delay_get_def fun_upd_def split: option.splits if_splits dest: arg_cong [where f = "\<lambda>c. m_delayCache c cs"])
  have l: "c_int (c_int (c_div 48000 1000 * d) * 2) = 96 * d" using d by (simp add: c_div_def int32_def)
  have b: "m_audioBuffer (m_audioInput p) = []" "m_maxBufferSize (m_audioInput p) = wave_limit" "buffer_ok (m_audioInput p)"
    "csp_sampleRate p = 48000"
    using assms(1,2) by (auto simp: csp_ok_def SampleRate_def)
  have "int (length (replicate (nat (96 * d)) (silence env))) \<le> m_maxBufferSize (m_audioInput p)" using b(2) d by (simp add: wave_limit_def)
  from addSamples_result [OF b(3) this] b(1)
  have "addSamples (replicate (nat (96 * d)) (silence env)) (m_audioInput p)
      = Inr ((m_audioInput p)\<lparr>m_audioBuffer := replicate (nat (96 * d)) (silence env)\<rparr>)" by simp
  moreover have "nat (96 * d) = 2 * nat (d * 48000 div 1000)" using d by simp
  ultimately show ?thesis using d known b(4) l by (simp add: csp_active_def Let_def)
qed

lemma delay_is_doubled_witness:
  "\<exists>c' p' d. csp_active sample_voice 0 ''DLH1'' [] (delay_cache_empty, CCallsignSampleProvider SampleRate) = Inr (c', p')
    \<and> m_delayCache c' ''DLH1'' = Some d"
proof -
  have "\<not> m_inUse (CCallsignSampleProvider SampleRate :: unit callsign_provider)" by (simp add: CCallsignSampleProvider_def)
  from delay_is_doubled [OF csp_start this ok_empty, of "''DLH1''" sample_voice 0 "[]"] show ?thesis by blast
qed

end
