(* ===== verification/VoiceBehaviour.thy ===== *)
theory VoiceBehaviour
  imports VoiceProperties
begin

section \<open>Connecting and talking\<close>

text \<open>
  What holds of the connection to the voice server and of the voice client as a whole, and two environments for the
  witnesses.
\<close>

definition sample_connection :: connection_environment where
  "sample_connection = \<lparr>conn_clock = 1000000, library = sample_library,
     unpack_audio = (\<lambda>bs. Some \<lparr>rxd_callsign = ''DLH1'', rxd_sequenceCounter = 0, rxd_audio = bs, rxd_lastPacket = False, rxd_transceivers = []\<rparr>),
     pack_heartbeat = (\<lambda>s. []), fromBase64 = (\<lambda>s. []), shuttingDown = False, callsignReply = []\<rparr>"

definition sample_afv :: "unit afv_environment" where
  "sample_afv = \<lparr>at_connection = sample_connection, at_voice = sample_voice, hasContexts = False, fsdConnected = False,
     ownLatitudeDeg = Fin 0, ownLongitudeDeg = Fin 0, ownAltitudeM = Fin 0, ownAltitudeFt = Fin 0, com1Hz = 122800000, com2Hz = 122800000,
     com1Transmit = True, com1Receive = True, com2Transmit = False, com2Receive = False, networkContext = False, closestStation = (\<lambda>f. []),
     aliasedStationsReply = [], comIntegrated = False, effectsEnabled = False, sameDevices = True, pack_audio = (\<lambda>d. txd_audio d)\<rparr>"

text \<open>A connection that was just logged in.\<close>

definition sample_login :: json_object where
  "sample_login = [(''nbf'', JNumber (Fin 1000)), (''exp'', JNumber (Fin 5000))]"

text \<open>Whatever happens to the connection: the timer for heartbeats only runs where there is a channel, a connection has that
  timer and the time of its login, and the channel remembers no number of what came in, so that its check could never reject
  anything.\<close>

lemma connection_invariant:
  assumes "connection_reachable v"
  shows "(vc_voiceServerTimer v \<longrightarrow> m_voiceCryptoChannel v \<noteq> None)
    \<and> (vc_connected v \<longrightarrow> vc_voiceServerTimer v \<and> m_authenticatedDateTimeUtc v \<noteq> None)
    \<and> (\<forall>ch n. m_voiceCryptoChannel v = Some ch \<longrightarrow> \<not> contains_sequence n ch)"
  using connection_reachable_ok [OF assms] by (auto simp: connection_ok_def window_def contains_sequence_def)

lemma connection_invariant_witness:
  "\<exists>v. connection_reachable v \<and> vc_connected v \<and> m_voiceCryptoChannel v \<noteq> None"
proof -
  define v where "v = connection_connectTo sample_connection ''1'' ''pw'' ''DLH1'' ''client'' CClientConnection"
  have v: "connection_reachable v" "api_pending v = [Login ''1'' ''pw'' ''DLH1'' ''client'']" "vc_callsign v = ''DLH1''"
    using connection_step [OF connection_start, of sample_connection "ConnectTo ''1'' ''pw'' ''DLH1'' ''client''" v]
    by (simp_all add: v_def) (simp_all add: connection_connectTo_def api_connectTo_def CClientConnection_def sample_connection_def)
  define w where "w = answer_request sample_connection 0 (Some sample_login) v"
  have "connection_enabled sample_connection (Answered 0 (Some sample_login)) v" using v(2) by (simp add: sample_connection_def)
  from connection_step [OF v(1) this, of w] have w: "connection_reachable w" by (simp add: w_def)
  have "fst (api_answered sample_connection (Some sample_login) u)" for u
    by (simp add: api_answered_def token_times_def sample_login_def sample_connection_def int32_def Let_def)
  then have "vc_connected w" by (simp add: w_def answer_request_def v(2) case_prod_beta login_answered_def Let_def)
  with connection_invariant [OF w] w show ?thesis by blast
qed

text \<open>C32: The web service knows the user but does not answer with a callsign's keys: the client counts as connected, with a
  channel whose keys are those of an empty text and whose server has no address.\<close>

lemma empty_keys_accepted:
  assumes "n < length (api_pending v)" "api_pending v ! n \<noteq> Renewal" "\<not> shuttingDown env" "callsignReply env = []"
    and "fst (api_answered env (Some doc) v)"
  shows "\<exists>ch. m_voiceCryptoChannel (answer_request env n (Some doc) v) = Some ch \<and> m_aeadReceiveKey ch = fromBase64 env []
    \<and> m_aeadTransmitKey ch = fromBase64 env [] \<and> vc_connected (answer_request env n (Some doc) v)
    \<and> tok_addressIpV4 (vc_tokens (answer_request env n (Some doc) v)) = []"
proof -
  define v0 where "v0 = v\<lparr>api_pending := take n (api_pending v) @ drop (n + 1) (api_pending v)\<rparr>"
  have a: "fst (api_answered env (Some doc) v0)" using assms(5) by (auto simp: api_answered_def v0_def case_prod_beta Let_def split: if_splits)
  define v1 where "v1 = snd (api_answered env (Some doc) v0)"
  have s: "sendToNetworkIfAuthenticated env v1" using answered_ok(2) [OF a] assms(3) by (simp add: v1_def sendToNetworkIfAuthenticated_def)
  have r: "answer_request env n (Some doc) v = login_answered env True v1"
    using assms(2) a by (simp add: answer_request_def v0_def v1_def case_prod_beta Let_def)
  show ?thesis unfolding r using s assms(4)
    by (simp add: login_answered_def addCallsign_def createCryptoChannels_def setTsHeartbeatToNow_def PostCallsignResponseDto_fromJson_def
      CryptoDtoChannelConfigDto_fromJson_def CCryptoDtoChannel_def case_prod_beta Let_def)
qed

lemma empty_keys_accepted_witness:
  "\<exists>ch. m_voiceCryptoChannel (answer_request sample_connection 0 (Some sample_login)
      (CClientConnection\<lparr>api_pending := [Login ''1'' ''pw'' ''DLH1'' ''client'']\<rparr>)) = Some ch \<and> m_aeadReceiveKey ch = []"
proof -
  have a: "fst (api_answered sample_connection (Some sample_login) u)" for u
    by (simp add: api_answered_def token_times_def sample_login_def sample_connection_def int32_def Let_def)
  have e: "\<not> shuttingDown sample_connection" "callsignReply sample_connection = []" "fromBase64 sample_connection [] = []"
    by (simp_all add: sample_connection_def)
  from empty_keys_accepted [OF _ _ e(1,2) a, of 0 "CClientConnection\<lparr>api_pending := [Login ''1'' ''pw'' ''DLH1'' ''client'']\<rparr>"] e(3)
  show ?thesis by auto
qed

text \<open>C33: A datagram that brought a voice brings it once more whenever it comes again: the check of the numbers is never asked.\<close>

lemma replay_heard_twice:
  assumes "processMessage env message False v = Inr v1" "audio_received v1 \<noteq> audio_received v"
  shows "\<exists>dto v2. audio_received v1 = audio_received v @ [dto] \<and> processMessage env message False v1 = Inr v2
    \<and> audio_received v2 = audio_received v @ [dto, dto]"
proof -
  have "m_voiceCryptoChannel v \<noteq> None" using assms by (cases "m_voiceCryptoChannel v") (simp_all add: processMessage_def)
  then obtain ch where ch: "m_voiceCryptoChannel v = Some ch" by blast
  have "\<exists>d. deserialize (library env) False message ch = Inr d"
    using assms(1) ch by (cases "deserialize (library env) False message ch") (simp_all add: processMessage_def)
  then obtain d where d: "deserialize (library env) False message ch = Inr d" by blast
  have name: "m_dtoNameBuffer d = name_AR" using assms ch d by (auto simp: processMessage_def setTsHeartbeatToNow_def split: if_splits)
  then have "\<exists>dto. getDto name_AudioRx name_AR (unpack_audio env) AudioRxOnTransceiversDto_default d = Inr dto"
    using assms(1) ch d by (cases "getDto name_AudioRx name_AR (unpack_audio env) AudioRxOnTransceiversDto_default d") (simp_all add: processMessage_def)
  then obtain dto where dto: "getDto name_AudioRx name_AR (unpack_audio env) AudioRxOnTransceiversDto_default d = Inr dto" by blast
  have r: "processMessage env message False u = Inr (if m_receiveAudio u \<and> vc_connected u then u\<lparr>audio_received := audio_received u @ [dto]\<rparr> else u)"
    if "m_voiceCryptoChannel u = Some ch" for u using that d name dto by (simp add: processMessage_def)
  have v1: "v1 = v\<lparr>audio_received := audio_received v @ [dto]\<rparr>" "m_receiveAudio v" "vc_connected v"
    using r [OF ch] assms by (auto split: if_splits)
  show ?thesis using r [of v1] ch v1 by simp
qed

lemma replay_heard_twice_witness:
  "\<exists>message v v1 v2. processMessage sample_connection message False v = Inr v1 \<and> processMessage sample_connection message False v1 = Inr v2
    \<and> length (audio_received v2) = 2"
proof -
  define ch where "ch = CCryptoDtoChannel sample_config 10"
  define message where "message = serialize_voice sample_library [] AEAD_ChaCha20Poly1305 (replicate 32 7) 0 name_AR [1]"
  define v where "v = CClientConnection\<lparr>m_voiceCryptoChannel := Some ch, vc_connected := True\<rparr>"
  have lib: "library sample_connection = sample_library" by (simp add: sample_connection_def)
  have d: "deserialize sample_library False message ch = Inr \<lparr>m_header = \<lparr>ChannelTag = [], Sequence = 0, Mode = AEAD_ChaCha20Poly1305\<rparr>,
      m_dtoNameBuffer = name_AR, m_dataBuffer = [1], m_verified = True\<rparr>"
    unfolding message_def
    by (subst deserialize_serialize [OF sample_library_ok])
      (simp_all add: name_AR_def byte_text_def decrypted_size_def sample_library_def ch_def CCryptoDtoChannel_def sample_config_def Let_def)
  have "\<exists>v1. processMessage sample_connection message False v = Inr v1 \<and> audio_received v1 \<noteq> audio_received v \<and> audio_received v = []"
    by (simp add: processMessage_def v_def d lib getDto_def CClientConnection_def) (simp add: sample_connection_def)
  then obtain v1 where v1: "processMessage sample_connection message False v = Inr v1" "audio_received v1 \<noteq> audio_received v" "audio_received v = []"
    by blast
  from replay_heard_twice [OF v1(1,2)] v1 show ?thesis by force
qed

text \<open>A login whose token is valid from \<open>nbf\<close> to \<open>exp\<close> is accepted exactly if these are in order and fit into 32 bits,
  whatever time it is here: tokens that are valid beyond January 2038 are refused.\<close>

lemma login_until_2038:
  assumes "j_value doc ''nbf'' = Some (JNumber (Fin (of_int nbf)))" "j_value doc ''exp'' = Some (JNumber (Fin (of_int expiry)))" "\<not> m_isAuthenticated v"
  shows "fst (api_answered env (Some doc) v) \<longleftrightarrow> 0 \<le> nbf \<and> nbf < expiry \<and> expiry < 2 ^ 31"
proof -
  have "doc \<noteq> []" using assms(1) by auto
  then have "fst (token_times t doc) > 0 \<longleftrightarrow> 0 \<le> nbf \<and> nbf < expiry \<and> expiry < 2 ^ 31" for t
    using assms(1,2) by (auto simp: token_times_def int32_def Let_def)
  then show ?thesis using assms(3) by (simp add: api_answered_def case_prod_beta Let_def)
qed

lemma login_until_2038_witness:
  "\<not> fst (api_answered sample_connection (Some [(''nbf'', JNumber (Fin (of_int 2147480000))), (''exp'', JNumber (Fin (of_int 2147490000)))]) CClientConnection)"
  using login_until_2038 [of "[(''nbf'', JNumber (Fin (of_int 2147480000))), (''exp'', JNumber (Fin (of_int 2147490000)))]" 2147480000 2147490000 CClientConnection sample_connection]
  by (simp add: CClientConnection_def)



text \<open>Frames of the microphone, one after the other, and the packet that a frame makes.\<close>

fun microphone :: "'f afv_environment \<Rightarrow> (bytes \<times> 32 word) list \<Rightarrow> 'f afv_client \<Rightarrow> fault + 'f afv_client" where
  "microphone env [] c = Inr c"
| "microphone env ((audio, n) # frames) c = and_then (opusDataAvailable env audio n c) (microphone env frames)"

definition packet_of :: "'f afv_client \<Rightarrow> bool \<Rightarrow> bytes \<times> 32 word \<Rightarrow> AudioTxOnTransceiversDto" where
  "packet_of c lastPacket frame = \<lparr>txd_callsign = afv_callsign c, txd_sequenceCounter = snd frame, txd_audio = fst frame,
     txd_lastPacket = lastPacket, txd_transceivers = m_transmittingTransceivers c\<rparr>"

text \<open>A client that is connected and may transmit as another one does.\<close>

definition speaks :: "'f afv_client \<Rightarrow> 'f afv_client \<Rightarrow> bool" where
  "speaks c p \<longleftrightarrow> m_isStarted p \<and> \<not> m_loopbackOn p \<and> vc_connected (afv_connection p) \<and> m_transmittingTransceivers c \<noteq> []
     \<and> m_transmittingTransceivers p = m_transmittingTransceivers c \<and> afv_callsign p = afv_callsign c"

lemma sent_keeps_connected [simp]: "vc_connected (sendToVoiceServer e n d v) = vc_connected v"
  by (simp add: sendToVoiceServer_def case_prod_beta Let_def split: option.split)

lemma spoken_frames:
  assumes "speaks c p" "m_transmit p"
  shows "\<exists>q. microphone env frames p = Inr q \<and> speaks c q \<and> m_transmit q \<and> m_transmitHistory q = (m_transmitHistory p \<or> frames \<noteq> [])
    \<and> sent_audio q = sent_audio p @ map (packet_of c False) frames"
  using assms
proof (induction frames arbitrary: p)
  case (Cons frame frames)
  obtain audio n where frame: "frame = (audio, n)" by fastforce
  define q where "q = (send_audio env (packet_of c False frame) p)\<lparr>m_transmitHistory := True\<rparr>"
  have "opusDataAvailable env audio n p = Inr q"
    using Cons.prems by (simp add: opusDataAvailable_def q_def speaks_def packet_of_def frame Let_def)
  moreover have "speaks c q" "m_transmit q" "m_transmitHistory q" "sent_audio q = sent_audio p @ [packet_of c False frame]"
    using Cons.prems by (simp_all add: q_def speaks_def send_audio_def)
  ultimately show ?case using Cons.IH [of q] by (auto simp: frame)
qed simp

lemma silent_frames:
  assumes "speaks c p" "\<not> m_transmit p"
  shows "\<exists>q. microphone env frames p = Inr q
    \<and> sent_audio q = sent_audio p @ (if m_transmitHistory p then map (packet_of c True) (take 1 frames) else [])"
  using assms
proof (induction frames arbitrary: p)
  case (Cons frame frames)
  obtain audio n where frame: "frame = (audio, n)" by fastforce
  define q where "q = (if m_transmitHistory p then send_audio env (packet_of c True frame) p else p)\<lparr>m_transmitHistory := False\<rparr>"
  have "opusDataAvailable env audio n p = Inr q"
    using Cons.prems by (simp add: opusDataAvailable_def q_def speaks_def packet_of_def frame Let_def)
  moreover have "speaks c q" "\<not> m_transmit q" "\<not> m_transmitHistory q"
    "sent_audio q = sent_audio p @ (if m_transmitHistory p then [packet_of c True frame] else [])"
    using Cons.prems by (simp_all add: q_def speaks_def send_audio_def)
  ultimately show ?case using Cons.IH [of q] by (auto simp: frame)
qed simp

text \<open>C12: A transmission, from pressing the button to releasing it: each frame of the microphone is sent, and after the button was
  released one more frame is sent and marked as the last, provided that there was one before.\<close>

lemma transmission_closed:
  assumes "m_isStarted c" "\<not> m_loopbackOn c" "vc_connected (afv_connection c)" "m_transmittingTransceivers c \<noteq> []" "\<not> m_transmit c" "\<not> m_transmitHistory c"
  shows "\<exists>c1 c2. microphone env spoken (setPttForCom env True c) = Inr c1 \<and> microphone env silent (setPttForCom env False c1) = Inr c2
    \<and> sent_audio c2 = sent_audio c @ map (packet_of c False) spoken @ (if spoken = [] then [] else map (packet_of c True) (take 1 silent))"
proof -
  define p where "p = setPttForCom env True c"
  have p: "speaks c p" "m_transmit p" "m_transmitHistory p = False" "sent_audio p = sent_audio c"
    using assms by (simp_all add: p_def setPttForCom_def afv_emit_def speaks_def Let_def)
  from spoken_frames [OF p(1,2)] obtain c1 where c1: "microphone env spoken p = Inr c1" "speaks c c1" "m_transmit c1"
    "m_transmitHistory c1 = (m_transmitHistory p \<or> spoken \<noteq> [])" "sent_audio c1 = sent_audio p @ map (packet_of c False) spoken" by blast
  define q where "q = setPttForCom env False c1"
  have q: "speaks c q" "\<not> m_transmit q" "m_transmitHistory q = m_transmitHistory c1" "sent_audio q = sent_audio c1"
    using c1 by (simp_all add: q_def setPttForCom_def afv_emit_def speaks_def Let_def)
  from silent_frames [OF q(1,2)] obtain c2 where "microphone env silent q = Inr c2"
    "sent_audio c2 = sent_audio q @ (if m_transmitHistory q then map (packet_of c True) (take 1 silent) else [])" by blast
  then show ?thesis using c1 p q unfolding p_def q_def by auto
qed

lemma transmission_closed_witness:
  "\<exists>c c1 c2. microphone sample_afv [([1], 0), ([2], 1)] (setPttForCom sample_afv True c) = Inr c1
    \<and> microphone sample_afv [([3], 2), ([4], 3)] (setPttForCom sample_afv False c1) = Inr c2
    \<and> map txd_lastPacket (sent_audio c2) = [False, False, True]"
proof -
  define c :: "unit afv_client" where "c = CAfvClient\<lparr>m_isStarted := True, m_transmittingTransceivers := [0], afv_connection := CClientConnection\<lparr>vc_connected := True\<rparr>\<rparr>"
  have "m_isStarted c" "\<not> m_loopbackOn c" "vc_connected (afv_connection c)" "m_transmittingTransceivers c \<noteq> []" "\<not> m_transmit c" "\<not> m_transmitHistory c"
    "sent_audio c = []"
    by (simp_all add: c_def CAfvClient_def)
  from transmission_closed [OF this(1-6), of sample_afv "[([1], 0), ([2], 1)]" "[([3], 2), ([4], 3)]"] this(7)
  show ?thesis by (fastforce simp: packet_of_def)
qed

text \<open>C13: The voice server falls silent: at the second check in a row the client disconnects, five seconds later it announces another
  attempt, and half a minute after that it logs in again as who it was.\<close>

lemma dead_server_retried:
  assumes "m_isStarted c" "vc_connected (afv_connection c)" "m_heartBeatFailures c = 0"
    and "\<not> isVoiceServerAlive (afv_clock e1) (afv_connection c)" "\<not> isVoiceServerAlive (afv_clock e2) (afv_connection c)"
    and "vc_userName (afv_connection c) = un" "un \<noteq> []" "api_password (afv_connection c) = pw" "pw \<noteq> []"
    and "vc_callsign (afv_connection c) = cs" "api_client (afv_connection c) = client" "\<not> shuttingDown (at_connection e4)"
  shows "let c2 = checkServerHeartbeat e2 (checkServerHeartbeat e1 c); c3 = afv_fire e3 (HeartbeatRetry un pw cs client) c2;
      c4 = afv_fire e4 (Reconnect un pw cs client) c3 in
    \<not> vc_connected (afv_connection c2) \<and> afv_shots c2 = afv_shots c @ [(afv_clock e2 + 5000, HeartbeatRetry un pw cs client)]
    \<and> afv_shots c3 = afv_shots c2 @ [(afv_clock e3 + 30000, Reconnect un pw cs client)]
    \<and> api_pending (afv_connection c4) = api_pending (afv_connection c3) @ [Login un pw cs client]"
proof -
  define c1 where "c1 = c\<lparr>m_heartBeatFailures := 1\<rparr>"
  have c1: "checkServerHeartbeat e1 c = c1" using assms(1-4) by (simp add: checkServerHeartbeat_def c1_def c_int_def Let_def)
  define d where "d = afv_disconnectFrom e2 False (c1\<lparr>m_heartBeatFailures := 2\<rparr>)"
  have d: "\<not> vc_connected (afv_connection d)" "m_retryConnectAttempt d = 0" "afv_shots d = afv_shots c"
    by (simp_all add: d_def c1_def afv_disconnectFrom_def afv_emit_def disconnect_fields Let_def)
  have c2: "checkServerHeartbeat e2 c1 = afv_singleShot (afv_clock e2 + 5 * 1000) (HeartbeatRetry un pw cs client) d"
    using assms by (simp add: checkServerHeartbeat_def c1_def d_def c_int_def Let_def)
  define c3 where "c3 = afv_fire e3 (HeartbeatRetry un pw cs client) (checkServerHeartbeat e2 c1)"
  have c3: "afv_shots c3 = afv_shots (checkServerHeartbeat e2 c1) @ [(afv_clock e3 + 30000, Reconnect un pw cs client)]"
    "\<not> vc_connected (afv_connection c3)"
    using d by (simp_all add: c3_def c2 afv_singleShot_def retryConnectTo_def afv_reconnectTo_def afv_emit_def c_int_def Let_def)
  have "api_pending (afv_connection (afv_fire e4 (Reconnect un pw cs client) c3)) = api_pending (afv_connection c3) @ [Login un pw cs client]"
    using c3(2) assms(12) by (simp add: afv_connectTo_def afv_singleShot_def connection_connectTo_def api_connectTo_def Let_def)
  then show ?thesis using c3(1) d unfolding Let_def c1 c3_def [symmetric] by (simp add: c2 afv_singleShot_def)
qed

lemma dead_server_retried_witness:
  "\<exists>c. vc_connected (afv_connection c) \<and> \<not> vc_connected (afv_connection (checkServerHeartbeat sample_afv (checkServerHeartbeat sample_afv c)))"
proof -
  define c :: "unit afv_client" where "c = CAfvClient\<lparr>m_isStarted := True, afv_connection := CClientConnection\<lparr>vc_connected := True, vc_userName := ''1'', api_password := ''pw''\<rparr>\<rparr>"
  have c: "m_isStarted c" "vc_connected (afv_connection c)" "m_heartBeatFailures c = 0" "vc_userName (afv_connection c) = ''1''"
    "api_password (afv_connection c) = ''pw''"
    by (simp_all add: c_def CAfvClient_def)
  have dead: "\<not> isVoiceServerAlive (afv_clock sample_afv) (afv_connection c)"
    by (simp add: c_def CAfvClient_def CClientConnection_def isVoiceServerAlive_def)
  have up: "\<not> shuttingDown (at_connection sample_afv)" by (simp add: sample_afv_def sample_connection_def)
  have "''1'' \<noteq> []" "''pw'' \<noteq> []" by simp_all
  from dead_server_retried [OF c(1-3) dead dead c(4) this(1) c(5) this(2) refl refl up, of sample_afv] c(2) show ?thesis
    by (auto simp: Let_def)
qed

text \<open>The attempts to connect back off: after the \<open>n\<close>-th failure in a row the client waits \<open>n\<close> half minutes, and three minutes
  at most.\<close>

lemma retry_delays:
  assumes "\<not> vc_connected (afv_connection c)" "0 \<le> m_retryConnectAttempt c" "m_retryConnectAttempt c < 71582787"
  shows "afv_shots (retryConnectTo env cid pw cs client c)
      = afv_shots c @ [(afv_clock env + 1000 * min 180 (30 * (m_retryConnectAttempt c + 1)), Reconnect cid pw cs client)]
    \<and> m_retryConnectAttempt (retryConnectTo env cid pw cs client c) = m_retryConnectAttempt c + 1"
proof -
  have i: "c_int (m_retryConnectAttempt c + 1) = m_retryConnectAttempt c + 1"
    "c_int ((m_retryConnectAttempt c + 1) * 30) = (m_retryConnectAttempt c + 1) * 30"
    "c_int (min 180 ((m_retryConnectAttempt c + 1) * 30) * 1000) = min 180 ((m_retryConnectAttempt c + 1) * 30) * 1000"
    using assms(2,3) by (simp_all add: int32_def min_def)
  show ?thesis using assms(1) i
    by (simp add: retryConnectTo_def afv_reconnectTo_def afv_singleShot_def afv_emit_def mult.commute Let_def)
qed

lemma retry_delays_witness:
  "afv_shots (retryConnectTo sample_afv ''1'' ''pw'' ''DLH1'' [] CAfvClient) = [(1030000, Reconnect ''1'' ''pw'' ''DLH1'' [])]"
  using retry_delays [of CAfvClient sample_afv] by (simp add: CAfvClient_def CClientConnection_def sample_afv_def sample_connection_def)

text \<open>What the updates keep of the radios.\<close>

definition radios :: "'f afv_client \<Rightarrow> 16 word set \<times> 16 word list" where
  "radios c = (m_enabledTransceivers c, m_transmittingTransceivers c)"

lemma radios_fields [simp]:
  "radios (c\<lparr>afv_connection := v\<rparr>) = radios c" "radios (c\<lparr>m_soundcardSampleProvider := s\<rparr>) = radios c" "radios (c\<lparr>m_transceivers := t\<rparr>) = radios c"
  "radios (c\<lparr>m_fsdConnectMismatches := n\<rparr>) = radios c" "radios (c\<lparr>m_heartBeatFailures := n\<rparr>) = radios c" "radios (c\<lparr>m_integratedComUnit := b\<rparr>) = radios c"
  "radios (c\<lparr>m_retryConnectAttempt := n\<rparr>) = radios c" "radios (c\<lparr>m_isStarted := b\<rparr>) = radios c"
  "radios (afv_emit e c) = radios c" "radios (afv_singleShot u k c) = radios c"
  by (simp_all add: radios_def afv_emit_def afv_singleShot_def)

lemma radios_disconnect [simp]: "radios (afv_disconnectFrom env b c) = radios c"
  by (simp add: afv_disconnectFrom_def stopAudio_def Let_def)

lemma radios_checks [simp]:
  "radios (checkServerHeartbeat env c) = radios c" "radios (autoLogoffWithoutFsdNetwork env c) = radios c" "radios (fetchSimulatorSettings env c) = radios c"
  by (simp_all add: checkServerHeartbeat_def autoLogoffWithoutFsdNetwork_def fetchSimulatorSettings_def Let_def)

lemma publish_radios: "publish_transceivers env ts c = Inr c' \<Longrightarrow> radios c' = radios c"
  by (auto simp: publish_transceivers_def and_then_eq_Inr Let_def split: option.splits)

lemma update_publish_radios: "updateTransceivers_publish env c = Inr c' \<Longrightarrow> radios c' = radios c"
  by (auto simp: updateTransceivers_publish_def dest: publish_radios)

lemma position_radios [simp]: "radios (updateTransceivers_position env c) = radios c"
  by (simp add: updateTransceivers_position_def updatePosition_def)

lemma ComFrequency_radios: "updateComFrequency env i f c = Inr c' \<Longrightarrow> radios c' = radios c"
  by (auto simp: updateComFrequency_def Let_def dest: update_publish_radios split: if_splits)

lemma timer_radios:
  assumes "onTimerUpdate env c = Inr c'" "\<not> m_integratedComUnit c"
  shows "radios c' = radios c"
proof (cases "hasContexts env")
  case True
  then obtain d where d: "updateFromOwnAircraft env False c = Inr d" "radios c' = radios d"
    using assms(1) by (auto simp: onTimerUpdate_def and_then_eq_Inr)
  have "radios d = radios c" using d(1) assms(2) by (auto simp: updateFromOwnAircraft_def and_then_eq_Inr Let_def dest: publish_radios split: if_splits)
  then show ?thesis using d by simp
next
  case False
  then show ?thesis using assms(1)
    by (auto simp: onTimerUpdate_def updateTransceivers_def and_then_eq_Inr Let_def dest: update_publish_radios)
qed

text \<open>Which radios receive and transmit is kept over the updates that setting it causes, unless the simulator controls
  the radios; a radio that transmits also receives.\<close>

lemma rx_tx_restored:
  assumes "afv_reachable c" "\<not> m_integratedComUnit c"
  shows "\<exists>c'. setRxTx env rx1 tx1 rx2 tx2 c = Inr c' \<and> getRxTx c' = (rx1 \<or> tx1, tx1, rx2 \<or> tx2, tx2)"
proof -
  define d where "d = c\<lparr>m_transmittingTransceivers := (if tx1 then [comUnitToTransceiverId Com1] else []) @ (if tx2 then [comUnitToTransceiverId Com2] else []),
      m_enabledTransceivers := (if rx1 \<or> tx1 then {comUnitToTransceiverId Com1} else {}) \<union> (if rx2 \<or> tx2 then {comUnitToTransceiverId Com2} else {})\<rparr>"
  have "afv_ok d" using afv_reachable_ok [OF assms(1)] by (simp add: d_def)
  then obtain c' where c': "onTimerUpdate env d = Inr c'" using timer_fine [of d env] by (auto simp: fine_def)
  have "radios c' = radios d" using timer_radios [OF c'] assms(2) by (simp add: d_def)
  then show ?thesis using c' by (auto simp: setRxTx_def d_def getRxTx_def radios_def)
qed

lemma rx_tx_restored_witness:
  "\<exists>c'. setRxTx sample_afv False True True False CAfvClient = Inr c' \<and> getRxTx c' = (True, True, True, False)"
proof -
  have "\<not> m_integratedComUnit CAfvClient" by (simp add: CAfvClient_def)
  from rx_tx_restored [OF afv_start this, of sample_afv False True True False] show ?thesis by simp
qed

end
