(* ===== verification/AircraftCategories.thy ===== *)
theory AircraftCategories
  imports TextMessages Transponder Doubles FsdStatistics
begin

section \<open>Aircraft categories\<close>

text \<open>
  \<open>blackmisc/aviation/aircraftcategory.cpp\<close> and \<open>aircraftcategorylist.cpp\<close>, and the functions of \<open>stringutils.cpp\<close> the
  matching of models compares texts with. The record is the members of the class, the key and the time stamp of the
  database object first: an object is from the database where its key is not negative. A category has three levels,
  the last ones 0 where it is not at the bottom of the tree. Texts for the user, property indexes and the reading of
  database JSON are not modelled.
\<close>

subsection \<open>Text\<close>

definition text_contains_nocase :: "string \<Rightarrow> string \<Rightarrow> bool" where
  "text_contains_nocase s p \<longleftrightarrow> q_contains (q_toLower s) (q_toLower p)"

text \<open>\<open>caseInsensitiveStringCompare\<close> and \<open>simplifyNameForSearch\<close> of \<open>stringutils.cpp\<close>; \<open>QChar::digitValue\<close> also reads
  the three superscript digits.\<close>

definition caseInsensitiveStringCompare :: "string \<Rightarrow> string \<Rightarrow> bool" where
  "caseInsensitiveStringCompare c1 c2 \<longleftrightarrow> length c1 = length c2 \<and> startsWith_nocase c1 c2"

definition simplifyNameForSearch :: "string \<Rightarrow> string" where
  "simplifyNameForSearch name = removeChars (q_toUpper name) (\<lambda>c. \<not> is_upper c)"

definition code_of :: "string \<Rightarrow> string" where
  "code_of s = q_toUpper (q_trimmed s)"

text \<open>Upper case makes no blanks and takes none away, and what was trimmed stays as it is.\<close>

lemma upper_blanks: "is_space (to_upper c) = is_space c"
proof -
  define n where "n = (of_char c :: nat)"
  show ?thesis
  proof (cases "97 \<le> n \<and> n \<le> 122 \<or> 224 \<le> n \<and> n \<le> 254 \<and> n \<noteq> 247")
    case True
    then have "to_upper c = char_of (n - 32)" "(of_char (char_of (n - 32) :: char) :: nat) = n - 32"
      by (auto simp: to_upper_def n_def Let_def)
    with True show ?thesis by (auto simp: is_space_def simp flip: n_def)
  next
    case False
    then have "to_upper c = c" by (auto simp: to_upper_def n_def Let_def)
    then show ?thesis by simp
  qed
qed

lemma trimmed_upper: "q_trimmed (q_toUpper s) = q_toUpper (q_trimmed s)"
proof -
  have "dropWhile is_space (map to_upper t) = map to_upper (dropWhile is_space t)" for t
    by (induction t) (simp_all add: upper_blanks)
  then show ?thesis by (simp add: q_trimmed_def q_toUpper_def rev_map)
qed

lemma trimmed_twice: "q_trimmed (q_trimmed s) = q_trimmed s"
proof (rule q_trimmed_id, cases "q_trimmed s = []")
  case False
  define t where "t = dropWhile is_space s"
  have r: "q_trimmed s = rev (dropWhile is_space (rev t))" by (simp add: q_trimmed_def t_def)
  have t: "t = q_trimmed s @ rev (takeWhile is_space (rev t))"
    unfolding r by (simp flip: rev_append)
  then have "hd t = hd (q_trimmed s)" "t \<noteq> []" using False by (metis hd_append2, auto simp: r)
  moreover have "\<not> is_space (hd t)" using \<open>t \<noteq> []\<close> unfolding t_def by (rule hd_dropWhile)
  moreover have "\<not> is_space (last (q_trimmed s))"
    using False unfolding r by (simp add: last_rev hd_dropWhile)
  ultimately show "q_trimmed s = [] \<or> \<not> is_space (hd (q_trimmed s)) \<and> \<not> is_space (last (q_trimmed s))" by simp
qed simp

lemma code_of_trimmed: "q_trimmed (code_of s) = code_of s"
  by (simp add: code_of_def trimmed_upper trimmed_twice)

definition digitValue :: "char \<Rightarrow> int" where
  "digitValue c = (let n = of_char c :: nat in
     if is_digit c then int n - 48 else if n = 178 then 2 else if n = 179 then 3 else if n = 185 then 1 else - 1)"

text \<open>\<open>fuzzyShortStringComparision\<close>: the default compares with case. The points of the last step are halves.\<close>

definition char_points :: "string \<Rightarrow> string \<Rightarrow> nat \<Rightarrow> rat" where
  "char_points aStr bStr p =
     (if p < length bStr \<and> aStr ! p = bStr ! p then 1
      else if p + 1 < length bStr \<and> aStr ! p = bStr ! (p + 1) then 1 / 2
      else if 1 \<le> p \<and> p - 1 < length bStr \<and> aStr ! p = bStr ! (p - 1) then 1 / 2
      else 0)"

definition percent_of :: "rat \<Rightarrow> rat \<Rightarrow> int" where
  "percent_of a b = qRound (d_mul (d_div (Fin a) (Fin b)) (Fin 100))"

definition fuzzyShortStringComparision :: "string \<Rightarrow> string \<Rightarrow> int" where
  "fuzzyShortStringComparision str1 str2 =
     (if str1 = str2 then 100
      else if str1 = [] \<or> str2 = [] then 0
      else
        let aStr = (if length str1 \<ge> length str2 then str1 else str2);
            bStr = (if length str1 \<ge> length str2 then str2 else str1);
            s1 = of_nat (length aStr); s2 = of_nat (length bStr)
        in if q_endsWith aStr bStr \<or> q_startsWith aStr bStr \<or> q_contains aStr bStr then percent_of s1 s2
           else percent_of (sum_list (map (char_points aStr bStr) [0..<length aStr])) s1)"

subsection \<open>Categories\<close>

record CAircraftCategory =
  cat_dbKey :: int
  cat_timestamp :: int
  cat_name :: string
  cat_description :: string
  cat_path :: string
  cat_assignable :: bool
  cat_l1 :: int
  cat_l2 :: int
  cat_l3 :: int

definition CAircraftCategory_default :: CAircraftCategory where
  "CAircraftCategory_default = \<lparr>cat_dbKey = - 1, cat_timestamp = - 1, cat_name = [], cat_description = [], cat_path = [],
     cat_assignable = True, cat_l1 = 0, cat_l2 = 0, cat_l3 = 0\<rparr>"

definition cat_isNull :: "CAircraftCategory \<Rightarrow> bool" where
  "cat_isNull c \<longleftrightarrow> cat_name c = [] \<and> cat_description c = []"

definition cat_matchesName :: "string \<Rightarrow> CAircraftCategory \<Rightarrow> bool" where
  "cat_matchesName name c \<longleftrightarrow> caseInsensitiveStringCompare name (cat_name c)"

definition cat_isLevel :: "int list \<Rightarrow> CAircraftCategory \<Rightarrow> bool" where
  "cat_isLevel level c \<longleftrightarrow> level = [cat_l1 c, cat_l2 c, cat_l3 c]"

definition cat_getLevel :: "CAircraftCategory \<Rightarrow> int list" where
  "cat_getLevel c = filter (\<lambda>l. l > 0) [cat_l1 c, cat_l2 c, cat_l3 c]"

definition cat_isFirstLevel :: "CAircraftCategory \<Rightarrow> bool" where
  "cat_isFirstLevel c \<longleftrightarrow> cat_l3 c = 0 \<and> cat_l2 c = 0 \<and> cat_l1 c > 0"

definition cat_getDepth :: "CAircraftCategory \<Rightarrow> int" where
  "cat_getDepth c =
     (if cat_isFirstLevel c then 1 else if cat_l3 c = 0 \<and> cat_l2 c > 0 \<and> cat_l1 c > 0 then 2 else 3)"

text \<open>A level given as a list: the first of its numbers must be the same, the others where they are positive.\<close>

definition cat_matchesLevel :: "int list \<Rightarrow> CAircraftCategory \<Rightarrow> bool" where
  "cat_matchesLevel level c \<longleftrightarrow>
     (case level of [] \<Rightarrow> False
      | l1 # rest \<Rightarrow>
          let l2 = (case rest of [] \<Rightarrow> 0 | l # _ \<Rightarrow> l); l3 = (case rest of _ # l # _ \<Rightarrow> l | _ \<Rightarrow> 0)
          in l1 = cat_l1 c \<and> (l2 > 0 \<longrightarrow> l2 = cat_l2 c) \<and> (l3 > 0 \<longrightarrow> l3 = cat_l3 c))"

definition three_way :: "int \<Rightarrow> int \<Rightarrow> int" where
  "three_way a b = (if a < b then - 1 else if b < a then 1 else 0)"

definition cat_compareByLevel :: "CAircraftCategory \<Rightarrow> CAircraftCategory \<Rightarrow> int" where
  "cat_compareByLevel a b =
     (let c = three_way (cat_l1 a) (cat_l1 b) in if c \<noteq> 0 then c
      else let c = three_way (cat_l2 a) (cat_l2 b) in if c \<noteq> 0 then c
      else three_way (cat_l3 a) (cat_l3 b))"

definition cat_isHigherLevel :: "CAircraftCategory \<Rightarrow> CAircraftCategory \<Rightarrow> bool" where
  "cat_isHigherLevel other c \<longleftrightarrow> cat_compareByLevel c other < 0"

subsection \<open>Lists of categories\<close>

fun insert_by_level :: "CAircraftCategory \<Rightarrow> CAircraftCategory list \<Rightarrow> CAircraftCategory list" where
  "insert_by_level c [] = [c]"
| "insert_by_level c (d # ds) = (if cat_compareByLevel d c < 0 then d # insert_by_level c ds else c # d # ds)"

definition sortByLevel :: "CAircraftCategory list \<Rightarrow> CAircraftCategory list" where
  "sortByLevel cs = foldr insert_by_level cs []"

definition cats_findByName :: "string \<Rightarrow> CAircraftCategory list \<Rightarrow> CAircraftCategory list" where
  "cats_findByName name = filter (cat_matchesName name)"

definition cats_findByFirstLevel :: "int \<Rightarrow> CAircraftCategory list \<Rightarrow> CAircraftCategory list" where
  "cats_findByFirstLevel level = filter (\<lambda>c. cat_l1 c = level)"

definition cats_findFirstLevels :: "CAircraftCategory list \<Rightarrow> CAircraftCategory list" where
  "cats_findFirstLevels = filter cat_isFirstLevel"

text \<open>The levels that occur, each once and in order, 0 left out.\<close>

definition cats_getFirstLevels :: "CAircraftCategory list \<Rightarrow> int list" where
  "cats_getFirstLevels cs = remove1 0 (remdups_adj (sort (map cat_l1 cs)))"

definition cats_getSecondLevels :: "CAircraftCategory list \<Rightarrow> int list" where
  "cats_getSecondLevels cs = remove1 0 (remdups_adj (sort (map cat_l2 cs)))"

definition cats_findByLevel :: "int list \<Rightarrow> bool \<Rightarrow> CAircraftCategory list \<Rightarrow> CAircraftCategory list" where
  "cats_findByLevel level noRootNode cs =
     (if level = [] then []
      else filter (\<lambda>c. \<not> (noRootNode \<and> int (length level) = cat_getDepth c) \<and> cat_matchesLevel level c) cs)"

definition cats_findByFullLevel :: "int list \<Rightarrow> CAircraftCategory list \<Rightarrow> CAircraftCategory" where
  "cats_findByFullLevel level cs =
     (if length level \<noteq> 3 then CAircraftCategory_default
      else case find (cat_isLevel level) cs of Some c \<Rightarrow> c | None \<Rightarrow> CAircraftCategory_default)"

definition cats_findSiblings :: "CAircraftCategory \<Rightarrow> CAircraftCategory list \<Rightarrow> CAircraftCategory list" where
  "cats_findSiblings category cs =
     (let levels = cat_getLevel category;
          categories = (if length levels < 2 then cats_findFirstLevels cs else cats_findByLevel (butlast levels) True cs)
      in filter (\<lambda>c. c \<noteq> category) categories)"

text \<open>
  \<open>findInParallelBranch\<close> counts from the first to the last level. \<open>level[1] = l\<close> of a list of one number is out of
  range; a list has fewer than two numbers here only where two of the three levels are not positive although the
  category is no first level.
\<close>

definition cats_findInParallelBranch :: "CAircraftCategory \<Rightarrow> CAircraftCategory list \<Rightarrow> fault + CAircraftCategory list" where
  "cats_findInParallelBranch category cs =
     (if cat_isNull category \<or> cs = [] then Inr []
      else if cat_isFirstLevel category then Inr []
      else
        let isL2 = (cat_getDepth category = 2);
            loopLevels = (if isL2 then cats_getFirstLevels cs else cats_getSecondLevels cs)
        in if loopLevels = [] then Inr []
           else
             let level = cat_getLevel category; index = (if isL2 then 0 else 1) in
             if length level \<le> index then Inl (OutOfRange index)
             else Inr (concat (map (\<lambda>l.
               let level = level[index := l] in
               if cat_isLevel level category then []
               else let cat = cats_findByFullLevel level cs in if cat_isNull cat then [] else [cat])
               [hd loopLevels..last loopLevels])))"

definition cats_removedLevel :: "int list \<Rightarrow> CAircraftCategory list \<Rightarrow> CAircraftCategory list" where
  "cats_removedLevel level cs = (if level = [] then cs else filter (\<lambda>c. \<not> cat_matchesLevel level c) cs)"

definition cats_removeIfLevel :: "int list \<Rightarrow> CAircraftCategory list \<Rightarrow> int \<times> CAircraftCategory list" where
  "cats_removeIfLevel level cs =
     (if level = [] then (0, cs)
      else let removed = cats_removedLevel level cs; delta = int (length cs) - int (length removed)
           in (delta, if delta > 0 then removed else cs))"

end
