(* ===== verification/IcaoCodes.thy ===== *)
theory IcaoCodes
  imports AircraftCategories
begin

section \<open>Aircraft ICAO codes\<close>

text \<open>
  \<open>blackmisc/aviation/aircrafticaocode.cpp\<close>: the ICAO designator of an aircraft type with what the database knows of
  it. The setters keep designator, IATA code, family, combined type and wake turbulence category trimmed and in upper
  case, manufacturer and descriptions trimmed. Equality compares all members.
\<close>

record CAircraftIcaoCode =
  ac_dbKey :: int
  ac_timestamp :: int
  ac_designator :: string
  ac_iataCode :: string
  ac_family :: string
  ac_combinedType :: string
  ac_manufacturer :: string
  ac_modelDescription :: string
  ac_modelIataDescription :: string
  ac_modelSwiftDescription :: string
  ac_category :: CAircraftCategory
  ac_wtc :: string
  ac_military :: bool
  ac_realWorld :: bool
  ac_legacy :: bool
  ac_rank :: int

definition CAircraftIcaoCode_default :: CAircraftIcaoCode where
  "CAircraftIcaoCode_default = \<lparr>ac_dbKey = - 1, ac_timestamp = - 1, ac_designator = [], ac_iataCode = [], ac_family = [],
     ac_combinedType = [], ac_manufacturer = [], ac_modelDescription = [], ac_modelIataDescription = [],
     ac_modelSwiftDescription = [], ac_category = CAircraftCategory_default, ac_wtc = [], ac_military = False,
     ac_realWorld = True, ac_legacy = False, ac_rank = 10\<rparr>"

definition rank_of :: "int \<Rightarrow> int" where
  "rank_of rank = (if rank < 0 \<or> rank \<ge> 10 then 10 else rank)"

text \<open>The constructors: of a designator, and of all the texts.\<close>

definition CAircraftIcaoCode_of :: "string \<Rightarrow> string \<Rightarrow> CAircraftIcaoCode" where
  "CAircraftIcaoCode_of icao combinedType =
     CAircraftIcaoCode_default\<lparr>ac_designator := code_of icao, ac_combinedType := code_of combinedType\<rparr>"

definition CAircraftIcaoCode_full ::
    "string \<Rightarrow> string \<Rightarrow> string \<Rightarrow> string \<Rightarrow> string \<Rightarrow> string \<Rightarrow> string \<Rightarrow> string \<Rightarrow> string \<Rightarrow> bool \<Rightarrow> bool \<Rightarrow> bool \<Rightarrow> int
      \<Rightarrow> CAircraftIcaoCode" where
  "CAircraftIcaoCode_full icao iata family combinedType manufacturer model modelIata modelSwift wtc realworld legacy military rank =
     CAircraftIcaoCode_default\<lparr>ac_designator := code_of icao, ac_iataCode := code_of iata, ac_family := code_of family,
       ac_combinedType := code_of combinedType, ac_manufacturer := q_trimmed manufacturer,
       ac_modelDescription := q_trimmed model, ac_modelIataDescription := q_trimmed modelIata,
       ac_modelSwiftDescription := q_trimmed modelSwift, ac_wtc := code_of wtc, ac_realWorld := realworld,
       ac_legacy := legacy, ac_military := military, ac_rank := rank_of rank\<rparr>"

subsection \<open>What a code has\<close>

definition ac_hasValidDbKey :: "CAircraftIcaoCode \<Rightarrow> bool" where
  "ac_hasValidDbKey c \<longleftrightarrow> ac_dbKey c \<ge> 0"

definition ac_isNull :: "CAircraftIcaoCode \<Rightarrow> bool" where
  "ac_isNull c \<longleftrightarrow> ac_designator c = [] \<and> ac_manufacturer c = [] \<and> ac_modelDescription c = []"

definition isValidDesignator :: "string \<Rightarrow> bool" where
  "isValidDesignator designator \<longleftrightarrow>
     2 \<le> length designator \<and> length designator \<le> 5 \<and> is_upper (hd designator)
     \<and> \<not> containsChar designator (\<lambda>c. \<not> is_upper c \<and> \<not> is_digit c)"

definition isValidCombinedType :: "string \<Rightarrow> bool" where
  "isValidCombinedType combinedType \<longleftrightarrow>
     (case combinedType of [d, n, e] \<Rightarrow> d \<in> set ''AGHSLT'' \<and> is_digit n \<and> e \<in> set ''EJPT-'' | _ \<Rightarrow> False)"

definition isValidWtc :: "string \<Rightarrow> bool" where
  "isValidWtc candidate \<longleftrightarrow> candidate \<in> {[], ''L'', ''M'', ''H'', ''J''}"

definition unassignedDesignator :: string where "unassignedDesignator = ''ZZZZ''"
definition gliderDesignator :: string where "gliderDesignator = ''GLID''"

definition specialDesignators :: "string list" where
  "specialDesignators = [''ZZZZ'', ''SHIP'', ''BALL'', gliderDesignator, ''ULAC'', ''GYRO'', ''UHEL'']"

definition hasKnownDesignator :: "CAircraftIcaoCode \<Rightarrow> bool" where
  "hasKnownDesignator c \<longleftrightarrow> isValidDesignator (ac_designator c) \<and> ac_designator c \<noteq> unassignedDesignator"

definition hasSpecialDesignator :: "CAircraftIcaoCode \<Rightarrow> bool" where
  "hasSpecialDesignator c \<longleftrightarrow> ac_designator c \<noteq> [] \<and> ac_designator c \<in> set specialDesignators"

definition ac_hasCategory :: "CAircraftIcaoCode \<Rightarrow> bool" where
  "ac_hasCategory c \<longleftrightarrow> \<not> cat_isNull (ac_category c)"

definition ac_hasCompleteData :: "CAircraftIcaoCode \<Rightarrow> bool" where
  "ac_hasCompleteData c \<longleftrightarrow>
     isValidCombinedType (ac_combinedType c) \<and> ac_designator c \<noteq> [] \<and> ac_wtc c \<noteq> [] \<and> ac_manufacturer c \<noteq> []"

definition getEngineType :: "CAircraftIcaoCode \<Rightarrow> string" where
  "getEngineType c = (if length (ac_combinedType c) \<noteq> 3 then [] else q_right (ac_combinedType c) 1)"

definition getEnginesCount :: "CAircraftIcaoCode \<Rightarrow> int" where
  "getEnginesCount c =
     (if length (ac_combinedType c) < 2 then - 1
      else let n = [ac_combinedType c ! 1] in
           if n = ''-'' then - 1
           else case q_toInt_opt n of Some ec \<Rightarrow> if 0 \<le> ec \<and> ec < 10 then ec else - 1 | None \<Rightarrow> - 1)"

definition getAircraftType :: "CAircraftIcaoCode \<Rightarrow> string" where
  "getAircraftType c =
     (case ac_combinedType c of [] \<Rightarrow> [] | t # _ \<Rightarrow> if t = CHR ''-'' then [] else [t])"

definition isVtol_code :: "CAircraftIcaoCode \<Rightarrow> bool" where
  "isVtol_code c \<longleftrightarrow>
     ac_designator c \<in> {''BALL'', ''SHIP'', ''GYRO'', ''UHEL''}
     \<or> q_startsWith (ac_combinedType c) ''H'' \<or> q_startsWith (ac_combinedType c) ''T''"

definition isDbDuplicate :: "CAircraftIcaoCode \<Rightarrow> bool" where
  "isDbDuplicate c \<longleftrightarrow>
     startsWith_nocase (ac_modelIataDescription c) ''duplicate'' \<or> startsWith_nocase (ac_modelSwiftDescription c) ''do not''"

definition isEPTEngineType :: "char \<Rightarrow> bool" where
  "isEPTEngineType engineType \<longleftrightarrow> to_upper engineType \<in> {CHR ''P'', CHR ''E'', CHR ''T''}"

definition ac_isDbEqual :: "CAircraftIcaoCode \<Rightarrow> CAircraftIcaoCode \<Rightarrow> bool" where
  "ac_isDbEqual c other \<longleftrightarrow> ac_hasValidDbKey other \<and> ac_hasValidDbKey c \<and> ac_dbKey other = ac_dbKey c"

subsection \<open>Matching\<close>

text \<open>
  With a least similarity the comparison is turned into 0 or 1 before it is compared again; the second value is what
  is stored as the result, \<open>None\<close> where nothing is.
\<close>

definition matches_code :: "string \<Rightarrow> string \<Rightarrow> int \<Rightarrow> bool \<times> int option" where
  "matches_code own candidate fuzzyMatch =
     (if candidate = [] then (False, None)
      else let d = code_of candidate in
           if fuzzyMatch \<ge> 0
           then let r = (if fuzzyShortStringComparision own d \<ge> fuzzyMatch then 1 else 0) in (r \<ge> fuzzyMatch, Some r)
           else let e = (own = d) in (e, Some (if e then 100 else 0)))"

definition matchesDesignator :: "string \<Rightarrow> CAircraftIcaoCode \<Rightarrow> bool" where
  "matchesDesignator designator c \<longleftrightarrow> fst (matches_code (ac_designator c) designator (- 1))"

definition ac_matchesIataCode :: "string \<Rightarrow> CAircraftIcaoCode \<Rightarrow> bool" where
  "ac_matchesIataCode iata c \<longleftrightarrow> fst (matches_code (ac_iataCode c) iata (- 1))"

definition matchesFamily :: "string \<Rightarrow> CAircraftIcaoCode \<Rightarrow> bool" where
  "matchesFamily family c \<longleftrightarrow> fst (matches_code (ac_family c) family (- 1))"

definition matchesDesignatorIataOrFamily :: "string \<Rightarrow> CAircraftIcaoCode \<Rightarrow> bool" where
  "matchesDesignatorIataOrFamily s c \<longleftrightarrow> s \<noteq> [] \<and> (matchesDesignator s c \<or> ac_matchesIataCode s c \<or> matchesFamily s c)"

text \<open>\<open>findBestFuzzyMatchOrDefault\<close> never changes the best value it compares with.\<close>

fun best_fuzzy :: "string \<Rightarrow> int \<Rightarrow> int \<Rightarrow> CAircraftIcaoCode \<Rightarrow> CAircraftIcaoCode list \<Rightarrow> CAircraftIcaoCode" where
  "best_fuzzy d cutoff current found [] = found"
| "best_fuzzy d cutoff current found (code # codes) =
     (let (matches, result) = matches_code (ac_designator code) d cutoff;
          current = (case result of Some r \<Rightarrow> r | None \<Rightarrow> current)
      in if \<not> matches then best_fuzzy d cutoff current found codes
         else if current = 100 then code
         else best_fuzzy d cutoff current (if 0 < current then code else found) codes)"

definition findBestFuzzyMatchOrDefault :: "string \<Rightarrow> int \<Rightarrow> CAircraftIcaoCode list \<Rightarrow> CAircraftIcaoCode" where
  "findBestFuzzyMatchOrDefault designator cutoff codes =
     (if length designator < 2 then CAircraftIcaoCode_default
      else best_fuzzy (code_of designator) cutoff 0 CAircraftIcaoCode_default codes)"

text \<open>
  A combined type with \<open>*\<close>, blank or minus as wild cards. Of a text of three characters that starts or ends with a blank and
  has a wild card the code reads behind the end of what is left after trimming.
\<close>

definition wildcards :: "string \<Rightarrow> string" where
  "wildcards = map (\<lambda>c. if c = CHR '' '' \<or> c = CHR ''-'' then CHR ''*'' else c)"

definition matchesCombinedType :: "string \<Rightarrow> CAircraftIcaoCode \<Rightarrow> fault + bool" where
  "matchesCombinedType combinedType code =
     (let cc = wildcards (q_trimmed (q_toUpper combinedType)) in
      if length combinedType \<noteq> 3 then Inr False
      else if cc = ac_combinedType code then Inr True
      else if CHR ''*'' \<notin> set cc then Inr False
      else case cc of
        [ct, n, et] \<Rightarrow> Inr
          ((ct \<noteq> CHR ''*'' \<longrightarrow> getAircraftType code = [ct])
          \<and> (n \<noteq> CHR ''*'' \<longrightarrow> getEnginesCount code = digitValue n)
          \<and> (et = CHR ''*'' \<or> getEngineType code = [et]))
      | _ \<Rightarrow> Inl (OutOfRange (length cc)))"

text \<open>A text that has been trimmed has all its places.\<close>

lemma trimmed_type_reads:
  assumes "q_trimmed combinedType = combinedType"
  shows "\<exists>b. matchesCombinedType combinedType code = Inr b"
proof (cases "length combinedType = 3")
  case True
  have "q_trimmed (q_toUpper combinedType) = q_toUpper combinedType" using assms by (simp add: trimmed_upper)
  then have "length (wildcards (q_trimmed (q_toUpper combinedType))) = 3"
    using True by (simp add: assms wildcards_def q_toUpper_def)
  then obtain c1 c2 c3 where "wildcards (q_trimmed (q_toUpper combinedType)) = [c1, c2, c3]"
    by (auto simp: length_Suc_conv numeral_3_eq_3)
  then show ?thesis by (auto simp: matchesCombinedType_def Let_def)
qed (auto simp: matchesCombinedType_def Let_def)

definition matchesManufacturer :: "string \<Rightarrow> CAircraftIcaoCode \<Rightarrow> bool" where
  "matchesManufacturer manufacturer c \<longleftrightarrow>
     manufacturer \<noteq> [] \<and> length manufacturer = length (ac_manufacturer c) \<and> startsWith_nocase (ac_manufacturer c) manufacturer"

definition matchesCombinedTypeAndManufacturer :: "string \<Rightarrow> string \<Rightarrow> CAircraftIcaoCode \<Rightarrow> fault + bool" where
  "matchesCombinedTypeAndManufacturer combinedType manufacturer c =
     and_then (matchesCombinedType combinedType c) (\<lambda>b. Inr (b \<and> matchesManufacturer manufacturer c))"

definition matchesAnyDescription :: "string \<Rightarrow> CAircraftIcaoCode \<Rightarrow> bool" where
  "matchesAnyDescription candidate c \<longleftrightarrow>
     list_ex (\<lambda>d. d \<noteq> [] \<and> text_contains_nocase d candidate)
       [ac_modelDescription c, ac_modelIataDescription c, ac_modelSwiftDescription c]"

definition icaos_findByManufacturer :: "string \<Rightarrow> CAircraftIcaoCode list \<Rightarrow> CAircraftIcaoCode list" where
  "icaos_findByManufacturer manufacturer codes =
     (if manufacturer = [] then [] else filter (\<lambda>c. startsWith_nocase (ac_manufacturer c) manufacturer) codes)"

subsection \<open>Scores\<close>

definition engine_score :: "CAircraftIcaoCode \<Rightarrow> CAircraftIcaoCode \<Rightarrow> int" where
  "engine_score c other =
     (let eMy = getEnginesCount c; eOther = getEnginesCount other; eDiff = \<bar>eMy - eOther\<bar> in
      if eMy = eOther \<and> eMy \<ge> 0 then 4
      else if eMy > 0 \<and> eOther > 0 then (if eDiff = 1 then 2 else if eDiff = 2 then 1 else 0)
      else 0)"

text \<open>The type of the engine is compared with itself.\<close>

definition engine_type_score :: "CAircraftIcaoCode \<Rightarrow> int" where
  "engine_type_score c =
     (let tMy = getEngineType c; tOther = getEngineType c in
      if tMy = tOther then 4
      else if tMy \<noteq> [] \<and> tOther \<noteq> [] \<and> isEPTEngineType (hd tMy) \<and> isEPTEngineType (hd tOther) then 2 else 0)"

definition aircraft_type_score :: "CAircraftIcaoCode \<Rightarrow> CAircraftIcaoCode \<Rightarrow> int" where
  "aircraft_type_score c other =
     (if getAircraftType c = getAircraftType other then 7 else if isVtol_code c \<and> isVtol_code other then 4 else 0)"

definition designator_score :: "CAircraftIcaoCode \<Rightarrow> CAircraftIcaoCode \<Rightarrow> int" where
  "designator_score c other =
     (if isValidDesignator (ac_designator c) \<and> ac_designator c = ac_designator other
      then 50 + (if ac_rank c = 0 then 15 else if ac_rank c = 1 then 12 else if ac_rank c < 10 then 10 - ac_rank c else 0)
      else if ac_family c \<noteq> [] \<and> ac_family c = ac_family other then 40
      else if isValidCombinedType (ac_combinedType c) \<and> ac_combinedType other = ac_combinedType c then 30
      else if isValidCombinedType (ac_combinedType c)
      then engine_score c other + engine_type_score c + aircraft_type_score c other
      else 0)"

definition manufacturer_score :: "CAircraftIcaoCode \<Rightarrow> CAircraftIcaoCode \<Rightarrow> int" where
  "manufacturer_score c other =
     (if ac_manufacturer c \<noteq> [] \<and> ac_manufacturer other \<noteq> []
      then (if matchesManufacturer (ac_manufacturer other) c then 10
            else if text_contains_nocase (ac_manufacturer c) (ac_manufacturer other) then 5 else 0)
      else 0)"

definition ac_calculateScore :: "CAircraftIcaoCode \<Rightarrow> CAircraftIcaoCode \<Rightarrow> int" where
  "ac_calculateScore c other =
     (if ac_isDbEqual c other then 100
      else designator_score c other + manufacturer_score c other
           + (if ac_hasCategory c \<and> ac_hasCategory other \<and> ac_category c = ac_category other then 8
              else if ac_military c = ac_military other then 8 else 0))"

subsection \<open>Filling in and guessing\<close>

text \<open>The wake turbulence category of a code without one is taken from the designator of the other.\<close>

definition ac_updateMissingParts :: "CAircraftIcaoCode \<Rightarrow> CAircraftIcaoCode \<Rightarrow> CAircraftIcaoCode" where
  "ac_updateMissingParts other c =
     (let c = (if \<not> isValidDesignator (ac_designator c) \<and> isValidDesignator (ac_designator other)
               then c\<lparr>ac_designator := code_of (ac_designator other)\<rparr> else c);
          c = (if ac_wtc c = [] \<and> ac_wtc other \<noteq> [] then c\<lparr>ac_wtc := code_of (ac_designator other)\<rparr> else c);
          c = (if \<not> isValidCombinedType (ac_combinedType c) \<and> isValidCombinedType (ac_combinedType other)
               then c\<lparr>ac_combinedType := code_of (ac_combinedType other)\<rparr> else c);
          c = (if ac_manufacturer c = [] then c\<lparr>ac_manufacturer := q_trimmed (ac_manufacturer other)\<rparr> else c);
          c = (if ac_modelDescription c = [] then c\<lparr>ac_modelDescription := q_trimmed (ac_modelDescription other)\<rparr> else c);
          c = (if ac_modelIataDescription c = []
               then c\<lparr>ac_modelIataDescription := q_trimmed (ac_modelIataDescription other)\<rparr> else c);
          c = (if ac_modelSwiftDescription c = []
               then c\<lparr>ac_modelSwiftDescription := q_trimmed (ac_modelSwiftDescription other)\<rparr> else c);
          c = (if ac_family c = [] then c\<lparr>ac_family := q_trimmed (q_toUpper (ac_family other))\<rparr> else c)
      in if \<not> ac_hasValidDbKey c then c\<lparr>ac_dbKey := ac_dbKey other, ac_timestamp := ac_timestamp other\<rparr> else c)"

text \<open>
  A guess of the centre of gravity in metres and of the rotation speed. What is known already is kept; each \<open>break\<close> of
  the code leaves with what it has so far.
\<close>

datatype speed_unit = KmPerHour | Knots

definition guessed_start :: "int \<Rightarrow> char option \<Rightarrow> bool \<times> double \<times> double \<times> speed_unit" where
  "guessed_start engines engineType =
     (let jet = (engineType = Some (CHR ''J'')); prop = (engineType = Some (CHR ''T'')) in
      if engines = 1 then (if prop then (True, Fin 2, Fin 70, KmPerHour) else (False, mk_double (3 / 2), Fin 70, KmPerHour))
      else if engines = 2
      then (if prop then (True, Fin 2, Fin 100, Knots) else if jet then (True, mk_double (5 / 2), Fin 120, Knots)
            else (False, Fin 2, Fin 100, Knots))
      else if engines > 2 then (if jet then (True, Fin 6, Fin 140, Knots) else (False, Fin 4, Fin 70, Knots))
      else (False, mk_double (3 / 2), Fin 70, KmPerHour))"

definition guess_parameters :: "CAircraftIcaoCode \<Rightarrow> double \<times> double \<times> speed_unit" where
  "guess_parameters c =
     (let engineType = (case getEngineType c of [e] \<Rightarrow> Some (to_upper e) | _ \<Rightarrow> None);
          (left, cg, vr, u) = guessed_start (getEnginesCount c) engineType
      in if left then (cg, vr, u)
         else
           let (vr, u) = (if engineType = Some (CHR ''J'')
                          then (if ac_military c then (d_mul vr (mk_double (12 / 10)), u)
                                else if matchesDesignator ''CONC'' c then (Fin 199, Knots) else (vr, u))
                          else (vr, u));
               (vr, u) = (if isVtol_code c then (Fin 0, Knots) else (vr, u))
           in (cg, vr, u))"

definition guessModelParameters ::
    "CAircraftIcaoCode \<Rightarrow> double option \<times> (double \<times> speed_unit) option \<Rightarrow> double option \<times> (double \<times> speed_unit) option" where
  "guessModelParameters c out =
     (case out of (cgOut, vrOut) \<Rightarrow>
        let (cg, vr) = guess_parameters c
        in (Some (case cgOut of Some x \<Rightarrow> x | None \<Rightarrow> cg), Some (case vrOut of Some x \<Rightarrow> x | None \<Rightarrow> vr)))"

subsection \<open>Codes of other codes\<close>

definition normalizeDesignator :: "string \<Rightarrow> string" where
  "normalizeDesignator candidate =
     removeChars (takeWhile (\<lambda>c. \<not> is_space c) (q_toUpper (q_trimmed candidate))) (\<lambda>c. \<not> is_letter_or_number c)"

definition knownCodes :: "(string \<times> string) list" where
  "knownCodes = [(''L1P'', ''L2P''), (''L1P'', ''S1P''), (''L2J'', ''L3J''), (''L2J'', ''L4J''), (''L3J'', ''L4J'')]"

definition alternativeCombinedCodes :: "string \<Rightarrow> fault + string list" where
  "alternativeCombinedCodes combinedCode =
     (if isValidCombinedType combinedCode then Inr []
      else if combinedCode \<in> fst ` set knownCodes
      then Inr (rev (map snd (filter (\<lambda>(k, _). k = combinedCode) knownCodes)))
      else if q_endsWith combinedCode ''E'' then Inr [take 2 combinedCode @ ''P'']
      else if q_startsWith combinedCode ''T'' then Inr [''H'' @ q_right combinedCode 2]
      else and_then (list_at combinedCode 1) (\<lambda>n.
        let engineCount = digitValue n in
        if engineCount > 1
        then and_then (list_at combinedCode 2) (\<lambda>e.
          Inr (map (\<lambda>k. [hd combinedCode] @ q_number k @ [e]) (filter (\<lambda>k. k \<noteq> engineCount) [2, 3, 4])))
        else Inr []))"

definition createdCombinedString :: "string \<Rightarrow> int \<Rightarrow> string \<Rightarrow> string" where
  "createdCombinedString type engineCount engine =
     (if type = [] then ''-'' else q_toUpper (take 1 (q_trimmed type)))
       @ (if 0 \<le> engineCount \<and> engineCount < 10 then q_trimmed (q_number engineCount) else ''-'')
       @ (if engine = [] then ''-'' else q_toUpper (take 1 (q_trimmed engine)))"

subsection \<open>Lists of codes\<close>

text \<open>The manufacturer that comes up most often; of several the first in the order of the texts.\<close>

fun insert_count :: "('k \<Rightarrow> 'k \<Rightarrow> bool) \<Rightarrow> 'k \<Rightarrow> ('k \<times> int) list \<Rightarrow> ('k \<times> int) list" where
  "insert_count lt k [] = [(k, 1)]"
| "insert_count lt k ((l, n) # xs) =
     (if lt k l then (k, 1) # (l, n) # xs else if lt l k then (l, n) # insert_count lt k xs else (l, n + 1) # xs)"

definition counts :: "('k \<Rightarrow> 'k \<Rightarrow> bool) \<Rightarrow> 'k list \<Rightarrow> ('k \<times> int) list" where
  "counts lt ks = foldl (\<lambda>m k. insert_count lt k m) [] ks"

definition first_max :: "('k \<times> int) list \<Rightarrow> ('k \<times> int) option" where
  "first_max m = (case m of [] \<Rightarrow> None | _ \<Rightarrow> find (\<lambda>(_, n). n = Max (snd ` set m)) m)"

definition maxCountManufacturer :: "CAircraftIcaoCode list \<Rightarrow> string \<times> int" where
  "maxCountManufacturer codes =
     (case first_max (counts text_less (filter (\<lambda>m. m \<noteq> []) (map ac_manufacturer codes))) of Some p \<Rightarrow> p | None \<Rightarrow> ([], 0))"

definition sortByRank :: "CAircraftIcaoCode list \<Rightarrow> CAircraftIcaoCode list" where
  "sortByRank codes = sort_key ac_rank codes"

end
