(* ===== verification/Liveries.thy ===== *)
theory Liveries
  imports IcaoCodes
begin

section \<open>Airlines, colours and liveries\<close>

text \<open>
  \<open>blackmisc/aviation/airlineicaocode.cpp\<close>, \<open>airlineicaocodelist.cpp\<close> (the reduction), \<open>livery.cpp\<close> and
  \<open>blackmisc/rgbcolor.cpp\<close>. The records are the members of the classes; of a country the ISO code and the name are
  kept. Colours come as numbers: the reading of names and hexadecimal texts is that of \<open>QColor\<close>. Icons, texts for the
  user, property indexes, the reading of database JSON and the validation messages are not modelled.
\<close>

subsection \<open>Airlines\<close>

record CCountry =
  co_isoCode :: string
  co_name :: string

record CAirlineIcaoCode =
  al_dbKey :: int
  al_timestamp :: int
  al_designator :: string
  al_iataCode :: string
  al_name :: string
  al_country :: CCountry
  al_telephony :: string
  al_groupDesignator :: string
  al_groupName :: string
  al_groupId :: int
  al_isVa :: bool
  al_isOperating :: bool
  al_isMilitary :: bool

definition CAirlineIcaoCode_default :: CAirlineIcaoCode where
  "CAirlineIcaoCode_default = \<lparr>al_dbKey = - 1, al_timestamp = - 1, al_designator = [], al_iataCode = [], al_name = [],
     al_country = \<lparr>co_isoCode = [], co_name = []\<rparr>, al_telephony = [], al_groupDesignator = [], al_groupName = [],
     al_groupId = - 1, al_isVa = False, al_isOperating = True, al_isMilitary = False\<rparr>"

text \<open>Four letters that start with V are a virtual airline.\<close>

definition al_setDesignator :: "string \<Rightarrow> CAirlineIcaoCode \<Rightarrow> CAirlineIcaoCode" where
  "al_setDesignator icaoDesignator a =
     (let d = code_of icaoDesignator in
      if length d = 4 \<and> q_startsWith d ''V'' then a\<lparr>al_designator := q_right d 3, al_isVa := True\<rparr>
      else a\<lparr>al_designator := d\<rparr>)"

definition CAirlineIcaoCode_of :: "string \<Rightarrow> CAirlineIcaoCode" where
  "CAirlineIcaoCode_of airlineDesignator =
     (let d = code_of airlineDesignator; a = CAirlineIcaoCode_default\<lparr>al_designator := d\<rparr>
      in if length d = 4 then al_setDesignator d a else a)"

definition al_hasValidDbKey :: "CAirlineIcaoCode \<Rightarrow> bool" where
  "al_hasValidDbKey a \<longleftrightarrow> al_dbKey a \<ge> 0"

definition isValidAirlineDesignator :: "string \<Rightarrow> bool" where
  "isValidAirlineDesignator airline \<longleftrightarrow>
     2 \<le> length airline \<and> length airline \<le> 5 \<and> \<not> containsChar airline (\<lambda>c. \<not> is_upper c \<and> \<not> is_digit c)"

definition isValidIataCode :: "string \<Rightarrow> bool" where
  "isValidIataCode iataCode \<longleftrightarrow> length iataCode = 2 \<and> isValidAirlineDesignator iataCode"

definition al_hasValidDesignator :: "CAirlineIcaoCode \<Rightarrow> bool" where
  "al_hasValidDesignator a \<longleftrightarrow> isValidAirlineDesignator (al_designator a)"

definition getVDesignator :: "CAirlineIcaoCode \<Rightarrow> string" where
  "getVDesignator a = (if \<not> al_isVa a then al_designator a else CHR ''V'' # al_designator a)"

definition al_hasValidCountry :: "CAirlineIcaoCode \<Rightarrow> bool" where
  "al_hasValidCountry a \<longleftrightarrow> length (co_isoCode (al_country a)) = 2 \<and> co_name (al_country a) \<noteq> []"

definition hasGroupMembership :: "CAirlineIcaoCode \<Rightarrow> bool" where
  "hasGroupMembership a \<longleftrightarrow> al_groupId a \<ge> 0 \<and> al_groupDesignator a \<noteq> []"

definition getSimplifiedName :: "CAirlineIcaoCode \<Rightarrow> string" where
  "getSimplifiedName a = simplifyNameForSearch (al_name a)"

text \<open>Equality leaves out the IATA code, and the case of the country.\<close>

datatype compare_key = KeyInt int | KeyText string

definition compare_keys :: "CAirlineIcaoCode \<Rightarrow> compare_key list" where
  "compare_keys a =
     [KeyInt (al_dbKey a), KeyInt (al_timestamp a), KeyText (al_designator a), KeyText (al_name a),
      KeyText (q_toLower (co_isoCode (al_country a))), KeyText (co_name (al_country a)), KeyText (al_telephony a),
      KeyText (al_groupDesignator a), KeyText (al_groupName a), KeyInt (al_groupId a),
      KeyInt (of_bool (al_isVa a)), KeyInt (of_bool (al_isOperating a)), KeyInt (of_bool (al_isMilitary a))]"

definition airline_eq :: "CAirlineIcaoCode \<Rightarrow> CAirlineIcaoCode \<Rightarrow> bool" where
  "airline_eq a b \<longleftrightarrow> compare_keys a = compare_keys b"

fun key_less :: "compare_key \<Rightarrow> compare_key \<Rightarrow> bool" where
  "key_less (KeyInt a) (KeyInt b) \<longleftrightarrow> a < b"
| "key_less (KeyText a) (KeyText b) \<longleftrightarrow> text_less a b"
| "key_less _ _ \<longleftrightarrow> False"

fun keys_less :: "compare_key list \<Rightarrow> compare_key list \<Rightarrow> bool" where
  "keys_less (a # as) (b # bs) \<longleftrightarrow> key_less a b \<or> (\<not> key_less b a \<and> keys_less as bs)"
| "keys_less _ _ \<longleftrightarrow> False"

definition airline_less :: "CAirlineIcaoCode \<Rightarrow> CAirlineIcaoCode \<Rightarrow> bool" where
  "airline_less a b \<longleftrightarrow> keys_less (compare_keys a) (compare_keys b)"

subsection \<open>Matching airlines\<close>

definition matchesAirlineDesignator :: "string \<Rightarrow> CAirlineIcaoCode \<Rightarrow> bool" where
  "matchesAirlineDesignator designator a \<longleftrightarrow>
     designator \<noteq> [] \<and> al_designator a \<noteq> [] \<and> caseInsensitiveStringCompare (al_designator a) (q_trimmed designator)"

definition matchesVDesignator :: "string \<Rightarrow> CAirlineIcaoCode \<Rightarrow> bool" where
  "matchesVDesignator designator a \<longleftrightarrow>
     designator \<noteq> [] \<and> al_designator a \<noteq> [] \<and> caseInsensitiveStringCompare (getVDesignator a) (q_trimmed designator)"

definition al_matchesIataCode :: "string \<Rightarrow> CAirlineIcaoCode \<Rightarrow> bool" where
  "al_matchesIataCode iata a \<longleftrightarrow>
     iata \<noteq> [] \<and> al_iataCode a \<noteq> [] \<and> caseInsensitiveStringCompare (al_iataCode a) (q_trimmed iata)"

definition matchesVDesignatorOrIataCode :: "string \<Rightarrow> CAirlineIcaoCode \<Rightarrow> bool" where
  "matchesVDesignatorOrIataCode candidate a \<longleftrightarrow>
     candidate \<noteq> [] \<and> (matchesVDesignator candidate a \<or> al_matchesIataCode candidate a)"

definition isContainedInSimplifiedName :: "string \<Rightarrow> CAirlineIcaoCode \<Rightarrow> bool" where
  "isContainedInSimplifiedName candidate a \<longleftrightarrow>
     candidate \<noteq> [] \<and> al_name a \<noteq> [] \<and> q_contains (q_toUpper (filter is_letter (al_name a))) (q_toUpper candidate)"

text \<open>Every name contains the empty text.\<close>

definition matchesNamesOrTelephonyDesignator :: "string \<Rightarrow> CAirlineIcaoCode \<Rightarrow> bool" where
  "matchesNamesOrTelephonyDesignator candidate a \<longleftrightarrow>
     (let cand = q_trimmed (q_toUpper candidate) in
      text_contains_nocase (al_name a) cand \<or> text_contains_nocase (al_telephony a) cand
      \<or> isContainedInSimplifiedName candidate a)"

definition al_isDbEqual :: "CAirlineIcaoCode \<Rightarrow> CAirlineIcaoCode \<Rightarrow> bool" where
  "al_isDbEqual a other \<longleftrightarrow> al_hasValidDbKey other \<and> al_hasValidDbKey a \<and> al_dbKey other = al_dbKey a"

definition al_calculateScore :: "CAirlineIcaoCode \<Rightarrow> CAirlineIcaoCode \<Rightarrow> int" where
  "al_calculateScore a other =
     (if al_isDbEqual a other then 100
      else
        (if al_hasValidDesignator other \<and> al_designator a = al_designator other then 60 else 0)
        + (if al_hasValidDbKey a \<and> al_hasValidDbKey other \<and> al_isVa a = al_isVa other then 20 else 0)
        + (if al_name a \<noteq> [] \<and> al_name a = al_name other then 20
           else if al_telephony a \<noteq> [] \<and> al_telephony a = al_telephony other then 15
           else if al_name a \<noteq> [] \<and> getSimplifiedName a \<noteq> [] \<and> getSimplifiedName a = getSimplifiedName other then 10
           else 0))"

text \<open>The code of the callsign where it says more.\<close>

definition thisOrCallsignCode :: "CCallsign \<Rightarrow> CAirlineIcaoCode \<Rightarrow> CAirlineIcaoCode" where
  "thisOrCallsignCode callsign a =
     (let callsignAirline = fst (getAirlinePrefix callsign []); callsignIcao = CAirlineIcaoCode_of callsignAirline in
      if al_hasValidDbKey a \<or> isEmpty callsign \<or> callsignAirline = [] \<or> callsignAirline = al_designator a then a
      else if al_designator a = [] then callsignIcao
      else if al_isVa callsignIcao \<and> q_endsWith (al_designator callsignIcao) (al_designator a) then callsignIcao
      else a)"

text \<open>An object of the database is the base where there is one.\<close>

definition al_fill_in :: "CAirlineIcaoCode \<Rightarrow> CAirlineIcaoCode \<Rightarrow> CAirlineIcaoCode" where
  "al_fill_in other a =
     (let a = (if \<not> al_hasValidDesignator a then al_setDesignator (al_designator other) a else a);
          a = (if \<not> al_hasValidCountry a then a\<lparr>al_country := al_country other\<rparr> else a);
          a = (if al_name a = [] then a\<lparr>al_name := q_trimmed (al_name other)\<rparr> else a);
          a = (if al_telephony a = [] then a\<lparr>al_telephony := code_of (al_telephony other)\<rparr> else a)
      in if \<not> al_hasValidDbKey a then a\<lparr>al_dbKey := al_dbKey other, al_timestamp := al_timestamp other\<rparr> else a)"

definition al_updateMissingParts :: "CAirlineIcaoCode \<Rightarrow> CAirlineIcaoCode \<Rightarrow> CAirlineIcaoCode" where
  "al_updateMissingParts other a =
     (if \<not> al_hasValidDbKey a \<and> al_hasValidDbKey other then al_fill_in a other else al_fill_in other a)"

subsection \<open>Reducing a list of airlines\<close>

definition als_findByNames :: "string \<Rightarrow> CAirlineIcaoCode list \<Rightarrow> CAirlineIcaoCode list" where
  "als_findByNames name as = (if name = [] then [] else filter (matchesNamesOrTelephonyDesignator name) as)"

definition als_findByCountryIsoCode :: "string \<Rightarrow> CAirlineIcaoCode list \<Rightarrow> CAirlineIcaoCode list" where
  "als_findByCountryIsoCode isoCode as =
     (if length isoCode \<noteq> 2 then [] else filter (\<lambda>a. co_isoCode (al_country a) = q_toUpper isoCode) as)"

text \<open>A step takes what it found unless that is nothing or as much as the whole list.\<close>

definition narrowed :: "'a list \<Rightarrow> 'a list \<Rightarrow> 'a list \<Rightarrow> bool \<Rightarrow> 'a list \<times> bool" where
  "narrowed whole before found reduced =
     (if found = [] \<or> length found = length whole then (before, reduced) else (found, True))"

definition ifPossibleReduceNameTelephonyCountry ::
    "string \<Rightarrow> string \<Rightarrow> string \<Rightarrow> CAirlineIcaoCode list \<Rightarrow> CAirlineIcaoCode list \<times> bool" where
  "ifPossibleReduceNameTelephonyCountry airlineName telephony countryIso as =
     (if as = [] \<or> (telephony = [] \<and> airlineName = [] \<and> countryIso = []) then (as, False)
      else
        let (step1, r1) = narrowed as as (if airlineName = [] then as else als_findByNames airlineName as) False in
        if length step1 = 1 then (step1, r1)
        else
          let (step2, r2) = narrowed as step1 (if telephony = [] then step1 else als_findByNames telephony step1) r1 in
          if length step2 = 1 then (step2, r2)
          else narrowed as step2 (if countryIso = [] then step2 else als_findByCountryIsoCode countryIso step2) r2)"

subsection \<open>Colours\<close>

record CRgbColor =
  rgb_r :: int
  rgb_g :: int
  rgb_b :: int

definition CRgbColor_default :: CRgbColor where
  "CRgbColor_default = \<lparr>rgb_r = - 1, rgb_g = - 1, rgb_b = - 1\<rparr>"

definition rgb_isValid :: "CRgbColor \<Rightarrow> bool" where
  "rgb_isValid c \<longleftrightarrow> rgb_r c \<ge> 0 \<and> rgb_g c \<ge> 0 \<and> rgb_b c \<ge> 0"

definition colorRange :: "CRgbColor \<Rightarrow> int" where
  "colorRange c =
     (if \<not> rgb_isValid c then 255
      else if rgb_b c < 256 \<and> rgb_g c < 256 \<and> rgb_r c < 256 then 255
      else if rgb_b c < 4096 \<and> rgb_g c < 4096 \<and> rgb_r c < 4096 then 4095 else 65535)"

definition normalized :: "int \<Rightarrow> CRgbColor \<Rightarrow> double" where
  "normalized component c = d_div (d_mul (d_of_int component) (Fin 1)) (d_of_int (colorRange c))"

definition d_square :: "double \<Rightarrow> double" where
  "d_square d = d_mul d d"

definition colorDistance :: "CRgbColor \<Rightarrow> CRgbColor \<Rightarrow> double" where
  "colorDistance c color =
     (if \<not> rgb_isValid c \<and> \<not> rgb_isValid color then Fin 0
      else if \<not> rgb_isValid c \<or> \<not> rgb_isValid color then Fin 1
      else if c = color then Fin 0
      else
        let rd = d_sub (normalized (rgb_r c) c) (normalized (rgb_r color) color);
            bd = d_sub (normalized (rgb_b c) c) (normalized (rgb_b color) color);
            gd = d_sub (normalized (rgb_g c) c) (normalized (rgb_g color) color)
        in d_div (d_add (d_add (d_square rd) (d_square bd)) (d_square gd)) (Fin 3))"

subsection \<open>Liveries\<close>

text \<open>
  \<open>hasCombinedCode\<close> asserts that a combined code does not start with the marker of a standard livery and a point
  before it, which an empty airline designator would give; \<open>getStandardCode\<close> gives no code of an empty designator.
\<close>

record CLivery =
  lv_dbKey :: int
  lv_timestamp :: int
  lv_airline :: CAirlineIcaoCode
  lv_combinedCode :: string
  lv_description :: string
  lv_colorFuselage :: CRgbColor
  lv_colorTail :: CRgbColor
  lv_military :: bool

definition CLivery_default :: CLivery where
  "CLivery_default = \<lparr>lv_dbKey = - 1, lv_timestamp = - 1, lv_airline = CAirlineIcaoCode_default, lv_combinedCode = [],
     lv_description = [], lv_colorFuselage = CRgbColor_default, lv_colorTail = CRgbColor_default, lv_military = False\<rparr>"

definition CLivery_of :: "string \<Rightarrow> CAirlineIcaoCode \<Rightarrow> string \<Rightarrow> CLivery" where
  "CLivery_of combinedCode airline description =
     CLivery_default\<lparr>lv_airline := airline, lv_combinedCode := code_of combinedCode, lv_description := q_trimmed description\<rparr>"

definition standardLiveryMarker :: string where "standardLiveryMarker = ''_STD''"
definition colorLiveryMarker :: string where "colorLiveryMarker = ''_CC''"

definition getStandardCode :: "CAirlineIcaoCode \<Rightarrow> string" where
  "getStandardCode airline =
     (let code = getVDesignator airline in if code = [] then [] else code @ ''.'' @ standardLiveryMarker)"

definition lv_isValidCombinedCode :: "string \<Rightarrow> bool" where
  "lv_isValidCombinedCode candidate \<longleftrightarrow>
     candidate \<noteq> []
     \<and> (if q_startsWith candidate colorLiveryMarker then length candidate > length colorLiveryMarker + 1
        else length (filter (\<lambda>c. c = CHR ''.'') candidate) = 1 \<and> length candidate > 2)"

definition lv_hasValidDbKey :: "CLivery \<Rightarrow> bool" where
  "lv_hasValidDbKey l \<longleftrightarrow> lv_dbKey l \<ge> 0"

definition hasCombinedCode :: "CLivery \<Rightarrow> fault + bool" where
  "hasCombinedCode l =
     (if q_startsWith (lv_combinedCode l) (''.'' @ standardLiveryMarker) then Inl AssertFailed
      else Inr (lv_combinedCode l \<noteq> []))"

definition matchesCombinedCode :: "string \<Rightarrow> CLivery \<Rightarrow> fault + bool" where
  "matchesCombinedCode candidate l =
     (if candidate = [] then Inr False
      else and_then (hasCombinedCode l) (\<lambda>b. Inr (b \<and> code_of candidate = lv_combinedCode l)))"

definition isAirlineLivery :: "CLivery \<Rightarrow> bool" where
  "isAirlineLivery l \<longleftrightarrow> al_hasValidDesignator (lv_airline l)"

definition isColorLivery :: "CLivery \<Rightarrow> bool" where
  "isColorLivery l \<longleftrightarrow> q_startsWith (lv_combinedCode l) colorLiveryMarker"

definition isAirlineStandardLivery :: "CLivery \<Rightarrow> bool" where
  "isAirlineStandardLivery l \<longleftrightarrow>
     \<not> isColorLivery l \<and> isAirlineLivery l \<and> q_endsWith (lv_combinedCode l) standardLiveryMarker"

definition lv_isDbEqual :: "CLivery \<Rightarrow> CLivery \<Rightarrow> bool" where
  "lv_isDbEqual l other \<longleftrightarrow> lv_hasValidDbKey other \<and> lv_hasValidDbKey l \<and> lv_dbKey other = lv_dbKey l"

definition getColorDistance :: "CRgbColor \<Rightarrow> CRgbColor \<Rightarrow> CLivery \<Rightarrow> double" where
  "getColorDistance fuselage tail l =
     (if \<not> rgb_isValid fuselage \<or> \<not> rgb_isValid tail then Fin 1
      else if rgb_isValid (lv_colorFuselage l) \<and> rgb_isValid (lv_colorTail l)
      then if lv_colorFuselage l = fuselage \<and> lv_colorTail l = tail then Fin 0
           else d_div (d_add (d_square (colorDistance (lv_colorFuselage l) fuselage))
                             (d_square (colorDistance (lv_colorTail l) tail))) (Fin 2)
      else Fin 1)"

text \<open>An \<open>int\<close> that a \<open>double\<close> is added to.\<close>

definition add_double :: "int \<Rightarrow> double \<Rightarrow> int" where
  "add_double i d = d_to_int (d_add (d_of_int i) d)"

definition half_score :: "int \<Rightarrow> int" where
  "half_score i = qRound (d_mul (mk_double (1 / 2)) (d_of_int i))"

definition lv_calculateScore :: "bool \<Rightarrow> CLivery \<Rightarrow> CLivery \<Rightarrow> int" where
  "lv_calculateScore preferColorLiveries l other =
     (if lv_isDbEqual l other then 100
      else
        let colorMultiplier = d_sub (Fin 1) (getColorDistance (lv_colorFuselage other) (lv_colorTail other) l) in
        if isColorLivery l \<and> isColorLivery other then add_double 25 (d_mul (Fin 60) colorMultiplier)
        else if isAirlineLivery l \<and> isAirlineLivery other
        then add_double (half_score (al_calculateScore (lv_airline l) (lv_airline other))) (d_mul (Fin 25) colorMultiplier)
             + (if lv_military l = lv_military other then 10 else 0)
        else if (isColorLivery l \<and> isAirlineLivery other) \<or> (isColorLivery other \<and> isAirlineLivery l)
        then add_double (if preferColorLiveries then 25 else 0) (d_mul (Fin 25) colorMultiplier)
        else 0)"

definition lv_fill_in :: "CLivery \<Rightarrow> CLivery \<Rightarrow> CLivery" where
  "lv_fill_in other l =
     (let l = (if \<not> rgb_isValid (lv_colorFuselage l) then l\<lparr>lv_colorFuselage := lv_colorFuselage other\<rparr> else l);
          l = (if \<not> rgb_isValid (lv_colorTail l) then l\<lparr>lv_colorTail := lv_colorTail other\<rparr> else l);
          l = (if lv_combinedCode l = [] then l\<lparr>lv_combinedCode := code_of (lv_combinedCode other)\<rparr> else l);
          l = (if lv_description l = [] then l\<lparr>lv_description := lv_description other\<rparr> else l);
          l = l\<lparr>lv_airline := al_updateMissingParts (lv_airline other) (lv_airline l)\<rparr>
      in if \<not> lv_hasValidDbKey l then l\<lparr>lv_dbKey := lv_dbKey other, lv_timestamp := lv_timestamp other\<rparr> else l)"

definition lv_updateMissingParts :: "CLivery \<Rightarrow> CLivery \<Rightarrow> CLivery" where
  "lv_updateMissingParts other l =
     (if \<not> lv_hasValidDbKey l \<and> lv_hasValidDbKey other then lv_fill_in l other else lv_fill_in other l)"

definition setAirlineIcaoCode :: "CAirlineIcaoCode \<Rightarrow> CLivery \<Rightarrow> CLivery" where
  "setAirlineIcaoCode airline l = (if airline_eq (lv_airline l) airline then l else l\<lparr>lv_airline := airline\<rparr>)"

text \<open>Equality of liveries: that of the airline, the combined code without regard to case.\<close>

definition livery_eq :: "CLivery \<Rightarrow> CLivery \<Rightarrow> bool" where
  "livery_eq a b \<longleftrightarrow>
     lv_dbKey a = lv_dbKey b \<and> lv_timestamp a = lv_timestamp b \<and> airline_eq (lv_airline a) (lv_airline b)
     \<and> q_eq_nocase (lv_combinedCode a) (lv_combinedCode b) \<and> lv_description a = lv_description b
     \<and> lv_colorFuselage a = lv_colorFuselage b \<and> lv_colorTail a = lv_colorTail b \<and> lv_military a = lv_military b"

end
