(* ===== verification/AircraftModels.thy ===== *)
theory AircraftModels
  imports Liveries
begin

unbundle bit_operations_syntax

section \<open>Aircraft models and lists of them\<close>

text \<open>
  \<open>blackmisc/simulation/aircraftmodel.cpp\<close> and \<open>aircraftmodellist.cpp\<close> as far as the matching uses them, and the flags
  of \<open>simulatorinfo.cpp\<close>. A \<open>CAircraftModelList\<close> is a list. The record keeps the members of the class but the
  distributor; a quantity that is null is \<open>None\<close>. Files, icons, statistics as text, JSON and validation are not modelled.
\<close>

subsection \<open>Simulators\<close>

text \<open>A set of simulators is the number of its flags. The six known ones; only the first five are counted.\<close>

definition sim_FSX :: int where "sim_FSX = 1"
definition sim_FS9 :: int where "sim_FS9 = 2"
definition sim_XPLANE :: int where "sim_XPLANE = 4"
definition sim_P3D :: int where "sim_P3D = 8"
definition sim_FG :: int where "sim_FG = 16"
definition sim_MSFS :: int where "sim_MSFS = 32"

text \<open>\<open>QFlags::testFlag\<close>: all bits of the flag are set, and no bit where the flag is 0. \<open>QFlags::setFlag\<close>.\<close>

definition int_testFlag :: "int \<Rightarrow> int \<Rightarrow> bool" where
  "int_testFlag i f \<longleftrightarrow> i AND f = f \<and> (f \<noteq> 0 \<or> i = f)"

definition int_setFlag :: "int \<Rightarrow> bool \<Rightarrow> int \<Rightarrow> int" where
  "int_setFlag f on i = (if on then i OR f else i AND NOT f)"

definition numberSimulators :: "int \<Rightarrow> nat" where
  "numberSimulators s = length (filter (int_testFlag s) [sim_FS9, sim_FSX, sim_XPLANE, sim_P3D, sim_FG])"

definition isSingleSimulator :: "int \<Rightarrow> bool" where
  "isSingleSimulator s \<longleftrightarrow> numberSimulators s = 1"

definition isMicrosoftOrPrepare3DSimulator :: "int \<Rightarrow> bool" where
  "isMicrosoftOrPrepare3DSimulator s \<longleftrightarrow> int_testFlag s sim_FSX \<or> int_testFlag s sim_FS9 \<or> int_testFlag s sim_P3D"

definition sim_isUnspecified :: "int \<Rightarrow> bool" where
  "sim_isUnspecified s \<longleftrightarrow> s < 1"

subsection \<open>Models\<close>

datatype ModelType = TypeUnknown | TypeQueriedFromNetwork | TypeFSInnData | TypeReverseLookup | TypeModelMatching
  | TypeModelMatchingDefaultModel | TypeDatabaseEntry | TypeManuallySet | TypeOwnSimulatorModel | TypeVPilotRuleBased
  | TypeTerrainProbe

datatype ModelMode = UndefinedMode | IncludeMode | ExcludeMode

record CAircraftModel =
  md_dbKey :: int
  md_timestamp :: int
  md_order :: int
  md_callsign :: CCallsign
  md_aircraftIcao :: CAircraftIcaoCode
  md_livery :: CLivery
  md_simulator :: int
  md_modelString :: string
  md_modelStringAlias :: string
  md_name :: string
  md_description :: string
  md_fileName :: string
  md_iconFile :: string
  md_supportedParts :: string
  md_fileTimestamp :: int
  md_modelType :: ModelType
  md_modelMode :: ModelMode
  md_cg :: "double option"

definition CAircraftModel_default :: CAircraftModel where
  "CAircraftModel_default = \<lparr>md_dbKey = - 1, md_timestamp = - 1, md_order = - 1, md_callsign = CCallsign_default,
     md_aircraftIcao = CAircraftIcaoCode_default, md_livery = CLivery_default, md_simulator = 0, md_modelString = [],
     md_modelStringAlias = [], md_name = [], md_description = [], md_fileName = [], md_iconFile = [],
     md_supportedParts = [], md_fileTimestamp = - 1, md_modelType = TypeUnknown, md_modelMode = IncludeMode, md_cg = None\<rparr>"

definition CAircraftModel_of :: "string \<Rightarrow> ModelType \<Rightarrow> string \<Rightarrow> CAircraftIcaoCode \<Rightarrow> CLivery \<Rightarrow> CAircraftModel" where
  "CAircraftModel_of model type description icao livery =
     CAircraftModel_default\<lparr>md_aircraftIcao := icao, md_livery := livery, md_modelString := code_of model,
       md_description := q_trimmed description, md_modelType := type\<rparr>"

definition md_airline :: "CAircraftModel \<Rightarrow> CAirlineIcaoCode" where
  "md_airline m = lv_airline (md_livery m)"

definition md_hasValidDbKey :: "CAircraftModel \<Rightarrow> bool" where
  "md_hasValidDbKey m \<longleftrightarrow> md_dbKey m \<ge> 0"

definition md_hasModelString :: "CAircraftModel \<Rightarrow> bool" where
  "md_hasModelString m \<longleftrightarrow> md_modelString m \<noteq> []"

definition hasQueriedModelString :: "CAircraftModel \<Rightarrow> bool" where
  "hasQueriedModelString m \<longleftrightarrow> md_modelType m = TypeQueriedFromNetwork \<and> md_hasModelString m"

definition hasManuallySetString :: "CAircraftModel \<Rightarrow> bool" where
  "hasManuallySetString m \<longleftrightarrow> md_modelType m = TypeManuallySet \<and> md_hasModelString m"

definition md_hasAirlineDesignator :: "CAircraftModel \<Rightarrow> bool" where
  "md_hasAirlineDesignator m \<longleftrightarrow> al_hasValidDesignator (md_airline m)"

definition md_hasCategory :: "CAircraftModel \<Rightarrow> bool" where
  "md_hasCategory m \<longleftrightarrow> ac_hasCategory (md_aircraftIcao m)"

definition md_isMilitary :: "CAircraftModel \<Rightarrow> bool" where
  "md_isMilitary m \<longleftrightarrow> ac_military (md_aircraftIcao m) \<or> lv_military (md_livery m)"

definition md_isVtol :: "CAircraftModel \<Rightarrow> bool" where
  "md_isVtol m = isVtol_code (md_aircraftIcao m)"

definition canInitializeFromFsd :: "CAircraftModel \<Rightarrow> bool" where
  "canInitializeFromFsd m \<longleftrightarrow> md_modelType m \<in> {TypeQueriedFromNetwork, TypeFSInnData, TypeUnknown}"

definition md_setCallsign :: "CCallsign \<Rightarrow> CAircraftModel \<Rightarrow> CAircraftModel" where
  "md_setCallsign callsign m = m\<lparr>md_callsign := callsign\<lparr>m_typeHint := Aircraft\<rparr>\<rparr>"

definition md_setModelType :: "ModelType \<Rightarrow> CAircraftModel \<Rightarrow> CAircraftModel" where
  "md_setModelType type m = m\<lparr>md_modelType := type\<rparr>"

definition setAircraftIcaoCode :: "CAircraftIcaoCode \<Rightarrow> CAircraftModel \<Rightarrow> CAircraftModel" where
  "setAircraftIcaoCode icao m = m\<lparr>md_aircraftIcao := icao\<rparr>"

definition md_setLivery :: "CLivery \<Rightarrow> CAircraftModel \<Rightarrow> CAircraftModel" where
  "md_setLivery livery m = m\<lparr>md_livery := livery\<rparr>"

definition matchesModelString :: "string \<Rightarrow> CAircraftModel \<Rightarrow> bool" where
  "matchesModelString modelString m \<longleftrightarrow> caseInsensitiveStringCompare modelString (md_modelString m)"

definition matchesModelStringOrAlias :: "string \<Rightarrow> CAircraftModel \<Rightarrow> bool" where
  "matchesModelStringOrAlias modelString m \<longleftrightarrow>
     matchesModelString modelString m \<or> caseInsensitiveStringCompare modelString (md_modelStringAlias m)"

definition matchesSimulator :: "int \<Rightarrow> CAircraftModel \<Rightarrow> bool" where
  "matchesSimulator simulator m \<longleftrightarrow> simulator AND md_simulator m > 0"

definition md_calculateScore :: "bool \<Rightarrow> CAircraftModel \<Rightarrow> CAircraftModel \<Rightarrow> int" where
  "md_calculateScore preferColorLiveries m compareModel =
     half_score (ac_calculateScore (md_aircraftIcao m) (md_aircraftIcao compareModel)
                 + lv_calculateScore preferColorLiveries (md_livery m) (md_livery compareModel))"

text \<open>\<open>cleanUpPartsString\<close> keeps the letters of parts and sorts them.\<close>

definition supportedParts :: string where "supportedParts = ''EFGLS''"

definition cleanUpPartsString :: "string \<Rightarrow> string" where
  "cleanUpPartsString p = sort_key (of_char :: char \<Rightarrow> nat) (removeChars (q_toUpper p) (\<lambda>c. c \<notin> set supportedParts))"

definition modelModeFromString :: "string \<Rightarrow> ModelMode" where
  "modelModeFromString mode =
     (if mode = [] \<or> startsWith_nocase mode ''I'' then IncludeMode
      else if startsWith_nocase mode ''E'' then ExcludeMode else IncludeMode)"

text \<open>Of the undefined mode there is an assertion; the text is that of a build without it.\<close>

definition modelModeToString :: "ModelMode \<Rightarrow> string" where
  "modelModeToString mode = (case mode of ExcludeMode \<Rightarrow> ''Exclude'' | _ \<Rightarrow> ''Include'')"

subsection \<open>Filling in what is missing\<close>

definition autoGenerated :: string where "autoGenerated = ''swift auto generated''"

definition updateLocalFileNames :: "CAircraftModel \<Rightarrow> CAircraftModel \<Rightarrow> CAircraftModel" where
  "updateLocalFileNames other m =
     (if md_modelType m = TypeOwnSimulatorModel then m
      else if md_modelType other = TypeOwnSimulatorModel
      then m\<lparr>md_fileName := md_fileName other, md_iconFile := md_iconFile other\<rparr>
      else
        let m = (if md_fileName m = [] then m\<lparr>md_fileName := md_fileName other\<rparr> else m)
        in if md_iconFile m = [] then m\<lparr>md_iconFile := md_iconFile other\<rparr> else m)"

text \<open>Of an undefined mode the type is taken over. The distributor is not kept here.\<close>

definition md_fill_in :: "CAircraftModel \<Rightarrow> CAircraftModel \<Rightarrow> CAircraftModel" where
  "md_fill_in other m =
     (let m = updateLocalFileNames other m;
          m = (if md_fileTimestamp m < 0 \<or> md_fileTimestamp other > md_fileTimestamp m
               then m\<lparr>md_fileTimestamp := (if md_fileTimestamp other < 0 then - 1 else md_fileTimestamp other)\<rparr> else m)
      in if md_hasValidDbKey m \<and> md_hasValidDbKey other then m
         else
           let m = (if isEmpty (md_callsign m) then md_setCallsign (md_callsign other) m else m);
               m = (if md_modelString m = [] then m\<lparr>md_modelString := code_of (md_modelString other)\<rparr> else m);
               m = (if md_name m = [] then m\<lparr>md_name := q_trimmed (md_name other)\<rparr> else m);
               m = (if md_modelType m = TypeUnknown then m\<lparr>md_modelType := md_modelType other\<rparr> else m);
               m = (if md_modelMode m = UndefinedMode then m\<lparr>md_modelType := md_modelType other\<rparr> else m);
               m = (if md_description m = [] \<or> startsWith_nocase (md_description m) autoGenerated
                    then m\<lparr>md_description := q_trimmed (md_description other)\<rparr> else m);
               m = (if sim_isUnspecified (md_simulator m) then m\<lparr>md_simulator := md_simulator other\<rparr> else m);
               m = (if md_timestamp m < 0 then m\<lparr>md_timestamp := md_timestamp other\<rparr> else m)
           in m\<lparr>md_livery := lv_updateMissingParts (md_livery other) (md_livery m),
                md_aircraftIcao := ac_updateMissingParts (md_aircraftIcao other) (md_aircraftIcao m)\<rparr>)"

definition md_updateMissingParts :: "bool \<Rightarrow> CAircraftModel \<Rightarrow> CAircraftModel \<Rightarrow> CAircraftModel" where
  "md_updateMissingParts dbModelPriority other m =
     (if dbModelPriority \<and> \<not> md_hasValidDbKey m \<and> md_hasValidDbKey other then md_fill_in m other else md_fill_in other m)"

end
