(* ===== verification/MatcherSetup.thy ===== *)
theory MatcherSetup
  imports AircraftModels
begin

section \<open>Setup of the matching\<close>

text \<open>
  \<open>blackmisc/simulation/aircraftmatchersetup.h\<close> and \<open>.cpp\<close>. The modes are the number of their flags, as \<open>m_mode\<close> keeps
  them: the flags of the orders and of the airline groups contain that of the ICAO data. Texts for the user and the
  property indexes are not modelled.
\<close>

datatype MatchingAlgorithm = MatchingStepwiseReducePlusScoreBased | MatchingScoreBased | MatchingStepwiseReduce

datatype PickSimilarStrategy = PickFirst | PickRandom | PickByOrder

subsection \<open>The flags\<close>

definition ByModelString :: int where "ByModelString = 2 ^ 0"
definition ByIcaoData :: int where "ByIcaoData = 2 ^ 1"
definition ByFamily :: int where "ByFamily = 2 ^ 2"
definition ByLivery :: int where "ByLivery = 2 ^ 3"
definition ByCombinedType :: int where "ByCombinedType = 2 ^ 4"
definition ByManufacturer :: int where "ByManufacturer = 2 ^ 5"
definition ByMilitary :: int where "ByMilitary = 2 ^ 6"
definition ByCivilian :: int where "ByCivilian = 2 ^ 7"
definition ByMilOrCivilian :: int where "ByMilOrCivilian = ByCivilian OR ByMilitary"
definition ByVtol :: int where "ByVtol = 2 ^ 8"
definition ByIcaoOrderAircraftFirst :: int where "ByIcaoOrderAircraftFirst = 2 ^ 9 OR ByIcaoData"
definition ByIcaoOrderAirlineFirst :: int where "ByIcaoOrderAirlineFirst = 2 ^ 10 OR ByIcaoData"
definition ByAirlineGroupSameAsAirline :: int where "ByAirlineGroupSameAsAirline = 2 ^ 11 OR ByIcaoData"
definition ByAirlineGroupIfNoAirline :: int where "ByAirlineGroupIfNoAirline = 2 ^ 12 OR ByIcaoData"

definition ExcludeNoDbData :: int where "ExcludeNoDbData = 2 ^ 13"
definition ExcludeNoExcluded :: int where "ExcludeNoExcluded = 2 ^ 14"
definition ExcludeDefault :: int where "ExcludeDefault = ExcludeNoExcluded OR ExcludeNoDbData"

definition ModelSetRemoveFailedModel :: int where "ModelSetRemoveFailedModel = 2 ^ 15"
definition ModelVerificationAtStartup :: int where "ModelVerificationAtStartup = 2 ^ 16"
definition ModelFailoverIfNoModelCanBeAdded :: int where "ModelFailoverIfNoModelCanBeAdded = 2 ^ 17"
definition ModelVerificationOnlyWarnError :: int where "ModelVerificationOnlyWarnError = 2 ^ 18"

definition ByCategoryGlider :: int where "ByCategoryGlider = 2 ^ 20"
definition ByCategoryMilitary :: int where "ByCategoryMilitary = 2 ^ 21"
definition ByCategorySmallAircraft :: int where "ByCategorySmallAircraft = 2 ^ 22"

definition ReverseLookupModelString :: int where "ReverseLookupModelString = 2 ^ 25"
definition ReverseLookupSwiftLiveryIds :: int where "ReverseLookupSwiftLiveryIds = 2 ^ 26"
definition ReverseLookupDefault :: int where
  "ReverseLookupDefault = ReverseLookupModelString OR ReverseLookupSwiftLiveryIds"

definition ScoreIgnoreZeros :: int where "ScoreIgnoreZeros = 2 ^ 28"
definition ScorePreferColorLiveries :: int where "ScorePreferColorLiveries = 2 ^ 29"

definition ModeNone :: int where "ModeNone = 0"
definition ModeByFLags :: int where "ModeByFLags = ByMilOrCivilian OR ByVtol"

definition ModeDefaultSet :: int where
  "ModeDefaultSet = ModelSetRemoveFailedModel OR ModelVerificationAtStartup OR ModelFailoverIfNoModelCanBeAdded"

definition ModeDefaultScore :: int where
  "ModeDefaultScore = ScoreIgnoreZeros OR ScorePreferColorLiveries OR ExcludeDefault OR ReverseLookupDefault"

definition ModeDefaultReduce :: int where
  "ModeDefaultReduce = ModeByFLags OR ByModelString OR ByFamily OR ByManufacturer OR ByCombinedType
     OR ByIcaoOrderAircraftFirst OR ByAirlineGroupIfNoAirline OR ReverseLookupDefault OR ExcludeDefault OR ByLivery"

definition ModeDefaultReducePlusScore :: int where
  "ModeDefaultReducePlusScore = ModeByFLags OR ByModelString OR ByFamily OR ByManufacturer OR ByCombinedType
     OR ByIcaoOrderAircraftFirst OR ByAirlineGroupIfNoAirline OR ReverseLookupDefault OR ExcludeDefault OR ModeDefaultScore"

lemmas mode_flag_defs = ByModelString_def ByIcaoData_def ByFamily_def ByLivery_def ByCombinedType_def ByManufacturer_def
  ByMilitary_def ByCivilian_def ByMilOrCivilian_def ByVtol_def ByIcaoOrderAircraftFirst_def ByIcaoOrderAirlineFirst_def
  ByAirlineGroupSameAsAirline_def ByAirlineGroupIfNoAirline_def ExcludeNoDbData_def ExcludeNoExcluded_def
  ExcludeDefault_def ModelSetRemoveFailedModel_def ModelVerificationAtStartup_def ModelFailoverIfNoModelCanBeAdded_def
  ModelVerificationOnlyWarnError_def ByCategoryGlider_def ByCategoryMilitary_def ByCategorySmallAircraft_def
  ReverseLookupModelString_def ReverseLookupSwiftLiveryIds_def ReverseLookupDefault_def ScoreIgnoreZeros_def
  ScorePreferColorLiveries_def ModeNone_def ModeByFLags_def ModeDefaultSet_def ModeDefaultScore_def
  ModeDefaultReduce_def ModeDefaultReducePlusScore_def

subsection \<open>The setup\<close>

record CAircraftMatcherSetup =
  ms_algorithm :: MatchingAlgorithm
  ms_mode :: int
  ms_strategy :: PickSimilarStrategy
  ms_force :: int
  ms_reverseLookupFile :: string
  ms_matchingStageFile :: string
  ms_reverseEnabled :: bool
  ms_matchingEnabled :: bool

definition mode_flag :: "CAircraftMatcherSetup \<Rightarrow> int \<Rightarrow> bool" where
  "mode_flag s flag = int_testFlag (ms_mode s) flag"

definition set_mode_flag :: "int \<Rightarrow> bool \<Rightarrow> CAircraftMatcherSetup \<Rightarrow> CAircraftMatcherSetup" where
  "set_mode_flag flag on s = s\<lparr>ms_mode := int_setFlag flag on (ms_mode s)\<rparr>"

definition default_mode :: "MatchingAlgorithm \<Rightarrow> int" where
  "default_mode algorithm =
     (case algorithm of MatchingStepwiseReduce \<Rightarrow> ModeDefaultReduce | MatchingScoreBased \<Rightarrow> ModeDefaultScore
      | MatchingStepwiseReducePlusScoreBased \<Rightarrow> ModeDefaultReducePlusScore) OR ModeDefaultSet"

definition reset_algorithm :: "MatchingAlgorithm \<Rightarrow> CAircraftMatcherSetup \<Rightarrow> CAircraftMatcherSetup" where
  "reset_algorithm algorithm s =
     s\<lparr>ms_algorithm := algorithm, ms_mode := default_mode algorithm, ms_strategy := PickByOrder\<rparr>"

definition reset_setup :: "CAircraftMatcherSetup \<Rightarrow> CAircraftMatcherSetup" where
  "reset_setup s = (reset_algorithm MatchingStepwiseReducePlusScoreBased s)
     \<lparr>ms_reverseLookupFile := [], ms_matchingStageFile := [], ms_reverseEnabled := False, ms_matchingEnabled := False\<rparr>"

text \<open>The members as declared, and the three constructors.\<close>

definition setup_members :: CAircraftMatcherSetup where
  "setup_members = \<lparr>ms_algorithm = MatchingStepwiseReducePlusScoreBased, ms_mode = ModeDefaultReducePlusScore,
     ms_strategy = PickByOrder, ms_force = 0, ms_reverseLookupFile = [], ms_matchingStageFile = [],
     ms_reverseEnabled = False, ms_matchingEnabled = False\<rparr>"

definition CAircraftMatcherSetup_default :: CAircraftMatcherSetup where
  "CAircraftMatcherSetup_default = reset_setup setup_members"

definition CAircraftMatcherSetup_of :: "MatchingAlgorithm \<Rightarrow> CAircraftMatcherSetup" where
  "CAircraftMatcherSetup_of algorithm = reset_algorithm algorithm setup_members"

definition setMatchingAlgorithm :: "MatchingAlgorithm \<Rightarrow> bool \<Rightarrow> CAircraftMatcherSetup \<Rightarrow> bool \<times> CAircraftMatcherSetup" where
  "setMatchingAlgorithm algorithm reset s =
     (if ms_algorithm s = algorithm then (False, s)
      else (True, if reset then reset_algorithm algorithm s else s\<lparr>ms_algorithm := algorithm\<rparr>))"

definition CAircraftMatcherSetup_with ::
    "MatchingAlgorithm \<Rightarrow> int \<Rightarrow> PickSimilarStrategy \<Rightarrow> CAircraftMatcherSetup" where
  "CAircraftMatcherSetup_with algorithm mode pickStrategy =
     (snd (setMatchingAlgorithm algorithm False (setup_members\<lparr>ms_strategy := pickStrategy\<rparr>)))\<lparr>ms_mode := mode\<rparr>"

definition setup_reverseLookupModelString :: "CAircraftMatcherSetup \<Rightarrow> bool" where
  "setup_reverseLookupModelString s = mode_flag s ReverseLookupModelString"

definition setup_reverseLookupLiveryIds :: "CAircraftMatcherSetup \<Rightarrow> bool" where
  "setup_reverseLookupLiveryIds s = mode_flag s ReverseLookupSwiftLiveryIds"

definition resetReverseLookup :: "CAircraftMatcherSetup \<Rightarrow> CAircraftMatcherSetup" where
  "resetReverseLookup = set_mode_flag ReverseLookupDefault True"

definition doRunMsReverseLookupScript :: "CAircraftMatcherSetup \<Rightarrow> bool" where
  "doRunMsReverseLookupScript s \<longleftrightarrow> ms_reverseEnabled s \<and> ms_reverseLookupFile s \<noteq> []"

definition doRunMsMatchingStageScript :: "CAircraftMatcherSetup \<Rightarrow> bool" where
  "doRunMsMatchingStageScript s \<longleftrightarrow> ms_matchingEnabled s \<and> ms_matchingStageFile s \<noteq> []"

definition setVerificationAtStartup :: "bool \<Rightarrow> CAircraftMatcherSetup \<Rightarrow> CAircraftMatcherSetup" where
  "setVerificationAtStartup verify = set_mode_flag ModelVerificationAtStartup verify"

definition setOnlyShowVerificationWarningsAndErrors :: "bool \<Rightarrow> CAircraftMatcherSetup \<Rightarrow> CAircraftMatcherSetup" where
  "setOnlyShowVerificationWarningsAndErrors only = set_mode_flag ModelVerificationOnlyWarnError only"

text \<open>Taking a group flag away takes the flag of the ICAO data with it, so that one is put back at the end.\<close>

definition setAirlineGroupBehaviour :: "bool \<Rightarrow> bool \<Rightarrow> CAircraftMatcherSetup \<Rightarrow> CAircraftMatcherSetup" where
  "setAirlineGroupBehaviour ifNoAirline sameAsAirline s =
     set_mode_flag ByIcaoData (mode_flag s ByIcaoData)
       (set_mode_flag ByAirlineGroupSameAsAirline sameAsAirline (set_mode_flag ByAirlineGroupIfNoAirline ifNoAirline s))"

definition useCategoryMatching :: "CAircraftMatcherSetup \<Rightarrow> bool" where
  "useCategoryMatching s \<longleftrightarrow> mode_flag s ByCategoryGlider \<or> mode_flag s ByCategoryMilitary"

definition removeFromSetIfFailed :: "CAircraftMatcherSetup \<Rightarrow> bool" where
  "removeFromSetIfFailed s = mode_flag s ModelSetRemoveFailedModel"

definition doModelAddFailover :: "CAircraftMatcherSetup \<Rightarrow> bool" where
  "doModelAddFailover s = mode_flag s ModelFailoverIfNoModelCanBeAdded"

definition with_flags :: "(bool \<times> int) list \<Rightarrow> int" where
  "with_flags choices = foldl (\<lambda>mode (on, flag). if on then mode OR flag else mode) ModeNone choices"

definition matchingMode ::
    "bool \<Rightarrow> bool \<Rightarrow> bool \<Rightarrow> bool \<Rightarrow> bool \<Rightarrow> bool \<Rightarrow> bool \<Rightarrow> bool \<Rightarrow> bool \<Rightarrow> bool \<Rightarrow> bool \<Rightarrow> bool \<Rightarrow> bool \<Rightarrow> bool \<Rightarrow> bool \<Rightarrow> bool
      \<Rightarrow> bool \<Rightarrow> bool \<Rightarrow> bool \<Rightarrow> bool \<Rightarrow> bool \<Rightarrow> bool \<Rightarrow> int" where
  "matchingMode revModelString revLiveryIds byModelString byIcaoDataAircraft1st byIcaoDataAirline1st byFamily byLivery
     byCombinedType byMilitary byCivilian byVtol byGliderCategory byMilitaryCategory bySmallAircraftCategory
     scoreIgnoreZeros scorePreferColorLiveries excludeNoDbData excludeNoExcluded modelVerification
     modelVerificationWarnError modelSetRemoveFailedModel modelFailover =
     with_flags
       [(byModelString, ByModelString), (byIcaoDataAircraft1st, ByIcaoOrderAircraftFirst),
        (byIcaoDataAirline1st, ByIcaoOrderAirlineFirst), (byFamily, ByFamily), (byLivery, ByLivery),
        (byCombinedType, ByCombinedType), (byMilitary, ByMilitary), (byCivilian, ByCivilian), (byVtol, ByVtol),
        (byGliderCategory, ByCategoryGlider), (byMilitaryCategory, ByCategoryMilitary),
        (bySmallAircraftCategory, ByCategorySmallAircraft), (scoreIgnoreZeros, ScoreIgnoreZeros),
        (scorePreferColorLiveries, ScorePreferColorLiveries), (excludeNoDbData, ExcludeNoDbData),
        (excludeNoExcluded, ExcludeNoExcluded), (modelSetRemoveFailedModel \<or> modelFailover, ModelSetRemoveFailedModel),
        (modelVerification, ModelVerificationAtStartup), (modelVerificationWarnError, ModelVerificationOnlyWarnError),
        (modelFailover, ModelFailoverIfNoModelCanBeAdded), (revModelString, ReverseLookupModelString),
        (revLiveryIds, ReverseLookupSwiftLiveryIds)]"

end
