(* ===== verification/ModelLists.thy ===== *)
theory ModelLists
  imports AircraftModels
begin

section \<open>Lists of models\<close>

text \<open>
  \<open>blackmisc/simulation/aircraftmodellist.cpp\<close>: the finders, the removals and replacements, the counts and the scores.
  A finder gives the models that satisfy a condition in their order; comparisons of model strings are those without
  regard to case, as the matcher calls them. A \<open>QMap\<close> is the list of its entries in the order of the keys.
\<close>

subsection \<open>Asking\<close>

definition containsModelString :: "string \<Rightarrow> CAircraftModel list \<Rightarrow> bool" where
  "containsModelString modelString models \<longleftrightarrow> list_ex (matchesModelString modelString) models"

definition containsModelStringOrDbKey :: "CAircraftModel \<Rightarrow> CAircraftModel list \<Rightarrow> bool" where
  "containsModelStringOrDbKey model models \<longleftrightarrow>
     list_ex (\<lambda>m. md_hasValidDbKey m \<and> md_dbKey m = md_dbKey model \<or> matchesModelString (md_modelString model) m) models"

definition containsModelsWithAircraftAndAirlineIcaoDesignator :: "string \<Rightarrow> string \<Rightarrow> CAircraftModel list \<Rightarrow> bool" where
  "containsModelsWithAircraftAndAirlineIcaoDesignator aircraft airline models \<longleftrightarrow>
     list_ex (\<lambda>m. ac_designator (md_aircraftIcao m) = aircraft \<and> al_designator (md_airline m) = airline) models"

definition containsVtol :: "CAircraftModel list \<Rightarrow> bool" where
  "containsVtol models \<longleftrightarrow> list_ex md_isVtol models"

definition containsMilitary :: "CAircraftModel list \<Rightarrow> bool" where
  "containsMilitary models \<longleftrightarrow> list_ex md_isMilitary models"

subsection \<open>Finding\<close>

text \<open>A search by a condition that can fail ends where it fails.\<close>

primrec findBy :: "('m \<Rightarrow> fault + bool) \<Rightarrow> 'm list \<Rightarrow> fault + 'm list" where
  "findBy p [] = Inr []"
| "findBy p (m # ms) = and_then (p m) (\<lambda>b. and_then (findBy p ms) (\<lambda>found. Inr (if b then m # found else found)))"

lemma findBy_within: "findBy p ms = Inr found \<Longrightarrow> set found \<subseteq> set ms"
  by (induction ms arbitrary: found) (auto simp: and_then_eq_Inr split: if_splits)

lemma findBy_ends: "(\<And>m. m \<in> set ms \<Longrightarrow> \<exists>b. p m = Inr b) \<Longrightarrow> \<exists>found. findBy p ms = Inr found"
proof (induction ms)
  case (Cons m ms)
  then obtain b found where "p m = Inr b" "findBy p ms = Inr found" by fastforce
  then show ?case by simp
qed simp

lemma findBy_none: "(\<And>m. m \<in> set ms \<Longrightarrow> p m = Inr False) \<Longrightarrow> findBy p ms = Inr []"
  by (induction ms) simp_all

definition findEmptyModelStrings :: "CAircraftModel list \<Rightarrow> CAircraftModel list" where
  "findEmptyModelStrings = filter (\<lambda>m. \<not> md_hasModelString m)"

definition frontOrDefault :: "CAircraftModel list \<Rightarrow> CAircraftModel" where
  "frontOrDefault models = (case models of [] \<Rightarrow> CAircraftModel_default | m # _ \<Rightarrow> m)"

definition findByModelString :: "string \<Rightarrow> CAircraftModel list \<Rightarrow> CAircraftModel list" where
  "findByModelString modelString = filter (matchesModelString modelString)"

definition findFirstByModelStringOrDefault :: "string \<Rightarrow> CAircraftModel list \<Rightarrow> CAircraftModel" where
  "findFirstByModelStringOrDefault modelString models =
     (if modelString = [] then CAircraftModel_default else frontOrDefault (findByModelString modelString models))"

definition findFirstByModelStringAliasOrDefault :: "string \<Rightarrow> CAircraftModel list \<Rightarrow> CAircraftModel" where
  "findFirstByModelStringAliasOrDefault modelString models =
     (if modelString = [] then CAircraftModel_default else frontOrDefault (filter (matchesModelStringOrAlias modelString) models))"

definition findByIcaoDesignators :: "string \<Rightarrow> string \<Rightarrow> CAircraftModel list \<Rightarrow> CAircraftModel list" where
  "findByIcaoDesignators aircraft airline models =
     (if airline = [] then filter (\<lambda>m. ac_designator (md_aircraftIcao m) = aircraft) models
      else if aircraft = [] then filter (\<lambda>m. al_designator (md_airline m) = airline) models
      else filter (\<lambda>m. al_designator (md_airline m) = airline \<and> ac_designator (md_aircraftIcao m) = aircraft) models)"

definition findByAircraftDesignatorAndLiveryCombinedCode ::
    "string \<Rightarrow> string \<Rightarrow> CAircraftModel list \<Rightarrow> fault + CAircraftModel list" where
  "findByAircraftDesignatorAndLiveryCombinedCode aircraftDesignator combinedCode models =
     (if aircraftDesignator = [] then Inr []
      else findBy (\<lambda>m. if \<not> matchesDesignator aircraftDesignator (md_aircraftIcao m) then Inr False
                       else matchesCombinedCode combinedCode (md_livery m)) models)"

definition findByAirlineGroup :: "CAirlineIcaoCode \<Rightarrow> CAircraftModel list \<Rightarrow> CAircraftModel list" where
  "findByAirlineGroup airline models =
     (if al_groupId airline < 0 then [] else filter (\<lambda>m. al_groupId (md_airline m) = al_groupId airline) models)"

text \<open>The telephony designator of a model is searched for the name.\<close>

definition findByAirlineNameAndTelephonyDesignator ::
    "string \<Rightarrow> string \<Rightarrow> bool \<Rightarrow> CAircraftModel list \<Rightarrow> CAircraftModel list" where
  "findByAirlineNameAndTelephonyDesignator name telephony onlyIfExistInModel =
     filter (\<lambda>m. let icao = md_airline m in
       md_hasAirlineDesignator m \<and> md_hasValidDbKey m
       \<and> (name \<noteq> [] \<and> (al_name icao \<noteq> [] \<or> \<not> onlyIfExistInModel) \<longrightarrow> text_contains_nocase (al_name icao) name)
       \<and> (telephony \<noteq> [] \<and> (al_telephony icao \<noteq> [] \<or> \<not> onlyIfExistInModel)
            \<longrightarrow> text_contains_nocase (al_telephony icao) name))"

definition findByAirlineNamesOrTelephonyDesignator :: "string \<Rightarrow> CAircraftModel list \<Rightarrow> CAircraftModel list" where
  "findByAirlineNamesOrTelephonyDesignator name =
     filter (\<lambda>m. md_hasAirlineDesignator m \<and> md_hasValidDbKey m \<and> matchesNamesOrTelephonyDesignator name (md_airline m))"

definition findByLiveryCode :: "CLivery \<Rightarrow> CAircraftModel list \<Rightarrow> fault + CAircraftModel list" where
  "findByLiveryCode livery models =
     and_then (hasCombinedCode livery) (\<lambda>hasCode.
       if \<not> hasCode then Inr []
       else findBy (\<lambda>m. and_then (hasCombinedCode (md_livery m)) (\<lambda>b. Inr (b \<and> lv_combinedCode (md_livery m) = lv_combinedCode livery))) models)"

text \<open>The manufacturer looked for is put into upper case, those of the models are not.\<close>

definition findByManufacturer :: "string \<Rightarrow> CAircraftModel list \<Rightarrow> CAircraftModel list" where
  "findByManufacturer manufacturer models =
     (if manufacturer = [] then []
      else filter (\<lambda>m. ac_manufacturer (md_aircraftIcao m) = q_trimmed (q_toUpper manufacturer)) models)"

definition findByFamily :: "string \<Rightarrow> CAircraftModel list \<Rightarrow> CAircraftModel list" where
  "findByFamily family models =
     (if family = [] then []
      else filter (\<lambda>m. ac_family (md_aircraftIcao m) \<noteq> [] \<and> ac_family (md_aircraftIcao m) = q_trimmed (q_toUpper family)) models)"

definition findColorLiveries :: "CAircraftModel list \<Rightarrow> CAircraftModel list" where
  "findColorLiveries = filter (\<lambda>m. isColorLivery (md_livery m))"

definition findByFamilyWithColorLivery :: "string \<Rightarrow> CAircraftModel list \<Rightarrow> CAircraftModel list" where
  "findByFamilyWithColorLivery family models = findColorLiveries (findByFamily family models)"

definition findByDesignatorOrFamilyWithColorLivery :: "CAircraftIcaoCode \<Rightarrow> CAircraftModel list \<Rightarrow> CAircraftModel list" where
  "findByDesignatorOrFamilyWithColorLivery icao =
     filter (\<lambda>m. let modelIcao = md_aircraftIcao m in
       isColorLivery (md_livery m)
       \<and> (ac_designator modelIcao = ac_designator icao \<or> ac_family icao \<noteq> [] \<and> ac_family modelIcao = ac_family icao))"

definition findByDesignatorsOrFamilyWithColorLivery :: "string list \<Rightarrow> CAircraftModel list \<Rightarrow> CAircraftModel list" where
  "findByDesignatorsOrFamilyWithColorLivery designators =
     filter (\<lambda>m. let modelIcao = md_aircraftIcao m in
       isColorLivery (md_livery m)
       \<and> (ac_designator modelIcao \<in> set designators
          \<or> ac_family modelIcao \<noteq> [] \<and> ac_family modelIcao \<in> set designators))"

text \<open>The text that is compared here was trimmed, so that the comparison never fails.\<close>

definition findByCombinedType :: "string \<Rightarrow> CAircraftModel list \<Rightarrow> CAircraftModel list" where
  "findByCombinedType combinedType models =
     (if length combinedType \<noteq> 3 then []
      else filter (\<lambda>m. matchesCombinedType (code_of combinedType) (md_aircraftIcao m) = Inr True) models)"

lemma findByCombinedType_never_fails: "\<exists>b. matchesCombinedType (code_of combinedType) code = Inr b"
  by (rule trimmed_type_reads [OF code_of_trimmed])

text \<open>The second search is over the whole list again.\<close>

definition findByCombinedTypeAndWtc :: "string \<Rightarrow> string \<Rightarrow> CAircraftModel list \<Rightarrow> CAircraftModel list" where
  "findByCombinedTypeAndWtc combinedType wtc models =
     (if findByCombinedType combinedType models = [] then []
      else filter (\<lambda>m. ac_wtc (md_aircraftIcao m) = q_trimmed (q_toUpper wtc)) models)"

definition findByCombinedTypeWithColorLivery :: "string \<Rightarrow> CAircraftModel list \<Rightarrow> CAircraftModel list" where
  "findByCombinedTypeWithColorLivery combinedType models = findColorLiveries (findByCombinedType combinedType models)"

definition findByCombinedAndManufacturer :: "string \<Rightarrow> string \<Rightarrow> CAircraftModel list \<Rightarrow> fault + CAircraftModel list" where
  "findByCombinedAndManufacturer combinedType manufacturer models =
     (if manufacturer = [] then Inr (findByCombinedType combinedType models)
      else if combinedType = [] then Inr (findByManufacturer manufacturer models)
      else findBy (\<lambda>m. matchesCombinedTypeAndManufacturer combinedType manufacturer (md_aircraftIcao m)) models)"

definition findByMilitaryFlag :: "bool \<Rightarrow> CAircraftModel list \<Rightarrow> CAircraftModel list" where
  "findByMilitaryFlag military = filter (\<lambda>m. md_isMilitary m = military)"

definition findByVtolFlag :: "bool \<Rightarrow> CAircraftModel list \<Rightarrow> CAircraftModel list" where
  "findByVtolFlag vtol = filter (\<lambda>m. md_isVtol m = vtol)"

definition findByModelMode :: "ModelMode \<Rightarrow> CAircraftModel list \<Rightarrow> CAircraftModel list" where
  "findByModelMode mode = filter (\<lambda>m. md_modelMode m = mode)"

definition findByCategoryFirstLevel :: "int \<Rightarrow> CAircraftModel list \<Rightarrow> CAircraftModel list" where
  "findByCategoryFirstLevel firstLevel models =
     (if firstLevel < 0 then []
      else filter (\<lambda>m. md_hasCategory m \<and> cat_l1 (ac_category (md_aircraftIcao m)) = firstLevel) models)"

definition findByCategory :: "CAircraftCategory \<Rightarrow> CAircraftModel list \<Rightarrow> CAircraftModel list" where
  "findByCategory category models =
     (if cat_isNull category then []
      else filter (\<lambda>m. md_hasCategory m \<and> ac_category (md_aircraftIcao m) = category) models)"

definition findByCategories :: "CAircraftCategory list \<Rightarrow> CAircraftModel list \<Rightarrow> CAircraftModel list" where
  "findByCategories categories models =
     (if categories = [] then []
      else filter (\<lambda>m. md_hasCategory m \<and> ac_category (md_aircraftIcao m) \<in> set categories) models)"

definition findFsFamilyModels :: "CAircraftModel list \<Rightarrow> CAircraftModel list" where
  "findFsFamilyModels = filter (\<lambda>m. isMicrosoftOrPrepare3DSimulator (md_simulator m))"

definition findWithoutValidDbKey :: "CAircraftModel list \<Rightarrow> CAircraftModel list" where
  "findWithoutValidDbKey = filter (\<lambda>m. \<not> md_hasValidDbKey m)"

definition getModelStringList :: "CAircraftModel list \<Rightarrow> string list" where
  "getModelStringList models = map md_modelString (filter md_hasModelString models)"

definition findByNotInModelStrings :: "string list \<Rightarrow> CAircraftModel list \<Rightarrow> CAircraftModel list" where
  "findByNotInModelStrings modelStrings = filter (\<lambda>m. \<not> contains_nocase modelStrings (md_modelString m))"

definition findByModelStrings :: "string list \<Rightarrow> CAircraftModel list \<Rightarrow> CAircraftModel list" where
  "findByModelStrings modelStrings = filter (\<lambda>m. contains_nocase modelStrings (md_modelString m))"

definition designatorToFamily :: "CAircraftIcaoCode \<Rightarrow> CAircraftModel list \<Rightarrow> string" where
  "designatorToFamily icao models =
     (if ac_family icao \<noteq> [] then ac_family icao
      else case find (\<lambda>m. ac_family (md_aircraftIcao m) \<noteq> [] \<and> matchesDesignator (ac_designator icao) (md_aircraftIcao m)) models of
        Some m \<Rightarrow> ac_family (md_aircraftIcao m) | None \<Rightarrow> [])"

subsection \<open>Removing and replacing\<close>

text \<open>The number that says how many elements went, and the list.\<close>

definition removed_count :: "CAircraftModel list \<Rightarrow> CAircraftModel list \<Rightarrow> int" where
  "removed_count before now = int (length before) - int (length now)"

definition removeModelWithString :: "string \<Rightarrow> CAircraftModel list \<Rightarrow> bool \<times> CAircraftModel list" where
  "removeModelWithString modelString models =
     (if modelString = [] \<or> models = [] then (False, models)
      else (list_ex (matchesModelString modelString) models, filter (\<lambda>m. \<not> matchesModelString modelString m) models))"

definition removeModelStrings :: "string list \<Rightarrow> CAircraftModel list \<Rightarrow> int \<times> CAircraftModel list" where
  "removeModelStrings modelStrings models =
     (if modelStrings = [] then (0, models)
      else let now = findByNotInModelStrings modelStrings models in (removed_count models now, now))"

definition removeModelsWithString :: "CAircraftModel list \<Rightarrow> CAircraftModel list \<Rightarrow> int \<times> CAircraftModel list" where
  "removeModelsWithString others models =
     (if others = [] then (0, models) else removeModelStrings (getModelStringList others) models)"

text \<open>The difference is taken the other way around.\<close>

definition removeIfNotMatchingSimulator :: "int \<Rightarrow> CAircraftModel list \<Rightarrow> int \<times> CAircraftModel list" where
  "removeIfNotMatchingSimulator needToMatch models =
     (if models = [] then (0, models)
      else let kept = filter (matchesSimulator needToMatch) models; diff = removed_count kept models
           in (diff, if diff > 0 then kept else models))"

definition removeAllWithoutModelString :: "CAircraftModel list \<Rightarrow> int \<times> CAircraftModel list" where
  "removeAllWithoutModelString models =
     (let kept = filter md_hasModelString models; diff = removed_count models kept
      in if models = [] \<or> diff < 1 then (0, models) else (diff, kept))"

definition removeIfExcluded :: "CAircraftModel list \<Rightarrow> int \<times> CAircraftModel list" where
  "removeIfExcluded models =
     (let kept = filter (\<lambda>m. md_modelMode m \<noteq> ExcludeMode) models; diff = removed_count models kept
      in if models = [] \<or> diff < 1 then (0, models) else (diff, kept))"

definition removeObjectsWithoutDbKey :: "CAircraftModel list \<Rightarrow> int \<times> CAircraftModel list" where
  "removeObjectsWithoutDbKey models =
     (if models = [] then (0, models)
      else let kept = filter md_hasValidDbKey models in (removed_count models kept, kept))"

definition replaceOrAddModelWithString :: "CAircraftModel \<Rightarrow> CAircraftModel list \<Rightarrow> bool \<times> CAircraftModel list" where
  "replaceOrAddModelWithString model models =
     (let (r, kept) = (if models \<noteq> [] then removeModelWithString (md_modelString model) models else (False, models))
      in (r, kept @ [model]))"

definition replaceOrAddModelsWithString :: "CAircraftModel list \<Rightarrow> CAircraftModel list \<Rightarrow> int \<times> CAircraftModel list" where
  "replaceOrAddModelsWithString addOrReplace models =
     (if addOrReplace = [] then (0, models)
      else if models = [] then (int (length addOrReplace), addOrReplace)
      else
        let kept = snd (removeModelStrings (getModelStringList addOrReplace) models); now = kept @ addOrReplace
        in (removed_count now kept, now))"

definition addAsValidOrInvalidModel ::
    "CAircraftModel \<Rightarrow> bool \<Rightarrow> CAircraftModel list \<times> CAircraftModel list \<Rightarrow> CAircraftModel list \<times> CAircraftModel list" where
  "addAsValidOrInvalidModel model valid both =
     (case both of (validModels, invalidModels) \<Rightarrow>
        if valid then (validModels @ [model], snd (removeModelWithString (md_modelString model) invalidModels))
        else (snd (removeModelWithString (md_modelString model) validModels), invalidModels @ [model]))"

definition addAsValidOrInvalidModels ::
    "CAircraftModel list \<Rightarrow> bool \<Rightarrow> CAircraftModel list \<times> CAircraftModel list \<Rightarrow> CAircraftModel list \<times> CAircraftModel list" where
  "addAsValidOrInvalidModels models valid both = foldl (\<lambda>ls m. addAsValidOrInvalidModel m valid ls) both models"

subsection \<open>Counting\<close>

text \<open>The count is kept under the text of the mode, whatever string was asked for.\<close>

fun map_upsert :: "string \<Rightarrow> (int \<Rightarrow> int) \<Rightarrow> (string \<times> int) list \<Rightarrow> (string \<times> int) list" where
  "map_upsert k f [] = [(k, f 0)]"
| "map_upsert k f ((l, n) # xs) =
     (if text_less k l then (k, f 0) # (l, n) # xs else if text_less l k then (l, n) # map_upsert k f xs else (l, f n) # xs)"

definition count_model :: "(string \<times> int) list \<Rightarrow> CAircraftModel \<Rightarrow> (string \<times> int) list" where
  "count_model mp m =
     (let mode = modelModeToString (md_modelMode m) in
      if md_modelString m \<in> fst ` set mp then map_upsert mode (\<lambda>n. n + 1) mp
      else map_upsert mode (\<lambda>n. 1) mp)"

definition countPerModelString :: "CAircraftModel list \<Rightarrow> (string \<times> int) list" where
  "countPerModelString models = foldl count_model [] models"

definition findDuplicateModelStrings :: "CAircraftModel list \<Rightarrow> CAircraftModel list" where
  "findDuplicateModelStrings models =
     concat (map (\<lambda>(s, n). if n > 1 then findByModelString s models else []) (countPerModelString models))"

definition countPerAirlineIcao :: "CAircraftModel list \<Rightarrow> (CAirlineIcaoCode \<times> int) list" where
  "countPerAirlineIcao models = counts airline_less (map md_airline (filter md_hasAirlineDesignator models))"

definition getAirlineWithMaxCount :: "CAircraftModel list \<Rightarrow> CAirlineIcaoCode" where
  "getAirlineWithMaxCount models =
     (case first_max (countPerAirlineIcao models) of Some (a, _) \<Rightarrow> a | None \<Rightarrow> CAirlineIcaoCode_default)"

subsection \<open>Scores and order\<close>

text \<open>The scored models in the order they were put in. \<open>values\<close> of a \<open>QMap\<close> gives the last one put in first.\<close>

definition scoreFull :: "CAircraftModel \<Rightarrow> bool \<Rightarrow> bool \<Rightarrow> CAircraftModel list \<Rightarrow> (int \<times> CAircraftModel) list" where
  "scoreFull remoteModel preferColorLiveries ignoreZeroScores models =
     filter (\<lambda>(s, _). \<not> (ignoreZeroScores \<and> s < 1))
       (map (\<lambda>m. (md_calculateScore preferColorLiveries m remoteModel, m)) models)"

definition scored_values :: "int \<Rightarrow> (int \<times> CAircraftModel) list \<Rightarrow> CAircraftModel list" where
  "scored_values score scores = rev (map snd (filter (\<lambda>(s, _). s = score) scores))"

definition needsOrder :: "CAircraftModel list \<Rightarrow> bool" where
  "needsOrder models \<longleftrightarrow> list_ex (\<lambda>m. md_order m < 0) models"

definition minOrderOrDefault :: "CAircraftModel list \<Rightarrow> CAircraftModel" where
  "minOrderOrDefault models =
     (case models of [] \<Rightarrow> CAircraftModel_default
      | m # _ \<Rightarrow> foldl (\<lambda>least o'. if md_order o' \<ge> 0 \<and> md_order o' < md_order least then o' else least) m models)"

end
