(* ===== verification/CategoryMatching.thy ===== *)
theory CategoryMatching
  imports MatcherSetup ModelLists
begin

section \<open>Matching by categories\<close>

text \<open>
  \<open>blackmisc/simulation/categorymatcher.cpp\<close>, and of a \<open>CSimulatedAircraft\<close> what the matching reads: the callsign and the
  current model. A reduction gives the models and whether it reduced them.
\<close>

record remote_aircraft =
  ra_callsign :: CCallsign
  ra_model :: CAircraftModel

definition ra_icao :: "remote_aircraft \<Rightarrow> CAircraftIcaoCode" where
  "ra_icao a = md_aircraftIcao (ra_model a)"

definition ra_airline :: "remote_aircraft \<Rightarrow> CAirlineIcaoCode" where
  "ra_airline a = md_airline (ra_model a)"

definition ra_livery :: "remote_aircraft \<Rightarrow> CLivery" where
  "ra_livery a = md_livery (ra_model a)"

definition hasAircraftDesignator :: "remote_aircraft \<Rightarrow> bool" where
  "hasAircraftDesignator a \<longleftrightarrow> ac_designator (ra_icao a) \<noteq> []"

definition hasAirlineDesignator :: "remote_aircraft \<Rightarrow> bool" where
  "hasAirlineDesignator a = al_hasValidDesignator (ra_airline a)"

text \<open>\<open>CSimulatedAircraft::setModel\<close> keeps a valid callsign; the codes it sets are those of the model.\<close>

definition ra_setModel :: "CAircraftModel \<Rightarrow> remote_aircraft \<Rightarrow> remote_aircraft" where
  "ra_setModel model a =
     (let callsign = (if isValidAircraftCallsign (asString (ra_callsign a)) then ra_callsign a else md_callsign model)
      in \<lparr>ra_callsign = callsign, ra_model = md_setCallsign callsign model\<rparr>)"

subsection \<open>The matcher\<close>

record CCategoryMatcher =
  cm_all :: "CAircraftCategory list"
  cm_gliders :: "CAircraftCategory list"
  cm_militaryWing :: "CAircraftCategory list"
  cm_militaryRotor :: "CAircraftCategory list"

definition CCategoryMatcher_default :: CCategoryMatcher where
  "CCategoryMatcher_default = \<lparr>cm_all = [], cm_gliders = [], cm_militaryWing = [], cm_militaryRotor = []\<rparr>"

text \<open>The categories below the first level of a name; what there was where there is no such level.\<close>

definition first_level_branch :: "string \<Rightarrow> CAircraftCategory list \<Rightarrow> CAircraftCategory list \<Rightarrow> CAircraftCategory list" where
  "first_level_branch name categories before =
     (case cats_findFirstLevels (cats_findByName name categories) of
        [] \<Rightarrow> before
      | c # _ \<Rightarrow> sortByLevel (cats_findByFirstLevel (cat_l1 c) categories))"

definition setCategories :: "CAircraftCategory list \<Rightarrow> CCategoryMatcher \<Rightarrow> CCategoryMatcher" where
  "setCategories categories m =
     \<lparr>cm_all = sortByLevel categories,
      cm_gliders = first_level_branch ''glider'' categories (cm_gliders m),
      cm_militaryWing = first_level_branch ''wing military'' categories (cm_militaryWing m),
      cm_militaryRotor = first_level_branch ''rotor military'' categories (cm_militaryRotor m)\<rparr>"

definition gliderFirstLevel :: "CCategoryMatcher \<Rightarrow> int" where
  "gliderFirstLevel m = (case cm_gliders m of [] \<Rightarrow> - 1 | c # _ \<Rightarrow> cat_l1 c)"

definition isGlider :: "CAircraftIcaoCode \<Rightarrow> CCategoryMatcher \<Rightarrow> bool" where
  "isGlider icao m \<longleftrightarrow>
     ac_designator icao = gliderDesignator
     \<or> (gliderFirstLevel m \<ge> 0 \<and> ac_hasCategory icao \<and> cat_l1 (ac_category icao) = gliderFirstLevel m)"

text \<open>Of the gliders of the set: those of the same category, of a parallel branch, of the siblings, or all of them.\<close>

definition reduce_to_gliders ::
    "CAircraftModel list \<Rightarrow> CAircraftModel list \<Rightarrow> CAircraftCategory \<Rightarrow> CCategoryMatcher \<Rightarrow> fault + CAircraftModel list" where
  "reduce_to_gliders modelSet gliders category m =
     (let sameGliders = findByCategory category gliders in
      if sameGliders \<noteq> [] then Inr sameGliders
      else and_then (cats_findInParallelBranch category (cm_gliders m)) (\<lambda>otherBranches.
        let otherBranchGliders = findByCategories otherBranches gliders in
        if otherBranches \<noteq> [] \<and> otherBranchGliders \<noteq> [] then Inr otherBranchGliders
        else
          let siblings = cats_findSiblings category (cm_gliders m);
              siblingGliders = findByCategories siblings modelSet
          in if siblings \<noteq> [] \<and> siblingGliders \<noteq> [] then Inr siblingGliders else Inr gliders))"

definition substituteIcaos :: "string list" where
  "substituteIcaos = [''UHEL'', ''GLID'', ''ULAC'']"

definition reduce_to_substitutes :: "CAircraftModel list \<Rightarrow> CAircraftModel list \<times> bool" where
  "reduce_to_substitutes alreadyMatchedModels =
     (let substitutes = findByDesignatorsOrFamilyWithColorLivery substituteIcaos alreadyMatchedModels in
      if substitutes \<noteq> [] then (substitutes, True)
      else
        let small = findByCombinedType ''L1P'' alreadyMatchedModels in
        if small \<noteq> [] then (small, True) else (alreadyMatchedModels, False))"

definition reduceByCategories ::
    "CAircraftModel list \<Rightarrow> CAircraftModel list \<Rightarrow> CAircraftMatcherSetup \<Rightarrow> remote_aircraft \<Rightarrow> CCategoryMatcher
      \<Rightarrow> fault + CAircraftModel list \<times> bool" where
  "reduceByCategories alreadyMatchedModels modelSet setup remote m =
     (let icao = ra_icao remote in
      if \<not> useCategoryMatching setup \<or> cm_all m = [] \<or> \<not> ac_hasCategory icao then Inr (alreadyMatchedModels, False)
      else if cm_gliders m \<noteq> [] \<and> mode_flag setup ByCategoryGlider \<and> isGlider icao m
      then
        let gliders = findByCategoryFirstLevel (gliderFirstLevel m) modelSet in
        if gliders \<noteq> []
        then and_then (reduce_to_gliders modelSet gliders (ac_category icao) m) (\<lambda>models. Inr (models, True))
        else Inr (reduce_to_substitutes alreadyMatchedModels)
      else Inr (alreadyMatchedModels, False))"

end
