(* ===== verification/ModelReduction.thy ===== *)
theory ModelReduction
  imports CategoryMatching
begin

section \<open>Reducing the models to candidates\<close>

text \<open>
  The static functions of \<open>blackcore/aircraftmatcher.cpp\<close> that take models away step by step, score the models, or
  give a default. A step that asks for the combined code of a livery, or for a combined type as it was given, can fail.
  Logging is not modelled, but for the one step that is only done while the reduction is logged: \<open>reduceLog\<close> says
  whether it is.
\<close>

type_synonym reduction = "CAircraftModel list \<times> bool"

text \<open>A step keeps what it found unless that is nothing.\<close>

definition found_or_all :: "CAircraftModel list \<Rightarrow> CAircraftModel list \<Rightarrow> reduction" where
  "found_or_all inList found = (if found = [] then (inList, False) else (found, True))"

subsection \<open>One criterion\<close>

text \<open>The code of the livery is passed as the designator, and the designator as the code of the livery.\<close>

definition ifPossibleReduceByLiveryAndAircraftIcaoCode :: "remote_aircraft \<Rightarrow> CAircraftModel list \<Rightarrow> fault + reduction" where
  "ifPossibleReduceByLiveryAndAircraftIcaoCode remote inList =
     and_then (hasCombinedCode (ra_livery remote)) (\<lambda>hasCode.
       if \<not> hasCode then Inr (inList, False)
       else and_then
         (findByAircraftDesignatorAndLiveryCombinedCode (lv_combinedCode (ra_livery remote)) (ac_designator (ra_icao remote)) inList)
         (\<lambda>found. Inr (found_or_all inList found)))"

definition ifPossibleReduceByManufacturer :: "remote_aircraft \<Rightarrow> CAircraftModel list \<Rightarrow> reduction" where
  "ifPossibleReduceByManufacturer remote inList =
     (if inList = [] \<or> ac_manufacturer (ra_icao remote) = [] then (inList, False)
      else found_or_all inList (findByManufacturer (ac_manufacturer (ra_icao remote)) inList))"

definition ifPossibleReduceAircraftIcaoByManufacturer ::
    "CAircraftIcaoCode \<Rightarrow> CAircraftIcaoCode list \<Rightarrow> CAircraftIcaoCode list \<times> bool" where
  "ifPossibleReduceAircraftIcaoByManufacturer icao inList =
     (if inList = [] \<or> ac_manufacturer icao = [] then (inList, False)
      else let outList = icaos_findByManufacturer (ac_manufacturer icao) inList
           in if outList = [] then (inList, False) else (outList, True))"

definition ifPossibleReduceByAircraft :: "remote_aircraft \<Rightarrow> CAircraftModel list \<Rightarrow> reduction" where
  "ifPossibleReduceByAircraft remote inList =
     (if inList = [] \<or> \<not> hasAircraftDesignator remote then (inList, False)
      else found_or_all inList (findByIcaoDesignators (ac_designator (ra_icao remote)) [] inList))"

text \<open>Without a pseudo family the models of the family; with one also those of the combined type and manufacturer.\<close>

definition reduce_by_family :: "remote_aircraft \<Rightarrow> string \<Rightarrow> bool \<Rightarrow> CAircraftModel list \<Rightarrow> fault + reduction" where
  "reduce_by_family remote family allowPseudoFamily inList =
     (if (family = [] \<and> \<not> allowPseudoFamily) \<or> inList = [] then Inr (inList, False)
      else
        let foundByFamily = findByFamily family inList in
        and_then (if allowPseudoFamily
                  then findByCombinedAndManufacturer (ac_combinedType (ra_icao remote)) (ac_manufacturer (ra_icao remote)) inList
                  else Inr []) (\<lambda>foundByCM.
          if foundByFamily = [] \<and> foundByCM = [] then Inr (inList, False)
          else
            let foundByCM = (if foundByFamily \<noteq> [] then snd (removeModelStrings (getModelStringList foundByFamily) foundByCM)
                             else foundByCM)
            in Inr (foundByFamily @ foundByCM, True)))"

definition ifPossibleReduceByFamily :: "remote_aircraft \<Rightarrow> bool \<Rightarrow> CAircraftModel list \<Rightarrow> fault + reduction" where
  "ifPossibleReduceByFamily remote allowPseudoFamily inList =
     (let family = ac_family (ra_icao remote) in
      and_then (if family = [] then Inr (inList, False) else reduce_by_family remote family allowPseudoFamily inList)
        (\<lambda>(models, reduced).
          if reduced then Inr (models, True)
          else reduce_by_family remote (ac_designator (ra_icao remote)) allowPseudoFamily inList))"

definition ifPossibleReduceByAircraftOrFamily ::
    "remote_aircraft \<Rightarrow> bool \<Rightarrow> CAircraftModel list \<Rightarrow> CAircraftMatcherSetup \<Rightarrow> fault + reduction" where
  "ifPossibleReduceByAircraftOrFamily remote allowPseudoFamily inList setup =
     (let (outList, reduced) = ifPossibleReduceByAircraft remote inList in
      if reduced \<or> \<not> mode_flag setup ByFamily then Inr (outList, reduced)
      else ifPossibleReduceByFamily remote allowPseudoFamily inList)"

text \<open>The models of the group are also added where there are models of the airline, with either flag.\<close>

definition ifPossibleReduceByAirline :: "remote_aircraft \<Rightarrow> CAircraftModel list \<Rightarrow> CAircraftMatcherSetup \<Rightarrow> reduction" where
  "ifPossibleReduceByAirline remote inList setup =
     (if inList = [] \<or> \<not> hasAirlineDesignator remote then (inList, False)
      else
        let airline = ra_airline remote; outList = findByIcaoDesignators [] (al_designator airline) inList;
            outList = (if (mode_flag setup ByAirlineGroupSameAsAirline
                           \<or> outList = [] \<or> mode_flag setup ByAirlineGroupIfNoAirline) \<and> hasGroupMembership airline
                       then snd (replaceOrAddModelsWithString (findByAirlineGroup airline inList) outList) else outList)
        in found_or_all inList outList)"

text \<open>The second step searches the whole list again.\<close>

definition ifPossibleReduceModelsByAirlineNameTelephonyDesignator ::
    "string \<Rightarrow> string \<Rightarrow> CAircraftModel list \<Rightarrow> reduction" where
  "ifPossibleReduceModelsByAirlineNameTelephonyDesignator airlineName telephony inList =
     (if inList = [] \<or> (telephony = [] \<and> airlineName = []) then (inList, False)
      else
        let (step1, r1) = narrowed inList inList (findByAirlineNamesOrTelephonyDesignator airlineName inList) False in
        if length step1 = 1 then (step1, r1)
        else narrowed inList step1 (findByAirlineNamesOrTelephonyDesignator telephony inList) r1)"

text \<open>One model of the combined type is taken, but not said to be a reduction.\<close>

definition ifPossibleReduceByCombinedType :: "remote_aircraft \<Rightarrow> CAircraftModel list \<Rightarrow> CAircraftMatcherSetup \<Rightarrow> reduction" where
  "ifPossibleReduceByCombinedType remote inList setup =
     (let cc = ac_combinedType (ra_icao remote); byCombinedCode = findByCombinedType cc inList in
      if \<not> isValidCombinedType cc \<or> byCombinedCode = [] then (inList, False)
      else if length byCombinedCode > 1
      then (fst (ifPossibleReduceByManufacturer remote (fst (ifPossibleReduceByAirline remote byCombinedCode setup))), True)
      else (byCombinedCode, False))"

text \<open>Both never say that they reduced.\<close>

definition ifPossibleReduceByMilitaryFlag :: "remote_aircraft \<Rightarrow> CAircraftModel list \<Rightarrow> reduction" where
  "ifPossibleReduceByMilitaryFlag remote inList =
     (let byMilitaryFlag = findByMilitaryFlag (md_isMilitary (ra_model remote)) inList
      in (if byMilitaryFlag = [] then inList else byMilitaryFlag, False))"

definition ifPossibleReduceByVTOLFlag :: "CAircraftModel list \<Rightarrow> reduction" where
  "ifPossibleReduceByVTOLFlag inList = (if \<not> containsVtol inList then inList else findByVtolFlag True inList, False)"

subsection \<open>The ICAO data\<close>

definition UsePseudoFamily :: bool where "UsePseudoFamily = True"

text \<open>
  Without a model of the airline among those of the aircraft the family is tried; that \<open>r3\<close> which the search by family
  set is set again by that by airline.
\<close>

definition reduce_aircraft_first :: "remote_aircraft \<Rightarrow> CAircraftModel list \<Rightarrow> CAircraftMatcherSetup \<Rightarrow> fault + reduction" where
  "reduce_aircraft_first remote inList setup =
     and_then (ifPossibleReduceByAircraftOrFamily remote UsePseudoFamily inList setup) (\<lambda>(byAircraft, r1).
       let (models, r2) = ifPossibleReduceByAirline remote byAircraft setup in
       and_then (if hasAirlineDesignator remote \<and> \<not> r2 \<and> mode_flag setup ByFamily
                 then and_then (ifPossibleReduceByFamily remote UsePseudoFamily inList) (\<lambda>(byFamily, _).
                        Inr (ifPossibleReduceByAirline remote byFamily setup))
                 else Inr (inList, False)) (\<lambda>(models2nd, r3).
         Inr (if r3 then (models2nd, False) else if r1 \<or> r2 then (models, True) else (inList, False))))"

definition reduce_airline_first :: "remote_aircraft \<Rightarrow> CAircraftModel list \<Rightarrow> CAircraftMatcherSetup \<Rightarrow> fault + reduction" where
  "reduce_airline_first remote inList setup =
     (let (byAirline, r1) = ifPossibleReduceByAirline remote inList setup in
      and_then (ifPossibleReduceByAircraftOrFamily remote UsePseudoFamily byAirline setup) (\<lambda>(models, r2).
        Inr (if r1 \<or> r2 then (models, True) else (inList, False))))"

definition ifPossibleReduceByIcaoData ::
    "remote_aircraft \<Rightarrow> CAircraftModel list \<Rightarrow> CAircraftMatcherSetup \<Rightarrow> bool \<Rightarrow> fault + reduction" where
  "ifPossibleReduceByIcaoData remote inList setup reduced =
     (if inList = [] then Inr (inList, reduced)
      else if mode_flag setup ByIcaoOrderAirlineFirst then reduce_airline_first remote inList setup
      else if mode_flag setup ByIcaoData then reduce_aircraft_first remote inList setup
      else Inr (inList, False))"

subsection \<open>Step by step\<close>

text \<open>
  \<open>getClosestMatchStepwiseReduceImplementation\<close>: the steps in the order of the code. The flag \<open>left\<close> stands for a \<open>break\<close>.
\<close>

definition reduce_by_livery :: "CAircraftMatcherSetup \<Rightarrow> remote_aircraft \<Rightarrow> CAircraftModel list \<Rightarrow> fault + reduction" where
  "reduce_by_livery setup remote models =
     (if mode_flag setup ByLivery then ifPossibleReduceByLiveryAndAircraftIcaoCode remote models else Inr (models, False))"

definition reduce_by_icao_or_family ::
    "bool \<Rightarrow> CAircraftMatcherSetup \<Rightarrow> remote_aircraft \<Rightarrow> CAircraftModel list \<Rightarrow> fault + reduction \<times> bool" where
  "reduce_by_icao_or_family reduceLog setup remote models =
     (if mode_flag setup ByIcaoData then and_then (ifPossibleReduceByIcaoData remote models setup False) (\<lambda>r. Inr (r, False))
      else if reduceLog \<and> mode_flag setup ByFamily
      then and_then (ifPossibleReduceByFamily remote UsePseudoFamily models) (\<lambda>r. Inr (r, snd r))
      else Inr ((models, False), False))"

definition reduce_by_vtol :: "CAircraftMatcherSetup \<Rightarrow> remote_aircraft \<Rightarrow> reduction \<Rightarrow> reduction" where
  "reduce_by_vtol setup remote r =
     (let (models, reduced) = r in
      if \<not> reduced \<and> md_isVtol (ra_model remote) \<and> containsVtol models \<and> mode_flag setup ByVtol
      then (findByVtolFlag True models, reduced) else r)"

definition reduce_by_military :: "CAircraftMatcherSetup \<Rightarrow> remote_aircraft \<Rightarrow> reduction \<Rightarrow> reduction" where
  "reduce_by_military setup remote r =
     (if mode_flag setup (if md_isMilitary (ra_model remote) then ByMilitary else ByCivilian)
      then ifPossibleReduceByMilitaryFlag remote (fst r) else r)"

definition reduce_by_combined_type :: "CAircraftMatcherSetup \<Rightarrow> remote_aircraft \<Rightarrow> reduction \<Rightarrow> reduction" where
  "reduce_by_combined_type setup remote r =
     (if mode_flag setup ByCombinedType then ifPossibleReduceByCombinedType remote (fst r) setup else r)"

definition reduce_after_icao ::
    "CAircraftMatcherSetup \<Rightarrow> CCategoryMatcher \<Rightarrow> remote_aircraft \<Rightarrow> CAircraftModel list \<Rightarrow> reduction \<Rightarrow> fault + CAircraftModel list" where
  "reduce_after_icao setup matcher remote modelSet r =
     and_then (if useCategoryMatching setup then reduceByCategories (fst r) modelSet setup remote matcher else Inr r) (\<lambda>r.
       Inr (fst (reduce_by_combined_type setup remote (reduce_by_military setup remote (reduce_by_vtol setup remote r)))))"

definition reduce_steps ::
    "bool \<Rightarrow> CAircraftMatcherSetup \<Rightarrow> CCategoryMatcher \<Rightarrow> remote_aircraft \<Rightarrow> CAircraftModel list \<Rightarrow> fault + CAircraftModel list" where
  "reduce_steps reduceLog setup matcher remote modelSet =
     and_then (reduce_by_livery setup remote modelSet) (\<lambda>(byLivery, reduced).
       if reduced then Inr byLivery
       else and_then (reduce_by_icao_or_family reduceLog setup remote byLivery) (\<lambda>(r, left).
         if left then Inr (fst r) else reduce_after_icao setup matcher remote modelSet r))"

definition getClosestMatchStepwiseReduceImplementation ::
    "bool \<Rightarrow> CAircraftMatcherSetup \<Rightarrow> CCategoryMatcher \<Rightarrow> remote_aircraft \<Rightarrow> CAircraftModel list \<Rightarrow> fault + CAircraftModel list" where
  "getClosestMatchStepwiseReduceImplementation reduceLog setup matcher remote modelSet =
     and_then (reduce_steps reduceLog setup matcher remote modelSet) (\<lambda>models.
       Inr (if length models > 1 \<and> mode_flag setup ByManufacturer then fst (ifPossibleReduceByManufacturer remote models)
            else models))"

subsection \<open>By score, by default and by string\<close>

definition getClosestMatchScoreImplementation ::
    "CAircraftMatcherSetup \<Rightarrow> remote_aircraft \<Rightarrow> CAircraftModel list \<Rightarrow> CAircraftModel list" where
  "getClosestMatchScoreImplementation setup remote modelSet =
     (let scores = scoreFull (ra_model remote) (mode_flag setup ScorePreferColorLiveries) (mode_flag setup ScoreIgnoreZeros) modelSet
      in if scores = [] then [] else scored_values (Max (fst ` set scores)) scores)"

text \<open>The second search is over the empty result of the first.\<close>

definition getCombinedTypeDefaultModel :: "CAircraftModel list \<Rightarrow> remote_aircraft \<Rightarrow> CAircraftModel \<Rightarrow> CAircraftModel" where
  "getCombinedTypeDefaultModel modelSet remote defaultModel =
     (let combinedType = ac_combinedType (ra_icao remote) in
      if combinedType = [] \<or> modelSet = [] then defaultModel
      else
        let matchedModels = findByCombinedTypeWithColorLivery combinedType modelSet;
            matchedModels = (if matchedModels \<noteq> [] then matchedModels else findByCombinedType combinedType matchedModels)
        in case matchedModels of [] \<Rightarrow> defaultModel | m # _ \<Rightarrow> m)"

definition matchByExactModelString :: "remote_aircraft \<Rightarrow> CAircraftModel list \<Rightarrow> CAircraftModel" where
  "matchByExactModelString remote models =
     (if md_modelString (ra_model remote) = [] then CAircraftModel_default
      else md_setCallsign (ra_callsign remote) (md_setModelType TypeModelMatching
        (findFirstByModelStringAliasOrDefault (md_modelString (ra_model remote)) models)))"

end
