(* ===== verification/ReverseLookup.thy ===== *)
theory ReverseLookup
  imports ModelReduction AirspaceMonitorReceive
begin

section \<open>Reverse lookup\<close>

text \<open>
  The functions of \<open>blackcore/aircraftmatcher.cpp\<close> that turn what the network says of an aircraft into objects of the
  database. The web services, which read the database, are a record of functions; there are none (\<open>None\<close>) without the
  application object, while it shuts down, and where it has no web services. Logging is not modelled.
\<close>

record web_services =
  ws_modelForModelString :: "string \<Rightarrow> CAircraftModel"
  ws_modelForDbKey :: "int \<Rightarrow> CAircraftModel"
  ws_aircraftIcaosForDesignator :: "string \<Rightarrow> CAircraftIcaoCode list"
  ws_smartAircraftIcao :: "CAircraftIcaoCode \<Rightarrow> CAircraftIcaoCode"
  ws_aircraftIcaoForDbKey :: "int \<Rightarrow> CAircraftIcaoCode"
  ws_aircraftIcaosForAirline :: "CAirlineIcaoCode \<Rightarrow> CAircraftIcaoCode list"
  ws_smartAirlineIcao :: "CAirlineIcaoCode \<Rightarrow> CCallsign \<Rightarrow> CAirlineIcaoCode"
  ws_airlineForDbKey :: "int \<Rightarrow> CAirlineIcaoCode"
  ws_airlineForUniqueDesignator :: "string \<Rightarrow> CAirlineIcaoCode"
  ws_airlinesForDesignator :: "string \<Rightarrow> CAirlineIcaoCode list"
  ws_bestMatchByCallsign :: "CCallsign \<Rightarrow> CAirlineIcaoCode"
  ws_stdLivery :: "CAirlineIcaoCode \<Rightarrow> CLivery"
  ws_liveryForDbKey :: "int \<Rightarrow> CLivery"
  ws_liveryForCombinedCode :: "string \<Rightarrow> CLivery"
  ws_airlineNames :: "string list"
  ws_telephonyDesignators :: "string list"
  ws_knowsAircraftDesignator :: "string \<Rightarrow> bool"
  ws_knowsModelString :: "string \<Rightarrow> bool"
  ws_knowsAirlineDesignator :: "string \<Rightarrow> bool"

subsection \<open>One object\<close>

definition reverseLookupModelStringInDB :: "web_services option \<Rightarrow> string \<Rightarrow> CCallsign \<Rightarrow> bool \<Rightarrow> CAircraftModel" where
  "reverseLookupModelStringInDB ws modelString callsign doLookupString =
     (case ws of None \<Rightarrow> CAircraftModel_default
      | Some w \<Rightarrow>
          let model = ws_modelForModelString w modelString in
          if \<not> doLookupString \<or> \<not> md_hasValidDbKey model then CAircraftModel_default
          else md_setModelType TypeReverseLookup (md_setCallsign callsign model))"

definition reverseLookupModelStringInSet ::
    "web_services option \<Rightarrow> string \<Rightarrow> CCallsign \<Rightarrow> CAircraftModel list \<Rightarrow> bool \<Rightarrow> CAircraftModel" where
  "reverseLookupModelStringInSet ws modelString callsign modelSet useNonDbEntries =
     (let model = findFirstByModelStringOrDefault modelString modelSet; isDBModel = md_hasValidDbKey model in
      if ws = None \<or> modelString = [] \<or> modelSet = [] \<or> \<not> md_hasModelString model \<or> (\<not> isDBModel \<and> \<not> useNonDbEntries)
      then CAircraftModel_default
      else md_setModelType (if isDBModel then TypeReverseLookup else TypeOwnSimulatorModel) (md_setCallsign callsign model))"

definition reverseLookupModelId :: "web_services option \<Rightarrow> int \<Rightarrow> CCallsign \<Rightarrow> CAircraftModel" where
  "reverseLookupModelId ws i callsign =
     (case ws of None \<Rightarrow> CAircraftModel_default
      | Some w \<Rightarrow> md_setModelType TypeReverseLookup (md_setCallsign callsign (ws_modelForDbKey w i)))"

text \<open>
  Of several codes of a designator those of the most frequent manufacturer are kept, of these the one of the best rank.
  Where no code has a manufacturer nothing is kept, and the first of nothing is taken.
\<close>

definition best_of_codes :: "CAircraftIcaoCode list \<Rightarrow> fault + CAircraftIcaoCode" where
  "best_of_codes foundIcaos =
     (let (manufacturer, n) = maxCountManufacturer foundIcaos;
          reduced = (if n < int (length foundIcaos) then icaos_findByManufacturer manufacturer foundIcaos else foundIcaos)
      in case sortByRank reduced of [] \<Rightarrow> Inl EmptyContainer | icao # _ \<Rightarrow> Inr icao)"

definition smart_search :: "web_services \<Rightarrow> CAircraftIcaoCode \<Rightarrow> CAircraftIcaoCode" where
  "smart_search w icaoCandidate =
     (let designator = ac_designator icaoCandidate;
          found = (if isValidDesignator designator then ws_smartAircraftIcao w icaoCandidate
                   else case find ac_hasValidDbKey (map (\<lambda>p. ws_smartAircraftIcao w (CAircraftIcaoCode_of p [])) (q_split (CHR '' '') designator)) of
                     Some icao \<Rightarrow> icao | None \<Rightarrow> icaoCandidate)
      in if ac_hasValidDbKey found then found else icaoCandidate)"

definition reverseLookupAircraftIcao :: "web_services option \<Rightarrow> CAircraftIcaoCode \<Rightarrow> fault + CAircraftIcaoCode" where
  "reverseLookupAircraftIcao ws icaoCandidate =
     (case ws of None \<Rightarrow> Inr CAircraftIcaoCode_default
      | Some w \<Rightarrow>
          (case ws_aircraftIcaosForDesignator w (ac_designator icaoCandidate) of
             [] \<Rightarrow> Inr (smart_search w icaoCandidate)
           | [icao] \<Rightarrow> Inr icao
           | foundIcaos \<Rightarrow> best_of_codes foundIcaos))"

definition reverseLookupAircraftIcaoId :: "web_services option \<Rightarrow> int \<Rightarrow> CAircraftIcaoCode" where
  "reverseLookupAircraftIcaoId ws i =
     (case ws of None \<Rightarrow> CAircraftIcaoCode_default | Some w \<Rightarrow> ws_aircraftIcaoForDbKey w i)"

definition reverseLookupAirlineIcao :: "web_services option \<Rightarrow> CAirlineIcaoCode \<Rightarrow> CCallsign \<Rightarrow> CAirlineIcaoCode" where
  "reverseLookupAirlineIcao ws icaoPattern callsign =
     (case ws of None \<Rightarrow> CAirlineIcaoCode_default | Some w \<Rightarrow> ws_smartAirlineIcao w icaoPattern callsign)"

definition reverseLookupStandardLivery :: "web_services option \<Rightarrow> CAirlineIcaoCode \<Rightarrow> CLivery" where
  "reverseLookupStandardLivery ws airline =
     (case ws of None \<Rightarrow> CLivery_default
      | Some w \<Rightarrow> if al_hasValidDesignator airline then ws_stdLivery w airline else CLivery_default)"

definition reverseLookupLiveryId :: "web_services option \<Rightarrow> int \<Rightarrow> CLivery" where
  "reverseLookupLiveryId ws i = (case ws of None \<Rightarrow> CLivery_default | Some w \<Rightarrow> ws_liveryForDbKey w i)"

definition reverseLookupByIds ::
    "web_services option \<Rightarrow> DBTripleIds \<Rightarrow> CAircraftIcaoCode \<times> CLivery \<Rightarrow> int \<times> CAircraftIcaoCode \<times> CLivery" where
  "reverseLookupByIds ws ids both =
     (let livery = (case ids_livery ids of Some i \<Rightarrow> reverseLookupLiveryId ws i | None \<Rightarrow> snd both);
          icao = (case ids_aircraft ids of Some i \<Rightarrow> reverseLookupAircraftIcaoId ws i | None \<Rightarrow> fst both)
      in (of_bool (ids_livery ids \<noteq> None \<and> lv_hasValidDbKey livery) + of_bool (ids_aircraft ids \<noteq> None \<and> ac_hasValidDbKey icao),
          icao, livery))"

definition reverseLookupAirlineName :: "web_services option \<Rightarrow> string \<Rightarrow> string" where
  "reverseLookupAirlineName ws candidate =
     (case ws of None \<Rightarrow> [] | Some w \<Rightarrow>
        if candidate \<noteq> [] \<and> contains_nocase (ws_airlineNames w) candidate then candidate else [])"

definition reverseLookupTelephonyDesignator :: "web_services option \<Rightarrow> string \<Rightarrow> string" where
  "reverseLookupTelephonyDesignator ws candidate =
     (case ws of None \<Rightarrow> [] | Some w \<Rightarrow>
        if candidate \<noteq> [] \<and> contains_nocase (ws_telephonyDesignators w) candidate then candidate else [])"

definition isKnownAircraftDesignator :: "web_services option \<Rightarrow> string \<Rightarrow> bool" where
  "isKnownAircraftDesignator ws candidate \<longleftrightarrow>
     (case ws of None \<Rightarrow> False | Some w \<Rightarrow> isValidDesignator candidate \<and> ws_knowsAircraftDesignator w candidate)"

definition isKnownModelString :: "web_services option \<Rightarrow> string \<Rightarrow> bool" where
  "isKnownModelString ws candidate \<longleftrightarrow> (case ws of None \<Rightarrow> False | Some w \<Rightarrow> ws_knowsModelString w candidate)"

definition searchAmongAirlineAircraft :: "web_services option \<Rightarrow> string \<Rightarrow> CAirlineIcaoCode \<Rightarrow> CAircraftIcaoCode" where
  "searchAmongAirlineAircraft ws candidateString airline =
     (case ws of None \<Rightarrow> CAircraftIcaoCode_default
      | Some w \<Rightarrow>
          if \<not> al_hasValidDbKey airline then CAircraftIcaoCode_default
          else (case ws_aircraftIcaosForAirline w airline of [] \<Rightarrow> CAircraftIcaoCode_default
                | first # rest \<Rightarrow>
                    let code = findBestFuzzyMatchOrDefault candidateString 50 (first # rest)
                    in if isValidDesignator (ac_designator code) then code else first))"

definition callsignToAirline :: "web_services option \<Rightarrow> CCallsign \<Rightarrow> CAirlineIcaoCode" where
  "callsignToAirline ws callsign =
     (case ws of None \<Rightarrow> CAirlineIcaoCode_default
      | Some w \<Rightarrow> if isEmpty callsign then CAirlineIcaoCode_default else ws_bestMatchByCallsign w callsign)"

subsection \<open>A model\<close>

text \<open>A model string that the database or the set knows gives the whole model.\<close>

definition model_of_string ::
    "web_services option \<Rightarrow> CAircraftMatcherSetup \<Rightarrow> CAircraftModel list \<Rightarrow> CAircraftModel \<Rightarrow> CAircraftModel option" where
  "model_of_string ws setup modelSet m =
     (if \<not> md_hasModelString m \<or> \<not> setup_reverseLookupModelString setup then None
      else
        let fromDb = reverseLookupModelStringInDB ws (md_modelString m) (md_callsign m) True;
            fromSet = reverseLookupModelStringInSet ws (md_modelString m) (md_callsign m) modelSet True
        in if md_hasValidDbKey fromDb then Some fromDb else if md_hasModelString fromSet then Some fromSet else None)"

text \<open>The flag of the livery ids only switches off the id of the model.\<close>

definition model_of_id ::
    "web_services option \<Rightarrow> CAircraftMatcherSetup \<Rightarrow> DBTripleIds \<Rightarrow> CAircraftModel \<Rightarrow> CAircraftModel option" where
  "model_of_id ws setup ids m =
     (case ids_model ids of None \<Rightarrow> None
      | Some i \<Rightarrow>
          let fromDb = reverseLookupModelId ws i (md_callsign m)
          in if setup_reverseLookupLiveryIds setup \<and> \<not> md_hasModelString m \<and> md_hasValidDbKey fromDb then Some fromDb
             else None)"

definition with_icao_of_id :: "web_services option \<Rightarrow> DBTripleIds \<Rightarrow> CAircraftModel \<Rightarrow> CAircraftModel" where
  "with_icao_of_id ws ids m =
     (case ids_aircraft ids of None \<Rightarrow> m
      | Some i \<Rightarrow>
          let icao = reverseLookupAircraftIcaoId ws i
          in if \<not> ac_hasValidDbKey (md_aircraftIcao m) \<and> ac_hasValidDbKey icao then setAircraftIcaoCode icao m else m)"

definition with_livery_of_id :: "web_services option \<Rightarrow> DBTripleIds \<Rightarrow> CAircraftModel \<Rightarrow> CAircraftModel" where
  "with_livery_of_id ws ids m =
     (case ids_livery ids of None \<Rightarrow> m
      | Some i \<Rightarrow>
          let livery = reverseLookupLiveryId ws i
          in if \<not> lv_hasValidDbKey (md_livery m) \<and> lv_hasValidDbKey livery then md_setLivery livery m else m)"

definition with_icao_of_designator :: "web_services option \<Rightarrow> CAircraftModel \<Rightarrow> fault + CAircraftModel" where
  "with_icao_of_designator ws m =
     (if ac_hasValidDbKey (md_aircraftIcao m) then Inr m
      else and_then (reverseLookupAircraftIcao ws (md_aircraftIcao m)) (\<lambda>icao.
        Inr (if ac_hasValidDbKey icao then setAircraftIcaoCode icao m else m)))"

text \<open>The livery: by its code, as the standard livery of the airline, or a generated one.\<close>

definition with_livery_of_code :: "web_services \<Rightarrow> string \<Rightarrow> CAirlineIcaoCode \<Rightarrow> CAircraftModel \<Rightarrow> CAircraftModel" where
  "with_livery_of_code w networkLiveryInfo airline m =
     (let code = (if networkLiveryInfo = [] \<and> al_hasValidDesignator airline then getStandardCode airline else networkLiveryInfo);
          livery = ws_liveryForCombinedCode w code
      in if lv_isValidCombinedCode code \<and> lv_hasValidDbKey livery then md_setLivery livery m else m)"

definition with_own_livery :: "web_services \<Rightarrow> CAirlineIcaoCode \<Rightarrow> CAircraftModel \<Rightarrow> CAircraftModel" where
  "with_own_livery w airline m =
     (if md_hasValidDbKey m \<or> lv_hasValidDbKey (md_livery m) \<or> \<not> al_hasValidDesignator airline then m
      else
        let stdLivery = ws_stdLivery w airline in
        if al_hasValidDbKey airline \<and> lv_hasValidDbKey stdLivery then md_setLivery stdLivery m
        else md_setLivery (CLivery_of (getStandardCode airline) airline ''Generated'') m)"

definition with_livery :: "web_services \<Rightarrow> string \<Rightarrow> CCallsign \<Rightarrow> CAircraftModel \<Rightarrow> CAircraftModel" where
  "with_livery w networkLiveryInfo callsign m =
     (if lv_hasValidDbKey (md_livery m) then m
      else
        let airline = (if al_hasValidDbKey (md_airline m) then md_airline m
                       else reverseLookupAirlineIcao (Some w) (md_airline m) callsign)
        in with_own_livery w airline (with_livery_of_code w networkLiveryInfo airline m))"

definition reverse_lookup_parts ::
    "web_services \<Rightarrow> string \<Rightarrow> CAircraftMatcherSetup \<Rightarrow> CAircraftModel list \<Rightarrow> CAircraftModel \<Rightarrow> fault + CAircraftModel" where
  "reverse_lookup_parts w networkLiveryInfo setup modelSet m =
     (case model_of_string (Some w) setup modelSet m of Some found \<Rightarrow> Inr found
      | None \<Rightarrow>
          let ids = parseNetworkLiveryString networkLiveryInfo in
          (case model_of_id (Some w) setup ids m of Some found \<Rightarrow> Inr found
           | None \<Rightarrow>
               and_then (with_icao_of_designator (Some w) (with_livery_of_id (Some w) ids (with_icao_of_id (Some w) ids m)))
                 (\<lambda>m'. Inr (with_livery w networkLiveryInfo (md_callsign m) m'))))"

definition reverseLookupModel ::
    "web_services option \<Rightarrow> string \<Rightarrow> CAircraftMatcherSetup \<Rightarrow> CAircraftModel list \<Rightarrow> CAircraftModel \<Rightarrow> fault + CAircraftModel" where
  "reverseLookupModel ws networkLiveryInfo setup modelSet modelToLookup =
     (case ws of None \<Rightarrow> Inr CAircraftModel_default
      | Some w \<Rightarrow>
          if md_hasValidDbKey modelToLookup then Inr modelToLookup
          else and_then (reverse_lookup_parts w networkLiveryInfo setup modelSet modelToLookup) (\<lambda>m.
            Inr (md_setModelType (md_modelType modelToLookup) (md_setCallsign (md_callsign modelToLookup) m))))"

definition reverseLookupModel_network ::
    "web_services option \<Rightarrow> CCallsign \<Rightarrow> CAircraftIcaoCode \<Rightarrow> CAirlineIcaoCode \<Rightarrow> string \<Rightarrow> string \<Rightarrow> CAircraftMatcherSetup
      \<Rightarrow> CAircraftModel list \<Rightarrow> ModelType \<Rightarrow> fault + CAircraftModel" where
  "reverseLookupModel_network ws callsign networkAircraftIcao networkAirlineIcao networkLiveryInfo networkModelString setup modelSet type =
     (let livery = setAirlineIcaoCode networkAirlineIcao CLivery_default;
          model = md_setCallsign callsign (CAircraftModel_of networkModelString type [] networkAircraftIcao livery)
      in and_then (reverseLookupModel ws networkLiveryInfo setup modelSet model) (\<lambda>m.
           Inr (md_setModelType TypeReverseLookup m)))"

subsection \<open>An airline\<close>

definition isValidAirlineIcaoDesignator :: "web_services option \<Rightarrow> string \<Rightarrow> bool \<Rightarrow> bool" where
  "isValidAirlineIcaoDesignator ws designator checkAgainstSwiftDb \<longleftrightarrow>
     isValidAirlineDesignator designator
     \<and> (checkAgainstSwiftDb \<longrightarrow> (case ws of None \<Rightarrow> True | Some w \<Rightarrow> ws_knowsAirlineDesignator w designator))"

definition stringToAirlineIcaoObject :: "web_services option \<Rightarrow> string \<Rightarrow> string \<Rightarrow> string \<Rightarrow> bool \<Rightarrow> CAirlineIcaoCode" where
  "stringToAirlineIcaoObject ws designator airlineName airlineTelephony useSwiftDbData =
     (case ws of None \<Rightarrow> CAirlineIcaoCode_of designator
      | Some w \<Rightarrow>
          if \<not> useSwiftDbData then CAirlineIcaoCode_of designator
          else (case ws_airlinesForDesignator w designator of
                  [] \<Rightarrow> CAirlineIcaoCode_of designator
                | [code] \<Rightarrow> code
                | codes \<Rightarrow>
                    (case fst (ifPossibleReduceNameTelephonyCountry airlineName airlineTelephony [] codes) of
                       [] \<Rightarrow> CAirlineIcaoCode_default | code # _ \<Rightarrow> code)))"

definition failoverValidAirlineIcaoDesignator ::
    "web_services option \<Rightarrow> CCallsign \<Rightarrow> string \<Rightarrow> string \<Rightarrow> bool \<Rightarrow> string \<Rightarrow> string \<Rightarrow> bool \<Rightarrow> CAirlineIcaoCode" where
  "failoverValidAirlineIcaoDesignator ws callsign primaryIcao secondaryIcao airlineFromCallsign airlineName airlineTelephony useWebServices =
     (let object = (\<lambda>d. stringToAirlineIcaoObject ws d airlineName airlineTelephony useWebServices);
          is_valid = (\<lambda>d. isValidAirlineIcaoDesignator ws d useWebServices);
          (airlinePrefix, flightNumber, _) = getAirlinePrefix callsign []
      in if is_valid primaryIcao then object primaryIcao
         else if is_valid secondaryIcao then object secondaryIcao
         else if airlineFromCallsign \<and> airlinePrefix \<noteq> [] \<and> flightNumber \<noteq> [] \<and> is_valid airlinePrefix
         then object airlinePrefix
         else CAirlineIcaoCode_default)"

text \<open>The airline of a designator in a list of models, if there are models of it.\<close>

definition airline_of_models :: "string \<Rightarrow> string \<Rightarrow> CAircraftModel list \<Rightarrow> string \<Rightarrow> CAirlineIcaoCode option" where
  "airline_of_models airlineName airlineTelephony models designator =
     (let withAirline = findByIcaoDesignators [] (al_designator (CAirlineIcaoCode_of designator)) models in
      case countPerAirlineIcao withAirline of
        [(code, _)] \<Rightarrow> Some code
      | _ \<Rightarrow>
          if withAirline = [] then None
          else Some (getAirlineWithMaxCount
            (if length withAirline > 1
             then fst (ifPossibleReduceModelsByAirlineNameTelephonyDesignator airlineName airlineTelephony withAirline)
             else withAirline)))"

definition failoverValidAirlineIcaoDesignator_models ::
    "CCallsign \<Rightarrow> string \<Rightarrow> string \<Rightarrow> bool \<Rightarrow> string \<Rightarrow> string \<Rightarrow> CAircraftModel list \<Rightarrow> CAirlineIcaoCode" where
  "failoverValidAirlineIcaoDesignator_models callsign primaryIcao secondaryIcao airlineFromCallsign airlineName airlineTelephony models =
     (let of_models = airline_of_models airlineName airlineTelephony models;
          (airlinePrefix, flightNumber, _) = getAirlinePrefix callsign [];
          primary = (if primaryIcao = [] then None else of_models primaryIcao);
          secondary = (if secondaryIcao = [] then None else of_models secondaryIcao);
          own = (if airlineFromCallsign \<and> airlinePrefix \<noteq> [] \<and> flightNumber \<noteq> [] then of_models airlinePrefix else None)
      in if models = [] then CAirlineIcaoCode_default
         else case primary of Some code \<Rightarrow> code
         | None \<Rightarrow> (case secondary of Some code \<Rightarrow> code
           | None \<Rightarrow> (case own of Some code \<Rightarrow> code | None \<Rightarrow> CAirlineIcaoCode_default)))"

definition failoverValidAirlineIcaoDesignatorModelsFirst ::
    "web_services option \<Rightarrow> CCallsign \<Rightarrow> string \<Rightarrow> string \<Rightarrow> bool \<Rightarrow> string \<Rightarrow> string \<Rightarrow> CAircraftModel list \<Rightarrow> CAirlineIcaoCode" where
  "failoverValidAirlineIcaoDesignatorModelsFirst ws callsign primaryIcao secondaryIcao airlineFromCallsign airlineName airlineTelephony models =
     (let airline = failoverValidAirlineIcaoDesignator_models callsign primaryIcao secondaryIcao airlineFromCallsign airlineName airlineTelephony models
      in if models \<noteq> [] \<and> al_hasValidDbKey airline then airline
         else failoverValidAirlineIcaoDesignator ws callsign primaryIcao secondaryIcao airlineFromCallsign airlineName airlineTelephony True)"

end
