(* ===== verification/MatchingScripts.thy ===== *)
theory MatchingScripts
  imports ReverseLookup
begin

section \<open>Matching scripts\<close>

text \<open>
  \<open>blackmisc/simulation/matchingscript.cpp\<close>, \<open>matchingscriptmisc.h\<close>, and \<open>matchingScript\<close> and the functions that call it of
  \<open>blackcore/aircraftmatcher.cpp\<close>. The JavaScript engine is a function from the text of the script and the objects it
  sees to what the script returned: an error, an \<open>MSInOutValues\<close> object, a text, or something else. A script that returns
  an object of another class is not modelled (the code uses the cast pointer unchecked). Files are a function too.
\<close>

subsection \<open>The values a script sees and returns\<close>

record MSInOutValues =
  io_callsign :: string
  io_callsignAsSet :: string
  io_flightNumber :: string
  io_aircraftIcao :: string
  io_aircraftFamily :: string
  io_combinedType :: string
  io_airlineIcao :: string
  io_vAirlineIcao :: string
  io_livery :: string
  io_modelString :: string
  io_dbAircraftIcaoId :: int
  io_dbAirlineIcaoId :: int
  io_dbLiveryId :: int
  io_dbModelId :: int
  io_logMessage :: string
  io_modifiedAircraftDesignator :: bool
  io_modifiedAircraftFamily :: bool
  io_modifiedAirlineDesignator :: bool
  io_modified :: bool
  io_rerun :: bool

text \<open>The constructor of all the values, and those of a model; the model string and the id of a model are left out.\<close>

definition MSInOutValues_full ::
    "string \<Rightarrow> string \<Rightarrow> string \<Rightarrow> string \<Rightarrow> string \<Rightarrow> string \<Rightarrow> int \<Rightarrow> string \<Rightarrow> string \<Rightarrow> int \<Rightarrow> string \<Rightarrow> int
      \<Rightarrow> string \<Rightarrow> bool \<Rightarrow> bool \<Rightarrow> MSInOutValues" where
  "MSInOutValues_full cs csAsSet flightNumber aircraftIcao aircraftFamily combinedType idAircraftIcao
     airlineIcao virtualAirlineIcao idAirlineIcao livery liveryId logMsg modified rerun =
     \<lparr>io_callsign = code_of cs, io_callsignAsSet = csAsSet, io_flightNumber = flightNumber,
      io_aircraftIcao = code_of aircraftIcao, io_aircraftFamily = code_of aircraftFamily,
      io_combinedType = code_of combinedType, io_airlineIcao = code_of airlineIcao, io_vAirlineIcao = virtualAirlineIcao,
      io_livery = code_of livery, io_modelString = [], io_dbAircraftIcaoId = idAircraftIcao,
      io_dbAirlineIcaoId = idAirlineIcao, io_dbLiveryId = liveryId, io_dbModelId = - 1, io_logMessage = logMsg,
      io_modifiedAircraftDesignator = False, io_modifiedAircraftFamily = False, io_modifiedAirlineDesignator = False,
      io_modified = modified, io_rerun = rerun\<rparr>"

definition MSInOutValues_of :: "CAircraftModel \<Rightarrow> MSInOutValues" where
  "MSInOutValues_of m =
     (let cs = md_callsign m; icao = md_aircraftIcao m; livery = md_livery m; airline = md_airline m in
      MSInOutValues_full (asString cs) (m_callsignAsSet cs) (getFlightNumber cs)
        (ac_designator icao) (ac_family icao) (ac_combinedType icao) (ac_dbKey icao)
        (al_designator airline) (getVDesignator airline) (al_dbKey airline)
        (lv_combinedCode livery) (lv_dbKey livery) [] False False)"

text \<open>The copy constructor swaps the family and the combined type.\<close>

definition MSInOutValues_copy :: "MSInOutValues \<Rightarrow> MSInOutValues" where
  "MSInOutValues_copy sv =
     MSInOutValues_full (io_callsign sv) (io_callsignAsSet sv) (io_flightNumber sv)
       (io_aircraftIcao sv) (io_combinedType sv) (io_aircraftFamily sv) (io_dbAircraftIcaoId sv)
       (io_airlineIcao sv) (io_vAirlineIcao sv) (io_dbAirlineIcaoId sv) (io_livery sv) (io_dbLiveryId sv)
       (io_logMessage sv) (io_modified sv) (io_rerun sv)"

text \<open>The setters a script may call; the signals they emit have no receivers in the program.\<close>

datatype script_setter = SetCallsign string | SetDbAircraftIcaoId int | SetDbAirlineIcaoId int | SetDbLiveryId int
  | SetDbModelId int | SetAircraftIcao string | SetAirlineIcao string | SetVirtualAirlineIcao string | SetLivery string
  | SetModelString string | SetCombinedType string | SetLogMessage string | SetModified bool | SetRerun bool

fun script_set :: "script_setter \<Rightarrow> MSInOutValues \<Rightarrow> MSInOutValues" where
  "script_set (SetCallsign s) o' = o'\<lparr>io_callsign := s\<rparr>"
| "script_set (SetDbAircraftIcaoId i) o' = o'\<lparr>io_dbAircraftIcaoId := i\<rparr>"
| "script_set (SetDbAirlineIcaoId i) o' = o'\<lparr>io_dbAirlineIcaoId := i\<rparr>"
| "script_set (SetDbLiveryId i) o' = o'\<lparr>io_dbLiveryId := i\<rparr>"
| "script_set (SetDbModelId i) o' = o'\<lparr>io_dbModelId := i\<rparr>"
| "script_set (SetAircraftIcao s) o' = o'\<lparr>io_aircraftIcao := s\<rparr>"
| "script_set (SetAirlineIcao s) o' = o'\<lparr>io_airlineIcao := s\<rparr>"
| "script_set (SetVirtualAirlineIcao s) o' = o'\<lparr>io_vAirlineIcao := s\<rparr>"
| "script_set (SetLivery s) o' = o'\<lparr>io_livery := s\<rparr>"
| "script_set (SetModelString s) o' = o'\<lparr>io_modelString := s\<rparr>"
| "script_set (SetCombinedType s) o' = (if s = io_combinedType o' then o' else o'\<lparr>io_combinedType := code_of s\<rparr>)"
| "script_set (SetLogMessage s) o' = o'\<lparr>io_logMessage := s\<rparr>"
| "script_set (SetModified b) o' = o'\<lparr>io_modified := b\<rparr>"
| "script_set (SetRerun b) o' = o'\<lparr>io_rerun := b\<rparr>"

definition evaluateChanges :: "CAircraftIcaoCode \<Rightarrow> CAirlineIcaoCode \<Rightarrow> MSInOutValues \<Rightarrow> MSInOutValues" where
  "evaluateChanges aircraft airline o' =
     o'\<lparr>io_modifiedAircraftDesignator := (ac_designator aircraft \<noteq> io_aircraftIcao o'),
       io_modifiedAircraftFamily := (ac_family aircraft \<noteq> io_aircraftFamily o'),
       io_modifiedAirlineDesignator := (if al_isVa airline then getVDesignator airline \<noteq> io_vAirlineIcao o'
                                        else al_designator airline \<noteq> io_airlineIcao o')\<rparr>"

text \<open>The last line of \<open>hasChangedAircraftIcao\<close> says that it has.\<close>

definition hasChangedAircraftIcao :: "CAircraftIcaoCode \<Rightarrow> MSInOutValues \<Rightarrow> bool" where
  "hasChangedAircraftIcao aircraftIcao o' \<longleftrightarrow>
     (if ac_hasValidDbKey aircraftIcao \<and> ac_dbKey aircraftIcao \<noteq> io_dbAircraftIcaoId o' then True
      else if ac_designator aircraftIcao \<noteq> [] \<and> ac_designator aircraftIcao \<noteq> io_aircraftIcao o' then True
      else True)"

definition changed_id :: "int \<Rightarrow> int \<Rightarrow> bool" where
  "changed_id key i \<longleftrightarrow> key \<ge> 0 \<and> i \<ge> 0 \<and> i \<noteq> key"

definition hasChangedAircraftIcaoId :: "CAircraftIcaoCode \<Rightarrow> MSInOutValues \<Rightarrow> bool" where
  "hasChangedAircraftIcaoId aircraftIcao o' = changed_id (ac_dbKey aircraftIcao) (io_dbAircraftIcaoId o')"

definition hasChangedAirlineIcao :: "CAirlineIcaoCode \<Rightarrow> MSInOutValues \<Rightarrow> bool" where
  "hasChangedAirlineIcao airline o' \<longleftrightarrow>
     (al_hasValidDbKey airline \<and> al_dbKey airline \<noteq> io_dbAirlineIcaoId o')
     \<or> (al_hasValidDesignator airline
         \<and> (al_designator airline \<noteq> io_airlineIcao o' \<or> getVDesignator airline \<noteq> io_vAirlineIcao o'))"

definition hasChangedAirlineIcaoId :: "CAirlineIcaoCode \<Rightarrow> MSInOutValues \<Rightarrow> bool" where
  "hasChangedAirlineIcaoId airline o' = changed_id (al_dbKey airline) (io_dbAirlineIcaoId o')"

definition hasChangedModelString :: "string \<Rightarrow> MSInOutValues \<Rightarrow> bool" where
  "hasChangedModelString modelString o' \<longleftrightarrow> \<not> caseInsensitiveStringCompare (io_modelString o') modelString"

definition hasChangedLiveryId :: "CLivery \<Rightarrow> MSInOutValues \<Rightarrow> bool" where
  "hasChangedLiveryId livery o' = changed_id (lv_dbKey livery) (io_dbLiveryId o')"

definition hasChangedModelId :: "CAircraftModel \<Rightarrow> MSInOutValues \<Rightarrow> bool" where
  "hasChangedModelId model o' = changed_id (md_dbKey model) (io_dbModelId o')"

definition hasChangedModel :: "CAircraftModel \<Rightarrow> MSInOutValues \<Rightarrow> bool" where
  "hasChangedModel model o' \<longleftrightarrow> hasChangedModelString (md_modelString model) o' \<or> hasChangedModelId model o'"

subsection \<open>The set a script sees\<close>

record MSModelSet =
  set_simulator :: string
  set_available :: bool
  set_inputCount :: int
  set_models :: "CAircraftModel list"

definition MSModelSet_of :: "CAircraftModel list \<Rightarrow> MSModelSet" where
  "MSModelSet_of models = \<lparr>set_simulator = [], set_available = (models \<noteq> []), set_inputCount = 0, set_models = models\<rparr>"

definition initByAircraftAndAirline :: "CAircraftIcaoCode \<Rightarrow> CAirlineIcaoCode \<Rightarrow> MSModelSet \<Rightarrow> MSModelSet" where
  "initByAircraftAndAirline aircraft airline s =
     s\<lparr>set_inputCount :=
         (if set_models s = [] \<or> ac_designator aircraft = [] \<or> \<not> al_hasValidDesignator airline then 0
          else int (length (filter (\<lambda>m. md_aircraftIcao m = aircraft \<and> airline_eq (md_airline m) airline) (set_models s))))\<rparr>"

definition countDifferentAirlines :: "CAircraftModel list \<Rightarrow> nat" where
  "countDifferentAirlines models =
     length (remdups (map (\<lambda>m. getVDesignator (md_airline m)) (filter md_hasAirlineDesignator models)))"

text \<open>The counts as the properties give them: two of them read the count of the next.\<close>

datatype set_count = ModelSetSize | DifferentAirlines | VtolAircraft | CivilianAircraft | MilitaryAircraft
  | ColorLiveries | AirlineLiveries

definition count_of :: "set_count \<Rightarrow> MSModelSet \<Rightarrow> nat" where
  "count_of c s =
     (case c of ModelSetSize \<Rightarrow> length (set_models s)
      | DifferentAirlines \<Rightarrow> countDifferentAirlines (set_models s)
      | VtolAircraft \<Rightarrow> length (findByVtolFlag True (set_models s))
      | CivilianAircraft \<Rightarrow> length (findByMilitaryFlag False (set_models s))
      | MilitaryAircraft \<Rightarrow> length (findByMilitaryFlag True (set_models s))
      | ColorLiveries \<Rightarrow> length (findColorLiveries (set_models s))
      | AirlineLiveries \<Rightarrow> length (filter (\<lambda>m. isAirlineLivery (md_livery m)) (set_models s)))"

definition property_count :: "set_count \<Rightarrow> MSModelSet \<Rightarrow> nat" where
  "property_count c =
     count_of (case c of DifferentAirlines \<Rightarrow> VtolAircraft | VtolAircraft \<Rightarrow> CivilianAircraft | _ \<Rightarrow> c)"

subsection \<open>Running a script\<close>

datatype script_value = ScriptError | ScriptObject MSInOutValues | ScriptText string | ScriptNothing

record script_surroundings =
  read_file :: "string \<Rightarrow> string"
  js_engine :: "string \<Rightarrow> MSInOutValues \<Rightarrow> MSInOutValues \<Rightarrow> MSInOutValues \<Rightarrow> MSModelSet \<Rightarrow> script_value"

record MatchingScriptReturnValues =
  rv_model :: CAircraftModel
  rv_modified :: bool
  rv_rerun :: bool
  rv_runScript :: bool

definition rv_of :: "CAircraftModel \<Rightarrow> MatchingScriptReturnValues" where
  "rv_of model = \<lparr>rv_model = model, rv_modified = False, rv_rerun = False, rv_runScript = False\<rparr>"

definition runScriptAndModified :: "MatchingScriptReturnValues \<Rightarrow> bool" where
  "runScriptAndModified rv \<longleftrightarrow> rv_modified rv \<and> rv_runScript rv"

definition runScriptModifiedAndRerun :: "MatchingScriptReturnValues \<Rightarrow> bool" where
  "runScriptModifiedAndRerun rv \<longleftrightarrow> rv_modified rv \<and> rv_rerun rv \<and> rv_runScript rv"

text \<open>A whole model where the id or the string of one was changed and is known.\<close>

definition script_model ::
    "web_services \<Rightarrow> CAircraftModel \<Rightarrow> CAircraftModel list \<Rightarrow> MSInOutValues \<Rightarrow> CAircraftModel option" where
  "script_model w inModel modelSet o' =
     (let byId = ws_modelForDbKey w (io_dbModelId o'); byString = ws_modelForModelString w (io_modelString o');
          fromSet = reverseLookupModelStringInSet (Some w) (io_modelString o') (md_callsign inModel) modelSet True
      in if hasChangedModelId inModel o' \<and> md_hasValidDbKey byId then Some byId
         else if hasChangedModelString (md_modelString inModel) o'
         then (if md_hasValidDbKey byString then Some byString else if md_hasModelString fromSet then Some fromSet else None)
         else None)"

text \<open>The aircraft code is set in any case, from the designator alone where the id was not changed.\<close>

definition script_icao :: "web_services \<Rightarrow> CAircraftModel \<Rightarrow> MSInOutValues \<Rightarrow> MatchingScriptReturnValues \<Rightarrow> MatchingScriptReturnValues" where
  "script_icao w matchedModel o' rv =
     (if hasChangedAircraftIcao (md_aircraftIcao matchedModel) o'
      then let icao = (if hasChangedAircraftIcaoId (md_aircraftIcao matchedModel) o'
                       then ws_aircraftIcaoForDbKey w (io_dbAircraftIcaoId o')
                       else CAircraftIcaoCode_of (io_aircraftIcao o') [])
           in rv\<lparr>rv_modified := True, rv_model := setAircraftIcaoCode icao (rv_model rv)\<rparr>
      else rv)"

definition script_livery :: "web_services \<Rightarrow> CAircraftModel \<Rightarrow> MSInOutValues \<Rightarrow> MatchingScriptReturnValues \<Rightarrow> MatchingScriptReturnValues" where
  "script_livery w matchedModel o' rv =
     (if hasChangedLiveryId (md_livery matchedModel) o'
      then rv\<lparr>rv_modified := True, rv_model := md_setLivery (ws_liveryForDbKey w (io_dbLiveryId o')) (rv_model rv)\<rparr>
      else if hasChangedAirlineIcao (md_airline matchedModel) o'
      then let icao = (if hasChangedAirlineIcaoId (md_airline matchedModel) o'
                       then ws_airlineForDbKey w (io_dbAirlineIcaoId o')
                       else ws_airlineForUniqueDesignator w (io_airlineIcao o'))
           in rv\<lparr>rv_modified := True, rv_model := md_setLivery (ws_stdLivery w icao) (rv_model rv)\<rparr>
      else rv)"

definition script_result ::
    "web_services \<Rightarrow> CAircraftModel \<Rightarrow> CAircraftModel \<Rightarrow> CAircraftModel list \<Rightarrow> script_value \<Rightarrow> MatchingScriptReturnValues" where
  "script_result w inModel matchedModel modelSet v =
     (let rv = (rv_of inModel)\<lparr>rv_runScript := True\<rparr> in
      case v of ScriptObject o' \<Rightarrow>
        if \<not> io_modified o' then rv
        else let rv = rv\<lparr>rv_rerun := io_rerun o'\<rparr> in
          (case script_model w inModel modelSet o' of Some m \<Rightarrow> rv\<lparr>rv_model := m, rv_modified := True\<rparr>
           | None \<Rightarrow> script_livery w matchedModel o' (script_icao w matchedModel o' rv))
      | _ \<Rightarrow> rv)"

definition matchingScript ::
    "script_surroundings \<Rightarrow> web_services option \<Rightarrow> string \<Rightarrow> CAircraftModel \<Rightarrow> CAircraftModel \<Rightarrow> CAircraftModel list
      \<Rightarrow> MatchingScriptReturnValues" where
  "matchingScript sur ws js inModel matchedModel modelSet =
     (case ws of None \<Rightarrow> rv_of inModel
      | Some w \<Rightarrow>
          if js = [] then rv_of inModel
          else
            let icao = md_aircraftIcao inModel; airline = md_airline inModel;
                seen = initByAircraftAndAirline icao airline (MSModelSet_of modelSet);
                v = js_engine sur js (MSInOutValues_of inModel) (evaluateChanges icao airline (MSInOutValues_of matchedModel))
                      (MSInOutValues_of matchedModel) seen
            in script_result w inModel matchedModel modelSet v)"

definition reverseLookupScript ::
    "script_surroundings \<Rightarrow> web_services option \<Rightarrow> CAircraftMatcherSetup \<Rightarrow> CAircraftModel list \<Rightarrow> CAircraftModel
      \<Rightarrow> MatchingScriptReturnValues" where
  "reverseLookupScript sur ws setup modelSet inModel =
     (if \<not> doRunMsReverseLookupScript setup \<or> ws = None then rv_of inModel
      else matchingScript sur ws (read_file sur (ms_reverseLookupFile setup)) inModel inModel modelSet)"

definition matchingStageScript ::
    "script_surroundings \<Rightarrow> web_services option \<Rightarrow> CAircraftMatcherSetup \<Rightarrow> CAircraftModel list \<Rightarrow> CAircraftModel
      \<Rightarrow> CAircraftModel \<Rightarrow> MatchingScriptReturnValues" where
  "matchingStageScript sur ws setup modelSet inModel matchedModel =
     (if \<not> doRunMsMatchingStageScript setup \<or> ws = None then rv_of inModel
      else matchingScript sur ws (read_file sur (ms_matchingStageFile setup)) inModel matchedModel modelSet)"

definition reverseLookupModelMs ::
    "script_surroundings \<Rightarrow> web_services option \<Rightarrow> string \<Rightarrow> CAircraftMatcherSetup \<Rightarrow> CAircraftModel list \<Rightarrow> CAircraftModel
      \<Rightarrow> fault + CAircraftModel" where
  "reverseLookupModelMs sur ws networkLiveryInfo setup modelSet modelToLookup =
     and_then (reverseLookupModel ws networkLiveryInfo setup modelSet modelToLookup) (\<lambda>reverseModel.
       if \<not> doRunMsReverseLookupScript setup then Inr reverseModel
       else
         let rv = reverseLookupScript sur ws setup modelSet reverseModel in
         if runScriptModifiedAndRerun rv
         then reverseLookupModel ws networkLiveryInfo (resetReverseLookup setup) modelSet (rv_model rv)
         else Inr (if runScriptAndModified rv then rv_model rv else reverseModel))"

end
