(* ===== verification/AircraftMatcher.thy ===== *)
theory AircraftMatcher
  imports MatchingScripts
begin

section \<open>The matcher of aircraft models\<close>

text \<open>
  \<open>blackcore/aircraftmatcher.cpp\<close>: the members of \<open>CAircraftMatcher\<close>, the search for the closest match, and the
  operations on the model set, with the statistics of \<open>matchingstatistics.cpp\<close> and \<open>matchingstatisticsentry.cpp\<close>.
  What surrounds the matcher are the web services, the files and the script engine, the time of a statistics entry,
  and \<open>sur_random\<close>, the position of the element picked at random. Messages to the user and the file that the destructor
  writes are not modelled.
\<close>

subsection \<open>Statistics\<close>

datatype EntryType = FoundEntry | MissingEntry

record CMatchingStatisticsEntry =
  st_timestamp :: int
  st_sessionId :: string
  st_modelSetId :: string
  st_description :: string
  st_aircraftDesignator :: string
  st_airlineDesignator :: string
  st_entryType :: EntryType
  st_count :: int

definition CMatchingStatisticsEntry_of ::
    "int \<Rightarrow> EntryType \<Rightarrow> string \<Rightarrow> string \<Rightarrow> string \<Rightarrow> string \<Rightarrow> string \<Rightarrow> CMatchingStatisticsEntry" where
  "CMatchingStatisticsEntry_of t type sessionId modelSetId description aircraftDesignator airlineDesignator =
     \<lparr>st_timestamp = t, st_sessionId = q_trimmed sessionId, st_modelSetId = q_trimmed modelSetId,
      st_description = description, st_aircraftDesignator = code_of aircraftDesignator,
      st_airlineDesignator = code_of airlineDesignator, st_entryType = type, st_count = 1\<rparr>"

definition entry_matches :: "EntryType \<Rightarrow> string \<Rightarrow> string \<Rightarrow> string \<Rightarrow> CMatchingStatisticsEntry \<Rightarrow> bool" where
  "entry_matches type sessionId aircraftDesignator airlineDesignator e \<longleftrightarrow>
     st_entryType e = type \<and> sessionId = st_sessionId e \<and> aircraftDesignator = st_aircraftDesignator e
     \<and> airlineDesignator = st_airlineDesignator e"

definition increaseCount :: "CMatchingStatisticsEntry \<Rightarrow> CMatchingStatisticsEntry" where
  "increaseCount e = e\<lparr>st_count := c_int (st_count e + 1)\<rparr>"

definition increaseCountIfFound ::
    "EntryType \<Rightarrow> string \<Rightarrow> string \<Rightarrow> string \<Rightarrow> CMatchingStatisticsEntry list \<Rightarrow> bool \<times> CMatchingStatisticsEntry list" where
  "increaseCountIfFound type sessionId aircraftDesignator airlineDesignator es =
     (let hit = entry_matches type sessionId aircraftDesignator airlineDesignator
      in (list_ex hit es, map (\<lambda>e. if hit e then increaseCount e else e) es))"

definition addAircraftAirlineCombination ::
    "int \<Rightarrow> EntryType \<Rightarrow> string \<Rightarrow> string \<Rightarrow> string \<Rightarrow> string \<Rightarrow> string \<Rightarrow> bool
      \<Rightarrow> CMatchingStatisticsEntry list \<Rightarrow> CMatchingStatisticsEntry list" where
  "addAircraftAirlineCombination t type sessionId modelSetId description aircraftDesignator airlineDesignator avoidDuplicates es =
     (let (increased, es') = increaseCountIfFound type sessionId aircraftDesignator airlineDesignator es in
      if avoidDuplicates \<and> increased then es'
      else es @ [CMatchingStatisticsEntry_of t type sessionId modelSetId description aircraftDesignator airlineDesignator])"

subsection \<open>The matcher\<close>

record CAircraftMatcher =
  mt_setup :: CAircraftMatcherSetup
  mt_defaultModel :: CAircraftModel
  mt_modelSet :: "CAircraftModel list"
  mt_disabledModels :: "CAircraftModel list"
  mt_simulator :: int
  mt_statistics :: "CMatchingStatisticsEntry list"
  mt_categoryMatcher :: CCategoryMatcher
  mt_modelSetInfo :: string

record matcher_surroundings =
  sur_ws :: "web_services option"
  sur_script :: script_surroundings
  sur_random :: "nat \<Rightarrow> nat"
  sur_now :: int

text \<open>The constructor takes the categories of the database where there are web services.\<close>

definition CAircraftMatcher_of :: "CAircraftCategory list option \<Rightarrow> CAircraftMatcherSetup \<Rightarrow> CAircraftMatcher" where
  "CAircraftMatcher_of categories setup =
     \<lparr>mt_setup = setup, mt_defaultModel = CAircraftModel_default, mt_modelSet = [], mt_disabledModels = [],
      mt_simulator = 0, mt_statistics = [],
      mt_categoryMatcher = (case categories of Some cs \<Rightarrow> setCategories cs CCategoryMatcher_default | None \<Rightarrow> CCategoryMatcher_default),
      mt_modelSetInfo = []\<rparr>"

definition setSetup :: "CAircraftMatcherSetup \<Rightarrow> CAircraftMatcher \<Rightarrow> bool \<times> CAircraftMatcher" where
  "setSetup setup m = (if mt_setup m = setup then (False, m) else (True, m\<lparr>mt_setup := setup\<rparr>))"

definition setDefaultModel :: "CAircraftModel \<Rightarrow> CAircraftMatcher \<Rightarrow> CAircraftMatcher" where
  "setDefaultModel defaultModel m = m\<lparr>mt_defaultModel := md_setModelType TypeModelMatchingDefaultModel defaultModel\<rparr>"

definition simulator_text :: "int \<Rightarrow> string" where
  "simulator_text s = q_trimmed
     ((if int_testFlag s sim_FSX then ''FSX '' else []) @ (if int_testFlag s sim_FS9 then ''FS9 '' else [])
      @ (if int_testFlag s sim_P3D then ''P3D '' else []) @ (if int_testFlag s sim_XPLANE then ''XPlane '' else [])
      @ (if int_testFlag s sim_FG then ''FG '' else []))"

definition set_info :: "int \<Rightarrow> CAircraftModel list \<Rightarrow> string" where
  "set_info simulator models =
     ''Set: '' @ [CHR 0x27] @ simulator_text simulator @ [CHR 0x27] @ '' entries: '' @ q_number (int (length models))"

text \<open>Not set where the simulator and the number of models are those of the set there is, unless forced.\<close>

definition setModelSet :: "CAircraftModel list \<Rightarrow> int \<Rightarrow> bool \<Rightarrow> CAircraftMatcher \<Rightarrow> int \<times> CAircraftMatcher" where
  "setModelSet models simulator forced m =
     (if \<not> isSingleSimulator simulator then (0, m)
      else
        let cleaned = snd (removeIfExcluded (snd (removeAllWithoutModelString models))) in
        if \<not> forced \<and> mt_simulator m = simulator \<and> length (mt_modelSet m) = length cleaned
        then (int (length (mt_modelSet m)), m)
        else (int (length models),
              m\<lparr>mt_modelSet := cleaned, mt_simulator := simulator, mt_modelSetInfo := set_info simulator cleaned\<rparr>))"

text \<open>The disabled models stay in their list when they are restored.\<close>

definition restoreDisabledModels :: "CAircraftMatcher \<Rightarrow> CAircraftMatcher" where
  "restoreDisabledModels m =
     m\<lparr>mt_modelSet := snd (replaceOrAddModelsWithString (mt_disabledModels m) (mt_modelSet m))\<rparr>"

definition disableModelsForMatching :: "CAircraftModel list \<Rightarrow> bool \<Rightarrow> CAircraftMatcher \<Rightarrow> CAircraftMatcher" where
  "disableModelsForMatching removedModels incremental m =
     (if incremental
      then m\<lparr>mt_modelSet := snd (removeModelsWithString removedModels (mt_modelSet m)),
             mt_disabledModels := mt_disabledModels m @ removedModels\<rparr>
      else
        let m = restoreDisabledModels m
        in m\<lparr>mt_disabledModels := removedModels, mt_modelSet := snd (removeModelsWithString removedModels (mt_modelSet m))\<rparr>)"

definition addingRemoteModelFailed :: "remote_aircraft \<Rightarrow> CAircraftMatcher \<Rightarrow> CAircraftMatcher" where
  "addingRemoteModelFailed remote m =
     (if removeFromSetIfFailed (mt_setup m) \<and> \<not> isEmpty (ra_callsign remote) \<and> md_hasModelString (ra_model remote)
      then disableModelsForMatching [ra_model remote] True m else m)"

text \<open>The airline that was looked up makes no difference to the entry. Without web services there is an assertion.\<close>

definition evaluateStatisticsEntry ::
    "(string \<Rightarrow> CAircraftIcaoCode) \<Rightarrow> int \<Rightarrow> string \<Rightarrow> string \<Rightarrow> string \<Rightarrow> CAircraftMatcher \<Rightarrow> CAircraftMatcher" where
  "evaluateStatisticsEntry icaoForDesignator t sessionId aircraftIcao airlineIcao m =
     (if mt_modelSet m = [] \<or> sessionId = [] \<or> aircraftIcao = [] then m
      else
        let description = (if ac_hasValidDbKey (icaoForDesignator aircraftIcao) then []
                           else ''ICAO: '' @ [CHR 0x27] @ aircraftIcao @ [CHR 0x27] @ '' not known, typo?'');
            type = (if containsModelsWithAircraftAndAirlineIcaoDesignator aircraftIcao airlineIcao (mt_modelSet m)
                    then FoundEntry else MissingEntry)
        in m\<lparr>mt_statistics := addAircraftAirlineCombination t type sessionId (mt_modelSetInfo m) description
               aircraftIcao airlineIcao True (mt_statistics m)\<rparr>)"

definition clearMatchingStatistics :: "CAircraftMatcher \<Rightarrow> CAircraftMatcher" where
  "clearMatchingStatistics m = m\<lparr>mt_statistics := []\<rparr>"

subsection \<open>The closest match\<close>

text \<open>What is settled before the search: a model set by hand, an empty set, an exact model string.\<close>

definition match_in_prephase :: "remote_aircraft \<Rightarrow> CAircraftMatcher \<Rightarrow> CAircraftModel option" where
  "match_in_prephase remote m =
     (if hasManuallySetString (ra_model remote) then Some (ra_model remote)
      else if mt_modelSet m = [] then Some (mt_defaultModel m)
      else if md_hasModelString (ra_model remote) \<and> mode_flag (mt_setup m) ByModelString
      then let exact = matchByExactModelString remote (mt_modelSet m) in if md_hasModelString exact then Some exact else None
      else None)"

definition usable_models :: "CAircraftMatcher \<Rightarrow> CAircraftModel list" where
  "usable_models m =
     (let models = snd (removeAllWithoutModelString (mt_modelSet m));
          models = (if mode_flag (mt_setup m) ExcludeNoDbData then snd (removeObjectsWithoutDbKey models) else models)
      in if mode_flag (mt_setup m) ExcludeNoExcluded then snd (removeIfExcluded models) else models)"

definition match_candidates :: "bool \<Rightarrow> remote_aircraft \<Rightarrow> CAircraftMatcher \<Rightarrow> CAircraftModel list \<Rightarrow> fault + CAircraftModel list" where
  "match_candidates reduceLog remote m modelSet =
     (let setup = mt_setup m;
          reduced = getClosestMatchStepwiseReduceImplementation reduceLog setup (mt_categoryMatcher m) remote modelSet;
          scored = getClosestMatchScoreImplementation setup remote
      in case ms_algorithm setup of
        MatchingStepwiseReduce \<Rightarrow> reduced
      | MatchingScoreBased \<Rightarrow> Inr (scored modelSet)
      | MatchingStepwiseReducePlusScoreBased \<Rightarrow> and_then reduced (\<lambda>models. Inr (scored models)))"

definition pick_model :: "(nat \<Rightarrow> nat) \<Rightarrow> CAircraftMatcherSetup \<Rightarrow> CAircraftModel list \<Rightarrow> CAircraftModel" where
  "pick_model random setup candidates =
     (case ms_strategy setup of
        PickRandom \<Rightarrow> candidates ! (random (length candidates) mod length candidates)
      | PickByOrder \<Rightarrow> if needsOrder candidates then frontOrDefault candidates else minOrderOrDefault candidates
      | PickFirst \<Rightarrow> frontOrDefault candidates)"

definition search_model :: "matcher_surroundings \<Rightarrow> bool \<Rightarrow> remote_aircraft \<Rightarrow> CAircraftMatcher \<Rightarrow> fault + CAircraftModel" where
  "search_model sur reduceLog remote m =
     (case match_in_prephase remote m of Some model \<Rightarrow> Inr model
      | None \<Rightarrow>
          and_then (match_candidates reduceLog remote m (usable_models m)) (\<lambda>candidates.
            Inr (if candidates = [] then getCombinedTypeDefaultModel (usable_models m) remote (mt_defaultModel m)
                 else pick_model (sur_random sur) (mt_setup m) candidates)))"

definition as_match :: "remote_aircraft \<Rightarrow> CAircraftModel \<Rightarrow> CAircraftModel" where
  "as_match remote model = md_setModelType TypeModelMatching (md_setCallsign (ra_callsign remote) model)"

text \<open>A match without a model string gives way to the default model, which is then not marked as a match.\<close>

definition finish_match :: "remote_aircraft \<Rightarrow> CAircraftMatcher \<Rightarrow> CAircraftModel \<Rightarrow> fault + CAircraftModel" where
  "finish_match remote m model =
     (let model = as_match remote model;
          result = (if \<not> md_hasModelString model \<and> md_hasModelString (mt_defaultModel m)
                    then md_setCallsign (ra_callsign remote) (mt_defaultModel m) else model)
      in if isEmpty (md_callsign result) then Inl AssertFailed else Inr result)"

text \<open>The search without a script, which is also the second run after one.\<close>

definition getClosestMatch_noScript ::
    "matcher_surroundings \<Rightarrow> bool \<Rightarrow> remote_aircraft \<Rightarrow> CAircraftMatcher \<Rightarrow> fault + CAircraftModel" where
  "getClosestMatch_noScript sur reduceLog remote m =
     and_then (search_model sur reduceLog remote m) (\<lambda>model. finish_match remote m (as_match remote model))"

text \<open>The set the script sees: the whole one where the match was settled before the search.\<close>

definition script_set_of :: "remote_aircraft \<Rightarrow> CAircraftMatcher \<Rightarrow> CAircraftModel list" where
  "script_set_of remote m = (if match_in_prephase remote m \<noteq> None then mt_modelSet m else usable_models m)"

text \<open>What the script changed is only used when it asked for another run.\<close>

definition run_stage_script ::
    "matcher_surroundings \<Rightarrow> bool \<Rightarrow> remote_aircraft \<Rightarrow> CAircraftMatcher \<Rightarrow> CAircraftModel \<Rightarrow> fault + CAircraftModel" where
  "run_stage_script sur reduceLog remote m matchedModel =
     (let rv = matchingStageScript (sur_script sur) (sur_ws sur) (mt_setup m) (script_set_of remote m) (ra_model remote) matchedModel
      in if \<not> runScriptModifiedAndRerun rv then Inr matchedModel
         else and_then (getClosestMatch_noScript sur reduceLog (ra_setModel (rv_model rv) remote) m) (\<lambda>second.
           let second = md_setCallsign (ra_callsign remote) second
           in Inr (if md_hasModelString second then second else matchedModel)))"

definition getClosestMatch ::
    "matcher_surroundings \<Rightarrow> bool \<Rightarrow> remote_aircraft \<Rightarrow> bool \<Rightarrow> CAircraftMatcher \<Rightarrow> fault + CAircraftModel" where
  "getClosestMatch sur reduceLog remote useMatchingScript m =
     and_then (search_model sur reduceLog remote m) (\<lambda>model.
       let matchedModel = as_match remote model in
       and_then (if useMatchingScript \<and> doRunMsMatchingStageScript (mt_setup m)
                 then run_stage_script sur reduceLog remote m matchedModel else Inr matchedModel)
         (finish_match remote m))"

subsection \<open>The steps of the matcher\<close>

datatype matcher_event = SetSetup CAircraftMatcherSetup | SetDefaultModel CAircraftModel
  | SetModelSet "CAircraftModel list" int bool | DisableModels "CAircraftModel list" bool | RestoreModels
  | AddingFailed remote_aircraft | EvaluateStatistics "string \<Rightarrow> CAircraftIcaoCode" int string string string
  | ClearStatistics

fun matcher_handle :: "matcher_event \<Rightarrow> CAircraftMatcher \<Rightarrow> CAircraftMatcher" where
  "matcher_handle (SetSetup s) m = snd (setSetup s m)"
| "matcher_handle (SetDefaultModel d) m = setDefaultModel d m"
| "matcher_handle (SetModelSet models simulator forced) m = snd (setModelSet models simulator forced m)"
| "matcher_handle (DisableModels models incremental) m = disableModelsForMatching models incremental m"
| "matcher_handle RestoreModels m = restoreDisabledModels m"
| "matcher_handle (AddingFailed remote) m = addingRemoteModelFailed remote m"
| "matcher_handle (EvaluateStatistics f t sessionId aircraft airline) m = evaluateStatisticsEntry f t sessionId aircraft airline m"
| "matcher_handle ClearStatistics m = clearMatchingStatistics m"

inductive matcher_reachable :: "CAircraftMatcher \<Rightarrow> bool" where
  created: "matcher_reachable (CAircraftMatcher_of categories setup)"
| handled: "matcher_reachable m \<Longrightarrow> matcher_reachable (matcher_handle e m)"

inductive_cases handledE: "matcher_reachable m"

end
