(* ===== verification/ReductionFacts.thy ===== *)
theory ReductionFacts
  imports AircraftMatcher
begin

section \<open>What a reduction keeps\<close>

text \<open>
  The steps of the matching share a contract: what is left comes from what there was, and something is left of
  something. The honest ones moreover leave all as it was where they do not say that they reduced. A step that can fail
  keeps the contract where the codes it asks for are as the program keeps them. The locales state the contracts, the
  interpretations show that the steps of the code keep them.
\<close>

named_theorems reduction_facts

subsection \<open>The contracts\<close>

locale reducer =
  fixes reduce :: "'a list \<Rightarrow> 'a list \<times> bool"
  assumes within: "set (fst (reduce xs)) \<subseteq> set xs"
    and keeps: "xs \<noteq> [] \<Longrightarrow> fst (reduce xs) \<noteq> []"
begin

lemma nothing_of_nothing: "fst (reduce []) = []"
  using within [of "[]"] by simp

lemma empty_iff: "fst (reduce xs) = [] \<longleftrightarrow> xs = []"
  using keeps [of xs] nothing_of_nothing by blast

lemma still_all: "list_all P xs \<Longrightarrow> list_all P (fst (reduce xs))"
  using within [of xs] by (auto simp: list_all_iff)

lemma within_trans: "set xs \<subseteq> A \<Longrightarrow> set (fst (reduce xs)) \<subseteq> A"
  using within [of xs] by blast

end

locale honest_reducer = reducer +
  assumes unreported: "\<not> snd (reduce xs) \<Longrightarrow> fst (reduce xs) = xs"
begin

lemma reported: "fst (reduce xs) \<noteq> xs \<Longrightarrow> snd (reduce xs)"
  using unreported by blast

end

locale failing_reducer =
  fixes step :: "'a list \<Rightarrow> fault + 'a list \<times> bool" and legal :: "'a list \<Rightarrow> bool"
  assumes reduces: "legal xs \<Longrightarrow> \<exists>ys b. step xs = Inr (ys, b) \<and> set ys \<subseteq> set xs \<and> (xs \<noteq> [] \<longrightarrow> ys \<noteq> [])"
begin

lemma result:
  assumes "legal xs"
  obtains ys b where "step xs = Inr (ys, b)" "set ys \<subseteq> set xs" "xs \<noteq> [] \<Longrightarrow> ys \<noteq> []"
  using reduces [OF assms] by blast

lemma never_fails: "legal xs \<Longrightarrow> step xs \<noteq> Inl f"
  using reduces [of xs] by auto

end

text \<open>Steps one after the other.\<close>

lemma reducer_comp:
  assumes "reducer f" "reducer g" shows "reducer (\<lambda>xs. g (fst (f xs)))"
proof
  fix xs
  show "set (fst (g (fst (f xs)))) \<subseteq> set xs"
    using reducer.within [OF assms(1), of xs] reducer.within [OF assms(2), of "fst (f xs)"] by blast
  show "fst (g (fst (f xs))) \<noteq> []" if "xs \<noteq> []"
    using reducer.keeps [OF assms(1) that] by (rule reducer.keeps [OF assms(2)])
qed

lemma reducer_after_failing:
  assumes "failing_reducer f legal" "reducer g" "legal xs"
  shows "\<exists>ys b zs b'. f xs = Inr (ys, b) \<and> g ys = (zs, b') \<and> set zs \<subseteq> set xs \<and> (xs \<noteq> [] \<longrightarrow> zs \<noteq> [])"
proof -
  from failing_reducer.result [OF assms(1,3)] obtain ys b where ys: "f xs = Inr (ys, b)" "set ys \<subseteq> set xs" "xs \<noteq> [] \<Longrightarrow> ys \<noteq> []" by metis
  moreover have "set (fst (g ys)) \<subseteq> set xs" using reducer.within [OF assms(2), of ys] ys(2) by blast
  moreover have "xs \<noteq> [] \<Longrightarrow> fst (g ys) \<noteq> []" using reducer.keeps [OF assms(2)] ys(3) by blast
  ultimately show ?thesis by (cases "g ys") auto
qed

lemma reducer_cong: "reducer f \<Longrightarrow> (\<And>xs. fst (g xs) = fst (f xs)) \<Longrightarrow> reducer g"
  by (simp add: reducer_def)

subsection \<open>The steps of the matching\<close>

lemma found_or_all_simps [simp]:
  "fst (found_or_all inList found) = (if found = [] then inList else found)"
  "snd (found_or_all inList found) \<longleftrightarrow> found \<noteq> []"
  by (simp_all add: found_or_all_def)

text \<open>Every finder gives some of the models it is asked for.\<close>

lemma finders_within [reduction_facts]:
  "set (findByManufacturer s xs) \<subseteq> set xs" "set (findByFamily s xs) \<subseteq> set xs" "set (findByIcaoDesignators s t xs) \<subseteq> set xs"
  "set (findByAirlineGroup a xs) \<subseteq> set xs" "set (findByCombinedType s xs) \<subseteq> set xs"
  "set (findByMilitaryFlag b xs) \<subseteq> set xs" "set (findByVtolFlag b xs) \<subseteq> set xs"
  "set (findByAirlineNamesOrTelephonyDesignator s xs) \<subseteq> set xs" "set (findByCategoryFirstLevel i xs) \<subseteq> set xs"
  "set (findByCategory c xs) \<subseteq> set xs" "set (findByCategories cs xs) \<subseteq> set xs"
  "set (findByDesignatorsOrFamilyWithColorLivery ss xs) \<subseteq> set xs" "set (findByCombinedTypeWithColorLivery s xs) \<subseteq> set xs"
  "set (findByNotInModelStrings ss xs) \<subseteq> set xs"
  by (auto simp: findByManufacturer_def findByFamily_def findByIcaoDesignators_def
      findByAirlineGroup_def findByCombinedType_def findByMilitaryFlag_def findByVtolFlag_def findByAirlineNamesOrTelephonyDesignator_def
      findByCategoryFirstLevel_def findByCategory_def findByCategories_def findByDesignatorsOrFamilyWithColorLivery_def
      findByCombinedTypeWithColorLivery_def findColorLiveries_def findByNotInModelStrings_def Let_def split: if_splits)

lemma removeModelStrings_within: "set (snd (removeModelStrings ss xs)) \<subseteq> set xs"
  using finders_within(14) [of ss xs] by (auto simp: removeModelStrings_def Let_def)

lemmas found_member = finders_within [THEN subsetD] removeModelStrings_within [THEN subsetD]

lemma replaceOrAdd_within: "set (snd (replaceOrAddModelsWithString new xs)) \<subseteq> set new \<union> set xs"
  using removeModelStrings_within [of "getModelStringList new" xs]
  by (auto simp: replaceOrAddModelsWithString_def Let_def split: if_splits)

lemma replaceOrAdd_empty: "snd (replaceOrAddModelsWithString new xs) = [] \<Longrightarrow> xs = [] \<and> new = []"
  by (auto simp: replaceOrAddModelsWithString_def Let_def split: if_splits)

text \<open>
  What the members of the classes are set to: no combined code of a livery without an airline but with the marker of a
  standard livery, and combined types without blanks around them.
\<close>

definition legal_livery :: "CLivery \<Rightarrow> bool" where
  "legal_livery l \<longleftrightarrow> \<not> q_startsWith (lv_combinedCode l) (''.'' @ standardLiveryMarker)"

definition legal_type :: "remote_aircraft \<Rightarrow> bool" where
  "legal_type remote \<longleftrightarrow> q_trimmed (ac_combinedType (ra_icao remote)) = ac_combinedType (ra_icao remote)"

lemma hasCombinedCode_legal [simp]: "legal_livery l \<Longrightarrow> hasCombinedCode l = Inr (lv_combinedCode l \<noteq> [])"
  by (simp add: hasCombinedCode_def legal_livery_def)

lemma found_by_livery:
  assumes "list_all (\<lambda>m. legal_livery (md_livery m)) xs"
  shows "\<exists>found. findByAircraftDesignatorAndLiveryCombinedCode d c xs = Inr found \<and> set found \<subseteq> set xs"
proof -
  have "\<exists>found. findBy (\<lambda>m. if \<not> matchesDesignator d (md_aircraftIcao m) then Inr False else matchesCombinedCode c (md_livery m)) xs = Inr found"
    using assms by (intro findBy_ends) (auto simp: matchesCombinedCode_def list_all_iff)
  then show ?thesis using findBy_within by (fastforce simp: findByAircraftDesignatorAndLiveryCombinedCode_def)
qed

lemma found_by_combined:
  assumes "legal_type remote"
  shows "\<exists>found. findByCombinedAndManufacturer (ac_combinedType (ra_icao remote)) s xs = Inr found \<and> set found \<subseteq> set xs"
proof -
  let ?type = "ac_combinedType (ra_icao remote)"
  have "\<exists>found. findBy (\<lambda>m. matchesCombinedTypeAndManufacturer ?type s (md_aircraftIcao m)) xs = Inr found"
  proof (rule findBy_ends)
    fix m :: CAircraftModel
    from assms have "q_trimmed ?type = ?type" by (simp add: legal_type_def)
    then obtain b where "matchesCombinedType ?type (md_aircraftIcao m) = Inr b" using trimmed_type_reads by blast
    then show "\<exists>b. matchesCombinedTypeAndManufacturer ?type s (md_aircraftIcao m) = Inr b"
      by (simp add: matchesCombinedTypeAndManufacturer_def)
  qed
  then show ?thesis using findBy_within finders_within(1,5) by (fastforce simp: findByCombinedAndManufacturer_def)
qed

interpretation by_livery: failing_reducer "ifPossibleReduceByLiveryAndAircraftIcaoCode remote"
    "\<lambda>xs. legal_livery (ra_livery remote) \<and> list_all (\<lambda>m. legal_livery (md_livery m)) xs" for remote
proof
  fix xs :: "CAircraftModel list"
  assume legal: "legal_livery (ra_livery remote) \<and> list_all (\<lambda>m. legal_livery (md_livery m)) xs"
  with found_by_livery [of xs "lv_combinedCode (ra_livery remote)" "ac_designator (ra_icao remote)"] obtain found where
    "findByAircraftDesignatorAndLiveryCombinedCode (lv_combinedCode (ra_livery remote)) (ac_designator (ra_icao remote)) xs = Inr found"
    "set found \<subseteq> set xs" by blast
  with legal show "\<exists>ys b. ifPossibleReduceByLiveryAndAircraftIcaoCode remote xs = Inr (ys, b) \<and> set ys \<subseteq> set xs \<and> (xs \<noteq> [] \<longrightarrow> ys \<noteq> [])"
    by (auto simp: ifPossibleReduceByLiveryAndAircraftIcaoCode_def found_or_all_def ex_bool_eq)
qed

interpretation by_manufacturer: honest_reducer "ifPossibleReduceByManufacturer remote" for remote
  by unfold_locales (auto simp: ifPossibleReduceByManufacturer_def split: if_splits dest: found_member)

interpretation icao_by_manufacturer: honest_reducer "ifPossibleReduceAircraftIcaoByManufacturer icao" for icao
  by unfold_locales (auto simp: ifPossibleReduceAircraftIcaoByManufacturer_def icaos_findByManufacturer_def Let_def split: if_splits)

interpretation by_aircraft: honest_reducer "ifPossibleReduceByAircraft remote" for remote
  by unfold_locales (auto simp: ifPossibleReduceByAircraft_def split: if_splits dest: found_member)

interpretation of_family: failing_reducer "reduce_by_family remote family pseudo" "\<lambda>xs. legal_type remote" for remote family pseudo
proof
  fix xs
  assume "legal_type remote"
  then obtain found where "(if pseudo then findByCombinedAndManufacturer (ac_combinedType (ra_icao remote)) (ac_manufacturer (ra_icao remote)) xs
      else Inr []) = Inr found" "set found \<subseteq> set xs"
    using found_by_combined [of remote "ac_manufacturer (ra_icao remote)" xs] by (cases pseudo) auto
  then show "\<exists>ys b. reduce_by_family remote family pseudo xs = Inr (ys, b) \<and> set ys \<subseteq> set xs \<and> (xs \<noteq> [] \<longrightarrow> ys \<noteq> [])"
    by (auto simp: reduce_by_family_def Let_def split: if_splits dest: found_member)
qed

interpretation by_family: failing_reducer "ifPossibleReduceByFamily remote pseudo" "\<lambda>xs. legal_type remote" for remote pseudo
proof
  fix xs
  assume legal: "legal_type remote"
  let ?first = "if ac_family (ra_icao remote) = [] then Inr (xs, False) else reduce_by_family remote (ac_family (ra_icao remote)) pseudo xs"
  obtain ys b where "?first = Inr (ys, b)" "set ys \<subseteq> set xs" "xs \<noteq> [] \<longrightarrow> ys \<noteq> []"
    using of_family.reduces [OF legal, of "ac_family (ra_icao remote)" pseudo xs] by (cases "ac_family (ra_icao remote) = []") auto
  then show "\<exists>ys b. ifPossibleReduceByFamily remote pseudo xs = Inr (ys, b) \<and> set ys \<subseteq> set xs \<and> (xs \<noteq> [] \<longrightarrow> ys \<noteq> [])"
    using of_family.reduces [OF legal, of "ac_designator (ra_icao remote)" pseudo xs]
    by (cases b) (auto simp: ifPossibleReduceByFamily_def Let_def)
qed

interpretation by_aircraft_or_family: failing_reducer "\<lambda>xs. ifPossibleReduceByAircraftOrFamily remote pseudo xs stp" "\<lambda>xs. legal_type remote"
  for remote pseudo stp
proof
  fix xs
  assume legal: "legal_type remote"
  obtain ys b where "ifPossibleReduceByAircraft remote xs = (ys, b)" "set ys \<subseteq> set xs" "xs \<noteq> [] \<longrightarrow> ys \<noteq> []"
    using by_aircraft.within [of remote xs] by_aircraft.keeps [of xs remote] by (cases "ifPossibleReduceByAircraft remote xs") auto
  then show "\<exists>ys b. ifPossibleReduceByAircraftOrFamily remote pseudo xs stp = Inr (ys, b) \<and> set ys \<subseteq> set xs \<and> (xs \<noteq> [] \<longrightarrow> ys \<noteq> [])"
    using by_family.reduces [OF legal, of pseudo xs] by (simp add: ifPossibleReduceByAircraftOrFamily_def)
qed

interpretation by_airline: honest_reducer "\<lambda>xs. ifPossibleReduceByAirline remote xs stp" for remote stp
proof
  fix xs
  let ?own = "findByIcaoDesignators [] (al_designator (ra_airline remote)) xs"
  have "set (snd (replaceOrAddModelsWithString (findByAirlineGroup (ra_airline remote) xs) ?own)) \<subseteq> set xs"
    using replaceOrAdd_within [of "findByAirlineGroup (ra_airline remote) xs" ?own]
      finders_within(3) [of "[]" "al_designator (ra_airline remote)" xs] finders_within(4) [of "ra_airline remote" xs] by blast
  then show "set (fst (ifPossibleReduceByAirline remote xs stp)) \<subseteq> set xs"
    using finders_within(3) [of "[]" "al_designator (ra_airline remote)" xs] by (auto simp: ifPossibleReduceByAirline_def Let_def split: if_splits)
  show "fst (ifPossibleReduceByAirline remote xs stp) \<noteq> []" if "xs \<noteq> []"
    using that by (auto simp: ifPossibleReduceByAirline_def Let_def split: if_splits)
  show "fst (ifPossibleReduceByAirline remote xs stp) = xs" if "\<not> snd (ifPossibleReduceByAirline remote xs stp)"
    using that by (auto simp: ifPossibleReduceByAirline_def Let_def split: if_splits)
qed

text \<open>The flags of these two do not say whether they reduced, so they only keep the first contract.\<close>

interpretation by_military: reducer "ifPossibleReduceByMilitaryFlag remote" for remote
  by unfold_locales (auto simp: ifPossibleReduceByMilitaryFlag_def Let_def split: if_splits dest: found_member)

interpretation by_combined_type: reducer "\<lambda>xs. ifPossibleReduceByCombinedType remote xs stp" for remote stp
proof
  fix xs
  let ?found = "findByCombinedType (ac_combinedType (ra_icao remote)) xs"
  have then_manufacturer: "reducer (\<lambda>xs. ifPossibleReduceByManufacturer remote (fst (ifPossibleReduceByAirline remote xs stp)))"
    by (rule reducer_comp [OF by_airline.reducer_axioms by_manufacturer.reducer_axioms])
  show "set (fst (ifPossibleReduceByCombinedType remote xs stp)) \<subseteq> set xs"
    using reducer.within [OF then_manufacturer, of ?found] finders_within(5) [of "ac_combinedType (ra_icao remote)" xs]
    by (auto simp: ifPossibleReduceByCombinedType_def Let_def split: if_splits dest: subsetD)
  show "fst (ifPossibleReduceByCombinedType remote xs stp) \<noteq> []" if "xs \<noteq> []"
    using reducer.keeps [OF then_manufacturer, of ?found] that by (auto simp: ifPossibleReduceByCombinedType_def Let_def split: if_splits)
qed

interpretation by_names: honest_reducer "ifPossibleReduceModelsByAirlineNameTelephonyDesignator name telephony" for name telephony
  by unfold_locales (auto simp: ifPossibleReduceModelsByAirlineNameTelephonyDesignator_def narrowed_def Let_def split: if_splits dest: found_member)

subsection \<open>The ICAO data\<close>

interpretation aircraft_first: failing_reducer "\<lambda>xs. reduce_aircraft_first remote xs stp" "\<lambda>xs. legal_type remote" for remote stp
proof
  fix xs
  assume legal: "legal_type remote"
  let ?airline = "\<lambda>xs. ifPossibleReduceByAirline remote xs stp"
  have "\<exists>ys b zs b'. ifPossibleReduceByAircraftOrFamily remote UsePseudoFamily xs stp = Inr (ys, b) \<and> ?airline ys = (zs, b')
      \<and> set zs \<subseteq> set xs \<and> (xs \<noteq> [] \<longrightarrow> zs \<noteq> [])"
    using legal by (rule reducer_after_failing [OF by_aircraft_or_family.failing_reducer_axioms by_airline.reducer_axioms])
  then obtain aircraft r1 models r2 where one: "ifPossibleReduceByAircraftOrFamily remote UsePseudoFamily xs stp = Inr (aircraft, r1)"
    "?airline aircraft = (models, r2)" "set models \<subseteq> set xs" "xs \<noteq> [] \<longrightarrow> models \<noteq> []" by blast
  have "\<exists>ys b zs b'. ifPossibleReduceByFamily remote UsePseudoFamily xs = Inr (ys, b) \<and> ?airline ys = (zs, b')
      \<and> set zs \<subseteq> set xs \<and> (xs \<noteq> [] \<longrightarrow> zs \<noteq> [])"
    using legal by (rule reducer_after_failing [OF by_family.failing_reducer_axioms by_airline.reducer_axioms])
  then obtain family b models2nd r3 where two: "ifPossibleReduceByFamily remote UsePseudoFamily xs = Inr (family, b)"
    "?airline family = (models2nd, r3)" "set models2nd \<subseteq> set xs" "xs \<noteq> [] \<longrightarrow> models2nd \<noteq> []" by blast
  show "\<exists>ys b. reduce_aircraft_first remote xs stp = Inr (ys, b) \<and> set ys \<subseteq> set xs \<and> (xs \<noteq> [] \<longrightarrow> ys \<noteq> [])"
    using one two by (auto simp: reduce_aircraft_first_def Let_def)
qed

interpretation airline_first: failing_reducer "\<lambda>xs. reduce_airline_first remote xs stp" "\<lambda>xs. legal_type remote" for remote stp
proof
  fix xs
  assume legal: "legal_type remote"
  obtain airline r1 where one: "ifPossibleReduceByAirline remote xs stp = (airline, r1)" "set airline \<subseteq> set xs" "xs \<noteq> [] \<longrightarrow> airline \<noteq> []"
    using by_airline.within [of remote xs stp] by_airline.keeps [of xs remote stp] by (cases "ifPossibleReduceByAirline remote xs stp") auto
  show "\<exists>ys b. reduce_airline_first remote xs stp = Inr (ys, b) \<and> set ys \<subseteq> set xs \<and> (xs \<noteq> [] \<longrightarrow> ys \<noteq> [])"
  proof -
    obtain ys b where "ifPossibleReduceByAircraftOrFamily remote UsePseudoFamily airline stp = Inr (ys, b)" "set ys \<subseteq> set airline"
      "airline \<noteq> [] \<longrightarrow> ys \<noteq> []"
      using by_aircraft_or_family.reduces [OF legal, of UsePseudoFamily airline stp] by blast
    with one show ?thesis by (cases "r1 \<or> b") (auto simp: reduce_airline_first_def Let_def)
  qed
qed

interpretation by_icao: failing_reducer "\<lambda>xs. ifPossibleReduceByIcaoData remote xs stp reduced" "\<lambda>xs. legal_type remote" for remote stp reduced
proof
  fix xs
  assume "legal_type remote"
  then show "\<exists>ys b. ifPossibleReduceByIcaoData remote xs stp reduced = Inr (ys, b) \<and> set ys \<subseteq> set xs \<and> (xs \<noteq> [] \<longrightarrow> ys \<noteq> [])"
    using aircraft_first.reduces [of remote xs stp] airline_first.reduces [of remote xs stp] by (auto simp: ifPossibleReduceByIcaoData_def)
qed

end
