(* ===== verification/MatcherFacts.thy ===== *)
theory MatcherFacts
  imports ReductionFacts
begin

section \<open>Facts on the closest match\<close>

text \<open>
  No step of the matching faults for codes as the classes keep them and categories as the database has them, what is left
  of the model set is never nothing, and so the search ends with a model; how texts are compared; the scores.
\<close>

subsection \<open>The steps together\<close>

text \<open>The levels of a category of the database: positive from the top down.\<close>

definition level_ok :: "CAircraftCategory \<Rightarrow> bool" where
  "level_ok c \<longleftrightarrow> cat_l1 c > 0 \<and> cat_l2 c \<ge> 0 \<and> cat_l3 c \<ge> 0 \<and> (cat_l3 c > 0 \<longrightarrow> cat_l2 c > 0)"

text \<open>
  What a search asks of the data: a combined type without blanks around it; where it looks at the livery, combined codes
  that \<open>hasCombinedCode\<close> does not assert against; where it matches gliders, the levels of a category there is.
\<close>

definition searchable :: "CAircraftMatcherSetup \<Rightarrow> remote_aircraft \<Rightarrow> CAircraftModel list \<Rightarrow> bool" where
  "searchable s remote models \<longleftrightarrow> legal_type remote
     \<and> (mode_flag s ByLivery \<longrightarrow> legal_livery (ra_livery remote) \<and> list_all (\<lambda>m. legal_livery (md_livery m)) models)
     \<and> (mode_flag s ByCategoryGlider \<and> ac_hasCategory (ra_icao remote) \<longrightarrow> level_ok (ac_category (ra_icao remote)))"

lemma searchable_within: "searchable s remote models \<Longrightarrow> set models' \<subseteq> set models \<Longrightarrow> searchable s remote models'"
  by (auto simp: searchable_def list_all_iff)

lemma parallel_branch_ok: "level_ok c \<Longrightarrow> \<exists>cs'. cats_findInParallelBranch c cs = Inr cs'"
  by (auto simp: cats_findInParallelBranch_def level_ok_def cat_isFirstLevel_def cat_getDepth_def cat_getLevel_def Let_def)

lemma gliders_ok:
  assumes "level_ok c" "gliders \<noteq> []" "set gliders \<subseteq> set modelSet"
  shows "\<exists>models. reduce_to_gliders modelSet gliders c cm = Inr models \<and> models \<noteq> [] \<and> set models \<subseteq> set modelSet"
proof -
  obtain branches where "cats_findInParallelBranch c (cm_gliders cm) = Inr branches"
    using parallel_branch_ok [OF assms(1)] by blast
  then show ?thesis using assms(2,3) by (auto simp: reduce_to_gliders_def and_then_def Let_def dest: found_member)
qed

lemma categories_ok:
  assumes "mode_flag s ByCategoryGlider \<and> ac_hasCategory (ra_icao remote) \<longrightarrow> level_ok (ac_category (ra_icao remote))"
    and "set models \<subseteq> set modelSet"
  shows "\<exists>r. reduceByCategories models modelSet s remote cm = Inr r \<and> set (fst r) \<subseteq> set modelSet \<and> (models \<noteq> [] \<longrightarrow> fst r \<noteq> [])"
proof -
  let ?gliders = "findByCategoryFirstLevel (gliderFirstLevel cm) modelSet"
  have substitutes: "set (fst (reduce_to_substitutes models)) \<subseteq> set models \<and> (models \<noteq> [] \<longrightarrow> fst (reduce_to_substitutes models) \<noteq> [])"
    by (auto simp: reduce_to_substitutes_def Let_def dest: found_member)
  show ?thesis
  proof (cases "mode_flag s ByCategoryGlider \<and> ac_hasCategory (ra_icao remote) \<and> ?gliders \<noteq> []")
    case True
    with assms(1) obtain found where "reduce_to_gliders modelSet ?gliders (ac_category (ra_icao remote)) cm = Inr found"
        "found \<noteq> []" "set found \<subseteq> set modelSet"
      using gliders_ok [of _ ?gliders modelSet cm] finders_within(9) by blast
    with assms(2) True show ?thesis by (auto simp: reduceByCategories_def and_then_def Let_def)
  next
    case False
    with substitutes assms(2) show ?thesis
      by (cases "reduce_to_substitutes models") (auto simp: reduceByCategories_def Let_def)
  qed
qed

lemma vtol_keeps:
  "set (fst (reduce_by_vtol s remote r)) \<subseteq> set (fst r)" "fst r \<noteq> [] \<Longrightarrow> fst (reduce_by_vtol s remote r) \<noteq> []"
  by (auto simp: reduce_by_vtol_def findByVtolFlag_def containsVtol_def list_ex_iff filter_empty_conv split: prod.splits if_splits)

lemma military_keeps:
  "set (fst (reduce_by_military s remote r)) \<subseteq> set (fst r)" "fst r \<noteq> [] \<Longrightarrow> fst (reduce_by_military s remote r) \<noteq> []"
  using by_military.within by_military.keeps by (auto simp: reduce_by_military_def dest: subsetD)

lemma combined_type_keeps:
  "set (fst (reduce_by_combined_type s remote r)) \<subseteq> set (fst r)" "fst r \<noteq> [] \<Longrightarrow> fst (reduce_by_combined_type s remote r) \<noteq> []"
  using by_combined_type.within by_combined_type.keeps by (auto simp: reduce_by_combined_type_def dest: subsetD)

lemma livery_keeps:
  assumes "searchable s remote xs"
  shows "\<exists>ys b. reduce_by_livery s remote xs = Inr (ys, b) \<and> set ys \<subseteq> set xs \<and> (xs \<noteq> [] \<longrightarrow> ys \<noteq> [])"
  using by_livery.reduces [of remote xs] assms by (auto simp: reduce_by_livery_def searchable_def)

lemma icao_keeps:
  assumes "legal_type remote"
  shows "\<exists>r left. reduce_by_icao_or_family b s remote xs = Inr (r, left) \<and> set (fst r) \<subseteq> set xs \<and> (xs \<noteq> [] \<longrightarrow> fst r \<noteq> [])"
  using by_icao.reduces [OF assms, of xs s False] by_family.reduces [OF assms, of UsePseudoFamily xs]
  by (auto simp: reduce_by_icao_or_family_def)

lemma after_icao_ok:
  assumes "mode_flag s ByCategoryGlider \<and> ac_hasCategory (ra_icao remote) \<longrightarrow> level_ok (ac_category (ra_icao remote))" "set (fst r) \<subseteq> set modelSet"
  shows "\<exists>models. reduce_after_icao s cm remote modelSet r = Inr models \<and> set models \<subseteq> set modelSet \<and> (fst r \<noteq> [] \<longrightarrow> models \<noteq> [])"
proof -
  obtain r' where r': "(if useCategoryMatching s then reduceByCategories (fst r) modelSet s remote cm else Inr r) = Inr r'"
      "set (fst r') \<subseteq> set modelSet" "fst r \<noteq> [] \<longrightarrow> fst r' \<noteq> []"
  proof (cases "useCategoryMatching s")
    case True
    with categories_ok [OF assms, where cm = cm] that show ?thesis by auto
  next
    case False
    with assms(2) show ?thesis by (intro that [of r]) auto
  qed
  let ?vtol = "reduce_by_vtol s remote r'" and ?military = "reduce_by_military s remote (reduce_by_vtol s remote r')"
  have "set (fst (reduce_by_combined_type s remote ?military)) \<subseteq> set (fst r')"
    using vtol_keeps(1) [of s remote r'] military_keeps(1) [of s remote ?vtol] combined_type_keeps(1) [of s remote ?military] by blast
  moreover have "fst r' \<noteq> [] \<Longrightarrow> fst (reduce_by_combined_type s remote ?military) \<noteq> []"
    by (intro combined_type_keeps(2) military_keeps(2) vtol_keeps(2))
  ultimately show ?thesis using r' by (auto simp: reduce_after_icao_def)
qed

lemma stepwise_ok:
  assumes "searchable s remote modelSet"
  shows "\<exists>models. getClosestMatchStepwiseReduceImplementation b s cm remote modelSet = Inr models
           \<and> set models \<subseteq> set modelSet \<and> (modelSet \<noteq> [] \<longrightarrow> models \<noteq> [])"
proof -
  from livery_keeps [OF assms] obtain byLivery reduced where livery: "reduce_by_livery s remote modelSet = Inr (byLivery, reduced)"
    "set byLivery \<subseteq> set modelSet" "modelSet \<noteq> [] \<longrightarrow> byLivery \<noteq> []" by blast
  from icao_keeps [of remote b s byLivery] assms obtain r left where icao: "reduce_by_icao_or_family b s remote byLivery = Inr (r, left)"
    "set (fst r) \<subseteq> set byLivery" "byLivery \<noteq> [] \<longrightarrow> fst r \<noteq> []" by (auto simp: searchable_def)
  from after_icao_ok [of s remote r modelSet cm] assms icao(2) livery(2) obtain rest where
    rest: "reduce_after_icao s cm remote modelSet r = Inr rest" "set rest \<subseteq> set modelSet" "fst r \<noteq> [] \<longrightarrow> rest \<noteq> []"
    by (auto simp: searchable_def)
  obtain models where "reduce_steps b s cm remote modelSet = Inr models" "set models \<subseteq> set modelSet" "modelSet \<noteq> [] \<longrightarrow> models \<noteq> []"
    using livery icao rest by (cases reduced; cases left) (auto simp: reduce_steps_def)
  then show ?thesis
    using by_manufacturer.within by_manufacturer.keeps
    by (auto simp: getClosestMatchStepwiseReduceImplementation_def and_then_def dest: subsetD)
qed

lemma scores_within: "set (getClosestMatchScoreImplementation s remote xs) \<subseteq> set xs"
  by (auto simp: getClosestMatchScoreImplementation_def scoreFull_def scored_values_def Let_def)

lemma candidates_ok:
  assumes "searchable (mt_setup m) remote modelSet"
  shows "\<exists>cs. match_candidates b remote m modelSet = Inr cs \<and> set cs \<subseteq> set modelSet"
proof -
  obtain models where "getClosestMatchStepwiseReduceImplementation b (mt_setup m) (mt_categoryMatcher m) remote modelSet = Inr models"
      "set models \<subseteq> set modelSet"
    using stepwise_ok [OF assms] by blast
  then show ?thesis
    using scores_within by (auto simp: match_candidates_def and_then_def Let_def split: MatchingAlgorithm.splits dest: subsetD) blast+
qed

subsection \<open>The search\<close>

lemma removals_within:
  "set (snd (removeAllWithoutModelString xs)) \<subseteq> set xs" "set (snd (removeObjectsWithoutDbKey xs)) \<subseteq> set xs"
  "set (snd (removeIfExcluded xs)) \<subseteq> set xs"
  by (auto simp: removeAllWithoutModelString_def removeObjectsWithoutDbKey_def removeIfExcluded_def Let_def)

lemma usable_kept: "set (usable_models m) \<subseteq> set (snd (removeAllWithoutModelString (mt_modelSet m)))"
  by (auto simp: usable_models_def Let_def split: if_splits dest: removals_within(2,3) [THEN subsetD])

lemma usable_within: "set (usable_models m) \<subseteq> set (mt_modelSet m)"
  using usable_kept removals_within(1) by blast

lemma string_kept: "x \<in> set (snd (removeAllWithoutModelString xs)) \<Longrightarrow> md_hasModelString x"
proof (cases "xs = [] \<or> removed_count xs (filter md_hasModelString xs) < 1")
  case True
  assume x: "x \<in> set (snd (removeAllWithoutModelString xs))"
  with True have "x \<in> set xs" "\<not> length (filter md_hasModelString xs) < length xs"
    by (auto simp: removeAllWithoutModelString_def removed_count_def Let_def)
  then show ?thesis using length_filter_less [of x xs md_hasModelString] by blast
qed (simp add: removeAllWithoutModelString_def Let_def)

lemma usable_strings: "x \<in> set (usable_models m) \<Longrightarrow> md_hasModelString x"
  using usable_kept string_kept by blast

lemma first_in: "xs \<noteq> [] \<Longrightarrow> frontOrDefault xs \<in> set xs"
  by (cases xs) (simp_all add: frontOrDefault_def)

lemma min_order_in: "xs \<noteq> [] \<Longrightarrow> minOrderOrDefault xs \<in> set xs"
proof -
  have smallest: "foldl (\<lambda>least o'. if md_order o' \<ge> 0 \<and> md_order o' < md_order least then o' else least) a ys \<in> insert a (set ys)" for a ys
  proof (induction ys arbitrary: a)
    case (Cons y ys)
    from Cons.IH [of "if md_order y \<ge> 0 \<and> md_order y < md_order a then y else a"] show ?case by (auto split: if_splits)
  qed simp
  then show "xs \<noteq> [] \<Longrightarrow> minOrderOrDefault xs \<in> set xs" by (cases xs) (auto simp: minOrderOrDefault_def)
qed

lemma pick_in: "xs \<noteq> [] \<Longrightarrow> pick_model f s xs \<in> set xs"
  by (auto simp: pick_model_def first_in min_order_in split: PickSimilarStrategy.splits)

lemma default_in: "getCombinedTypeDefaultModel xs remote d \<in> insert d (set xs)"
proof -
  let ?colored = "findByCombinedTypeWithColorLivery (ac_combinedType (ra_icao remote)) xs"
  have "getCombinedTypeDefaultModel xs remote d = (case ?colored of [] \<Rightarrow> d | m # _ \<Rightarrow> m) \<or> getCombinedTypeDefaultModel xs remote d = d"
    by (auto simp: getCombinedTypeDefaultModel_def findByCombinedType_def Let_def)
  moreover have "(case ?colored of [] \<Rightarrow> d | m # _ \<Rightarrow> m) \<in> insert d (set ?colored)" by (cases ?colored) simp_all
  ultimately show ?thesis by (auto dest: found_member)
qed

definition changed_from :: "CAircraftModel \<Rightarrow> CAircraftModel \<Rightarrow> bool" where
  "changed_from c r \<longleftrightarrow> (\<exists>cs t. r = c\<lparr>md_callsign := cs, md_modelType := t\<rparr>)"

lemma changed_from_refl [simp]: "changed_from c c"
  unfolding changed_from_def by (intro exI [of _ "md_callsign c"] exI [of _ "md_modelType c"]) simp

lemma changed_from_callsign [simp]: "changed_from c r \<Longrightarrow> changed_from c (md_setCallsign cs r)"
proof -
  assume "changed_from c r"
  then obtain cs' t where "r = c\<lparr>md_callsign := cs', md_modelType := t\<rparr>" unfolding changed_from_def by blast
  then have "md_setCallsign cs r = c\<lparr>md_callsign := cs\<lparr>m_typeHint := Aircraft\<rparr>, md_modelType := t\<rparr>" by (simp add: md_setCallsign_def)
  then show ?thesis unfolding changed_from_def by blast
qed

lemma changed_from_type [simp]: "changed_from c r \<Longrightarrow> changed_from c (md_setModelType t r)"
proof -
  assume "changed_from c r"
  then obtain cs' t' where "r = c\<lparr>md_callsign := cs', md_modelType := t'\<rparr>" unfolding changed_from_def by blast
  then have "md_setModelType t r = c\<lparr>md_callsign := cs', md_modelType := t\<rparr>" by (simp add: md_setModelType_def)
  then show ?thesis unfolding changed_from_def by blast
qed

lemma changed_from_string: "changed_from c r \<Longrightarrow> md_modelString r = md_modelString c"
  by (auto simp: changed_from_def)

lemma has_string_of: "md_hasModelString r = md_hasModelString c" if "changed_from c r"
  using changed_from_string [OF that] by (simp add: md_hasModelString_def)

lemma string_setters [simp]:
  "md_modelString (md_setCallsign cs r) = md_modelString r" "md_modelString (md_setModelType t r) = md_modelString r"
  "md_hasModelString (md_setCallsign cs r) = md_hasModelString r" "md_hasModelString (md_setModelType t r) = md_hasModelString r"
  "md_callsign (md_setCallsign cs r) = cs\<lparr>m_typeHint := Aircraft\<rparr>" "md_callsign (md_setModelType t r) = md_callsign r"
  by (simp_all add: md_setCallsign_def md_setModelType_def md_hasModelString_def)

lemma default_no_string [simp]: "\<not> md_hasModelString CAircraftModel_default"
  by (simp add: md_hasModelString_def CAircraftModel_default_def)

lemma exact_from_set:
  assumes "md_hasModelString (matchByExactModelString remote models)"
  shows "\<exists>c\<in>set models. changed_from c (matchByExactModelString remote models)"
proof -
  let ?found = "filter (matchesModelStringOrAlias (md_modelString (ra_model remote))) models"
  from assms have string: "md_modelString (ra_model remote) \<noteq> []"
    by (auto simp: matchByExactModelString_def split: if_splits)
  with assms have "?found \<noteq> []"
    by (auto simp: matchByExactModelString_def findFirstByModelStringAliasOrDefault_def frontOrDefault_def)
  then have "frontOrDefault ?found \<in> set models" using first_in [of ?found] by simp
  with string show ?thesis
    by (intro bexI [of _ "frontOrDefault ?found"]) (simp_all add: matchByExactModelString_def findFirstByModelStringAliasOrDefault_def)
qed

lemma prephase_from:
  assumes "match_in_prephase remote m = Some model"
  shows "if hasManuallySetString (ra_model remote) then model = ra_model remote
    else \<exists>c\<in>insert (mt_defaultModel m) (set (mt_modelSet m)). changed_from c model
      \<and> (c = mt_defaultModel m \<or> md_hasModelString model)"
  using assms exact_from_set [of remote "mt_modelSet m"] by (auto simp: match_in_prephase_def Let_def split: if_splits)

lemma search_ok:
  assumes "searchable (mt_setup m) remote (mt_modelSet m)"
  shows "\<exists>model. search_model sur b remote m = Inr model
    \<and> (if hasManuallySetString (ra_model remote) then model = ra_model remote
       else \<exists>c\<in>insert (mt_defaultModel m) (set (mt_modelSet m)). changed_from c model
         \<and> (c = mt_defaultModel m \<or> md_hasModelString model))"
proof (cases "match_in_prephase remote m")
  case (Some model)
  with prephase_from [OF Some] show ?thesis by (simp add: search_model_def)
next
  case None
  then have searched: "\<not> hasManuallySetString (ra_model remote)" by (auto simp: match_in_prephase_def)
  obtain cs where cs: "match_candidates b remote m (usable_models m) = Inr cs" "set cs \<subseteq> set (usable_models m)"
    using candidates_ok [OF searchable_within [OF assms usable_within]] by blast
  let ?model = "if cs = [] then getCombinedTypeDefaultModel (usable_models m) remote (mt_defaultModel m)
                else pick_model (sur_random sur) (mt_setup m) cs"
  have "?model \<in> insert (mt_defaultModel m) (set (usable_models m))"
    using default_in [of "usable_models m" remote "mt_defaultModel m"] pick_in [of cs "sur_random sur" "mt_setup m"] cs(2) by auto
  then have "?model = mt_defaultModel m \<or> (?model \<in> set (mt_modelSet m) \<and> md_hasModelString ?model)"
    using usable_strings [of ?model m] usable_within [of m] by blast
  then have "\<exists>c\<in>insert (mt_defaultModel m) (set (mt_modelSet m)). changed_from c ?model
      \<and> (c = mt_defaultModel m \<or> md_hasModelString ?model)"
    by (intro bexI [of _ ?model]) auto
  moreover have "search_model sur b remote m = Inr ?model" using cs(1) None by (simp add: search_model_def)
  ultimately show ?thesis using searched by simp
qed

lemma finish_ok:
  assumes "\<not> isEmpty (ra_callsign remote)"
  shows "finish_match remote m model = Inr
    (if \<not> md_hasModelString model \<and> md_hasModelString (mt_defaultModel m)
     then md_setCallsign (ra_callsign remote) (mt_defaultModel m) else as_match remote model)"
  using assms by (simp add: finish_match_def as_match_def isEmpty_def Let_def)

lemma without_script:
  assumes "\<not> (useMatchingScript \<and> doRunMsMatchingStageScript (mt_setup m))"
  shows "getClosestMatch sur b remote useMatchingScript m
    = and_then (search_model sur b remote m) (\<lambda>model. finish_match remote m (as_match remote model))"
  unfolding getClosestMatch_def Let_def if_not_P [OF assms] by simp

lemma as_match_simps [simp]:
  "md_modelString (as_match remote model) = md_modelString model" "md_hasModelString (as_match remote model) = md_hasModelString model"
  "md_callsign (as_match remote model) = (ra_callsign remote)\<lparr>m_typeHint := Aircraft\<rparr>"
  "as_match remote (as_match remote model) = as_match remote model"
  "changed_from c model \<Longrightarrow> changed_from c (as_match remote model)"
  by (simp_all add: as_match_def) (simp add: md_setCallsign_def md_setModelType_def)

end
