(* ===== verification/ScoreFacts.thy ===== *)
theory ScoreFacts
  imports MatcherFacts
begin

section \<open>Scores\<close>

text \<open>
  The scores of aircraft codes, airlines, liveries and models have the bounds their comments give. Colours are compared in
  doubles: a value that lies between two bounds is after one operation between the same bounds but for a little more.
\<close>

subsection \<open>Doubles between bounds\<close>

definition between :: "rat \<Rightarrow> rat \<Rightarrow> double \<Rightarrow> bool" where
  "between lo hi d \<longleftrightarrow> (\<exists>q. d = Fin q \<and> lo \<le> q \<and> q \<le> hi)"

definition tiny :: rat where "tiny = 1 / 2 ^ 41"

lemma between_mono: "between lo hi d \<Longrightarrow> lo' \<le> lo \<Longrightarrow> hi \<le> hi' \<Longrightarrow> between lo' hi' d"
  by (auto simp: between_def)

lemma between_mk:
  assumes "lo \<le> r" "r \<le> hi" "- 4096 \<le> lo" "hi \<le> 4096"
  shows "between (lo - tiny) (hi + tiny) (mk_double r)"
proof -
  have "\<bar>r\<bar> \<le> 2 ^ 12" using assms by (simp add: abs_le_iff)
  then obtain q where "mk_double r = Fin q" "\<bar>q - r\<bar> \<le> tiny" using mk_double_close unfolding tiny_def by blast
  then show ?thesis using assms(1,2) by (auto simp: between_def abs_le_iff)
qed

lemma between_add:
  assumes "between a b x" "between c d y" "- 4096 \<le> a + c" "b + d \<le> 4096"
  shows "between (a + c - tiny) (b + d + tiny) (d_add x y)"
proof -
  from assms(1,2) obtain p q where "x = Fin p" "y = Fin q" "a \<le> p" "p \<le> b" "c \<le> q" "q \<le> d" by (auto simp: between_def)
  then show ?thesis using between_mk [of "a + c" "p + q" "b + d"] assms(3,4) by simp
qed

lemma between_sub:
  assumes "between a b x" "between c d y" "- 4096 \<le> a - d" "b - c \<le> 4096"
  shows "between (a - d - tiny) (b - c + tiny) (d_sub x y)"
proof -
  from assms(2) have "between (- d) (- c) (d_neg y)" by (auto simp: between_def)
  from between_add [OF assms(1) this] assms(3,4) show ?thesis by (simp add: d_sub_def)
qed

lemma between_square:
  assumes "between (- b) b x" "b * b \<le> 4096" "0 \<le> b"
  shows "between (- tiny) (b * b + tiny) (d_square x)"
proof -
  from assms(1) obtain q where "x = Fin q" "\<bar>q\<bar> \<le> b" by (auto simp: between_def abs_le_iff)
  moreover then have "q * q \<le> b * b" using mult_mono [of "\<bar>q\<bar>" b "\<bar>q\<bar>" b] assms(3) by simp
  ultimately show ?thesis using between_mk [of 0 "q * q" "b * b"] assms(2) by (simp add: d_square_def)
qed

lemma between_scale:
  assumes "between a b x" "0 < k" "- 4096 \<le> k * a" "k * b \<le> 4096"
  shows "between (k * a - tiny) (k * b + tiny) (d_mul (Fin k) x)"
proof -
  from assms(1) obtain q where "x = Fin q" "a \<le> q" "q \<le> b" by (auto simp: between_def)
  then show ?thesis using between_mk [of "k * a" "k * q" "k * b"] assms(2-4) by simp
qed

lemma between_div:
  assumes "between a b x" "0 < k" "- 4096 \<le> a / k" "b / k \<le> 4096"
  shows "between (a / k - tiny) (b / k + tiny) (d_div x (Fin k))"
proof -
  from assms(1) obtain q where "x = Fin q" "a \<le> q" "q \<le> b" by (auto simp: between_def)
  then show ?thesis using between_mk [of "a / k" "q / k" "b / k"] assms(2-4) by (simp add: divide_right_mono)
qed

subsection \<open>Colours\<close>

text \<open>The components of a colour that was read are below \<open>2 ^ 16\<close>.\<close>

definition color_ok :: "CRgbColor \<Rightarrow> bool" where
  "color_ok c \<longleftrightarrow> rgb_r c < 2 ^ 16 \<and> rgb_g c < 2 ^ 16 \<and> rgb_b c < 2 ^ 16"

lemma normalized_between:
  assumes "color_ok c" "rgb_isValid c" "x \<in> {rgb_r c, rgb_g c, rgb_b c}"
  shows "between (- tiny) (1 + tiny) (normalized x c)"
proof -
  have x: "0 \<le> x" "x \<le> colorRange c" "0 < colorRange c" "colorRange c < 2 ^ 53"
    using assms by (auto simp: color_ok_def rgb_isValid_def colorRange_def)
  then have "d_of_int x = Fin (of_int x)" "d_of_int (colorRange c) = Fin (of_int (colorRange c))"
    by (simp_all add: mk_double_int)
  then have "normalized x c = mk_double (of_int x / of_int (colorRange c))"
    using x(3) by (simp add: normalized_def) (simp add: d_of_int_def)
  moreover have "of_int x / of_int (colorRange c) \<le> (1 :: rat)" using x by simp
  ultimately show ?thesis using between_mk [of 0 "of_int x / of_int (colorRange c)" 1] x by simp
qed

lemma square_between:
  assumes "between (- tiny) (1 + 10 * tiny) x"
  shows "between (- tiny) (1 + 22 * tiny) (d_square x)"
proof -
  have b: "between (- (1 + 10 * tiny)) (1 + 10 * tiny) x" by (rule between_mono [OF assms]) (simp_all add: tiny_def)
  show ?thesis by (rule between_mono [OF between_square [OF b]]) (simp_all add: tiny_def)
qed

lemma distance_between:
  assumes "color_ok c" "color_ok d"
  shows "between (- (5 * tiny)) (1 + 10 * tiny) (colorDistance c d)"
proof (cases "rgb_isValid c \<and> rgb_isValid d \<and> c \<noteq> d")
  case True
  let ?diff = "\<lambda>f. d_sub (normalized (f c) c) (normalized (f d) d)"
  have diff: "between (- (1 + 3 * tiny)) (1 + 3 * tiny) (?diff f)" if "f \<in> {rgb_r, rgb_g, rgb_b}" for f
    by (rule between_mono [OF between_sub [OF normalized_between normalized_between]])
      (use True assms that in \<open>auto simp: tiny_def\<close>)
  have square: "between (- tiny) (1 + 8 * tiny) (d_square (?diff f))" if "f \<in> {rgb_r, rgb_g, rgb_b}" for f
    by (rule between_mono [OF between_square [OF diff [OF that]]]) (simp_all add: tiny_def)
  have sum: "between (- (3 * tiny)) (2 + 17 * tiny) (d_add (d_square (?diff rgb_r)) (d_square (?diff rgb_b)))"
    by (rule between_mono [OF between_add [OF square square]]) (simp_all add: tiny_def)
  have all: "between (- (5 * tiny)) (3 + 26 * tiny) (d_add (d_add (d_square (?diff rgb_r)) (d_square (?diff rgb_b))) (d_square (?diff rgb_g)))"
    by (rule between_mono [OF between_add [OF sum square]]) (simp_all add: tiny_def)
  have "between (- (5 * tiny)) (1 + 10 * tiny)
      (d_div (d_add (d_add (d_square (?diff rgb_r)) (d_square (?diff rgb_b))) (d_square (?diff rgb_g))) (Fin 3))"
    by (rule between_mono [OF between_div [OF all]]) (simp_all add: tiny_def)
  with True show ?thesis by (simp add: colorDistance_def Let_def)
next
  case False
  have "between (- (5 * tiny)) (1 + 10 * tiny) (Fin 0)" "between (- (5 * tiny)) (1 + 10 * tiny) (Fin 1)"
    by (simp_all add: between_def tiny_def)
  with False show ?thesis by (auto simp: colorDistance_def)
qed

definition colors_ok :: "CLivery \<Rightarrow> bool" where
  "colors_ok l \<longleftrightarrow> color_ok (lv_colorFuselage l) \<and> color_ok (lv_colorTail l)"

lemma livery_distance_between:
  assumes "color_ok f" "color_ok t" "colors_ok l"
  shows "between (- (3 * tiny)) (1 + 24 * tiny) (getColorDistance f t l)"
proof -
  have square: "between (- tiny) (1 + 22 * tiny) (d_square (colorDistance c d))" if "color_ok c" "color_ok d" for c d
  proof -
    have b: "between (- (1 + 10 * tiny)) (1 + 10 * tiny) (colorDistance c d)"
      by (rule between_mono [OF distance_between [OF that]]) (simp_all add: tiny_def)
    show ?thesis by (rule between_mono [OF between_square [OF b]]) (simp_all add: tiny_def)
  qed
  have "between (- (3 * tiny)) (2 + 45 * tiny)
      (d_add (d_square (colorDistance (lv_colorFuselage l) f)) (d_square (colorDistance (lv_colorTail l) t)))"
    by (rule between_mono [OF between_add [OF square square]]) (use assms in \<open>simp_all add: tiny_def colors_ok_def\<close>)
  then have "between (- (3 * tiny)) (1 + 24 * tiny)
      (d_div (d_add (d_square (colorDistance (lv_colorFuselage l) f)) (d_square (colorDistance (lv_colorTail l) t))) (Fin 2))"
    by (rule between_mono [OF between_div]) (simp_all add: tiny_def)
  moreover have "between (- (3 * tiny)) (1 + 24 * tiny) (Fin 0)" "between (- (3 * tiny)) (1 + 24 * tiny) (Fin 1)"
    by (simp_all add: between_def tiny_def)
  ultimately show ?thesis by (simp add: getColorDistance_def)
qed

text \<open>What a colour adds to a score is between nothing and all of its points.\<close>

lemma trunc_between:
  assumes "of_int a - 1 < q" "q < of_int b + 1" "a = 0 \<or> of_int a \<le> q" "0 \<le> a" "0 \<le> b"
  shows "a \<le> trunc q \<and> trunc q \<le> b"
proof (cases "q < 0")
  case True
  moreover have "(0 :: rat) \<le> of_int a" using assms(4) by simp
  ultimately have a: "a = 0" using assms(3) by linarith
  with True assms(1) have "\<lceil>q\<rceil> = 0" by (simp add: ceiling_eq_iff)
  with True a assms(5) show ?thesis by (simp add: trunc_def)
next
  case False
  moreover have "\<lfloor>q\<rfloor> < b + 1" using assms(2) by linarith
  moreover have "a \<le> \<lfloor>q\<rfloor>" using assms(3) False by (auto simp: le_floor_iff)
  ultimately show ?thesis by (simp add: trunc_def)
qed

lemma points_between:
  assumes "color_ok f" "color_ok t" "colors_ok l" "0 \<le> i" "i \<le> 100" "0 < k" "k \<le> 60"
  shows "0 \<le> add_double i (d_mul (Fin (of_int k)) (d_sub (Fin 1) (getColorDistance f t l)))
    \<and> add_double i (d_mul (Fin (of_int k)) (d_sub (Fin 1) (getColorDistance f t l))) \<le> i + k"
proof -
  have one: "between 1 1 (Fin 1)" by (simp add: between_def)
  have "between (- (25 * tiny)) (1 + 4 * tiny) (d_sub (Fin 1) (getColorDistance f t l))"
    by (rule between_mono [OF between_sub [OF one livery_distance_between [OF assms(1-3)]]]) (simp_all add: tiny_def)
  from between_scale [OF this, of "of_int k"]
  have scaled: "between (- (1501 * tiny)) (of_int k + 241 * tiny)
      (d_mul (Fin (of_int k)) (d_sub (Fin 1) (getColorDistance f t l)))"
    by (rule between_mono) (use assms(6,7) in \<open>simp_all add: tiny_def field_simps\<close>)
  have i: "between (of_int i) (of_int i) (d_of_int i)" using assms(4,5) by (simp add: mk_double_int between_def)
  have "between (- (1502 * tiny)) (of_int (i + k) + 242 * tiny)
      (d_add (d_of_int i) (d_mul (Fin (of_int k)) (d_sub (Fin 1) (getColorDistance f t l))))"
    by (rule between_mono [OF between_add [OF i scaled]]) (use assms(4-7) in \<open>simp_all add: tiny_def\<close>)
  then obtain q where q: "d_add (d_of_int i) (d_mul (Fin (of_int k)) (d_sub (Fin 1) (getColorDistance f t l))) = Fin q"
      "- (1502 * tiny) \<le> q" "q \<le> of_int (i + k) + 242 * tiny"
    by (auto simp: between_def)
  moreover have "- 1 < q" "q < of_int (i + k) + 1" using q(2,3) by (simp_all add: tiny_def)
  then have "0 \<le> trunc q \<and> trunc q \<le> i + k" using trunc_between [of 0 q "i + k"] assms(4,6) by simp
  ultimately show ?thesis using assms(5,7) by (auto simp: add_double_def to_c_int_def int32_def)
qed

subsection \<open>The scores\<close>

lemma half_score_bounds:
  assumes "0 \<le> i" "i \<le> 200" shows "i div 2 \<le> half_score i" "half_score i \<le> (i + 1) div 2"
proof -
  have half: "between (1 / 2 - tiny) (1 / 2 + tiny) (mk_double (1 / 2))"
    using between_mk [of "1 / 2" "1 / 2" "1 / 2"] by simp
  then obtain h where h: "mk_double (1 / 2) = Fin h" "1 / 2 - tiny \<le> h" "h \<le> 1 / 2 + tiny" by (auto simp: between_def)
  define j :: rat where "j = of_int i"
  have j: "0 \<le> j" "j \<le> 200" using assms by (simp_all add: j_def)
  have hj: "j / 2 - 200 * tiny \<le> h * j" "h * j \<le> j / 2 + 200 * tiny"
    using mult_right_mono [OF h(2) j(1)] mult_right_mono [OF h(3) j(1)] j(2) by (simp_all add: tiny_def algebra_simps)
  have "between (j / 2 - 201 * tiny) (j / 2 + 201 * tiny) (mk_double (h * j))"
    using between_mono [OF between_mk [OF hj]] j by (simp add: tiny_def)
  then obtain p where p: "mk_double (h * j) = Fin p" "j / 2 - 201 * tiny \<le> p" "p \<le> j / 2 + 201 * tiny" by (auto simp: between_def)
  have score: "half_score i = qRound (Fin p)"
    using assms by (simp add: half_score_def h(1) mk_double_int p(1) flip: j_def)
  have "i div 2 \<le> half_score i \<and> half_score i \<le> (i + 1) div 2"
  proof (cases "i = 0")
    case True
    then have "p = 0" using p(1) by (simp add: j_def mk_double_def)
    then have "half_score i = 0"
      using score between_mk [of "1 / 2" "1 / 2" "1 / 2"]
      by (auto simp: qRound_def d_nonneg_def between_def trunc_def tiny_def to_c_int_def int32_def floor_eq_iff)
    then show ?thesis using True by simp
  next
    case False
    then have "1 \<le> j" using assms(1) by (simp add: j_def)
    then have pos: "0 \<le> p" using p(2) by (simp add: tiny_def)
    have "between (j / 2 + 1 / 2 - 202 * tiny) (j / 2 + 1 / 2 + 202 * tiny) (mk_double (p + 1 / 2))"
      using between_mono [OF between_mk [of "j / 2 - 201 * tiny + 1 / 2" "p + 1 / 2" "j / 2 + 201 * tiny + 1 / 2"]] p j
      by (simp add: tiny_def)
    then obtain q where q: "mk_double (p + 1 / 2) = Fin q" "j / 2 + 1 / 2 - 202 * tiny \<le> q" "q \<le> j / 2 + 1 / 2 + 202 * tiny"
      by (auto simp: between_def)
    have div: "of_int (i div 2) \<le> j / 2" "j / 2 + 1 / 2 < of_int ((i + 1) div 2) + 1 - 1 / 4"
      unfolding j_def by linarith+
    have "i div 2 \<le> trunc q \<and> trunc q \<le> (i + 1) div 2"
      using trunc_between [of "i div 2" q "(i + 1) div 2"] q(2,3) div assms(1) by (simp add: tiny_def)
    moreover have "half_score i = trunc q"
      using score pos q(1) calculation assms by (auto simp: qRound_def d_nonneg_def to_c_int_def int32_def)
    ultimately show ?thesis by simp
  qed
  then show "i div 2 \<le> half_score i" "half_score i \<le> (i + 1) div 2" by simp_all
qed

lemma ac_score_bounds:
  assumes "0 \<le> ac_rank c"
  shows "0 \<le> ac_calculateScore c other" "ac_calculateScore c other \<le> 100"
    "\<not> ac_isDbEqual c other \<Longrightarrow> ac_calculateScore c other \<le> 83"
proof -
  have "0 \<le> designator_score c other" "designator_score c other \<le> 65"
    using assms by (auto simp: designator_score_def engine_score_def engine_type_score_def aircraft_type_score_def Let_def)
  moreover have "0 \<le> manufacturer_score c other" "manufacturer_score c other \<le> 10" by (auto simp: manufacturer_score_def)
  ultimately show "0 \<le> ac_calculateScore c other" "ac_calculateScore c other \<le> 100"
    "\<not> ac_isDbEqual c other \<Longrightarrow> ac_calculateScore c other \<le> 83"
    by (auto simp: ac_calculateScore_def)
qed

lemma al_score_bounds: "0 \<le> al_calculateScore a other" "al_calculateScore a other \<le> 100"
  by (auto simp: al_calculateScore_def)

lemma lv_score_bounds:
  assumes "colors_ok l" "colors_ok other"
  shows "0 \<le> lv_calculateScore preferColors l other" "lv_calculateScore preferColors l other \<le> 100"
    "\<not> lv_isDbEqual l other \<Longrightarrow> lv_calculateScore preferColors l other \<le> 85"
proof -
  let ?airline = "half_score (al_calculateScore (lv_airline l) (lv_airline other))"
  let ?color = "\<lambda>i k. add_double i (d_mul (Fin (of_int k)) (d_sub (Fin 1) (getColorDistance (lv_colorFuselage other) (lv_colorTail other) l)))"
  have half: "0 \<le> ?airline" "?airline \<le> 50"
    using half_score_bounds [of "al_calculateScore (lv_airline l) (lv_airline other)"]
      al_score_bounds [of "lv_airline l" "lv_airline other"] by linarith+
  have points: "0 \<le> ?color i k \<and> ?color i k \<le> i + k" if "0 \<le> i" "i \<le> 100" "0 < k" "k \<le> 60" for i k
    using points_between [OF _ _ assms(1) that] assms(2) by (simp add: colors_ok_def)
  have "0 \<le> ?color 25 60 \<and> ?color 25 60 \<le> 85" "0 \<le> ?color ?airline 25 \<and> ?color ?airline 25 \<le> 75"
    "0 \<le> ?color 25 25 \<and> ?color 25 25 \<le> 50" "0 \<le> ?color 0 25 \<and> ?color 0 25 \<le> 25"
    using points [of 25 60] points [of ?airline 25] points [of 25 25] points [of 0 25] half by simp_all
  then have "0 \<le> lv_calculateScore preferColors l other \<and> lv_calculateScore preferColors l other \<le> (if lv_isDbEqual l other then 100 else 85)"
    by (simp add: lv_calculateScore_def Let_def)
  then show "0 \<le> lv_calculateScore preferColors l other" "lv_calculateScore preferColors l other \<le> 100"
    "\<not> lv_isDbEqual l other \<Longrightarrow> lv_calculateScore preferColors l other \<le> 85" by (auto split: if_splits)
qed

end
