(* ===== verification/MatchingProperties.thy ===== *)
theory MatchingProperties
  imports ScoreFacts
begin

section \<open>Matching models\<close>

text \<open>
  What holds of the search for the closest match: that it ends with a model of the set or the default, that no step of the
  reduction loses all candidates, between which bounds the scores are, and which models win or are never taken. The samples
  are a set of two models, a matcher with them, and the surroundings of a program without a database.
\<close>

subsection \<open>Samples\<close>

definition sample_icao :: "int \<Rightarrow> string \<Rightarrow> string \<Rightarrow> string \<Rightarrow> string \<Rightarrow> CAircraftIcaoCode" where
  "sample_icao key designator family combinedType manufacturer =
     CAircraftIcaoCode_default\<lparr>ac_dbKey := key, ac_designator := designator, ac_family := family,
       ac_combinedType := combinedType, ac_manufacturer := manufacturer\<rparr>"

definition sample_model :: "int \<Rightarrow> string \<Rightarrow> CAircraftIcaoCode \<Rightarrow> CAircraftModel" where
  "sample_model key modelString icao =
     CAircraftModel_default\<lparr>md_dbKey := key, md_modelString := modelString, md_aircraftIcao := icao\<rparr>"

definition sample_models :: "CAircraftModel list" where
  "sample_models = [sample_model 1 ''AIRBUS'' (sample_icao 1 ''A320'' ''A320'' ''L2J'' ''AIRBUS''),
                    sample_model 2 ''BOEING'' (sample_icao 2 ''B738'' ''B737'' ''L2J'' ''BOEING'')]"

definition sample_matcher :: "CAircraftMatcherSetup \<Rightarrow> CAircraftMatcher" where
  "sample_matcher s = snd (setModelSet sample_models sim_P3D True (CAircraftMatcher_of None s))"

definition sample_remote :: "CAircraftModel \<Rightarrow> remote_aircraft" where
  "sample_remote model = \<lparr>ra_callsign = CCallsign ''DLH1'' Aircraft, ra_model = model\<rparr>"

definition sample_surroundings :: matcher_surroundings where
  "sample_surroundings = \<lparr>sur_ws = None, sur_script = \<lparr>read_file = (\<lambda>_. []), js_engine = (\<lambda>_ _ _ _ _. ScriptNothing)\<rparr>,
     sur_random = (\<lambda>_. 0), sur_now = 0\<rparr>"

lemma sample_matcher_simps [simp]:
  "mt_setup (sample_matcher s) = s" "mt_modelSet (sample_matcher s) = sample_models"
  "mt_defaultModel (sample_matcher s) = CAircraftModel_default" "mt_disabledModels (sample_matcher s) = []"
  by (simp_all add: sample_matcher_def setModelSet_def isSingleSimulator_def numberSimulators_def int_testFlag_def sim_FS9_def
      sim_FSX_def sim_XPLANE_def sim_P3D_def sim_FG_def removeIfExcluded_def removeAllWithoutModelString_def sample_models_def
      sample_model_def removed_count_def md_hasModelString_def CAircraftModel_default_def CAircraftMatcher_of_def Let_def)

lemma sample_remote_simps [simp]:
  "ra_model (sample_remote model) = model" "\<not> isEmpty (ra_callsign (sample_remote model))"
  by (simp_all add: sample_remote_def isEmpty_def CCallsign_def q_trimmed_def is_space_def Let_def)

lemma default_setup_flags [simp]:
  "mode_flag CAircraftMatcherSetup_default ByModelString" "\<not> mode_flag CAircraftMatcherSetup_default ByCategoryGlider"
  "mode_flag CAircraftMatcherSetup_default ModelSetRemoveFailedModel"
  "\<not> doRunMsMatchingStageScript CAircraftMatcherSetup_default"
  by (simp_all add: mode_flag_def CAircraftMatcherSetup_default_def reset_setup_def reset_algorithm_def default_mode_def
      mode_flag_defs int_testFlag_def doRunMsMatchingStageScript_def setup_members_def)

lemma sample_searchable:
  assumes "m \<in> set [sample_model (- 1) [] (sample_icao (- 1) d [] [] []), sample_model (- 1) s CAircraftIcaoCode_default]"
  shows "searchable CAircraftMatcherSetup_default (sample_remote m) sample_models"
  using assms
  by (auto simp: searchable_def legal_type_def legal_livery_def ra_icao_def ra_livery_def sample_models_def sample_model_def sample_icao_def
      CAircraftModel_default_def CLivery_default_def CAircraftIcaoCode_default_def q_startsWith_def q_trimmed_def)

text \<open>C17: The search for the closest match, where no script runs, ends with a model, which carries the callsign of the aircraft.
  Where a model was set by hand it is that one, otherwise one of the model set or the default model; callsign and type are all
  that is changed of it. Where the default model has a model string, so does the match. \<open>searchable\<close> is what it asks of the
  data: a combined type without blanks around it, combined codes that are not asserted against where liveries are looked at,
  and for gliders a category, if any, with the levels of a tree; otherwise the source asserts or reads out of range.\<close>

lemma closest_match:
  assumes "\<not> isEmpty (ra_callsign remote)"
    and "searchable (mt_setup m) remote (mt_modelSet m)"
    and "\<not> (useMatchingScript \<and> doRunMsMatchingStageScript (mt_setup m))"
  shows "\<exists>r. getClosestMatch sur b remote useMatchingScript m = Inr r
    \<and> md_callsign r = (ra_callsign remote)\<lparr>m_typeHint := Aircraft\<rparr>
    \<and> (md_hasModelString (mt_defaultModel m) \<longrightarrow> md_hasModelString r)
    \<and> (if hasManuallySetString (ra_model remote) then changed_from (ra_model remote) r
       else \<exists>c\<in>insert (mt_defaultModel m) (set (mt_modelSet m)). changed_from c r)"
proof -
  obtain model where model: "search_model sur b remote m = Inr model"
      "if hasManuallySetString (ra_model remote) then model = ra_model remote
       else \<exists>c\<in>insert (mt_defaultModel m) (set (mt_modelSet m)). changed_from c model
         \<and> (c = mt_defaultModel m \<or> md_hasModelString model)"
    using search_ok [OF assms(2)] by blast
  have "hasManuallySetString (ra_model remote) \<Longrightarrow> md_hasModelString (ra_model remote)" by (simp add: hasManuallySetString_def)
  moreover have match: "getClosestMatch sur b remote useMatchingScript m = Inr
      (if \<not> md_hasModelString model \<and> md_hasModelString (mt_defaultModel m)
       then md_setCallsign (ra_callsign remote) (mt_defaultModel m) else as_match remote model)"
    by (simp add: without_script [OF assms(3)] model(1) finish_ok [OF assms(1)])
  ultimately show ?thesis
  proof (cases "hasManuallySetString (ra_model remote)")
    case False
    then obtain c where "c \<in> insert (mt_defaultModel m) (set (mt_modelSet m))" "changed_from c model"
      using model(2) by auto
    then have "\<exists>c\<in>insert (mt_defaultModel m) (set (mt_modelSet m)). changed_from c (as_match remote model)"
      using as_match_simps(5) by blast
    with False match show ?thesis by auto
  qed (use model(2) in auto)
qed

lemma closest_match_witness:
  "\<exists>r. getClosestMatch sample_surroundings False (sample_remote (sample_model (- 1) [] (sample_icao (- 1) ''B738'' [] [] []))) False
       (sample_matcher CAircraftMatcherSetup_default) = Inr r
     \<and> md_modelString r \<in> {[], ''AIRBUS'', ''BOEING''}"
proof -
  let ?remote = "sample_remote (sample_model (- 1) [] (sample_icao (- 1) ''B738'' [] [] []))"
  obtain r where r: "getClosestMatch sample_surroundings False ?remote False (sample_matcher CAircraftMatcherSetup_default) = Inr r"
      "\<exists>c\<in>insert CAircraftModel_default (set sample_models). changed_from c r"
    using closest_match [of ?remote "sample_matcher CAircraftMatcherSetup_default" False sample_surroundings False]
      sample_searchable [of "sample_model (- 1) [] (sample_icao (- 1) ''B738'' [] [] [])" "''B738''" "[]"]
    by (auto simp: hasManuallySetString_def sample_model_def CAircraftModel_default_def)
  then have "md_modelString r \<in> md_modelString ` insert CAircraftModel_default (set sample_models)"
    using changed_from_string by fastforce
  with r(1) show ?thesis by (simp add: sample_models_def sample_model_def CAircraftModel_default_def)
qed

text \<open>C18: Whatever steps the setup asks for, the stepwise reduction ends with models of the set it was given, and never with none of
  a set that has some, for data that are \<open>searchable\<close>: a combined type without blanks, combined codes of liveries that are not
  asserted against where liveries are looked at, levels of a tree where gliders are matched and the aircraft has a category.\<close>

lemma reduction_keeps_candidates:
  assumes "searchable s remote modelSet"
  shows "\<exists>models. getClosestMatchStepwiseReduceImplementation reduceLog s cm remote modelSet = Inr models
    \<and> set models \<subseteq> set modelSet \<and> (modelSet \<noteq> [] \<longrightarrow> models \<noteq> [])"
  by (rule stepwise_ok [OF assms])

lemma reduction_keeps_candidates_witness:
  "\<exists>models. getClosestMatchStepwiseReduceImplementation False CAircraftMatcherSetup_default CCategoryMatcher_default
       (sample_remote (sample_model (- 1) [] (sample_icao (- 1) ''B738'' [] [] []))) sample_models = Inr models
     \<and> set models \<subseteq> set sample_models \<and> models \<noteq> []"
  using reduction_keeps_candidates [of CAircraftMatcherSetup_default "sample_remote (sample_model (- 1) [] (sample_icao (- 1) ''B738'' [] [] []))"
      sample_models False CCategoryMatcher_default]
    sample_searchable [of "sample_model (- 1) [] (sample_icao (- 1) ''B738'' [] [] [])" "''B738''" "[]"]
  by (auto simp: sample_models_def)

text \<open>C21: The score of a model against another is between 0 and 100, rounding included, and it is 100 exactly where both the
  aircraft and the livery are the same objects of the database. The rank is not negative, as the setter keeps it, and the
  components of colours have at most 16 bits.\<close>

lemma scores_bounded:
  assumes "0 \<le> ac_rank (md_aircraftIcao m)" "colors_ok (md_livery m)" "colors_ok (md_livery other)"
  shows "0 \<le> md_calculateScore preferColors m other \<and> md_calculateScore preferColors m other \<le> 100
    \<and> (md_calculateScore preferColors m other = 100 \<longleftrightarrow>
         ac_isDbEqual (md_aircraftIcao m) (md_aircraftIcao other) \<and> lv_isDbEqual (md_livery m) (md_livery other))"
proof -
  note ac = ac_score_bounds [OF assms(1), of "md_aircraftIcao other"] and lv = lv_score_bounds [OF assms(2,3), of preferColors]
  let ?sum = "ac_calculateScore (md_aircraftIcao m) (md_aircraftIcao other) + lv_calculateScore preferColors (md_livery m) (md_livery other)"
  have half: "?sum div 2 \<le> half_score ?sum" "half_score ?sum \<le> (?sum + 1) div 2"
    using half_score_bounds [of ?sum] ac(1,2) lv(1,2) by simp_all
  show ?thesis
  proof (cases "ac_isDbEqual (md_aircraftIcao m) (md_aircraftIcao other) \<and> lv_isDbEqual (md_livery m) (md_livery other)")
    case True
    then have "?sum = 200" by (simp add: ac_calculateScore_def lv_calculateScore_def)
    with half True show ?thesis by (simp add: md_calculateScore_def)
  next
    case False
    then have "?sum \<le> 185" using ac lv by auto
    with half ac(1) lv(1) False show ?thesis by (auto simp: md_calculateScore_def)
  qed
qed

lemma scores_bounded_witness: "md_calculateScore True (sample_models ! 0) (sample_models ! 1) \<in> {0..<100}"
proof -
  have "colors_ok (md_livery (sample_models ! n))" "\<not> ac_isDbEqual (md_aircraftIcao (sample_models ! 0)) (md_aircraftIcao (sample_models ! 1))"
      "0 \<le> ac_rank (md_aircraftIcao (sample_models ! 0))" if "n < 2" for n
    using that
    by (auto simp: less_2_cases_iff sample_models_def sample_model_def sample_icao_def colors_ok_def color_ok_def ac_isDbEqual_def
        CAircraftModel_default_def CLivery_default_def CRgbColor_default_def CAircraftIcaoCode_default_def)
  with scores_bounded [of "sample_models ! 0" "sample_models ! 1" True] show ?thesis by fastforce
qed



lemma nocase_compare: "caseInsensitiveStringCompare s t \<longleftrightarrow> q_eq_nocase s t"
  by (auto simp: caseInsensitiveStringCompare_def startsWith_nocase_def q_startsWith_def q_eq_nocase_def q_toLower_def dest: map_eq_imp_length_eq)

lemma failed_removed:
  assumes "mode_flag (mt_setup m) ModelSetRemoveFailedModel" "\<not> isEmpty (ra_callsign failed)" "md_hasModelString (ra_model failed)"
  shows "mt_modelSet (addingRemoteModelFailed failed m) = filter (\<lambda>x. \<not> matchesModelString (md_modelString (ra_model failed)) x) (mt_modelSet m)"
    and "mt_setup (addingRemoteModelFailed failed m) = mt_setup m" "mt_defaultModel (addingRemoteModelFailed failed m) = mt_defaultModel m"
  using assms
  by (simp_all add: addingRemoteModelFailed_def removeFromSetIfFailed_def disableModelsForMatching_def removeModelsWithString_def
      removeModelStrings_def getModelStringList_def findByNotInModelStrings_def contains_nocase_def matchesModelString_def
      nocase_compare q_eq_nocase_def eq_commute Let_def)

text \<open>The events that bring no models into the set; the set then only loses models.\<close>

fun adds_no_models :: "matcher_event \<Rightarrow> bool" where
  "adds_no_models (SetModelSet models simulator forced) \<longleftrightarrow> False"
| "adds_no_models (DisableModels models incremental) \<longleftrightarrow> incremental"
| "adds_no_models RestoreModels \<longleftrightarrow> False"
| "adds_no_models _ \<longleftrightarrow> True"

lemma set_shrinks:
  assumes "list_all adds_no_models events"
  shows "set (mt_modelSet (fold matcher_handle events m)) \<subseteq> set (mt_modelSet m)"
  using assms
proof (induction events arbitrary: m)
  case (Cons e events)
  have "set (mt_modelSet (matcher_handle e m)) \<subseteq> set (mt_modelSet m)"
    using Cons.prems found_member(14) removeModelStrings_within
    by (cases e)
      (auto simp: setSetup_def setDefaultModel_def disableModelsForMatching_def addingRemoteModelFailed_def evaluateStatisticsEntry_def
        clearMatchingStatistics_def removeModelsWithString_def Let_def dest: removeModelStrings_within [THEN subsetD])
  moreover have "set (mt_modelSet (fold matcher_handle events (matcher_handle e m))) \<subseteq> set (mt_modelSet (matcher_handle e m))"
    by (rule Cons.IH) (use Cons.prems in simp)
  ultimately show ?case by auto
qed simp

text \<open>C20: After a model could not be added to the simulator, where the setup removes such models, and whatever happens then short of
  taking another set or restoring disabled models, no search without a script ends with a model of its string, whatever its
  case, but for the default model. The aircraft searched for is not set by hand, its data are \<open>searchable\<close>.\<close>

lemma failed_model_not_matched:
  assumes "mode_flag (mt_setup m) ModelSetRemoveFailedModel" "\<not> isEmpty (ra_callsign failed)" "md_hasModelString (ra_model failed)"
    and "list_all adds_no_models events" "later = fold matcher_handle (AddingFailed failed # events) m"
    and "\<not> isEmpty (ra_callsign remote)" "\<not> hasManuallySetString (ra_model remote)"
    and "\<not> (useMatchingScript \<and> doRunMsMatchingStageScript (mt_setup later))"
    and "searchable (mt_setup later) remote (mt_modelSet later)"
  shows "\<exists>r. getClosestMatch sur b remote useMatchingScript later = Inr r
    \<and> (matchesModelString (md_modelString (ra_model failed)) r \<longrightarrow> md_modelString r = md_modelString (mt_defaultModel later))"
proof -
  have later: "later = fold matcher_handle events (addingRemoteModelFailed failed m)" by (simp add: assms(5))
  have set: "x \<in> set (mt_modelSet later) \<Longrightarrow> \<not> matchesModelString (md_modelString (ra_model failed)) x" for x
    using set_shrinks [OF assms(4), of "addingRemoteModelFailed failed m"] by (auto simp: later failed_removed [OF assms(1-3)])
  obtain c x where c: "search_model sur b remote later = Inr c" "x \<in> insert (mt_defaultModel later) (set (mt_modelSet later))" "changed_from x c"
    using search_ok [OF assms(9), of sur b] assms(7) by auto
  have "getClosestMatch sur b remote useMatchingScript later = Inr
      (if \<not> md_hasModelString c \<and> md_hasModelString (mt_defaultModel later)
       then md_setCallsign (ra_callsign remote) (mt_defaultModel later) else as_match remote c)"
    by (simp add: without_script [OF assms(8)] c(1) finish_ok [OF assms(6)])
  moreover have "md_modelString c = md_modelString x" by (rule changed_from_string [OF c(3)])
  ultimately show ?thesis using c(2) set by (auto simp: matchesModelString_def)
qed

lemma failed_model_not_matched_witness:
  "\<exists>r. getClosestMatch sample_surroundings False (sample_remote (sample_model (- 1) [] (sample_icao (- 1) ''B738'' [] [] []))) True
       (fold matcher_handle [AddingFailed (sample_remote (sample_models ! 0)), ClearStatistics] (sample_matcher CAircraftMatcherSetup_default)) = Inr r
     \<and> md_modelString r \<noteq> ''AIRBUS''"
proof -
  let ?later = "fold matcher_handle [AddingFailed (sample_remote (sample_models ! 0)), ClearStatistics] (sample_matcher CAircraftMatcherSetup_default)"
    and ?remote = "sample_remote (sample_model (- 1) [] (sample_icao (- 1) ''B738'' [] [] []))"
  have string: "md_hasModelString (ra_model (sample_remote (sample_models ! 0)))" by (simp add: sample_models_def sample_model_def md_hasModelString_def)
  have flag: "mode_flag (mt_setup (sample_matcher CAircraftMatcherSetup_default)) ModelSetRemoveFailedModel" by simp
  note kept = failed_removed [OF flag sample_remote_simps(2) string]
  have later: "mt_setup ?later = CAircraftMatcherSetup_default" "mt_defaultModel ?later = CAircraftModel_default"
    by (simp_all add: clearMatchingStatistics_def kept)
  have "set (mt_modelSet ?later) \<subseteq> set sample_models" by (auto simp: clearMatchingStatistics_def kept)
  then have search: "searchable (mt_setup ?later) ?remote (mt_modelSet ?later)"
    using sample_searchable [of "sample_model (- 1) [] (sample_icao (- 1) ''B738'' [] [] [])" "''B738''" "[]"] later(1)
    by (auto intro: searchable_within)
  have same: "matchesModelString s x" if "md_modelString x = s" for s x
    using that by (simp add: matchesModelString_def nocase_compare q_eq_nocase_def)
  have hand: "\<not> hasManuallySetString (ra_model ?remote)" by (simp add: hasManuallySetString_def sample_model_def md_hasModelString_def CAircraftModel_default_def)
  obtain r where "getClosestMatch sample_surroundings False ?remote True ?later = Inr r"
      "matchesModelString (md_modelString (ra_model (sample_remote (sample_models ! 0)))) r \<longrightarrow> md_modelString r = []"
    using failed_model_not_matched [of "sample_matcher CAircraftMatcherSetup_default" "sample_remote (sample_models ! 0)" "[ClearStatistics]" ?later
      ?remote True sample_surroundings False] string search hand later by (auto simp: CAircraftModel_default_def)
  with same [of r "''AIRBUS''"] show ?thesis
    by (intro exI [of _ r]) (auto simp: sample_models_def sample_model_def)
qed

end
