(* ===== verification/MatchingBehaviour.thy ===== *)
theory MatchingBehaviour
  imports MatchingProperties
begin

section \<open>Looking up and scripts\<close>

text \<open>
  What the reverse lookup and the scripts do where the result is not what one would expect, steps that do nothing, what
  becomes of disabled models, and how the flags of a setup act on each other.
\<close>

subsection \<open>The most frequent of a list\<close>

lemma insert_count_keys: "fst ` set (insert_count lt k m) \<subseteq> insert k (fst ` set m)"
proof (induction m)
  case (Cons p m)
  then show ?case by (cases p) (simp, blast)
qed simp

lemma insert_count_some: "insert_count lt k m \<noteq> []"
  by (cases m) (auto split: if_splits)

lemma counts_keys: "fst ` set (counts lt ks) \<subseteq> set ks" "ks \<noteq> [] \<Longrightarrow> counts lt ks \<noteq> []"
proof -
  have "fst ` set (foldl (\<lambda>m k. insert_count lt k m) m ks) \<subseteq> set ks \<union> fst ` set m" for m
  proof (induction ks arbitrary: m)
    case (Cons k ks)
    from Cons.IH [of "insert_count lt k m"] insert_count_keys [of lt k m] show ?case by auto
  qed simp
  from this [of "[]"] show "fst ` set (counts lt ks) \<subseteq> set ks" by (simp add: counts_def)
  have "foldl (\<lambda>m k. insert_count lt k m) m ks \<noteq> [] \<or> m = [] \<and> ks = []" for m
    by (induction ks arbitrary: m) (auto, metis insert_count_some)
  then show "ks \<noteq> [] \<Longrightarrow> counts lt ks \<noteq> []" by (simp add: counts_def)
qed

lemma first_max_in: "m \<noteq> [] \<Longrightarrow> \<exists>k n. first_max m = Some (k, n) \<and> (k, n) \<in> set m"
proof -
  assume m: "m \<noteq> []"
  then have "Max (snd ` set m) \<in> snd ` set m" by (intro Max_in) auto
  then have "find (\<lambda>(_, n). n = Max (snd ` set m)) m \<noteq> None" unfolding find_None_iff by force
  then obtain k n where "find (\<lambda>(_, n). n = Max (snd ` set m)) m = Some (k, n)" by auto
  moreover then have "(k, n) \<in> set m" by (metis find_Some_iff nth_mem)
  ultimately show ?thesis using m by (cases m) (auto simp: first_max_def)
qed

lemma maxCountManufacturer_cases:
  "(\<exists>c\<in>set codes. ac_manufacturer c \<noteq> [] \<and> fst (maxCountManufacturer codes) = ac_manufacturer c)
   \<or> ((\<forall>c\<in>set codes. ac_manufacturer c = []) \<and> maxCountManufacturer codes = ([], 0))"
proof (cases "filter (\<lambda>m. m \<noteq> []) (map ac_manufacturer codes) = []")
  case True
  then show ?thesis by (auto simp: maxCountManufacturer_def counts_def first_max_def filter_empty_conv)
next
  case False
  let ?names = "filter (\<lambda>m. m \<noteq> []) (map ac_manufacturer codes)"
  obtain k n where k: "first_max (counts text_less ?names) = Some (k, n)" "(k, n) \<in> set (counts text_less ?names)"
    using first_max_in [OF counts_keys(2) [OF False, of text_less]] by blast
  then have "k \<in> set ?names" using counts_keys(1) [of text_less ?names] by force
  with k(1) show ?thesis by (auto simp: maxCountManufacturer_def)
qed

lemma startsWith_self: "startsWith_nocase s s"
  by (simp add: startsWith_nocase_def q_startsWith_def)

definition sample_services :: "CAircraftIcaoCode list \<Rightarrow> web_services" where
  "sample_services codes = \<lparr>ws_modelForModelString = (\<lambda>_. CAircraftModel_default), ws_modelForDbKey = (\<lambda>_. CAircraftModel_default),
     ws_aircraftIcaosForDesignator = (\<lambda>_. codes), ws_smartAircraftIcao = (\<lambda>_. CAircraftIcaoCode_default),
     ws_aircraftIcaoForDbKey = (\<lambda>_. CAircraftIcaoCode_default), ws_aircraftIcaosForAirline = (\<lambda>_. codes),
     ws_smartAirlineIcao = (\<lambda>a _. a), ws_airlineForDbKey = (\<lambda>_. CAirlineIcaoCode_default),
     ws_airlineForUniqueDesignator = CAirlineIcaoCode_of, ws_airlinesForDesignator = (\<lambda>_. []),
     ws_bestMatchByCallsign = (\<lambda>_. CAirlineIcaoCode_default), ws_stdLivery = (\<lambda>_. CLivery_default),
     ws_liveryForDbKey = (\<lambda>_. CLivery_default), ws_liveryForCombinedCode = (\<lambda>_. CLivery_default),
     ws_airlineNames = [], ws_telephonyDesignators = [], ws_knowsAircraftDesignator = (\<lambda>_. True),
     ws_knowsModelString = (\<lambda>_. False), ws_knowsAirlineDesignator = (\<lambda>_. True)\<rparr>"

text \<open>C38: The reverse lookup of an aircraft code reads the front of an empty list exactly when there is more than one code of the
  designator and no code has a manufacturer: the most frequent manufacturer is then the empty text, by which nothing is
  found.\<close>

lemma lookup_without_manufacturers:
  assumes "codes = ws_aircraftIcaosForDesignator w (ac_designator icao)"
  shows "reverseLookupAircraftIcao (Some w) icao = Inl e \<longleftrightarrow>
    e = EmptyContainer \<and> length codes > 1 \<and> list_all (\<lambda>c. ac_manufacturer c = []) codes"
proof -
  have best: "best_of_codes codes = Inl e \<longleftrightarrow> e = EmptyContainer \<and> list_all (\<lambda>c. ac_manufacturer c = []) codes" if "length codes > 1"
  proof -
    define reduced where "reduced = (if snd (maxCountManufacturer codes) < int (length codes)
      then icaos_findByManufacturer (fst (maxCountManufacturer codes)) codes else codes)"
    have none: "reduced = [] \<longleftrightarrow> list_all (\<lambda>c. ac_manufacturer c = []) codes"
      using maxCountManufacturer_cases [of codes] startsWith_self that
      by (auto simp: reduced_def icaos_findByManufacturer_def filter_empty_conv list_all_iff split: if_splits)
    have "best_of_codes codes = (case sortByRank reduced of [] \<Rightarrow> Inl EmptyContainer | c # _ \<Rightarrow> Inr c)"
      by (simp add: best_of_codes_def case_prod_beta reduced_def)
    moreover have "sortByRank reduced = [] \<longleftrightarrow> reduced = []"
      unfolding sortByRank_def by (metis length_sort length_0_conv)
    ultimately show ?thesis by (cases "sortByRank reduced") (auto simp: none)
  qed
  show ?thesis
  proof (cases "length codes > 1")
    case True
    then obtain c d cs where "codes = c # d # cs" by (cases codes rule: list.exhaust; cases "tl codes") auto
    then have "reverseLookupAircraftIcao (Some w) icao = best_of_codes codes"
      unfolding reverseLookupAircraftIcao_def by (simp flip: assms)
    with best [OF True] True show ?thesis by simp
  next
    case False
    then have "codes = [] \<or> (\<exists>c. codes = [c])" by (cases codes) auto
    then have "\<exists>c. reverseLookupAircraftIcao (Some w) icao = Inr c"
      unfolding reverseLookupAircraftIcao_def by (auto simp flip: assms)
    with False show ?thesis by auto
  qed
qed

lemma lookup_without_manufacturers_witness:
  "reverseLookupAircraftIcao (Some (sample_services [sample_icao 1 ''C172'' [] ''L1P'' [], sample_icao 2 ''C172'' [] ''L1P'' []]))
     (CAircraftIcaoCode_of ''C172'' []) = Inl EmptyContainer"
  using lookup_without_manufacturers [of "[sample_icao 1 ''C172'' [] ''L1P'' [], sample_icao 2 ''C172'' [] ''L1P'' []]"
      "sample_services [sample_icao 1 ''C172'' [] ''L1P'' [], sample_icao 2 ''C172'' [] ''L1P'' []]" "CAircraftIcaoCode_of ''C172'' []" EmptyContainer]
  by (simp add: sample_services_def sample_icao_def)

subsection \<open>Codes of liveries\<close>

lemma trimmed_keeps: "c \<in> set s \<Longrightarrow> \<not> is_space c \<Longrightarrow> c \<in> set (q_trimmed s)"
proof -
  have keep: "c \<in> set (dropWhile is_space t)" if "c \<in> set t" "\<not> is_space c" for t
    using that by (induction t) auto
  show "c \<in> set s \<Longrightarrow> \<not> is_space c \<Longrightarrow> c \<in> set (q_trimmed s)" by (simp add: q_trimmed_def keep)
qed

lemma livery_code_marker:
  assumes "lv_isValidCombinedCode code" shows "\<exists>c\<in>set (code_of code). \<not> is_upper c \<and> \<not> is_digit c"
proof -
  have "\<exists>c\<in>{CHR ''.'', CHR ''_''}. c \<in> set code"
  proof (cases "q_startsWith code colorLiveryMarker")
    case True
    then show ?thesis by (cases code) (auto simp: q_startsWith_def colorLiveryMarker_def)
  next
    case False
    with assms have "length (filter (\<lambda>c. c = CHR ''.'') code) = 1" by (simp add: lv_isValidCombinedCode_def)
    then have "filter (\<lambda>c. c = CHR ''.'') code \<noteq> []" by (metis length_0_conv zero_neq_one)
    then show ?thesis by (auto simp: filter_empty_conv)
  qed
  then obtain c where c: "c \<in> {CHR ''.'', CHR ''_''}" "c \<in> set code" by blast
  then have "to_upper c = c" "\<not> is_space c" "\<not> is_upper c" "\<not> is_digit c"
    by (auto simp: to_upper_def is_space_def is_upper_def is_digit_def)
  with trimmed_keeps [OF c(2)] show ?thesis by (intro bexI [of _ c]) (force simp: code_of_def q_toUpper_def)+
qed

text \<open>C39: The step that should find the models of the same livery and aircraft never reduces anything: the code of the livery is
  given where the designator is expected, and a valid code of a livery has a character that no designator has. This holds
  even of models with the very livery and aircraft. Of a code that \<open>hasCombinedCode\<close> asserts against it ends there.\<close>

lemma livery_step_never_reduces:
  assumes "lv_isValidCombinedCode (lv_combinedCode (ra_livery remote))"
    and "list_all (\<lambda>x. ac_designator (md_aircraftIcao x) = [] \<or> isValidDesignator (ac_designator (md_aircraftIcao x))) models"
  shows "ifPossibleReduceByLiveryAndAircraftIcaoCode remote models
    = (if q_startsWith (lv_combinedCode (ra_livery remote)) (''.'' @ standardLiveryMarker) then Inl AssertFailed else Inr (models, False))"
proof -
  obtain c where c: "c \<in> set (code_of (lv_combinedCode (ra_livery remote)))" "\<not> is_upper c" "\<not> is_digit c"
    using livery_code_marker [OF assms(1)] by blast
  have "ac_designator (md_aircraftIcao x) \<noteq> code_of (lv_combinedCode (ra_livery remote))" if "x \<in> set models" for x
  proof
    assume eq: "ac_designator (md_aircraftIcao x) = code_of (lv_combinedCode (ra_livery remote))"
    with c(1) have "isValidDesignator (ac_designator (md_aircraftIcao x))" using assms(2) that by (auto simp: list_all_iff)
    with c eq show False by (auto simp: isValidDesignator_def containsChar_def list_ex_iff)
  qed
  then have "\<not> matchesDesignator (lv_combinedCode (ra_livery remote)) (md_aircraftIcao x)" if "x \<in> set models" for x
    using that by (simp add: matchesDesignator_def matches_code_def Let_def)
  then have "findByAircraftDesignatorAndLiveryCombinedCode (lv_combinedCode (ra_livery remote)) (ac_designator (ra_icao remote)) models = Inr []"
    by (auto simp: findByAircraftDesignatorAndLiveryCombinedCode_def intro: findBy_none)
  then show ?thesis by (simp add: ifPossibleReduceByLiveryAndAircraftIcaoCode_def found_or_all_def hasCombinedCode_def)
qed

lemma livery_step_never_reduces_witness:
  "ifPossibleReduceByLiveryAndAircraftIcaoCode
     (sample_remote ((sample_model (- 1) [] (sample_icao (- 1) ''A320'' [] [] []))\<lparr>md_livery := CLivery_of ''DLH._STD'' (CAirlineIcaoCode_of ''DLH'') []\<rparr>))
     (map (\<lambda>m. m\<lparr>md_livery := CLivery_of ''DLH._STD'' (CAirlineIcaoCode_of ''DLH'') []\<rparr>) sample_models)
   = Inr (map (\<lambda>m. m\<lparr>md_livery := CLivery_of ''DLH._STD'' (CAirlineIcaoCode_of ''DLH'') []\<rparr>) sample_models, False)"
proof -
  let ?livery = "CLivery_of ''DLH._STD'' (CAirlineIcaoCode_of ''DLH'') []"
  have code: "lv_combinedCode (CLivery_of ''DLH._STD'' a []) = ''DLH._STD''" for a by code_simp
  from livery_step_never_reduces [of "sample_remote ((sample_model (- 1) [] (sample_icao (- 1) ''A320'' [] [] []))\<lparr>md_livery := ?livery\<rparr>)"
      "map (\<lambda>m. m\<lparr>md_livery := ?livery\<rparr>) sample_models"]
  show ?thesis
    by (simp add: ra_livery_def code lv_isValidCombinedCode_def q_startsWith_def colorLiveryMarker_def standardLiveryMarker_def sample_models_def
        sample_model_def sample_icao_def isValidDesignator_def containsChar_def is_upper_def is_digit_def)
qed

subsection \<open>Scripts\<close>

lemma script_change_drops_aircraft:
  assumes "io_modified o'" "script_model w inModel modelSet o' = None"
    and "\<not> hasChangedAircraftIcaoId (md_aircraftIcao matchedModel) o'"
  shows "rv_modified (script_result w inModel matchedModel modelSet (ScriptObject o'))
    \<and> md_aircraftIcao (rv_model (script_result w inModel matchedModel modelSet (ScriptObject o'))) = CAircraftIcaoCode_of (io_aircraftIcao o') []
    \<and> \<not> ac_hasValidDbKey (md_aircraftIcao (rv_model (script_result w inModel matchedModel modelSet (ScriptObject o'))))"
  using assms
  by (auto simp: script_result_def script_icao_def script_livery_def hasChangedAircraftIcao_def setAircraftIcaoCode_def md_setLivery_def
      ac_hasValidDbKey_def CAircraftIcaoCode_of_def CAircraftIcaoCode_default_def Let_def)

lemma script_without_rerun_ignored:
  assumes "\<not> rv_rerun (matchingStageScript (sur_script sur) (sur_ws sur) (mt_setup m) (script_set_of remote m) (ra_model remote) (as_match remote c))"
    and "search_model sur b remote m = Inr c"
  shows "getClosestMatch sur b remote True m = getClosestMatch sur b remote False m"
  using assms by (simp add: getClosestMatch_def run_stage_script_def runScriptModifiedAndRerun_def Let_def)

subsection \<open>Steps that do nothing\<close>

text \<open>The comparison with a least similarity never succeeds, so the first aircraft of the airline is taken.\<close>

lemma airline_aircraft_first:
  assumes "ws_aircraftIcaosForAirline w airline = c # cs" "al_hasValidDbKey airline"
  shows "searchAmongAirlineAircraft (Some w) candidate airline = c"
proof -
  have "best_fuzzy d 50 n found codes = found" for d n found codes
    by (induction codes arbitrary: n) (auto simp: matches_code_def Let_def)
  then have "findBestFuzzyMatchOrDefault candidate 50 (c # cs) = CAircraftIcaoCode_default"
    by (simp add: findBestFuzzyMatchOrDefault_def del: best_fuzzy.simps)
  with assms show ?thesis
    by (simp add: searchAmongAirlineAircraft_def isValidDesignator_def CAircraftIcaoCode_default_def Let_def)
qed

text \<open>The counts are kept under the text of the mode, so no string is ever found again.\<close>

lemma duplicates_never_found:
  assumes "list_all (\<lambda>m. md_modelString m \<noteq> ''Include'' \<and> md_modelString m \<noteq> ''Exclude'') models"
  shows "findDuplicateModelStrings models = []"
proof -
  define ok where "ok mp \<longleftrightarrow> list_all (\<lambda>(k, n). k \<in> {''Include'', ''Exclude''} \<and> n = (1 :: int)) mp" for mp :: "(string \<times> int) list"
  have upsert: "ok (map_upsert k (\<lambda>n. 1) mp)" if "ok mp" "k \<in> {''Include'', ''Exclude''}" for k mp
    using that by (induction mp) (auto simp: ok_def split: if_splits)
  have "ok (foldl count_model mp models)" if "ok mp" for mp
    using assms that
  proof (induction models arbitrary: mp)
    case (Cons m models)
    then have "md_modelString m \<notin> fst ` set mp" by (auto simp: ok_def list_all_iff)
    then have "ok (count_model mp m)" using upsert [OF Cons.prems(2)] by (auto simp: count_model_def modelModeToString_def Let_def split: ModelMode.splits)
    with Cons show ?case by simp
  qed simp
  from this [of "[]"] have "ok (countPerModelString models)" by (simp add: ok_def countPerModelString_def)
  then show ?thesis by (fastforce simp: findDuplicateModelStrings_def ok_def list_all_iff)
qed

lemma default_ignores_plain_liveries:
  assumes "findByCombinedTypeWithColorLivery (ac_combinedType (ra_icao remote)) models = []"
  shows "getCombinedTypeDefaultModel models remote d = d"
  using assms by (simp add: getCombinedTypeDefaultModel_def findByCombinedType_def Let_def)

lemma other_simulators_never_removed: "snd (removeIfNotMatchingSimulator s models) = models"
proof -
  have "\<not> 0 < removed_count (filter (matchesSimulator s) models) models" by (simp add: removed_count_def not_less)
  then show ?thesis by (simp add: removeIfNotMatchingSimulator_def Let_def)
qed

lemma msfs_set_ignored: "setModelSet models sim_MSFS forced m = (0, m)"
  by (simp add: setModelSet_def isSingleSimulator_def numberSimulators_def int_testFlag_def sim_MSFS_def sim_FS9_def sim_FSX_def
      sim_XPLANE_def sim_P3D_def sim_FG_def)

lemma wtc_from_designator:
  assumes "ac_wtc c = []" "ac_wtc other \<noteq> []"
  shows "ac_wtc (ac_updateMissingParts other c) = code_of (ac_designator other)"
  using assms by (simp add: ac_updateMissingParts_def Let_def)

subsection \<open>Flags\<close>

lemma int_testFlag_pow: "int_testFlag x (2 ^ k) = bit x k"
  by (auto simp: int_testFlag_def bit_eq_iff [of "x AND 2 ^ k"] bit_simps)

lemma flag_bits: "x AND (2 ^ k OR 2 ^ l) = 2 ^ k OR 2 ^ l \<longleftrightarrow> bit x k \<and> bit x l" for x :: int
proof
  assume h: "x AND (2 ^ k OR 2 ^ l) = 2 ^ k OR 2 ^ l"
  have "bit (x AND (2 ^ k OR 2 ^ l)) n = bit (2 ^ k OR 2 ^ l :: int) n" for n by (simp add: h)
  from this [of k] this [of l] show "bit x k \<and> bit x l" by (simp add: bit_simps)
next
  assume "bit x k \<and> bit x l"
  then show "x AND (2 ^ k OR 2 ^ l) = 2 ^ k OR 2 ^ l" by (intro bit_eqI) (auto simp: bit_simps)
qed

lemma int_testFlag_two: "int_testFlag x (2 ^ k OR 2 ^ l) \<longleftrightarrow> bit x k \<and> bit x l"
  by (auto simp: int_testFlag_def flag_bits or_eq_0_iff)

lemma bit_setFlag: "bit (int_setFlag f on x) n \<longleftrightarrow> (if on then bit x n \<or> bit f n else bit x n \<and> \<not> bit f n)"
  by (simp add: int_setFlag_def bit_simps)

lemma group_flags:
  "let s' = setAirlineGroupBehaviour ifNoAirline sameAsAirline s in
    mode_flag s' ByIcaoData = mode_flag s ByIcaoData
    \<and> mode_flag s' ByAirlineGroupIfNoAirline = (ifNoAirline \<and> mode_flag s ByIcaoData)
    \<and> mode_flag s' ByAirlineGroupSameAsAirline = (sameAsAirline \<and> mode_flag s ByIcaoData)"
  unfolding Let_def setAirlineGroupBehaviour_def mode_flag_def set_mode_flag_def
    ByIcaoData_def ByAirlineGroupIfNoAirline_def ByAirlineGroupSameAsAirline_def int_testFlag_two int_testFlag_pow
  by (auto simp: bit_setFlag bit_simps)

text \<open>Without the ICAO data the family is only looked at while the reduction is logged.\<close>

definition family_setup :: CAircraftMatcherSetup where
  "family_setup = CAircraftMatcherSetup_with MatchingStepwiseReduce ByFamily PickFirst"

lemma family_flags:
  "ms_algorithm family_setup = MatchingStepwiseReduce" "ms_strategy family_setup = PickFirst"
  "\<not> doRunMsMatchingStageScript family_setup" "mode_flag family_setup f = int_testFlag ByFamily f"
  by (simp_all add: family_setup_def CAircraftMatcherSetup_with_def setMatchingAlgorithm_def setup_members_def doRunMsMatchingStageScript_def mode_flag_def)

lemma family_only_while_logging:
  "\<exists>remote. map_sum id md_modelString (getClosestMatch sur False remote False (sample_matcher family_setup)) = Inr ''AIRBUS''
     \<and> map_sum id md_modelString (getClosestMatch sur True remote False (sample_matcher family_setup)) = Inr ''BOEING''"
proof -
  let ?remote = "sample_remote (sample_model (- 1) [] (sample_icao (- 1) ''B738'' ''B737'' [] []))"
  have usable: "usable_models (sample_matcher family_setup) = sample_models"
    by (simp add: usable_models_def family_flags int_testFlag_def mode_flag_defs removeAllWithoutModelString_def sample_models_def
        sample_model_def removed_count_def md_hasModelString_def CAircraftModel_default_def Let_def)
  have no_prephase: "match_in_prephase ?remote (sample_matcher family_setup) = None"
    by (simp add: match_in_prephase_def hasManuallySetString_def md_hasModelString_def sample_model_def sample_models_def CAircraftModel_default_def)
  have flags: "mode_flag family_setup ByFamily" "\<not> mode_flag family_setup ByLivery" "\<not> mode_flag family_setup ByIcaoData"
      "\<not> mode_flag family_setup ByVtol" "\<not> mode_flag family_setup (if military then ByMilitary else ByCivilian)"
      "\<not> mode_flag family_setup ByCombinedType" "\<not> mode_flag family_setup ByManufacturer" "\<not> useCategoryMatching family_setup"
    for military
    by (simp_all add: useCategoryMatching_def family_flags int_testFlag_def mode_flag_defs)
  have family: "findByFamily ''B737'' sample_models = tl sample_models"
    by (simp add: findByFamily_def sample_models_def sample_model_def sample_icao_def q_trimmed_def q_toUpper_def is_space_def to_upper_def Let_def)
  have others: "findByCombinedAndManufacturer [] [] sample_models = Inr []"
    by (simp add: findByCombinedAndManufacturer_def findByCombinedType_def)
  have codes: "ac_family (ra_icao ?remote) = ''B737''" "ac_combinedType (ra_icao ?remote) = []" "ac_manufacturer (ra_icao ?remote) = []"
    by (simp_all add: ra_icao_def sample_model_def sample_icao_def)
  have "sample_models \<noteq> []" "tl sample_models \<noteq> []" by (simp_all add: sample_models_def)
  then have of_family: "reduce_by_family ?remote ''B737'' True sample_models = Inr (tl sample_models, True)"
    by (simp add: reduce_by_family_def family others codes removeModelStrings_def findByNotInModelStrings_def Let_def)
  have steps: "getClosestMatchStepwiseReduceImplementation b family_setup cm ?remote sample_models
     = Inr (if b then tl sample_models else sample_models)" for b cm
    using flags of_family codes
    by (cases b) (simp_all add: getClosestMatchStepwiseReduceImplementation_def reduce_steps_def reduce_by_livery_def reduce_by_icao_or_family_def
        reduce_after_icao_def reduce_by_vtol_def reduce_by_military_def reduce_by_combined_type_def
        ifPossibleReduceByFamily_def UsePseudoFamily_def Let_def split del: if_split)
  have searched: "search_model sur b ?remote (sample_matcher family_setup) = Inr (hd (if b then tl sample_models else sample_models))" for b
    using no_prephase usable steps \<open>sample_models \<noteq> []\<close> \<open>tl sample_models \<noteq> []\<close>
    by (cases b) (simp_all add: search_model_def match_candidates_def family_flags pick_model_def frontOrDefault_def list.case_eq_if)
  have named: "md_hasModelString (hd (if b then tl sample_models else sample_models))" for b
    by (simp add: sample_models_def sample_model_def md_hasModelString_def)
  have "getClosestMatch sur b ?remote False (sample_matcher family_setup)
      = Inr (as_match ?remote (hd (if b then tl sample_models else sample_models)))" for b
    using named [of b] by (simp add: without_script searched finish_ok split del: if_split)
  then show ?thesis
    by (intro exI [of _ ?remote]) (simp add: sample_models_def sample_model_def)
qed

subsection \<open>Disabled models\<close>

text \<open>C40: Models that were disabled stay in the list of disabled models, also when they are restored and when another set is taken;
  only a disabling that is not incremental replaces the list. When the disabled models are restored after that, those of an
  old set are put into the one in use.\<close>

lemma disabled_models_return:
  assumes "x \<in> set (mt_disabledModels m)" "list_all (\<lambda>e. \<forall>models. e \<noteq> DisableModels models False) events"
    and "later = fold matcher_handle events m"
  shows "x \<in> set (mt_disabledModels later) \<and> x \<in> set (mt_modelSet (matcher_handle RestoreModels later))"
proof -
  have "x \<in> set (mt_disabledModels (matcher_handle e m'))"
    if "x \<in> set (mt_disabledModels m')" "\<forall>models. e \<noteq> DisableModels models False" for e m'
    using that
    by (cases e) (auto simp: setSetup_def setDefaultModel_def setModelSet_def restoreDisabledModels_def disableModelsForMatching_def
      addingRemoteModelFailed_def evaluateStatisticsEntry_def clearMatchingStatistics_def Let_def)
  then have "x \<in> set (mt_disabledModels (fold matcher_handle events m))"
    using assms(1,2) by (induction events arbitrary: m) auto
  then show ?thesis by (auto simp: assms(3) restoreDisabledModels_def replaceOrAddModelsWithString_def Let_def)
qed

lemma disabled_models_return_witness:
  "hd sample_models \<in> set (mt_modelSet (restoreDisabledModels (snd (setModelSet [] sim_P3D True
     (restoreDisabledModels (disableModelsForMatching sample_models True (sample_matcher CAircraftMatcherSetup_default)))))))"
  using disabled_models_return [of "hd sample_models" "disableModelsForMatching sample_models True (sample_matcher CAircraftMatcherSetup_default)"
    "[RestoreModels, SetModelSet [] sim_P3D True]"]
  by (simp add: disableModelsForMatching_def sample_models_def Let_def)

end
