(* ===== verification/Spec2Isabelle.thy ===== *)
theory Spec2Isabelle
  imports WireProperties ComponentProperties TextProperties ClientErrors ClientBehaviour ClientMessages
    TimedProperties AircraftProperties AirspaceProperties VoiceProperties VoiceBehaviour
    MatchingProperties MatchingBehaviour
begin

text \<open>
  The network core of the swift pilot client: what it sends to and reads from an FSD server, what
  it makes of the signals of that connection, what it keeps of the aircraft and stations around, the choice of
  models for these aircraft, and the client of the voice server.

  The program. A pilot client connects a flight simulator to an online network. \<open>CFSDClient\<close>
  (\<open>src/src/blackcore/fsd/fsdclient.h\<close> and \<open>.cpp\<close>) keeps the TCP connection to the server, logs in,
  sends the own aircraft's positions, queries and text messages, and turns the lines that come in into
  signals for the rest of the program. Each kind of line has a message class in
  \<open>src/src/blackcore/fsd/\<close> with a writer (\<open>toTokens\<close>) and a reader (\<open>fromTokens\<close>). The client uses
  value classes of \<open>src/src/blackmisc/\<close>: callsigns, transponders, SELCAL codes, radio frequencies,
  text messages, lists of timed objects, aircraft parts and the increments of their JSON objects.
  \<open>CRemoteAircraftProvider\<close> (\<open>src/src/blackmisc/simulation/\<close>) keeps, for each aircraft in range, the last
  positions and parts that the client's signals brought. \<open>CAirspaceMonitor\<close>
  (\<open>src/src/blackcore/airspacemonitor.cpp\<close>) stands above both: it receives every signal of the client, asks
  back for what it needs, decides who is in range, when enough is known of an aircraft to choose a model for it,
  and keeps the stations and the other clients; \<open>CAirspaceAnalyzer\<close> (\<open>airspaceanalyzer.cpp\<close>) is its watchdog
  and reports who has been silent for too long. \<open>CAircraftMatcher\<close> (\<open>src/src/blackcore/aircraftmatcher.cpp\<close>) turns
  what the network says of an aircraft into objects of the database and chooses the most similar of the user's models
  for it, with the classes of \<open>src/src/blackmisc/\<close> for codes, liveries, categories and models. Beside them \<open>CAfvClient\<close> (\<open>src/src/blackcore/afv/\<close>) talks to
  the voice server: it logs in at a web service, exchanges encrypted datagrams, plays the voices it receives
  through one receiver per radio, and sends the microphone while the button is pressed.

  Theories and code.
  Prelude: faults and chaining, lists and maps. QtText: the string operations of Qt the program
  uses (trimming, splitting, joining, case, numbers). Doubles: IEEE double precision as rationals
  with infinities and NaN, rounding to nearest even, the conversions between doubles and text.
  FsdEnums: \<open>enums.h\<close> and \<open>serializer.cpp\<close>. FsdMessage: \<open>messagebase\<close>, the frame of a line, and the
  locales \<open>fsd_codec\<close> and \<open>fsd_token_codec\<close>, the contract between the client and a message class; every
  class whose tokens can be read back interprets it. FsdTextMessages, FsdQueryMessages,
  FsdDataMessages: one record per message class with its constructor, writer, reader and \<open>wf\<close>, the
  messages that survive the wire. FsdPbh: \<open>pbh.h\<close>, pitch, bank and heading in one 32-bit word.
  Callsign, Transponder, ComFrequency, Selcal, TextMessages: the value classes, each operation that
  computes. TokenBucket: \<open>tokenbucket.cpp\<close>, its locale of laws interpreted on the operations.
  TimedLists: \<open>timestampbased\<close> and \<open>timestampobjectlist.h\<close>, objects with a time and an offset and the
  lists of them; TimedListFacts: what their order checks mean, and the locale \<open>bounded_list\<close>, interpreted
  on the inserting operations. Json: JSON values with sorted members and \<open>json.cpp\<close>'s increments, both
  directions. AircraftParts: lights, engines, parts and their JSON objects. RemoteAircraft:
  \<open>CRemoteAircraftProvider\<close> with what it uses of situations and aircraft; RemoteAircraftFacts: its
  invariant \<open>provider_ok\<close>, the relation \<open>provider_reachable\<close> over all its operations, and storing in time.
  Clients: \<open>CClient\<close> and \<open>CClientProvider\<close>. AtcStations: \<open>CAtcStation\<close> and the lists of them.
  AirspaceAnalyzer: the watchdog. AirspaceMonitor: the record \<open>airspace_monitor\<close> with the members of the
  class, its timers, readiness for matching, stations, queries; AirspaceMonitorReceive: the answers and
  packets it receives; AirspaceMonitorUpdates: positions, entering and leaving; AirspaceMonitorMachine: the
  signals its constructor connects (\<open>on_signal\<close>), the single shots (\<open>fire\<close>), every input it
  may get (\<open>monitor_input\<close>) and the reachable states; AirspaceMonitorFacts: its invariant \<open>monitor_ok\<close>;
  AirspaceMonitorBehaviour: the lemmas its properties share.
  VoiceCrypto: \<open>afv/crypto/\<close>, the channel with its keys and numbers and the datagrams. VoiceDelays:
  \<open>CallsignDelayCache\<close> and \<open>CBufferedWaveProvider\<close>. VoiceReceivers: the providers of samples of a callsign,
  of a receiver and of the sound card (\<open>afv/audio/\<close>), each with its own \<open>readSamples\<close> and \<open>addOpusSamples\<close>;
  VoiceReceiverFacts: their invariants and \<open>voices_reachable\<close>. VoiceConnection: \<open>afv/connection/\<close>, the web
  service, the data of the connection and its datagrams, with \<open>connection_reachable\<close>. VoiceClient:
  \<open>CAfvClient\<close>; VoiceClientMachine: every input it may get (\<open>afv_input\<close>, \<open>afv_handle\<close>) and \<open>afv_reachable\<close>;
  VoiceClientFacts: that each operation keeps its invariant \<open>afv_ok\<close>.
  AircraftCategories, IcaoCodes, Liveries, AircraftModels, ModelLists: the objects the matching compares, what each
  answers, scores and fills in, and the searches in lists of models. MatcherSetup: the flags and the setup of the matching.
  CategoryMatching: \<open>categorymatcher.cpp\<close>. ModelReduction: the static steps of the matcher that take models away, score
  them or give a default. ReverseLookup: \<open>reverseLookup...\<close> and the searches for an airline. MatchingScripts:
  \<open>matchingscript.cpp\<close> and the functions that run a script. AircraftMatcher: the record \<open>CAircraftMatcher\<close> with the
  members of the class, its model set and statistics, and \<open>getClosestMatch\<close>. ReductionFacts: the locales \<open>reducer\<close> and
  \<open>honest_reducer\<close>, the contract of a step, interpreted on every step of the code; MatcherFacts, ScoreFacts: what the
  properties of the matching share.
  FsdOffsets, FsdStatistics: the parts of \<open>CFSDClient\<close> that decide how far in the future a position
  is placed and that count calls. FsdClientTypes: the record \<open>fsd_client\<close> with the members of
  \<open>CFSDClient\<close>, the signals it emits, and \<open>environment\<close>, what a call finds outside the client.
  FsdClientSend, FsdClientQueries: the queue, the socket and the \<open>send...\<close> methods. FsdClientState:
  setters, timers, connecting, login, disconnecting, the text message digest, ATIS. FsdClientReceive:
  the table of identifiers, one function per \<open>handle...\<close> method, \<open>parseMessage\<close>, reading the socket.
  FsdClientMachine: the constructor, the events that may come (timers, socket, web service, user
  calls), the step relation \<open>client_step\<close> and the reachable states. FsdClientQueue: the locale
  \<open>fifo_queue\<close> and its interpretation on the client. FsdClientInvariant: the invariant \<open>client_ok\<close> and
  that every step keeps it. FsdClientFacts: what the properties of the client share.
  The properties stand in WireProperties, ComponentProperties, TextProperties, ClientProperties
  (invariant, queue, reading, dispatch), ClientErrors (faults, disconnecting, pending logins),
  ClientBehaviour (raw messages, login), ClientMessages (from sender to receiver), TimedProperties (lists
  and increments), AircraftProperties (the provider, and parts from sender to provider),
  AirspaceProperties (the monitor with its client, provider and watchdog), VoiceProperties (packets and
  voices), VoiceBehaviour (the voice connection and client), MatchingProperties (the closest match) and
  MatchingBehaviour (lookups, scripts, steps without effect).

  How a state and its operations are represented. An object is a record whose fields are its
  members; a method is a function from the object, and the environment where it looks outside, to the
  object after the call. A signal is appended to \<open>emitted\<close>, a text written to the socket to
  \<open>written\<close>; only these two fields have no member of their own in the code. An assertion that fails and a list
  read out of range are a value \<open>Inl\<close> of the type \<open>fault\<close>; what can do neither returns no sum. An
  \<open>int\<close> is an integer brought back into 32 bits by \<open>c_int\<close> where the code computes, a flag set
  and a packed attitude a \<open>32 word\<close>, a physical quantity its number in the unit the code asks for,
  frequencies whole kHz. A \<open>QString\<close> is a list of characters with codes below 256 (the case mappings
  that leave this range are not modelled), null and empty are the same. A hash keyed by callsigns is a
  map keyed by the callsign's text. \<open>std::sort\<close>, whose order of equal elements is not fixed, is a
  stable sort. A closed socket gives no lines.

  What is proved of it. Messages come out of the wire as they went in, or within stated bounds, and
  the faults of short messages are pinned down. Every reachable client satisfies \<open>client_ok\<close>, and an event other than a
  line faults exactly when it fails an assertion of a setter or of connecting. The send
  queue refines a first-in first-out queue and the send timer empties it. Reading in rounds of limited
  length equals reading everything at once; the fuel of \<open>read_rounds\<close> is the number of lines plus
  one, and it is enough because each round that schedules another consumed a line. Identifiers are prefix-free,
  so the order of the hash that holds them does not matter. Applying an increment gives the current
  JSON object exactly when that kept every member of the previous one, so parts get from one client into the
  other's provider unless an engine disappears. Whatever the order of its operations, the provider
  keeps aircraft under their callsigns and at most fifty situations and parts each, latest first, and a situation that comes
  in is stored without meeting one of the assertions on the way. Which lines fault, which messages
  are emitted, what a disconnect leaves, and how visual positions, ATIS lines and text messages are put
  together are properties of their own. Every reachable monitor satisfies \<open>monitor_ok\<close>, and the client
  below it is in a reachable state of its own; which signals fault, what the first position of a pilot
  sets going, that waiting for data ends at the fourth check (two seconds apart, against a limit of six
  seconds), that the query queues run dry, and what a disconnect reports and leaves are stated for every state or every
  reachable one. A reachable voice client handles every input without a fault but for datagrams and its own voice
  looped back; packets come out of the channel as they went in, the check of their numbers accepts none twice but is
  never asked, a voice ends when its last sample was read, a transmission is closed by one last packet, and a server that
  falls silent is tried again. Where no script runs and the data are as the classes keep them (\<open>searchable\<close>:
  the steps that look at combined codes, combined types and levels assert or read out of range for others, which is a
  value \<open>Inl\<close> of these steps) the search for a model ends with a model of the set or the default one and the reduction
  does not lose all candidates, scores lie between 0 and 100, and a model that could not be added is not taken
  again while events put none into the set; which steps never have an effect, and what a lookup, a script or a restored set does unexpectedly, are properties
  or lemmas of their own.

  Parameters. The clock, the own aircraft, the aircraft in range, the geographically closest station,
  the authentication library (\<open>vatsim_auth\<close>, not part of the sources), Qt's printer and parser
  of JSON text, the machine's identification and address and the name of the simulator
  are fields of \<open>environment\<close>, new at each event. The provider's \<open>provider_environment\<close> holds what
  is computed from the geometry of situations (elevations, the guess whether an aircraft is on the
  ground, the change of a list); the invariant needs of it only that times are left alone (\<open>geometry_ok\<close>).
  \<open>monitor_environment\<close> joins both and adds what the monitor asks of the rest of the program: the
  data file of the network, the reverse lookup of models, distances, elevations around a situation, the
  order in which a hash gives its keys, what a user object keeps of a name. Its laws are \<open>surroundings_ok\<close>: those above, a
  clock within the years an \<open>int64\<close> of milliseconds holds (\<open>clock_sane\<close>), elevations that leave times alone, and that a hash
  gives each of its keys once. The client runs in
  its own thread and its signals are queued; in the model an event of the client and what the monitor does on
  the signals it emitted are one step (\<open>deliver_client_event\<close>), so no other call comes between them.

  The voice theories have \<open>voice_library\<close> (msgpack and libsodium, with the laws \<open>library_ok\<close>: what was packed is
  unpacked, what was encrypted is decrypted and sixteen bytes longer), \<open>voice_environment\<close> (the clock, the Opus
  decoder, bounded by \<open>decoder_ok\<close> to what a buffer holds, the crackle's formula, settings), \<open>connection_environment\<close> (the
  answers of the web service, base 64) and \<open>afv_environment\<close>, which joins them with the own aircraft and the contexts.

  The matching theories have \<open>web_services\<close> (what the database answers, any function), \<open>script_surroundings\<close> (the text of a
  file and the engine that runs a script) and \<open>matcher_surroundings\<close>, which joins them with the choice at random. Whether the
  reduction is logged is an argument, since one step depends on it.

  Not modelled. Log output, the statistics file, the text codec of the socket, moving a call to the
  client's own thread, time stamps of text messages, D-Bus marshalling, property indexes and icons.
  Of the monitor: the users of stations (a real name is asked for, and kept for pilots and clients only), the texts of the reverse lookup (what it finds is an
  argument of the monitor's model, which is not joined with the matcher's), the event loop in which \<open>loadFlightPlanFromNetwork\<close> waits, voice
  capabilities, distances and bearings of stations and aircraft, the watchdog's snapshots. Of the voice client: volumes
  and levels, devices, what the filters and the mixer do to samples, the codecs, its mutexes and threads (each method is one
  step), and the socket's errors. Of the matching: texts for the user, JSON, validation, properties by index, the file
  of disabled models, and the closest colour livery a script may ask for. Of the program
  around: the contexts, the provider's ground elevations, the web services' searches in the database, the simulator
  drivers, interpolation, web and database readers, weather and the user interface; the manifest lists
  them.
\<close>

end
